(* ===== verification/Prelude.thy ===== *)
theory Prelude
  imports Main "HOL-Library.Word" "HOL-Library.DAList"
begin

unbundle bit_operations_syntax

text \<open>
  Shared vocabulary of the development: the decimal text of integers (\<open>std::to_string\<close>),
  the integer prefix parse of \<open>std::stoi\<close>, the prefix test \<open>s.rfind(p, 0) == 0\<close>, the
  \<open>std::unordered_map\<close> of the services as a finite association list with distinct keys
  (\<open>('k, 'v) alist\<close> of HOL-Library.DAList), its erase loop, and the injectivity of the
  separator-joined keys the services build.  The collections \<open>lookup_simps\<close> and
  \<open>inv_defs\<close> carry the component proofs.
\<close>

named_theorems lookup_simps
named_theorems inv_defs
named_theorems step_defs

subsection \<open>Decimal text of integers\<close>

definition digit :: "nat \<Rightarrow> char" where
  "digit d = char_of (48 + d)"

fun nat_text :: "nat \<Rightarrow> string" where
  "nat_text n = (if n < 10 then [digit n] else nat_text (n div 10) @ [digit (n mod 10)])"

declare nat_text.simps [simp del]

definition to_string :: "int \<Rightarrow> string" where
  "to_string i = (if i < 0 then CHR ''-'' # nat_text (nat (- i)) else nat_text (nat i))"

definition digit_val :: "char \<Rightarrow> nat" where
  "digit_val c = of_char c - 48"

definition is_digit :: "char \<Rightarrow> bool" where
  "is_digit c \<longleftrightarrow> 48 \<le> (of_char c :: nat) \<and> (of_char c :: nat) \<le> 57"

definition digits_val :: "string \<Rightarrow> nat" where
  "digits_val s = foldl (\<lambda>a c. 10 * a + digit_val c) 0 s"

lemma of_char_digit [simp]: "d < 10 \<Longrightarrow> of_char (digit d) = (48 + d :: nat)"
  by (simp add: digit_def)

lemma digit_val_digit [simp]: "d < 10 \<Longrightarrow> digit_val (digit d) = d"
  by (simp add: digit_val_def)

lemma is_digit_digit [simp]: "d < 10 \<Longrightarrow> is_digit (digit d)"
  by (simp add: is_digit_def)

lemma nat_text_not_Nil [simp]: "nat_text n \<noteq> []"
  by (subst nat_text.simps) simp

lemma nat_text_digits: "\<forall>c \<in> set (nat_text n). is_digit c"
proof (induction n rule: nat_text.induct)
  case (1 n)
  then show ?case by (subst nat_text.simps) auto
qed

lemma digits_val_snoc [simp]: "digits_val (s @ [c]) = 10 * digits_val s + digit_val c"
  by (simp add: digits_val_def)

lemma digits_val_nat_text [simp]: "digits_val (nat_text n) = n"
proof (induction n rule: nat_text.induct)
  case (1 n)
  then show ?case
    by (subst nat_text.simps) (auto simp: digits_val_def)
qed

lemma nat_text_inject [simp]: "nat_text m = nat_text n \<longleftrightarrow> m = n"
  by (metis digits_val_nat_text)

lemma is_digit_not_minus: "\<not> is_digit (CHR ''-'')"
  by (simp add: is_digit_def)

lemma minus_notin_nat_text: "CHR ''-'' \<notin> set (nat_text n)"
  using nat_text_digits is_digit_not_minus by blast

lemma to_string_inject [simp]: "to_string i = to_string j \<longleftrightarrow> i = j"
proof -
  have hd_nat: "hd (nat_text n) \<noteq> CHR ''-''" for n
    using minus_notin_nat_text [of n] by (metis hd_in_set nat_text_not_Nil)
  have "nat_text n \<noteq> CHR ''-'' # s" for n s
    using hd_nat [of n] by auto
  then show ?thesis
    by (auto simp: to_string_def nat_eq_iff split: if_splits) (metis)+
qed

lemma to_string_not_Nil [simp]: "to_string i \<noteq> []"
  by (simp add: to_string_def)

lemma sep_notin_to_string:
  assumes "\<not> is_digit c" "c \<noteq> CHR ''-''"
  shows "c \<notin> set (to_string i)"
  using assms nat_text_digits by (auto simp: to_string_def)

lemma slash_notin_to_string [simp]: "CHR ''/'' \<notin> set (to_string i)"
  by (rule sep_notin_to_string) (simp_all add: is_digit_def)

lemma dot_notin_to_string [simp]: "CHR ''.'' \<notin> set (to_string i)"
  by (rule sep_notin_to_string) (simp_all add: is_digit_def)


subsection \<open>Integer prefix of a string: \<open>std::stoi\<close>\<close>

definition is_space :: "char \<Rightarrow> bool" where
  "is_space c \<longleftrightarrow> (let n = (of_char c :: nat) in n = 32 \<or> (9 \<le> n \<and> n \<le> 13))"

definition int_min :: int where "int_min = - (2 ^ 31)"
definition int_max :: int where "int_max = 2 ^ 31 - 1"

definition in_int :: "int \<Rightarrow> bool" where
  "in_int i \<longleftrightarrow> int_min \<le> i \<and> i \<le> int_max"

definition in_int64 :: "int \<Rightarrow> bool" where
  "in_int64 i \<longleftrightarrow> - (2 ^ 63) \<le> i \<and> i \<le> 2 ^ 63 - 1"

fun split_sign :: "string \<Rightarrow> bool \<times> string" where
  "split_sign [] = (False, [])"
| "split_sign (c # r) =
     (if c = CHR ''-'' then (True, r) else if c = CHR ''+'' then (False, r) else (False, c # r))"

text \<open>
  \<open>None\<close> is either exception of \<open>std::stoi\<close>: no digits (\<open>invalid_argument\<close>) or a value
  that is not an \<open>int\<close> (\<open>out_of_range\<close>).  Text after the digits is ignored.
\<close>

definition stoi :: "string \<Rightarrow> int option" where
  "stoi s =
     (let (neg, r) = split_sign (dropWhile is_space s);
          ds = takeWhile is_digit r;
          v = int (digits_val ds);
          i = (if neg then - v else v)
      in if ds = [] \<or> \<not> in_int i then None else Some i)"

lemma is_digit_facts:
  assumes "is_digit c"
  shows "\<not> is_space c" "c \<noteq> CHR ''-''" "c \<noteq> CHR ''+''"
  using assms by (auto simp: is_digit_def is_space_def Let_def)

lemma split_sign_nat_text: "split_sign (nat_text n) = (False, nat_text n)"
proof (cases "nat_text n")
  case (Cons c r)
  then have "is_digit c" using nat_text_digits [of n] by simp
  then show ?thesis using Cons is_digit_facts by auto
qed simp

lemma dropWhile_space_to_string: "dropWhile is_space (to_string i) = to_string i"
proof (cases "nat_text (nat i)")
  case (Cons c r)
  then have "is_digit c" using nat_text_digits [of "nat i"] by simp
  then show ?thesis
    using Cons is_digit_facts by (simp add: to_string_def is_space_def)
qed simp

lemma takeWhile_nat_text: "takeWhile is_digit (nat_text n) = nat_text n"
  using nat_text_digits takeWhile_eq_all_conv by metis

lemma split_sign_to_string: "split_sign (to_string i) = (i < 0, nat_text (nat \<bar>i\<bar>))"
  by (simp add: to_string_def split_sign_nat_text)

lemma stoi_to_string: "in_int i \<Longrightarrow> stoi (to_string i) = Some i"
  by (simp add: stoi_def dropWhile_space_to_string split_sign_to_string takeWhile_nat_text Let_def)

subsection \<open>Prefixes\<close>

definition starts_with :: "string \<Rightarrow> string \<Rightarrow> bool" where
  "starts_with p s \<longleftrightarrow> take (length p) s = p"

lemma starts_with_append [simp]: "starts_with p (p @ r)"
  by (simp add: starts_with_def)

lemma starts_with_iff: "starts_with p s \<longleftrightarrow> (\<exists>r. s = p @ r)"
  by (metis append_take_drop_id starts_with_append starts_with_def)

lemma starts_with_self [simp]: "starts_with p p"
  by (simp add: starts_with_def)

text \<open>A \<open>std::string\<close> built from a \<open>const char *\<close> ends before the first NUL.\<close>

definition c_str :: "string \<Rightarrow> string" where
  "c_str s = takeWhile (\<lambda>c. c \<noteq> CHR 0x00) s"

lemma c_str_idem [simp]: "c_str (c_str s) = c_str s"
  by (simp add: c_str_def)

subsection \<open>Keys joined by a separator\<close>

lemma split_at_sep:
  assumes "x @ c # xs = y @ c # ys" "c \<notin> set x" "c \<notin> set y"
  shows "x = y \<and> xs = ys"
  using assms
proof (induction x arbitrary: y)
  case Nil
  then show ?case by (cases y) auto
next
  case (Cons a x)
  then show ?case by (cases y) auto
qed

lemma split_at_last_sep:
  assumes "xs @ c # x = ys @ c # y" "c \<notin> set x" "c \<notin> set y"
  shows "xs = ys \<and> x = y"
proof -
  from assms(1) have "rev x @ c # rev xs = rev y @ c # rev ys"
    by (metis append.assoc append_Cons append_Nil rev.simps(2) rev_append)
  then have "rev x = rev y \<and> rev xs = rev ys"
    by (rule split_at_sep) (simp_all add: assms)
  then show ?thesis by simp
qed

subsection \<open>Unordered maps\<close>

text \<open>
  A \<open>std::unordered_map\<close> is a finite map with an iteration order the standard leaves open.
  The model keeps the entries in an association list with distinct keys; every theorem
  about it speaks of look-ups, of the set of values, or of counts, never of their order.
\<close>

type_synonym ('k, 'v) umap = "('k, 'v) alist"

abbreviation um_find :: "('k, 'v) umap \<Rightarrow> 'k \<Rightarrow> 'v option" where
  "um_find \<equiv> DAList.lookup"

abbreviation um_set :: "'k \<Rightarrow> 'v \<Rightarrow> ('k, 'v) umap \<Rightarrow> ('k, 'v) umap" where
  "um_set \<equiv> DAList.update"

abbreviation um_erase :: "'k \<Rightarrow> ('k, 'v) umap \<Rightarrow> ('k, 'v) umap" where
  "um_erase \<equiv> DAList.delete"

abbreviation um_empty :: "('k, 'v) umap" where
  "um_empty \<equiv> DAList.empty"

definition um_erase_if :: "('k \<Rightarrow> 'v \<Rightarrow> bool) \<Rightarrow> ('k, 'v) umap \<Rightarrow> ('k, 'v) umap" where
  "um_erase_if P m = DAList.filter (\<lambda>(k, v). \<not> P k v) m"

definition um_entries :: "('k, 'v) umap \<Rightarrow> ('k \<times> 'v) list" where
  "um_entries m = DAList.impl_of m"

definition um_values :: "('k, 'v) umap \<Rightarrow> 'v list" where
  "um_values m = map snd (um_entries m)"

lift_definition um_map :: "('k \<Rightarrow> 'v \<Rightarrow> 'v) \<Rightarrow> ('k, 'v) umap \<Rightarrow> ('k, 'v) umap"
  is AList.map_ran
  by (simp add: distinct_map_ran)

lemma map_of_filter_distinct:
  "distinct (map fst xs) \<Longrightarrow>
   map_of (filter (\<lambda>(k, v). Q k v) xs) k =
     (case map_of xs k of None \<Rightarrow> None | Some v \<Rightarrow> if Q k v then Some v else None)"
proof (induction xs)
  case (Cons p xs)
  obtain a b where p: "p = (a, b)" by (cases p)
  have "map_of (filter (\<lambda>(k, v). Q k v) xs) a = None" if "a \<notin> fst ` set xs"
    using that by (auto simp: map_of_eq_None_iff)
  with Cons p show ?case by (auto split: option.splits)
qed simp

lemma um_find_update [lookup_simps]:
  "um_find (um_set k v m) k' = (if k' = k then Some v else um_find m k')"
  by simp

lemma um_find_delete [lookup_simps]:
  "um_find (um_erase k m) k' = (if k' = k then None else um_find m k')"
  by simp

lemma um_find_erase_if [lookup_simps]:
  "um_find (um_erase_if P m) k =
     (case um_find m k of None \<Rightarrow> None | Some v \<Rightarrow> if P k v then None else Some v)"
  unfolding um_erase_if_def
  by transfer (subst map_of_filter_distinct, auto split: option.splits)

lemma um_find_map [lookup_simps]:
  "um_find (um_map f m) k = map_option (f k) (um_find m k)"
  by transfer (rule map_ran_conv)

lemma um_find_empty [lookup_simps]: "um_find um_empty k = None"
  by simp

lemma um_find_entries: "um_find m k = Some v \<longleftrightarrow> (k, v) \<in> set (um_entries m)"
  unfolding um_entries_def by transfer (simp add: map_of_eq_Some_iff)

lemma um_values_set: "set (um_values m) = {v. \<exists>k. um_find m k = Some v}"
  by (force simp: um_values_def um_find_entries)

lemma um_entries_distinct: "distinct (map fst (um_entries m))"
  by (simp add: um_entries_def)

lemma um_entries_empty [simp]: "um_entries um_empty = []"
  by (simp add: um_entries_def DAList.empty.rep_eq)

lemma um_entries_update [simp]: "um_entries (um_set k v m) = AList.update k v (um_entries m)"
  by (simp add: um_entries_def DAList.update.rep_eq)

lemma um_entries_delete [simp]: "um_entries (um_erase k m) = AList.delete k (um_entries m)"
  by (simp add: um_entries_def DAList.delete.rep_eq)

lemma um_entries_erase_if [simp]:
  "um_entries (um_erase_if P m) = filter (\<lambda>(k, v). \<not> P k v) (um_entries m)"
  by (simp add: um_entries_def um_erase_if_def DAList.filter.rep_eq)

lemma um_entries_map [simp]: "um_entries (um_map f m) = AList.map_ran f (um_entries m)"
  by (simp add: um_entries_def um_map.rep_eq)

end
