(* ===== verification/Floats.thy ===== *)
theory Floats
  imports Prelude Complex_Main
begin

text \<open>
  The floating-point values the program computes with.  A \<open>float\<close> or \<open>double\<close> is a NaN, an
  infinity or an exact rational; the two zeros are one value, which no operation of the
  modelled code can tell apart.  \<open>round_to p emin emax\<close> is IEEE 754 rounding to nearest,
  ties to even, with \<open>p\<close> significand bits; \<open>to_float\<close> is the conversion
  \<open>static_cast<float>\<close>.  Every \<open>float\<close> is a \<open>double\<close>, so widening is the identity on this
  type.  \<open>to_int32\<close> and \<open>to_int64\<close> are the truncating casts of the x86-64 builds, where an
  operand out of range gives the least value of the type.
\<close>

datatype fval = NaN | Inf bool | Fin rat

definition pow2 :: "int \<Rightarrow> rat" where
  "pow2 e = (if 0 \<le> e then 2 ^ nat e else 1 / 2 ^ nat (- e))"

fun log2_nat :: "nat \<Rightarrow> nat" where
  "log2_nat n = (if n < 2 then 0 else Suc (log2_nat (n div 2)))"

declare log2_nat.simps [simp del]

definition exponent_of :: "rat \<Rightarrow> int" where
  "exponent_of q =
     (let (a, b) = quotient_of q; e = int (log2_nat (nat a)) - int (log2_nat (nat b))
      in if pow2 e \<le> q then e else e - 1)"

definition round_half_even :: "rat \<Rightarrow> int" where
  "round_half_even q =
     (let f = \<lfloor>q\<rfloor>; d = q - of_int f
      in if d < 1 / 2 then f else if d > 1 / 2 then f + 1
         else if even f then f else f + 1)"

definition round_to :: "nat \<Rightarrow> int \<Rightarrow> int \<Rightarrow> rat \<Rightarrow> fval" where
  "round_to p emin emax q =
     (if q = 0 then Fin 0
      else let u = pow2 (max (exponent_of \<bar>q\<bar>) emin - int p + 1);
               r = of_int (round_half_even (\<bar>q\<bar> / u)) * u
           in if pow2 (emax + 1) \<le> r then Inf (q < 0) else Fin (if q < 0 then - r else r))"

definition float_round :: "rat \<Rightarrow> fval" where
  "float_round = round_to 24 (-126) 127"

definition double_round :: "rat \<Rightarrow> fval" where
  "double_round = round_to 53 (-1022) 1023"

fun to_float :: "fval \<Rightarrow> fval" where
  "to_float (Fin q) = float_round q"
| "to_float x = x"

text \<open>Comparisons: every one with a NaN is false.\<close>

fun f_less :: "fval \<Rightarrow> fval \<Rightarrow> bool" where
  "f_less NaN y = False"
| "f_less x NaN = False"
| "f_less (Inf n) (Inf m) = (n \<and> \<not> m)"
| "f_less (Inf n) (Fin q) = n"
| "f_less (Fin q) (Inf m) = (\<not> m)"
| "f_less (Fin p) (Fin q) = (p < q)"

text \<open>The test \<open>x != 0.0\<close>, true for a NaN.\<close>

definition f_nonzero :: "fval \<Rightarrow> bool" where
  "f_nonzero x \<longleftrightarrow> x \<noteq> Fin 0"

definition trunc_rat :: "rat \<Rightarrow> int" where
  "trunc_rat q = (if q < 0 then - \<lfloor>- q\<rfloor> else \<lfloor>q\<rfloor>)"

definition to_int_in :: "int \<Rightarrow> int \<Rightarrow> fval \<Rightarrow> int" where
  "to_int_in lo hi x =
     (case x of Fin q \<Rightarrow> (let i = trunc_rat q in if lo \<le> i \<and> i \<le> hi then i else lo) | _ \<Rightarrow> lo)"

definition to_int32 :: "fval \<Rightarrow> int" where
  "to_int32 = to_int_in int_min int_max"

definition to_int64 :: "fval \<Rightarrow> int" where
  "to_int64 = to_int_in (- (2 ^ 63)) (2 ^ 63 - 1)"

lemma to_int32_range: "in_int (to_int32 x)"
  by (auto simp: to_int32_def to_int_in_def in_int_def int_min_def int_max_def Let_def
      split: fval.splits)

lemma to_int32_of_int: "in_int i \<Longrightarrow> to_int32 (Fin (of_int i)) = i"
  by (simp add: to_int32_def to_int_in_def trunc_rat_def in_int_def Let_def floor_minus)

lemma f_less_irrefl [simp]: "\<not> f_less x x"
  by (cases x) auto

lemma f_less_trans: "f_less x y \<Longrightarrow> f_less y z \<Longrightarrow> f_less x z"
  by (cases x; cases y; cases z) auto

lemma f_less_asym: "f_less x y \<Longrightarrow> \<not> f_less y x"
  using f_less_trans f_less_irrefl by blast

lemma float_round_zero [simp]: "float_round 0 = Fin 0"
  by (simp add: float_round_def round_to_def)

end
