(* ===== verification/RapidJson.thy ===== *)
theory RapidJson
  imports Floats
begin

text \<open>
  The interface of rapidjson, the JSON library of Pc_data, which is not part of the
  repository.  Its document object model is a type \<open>'v\<close> known only through the observers
  the code calls; they are a record that every parser of the model takes as its first
  argument.  \<open>rj_member\<close> stands for \<open>HasMember\<close> followed by \<open>operator[]\<close>, \<open>rj_elements\<close>
  for the array loop with \<open>Size\<close> and \<open>operator[]\<close>, \<open>rj_null\<close> for a default-constructed
  \<open>Value\<close>, and \<open>rj_parse\<close> for \<open>Document::Parse\<close> with the English error text and offset.
  The locale states the documented laws the code relies on; the type \<open>jv\<close> is a model of
  them.  \<open>std_stod\<close> is the C++ library's decimal conversion, \<open>None\<close> when it throws.
\<close>

record 'v rapidjson =
  rj_parse :: "string \<Rightarrow> (string \<times> nat) + 'v"
  rj_is_null :: "'v \<Rightarrow> bool"
  rj_is_bool :: "'v \<Rightarrow> bool"
  rj_is_int :: "'v \<Rightarrow> bool"
  rj_is_int64 :: "'v \<Rightarrow> bool"
  rj_is_number :: "'v \<Rightarrow> bool"
  rj_is_string :: "'v \<Rightarrow> bool"
  rj_is_array :: "'v \<Rightarrow> bool"
  rj_is_object :: "'v \<Rightarrow> bool"
  rj_get_bool :: "'v \<Rightarrow> bool"
  rj_get_int :: "'v \<Rightarrow> int"
  rj_get_int64 :: "'v \<Rightarrow> int"
  rj_get_double :: "'v \<Rightarrow> fval"
  rj_get_string :: "'v \<Rightarrow> string"
  rj_elements :: "'v \<Rightarrow> 'v list"
  rj_member :: "'v \<Rightarrow> string \<Rightarrow> 'v option"
  rj_null :: 'v
  std_stod :: "string \<Rightarrow> fval option"

locale rapidjson_dom =
  fixes J :: "'v rapidjson"
  assumes null_kind: "\<not> rj_is_object J (rj_null J)"
    and int_is_int64: "rj_is_int J v \<Longrightarrow> rj_is_int64 J v"
    and int64_is_number: "rj_is_int64 J v \<Longrightarrow> rj_is_number J v"
    and int_range: "rj_is_int J v \<Longrightarrow> in_int (rj_get_int J v)"
    and int_int64: "rj_is_int J v \<Longrightarrow> rj_get_int64 J v = rj_get_int J v"
    and string_not_number: "rj_is_string J v \<Longrightarrow> \<not> rj_is_number J v"
    and bool_not_number: "rj_is_bool J v \<Longrightarrow> \<not> rj_is_number J v"

subsection \<open>A model of the interface\<close>

datatype jv = JNull | JBool bool | JInt int | JReal fval | JStr string
  | JArr "jv list" | JObj "(string \<times> jv) list"

definition jv_int_in :: "int \<Rightarrow> int \<Rightarrow> jv \<Rightarrow> bool" where
  "jv_int_in lo hi v = (case v of JInt i \<Rightarrow> lo \<le> i \<and> i \<le> hi | _ \<Rightarrow> False)"

definition jv_int :: "jv \<Rightarrow> int" where
  "jv_int v = (case v of JInt i \<Rightarrow> i | _ \<Rightarrow> 0)"

definition jv_dom :: "(string \<Rightarrow> (string \<times> nat) + jv) \<Rightarrow> (string \<Rightarrow> fval option) \<Rightarrow> jv rapidjson"
  where
  "jv_dom parse stod =
    \<lparr>rj_parse = parse,
     rj_is_null = (\<lambda>v. v = JNull),
     rj_is_bool = (\<lambda>v. case v of JBool b \<Rightarrow> True | _ \<Rightarrow> False),
     rj_is_int = jv_int_in int_min int_max,
     rj_is_int64 = jv_int_in (- (2 ^ 63)) (2 ^ 63 - 1),
     rj_is_number = (\<lambda>v. case v of JInt i \<Rightarrow> True | JReal x \<Rightarrow> True | _ \<Rightarrow> False),
     rj_is_string = (\<lambda>v. case v of JStr s \<Rightarrow> True | _ \<Rightarrow> False),
     rj_is_array = (\<lambda>v. case v of JArr xs \<Rightarrow> True | _ \<Rightarrow> False),
     rj_is_object = (\<lambda>v. case v of JObj ms \<Rightarrow> True | _ \<Rightarrow> False),
     rj_get_bool = (\<lambda>v. v = JBool True),
     rj_get_int = jv_int,
     rj_get_int64 = jv_int,
     rj_get_double = (\<lambda>v. case v of JInt i \<Rightarrow> double_round (of_int i) | JReal x \<Rightarrow> x | _ \<Rightarrow> Fin 0),
     rj_get_string = (\<lambda>v. case v of JStr s \<Rightarrow> s | _ \<Rightarrow> []),
     rj_elements = (\<lambda>v. case v of JArr xs \<Rightarrow> xs | _ \<Rightarrow> []),
     rj_member = (\<lambda>v k. case v of JObj ms \<Rightarrow> map_of ms k | _ \<Rightarrow> None),
     rj_null = JNull,
     std_stod = stod\<rparr>"

interpretation jvd: rapidjson_dom "jv_dom parse stod" for parse stod
  by unfold_locales
    (auto simp: jv_dom_def jv_int_in_def jv_int_def in_int_def int_min_def int_max_def
      split: jv.splits)

lemma jv_dom_rapidjson: "rapidjson_dom (jv_dom parse stod)"
  by unfold_locales

end
