(* ===== verification/JsonUtils.thy ===== *)
theory JsonUtils
  imports RapidJson
begin

text \<open>
  Pc_data/common/JsonUtils.cpp: JSON text escaping, the textual field extraction, and the
  typed member accessors with their defaults and key fall-backs.
\<close>

subsection \<open>Text\<close>

fun escape_char :: "char \<Rightarrow> string" where
  "escape_char ch =
     (if ch = CHR 0x22 then [CHR 0x5C, CHR 0x22]
      else if ch = CHR 0x5C then [CHR 0x5C, CHR 0x5C]
      else if ch = CHR 0x0A then [CHR 0x5C, CHR ''n'']
      else if ch = CHR 0x0D then [CHR 0x5C, CHR ''r'']
      else if ch = CHR 0x09 then [CHR 0x5C, CHR ''t'']
      else [ch])"

definition jsonEscape :: "string \<Rightarrow> string" where
  "jsonEscape input = concat (map escape_char input)"

text \<open>\<open>std::string::find\<close>: the suffix that starts at the first occurrence.\<close>

fun find_text :: "string \<Rightarrow> string \<Rightarrow> string option" where
  "find_text p [] = (if p = [] then Some [] else None)"
| "find_text p (c # s) = (if starts_with p (c # s) then Some (c # s) else find_text p s)"

text \<open>The scan of a string literal after its opening quote.\<close>

fun scan_string :: "bool \<Rightarrow> string \<Rightarrow> string" where
  "scan_string escaped [] = []"
| "scan_string True (ch # s) = ch # scan_string False s"
| "scan_string False (ch # s) =
     (if ch = CHR 0x5C then scan_string True s
      else if ch = CHR 0x22 then []
      else ch # scan_string False s)"

definition extractJsonStringValue :: "string \<Rightarrow> string \<Rightarrow> string" where
  "extractJsonStringValue json key =
     (let pattern = CHR 0x22 # key @ [CHR 0x22] in
      case find_text pattern json of None \<Rightarrow> []
      | Some s1 \<Rightarrow>
        (case find_text [CHR '':''] (drop (length pattern) s1) of None \<Rightarrow> []
         | Some s2 \<Rightarrow>
           (case find_text [CHR 0x22] (drop 1 s2) of None \<Rightarrow> []
            | Some s3 \<Rightarrow> scan_string False (drop 1 s3))))"

subsection \<open>Typed members\<close>

definition obj_member :: "'v rapidjson \<Rightarrow> 'v \<Rightarrow> string \<Rightarrow> 'v option" where
  "obj_member J obj key = (if rj_is_object J obj then rj_member J obj key else None)"

definition getJsonInt64 :: "'v rapidjson \<Rightarrow> 'v \<Rightarrow> string \<Rightarrow> int \<Rightarrow> int" where
  "getJsonInt64 J obj key defaultValue =
     (case obj_member J obj key of None \<Rightarrow> defaultValue
      | Some v \<Rightarrow>
        if rj_is_int64 J v then rj_get_int64 J v
        else if rj_is_number J v then to_int64 (rj_get_double J v)
        else defaultValue)"

definition getJsonInt :: "'v rapidjson \<Rightarrow> 'v \<Rightarrow> string \<Rightarrow> int \<Rightarrow> int" where
  "getJsonInt J obj key defaultValue =
     (case obj_member J obj key of None \<Rightarrow> defaultValue
      | Some v \<Rightarrow>
        if rj_is_int J v then rj_get_int J v
        else if rj_is_number J v then to_int32 (rj_get_double J v)
        else defaultValue)"

definition getJsonBool :: "'v rapidjson \<Rightarrow> 'v \<Rightarrow> string \<Rightarrow> bool \<Rightarrow> bool" where
  "getJsonBool J obj key defaultValue =
     (case obj_member J obj key of None \<Rightarrow> defaultValue
      | Some v \<Rightarrow>
        if rj_is_bool J v then rj_get_bool J v
        else if rj_is_int J v then rj_get_int J v \<noteq> 0
        else defaultValue)"

definition getJsonString :: "'v rapidjson \<Rightarrow> 'v \<Rightarrow> string \<Rightarrow> string" where
  "getJsonString J obj key =
     (case obj_member J obj key of None \<Rightarrow> []
      | Some v \<Rightarrow> if rj_is_string J v then c_str (rj_get_string J v) else [])"

text \<open>
  The \<open>Any\<close> accessors take the first key that is a member (for strings: the first that
  gives a nonempty string).
\<close>

fun first_member :: "'v rapidjson \<Rightarrow> 'v \<Rightarrow> string list \<Rightarrow> string option" where
  "first_member J obj [] = None"
| "first_member J obj (key # keys) =
     (if rj_member J obj key \<noteq> None then Some key else first_member J obj keys)"

definition getJsonInt64Any :: "'v rapidjson \<Rightarrow> 'v \<Rightarrow> string list \<Rightarrow> int \<Rightarrow> int" where
  "getJsonInt64Any J obj keys defaultValue =
     (if \<not> rj_is_object J obj then defaultValue
      else case first_member J obj keys of None \<Rightarrow> defaultValue
           | Some key \<Rightarrow> getJsonInt64 J obj key defaultValue)"

definition getJsonIntAny :: "'v rapidjson \<Rightarrow> 'v \<Rightarrow> string list \<Rightarrow> int \<Rightarrow> int" where
  "getJsonIntAny J obj keys defaultValue =
     (if \<not> rj_is_object J obj then defaultValue
      else case first_member J obj keys of None \<Rightarrow> defaultValue
           | Some key \<Rightarrow> getJsonInt J obj key defaultValue)"

definition getJsonBoolAny :: "'v rapidjson \<Rightarrow> 'v \<Rightarrow> string list \<Rightarrow> bool \<Rightarrow> bool" where
  "getJsonBoolAny J obj keys defaultValue =
     (if \<not> rj_is_object J obj then defaultValue
      else case first_member J obj keys of None \<Rightarrow> defaultValue
           | Some key \<Rightarrow> getJsonBool J obj key defaultValue)"

fun first_nonempty :: "'v rapidjson \<Rightarrow> 'v \<Rightarrow> string list \<Rightarrow> string" where
  "first_nonempty J obj [] = []"
| "first_nonempty J obj (key # keys) =
     (let value = getJsonString J obj key in
      if value \<noteq> [] then value else first_nonempty J obj keys)"

definition getJsonStringAny :: "'v rapidjson \<Rightarrow> 'v \<Rightarrow> string list \<Rightarrow> string" where
  "getJsonStringAny J obj keys = (if \<not> rj_is_object J obj then [] else first_nonempty J obj keys)"

subsection \<open>Escaping and scanning\<close>

lemma scan_escape_char:
  assumes "ch \<noteq> CHR 0x0A" "ch \<noteq> CHR 0x0D" "ch \<noteq> CHR 0x09"
  shows "scan_string False (escape_char ch @ s) = ch # scan_string False s"
  using assms by auto

lemma scan_jsonEscape:
  assumes "\<forall>c \<in> set v. c \<noteq> CHR 0x0A \<and> c \<noteq> CHR 0x0D \<and> c \<noteq> CHR 0x09"
  shows "scan_string False (jsonEscape v @ CHR 0x22 # s) = v"
  using assms
proof (induction v)
  case Nil
  then show ?case by (simp add: jsonEscape_def)
next
  case (Cons c v)
  then show ?case
    using scan_escape_char [of c "jsonEscape v @ CHR 0x22 # s"] by (simp add: jsonEscape_def)
qed

lemma jsonEscape_Cons: "jsonEscape (c # v) = escape_char c @ jsonEscape v"
  by (simp add: jsonEscape_def)

lemma jsonEscape_plain:
  "c \<in> set (jsonEscape v) \<Longrightarrow> c \<noteq> CHR 0x0A \<and> c \<noteq> CHR 0x0D \<and> c \<noteq> CHR 0x09"
  by (induction v) (auto simp: jsonEscape_def split: if_splits)

text \<open>The escape sequences have no common prefix, so escaping loses nothing.\<close>

lemma escape_char_prefix_free:
  "escape_char c @ xs = escape_char d @ ys \<Longrightarrow> c = d \<and> xs = ys"
  by (auto split: if_splits)

lemma jsonEscape_Nil_iff: "jsonEscape v = [] \<longleftrightarrow> v = []"
  by (cases v) (simp_all add: jsonEscape_def)

declare escape_char.simps [simp del]

lemma jsonEscape_injective: "jsonEscape u = jsonEscape v \<Longrightarrow> u = v"
proof (induction u arbitrary: v)
  case Nil
  then show ?case by (metis jsonEscape_Nil_iff)
next
  case (Cons c u)
  then obtain d w where v: "v = d # w" by (metis jsonEscape_Nil_iff list.exhaust)
  with Cons.prems have "c = d \<and> jsonEscape u = jsonEscape w"
    by (simp add: jsonEscape_Cons escape_char_prefix_free)
  with Cons.IH v show ?case by simp
qed

lemma find_text_here: "find_text p (p @ r) = Some (p @ r)"
  using starts_with_append [of p r] by (cases "p @ r") auto

lemma find_text_skip:
  assumes "q \<notin> set pre"
  shows "find_text (q # p) (pre @ q # p @ r) = Some (q # p @ r)"
  using assms
proof (induction pre)
  case Nil
  then show ?case using find_text_here [of "q # p" r] by simp
next
  case (Cons c pre)
  then show ?case by (auto simp: starts_with_def)
qed

lemma extractJsonStringValue_first:
  assumes "CHR 0x22 \<notin> set pre"
  shows "extractJsonStringValue
      (pre @ CHR 0x22 # key @ CHR 0x22 # CHR '':'' # CHR 0x22 # body) key = scan_string False body"
  using find_text_skip [OF assms, of "key @ [CHR 0x22]" "CHR '':'' # CHR 0x22 # body"]
  by (simp add: extractJsonStringValue_def Let_def starts_with_def)

subsection \<open>Ranges of the accessors\<close>

context rapidjson_dom
begin

lemma getJsonInt_range: "in_int d \<Longrightarrow> in_int (getJsonInt J obj key d)"
  by (auto simp: getJsonInt_def int_range to_int32_range split: option.splits)

lemma getJsonIntAny_range: "in_int d \<Longrightarrow> in_int (getJsonIntAny J obj keys d)"
  by (auto simp: getJsonIntAny_def getJsonInt_range split: option.splits)

end

lemma getJsonInt_default: "obj_member J obj key = None \<Longrightarrow> getJsonInt J obj key d = d"
  by (simp add: getJsonInt_def)

lemma getJsonString_no_nul: "CHR 0x00 \<notin> set (getJsonString J obj key)"
  by (auto simp: getJsonString_def c_str_def split: option.splits dest: set_takeWhileD)

end
