(* ===== verification/DataModel.thy ===== *)
theory DataModel
  imports Floats
begin

text \<open>
  The data model of Pc_data (Pc_data/model/*.hpp, the row types of
  Pc_data/storage/PcDatabase.hpp and the bookkeeping records of
  Pc_data/service/PcDataService.hpp).  Every struct is a record with the fields in source
  order, prefixed by the struct's initials; enums are datatypes with their numeric codes;
  each \<open>default\<close> constant is the struct with its member initialisers.
\<close>

subsection \<open>Device types\<close>

datatype DeviceType = DT_Unknown | DT_SensorTH | DT_Relay | DT_ElectricMeter | DT_SysInfo

fun DeviceType_code :: "DeviceType \<Rightarrow> int" where
  "DeviceType_code DT_Unknown = 0"
| "DeviceType_code DT_SensorTH = 1"
| "DeviceType_code DT_Relay = 2"
| "DeviceType_code DT_ElectricMeter = 3"
| "DeviceType_code DT_SysInfo = 100"

lemma DeviceType_code_inject [simp]: "DeviceType_code a = DeviceType_code b \<longleftrightarrow> a = b"
  by (cases a; cases b) simp_all

text \<open>The enum is ordered by its underlying \<open>int\<close>.\<close>

instantiation DeviceType :: linorder
begin

definition less_eq_DeviceType :: "DeviceType \<Rightarrow> DeviceType \<Rightarrow> bool" where
  "less_eq_DeviceType a b \<longleftrightarrow> DeviceType_code a \<le> DeviceType_code b"

definition less_DeviceType :: "DeviceType \<Rightarrow> DeviceType \<Rightarrow> bool" where
  "less_DeviceType a b \<longleftrightarrow> DeviceType_code a < DeviceType_code b"

instance
  by standard (auto simp: less_eq_DeviceType_def less_DeviceType_def)

end

fun deviceTypeToString :: "DeviceType \<Rightarrow> string" where
  "deviceTypeToString DT_SensorTH = ''sensor_th''"
| "deviceTypeToString DT_Relay = ''relay''"
| "deviceTypeToString DT_ElectricMeter = ''electric_meter''"
| "deviceTypeToString DT_SysInfo = ''sysinfo''"
| "deviceTypeToString DT_Unknown = ''unknown''"

fun deviceTypeToDisplayName :: "DeviceType \<Rightarrow> string" where
  "deviceTypeToDisplayName DT_SensorTH = ''SensorTH''"
| "deviceTypeToDisplayName DT_Relay = ''Relay''"
| "deviceTypeToDisplayName DT_ElectricMeter = ''ElectricMeter''"
| "deviceTypeToDisplayName DT_SysInfo = ''SysInfo''"
| "deviceTypeToDisplayName DT_Unknown = ''Unknown''"

subsection \<open>Device data and telemetry packs\<close>

record TemperatureHumidityData =
  th_temperature :: fval
  th_humidity :: fval

record ElectricMeterData =
  em_voltage :: fval
  em_current :: fval
  em_power :: fval
  em_energy :: fval

record RelayData =
  rd_relayStates :: "16 word"
  rd_channelCount :: int

record SysInfoData =
  si_kernel :: string
  si_arch :: string
  si_os :: string
  si_screenWidth :: int
  si_screenHeight :: int
  si_cpuUsage :: fval
  si_memoryUsage :: fval

record DeviceData =
  dd_deviceId :: int
  dd_deviceName :: string
  dd_type :: DeviceType
  dd_valid :: bool
  dd_errorMessage :: string
  dd_pointKeys :: "string list"
  dd_th :: TemperatureHumidityData
  dd_meter :: ElectricMeterData
  dd_relay :: RelayData
  dd_sys :: SysInfoData

record SiteContext =
  sc_factoryId :: string
  sc_factoryName :: string
  sc_areaId :: string
  sc_areaName :: string
  sc_gatewayId :: string
  sc_gatewayName :: string
  sc_portId :: string
  sc_portName :: string

record TelemetryPack =
  pk_version :: "32 word"
  pk_sequence :: "32 word"
  pk_timestampMs :: int
  pk_sourceId :: string
  pk_targetId :: string
  pk_site :: SiteContext
  pk_devices :: "DeviceData list"

subsection \<open>Points, devices, ports, gateways\<close>

datatype PointValueType = PV_Number | PV_Text | PV_Boolean

record TelemetryPoint =
  tp_timestampMs :: int
  tp_receiveTimeMs :: int
  tp_factoryId :: string
  tp_factoryName :: string
  tp_areaId :: string
  tp_areaName :: string
  tp_gatewayId :: string
  tp_gatewayName :: string
  tp_portId :: string
  tp_portName :: string
  tp_deviceId :: int
  tp_deviceName :: string
  tp_deviceType :: string
  tp_pointId :: string
  tp_pointKey :: string
  tp_pointName :: string
  tp_unit :: string
  tp_valueType :: PointValueType
  tp_numberValue :: fval
  tp_textValue :: string
  tp_valid :: bool
  tp_errorMessage :: string

definition TelemetryPoint_default :: TelemetryPoint where
  "TelemetryPoint_default =
    \<lparr>tp_timestampMs = 0, tp_receiveTimeMs = 0, tp_factoryId = [], tp_factoryName = [],
     tp_areaId = [], tp_areaName = [], tp_gatewayId = [], tp_gatewayName = [],
     tp_portId = [], tp_portName = [], tp_deviceId = 0, tp_deviceName = [],
     tp_deviceType = [], tp_pointId = [], tp_pointKey = [], tp_pointName = [],
     tp_unit = [], tp_valueType = PV_Number, tp_numberValue = Fin 0, tp_textValue = [],
     tp_valid = False, tp_errorMessage = []\<rparr>"

record DeviceRecord =
  dr_factoryId :: string
  dr_factoryName :: string
  dr_areaId :: string
  dr_areaName :: string
  dr_gatewayId :: string
  dr_gatewayName :: string
  dr_portId :: string
  dr_portName :: string
  dr_deviceId :: int
  dr_deviceName :: string
  dr_deviceType :: string
  dr_pollIntervalMs :: int
  dr_expectTelemetry :: bool
  dr_enabled :: bool
  dr_deleted :: bool
  dr_deletedTimeMs :: int
  dr_lifecycleStatus :: string
  dr_status :: string
  dr_lastSeenMs :: int
  dr_lastOfflineMs :: int
  dr_statusReason :: string
  dr_createTimeMs :: int
  dr_updateTimeMs :: int

definition DeviceRecord_default :: DeviceRecord where
  "DeviceRecord_default =
    \<lparr>dr_factoryId = [], dr_factoryName = [], dr_areaId = [], dr_areaName = [],
     dr_gatewayId = [], dr_gatewayName = [], dr_portId = [], dr_portName = [],
     dr_deviceId = 0, dr_deviceName = [], dr_deviceType = [], dr_pollIntervalMs = 1000,
     dr_expectTelemetry = True, dr_enabled = True, dr_deleted = False,
     dr_deletedTimeMs = 0, dr_lifecycleStatus = ''active'', dr_status = ''unknown'',
     dr_lastSeenMs = 0, dr_lastOfflineMs = 0, dr_statusReason = [], dr_createTimeMs = 0,
     dr_updateTimeMs = 0\<rparr>"

record PointConfig =
  pc_pointId :: string
  pc_factoryId :: string
  pc_factoryName :: string
  pc_areaId :: string
  pc_areaName :: string
  pc_gatewayId :: string
  pc_gatewayName :: string
  pc_portId :: string
  pc_portName :: string
  pc_deviceId :: int
  pc_deviceName :: string
  pc_deviceType :: string
  pc_pointKey :: string
  pc_pointName :: string
  pc_unit :: string
  pc_valueType :: string
  pc_enableAlarm :: bool
  pc_hasAlarmLow :: bool
  pc_alarmLow :: fval
  pc_hasAlarmHigh :: bool
  pc_alarmHigh :: fval
  pc_enabled :: bool
  pc_timestampMs :: int

definition PointConfig_default :: PointConfig where
  "PointConfig_default =
    \<lparr>pc_pointId = [], pc_factoryId = [], pc_factoryName = [], pc_areaId = [],
     pc_areaName = [], pc_gatewayId = [], pc_gatewayName = [], pc_portId = [],
     pc_portName = [], pc_deviceId = 0, pc_deviceName = [], pc_deviceType = [],
     pc_pointKey = [], pc_pointName = [], pc_unit = [], pc_valueType = [],
     pc_enableAlarm = False, pc_hasAlarmLow = False, pc_alarmLow = Fin 0,
     pc_hasAlarmHigh = False, pc_alarmHigh = Fin 0, pc_enabled = True, pc_timestampMs = 0\<rparr>"

record GatewayStatus =
  gs_gatewayId :: string
  gs_gatewayName :: string
  gs_factoryId :: string
  gs_areaId :: string
  gs_status :: string
  gs_lastRegisterTimeMs :: int
  gs_lastHeartbeatTimeMs :: int
  gs_updateTimeMs :: int

record GatewayRegistry =
  gr_gatewayId :: string
  gr_gatewayName :: string
  gr_status :: string
  gr_upTopic :: string
  gr_cmdTopic :: string
  gr_broadcastTopic :: string
  gr_lastRegisterTimeMs :: int
  gr_lastHeartbeatTimeMs :: int
  gr_updateTimeMs :: int

record GatewayPort =
  gp_gatewayId :: string
  gp_portId :: string
  gp_portName :: string
  gp_slot :: int
  gp_devicePath :: string
  gp_baud :: int
  gp_status :: string
  gp_lastRegisterTimeMs :: int
  gp_updateTimeMs :: int

lemma deviceTypeToString_inject [simp]: "deviceTypeToString a = deviceTypeToString b \<longleftrightarrow> a = b"
  by (cases a; cases b) simp_all

end
