(* ===== verification/TelemetryParser.thy ===== *)
theory TelemetryParser
  imports JsonUtils DataModel
begin

text \<open>
  Pc_data/protocol/TelemetryPackParser.cpp: from the payload of a \<open>telemetry_pack\<close> message
  to a \<open>TelemetryPack\<close>.  A failed parse is \<open>Inl\<close> of the error message.  \<open>now\<close> is the value
  \<open>currentTimeMs()\<close> gives during the call.
\<close>

subsection \<open>Accessors\<close>

definition kRelayDefaultChannelCount :: int where "kRelayDefaultChannelCount = 16"
definition kRelayMaxChannelCount :: int where "kRelayMaxChannelCount = 64"

definition tpp_getString :: "'v rapidjson \<Rightarrow> 'v \<Rightarrow> string \<Rightarrow> string \<Rightarrow> string" where
  "tpp_getString J obj key defaultValue =
     (case obj_member J obj key of None \<Rightarrow> defaultValue
      | Some v \<Rightarrow> if rj_is_string J v then c_str (rj_get_string J v) else defaultValue)"

definition tpp_getInt :: "'v rapidjson \<Rightarrow> 'v \<Rightarrow> string \<Rightarrow> int \<Rightarrow> int" where
  "tpp_getInt J obj key defaultValue =
     (case obj_member J obj key of None \<Rightarrow> defaultValue
      | Some v \<Rightarrow>
        if rj_is_int J v then rj_get_int J v
        else if rj_is_number J v then to_int32 (rj_get_double J v)
        else if rj_is_string J v then
          (case stoi (c_str (rj_get_string J v)) of None \<Rightarrow> defaultValue | Some i \<Rightarrow> i)
        else defaultValue)"

definition validRelayChannelCount :: "int \<Rightarrow> int" where
  "validRelayChannelCount v = (if 1 \<le> v \<and> v \<le> kRelayMaxChannelCount then v else 0)"

definition firstValidRelayChannelCount :: "'v rapidjson \<Rightarrow> 'v \<Rightarrow> string \<Rightarrow> string \<Rightarrow> int" where
  "firstValidRelayChannelCount J obj firstKey secondKey =
     (let v = validRelayChannelCount (tpp_getInt J obj firstKey 0) in
      if v > 0 then v else validRelayChannelCount (tpp_getInt J obj secondKey 0))"

definition declaredRelayChannelCount :: "'v rapidjson \<Rightarrow> 'v \<Rightarrow> 'v \<Rightarrow> int" where
  "declaredRelayChannelCount J item relay =
     (let v = firstValidRelayChannelCount J item ''channelCount'' ''channel_count'' in
      if v > 0 then v
      else firstValidRelayChannelCount J relay ''channelCount'' ''channel_count'')"

definition legacyRelayChannelCount :: "'v rapidjson \<Rightarrow> 'v \<Rightarrow> 'v \<Rightarrow> int" where
  "legacyRelayChannelCount J item relay =
     (let v = declaredRelayChannelCount J item relay;
          v = (if v \<le> 0 then kRelayDefaultChannelCount else v)
      in if v > kRelayMaxChannelCount then kRelayMaxChannelCount else v)"

definition tpp_getDouble :: "'v rapidjson \<Rightarrow> 'v \<Rightarrow> string \<Rightarrow> fval \<Rightarrow> fval" where
  "tpp_getDouble J obj key defaultValue =
     (case obj_member J obj key of None \<Rightarrow> defaultValue
      | Some v \<Rightarrow>
        if rj_is_number J v then rj_get_double J v
        else if rj_is_string J v then
          (case std_stod J (c_str (rj_get_string J v)) of None \<Rightarrow> defaultValue | Some x \<Rightarrow> x)
        else defaultValue)"

definition tpp_getBool :: "'v rapidjson \<Rightarrow> 'v \<Rightarrow> string \<Rightarrow> bool \<Rightarrow> bool" where
  "tpp_getBool J obj key defaultValue =
     (case obj_member J obj key of None \<Rightarrow> defaultValue
      | Some v \<Rightarrow>
        if rj_is_bool J v then rj_get_bool J v
        else if rj_is_int J v then rj_get_int J v \<noteq> 0
        else if rj_is_number J v then f_nonzero (rj_get_double J v)
        else defaultValue)"

definition parseDeviceType :: "string \<Rightarrow> DeviceType" where
  "parseDeviceType t =
     (if t = ''sensor_th'' then DT_SensorTH
      else if t = ''electric_meter'' \<or> t = ''meter'' then DT_ElectricMeter
      else if t = ''relay'' then DT_Relay
      else if t = ''sysinfo'' then DT_SysInfo
      else DT_Unknown)"

definition nestedObject :: "'v rapidjson \<Rightarrow> 'v \<Rightarrow> string \<Rightarrow> 'v" where
  "nestedObject J obj key =
     (case obj_member J obj key of None \<Rightarrow> rj_null J
      | Some v \<Rightarrow> if rj_is_object J v then v else rj_null J)"

definition relayChannelIndex :: "string \<Rightarrow> int" where
  "relayChannelIndex pointKey =
     (let dotPrefix = ''relay.ch''; underscorePrefix = ''relay_'';
          suffix = (if starts_with dotPrefix pointKey then drop (length dotPrefix) pointKey
                    else if starts_with underscorePrefix pointKey
                         then drop (length underscorePrefix) pointKey
                    else [])
      in if suffix = [] then 1
         else case stoi suffix of None \<Rightarrow> 1
              | Some channel \<Rightarrow> if channel > 0 then channel else 1)"

subsection \<open>The points of one device\<close>

text \<open>The variables the loop over \<open>points\<close> assigns.\<close>

record point_scan =
  ps_pointKeys :: "string list"
  ps_temperature :: fval
  ps_humidity :: fval
  ps_relayStates :: "16 word"
  ps_hasPointTemperature :: bool
  ps_hasPointHumidity :: bool
  ps_hasPointRelay :: bool
  ps_maxPointChannel :: int

definition point_scan_init :: point_scan where
  "point_scan_init =
    \<lparr>ps_pointKeys = [], ps_temperature = Fin 0, ps_humidity = Fin 0, ps_relayStates = 0,
     ps_hasPointTemperature = False, ps_hasPointHumidity = False, ps_hasPointRelay = False,
     ps_maxPointChannel = 0\<rparr>"

definition point_number :: "'v rapidjson \<Rightarrow> 'v \<Rightarrow> fval" where
  "point_number J point =
     to_float (tpp_getDouble J point ''numberValue'' (tpp_getDouble J point ''value'' (Fin 0)))"

definition is_relay_key :: "string \<Rightarrow> bool" where
  "is_relay_key k \<longleftrightarrow> k = ''relay'' \<or> starts_with ''relay.'' k \<or> starts_with ''relay_'' k"

definition scan_relay_point :: "'v rapidjson \<Rightarrow> 'v \<Rightarrow> string \<Rightarrow> point_scan \<Rightarrow> point_scan" where
  "scan_relay_point J point pointKey ps =
     (let channel = relayChannelIndex pointKey;
          on = tpp_getBool J point ''boolValue''
                 (f_nonzero (tpp_getDouble J point ''numberValue'' (Fin 0)));
          states = (if 1 \<le> channel \<and> channel \<le> 16 \<and> on
                    then ps_relayStates ps OR push_bit (nat (channel - 1)) 1
                    else ps_relayStates ps);
          maxc = (if 1 \<le> channel \<and> channel \<le> kRelayMaxChannelCount
                      \<and> channel > ps_maxPointChannel ps
                  then channel else ps_maxPointChannel ps)
      in ps\<lparr>ps_relayStates := states, ps_maxPointChannel := maxc, ps_hasPointRelay := True\<rparr>)"

definition scan_point :: "'v rapidjson \<Rightarrow> point_scan \<Rightarrow> 'v \<Rightarrow> point_scan" where
  "scan_point J ps point =
     (if \<not> rj_is_object J point then ps
      else
        let pointKey = tpp_getString J point ''pointKey'' [];
            ps = (if pointKey \<noteq> [] then ps\<lparr>ps_pointKeys := ps_pointKeys ps @ [pointKey]\<rparr> else ps)
        in if pointKey = ''temperature''
           then ps\<lparr>ps_temperature := point_number J point, ps_hasPointTemperature := True\<rparr>
           else if pointKey = ''humidity''
           then ps\<lparr>ps_humidity := point_number J point, ps_hasPointHumidity := True\<rparr>
           else if is_relay_key pointKey then scan_relay_point J point pointKey ps
           else ps)"

definition scan_points :: "'v rapidjson \<Rightarrow> 'v \<Rightarrow> point_scan" where
  "scan_points J item =
     (case obj_member J item ''points'' of None \<Rightarrow> point_scan_init
      | Some points \<Rightarrow>
        if rj_is_array J points then foldl (scan_point J) point_scan_init (rj_elements J points)
        else point_scan_init)"

subsection \<open>One device\<close>

definition parse_device_head :: "'v rapidjson \<Rightarrow> 'v \<Rightarrow> int \<times> string \<times> DeviceType \<times> bool \<times> string" where
  "parse_device_head J item =
     (let deviceId = tpp_getInt J item ''deviceId''
            (tpp_getInt J item ''slave_id''
            (tpp_getInt J item ''slaveAddress''
            (tpp_getInt J item ''id'' 0)));
          deviceName = tpp_getString J item ''deviceName'' [];
          typeText = getJsonStringAny J item [''deviceType'', ''device_type''];
          typeText = (if typeText = [] then tpp_getString J item ''type'' ''unknown'' else typeText);
          ty = parseDeviceType typeText;
          valid = tpp_getBool J item ''valid'' True;
          err = tpp_getString J item ''errorMessage'' [];
          (valid, err) = (if deviceId \<le> 0
                          then (False, if err = [] then ''missing_deviceId'' else err)
                          else (valid, err));
          (valid, err) = (if ty = DT_Unknown
                          then (False, if err = [] then ''unknown_device_type'' else err)
                          else (valid, err))
      in (deviceId, deviceName, ty, valid, err))"

definition parse_th :: "'v rapidjson \<Rightarrow> 'v \<Rightarrow> 'v \<Rightarrow> point_scan \<Rightarrow> TemperatureHumidityData" where
  "parse_th J item th ps =
     \<lparr>th_temperature = (if ps_hasPointTemperature ps then ps_temperature ps
        else to_float (tpp_getDouble J item ''temperature'' (tpp_getDouble J th ''temperature'' (Fin 0)))),
      th_humidity = (if ps_hasPointHumidity ps then ps_humidity ps
        else to_float (tpp_getDouble J item ''humidity'' (tpp_getDouble J th ''humidity'' (Fin 0))))\<rparr>"

definition parse_meter :: "'v rapidjson \<Rightarrow> 'v \<Rightarrow> 'v \<Rightarrow> ElectricMeterData" where
  "parse_meter J item meter =
     (let field = (\<lambda>key. to_float (tpp_getDouble J item key (tpp_getDouble J meter key (Fin 0))))
      in \<lparr>em_voltage = field ''voltage'', em_current = field ''current'',
          em_power = field ''power'', em_energy = field ''energy''\<rparr>)"

definition parse_relay :: "'v rapidjson \<Rightarrow> 'v \<Rightarrow> 'v \<Rightarrow> DeviceType \<Rightarrow> point_scan \<Rightarrow> RelayData" where
  "parse_relay J item relay ty ps =
     (let declared = declaredRelayChannelCount J item relay;
          maxc = ps_maxPointChannel ps
      in \<lparr>rd_relayStates = (if ps_hasPointRelay ps then ps_relayStates ps
            else word_of_int (tpp_getInt J item ''relayStates''
                   (tpp_getInt J item ''states'' (tpp_getInt J relay ''relayStates'' 0)))),
          rd_channelCount = (if ty \<noteq> DT_Relay then 16
            else if declared > 0 then (if maxc > declared then maxc else declared)
            else if maxc > 0 then maxc
            else legacyRelayChannelCount J item relay)\<rparr>)"

definition parse_sys :: "'v rapidjson \<Rightarrow> 'v \<Rightarrow> 'v \<Rightarrow> SysInfoData" where
  "parse_sys J item sys =
     (let text = (\<lambda>key. tpp_getString J item key (tpp_getString J sys key []));
          num = (\<lambda>key. tpp_getInt J item key (tpp_getInt J sys key 0));
          real = (\<lambda>key. tpp_getDouble J item key (tpp_getDouble J sys key (Fin 0)))
      in \<lparr>si_kernel = text ''kernel'', si_arch = text ''arch'', si_os = text ''os'',
          si_screenWidth = num ''screenWidth'', si_screenHeight = num ''screenHeight'',
          si_cpuUsage = real ''cpuUsage'', si_memoryUsage = real ''memoryUsage''\<rparr>)"

text \<open>The two checks that a valid device carries the reading of its type.\<close>

definition check_required :: "'v rapidjson \<Rightarrow> 'v \<Rightarrow> 'v \<Rightarrow> 'v \<Rightarrow> DeviceType \<Rightarrow> point_scan
    \<Rightarrow> bool \<times> string \<Rightarrow> bool \<times> string" where
  "check_required J item th relay ty ps ve =
     (let (valid, err) = ve;
          (valid, err) =
            (if valid \<and> ty = DT_SensorTH \<and> \<not> ps_hasPointTemperature ps
                \<and> rj_member J item ''temperature'' = None
                \<and> obj_member J th ''temperature'' = None
             then (False, ''missing_temperature'') else (valid, err))
      in if valid \<and> ty = DT_Relay \<and> \<not> ps_hasPointRelay ps
            \<and> rj_member J item ''relayStates'' = None \<and> rj_member J item ''states'' = None
            \<and> obj_member J relay ''relayStates'' = None
         then (False, ''missing_relayStates'') else (valid, err))"

definition parse_device :: "'v rapidjson \<Rightarrow> 'v \<Rightarrow> DeviceData" where
  "parse_device J item =
     (let (deviceId, deviceName, ty, valid, err) = parse_device_head J item;
          th = nestedObject J item ''th'';
          meter = nestedObject J item ''meter'';
          relay = nestedObject J item ''relay'';
          sys = nestedObject J item ''sys'';
          ps = scan_points J item;
          (valid, err) = check_required J item th relay ty ps (valid, err)
      in \<lparr>dd_deviceId = deviceId, dd_deviceName = deviceName, dd_type = ty,
          dd_valid = valid, dd_errorMessage = err, dd_pointKeys = ps_pointKeys ps,
          dd_th = parse_th J item th ps, dd_meter = parse_meter J item meter,
          dd_relay = parse_relay J item relay ty ps, dd_sys = parse_sys J item sys\<rparr>)"

subsection \<open>The pack\<close>

definition parse_site :: "'v rapidjson \<Rightarrow> 'v \<Rightarrow> SiteContext" where
  "parse_site J site =
     (let text = (\<lambda>key. tpp_getString J site key [])
      in \<lparr>sc_factoryId = text ''factoryId'', sc_factoryName = text ''factoryName'',
          sc_areaId = text ''areaId'', sc_areaName = text ''areaName'',
          sc_gatewayId = text ''gatewayId'', sc_gatewayName = text ''gatewayName'',
          sc_portId = text ''portId'', sc_portName = text ''portName''\<rparr>)"

definition parse_timestamp :: "'v rapidjson \<Rightarrow> int \<Rightarrow> 'v \<Rightarrow> int" where
  "parse_timestamp J now doc =
     (let t = getJsonInt64Any J doc [''timestampMs'', ''timestamp''] 0 in
      if t \<le> 0
      then (let legacySeconds = getJsonInt64 J doc ''time'' 0
            in if legacySeconds > 0 then legacySeconds * 1000 else now)
      else t)"

definition TelemetryPackParser_parseJson ::
    "'v rapidjson \<Rightarrow> int \<Rightarrow> string \<Rightarrow> string + TelemetryPack" where
  "TelemetryPackParser_parseJson J now payload =
     (case rj_parse J (c_str payload) of
        Inl (text, offset) \<Rightarrow>
          Inl (''json parse error: '' @ text @ '' at offset '' @ to_string (int offset))
      | Inr doc \<Rightarrow>
          if \<not> rj_is_object J doc then Inl ''root is not object''
          else let type = tpp_getString J doc ''type'' [] in
          if type \<noteq> ''telemetry_pack'' then Inl (''unsupported type: '' @ type)
          else case rj_member J doc ''devices'' of
            None \<Rightarrow> Inl ''devices is missing or not array''
          | Some devices \<Rightarrow>
              if \<not> rj_is_array J devices then Inl ''devices is missing or not array''
              else Inr
                \<lparr>pk_version = word_of_int (getJsonIntAny J doc [''version'', ''ver''] 1),
                 pk_sequence = word_of_int (getJsonIntAny J doc [''seq'', ''sequence''] 0),
                 pk_timestampMs = parse_timestamp J now doc,
                 pk_sourceId = tpp_getString J doc ''sourceId'' [],
                 pk_targetId = tpp_getString J doc ''targetId'' [],
                 pk_site = parse_site J (nestedObject J doc ''site''),
                 pk_devices = map (parse_device J)
                   (filter (rj_is_object J) (rj_elements J devices))\<rparr>)"

subsection \<open>Channel counts and channel numbers\<close>

lemma validRelayChannelCount_range:
  "0 \<le> validRelayChannelCount v \<and> validRelayChannelCount v \<le> 64"
  by (simp add: validRelayChannelCount_def kRelayMaxChannelCount_def)

lemma firstValidRelayChannelCount_range:
  "0 \<le> firstValidRelayChannelCount J obj a b \<and> firstValidRelayChannelCount J obj a b \<le> 64"
  using validRelayChannelCount_range by (simp add: firstValidRelayChannelCount_def Let_def)

lemma declaredRelayChannelCount_range:
  "0 \<le> declaredRelayChannelCount J item relay \<and> declaredRelayChannelCount J item relay \<le> 64"
  using firstValidRelayChannelCount_range [of J item "''channelCount''" "''channel_count''"]
    firstValidRelayChannelCount_range [of J relay "''channelCount''" "''channel_count''"]
  by (simp add: declaredRelayChannelCount_def Let_def)

lemma legacyRelayChannelCount_range:
  "1 \<le> legacyRelayChannelCount J item relay \<and> legacyRelayChannelCount J item relay \<le> 64"
  using declaredRelayChannelCount_range [of J item relay]
  by (simp add: legacyRelayChannelCount_def kRelayDefaultChannelCount_def
      kRelayMaxChannelCount_def Let_def)

lemma relayChannelIndex_positive: "1 \<le> relayChannelIndex k"
  by (auto simp: relayChannelIndex_def Let_def split: option.splits)

lemma starts_with_differ:
  "length p = length q \<Longrightarrow> p \<noteq> q \<Longrightarrow> \<not> starts_with p (q @ s)"
  by (simp add: starts_with_def)

lemma relayChannelIndex_underscore:
  assumes "1 \<le> n" "in_int n"
  shows "relayChannelIndex (''relay_'' @ to_string n) = n"
  using assms stoi_to_string [of n]
  by (simp add: relayChannelIndex_def Let_def starts_with_def)

lemma is_relay_key_underscore: "is_relay_key (''relay_'' @ s)"
  by (simp add: is_relay_key_def starts_with_def)

subsection \<open>What the scan of the points computes\<close>

definition point_key :: "'v rapidjson \<Rightarrow> 'v \<Rightarrow> string" where
  "point_key J point = tpp_getString J point ''pointKey'' []"

definition relay_point :: "'v rapidjson \<Rightarrow> 'v \<Rightarrow> bool" where
  "relay_point J point \<longleftrightarrow> rj_is_object J point \<and> is_relay_key (point_key J point)"

definition relay_point_on :: "'v rapidjson \<Rightarrow> 'v \<Rightarrow> bool" where
  "relay_point_on J point \<longleftrightarrow> tpp_getBool J point ''boolValue''
     (f_nonzero (tpp_getDouble J point ''numberValue'' (Fin 0)))"

definition relay_point_channel :: "'v rapidjson \<Rightarrow> 'v \<Rightarrow> int" where
  "relay_point_channel J point = relayChannelIndex (point_key J point)"

lemma relay_keys_not_th: "is_relay_key k \<Longrightarrow> k \<noteq> ''temperature'' \<and> k \<noteq> ''humidity''"
  by (auto simp: is_relay_key_def starts_with_def)

lemma scan_point_relay:
  assumes "relay_point J p"
  shows "ps_relayStates (scan_point J ps p) =
           (if relay_point_channel J p \<le> 16 \<and> relay_point_on J p
            then ps_relayStates ps OR push_bit (nat (relay_point_channel J p - 1)) 1
            else ps_relayStates ps)"
    and "ps_maxPointChannel (scan_point J ps p) =
           (if relay_point_channel J p \<le> 64 \<and> relay_point_channel J p > ps_maxPointChannel ps
            then relay_point_channel J p else ps_maxPointChannel ps)"
    and "ps_hasPointRelay (scan_point J ps p)"
  using assms relay_keys_not_th [of "point_key J p"] relayChannelIndex_positive [of "point_key J p"]
  by (auto simp: relay_point_def scan_point_def point_key_def scan_relay_point_def Let_def
      relay_point_on_def relay_point_channel_def kRelayMaxChannelCount_def)

lemma scan_point_other:
  assumes "\<not> relay_point J p"
  shows "ps_relayStates (scan_point J ps p) = ps_relayStates ps"
    and "ps_maxPointChannel (scan_point J ps p) = ps_maxPointChannel ps"
    and "ps_hasPointRelay (scan_point J ps p) = ps_hasPointRelay ps"
  using assms
  by (auto simp: relay_point_def scan_point_def point_key_def Let_def)

lemma bit_or_power:
  "bit (w OR 2 ^ n :: 16 word) k \<longleftrightarrow> bit w k \<or> (n = k \<and> k < 16)"
  by (auto simp: bit_or_iff bit_exp_iff)

lemma foldl_scan_states:
  "bit (ps_relayStates (foldl (scan_point J) ps pts)) k \<longleftrightarrow>
     bit (ps_relayStates ps) k \<or>
     (k < 16 \<and> (\<exists>p \<in> set pts. relay_point J p \<and> relay_point_on J p
                  \<and> relay_point_channel J p = int k + 1))"
proof (induction pts arbitrary: ps)
  case (Cons p pts)
  have pos: "1 \<le> relay_point_channel J p"
    by (simp add: relay_point_channel_def relayChannelIndex_positive)
  have "bit (ps_relayStates (scan_point J ps p)) k \<longleftrightarrow>
          bit (ps_relayStates ps) k \<or> (k < 16 \<and> relay_point J p \<and> relay_point_on J p
            \<and> relay_point_channel J p = int k + 1)"
  proof (cases "relay_point J p")
    case True
    have "relay_point_channel J p = int k + 1 \<longleftrightarrow> nat (relay_point_channel J p - 1) = k"
      using pos by auto
    moreover have "relay_point_channel J p \<le> 16 \<longleftrightarrow> nat (relay_point_channel J p - 1) < 16"
      using pos by auto
    ultimately show ?thesis using True by (auto simp: scan_point_relay bit_or_power)
  qed (simp add: scan_point_other)
  then show ?case using Cons.IH [of "scan_point J ps p"] by auto
qed simp

lemma foldl_scan_max:
  assumes "0 \<le> ps_maxPointChannel ps" "ps_maxPointChannel ps \<le> 64"
  shows "0 \<le> ps_maxPointChannel (foldl (scan_point J) ps pts)
       \<and> ps_maxPointChannel (foldl (scan_point J) ps pts) \<le> 64"
  using assms
proof (induction pts arbitrary: ps)
  case (Cons p pts)
  have "0 \<le> ps_maxPointChannel (scan_point J ps p) \<and> ps_maxPointChannel (scan_point J ps p) \<le> 64"
    using Cons.prems by (cases "relay_point J p") (auto simp: scan_point_relay scan_point_other)
  then show ?case using Cons.IH [of "scan_point J ps p"] by simp
qed simp

lemma foldl_scan_max_ge:
  "ps_maxPointChannel ps \<le> ps_maxPointChannel (foldl (scan_point J) ps pts)"
proof (induction pts arbitrary: ps)
  case (Cons p pts)
  have "ps_maxPointChannel ps \<le> ps_maxPointChannel (scan_point J ps p)"
    by (cases "relay_point J p") (auto simp: scan_point_relay scan_point_other)
  then show ?case using Cons.IH [of "scan_point J ps p"] by simp
qed simp

lemma foldl_scan_covers:
  "p \<in> set pts \<Longrightarrow> relay_point J p \<Longrightarrow> relay_point_channel J p \<le> 64 \<Longrightarrow>
   relay_point_channel J p \<le> ps_maxPointChannel (foldl (scan_point J) ps pts)"
proof (induction pts arbitrary: ps)
  case (Cons q pts)
  show ?case
  proof (cases "p = q")
    case True
    have "relay_point_channel J p \<le> ps_maxPointChannel (scan_point J ps p)"
      using Cons.prems(2,3) by (auto simp: scan_point_relay)
    then show ?thesis
      using True foldl_scan_max_ge [of "scan_point J ps q" J pts] by simp
  next
    case False
    then show ?thesis using Cons by simp
  qed
qed simp

lemma scan_points_max_range:
  "0 \<le> ps_maxPointChannel (scan_points J item) \<and> ps_maxPointChannel (scan_points J item) \<le> 64"
  using foldl_scan_max [of point_scan_init J]
  by (auto simp: scan_points_def point_scan_init_def split: option.splits)

subsection \<open>What a parsed device satisfies\<close>

definition device_ok :: "DeviceData \<Rightarrow> bool" where
  "device_ok d \<longleftrightarrow>
     (dd_valid d \<longrightarrow> dd_deviceId d > 0 \<and> dd_type d \<noteq> DT_Unknown) \<and>
     1 \<le> rd_channelCount (dd_relay d) \<and> rd_channelCount (dd_relay d) \<le> 64"

lemma parse_relay_channelCount:
  "1 \<le> rd_channelCount (parse_relay J item relay ty (scan_points J item))
   \<and> rd_channelCount (parse_relay J item relay ty (scan_points J item)) \<le> 64"
  using declaredRelayChannelCount_range [of J item relay] scan_points_max_range [of J item]
    legacyRelayChannelCount_range [of J item relay]
  by (simp add: parse_relay_def Let_def)

lemma parse_device_head_valid:
  "parse_device_head J item = (i, nm, ty, True, err) \<Longrightarrow> i > 0 \<and> ty \<noteq> DT_Unknown"
  by (auto simp: parse_device_head_def Let_def split: if_splits)

lemma check_required_valid:
  "check_required J item th relay ty ps (v, e) = (True, err) \<Longrightarrow> v"
  by (auto simp: check_required_def split: if_splits)

lemma parse_device_ok: "device_ok (parse_device J item)"
proof -
  obtain i nm ty v e where h: "parse_device_head J item = (i, nm, ty, v, e)"
    by (metis prod_cases5)
  obtain v' e' where c: "check_required J item (nestedObject J item ''th'')
      (nestedObject J item ''relay'') ty (scan_points J item) (v, e) = (v', e')"
    by (metis surj_pair)
  have "v' \<Longrightarrow> v" using c check_required_valid by metis
  then have "v' \<Longrightarrow> i > 0 \<and> ty \<noteq> DT_Unknown"
    using h parse_device_head_valid by metis
  then show ?thesis
    using parse_relay_channelCount
    by (simp add: device_ok_def parse_device_def h c Let_def)
qed

lemma TelemetryPackParser_parseJson_InrD:
  assumes "TelemetryPackParser_parseJson J now payload = Inr pk"
  obtains doc devices where
    "rj_parse J (c_str payload) = Inr doc" "rj_is_object J doc"
    "tpp_getString J doc ''type'' [] = ''telemetry_pack''"
    "rj_member J doc ''devices'' = Some devices" "rj_is_array J devices"
    "pk_devices pk = map (parse_device J) (filter (rj_is_object J) (rj_elements J devices))"
    "pk_timestampMs pk = parse_timestamp J now doc"
    "pk_site pk = parse_site J (nestedObject J doc ''site'')"
  using assms
  by (auto simp: TelemetryPackParser_parseJson_def Let_def split: sum.splits if_splits option.splits)

lemma parse_timestamp_positive: "0 < now \<Longrightarrow> 0 < parse_timestamp J now doc"
  by (auto simp: parse_timestamp_def Let_def)

end
