(* ===== verification/ModelConverter.thy ===== *)
theory ModelConverter
  imports DataModel
begin

text \<open>
  Pc_data/model/ModelConverter.cpp: the expansion of a telemetry pack into uniform points.
  The source appends to one vector; each \<open>append\<close> function here gives the points it appends.
\<close>

definition buildPointId :: "string \<Rightarrow> string \<Rightarrow> string \<Rightarrow> string \<Rightarrow> int \<Rightarrow> string \<Rightarrow> string" where
  "buildPointId factoryId areaId gatewayId portId deviceId pointKey =
     factoryId @ ''.'' @ areaId @ ''.'' @ gatewayId @ ''.'' @ portId @ ''.''
     @ to_string deviceId @ ''.'' @ pointKey"

definition pack_point_id :: "TelemetryPack \<Rightarrow> DeviceData \<Rightarrow> string \<Rightarrow> string" where
  "pack_point_id pack device pointKey =
     buildPointId (sc_factoryId (pk_site pack)) (sc_areaId (pk_site pack))
       (sc_gatewayId (pk_site pack)) (sc_portId (pk_site pack)) (dd_deviceId device) pointKey"

definition makeBasePoint :: "TelemetryPack \<Rightarrow> DeviceData \<Rightarrow> TelemetryPoint" where
  "makeBasePoint pack device = TelemetryPoint_default
    \<lparr>tp_timestampMs := pk_timestampMs pack,
     tp_factoryId := sc_factoryId (pk_site pack), tp_factoryName := sc_factoryName (pk_site pack),
     tp_areaId := sc_areaId (pk_site pack), tp_areaName := sc_areaName (pk_site pack),
     tp_gatewayId := sc_gatewayId (pk_site pack), tp_gatewayName := sc_gatewayName (pk_site pack),
     tp_portId := sc_portId (pk_site pack), tp_portName := sc_portName (pk_site pack),
     tp_deviceId := dd_deviceId device, tp_deviceName := dd_deviceName device,
     tp_deviceType := deviceTypeToString (dd_type device),
     tp_valid := dd_valid device, tp_errorMessage := dd_errorMessage device\<rparr>"

text \<open>The assignments every \<open>append\<close> block makes to its base point.\<close>

definition fill_point :: "TelemetryPack \<Rightarrow> DeviceData \<Rightarrow> string \<Rightarrow> string \<Rightarrow> string
    \<Rightarrow> PointValueType \<Rightarrow> fval \<Rightarrow> string \<Rightarrow> TelemetryPoint" where
  "fill_point pack device key nm unit vt num text = (makeBasePoint pack device)
    \<lparr>tp_pointKey := key, tp_pointId := pack_point_id pack device key, tp_pointName := nm,
     tp_unit := unit, tp_valueType := vt, tp_numberValue := num, tp_textValue := text\<rparr>"

definition appendTemperatureHumidityPoints ::
    "TelemetryPack \<Rightarrow> DeviceData \<Rightarrow> TelemetryPoint list" where
  "appendTemperatureHumidityPoints pack device =
    [fill_point pack device ''temperature'' ''Temperature'' ''C'' PV_Number
       (th_temperature (dd_th device)) [],
     fill_point pack device ''humidity'' ''Humidity'' [CHR 0x25] PV_Number
       (th_humidity (dd_th device)) []]"

definition appendElectricMeterPoints ::
    "TelemetryPack \<Rightarrow> DeviceData \<Rightarrow> TelemetryPoint list" where
  "appendElectricMeterPoints pack device =
    [fill_point pack device ''voltage'' ''Voltage'' ''V'' PV_Number
       (em_voltage (dd_meter device)) [],
     fill_point pack device ''current'' ''Current'' ''A'' PV_Number
       (em_current (dd_meter device)) [],
     fill_point pack device ''power'' ''Power'' ''W'' PV_Number
       (em_power (dd_meter device)) [],
     fill_point pack device ''energy'' ''Energy'' ''kWh'' PV_Number
       (em_energy (dd_meter device)) []]"

definition relay_channel_count :: "RelayData \<Rightarrow> int" where
  "relay_channel_count r =
     (let channelCount = rd_channelCount r;
          channelCount = (if channelCount \<le> 0 then 16 else channelCount)
      in if channelCount > 64 then 64 else channelCount)"

definition relay_is_on :: "RelayData \<Rightarrow> nat \<Rightarrow> bool" where
  "relay_is_on r i \<longleftrightarrow> i < 16 \<and> bit (rd_relayStates r) i"

definition relay_channel_point :: "TelemetryPack \<Rightarrow> DeviceData \<Rightarrow> nat \<Rightarrow> TelemetryPoint" where
  "relay_channel_point pack device i =
     (let isOn = relay_is_on (dd_relay device) i;
          n = to_string (int i + 1)
      in fill_point pack device (''relay_'' @ n) (''Relay '' @ n) [] PV_Boolean
           (if isOn then Fin 1 else Fin 0) (if isOn then ''on'' else ''off''))"

definition appendRelayPoints :: "TelemetryPack \<Rightarrow> DeviceData \<Rightarrow> TelemetryPoint list" where
  "appendRelayPoints pack device =
     map (relay_channel_point pack device) [0..<nat (relay_channel_count (dd_relay device))]"

definition appendSysInfoPoints :: "TelemetryPack \<Rightarrow> DeviceData \<Rightarrow> TelemetryPoint list" where
  "appendSysInfoPoints pack device =
    [fill_point pack device ''kernel'' ''Kernel Version'' [] PV_Text (Fin 0)
       (si_kernel (dd_sys device)),
     fill_point pack device ''arch'' ''Architecture'' [] PV_Text (Fin 0)
       (si_arch (dd_sys device)),
     fill_point pack device ''os'' ''Operating System'' [] PV_Text (Fin 0)
       (si_os (dd_sys device)),
     fill_point pack device ''screen_width'' ''Screen Width'' ''px'' PV_Number
       (Fin (of_int (si_screenWidth (dd_sys device)))) [],
     fill_point pack device ''screen_height'' ''Screen Height'' ''px'' PV_Number
       (Fin (of_int (si_screenHeight (dd_sys device)))) [],
     fill_point pack device ''cpu_usage'' ''CPU Usage'' [CHR 0x25] PV_Number
       (si_cpuUsage (dd_sys device)) [],
     fill_point pack device ''memory_usage'' ''Memory Usage'' [CHR 0x25] PV_Number
       (si_memoryUsage (dd_sys device)) []]"

definition appendUnknownDevicePoint :: "TelemetryPack \<Rightarrow> DeviceData \<Rightarrow> TelemetryPoint list" where
  "appendUnknownDevicePoint pack device =
     (let text = (if dd_errorMessage device = [] then ''unknown_device_type''
                  else dd_errorMessage device)
      in [(fill_point pack device ''unknown_status'' ''Unknown Device Status'' [] PV_Text (Fin 0) text)
           \<lparr>tp_valid := False, tp_errorMessage := text\<rparr>])"

definition device_points :: "TelemetryPack \<Rightarrow> DeviceData \<Rightarrow> TelemetryPoint list" where
  "device_points pack device =
     (case dd_type device of
        DT_SensorTH \<Rightarrow> appendTemperatureHumidityPoints pack device
      | DT_ElectricMeter \<Rightarrow> appendElectricMeterPoints pack device
      | DT_Relay \<Rightarrow> appendRelayPoints pack device
      | DT_SysInfo \<Rightarrow> appendSysInfoPoints pack device
      | DT_Unknown \<Rightarrow> appendUnknownDevicePoint pack device)"

definition toTelemetryPoints :: "TelemetryPack \<Rightarrow> TelemetryPoint list" where
  "toTelemetryPoints pack = concat (map (device_points pack) (pk_devices pack))"

subsection \<open>Point identities\<close>

lemmas append_defs = device_points_def appendTemperatureHumidityPoints_def appendElectricMeterPoints_def
  appendRelayPoints_def appendSysInfoPoints_def appendUnknownDevicePoint_def
  relay_channel_point_def Let_def

lemma fill_point_fields [simp]:
  "tp_pointKey (fill_point pack d k nm u vt x t) = k"
  "tp_pointId (fill_point pack d k nm u vt x t) = pack_point_id pack d k"
  "tp_deviceId (fill_point pack d k nm u vt x t) = dd_deviceId d"
  "tp_gatewayId (fill_point pack d k nm u vt x t) = sc_gatewayId (pk_site pack)"
  "tp_portId (fill_point pack d k nm u vt x t) = sc_portId (pk_site pack)"
  "tp_factoryId (fill_point pack d k nm u vt x t) = sc_factoryId (pk_site pack)"
  "tp_areaId (fill_point pack d k nm u vt x t) = sc_areaId (pk_site pack)"
  "tp_timestampMs (fill_point pack d k nm u vt x t) = pk_timestampMs pack"
  "tp_valid (fill_point pack d k nm u vt x t) = dd_valid d"
  "tp_errorMessage (fill_point pack d k nm u vt x t) = dd_errorMessage d"
  "tp_numberValue (fill_point pack d k nm u vt x t) = x"
  "tp_textValue (fill_point pack d k nm u vt x t) = t"
  "tp_deviceType (fill_point pack d k nm u vt x t) = deviceTypeToString (dd_type d)"
  by (simp_all add: fill_point_def makeBasePoint_def)

text \<open>Every point carries the pack's site, its device's identity and the id built from both.\<close>

definition point_of :: "TelemetryPack \<Rightarrow> DeviceData \<Rightarrow> TelemetryPoint \<Rightarrow> bool" where
  "point_of pack d p \<longleftrightarrow>
     tp_gatewayId p = sc_gatewayId (pk_site pack) \<and> tp_portId p = sc_portId (pk_site pack) \<and>
     tp_factoryId p = sc_factoryId (pk_site pack) \<and> tp_areaId p = sc_areaId (pk_site pack) \<and>
     tp_timestampMs p = pk_timestampMs pack \<and> tp_deviceId p = dd_deviceId d \<and>
     tp_deviceType p = deviceTypeToString (dd_type d) \<and>
     tp_pointId p = pack_point_id pack d (tp_pointKey p) \<and>
     tp_valid p = (dd_valid d \<and> dd_type d \<noteq> DT_Unknown)"

lemma device_points_point_of: "p \<in> set (device_points pack d) \<Longrightarrow> point_of pack d p"
  by (cases "dd_type d") (auto simp: append_defs point_of_def)

lemma pack_point_id_inject:
  assumes "CHR ''.'' \<notin> set k" "CHR ''.'' \<notin> set k'"
  shows "pack_point_id pack d k = pack_point_id pack d' k' \<longleftrightarrow>
           dd_deviceId d = dd_deviceId d' \<and> k = k'"
proof
  assume "pack_point_id pack d k = pack_point_id pack d' k'"
  then have "to_string (dd_deviceId d) @ CHR ''.'' # k = to_string (dd_deviceId d') @ CHR ''.'' # k'"
    by (simp add: pack_point_id_def buildPointId_def)
  then show "dd_deviceId d = dd_deviceId d' \<and> k = k'"
    using split_at_sep [OF _ dot_notin_to_string dot_notin_to_string] to_string_inject by blast
qed (simp add: pack_point_id_def)

lemma device_points_key_no_dot: "p \<in> set (device_points pack d) \<Longrightarrow> CHR ''.'' \<notin> set (tp_pointKey p)"
  by (cases "dd_type d") (auto simp: append_defs)

lemma relay_key_distinct: "inj_on (\<lambda>i::nat. ''relay_'' @ to_string (int i + 1)) A"
  by (auto simp: inj_on_def)

lemma device_points_keys_distinct: "distinct (map tp_pointKey (device_points pack d))"
proof (cases "dd_type d")
  case DT_Relay
  then show ?thesis
    using relay_key_distinct
    by (simp add: append_defs comp_def distinct_map)
qed (simp_all add: append_defs)

lemma distinct_map_factor:
  "distinct (map f xs) \<Longrightarrow> inj_on g (f ` set xs) \<Longrightarrow> distinct (map (\<lambda>x. g (f x)) xs)"
  by (auto simp: distinct_map inj_on_def)

lemma device_points_ids_distinct: "distinct (map tp_pointId (device_points pack d))"
proof -
  have "map tp_pointId (device_points pack d) =
      map (\<lambda>p. pack_point_id pack d (tp_pointKey p)) (device_points pack d)"
    using device_points_point_of by (auto simp: point_of_def)
  moreover have "inj_on (pack_point_id pack d) (tp_pointKey ` set (device_points pack d))"
    using device_points_key_no_dot by (auto simp: inj_on_def pack_point_id_inject)
  ultimately show ?thesis
    using distinct_map_factor [OF device_points_keys_distinct] by metis
qed

lemma toTelemetryPoints_mem:
  "p \<in> set (toTelemetryPoints pack) \<longleftrightarrow> (\<exists>d \<in> set (pk_devices pack). p \<in> set (device_points pack d))"
  by (simp add: toTelemetryPoints_def)

lemma points_ids_distinct_aux:
  "distinct (map dd_deviceId ds) \<Longrightarrow>
   distinct (map tp_pointId (concat (map (device_points pack) ds)))"
proof (induction ds)
  case (Cons d ds)
  have "tp_pointId p \<noteq> tp_pointId q"
    if p: "p \<in> set (device_points pack d)" and e: "e \<in> set ds" and q: "q \<in> set (device_points pack e)"
    for p e q
  proof -
    have "dd_deviceId d \<noteq> dd_deviceId e" using Cons.prems e by auto
    then show ?thesis
      using p q device_points_point_of device_points_key_no_dot
      by (simp add: point_of_def pack_point_id_inject)
  qed
  then show ?case
    using Cons device_points_ids_distinct [of pack d] by auto
qed simp

lemma relay_channel_count_range: "1 \<le> relay_channel_count r \<and> relay_channel_count r \<le> 64"
  by (simp add: relay_channel_count_def Let_def)

lemma relay_channel_count_id:
  "1 \<le> rd_channelCount r \<Longrightarrow> rd_channelCount r \<le> 64 \<Longrightarrow> relay_channel_count r = rd_channelCount r"
  by (simp add: relay_channel_count_def Let_def)

end
