(* ===== verification/ServiceState.thy ===== *)
theory ServiceState
  imports DataModel
begin

text \<open>
  The state of Pc_data/service/PcDataService.cpp, its map keys and its tombstones.  Every
  public operation of the class takes the one mutex for its whole body (or, in
  \<open>collectSyncConfigTimeouts\<close>, for each of its parts), so it is a function on this record.
  \<open>now\<close> is the value of \<open>currentTimeMs()\<close> in the call.
\<close>

subsection \<open>Records of PcDataService.hpp\<close>

record SyncSelectedDevice =
  sd_portId :: string
  sd_deviceId :: int

record SyncGatewaySelection =
  sg_gatewayId :: string
  sg_devices :: "SyncSelectedDevice list"

record SyncGatewayPending =
  sp_requestId :: int
  sp_seq :: int
  sp_gatewayId :: string
  sp_devices :: "SyncSelectedDevice list"
  sp_requestTimeMs :: int

record SyncConfigResult =
  sr_ready :: bool
  sr_success :: bool
  sr_message :: string
  sr_portCount :: int
  sr_deviceCount :: int

definition SyncConfigResult_default :: SyncConfigResult where
  "SyncConfigResult_default =
    \<lparr>sr_ready = False, sr_success = False, sr_message = [], sr_portCount = 0, sr_deviceCount = 0\<rparr>"

record PendingCommandTarget =
  ct_commandId :: string
  ct_uiSeq :: int
  ct_boardSeq :: int
  ct_commandType :: string
  ct_gatewayId :: string
  ct_portId :: string
  ct_deviceId :: int
  ct_requestTimeMs :: int
  ct_timeoutNotified :: bool
  ct_hardTimeoutNotified :: bool

record PcDataService =
  m_snapshot :: "(string, TelemetryPoint) umap"
  m_deviceRegistry :: "(string, DeviceRecord) umap"
  m_gatewayPorts :: "(string, GatewayPort) umap"
  m_gatewayStatuses :: "(string, GatewayStatus) umap"
  m_pointConfigs :: "(string, PointConfig) umap"
  m_registeredGateways :: "string set"
  m_registeredPorts :: "string set"
  m_registeredDeviceTypes :: "(string, string) umap"
  m_registeredPointConfigs :: "string set"
  m_removedDevices :: "(string, int) umap"
  m_removedMasters :: "(string, int) umap"
  m_syncPendingBySeq :: "(int, SyncGatewayPending) umap"
  m_syncRequests :: "(int, SyncGatewayPending list) umap"
  m_syncRequestResults :: "(int, SyncConfigResult) umap"
  m_pendingCommandsByCommandId :: "(string, PendingCommandTarget) umap"
  m_nextSyncRequestId :: int
  m_nextSyncSeq :: int

definition svc_init :: PcDataService where
  "svc_init =
    \<lparr>m_snapshot = um_empty, m_deviceRegistry = um_empty, m_gatewayPorts = um_empty,
     m_gatewayStatuses = um_empty, m_pointConfigs = um_empty, m_registeredGateways = {},
     m_registeredPorts = {}, m_registeredDeviceTypes = um_empty, m_registeredPointConfigs = {},
     m_removedDevices = um_empty, m_removedMasters = um_empty, m_syncPendingBySeq = um_empty,
     m_syncRequests = um_empty, m_syncRequestResults = um_empty,
     m_pendingCommandsByCommandId = um_empty, m_nextSyncRequestId = 1, m_nextSyncSeq = 1\<rparr>"

subsection \<open>Keys\<close>

definition registryPortKey :: "string \<Rightarrow> string \<Rightarrow> string" where
  "registryPortKey gatewayId portId = gatewayId @ ''/'' @ portId"

definition registryDeviceKey :: "string \<Rightarrow> string \<Rightarrow> int \<Rightarrow> string" where
  "registryDeviceKey gatewayId portId deviceId =
     gatewayId @ ''/'' @ portId @ ''/'' @ to_string deviceId"

definition registryPointKey :: "string \<Rightarrow> string \<Rightarrow> int \<Rightarrow> string \<Rightarrow> string" where
  "registryPointKey gatewayId portId deviceId pointKey =
     registryDeviceKey gatewayId portId deviceId @ ''/'' @ pointKey"

text \<open>
  The file-local functions \<open>removedDeviceKey\<close>, \<open>deviceRegistryKey\<close>, \<open>removedMasterKey\<close>,
  \<open>portRegistryKey\<close> and \<open>pointRegistryKey\<close> build the same strings.
\<close>

definition removedDeviceKey :: "string \<Rightarrow> string \<Rightarrow> int \<Rightarrow> string" where
  "removedDeviceKey gatewayId portId deviceId =
     gatewayId @ ''/'' @ portId @ ''/'' @ to_string deviceId"

definition removedMasterKey :: "string \<Rightarrow> string \<Rightarrow> string" where
  "removedMasterKey gatewayId portId = gatewayId @ ''/'' @ portId"

definition deviceRegistryKey :: "string \<Rightarrow> string \<Rightarrow> int \<Rightarrow> string" where
  "deviceRegistryKey gatewayId portId deviceId =
     gatewayId @ ''/'' @ portId @ ''/'' @ to_string deviceId"

definition portRegistryKey :: "string \<Rightarrow> string \<Rightarrow> string" where
  "portRegistryKey gatewayId portId = gatewayId @ ''/'' @ portId"

definition pointRegistryKey :: "string \<Rightarrow> string \<Rightarrow> int \<Rightarrow> string \<Rightarrow> string" where
  "pointRegistryKey gatewayId portId deviceId pointKey =
     deviceRegistryKey gatewayId portId deviceId @ ''/'' @ pointKey"

definition telemetryDeviceKey :: "TelemetryPoint \<Rightarrow> string" where
  "telemetryDeviceKey point =
     deviceRegistryKey (tp_gatewayId point) (tp_portId point) (tp_deviceId point)"

lemma key_same [simp]:
  "removedDeviceKey g p d = registryDeviceKey g p d"
  "deviceRegistryKey g p d = registryDeviceKey g p d"
  "removedMasterKey g p = registryPortKey g p"
  "portRegistryKey g p = registryPortKey g p"
  "pointRegistryKey g p d k = registryPointKey g p d k"
  by (simp_all add: removedDeviceKey_def deviceRegistryKey_def registryDeviceKey_def
      removedMasterKey_def registryPortKey_def portRegistryKey_def pointRegistryKey_def
      registryPointKey_def)

lemma deviceKey_portKey: "registryDeviceKey g p d = registryPortKey g p @ ''/'' @ to_string d"
  by (simp add: registryDeviceKey_def registryPortKey_def)

lemma registryPortKey_inject:
  assumes "CHR ''/'' \<notin> set p" "CHR ''/'' \<notin> set p'"
  shows "registryPortKey g p = registryPortKey g' p' \<longleftrightarrow> g = g' \<and> p = p'"
  using split_at_last_sep [of g "CHR ''/''" p g' p'] assms by (auto simp: registryPortKey_def)

lemma deviceKey_split:
  "registryDeviceKey g p d = registryDeviceKey g' p' d' \<longleftrightarrow>
     registryPortKey g p = registryPortKey g' p' \<and> d = d'"
  using split_at_last_sep [of "registryPortKey g p" "CHR ''/''" "to_string d"
      "registryPortKey g' p'" "to_string d'"]
  by (auto simp: deviceKey_portKey)

lemma registryDeviceKey_inject:
  assumes "CHR ''/'' \<notin> set p" "CHR ''/'' \<notin> set p'"
  shows "registryDeviceKey g p d = registryDeviceKey g' p' d' \<longleftrightarrow> g = g' \<and> p = p' \<and> d = d'"
  using assms by (simp add: deviceKey_split registryPortKey_inject)

lemma starts_with_gateway [simp]:
  "starts_with (g @ ''/'') (registryDeviceKey g p d)"
  "starts_with (g @ ''/'') (registryPortKey g p)"
  "starts_with (g @ ''/'') (registryPointKey g p d k)"
  by (auto simp: starts_with_iff registryDeviceKey_def registryPortKey_def registryPointKey_def)

subsection \<open>Tombstones of removed devices and ports\<close>

definition kRemovedDeviceIgnoreMs :: int where "kRemovedDeviceIgnoreMs = 30000"

definition pruneExpiredRemovedDevicesLocked :: "int \<Rightarrow> PcDataService \<Rightarrow> PcDataService" where
  "pruneExpiredRemovedDevicesLocked nowMs s = s
     \<lparr>m_removedDevices := um_erase_if (\<lambda>_ expiry. expiry \<le> nowMs) (m_removedDevices s),
      m_removedMasters := um_erase_if (\<lambda>_ expiry. expiry \<le> nowMs) (m_removedMasters s)\<rparr>"

definition rememberRemovedDeviceLocked ::
    "string \<Rightarrow> string \<Rightarrow> int \<Rightarrow> int \<Rightarrow> PcDataService \<Rightarrow> PcDataService" where
  "rememberRemovedDeviceLocked gatewayId portId deviceId nowMs s =
     (if gatewayId = [] \<or> portId = [] \<or> deviceId \<le> 0 then s
      else s\<lparr>m_removedDevices := um_set (removedDeviceKey gatewayId portId deviceId)
               (nowMs + kRemovedDeviceIgnoreMs) (m_removedDevices s)\<rparr>)"

definition isRemovedDeviceLocked :: "string \<Rightarrow> string \<Rightarrow> int \<Rightarrow> PcDataService \<Rightarrow> bool" where
  "isRemovedDeviceLocked gatewayId portId deviceId s \<longleftrightarrow>
     um_find (m_removedDevices s) (removedDeviceKey gatewayId portId deviceId) \<noteq> None"

definition isRemovedMasterLocked :: "string \<Rightarrow> string \<Rightarrow> PcDataService \<Rightarrow> bool" where
  "isRemovedMasterLocked gatewayId portId s \<longleftrightarrow>
     um_find (m_removedMasters s) (removedMasterKey gatewayId portId) \<noteq> None"

definition shouldAcceptNewDeviceDataLocked ::
    "string \<Rightarrow> string \<Rightarrow> int \<Rightarrow> int \<Rightarrow> PcDataService \<Rightarrow> bool \<times> PcDataService" where
  "shouldAcceptNewDeviceDataLocked gatewayId portId deviceId dataTimeMs s =
     (if dataTimeMs \<le> 0 then (False, s)
      else let deviceKey = removedDeviceKey gatewayId portId deviceId;
               masterKey = removedMasterKey gatewayId portId;
               late = (\<lambda>found. case found of None \<Rightarrow> False
                        | Some expiry \<Rightarrow> dataTimeMs \<ge> expiry - kRemovedDeviceIgnoreMs)
           in if late (um_find (m_removedDevices s) deviceKey)
              then (True, s\<lparr>m_removedDevices := um_erase deviceKey (m_removedDevices s),
                            m_removedMasters := um_erase masterKey (m_removedMasters s)\<rparr>)
              else if late (um_find (m_removedMasters s) masterKey)
              then (True, s\<lparr>m_removedMasters := um_erase masterKey (m_removedMasters s)\<rparr>)
              else (False, s))"

lemma prune_find [simp]:
  "um_find (m_removedDevices (pruneExpiredRemovedDevicesLocked now s)) k = Some e \<longleftrightarrow>
     um_find (m_removedDevices s) k = Some e \<and> now < e"
  "um_find (m_removedMasters (pruneExpiredRemovedDevicesLocked now s)) k = Some e \<longleftrightarrow>
     um_find (m_removedMasters s) k = Some e \<and> now < e"
  by (auto simp: pruneExpiredRemovedDevicesLocked_def lookup_simps split: option.splits)

lemma prune_frame [simp]:
  "m_snapshot (pruneExpiredRemovedDevicesLocked now s) = m_snapshot s"
  "m_deviceRegistry (pruneExpiredRemovedDevicesLocked now s) = m_deviceRegistry s"
  "m_gatewayPorts (pruneExpiredRemovedDevicesLocked now s) = m_gatewayPorts s"
  "m_gatewayStatuses (pruneExpiredRemovedDevicesLocked now s) = m_gatewayStatuses s"
  "m_pointConfigs (pruneExpiredRemovedDevicesLocked now s) = m_pointConfigs s"
  "m_registeredGateways (pruneExpiredRemovedDevicesLocked now s) = m_registeredGateways s"
  "m_registeredPorts (pruneExpiredRemovedDevicesLocked now s) = m_registeredPorts s"
  "m_registeredDeviceTypes (pruneExpiredRemovedDevicesLocked now s) = m_registeredDeviceTypes s"
  "m_registeredPointConfigs (pruneExpiredRemovedDevicesLocked now s) = m_registeredPointConfigs s"
  by (simp_all add: pruneExpiredRemovedDevicesLocked_def)

lemma rememberRemoved_frame [simp]:
  "m_snapshot (rememberRemovedDeviceLocked g p d now s) = m_snapshot s"
  "m_deviceRegistry (rememberRemovedDeviceLocked g p d now s) = m_deviceRegistry s"
  "m_gatewayPorts (rememberRemovedDeviceLocked g p d now s) = m_gatewayPorts s"
  "m_pointConfigs (rememberRemovedDeviceLocked g p d now s) = m_pointConfigs s"
  "m_registeredGateways (rememberRemovedDeviceLocked g p d now s) = m_registeredGateways s"
  "m_registeredPorts (rememberRemovedDeviceLocked g p d now s) = m_registeredPorts s"
  "m_registeredDeviceTypes (rememberRemovedDeviceLocked g p d now s) = m_registeredDeviceTypes s"
  "m_registeredPointConfigs (rememberRemovedDeviceLocked g p d now s) = m_registeredPointConfigs s"
  "m_removedMasters (rememberRemovedDeviceLocked g p d now s) = m_removedMasters s"
  by (simp_all add: rememberRemovedDeviceLocked_def)

end
