(* ===== verification/ServiceTelemetry.thy ===== *)
theory ServiceTelemetry
  imports ServiceState ModelConverter
begin

text \<open>
  The telemetry half of Pc_data/service/PcDataService.cpp: the snapshot of latest points,
  the removal of a device or a port, and the tombstones that keep late packets of a removed
  device out for \<open>kRemovedDeviceIgnoreMs\<close>.
\<close>

subsection \<open>Accepting points\<close>

definition point_blocked :: "PcDataService \<Rightarrow> TelemetryPoint \<Rightarrow> bool" where
  "point_blocked s point \<longleftrightarrow>
     isRemovedDeviceLocked (tp_gatewayId point) (tp_portId point) (tp_deviceId point) s
     \<or> isRemovedMasterLocked (tp_gatewayId point) (tp_portId point) s"

definition accepted_points :: "int \<Rightarrow> PcDataService \<Rightarrow> TelemetryPoint list \<Rightarrow> TelemetryPoint list" where
  "accepted_points now s points =
     filter (\<lambda>point. tp_pointId point \<noteq> [] \<and> \<not> point_blocked s point)
       (map (tp_receiveTimeMs_update (\<lambda>_. now)) points)"

definition store_point :: "(string, TelemetryPoint) umap \<Rightarrow> TelemetryPoint \<Rightarrow> (string, TelemetryPoint) umap" where
  "store_point snap point =
     (case um_find snap (tp_pointId point) of
        None \<Rightarrow> um_set (tp_pointId point) point snap
      | Some old \<Rightarrow> if tp_receiveTimeMs point \<ge> tp_receiveTimeMs old
                    then um_set (tp_pointId point) point snap else snap)"

definition handleTelemetryPoints :: "int \<Rightarrow> TelemetryPoint list \<Rightarrow> PcDataService \<Rightarrow> PcDataService" where
  "handleTelemetryPoints receiveTimeMs points s =
     (let s = pruneExpiredRemovedDevicesLocked receiveTimeMs s;
          accepted = accepted_points receiveTimeMs s points;
          incoming = telemetryDeviceKey ` set accepted;
          snap = (if incoming \<noteq> {}
                  then um_erase_if (\<lambda>_ p. telemetryDeviceKey p \<in> incoming) (m_snapshot s)
                  else m_snapshot s)
      in s\<lparr>m_snapshot := foldl store_point snap accepted\<rparr>)"

text \<open>
  A whole pack at once, as the source has it (line 33).  Nothing under src/ calls it: packs come in
  through \<open>handleTelemetryMessage\<close> of MqttMessageHandler.cpp (\<open>PcTelemetry\<close>), which filters the points
  against the registry first and hands them to \<open>handleTelemetryPoints\<close>.
\<close>

definition handleTelemetryPack :: "int \<Rightarrow> TelemetryPack \<Rightarrow> PcDataService \<Rightarrow> PcDataService" where
  "handleTelemetryPack now pack s = handleTelemetryPoints now (toTelemetryPoints pack) s"

subsection \<open>Queries\<close>

definition getLatestPoints :: "PcDataService \<Rightarrow> TelemetryPoint list" where
  "getLatestPoints s = um_values (m_snapshot s)"

definition getPointById :: "string \<Rightarrow> PcDataService \<Rightarrow> TelemetryPoint option" where
  "getPointById pointId s = um_find (m_snapshot s) pointId"

definition same_device :: "string \<Rightarrow> string \<Rightarrow> int \<Rightarrow> TelemetryPoint \<Rightarrow> bool" where
  "same_device g p d point \<longleftrightarrow> tp_gatewayId point = g \<and> tp_portId point = p \<and> tp_deviceId point = d"

definition getLatestPointsForDevice ::
    "string \<Rightarrow> string \<Rightarrow> int \<Rightarrow> PcDataService \<Rightarrow> TelemetryPoint list" where
  "getLatestPointsForDevice gatewayId portId deviceId s =
     filter (same_device gatewayId portId deviceId) (um_values (m_snapshot s))"

definition isRemovedDevice ::
    "int \<Rightarrow> string \<Rightarrow> string \<Rightarrow> int \<Rightarrow> PcDataService \<Rightarrow> bool \<times> PcDataService" where
  "isRemovedDevice now gatewayId portId deviceId s =
     (if gatewayId = [] \<or> portId = [] \<or> deviceId \<le> 0 then (False, s)
      else let s = pruneExpiredRemovedDevicesLocked now s
           in (isRemovedDeviceLocked gatewayId portId deviceId s, s))"

definition filterRemovedPoints ::
    "int \<Rightarrow> TelemetryPoint list \<Rightarrow> PcDataService \<Rightarrow> TelemetryPoint list \<times> PcDataService" where
  "filterRemovedPoints now points s =
     (let s = pruneExpiredRemovedDevicesLocked now s
      in (filter (\<lambda>point. \<not> point_blocked s point) points, s))"

subsection \<open>Removal\<close>

definition removeDeviceData ::
    "int \<Rightarrow> string \<Rightarrow> string \<Rightarrow> int \<Rightarrow> PcDataService \<Rightarrow> bool \<times> PcDataService" where
  "removeDeviceData nowMs gatewayId portId deviceId s =
     (if gatewayId = [] \<or> portId = [] \<or> deviceId \<le> 0 then (False, s)
      else
        let s = pruneExpiredRemovedDevicesLocked nowMs s;
            removed = list_ex (same_device gatewayId portId deviceId) (um_values (m_snapshot s));
            pointPrefix = registryDeviceKey gatewayId portId deviceId @ ''/'';
            s = s\<lparr>m_snapshot :=
                    um_erase_if (\<lambda>_ point. same_device gatewayId portId deviceId point) (m_snapshot s),
                  m_registeredDeviceTypes :=
                    um_erase (registryDeviceKey gatewayId portId deviceId) (m_registeredDeviceTypes s),
                  m_registeredPointConfigs :=
                    Set.filter (\<lambda>k. \<not> starts_with pointPrefix k) (m_registeredPointConfigs s)\<rparr>
        in (removed, rememberRemovedDeviceLocked gatewayId portId deviceId nowMs s))"

definition same_port :: "string \<Rightarrow> string \<Rightarrow> TelemetryPoint \<Rightarrow> bool" where
  "same_port g p point \<longleftrightarrow> tp_gatewayId point = g \<and> tp_portId point = p"

definition remember_points :: "int \<Rightarrow> TelemetryPoint list \<Rightarrow> PcDataService \<Rightarrow> PcDataService" where
  "remember_points nowMs points s =
     foldl (\<lambda>s point. rememberRemovedDeviceLocked (tp_gatewayId point) (tp_portId point)
                        (tp_deviceId point) nowMs s) s points"

definition removeMasterData ::
    "int \<Rightarrow> string \<Rightarrow> string \<Rightarrow> PcDataService \<Rightarrow> bool \<times> PcDataService" where
  "removeMasterData nowMs gatewayId portId s =
     (if gatewayId = [] \<or> portId = [] then (False, s)
      else
        let s = pruneExpiredRemovedDevicesLocked nowMs s;
            hits = filter (same_port gatewayId portId) (um_values (m_snapshot s));
            s = remember_points nowMs hits s;
            masterPrefix = registryPortKey gatewayId portId @ ''/'';
            s = s\<lparr>m_snapshot := um_erase_if (\<lambda>_ point. same_port gatewayId portId point) (m_snapshot s),
                  m_registeredDeviceTypes :=
                    um_erase_if (\<lambda>k _. starts_with masterPrefix k) (m_registeredDeviceTypes s),
                  m_registeredPointConfigs :=
                    Set.filter (\<lambda>k. \<not> starts_with masterPrefix k) (m_registeredPointConfigs s),
                  m_registeredPorts := m_registeredPorts s - {registryPortKey gatewayId portId},
                  m_removedMasters := um_set (removedMasterKey gatewayId portId)
                    (nowMs + kRemovedDeviceIgnoreMs) (m_removedMasters s)\<rparr>
        in (hits \<noteq> [], s))"

definition forgetRemovedDevice ::
    "int \<Rightarrow> string \<Rightarrow> string \<Rightarrow> int \<Rightarrow> PcDataService \<Rightarrow> PcDataService" where
  "forgetRemovedDevice now gatewayId portId deviceId s =
     (if gatewayId = [] \<or> portId = [] \<or> deviceId \<le> 0 then s
      else let s = pruneExpiredRemovedDevicesLocked now s
           in s\<lparr>m_removedDevices :=
                  um_erase (removedDeviceKey gatewayId portId deviceId) (m_removedDevices s),
                m_removedMasters :=
                  um_erase (removedMasterKey gatewayId portId) (m_removedMasters s)\<rparr>)"

subsection \<open>The snapshot after a batch of points\<close>

text \<open>The last point of a batch with a given id.\<close>

definition last_with_id :: "string \<Rightarrow> TelemetryPoint list \<Rightarrow> TelemetryPoint option" where
  "last_with_id pid ps = find (\<lambda>p. tp_pointId p = pid) (rev ps)"

lemma last_with_id_snoc:
  "last_with_id pid (ps @ [p]) = (if tp_pointId p = pid then Some p else last_with_id pid ps)"
  by (simp add: last_with_id_def)

lemma last_with_id_Some:
  "last_with_id pid ps = Some p \<Longrightarrow> p \<in> set ps \<and> tp_pointId p = pid"
  by (auto simp: last_with_id_def find_Some_iff in_set_conv_nth rev_nth)
    (metis diff_Suc_less length_0_conv length_greater_0_conv less_nat_zero_code)

lemma last_with_id_None: "last_with_id pid ps = None \<longleftrightarrow> pid \<notin> tp_pointId ` set ps"
  by (auto simp: last_with_id_def find_None_iff)

lemma store_point_find:
  assumes "\<And>k q. um_find snap k = Some q \<Longrightarrow> tp_receiveTimeMs q \<le> tp_receiveTimeMs p"
  shows "um_find (store_point snap p) k = (if k = tp_pointId p then Some p else um_find snap k)"
  using assms by (auto simp: store_point_def lookup_simps split: option.splits)

lemma store_points_find:
  assumes "\<And>k q. um_find snap k = Some q \<Longrightarrow> tp_receiveTimeMs q \<le> now"
    and "\<forall>p \<in> set ps. tp_receiveTimeMs p = now"
  shows "um_find (foldl store_point snap ps) k =
           (case last_with_id k ps of Some p \<Rightarrow> Some p | None \<Rightarrow> um_find snap k)"
  using assms(2)
proof (induction ps arbitrary: k rule: rev_induct)
  case Nil
  then show ?case by (simp add: last_with_id_def)
next
  case (snoc p ps)
  have "tp_receiveTimeMs q \<le> tp_receiveTimeMs p"
    if "um_find (foldl store_point snap ps) j = Some q" for j q
    using snoc that assms(1) last_with_id_Some by (fastforce split: option.splits)
  then have "um_find (store_point (foldl store_point snap ps) p) k =
      (if k = tp_pointId p then Some p else um_find (foldl store_point snap ps) k)"
    by (rule store_point_find)
  then show ?case using snoc by (simp add: last_with_id_snoc)
qed

lemma accepted_points_receive: "\<forall>p \<in> set (accepted_points now s ps). tp_receiveTimeMs p = now"
  by (auto simp: accepted_points_def)

lemma accepted_points_mem:
  "p \<in> set (accepted_points now s ps) \<Longrightarrow> tp_pointId p \<noteq> [] \<and> \<not> point_blocked s p"
  by (auto simp: accepted_points_def)

lemma handleTelemetryPoints_find:
  fixes s now ps
  defines "acc \<equiv> accepted_points now (pruneExpiredRemovedDevicesLocked now s) ps"
  assumes "\<And>k q. um_find (m_snapshot s) k = Some q \<Longrightarrow> tp_receiveTimeMs q \<le> now"
  shows "um_find (m_snapshot (handleTelemetryPoints now ps s)) k =
     (case last_with_id k acc of Some p \<Rightarrow> Some p
      | None \<Rightarrow> (case um_find (m_snapshot s) k of None \<Rightarrow> None
                | Some q \<Rightarrow> if telemetryDeviceKey q \<in> telemetryDeviceKey ` set acc then None else Some q))"
proof -
  let ?snap = "um_erase_if (\<lambda>_ p. telemetryDeviceKey p \<in> telemetryDeviceKey ` set acc) (m_snapshot s)"
  have "um_find (foldl store_point ?snap acc) k =
      (case last_with_id k acc of Some p \<Rightarrow> Some p | None \<Rightarrow> um_find ?snap k)"
    using assms(2) accepted_points_receive [of now _ ps] unfolding acc_def
    by (intro store_points_find) (auto simp: lookup_simps split: option.splits if_splits)
  moreover have "acc = [] \<Longrightarrow> um_find ?snap k = um_find (m_snapshot s) k"
    by (simp add: lookup_simps split: option.splits)
  ultimately show ?thesis
    by (auto simp: handleTelemetryPoints_def Let_def acc_def [symmetric] lookup_simps
        last_with_id_def split: option.splits)
qed

lemma handleTelemetryPoints_frame:
  "handleTelemetryPoints now ps s =
     (pruneExpiredRemovedDevicesLocked now s)\<lparr>m_snapshot := m_snapshot (handleTelemetryPoints now ps s)\<rparr>"
  by (simp add: handleTelemetryPoints_def Let_def)

text \<open>Whatever the clock did, a stored point is an old one or an accepted one.\<close>

lemma foldl_store_origin:
  "um_find (foldl store_point snap ps) k = Some q \<Longrightarrow>
   (q \<in> set ps \<and> tp_pointId q = k) \<or> um_find snap k = Some q"
  by (induction ps arbitrary: snap)
    (fastforce simp: store_point_def lookup_simps split: option.splits if_splits)+

lemma handleTelemetryPoints_origin:
  assumes "um_find (m_snapshot (handleTelemetryPoints now ps s)) k = Some q"
  shows "(q \<in> set (accepted_points now (pruneExpiredRemovedDevicesLocked now s) ps) \<and> tp_pointId q = k)
       \<or> um_find (m_snapshot s) k = Some q"
  using foldl_store_origin assms
  by (fastforce simp: handleTelemetryPoints_def Let_def lookup_simps split: if_splits option.splits)

subsection \<open>Removal\<close>

lemma removeDeviceData_state:
  assumes "g \<noteq> []" "p \<noteq> []" "d > 0"
  shows "um_find (m_snapshot (snd (removeDeviceData now g p d s))) k =
           (case um_find (m_snapshot s) k of None \<Rightarrow> None
            | Some q \<Rightarrow> if same_device g p d q then None else Some q)"
    and "um_find (m_removedDevices (snd (removeDeviceData now g p d s))) (registryDeviceKey g p d)
           = Some (now + kRemovedDeviceIgnoreMs)"
    and "m_deviceRegistry (snd (removeDeviceData now g p d s)) = m_deviceRegistry s"
    and "m_pointConfigs (snd (removeDeviceData now g p d s)) = m_pointConfigs s"
    and "um_find (m_registeredDeviceTypes (snd (removeDeviceData now g p d s))) k =
           (if k = registryDeviceKey g p d then None else um_find (m_registeredDeviceTypes s) k)"
  using assms
  by (auto simp: removeDeviceData_def Let_def lookup_simps rememberRemovedDeviceLocked_def
      pruneExpiredRemovedDevicesLocked_def split: option.splits)

lemma remember_points_frame [simp]:
  "m_snapshot (remember_points now ps s) = m_snapshot s"
  "m_deviceRegistry (remember_points now ps s) = m_deviceRegistry s"
  "m_gatewayPorts (remember_points now ps s) = m_gatewayPorts s"
  "m_pointConfigs (remember_points now ps s) = m_pointConfigs s"
  "m_registeredPorts (remember_points now ps s) = m_registeredPorts s"
  "m_registeredGateways (remember_points now ps s) = m_registeredGateways s"
  "m_registeredDeviceTypes (remember_points now ps s) = m_registeredDeviceTypes s"
  "m_registeredPointConfigs (remember_points now ps s) = m_registeredPointConfigs s"
  "m_removedMasters (remember_points now ps s) = m_removedMasters s"
  unfolding remember_points_def by (induction ps arbitrary: s) simp_all

lemma remember_points_mono:
  "um_find (m_removedDevices s) k = Some e \<Longrightarrow> e \<le> now + kRemovedDeviceIgnoreMs \<Longrightarrow>
   \<exists>e' \<ge> e. um_find (m_removedDevices (remember_points now ps s)) k = Some e'"
proof (induction ps arbitrary: s e)
  case (Cons q ps)
  let ?s = "rememberRemovedDeviceLocked (tp_gatewayId q) (tp_portId q) (tp_deviceId q) now s"
  have "\<exists>e1. um_find (m_removedDevices ?s) k = Some e1 \<and> e \<le> e1 \<and> e1 \<le> now + kRemovedDeviceIgnoreMs"
    using Cons.prems by (auto simp: rememberRemovedDeviceLocked_def lookup_simps)
  then obtain e1 where "um_find (m_removedDevices ?s) k = Some e1" "e \<le> e1"
      "e1 \<le> now + kRemovedDeviceIgnoreMs"
    by blast
  then obtain e' where "um_find (m_removedDevices (remember_points now ps ?s)) k = Some e'" "e1 \<le> e'"
    using Cons.IH by blast
  then show ?case using \<open>e \<le> e1\<close> by (auto simp: remember_points_def)
qed (auto simp: remember_points_def)

end
