(* ===== verification/ServiceRegistry.thy ===== *)
theory ServiceRegistry
  imports ServiceState
begin

text \<open>
  The registry half of Pc_data/service/PcDataService.cpp: devices, ports, gateways and point
  configurations, their registration sets, and the replacement of one gateway's registry by
  a configuration snapshot.
\<close>

subsection \<open>Updates\<close>

definition put_device :: "DeviceRecord \<Rightarrow> PcDataService \<Rightarrow> PcDataService" where
  "put_device device s = s
     \<lparr>m_deviceRegistry := um_set (deviceRegistryKey (dr_gatewayId device) (dr_portId device)
         (dr_deviceId device)) device (m_deviceRegistry s),
      m_registeredPorts := insert (portRegistryKey (dr_gatewayId device) (dr_portId device))
         (m_registeredPorts s),
      m_registeredDeviceTypes := um_set (registryDeviceKey (dr_gatewayId device)
         (dr_portId device) (dr_deviceId device)) (dr_deviceType device) (m_registeredDeviceTypes s)\<rparr>"

definition add_gateway :: "string \<Rightarrow> PcDataService \<Rightarrow> PcDataService" where
  "add_gateway g s = s\<lparr>m_registeredGateways := insert g (m_registeredGateways s)\<rparr>"

definition put_port :: "GatewayPort \<Rightarrow> PcDataService \<Rightarrow> PcDataService" where
  "put_port port s = s
     \<lparr>m_gatewayPorts := um_set (portRegistryKey (gp_gatewayId port) (gp_portId port)) port
         (m_gatewayPorts s),
      m_registeredPorts := insert (registryPortKey (gp_gatewayId port) (gp_portId port))
         (m_registeredPorts s)\<rparr>"

definition put_config :: "PointConfig \<Rightarrow> PcDataService \<Rightarrow> PcDataService" where
  "put_config config s = s
     \<lparr>m_pointConfigs := um_set (pointRegistryKey (pc_gatewayId config) (pc_portId config)
         (pc_deviceId config) (pc_pointKey config)) config (m_pointConfigs s),
      m_registeredPointConfigs := insert (registryPointKey (pc_gatewayId config)
         (pc_portId config) (pc_deviceId config) (pc_pointKey config)) (m_registeredPointConfigs s)\<rparr>"

definition device_named :: "DeviceRecord \<Rightarrow> bool" where
  "device_named d \<longleftrightarrow> \<not> (dr_gatewayId d = [] \<or> dr_portId d = [] \<or> dr_deviceId d \<le> 0)"

definition port_named :: "GatewayPort \<Rightarrow> bool" where
  "port_named p \<longleftrightarrow> \<not> (gp_gatewayId p = [] \<or> gp_portId p = [])"

definition config_named :: "PointConfig \<Rightarrow> bool" where
  "config_named c \<longleftrightarrow> \<not> (pc_gatewayId c = [] \<or> pc_portId c = [] \<or> pc_deviceId c \<le> 0 \<or> pc_pointKey c = [])"

definition updateDeviceRegistry :: "DeviceRecord list \<Rightarrow> PcDataService \<Rightarrow> PcDataService" where
  "updateDeviceRegistry devices s =
     foldl (\<lambda>s device. if \<not> device_named device then s
                       else add_gateway (dr_gatewayId device) (put_device device s)) s devices"

definition updateGatewayPorts :: "GatewayPort list \<Rightarrow> PcDataService \<Rightarrow> PcDataService" where
  "updateGatewayPorts ports s =
     foldl (\<lambda>s port. if \<not> port_named port then s
                     else add_gateway (gp_gatewayId port) (put_port port s)) s ports"

definition updateGatewayStatuses :: "GatewayStatus list \<Rightarrow> PcDataService \<Rightarrow> PcDataService" where
  "updateGatewayStatuses gateways s =
     foldl (\<lambda>s gateway. if gs_gatewayId gateway = [] then s
              else add_gateway (gs_gatewayId gateway)
                (s\<lparr>m_gatewayStatuses := um_set (gs_gatewayId gateway) gateway (m_gatewayStatuses s)\<rparr>))
       s gateways"

definition updatePointConfigs :: "PointConfig list \<Rightarrow> PcDataService \<Rightarrow> PcDataService" where
  "updatePointConfigs configs s =
     foldl (\<lambda>s config. if \<not> config_named config then s else put_config config s) s configs"

definition updateGatewayPort :: "GatewayPort \<Rightarrow> PcDataService \<Rightarrow> PcDataService" where
  "updateGatewayPort port = updateGatewayPorts [port]"

definition updateGatewayStatus :: "GatewayStatus \<Rightarrow> PcDataService \<Rightarrow> PcDataService" where
  "updateGatewayStatus gateway = updateGatewayStatuses [gateway]"

definition updatePointConfig :: "PointConfig \<Rightarrow> PcDataService \<Rightarrow> PcDataService" where
  "updatePointConfig config = updatePointConfigs [config]"

text \<open>The \<open>remember\<close> operations write the same tables, in another order.\<close>

definition rememberGatewayRegistry :: "GatewayRegistry \<Rightarrow> PcDataService \<Rightarrow> PcDataService" where
  "rememberGatewayRegistry registry s =
     (if gr_gatewayId registry = [] then s else add_gateway (gr_gatewayId registry) s)"

definition rememberGatewayPorts :: "GatewayPort list \<Rightarrow> PcDataService \<Rightarrow> PcDataService" where
  "rememberGatewayPorts ports s =
     foldl (\<lambda>s port. if \<not> port_named port then s
                     else put_port port (add_gateway (gp_gatewayId port) s)) s ports"

definition rememberDeviceRegistry :: "DeviceRecord \<Rightarrow> PcDataService \<Rightarrow> PcDataService" where
  "rememberDeviceRegistry device s =
     (if \<not> device_named device then s
      else put_device device (add_gateway (dr_gatewayId device) s))"

definition rememberDeviceRegistries :: "DeviceRecord list \<Rightarrow> PcDataService \<Rightarrow> PcDataService" where
  "rememberDeviceRegistries devices s =
     foldl (\<lambda>s device. if \<not> device_named device then s
              else put_device device (add_gateway (dr_gatewayId device) s)) s devices"

definition rememberPointConfigs :: "PointConfig list \<Rightarrow> PcDataService \<Rightarrow> PcDataService" where
  "rememberPointConfigs configs s =
     foldl (\<lambda>s config. if \<not> config_named config then s else put_config config s) s configs"

definition forget_gateway :: "string \<Rightarrow> PcDataService \<Rightarrow> PcDataService" where
  "forget_gateway gatewayId s =
     (let ours = starts_with (gatewayId @ ''/'') in s
      \<lparr>m_registeredPorts := Set.filter (\<lambda>k. \<not> ours k) (m_registeredPorts s),
       m_registeredDeviceTypes := um_erase_if (\<lambda>k _. ours k) (m_registeredDeviceTypes s),
       m_registeredPointConfigs := Set.filter (\<lambda>k. \<not> ours k) (m_registeredPointConfigs s),
       m_deviceRegistry := um_erase_if (\<lambda>_ device. dr_gatewayId device = gatewayId) (m_deviceRegistry s),
       m_gatewayPorts := um_erase_if (\<lambda>_ port. gp_gatewayId port = gatewayId) (m_gatewayPorts s),
       m_pointConfigs := um_erase_if (\<lambda>_ config. pc_gatewayId config = gatewayId) (m_pointConfigs s)\<rparr>)"

definition replaceGatewayRegistry ::
    "string \<Rightarrow> GatewayPort list \<Rightarrow> DeviceRecord list \<Rightarrow> PointConfig list \<Rightarrow> bool
     \<Rightarrow> PcDataService \<Rightarrow> PcDataService" where
  "replaceGatewayRegistry gatewayId ports devices pointConfigs fullSnapshot s =
     (if gatewayId = [] then s
      else
        let s = add_gateway gatewayId s;
            s = (if fullSnapshot then forget_gateway gatewayId s else s);
            s = foldl (\<lambda>s port. if gp_gatewayId port = gatewayId \<and> gp_portId port \<noteq> []
                         then put_port port s else s) s ports;
            s = foldl (\<lambda>s device. if dr_gatewayId device = gatewayId \<and> dr_portId device \<noteq> []
                         \<and> dr_deviceId device > 0 then put_device device s else s) s devices
        in foldl (\<lambda>s config. if pc_gatewayId config = gatewayId \<and> pc_portId config \<noteq> []
                    \<and> pc_deviceId config > 0 \<and> pc_pointKey config \<noteq> []
                    then put_config config s else s) s pointConfigs)"

subsection \<open>Queries\<close>

definition getDeviceRegistrySnapshot :: "PcDataService \<Rightarrow> DeviceRecord list" where
  "getDeviceRegistrySnapshot s = um_values (m_deviceRegistry s)"

definition getGatewayPortSnapshot :: "PcDataService \<Rightarrow> GatewayPort list" where
  "getGatewayPortSnapshot s = um_values (m_gatewayPorts s)"

definition getGatewayStatusSnapshot :: "PcDataService \<Rightarrow> GatewayStatus list" where
  "getGatewayStatusSnapshot s = um_values (m_gatewayStatuses s)"

definition getPointConfigSnapshot :: "PcDataService \<Rightarrow> PointConfig list" where
  "getPointConfigSnapshot s = um_values (m_pointConfigs s)"

definition getDeviceByKey :: "string \<Rightarrow> string \<Rightarrow> int \<Rightarrow> PcDataService \<Rightarrow> DeviceRecord option" where
  "getDeviceByKey gatewayId portId deviceId s =
     um_find (m_deviceRegistry s) (deviceRegistryKey gatewayId portId deviceId)"

definition gatewayRegistered :: "string \<Rightarrow> PcDataService \<Rightarrow> bool" where
  "gatewayRegistered gatewayId s \<longleftrightarrow>
     gatewayId \<in> m_registeredGateways s
     \<or> list_ex (\<lambda>d. dr_gatewayId d = gatewayId) (um_values (m_deviceRegistry s))
     \<or> list_ex (\<lambda>p. gp_gatewayId p = gatewayId) (um_values (m_gatewayPorts s))"

definition portRegistered :: "string \<Rightarrow> string \<Rightarrow> PcDataService \<Rightarrow> bool" where
  "portRegistered gatewayId portId s \<longleftrightarrow>
     registryPortKey gatewayId portId \<in> m_registeredPorts s
     \<or> um_find (m_gatewayPorts s) (portRegistryKey gatewayId portId) \<noteq> None"

definition deviceRegistered :: "string \<Rightarrow> string \<Rightarrow> int \<Rightarrow> PcDataService \<Rightarrow> bool" where
  "deviceRegistered gatewayId portId deviceId s \<longleftrightarrow>
     um_find (m_registeredDeviceTypes s) (registryDeviceKey gatewayId portId deviceId) \<noteq> None
     \<or> um_find (m_deviceRegistry s) (deviceRegistryKey gatewayId portId deviceId) \<noteq> None"

definition registeredDeviceType :: "string \<Rightarrow> string \<Rightarrow> int \<Rightarrow> PcDataService \<Rightarrow> string" where
  "registeredDeviceType gatewayId portId deviceId s =
     (case um_find (m_registeredDeviceTypes s) (registryDeviceKey gatewayId portId deviceId) of
        None \<Rightarrow> [] | Some t \<Rightarrow> t)"

definition pointConfigRegistered :: "string \<Rightarrow> string \<Rightarrow> int \<Rightarrow> string \<Rightarrow> PcDataService \<Rightarrow> bool" where
  "pointConfigRegistered gatewayId portId deviceId pointKey s \<longleftrightarrow>
     registryPointKey gatewayId portId deviceId pointKey \<in> m_registeredPointConfigs s
     \<or> um_find (m_pointConfigs s) (pointRegistryKey gatewayId portId deviceId pointKey) \<noteq> None"

subsection \<open>The registration tables agree\<close>

text \<open>
  \<open>reg_wf\<close>: every record is stored under its own key, and every registration that the
  fast tables hold is backed by a stored record (of the same type, for a device).
\<close>

definition reg_wf :: "PcDataService \<Rightarrow> bool" where
  "reg_wf s \<longleftrightarrow>
     (\<forall>k d. um_find (m_deviceRegistry s) k = Some d \<longrightarrow>
        device_named d \<and> k = registryDeviceKey (dr_gatewayId d) (dr_portId d) (dr_deviceId d)) \<and>
     (\<forall>k p. um_find (m_gatewayPorts s) k = Some p \<longrightarrow>
        port_named p \<and> k = registryPortKey (gp_gatewayId p) (gp_portId p)) \<and>
     (\<forall>k c. um_find (m_pointConfigs s) k = Some c \<longrightarrow>
        config_named c \<and> k = registryPointKey (pc_gatewayId c) (pc_portId c) (pc_deviceId c) (pc_pointKey c)) \<and>
     (\<forall>k t. um_find (m_registeredDeviceTypes s) k = Some t \<longrightarrow>
        (\<exists>d. um_find (m_deviceRegistry s) k = Some d \<and> dr_deviceType d = t)) \<and>
     (\<forall>k \<in> m_registeredPointConfigs s. um_find (m_pointConfigs s) k \<noteq> None)"

lemma reg_wfD:
  assumes "reg_wf s"
  shows "um_find (m_deviceRegistry s) k = Some d \<Longrightarrow>
           device_named d \<and> k = registryDeviceKey (dr_gatewayId d) (dr_portId d) (dr_deviceId d)"
    and "um_find (m_gatewayPorts s) k = Some p \<Longrightarrow>
           port_named p \<and> k = registryPortKey (gp_gatewayId p) (gp_portId p)"
    and "um_find (m_pointConfigs s) k = Some c \<Longrightarrow>
           config_named c \<and> k = registryPointKey (pc_gatewayId c) (pc_portId c) (pc_deviceId c) (pc_pointKey c)"
    and "um_find (m_registeredDeviceTypes s) k = Some t \<Longrightarrow>
           \<exists>d. um_find (m_deviceRegistry s) k = Some d \<and> dr_deviceType d = t"
    and "k \<in> m_registeredPointConfigs s \<Longrightarrow> um_find (m_pointConfigs s) k \<noteq> None"
  using assms by (auto simp: reg_wf_def)

lemma reg_wf_init: "reg_wf svc_init"
  by (simp add: reg_wf_def svc_init_def)

lemma put_device_wf: "reg_wf s \<Longrightarrow> device_named d \<Longrightarrow> reg_wf (put_device d s)"
  by (simp add: reg_wf_def put_device_def um_find_update)

lemma put_port_wf: "reg_wf s \<Longrightarrow> port_named p \<Longrightarrow> reg_wf (put_port p s)"
  by (simp add: reg_wf_def put_port_def um_find_update)

lemma put_config_wf: "reg_wf s \<Longrightarrow> config_named c \<Longrightarrow> reg_wf (put_config c s)"
  by (simp add: reg_wf_def put_config_def um_find_update)

lemma add_gateway_wf: "reg_wf s \<Longrightarrow> reg_wf (add_gateway g s)"
  by (simp add: reg_wf_def add_gateway_def)

lemma status_wf: "reg_wf s \<Longrightarrow> reg_wf (s\<lparr>m_gatewayStatuses := x\<rparr>)"
  by (simp add: reg_wf_def)

lemma foldl_preserves: "(\<And>s x. P s \<Longrightarrow> P (f s x)) \<Longrightarrow> P s \<Longrightarrow> P (foldl f s xs)"
  by (induction xs arbitrary: s) auto

lemmas put_wf = put_device_wf put_port_wf put_config_wf add_gateway_wf status_wf

lemma forget_gateway_find [simp]:
  "um_find (m_deviceRegistry (forget_gateway g s)) k = Some d \<longleftrightarrow>
     um_find (m_deviceRegistry s) k = Some d \<and> dr_gatewayId d \<noteq> g"
  "um_find (m_gatewayPorts (forget_gateway g s)) k = Some p \<longleftrightarrow>
     um_find (m_gatewayPorts s) k = Some p \<and> gp_gatewayId p \<noteq> g"
  "um_find (m_pointConfigs (forget_gateway g s)) k = Some c \<longleftrightarrow>
     um_find (m_pointConfigs s) k = Some c \<and> pc_gatewayId c \<noteq> g"
  "um_find (m_registeredDeviceTypes (forget_gateway g s)) k = Some t \<longleftrightarrow>
     um_find (m_registeredDeviceTypes s) k = Some t \<and> \<not> starts_with (g @ ''/'') k"
  "k \<in> m_registeredPointConfigs (forget_gateway g s) \<longleftrightarrow>
     k \<in> m_registeredPointConfigs s \<and> \<not> starts_with (g @ ''/'') k"
  "k \<in> m_registeredPorts (forget_gateway g s) \<longleftrightarrow>
     k \<in> m_registeredPorts s \<and> \<not> starts_with (g @ ''/'') k"
  by (auto simp: forget_gateway_def Let_def um_find_erase_if split: option.splits)

lemma forget_gateway_wf:
  assumes wf: "reg_wf s"
  shows "reg_wf (forget_gateway g s)"
proof -
  have t: "\<exists>d. um_find (m_deviceRegistry (forget_gateway g s)) k = Some d \<and> dr_deviceType d = t"
    if found: "um_find (m_registeredDeviceTypes (forget_gateway g s)) k = Some t" for k t
  proof -
    have k: "um_find (m_registeredDeviceTypes s) k = Some t" "\<not> starts_with (g @ ''/'') k"
      using found by simp_all
    from reg_wfD(4) [OF wf k(1)] obtain d
      where d: "um_find (m_deviceRegistry s) k = Some d" "dr_deviceType d = t" by blast
    have "dr_gatewayId d \<noteq> g"
      using reg_wfD(1) [OF wf d(1)] k(2) starts_with_gateway(1) by metis
    then show ?thesis using d by simp
  qed
  have c: "um_find (m_pointConfigs (forget_gateway g s)) k \<noteq> None"
    if found: "k \<in> m_registeredPointConfigs (forget_gateway g s)" for k
  proof -
    have k: "k \<in> m_registeredPointConfigs s" "\<not> starts_with (g @ ''/'') k"
      using found by simp_all
    from reg_wfD(5) [OF wf k(1)] obtain c where c: "um_find (m_pointConfigs s) k = Some c" by blast
    have "pc_gatewayId c \<noteq> g"
      using reg_wfD(3) [OF wf c] k(2) starts_with_gateway(3) by metis
    then have "um_find (m_pointConfigs (forget_gateway g s)) k = Some c" using c by simp
    then show ?thesis by simp
  qed
  show ?thesis
    unfolding reg_wf_def using t c reg_wfD(1,2,3) [OF wf] by (meson forget_gateway_find(1,2,3))
qed

lemma update_wf:
  assumes "reg_wf s"
  shows "reg_wf (updateDeviceRegistry ds s)" "reg_wf (updateGatewayPorts ps s)"
    "reg_wf (updateGatewayStatuses gs s)" "reg_wf (updatePointConfigs cs s)"
    "reg_wf (rememberGatewayRegistry r s)" "reg_wf (rememberGatewayPorts ps s)"
    "reg_wf (rememberDeviceRegistry d s)" "reg_wf (rememberDeviceRegistries ds s)"
    "reg_wf (rememberPointConfigs cs s)"
  unfolding updateDeviceRegistry_def updateGatewayPorts_def updateGatewayStatuses_def
    updatePointConfigs_def rememberGatewayRegistry_def rememberGatewayPorts_def
    rememberDeviceRegistry_def rememberDeviceRegistries_def rememberPointConfigs_def
  using assms by (auto intro!: foldl_preserves [where P = reg_wf] put_wf)

lemma replaceGatewayRegistry_wf:
  "reg_wf s \<Longrightarrow> reg_wf (replaceGatewayRegistry g ps ds cs full s)"
  unfolding replaceGatewayRegistry_def Let_def
  by (auto simp: device_named_def port_named_def config_named_def
      intro!: foldl_preserves [where P = reg_wf] put_wf forget_gateway_wf)

subsection \<open>The registry after a replacement\<close>

definition own_device :: "string \<Rightarrow> DeviceRecord \<Rightarrow> bool" where
  "own_device g d \<longleftrightarrow> dr_gatewayId d = g \<and> dr_portId d \<noteq> [] \<and> dr_deviceId d > 0"

definition device_key :: "DeviceRecord \<Rightarrow> string" where
  "device_key d = registryDeviceKey (dr_gatewayId d) (dr_portId d) (dr_deviceId d)"

definition last_device :: "string \<Rightarrow> string \<Rightarrow> DeviceRecord list \<Rightarrow> DeviceRecord option" where
  "last_device g k ds = find (\<lambda>d. own_device g d \<and> device_key d = k) (rev ds)"

lemma last_device_Nil [simp]: "last_device g k [] = None"
  by (simp add: last_device_def)

lemma last_device_snoc:
  "last_device g k (ds @ [d]) = (if own_device g d \<and> device_key d = k then Some d else last_device g k ds)"
  by (simp add: last_device_def)

lemma foldl_unchanged: "(\<And>s x. f (g s x) = f s) \<Longrightarrow> f (foldl g s xs) = f s"
  by (induction xs arbitrary: s) simp_all

lemma put_frame [simp]:
  "m_deviceRegistry (put_port p s) = m_deviceRegistry s"
  "m_registeredDeviceTypes (put_port p s) = m_registeredDeviceTypes s"
  "m_deviceRegistry (put_config c s) = m_deviceRegistry s"
  "m_registeredDeviceTypes (put_config c s) = m_registeredDeviceTypes s"
  "m_deviceRegistry (add_gateway g s) = m_deviceRegistry s"
  "m_registeredDeviceTypes (add_gateway g s) = m_registeredDeviceTypes s"
  by (simp_all add: put_port_def put_config_def add_gateway_def)

lemma put_devices_find:
  "um_find (m_deviceRegistry (foldl (\<lambda>s d. if own_device g d then put_device d s else s) s ds)) k =
     (case last_device g k ds of Some d \<Rightarrow> Some d | None \<Rightarrow> um_find (m_deviceRegistry s) k)"
  "um_find (m_registeredDeviceTypes (foldl (\<lambda>s d. if own_device g d then put_device d s else s) s ds)) k =
     (case last_device g k ds of Some d \<Rightarrow> Some (dr_deviceType d)
      | None \<Rightarrow> um_find (m_registeredDeviceTypes s) k)"
  by (induction ds rule: rev_induct)
    (auto simp: last_device_snoc put_device_def device_key_def lookup_simps)

lemma forget_gateway_find_iff:
  "um_find (m_deviceRegistry (forget_gateway g s)) k =
     (case um_find (m_deviceRegistry s) k of None \<Rightarrow> None
      | Some d \<Rightarrow> if dr_gatewayId d = g then None else Some d)"
  by (simp add: forget_gateway_def Let_def lookup_simps)

lemma put_all_frame [simp]:
  "m_deviceRegistry (foldl (\<lambda>s c. if P c then put_config c s else s) s cs) = m_deviceRegistry s"
  "m_deviceRegistry (foldl (\<lambda>s p. if Q p then put_port p s else s) s ps) = m_deviceRegistry s"
  by (rule foldl_unchanged, simp)+

lemma replaceGatewayRegistry_find:
  assumes "g \<noteq> []"
  shows "um_find (m_deviceRegistry (replaceGatewayRegistry g ps ds cs full s)) k =
     (case last_device g k ds of Some d \<Rightarrow> Some d
      | None \<Rightarrow> (case um_find (m_deviceRegistry s) k of None \<Rightarrow> None
                | Some d \<Rightarrow> if full \<and> dr_gatewayId d = g then None else Some d))"
  using assms
  by (auto simp: replaceGatewayRegistry_def Let_def put_devices_find [unfolded own_device_def]
      forget_gateway_find_iff split: option.splits)

end
