(* ===== verification/ServiceSync.thy ===== *)
theory ServiceSync
  imports ServiceState "HOL-Library.Multiset"
begin

text \<open>
  Configuration synchronisation in Pc_data/service/PcDataService.cpp: one request of the UI
  is split into one pending entry per selected gateway; acknowledgements and timeouts
  complete the entries one by one, and the last one yields the aggregated result.
  \<open>completeSyncConfig\<close> returns \<open>Some result\<close> where the source returns \<open>true\<close> and writes
  its \<open>result\<close> argument.
\<close>

subsection \<open>Operations\<close>

definition begin_target ::
    "int \<Rightarrow> int \<Rightarrow> SyncGatewayPending list \<times> PcDataService \<Rightarrow> SyncGatewaySelection
     \<Rightarrow> SyncGatewayPending list \<times> PcDataService" where
  "begin_target requestId nowMs acc target =
     (let (result, s) = acc
      in if sg_gatewayId target = [] \<or> sg_devices target = [] then (result, s)
         else
           let pending = \<lparr>sp_requestId = requestId, sp_seq = m_nextSyncSeq s,
                 sp_gatewayId = sg_gatewayId target, sp_devices = sg_devices target,
                 sp_requestTimeMs = nowMs\<rparr>;
               queued = (case um_find (m_syncRequests s) requestId of None \<Rightarrow> [] | Some l \<Rightarrow> l)
           in (result @ [pending],
               s\<lparr>m_nextSyncSeq := m_nextSyncSeq s + 1,
                 m_syncPendingBySeq := um_set (sp_seq pending) pending (m_syncPendingBySeq s),
                 m_syncRequests := um_set requestId (queued @ [pending]) (m_syncRequests s)\<rparr>))"

definition sync_success :: string where "sync_success = ''config sync success''"
definition sync_timeout :: string where "sync_timeout = ''gateway offline or sync timeout''"

definition beginSyncConfigRequest ::
    "int \<Rightarrow> SyncGatewaySelection list \<Rightarrow> PcDataService \<Rightarrow> SyncGatewayPending list \<times> PcDataService" where
  "beginSyncConfigRequest nowMs targets s =
     (let requestId = m_nextSyncRequestId s;
          s = s\<lparr>m_nextSyncRequestId := requestId + 1\<rparr>;
          (result, s) = foldl (begin_target requestId nowMs) ([], s) targets
      in if result \<noteq> []
         then (result, s\<lparr>m_syncRequestResults := um_set requestId
                (SyncConfigResult_default\<lparr>sr_ready := False, sr_success := True,
                   sr_message := sync_success\<rparr>) (m_syncRequestResults s)\<rparr>)
         else (result, s))"

definition findSyncPending :: "int \<Rightarrow> PcDataService \<Rightarrow> SyncGatewayPending option" where
  "findSyncPending seq s = um_find (m_syncPendingBySeq s) seq"

fun remove_seq :: "int \<Rightarrow> SyncGatewayPending list \<Rightarrow> SyncGatewayPending list" where
  "remove_seq seq [] = []"
| "remove_seq seq (p # ps) = (if sp_seq p = seq then ps else p # remove_seq seq ps)"

definition merge_ack :: "bool \<Rightarrow> string \<Rightarrow> int \<Rightarrow> int \<Rightarrow> SyncConfigResult \<Rightarrow> SyncConfigResult" where
  "merge_ack success message portCount deviceCount aggregate = aggregate
     \<lparr>sr_success := sr_success aggregate \<and> success,
      sr_portCount := sr_portCount aggregate + portCount,
      sr_deviceCount := sr_deviceCount aggregate + deviceCount,
      sr_message := (if \<not> success then (if message = [] then sync_timeout else message)
                     else sr_message aggregate)\<rparr>"

definition finish_result :: "SyncConfigResult \<Rightarrow> SyncConfigResult" where
  "finish_result aggregate = aggregate
     \<lparr>sr_ready := True,
      sr_message := (if sr_success aggregate \<and> sr_message aggregate = [] then sync_success
                     else sr_message aggregate)\<rparr>"

definition completeSyncConfig ::
    "int \<Rightarrow> bool \<Rightarrow> string \<Rightarrow> int \<Rightarrow> int \<Rightarrow> PcDataService \<Rightarrow> SyncConfigResult option \<times> PcDataService" where
  "completeSyncConfig seq success message portCount deviceCount s =
     (case um_find (m_syncPendingBySeq s) seq of
        None \<Rightarrow> (None, s)
      | Some pending \<Rightarrow>
          let requestId = sp_requestId pending;
              aggregate = merge_ack success message portCount deviceCount
                (case um_find (m_syncRequestResults s) requestId of
                   None \<Rightarrow> SyncConfigResult_default | Some r \<Rightarrow> r);
              s = s\<lparr>m_syncPendingBySeq := um_erase seq (m_syncPendingBySeq s)\<rparr>;
              waiting = s\<lparr>m_syncRequestResults := um_set requestId aggregate (m_syncRequestResults s)\<rparr>;
              finished = s\<lparr>m_syncRequestResults := um_erase requestId (m_syncRequestResults s)\<rparr>
          in case um_find (m_syncRequests s) requestId of
               None \<Rightarrow> (Some (finish_result aggregate), finished)
             | Some pendingList \<Rightarrow>
                 let rest = remove_seq seq pendingList
                 in if rest \<noteq> []
                    then (None, waiting\<lparr>m_syncRequests := um_set requestId rest (m_syncRequests s)\<rparr>)
                    else (Some (finish_result aggregate),
                          finished\<lparr>m_syncRequests := um_erase requestId (m_syncRequests s)\<rparr>))"

definition timed_out_seqs :: "int \<Rightarrow> int \<Rightarrow> PcDataService \<Rightarrow> int list" where
  "timed_out_seqs nowMs timeoutMs s =
     map fst (filter (\<lambda>(seq, p). nowMs - sp_requestTimeMs p \<ge> timeoutMs)
       (um_entries (m_syncPendingBySeq s)))"

definition fail_seq ::
    "SyncConfigResult list \<times> PcDataService \<Rightarrow> int \<Rightarrow> SyncConfigResult list \<times> PcDataService" where
  "fail_seq acc seq =
     (case completeSyncConfig seq False sync_timeout 0 0 (snd acc) of
        (None, s) \<Rightarrow> (fst acc, s)
      | (Some result, s) \<Rightarrow> (fst acc @ [result], s))"

definition collectSyncConfigTimeouts ::
    "int \<Rightarrow> int \<Rightarrow> PcDataService \<Rightarrow> SyncConfigResult list \<times> PcDataService" where
  "collectSyncConfigTimeouts nowMs timeoutMs s =
     foldl fail_seq ([], s) (timed_out_seqs nowMs timeoutMs s)"

subsection \<open>The three synchronisation tables agree\<close>

definition sync_wf :: "PcDataService \<Rightarrow> bool" where
  "sync_wf s \<longleftrightarrow>
     (\<forall>q p. um_find (m_syncPendingBySeq s) q = Some p \<longrightarrow>
        sp_seq p = q \<and> q < m_nextSyncSeq s
        \<and> (\<exists>l. um_find (m_syncRequests s) (sp_requestId p) = Some l \<and> p \<in> set l)) \<and>
     (\<forall>r l. um_find (m_syncRequests s) r = Some l \<longrightarrow>
        l \<noteq> [] \<and> distinct (map sp_seq l) \<and> r < m_nextSyncRequestId s
        \<and> (\<forall>p \<in> set l. sp_requestId p = r \<and> um_find (m_syncPendingBySeq s) (sp_seq p) = Some p)) \<and>
     (\<forall>r. um_find (m_syncRequests s) r = None \<longleftrightarrow> um_find (m_syncRequestResults s) r = None)"

lemma sync_wfD:
  assumes "sync_wf s"
  shows "um_find (m_syncPendingBySeq s) q = Some p \<Longrightarrow> sp_seq p = q \<and> q < m_nextSyncSeq s
           \<and> (\<exists>l. um_find (m_syncRequests s) (sp_requestId p) = Some l \<and> p \<in> set l)"
    and "um_find (m_syncRequests s) r = Some l \<Longrightarrow> l \<noteq> [] \<and> distinct (map sp_seq l)
           \<and> r < m_nextSyncRequestId s
           \<and> (\<forall>p \<in> set l. sp_requestId p = r \<and> um_find (m_syncPendingBySeq s) (sp_seq p) = Some p)"
    and "um_find (m_syncRequests s) r = None \<longleftrightarrow> um_find (m_syncRequestResults s) r = None"
  using assms by (auto simp: sync_wf_def)

lemma sync_wf_init: "sync_wf svc_init"
  by (simp add: sync_wf_def svc_init_def lookup_simps)

lemma remove_seq_notin: "q \<notin> sp_seq ` set l \<Longrightarrow> filter (\<lambda>p. sp_seq p \<noteq> q) l = l"
  by (simp add: filter_id_conv image_iff) metis

lemma remove_seq_filter:
  "distinct (map sp_seq l) \<Longrightarrow> remove_seq q l = filter (\<lambda>p. sp_seq p \<noteq> q) l"
proof (induction l)
  case (Cons p l)
  then show ?case using remove_seq_notin [of q l] by (cases "sp_seq p = q") auto
qed simp

text \<open>One completion of a pending entry, with the tables it finds in a well-formed state.\<close>

lemma completeSyncConfig_pending:
  assumes wf: "sync_wf s"
    and l: "um_find (m_syncRequests s) r = Some l" "p \<in> set l"
    and agg: "um_find (m_syncRequestResults s) r = Some a"
  shows "completeSyncConfig (sp_seq p) ok msg pc dc s =
     (let s1 = s\<lparr>m_syncPendingBySeq := um_erase (sp_seq p) (m_syncPendingBySeq s)\<rparr>;
          a' = merge_ack ok msg pc dc a;
          rest = filter (\<lambda>x. sp_seq x \<noteq> sp_seq p) l
      in if rest \<noteq> []
         then (None, s1\<lparr>m_syncRequestResults := um_set r a' (m_syncRequestResults s),
                        m_syncRequests := um_set r rest (m_syncRequests s)\<rparr>)
         else (Some (finish_result a'), s1\<lparr>m_syncRequestResults := um_erase r (m_syncRequestResults s),
                        m_syncRequests := um_erase r (m_syncRequests s)\<rparr>))"
proof -
  note w = sync_wfD(2) [OF wf l(1)]
  then have p: "um_find (m_syncPendingBySeq s) (sp_seq p) = Some p" "sp_requestId p = r"
    using l(2) by auto
  have "remove_seq (sp_seq p) l = filter (\<lambda>x. sp_seq x \<noteq> sp_seq p) l"
    using w by (simp add: remove_seq_filter)
  then show ?thesis using p l agg by (simp add: completeSyncConfig_def Let_def)
qed

lemma completeSyncConfig_wf:
  assumes wf: "sync_wf s"
  shows "sync_wf (snd (completeSyncConfig q ok msg pc dc s))"
proof (cases "um_find (m_syncPendingBySeq s) q")
  case None
  then show ?thesis using wf by (simp add: completeSyncConfig_def)
next
  case (Some p)
  then have q: "sp_seq p = q" using sync_wfD(1) [OF wf] by blast
  obtain l where l: "um_find (m_syncRequests s) (sp_requestId p) = Some l" "p \<in> set l"
    using sync_wfD(1) [OF wf Some] by blast
  obtain a where a: "um_find (m_syncRequestResults s) (sp_requestId p) = Some a"
    using sync_wfD(3) [OF wf, of "sp_requestId p"] l(1) by fastforce
  let ?rest = "filter (\<lambda>x. sp_seq x \<noteq> sp_seq p) l"
  note w = sync_wfD(2) [OF wf l(1)]
  note [simp] = completeSyncConfig_pending [OF wf l a, of ok msg pc dc, unfolded q] Let_def lookup_simps
  have other: "x \<notin> set l" if "sp_requestId x \<noteq> sp_requestId p" for x
    using w that by blast
  have P: "sp_seq x = k \<and> k < m_nextSyncSeq s \<and>
      (\<exists>l. um_find (m_syncRequests (snd (completeSyncConfig q ok msg pc dc s))) (sp_requestId x) = Some l
         \<and> x \<in> set l)"
    if "um_find (m_syncPendingBySeq (snd (completeSyncConfig q ok msg pc dc s))) k = Some x" for k x
  proof -
    from that have k: "k \<noteq> q" "um_find (m_syncPendingBySeq s) k = Some x"
      by (auto simp: q split: if_splits)
    obtain l' where l': "um_find (m_syncRequests s) (sp_requestId x) = Some l'" "x \<in> set l'" "sp_seq x = k"
        "k < m_nextSyncSeq s"
      using sync_wfD(1) [OF wf k(2)] by blast
    have "x \<in> set ?rest" if "sp_requestId x = sp_requestId p"
      using that l' l k q by simp
    then show ?thesis using l' q
      by (cases "sp_requestId x = sp_requestId p") (auto simp: filter_empty_conv split: if_splits)
  qed
  have R: "l' \<noteq> [] \<and> distinct (map sp_seq l') \<and> r < m_nextSyncRequestId s \<and>
      (\<forall>x \<in> set l'. sp_requestId x = r \<and>
        um_find (m_syncPendingBySeq (snd (completeSyncConfig q ok msg pc dc s))) (sp_seq x) = Some x)"
    if f: "um_find (m_syncRequests (snd (completeSyncConfig q ok msg pc dc s))) r = Some l'" for r l'
  proof (cases "r = sp_requestId p")
    case True
    then have "l' = ?rest" "?rest \<noteq> []" using f q by (auto split: if_splits)
    then show ?thesis using w True q by (auto simp: distinct_map_filter)
  next
    case False
    then have r: "um_find (m_syncRequests s) r = Some l'" using f q by (auto split: if_splits)
    note w' = sync_wfD(2) [OF wf r]
    have "sp_seq x \<noteq> q" if "x \<in> set l'" for x
      using w' that False Some by fastforce
    then show ?thesis using w' q by (auto split: if_splits)
  qed
  have "m_nextSyncSeq (snd (completeSyncConfig q ok msg pc dc s)) = m_nextSyncSeq s"
    "m_nextSyncRequestId (snd (completeSyncConfig q ok msg pc dc s)) = m_nextSyncRequestId s"
    by (auto simp: q split: if_splits)
  moreover have "um_find (m_syncRequests (snd (completeSyncConfig q ok msg pc dc s))) r = None \<longleftrightarrow>
      um_find (m_syncRequestResults (snd (completeSyncConfig q ok msg pc dc s))) r = None" for r
    using sync_wfD(3) [OF wf, of r] by (auto simp: q split: if_splits)
  ultimately show ?thesis
    unfolding sync_wf_def using P R by presburger
qed

subsection \<open>Beginning a request\<close>

definition wanted :: "SyncGatewaySelection \<Rightarrow> bool" where
  "wanted t \<longleftrightarrow> sg_gatewayId t \<noteq> [] \<and> sg_devices t \<noteq> []"

definition pending_of :: "int \<Rightarrow> int \<Rightarrow> int \<Rightarrow> SyncGatewaySelection \<Rightarrow> SyncGatewayPending" where
  "pending_of r now q t = \<lparr>sp_requestId = r, sp_seq = q, sp_gatewayId = sg_gatewayId t,
     sp_devices = sg_devices t, sp_requestTimeMs = now\<rparr>"

definition numbered :: "int \<Rightarrow> int \<Rightarrow> int \<Rightarrow> SyncGatewaySelection list \<Rightarrow> SyncGatewayPending list" where
  "numbered r now q ts = map (\<lambda>(i, t). pending_of r now (q + int i) t) (enumerate 0 (filter wanted ts))"

lemma pending_of_sel [simp]:
  "sp_requestId (pending_of r now q t) = r" "sp_seq (pending_of r now q t) = q"
  "sp_gatewayId (pending_of r now q t) = sg_gatewayId t" "sp_devices (pending_of r now q t) = sg_devices t"
  "sp_requestTimeMs (pending_of r now q t) = now"
  by (simp_all add: pending_of_def)

lemma numbered_snoc:
  "numbered r now q (ts @ [t]) =
     numbered r now q ts @ (if wanted t then [pending_of r now (q + int (length (numbered r now q ts))) t] else [])"
  by (simp add: numbered_def enumerate_append_eq)

lemma numbered_requestId: "p \<in> set (numbered r now q ts) \<Longrightarrow> sp_requestId p = r"
  by (auto simp: numbered_def)

lemma numbered_seqs:
  "map sp_seq (numbered r now q ts) = map (\<lambda>i. q + int i) [0..<length (numbered r now q ts)]"
  by (induction ts rule: rev_induct) (simp_all add: numbered_snoc, simp add: numbered_def)

lemma numbered_distinct: "distinct (map sp_seq (numbered r now q ts))"
  unfolding numbered_seqs by (simp add: distinct_map inj_on_def)

lemma numbered_seq_range:
  assumes "p \<in> set (numbered r now q ts)"
  shows "q \<le> sp_seq p \<and> sp_seq p < q + int (length (numbered r now q ts))"
proof -
  have "sp_seq p \<in> set (map sp_seq (numbered r now q ts))" using assms by simp
  then show ?thesis unfolding numbered_seqs by auto
qed

lemma begin_target_pending:
  "begin_target r now (ps, s) t =
     (if \<not> wanted t then (ps, s)
      else (ps @ [pending_of r now (m_nextSyncSeq s) t],
            s\<lparr>m_nextSyncSeq := m_nextSyncSeq s + 1,
              m_syncPendingBySeq := um_set (m_nextSyncSeq s) (pending_of r now (m_nextSyncSeq s) t)
                (m_syncPendingBySeq s),
              m_syncRequests := um_set r ((case um_find (m_syncRequests s) r of None \<Rightarrow> [] | Some l \<Rightarrow> l)
                @ [pending_of r now (m_nextSyncSeq s) t]) (m_syncRequests s)\<rparr>))"
  by (auto simp: begin_target_def wanted_def Let_def pending_of_def)

lemma begin_targets:
  fixes s r now
  assumes "um_find (m_syncRequests s) r = None"
    and old: "\<forall>k p. um_find (m_syncPendingBySeq s) k = Some p \<longrightarrow> k < m_nextSyncSeq s"
  defines "N \<equiv> numbered r now (m_nextSyncSeq s)"
    and "res \<equiv> foldl (begin_target r now) ([], s)"
  shows "fst (res ts) = N ts"
    and "m_nextSyncSeq (snd (res ts)) = m_nextSyncSeq s + int (length (N ts))"
    and "um_find (m_syncPendingBySeq (snd (res ts))) k = Some p \<longleftrightarrow>
           (p \<in> set (N ts) \<and> sp_seq p = k) \<or> um_find (m_syncPendingBySeq s) k = Some p"
    and "um_find (m_syncRequests (snd (res ts))) r' =
           (if r' = r \<and> N ts \<noteq> [] then Some (N ts) else um_find (m_syncRequests s) r')"
    and "m_syncRequestResults (snd (res ts)) = m_syncRequestResults s"
    and "m_nextSyncRequestId (snd (res ts)) = m_nextSyncRequestId s"
proof (induction ts arbitrary: k p r' rule: rev_induct)
  case Nil
  { case 1 show ?case by (simp add: res_def N_def numbered_def) }
  { case 2 show ?case by (simp add: res_def N_def numbered_def) }
  { case 3 show ?case by (simp add: res_def N_def numbered_def) }
  { case 4 show ?case by (simp add: res_def N_def numbered_def) }
  { case 5 show ?case by (simp add: res_def) }
  { case 6 show ?case by (simp add: res_def) }
next
  case (snoc t ts)
  let ?s = "snd (res ts)"
  have N: "N (ts @ [t]) = N ts @ (if wanted t then [pending_of r now (m_nextSyncSeq ?s) t] else [])"
    using snoc.IH(2) by (simp add: N_def numbered_snoc)
  have step: "res (ts @ [t]) = begin_target r now (N ts, ?s) t"
    by (simp add: res_def flip: snoc.IH(1))
  have new: "um_find (m_syncPendingBySeq ?s) (m_nextSyncSeq ?s) = None"
  proof (rule ccontr)
    assume "um_find (m_syncPendingBySeq ?s) (m_nextSyncSeq ?s) \<noteq> None"
    then obtain x where "um_find (m_syncPendingBySeq ?s) (m_nextSyncSeq ?s) = Some x" by blast
    then show False
      using snoc.IH(3) snoc.IH(2) old numbered_seq_range unfolding N_def by fastforce
  qed
  have q: "(case um_find (m_syncRequests ?s) r of None \<Rightarrow> [] | Some l \<Rightarrow> l) = N ts"
    using snoc.IH(4) [of r] assms(1) by simp
  note [simp] = step N begin_target_pending lookup_simps q
  { case 1 show ?case by simp }
  { case 2 show ?case using snoc.IH(2) by simp }
  { case 3 show ?case using snoc.IH(3) [of k p] new by auto }
  { case 4 show ?case using snoc.IH(4) [of r'] by auto }
  { case 5 show ?case using snoc.IH(5) by simp }
  { case 6 show ?case using snoc.IH(6) by simp }
qed

lemma beginSyncConfigRequest_fst:
  assumes wf: "sync_wf s"
  shows "fst (beginSyncConfigRequest now ts s) =
           numbered (m_nextSyncRequestId s) now (m_nextSyncSeq s) ts"
    and "sync_wf (snd (beginSyncConfigRequest now ts s))"
    and "numbered (m_nextSyncRequestId s) now (m_nextSyncSeq s) ts = ps \<Longrightarrow> ps \<noteq> [] \<Longrightarrow>
         um_find (m_syncRequests (snd (beginSyncConfigRequest now ts s))) (m_nextSyncRequestId s) = Some ps"
    and "numbered (m_nextSyncRequestId s) now (m_nextSyncSeq s) ts \<noteq> [] \<Longrightarrow>
         um_find (m_syncRequestResults (snd (beginSyncConfigRequest now ts s))) (m_nextSyncRequestId s)
           = Some (SyncConfigResult_default\<lparr>sr_success := True, sr_message := sync_success\<rparr>)"
proof -
  let ?r = "m_nextSyncRequestId s"
  let ?s0 = "s\<lparr>m_nextSyncRequestId := ?r + 1\<rparr>"
  let ?N = "numbered ?r now (m_nextSyncSeq s) ts"
  let ?res = "foldl (begin_target ?r now) ([], ?s0) ts"
  have "um_find (m_syncRequests s) ?r = None"
    using sync_wfD(2) [OF wf, of ?r] by (cases "um_find (m_syncRequests s) ?r") auto
  moreover have "k < m_nextSyncSeq s" if "um_find (m_syncPendingBySeq s) k = Some p" for k p
    using sync_wfD(1) [OF wf that] by blast
  ultimately have old: "um_find (m_syncRequests ?s0) ?r = None"
    "\<forall>k p. um_find (m_syncPendingBySeq ?s0) k = Some p \<longrightarrow> k < m_nextSyncSeq ?s0"
    by auto
  have [simp]: "m_nextSyncSeq ?s0 = m_nextSyncSeq s" "m_syncPendingBySeq ?s0 = m_syncPendingBySeq s"
    "m_syncRequests ?s0 = m_syncRequests s" "m_syncRequestResults ?s0 = m_syncRequestResults s"
    "m_nextSyncRequestId ?s0 = ?r + 1"
    by simp_all
  note b = begin_targets [OF old, where ts = ts and now = now, unfolded \<open>m_nextSyncSeq ?s0 = m_nextSyncSeq s\<close>
      \<open>m_syncPendingBySeq ?s0 = m_syncPendingBySeq s\<close> \<open>m_syncRequests ?s0 = m_syncRequests s\<close>
      \<open>m_syncRequestResults ?s0 = m_syncRequestResults s\<close> \<open>m_nextSyncRequestId ?s0 = ?r + 1\<close>]
  have fst: "fst (beginSyncConfigRequest now ts s) = ?N"
    and snd: "snd (beginSyncConfigRequest now ts s) =
      (if ?N \<noteq> [] then (snd ?res)\<lparr>m_syncRequestResults := um_set ?r
          (SyncConfigResult_default\<lparr>sr_success := True, sr_message := sync_success\<rparr>)
          (m_syncRequestResults s)\<rparr> else snd ?res)"
    using b(1,5) by (auto simp: beginSyncConfigRequest_def Let_def SyncConfigResult_default_def
        split: prod.splits)
  show "fst (beginSyncConfigRequest now ts s) = ?N" by (fact fst)
  show "?N = ps \<Longrightarrow> ps \<noteq> [] \<Longrightarrow>
      um_find (m_syncRequests (snd (beginSyncConfigRequest now ts s))) ?r = Some ps"
    by (simp add: snd b(4))
  show "?N \<noteq> [] \<Longrightarrow> um_find (m_syncRequestResults (snd (beginSyncConfigRequest now ts s))) ?r
      = Some (SyncConfigResult_default\<lparr>sr_success := True, sr_message := sync_success\<rparr>)"
    by (simp add: snd lookup_simps)
  have noreq: "um_find (m_syncRequests s) ?r = None" using old(1) by simp
  have P: "sp_seq p = k \<and> k < m_nextSyncSeq (snd ?res) \<and>
      (\<exists>l. um_find (m_syncRequests (snd ?res)) (sp_requestId p) = Some l \<and> p \<in> set l)"
    if f: "um_find (m_syncPendingBySeq (snd ?res)) k = Some p" for k p
  proof (cases "p \<in> set ?N \<and> sp_seq p = k")
    case True
    then show ?thesis
      using numbered_requestId [of p] numbered_seq_range [of p] b(2) b(4) [of ?r] by fastforce
  next
    case False
    then have "um_find (m_syncPendingBySeq s) k = Some p" using f b(3) by blast
    then show ?thesis using sync_wfD(1) [OF wf] b(2) b(4) noreq by fastforce
  qed
  have R: "l \<noteq> [] \<and> distinct (map sp_seq l) \<and> r < ?r + 1 \<and>
      (\<forall>p \<in> set l. sp_requestId p = r \<and> um_find (m_syncPendingBySeq (snd ?res)) (sp_seq p) = Some p)"
    if f: "um_find (m_syncRequests (snd ?res)) r = Some l" for r l
  proof (cases "r = ?r \<and> ?N \<noteq> []")
    case True
    then have "l = ?N" using f b(4) by simp
    then show ?thesis using True b(3) numbered_requestId by (auto simp: numbered_distinct)
  next
    case False
    then have "um_find (m_syncRequests s) r = Some l" using f b(4) by (simp split: if_splits)
    from sync_wfD(2) [OF wf this] show ?thesis by (simp add: b(3))
  qed
  have E: "um_find (m_syncRequests (snd ?res)) r = None \<longleftrightarrow>
      um_find (m_syncRequestResults (snd (beginSyncConfigRequest now ts s))) r = None" for r
    using sync_wfD(3) [OF wf, of r] b(4,5) by (simp add: snd lookup_simps)
  have "m_syncRequests (snd (beginSyncConfigRequest now ts s)) = m_syncRequests (snd ?res)"
    "m_syncPendingBySeq (snd (beginSyncConfigRequest now ts s)) = m_syncPendingBySeq (snd ?res)"
    "m_nextSyncSeq (snd (beginSyncConfigRequest now ts s)) = m_nextSyncSeq (snd ?res)"
    "m_nextSyncRequestId (snd (beginSyncConfigRequest now ts s)) = ?r + 1"
    using b(6) by (simp_all add: snd)
  then show "sync_wf (snd (beginSyncConfigRequest now ts s))"
    unfolding sync_wf_def using P R E by presburger
qed

lemma fail_seq_wf: "sync_wf (snd acc) \<Longrightarrow> sync_wf (snd (fail_seq acc q))"
  using completeSyncConfig_wf [of "snd acc" q False sync_timeout 0 0]
  by (auto simp: fail_seq_def split: option.splits prod.splits)

lemma collectSyncConfigTimeouts_wf:
  "sync_wf s \<Longrightarrow> sync_wf (snd (collectSyncConfigTimeouts now t s))"
proof -
  have "sync_wf (snd acc) \<Longrightarrow> sync_wf (snd (foldl fail_seq acc qs))" for acc qs
    by (induction qs arbitrary: acc) (simp_all add: fail_seq_wf)
  then show "sync_wf s \<Longrightarrow> sync_wf (snd (collectSyncConfigTimeouts now t s))"
    by (simp add: collectSyncConfigTimeouts_def)
qed

subsection \<open>Completing a request\<close>

type_synonym SyncAck = "int \<times> bool \<times> string \<times> int \<times> int"

fun complete_all :: "SyncAck list \<Rightarrow> PcDataService \<Rightarrow> SyncConfigResult list \<times> PcDataService" where
  "complete_all [] s = ([], s)"
| "complete_all ((q, ok, msg, ports, devices) # acks) s =
     (let (r, s1) = completeSyncConfig q ok msg ports devices s;
          (rs, s2) = complete_all acks s1
      in (case r of None \<Rightarrow> rs | Some x \<Rightarrow> x # rs, s2))"

fun merge_all :: "SyncAck list \<Rightarrow> SyncConfigResult \<Rightarrow> SyncConfigResult" where
  "merge_all [] a = a"
| "merge_all ((q, ok, msg, ports, devices) # acks) a = merge_all acks (merge_ack ok msg ports devices a)"

lemma remove_seq_mset:
  "q \<in> sp_seq ` set l \<Longrightarrow> mset (map sp_seq l) = add_mset q (mset (map sp_seq (remove_seq q l)))"
  by (induction l) auto

lemma completeSyncConfig_mono:
  "um_find (m_syncPendingBySeq s) k = None \<Longrightarrow>
   um_find (m_syncPendingBySeq (snd (completeSyncConfig q ok msg pc dc s))) k = None"
  by (simp add: completeSyncConfig_def Let_def lookup_simps split: option.splits)

lemma complete_all_mono:
  "um_find (m_syncPendingBySeq s) k = None \<Longrightarrow>
   um_find (m_syncPendingBySeq (snd (complete_all acks s))) k = None"
proof (induction acks arbitrary: s)
  case (Cons x acks)
  obtain q ok msg pc dc where x: "x = (q, ok, msg, pc, dc)" by (cases x) auto
  then show ?case
    using Cons.IH [OF completeSyncConfig_mono [OF Cons.prems]] by (simp add: split_def Let_def)
qed simp

lemma complete_all_request:
  assumes "sync_wf s" "um_find (m_syncRequests s) r = Some l"
    and "um_find (m_syncRequestResults s) r = Some a"
    and "mset (map fst acks) = mset (map sp_seq l)"
  shows "fst (complete_all acks s) = [finish_result (merge_all acks a)] \<and>
         (\<forall>p \<in> set l. findSyncPending (sp_seq p) (snd (complete_all acks s)) = None)"
  using assms
proof (induction acks arbitrary: s l a)
  case Nil
  then show ?case using sync_wfD(2) [of s r l] by simp
next
  case (Cons x acks)
  note w = sync_wfD(2) [OF Cons.prems(1,2)]
  have "fst x \<in> set (map sp_seq l)"
    using Cons.prems(4) by (metis list.set_intros(1) list.simps(9) mset_eq_setD)
  then obtain p where p: "p \<in> set l" "fst x = sp_seq p" by auto
  obtain ok msg pc dc where x: "x = (sp_seq p, ok, msg, pc, dc)" using p(2) by (cases x) auto
  let ?rest = "filter (\<lambda>x. sp_seq x \<noteq> sp_seq p) l"
  define a' where "a' = merge_ack ok msg pc dc a"
  obtain r1 s1 where c: "completeSyncConfig (sp_seq p) ok msg pc dc s = (r1, s1)" by fastforce
  note c' = completeSyncConfig_pending [OF Cons.prems(1,2) p(1) Cons.prems(3), of ok msg pc dc,
      unfolded c Let_def a'_def [symmetric]]
  have gone: "um_find (m_syncPendingBySeq s1) (sp_seq p) = None"
    using c' by (auto simp: lookup_simps split: if_splits)
  have goal: "fst (complete_all (x # acks) s) =
      (case r1 of None \<Rightarrow> fst (complete_all acks s1) | Some y \<Rightarrow> y # fst (complete_all acks s1))"
    "snd (complete_all (x # acks) s) = snd (complete_all acks s1)"
    "merge_all (x # acks) a = merge_all acks a'"
    by (simp_all add: x c a'_def split_def Let_def split: option.splits)
  have gone': "findSyncPending (sp_seq p) (snd (complete_all acks s1)) = None"
    using gone by (simp add: findSyncPending_def complete_all_mono)
  have rest: "mset (map fst acks) = mset (map sp_seq ?rest)"
    using w p remove_seq_mset [of "sp_seq p" l] Cons.prems(4) by (simp add: remove_seq_filter)
  show ?case
  proof (cases "?rest = []")
    case True
    then have "acks = []" using rest by simp
    moreover have "sp_seq y = sp_seq p" if "y \<in> set l" for y
      using True that by (auto simp: filter_empty_conv)
    moreover have "r1 = Some (finish_result a')" using c' True by simp
    ultimately show ?thesis using gone' goal by auto
  next
    case False
    have r1: "r1 = None" "um_find (m_syncRequests s1) r = Some ?rest"
      "um_find (m_syncRequestResults s1) r = Some a'"
      using c' False by (simp_all add: lookup_simps)
    have "sync_wf s1" using completeSyncConfig_wf [OF Cons.prems(1)] c by (metis snd_conv)
    then show ?thesis using Cons.IH [OF _ r1(2,3) rest] r1(1) gone' goal by auto
  qed
qed

text \<open>What the merged result says of its acknowledgements.\<close>

definition ack_reason :: "SyncAck \<Rightarrow> string" where
  "ack_reason = (\<lambda>(_, _, msg, _, _). if msg = [] then sync_timeout else msg)"

definition ack_ok :: "SyncAck \<Rightarrow> bool" where "ack_ok = (\<lambda>(_, ok, _). ok)"
definition ack_ports :: "SyncAck \<Rightarrow> int" where "ack_ports = (\<lambda>(_, _, _, n, _). n)"
definition ack_devices :: "SyncAck \<Rightarrow> int" where "ack_devices = (\<lambda>(_, _, _, _, n). n)"

lemmas ack_defs = ack_reason_def ack_ok_def ack_ports_def ack_devices_def

lemma merge_all_fields:
  "sr_success (merge_all acks a) = (sr_success a \<and> list_all ack_ok acks)"
  "sr_portCount (merge_all acks a) = sr_portCount a + sum_list (map ack_ports acks)"
  "sr_deviceCount (merge_all acks a) = sr_deviceCount a + sum_list (map ack_devices acks)"
  "sr_message (merge_all acks a) =
     (if list_all ack_ok acks then sr_message a
      else ack_reason (last (filter (\<lambda>x. \<not> ack_ok x) acks)))"
  by (induction acks a rule: merge_all.induct)
    (auto simp: ack_defs merge_ack_def list_all_iff filter_empty_conv)

end
