(* ===== verification/ServiceCommands.thy ===== *)
theory ServiceCommands
  imports ServiceState
begin

text \<open>
  The commands that wait for an acknowledgement, in Pc_data/service/PcDataService.cpp: one
  entry per command id, a soft and a hard timeout that are each reported once.
\<close>

definition rememberPendingCommand :: "PendingCommandTarget \<Rightarrow> PcDataService \<Rightarrow> PcDataService" where
  "rememberPendingCommand target s =
     (if ct_commandId target = [] \<or> ct_commandType target = [] then s
      else s\<lparr>m_pendingCommandsByCommandId :=
               um_set (ct_commandId target) target (m_pendingCommandsByCommandId s)\<rparr>)"

definition findPendingCommand :: "string \<Rightarrow> PcDataService \<Rightarrow> PendingCommandTarget option" where
  "findPendingCommand commandId s =
     (if commandId = [] then None else um_find (m_pendingCommandsByCommandId s) commandId)"

definition takePendingCommand ::
    "string \<Rightarrow> PcDataService \<Rightarrow> PendingCommandTarget option \<times> PcDataService" where
  "takePendingCommand commandId s =
     (if commandId = [] then (None, s)
      else case um_find (m_pendingCommandsByCommandId s) commandId of
             None \<Rightarrow> (None, s)
           | Some target \<Rightarrow>
               (Some target, s\<lparr>m_pendingCommandsByCommandId :=
                  um_erase commandId (m_pendingCommandsByCommandId s)\<rparr>))"

definition soft_due :: "int \<Rightarrow> int \<Rightarrow> PendingCommandTarget \<Rightarrow> bool" where
  "soft_due nowMs timeoutMs c \<longleftrightarrow> \<not> ct_timeoutNotified c \<and> nowMs - ct_requestTimeMs c \<ge> timeoutMs"

definition collectCommandSoftTimeouts ::
    "int \<Rightarrow> int \<Rightarrow> PcDataService \<Rightarrow> PendingCommandTarget list \<times> PcDataService" where
  "collectCommandSoftTimeouts nowMs timeoutMs s =
     (if nowMs \<le> 0 \<or> timeoutMs \<le> 0 then ([], s)
      else let mark = ct_timeoutNotified_update (\<lambda>_. True)
           in (map mark (filter (soft_due nowMs timeoutMs) (um_values (m_pendingCommandsByCommandId s))),
               s\<lparr>m_pendingCommandsByCommandId :=
                   um_map (\<lambda>_ c. if soft_due nowMs timeoutMs c then mark c else c)
                     (m_pendingCommandsByCommandId s)\<rparr>))"

definition hard_due :: "int \<Rightarrow> int \<Rightarrow> PendingCommandTarget \<Rightarrow> bool" where
  "hard_due nowMs timeoutMs c \<longleftrightarrow> \<not> ct_hardTimeoutNotified c \<and> nowMs - ct_requestTimeMs c \<ge> timeoutMs"

definition collectCommandHardTimeouts ::
    "int \<Rightarrow> int \<Rightarrow> PcDataService \<Rightarrow> PendingCommandTarget list \<times> PcDataService" where
  "collectCommandHardTimeouts nowMs timeoutMs s =
     (if nowMs \<le> 0 \<or> timeoutMs \<le> 0 then ([], s)
      else let mark = ct_hardTimeoutNotified_update (\<lambda>_. True)
           in (map mark (filter (hard_due nowMs timeoutMs) (um_values (m_pendingCommandsByCommandId s))),
               s\<lparr>m_pendingCommandsByCommandId :=
                   um_map (\<lambda>_ c. if hard_due nowMs timeoutMs c then mark c else c)
                     (m_pendingCommandsByCommandId s)\<rparr>))"

subsection \<open>Every command is stored under its own id\<close>

definition cmd_wf :: "PcDataService \<Rightarrow> bool" where
  "cmd_wf s \<longleftrightarrow> (\<forall>k c. um_find (m_pendingCommandsByCommandId s) k = Some c \<longrightarrow>
     ct_commandId c = k \<and> k \<noteq> [] \<and> ct_commandType c \<noteq> [])"

lemma cmd_wf_init: "cmd_wf svc_init"
  by (simp add: cmd_wf_def svc_init_def lookup_simps)

lemma command_ops_wf:
  assumes "cmd_wf s"
  shows "cmd_wf (rememberPendingCommand c s)" "cmd_wf (snd (takePendingCommand k s))"
    "cmd_wf (snd (collectCommandSoftTimeouts now t s))"
    "cmd_wf (snd (collectCommandHardTimeouts now t s))"
  using assms
  by (auto simp: cmd_wf_def rememberPendingCommand_def takePendingCommand_def Let_def
      collectCommandSoftTimeouts_def collectCommandHardTimeouts_def lookup_simps
      split: option.splits if_splits)

lemma collect_find:
  "um_find (m_pendingCommandsByCommandId (snd (collectCommandSoftTimeouts n t s))) k =
     map_option (\<lambda>c. if n > 0 \<and> t > 0 \<and> soft_due n t c then c\<lparr>ct_timeoutNotified := True\<rparr> else c)
       (um_find (m_pendingCommandsByCommandId s) k)"
  "um_find (m_pendingCommandsByCommandId (snd (collectCommandHardTimeouts n t s))) k =
     map_option (\<lambda>c. if n > 0 \<and> t > 0 \<and> hard_due n t c then c\<lparr>ct_hardTimeoutNotified := True\<rparr> else c)
       (um_find (m_pendingCommandsByCommandId s) k)"
  by (auto simp: collectCommandSoftTimeouts_def collectCommandHardTimeouts_def Let_def lookup_simps
      option.map_ident split: option.splits)

subsection \<open>What a collection reports\<close>

lemma soft_ids:
  assumes "cmd_wf s"
  shows "k \<in> ct_commandId ` set (fst (collectCommandSoftTimeouts now t s)) \<longleftrightarrow>
     now > 0 \<and> t > 0 \<and> (\<exists>c. um_find (m_pendingCommandsByCommandId s) k = Some c \<and> soft_due now t c)"
  using assms by (auto simp: collectCommandSoftTimeouts_def Let_def um_values_set cmd_wf_def image_iff)

lemma hard_ids:
  assumes "cmd_wf s"
  shows "k \<in> ct_commandId ` set (fst (collectCommandHardTimeouts now t s)) \<longleftrightarrow>
     now > 0 \<and> t > 0 \<and> (\<exists>c. um_find (m_pendingCommandsByCommandId s) k = Some c \<and> hard_due now t c)"
  using assms by (auto simp: collectCommandHardTimeouts_def Let_def um_values_set cmd_wf_def image_iff)

lemma entries_ids:
  assumes "cmd_wf s"
  shows "map ct_commandId (um_values (m_pendingCommandsByCommandId s))
       = map fst (um_entries (m_pendingCommandsByCommandId s))"
  using assms by (auto simp: um_values_def cmd_wf_def um_find_entries)

lemma collect_distinct:
  assumes "cmd_wf s"
  shows "distinct (map ct_commandId (fst (collectCommandSoftTimeouts now t s)))"
    and "distinct (map ct_commandId (fst (collectCommandHardTimeouts now t s)))"
  using entries_ids [OF assms] um_entries_distinct [of "m_pendingCommandsByCommandId s"]
  by (simp_all add: collectCommandSoftTimeouts_def collectCommandHardTimeouts_def Let_def o_def
      distinct_map_filter)

end
