(* ===== verification/PcService.thy ===== *)
theory PcService
  imports ServiceTelemetry ServiceRegistry ServiceSync ServiceCommands
begin

text \<open>
  PcDataService as one machine: an event is one call of a public operation, with the clock
  it reads; the mutex makes every call atomic, so an execution of the service by any number
  of threads is a sequence of these steps.
\<close>

definition svc_clear :: "PcDataService \<Rightarrow> PcDataService" where
  "svc_clear s = s
     \<lparr>m_snapshot := um_empty, m_deviceRegistry := um_empty, m_gatewayPorts := um_empty,
      m_gatewayStatuses := um_empty, m_pointConfigs := um_empty, m_registeredGateways := {},
      m_registeredPorts := {}, m_registeredDeviceTypes := um_empty, m_registeredPointConfigs := {},
      m_removedDevices := um_empty, m_removedMasters := um_empty,
      m_pendingCommandsByCommandId := um_empty\<rparr>"

datatype svc_event =
    EvTelemetry "TelemetryPoint list"
  | EvDevices "DeviceRecord list" | EvPorts "GatewayPort list"
  | EvStatuses "GatewayStatus list" | EvConfigs "PointConfig list"
  | EvRememberGateway GatewayRegistry | EvRememberPorts "GatewayPort list"
  | EvRememberDevices "DeviceRecord list" | EvRememberConfigs "PointConfig list"
  | EvReplaceRegistry string "GatewayPort list" "DeviceRecord list" "PointConfig list" bool
  | EvRemoveDevice string string int | EvRemoveMaster string string
  | EvForgetRemoved string string int | EvIsRemoved string string int
  | EvFilterPoints "TelemetryPoint list"
  | EvBeginSync "SyncGatewaySelection list" | EvCompleteSync int bool string int int
  | EvSyncTimeouts int int
  | EvRememberCommand PendingCommandTarget | EvTakeCommand string
  | EvSoftTimeouts int int | EvHardTimeouts int int
  | EvClear

fun svc_exec :: "int \<Rightarrow> svc_event \<Rightarrow> PcDataService \<Rightarrow> PcDataService" where
  "svc_exec now (EvTelemetry ps) s = handleTelemetryPoints now ps s"
| "svc_exec now (EvDevices ds) s = updateDeviceRegistry ds s"
| "svc_exec now (EvPorts ps) s = updateGatewayPorts ps s"
| "svc_exec now (EvStatuses gs) s = updateGatewayStatuses gs s"
| "svc_exec now (EvConfigs cs) s = updatePointConfigs cs s"
| "svc_exec now (EvRememberGateway r) s = rememberGatewayRegistry r s"
| "svc_exec now (EvRememberPorts ps) s = rememberGatewayPorts ps s"
| "svc_exec now (EvRememberDevices ds) s = rememberDeviceRegistries ds s"
| "svc_exec now (EvRememberConfigs cs) s = rememberPointConfigs cs s"
| "svc_exec now (EvReplaceRegistry g ps ds cs full) s = replaceGatewayRegistry g ps ds cs full s"
| "svc_exec now (EvRemoveDevice g p d) s = snd (removeDeviceData now g p d s)"
| "svc_exec now (EvRemoveMaster g p) s = snd (removeMasterData now g p s)"
| "svc_exec now (EvForgetRemoved g p d) s = forgetRemovedDevice now g p d s"
| "svc_exec now (EvIsRemoved g p d) s = snd (isRemovedDevice now g p d s)"
| "svc_exec now (EvFilterPoints ps) s = snd (filterRemovedPoints now ps s)"
| "svc_exec now (EvBeginSync ts) s = snd (beginSyncConfigRequest now ts s)"
| "svc_exec now (EvCompleteSync q ok msg pc dc) s = snd (completeSyncConfig q ok msg pc dc s)"
| "svc_exec now (EvSyncTimeouts nowMs t) s = snd (collectSyncConfigTimeouts nowMs t s)"
| "svc_exec now (EvRememberCommand c) s = rememberPendingCommand c s"
| "svc_exec now (EvTakeCommand k) s = snd (takePendingCommand k s)"
| "svc_exec now (EvSoftTimeouts nowMs t) s = snd (collectCommandSoftTimeouts nowMs t s)"
| "svc_exec now (EvHardTimeouts nowMs t) s = snd (collectCommandHardTimeouts nowMs t s)"
| "svc_exec now EvClear s = svc_clear s"

type_synonym svc_trace = "(int \<times> svc_event) list"

definition svc_run :: "svc_trace \<Rightarrow> PcDataService \<Rightarrow> PcDataService" where
  "svc_run es s = foldl (\<lambda>s (now, e). svc_exec now e s) s es"

lemma svc_run_simps [simp]:
  "svc_run [] s = s" "svc_run ((now, e) # es) s = svc_run es (svc_exec now e s)"
  by (simp_all add: svc_run_def)

text \<open>States reachable with a clock that does not go back; the first argument is the last
  clock value read.\<close>

inductive svc_reachable :: "int \<Rightarrow> PcDataService \<Rightarrow> bool" where
  start: "svc_reachable t svc_init"
| event: "svc_reachable t s \<Longrightarrow> t \<le> now \<Longrightarrow> svc_reachable now (svc_exec now e s)"

subsection \<open>Frames of the operations\<close>

definition same_reg :: "PcDataService \<Rightarrow> PcDataService \<Rightarrow> bool" where
  "same_reg s s' \<longleftrightarrow> m_deviceRegistry s' = m_deviceRegistry s \<and> m_gatewayPorts s' = m_gatewayPorts s
     \<and> m_pointConfigs s' = m_pointConfigs s
     \<and> m_registeredDeviceTypes s' = m_registeredDeviceTypes s
     \<and> m_registeredPointConfigs s' = m_registeredPointConfigs s"

definition same_sync :: "PcDataService \<Rightarrow> PcDataService \<Rightarrow> bool" where
  "same_sync s s' \<longleftrightarrow> m_syncPendingBySeq s' = m_syncPendingBySeq s
     \<and> m_syncRequests s' = m_syncRequests s \<and> m_syncRequestResults s' = m_syncRequestResults s
     \<and> m_nextSyncSeq s' = m_nextSyncSeq s \<and> m_nextSyncRequestId s' = m_nextSyncRequestId s"

definition same_snap :: "PcDataService \<Rightarrow> PcDataService \<Rightarrow> bool" where
  "same_snap s s' \<longleftrightarrow> m_snapshot s' = m_snapshot s"

definition same_cmd :: "PcDataService \<Rightarrow> PcDataService \<Rightarrow> bool" where
  "same_cmd s s' \<longleftrightarrow> m_pendingCommandsByCommandId s' = m_pendingCommandsByCommandId s"

definition same_tomb :: "PcDataService \<Rightarrow> PcDataService \<Rightarrow> bool" where
  "same_tomb s s' \<longleftrightarrow> m_removedDevices s' = m_removedDevices s \<and> m_removedMasters s' = m_removedMasters s"

lemmas same_defs = same_reg_def same_sync_def same_snap_def same_cmd_def same_tomb_def

lemma reg_wf_same: "same_reg s s' \<Longrightarrow> reg_wf s \<Longrightarrow> reg_wf s'"
  by (simp add: same_reg_def reg_wf_def)

lemma sync_wf_same: "same_sync s s' \<Longrightarrow> sync_wf s \<Longrightarrow> sync_wf s'"
  by (simp add: same_sync_def sync_wf_def)

lemma cmd_wf_same: "same_cmd s s' \<Longrightarrow> cmd_wf s \<Longrightarrow> cmd_wf s'"
  by (simp add: same_cmd_def cmd_wf_def)

text \<open>The registry writes touch neither the synchronisation nor the other tables.\<close>

definition reg_frame :: "PcDataService \<Rightarrow> PcDataService \<Rightarrow> bool" where
  "reg_frame s s' \<longleftrightarrow> same_sync s s' \<and> same_snap s s' \<and> same_cmd s s' \<and> same_tomb s s'"

lemma reg_frame_refl [simp]: "reg_frame s s"
  by (simp add: reg_frame_def same_defs)

lemma reg_frame_trans: "reg_frame s s' \<Longrightarrow> reg_frame s' s'' \<Longrightarrow> reg_frame s s''"
  by (simp add: reg_frame_def same_defs)

lemma reg_frame_prims:
  "reg_frame s s' \<Longrightarrow> reg_frame s (put_device d s')" "reg_frame s s' \<Longrightarrow> reg_frame s (put_port p s')"
  "reg_frame s s' \<Longrightarrow> reg_frame s (put_config c s')" "reg_frame s s' \<Longrightarrow> reg_frame s (add_gateway g s')"
  "reg_frame s s' \<Longrightarrow> reg_frame s (s'\<lparr>m_gatewayStatuses := x\<rparr>)"
  "reg_frame s s' \<Longrightarrow> reg_frame s (forget_gateway g s')"
  by (simp_all add: reg_frame_def same_defs put_device_def put_port_def put_config_def
      add_gateway_def forget_gateway_def Let_def)

fun registry_event :: "svc_event \<Rightarrow> bool" where
  "registry_event (EvDevices _) = True" | "registry_event (EvPorts _) = True"
| "registry_event (EvStatuses _) = True" | "registry_event (EvConfigs _) = True"
| "registry_event (EvRememberGateway _) = True" | "registry_event (EvRememberPorts _) = True"
| "registry_event (EvRememberDevices _) = True" | "registry_event (EvRememberConfigs _) = True"
| "registry_event (EvReplaceRegistry _ _ _ _ _) = True"
| "registry_event _ = False"

lemma registry_frame:
  assumes "registry_event e"
  shows "reg_frame s (svc_exec now e s)"
  using assms
  by (cases e)
    (simp_all add: updateDeviceRegistry_def updateGatewayPorts_def updateGatewayStatuses_def
      updatePointConfigs_def rememberGatewayRegistry_def rememberGatewayPorts_def
      rememberDeviceRegistries_def rememberPointConfigs_def replaceGatewayRegistry_def Let_def
      foldl_preserves [where P = "reg_frame s"] reg_frame_prims)

fun telemetry_event :: "svc_event \<Rightarrow> bool" where
  "telemetry_event (EvTelemetry _) = True" | "telemetry_event (EvRemoveDevice _ _ _) = True"
| "telemetry_event (EvRemoveMaster _ _) = True" | "telemetry_event (EvForgetRemoved _ _ _) = True"
| "telemetry_event (EvIsRemoved _ _ _) = True" | "telemetry_event (EvFilterPoints _) = True"
| "telemetry_event _ = False"

fun sync_event :: "svc_event \<Rightarrow> bool" where
  "sync_event (EvBeginSync _) = True" | "sync_event (EvCompleteSync _ _ _ _ _) = True"
| "sync_event (EvSyncTimeouts _ _) = True" | "sync_event _ = False"

fun command_event :: "svc_event \<Rightarrow> bool" where
  "command_event (EvRememberCommand _) = True" | "command_event (EvTakeCommand _) = True"
| "command_event (EvSoftTimeouts _ _) = True" | "command_event (EvHardTimeouts _ _) = True"
| "command_event _ = False"

lemma event_cases:
  "registry_event e \<or> telemetry_event e \<or> sync_event e \<or> command_event e \<or> e = EvClear"
  by (cases e) simp_all

definition telemetry_frame :: "PcDataService \<Rightarrow> PcDataService \<Rightarrow> bool" where
  "telemetry_frame s s' \<longleftrightarrow> same_sync s s' \<and> same_cmd s s'"

lemma prune_telemetry [simp]: "telemetry_frame s (pruneExpiredRemovedDevicesLocked now s)"
  by (simp add: telemetry_frame_def same_defs pruneExpiredRemovedDevicesLocked_def)

lemma remember_telemetry: "telemetry_frame s s' \<Longrightarrow> telemetry_frame s (rememberRemovedDeviceLocked g p d now s')"
  by (simp add: telemetry_frame_def same_defs rememberRemovedDeviceLocked_def)

lemma remember_points_telemetry: "telemetry_frame s s' \<Longrightarrow> telemetry_frame s (remember_points now ps s')"
  unfolding remember_points_def
  by (rule foldl_preserves [where P = "telemetry_frame s"]) (auto simp: remember_telemetry)

lemma telemetry_trans:
  "telemetry_frame s s' \<Longrightarrow> same_sync s' s'' \<Longrightarrow> same_cmd s' s'' \<Longrightarrow> telemetry_frame s s''"
  by (simp add: telemetry_frame_def same_defs)

lemma telemetry_refl [simp]: "telemetry_frame s s"
  by (simp add: telemetry_frame_def same_defs)

lemma telemetry_update:
  "telemetry_frame s s' \<Longrightarrow> telemetry_frame s (s'\<lparr>m_snapshot := a\<rparr>)"
  "telemetry_frame s s' \<Longrightarrow> telemetry_frame s (s'\<lparr>m_registeredDeviceTypes := b\<rparr>)"
  "telemetry_frame s s' \<Longrightarrow> telemetry_frame s (s'\<lparr>m_registeredPointConfigs := c\<rparr>)"
  "telemetry_frame s s' \<Longrightarrow> telemetry_frame s (s'\<lparr>m_registeredPorts := c'\<rparr>)"
  "telemetry_frame s s' \<Longrightarrow> telemetry_frame s (s'\<lparr>m_removedDevices := d\<rparr>)"
  "telemetry_frame s s' \<Longrightarrow> telemetry_frame s (s'\<lparr>m_removedMasters := f\<rparr>)"
  by (simp_all add: telemetry_frame_def same_defs)

lemma telemetry_event_frame:
  assumes "telemetry_event e"
  shows "telemetry_frame s (svc_exec now e s)"
  using assms
  by (cases e)
    (simp_all add: handleTelemetryPoints_def removeDeviceData_def removeMasterData_def
      forgetRemovedDevice_def isRemovedDevice_def filterRemovedPoints_def Let_def
      telemetry_update remember_telemetry remember_points_telemetry)

definition outside_frame :: "PcDataService \<Rightarrow> PcDataService \<Rightarrow> bool" where
  "outside_frame s s' \<longleftrightarrow> same_reg s s' \<and> same_snap s s' \<and> same_tomb s s'"

lemma outside_refl [simp]: "outside_frame s s"
  by (simp add: outside_frame_def same_defs)

definition sync_frame :: "PcDataService \<Rightarrow> PcDataService \<Rightarrow> bool" where
  "sync_frame s s' \<longleftrightarrow> outside_frame s s' \<and> same_cmd s s'"

lemma sync_refl [simp]: "sync_frame s s"
  by (simp add: sync_frame_def same_cmd_def)

lemma sync_trans: "sync_frame s s' \<Longrightarrow> sync_frame s' s'' \<Longrightarrow> sync_frame s s''"
  by (simp add: sync_frame_def outside_frame_def same_defs)

lemma sync_update:
  "sync_frame s s' \<Longrightarrow> sync_frame s (s'\<lparr>m_nextSyncRequestId := a\<rparr>)"
  "sync_frame s s' \<Longrightarrow> sync_frame s (s'\<lparr>m_nextSyncSeq := b\<rparr>)"
  "sync_frame s s' \<Longrightarrow> sync_frame s (s'\<lparr>m_syncPendingBySeq := c\<rparr>)"
  "sync_frame s s' \<Longrightarrow> sync_frame s (s'\<lparr>m_syncRequests := d\<rparr>)"
  "sync_frame s s' \<Longrightarrow> sync_frame s (s'\<lparr>m_syncRequestResults := f\<rparr>)"
  by (simp_all add: sync_frame_def outside_frame_def same_defs)

lemma foldl_snd_frame:
  "(\<And>acc x. sync_frame (snd acc) (snd (f acc x))) \<Longrightarrow> sync_frame (snd acc) (snd (foldl f acc xs))"
proof (induction xs arbitrary: acc)
  case (Cons x xs)
  then show ?case using sync_trans by (metis foldl_Cons)
qed simp

lemma completeSyncConfig_frame: "sync_frame s (snd (completeSyncConfig q ok msg pc dc s))"
  by (simp add: completeSyncConfig_def Let_def sync_update split: option.splits)

lemma fail_seq_frame: "sync_frame (snd acc) (snd (fail_seq acc q))"
  using completeSyncConfig_frame [of "snd acc" q False sync_timeout 0 0]
  by (auto simp: fail_seq_def split: option.splits prod.splits)

lemma begin_target_frame: "sync_frame (snd acc) (snd (begin_target r now acc t))"
  by (cases acc) (simp add: begin_target_def Let_def sync_update)

lemma beginSyncConfigRequest_frame: "sync_frame s (snd (beginSyncConfigRequest now ts s))"
proof -
  let ?s = "s\<lparr>m_nextSyncRequestId := m_nextSyncRequestId s + 1\<rparr>"
  let ?res = "foldl (begin_target (m_nextSyncRequestId s) now) ([], ?s) ts"
  have "sync_frame ?s (snd ?res)"
    using foldl_snd_frame [where f = "begin_target (m_nextSyncRequestId s) now" and acc = "([], ?s)"]
      begin_target_frame by fastforce
  moreover have "sync_frame s ?s" by (simp add: sync_update)
  ultimately have "sync_frame s (snd ?res)" by (rule sync_trans [rotated])
  then show ?thesis
    by (cases ?res) (simp add: beginSyncConfigRequest_def Let_def sync_update)
qed

lemma sync_event_frame:
  assumes "sync_event e"
  shows "sync_frame s (svc_exec now e s)"
proof -
  have "sync_frame s (snd (collectSyncConfigTimeouts nowMs t s))" for nowMs t
    using foldl_snd_frame [where f = fail_seq and acc = "([], s)", OF fail_seq_frame]
    by (simp add: collectSyncConfigTimeouts_def)
  then show ?thesis
    using assms by (cases e) (simp_all add: completeSyncConfig_frame beginSyncConfigRequest_frame)
qed

lemma command_event_frame:
  assumes "command_event e"
  shows "outside_frame s (svc_exec now e s) \<and> same_sync s (svc_exec now e s)"
  using assms
  by (cases e)
    (auto simp: rememberPendingCommand_def takePendingCommand_def collectCommandSoftTimeouts_def
      collectCommandHardTimeouts_def Let_def outside_frame_def same_defs split: option.splits)

subsection \<open>The invariant of the service\<close>

definition snap_wf :: "int \<Rightarrow> PcDataService \<Rightarrow> bool" where
  "snap_wf t s \<longleftrightarrow> (\<forall>k q. um_find (m_snapshot s) k = Some q \<longrightarrow>
     tp_pointId q = k \<and> k \<noteq> [] \<and> tp_receiveTimeMs q \<le> t)"

definition svc_inv :: "int \<Rightarrow> PcDataService \<Rightarrow> bool" where
  "svc_inv t s \<longleftrightarrow> reg_wf s \<and> sync_wf s \<and> cmd_wf s \<and> snap_wf t s"

lemma reg_wf_shrink:
  assumes "reg_wf s" "m_deviceRegistry s' = m_deviceRegistry s" "m_gatewayPorts s' = m_gatewayPorts s"
    "m_pointConfigs s' = m_pointConfigs s"
    "\<And>k t. um_find (m_registeredDeviceTypes s') k = Some t \<Longrightarrow> um_find (m_registeredDeviceTypes s) k = Some t"
    "m_registeredPointConfigs s' \<subseteq> m_registeredPointConfigs s"
  shows "reg_wf s'"
  using assms(1) unfolding reg_wf_def assms(2-4) using assms(5,6) by blast

lemma snap_wf_shrink:
  assumes "snap_wf t s" "t \<le> now"
    "\<And>k q. um_find (m_snapshot s') k = Some q \<Longrightarrow> um_find (m_snapshot s) k = Some q"
  shows "snap_wf now s'"
proof -
  have "tp_pointId q = k \<and> k \<noteq> [] \<and> tp_receiveTimeMs q \<le> now" if "um_find (m_snapshot s') k = Some q" for k q
    using assms(3) [OF that] assms(1,2) unfolding snap_wf_def by fastforce
  then show ?thesis by (simp add: snap_wf_def)
qed

lemma removal_wf:
  assumes "reg_wf s"
  shows "reg_wf (snd (removeDeviceData now g p d s))" "reg_wf (snd (removeMasterData now g p s))"
proof -
  show "reg_wf (snd (removeDeviceData now g p d s))"
    by (rule reg_wf_shrink [OF assms])
      (auto simp: removeDeviceData_def Let_def lookup_simps split: if_splits)
  show "reg_wf (snd (removeMasterData now g p s))"
    by (rule reg_wf_shrink [OF assms])
      (auto simp: removeMasterData_def Let_def lookup_simps split: if_splits option.splits)
qed

lemma removal_snap:
  assumes "snap_wf t s" "t \<le> now"
  shows "snap_wf now (snd (removeDeviceData now g p d s))" "snap_wf now (snd (removeMasterData now g p s))"
proof -
  show "snap_wf now (snd (removeDeviceData now g p d s))"
    by (rule snap_wf_shrink [OF assms])
      (auto simp: removeDeviceData_def Let_def lookup_simps split: if_splits option.splits)
  show "snap_wf now (snd (removeMasterData now g p s))"
    by (rule snap_wf_shrink [OF assms])
      (auto simp: removeMasterData_def Let_def lookup_simps split: if_splits option.splits)
qed

lemma handle_snap:
  assumes "snap_wf t s" "t \<le> now"
  shows "snap_wf now (handleTelemetryPoints now ps s)"
proof -
  have "tp_pointId q = k \<and> k \<noteq> [] \<and> tp_receiveTimeMs q \<le> now"
    if "um_find (m_snapshot (handleTelemetryPoints now ps s)) k = Some q" for k q
    using handleTelemetryPoints_origin [OF that] assms accepted_points_mem accepted_points_receive
    unfolding snap_wf_def by (smt (verit) order_trans)
  then show ?thesis by (simp add: snap_wf_def)
qed

lemma telemetry_reg_wf:
  assumes "telemetry_event e" "reg_wf s"
  shows "reg_wf (svc_exec now e s)"
proof -
  consider "same_reg s (svc_exec now e s)" | g p d where "e = EvRemoveDevice g p d"
    | g p where "e = EvRemoveMaster g p"
    using assms(1) by (cases e)
      (auto simp: same_reg_def handleTelemetryPoints_def forgetRemovedDevice_def isRemovedDevice_def
        filterRemovedPoints_def Let_def)
  then show ?thesis using assms(2) by cases (auto simp: removal_wf intro: reg_wf_same)
qed

lemma telemetry_snap_wf:
  "telemetry_event e \<Longrightarrow> snap_wf t s \<Longrightarrow> t \<le> now \<Longrightarrow> snap_wf now (svc_exec now e s)"
  by (cases e)
    (auto simp: removal_snap handle_snap forgetRemovedDevice_def isRemovedDevice_def
      filterRemovedPoints_def Let_def intro: snap_wf_shrink)

lemma registry_reg_wf: "registry_event e \<Longrightarrow> reg_wf s \<Longrightarrow> reg_wf (svc_exec now e s)"
  by (cases e) (simp_all add: update_wf replaceGatewayRegistry_wf)

lemma sync_sync_wf: "sync_event e \<Longrightarrow> sync_wf s \<Longrightarrow> sync_wf (svc_exec now e s)"
  by (cases e) (simp_all add: beginSyncConfigRequest_fst completeSyncConfig_wf collectSyncConfigTimeouts_wf)

lemma command_cmd_wf: "command_event e \<Longrightarrow> cmd_wf s \<Longrightarrow> cmd_wf (svc_exec now e s)"
  by (cases e) (simp_all add: command_ops_wf)

lemma snap_wf_same: "same_snap s s' \<Longrightarrow> snap_wf t s \<Longrightarrow> t \<le> now \<Longrightarrow> snap_wf now s'"
  by (auto simp: same_snap_def intro: snap_wf_shrink)

lemma clear_inv: "svc_inv t s \<Longrightarrow> svc_inv now (svc_clear s)"
  by (simp add: svc_inv_def svc_clear_def reg_wf_def sync_wf_def cmd_wf_def snap_wf_def lookup_simps)

lemma svc_exec_inv:
  assumes "svc_inv t s" "t \<le> now"
  shows "svc_inv now (svc_exec now e s)"
proof -
  have i: "reg_wf s" "sync_wf s" "cmd_wf s" "snap_wf t s" using assms(1) by (simp_all add: svc_inv_def)
  consider "registry_event e" | "telemetry_event e" | "sync_event e" | "command_event e" | "e = EvClear"
    using event_cases by blast
  then show ?thesis
  proof cases
    case 1
    then show ?thesis
      using registry_frame [OF 1, of s now] registry_reg_wf [OF 1 i(1)] i assms(2)
      unfolding svc_inv_def reg_frame_def by (blast intro: sync_wf_same cmd_wf_same snap_wf_same)
  next
    case 2
    then show ?thesis
      using telemetry_event_frame [OF 2, of s now] telemetry_reg_wf [OF 2 i(1)]
        telemetry_snap_wf [OF 2 i(4) assms(2)] i
      unfolding svc_inv_def telemetry_frame_def by (blast intro: sync_wf_same cmd_wf_same)
  next
    case 3
    then show ?thesis
      using sync_event_frame [OF 3, of s now] sync_sync_wf [OF 3 i(2)] i assms(2)
      unfolding svc_inv_def sync_frame_def outside_frame_def
      by (blast intro: reg_wf_same cmd_wf_same snap_wf_same)
  next
    case 4
    then show ?thesis
      using command_event_frame [OF 4, of s now] command_cmd_wf [OF 4 i(3)] i assms(2)
      unfolding svc_inv_def outside_frame_def
      by (blast intro: reg_wf_same sync_wf_same snap_wf_same)
  next
    case 5
    then show ?thesis using clear_inv [OF assms(1)] by simp
  qed
qed

lemma svc_inv_init: "svc_inv t svc_init"
  by (simp add: svc_inv_def reg_wf_init sync_wf_init cmd_wf_init snap_wf_def)
    (simp add: svc_init_def lookup_simps)

lemma reachable_inv: "svc_reachable t s \<Longrightarrow> svc_inv t s"
  by (induction rule: svc_reachable.induct) (auto intro: svc_inv_init svc_exec_inv)

subsection \<open>A removed device stays away\<close>

fun revives :: "string \<Rightarrow> svc_event \<Rightarrow> bool" where
  "revives key (EvForgetRemoved g p d) = (removedDeviceKey g p d = key)"
| "revives key EvClear = True"
| "revives key _ = False"

definition kept_out :: "string \<Rightarrow> string \<Rightarrow> int \<Rightarrow> int \<Rightarrow> PcDataService \<Rightarrow> bool" where
  "kept_out g p d until s \<longleftrightarrow>
     (\<exists>e \<ge> until. um_find (m_removedDevices s) (registryDeviceKey g p d) = Some e)
     \<and> (\<forall>k q. um_find (m_snapshot s) k = Some q \<longrightarrow> \<not> same_device g p d q)"

lemma kept_out_same: "same_tomb s s' \<Longrightarrow> same_snap s s' \<Longrightarrow> kept_out g p d u s \<Longrightarrow> kept_out g p d u s'"
  by (simp add: kept_out_def same_tomb_def same_snap_def)

lemma kept_out_prune: "kept_out g p d u s \<Longrightarrow> now < u \<Longrightarrow> kept_out g p d u (pruneExpiredRemovedDevicesLocked now s)"
  by (auto simp: kept_out_def)

lemma kept_out_blocked: "kept_out g p d u s \<Longrightarrow> same_device g p d q \<Longrightarrow> point_blocked s q"
  by (auto simp: kept_out_def point_blocked_def isRemovedDeviceLocked_def same_device_def)

lemma kept_out_removeDevice:
  assumes "kept_out g p d u s" "now < u" "u \<le> now + kRemovedDeviceIgnoreMs"
  shows "kept_out g p d u (snd (removeDeviceData now g' p' d' s))"
  using assms kept_out_prune [OF assms(1,2)]
  by (auto simp: kept_out_def removeDeviceData_def Let_def rememberRemovedDeviceLocked_def
      lookup_simps split: if_splits option.splits)

lemma remember_points_ge:
  "\<exists>e \<ge> u. um_find (m_removedDevices s) k = Some e \<Longrightarrow> u \<le> now + kRemovedDeviceIgnoreMs \<Longrightarrow>
   \<exists>e \<ge> u. um_find (m_removedDevices (remember_points now ps s)) k = Some e"
  unfolding remember_points_def
  by (rule foldl_preserves [where P = "\<lambda>s. \<exists>e \<ge> u. um_find (m_removedDevices s) k = Some e"])
    (auto simp: rememberRemovedDeviceLocked_def lookup_simps)

lemma kept_out_removeMaster:
  assumes "kept_out g p d u s" "now < u" "u \<le> now + kRemovedDeviceIgnoreMs"
  shows "kept_out g p d u (snd (removeMasterData now g' p' s))"
proof (cases "g' = [] \<or> p' = []")
  case False
  let ?s = "pruneExpiredRemovedDevicesLocked now s"
  have "\<exists>e \<ge> u. um_find (m_removedDevices ?s) (registryDeviceKey g p d) = Some e"
    using kept_out_prune [OF assms(1,2)] by (simp add: kept_out_def)
  from remember_points_ge [OF this assms(3), of "filter (same_port g' p') (um_values (m_snapshot ?s))"]
  show ?thesis
    using False assms(1)
    by (auto simp: kept_out_def removeMasterData_def Let_def lookup_simps split: if_splits option.splits)
qed (use assms(1) in \<open>auto simp: removeMasterData_def\<close>)

lemma kept_out_telemetry:
  assumes "kept_out g p d u s" "now < u"
  shows "kept_out g p d u (handleTelemetryPoints now ps s)"
proof -
  let ?s = "pruneExpiredRemovedDevicesLocked now s"
  have "\<not> same_device g p d q" if "um_find (m_snapshot (handleTelemetryPoints now ps s)) k = Some q" for k q
    using handleTelemetryPoints_origin [OF that] accepted_points_mem [of q now ?s ps]
      kept_out_blocked [OF kept_out_prune [OF assms]] assms(1)
    by (auto simp: kept_out_def)
  moreover have "m_removedDevices (handleTelemetryPoints now ps s) = m_removedDevices ?s"
    by (simp add: handleTelemetryPoints_def Let_def)
  ultimately show ?thesis using kept_out_prune [OF assms] by (simp add: kept_out_def)
qed

lemma kept_out_exec:
  assumes k: "kept_out g p d u s" "now < u" "u \<le> now + kRemovedDeviceIgnoreMs"
    and e: "\<not> revives (registryDeviceKey g p d) e"
  shows "kept_out g p d u (svc_exec now e s)"
proof -
  note prune = kept_out_prune [OF k(1,2)]
  consider "registry_event e" | "sync_event e" | "command_event e" | "telemetry_event e"
    using event_cases [of e] e by auto
  then show ?thesis
  proof cases
    case 1
    then show ?thesis using registry_frame [OF 1, of s now] k(1)
      by (auto simp: reg_frame_def intro: kept_out_same)
  next
    case 2
    then show ?thesis using sync_event_frame [OF 2, of s now] k(1)
      by (auto simp: sync_frame_def outside_frame_def intro: kept_out_same)
  next
    case 3
    then show ?thesis using command_event_frame [OF 3, of s now] k(1)
      by (auto simp: outside_frame_def intro: kept_out_same)
  next
    case 4
    have "kept_out g p d u (forgetRemovedDevice now g' p' d' s)"
      if "registryDeviceKey g' p' d' \<noteq> registryDeviceKey g p d" for g' p' d'
      using prune k(1) that by (auto simp: forgetRemovedDevice_def Let_def kept_out_def lookup_simps)
    then show ?thesis
      using 4 e k prune
      by (cases e) (auto simp: kept_out_telemetry kept_out_removeDevice kept_out_removeMaster
          isRemovedDevice_def filterRemovedPoints_def Let_def)
  qed
qed

lemma kept_out_run:
  assumes "kept_out g p d u s"
    and "\<forall>(now, e) \<in> set es. now < u \<and> u \<le> now + kRemovedDeviceIgnoreMs
           \<and> \<not> revives (registryDeviceKey g p d) e"
  shows "kept_out g p d u (svc_run es s)"
  using assms by (induction es arbitrary: s) (auto simp: kept_out_exec)

lemma removeDevice_kept_out:
  assumes "g \<noteq> []" "p \<noteq> []" "d > 0"
  shows "kept_out g p d (now + kRemovedDeviceIgnoreMs) (snd (removeDeviceData now g p d s))"
  using removeDeviceData_state(1,2) [OF assms] by (auto simp: kept_out_def split: option.splits if_splits)

lemma kept_out_no_points: "kept_out g p d u s \<Longrightarrow> getLatestPointsForDevice g p d s = []"
  by (auto simp: kept_out_def getLatestPointsForDevice_def um_values_set filter_empty_conv)

subsection \<open>Timeout notices of commands\<close>

fun soft_notices :: "svc_event \<Rightarrow> PcDataService \<Rightarrow> string list" where
  "soft_notices (EvSoftTimeouts nowMs t) s = map ct_commandId (fst (collectCommandSoftTimeouts nowMs t s))"
| "soft_notices _ s = []"

fun hard_notices :: "svc_event \<Rightarrow> PcDataService \<Rightarrow> string list" where
  "hard_notices (EvHardTimeouts nowMs t) s = map ct_commandId (fst (collectCommandHardTimeouts nowMs t s))"
| "hard_notices _ s = []"

fun soft_trace :: "svc_trace \<Rightarrow> PcDataService \<Rightarrow> string list" where
  "soft_trace [] s = []"
| "soft_trace ((now, e) # es) s = soft_notices e s @ soft_trace es (svc_exec now e s)"

fun hard_trace :: "svc_trace \<Rightarrow> PcDataService \<Rightarrow> string list" where
  "hard_trace [] s = []"
| "hard_trace ((now, e) # es) s = hard_notices e s @ hard_trace es (svc_exec now e s)"

fun remembers :: "string \<Rightarrow> svc_event \<Rightarrow> bool" where
  "remembers k (EvRememberCommand c) = (ct_commandId c = k)"
| "remembers k _ = False"

text \<open>A command has a notice left when it is stored and not yet marked.\<close>

definition soft_left :: "string \<Rightarrow> PcDataService \<Rightarrow> nat" where
  "soft_left k s = (case um_find (m_pendingCommandsByCommandId s) k of None \<Rightarrow> 0
     | Some c \<Rightarrow> if ct_timeoutNotified c then 0 else 1)"

definition hard_left :: "string \<Rightarrow> PcDataService \<Rightarrow> nat" where
  "hard_left k s = (case um_find (m_pendingCommandsByCommandId s) k of None \<Rightarrow> 0
     | Some c \<Rightarrow> if ct_hardTimeoutNotified c then 0 else 1)"

lemma svc_exec_cmd_wf: "cmd_wf s \<Longrightarrow> cmd_wf (svc_exec now e s)"
  using event_cases [of e] registry_frame [of e s now] telemetry_event_frame [of e s now]
    sync_event_frame [of e s now] command_cmd_wf [of e s now]
  by (auto simp: reg_frame_def telemetry_frame_def sync_frame_def intro: cmd_wf_same)
    (simp add: svc_clear_def cmd_wf_def lookup_simps)

lemma count_distinct: "distinct xs \<Longrightarrow> count_list xs k = (if k \<in> set xs then 1 else 0)"
  by (induction xs) auto

lemma same_cmd_left: "same_cmd s s' \<Longrightarrow> soft_left k s' = soft_left k s \<and> hard_left k s' = hard_left k s"
  by (simp add: same_cmd_def soft_left_def hard_left_def)

lemma notices_step:
  assumes "cmd_wf s" "\<not> remembers k e"
  shows "count_list (soft_notices e s) k + soft_left k (svc_exec now e s) \<le> soft_left k s"
    and "count_list (hard_notices e s) k + hard_left k (svc_exec now e s) \<le> hard_left k s"
proof -
  consider "same_cmd s (svc_exec now e s)" "soft_notices e s = []" "hard_notices e s = []"
    | c where "e = EvRememberCommand c" | j where "e = EvTakeCommand j" | n t where "e = EvSoftTimeouts n t"
    | n t where "e = EvHardTimeouts n t" | "e = EvClear"
    using registry_frame [of e s now] telemetry_event_frame [of e s now] sync_event_frame [of e s now]
    by (cases e) (auto simp: reg_frame_def telemetry_frame_def sync_frame_def)
  note cases = this
  have soft: "count_list (map ct_commandId (fst (collectCommandSoftTimeouts n t s))) k =
      (if n > 0 \<and> t > 0 \<and> (\<exists>c. um_find (m_pendingCommandsByCommandId s) k = Some c \<and> soft_due n t c)
       then 1 else 0)" for n t
    using count_distinct [OF collect_distinct(1) [OF assms(1), of n t], of k] soft_ids [OF assms(1), of k n t]
    by simp
  have hard: "count_list (map ct_commandId (fst (collectCommandHardTimeouts n t s))) k =
      (if n > 0 \<and> t > 0 \<and> (\<exists>c. um_find (m_pendingCommandsByCommandId s) k = Some c \<and> hard_due n t c)
       then 1 else 0)" for n t
    using count_distinct [OF collect_distinct(2) [OF assms(1), of n t], of k] hard_ids [OF assms(1), of k n t]
    by simp
  note defs = soft_left_def hard_left_def lookup_simps rememberPendingCommand_def
    takePendingCommand_def svc_clear_def
  show "count_list (soft_notices e s) k + soft_left k (svc_exec now e s) \<le> soft_left k s"
    using cases
  proof cases
    case 1 then show ?thesis by (simp add: same_cmd_left)
  next
    case (4 n t)
    then show ?thesis
      by (auto simp: soft defs collect_find soft_due_def split: option.splits)
  next
    case (5 n t)
    then show ?thesis
      by (auto simp: defs collect_find split: option.splits)
  qed (use assms(2) in \<open>auto simp: defs split: option.splits\<close>)
  show "count_list (hard_notices e s) k + hard_left k (svc_exec now e s) \<le> hard_left k s"
    using cases
  proof cases
    case 1 then show ?thesis by (simp add: same_cmd_left)
  next
    case (4 n t)
    then show ?thesis
      by (auto simp: defs collect_find split: option.splits)
  next
    case (5 n t)
    then show ?thesis
      by (auto simp: hard defs collect_find hard_due_def split: option.splits)
  qed (use assms(2) in \<open>auto simp: defs split: option.splits\<close>)
qed

lemma notices_bound:
  assumes "cmd_wf s" "\<forall>(now, e) \<in> set es. \<not> remembers k e"
  shows "count_list (soft_trace es s) k \<le> soft_left k s" "count_list (hard_trace es s) k \<le> hard_left k s"
  using assms
proof (induction es arbitrary: s)
  case (Cons x es)
  obtain now e where x: "x = (now, e)" by fastforce
  { case 1
    then show ?case
      using Cons.IH(1) [OF svc_exec_cmd_wf [where now = now and e = e]] notices_step(1) [of s k e, where now = now] x by fastforce }
  { case 2
    then show ?case
      using Cons.IH(2) [OF svc_exec_cmd_wf [where now = now and e = e]] notices_step(2) [of s k e, where now = now] x by fastforce }
qed simp_all

end
