(* ===== verification/TelemetryPath.thy ===== *)
theory TelemetryPath
  imports TelemetryParser ModelConverter PcService
begin

text \<open>
  The path of a telemetry message through Pc_data: TelemetryPackParser, ModelConverter and
  PcDataService together.  The lemmas relate what arrives in the JSON text to what the
  service answers.
\<close>

lemma foldl_scan_hasRelay:
  "ps_hasPointRelay (foldl (scan_point J) ps pts) \<longleftrightarrow>
     ps_hasPointRelay ps \<or> (\<exists>p \<in> set pts. relay_point J p)"
proof (induction pts arbitrary: ps)
  case (Cons p pts)
  then show ?case
    by (cases "relay_point J p") (auto simp: scan_point_relay scan_point_other)
qed simp

definition item_points :: "'v rapidjson \<Rightarrow> 'v \<Rightarrow> 'v list" where
  "item_points J item = (case obj_member J item ''points'' of None \<Rightarrow> []
     | Some pts \<Rightarrow> if rj_is_array J pts then rj_elements J pts else [])"

lemma scan_points_item: "scan_points J item = foldl (scan_point J) point_scan_init (item_points J item)"
  by (simp add: scan_points_def item_points_def split: option.splits)

lemma parse_device_relay:
  "dd_relay (parse_device J item) = parse_relay J item (nestedObject J item ''relay'')
     (dd_type (parse_device J item)) (scan_points J item)"
  by (simp add: parse_device_def Let_def split: prod.splits)

lemma relay_is_on_parsed:
  assumes "\<exists>p \<in> set (item_points J item). relay_point J p"
  shows "relay_is_on (dd_relay (parse_device J item)) i \<longleftrightarrow>
     i < 16 \<and> (\<exists>p \<in> set (item_points J item). relay_point J p \<and> relay_point_on J p
                 \<and> relay_point_channel J p = int i + 1)"
  using assms foldl_scan_hasRelay [of J point_scan_init "item_points J item"]
    foldl_scan_states [of J point_scan_init "item_points J item" i]
  by (auto simp: relay_is_on_def parse_device_relay parse_relay_def Let_def scan_points_item)
    (simp_all add: point_scan_init_def)

lemma parsed_channelCount_covers:
  assumes "p \<in> set (item_points J item)" "relay_point J p" "relay_point_channel J p \<le> 64"
    and "dd_type (parse_device J item) = DT_Relay"
  shows "relay_point_channel J p \<le> rd_channelCount (dd_relay (parse_device J item))"
  using foldl_scan_covers [OF assms(1-3), of point_scan_init] assms(4)
    relayChannelIndex_positive [of "point_key J p"]
  by (auto simp: parse_device_relay parse_relay_def Let_def scan_points_item relay_point_channel_def)

lemma relay_points_of_device:
  assumes "dd_type d = DT_Relay" "device_ok d"
  shows "q \<in> set (device_points pack d) \<longleftrightarrow>
     (\<exists>i. int i < rd_channelCount (dd_relay d) \<and> q = relay_channel_point pack d i)"
proof -
  have "relay_channel_count (dd_relay d) = rd_channelCount (dd_relay d)"
    using assms(2) relay_channel_count_id by (simp add: device_ok_def)
  then show ?thesis using assms(1) by (auto simp: device_points_def appendRelayPoints_def image_iff zless_nat_eq_int_zless)
qed

lemma relay_channel_point_fields:
  "tp_pointKey (relay_channel_point pack d i) = ''relay_'' @ to_string (int i + 1)"
  "tp_textValue (relay_channel_point pack d i) = (if relay_is_on (dd_relay d) i then ''on'' else ''off'')"
  by (simp_all add: relay_channel_point_def Let_def)

lemma relay_states_converted:
  assumes "\<exists>p \<in> set (item_points J item). relay_point J p"
    and ty: "dd_type (parse_device J item) = DT_Relay"
    and n: "1 \<le> n" "n \<le> 16"
  shows "(\<exists>q \<in> set (device_points pack (parse_device J item)).
            tp_pointKey q = ''relay_'' @ to_string n \<and> tp_textValue q = ''on'')
     \<longleftrightarrow> (\<exists>p \<in> set (item_points J item). relay_point J p \<and> relay_point_on J p
            \<and> relay_point_channel J p = n)"
    (is "?out \<longleftrightarrow> ?in")
proof
  let ?d = "parse_device J item"
  note mem = relay_points_of_device [OF ty parse_device_ok, of _ pack]
  note on = relay_is_on_parsed [OF assms(1)]
  assume ?out
  then obtain i where "''relay_'' @ to_string (int i + 1) = ''relay_'' @ to_string n"
      "relay_is_on (dd_relay ?d) i"
    using mem by (fastforce simp: relay_channel_point_fields split: if_splits)
  then show ?in using on [of i] by auto
next
  let ?d = "parse_device J item"
  note mem = relay_points_of_device [OF ty parse_device_ok, of _ pack]
  note on = relay_is_on_parsed [OF assms(1)]
  assume ?in
  then obtain p where p: "p \<in> set (item_points J item)" "relay_point J p" "relay_point_on J p"
      "relay_point_channel J p = n" by blast
  define i where "i = nat (n - 1)"
  have i: "int i + 1 = n" "i < 16" using n by (auto simp: i_def)
  then have "relay_is_on (dd_relay ?d) i" using on [of i] p by auto
  moreover have "int i < rd_channelCount (dd_relay ?d)"
    using parsed_channelCount_covers [OF p(1,2) _ ty] p(4) n i by simp
  ultimately show ?out
    using mem i relay_channel_point_fields [of pack ?d i] by (metis (full_types))
qed

text \<open>A batch whose points all pass the filters.\<close>

lemma accepted_all:
  assumes "\<forall>p \<in> set ps. tp_pointId p \<noteq> [] \<and> \<not> point_blocked s p"
  shows "accepted_points now s ps = map (tp_receiveTimeMs_update (\<lambda>_. now)) ps"
proof -
  have "point_blocked s (tp_receiveTimeMs_update f p) = point_blocked s p" for f p
    by (simp add: point_blocked_def)
  then show ?thesis using assms by (simp add: accepted_points_def)
qed

lemma last_with_id_distinct:
  assumes "distinct (map tp_pointId ps)" "p \<in> set ps"
  shows "last_with_id (tp_pointId p) ps = Some p"
proof -
  obtain q where q: "last_with_id (tp_pointId p) ps = Some q"
    using assms(2) last_with_id_None [of "tp_pointId p" ps] by (cases "last_with_id (tp_pointId p) ps") auto
  then have "q \<in> set ps" "tp_pointId q = tp_pointId p" using last_with_id_Some by blast+
  then show ?thesis using assms q by (metis distinct_map inj_onD)
qed

text \<open>Every point of a pack with distinct device ids is answered by the service.\<close>

lemma pack_point_stored:
  assumes inv: "snap_wf t s" "t \<le> now"
    and ids: "distinct (map dd_deviceId (pk_devices pack))"
    and free: "\<forall>p \<in> set (toTelemetryPoints pack).
      \<not> point_blocked (pruneExpiredRemovedDevicesLocked now s) p"
    and p: "p \<in> set (toTelemetryPoints pack)"
  shows "getPointById (tp_pointId p) (handleTelemetryPack now pack s) = Some (p\<lparr>tp_receiveTimeMs := now\<rparr>)"
proof -
  let ?ps = "toTelemetryPoints pack" and ?s = "pruneExpiredRemovedDevicesLocked now s"
  let ?acc = "map (tp_receiveTimeMs_update (\<lambda>_. now)) ?ps"
  have "\<forall>q \<in> set ?ps. tp_pointId q \<noteq> []"
    using device_points_point_of
    by (fastforce simp: toTelemetryPoints_mem point_of_def pack_point_id_def buildPointId_def)
  then have acc: "accepted_points now ?s ?ps = ?acc" using free by (simp add: accepted_all)
  have "distinct (map tp_pointId ?ps)"
    using points_ids_distinct_aux [OF ids] by (simp add: toTelemetryPoints_def)
  then have d: "distinct (map tp_pointId ?acc)" by (simp add: o_def)
  have "tp_receiveTimeMs q \<le> now" if "um_find (m_snapshot s) k = Some q" for k q
    using inv that unfolding snap_wf_def by fastforce
  note find = handleTelemetryPoints_find [of s now ?ps "tp_pointId p", OF this, unfolded acc]
  have "last_with_id (tp_pointId p) ?acc = Some (p\<lparr>tp_receiveTimeMs := now\<rparr>)"
    using last_with_id_distinct [OF d, of "p\<lparr>tp_receiveTimeMs := now\<rparr>"] p by simp
  then show ?thesis using find by (simp add: getPointById_def handleTelemetryPack_def)
qed

end
