(* ===== verification/PointConfigParser.thy ===== *)
theory PointConfigParser
  imports JsonUtils ModelConverter TelemetryParser
begin

text \<open>
  Pc_data/protocol/PointConfigPackParser.cpp: from the payload of a \<open>threshold_config\<close>
  message to point configurations.  An out-parameter that may stay unwritten
  (\<open>getOptionalDouble\<close>) is an option.
\<close>

definition pcp_getString :: "'v rapidjson \<Rightarrow> 'v \<Rightarrow> string \<Rightarrow> string \<Rightarrow> string" where
  "pcp_getString J obj key defaultValue =
     (case obj_member J obj key of None \<Rightarrow> defaultValue
      | Some v \<Rightarrow> if rj_is_string J v then c_str (rj_get_string J v) else defaultValue)"

definition getOptionalDouble :: "'v rapidjson \<Rightarrow> 'v \<Rightarrow> string \<Rightarrow> fval option" where
  "getOptionalDouble J obj key =
     (case obj_member J obj key of None \<Rightarrow> None
      | Some v \<Rightarrow> if rj_is_null J v then None
                  else if \<not> rj_is_number J v then None
                  else Some (rj_get_double J v))"

fun first_double :: "'v rapidjson \<Rightarrow> 'v \<Rightarrow> string list \<Rightarrow> fval option" where
  "first_double J obj [] = None"
| "first_double J obj (key # keys) =
     (case getOptionalDouble J obj key of Some x \<Rightarrow> Some x | None \<Rightarrow> first_double J obj keys)"

definition getOptionalDoubleAny :: "'v rapidjson \<Rightarrow> 'v \<Rightarrow> string list \<Rightarrow> fval option" where
  "getOptionalDoubleAny J obj keys = (if \<not> rj_is_object J obj then None else first_double J obj keys)"

definition pcp_nestedObject :: "'v rapidjson \<Rightarrow> 'v \<Rightarrow> string \<Rightarrow> 'v" where
  "pcp_nestedObject J obj key =
     (case obj_member J obj key of None \<Rightarrow> rj_null J
      | Some v \<Rightarrow> if rj_is_object J v then v else rj_null J)"

definition pc_buildPointId :: "PointConfig \<Rightarrow> string" where
  "pc_buildPointId config =
     buildPointId (pc_factoryId config) (pc_areaId config) (pc_gatewayId config)
       (pc_portId config) (pc_deviceId config) (pc_pointKey config)"

definition basePointConfig :: "'v rapidjson \<Rightarrow> 'v \<Rightarrow> string \<Rightarrow> string \<Rightarrow> int \<Rightarrow> int \<Rightarrow> PointConfig" where
  "basePointConfig J site deviceName deviceType deviceId timestampMs = PointConfig_default
    \<lparr>pc_timestampMs := timestampMs,
     pc_factoryId := pcp_getString J site ''factoryId'' [],
     pc_factoryName := pcp_getString J site ''factoryName'' [],
     pc_areaId := pcp_getString J site ''areaId'' [],
     pc_areaName := pcp_getString J site ''areaName'' [],
     pc_gatewayId := pcp_getString J site ''gatewayId'' [],
     pc_gatewayName := pcp_getString J site ''gatewayName'' [],
     pc_portId := pcp_getString J site ''portId'' [],
     pc_portName := pcp_getString J site ''portName'' [],
     pc_deviceId := deviceId, pc_deviceName := deviceName, pc_deviceType := deviceType,
     pc_valueType := ''number'', pc_enabled := True\<rparr>"

text \<open>
  \<open>hasAlarmHigh = hasAlarmHigh || getOptionalDoubleAny(..., alarmHigh)\<close>: the limit found so
  far wins.
\<close>

definition or_double :: "fval option \<Rightarrow> fval option \<Rightarrow> fval option" where
  "or_double a b = (case a of Some x \<Rightarrow> Some x | None \<Rightarrow> b)"

definition with_alarm_high :: "fval option \<Rightarrow> PointConfig \<Rightarrow> PointConfig" where
  "with_alarm_high v c = c\<lparr>pc_hasAlarmHigh := (v \<noteq> None),
     pc_alarmHigh := (case v of Some x \<Rightarrow> x | None \<Rightarrow> Fin 0)\<rparr>"

definition with_alarm_low :: "fval option \<Rightarrow> PointConfig \<Rightarrow> PointConfig" where
  "with_alarm_low v c = c\<lparr>pc_hasAlarmLow := (v \<noteq> None),
     pc_alarmLow := (case v of Some x \<Rightarrow> x | None \<Rightarrow> Fin 0)\<rparr>"

definition config_addressed :: "PointConfig \<Rightarrow> bool" where
  "config_addressed c \<longleftrightarrow> pc_factoryId c \<noteq> [] \<and> pc_areaId c \<noteq> [] \<and> pc_gatewayId c \<noteq> []
     \<and> pc_portId c \<noteq> [] \<and> pc_deviceId c > 0"

definition legacy_threshold :: "'v rapidjson \<Rightarrow> 'v \<Rightarrow> 'v \<Rightarrow> string list \<Rightarrow> fval option" where
  "legacy_threshold J thresholds thresholdConfig keys =
     or_double (getOptionalDoubleAny J thresholds keys) (getOptionalDoubleAny J thresholdConfig keys)"

definition appendLegacyThresholdConfig ::
    "'v rapidjson \<Rightarrow> 'v \<Rightarrow> string \<Rightarrow> string \<Rightarrow> int \<Rightarrow> bool \<Rightarrow> 'v \<Rightarrow> 'v \<Rightarrow> int \<Rightarrow> PointConfig list" where
  "appendLegacyThresholdConfig J site deviceName deviceType deviceId deviceThresholdEnabled
       thresholds thresholdConfig timestampMs =
     (let enableAlarm = (if rj_is_object J thresholdConfig
            then getJsonBoolAny J thresholdConfig [''enable''] deviceThresholdEnabled
            else deviceThresholdEnabled);
          base = basePointConfig J site deviceName deviceType deviceId timestampMs;
          temperature = with_alarm_high
            (legacy_threshold J thresholds thresholdConfig [''temp_high'', ''tempHigh''])
            (base\<lparr>pc_pointKey := ''temperature'', pc_pointName := ''temperature'', pc_unit := ''c'',
                  pc_enableAlarm := enableAlarm\<rparr>);
          humidity = with_alarm_high
            (legacy_threshold J thresholds thresholdConfig [''humi_high'', ''humiHigh''])
            (base\<lparr>pc_pointKey := ''humidity'', pc_pointName := ''humidity'', pc_unit := [CHR 0x25],
                  pc_enableAlarm := enableAlarm\<rparr>);
          emit = (\<lambda>c. if config_addressed c \<and> pc_hasAlarmHigh c
                      then [c\<lparr>pc_pointId := pc_buildPointId c\<rparr>] else [])
      in emit temperature @ emit humidity)"

text \<open>One element of a device's \<open>points\<close>; an incomplete address is skipped.\<close>

definition high_limit :: "'v rapidjson \<Rightarrow> 'v \<Rightarrow> string \<Rightarrow> 'v \<Rightarrow> 'v \<Rightarrow> fval option" where
  "high_limit J point pointKey thresholds thresholdConfig =
     (let own = getOptionalDoubleAny J point [''alarmHigh'', ''alarm_high''];
          keys = (if pointKey = ''temperature'' then [''temp_high'', ''tempHigh'']
                  else if pointKey = ''humidity'' then [''humi_high'', ''humiHigh'']
                  else [])
      in or_double own (or_double (getOptionalDoubleAny J thresholds keys)
           (getOptionalDoubleAny J thresholdConfig keys)))"

definition point_config :: "'v rapidjson \<Rightarrow> 'v \<Rightarrow> string \<Rightarrow> string \<Rightarrow> int \<Rightarrow> bool \<Rightarrow> 'v \<Rightarrow> 'v \<Rightarrow> int
    \<Rightarrow> 'v \<Rightarrow> PointConfig list" where
  "point_config J site deviceName deviceType deviceId deviceThresholdEnabled thresholds
       thresholdConfig timestampMs point =
     (if \<not> rj_is_object J point then []
      else
        let pointKey = pcp_getString J point ''pointKey'' [];
            enable = getJsonBoolAny J point [''enableAlarm'', ''enable_alarm''] deviceThresholdEnabled;
            enable = (if rj_is_object J thresholdConfig
                      then getJsonBoolAny J thresholdConfig [''enable''] enable else enable);
            config = (basePointConfig J site deviceName deviceType deviceId timestampMs)
              \<lparr>pc_pointKey := pointKey,
               pc_pointName := pcp_getString J point ''pointName'' [],
               pc_unit := pcp_getString J point ''unit'' [],
               pc_valueType := pcp_getString J point ''valueType'' ''number'',
               pc_enableAlarm := enable\<rparr>;
            config = with_alarm_low (getOptionalDoubleAny J point [''alarmLow'', ''alarm_low'']) config;
            config = with_alarm_high (high_limit J point pointKey thresholds thresholdConfig) config
        in if pointKey = [] \<or> \<not> config_addressed config then []
           else [config\<lparr>pc_pointId := pc_buildPointId config\<rparr>])"

definition object_member_or :: "'v rapidjson \<Rightarrow> 'v \<Rightarrow> string \<Rightarrow> 'v \<Rightarrow> 'v" where
  "object_member_or J obj key other =
     (case rj_member J obj key of None \<Rightarrow> other
      | Some v \<Rightarrow> if rj_is_object J v then v else other)"

definition device_point_configs :: "'v rapidjson \<Rightarrow> int \<Rightarrow> 'v \<Rightarrow> 'v \<Rightarrow> PointConfig list" where
  "device_point_configs J timestampMs site device =
     (let deviceId = getJsonIntAny J device [''deviceId'', ''slave_id'', ''slaveAddress''] 0;
          deviceName = pcp_getString J device ''deviceName'' [];
          deviceType = getJsonStringAny J device [''deviceType'', ''device_type''];
          enabled = getJsonBoolAny J device [''threshold_enabled'', ''thresholdEnabled''] False;
          thresholdConfig = object_member_or J device ''threshold_config''
            (pcp_nestedObject J device ''thresholdConfig'');
          thresholds = object_member_or J device ''thresholds''
            (pcp_nestedObject J thresholdConfig ''thresholds'');
          legacy = appendLegacyThresholdConfig J site deviceName deviceType deviceId enabled
            thresholds thresholdConfig timestampMs
      in case rj_member J device ''points'' of None \<Rightarrow> legacy
         | Some points \<Rightarrow>
             if \<not> rj_is_array J points then legacy
             else concat (map (point_config J site deviceName deviceType deviceId enabled
                    thresholds thresholdConfig timestampMs) (rj_elements J points)))"

definition PointConfigPackParser_parseJson ::
    "'v rapidjson \<Rightarrow> int \<Rightarrow> string \<Rightarrow> string + PointConfig list" where
  "PointConfigPackParser_parseJson J now payload =
     (case rj_parse J (c_str payload) of
        Inl (text, offset) \<Rightarrow>
          Inl (''json parse error: '' @ text @ '' at offset '' @ to_string (int offset))
      | Inr doc \<Rightarrow>
          if \<not> rj_is_object J doc then Inl ''root is not object''
          else if pcp_getString J doc ''type'' [] \<noteq> ''threshold_config'' then Inl ''unsupported type''
          else case rj_member J doc ''devices'' of
            None \<Rightarrow> Inl ''devices is missing or not array''
          | Some devices \<Rightarrow>
              if \<not> rj_is_array J devices then Inl ''devices is missing or not array''
              else
                let timestampMs = getJsonInt64Any J doc [''timestampMs'', ''timestamp'', ''time''] now;
                    site = pcp_nestedObject J doc ''site''
                in Inr (concat (map (device_point_configs J timestampMs site)
                     (filter (rj_is_object J) (rj_elements J devices)))))"

subsection \<open>What a parsed configuration satisfies\<close>

definition config_ok :: "PointConfig \<Rightarrow> bool" where
  "config_ok c \<longleftrightarrow> config_addressed c \<and> pc_pointKey c \<noteq> [] \<and> pc_pointId c = pc_buildPointId c
     \<and> pc_enabled c \<and> (pc_hasAlarmHigh c \<or> pc_alarmHigh c = Fin 0)
     \<and> (pc_hasAlarmLow c \<or> pc_alarmLow c = Fin 0)"

lemma with_alarm_fields [simp]:
  "config_addressed (with_alarm_high v c) = config_addressed c"
  "config_addressed (with_alarm_low v c) = config_addressed c"
  "pc_pointKey (with_alarm_high v c) = pc_pointKey c"
  "pc_pointKey (with_alarm_low v c) = pc_pointKey c"
  "pc_enabled (with_alarm_high v c) = pc_enabled c"
  "pc_enabled (with_alarm_low v c) = pc_enabled c"
  "pc_hasAlarmHigh (with_alarm_low v c) = pc_hasAlarmHigh c"
  "pc_hasAlarmLow (with_alarm_high v c) = pc_hasAlarmLow c"
  "pc_alarmHigh (with_alarm_low v c) = pc_alarmHigh c"
  "pc_alarmLow (with_alarm_high v c) = pc_alarmLow c"
  "pc_hasAlarmHigh (with_alarm_high v c) \<longleftrightarrow> v \<noteq> None"
  "pc_hasAlarmLow (with_alarm_low v c) \<longleftrightarrow> v \<noteq> None"
  "pc_alarmHigh (with_alarm_high v c) = (case v of Some x \<Rightarrow> x | None \<Rightarrow> Fin 0)"
  "pc_alarmLow (with_alarm_low v c) = (case v of Some x \<Rightarrow> x | None \<Rightarrow> Fin 0)"
  by (auto simp: with_alarm_high_def with_alarm_low_def config_addressed_def split: option.splits)

lemma base_config_fields [simp]:
  "pc_enabled (basePointConfig J site nm ty i t)"
  "\<not> pc_hasAlarmLow (basePointConfig J site nm ty i t)"
  "pc_alarmLow (basePointConfig J site nm ty i t) = Fin 0"
  by (simp_all add: basePointConfig_def PointConfig_default_def)

lemma config_ok_with_id:
  "config_addressed c \<Longrightarrow> pc_pointKey c \<noteq> [] \<Longrightarrow> pc_enabled c \<Longrightarrow>
   pc_hasAlarmHigh c \<or> pc_alarmHigh c = Fin 0 \<Longrightarrow>
   pc_hasAlarmLow c \<or> pc_alarmLow c = Fin 0 \<Longrightarrow>
   config_ok (c\<lparr>pc_pointId := pc_buildPointId c\<rparr>)"
  by (simp add: config_ok_def config_addressed_def pc_buildPointId_def)

lemma legacy_config_ok:
  assumes "c \<in> set (appendLegacyThresholdConfig J site nm ty i en th cfg t)"
  shows "config_ok c \<and> pc_hasAlarmHigh c"
  using assms
  by (auto simp: appendLegacyThresholdConfig_def Let_def split: if_splits
      intro!: config_ok_with_id)

lemma point_config_ok:
  assumes "c \<in> set (point_config J site nm ty i en th cfg t point)"
  shows "config_ok c"
proof -
  obtain b hi lo where
    "c = (with_alarm_high hi (with_alarm_low lo b))
      \<lparr>pc_pointId := pc_buildPointId (with_alarm_high hi (with_alarm_low lo b))\<rparr>"
    "config_addressed b" "pc_pointKey b \<noteq> []" "pc_enabled b"
    using assms by (auto simp: point_config_def Let_def split: if_splits)
  then show ?thesis by (auto intro!: config_ok_with_id split: option.splits)
qed

lemma device_point_configs_ok:
  "c \<in> set (device_point_configs J t site device) \<Longrightarrow> config_ok c"
  by (auto simp: device_point_configs_def Let_def dest: legacy_config_ok point_config_ok
      split: option.splits if_splits)

lemma parsed_configs_ok:
  "PointConfigPackParser_parseJson J now payload = Inr cs \<Longrightarrow> c \<in> set cs \<Longrightarrow> config_ok c"
  using device_point_configs_ok
  by (fastforce simp: PointConfigPackParser_parseJson_def Let_def
      split: sum.splits if_splits option.splits)

end
