(* ===== verification/Sensors.thy ===== *)
theory Sensors
  imports Floats
begin

text \<open>
  Linux_data/sensors and Linux_data/modbus: the two kinds of field device and the bus master.
  libmodbus is a parameter: the n-th exchange on the bus has the outcome the record
  \<open>modbus_lib\<close> gives for n (return value and, for a read, the values written to the
  buffer).  Every operation that talks to the bus takes the number of exchanges so far and
  returns it advanced.  \<open>device_data\<close> has the members of the C union side by side; each is
  read only under its own type.
\<close>

subsection \<open>Data of data_protocol.h\<close>

datatype device_type_t = DEV_UNKNOWN | DEV_SENSOR_TH | DEV_RELAY | DEV_ELECTRIC_METER | DEV_SYSINFO

record meter_values =
  mv_voltage :: fval
  mv_current :: fval
  mv_power :: fval
  mv_energy :: fval

record sys_values =
  sv_kernel :: string
  sv_arch :: string
  sv_os :: string
  sv_screen_w :: int
  sv_screen_h :: int
  sv_cpu_usage :: fval
  sv_memory_usage :: fval

record device_data =
  dv_device_id :: int
  dv_device_name :: string
  dv_type :: device_type_t
  dv_valid :: bool
  dv_error_message :: string
  dv_temperature :: fval
  dv_humidity :: fval
  dv_relay_states :: "16 word"
  dv_channel_count :: int
  dv_meter :: meter_values
  dv_sys :: sys_values

definition device_data_zero :: device_data where
  "device_data_zero =
    \<lparr>dv_device_id = 0, dv_device_name = [], dv_type = DEV_UNKNOWN, dv_valid = False,
     dv_error_message = [], dv_temperature = Fin 0, dv_humidity = Fin 0, dv_relay_states = 0,
     dv_channel_count = 0,
     dv_meter = \<lparr>mv_voltage = Fin 0, mv_current = Fin 0, mv_power = Fin 0, mv_energy = Fin 0\<rparr>,
     dv_sys = \<lparr>sv_kernel = [], sv_arch = [], sv_os = [], sv_screen_w = 0, sv_screen_h = 0,
       sv_cpu_usage = Fin 0, sv_memory_usage = Fin 0\<rparr>\<rparr>"

record point_threshold_config =
  pt_enable_alarm :: bool
  pt_has_low :: bool
  pt_alarm_low :: fval
  pt_has_high :: bool
  pt_alarm_high :: fval

record sensor_threshold_config =
  st_threshold_enabled :: bool
  st_temperature :: point_threshold_config
  st_humidity :: point_threshold_config

definition point_threshold_zero :: point_threshold_config where
  "point_threshold_zero = \<lparr>pt_enable_alarm = False, pt_has_low = False, pt_alarm_low = Fin 0,
     pt_has_high = False, pt_alarm_high = Fin 0\<rparr>"

definition sensor_threshold_zero :: sensor_threshold_config where
  "sensor_threshold_zero = \<lparr>st_threshold_enabled = False, st_temperature = point_threshold_zero,
     st_humidity = point_threshold_zero\<rparr>"

record ThresholdAlarmEvent =
  ta_active :: bool
  ta_reason :: string
  ta_value :: fval
  ta_threshold :: fval
  ta_point_key :: string

definition ThresholdAlarmEvent_default :: ThresholdAlarmEvent where
  "ThresholdAlarmEvent_default = \<lparr>ta_active = False, ta_reason = [], ta_value = Fin 0,
     ta_threshold = Fin 0, ta_point_key = []\<rparr>"

subsection \<open>The bus master\<close>

datatype RtsMode = RTS_DEFAULT | RTS_CUSTOM

record ModbusMaster =
  mm_dev :: string
  mm_baud :: int
  mm_gpio :: int
  mm_rts_mode :: RtsMode
  mm_ctx :: bool

record modbus_lib =
  ml_gpio :: "nat \<Rightarrow> bool"
  ml_connect :: "nat \<Rightarrow> bool"
  ml_read_registers :: "nat \<Rightarrow> int \<Rightarrow> int \<Rightarrow> int \<Rightarrow> int \<times> 16 word list"
  ml_read_bits :: "nat \<Rightarrow> int \<Rightarrow> int \<Rightarrow> int \<Rightarrow> int \<times> 8 word list"
  ml_write_register :: "nat \<Rightarrow> int \<Rightarrow> int \<Rightarrow> 16 word \<Rightarrow> int"
  ml_write_bits :: "nat \<Rightarrow> int \<Rightarrow> int \<Rightarrow> 8 word list \<Rightarrow> int"

definition ModbusMaster_new :: "string \<Rightarrow> int \<Rightarrow> int \<Rightarrow> RtsMode \<Rightarrow> ModbusMaster" where
  "ModbusMaster_new dev baud gpio mode =
     \<lparr>mm_dev = dev, mm_baud = baud, mm_gpio = gpio, mm_rts_mode = mode, mm_ctx = False\<rparr>"

definition mb_init :: "modbus_lib \<Rightarrow> nat \<Rightarrow> ModbusMaster \<Rightarrow> bool \<times> ModbusMaster \<times> nat" where
  "mb_init L n bus =
     (if mm_rts_mode bus = RTS_CUSTOM \<and> \<not> ml_gpio L n then (False, bus, Suc n)
      else if \<not> ml_connect L n then (False, bus\<lparr>mm_ctx := False\<rparr>, Suc n)
      else (True, bus\<lparr>mm_ctx := True\<rparr>, Suc n))"

definition mb_close :: "ModbusMaster \<Rightarrow> ModbusMaster" where
  "mb_close bus = bus\<lparr>mm_ctx := False\<rparr>"

definition mb_readRegisters :: "modbus_lib \<Rightarrow> nat \<Rightarrow> ModbusMaster \<Rightarrow> int \<Rightarrow> int \<Rightarrow> int
    \<Rightarrow> (int \<times> 16 word list) \<times> nat" where
  "mb_readRegisters L n bus slave addr nb =
     (if \<not> mm_ctx bus then ((-1, []), n) else (ml_read_registers L n slave addr nb, Suc n))"

definition mb_readCoils :: "modbus_lib \<Rightarrow> nat \<Rightarrow> ModbusMaster \<Rightarrow> int \<Rightarrow> int \<Rightarrow> int
    \<Rightarrow> (int \<times> 8 word list) \<times> nat" where
  "mb_readCoils L n bus slave addr nb =
     (if \<not> mm_ctx bus then ((-1, []), n) else (ml_read_bits L n slave addr nb, Suc n))"

definition mb_writeRegister :: "modbus_lib \<Rightarrow> nat \<Rightarrow> ModbusMaster \<Rightarrow> int \<Rightarrow> int \<Rightarrow> 16 word \<Rightarrow> int \<times> nat" where
  "mb_writeRegister L n bus slave addr v =
     (if \<not> mm_ctx bus then (-1, n) else (ml_write_register L n slave addr v, Suc n))"

definition mb_writeCoils :: "modbus_lib \<Rightarrow> nat \<Rightarrow> ModbusMaster \<Rightarrow> int \<Rightarrow> int \<Rightarrow> 8 word list \<Rightarrow> int \<times> nat" where
  "mb_writeCoils L n bus slave addr data =
     (if \<not> mm_ctx bus then (-1, n) else (ml_write_bits L n slave addr data, Suc n))"

text \<open>Reading element i of a buffer that was set to zero before the call.\<close>

definition buf_at :: "'a::zero list \<Rightarrow> nat \<Rightarrow> 'a" where
  "buf_at xs i = (if i < length xs then xs ! i else 0)"

subsection \<open>Sensors\<close>

record TemperatureHumiditySensor =
  ts_slave_id :: int
  ts_poll_interval_ms :: int
  ts_config :: sensor_threshold_config
  ts_has_config :: bool
  ts_last_temperature_alarm :: bool
  ts_last_humidity_alarm :: bool

record RelayDevice =
  rl_slave_id :: int
  rl_poll_interval_ms :: int

datatype SensorDevice = SensorTH TemperatureHumiditySensor | SensorRelay RelayDevice

definition TemperatureHumiditySensor_new ::
    "int \<Rightarrow> int \<Rightarrow> sensor_threshold_config option \<Rightarrow> TemperatureHumiditySensor" where
  "TemperatureHumiditySensor_new slave_id poll_interval_ms config =
     \<lparr>ts_slave_id = slave_id, ts_poll_interval_ms = poll_interval_ms,
      ts_config = (case config of None \<Rightarrow> sensor_threshold_zero | Some c \<Rightarrow> c),
      ts_has_config = (config \<noteq> None), ts_last_temperature_alarm = False, ts_last_humidity_alarm = False\<rparr>"

fun slaveId :: "SensorDevice \<Rightarrow> int" where
  "slaveId (SensorTH s) = ts_slave_id s"
| "slaveId (SensorRelay r) = rl_slave_id r"

fun pollIntervalMs :: "SensorDevice \<Rightarrow> int" where
  "pollIntervalMs (SensorTH s) = ts_poll_interval_ms s"
| "pollIntervalMs (SensorRelay r) = rl_poll_interval_ms r"

fun deviceType :: "SensorDevice \<Rightarrow> device_type_t" where
  "deviceType (SensorTH s) = DEV_SENSOR_TH"
| "deviceType (SensorRelay r) = DEV_RELAY"

fun deviceTypeName :: "SensorDevice \<Rightarrow> string" where
  "deviceTypeName (SensorTH s) = ''sensor_th''"
| "deviceTypeName (SensorRelay r) = ''relay''"

definition th_read :: "modbus_lib \<Rightarrow> nat \<Rightarrow> ModbusMaster \<Rightarrow> TemperatureHumiditySensor
    \<Rightarrow> int \<times> device_data \<times> nat" where
  "th_read L n bus s =
     (let dev = device_data_zero\<lparr>dv_device_id := ts_slave_id s, dv_type := DEV_SENSOR_TH\<rparr>;
          ((ret, regs), n) = mb_readRegisters L n bus (ts_slave_id s) 0 2
      in if ret \<noteq> 2 then (-1, dev, n)
         else (0, dev\<lparr>dv_valid := True,
                 dv_temperature := float_round (of_int (sint (buf_at regs 1)) / 10),
                 dv_humidity := float_round (of_int (uint (buf_at regs 0)) / 10)\<rparr>, n))"

definition ChannelCount :: nat where "ChannelCount = 4"

text \<open>The bitmap of a list of coils, bit i for coil i.\<close>

definition coils_bitmap :: "8 word list \<Rightarrow> 16 word" where
  "coils_bitmap states =
     foldl (\<lambda>bitmap i. if buf_at states i \<noteq> 0 then bitmap OR push_bit i 1 else bitmap) 0 [0..<ChannelCount]"

definition relay_read :: "modbus_lib \<Rightarrow> nat \<Rightarrow> ModbusMaster \<Rightarrow> RelayDevice \<Rightarrow> int \<times> device_data \<times> nat" where
  "relay_read L n bus r =
     (let dev = device_data_zero\<lparr>dv_device_id := rl_slave_id r, dv_type := DEV_RELAY\<rparr>;
          ((ret, states), n) = mb_readCoils L n bus (rl_slave_id r) 0 (int ChannelCount)
      in if ret \<noteq> int ChannelCount then (-1, dev, n)
         else (0, dev\<lparr>dv_valid := True, dv_relay_states := coils_bitmap states,
                     dv_channel_count := int ChannelCount\<rparr>, n))"

definition state_coils :: "16 word \<Rightarrow> 8 word list" where
  "state_coils states = map (\<lambda>i. if bit states i then 1 else 0) [0..<ChannelCount]"

definition relay_writeStates :: "modbus_lib \<Rightarrow> nat \<Rightarrow> ModbusMaster \<Rightarrow> 16 word \<Rightarrow> RelayDevice \<Rightarrow> int \<times> nat" where
  "relay_writeStates L n bus states r =
     (let (ret, n) = mb_writeCoils L n bus (rl_slave_id r) 0 (state_coils states)
      in (if ret = int ChannelCount then 0 else -1, n))"

fun sensor_read :: "modbus_lib \<Rightarrow> nat \<Rightarrow> ModbusMaster \<Rightarrow> SensorDevice \<Rightarrow> int \<times> device_data \<times> nat" where
  "sensor_read L n bus (SensorTH s) = th_read L n bus s"
| "sensor_read L n bus (SensorRelay r) = relay_read L n bus r"

subsection \<open>Thresholds\<close>

fun thresholdConfig :: "SensorDevice \<Rightarrow> sensor_threshold_config option" where
  "thresholdConfig (SensorTH s) = (if ts_has_config s then Some (ts_config s) else None)"
| "thresholdConfig (SensorRelay r) = None"

fun setThresholdConfig :: "sensor_threshold_config \<Rightarrow> SensorDevice \<Rightarrow> SensorDevice" where
  "setThresholdConfig config (SensorTH s) = SensorTH (s\<lparr>ts_config := config, ts_has_config := True,
     ts_last_temperature_alarm := False, ts_last_humidity_alarm := False\<rparr>)"
| "setThresholdConfig config (SensorRelay r) = SensorRelay r"

text \<open>The limit that a value violates, with the suffix of the reason.\<close>

definition violated :: "point_threshold_config \<Rightarrow> fval \<Rightarrow> (fval \<times> string) option" where
  "violated threshold v =
     (if pt_has_high threshold \<and> f_less (pt_alarm_high threshold) v
      then Some (pt_alarm_high threshold, ''_high'')
      else if pt_has_low threshold \<and> f_less v (pt_alarm_low threshold)
      then Some (pt_alarm_low threshold, ''_low'')
      else None)"

definition checkPoint :: "string \<Rightarrow> point_threshold_config \<Rightarrow> fval \<Rightarrow> bool
    \<Rightarrow> ThresholdAlarmEvent option \<times> bool" where
  "checkPoint point_key threshold v last_state =
     (if \<not> pt_enable_alarm threshold then (None, last_state)
      else case violated threshold v of
             None \<Rightarrow> (None, False)
           | Some (limit, suffix) \<Rightarrow>
               if last_state then (None, last_state)
               else (Some \<lparr>ta_active = True, ta_reason = point_key @ suffix, ta_value = v,
                           ta_threshold = limit, ta_point_key = point_key\<rparr>, True))"

definition th_checkThreshold :: "device_data \<Rightarrow> TemperatureHumiditySensor
    \<Rightarrow> ThresholdAlarmEvent option \<times> TemperatureHumiditySensor" where
  "th_checkThreshold dev s =
     (if \<not> ts_has_config s \<or> \<not> st_threshold_enabled (ts_config s) \<or> \<not> dv_valid dev
         \<or> dv_type dev \<noteq> DEV_SENSOR_TH
      then (None, s)
      else
        let (event, latch) = checkPoint ''temperature'' (st_temperature (ts_config s))
              (dv_temperature dev) (ts_last_temperature_alarm s);
            s = s\<lparr>ts_last_temperature_alarm := latch\<rparr>
        in case event of
             Some e \<Rightarrow> (Some e, s)
           | None \<Rightarrow>
               (let (event, latch) = checkPoint ''humidity'' (st_humidity (ts_config s))
                      (dv_humidity dev) (ts_last_humidity_alarm s)
                in (event, s\<lparr>ts_last_humidity_alarm := latch\<rparr>)))"

fun checkThreshold :: "device_data \<Rightarrow> SensorDevice \<Rightarrow> ThresholdAlarmEvent option \<times> SensorDevice" where
  "checkThreshold dev (SensorTH s) = (let (e, s) = th_checkThreshold dev s in (e, SensorTH s))"
| "checkThreshold dev (SensorRelay r) = (None, SensorRelay r)"

lemma sensor_identity [simp]:
  "slaveId (setThresholdConfig c s) = slaveId s" "pollIntervalMs (setThresholdConfig c s) = pollIntervalMs s"
  "deviceType (setThresholdConfig c s) = deviceType s"
  "slaveId (snd (checkThreshold dev s)) = slaveId s"
  "pollIntervalMs (snd (checkThreshold dev s)) = pollIntervalMs s"
  "deviceType (snd (checkThreshold dev s)) = deviceType s"
  by (cases s; simp add: th_checkThreshold_def Let_def split_def split: option.split)+

subsection \<open>Alarms mark the edges\<close>

fun point_alarms :: "string \<Rightarrow> point_threshold_config \<Rightarrow> fval list \<Rightarrow> bool \<Rightarrow> bool list" where
  "point_alarms k t [] latch = []"
| "point_alarms k t (v # vs) latch =
     (let (e, latch') = checkPoint k t v latch in (e \<noteq> None) # point_alarms k t vs latch')"

text \<open>Whether value i of a sequence is out of range, with \<open>latch\<close> before the first.\<close>

definition out_before :: "point_threshold_config \<Rightarrow> fval list \<Rightarrow> bool \<Rightarrow> nat \<Rightarrow> bool" where
  "out_before t vs latch i = (case i of 0 \<Rightarrow> latch | Suc j \<Rightarrow> violated t (vs ! j) \<noteq> None)"

lemma checkPoint_enabled:
  "pt_enable_alarm t \<Longrightarrow> (fst (checkPoint k t v latch) \<noteq> None) = (violated t v \<noteq> None \<and> \<not> latch)
     \<and> snd (checkPoint k t v latch) = (violated t v \<noteq> None)"
  by (auto simp: checkPoint_def split: option.splits)

lemma point_alarms_edges:
  assumes "pt_enable_alarm t"
  shows "length (point_alarms k t vs latch) = length vs \<and>
    (\<forall>i < length vs. point_alarms k t vs latch ! i = (violated t (vs ! i) \<noteq> None \<and> \<not> out_before t vs latch i))"
proof (induction vs arbitrary: latch)
  case (Cons v vs)
  obtain e l where c: "checkPoint k t v latch = (e, l)" by fastforce
  then have e: "(e \<noteq> None) = (violated t v \<noteq> None \<and> \<not> latch)" "l = (violated t v \<noteq> None)"
    using checkPoint_enabled [OF assms, of k v latch] by auto
  have "point_alarms k t (v # vs) latch ! i = (violated t ((v # vs) ! i) \<noteq> None \<and> \<not> out_before t (v # vs) latch i)"
    if "i < length (v # vs)" for i
  proof (cases i)
    case 0
    then show ?thesis using e(1) by (simp add: c out_before_def)
  next
    case (Suc j)
    then show ?thesis using Cons.IH [of l] that e(2) by (cases j) (simp_all add: c out_before_def)
  qed
  then show ?case using Cons.IH [of l] by (simp add: c)
qed simp

text \<open>
  The alarms of a temperature and humidity sensor for a sequence of readings.  A reading
  with a temperature alarm is not checked for humidity and leaves that latch alone, so the
  humidity alarms are the edges of the other readings.
\<close>

fun th_events :: "TemperatureHumiditySensor \<Rightarrow> device_data list \<Rightarrow> ThresholdAlarmEvent option list" where
  "th_events s [] = []"
| "th_events s (dev # devs) = (let (e, s') = th_checkThreshold dev s in e # th_events s' devs)"

definition alarm_on :: "string \<Rightarrow> ThresholdAlarmEvent option \<Rightarrow> bool" where
  "alarm_on key e = (case e of None \<Rightarrow> False | Some a \<Rightarrow> ta_point_key a = key)"

definition th_armed :: "TemperatureHumiditySensor \<Rightarrow> bool" where
  "th_armed s \<longleftrightarrow> ts_has_config s \<and> st_threshold_enabled (ts_config s)"

definition th_reading :: "device_data \<Rightarrow> bool" where
  "th_reading dev \<longleftrightarrow> dv_valid dev \<and> dv_type dev = DEV_SENSOR_TH"

lemma checkPoint_key:
  "fst (checkPoint k t v latch) = Some e \<Longrightarrow> ta_point_key e = k \<and> ta_active e"
  by (auto simp: checkPoint_def split: if_splits option.splits)

lemma th_check_step:
  assumes "th_armed s" "th_reading dev" "th_checkThreshold dev s = (e, s')"
  shows "ts_config s' = ts_config s \<and> th_armed s'"
    and "(alarm_on ''temperature'' e, ts_last_temperature_alarm s') =
      (let (a, l) = checkPoint ''temperature'' (st_temperature (ts_config s)) (dv_temperature dev)
         (ts_last_temperature_alarm s) in (a \<noteq> None, l))"
    and "\<not> alarm_on ''temperature'' e \<Longrightarrow> (alarm_on ''humidity'' e, ts_last_humidity_alarm s') =
      (let (a, l) = checkPoint ''humidity'' (st_humidity (ts_config s)) (dv_humidity dev)
         (ts_last_humidity_alarm s) in (a \<noteq> None, l))"
    and "alarm_on ''temperature'' e \<Longrightarrow> \<not> alarm_on ''humidity'' e
      \<and> ts_last_humidity_alarm s' = ts_last_humidity_alarm s"
  using assms
  by (auto simp: th_checkThreshold_def th_armed_def th_reading_def alarm_on_def Let_def split_def
      dest!: checkPoint_key split: option.splits)

lemma th_events_edges:
  assumes "th_armed s" "\<forall>dev \<in> set devs. th_reading dev"
  shows "map (alarm_on ''temperature'') (th_events s devs) =
      point_alarms ''temperature'' (st_temperature (ts_config s)) (map dv_temperature devs)
        (ts_last_temperature_alarm s)
    \<and> map (alarm_on ''humidity'') (filter (\<lambda>e. \<not> alarm_on ''temperature'' e) (th_events s devs)) =
      point_alarms ''humidity'' (st_humidity (ts_config s))
        (map (\<lambda>(dev, e). dv_humidity dev)
          (filter (\<lambda>(dev, e). \<not> alarm_on ''temperature'' e) (zip devs (th_events s devs))))
        (ts_last_humidity_alarm s)"
  using assms
proof (induction devs arbitrary: s)
  case (Cons dev devs)
  obtain e s' where c: "th_checkThreshold dev s = (e, s')" by fastforce
  note st = th_check_step [OF Cons.prems(1) _ c]
  have "th_reading dev" using Cons.prems(2) by simp
  note st = st [OF this]
  have IH: "map (alarm_on ''temperature'') (th_events s' devs) =
      point_alarms ''temperature'' (st_temperature (ts_config s)) (map dv_temperature devs)
        (ts_last_temperature_alarm s')"
    "map (alarm_on ''humidity'') (filter (\<lambda>e. \<not> alarm_on ''temperature'' e) (th_events s' devs)) =
      point_alarms ''humidity'' (st_humidity (ts_config s))
        (map (\<lambda>(dev, e). dv_humidity dev)
          (filter (\<lambda>(dev, e). \<not> alarm_on ''temperature'' e) (zip devs (th_events s' devs))))
        (ts_last_humidity_alarm s')"
    using Cons.IH [of s'] Cons.prems(2) st(1) by auto
  show ?case
    using IH st by (cases "alarm_on ''temperature'' e") (auto simp: c Let_def split_def)
qed simp

subsection \<open>Relay bitmaps\<close>

lemma buf_at_state_coils: "buf_at (state_coils w) i = (if i < 4 \<and> bit w i then 1 else 0)"
  by (simp add: buf_at_def state_coils_def ChannelCount_def)

lemma foldl_bits:
  "bit (foldl (\<lambda>b i. if P i then b OR push_bit i 1 else b) (b0 :: 16 word) is) k =
     (bit b0 k \<or> (k < 16 \<and> k \<in> set is \<and> P k))"
  by (induction "is" arbitrary: b0) (auto simp: bit_or_iff bit_exp_iff)

lemma coils_roundtrip: "coils_bitmap (state_coils w) = w AND 15"
proof -
  have "w AND 15 = take_bit 4 w" by (simp add: take_bit_eq_mask mask_eq_exp_minus_1)
  moreover have "coils_bitmap (state_coils w) = take_bit 4 w"
    by (rule bit_eqI)
      (auto simp: coils_bitmap_def foldl_bits buf_at_state_coils ChannelCount_def bit_take_bit_iff)
  ultimately show ?thesis by simp
qed

end
