(* ===== verification/BoardConfig.thy ===== *)
theory BoardConfig
  imports Sensors
begin

text \<open>
  The JSON documents of Linux_data/port/port_manager.cpp: threshold configurations, the
  offline cache switches and the names of the two slots.  json-c is not part of the
  repository; the record \<open>json_c\<close> holds the functions the code calls, with an object given
  by the members in the order they are added.  JSON null is json-c's null pointer
  (\<open>jc_null\<close>).  Memory allocation is taken to succeed.
\<close>

record 'v json_c =
  jc_object :: "(string \<times> 'v) list \<Rightarrow> 'v"
  jc_array :: "'v list \<Rightarrow> 'v"
  jc_int :: "int \<Rightarrow> 'v"
  jc_int64 :: "int \<Rightarrow> 'v"
  jc_bool :: "bool \<Rightarrow> 'v"
  jc_double :: "fval \<Rightarrow> 'v"
  jc_string :: "string \<Rightarrow> 'v"
  jc_null :: 'v
  jc_add :: "'v \<Rightarrow> string \<Rightarrow> 'v \<Rightarrow> 'v"
  jc_get :: "'v \<Rightarrow> string \<Rightarrow> 'v option"
  jc_is_null :: "'v \<Rightarrow> bool"
  jc_del :: "'v \<Rightarrow> string \<Rightarrow> 'v"
  jc_is_array :: "'v \<Rightarrow> bool"
  jc_is_object :: "'v \<Rightarrow> bool"
  jc_elements :: "'v \<Rightarrow> 'v list"
  jc_get_int :: "'v \<Rightarrow> int"
  jc_get_int64 :: "'v \<Rightarrow> int"
  jc_get_boolean :: "'v \<Rightarrow> bool"
  jc_get_double :: "'v \<Rightarrow> fval"
  jc_get_string :: "'v \<Rightarrow> string option"
  jc_print :: "'v \<Rightarrow> string"
  jc_parse :: "string \<Rightarrow> 'v option"

locale json_c_laws =
  fixes C :: "'v json_c"
  assumes get_object: "jc_get C (jc_object C ms) k = map_of (rev ms) k"
    and object_not_null: "\<not> jc_is_null C (jc_object C ms)"
    and array_is: "jc_is_array C (jc_array C xs)"
    and array_elements: "jc_elements C (jc_array C xs) = xs"
    and int64_value: "in_int64 i \<Longrightarrow> jc_get_int64 C (jc_int64 C i) = i"
    and object_is: "jc_is_object C (jc_object C ms)"
    and del_object: "jc_del C (jc_object C ms) k = jc_object C (filter (\<lambda>m. fst m \<noteq> k) ms)"
    and string_not_null: "\<not> jc_is_null C (jc_string C s)"
    and int_value: "in_int i \<Longrightarrow> jc_get_int C (jc_int C i) = i"
    and bool_value: "jc_get_boolean C (jc_bool C b) = b"
    and double_value: "jc_get_double C (jc_double C x) = x"
    and double_not_null: "\<not> jc_is_null C (jc_double C x)"
    and null_is: "jc_is_null C (jc_null C)"
    and string_value: "jc_get_string C (jc_string C s) = Some (c_str s)"
    and add_object: "jc_add C (jc_object C ms) k v = jc_object C (ms @ [(k, v)])"

subsection \<open>A model of the interface\<close>

datatype jcv = CNull | CBool bool | CInt int | CDouble fval | CStr string
  | CArr "jcv list" | CObj "(string \<times> jcv) list"

text \<open>\<open>jc_parse\<close> is left to the examples, which give the texts they need.\<close>

definition jcv_model :: "(jcv \<Rightarrow> string) \<Rightarrow> jcv json_c" where
  "jcv_model print =
    \<lparr>jc_object = (\<lambda>ms. CObj (rev ms)), jc_array = CArr, jc_int = CInt, jc_int64 = CInt, jc_bool = CBool,
     jc_double = CDouble, jc_string = (\<lambda>s. CStr (c_str s)), jc_null = CNull,
     jc_add = (\<lambda>v k x. case v of CObj ms \<Rightarrow> CObj ((k, x) # ms) | _ \<Rightarrow> v),
     jc_get = (\<lambda>v k. case v of CObj ms \<Rightarrow> map_of ms k | _ \<Rightarrow> None),
     jc_is_null = (\<lambda>v. v = CNull),
     jc_del = (\<lambda>v k. case v of CObj ms \<Rightarrow> CObj (filter (\<lambda>m. fst m \<noteq> k) ms) | _ \<Rightarrow> v),
     jc_is_array = (\<lambda>v. case v of CArr xs \<Rightarrow> True | _ \<Rightarrow> False),
     jc_is_object = (\<lambda>v. case v of CObj ms \<Rightarrow> True | _ \<Rightarrow> False),
     jc_elements = (\<lambda>v. case v of CArr xs \<Rightarrow> xs | _ \<Rightarrow> []),
     jc_get_int = (\<lambda>v. case v of CInt i \<Rightarrow> i | _ \<Rightarrow> 0),
     jc_get_int64 = (\<lambda>v. case v of CInt i \<Rightarrow> i | _ \<Rightarrow> 0),
     jc_get_boolean = (\<lambda>v. v = CBool True),
     jc_get_double = (\<lambda>v. case v of CDouble x \<Rightarrow> x | CInt i \<Rightarrow> double_round (of_int i) | _ \<Rightarrow> Fin 0),
     jc_get_string = (\<lambda>v. case v of CStr s \<Rightarrow> Some s | _ \<Rightarrow> None),
     jc_print = print, jc_parse = (\<lambda>_. None)\<rparr>"

interpretation jcm: json_c_laws "jcv_model print" for print
  by unfold_locales (simp_all add: jcv_model_def rev_filter)

lemma jcv_model_laws: "json_c_laws (jcv_model print)"
  by unfold_locales

subsection \<open>Reading members\<close>

text \<open>\<open>get_ex(obj, key1, &v) || get_ex(obj, key2, &v)\<close>.\<close>

definition jc_get2 :: "'v json_c \<Rightarrow> 'v \<Rightarrow> string \<Rightarrow> string \<Rightarrow> 'v option" where
  "jc_get2 C obj k1 k2 = (case jc_get C obj k1 of Some v \<Rightarrow> Some v | None \<Rightarrow> jc_get C obj k2)"

definition jc_array_member :: "'v json_c \<Rightarrow> 'v \<Rightarrow> string \<Rightarrow> 'v list option" where
  "jc_array_member C obj key =
     (case jc_get C obj key of None \<Rightarrow> None
      | Some v \<Rightarrow> if jc_is_array C v then Some (filter (\<lambda>x. \<not> jc_is_null C x) (jc_elements C v)) else None)"

definition jc_int_member :: "'v json_c \<Rightarrow> 'v \<Rightarrow> string \<Rightarrow> int \<Rightarrow> int" where
  "jc_int_member C obj key d = (case jc_get C obj key of None \<Rightarrow> d | Some v \<Rightarrow> jc_get_int C v)"

text \<open>A C string that starts as \<open>d\<close>; \<open>None\<close> is the null pointer.\<close>

definition jc_string_member :: "'v json_c \<Rightarrow> 'v \<Rightarrow> string \<Rightarrow> string \<Rightarrow> string option" where
  "jc_string_member C obj key d = (case jc_get C obj key of None \<Rightarrow> Some d | Some v \<Rightarrow> jc_get_string C v)"

subsection \<open>Threshold configurations\<close>

definition addNullableDouble :: "'v json_c \<Rightarrow> bool \<Rightarrow> fval \<Rightarrow> 'v" where
  "addNullableDouble C has_value v = (if has_value then jc_double C v else jc_null C)"

definition thresholdPointToJson :: "'v json_c \<Rightarrow> point_threshold_config \<Rightarrow> 'v" where
  "thresholdPointToJson C p = jc_object C
     [(''enable_alarm'', jc_bool C (pt_enable_alarm p)), (''enableAlarm'', jc_bool C (pt_enable_alarm p)),
      (''alarm_low'', addNullableDouble C (pt_has_low p) (pt_alarm_low p)),
      (''alarmLow'', addNullableDouble C (pt_has_low p) (pt_alarm_low p)),
      (''alarm_high'', addNullableDouble C (pt_has_high p) (pt_alarm_high p)),
      (''alarmHigh'', addNullableDouble C (pt_has_high p) (pt_alarm_high p))]"

definition thresholdPointFromJson :: "'v json_c \<Rightarrow> 'v \<Rightarrow> point_threshold_config \<Rightarrow> point_threshold_config" where
  "thresholdPointFromJson C obj p =
     (if jc_is_null C obj then p
      else
        let p = (case jc_get2 C obj ''enable_alarm'' ''enableAlarm'' of None \<Rightarrow> p
                 | Some v \<Rightarrow> p\<lparr>pt_enable_alarm := jc_get_boolean C v\<rparr>);
            p = (case jc_get2 C obj ''alarm_low'' ''alarmLow'' of None \<Rightarrow> p
                 | Some v \<Rightarrow> if jc_is_null C v then p
                     else p\<lparr>pt_has_low := True, pt_alarm_low := to_float (jc_get_double C v)\<rparr>)
        in case jc_get2 C obj ''alarm_high'' ''alarmHigh'' of None \<Rightarrow> p
           | Some v \<Rightarrow> if jc_is_null C v then p
               else p\<lparr>pt_has_high := True, pt_alarm_high := to_float (jc_get_double C v)\<rparr>)"

definition thresholdConfigFromJson :: "'v json_c \<Rightarrow> 'v \<Rightarrow> sensor_threshold_config \<Rightarrow> sensor_threshold_config" where
  "thresholdConfigFromJson C doc config =
     (if jc_is_null C doc then config
      else
        let enabled = (case jc_get2 C doc ''threshold_enabled'' ''thresholdEnabled'' of None \<Rightarrow> False
                       | Some v \<Rightarrow> jc_get_boolean C v);
            thresholds = (case jc_get C doc ''thresholds'' of None \<Rightarrow> doc | Some t \<Rightarrow> t);
            point = (\<lambda>key. case jc_get C thresholds key of None \<Rightarrow> point_threshold_zero
                       | Some p \<Rightarrow> thresholdPointFromJson C p point_threshold_zero)
        in \<lparr>st_threshold_enabled = enabled, st_temperature = point ''temperature'',
            st_humidity = point ''humidity''\<rparr>)"

definition thresholdConfigToJson :: "'v json_c \<Rightarrow> sensor_threshold_config \<Rightarrow> 'v" where
  "thresholdConfigToJson C config = jc_object C
     [(''threshold_enabled'', jc_bool C (st_threshold_enabled config)),
      (''thresholdEnabled'', jc_bool C (st_threshold_enabled config)),
      (''thresholds'', jc_object C
         [(''temperature'', thresholdPointToJson C (st_temperature config)),
          (''humidity'', thresholdPointToJson C (st_humidity config))])]"

text \<open>A limit that is not set reads back as zero; a set limit must be a value of type float.\<close>

definition canon_point :: "point_threshold_config \<Rightarrow> point_threshold_config" where
  "canon_point p = p\<lparr>pt_alarm_low := (if pt_has_low p then pt_alarm_low p else Fin 0),
     pt_alarm_high := (if pt_has_high p then pt_alarm_high p else Fin 0)\<rparr>"

definition canon_config :: "sensor_threshold_config \<Rightarrow> sensor_threshold_config" where
  "canon_config c = c\<lparr>st_temperature := canon_point (st_temperature c),
     st_humidity := canon_point (st_humidity c)\<rparr>"

definition float_point :: "point_threshold_config \<Rightarrow> bool" where
  "float_point p \<longleftrightarrow> to_float (pt_alarm_low p) = pt_alarm_low p \<and> to_float (pt_alarm_high p) = pt_alarm_high p"

definition float_config :: "sensor_threshold_config \<Rightarrow> bool" where
  "float_config c \<longleftrightarrow> float_point (st_temperature c) \<and> float_point (st_humidity c)"

subsection \<open>Offline cache switches\<close>

record OfflineCacheSavedConfig =
  oc_cache_enabled :: bool
  oc_flush_enabled :: bool

definition loadOfflineCacheConfigFromRoot :: "'v json_c \<Rightarrow> 'v option \<Rightarrow> OfflineCacheSavedConfig" where
  "loadOfflineCacheConfigFromRoot C doc =
     (case doc of None \<Rightarrow> \<lparr>oc_cache_enabled = False, oc_flush_enabled = False\<rparr>
      | Some r \<Rightarrow>
         \<lparr>oc_cache_enabled = (case jc_get2 C r ''offline_cache_enabled'' ''offlineCacheEnabled'' of
              None \<Rightarrow> False | Some v \<Rightarrow> jc_get_boolean C v),
          oc_flush_enabled = (case jc_get2 C r ''offline_cache_flush_enabled'' ''offlineCacheFlushEnabled'' of
              None \<Rightarrow> False | Some v \<Rightarrow> jc_get_boolean C v)\<rparr>)"

subsection \<open>Slots\<close>

definition kSlotCount :: int where "kSlotCount = 2"

definition validSlot :: "int \<Rightarrow> bool" where
  "validSlot slot \<longleftrightarrow> 0 \<le> slot \<and> slot < kSlotCount"

definition portIdForSlot :: "int \<Rightarrow> string" where
  "portIdForSlot slot = (if slot = 0 then ''port_001'' else ''port_002'')"

definition portNameForSlot :: "int \<Rightarrow> string" where
  "portNameForSlot slot = (if slot = 0 then ''RS485-1'' else ''RS485-2'')"

definition slotFromPortId :: "string option \<Rightarrow> int" where
  "slotFromPortId port_id =
     (case port_id of None \<Rightarrow> -1
      | Some s \<Rightarrow>
          if s = ''port_001'' \<or> s = ''RS485-1'' then 0
          else if s = ''port_002'' \<or> s = ''RS485-2'' then 1 else -1)"

lemma slot_names:
  assumes "validSlot slot"
  shows "slotFromPortId (Some (portIdForSlot slot)) = slot"
    "slotFromPortId (Some (portNameForSlot slot)) = slot"
proof -
  have "slot = 0 \<or> slot = 1" using assms by (auto simp: validSlot_def kSlotCount_def)
  then show "slotFromPortId (Some (portIdForSlot slot)) = slot"
    "slotFromPortId (Some (portNameForSlot slot)) = slot"
    by (auto simp: slotFromPortId_def portIdForSlot_def portNameForSlot_def)
qed

subsection \<open>Round trips\<close>

context json_c_laws
begin

lemma point_roundtrip:
  "float_point p \<Longrightarrow> thresholdPointFromJson C (thresholdPointToJson C p) point_threshold_zero = canon_point p"
  by (cases "pt_has_low p"; cases "pt_has_high p")
    (simp_all add: thresholdPointFromJson_def thresholdPointToJson_def get_object object_not_null
      jc_get2_def addNullableDouble_def bool_value double_value double_not_null null_is
      canon_point_def float_point_def point_threshold_zero_def Let_def)

lemma config_roundtrip:
  "float_config c \<Longrightarrow> thresholdConfigFromJson C (thresholdConfigToJson C c) c0 = canon_config c"
  by (simp add: thresholdConfigFromJson_def thresholdConfigToJson_def get_object object_not_null
      jc_get2_def bool_value float_config_def canon_config_def point_roundtrip Let_def)

end

end
