(* ===== verification/OfflineStore.thy ===== *)
theory OfflineStore
  imports Prelude "HOL-Library.Multiset"
begin

text \<open>
  Linux_data/offline_cache/OfflineCacheDatabase.cpp and OfflineCachePolicy.cpp: the SQLite
  table of messages that could not be published, and the rule which messages are worth
  keeping.  The table is a list of rows, each SQL statement of the source its effect on the
  rows.  What SQLite leaves open is a parameter: \<open>sq_ok E n\<close> tells whether the n-th
  statement succeeds (prepared and stepped to the end), \<open>sq_fetch E n\<close> how many rows the
  n-th query delivers when it breaks off (\<open>None\<close>: all of them), \<open>sq_pending\<close> and
  \<open>sq_oldest\<close> in which order rows come out of the two \<open>ORDER BY\<close> clauses.  \<open>od_tick\<close> counts
  the statements.  The rows are the contents of the database file, present before \<open>open\<close>.
\<close>

subsection \<open>Messages and rows\<close>

record PublishMeta =
  pm_messageType :: string
  pm_gatewayId :: string
  pm_portId :: string
  pm_deviceId :: int
  pm_pointKey :: string
  pm_priority :: int
  pm_hasAlarm :: bool
  pm_hasInvalidData :: bool
  pm_statusChanged :: bool
  pm_timestampMs :: int

definition PublishMeta_default :: PublishMeta where
  "PublishMeta_default =
    \<lparr>pm_messageType = [], pm_gatewayId = [], pm_portId = [], pm_deviceId = -1, pm_pointKey = [],
     pm_priority = 0, pm_hasAlarm = False, pm_hasInvalidData = False, pm_statusChanged = False,
     pm_timestampMs = 0\<rparr>"

record OfflineRow =
  or_id :: int
  or_topic :: string
  or_payload :: string
  or_messageType :: string
  or_priority :: int
  or_gatewayId :: string
  or_portId :: string
  or_deviceId :: int
  or_pointKey :: string
  or_timestampMs :: int
  or_createTimeMs :: int
  or_sendCount :: int
  or_lastSendTimeMs :: int
  or_status :: string

record OfflinePendingMessage =
  op_id :: int
  op_topic :: string
  op_payload :: string

record OfflineCacheDatabase =
  od_open :: bool
  od_rows :: "OfflineRow list"
  od_nextId :: int
  od_tick :: nat

record sqlite =
  sq_ok :: "nat \<Rightarrow> bool"
  sq_fetch :: "nat \<Rightarrow> nat option"
  sq_pending :: "OfflineRow list \<Rightarrow> OfflineRow list"
  sq_oldest :: "OfflineRow list \<Rightarrow> OfflineRow list"

subsection \<open>The order of pending rows\<close>

text \<open>\<open>ORDER BY priority DESC, timestamp_ms ASC\<close> as a linear order on keys.\<close>

datatype pend_key = PendKey (pk_prio: int) (pk_time: int)

instantiation pend_key :: linorder
begin

definition less_eq_pend_key :: "pend_key \<Rightarrow> pend_key \<Rightarrow> bool" where
  "less_eq_pend_key a b \<longleftrightarrow>
     pk_prio b < pk_prio a \<or> pk_prio a = pk_prio b \<and> pk_time a \<le> pk_time b"

definition less_pend_key :: "pend_key \<Rightarrow> pend_key \<Rightarrow> bool" where
  "less_pend_key a b \<longleftrightarrow>
     pk_prio b < pk_prio a \<or> pk_prio a = pk_prio b \<and> pk_time a < pk_time b"

instance
  by standard (auto simp: less_eq_pend_key_def less_pend_key_def pend_key.expand)

end

definition row_key :: "OfflineRow \<Rightarrow> pend_key" where
  "row_key r = PendKey (or_priority r) (or_timestampMs r)"

locale sql_engine =
  fixes E :: sqlite
  assumes pending_mset: "mset (sq_pending E rows) = mset rows"
    and pending_sorted: "sorted (map row_key (sq_pending E rows))"
    and oldest_mset: "mset (sq_oldest E rows) = mset rows"
    and oldest_sorted: "sorted (map or_timestampMs (sq_oldest E rows))"

definition stable_engine :: "(nat \<Rightarrow> bool) \<Rightarrow> (nat \<Rightarrow> nat option) \<Rightarrow> sqlite" where
  "stable_engine ok fetch = \<lparr>sq_ok = ok, sq_fetch = fetch, sq_pending = sort_key row_key,
     sq_oldest = sort_key or_timestampMs\<rparr>"

interpretation stable: sql_engine "stable_engine ok fetch" for ok fetch
  by unfold_locales (simp_all add: stable_engine_def)

lemma stable_engine_law: "sql_engine (stable_engine ok fetch)"
  by unfold_locales

subsection \<open>Statements\<close>

definition kMaxOfflineRecords :: int where "kMaxOfflineRecords = 5000"
definition kCleanupBatchSize :: int where "kCleanupBatchSize = 100"

definition stmt_done :: "OfflineCacheDatabase \<Rightarrow> OfflineCacheDatabase" where
  "stmt_done db = db\<lparr>od_tick := Suc (od_tick db)\<rparr>"

definition od_execSql :: "sqlite \<Rightarrow> (OfflineRow list \<Rightarrow> OfflineRow list) \<Rightarrow> OfflineCacheDatabase
    \<Rightarrow> bool \<times> OfflineCacheDatabase" where
  "od_execSql E effect db =
     (if \<not> od_open db then (False, db)
      else if sq_ok E (od_tick db) then (True, stmt_done (db\<lparr>od_rows := effect (od_rows db)\<rparr>))
      else (False, stmt_done db))"

definition od_openDb :: "sqlite \<Rightarrow> OfflineCacheDatabase \<Rightarrow> bool \<times> OfflineCacheDatabase" where
  "od_openDb E db =
     (if sq_ok E (od_tick db) then (True, stmt_done (db\<lparr>od_open := True\<rparr>))
      else (False, stmt_done (db\<lparr>od_open := False\<rparr>)))"

definition od_initSchema :: "sqlite \<Rightarrow> OfflineCacheDatabase \<Rightarrow> bool \<times> OfflineCacheDatabase" where
  "od_initSchema E db =
     (let (a, db) = od_execSql E id db in
      if \<not> a then (False, db)
      else let (b, db) = od_execSql E id db in
        if \<not> b then (False, db)
        else let (c, db) = od_execSql E id db in (c, db))"

definition new_row :: "int \<Rightarrow> int \<Rightarrow> string \<Rightarrow> string \<Rightarrow> PublishMeta \<Rightarrow> OfflineRow" where
  "new_row rowid now topic payload meta =
    \<lparr>or_id = rowid, or_topic = c_str topic, or_payload = c_str payload,
     or_messageType = c_str (pm_messageType meta), or_priority = pm_priority meta,
     or_gatewayId = c_str (pm_gatewayId meta), or_portId = c_str (pm_portId meta),
     or_deviceId = pm_deviceId meta, or_pointKey = c_str (pm_pointKey meta),
     or_timestampMs = (if pm_timestampMs meta > 0 then pm_timestampMs meta else now),
     or_createTimeMs = now, or_sendCount = 0, or_lastSendTimeMs = 0, or_status = ''pending''\<rparr>"

definition od_insert :: "sqlite \<Rightarrow> int \<Rightarrow> string \<Rightarrow> string \<Rightarrow> PublishMeta \<Rightarrow> OfflineCacheDatabase
    \<Rightarrow> bool \<times> OfflineCacheDatabase" where
  "od_insert E now topic payload meta db =
     (if \<not> od_open db then (False, db)
      else if sq_ok E (od_tick db)
      then (True, stmt_done (db\<lparr>od_rows := od_rows db @ [new_row (od_nextId db) now topic payload meta],
                               od_nextId := od_nextId db + 1\<rparr>))
      else (False, stmt_done db))"

definition pending :: "OfflineRow \<Rightarrow> bool" where
  "pending r \<longleftrightarrow> or_status r = ''pending''"

definition fetched :: "sqlite \<Rightarrow> nat \<Rightarrow> 'a list \<Rightarrow> 'a list" where
  "fetched E n xs = (case sq_fetch E n of None \<Rightarrow> xs | Some k \<Rightarrow> take k xs)"

definition pending_message :: "OfflineRow \<Rightarrow> OfflinePendingMessage" where
  "pending_message r = \<lparr>op_id = or_id r, op_topic = or_topic r, op_payload = or_payload r\<rparr>"

definition od_loadPending :: "sqlite \<Rightarrow> int \<Rightarrow> OfflineCacheDatabase
    \<Rightarrow> OfflinePendingMessage list \<times> OfflineCacheDatabase" where
  "od_loadPending E limit db =
     (if \<not> od_open db \<or> limit \<le> 0 then ([], db)
      else (map pending_message (fetched E (od_tick db)
              (take (nat limit) (sq_pending E (filter pending (od_rows db))))), stmt_done db))"

definition od_remove :: "sqlite \<Rightarrow> int \<Rightarrow> OfflineCacheDatabase \<Rightarrow> bool \<times> OfflineCacheDatabase" where
  "od_remove E rowid db = od_execSql E (filter (\<lambda>r. or_id r \<noteq> rowid)) db"

definition mark_failed :: "int \<Rightarrow> OfflineRow \<Rightarrow> OfflineRow" where
  "mark_failed nowMs r = r
     \<lparr>or_sendCount := or_sendCount r + 1, or_lastSendTimeMs := nowMs,
      or_status := (if or_sendCount r + 1 \<ge> 5 then ''failed'' else or_status r)\<rparr>"

definition od_markSendFailed :: "sqlite \<Rightarrow> int \<Rightarrow> int \<Rightarrow> OfflineCacheDatabase
    \<Rightarrow> bool \<times> OfflineCacheDatabase" where
  "od_markSendFailed E rowid nowMs db =
     od_execSql E (map (\<lambda>r. if or_id r = rowid then mark_failed nowMs r else r)) db"

definition od_countPending :: "sqlite \<Rightarrow> OfflineCacheDatabase \<Rightarrow> int \<times> OfflineCacheDatabase" where
  "od_countPending E db =
     (if \<not> od_open db then (0, db)
      else (if sq_ok E (od_tick db) then int (length (filter pending (od_rows db))) else 0, stmt_done db))"

definition od_clearPending :: "sqlite \<Rightarrow> OfflineCacheDatabase \<Rightarrow> bool \<times> OfflineCacheDatabase" where
  "od_clearPending E db = od_execSql E (filter (\<lambda>r. \<not> pending r)) db"

definition od_countAllRecords :: "sqlite \<Rightarrow> OfflineCacheDatabase \<Rightarrow> int \<times> OfflineCacheDatabase" where
  "od_countAllRecords E db =
     (if \<not> od_open db then (0, db)
      else (if sq_ok E (od_tick db) then int (length (od_rows db)) else 0, stmt_done db))"

definition oldest_ids :: "sqlite \<Rightarrow> int \<Rightarrow> int \<Rightarrow> OfflineRow list \<Rightarrow> int list" where
  "oldest_ids E priority limit rows =
     map or_id (take (nat limit) (sq_oldest E (filter (\<lambda>r. or_priority r = priority) rows)))"

definition od_deleteOldByPriority :: "sqlite \<Rightarrow> int \<Rightarrow> int \<Rightarrow> OfflineCacheDatabase
    \<Rightarrow> int \<times> OfflineCacheDatabase" where
  "od_deleteOldByPriority E priority limit db =
     (if \<not> od_open db then (0, db)
      else if \<not> sq_ok E (od_tick db) then (0, stmt_done db)
      else let ids = oldest_ids E priority limit (od_rows db);
               rest = filter (\<lambda>r. or_id r \<notin> set ids) (od_rows db)
           in (int (length (od_rows db)) - int (length rest), stmt_done (db\<lparr>od_rows := rest\<rparr>)))"

text \<open>The inner loop for one priority; it ends because every round lowers \<open>total\<close>.\<close>

function trim_priority :: "sqlite \<Rightarrow> int \<Rightarrow> int \<Rightarrow> OfflineCacheDatabase \<Rightarrow> int \<times> OfflineCacheDatabase" where
  "trim_priority E priority amount db =
     (if amount > kMaxOfflineRecords
      then let (deleted, db') = od_deleteOldByPriority E priority kCleanupBatchSize db
           in if deleted \<le> 0 then (amount, db') else trim_priority E priority (amount - deleted) db'
      else (amount, db))"
  by pat_completeness auto
termination
  by (relation "measure (\<lambda>(E, priority, amount, db). nat amount)") (auto simp: kMaxOfflineRecords_def)

declare trim_priority.simps [simp del]

definition od_enforceMaxRecords :: "sqlite \<Rightarrow> OfflineCacheDatabase \<Rightarrow> OfflineCacheDatabase" where
  "od_enforceMaxRecords E db =
     (let (amount, db) = od_countAllRecords E db in
      if amount \<le> kMaxOfflineRecords then db
      else let (amount, db) = trim_priority E 0 amount db;
               (amount, db) = trim_priority E 1 amount db
           in db)"

subsection \<open>What is worth keeping\<close>

definition kTelemetrySampleIntervalMs :: int where "kTelemetrySampleIntervalMs = 60000"

type_synonym OfflineCachePolicy = "(string, int) umap"

definition sampleKey :: "PublishMeta \<Rightarrow> string" where
  "sampleKey meta = pm_gatewayId meta @ ''.'' @ pm_portId meta @ ''.'' @ to_string (pm_deviceId meta)
     @ ''.'' @ pm_pointKey meta"

definition allowSample :: "PublishMeta \<Rightarrow> OfflineCachePolicy \<Rightarrow> bool \<times> OfflineCachePolicy" where
  "allowSample meta seen =
     (let key = sampleKey meta; now_ms = pm_timestampMs meta;
          allowed = (case um_find seen key of None \<Rightarrow> True
            | Some t \<Rightarrow> now_ms \<le> 0 \<or> now_ms - t \<ge> kTelemetrySampleIntervalMs)
      in if allowed then (True, um_set key now_ms seen) else (False, seen))"

definition shouldCache :: "PublishMeta \<Rightarrow> OfflineCachePolicy \<Rightarrow> bool \<times> OfflineCachePolicy" where
  "shouldCache meta seen =
     (if pm_messageType meta = ''alarm_event'' then (True, seen)
      else if pm_messageType meta = ''ack'' then (True, seen)
      else if pm_messageType meta = ''device_status'' then (pm_statusChanged meta, seen)
      else if pm_messageType meta = ''telemetry_pack''
      then if pm_hasAlarm meta \<or> pm_hasInvalidData meta \<or> pm_statusChanged meta then (True, seen)
           else allowSample meta seen
      else (False, seen))"

subsection \<open>Ids, counters and states of the rows\<close>

definition row_ok :: "OfflineRow \<Rightarrow> bool" where
  "row_ok r \<longleftrightarrow> 0 \<le> or_sendCount r \<and>
     or_status r = (if or_sendCount r \<ge> 5 then ''failed'' else ''pending'')"

definition store_wf :: "OfflineCacheDatabase \<Rightarrow> bool" where
  "store_wf db \<longleftrightarrow> distinct (map or_id (od_rows db)) \<and>
     (\<forall>r \<in> set (od_rows db). or_id r < od_nextId db \<and> row_ok r)"

lemma stmt_done_fields [simp]:
  "od_rows (stmt_done db) = od_rows db" "od_nextId (stmt_done db) = od_nextId db"
  "od_open (stmt_done db) = od_open db" "od_tick (stmt_done db) = Suc (od_tick db)"
  by (simp_all add: stmt_done_def)

lemma row_ok_new: "row_ok (new_row i now t p m)"
  by (simp add: row_ok_def new_row_def)

lemma row_ok_mark: "row_ok r \<Longrightarrow> row_ok (mark_failed now r)"
  by (simp add: row_ok_def mark_failed_def)

lemma mark_failed_fields [simp]:
  "or_id (mark_failed now r) = or_id r" "or_topic (mark_failed now r) = or_topic r"
  "or_payload (mark_failed now r) = or_payload r" "or_priority (mark_failed now r) = or_priority r"
  by (simp_all add: mark_failed_def)

lemma new_row_fields [simp]:
  "or_id (new_row i now t p m) = i" "or_topic (new_row i now t p m) = c_str t"
  "or_payload (new_row i now t p m) = c_str p" "or_priority (new_row i now t p m) = pm_priority m"
  by (simp_all add: new_row_def)

lemma execSql_wf:
  assumes "store_wf db"
    and "\<And>rows. set (map or_id (f rows)) \<subseteq> set (map or_id rows)"
    and "\<And>rows. distinct (map or_id rows) \<Longrightarrow> distinct (map or_id (f rows))"
    and "\<And>rows. list_all row_ok rows \<Longrightarrow> list_all row_ok (f rows)"
  shows "store_wf (snd (od_execSql E f db))"
proof -
  have "list_all row_ok (f (od_rows db))" "distinct (map or_id (f (od_rows db)))"
    using assms(1) assms(3) [of "od_rows db"] assms(4) [of "od_rows db"]
    by (simp_all add: store_wf_def list_all_iff)
  moreover have "\<forall>r \<in> set (f (od_rows db)). or_id r < od_nextId db"
    using assms(1) assms(2) [of "od_rows db"] by (force simp: store_wf_def)
  ultimately show ?thesis using assms(1) by (simp add: od_execSql_def store_wf_def list_all_iff)
qed

lemma filter_rows_wf: "store_wf db \<Longrightarrow> store_wf (snd (od_execSql E (filter P) db))"
  by (erule execSql_wf) (auto simp: distinct_map_filter list_all_iff)

lemma od_remove_wf: "store_wf db \<Longrightarrow> store_wf (snd (od_remove E i db))"
  by (simp add: od_remove_def filter_rows_wf)

lemma od_clearPending_wf: "store_wf db \<Longrightarrow> store_wf (snd (od_clearPending E db))"
  by (simp add: od_clearPending_def filter_rows_wf)

lemma mark_rows_ids: "map or_id (map (\<lambda>r. if or_id r = i then mark_failed now r else r) rows) = map or_id rows"
  by simp

lemma od_markSendFailed_wf: "store_wf db \<Longrightarrow> store_wf (snd (od_markSendFailed E i now db))"
  unfolding od_markSendFailed_def
  by (erule execSql_wf) (auto simp: list_all_iff row_ok_mark distinct_map comp_def inj_on_def split: if_splits)

lemma od_insert_wf: "store_wf db \<Longrightarrow> store_wf (snd (od_insert E now t p m db))"
  by (force simp: od_insert_def store_wf_def row_ok_new)

lemma od_delete_wf: "store_wf db \<Longrightarrow> store_wf (snd (od_deleteOldByPriority E k l db))"
  by (simp add: od_deleteOldByPriority_def store_wf_def Let_def distinct_map_filter)

lemma trim_priority_wf: "store_wf db \<Longrightarrow> store_wf (snd (trim_priority E k n db))"
proof (induction E k n db rule: trim_priority.induct)
  case (1 E k n db)
  then show ?case
    using od_delete_wf [OF 1(2), of E k kCleanupBatchSize]
    by (subst trim_priority.simps) (auto simp: split_def Let_def)
qed

lemma od_enforce_wf: "store_wf db \<Longrightarrow> store_wf (od_enforceMaxRecords E db)"
proof -
  assume wf: "store_wf db"
  then have "store_wf (snd (od_countAllRecords E db))" by (simp add: od_countAllRecords_def store_wf_def)
  then show ?thesis
    by (auto simp: od_enforceMaxRecords_def Let_def split_def trim_priority_wf)
qed

subsection \<open>Trimming\<close>

text \<open>
  \<open>trimmed k rows rows'\<close>: some rows of priority k are gone, and none of them is newer than a
  row of priority k that stayed.
\<close>

definition trimmed :: "int \<Rightarrow> OfflineRow list \<Rightarrow> OfflineRow list \<Rightarrow> bool" where
  "trimmed k rows rows' \<longleftrightarrow> (\<exists>P. rows' = filter P rows)
     \<and> (\<forall>d \<in> set rows - set rows'. or_priority d = k
          \<and> (\<forall>r \<in> set rows'. or_priority r = k \<longrightarrow> or_timestampMs d \<le> or_timestampMs r))"

lemma trimmed_refl [simp]: "trimmed k rows rows"
  unfolding trimmed_def by (auto intro: exI [of _ "\<lambda>_. True"])

lemma trimmed_trans: "trimmed k a b \<Longrightarrow> trimmed k b c \<Longrightarrow> trimmed k a c"
proof -
  assume ab: "trimmed k a b" and bc: "trimmed k b c"
  obtain P Q where b: "b = filter P a" and c: "c = filter Q b" using ab bc by (auto simp: trimmed_def)
  have "or_priority d = k \<and> (\<forall>r \<in> set c. or_priority r = k \<longrightarrow> or_timestampMs d \<le> or_timestampMs r)"
    if "d \<in> set a - set c" for d
  proof (cases "d \<in> set b")
    case True
    then show ?thesis using bc that by (simp add: trimmed_def)
  next
    case False
    moreover have "set c \<subseteq> set b" using c by auto
    ultimately show ?thesis using ab that by (auto simp: trimmed_def)
  qed
  moreover have "c = filter (\<lambda>r. Q r \<and> P r) a" by (simp add: b c conj_commute)
  ultimately show "trimmed k a c" unfolding trimmed_def by blast
qed

lemma trimmed_keeps: "trimmed k a b \<Longrightarrow> r \<in> set a \<Longrightarrow> or_priority r \<noteq> k \<Longrightarrow> r \<in> set b"
  by (auto simp: trimmed_def)

lemma distinct_ids_inj: "distinct (map or_id rows) \<Longrightarrow> inj_on or_id (set rows)"
  by (simp add: distinct_map)

context sql_engine
begin

lemma oldest_set [simp]: "set (sq_oldest E rows) = set rows"
  using oldest_mset [of rows] by (rule mset_eq_setD)

lemma pending_set [simp]: "set (sq_pending E rows) = set rows"
  using pending_mset [of rows] by (rule mset_eq_setD)

lemma oldest_length [simp]: "length (sq_oldest E rows) = length rows"
  using oldest_mset [of rows] by (rule mset_eq_length)

lemma oldest_distinct: "distinct (map or_id rows) \<Longrightarrow> distinct (map or_id (sq_oldest E rows))"
  using oldest_mset [of rows] by (metis mset_eq_imp_distinct_iff mset_map)

lemma delete_spec:
  fixes k limit :: int and rows rest :: "OfflineRow list" and ids :: "int list"
  assumes wf: "distinct (map or_id rows)" and l: "limit > 0"
  defines "ids \<equiv> oldest_ids E k limit rows"
    and "rest \<equiv> filter (\<lambda>r. or_id r \<notin> set ids) rows"
  shows "trimmed k rows rest"
    and "int (length rows) - int (length rest) = min limit (int (length (filter (\<lambda>r. or_priority r = k) rows)))"
proof -
  let ?Q = "filter (\<lambda>r. or_priority r = k) rows"
  let ?S = "sq_oldest E ?Q"
  let ?D = "take (nat limit) ?S"
  have D: "set ?D \<subseteq> set rows" "\<forall>d \<in> set ?D. or_priority d = k"
    using set_take_subset [of "nat limit" ?S] by auto
  have ids: "set ids = or_id ` set ?D" by (simp add: ids_def oldest_ids_def)
  have mem: "or_id r \<in> set ids \<longleftrightarrow> r \<in> set ?D" if "r \<in> set rows" for r
    unfolding ids using D(1) that distinct_ids_inj [OF wf] by (auto simp: inj_on_def)
  have order: "or_timestampMs d \<le> or_timestampMs r"
    if "d \<in> set ?D" "r \<in> set ?S" "r \<notin> set ?D" for d r
  proof -
    have "r \<in> set (drop (nat limit) ?S)" using that(2,3) by (metis Un_iff append_take_drop_id set_append)
    moreover have "sorted (map or_timestampMs ?D @ map or_timestampMs (drop (nat limit) ?S))"
      using oldest_sorted [of ?Q] by (metis append_take_drop_id map_append)
    ultimately show ?thesis using that(1) by (auto simp: sorted_append)
  qed
  show "trimmed k rows rest"
  proof -
    have "or_priority d = k \<and> (\<forall>r \<in> set rest. or_priority r = k \<longrightarrow> or_timestampMs d \<le> or_timestampMs r)"
      if "d \<in> set rows - set rest" for d
    proof -
      from that have d: "d \<in> set ?D" using mem by (simp add: rest_def)
      moreover have "or_timestampMs d \<le> or_timestampMs r" if "r \<in> set rest" "or_priority r = k" for r
        using that order [OF d, of r] mem [of r] by (auto simp: rest_def)
      ultimately show ?thesis using D(2) by blast
    qed
    moreover have "\<exists>P. rest = filter P rows" unfolding rest_def by blast
    ultimately show ?thesis unfolding trimmed_def by blast
  qed
  have "length ?D = length (filter (\<lambda>r. or_id r \<in> set ids) rows)"
  proof -
    have "distinct rows" using wf by (simp add: distinct_map)
    moreover have "distinct ?D"
      using oldest_mset [of ?Q] wf by (metis distinct_filter distinct_map distinct_take mset_eq_imp_distinct_iff)
    moreover have "set (filter (\<lambda>r. or_id r \<in> set ids) rows) = set ?D" using mem D(1) by auto
    ultimately show ?thesis by (metis distinct_card distinct_filter)
  qed
  moreover have "length (filter (\<lambda>r. or_id r \<in> set ids) rows) + length rest = length rows"
    unfolding rest_def by (rule sum_length_filter_compl)
  moreover have "int (length ?D) = min limit (int (length ?Q))"
    using l by (auto simp: min_def nat_le_iff)
  ultimately show "int (length rows) - int (length rest) = min limit (int (length ?Q))"
    by linarith
qed

lemma trim_priority_spec:
  assumes "store_wf db" "od_open db" "n = int (length (od_rows db))" "\<forall>i. sq_ok E i"
    and "trim_priority E k n db = (n', db')"
  shows "trimmed k (od_rows db) (od_rows db') \<and> n' = int (length (od_rows db')) \<and> od_open db'
       \<and> store_wf db' \<and> (n' \<le> kMaxOfflineRecords \<or> (\<forall>r \<in> set (od_rows db'). or_priority r \<noteq> k))
       \<and> (n \<le> kMaxOfflineRecords \<longrightarrow> db' = db)
       \<and> (n > kMaxOfflineRecords \<longrightarrow> n' > kMaxOfflineRecords - kCleanupBatchSize)"
  using assms
proof (induction "nat n" arbitrary: n db rule: less_induct)
  case less
  show ?case
  proof (cases "n > kMaxOfflineRecords")
    case False
    then have "trim_priority E k n db = (n, db)" by (subst trim_priority.simps) simp
    then show ?thesis using less.prems False by auto
  next
    case True
    let ?ids = "oldest_ids E k kCleanupBatchSize (od_rows db)"
    let ?rest = "filter (\<lambda>r. or_id r \<notin> set ?ids) (od_rows db)"
    let ?m = "int (length (od_rows db)) - int (length ?rest)"
    let ?db = "stmt_done (db\<lparr>od_rows := ?rest\<rparr>)"
    have wf: "distinct (map or_id (od_rows db))" using less.prems(1) by (simp add: store_wf_def)
    note spec = delete_spec [OF wf, of kCleanupBatchSize k]
    have d: "od_deleteOldByPriority E k kCleanupBatchSize db = (?m, ?db)"
      using less.prems(2,4) by (simp add: od_deleteOldByPriority_def Let_def)
    have wf': "store_wf ?db" using od_delete_wf [OF less.prems(1), of E k kCleanupBatchSize] d by simp
    show ?thesis
    proof (cases "?m \<le> 0")
      case True
      moreover have "?m = min 100 (int (length (filter (\<lambda>r. or_priority r = k) (od_rows db))))"
        using spec(2) by (simp add: kCleanupBatchSize_def)
      ultimately have "length (filter (\<lambda>r. or_priority r = k) (od_rows db)) = 0" "?m = 0" by linarith+
      then have "filter (\<lambda>r. or_priority r = k) (od_rows db) = []" "length ?rest = length (od_rows db)"
        by simp_all
      moreover have "n' = n" "db' = ?db"
        using less.prems(5) \<open>n > kMaxOfflineRecords\<close> d True by (auto simp: trim_priority.simps [of E k n db])
      ultimately show ?thesis
        using spec(1) less.prems(2,3) wf' \<open>n > kMaxOfflineRecords\<close>
        by (auto simp: kCleanupBatchSize_def filter_empty_conv)
    next
      case False
      have rec: "trim_priority E k (n - ?m) ?db = (n', db')"
        using less.prems(5) \<open>n > kMaxOfflineRecords\<close> d False by (simp add: trim_priority.simps [of E k n db])
      have m: "nat (n - ?m) < nat n" "n - ?m = int (length (od_rows ?db))" "od_open ?db"
        using False True less.prems(2,3) by (simp_all add: kMaxOfflineRecords_def)
      have IH: "trimmed k (od_rows ?db) (od_rows db') \<and> n' = int (length (od_rows db')) \<and> od_open db'
          \<and> store_wf db' \<and> (n' \<le> kMaxOfflineRecords \<or> (\<forall>r \<in> set (od_rows db'). or_priority r \<noteq> k))
          \<and> (n - ?m \<le> kMaxOfflineRecords \<longrightarrow> db' = ?db)
          \<and> (n - ?m > kMaxOfflineRecords \<longrightarrow> n' > kMaxOfflineRecords - kCleanupBatchSize)"
        by (rule less.hyps [OF m(1) wf' m(3,2) less.prems(4) rec])
      have "?m \<le> kCleanupBatchSize" using spec(2) by (simp add: kCleanupBatchSize_def)
      then have "n' > kMaxOfflineRecords - kCleanupBatchSize"
        using IH True by (cases "n - ?m \<le> kMaxOfflineRecords") (auto simp: less.prems(3))
      moreover have "trimmed k (od_rows db) (od_rows db')"
        using trimmed_trans spec(1) IH by (simp add: kCleanupBatchSize_def)
      moreover have "n' = int (length (od_rows db'))" "od_open db'" "store_wf db'"
        "n' \<le> kMaxOfflineRecords \<or> (\<forall>r \<in> set (od_rows db'). or_priority r \<noteq> k)"
        using IH by blast+
      ultimately show ?thesis using True by auto
    qed
  qed
qed

lemma enforce_spec:
  assumes "store_wf db" "od_open db" "\<forall>i. sq_ok E i"
  defines "rows \<equiv> od_rows db" and "rows' \<equiv> od_rows (od_enforceMaxRecords E db)"
  shows "length rows \<le> 5000 \<Longrightarrow> rows' = rows"
    and "length rows > 5000 \<Longrightarrow> length rows' > 4900"
    and "length rows' \<le> 5000 \<or> (\<forall>r \<in> set rows'. or_priority r \<notin> {0, 1})"
    and "\<exists>mid. trimmed 0 rows mid \<and> trimmed 1 mid rows'
           \<and> (mid \<noteq> rows' \<longrightarrow> (\<forall>r \<in> set mid. or_priority r \<noteq> 0))"
proof -
  let ?c = "stmt_done db"
  obtain n1 d1 where t0: "trim_priority E 0 (int (length rows)) ?c = (n1, d1)" by fastforce
  obtain n2 d2 where t1: "trim_priority E 1 n1 d1 = (n2, d2)" by fastforce
  have c: "store_wf ?c" "od_open ?c" "int (length rows) = int (length (od_rows ?c))"
    using assms(1,2) by (simp_all add: rows_def store_wf_def)
  note s0 = trim_priority_spec [OF c assms(3) t0]
  then have d1: "store_wf d1" "od_open d1" "n1 = int (length (od_rows d1))" by blast+
  note s1 = trim_priority_spec [OF d1 assms(3) t1]
  have count: "od_countAllRecords E db = (int (length rows), ?c)"
    using assms(2,3) by (simp add: od_countAllRecords_def rows_def)
  have rows': "rows' = (if int (length rows) \<le> 5000 then rows else od_rows d2)"
    by (simp add: rows'_def rows_def [symmetric] od_enforceMaxRecords_def count Let_def t0 t1
        kMaxOfflineRecords_def)
  show "length rows \<le> 5000 \<Longrightarrow> rows' = rows" by (simp add: rows')
  show "length rows > 5000 \<Longrightarrow> length rows' > 4900"
    using s0 s1 by (cases "n1 \<le> kMaxOfflineRecords")
      (auto simp: rows' kMaxOfflineRecords_def kCleanupBatchSize_def)
  have "set (od_rows d2) \<subseteq> set (od_rows d1)" using s1 by (auto simp: trimmed_def)
  then show "length rows' \<le> 5000 \<or> (\<forall>r \<in> set rows'. or_priority r \<notin> {0, 1})"
    using s0 s1 by (auto simp: rows' kMaxOfflineRecords_def)
  have "trimmed 0 rows (od_rows d1)" "trimmed 1 (od_rows d1) (od_rows d2)"
    "od_rows d1 \<noteq> od_rows d2 \<longrightarrow> (\<forall>r \<in> set (od_rows d1). or_priority r \<noteq> 0)"
    using s0 s1 by (auto simp: rows_def)
  then show "\<exists>mid. trimmed 0 rows mid \<and> trimmed 1 mid rows'
      \<and> (mid \<noteq> rows' \<longrightarrow> (\<forall>r \<in> set mid. or_priority r \<noteq> 0))"
    unfolding rows' by (intro exI [of _ "if int (length rows) \<le> 5000 then rows else od_rows d1"]) simp
qed

end

end
