(* ===== verification/OfflineQueue.thy ===== *)
theory OfflineQueue
  imports OfflineStore
begin

text \<open>
  Linux_data/offline_cache/OfflinePublishQueue.cpp and OfflinePublishQueueC.cpp: publish a
  message or keep it, and send the kept messages later.  The sender is a parameter:
  \<open>link n\<close> is the value its n-th call returns (0 on success).  \<open>oq_calls\<close> records the calls
  made so far with their results; it is not a variable of the source.  Every lock section is
  a function on the state; an operation runs its sections one after the other.  The path of
  the database file is not modelled, there is one file.
\<close>

record OfflinePublishQueue =
  oq_db :: OfflineCacheDatabase
  oq_policy :: OfflineCachePolicy
  oq_sender :: bool
  oq_initialized :: bool
  oq_cacheEnabled :: bool
  oq_flushEnabled :: bool
  oq_calls :: "(string \<times> string \<times> int) list"

definition kFlushBatchSize :: int where "kFlushBatchSize = 50"
definition kSendFailedNotReady :: int where "kSendFailedNotReady = -5"

definition OfflinePublishQueue_new :: "OfflineRow list \<Rightarrow> int \<Rightarrow> OfflinePublishQueue" where
  "OfflinePublishQueue_new rows next =
    \<lparr>oq_db = \<lparr>od_open = False, od_rows = rows, od_nextId = next, od_tick = 0\<rparr>, oq_policy = um_empty,
     oq_sender = False, oq_initialized = False, oq_cacheEnabled = True, oq_flushEnabled = False,
     oq_calls = []\<rparr>"

definition call_sender :: "(nat \<Rightarrow> int) \<Rightarrow> string \<Rightarrow> string \<Rightarrow> OfflinePublishQueue
    \<Rightarrow> int \<times> OfflinePublishQueue" where
  "call_sender link topic payload q =
     (let ret = link (length (oq_calls q))
      in (ret, q\<lparr>oq_calls := oq_calls q @ [(c_str topic, c_str payload, ret)]\<rparr>))"

definition oq_init :: "sqlite \<Rightarrow> OfflinePublishQueue \<Rightarrow> bool \<times> OfflinePublishQueue" where
  "oq_init E q =
     (if oq_initialized q then (True, q)
      else let (opened, db) = od_openDb E (oq_db q) in
        if \<not> opened then (False, q\<lparr>oq_db := db\<rparr>)
        else let (ready, db) = od_initSchema E db in
          if \<not> ready then (False, q\<lparr>oq_db := db\<rparr>)
          else (True, q\<lparr>oq_db := db, oq_initialized := True\<rparr>))"

definition oq_setSender :: "bool \<Rightarrow> OfflinePublishQueue \<Rightarrow> OfflinePublishQueue" where
  "oq_setSender present q = q\<lparr>oq_sender := present\<rparr>"

definition oq_cacheMessage :: "sqlite \<Rightarrow> int \<Rightarrow> string \<Rightarrow> string \<Rightarrow> PublishMeta
    \<Rightarrow> OfflinePublishQueue \<Rightarrow> bool \<times> OfflinePublishQueue" where
  "oq_cacheMessage E now topic payload meta q =
     (if \<not> oq_cacheEnabled q then (False, q)
      else if \<not> oq_initialized q then (False, q)
      else let (keep, policy) = shouldCache meta (oq_policy q); q = q\<lparr>oq_policy := policy\<rparr> in
        if \<not> keep then (False, q)
        else let (stored, db) = od_insert E now topic payload meta (oq_db q) in
          if \<not> stored then (False, q\<lparr>oq_db := db\<rparr>)
          else (True, q\<lparr>oq_db := od_enforceMaxRecords E db\<rparr>))"

definition oq_publishOrCache :: "sqlite \<Rightarrow> (nat \<Rightarrow> int) \<Rightarrow> int \<Rightarrow> string \<Rightarrow> string \<Rightarrow> PublishMeta
    \<Rightarrow> OfflinePublishQueue \<Rightarrow> int \<times> OfflinePublishQueue" where
  "oq_publishOrCache E link now topic payload meta q =
     (let (send_ret, q) = (if oq_sender q then call_sender link topic payload q
                           else (kSendFailedNotReady, q))
      in if oq_sender q \<and> send_ret = 0 then (0, q)
         else let (cached, q) = oq_cacheMessage E now topic payload meta q
              in (if cached then 0 else send_ret, q))"

fun flush_rows :: "sqlite \<Rightarrow> (nat \<Rightarrow> int) \<Rightarrow> int \<Rightarrow> OfflinePendingMessage list
    \<Rightarrow> OfflinePublishQueue \<Rightarrow> OfflinePublishQueue" where
  "flush_rows E link now [] q = q"
| "flush_rows E link now (row # rows) q =
     (let (ret, q) = call_sender link (op_topic row) (op_payload row) q
      in if ret = 0 then flush_rows E link now rows (q\<lparr>oq_db := snd (od_remove E (op_id row) (oq_db q))\<rparr>)
         else q\<lparr>oq_db := snd (od_markSendFailed E (op_id row) now (oq_db q))\<rparr>)"

definition oq_flushToMqttOnce :: "sqlite \<Rightarrow> (nat \<Rightarrow> int) \<Rightarrow> int \<Rightarrow> OfflinePublishQueue
    \<Rightarrow> OfflinePublishQueue" where
  "oq_flushToMqttOnce E link now q =
     (if \<not> oq_initialized q \<or> \<not> oq_sender q \<or> \<not> oq_flushEnabled q then q
      else let (rows, db) = od_loadPending E kFlushBatchSize (oq_db q)
           in flush_rows E link now rows (q\<lparr>oq_db := db\<rparr>))"

definition oq_countPending :: "sqlite \<Rightarrow> OfflinePublishQueue \<Rightarrow> int \<times> OfflinePublishQueue" where
  "oq_countPending E q =
     (if \<not> oq_initialized q then (0, q)
      else let (n, db) = od_countPending E (oq_db q) in (n, q\<lparr>oq_db := db\<rparr>))"

definition oq_clearPending :: "sqlite \<Rightarrow> OfflinePublishQueue \<Rightarrow> bool \<times> OfflinePublishQueue" where
  "oq_clearPending E q =
     (if \<not> oq_initialized q then (False, q)
      else let (ok, db) = od_clearPending E (oq_db q) in (ok, q\<lparr>oq_db := db\<rparr>))"

definition oq_setCacheEnabled :: "bool \<Rightarrow> OfflinePublishQueue \<Rightarrow> OfflinePublishQueue" where
  "oq_setCacheEnabled enabled q = q\<lparr>oq_cacheEnabled := enabled\<rparr>"

definition oq_setFlushEnabled :: "bool \<Rightarrow> OfflinePublishQueue \<Rightarrow> OfflinePublishQueue" where
  "oq_setFlushEnabled enabled q = q\<lparr>oq_flushEnabled := enabled\<rparr>"

subsection \<open>The C interface\<close>

text \<open>A null pointer is \<open>None\<close>; the strings of the C struct may be null.\<close>

record offline_publish_meta =
  ofm_message_type :: "string option"
  ofm_gateway_id :: "string option"
  ofm_port_id :: "string option"
  ofm_device_id :: int
  ofm_point_key :: "string option"
  ofm_priority :: int
  ofm_has_alarm :: int
  ofm_has_invalid_data :: int
  ofm_status_changed :: int
  ofm_timestamp_ms :: int

definition safeString :: "string option \<Rightarrow> string" where
  "safeString value = (case value of None \<Rightarrow> [] | Some s \<Rightarrow> s)"

definition toPublishMeta :: "offline_publish_meta option \<Rightarrow> PublishMeta" where
  "toPublishMeta meta =
     (case meta of None \<Rightarrow> PublishMeta_default
      | Some m \<Rightarrow>
         \<lparr>pm_messageType = safeString (ofm_message_type m), pm_gatewayId = safeString (ofm_gateway_id m),
          pm_portId = safeString (ofm_port_id m), pm_deviceId = ofm_device_id m,
          pm_pointKey = safeString (ofm_point_key m), pm_priority = ofm_priority m,
          pm_hasAlarm = (ofm_has_alarm m \<noteq> 0), pm_hasInvalidData = (ofm_has_invalid_data m \<noteq> 0),
          pm_statusChanged = (ofm_status_changed m \<noteq> 0), pm_timestampMs = ofm_timestamp_ms m\<rparr>)"

definition offline_publish_queue_init :: "sqlite \<Rightarrow> OfflinePublishQueue \<Rightarrow> int \<times> OfflinePublishQueue" where
  "offline_publish_queue_init E q = (let (ok, q) = oq_init E q in (if ok then 0 else -1, q))"

definition offline_publish_or_cache :: "sqlite \<Rightarrow> (nat \<Rightarrow> int) \<Rightarrow> int \<Rightarrow> string option \<Rightarrow> string option
    \<Rightarrow> offline_publish_meta option \<Rightarrow> OfflinePublishQueue \<Rightarrow> int \<times> OfflinePublishQueue" where
  "offline_publish_or_cache E link now topic payload meta q =
     (case (topic, payload) of
        (Some t, Some p) \<Rightarrow> oq_publishOrCache E link now t p (toPublishMeta meta) q
      | _ \<Rightarrow> (-1, q))"

definition offline_publish_cache_message :: "sqlite \<Rightarrow> int \<Rightarrow> string option \<Rightarrow> string option
    \<Rightarrow> offline_publish_meta option \<Rightarrow> OfflinePublishQueue \<Rightarrow> int \<times> OfflinePublishQueue" where
  "offline_publish_cache_message E now topic payload meta q =
     (case (topic, payload) of
        (Some t, Some p) \<Rightarrow>
          (let (ok, q) = oq_cacheMessage E now t p (toPublishMeta meta) q in (if ok then 0 else -1, q))
      | _ \<Rightarrow> (-1, q))"

definition offline_publish_clear_pending :: "sqlite \<Rightarrow> OfflinePublishQueue \<Rightarrow> int \<times> OfflinePublishQueue" where
  "offline_publish_clear_pending E q = (let (ok, q) = oq_clearPending E q in (if ok then 0 else -1, q))"

subsection \<open>The queue as a machine\<close>

datatype oq_event =
    OqInit | OqSetSender bool | OqPublish string string PublishMeta | OqCache string string PublishMeta
  | OqFlush | OqCount | OqClear | OqSetCache bool | OqSetFlush bool

fun oq_exec :: "sqlite \<Rightarrow> (nat \<Rightarrow> int) \<Rightarrow> int \<Rightarrow> oq_event \<Rightarrow> OfflinePublishQueue \<Rightarrow> OfflinePublishQueue" where
  "oq_exec E link now OqInit q = snd (oq_init E q)"
| "oq_exec E link now (OqSetSender b) q = oq_setSender b q"
| "oq_exec E link now (OqPublish t p m) q = snd (oq_publishOrCache E link now t p m q)"
| "oq_exec E link now (OqCache t p m) q = snd (oq_cacheMessage E now t p m q)"
| "oq_exec E link now OqFlush q = oq_flushToMqttOnce E link now q"
| "oq_exec E link now OqCount q = snd (oq_countPending E q)"
| "oq_exec E link now OqClear q = snd (oq_clearPending E q)"
| "oq_exec E link now (OqSetCache b) q = oq_setCacheEnabled b q"
| "oq_exec E link now (OqSetFlush b) q = oq_setFlushEnabled b q"

definition oq_run :: "sqlite \<Rightarrow> (nat \<Rightarrow> int) \<Rightarrow> (int \<times> oq_event) list \<Rightarrow> OfflinePublishQueue
    \<Rightarrow> OfflinePublishQueue" where
  "oq_run E link es q = foldl (\<lambda>q (now, e). oq_exec E link now e q) q es"

lemma oq_run_simps [simp]:
  "oq_run E link [] q = q"
  "oq_run E link ((now, e) # es) q = oq_run E link es (oq_exec E link now e q)"
  by (simp_all add: oq_run_def)

subsection \<open>No message of high priority is lost\<close>

text \<open>
  A row is accounted for when a row with its id and contents is in the table or its message
  was handed to the sender successfully.
\<close>

definition same_message :: "OfflineRow \<Rightarrow> OfflineRow \<Rightarrow> bool" where
  "same_message r r' \<longleftrightarrow> or_id r' = or_id r \<and> or_topic r' = or_topic r \<and> or_payload r' = or_payload r
     \<and> or_priority r' = or_priority r"

definition stored :: "OfflineRow \<Rightarrow> OfflineCacheDatabase \<Rightarrow> bool" where
  "stored r db \<longleftrightarrow> (\<exists>r' \<in> set (od_rows db). same_message r r')"

definition accounted :: "OfflineRow \<Rightarrow> OfflinePublishQueue \<Rightarrow> bool" where
  "accounted r q \<longleftrightarrow> stored r (oq_db q)
     \<or> (c_str (or_topic r), c_str (or_payload r), 0) \<in> set (oq_calls q)"

lemma same_message_refl [simp]: "same_message r r"
  by (simp add: same_message_def)

lemma same_message_mark [simp]: "same_message r (mark_failed now r') = same_message r r'"
  by (simp add: same_message_def)

lemma stored_stmt [simp]: "stored r (stmt_done db) = stored r db"
  by (simp add: stored_def)

lemma stored_insert: "stored r db \<Longrightarrow> stored r (snd (od_insert E now t p m db))"
  by (auto simp: stored_def od_insert_def)

lemma stored_mark: "stored r db \<Longrightarrow> stored r (snd (od_markSendFailed E i now db))"
proof -
  let ?f = "\<lambda>x. if or_id x = i then mark_failed now x else x"
  assume "stored r db"
  then obtain r' where "r' \<in> set (od_rows db)" "same_message r r'" by (auto simp: stored_def)
  then have "?f r' \<in> set (map ?f (od_rows db))" "same_message r (?f r')" by (auto simp only: set_map image_eqI) auto
  then have "\<exists>r' \<in> set (map ?f (od_rows db)). same_message r r'" by blast
  then show ?thesis using \<open>stored r db\<close> by (simp only: stored_def od_markSendFailed_def od_execSql_def) simp
qed

lemma stored_openDb: "stored r (snd (od_openDb E db)) = stored r db"
  by (simp add: stored_def od_openDb_def)

lemma stored_initSchema: "stored r (snd (od_initSchema E db)) = stored r db"
  by (simp add: stored_def od_initSchema_def od_execSql_def Let_def)

lemma stored_remove_other:
  "stored r db \<Longrightarrow> or_id r \<noteq> i \<Longrightarrow> stored r (snd (od_remove E i db))"
  by (auto simp: stored_def od_remove_def od_execSql_def same_message_def)

lemma calls_append [simp]:
  "oq_calls (snd (call_sender link t p q)) = oq_calls q @ [(c_str t, c_str p, link (length (oq_calls q)))]"
  "oq_db (snd (call_sender link t p q)) = oq_db q"
  "fst (call_sender link t p q) = link (length (oq_calls q))"
  "oq_sender (snd (call_sender link t p q)) = oq_sender q"
  by (simp_all add: call_sender_def Let_def)

context sql_engine
begin

lemma stored_delete:
  assumes "store_wf db" "stored r db" "or_priority r \<noteq> k"
  shows "stored r (snd (od_deleteOldByPriority E k l db))"
proof -
  obtain r' where r': "r' \<in> set (od_rows db)" "same_message r r'" using assms(2) by (auto simp: stored_def)
  have "or_id r' \<notin> set (oldest_ids E k l (od_rows db))"
  proof
    assume "or_id r' \<in> set (oldest_ids E k l (od_rows db))"
    then obtain d where "d \<in> set (sq_oldest E (filter (\<lambda>r. or_priority r = k) (od_rows db)))"
        "or_id d = or_id r'"
      by (auto simp: oldest_ids_def dest: in_set_takeD)
    then have "d \<in> set (od_rows db)" "or_priority d = k" "d = r'"
      using r'(1) assms(1) distinct_ids_inj [of "od_rows db"] by (auto simp: store_wf_def inj_on_def)
    then show False using assms(3) r'(2) by (simp add: same_message_def)
  qed
  then show ?thesis using r' by (auto simp: stored_def od_deleteOldByPriority_def Let_def)
qed

lemma stored_trim:
  "store_wf db \<Longrightarrow> stored r db \<Longrightarrow> or_priority r \<noteq> k \<Longrightarrow> stored r (snd (trim_priority E k n db))"
proof (induction "nat n" arbitrary: n db rule: less_induct)
  case less
  show ?case
  proof (cases "n > kMaxOfflineRecords")
    case False
    then show ?thesis using less.prems by (subst trim_priority.simps) simp
  next
    case True
    obtain del db' where d: "od_deleteOldByPriority E k kCleanupBatchSize db = (del, db')" by fastforce
    have db': "store_wf db'" "stored r db'"
      using od_delete_wf [OF less.prems(1)] stored_delete [OF less.prems] d by (metis snd_conv)+
    have "del > 0 \<Longrightarrow> nat (n - del) < nat n" using True by (simp add: kMaxOfflineRecords_def)
    then show ?thesis
      using True d db' less.hyps [of "n - del" db'] less.prems(3) by (subst trim_priority.simps) simp
  qed
qed

lemma stored_enforce:
  assumes "store_wf db" "stored r db" "or_priority r \<noteq> 0" "or_priority r \<noteq> 1"
  shows "stored r (od_enforceMaxRecords E db)"
proof -
  obtain n c where c: "od_countAllRecords E db = (n, c)" by fastforce
  have c': "store_wf c" "stored r c"
    using assms(1,2) c by (auto simp: od_countAllRecords_def store_wf_def split: if_splits)
  obtain n1 d1 where t0: "trim_priority E 0 n c = (n1, d1)" by fastforce
  have d1: "store_wf d1" "stored r d1"
    using trim_priority_wf [OF c'(1), of E 0 n] stored_trim [OF c' assms(3)] t0 by (metis snd_conv)+
  show ?thesis
    using c c' t0 stored_trim [OF d1 assms(4)] by (auto simp: od_enforceMaxRecords_def Let_def split_def)
qed

lemma loadPending_rows:
  assumes "m \<in> set (fst (od_loadPending E l db))"
  shows "\<exists>r \<in> set (od_rows db). pending r \<and> m = pending_message r"
  using assms
  by (auto simp: od_loadPending_def fetched_def split: if_splits option.splits dest!: in_set_takeD)

lemma flush_rows_accounted:
  assumes "accounted r q"
    and "\<forall>m \<in> set ms. or_id r = op_id m \<longrightarrow> or_topic r = op_topic m \<and> or_payload r = op_payload m"
  shows "accounted r (flush_rows E link now ms q)"
  using assms
proof (induction ms arbitrary: q)
  case (Cons m ms)
  let ?q = "snd (call_sender link (op_topic m) (op_payload m) q)"
  let ?r = "link (length (oq_calls q))"
  have keep: "accounted r ?q" using Cons.prems(1) by (auto simp: accounted_def)
  have "accounted r (?q\<lparr>oq_db := snd (od_remove E (op_id m) (oq_db ?q))\<rparr>)" if "?r = 0"
    using keep that Cons.prems(2) stored_remove_other [of r "oq_db q" "op_id m" E]
    by (cases "or_id r = op_id m") (auto simp: accounted_def)
  moreover have "accounted r (?q\<lparr>oq_db := snd (od_markSendFailed E (op_id m) now (oq_db ?q))\<rparr>)"
    using keep stored_mark by (auto simp: accounted_def)
  ultimately show ?case using Cons.IH Cons.prems(2) by (auto simp: split_def Let_def)
qed simp

lemma stored_cache:
  assumes "store_wf (oq_db q)" "stored r (oq_db q)" "or_priority r \<noteq> 0" "or_priority r \<noteq> 1"
  shows "stored r (oq_db (snd (oq_cacheMessage E now t p m q)))"
proof -
  obtain ok db where i: "od_insert E now t p m (oq_db q) = (ok, db)" by fastforce
  then have "store_wf db" "stored r db"
    using od_insert_wf [OF assms(1), of E now t p m] stored_insert [OF assms(2), of E now t p m] by simp_all
  then show ?thesis
    using assms i by (simp add: oq_cacheMessage_def Let_def split_def stored_enforce)
qed

end

lemma cache_calls: "oq_calls (snd (oq_cacheMessage E now t p m q)) = oq_calls q"
  by (simp add: oq_cacheMessage_def Let_def split_def)

lemma cache_wf: "store_wf (oq_db q) \<Longrightarrow> store_wf (oq_db (snd (oq_cacheMessage E now t p m q)))"
  using od_insert_wf [of "oq_db q" E now t p m]
  by (simp add: oq_cacheMessage_def Let_def split_def od_enforce_wf)

lemma store_wf_same:
  "od_rows db' = od_rows db \<Longrightarrow> od_nextId db' = od_nextId db \<Longrightarrow> store_wf db \<Longrightarrow> store_wf db'"
  by (simp add: store_wf_def)

lemma loadPending_db:
  "od_rows (snd (od_loadPending E l db)) = od_rows db" "od_nextId (snd (od_loadPending E l db)) = od_nextId db"
  by (simp_all add: od_loadPending_def)

lemma flush_rows_wf:
  "store_wf (oq_db q) \<Longrightarrow> store_wf (oq_db (flush_rows E link now ms q))"
  by (induction ms arbitrary: q) (auto simp: split_def Let_def od_remove_wf od_markSendFailed_wf)

lemma oq_exec_wf:
  assumes "store_wf (oq_db q)"
  shows "store_wf (oq_db (oq_exec E link now e q))"
proof (cases e)
  case OqInit
  have "store_wf (snd (od_openDb E (oq_db q)))"
    by (rule store_wf_same [OF _ _ assms]) (simp_all add: od_openDb_def)
  moreover have "store_wf (snd (od_initSchema E db))" if "store_wf db" for db
    by (rule store_wf_same [OF _ _ that]) (simp_all add: od_initSchema_def od_execSql_def Let_def)
  ultimately show ?thesis using assms by (simp add: OqInit oq_init_def Let_def split_def)
next
  case (OqPublish t p m)
  then show ?thesis using assms by (simp add: oq_publishOrCache_def Let_def split_def cache_wf)
next
  case OqFlush
  have "store_wf (snd (od_loadPending E kFlushBatchSize (oq_db q)))"
    by (rule store_wf_same [OF loadPending_db assms])
  then show ?thesis using assms by (simp add: OqFlush oq_flushToMqttOnce_def Let_def split_def flush_rows_wf)
next
  case OqCount
  have "store_wf (snd (od_countPending E (oq_db q)))"
    by (rule store_wf_same [OF _ _ assms]) (simp_all add: od_countPending_def)
  then show ?thesis using assms by (simp add: OqCount oq_countPending_def Let_def split_def)
qed (use assms in \<open>auto simp: cache_wf oq_setSender_def oq_clearPending_def Let_def split_def
    od_clearPending_wf oq_setCacheEnabled_def oq_setFlushEnabled_def\<close>)

context sql_engine
begin

lemma stored_message_unique:
  assumes "store_wf db" "stored r db" "r' \<in> set (od_rows db)" "or_id r' = or_id r"
  shows "or_topic r' = or_topic r \<and> or_payload r' = or_payload r"
  using assms distinct_ids_inj [of "od_rows db"]
  by (auto simp: stored_def same_message_def store_wf_def inj_on_def)

lemma accounted_calls_grow:
  assumes "accounted r q" "set (oq_calls q) \<subseteq> set (oq_calls q')" "stored r (oq_db q) \<longrightarrow> stored r (oq_db q')"
  shows "accounted r q'"
  using assms by (auto simp: accounted_def)

lemma accounted_flush:
  assumes wf: "store_wf (oq_db q)" and acc: "accounted r q"
  shows "accounted r (oq_flushToMqttOnce E link now q)"
proof -
  obtain ms db where l: "od_loadPending E kFlushBatchSize (oq_db q) = (ms, db)" by fastforce
  have rows: "od_rows db = od_rows (oq_db q)"
    using loadPending_db(1) [of E kFlushBatchSize "oq_db q"] l by simp
  have "accounted r (flush_rows E link now ms (q\<lparr>oq_db := db\<rparr>))"
  proof (cases "stored r (oq_db q)")
    case True
    have "or_topic r = op_topic m \<and> or_payload r = op_payload m"
      if m: "m \<in> set ms" "or_id r = op_id m" for m
    proof -
      obtain r' where r': "r' \<in> set (od_rows (oq_db q))" "m = pending_message r'"
        using loadPending_rows [of m kFlushBatchSize "oq_db q"] l m(1) by auto
      then have "or_id r' = or_id r" using m(2) by (simp add: pending_message_def)
      then show ?thesis
        using stored_message_unique [OF wf True r'(1)] r'(2) by (simp add: pending_message_def)
    qed
    moreover have "accounted r (q\<lparr>oq_db := db\<rparr>)" using True rows by (simp add: accounted_def stored_def)
    ultimately show ?thesis using flush_rows_accounted by blast
  next
    case False
    then have "(c_str (or_topic r), c_str (or_payload r), 0) \<in> set (oq_calls q)"
      using acc by (simp add: accounted_def)
    moreover have grow: "set (oq_calls q0) \<subseteq> set (oq_calls (flush_rows E link now ms q0))" for q0
    proof (induction ms arbitrary: q0)
      case (Cons m ms)
      let ?q = "snd (call_sender link (op_topic m) (op_payload m) q0)"
      have "set (oq_calls ?q) \<subseteq> set (oq_calls (flush_rows E link now ms
          (?q\<lparr>oq_db := snd (od_remove E (op_id m) (oq_db ?q))\<rparr>)))"
        using Cons.IH [of "?q\<lparr>oq_db := snd (od_remove E (op_id m) (oq_db ?q))\<rparr>"] by simp
      then show ?case by (auto simp: split_def Let_def)
    qed simp
    ultimately show ?thesis using grow [of "q\<lparr>oq_db := db\<rparr>"] by (auto simp: accounted_def)
  qed
  then show ?thesis using acc l by (simp add: oq_flushToMqttOnce_def)
qed

lemma accounted_exec:
  assumes wf: "store_wf (oq_db q)" and acc: "accounted r q"
    and pr: "or_priority r \<noteq> 0" "or_priority r \<noteq> 1" and e: "e \<noteq> OqClear"
  shows "accounted r (oq_exec E link now e q)"
proof (cases e)
  case (OqPublish t p m)
  let ?q = "if oq_sender q then snd (call_sender link t p q) else q"
  have "accounted r ?q" "store_wf (oq_db ?q)"
    using acc wf by (auto simp: accounted_def)
  moreover have "accounted r (snd (oq_cacheMessage E now t p m q'))" if "accounted r q'" "store_wf (oq_db q')" for q'
    using that stored_cache [OF that(2) _ pr] by (auto intro: accounted_calls_grow simp: cache_calls)
  ultimately show ?thesis
    by (auto simp: OqPublish oq_publishOrCache_def Let_def split_def split: if_splits)
next
  case (OqCache t p m)
  then show ?thesis
    using acc stored_cache [OF wf _ pr] by (auto intro: accounted_calls_grow simp: cache_calls)
next
  case OqInit
  then show ?thesis
    using acc by (auto simp: accounted_def oq_init_def Let_def split_def stored_openDb stored_initSchema)
next
  case OqFlush
  then show ?thesis using accounted_flush [OF wf acc] by simp
next
  case OqCount
  have "stored r (snd (od_countPending E (oq_db q))) = stored r (oq_db q)"
    by (simp add: od_countPending_def)
  then show ?thesis using acc by (simp add: OqCount oq_countPending_def accounted_def Let_def split_def)
qed (use e acc in \<open>auto simp: accounted_def oq_setSender_def oq_setCacheEnabled_def oq_setFlushEnabled_def\<close>)

lemma accounted_run:
  assumes "store_wf (oq_db q)" "accounted r q" "or_priority r \<noteq> 0" "or_priority r \<noteq> 1"
    and "OqClear \<notin> snd ` set es"
  shows "accounted r (oq_run E link es q)"
  using assms
proof (induction es arbitrary: q)
  case (Cons x es)
  obtain now e where x: "x = (now, e)" by fastforce
  then show ?case
    using Cons.IH [of "oq_exec E link now e q"] Cons.prems accounted_exec [of q r e link now] oq_exec_wf
    by auto
qed simp

end

subsection \<open>One flush\<close>

text \<open>The rows a flush works on, and how many of them it delivers.\<close>

definition batch :: "sqlite \<Rightarrow> OfflineCacheDatabase \<Rightarrow> OfflineRow list" where
  "batch E db = take 50 (sq_pending E (filter pending (od_rows db)))"

fun delivered :: "(nat \<Rightarrow> int) \<Rightarrow> nat \<Rightarrow> 'a list \<Rightarrow> nat" where
  "delivered link k [] = 0"
| "delivered link k (r # rs) = (if link k = 0 then Suc (delivered link (Suc k) rs) else 0)"

lemma delivered_le: "delivered link k rs \<le> length rs"
  by (induction rs arbitrary: k) auto

definition call_of :: "int \<Rightarrow> OfflineRow \<Rightarrow> string \<times> string \<times> int" where
  "call_of ret r = (c_str (or_topic r), c_str (or_payload r), ret)"

definition after_flush :: "int \<Rightarrow> OfflineRow list \<Rightarrow> nat \<Rightarrow> OfflineRow list \<Rightarrow> OfflineRow list" where
  "after_flush now ms n rows =
     map (\<lambda>r. if n < length ms \<and> or_id r = or_id (ms ! n) then mark_failed now r else r)
       (filter (\<lambda>r. or_id r \<notin> or_id ` set (take n ms)) rows)"

lemma after_flush_deliver:
  "after_flush now ms n (filter (\<lambda>x. or_id x \<noteq> or_id r) rows) = after_flush now (r # ms) (Suc n) rows"
  by (simp add: after_flush_def conj_commute)

lemma flush_rows_ok:
  assumes "\<forall>i. sq_ok E i" "od_open (oq_db q)"
  shows "let n = delivered link (length (oq_calls q)) ms;
             q' = flush_rows E link now (map pending_message ms) q
         in od_rows (oq_db q') = after_flush now ms n (od_rows (oq_db q))
          \<and> oq_calls q' = oq_calls q @ map (call_of 0) (take n ms)
              @ (if n < length ms then [call_of (link (length (oq_calls q) + n)) (ms ! n)] else [])"
  using assms(2)
proof (induction ms arbitrary: q)
  case Nil
  then show ?case by (simp add: after_flush_def)
next
  case (Cons r ms)
  let ?k = "length (oq_calls q)"
  show ?case
  proof (cases "link ?k = 0")
    case True
    let ?db = "stmt_done (oq_db q\<lparr>od_rows := filter (\<lambda>x. or_id x \<noteq> or_id r) (od_rows (oq_db q))\<rparr>)"
    let ?q = "q\<lparr>oq_calls := oq_calls q @ [call_of 0 r], oq_db := ?db\<rparr>"
    have "flush_rows E link now (map pending_message (r # ms)) q = flush_rows E link now (map pending_message ms) ?q"
      using True assms(1) Cons.prems
      by (simp add: call_sender_def pending_message_def od_remove_def od_execSql_def call_of_def Let_def)
    then show ?thesis
      using Cons.IH [of ?q] Cons.prems True by (simp add: Let_def after_flush_deliver)
  next
    case False
    then show ?thesis
      using assms(1) Cons.prems
      by (simp add: call_sender_def pending_message_def od_markSendFailed_def od_execSql_def call_of_def
          after_flush_def Let_def)
  qed
qed

lemma flush_spec:
  assumes "sql_engine E" "\<forall>i. sq_ok E i" "\<forall>i. sq_fetch E i = None"
    and "oq_initialized q" "oq_sender q" "oq_flushEnabled q" "od_open (oq_db q)"
  shows "let ms = batch E (oq_db q); n = delivered link (length (oq_calls q)) ms;
             q' = oq_flushToMqttOnce E link now q
         in sorted (map row_key ms) \<and> set ms \<subseteq> set (filter pending (od_rows (oq_db q)))
          \<and> od_rows (oq_db q') = after_flush now ms n (od_rows (oq_db q))
          \<and> oq_calls q' = oq_calls q @ map (call_of 0) (take n ms)
              @ (if n < length ms then [call_of (link (length (oq_calls q) + n)) (ms ! n)] else [])"
proof -
  let ?ms = "batch E (oq_db q)" and ?q = "q\<lparr>oq_db := stmt_done (oq_db q)\<rparr>"
  have load: "od_loadPending E kFlushBatchSize (oq_db q) = (map pending_message ?ms, stmt_done (oq_db q))"
    using assms(3,7) by (simp add: od_loadPending_def fetched_def batch_def kFlushBatchSize_def)
  have "sorted (map row_key ?ms)"
    using sql_engine.pending_sorted [OF assms(1)] by (simp add: batch_def sorted_wrt_take flip: take_map)
  moreover have "set ?ms \<subseteq> set (filter pending (od_rows (oq_db q)))"
    unfolding batch_def using set_take_subset sql_engine.pending_set [OF assms(1)] by fastforce
  ultimately show ?thesis
    using flush_rows_ok [OF assms(2), of ?q link ?ms now] assms(4-7)
    by (simp add: oq_flushToMqttOnce_def load Let_def)
qed

subsection \<open>Publishing\<close>

lemma enforce_small:
  "length (od_rows db) \<le> 5000 \<Longrightarrow> od_rows (od_enforceMaxRecords E db) = od_rows db"
  by (auto simp: od_enforceMaxRecords_def od_countAllRecords_def kMaxOfflineRecords_def Let_def)

lemma cacheMessage_cases:
  assumes "length (od_rows (oq_db q)) < 5000"
  shows "od_rows (oq_db (snd (oq_cacheMessage E now t p m q))) =
     (if fst (oq_cacheMessage E now t p m q)
      then od_rows (oq_db q) @ [new_row (od_nextId (oq_db q)) now t p m] else od_rows (oq_db q))"
  using assms
  by (simp add: oq_cacheMessage_def Let_def split_def od_insert_def enforce_small)

subsection \<open>Sampling of ordinary telemetry\<close>

definition sampled :: "PublishMeta \<Rightarrow> bool" where
  "sampled m \<longleftrightarrow> pm_messageType m = ''telemetry_pack'' \<and> \<not> pm_hasAlarm m \<and> \<not> pm_hasInvalidData m
     \<and> \<not> pm_statusChanged m"

fun kept_samples :: "string \<Rightarrow> PublishMeta list \<Rightarrow> OfflineCachePolicy \<Rightarrow> int list" where
  "kept_samples k [] pol = []"
| "kept_samples k (m # ms) pol =
     (let (keep, pol') = shouldCache m pol
      in (if keep \<and> sampled m \<and> sampleKey m = k then [pm_timestampMs m] else []) @ kept_samples k ms pol')"

lemma shouldCache_seen:
  "um_find (snd (shouldCache m pol)) k =
     (if sampled m \<and> fst (shouldCache m pol) \<and> sampleKey m = k then Some (pm_timestampMs m)
      else um_find pol k)"
  by (auto simp: shouldCache_def sampled_def allowSample_def Let_def lookup_simps split: option.splits)

lemma shouldCache_sampled:
  assumes "sampled m" "fst (shouldCache m pol)" "um_find pol (sampleKey m) = Some t" "pm_timestampMs m > 0"
  shows "t + 60000 \<le> pm_timestampMs m"
  using assms
  by (auto simp: shouldCache_def sampled_def allowSample_def Let_def kTelemetrySampleIntervalMs_def
      split: if_splits)

lemma kept_samples_spaced:
  assumes "\<forall>m \<in> set ms. sampled m \<and> sampleKey m = k \<longrightarrow> pm_timestampMs m > 0"
  shows "sorted_wrt (\<lambda>a b. a + 60000 \<le> b) (kept_samples k ms pol)
       \<and> (\<forall>t. um_find pol k = Some t \<longrightarrow> (\<forall>b \<in> set (kept_samples k ms pol). t + 60000 \<le> b))"
  using assms
proof (induction ms arbitrary: pol)
  case (Cons m ms)
  obtain keep pol' where s: "shouldCache m pol = (keep, pol')" by fastforce
  have IH: "sorted_wrt (\<lambda>a b. a + 60000 \<le> b) (kept_samples k ms pol')"
    "\<And>t. um_find pol' k = Some t \<Longrightarrow> (\<forall>b \<in> set (kept_samples k ms pol'). t + 60000 \<le> b)"
    using Cons.IH [of pol'] Cons.prems by auto
  show ?case
  proof (cases "keep \<and> sampled m \<and> sampleKey m = k")
    case True
    have "um_find pol' k = Some (pm_timestampMs m)" using shouldCache_seen [of m pol k] True s by simp
    note new = IH(2) [OF this]
    have "t + 60000 \<le> pm_timestampMs m" if "um_find pol k = Some t" for t
      using shouldCache_sampled [of m pol t] True s that Cons.prems by simp
    then show ?thesis using True s new IH(1) by fastforce
  next
    case False
    have "um_find pol' k = um_find pol k" using shouldCache_seen [of m pol k] False s by auto
    then show ?thesis using False s IH by auto
  qed
qed simp

subsection \<open>The queue as its clients see it\<close>

text \<open>
  What a publisher of messages relies on: a queue that works keeps working, keeps what it
  holds, and takes in every important message.
\<close>

locale publisher =
  fixes send :: "int \<Rightarrow> string \<Rightarrow> string \<Rightarrow> PublishMeta \<Rightarrow> 'q \<Rightarrow> 'q"
    and good :: "'q \<Rightarrow> bool"
    and important :: "PublishMeta \<Rightarrow> bool"
    and kept :: "string \<Rightarrow> string \<Rightarrow> 'q \<Rightarrow> bool"
  assumes send_good: "good q \<Longrightarrow> good (send now t p m q)"
    and send_keeps: "good q \<Longrightarrow> kept t p q \<Longrightarrow> kept t p (send now t' p' m' q)"
    and send_accepts: "good q \<Longrightarrow> important m \<Longrightarrow> kept t p (send now t p m q)"
begin

lemma sends_keep:
  "good q \<Longrightarrow> kept t p q \<Longrightarrow> kept t p (foldl (\<lambda>q (now, t, p, m). send now t p m q) q ms)"
  by (induction ms arbitrary: q) (auto simp: send_good send_keeps)

lemma sends_good: "good q \<Longrightarrow> good (foldl (\<lambda>q (now, t, p, m). send now t p m q) q ms)"
  by (induction ms arbitrary: q) (auto simp: send_good)

lemma important_kept:
  "good q \<Longrightarrow> (now, t, p, m) \<in> set ms \<Longrightarrow> important m \<Longrightarrow>
   kept t p (foldl (\<lambda>q (now, t, p, m). send now t p m q) q ms)"
  by (induction ms arbitrary: q) (auto simp: send_good send_accepts sends_keep)

end

definition oq_send :: "sqlite \<Rightarrow> (nat \<Rightarrow> int) \<Rightarrow> int \<Rightarrow> string \<Rightarrow> string \<Rightarrow> PublishMeta
    \<Rightarrow> OfflinePublishQueue \<Rightarrow> OfflinePublishQueue" where
  "oq_send E link now t p m q = snd (oq_publishOrCache E link now t p m q)"

definition oq_good :: "OfflinePublishQueue \<Rightarrow> bool" where
  "oq_good q \<longleftrightarrow> store_wf (oq_db q) \<and> od_open (oq_db q) \<and> oq_initialized q \<and> oq_cacheEnabled q"

definition oq_important :: "PublishMeta \<Rightarrow> bool" where
  "oq_important m \<longleftrightarrow> pm_messageType m = ''alarm_event'' \<and> pm_priority m \<noteq> 0 \<and> pm_priority m \<noteq> 1"

definition oq_kept :: "string \<Rightarrow> string \<Rightarrow> OfflinePublishQueue \<Rightarrow> bool" where
  "oq_kept t p q \<longleftrightarrow> (\<exists>r. accounted r q \<and> or_priority r \<noteq> 0 \<and> or_priority r \<noteq> 1
     \<and> c_str (or_topic r) = c_str t \<and> c_str (or_payload r) = c_str p)"

lemma oq_kept_called: "(c_str t, c_str p, 0) \<in> set (oq_calls q) \<Longrightarrow> oq_kept t p q"
  unfolding oq_kept_def accounted_def
  by (rule exI [of _ "new_row 0 0 t p (PublishMeta_default\<lparr>pm_priority := 3\<rparr>)"]) (simp add: new_row_def)

lemma delete_open: "od_open (snd (od_deleteOldByPriority E k l db)) = od_open db"
  by (simp add: od_deleteOldByPriority_def Let_def)

lemma trim_open: "od_open (snd (trim_priority E k n db)) = od_open db"
proof (induction "nat n" arbitrary: n db rule: less_induct)
  case less
  obtain del db' where d: "od_deleteOldByPriority E k kCleanupBatchSize db = (del, db')" by fastforce
  then have "od_open db' = od_open db" using delete_open [of E k kCleanupBatchSize db] by simp
  moreover have "n > kMaxOfflineRecords \<Longrightarrow> del > 0 \<Longrightarrow> nat (n - del) < nat n"
    by (simp add: kMaxOfflineRecords_def)
  ultimately show ?case
    using d less.hyps [of "n - del" db'] by (subst trim_priority.simps) (auto simp: kMaxOfflineRecords_def)
qed

lemma enforce_open: "od_open (od_enforceMaxRecords E db) = od_open db"
  by (simp add: od_enforceMaxRecords_def od_countAllRecords_def Let_def split_def trim_open)

lemma oq_send_good:
  assumes "oq_good q"
  shows "oq_good (oq_send E link now t p m q)"
proof -
  have "store_wf (oq_db (oq_send E link now t p m q))"
    using oq_exec_wf [of q E link now "OqPublish t p m"] assms by (simp add: oq_send_def oq_good_def)
  moreover have "od_open (snd (od_insert E now t p m (oq_db q)))" using assms by (simp add: oq_good_def od_insert_def)
  ultimately show ?thesis
    using assms
    by (simp add: oq_good_def oq_send_def oq_publishOrCache_def oq_cacheMessage_def call_sender_def Let_def
        split_def enforce_open)
qed

context sql_engine
begin

lemma oq_send_keeps:
  assumes "oq_good q" "oq_kept t p q"
  shows "oq_kept t p (oq_send E link now t' p' m q)"
proof -
  obtain r where r: "accounted r q" "or_priority r \<noteq> 0" "or_priority r \<noteq> 1" "c_str (or_topic r) = c_str t"
      "c_str (or_payload r) = c_str p" using assms(2) by (auto simp: oq_kept_def)
  have "accounted r (oq_exec E link now (OqPublish t' p' m) q)"
    using r(1-3) assms(1) by (intro accounted_exec) (auto simp: oq_good_def)
  then show ?thesis using r by (auto simp: oq_kept_def oq_send_def)
qed

lemma oq_cache_accepts:
  assumes "\<forall>i. sq_ok E i" "oq_good q" "oq_important m"
  shows "oq_kept t p (snd (oq_cacheMessage E now t p m q))"
proof -
  let ?r = "new_row (od_nextId (oq_db q)) now t p m"
  obtain db where i: "od_insert E now t p m (oq_db q) = (True, db)" "?r \<in> set (od_rows db)"
    using assms(1,2) by (simp add: od_insert_def oq_good_def)
  have "store_wf db" using od_insert_wf [of "oq_db q" E now t p m] assms(2) i by (simp add: oq_good_def)
  moreover have "stored ?r db" using i(2) same_message_refl unfolding stored_def by blast
  ultimately have "stored ?r (od_enforceMaxRecords E db)"
    using assms(3) by (intro stored_enforce) (auto simp: oq_important_def)
  then have "accounted ?r (snd (oq_cacheMessage E now t p m q))"
    using assms i by (simp add: accounted_def oq_cacheMessage_def oq_good_def oq_important_def shouldCache_def Let_def)
  then show ?thesis
    using assms(3) unfolding oq_kept_def oq_important_def by (intro exI [of _ ?r]) (simp add: new_row_def)
qed

lemma oq_send_accepts:
  assumes "\<forall>i. sq_ok E i" "oq_good q" "oq_important m"
  shows "oq_kept t p (oq_send E link now t p m q)"
proof -
  let ?q = "snd (call_sender link t p q)"
  have "oq_good ?q" using assms(2) by (simp add: oq_good_def call_sender_def Let_def)
  then show ?thesis
    using oq_cache_accepts [OF assms(1) _ assms(3)] assms(2)
    by (auto simp: oq_send_def oq_publishOrCache_def Let_def split_def intro!: oq_kept_called)
qed

lemma offline_publisher:
  "\<forall>i. sq_ok E i \<Longrightarrow> publisher (oq_send E link) oq_good oq_important oq_kept"
  by unfold_locales (auto simp: oq_send_good oq_send_keeps oq_send_accepts)

end

interpretation offline: publisher "oq_send (stable_engine (\<lambda>_. True) fetch) link" oq_good oq_important oq_kept
  for fetch link
  by (rule sql_engine.offline_publisher [OF stable_engine_law]) (simp add: stable_engine_def)

end
