(* ===== verification/PortManager.thy ===== *)
theory PortManager
  imports BoardConfig OfflineQueue
begin

text \<open>
  Linux_data/port/port_manager.cpp: the two serial slots of the board, their devices and the
  configuration file.  Parameters are json-c, libmodbus and the file system (\<open>board_env\<close>);
  a clock is read once per operation.  What the manager hands to other parts is appended to
  \<open>pmg_out\<close> in order: IPC messages, \<open>offline_publish_or_cache\<close> calls (their results are not
  used) and \<open>data_publish_device_status_for_slot\<close> calls.  Operations run one after the other.
  A sensor is never null here, since a device is stored only after its sensor was made; a
  shared sensor is the copy in the device list, found again by its slave id.
  \<open>ch_thread\<close> is the \<open>std::thread\<close> object of a slot: none, running, or finished and not
  joined; starting a thread over an unjoined one is \<open>std::terminate\<close> (\<open>pmg_terminated\<close>).
\<close>

subsection \<open>State\<close>

datatype ManagedType = MT_Unknown | MT_SensorTh | MT_Relay

datatype poll_thread = NoThread | ThreadRunning | ThreadFinished

record ManagedDevice =
  md_sensor :: SensorDevice
  md_next_poll_time :: int
  md_last_data :: device_data
  md_has_last_data :: bool
  md_consecutive_failures :: int
  md_offline_reported :: bool

record PortChannel =
  ch_connected :: bool
  ch_port :: string
  ch_baud :: int
  ch_bus :: "ModbusMaster option"
  ch_devices :: "ManagedDevice list"
  ch_poll_running :: bool
  ch_stop_requested :: bool
  ch_thread :: poll_thread

datatype board_output =
    IpcSend string
  | Publish string string offline_publish_meta
  | DeviceStatus int device_data

record 'v PortManager =
  pmg_channels :: "int \<Rightarrow> PortChannel"
  pmg_file :: "'v option"
  pmg_writes :: nat
  pmg_io :: nat
  pmg_out :: "board_output list"
  pmg_terminated :: bool

text \<open>
  \<open>be_dir n\<close>: whether the configuration directory is there at the n-th write;
  \<open>be_write n doc\<close>: whether writing succeeds, and what the file reads as afterwards.
\<close>

record 'v board_env =
  be_json :: "'v json_c"
  be_modbus :: modbus_lib
  be_dir :: "nat \<Rightarrow> bool"
  be_write :: "nat \<Rightarrow> 'v \<Rightarrow> bool \<times> 'v option"

definition kMinPollIntervalMs :: int where "kMinPollIntervalMs = 500"
definition kOfflineFailureThreshold :: int where "kOfflineFailureThreshold = 3"

definition PortChannel_new :: PortChannel where
  "PortChannel_new = \<lparr>ch_connected = False, ch_port = [], ch_baud = 0, ch_bus = None, ch_devices = [],
     ch_poll_running = False, ch_stop_requested = False, ch_thread = NoThread\<rparr>"

definition PortManager_new :: "'v option \<Rightarrow> 'v PortManager" where
  "PortManager_new file = \<lparr>pmg_channels = (\<lambda>_. PortChannel_new), pmg_file = file, pmg_writes = 0,
     pmg_io = 0, pmg_out = [], pmg_terminated = False\<rparr>"

abbreviation on_channel :: "int \<Rightarrow> (PortChannel \<Rightarrow> PortChannel) \<Rightarrow> 'v PortManager \<Rightarrow> 'v PortManager" where
  "on_channel slot f m \<equiv> m\<lparr>pmg_channels := (pmg_channels m)(slot := f (pmg_channels m slot))\<rparr>"

definition emit :: "board_output list \<Rightarrow> 'v PortManager \<Rightarrow> 'v PortManager" where
  "emit os m = m\<lparr>pmg_out := pmg_out m @ os\<rparr>"

subsection \<open>Devices of a slot\<close>

definition parseType :: "string option \<Rightarrow> ManagedType" where
  "parseType name =
     (case name of None \<Rightarrow> MT_Unknown
      | Some s \<Rightarrow> if s = ''sensor_th'' then MT_SensorTh else if s = ''relay'' then MT_Relay else MT_Unknown)"

fun createSensorDevice :: "ManagedType \<Rightarrow> int \<Rightarrow> int \<Rightarrow> sensor_threshold_config option \<Rightarrow> SensorDevice option" where
  "createSensorDevice MT_SensorTh slave_id interval config =
     Some (SensorTH (TemperatureHumiditySensor_new slave_id interval config))"
| "createSensorDevice MT_Relay slave_id interval config =
     Some (SensorRelay \<lparr>rl_slave_id = slave_id, rl_poll_interval_ms = interval\<rparr>)"
| "createSensorDevice MT_Unknown slave_id interval config = None"

definition new_device :: "int \<Rightarrow> SensorDevice \<Rightarrow> ManagedDevice" where
  "new_device steady sensor = \<lparr>md_sensor = sensor, md_next_poll_time = steady, md_last_data = device_data_zero,
     md_has_last_data = False, md_consecutive_failures = 0, md_offline_reported = False\<rparr>"

abbreviation md_id :: "ManagedDevice \<Rightarrow> int" where
  "md_id d \<equiv> slaveId (md_sensor d)"

definition find_device :: "int \<Rightarrow> ManagedDevice list \<Rightarrow> ManagedDevice option" where
  "find_device slave_id devices = find (\<lambda>d. md_id d = slave_id) devices"

fun update_first :: "int \<Rightarrow> (ManagedDevice \<Rightarrow> ManagedDevice) \<Rightarrow> ManagedDevice list \<Rightarrow> ManagedDevice list" where
  "update_first slave_id f [] = []"
| "update_first slave_id f (d # ds) = (if md_id d = slave_id then f d # ds else d # update_first slave_id f ds)"

fun remove_first :: "int \<Rightarrow> ManagedDevice list \<Rightarrow> ManagedDevice list" where
  "remove_first slave_id [] = []"
| "remove_first slave_id (d # ds) = (if md_id d = slave_id then ds else d # remove_first slave_id ds)"

definition isPortUsedByOtherSlot :: "int \<Rightarrow> string \<Rightarrow> 'v PortManager \<Rightarrow> bool" where
  "isPortUsedByOtherSlot slot port m =
     list_ex (\<lambda>i. i \<noteq> slot \<and> ch_connected (pmg_channels m i) \<and> ch_port (pmg_channels m i) = port)
       [0..kSlotCount - 1]"

fun contains :: "string \<Rightarrow> string \<Rightarrow> bool" where
  "contains needle [] = (needle = [])"
| "contains needle (c # s) = (take (length needle) (c # s) = needle \<or> contains needle s)"

definition createBus :: "int \<Rightarrow> string \<Rightarrow> int \<Rightarrow> ModbusMaster" where
  "createBus slot port baud =
     ModbusMaster_new port baud (22 + slot) (if contains ''ttymxc'' port then RTS_CUSTOM else RTS_DEFAULT)"

subsection \<open>Topics\<close>

definition DEFAULT_GATEWAY_ID :: string where "DEFAULT_GATEWAY_ID = ''gateway_001''"

definition mqtt_make_port_up_topic :: "string option \<Rightarrow> int \<Rightarrow> string option" where
  "mqtt_make_port_up_topic port_id buffer_size =
     (case port_id of None \<Rightarrow> None
      | Some p \<Rightarrow>
          if buffer_size \<le> 0 \<or> p = [] then None
          else let t = ''gateway/'' @ DEFAULT_GATEWAY_ID @ ''/'' @ p @ ''/up''
               in if int (length t) < buffer_size then Some t else None)"

definition mqtt_make_port_up_topic_for_slot :: "int \<Rightarrow> int \<Rightarrow> string option" where
  "mqtt_make_port_up_topic_for_slot slot buffer_size = mqtt_make_port_up_topic (Some (portIdForSlot slot)) buffer_size"

text \<open>The call \<open>offline_publish_or_cache(topic, payload, &meta)\<close>, made when the topic fits.\<close>

definition publish_up :: "int \<Rightarrow> string \<Rightarrow> offline_publish_meta \<Rightarrow> board_output list" where
  "publish_up slot payload meta =
     (case mqtt_make_port_up_topic_for_slot slot 128 of None \<Rightarrow> [] | Some t \<Rightarrow> [Publish t payload meta])"

definition meta_zero :: offline_publish_meta where
  "meta_zero = \<lparr>ofm_message_type = None, ofm_gateway_id = None, ofm_port_id = None, ofm_device_id = 0,
     ofm_point_key = None, ofm_priority = 0, ofm_has_alarm = 0, ofm_has_invalid_data = 0,
     ofm_status_changed = 0, ofm_timestamp_ms = 0\<rparr>"

definition DEFAULT_SOURCE_ID :: string where "DEFAULT_SOURCE_ID = ''gateway_001''"
definition DEFAULT_TARGET_ID :: string where "DEFAULT_TARGET_ID = ''pc_data_001''"
definition DEFAULT_FACTORY_ID :: string where "DEFAULT_FACTORY_ID = ''factory_001''"
definition DEFAULT_AREA_ID :: string where "DEFAULT_AREA_ID = ''area_001''"
definition DEFAULT_GATEWAY_NAME :: string where "DEFAULT_GATEWAY_NAME = ''i.MX6ULL_001''"

text \<open>The two names in Chinese, as the bytes of their UTF-8 text.\<close>

definition DEFAULT_FACTORY_NAME :: string where
  "DEFAULT_FACTORY_NAME = CHR ''1'' # [CHR 0xE5, CHR 0x8F, CHR 0xB7, CHR 0xE5, CHR 0x8E, CHR 0x82,
     CHR 0xE6, CHR 0x88, CHR 0xBF]"

definition DEFAULT_AREA_NAME :: string where
  "DEFAULT_AREA_NAME = [CHR 0xE9, CHR 0x85, CHR 0x8D, CHR 0xE7, CHR 0x94, CHR 0xB5,
     CHR 0xE6, CHR 0x88, CHR 0xBF]"

definition PROTOCOL_VER :: int where "PROTOCOL_VER = 1"

subsection \<open>Threshold messages\<close>

definition threshold_point_json :: "'v json_c \<Rightarrow> bool \<Rightarrow> string \<times> string \<times> string \<times> point_threshold_config \<Rightarrow> 'v" where
  "threshold_point_json C enabled def =
     (let (key, name, unit, threshold) = def; effective = (enabled \<and> pt_enable_alarm threshold)
      in jc_object C
        [(''pointKey'', jc_string C key), (''pointName'', jc_string C name), (''unit'', jc_string C unit),
         (''valueType'', jc_string C ''number''),
         (''enable_alarm'', jc_bool C effective), (''enableAlarm'', jc_bool C effective),
         (''alarm_low'', addNullableDouble C (pt_has_low threshold) (pt_alarm_low threshold)),
         (''alarmLow'', addNullableDouble C (pt_has_low threshold) (pt_alarm_low threshold)),
         (''alarm_high'', addNullableDouble C (pt_has_high threshold) (pt_alarm_high threshold)),
         (''alarmHigh'', addNullableDouble C (pt_has_high threshold) (pt_alarm_high threshold))])"

definition site_json :: "'v json_c \<Rightarrow> int \<Rightarrow> 'v" where
  "site_json C slot = jc_object C
     [(''factoryId'', jc_string C DEFAULT_FACTORY_ID), (''factoryName'', jc_string C DEFAULT_FACTORY_NAME),
      (''areaId'', jc_string C DEFAULT_AREA_ID), (''areaName'', jc_string C DEFAULT_AREA_NAME),
      (''gatewayId'', jc_string C DEFAULT_GATEWAY_ID), (''gatewayName'', jc_string C DEFAULT_GATEWAY_NAME),
      (''portId'', jc_string C (portIdForSlot slot)), (''portName'', jc_string C (portNameForSlot slot))]"

definition threshold_device_json :: "'v json_c \<Rightarrow> int \<Rightarrow> PortChannel \<Rightarrow> SensorDevice \<Rightarrow> sensor_threshold_config \<Rightarrow> 'v" where
  "threshold_device_json C slot ch sensor config = jc_object C
     [(''slot'', jc_int C slot), (''port'', jc_string C (ch_port ch)), (''baud'', jc_int C (ch_baud ch)),
      (''deviceId'', jc_int C (slaveId sensor)), (''deviceName'', jc_string C []),
      (''deviceType'', jc_string C (deviceTypeName sensor)),
      (''thresholdEnabled'', jc_bool C (st_threshold_enabled config)),
      (''points'', jc_array C (map (threshold_point_json C (st_threshold_enabled config))
         [(''temperature'', ''Temperature'', ''C'', st_temperature config),
          (''humidity'', ''Humidity'', ''%'', st_humidity config)]))]"

definition publishThresholdConfig :: "'v json_c \<Rightarrow> int \<Rightarrow> int \<Rightarrow> ManagedDevice \<Rightarrow> 'v PortManager \<Rightarrow> 'v PortManager" where
  "publishThresholdConfig C now slot d m =
     (case thresholdConfig (md_sensor d) of None \<Rightarrow> m
      | Some config \<Rightarrow>
         let payload = jc_print C (jc_object C
               [(''type'', jc_string C ''threshold_config''), (''version'', jc_int C PROTOCOL_VER),
                (''timestampMs'', jc_int64 C now), (''sourceId'', jc_string C DEFAULT_SOURCE_ID),
                (''targetId'', jc_string C DEFAULT_TARGET_ID), (''site'', site_json C slot),
                (''devices'', jc_array C
                   [threshold_device_json C slot (pmg_channels m slot) (md_sensor d) config])]);
             meta = meta_zero\<lparr>ofm_message_type := Some ''threshold_config'',
               ofm_gateway_id := Some DEFAULT_GATEWAY_ID, ofm_port_id := Some (portIdForSlot slot),
               ofm_device_id := md_id d, ofm_priority := 0, ofm_timestamp_ms := now\<rparr>
         in emit (publish_up slot payload meta) m)"

definition alarm_meta :: "int \<Rightarrow> int \<Rightarrow> int \<Rightarrow> ThresholdAlarmEvent \<Rightarrow> offline_publish_meta" where
  "alarm_meta now slot slave_id event = meta_zero\<lparr>ofm_message_type := Some ''alarm_event'',
     ofm_gateway_id := Some DEFAULT_GATEWAY_ID, ofm_port_id := Some (portIdForSlot slot),
     ofm_device_id := slave_id, ofm_point_key := Some (ta_point_key event), ofm_priority := 3,
     ofm_has_alarm := 1, ofm_timestamp_ms := now\<rparr>"

definition alarm_payload :: "'v json_c \<Rightarrow> SensorDevice \<Rightarrow> device_data \<Rightarrow> ThresholdAlarmEvent \<Rightarrow> string" where
  "alarm_payload C sensor dev event = jc_print C (jc_object C
     ([(''type'', jc_string C ''command''), (''cmd'', jc_string C ''emergency''), (''level'', jc_int C 1),
       (''reason'', jc_string C (ta_reason event)), (''deviceId'', jc_int C (slaveId sensor)),
       (''deviceType'', jc_string C (deviceTypeName sensor)), (''pointKey'', jc_string C (ta_point_key event)),
       (''value'', jc_double C (ta_value event)), (''threshold'', jc_double C (ta_threshold event))]
      @ (if dv_type dev = DEV_SENSOR_TH
         then [(''temp'', jc_double C (dv_temperature dev)), (''humi'', jc_double C (dv_humidity dev))] else [])))"

definition publishThresholdAlarm :: "'v json_c \<Rightarrow> int \<Rightarrow> int \<Rightarrow> SensorDevice \<Rightarrow> device_data \<Rightarrow> ThresholdAlarmEvent
    \<Rightarrow> 'v PortManager \<Rightarrow> 'v PortManager" where
  "publishThresholdAlarm C now slot sensor dev event m =
     (if \<not> ta_active event then m
      else let payload = alarm_payload C sensor dev event
           in emit (IpcSend payload # publish_up slot payload (alarm_meta now slot (slaveId sensor) event)) m)"

subsection \<open>The configuration file\<close>

definition loadSavedOfflineCacheConfig :: "'v json_c \<Rightarrow> 'v PortManager \<Rightarrow> OfflineCacheSavedConfig" where
  "loadSavedOfflineCacheConfig C m = loadOfflineCacheConfigFromRoot C (pmg_file m)"

definition port_item :: "'v json_c \<Rightarrow> (int \<Rightarrow> PortChannel) \<Rightarrow> int \<Rightarrow> 'v list" where
  "port_item C chans slot =
     (let ch = chans slot
      in if ch_port ch \<noteq> [] \<and> ch_baud ch > 0
         then [jc_object C [(''slot'', jc_int C slot), (''port'', jc_string C (ch_port ch)),
                 (''baud'', jc_int C (ch_baud ch)), (''auto_restore'', jc_bool C True)]]
         else [])"

definition device_item :: "'v json_c \<Rightarrow> int \<Rightarrow> ManagedDevice \<Rightarrow> 'v" where
  "device_item C slot d = jc_object C
     ([(''slot'', jc_int C slot), (''slave_id'', jc_int C (md_id d)),
       (''device_type'', jc_string C (deviceTypeName (md_sensor d))),
       (''poll_interval_ms'', jc_int C (pollIntervalMs (md_sensor d)))]
      @ (case thresholdConfig (md_sensor d) of None \<Rightarrow> []
         | Some config \<Rightarrow> [(''threshold_config'', thresholdConfigToJson C config)]))"

definition config_doc :: "'v json_c \<Rightarrow> int \<Rightarrow> OfflineCacheSavedConfig \<Rightarrow> (int \<Rightarrow> PortChannel) \<Rightarrow> 'v" where
  "config_doc C now oc chans = jc_object C
     [(''version'', jc_int C 1), (''updated_ms'', jc_int64 C now),
      (''offline_cache_enabled'', jc_bool C (oc_cache_enabled oc)),
      (''offline_cache_flush_enabled'', jc_bool C (oc_flush_enabled oc)),
      (''ports'', jc_array C (concat (map (port_item C chans) [0..kSlotCount - 1]))),
      (''devices'', jc_array C (concat (map (\<lambda>slot. map (device_item C slot) (ch_devices (chans slot)))
         [0..kSlotCount - 1])))]"

text \<open>\<open>json_object_to_file_ext\<close> after \<open>ensureDeviceConfigDir\<close>; 0 or -1.\<close>

definition write_file :: "'v board_env \<Rightarrow> 'v \<Rightarrow> 'v PortManager \<Rightarrow> int \<times> 'v PortManager" where
  "write_file E doc m =
     (let n = pmg_writes m; m = m\<lparr>pmg_writes := Suc n\<rparr>
      in if \<not> be_dir E n then (-1, m)
         else let (ok, file) = be_write E n doc in (if ok then 0 else -1, m\<lparr>pmg_file := file\<rparr>))"

definition writeConfigLocked :: "'v board_env \<Rightarrow> int \<Rightarrow> 'v PortManager \<Rightarrow> int \<times> 'v PortManager" where
  "writeConfigLocked E now m =
     write_file E (config_doc (be_json E) now (loadSavedOfflineCacheConfig (be_json E) m) (pmg_channels m)) m"

definition jc_is_array_member :: "'v json_c \<Rightarrow> 'v \<Rightarrow> string \<Rightarrow> bool" where
  "jc_is_array_member C doc key = (case jc_get C doc key of None \<Rightarrow> False | Some v \<Rightarrow> jc_is_array C v)"

definition saveOfflineCacheConfig :: "'v board_env \<Rightarrow> int \<Rightarrow> bool \<Rightarrow> bool \<Rightarrow> 'v PortManager
    \<Rightarrow> int \<times> 'v PortManager" where
  "saveOfflineCacheConfig E now cache_enabled flush_enabled m =
     (let C = be_json E;
          doc = (case pmg_file m of None \<Rightarrow> jc_object C [] | Some r \<Rightarrow> r);
          doc = jc_add C doc ''version'' (jc_int C 1);
          doc = jc_add C doc ''updated_ms'' (jc_int64 C now);
          doc = jc_add C doc ''offline_cache_enabled'' (jc_bool C cache_enabled);
          doc = jc_add C doc ''offline_cache_flush_enabled'' (jc_bool C flush_enabled);
          doc = (if jc_is_array_member C doc ''devices'' then doc else jc_add C doc ''devices'' (jc_array C []))
      in write_file E doc m)"

text \<open>One saved device, added to the devices read so far.\<close>

definition load_device :: "'v json_c \<Rightarrow> int \<Rightarrow> int \<Rightarrow> string \<Rightarrow> ManagedDevice list \<Rightarrow> 'v \<Rightarrow> ManagedDevice list" where
  "load_device C steady slot port devices item =
     (if jc_int_member C item ''slot'' (-1) \<noteq> slot then devices
      else if (case jc_string_member C item ''port'' [] of None \<Rightarrow> False | Some p \<Rightarrow> p \<noteq> [] \<and> port \<noteq> p) then devices
      else
        let slave_id = jc_int_member C item ''slave_id'' 0;
            interval = jc_int_member C item ''poll_interval_ms'' 0;
            kind = parseType (jc_string_member C item ''device_type'' ''unknown'');
            config = map_option (\<lambda>t. thresholdConfigFromJson C t sensor_threshold_zero)
                       (jc_get C item ''threshold_config'')
        in if slave_id \<le> 0 \<or> interval < kMinPollIntervalMs then devices
           else if kind = MT_Unknown then devices
           else if find_device slave_id devices \<noteq> None then devices
           else case createSensorDevice kind slave_id interval config of None \<Rightarrow> devices
                | Some sensor \<Rightarrow> devices @ [new_device steady sensor])"

definition loadDevicesForSlotLocked :: "'v json_c \<Rightarrow> int \<Rightarrow> int \<Rightarrow> 'v PortManager \<Rightarrow> 'v PortManager" where
  "loadDevicesForSlotLocked C steady slot m =
     (if \<not> validSlot slot then m
      else case pmg_file m of None \<Rightarrow> m
      | Some doc \<Rightarrow>
         case jc_array_member C doc ''devices'' of None \<Rightarrow> m
         | Some items \<Rightarrow>
            on_channel slot (\<lambda>ch. ch\<lparr>ch_devices :=
              foldl (load_device C steady slot (ch_port ch)) (ch_devices ch) items\<rparr>) m)"

subsection \<open>Polling\<close>

definition startPollingLocked :: "int \<Rightarrow> 'v PortManager \<Rightarrow> 'v PortManager" where
  "startPollingLocked slot m =
     (let ch = pmg_channels m slot
      in if ch_poll_running ch then m
         else if ch_thread ch \<noteq> NoThread then m\<lparr>pmg_terminated := True\<rparr>
         else on_channel slot (\<lambda>ch. ch\<lparr>ch_stop_requested := False, ch_poll_running := True,
                ch_thread := ThreadRunning\<rparr>) m)"

definition stopPolling :: "int \<Rightarrow> 'v PortManager \<Rightarrow> 'v PortManager" where
  "stopPolling slot m =
     (if \<not> validSlot slot then m
      else on_channel slot (\<lambda>ch. ch\<lparr>ch_poll_running := False, ch_stop_requested := False,
             ch_thread := NoThread\<rparr>) m)"

definition clearSlot :: "int \<Rightarrow> 'v PortManager \<Rightarrow> 'v PortManager" where
  "clearSlot slot m =
     (if \<not> validSlot slot then m
      else on_channel slot (\<lambda>ch. ch\<lparr>ch_bus := None, ch_devices := [], ch_port := [], ch_baud := 0,
             ch_connected := False, ch_stop_requested := False, ch_poll_running := False\<rparr>) m)"

definition on_device :: "int \<Rightarrow> int \<Rightarrow> (ManagedDevice \<Rightarrow> ManagedDevice) \<Rightarrow> 'v PortManager \<Rightarrow> 'v PortManager" where
  "on_device slot slave_id f m =
     on_channel slot (\<lambda>ch. ch\<lparr>ch_devices := update_first slave_id f (ch_devices ch)\<rparr>) m"

definition updateLastData :: "int \<Rightarrow> int \<Rightarrow> device_data \<Rightarrow> 'v PortManager \<Rightarrow> 'v PortManager" where
  "updateLastData slot slave_id dev m =
     (if \<not> validSlot slot then m
      else on_device slot slave_id (\<lambda>d. d\<lparr>md_last_data := dev, md_has_last_data := True\<rparr>) m)"

definition recordPollSuccess :: "int \<Rightarrow> int \<Rightarrow> 'v PortManager \<Rightarrow> bool \<times> 'v PortManager" where
  "recordPollSuccess slot slave_id m =
     (if \<not> validSlot slot then (False, m)
      else case find_device slave_id (ch_devices (pmg_channels m slot)) of
             None \<Rightarrow> (False, m)
           | Some _ \<Rightarrow> (True, on_device slot slave_id
                 (\<lambda>d. d\<lparr>md_consecutive_failures := 0, md_offline_reported := False\<rparr>) m))"

definition recordPollFailure :: "int \<Rightarrow> int \<Rightarrow> 'v PortManager \<Rightarrow> bool \<times> 'v PortManager" where
  "recordPollFailure slot slave_id m =
     (if \<not> validSlot slot then (False, m)
      else case find_device slave_id (ch_devices (pmg_channels m slot)) of
             None \<Rightarrow> (False, m)
           | Some d \<Rightarrow>
               let failures = md_consecutive_failures d + 1;
                   m = on_device slot slave_id (\<lambda>d. d\<lparr>md_consecutive_failures := failures\<rparr>) m
               in if failures \<ge> kOfflineFailureThreshold \<and> \<not> md_offline_reported d
                  then (True, on_device slot slave_id (\<lambda>d. d\<lparr>md_offline_reported := True\<rparr>) m)
                  else (False, m))"

fun verify_tries :: "modbus_lib \<Rightarrow> nat \<Rightarrow> nat \<Rightarrow> ModbusMaster \<Rightarrow> SensorDevice \<Rightarrow> bool \<times> nat" where
  "verify_tries L 0 n bus sensor = (False, n)"
| "verify_tries L (Suc k) n bus sensor =
     (let (ret, dev, n) = sensor_read L n bus sensor
      in if ret = 0 \<and> dv_valid dev then (True, n) else verify_tries L k n bus sensor)"

definition verifyDeviceOnlineLocked :: "modbus_lib \<Rightarrow> int \<Rightarrow> SensorDevice \<Rightarrow> 'v PortManager
    \<Rightarrow> bool \<times> 'v PortManager" where
  "verifyDeviceOnlineLocked L slot sensor m =
     (case ch_bus (pmg_channels m slot) of None \<Rightarrow> (False, m)
      | Some bus \<Rightarrow> (let (ok, n) = verify_tries L 3 (pmg_io m) bus sensor in (ok, m\<lparr>pmg_io := n\<rparr>)))"

definition offline_data :: "SensorDevice \<Rightarrow> device_data" where
  "offline_data sensor = device_data_zero\<lparr>dv_device_id := slaveId sensor, dv_type := deviceType sensor,
     dv_valid := False, dv_device_name := ''Device '' @ to_string (slaveId sensor),
     dv_error_message := ''device_offline''\<rparr>"

definition pollDevice :: "'v board_env \<Rightarrow> int \<Rightarrow> int \<Rightarrow> SensorDevice \<Rightarrow> 'v PortManager \<Rightarrow> 'v PortManager" where
  "pollDevice E now slot sensor m =
     (let ch = pmg_channels m slot
      in if \<not> ch_connected ch then m
         else case ch_bus ch of None \<Rightarrow> m
         | Some bus \<Rightarrow>
             let (ret, dev, n) = sensor_read (be_modbus E) (pmg_io m) bus sensor;
                 m = m\<lparr>pmg_io := n\<rparr>
             in if ret = 0 \<and> dv_valid dev
                then
                  let (known, m) = recordPollSuccess slot (slaveId sensor) m
                  in if \<not> known then m
                     else
                       let m = updateLastData slot (slaveId sensor) dev (emit [DeviceStatus slot dev] m);
                           (event, sensor) = checkThreshold dev sensor;
                           m = on_device slot (slaveId sensor) (\<lambda>d. d\<lparr>md_sensor := sensor\<rparr>) m
                       in case event of None \<Rightarrow> m
                          | Some e \<Rightarrow> publishThresholdAlarm (be_json E) now slot sensor dev e m
                else
                  let (report, m) = recordPollFailure slot (slaveId sensor) m
                  in if \<not> report then m
                     else updateLastData slot (slaveId sensor) (offline_data sensor)
                            (emit [DeviceStatus slot (offline_data sensor)] m))"

definition mark_due :: "int \<Rightarrow> ManagedDevice \<Rightarrow> ManagedDevice" where
  "mark_due steady d =
     (if steady < md_next_poll_time d then d
      else d\<lparr>md_next_poll_time := steady + pollIntervalMs (md_sensor d)\<rparr>)"

definition pollSlot :: "'v board_env \<Rightarrow> int \<Rightarrow> int \<Rightarrow> int \<Rightarrow> 'v PortManager \<Rightarrow> 'v PortManager" where
  "pollSlot E now steady slot m =
     (if \<not> validSlot slot then m
      else let ch = pmg_channels m slot
      in if \<not> ch_connected ch \<or> ch_bus ch = None then m
         else let due = map md_sensor (filter (\<lambda>d. \<not> steady < md_next_poll_time d) (ch_devices ch));
                  m = on_channel slot (\<lambda>ch. ch\<lparr>ch_devices := map (mark_due steady) (ch_devices ch)\<rparr>) m
              in foldl (\<lambda>m sensor. pollDevice E now slot sensor m) m due)"

text \<open>One round of \<open>pollThreadMain\<close>: a poll of the slot, or the end of the thread.\<close>

definition pollThreadMain :: "'v board_env \<Rightarrow> int \<Rightarrow> int \<Rightarrow> int \<Rightarrow> 'v PortManager \<Rightarrow> 'v PortManager" where
  "pollThreadMain E now steady slot m =
     (let ch = pmg_channels m slot
      in if ch_thread ch \<noteq> ThreadRunning then m
         else if \<not> validSlot slot \<or> ch_stop_requested ch \<or> \<not> ch_connected ch \<or> ch_bus ch = None
         then on_channel slot (\<lambda>ch. ch\<lparr>ch_poll_running := False, ch_stop_requested := False,
                ch_thread := ThreadFinished\<rparr>) m
         else pollSlot E now steady slot m)"

definition publishLatestStatus :: "'v PortManager \<Rightarrow> 'v PortManager" where
  "publishLatestStatus m =
     emit (concat (map (\<lambda>slot. map (\<lambda>d. DeviceStatus slot (md_last_data d))
             (filter md_has_last_data (ch_devices (pmg_channels m slot)))) [0..kSlotCount - 1])) m"

subsection \<open>Operations\<close>

text \<open>The value returned and the text stored in \<open>reason\<close>.\<close>

type_synonym reply = "int \<times> string"

abbreviation ok_reply :: reply where "ok_reply \<equiv> (0, [])"

abbreviation failed :: "string \<Rightarrow> reply" where "failed reason \<equiv> (-1, reason)"

definition connectPort :: "'v board_env \<Rightarrow> int \<Rightarrow> int \<Rightarrow> int \<Rightarrow> string option \<Rightarrow> int \<Rightarrow> 'v PortManager
    \<Rightarrow> reply \<times> 'v PortManager" where
  "connectPort E now steady slot port baud m =
     (case port of None \<Rightarrow> (failed ''invalid_request'', m)
      | Some port0 \<Rightarrow>
         let port = c_str port0
         in if \<not> validSlot slot \<or> port = [] \<or> baud \<le> 0 then (failed ''invalid_request'', m)
            else if isPortUsedByOtherSlot slot port m then (failed ''port_already_connected'', m)
            else
              let m = clearSlot slot (stopPolling slot m);
                  (opened, bus, n) = mb_init (be_modbus E) (pmg_io m) (createBus slot port baud);
                  m = m\<lparr>pmg_io := n\<rparr>
              in if \<not> opened then (failed ''open_port_failed'', m)
                 else
                   let m = on_channel slot (\<lambda>ch. ch\<lparr>ch_port := port, ch_baud := baud, ch_bus := Some bus,
                             ch_connected := True, ch_stop_requested := False\<rparr>) m;
                       m = startPollingLocked slot (loadDevicesForSlotLocked (be_json E) steady slot m);
                       (ret, m) = writeConfigLocked E now m
                   in if ret \<noteq> 0 then (failed ''config_write_failed'', m) else (ok_reply, m))"

definition getPortInfo :: "int \<Rightarrow> 'v PortManager \<Rightarrow> (string \<times> int \<times> bool) option" where
  "getPortInfo slot m =
     (if \<not> validSlot slot then None
      else let ch = pmg_channels m slot in Some (ch_port ch, ch_baud ch, ch_connected ch))"

definition disconnectPort :: "int \<Rightarrow> 'v PortManager \<Rightarrow> reply \<times> 'v PortManager" where
  "disconnectPort slot m =
     (if \<not> validSlot slot then (failed ''invalid_request'', m)
      else if \<not> ch_connected (pmg_channels m slot) then (failed ''not_connected'', m)
      else (ok_reply,
        on_channel slot (\<lambda>ch. ch\<lparr>ch_bus := None, ch_devices := [], ch_connected := False,
          ch_stop_requested := False, ch_poll_running := False\<rparr>) (stopPolling slot m)))"

definition addDevice :: "'v board_env \<Rightarrow> int \<Rightarrow> int \<Rightarrow> int \<Rightarrow> int \<Rightarrow> string option \<Rightarrow> int
    \<Rightarrow> sensor_threshold_config option \<Rightarrow> 'v PortManager \<Rightarrow> reply \<times> 'v PortManager" where
  "addDevice E now steady slot slave_id kind interval config m =
     (let ch = pmg_channels m slot
      in if \<not> validSlot slot \<or> slave_id \<le> 0 then (failed ''invalid_request'', m)
         else if parseType kind = MT_Unknown then (failed ''unsupported_device_type'', m)
         else if interval < kMinPollIntervalMs then (failed ''invalid_argument'', m)
         else if \<not> ch_connected ch \<or> ch_bus ch = None then (failed ''port_not_found'', m)
         else if find_device slave_id (ch_devices ch) \<noteq> None then (failed ''slave_address_conflict'', m)
         else case createSensorDevice (parseType kind) slave_id interval config of
             None \<Rightarrow> (failed ''unsupported_device_type'', m)
           | Some sensor \<Rightarrow>
               let (online, m) = verifyDeviceOnlineLocked (be_modbus E) slot sensor m
               in if \<not> online then (failed ''device_no_response'', m)
                  else
                    let m = on_channel slot (\<lambda>ch. ch\<lparr>ch_devices := ch_devices ch @ [new_device steady sensor]\<rparr>) m;
                        (ret, m) = writeConfigLocked E now m
                    in if ret \<noteq> 0
                       then (failed ''config_write_failed'',
                             on_channel slot (\<lambda>ch. ch\<lparr>ch_devices := butlast (ch_devices ch)\<rparr>) m)
                       else (ok_reply, publishThresholdConfig (be_json E) now slot
                               (last (ch_devices (pmg_channels m slot))) m))"

definition set_threshold :: "sensor_threshold_config \<Rightarrow> ManagedDevice \<Rightarrow> ManagedDevice" where
  "set_threshold config d = d\<lparr>md_sensor := setThresholdConfig config (md_sensor d)\<rparr>"

definition setDeviceThreshold :: "'v board_env \<Rightarrow> int \<Rightarrow> int \<Rightarrow> int \<Rightarrow> sensor_threshold_config option
    \<Rightarrow> 'v PortManager \<Rightarrow> reply \<times> 'v PortManager" where
  "setDeviceThreshold E now slot slave_id config m =
     (let ch = pmg_channels m slot
      in case config of None \<Rightarrow> (failed ''invalid_request'', m)
      | Some config \<Rightarrow>
         if \<not> validSlot slot \<or> slave_id \<le> 0 then (failed ''invalid_request'', m)
         else if \<not> ch_connected ch then (failed ''port_not_connected'', m)
         else case find_device slave_id (ch_devices ch) of
             None \<Rightarrow> (failed ''device_not_found'', m)
           | Some d \<Rightarrow>
               if deviceType (md_sensor d) \<noteq> DEV_SENSOR_TH then (failed ''unsupported_device_type'', m)
               else
                 let old = (case thresholdConfig (md_sensor d) of None \<Rightarrow> sensor_threshold_zero | Some c \<Rightarrow> c);
                     (ret, m) = writeConfigLocked E now (on_device slot slave_id (set_threshold config) m)
                 in if ret \<noteq> 0
                    then (failed ''config_write_failed'', on_device slot slave_id (set_threshold old) m)
                    else (ok_reply, publishThresholdConfig (be_json E) now slot (set_threshold config d) m))"

definition removeDevice :: "'v board_env \<Rightarrow> int \<Rightarrow> int \<Rightarrow> int \<Rightarrow> 'v PortManager \<Rightarrow> reply \<times> 'v PortManager" where
  "removeDevice E now slot slave_id m =
     (let ch = pmg_channels m slot
      in if \<not> validSlot slot \<or> slave_id \<le> 0 then (failed ''invalid_request'', m)
         else if \<not> ch_connected ch then (failed ''port_not_connected'', m)
         else case find_device slave_id (ch_devices ch) of
             None \<Rightarrow> (failed ''device_not_found'', m)
           | Some removed \<Rightarrow>
               let (ret, m) = writeConfigLocked E now
                     (on_channel slot (\<lambda>ch. ch\<lparr>ch_devices := remove_first slave_id (ch_devices ch)\<rparr>) m)
               in if ret \<noteq> 0
                  then (failed ''config_write_failed'',
                        on_channel slot (\<lambda>ch. ch\<lparr>ch_devices := ch_devices ch @ [removed]\<rparr>) m)
                  else ((0, ''ok''), m))"

definition find_relay :: "int \<Rightarrow> ManagedDevice list \<Rightarrow> RelayDevice option" where
  "find_relay slave_id devices =
     (case find (\<lambda>d. md_id d = slave_id \<and> deviceType (md_sensor d) = DEV_RELAY) devices of
        None \<Rightarrow> None
      | Some d \<Rightarrow> (case md_sensor d of SensorRelay r \<Rightarrow> Some r | SensorTH _ \<Rightarrow> None))"

definition handleRelay :: "'v board_env \<Rightarrow> int \<Rightarrow> int \<Rightarrow> device_data option \<Rightarrow> 'v PortManager
    \<Rightarrow> reply \<times> 'v PortManager" where
  "handleRelay E slot slave_id dev m =
     (let ch = pmg_channels m slot
      in case dev of None \<Rightarrow> (failed ''invalid_request'', m)
      | Some dev \<Rightarrow>
         if \<not> validSlot slot \<or> slave_id \<le> 0 \<or> \<not> dv_valid dev \<or> dv_type dev \<noteq> DEV_RELAY
         then (failed ''invalid_request'', m)
         else case ch_bus ch of None \<Rightarrow> (failed ''port_not_connected'', m)
         | Some bus \<Rightarrow>
             if \<not> ch_connected ch then (failed ''port_not_connected'', m)
             else case find_relay slave_id (ch_devices ch) of
                 None \<Rightarrow> (failed ''relay_not_connected'', m)
               | Some relay \<Rightarrow>
                   let (ret, n) = relay_writeStates (be_modbus E) (pmg_io m) bus (dv_relay_states dev) relay;
                       m = m\<lparr>pmg_io := n\<rparr>
                   in if ret \<noteq> 0 then (failed ''modbus_write_failed'', m) else (ok_reply, m))"

definition loadOfflineCacheConfig :: "'v json_c \<Rightarrow> 'v PortManager \<Rightarrow> int \<times> int" where
  "loadOfflineCacheConfig C m =
     (let c = loadSavedOfflineCacheConfig C m
      in (if oc_cache_enabled c then 1 else 0, if oc_flush_enabled c then 1 else 0))"

subsection \<open>The manager as a machine\<close>

datatype board_event =
    BdConnect int "string option" int
  | BdDisconnect int
  | BdAddDevice int int "string option" int "sensor_threshold_config option"
  | BdSetThreshold int int "sensor_threshold_config option"
  | BdRemoveDevice int int
  | BdRelay int int "device_data option"
  | BdThreadRound int
  | BdPollSlot int
  | BdPublishLatest
  | BdSaveCache int int

fun board_exec :: "'v board_env \<Rightarrow> int \<Rightarrow> int \<Rightarrow> board_event \<Rightarrow> 'v PortManager \<Rightarrow> 'v PortManager" where
  "board_exec E now steady (BdConnect slot port baud) m = snd (connectPort E now steady slot port baud m)"
| "board_exec E now steady (BdDisconnect slot) m = snd (disconnectPort slot m)"
| "board_exec E now steady (BdAddDevice slot slave kind interval config) m =
     snd (addDevice E now steady slot slave kind interval config m)"
| "board_exec E now steady (BdSetThreshold slot slave config) m = snd (setDeviceThreshold E now slot slave config m)"
| "board_exec E now steady (BdRemoveDevice slot slave) m = snd (removeDevice E now slot slave m)"
| "board_exec E now steady (BdRelay slot slave dev) m = snd (handleRelay E slot slave dev m)"
| "board_exec E now steady (BdThreadRound slot) m = pollThreadMain E now steady slot m"
| "board_exec E now steady (BdPollSlot slot) m = pollSlot E now steady slot m"
| "board_exec E now steady BdPublishLatest m = publishLatestStatus m"
| "board_exec E now steady (BdSaveCache cache flush) m =
     snd (saveOfflineCacheConfig E now (cache \<noteq> 0) (flush \<noteq> 0) m)"

inductive board_reachable :: "'v board_env \<Rightarrow> 'v option \<Rightarrow> 'v PortManager \<Rightarrow> bool" for E initial where
  start: "board_reachable E initial (PortManager_new initial)"
| step: "board_reachable E initial m \<Longrightarrow> board_reachable E initial (board_exec E now steady e m)"

end
