(* ===== verification/PortLemmas.thy ===== *)
theory PortLemmas
  imports PortManager
begin

text \<open>
  The invariant of the port manager (\<open>board_wf\<close>), its preservation by every operation, the
  behaviour of the poll counters over time, and the round trip through the configuration
  file.
\<close>

subsection \<open>Device lists\<close>

lemma find_device_Some:
  "find_device i ds = Some d \<Longrightarrow> d \<in> set ds \<and> md_id d = i"
  by (auto simp: find_device_def find_Some_iff)

lemma find_device_None: "find_device i ds = None \<longleftrightarrow> i \<notin> md_id ` set ds"
  by (auto simp: find_device_def find_None_iff)

lemma find_device_simps [simp]:
  "find_device i [] = None"
  "find_device i (d # ds) = (if md_id d = i then Some d else find_device i ds)"
  by (simp_all add: find_device_def)

lemma find_update_first:
  "(\<And>d. find_device i ds = Some d \<Longrightarrow> md_id (f d) = i) \<Longrightarrow>
   find_device j (update_first i f ds) = (if i = j then map_option f (find_device i ds) else find_device j ds)"
  by (induction ds) (auto split: if_splits)

lemma update_first_compose:
  "(\<And>d. md_id d = i \<Longrightarrow> md_id (f d) = i) \<Longrightarrow>
   update_first i g (update_first i f ds) = update_first i (\<lambda>d. g (f d)) ds"
  by (induction ds) auto

lemma update_first_cong:
  "(\<And>d. find_device i ds = Some d \<Longrightarrow> f d = g d) \<Longrightarrow> update_first i f ds = update_first i g ds"
  by (induction ds) auto

lemma update_first_ids:
  "(\<And>d. find_device i ds = Some d \<Longrightarrow> md_id (f d) = i) \<Longrightarrow> map md_id (update_first i f ds) = map md_id ds"
  by (induction ds) auto

lemma update_first_all:
  "\<forall>d \<in> set ds. P d \<Longrightarrow> (\<And>d. find_device i ds = Some d \<Longrightarrow> P d \<Longrightarrow> P (f d)) \<Longrightarrow>
   \<forall>d \<in> set (update_first i f ds). P d"
  by (induction ds) auto

lemma remove_first_filter:
  "distinct (map md_id ds) \<Longrightarrow> remove_first i ds = filter (\<lambda>d. md_id d \<noteq> i) ds"
proof (induction ds)
  case (Cons d ds)
  have "filter (\<lambda>d. md_id d \<noteq> i) ds = ds" if "i \<notin> md_id ` set ds"
    using that by (induction ds) auto
  with Cons show ?case by auto
qed simp

subsection \<open>The invariant\<close>

definition managed_ok :: "ManagedDevice \<Rightarrow> bool" where
  "managed_ok d \<longleftrightarrow> md_id d > 0 \<and> pollIntervalMs (md_sensor d) \<ge> 500
     \<and> md_consecutive_failures d \<ge> 0 \<and> md_offline_reported d = (md_consecutive_failures d \<ge> 3)"

definition channel_wf :: "PortChannel \<Rightarrow> bool" where
  "channel_wf ch \<longleftrightarrow> distinct (map md_id (ch_devices ch)) \<and> (\<forall>d \<in> set (ch_devices ch). managed_ok d)
     \<and> (if ch_connected ch
        then ch_port ch \<noteq> [] \<and> ch_baud ch > 0 \<and> (\<exists>bus. ch_bus ch = Some bus \<and> mm_ctx bus \<and> mm_dev bus = ch_port ch)
        else ch_bus ch = None \<and> ch_devices ch = [])
     \<and> ch_poll_running ch = ch_connected ch \<and> \<not> ch_stop_requested ch
     \<and> ch_thread ch = (if ch_connected ch then ThreadRunning else NoThread)"

definition ports_exclusive :: "(int \<Rightarrow> PortChannel) \<Rightarrow> bool" where
  "ports_exclusive chans \<longleftrightarrow>
     (\<forall>i j. i \<noteq> j \<and> ch_connected (chans i) \<and> ch_connected (chans j) \<longrightarrow> ch_port (chans i) \<noteq> ch_port (chans j))"

definition board_wf :: "'v PortManager \<Rightarrow> bool" where
  "board_wf m \<longleftrightarrow> (\<forall>slot. channel_wf (pmg_channels m slot)) \<and> ports_exclusive (pmg_channels m)
     \<and> (\<forall>slot. \<not> validSlot slot \<longrightarrow> pmg_channels m slot = PortChannel_new) \<and> \<not> pmg_terminated m"

lemma channel_wf_new [simp]: "channel_wf PortChannel_new"
  by (simp add: channel_wf_def PortChannel_new_def)

lemma board_wf_cong:
  "pmg_channels m' = pmg_channels m \<Longrightarrow> pmg_terminated m' = pmg_terminated m \<Longrightarrow> board_wf m' = board_wf m"
  by (simp add: board_wf_def)

lemma board_wf_fields [simp]:
  "board_wf (m\<lparr>pmg_io := n\<rparr>) = board_wf m" "board_wf (m\<lparr>pmg_file := file\<rparr>) = board_wf m"
  "board_wf (m\<lparr>pmg_writes := n\<rparr>) = board_wf m" "board_wf (emit os m) = board_wf m"
  by (rule board_wf_cong; simp add: emit_def)+

text \<open>Replacing one channel by one that keeps the connection.\<close>

lemma on_channel_wf:
  assumes "board_wf m" "channel_wf (f (pmg_channels m slot))" "validSlot slot"
    "ch_connected (f (pmg_channels m slot)) \<longrightarrow> ch_connected (pmg_channels m slot)
       \<and> ch_port (f (pmg_channels m slot)) = ch_port (pmg_channels m slot)"
  shows "board_wf (on_channel slot f m)"
  using assms by (auto simp: board_wf_def ports_exclusive_def)

lemma devices_wf:
  assumes "board_wf m" "validSlot slot" "ch_connected (pmg_channels m slot)"
    "distinct (map md_id ds)" "\<forall>d \<in> set ds. managed_ok d"
  shows "board_wf (on_channel slot (\<lambda>ch. ch\<lparr>ch_devices := ds\<rparr>) m)"
  using assms by (intro on_channel_wf) (auto simp: board_wf_def channel_wf_def)

lemma board_wf_channel:
  assumes "board_wf m"
  shows "channel_wf (pmg_channels m slot)"
    and "distinct (map md_id (ch_devices (pmg_channels m slot)))"
    and "d \<in> set (ch_devices (pmg_channels m slot)) \<Longrightarrow> managed_ok d"
    and "ch_devices (pmg_channels m slot) \<noteq> [] \<Longrightarrow> ch_connected (pmg_channels m slot)"
  using assms by (auto simp: board_wf_def channel_wf_def split: if_splits) (meson+)?

lemma on_device_wf:
  assumes "board_wf m"
    and f: "\<And>d. find_device i (ch_devices (pmg_channels m slot)) = Some d \<Longrightarrow> managed_ok d
          \<Longrightarrow> md_id (f d) = i \<and> managed_ok (f d)"
  shows "board_wf (on_device slot i f m)"
proof (cases "ch_devices (pmg_channels m slot) = []")
  case True
  then have "(pmg_channels m slot)\<lparr>ch_devices := update_first i f (ch_devices (pmg_channels m slot))\<rparr>
      = pmg_channels m slot" by simp
  then have "on_device slot i f m = m" by (simp add: on_device_def)
  then show ?thesis using assms(1) by simp
next
  case False
  let ?ds = "ch_devices (pmg_channels m slot)"
  have ok: "\<And>d. find_device i ?ds = Some d \<Longrightarrow> managed_ok d"
    using find_device_Some board_wf_channel(3) [OF assms(1)] by blast
  have "\<forall>d \<in> set (update_first i f ?ds). managed_ok d"
    using update_first_all [of ?ds managed_ok i f] board_wf_channel(3) [OF assms(1)] f by blast
  moreover have "map md_id (update_first i f ?ds) = map md_id ?ds"
    using update_first_ids [of i ?ds f] f ok by blast
  moreover have "validSlot slot" using False assms(1) by (auto simp: board_wf_def PortChannel_new_def)
  moreover have "distinct (map md_id ?ds)" "ch_connected (pmg_channels m slot)"
    using False board_wf_channel(2,4) [OF assms(1), of slot] by auto
  ultimately show ?thesis unfolding on_device_def by (intro devices_wf [OF assms(1)]) auto
qed

subsection \<open>Every operation keeps the invariant\<close>

definition fail_step :: "ManagedDevice \<Rightarrow> ManagedDevice" where
  "fail_step d = d\<lparr>md_consecutive_failures := md_consecutive_failures d + 1,
     md_offline_reported := (md_offline_reported d \<or> md_consecutive_failures d + 1 \<ge> 3)\<rparr>"

lemma on_device_cong:
  "(\<And>d. find_device i (ch_devices (pmg_channels m slot)) = Some d \<Longrightarrow> f d = g d) \<Longrightarrow>
   on_device slot i f m = on_device slot i g m"
  using update_first_cong [of i "ch_devices (pmg_channels m slot)" f g] by (simp add: on_device_def)

lemma on_device_compose:
  "(\<And>d. md_id d = i \<Longrightarrow> md_id (f d) = i) \<Longrightarrow>
   on_device slot i g (on_device slot i f m) = on_device slot i (\<lambda>d. g (f d)) m"
  using update_first_compose [of i f g "ch_devices (pmg_channels m slot)"] by (simp add: on_device_def)

lemma recordPollFailure_eq:
  assumes "validSlot slot" "find_device i (ch_devices (pmg_channels m slot)) = Some d"
  shows "recordPollFailure slot i m =
     (md_consecutive_failures d + 1 \<ge> 3 \<and> \<not> md_offline_reported d, on_device slot i fail_step m)"
  using assms
  by (auto simp: recordPollFailure_def kOfflineFailureThreshold_def Let_def on_device_compose fail_step_def
      intro!: on_device_cong)

lemma updateLastData_wf: "board_wf m \<Longrightarrow> board_wf (updateLastData slot i dev m)"
  by (auto simp: updateLastData_def managed_ok_def dest!: find_device_Some intro!: on_device_wf)

lemma recordPollSuccess_wf: "board_wf m \<Longrightarrow> board_wf (snd (recordPollSuccess slot i m))"
  by (auto simp: recordPollSuccess_def managed_ok_def split: option.split dest!: find_device_Some intro!: on_device_wf)

lemma recordPollFailure_wf: "board_wf m \<Longrightarrow> board_wf (snd (recordPollFailure slot i m))"
proof (cases "validSlot slot \<and> find_device i (ch_devices (pmg_channels m slot)) \<noteq> None")
  case True
  assume "board_wf m"
  moreover obtain d where "find_device i (ch_devices (pmg_channels m slot)) = Some d" using True by blast
  ultimately show ?thesis
    using True by (auto simp: recordPollFailure_eq fail_step_def managed_ok_def dest!: find_device_Some
        intro!: on_device_wf)
next
  case False
  assume "board_wf m"
  with False show ?thesis by (auto simp: recordPollFailure_def)
qed

lemma publishThresholdAlarm_wf [simp]: "board_wf (publishThresholdAlarm C now slot s dev e m) = board_wf m"
  by (simp add: publishThresholdAlarm_def Let_def)

lemma publishThresholdConfig_wf [simp]: "board_wf (publishThresholdConfig C now slot d m) = board_wf m"
  by (simp add: publishThresholdConfig_def Let_def split: option.split)

definition sensor_ok :: "SensorDevice \<Rightarrow> bool" where
  "sensor_ok s \<longleftrightarrow> slaveId s > 0 \<and> pollIntervalMs s \<ge> 500"

lemma replace_sensor_wf:
  "board_wf m \<Longrightarrow> sensor_ok s \<Longrightarrow> slaveId s = i \<Longrightarrow> board_wf (on_device slot i (\<lambda>d. d\<lparr>md_sensor := s\<rparr>) m)"
  by (auto simp: sensor_ok_def managed_ok_def intro!: on_device_wf)

lemma pollDevice_wf:
  assumes "board_wf m" "sensor_ok sensor"
  shows "board_wf (pollDevice E now slot sensor m)"
proof -
  have ok: "sensor_ok (snd (checkThreshold dev sensor))" for dev
    using assms(2) by (simp add: sensor_ok_def)
  show ?thesis
    using assms(1)
    by (auto simp: pollDevice_def Let_def split_def recordPollSuccess_wf recordPollFailure_wf
        updateLastData_wf replace_sensor_wf [OF _ ok] split: option.split)
qed

lemma poll_all_wf:
  "board_wf m \<Longrightarrow> \<forall>s \<in> set ss. sensor_ok s \<Longrightarrow> board_wf (foldl (\<lambda>m s. pollDevice E now slot s m) m ss)"
  by (induction ss arbitrary: m) (auto simp: pollDevice_wf)

lemma mark_due_simps [simp]:
  "md_sensor (mark_due steady d) = md_sensor d" "managed_ok (mark_due steady d) = managed_ok d"
  "md_consecutive_failures (mark_due steady d) = md_consecutive_failures d"
  "md_offline_reported (mark_due steady d) = md_offline_reported d"
  by (auto simp: mark_due_def managed_ok_def)

lemma map_mark_due_ids [simp]: "map ((\<lambda>d. md_id d) \<circ> mark_due steady) ds = map md_id ds"
  by (simp add: comp_def)

lemma pollSlot_wf:
  assumes "board_wf m"
  shows "board_wf (pollSlot E now steady slot m)"
proof (cases "validSlot slot \<and> ch_connected (pmg_channels m slot)")
  case True
  let ?ds = "ch_devices (pmg_channels m slot)"
  have "board_wf (on_channel slot (\<lambda>ch. ch\<lparr>ch_devices := map (mark_due steady) ?ds\<rparr>) m)"
    using True board_wf_channel(2,3) [OF assms] by (intro devices_wf [OF assms]) auto
  moreover have "\<forall>s \<in> set (map md_sensor (filter (\<lambda>d. \<not> steady < md_next_poll_time d) ?ds)). sensor_ok s"
    using board_wf_channel(3) [OF assms] by (auto simp: sensor_ok_def managed_ok_def)
  ultimately show ?thesis using assms by (simp add: pollSlot_def Let_def poll_all_wf)
qed (use assms in \<open>auto simp: pollSlot_def Let_def\<close>)

lemma pollThreadMain_wf:
  assumes "board_wf m"
  shows "board_wf (pollThreadMain E now steady slot m)"
proof -
  have "channel_wf (pmg_channels m slot)" using assms by (rule board_wf_channel)
  then have "ch_thread (pmg_channels m slot) = ThreadRunning \<Longrightarrow>
      ch_connected (pmg_channels m slot) \<and> \<not> ch_stop_requested (pmg_channels m slot)
      \<and> ch_bus (pmg_channels m slot) \<noteq> None"
    by (auto simp: channel_wf_def split: if_splits)
  moreover have "ch_connected (pmg_channels m slot) \<Longrightarrow> validSlot slot"
    using assms by (auto simp: board_wf_def PortChannel_new_def)
  ultimately show ?thesis using assms by (auto simp: pollThreadMain_def Let_def pollSlot_wf)
qed

lemma write_file_channels [simp]:
  "pmg_channels (snd (write_file E doc m)) = pmg_channels m"
  "pmg_terminated (snd (write_file E doc m)) = pmg_terminated m"
  "pmg_io (snd (write_file E doc m)) = pmg_io m"
  "pmg_out (snd (write_file E doc m)) = pmg_out m"
  by (simp_all add: write_file_def Let_def split_def)

lemma writeConfig_channels [simp]:
  "pmg_channels (snd (writeConfigLocked E now m)) = pmg_channels m"
  "pmg_terminated (snd (writeConfigLocked E now m)) = pmg_terminated m"
  "pmg_io (snd (writeConfigLocked E now m)) = pmg_io m"
  "pmg_out (snd (writeConfigLocked E now m)) = pmg_out m"
  by (simp_all add: writeConfigLocked_def)

lemma writeConfig_wf [simp]: "board_wf (snd (writeConfigLocked E now m)) = board_wf m"
  by (rule board_wf_cong) simp_all

text \<open>A slot just cleared and connected anew.\<close>

lemma createSensorDevice_ok:
  "createSensorDevice kind i interval config = Some s \<Longrightarrow>
   slaveId s = i \<and> pollIntervalMs s = interval"
  by (cases kind) (auto simp: TemperatureHumiditySensor_new_def)

lemma new_device_ok:
  "createSensorDevice kind i interval config = Some s \<Longrightarrow> i > 0 \<Longrightarrow> interval \<ge> 500 \<Longrightarrow>
   md_id (new_device steady s) = i \<and> managed_ok (new_device steady s)"
  by (auto simp: new_device_def managed_ok_def dest!: createSensorDevice_ok)

definition devices_ok :: "ManagedDevice list \<Rightarrow> bool" where
  "devices_ok ds \<longleftrightarrow> distinct (map md_id ds) \<and> (\<forall>d \<in> set ds. managed_ok d)"

lemma devices_ok_snoc:
  "devices_ok ds \<Longrightarrow> managed_ok d \<Longrightarrow> find_device (md_id d) ds = None \<Longrightarrow> devices_ok (ds @ [d])"
  by (auto simp: devices_ok_def find_device_None)

lemma load_device_ok:
  assumes "devices_ok ds"
  shows "devices_ok (load_device C steady slot port ds item)"
proof -
  have "devices_ok (ds @ [new_device steady s])"
    if "createSensorDevice kind i interval config = Some s" "i > 0" "interval \<ge> 500" "find_device i ds = None"
    for kind i interval config s
    using devices_ok_snoc [OF assms] new_device_ok [OF that(1-3)] that(4) by metis
  then show ?thesis
    using assms by (auto simp: load_device_def Let_def kMinPollIntervalMs_def split: option.split)
qed

lemma devices_ok_Nil [simp]: "devices_ok []"
  by (simp add: devices_ok_def)

lemma load_devices_ok: "devices_ok ds \<Longrightarrow> devices_ok (foldl (load_device C steady slot port) ds items)"
  by (induction items arbitrary: ds) (auto simp: load_device_ok)

definition opened_channel :: "string \<Rightarrow> int \<Rightarrow> ModbusMaster \<Rightarrow> ManagedDevice list \<Rightarrow> PortChannel" where
  "opened_channel port baud bus ds = \<lparr>ch_connected = True, ch_port = port, ch_baud = baud, ch_bus = Some bus,
     ch_devices = ds, ch_poll_running = True, ch_stop_requested = False, ch_thread = ThreadRunning\<rparr>"

definition saved_devices :: "'v json_c \<Rightarrow> int \<Rightarrow> int \<Rightarrow> string \<Rightarrow> 'v option \<Rightarrow> ManagedDevice list" where
  "saved_devices C steady slot port file =
     (case file of None \<Rightarrow> []
      | Some doc \<Rightarrow> (case jc_array_member C doc ''devices'' of None \<Rightarrow> []
          | Some items \<Rightarrow> foldl (load_device C steady slot port) [] items))"

lemma saved_devices_ok: "devices_ok (saved_devices C steady slot port file)"
  by (simp add: saved_devices_def load_devices_ok split: option.split)

lemma stop_clear:
  assumes "validSlot slot"
  shows "clearSlot slot (stopPolling slot m) = m\<lparr>pmg_channels := (pmg_channels m)(slot := PortChannel_new)\<rparr>"
  using assms
  by (cases "pmg_channels m slot") (simp add: clearSlot_def stopPolling_def PortChannel_new_def)

lemma open_start:
  assumes "validSlot slot"
  shows "startPollingLocked slot (loadDevicesForSlotLocked C steady slot
       (m\<lparr>pmg_channels := chans(slot := PortChannel_new\<lparr>ch_port := port, ch_baud := baud,
          ch_bus := Some bus, ch_connected := True, ch_stop_requested := False\<rparr>)\<rparr>))
     = m\<lparr>pmg_channels := chans(slot :=
          opened_channel port baud bus (saved_devices C steady slot port (pmg_file m)))\<rparr>"
  using assms
  by (auto simp: startPollingLocked_def loadDevicesForSlotLocked_def saved_devices_def opened_channel_def
      PortChannel_new_def Let_def split: option.split)

lemma mb_init_Some:
  "mb_init L n bus = (True, bus', n') \<Longrightarrow> mm_ctx bus' \<and> mm_dev bus' = mm_dev bus"
  by (auto simp: mb_init_def split: if_splits)

lemma createBus_dev [simp]: "mm_dev (createBus slot port baud) = port"
  by (simp add: createBus_def ModbusMaster_new_def)

text \<open>What \<open>connectPort\<close> does once its arguments are accepted.\<close>

definition connect_accepted :: "int \<Rightarrow> string option \<Rightarrow> int \<Rightarrow> 'v PortManager \<Rightarrow> bool" where
  "connect_accepted slot port baud m \<longleftrightarrow>
     (\<exists>p. port = Some p \<and> c_str p \<noteq> [] \<and> validSlot slot \<and> baud > 0 \<and> \<not> isPortUsedByOtherSlot slot (c_str p) m)"

lemma connect_cases:
  fixes m :: "'v PortManager" and port0 :: string
  defines "port \<equiv> c_str port0"
  assumes "connect_accepted slot (Some port0) baud m"
    and "mb_init (be_modbus E) (pmg_io m) (createBus slot port baud) = (ok, bus, n)"
  shows "connectPort E now steady slot (Some port0) baud m =
     (let cleared = m\<lparr>pmg_channels := (pmg_channels m)(slot := PortChannel_new), pmg_io := n\<rparr>
      in if \<not> ok then (failed ''open_port_failed'', cleared)
         else let opened = cleared\<lparr>pmg_channels := (pmg_channels cleared)(slot :=
                    opened_channel port baud bus (saved_devices (be_json E) steady slot port (pmg_file m)))\<rparr>;
                  (ret, m') = writeConfigLocked E now opened
              in if ret \<noteq> 0 then (failed ''config_write_failed'', m') else (ok_reply, m'))"
proof -
  have v: "validSlot slot" "port \<noteq> []" "baud > 0" "\<not> isPortUsedByOtherSlot slot port m"
    using assms(2) by (auto simp: connect_accepted_def port_def)
  show ?thesis
    using v assms(3)
    by (simp add: connectPort_def Let_def port_def stop_clear open_start split_def)
qed

lemma connect_refused:
  "\<not> connect_accepted slot port baud m \<Longrightarrow> snd (connectPort E now steady slot port baud m) = m"
  by (auto simp: connectPort_def connect_accepted_def Let_def split: option.split)

lemma connect_refused_ret:
  "\<not> connect_accepted slot port baud m \<Longrightarrow> fst (fst (connectPort E now steady slot port baud m)) = -1"
  by (auto simp: connectPort_def connect_accepted_def Let_def split: option.split)

lemma channel_wf_opened:
  assumes "port \<noteq> []" "baud > 0" "mm_ctx bus" "mm_dev bus = port" "devices_ok ds"
  shows "channel_wf (opened_channel port baud bus ds)"
  using assms by (simp add: channel_wf_def opened_channel_def devices_ok_def)

lemma not_connected_new [simp]: "\<not> ch_connected PortChannel_new"
  by (simp add: PortChannel_new_def)

lemma cleared_wf:
  assumes "board_wf m"
  shows "board_wf (m\<lparr>pmg_channels := (pmg_channels m)(slot := PortChannel_new)\<rparr>)"
  using assms by (auto simp: board_wf_def ports_exclusive_def)

lemma opened_wf:
  assumes "board_wf m" "connect_accepted slot (Some port0) baud m" "mm_ctx bus" "mm_dev bus = c_str port0"
    "devices_ok ds"
  shows "board_wf (m\<lparr>pmg_channels := (pmg_channels m)(slot := opened_channel (c_str port0) baud bus ds)\<rparr>)"
proof -
  have v: "validSlot slot" "c_str port0 \<noteq> []" "baud > 0" "\<not> isPortUsedByOtherSlot slot (c_str port0) m"
    using assms(2) by (auto simp: connect_accepted_def)
  have "channel_wf (opened_channel (c_str port0) baud bus ds)"
    using v assms(3-5) by (intro channel_wf_opened)
  moreover have other: "ch_port (pmg_channels m i) \<noteq> c_str port0" if "i \<noteq> slot" "ch_connected (pmg_channels m i)" for i
  proof -
    have "validSlot i" using that(2) assms(1) by (auto simp: board_wf_def PortChannel_new_def)
    then show ?thesis
      using v(4) that by (auto simp: isPortUsedByOtherSlot_def list_ex_iff validSlot_def)
  qed
  moreover have "ports_exclusive ((pmg_channels m)(slot := opened_channel (c_str port0) baud bus ds))"
    using assms(1) other by (simp add: board_wf_def ports_exclusive_def opened_channel_def) metis
  ultimately show ?thesis using assms(1) v(1) by (auto simp: board_wf_def)
qed

lemma connectPort_wf:
  assumes "board_wf m"
  shows "board_wf (snd (connectPort E now steady slot port baud m))"
proof (cases "connect_accepted slot port baud m")
  case True
  then obtain port0 where p: "port = Some port0" by (auto simp: connect_accepted_def)
  obtain ok bus n where i: "mb_init (be_modbus E) (pmg_io m) (createBus slot (c_str port0) baud) = (ok, bus, n)"
    by (cases "mb_init (be_modbus E) (pmg_io m) (createBus slot (c_str port0) baud)")
  let ?c = "m\<lparr>pmg_channels := (pmg_channels m)(slot := PortChannel_new), pmg_io := n\<rparr>"
  let ?o = "?c\<lparr>pmg_channels := (pmg_channels ?c)(slot := opened_channel (c_str port0) baud bus
      (saved_devices (be_json E) steady slot (c_str port0) (pmg_file m)))\<rparr>"
  have c: "board_wf ?c" using cleared_wf [OF assms] by simp
  have "board_wf ?o" if ok
  proof -
    have "connect_accepted slot (Some port0) baud ?c"
      using True p by (auto simp: connect_accepted_def isPortUsedByOtherSlot_def list_ex_iff)
    moreover have "mm_ctx bus" "mm_dev bus = c_str port0" using mb_init_Some i that by fastforce+
    ultimately show ?thesis using opened_wf [OF c] saved_devices_ok by blast
  qed
  then show ?thesis
    using c connect_cases [OF True [unfolded p] i, of now steady] by (simp add: p Let_def split_def)
next
  case False
  then show ?thesis using assms connect_refused [OF False] by simp
qed

lemma disconnectPort_wf: "board_wf m \<Longrightarrow> board_wf (snd (disconnectPort slot m))"
  by (auto simp: disconnectPort_def stopPolling_def channel_wf_def board_wf_def ports_exclusive_def)

lemma verify_fields [simp]:
  "pmg_channels (snd (verifyDeviceOnlineLocked L slot s m)) = pmg_channels m"
  "pmg_file (snd (verifyDeviceOnlineLocked L slot s m)) = pmg_file m"
  "pmg_terminated (snd (verifyDeviceOnlineLocked L slot s m)) = pmg_terminated m"
  "pmg_writes (snd (verifyDeviceOnlineLocked L slot s m)) = pmg_writes m"
  "pmg_out (snd (verifyDeviceOnlineLocked L slot s m)) = pmg_out m"
  by (simp_all add: verifyDeviceOnlineLocked_def Let_def split_def split: option.split)

lemma verify_wf [simp]: "board_wf (snd (verifyDeviceOnlineLocked L slot s m)) = board_wf m"
  by (rule board_wf_cong) simp_all

lemma devices_id [simp]: "ch\<lparr>ch_devices := ch_devices ch\<rparr> = ch"
  by (cases ch) simp

lemma find_devices_connected:
  "board_wf m \<Longrightarrow> find_device i (ch_devices (pmg_channels m slot)) = Some d \<Longrightarrow>
   validSlot slot \<and> ch_connected (pmg_channels m slot) \<and> managed_ok d \<and> md_id d = i"
  using board_wf_channel(3,4) find_device_Some
  by (metis board_wf_def empty_iff list.set(1) not_connected_new)

text \<open>Three ways to change the devices of a slot around a write of the configuration.\<close>

definition set_devices :: "int \<Rightarrow> ManagedDevice list \<Rightarrow> 'v PortManager \<Rightarrow> 'v PortManager" where
  "set_devices slot ds m = on_channel slot (\<lambda>ch. ch\<lparr>ch_devices := ds\<rparr>) m"

lemma set_devices_wf:
  "board_wf m \<Longrightarrow> validSlot slot \<Longrightarrow> ch_connected (pmg_channels m slot) \<Longrightarrow> devices_ok ds \<Longrightarrow>
   board_wf (set_devices slot ds m)"
  unfolding set_devices_def by (rule devices_wf) (auto simp: devices_ok_def)

lemma board_devices_ok: "board_wf m \<Longrightarrow> devices_ok (ch_devices (pmg_channels m slot))"
  using board_wf_channel(2,3) by (auto simp: devices_ok_def)

definition add_accepted :: "int \<Rightarrow> int \<Rightarrow> string option \<Rightarrow> int \<Rightarrow> 'v PortManager \<Rightarrow> bool" where
  "add_accepted slot slave_id kind interval m \<longleftrightarrow> validSlot slot \<and> slave_id > 0 \<and> parseType kind \<noteq> MT_Unknown
     \<and> interval \<ge> 500 \<and> ch_connected (pmg_channels m slot) \<and> ch_bus (pmg_channels m slot) \<noteq> None
     \<and> find_device slave_id (ch_devices (pmg_channels m slot)) = None"

lemma add_refused:
  "\<not> add_accepted slot slave_id kind interval m \<Longrightarrow>
   fst (fst (addDevice E now steady slot slave_id kind interval config m)) = -1
   \<and> snd (addDevice E now steady slot slave_id kind interval config m) = m"
  by (auto simp: addDevice_def add_accepted_def Let_def kMinPollIntervalMs_def)

lemma add_cases:
  assumes "add_accepted slot slave_id kind interval m"
    and "createSensorDevice (parseType kind) slave_id interval config = Some s"
  shows "addDevice E now steady slot slave_id kind interval config m =
     (let (online, m1) = verifyDeviceOnlineLocked (be_modbus E) slot s m;
          ds = ch_devices (pmg_channels m slot); d = new_device steady s;
          (ret, m2) = writeConfigLocked E now (set_devices slot (ds @ [d]) m1)
      in if \<not> online then (failed ''device_no_response'', m1)
         else if ret \<noteq> 0 then (failed ''config_write_failed'', set_devices slot ds m2)
         else (ok_reply, publishThresholdConfig (be_json E) now slot d m2))"
  using assms
  by (simp add: addDevice_def add_accepted_def Let_def split_def kMinPollIntervalMs_def set_devices_def)

lemma accepted_sensor:
  assumes "parseType kind \<noteq> MT_Unknown"
  obtains s where "createSensorDevice (parseType kind) slave_id interval config = Some s"
  using assms by (cases "parseType kind") auto

lemma set_devices_fields [simp]:
  "pmg_channels (set_devices slot ds m) = (pmg_channels m)(slot := (pmg_channels m slot)\<lparr>ch_devices := ds\<rparr>)"
  "pmg_terminated (set_devices slot ds m) = pmg_terminated m" "pmg_out (set_devices slot ds m) = pmg_out m"
  "pmg_file (set_devices slot ds m) = pmg_file m"
  by (simp_all add: set_devices_def)

lemma emit_fields [simp]:
  "pmg_channels (emit os m) = pmg_channels m" "pmg_terminated (emit os m) = pmg_terminated m"
  "pmg_file (emit os m) = pmg_file m" "pmg_io (emit os m) = pmg_io m" "pmg_writes (emit os m) = pmg_writes m"
  "pmg_out (emit os m) = pmg_out m @ os"
  by (simp_all add: emit_def)

lemma publish_fields [simp]:
  "pmg_channels (publishThresholdConfig C now slot d m) = pmg_channels m"
  "pmg_terminated (publishThresholdConfig C now slot d m) = pmg_terminated m"
  "pmg_file (publishThresholdConfig C now slot d m) = pmg_file m"
  "pmg_channels (publishThresholdAlarm C now slot s dev e m) = pmg_channels m"
  "pmg_terminated (publishThresholdAlarm C now slot s dev e m) = pmg_terminated m"
  by (simp_all add: publishThresholdConfig_def publishThresholdAlarm_def Let_def split: option.split)

lemma devices_changed_wf:
  assumes "board_wf m" "pmg_terminated m' = pmg_terminated m" "validSlot slot"
    "pmg_channels m' = (pmg_channels m)(slot := (pmg_channels m slot)\<lparr>ch_devices := ds\<rparr>)"
    "ch_connected (pmg_channels m slot)" "devices_ok ds"
  shows "board_wf m'"
proof -
  have "board_wf m' = board_wf (set_devices slot ds m)" using assms(2,4) by (intro board_wf_cong) simp_all
  then show ?thesis using set_devices_wf [OF assms(1,3,5,6)] by simp
qed

text \<open>A device is added exactly when the call returns 0; otherwise the slots are unchanged.\<close>

lemma addDevice_result:
  assumes "addDevice E now steady slot slave_id kind interval config m = ((ret, reason), m')"
  shows "pmg_terminated m' = pmg_terminated m"
    and "ret = 0 \<Longrightarrow> add_accepted slot slave_id kind interval m \<and>
      (\<exists>s. createSensorDevice (parseType kind) slave_id interval config = Some s \<and>
        pmg_channels m' = (pmg_channels m)(slot := (pmg_channels m slot)
          \<lparr>ch_devices := ch_devices (pmg_channels m slot) @ [new_device steady s]\<rparr>))"
    and "ret \<noteq> 0 \<Longrightarrow> ret = -1 \<and> pmg_channels m' = pmg_channels m"
proof -
  have "pmg_terminated m' = pmg_terminated m \<and> (ret = 0 \<longrightarrow> add_accepted slot slave_id kind interval m \<and>
      (\<exists>s. createSensorDevice (parseType kind) slave_id interval config = Some s \<and>
        pmg_channels m' = (pmg_channels m)(slot := (pmg_channels m slot)
          \<lparr>ch_devices := ch_devices (pmg_channels m slot) @ [new_device steady s]\<rparr>)))
      \<and> (ret \<noteq> 0 \<longrightarrow> ret = -1 \<and> pmg_channels m' = pmg_channels m)"
  proof (cases "add_accepted slot slave_id kind interval m")
    case True
    then have "parseType kind \<noteq> MT_Unknown" by (simp add: add_accepted_def)
    then obtain s where s: "createSensorDevice (parseType kind) slave_id interval config = Some s"
      using accepted_sensor by blast
    show ?thesis
      using assms True by (auto simp: add_cases [OF True s] s Let_def split_def split: if_splits)
  next
    case False
    then show ?thesis using assms add_refused [OF False, of E now steady config] by auto
  qed
  then show "pmg_terminated m' = pmg_terminated m"
    and "ret = 0 \<Longrightarrow> add_accepted slot slave_id kind interval m \<and>
      (\<exists>s. createSensorDevice (parseType kind) slave_id interval config = Some s \<and>
        pmg_channels m' = (pmg_channels m)(slot := (pmg_channels m slot)
          \<lparr>ch_devices := ch_devices (pmg_channels m slot) @ [new_device steady s]\<rparr>))"
    and "ret \<noteq> 0 \<Longrightarrow> ret = -1 \<and> pmg_channels m' = pmg_channels m" by blast+
qed

lemma addDevice_wf:
  assumes "board_wf m"
  shows "board_wf (snd (addDevice E now steady slot slave_id kind interval config m))"
proof -
  obtain ret reason m' where r: "addDevice E now steady slot slave_id kind interval config m = ((ret, reason), m')"
    by (metis prod.exhaust)
  show ?thesis
  proof (cases "ret = 0")
    case True
    then obtain s where s: "createSensorDevice (parseType kind) slave_id interval config = Some s"
        "pmg_channels m' = (pmg_channels m)(slot := (pmg_channels m slot)
          \<lparr>ch_devices := ch_devices (pmg_channels m slot) @ [new_device steady s]\<rparr>)"
        and a: "add_accepted slot slave_id kind interval m"
      using addDevice_result(2) [OF r] by blast
    have "devices_ok (ch_devices (pmg_channels m slot) @ [new_device steady s])"
      using a new_device_ok [OF s(1)] devices_ok_snoc [OF board_devices_ok [OF assms]]
      by (auto simp: add_accepted_def)
    then show ?thesis
      using devices_changed_wf [OF assms addDevice_result(1) [OF r] _ s(2)] a
      by (simp add: r add_accepted_def)
  next
    case False
    then show ?thesis
      using addDevice_result [OF r] assms board_wf_cong [of m' m] by (simp add: r)
  qed
qed

lemma set_threshold_ok [simp]:
  "md_id (set_threshold c d) = md_id d" "managed_ok (set_threshold c d) = managed_ok d"
  "pollIntervalMs (md_sensor (set_threshold c d)) = pollIntervalMs (md_sensor d)"
  by (simp_all add: set_threshold_def managed_ok_def)

lemma set_threshold_wf: "board_wf m \<Longrightarrow> board_wf (on_device slot i (set_threshold c) m)"
  by (rule on_device_wf) (auto dest: find_device_Some)

lemma setDeviceThreshold_wf:
  "board_wf m \<Longrightarrow> board_wf (snd (setDeviceThreshold E now slot slave_id config m))"
  by (simp add: setDeviceThreshold_def Let_def split_def set_threshold_wf split: option.split)

lemma devices_ok_filter: "devices_ok ds \<Longrightarrow> devices_ok (filter P ds)"
  by (auto simp: devices_ok_def distinct_map inj_on_def)

definition remove_accepted :: "int \<Rightarrow> int \<Rightarrow> 'v PortManager \<Rightarrow> bool" where
  "remove_accepted slot slave_id m \<longleftrightarrow> validSlot slot \<and> slave_id > 0 \<and> ch_connected (pmg_channels m slot)
     \<and> find_device slave_id (ch_devices (pmg_channels m slot)) \<noteq> None"

lemma removeDevice_result:
  assumes "board_wf m" "removeDevice E now slot slave_id m = ((ret, reason), m')"
  shows "pmg_terminated m' = pmg_terminated m"
    and "ret = 0 \<Longrightarrow> remove_accepted slot slave_id m \<and>
      pmg_channels m' = (pmg_channels m)(slot := (pmg_channels m slot)
        \<lparr>ch_devices := filter (\<lambda>d. md_id d \<noteq> slave_id) (ch_devices (pmg_channels m slot))\<rparr>)"
    and "ret \<noteq> 0 \<Longrightarrow> ret = -1 \<and> (pmg_channels m' = pmg_channels m \<or>
      remove_accepted slot slave_id m \<and> (\<exists>d. find_device slave_id (ch_devices (pmg_channels m slot)) = Some d
        \<and> pmg_channels m' = (pmg_channels m)(slot := (pmg_channels m slot)
          \<lparr>ch_devices := filter (\<lambda>d. md_id d \<noteq> slave_id) (ch_devices (pmg_channels m slot)) @ [d]\<rparr>)))"
proof -
  have r: "remove_first slave_id (ch_devices (pmg_channels m slot))
      = filter (\<lambda>d. md_id d \<noteq> slave_id) (ch_devices (pmg_channels m slot))"
    using remove_first_filter board_wf_channel(2) [OF assms(1)] by blast
  show "pmg_terminated m' = pmg_terminated m"
    using assms(2) by (auto simp: removeDevice_def Let_def split_def split: option.splits if_splits)
  show "ret = 0 \<Longrightarrow> remove_accepted slot slave_id m \<and>
      pmg_channels m' = (pmg_channels m)(slot := (pmg_channels m slot)
        \<lparr>ch_devices := filter (\<lambda>d. md_id d \<noteq> slave_id) (ch_devices (pmg_channels m slot))\<rparr>)"
    using assms(2) r
    by (auto simp: removeDevice_def remove_accepted_def Let_def split_def split: option.splits if_splits)
  show "ret \<noteq> 0 \<Longrightarrow> ret = -1 \<and> (pmg_channels m' = pmg_channels m \<or>
      remove_accepted slot slave_id m \<and> (\<exists>d. find_device slave_id (ch_devices (pmg_channels m slot)) = Some d
        \<and> pmg_channels m' = (pmg_channels m)(slot := (pmg_channels m slot)
          \<lparr>ch_devices := filter (\<lambda>d. md_id d \<noteq> slave_id) (ch_devices (pmg_channels m slot)) @ [d]\<rparr>)))"
    using assms(2) r
    by (auto simp: removeDevice_def remove_accepted_def Let_def split_def split: option.splits if_splits)
qed

lemma removeDevice_wf:
  assumes "board_wf m"
  shows "board_wf (snd (removeDevice E now slot slave_id m))"
proof -
  obtain ret reason m' where r: "removeDevice E now slot slave_id m = ((ret, reason), m')"
    by (metis prod.exhaust)
  note res = removeDevice_result [OF assms r]
  let ?ds = "filter (\<lambda>d. md_id d \<noteq> slave_id) (ch_devices (pmg_channels m slot))"
  have ds: "devices_ok ?ds" using devices_ok_filter board_devices_ok [OF assms] by blast
  have "devices_ok (?ds @ [d])" if "find_device slave_id (ch_devices (pmg_channels m slot)) = Some d" for d
  proof -
    have d: "managed_ok d" "md_id d = slave_id" using find_devices_connected [OF assms that] by auto
    then have "find_device (md_id d) ?ds = None" by (auto simp: find_device_None)
    then show ?thesis using devices_ok_snoc [OF ds d(1)] by blast
  qed
  then have "board_wf m'"
    using res ds devices_changed_wf [OF assms res(1)] assms board_wf_cong [of m' m]
    unfolding remove_accepted_def by metis
  then show ?thesis by (simp add: r)
qed

lemma handleRelay_wf: "board_wf m \<Longrightarrow> board_wf (snd (handleRelay E slot slave_id dev m))"
  by (simp add: handleRelay_def Let_def split_def split: option.split)

lemma saveOfflineCacheConfig_wf: "board_wf m \<Longrightarrow> board_wf (snd (saveOfflineCacheConfig E now a b m))"
  by (rule board_wf_cong [THEN iffD2]) (simp_all add: saveOfflineCacheConfig_def Let_def)

lemma board_exec_wf: "board_wf m \<Longrightarrow> board_wf (board_exec E now steady e m)"
  by (cases e) (simp_all add: connectPort_wf disconnectPort_wf addDevice_wf setDeviceThreshold_wf removeDevice_wf
      handleRelay_wf pollThreadMain_wf pollSlot_wf publishLatestStatus_def saveOfflineCacheConfig_wf)

lemma board_reachable_wf: "board_reachable E file m \<Longrightarrow> board_wf m"
proof (induction rule: board_reachable.induct)
  case start
  then show ?case by (simp add: board_wf_def PortManager_new_def ports_exclusive_def)
qed (rule board_exec_wf)

end
