(* ===== verification/PortTrace.thy ===== *)
theory PortTrace
  imports PortLemmas
begin

text \<open>
  The port manager over time: what one poll of a device does and sends, when a device is
  reported offline, and what becomes of the alarms in the offline queue.
\<close>

subsection \<open>One poll\<close>

definition poll_success :: "device_data \<Rightarrow> SensorDevice \<Rightarrow> ManagedDevice \<Rightarrow> ManagedDevice" where
  "poll_success dev sensor d = d\<lparr>md_sensor := sensor, md_last_data := dev, md_has_last_data := True,
     md_consecutive_failures := 0, md_offline_reported := False\<rparr>"

definition alarm_outputs :: "'v json_c \<Rightarrow> int \<Rightarrow> int \<Rightarrow> SensorDevice \<Rightarrow> device_data \<Rightarrow> ThresholdAlarmEvent option
    \<Rightarrow> board_output list" where
  "alarm_outputs C now slot sensor dev event =
     (case event of None \<Rightarrow> []
      | Some e \<Rightarrow> if ta_active e
          then IpcSend (alarm_payload C sensor dev e)
            # publish_up slot (alarm_payload C sensor dev e) (alarm_meta now slot (slaveId sensor) e)
          else [])"

lemma emit_Nil [simp]: "emit [] m = m"
  by (simp add: emit_def)

lemma emit_emit [simp]: "emit ys (emit xs m) = emit (xs @ ys) m"
  by (simp add: emit_def)

lemma on_device_emit: "on_device slot i f (emit os m) = emit os (on_device slot i f m)"
  by (simp add: on_device_def emit_def)

lemma on_device_fields [simp]:
  "pmg_out (on_device slot i f m) = pmg_out m" "pmg_io (on_device slot i f m) = pmg_io m"
  "pmg_file (on_device slot i f m) = pmg_file m"
  "ch_connected (pmg_channels (on_device slot i f m) s) = ch_connected (pmg_channels m s)"
  "ch_bus (pmg_channels (on_device slot i f m) s) = ch_bus (pmg_channels m s)"
  by (simp_all add: on_device_def)

lemma find_on_device:
  "(\<And>d. find_device i (ch_devices (pmg_channels m slot)) = Some d \<Longrightarrow> md_id (f d) = i) \<Longrightarrow>
   find_device j (ch_devices (pmg_channels (on_device slot i f m) slot)) =
     (if i = j then map_option f (find_device i (ch_devices (pmg_channels m slot)))
      else find_device j (ch_devices (pmg_channels m slot)))"
  by (simp add: on_device_def find_update_first)

lemma publishThresholdAlarm_emit:
  "publishThresholdAlarm C now slot sensor dev e m = emit (alarm_outputs C now slot sensor dev (Some e)) m"
  by (simp add: publishThresholdAlarm_def alarm_outputs_def Let_def)

lemma pollDevice_success:
  assumes "validSlot slot" "ch_connected (pmg_channels m slot)" "ch_bus (pmg_channels m slot) = Some bus"
    "find_device (slaveId s) (ch_devices (pmg_channels m slot)) \<noteq> None"
    "sensor_read (be_modbus E) (pmg_io m) bus s = (0, dev, n)" "dv_valid dev"
    "checkThreshold dev s = (event, s')"
  shows "pollDevice E now slot s m =
    emit (DeviceStatus slot dev # alarm_outputs (be_json E) now slot s' dev event)
      (on_device slot (slaveId s) (poll_success dev s') (m\<lparr>pmg_io := n\<rparr>))"
proof -
  have s': "slaveId s' = slaveId s" using sensor_identity(4) [of dev s] assms(7) by simp
  let ?m = "m\<lparr>pmg_io := n\<rparr>"
  have "on_device slot (slaveId s) (\<lambda>d. d\<lparr>md_sensor := s'\<rparr>)
      (on_device slot (slaveId s) (\<lambda>d. d\<lparr>md_last_data := dev, md_has_last_data := True\<rparr>)
        (on_device slot (slaveId s) (\<lambda>d. d\<lparr>md_consecutive_failures := 0, md_offline_reported := False\<rparr>) ?m))
      = on_device slot (slaveId s) (poll_success dev s') ?m"
    by (simp add: on_device_compose) (rule on_device_cong, simp add: poll_success_def)
  then show ?thesis
    using assms s'
    by (auto simp: pollDevice_def Let_def recordPollSuccess_def updateLastData_def on_device_emit
        publishThresholdAlarm_emit alarm_outputs_def split: option.split)
qed

lemma pollDevice_failure:
  assumes "validSlot slot" "ch_connected (pmg_channels m slot)" "ch_bus (pmg_channels m slot) = Some bus"
    "find_device (slaveId s) (ch_devices (pmg_channels m slot)) = Some d"
    "sensor_read (be_modbus E) (pmg_io m) bus s = (ret, dev, n)" "\<not> (ret = 0 \<and> dv_valid dev)"
  shows "pollDevice E now slot s m =
    (if md_consecutive_failures d + 1 \<ge> 3 \<and> \<not> md_offline_reported d
     then emit [DeviceStatus slot (offline_data s)]
       (on_device slot (slaveId s)
          (\<lambda>d. (fail_step d)\<lparr>md_last_data := offline_data s, md_has_last_data := True\<rparr>) (m\<lparr>pmg_io := n\<rparr>))
     else on_device slot (slaveId s) fail_step (m\<lparr>pmg_io := n\<rparr>))"
proof -
  have "md_id (fail_step d) = md_id d" for d by (simp add: fail_step_def)
  then show ?thesis
    using assms
    by (auto simp: pollDevice_def Let_def recordPollFailure_eq updateLastData_def on_device_emit on_device_compose)
qed

lemma th_read_valid:
  "th_read L n bus s = (ret, dev, n') \<Longrightarrow> ret = 0 \<Longrightarrow> dv_valid dev \<and> dv_type dev = DEV_SENSOR_TH"
  by (auto simp: th_read_def Let_def device_data_zero_def split: prod.splits if_splits)

subsection \<open>When a device is reported offline\<close>

text \<open>One poll of the device with slave id \<open>i\<close>, and whether it answers.\<close>

definition poll_id :: "'v board_env \<Rightarrow> int \<Rightarrow> int \<Rightarrow> int \<Rightarrow> 'v PortManager \<Rightarrow> 'v PortManager" where
  "poll_id E now slot i m =
     (case find_device i (ch_devices (pmg_channels m slot)) of None \<Rightarrow> m
      | Some d \<Rightarrow> pollDevice E now slot (md_sensor d) m)"

definition answers :: "'v board_env \<Rightarrow> int \<Rightarrow> int \<Rightarrow> 'v PortManager \<Rightarrow> bool" where
  "answers E slot i m =
     (case (find_device i (ch_devices (pmg_channels m slot)), ch_bus (pmg_channels m slot)) of
        (Some d, Some bus) \<Rightarrow>
          (let (ret, dev, n) = sensor_read (be_modbus E) (pmg_io m) bus (md_sensor d) in ret = 0 \<and> dv_valid dev)
      | _ \<Rightarrow> False)"

definition new_outputs :: "'v PortManager \<Rightarrow> 'v PortManager \<Rightarrow> board_output list" where
  "new_outputs m m' = drop (length (pmg_out m)) (pmg_out m')"

fun is_offline_report :: "int \<Rightarrow> int \<Rightarrow> board_output \<Rightarrow> bool" where
  "is_offline_report slot i (DeviceStatus s dev) =
     (s = slot \<and> \<not> dv_valid dev \<and> dv_device_id dev = i \<and> dv_error_message dev = ''device_offline'')"
| "is_offline_report slot i _ = False"

text \<open>For a sequence of polls: whether each answered, and whether it reported the device offline.\<close>

fun poll_trace :: "'v board_env \<Rightarrow> int \<Rightarrow> int \<Rightarrow> int list \<Rightarrow> 'v PortManager \<Rightarrow> (bool \<times> bool) list" where
  "poll_trace E slot i [] m = []"
| "poll_trace E slot i (now # nows) m =
     (let m' = poll_id E now slot i m
      in (answers E slot i m, list_ex (is_offline_report slot i) (new_outputs m m')) # poll_trace E slot i nows m')"

text \<open>The number of failures in a row after each poll.\<close>

fun fail_runs :: "int \<Rightarrow> bool list \<Rightarrow> int list" where
  "fail_runs c [] = []"
| "fail_runs c (ok # oks) = (let c' = if ok then 0 else c + 1 in c' # fail_runs c' oks)"

lemma no_offline_in_alarm: "\<not> list_ex (is_offline_report slot i) (alarm_outputs C now sl s dev e)"
  by (auto simp: alarm_outputs_def publish_up_def list_ex_iff split: option.splits if_splits)

lemma offline_data_report: "is_offline_report slot (slaveId s) (DeviceStatus slot (offline_data s))"
  by (simp add: offline_data_def)

lemma poll_step:
  assumes wf: "board_wf m" and d: "find_device i (ch_devices (pmg_channels m slot)) = Some d"
  shows "\<exists>d'. find_device i (ch_devices (pmg_channels (poll_id E now slot i m) slot)) = Some d'
      \<and> md_consecutive_failures d' = (if answers E slot i m then 0 else md_consecutive_failures d + 1)"
    and "list_ex (is_offline_report slot i) (new_outputs m (poll_id E now slot i m))
      = (\<not> answers E slot i m \<and> md_consecutive_failures d + 1 = 3)"
    and "board_wf (poll_id E now slot i m)"
proof -
  let ?s = "md_sensor d"
  have c: "validSlot slot" "ch_connected (pmg_channels m slot)" "managed_ok d" "slaveId ?s = i"
    using find_devices_connected [OF wf d] by auto
  obtain bus where bus: "ch_bus (pmg_channels m slot) = Some bus"
    using c(2) board_wf_channel(1) [OF wf, of slot] by (auto simp: channel_wf_def)
  obtain ret dev n where r: "sensor_read (be_modbus E) (pmg_io m) bus ?s = (ret, dev, n)"
    by (metis prod.exhaust)
  obtain event s' where e: "checkThreshold dev ?s = (event, s')" by fastforce
  have s': "slaveId s' = i" using sensor_identity(4) [of dev ?s] e c(4) by simp
  have f: "find_device (slaveId ?s) (ch_devices (pmg_channels m slot)) = Some d" using d c(4) by simp
  have p: "poll_id E now slot i m = pollDevice E now slot ?s m" using d by (simp add: poll_id_def)
  show "board_wf (poll_id E now slot i m)"
    using pollDevice_wf [OF wf, of ?s] c(3) by (simp add: p sensor_ok_def managed_ok_def)
  have ans: "answers E slot i m = (ret = 0 \<and> dv_valid dev)" using d bus r by (simp add: answers_def)
  have rep: "md_offline_reported d = (md_consecutive_failures d \<ge> 3)" using c(3) by (simp add: managed_ok_def)
  have "(\<exists>d'. find_device i (ch_devices (pmg_channels (poll_id E now slot i m) slot)) = Some d'
      \<and> md_consecutive_failures d' = (if answers E slot i m then 0 else md_consecutive_failures d + 1))
      \<and> list_ex (is_offline_report slot i) (new_outputs m (poll_id E now slot i m))
        = (\<not> answers E slot i m \<and> md_consecutive_failures d + 1 = 3)"
  proof (cases "ret = 0 \<and> dv_valid dev")
    case True
    then have r0: "sensor_read (be_modbus E) (pmg_io m) bus ?s = (0, dev, n)" using r by simp
    have "poll_id E now slot i m = emit (DeviceStatus slot dev # alarm_outputs (be_json E) now slot s' dev event)
        (on_device slot i (poll_success dev s') (m\<lparr>pmg_io := n\<rparr>))"
      using pollDevice_success [OF c(1,2) bus _ r0 _ e, of now] True f p c(4) by simp
    then show ?thesis
      using True ans d s' no_offline_in_alarm by (simp add: new_outputs_def find_on_device poll_success_def)
  next
    case False
    let ?g = "\<lambda>d. (fail_step d)\<lparr>md_last_data := offline_data ?s, md_has_last_data := True\<rparr>"
    have found: "find_device i (ch_devices (pmg_channels (on_device slot i g (m\<lparr>pmg_io := n\<rparr>)) slot)) = Some (g d)"
      if "\<And>x. md_id (g x) = md_id x" for g
      using find_on_device [of i "m\<lparr>pmg_io := n\<rparr>" slot g i] that d c(4) find_device_Some [OF d] by fastforce
    have na: "\<not> answers E slot i m" using False ans by simp
    have report: "is_offline_report slot i (DeviceStatus slot (offline_data ?s))"
      using offline_data_report [of slot ?s] c(4) by simp
    note fl = pollDevice_failure [OF c(1,2) bus f r False, of now, unfolded c(4), folded p]
    show ?thesis
    proof (cases "md_consecutive_failures d + 1 \<ge> 3 \<and> \<not> md_offline_reported d")
      case True
      then have "poll_id E now slot i m = emit [DeviceStatus slot (offline_data ?s)]
          (on_device slot i ?g (m\<lparr>pmg_io := n\<rparr>))" using fl by simp
      then show ?thesis
        using found [of ?g] na report True rep
        by (simp add: new_outputs_def fail_step_def del: is_offline_report.simps)
    next
      case no: False
      then have "poll_id E now slot i m = on_device slot i fail_step (m\<lparr>pmg_io := n\<rparr>)" using fl if_not_P [OF no] by metis
      then show ?thesis
        using found [of fail_step] na no rep by (auto simp: new_outputs_def fail_step_def)
    qed
  qed
  then show "\<exists>d'. find_device i (ch_devices (pmg_channels (poll_id E now slot i m) slot)) = Some d'
      \<and> md_consecutive_failures d' = (if answers E slot i m then 0 else md_consecutive_failures d + 1)"
    "list_ex (is_offline_report slot i) (new_outputs m (poll_id E now slot i m))
        = (\<not> answers E slot i m \<and> md_consecutive_failures d + 1 = 3)" by blast+
qed

lemma poll_trace_reports:
  "board_wf m \<Longrightarrow> find_device i (ch_devices (pmg_channels m slot)) = Some d \<Longrightarrow>
   map snd (poll_trace E slot i nows m)
     = map (\<lambda>c. c = 3) (fail_runs (md_consecutive_failures d) (map fst (poll_trace E slot i nows m)))"
proof (induction nows arbitrary: m d)
  case (Cons now nows)
  note s = poll_step [OF Cons.prems, of E now]
  obtain d' where d': "find_device i (ch_devices (pmg_channels (poll_id E now slot i m) slot)) = Some d'"
      "md_consecutive_failures d' = (if answers E slot i m then 0 else md_consecutive_failures d + 1)"
    using s(1) by blast
  show ?case using Cons.IH [OF s(3) d'(1)] s(2) d'(2) by (simp add: Let_def)
qed simp

subsection \<open>Alarms and the offline queue\<close>

text \<open>
  Handing the outputs of the manager to the offline queue, in order.  \<open>st slot dev\<close> are the
  publish calls that \<open>data_publish_device_status_for_slot\<close> makes, which is not modelled.
\<close>

fun publish_calls :: "(int \<Rightarrow> device_data \<Rightarrow> (string \<times> string \<times> offline_publish_meta) list) \<Rightarrow> board_output
    \<Rightarrow> (string \<times> string \<times> offline_publish_meta) list" where
  "publish_calls st (IpcSend p) = []"
| "publish_calls st (Publish t p meta) = [(t, p, meta)]"
| "publish_calls st (DeviceStatus slot dev) = st slot dev"

fun deliver_calls :: "sqlite \<Rightarrow> (nat \<Rightarrow> int) \<Rightarrow> int \<Rightarrow> (string \<times> string \<times> offline_publish_meta) list
    \<Rightarrow> OfflinePublishQueue \<Rightarrow> OfflinePublishQueue" where
  "deliver_calls E link now [] q = q"
| "deliver_calls E link now ((t, p, meta) # cs) q =
     deliver_calls E link now cs (snd (offline_publish_or_cache E link now (Some t) (Some p) (Some meta) q))"

definition deliver :: "sqlite \<Rightarrow> (nat \<Rightarrow> int) \<Rightarrow> int \<Rightarrow> (int \<Rightarrow> device_data \<Rightarrow> (string \<times> string \<times> offline_publish_meta) list)
    \<Rightarrow> board_output list \<Rightarrow> OfflinePublishQueue \<Rightarrow> OfflinePublishQueue" where
  "deliver E link now st os q = deliver_calls E link now (concat (map (publish_calls st) os)) q"

lemma deliver_calls_sends:
  "deliver_calls E link now cs q = foldl (\<lambda>q (now, t, p, m). oq_send E link now t p m q) q
     (map (\<lambda>(t, p, meta). (now, t, p, toPublishMeta (Some meta))) cs)"
  by (induction cs arbitrary: q) (auto simp: oq_send_def offline_publish_or_cache_def)

lemma deliver_good_kept:
  assumes "sql_engine E" "\<forall>i. sq_ok E i" "oq_good q"
  shows "oq_good (deliver E link now st os q)"
    and "Publish t p meta \<in> set os \<Longrightarrow> oq_important (toPublishMeta (Some meta)) \<Longrightarrow>
      oq_kept t p (deliver E link now st os q)"
proof -
  have P: "publisher (oq_send E link) oq_good oq_important oq_kept"
    using sql_engine.offline_publisher [OF assms(1,2)] .
  let ?ms = "map (\<lambda>(t, p, meta). (now, t, p, toPublishMeta (Some meta))) (concat (map (publish_calls st) os))"
  show "oq_good (deliver E link now st os q)"
    using publisher.sends_good [OF P assms(3)] by (simp add: deliver_def deliver_calls_sends)
  assume o: "Publish t p meta \<in> set os" "oq_important (toPublishMeta (Some meta))"
  then have "(t, p, meta) \<in> set (concat (map (publish_calls st) os))" by force
  then have "(now, t, p, toPublishMeta (Some meta)) \<in> set ?ms" by force
  then show "oq_kept t p (deliver E link now st os q)"
    using publisher.important_kept [OF P assms(3) _ o(2)] by (simp add: deliver_def deliver_calls_sends)
qed

lemma kept_run:
  assumes "sql_engine E" "store_wf (oq_db q)" "oq_kept t p q" "OqClear \<notin> snd ` set es"
  shows "oq_kept t p (oq_run E link es q)"
  using sql_engine.accounted_run [OF assms(1,2)] assms(3,4) unfolding oq_kept_def by meson

lemma alarm_important: "oq_important (toPublishMeta (Some (alarm_meta now slot i e)))"
  by (simp add: oq_important_def toPublishMeta_def alarm_meta_def meta_zero_def safeString_def)

lemma checkThreshold_active:
  "fst (checkThreshold dev s) = Some e \<Longrightarrow> ta_active e"
  by (cases s) (auto simp: th_checkThreshold_def Let_def split_def dest: checkPoint_key
      split: if_splits option.splits)

lemma up_topic:
  "mqtt_make_port_up_topic_for_slot slot 128 = Some (''gateway/gateway_001/'' @ portIdForSlot slot @ ''/up'')"
  by (simp add: mqtt_make_port_up_topic_for_slot_def mqtt_make_port_up_topic_def portIdForSlot_def
      DEFAULT_GATEWAY_ID_def Let_def)

lemma poll_alarm_published:
  assumes wf: "board_wf m" and d: "find_device i (ch_devices (pmg_channels m slot)) = Some d"
    and bus: "ch_bus (pmg_channels m slot) = Some bus"
    and r: "sensor_read (be_modbus E) (pmg_io m) bus (md_sensor d) = (0, dev, n)" "dv_valid dev"
    and e: "fst (checkThreshold dev (md_sensor d)) = Some e"
  shows "Publish (''gateway/gateway_001/'' @ portIdForSlot slot @ ''/up'')
      (alarm_payload (be_json E) (snd (checkThreshold dev (md_sensor d))) dev e) (alarm_meta now slot i e)
    \<in> set (new_outputs m (poll_id E now slot i m))"
proof -
  let ?s = "md_sensor d"
  have c: "validSlot slot" "ch_connected (pmg_channels m slot)" "slaveId ?s = i"
    using find_devices_connected [OF wf d] by auto
  have "find_device (slaveId ?s) (ch_devices (pmg_channels m slot)) \<noteq> None" using d c(3) by simp
  moreover obtain s' where ch: "checkThreshold dev ?s = (Some e, s')" using e by (metis prod.collapse)
  ultimately have "pollDevice E now slot ?s m =
    emit (DeviceStatus slot dev # alarm_outputs (be_json E) now slot s' dev (Some e))
      (on_device slot (slaveId ?s) (poll_success dev s') (m\<lparr>pmg_io := n\<rparr>))"
    using pollDevice_success [OF c(1,2) bus _ r] by blast
  moreover have "slaveId s' = i" using sensor_identity(4) [of dev ?s] ch c(3) by simp
  ultimately show ?thesis
    using d checkThreshold_active [OF e]
    by (simp add: poll_id_def new_outputs_def alarm_outputs_def publish_up_def up_topic ch)
qed

end
