(* ===== verification/PortStore.thy ===== *)
theory PortStore
  imports PortLemmas
begin

text \<open>
  The configuration file of the port manager: what is written is read back, by the next start
  of the program included, and the switches of the offline cache survive every write.
\<close>

locale board_laws = json_c_laws "be_json E" for E :: "'v board_env" +
  assumes write_reads: "fst (be_write E n doc) \<Longrightarrow> snd (be_write E n doc) = Some doc"

text \<open>A board whose file keeps what was written, and which is left unreadable by a failed write.\<close>

definition board_model :: "(jcv \<Rightarrow> string) \<Rightarrow> modbus_lib \<Rightarrow> (nat \<Rightarrow> bool) \<Rightarrow> (nat \<Rightarrow> bool) \<Rightarrow> jcv board_env" where
  "board_model print L dir ok = \<lparr>be_json = jcv_model print, be_modbus = L, be_dir = dir,
     be_write = (\<lambda>n doc. if ok n then (True, Some doc) else (False, None))\<rparr>"

lemma board_model_laws: "board_laws (board_model print L dir ok)"
proof (intro board_laws.intro board_laws_axioms.intro)
  show "json_c_laws (be_json (board_model print L dir ok))"
    using jcv_model_laws by (simp add: board_model_def)
qed (simp add: board_model_def split: if_splits)

interpretation board: board_laws "board_model print L dir ok" for print L dir ok
  by (rule board_model_laws)

text \<open>A device as the next start finds it, and the devices whose settings the file can hold.\<close>

fun reloaded_sensor :: "SensorDevice \<Rightarrow> SensorDevice" where
  "reloaded_sensor (SensorTH s) = SensorTH (TemperatureHumiditySensor_new (ts_slave_id s) (ts_poll_interval_ms s)
     (if ts_has_config s then Some (canon_config (ts_config s)) else None))"
| "reloaded_sensor (SensorRelay r) = SensorRelay r"

definition reloaded :: "int \<Rightarrow> ManagedDevice \<Rightarrow> ManagedDevice" where
  "reloaded steady d = new_device steady (reloaded_sensor (md_sensor d))"

definition storable :: "ManagedDevice \<Rightarrow> bool" where
  "storable d \<longleftrightarrow> in_int (md_id d) \<and> in_int (pollIntervalMs (md_sensor d))
     \<and> (case thresholdConfig (md_sensor d) of None \<Rightarrow> True | Some c \<Rightarrow> float_config c)"

lemma reloaded_sensor_simps [simp]:
  "slaveId (reloaded_sensor s) = slaveId s" "pollIntervalMs (reloaded_sensor s) = pollIntervalMs s"
  "deviceType (reloaded_sensor s) = deviceType s"
  by (cases s; simp add: TemperatureHumiditySensor_new_def)+

lemma reloaded_id [simp]: "md_id (reloaded steady d) = md_id d"
  by (simp add: reloaded_def new_device_def)

lemma parse_type_name:
  "parseType (Some (c_str (deviceTypeName s))) = (case s of SensorTH _ \<Rightarrow> MT_SensorTh | SensorRelay _ \<Rightarrow> MT_Relay)"
  by (cases s) (simp_all add: parseType_def c_str_def)

definition saved_items :: "'v json_c \<Rightarrow> (int \<Rightarrow> PortChannel) \<Rightarrow> 'v list" where
  "saved_items C chans = map (device_item C 0) (ch_devices (chans 0)) @ map (device_item C 1) (ch_devices (chans 1))"

context json_c_laws
begin

lemma device_item_not_null: "\<not> jc_is_null C (device_item C slot d)"
  by (simp add: device_item_def object_not_null)

lemma devices_of_doc: "jc_array_member C (config_doc C now oc chans) ''devices'' = Some (saved_items C chans)"
proof -
  have "[0..kSlotCount - 1] = [0, 1]" by (simp add: kSlotCount_def upto.simps)
  moreover have "filter (\<lambda>x. \<not> jc_is_null C x) (saved_items C chans) = saved_items C chans"
    by (auto simp: saved_items_def filter_id_conv device_item_not_null)
  ultimately show ?thesis
    by (simp add: jc_array_member_def config_doc_def get_object array_is array_elements saved_items_def)
qed

lemma switches_of_doc: "loadOfflineCacheConfigFromRoot C (Some (config_doc C now oc chans)) = oc"
  by (simp add: loadOfflineCacheConfigFromRoot_def jc_get2_def config_doc_def get_object bool_value)

lemma load_item_other:
  "in_int slot' \<Longrightarrow> slot' \<noteq> slot \<Longrightarrow> load_device C steady slot port ds (device_item C slot' d) = ds"
  by (simp add: load_device_def jc_int_member_def device_item_def get_object int_value split: option.split)

lemma load_item_same:
  assumes "in_int slot" "managed_ok d" "storable d" "find_device (md_id d) ds = None"
  shows "load_device C steady slot port ds (device_item C slot d) = ds @ [reloaded steady d]"
proof (cases "md_sensor d")
  case (SensorTH s)
  then show ?thesis
    using assms
    by (cases "ts_has_config s")
      (simp_all add: load_device_def jc_int_member_def jc_string_member_def device_item_def get_object int_value
        string_value parse_type_name parse_type_name [of "SensorTH s", simplified] managed_ok_def storable_def
        kMinPollIntervalMs_def reloaded_def config_roundtrip Let_def)
next
  case (SensorRelay r)
  then show ?thesis
    using assms
    by (cases r) (simp add: load_device_def jc_int_member_def jc_string_member_def device_item_def get_object int_value
        string_value parse_type_name [of "SensorRelay r", simplified] managed_ok_def storable_def
        kMinPollIntervalMs_def reloaded_def Let_def)
qed

lemma load_others:
  "in_int slot' \<Longrightarrow> slot' \<noteq> slot \<Longrightarrow>
   foldl (load_device C steady slot port) acc (map (device_item C slot') ds) = acc"
  by (induction ds) (simp_all add: load_item_other)

lemma load_all:
  "in_int slot \<Longrightarrow> \<forall>d \<in> set ds. managed_ok d \<and> storable d \<Longrightarrow> distinct (map md_id (acc @ ds)) \<Longrightarrow>
   foldl (load_device C steady slot port) acc (map (device_item C slot) ds) = acc @ map (reloaded steady) ds"
proof (induction ds arbitrary: acc)
  case (Cons d ds)
  have "load_device C steady slot port acc (device_item C slot d) = acc @ [reloaded steady d]"
    using Cons.prems by (intro load_item_same) (auto simp: find_device_None)
  then show ?case using Cons.IH [of "acc @ [reloaded steady d]"] Cons.prems by simp
qed simp

end

lemma write_file_fst: "fst (write_file E doc m) = 0 \<Longrightarrow> be_dir E (pmg_writes m) \<and> fst (be_write E (pmg_writes m) doc)"
  by (auto simp: write_file_def Let_def split_def split: if_splits)

text \<open>Whether the file holds an object, or nothing that can be read.\<close>

definition file_object :: "'v json_c \<Rightarrow> 'v option \<Rightarrow> bool" where
  "file_object C file \<longleftrightarrow> (case file of None \<Rightarrow> True | Some doc \<Rightarrow> \<exists>ms. doc = jc_object C ms)"

definition all_storable :: "(int \<Rightarrow> PortChannel) \<Rightarrow> bool" where
  "all_storable chans \<longleftrightarrow> (\<forall>slot. \<forall>d \<in> set (ch_devices (chans slot)). storable d)"

context board_laws
begin

lemma write_file_reads:
  assumes "fst (write_file E doc m) = 0"
  shows "pmg_file (snd (write_file E doc m)) = Some doc"
proof -
  have w: "be_dir E (pmg_writes m)" "fst (be_write E (pmg_writes m) doc)" using write_file_fst [OF assms] by auto
  then show ?thesis using write_reads [OF w(2)] by (simp add: write_file_def Let_def split_def)
qed

lemma writeConfig_reads:
  "fst (writeConfigLocked E now m) = 0 \<Longrightarrow> pmg_file (snd (writeConfigLocked E now m)) =
     Some (config_doc (be_json E) now (loadSavedOfflineCacheConfig (be_json E) m) (pmg_channels m))"
  by (simp add: writeConfigLocked_def write_file_reads)

lemma written_devices:
  assumes wf: "board_wf m" and st: "all_storable (pmg_channels m)"
    and ok: "fst (writeConfigLocked E now m) = 0" and slot: "validSlot slot"
  shows "saved_devices (be_json E) steady slot port (pmg_file (snd (writeConfigLocked E now m)))
     = map (reloaded steady) (ch_devices (pmg_channels m slot))"
proof -
  have s: "slot = 0 \<or> slot = 1" using slot by (auto simp: validSlot_def kSlotCount_def)
  have d: "\<forall>d \<in> set (ch_devices (pmg_channels m slot)). managed_ok d \<and> storable d"
    "distinct (map md_id ([] @ ch_devices (pmg_channels m slot)))"
    using board_wf_channel(2,3) [OF wf] st by (auto simp: all_storable_def)
  have i: "in_int slot" "in_int 0" "in_int 1" using s by (auto simp: in_int_def int_min_def int_max_def)
  show ?thesis
    using s load_all [OF i(1) d] load_others i
    by (auto simp: saved_devices_def writeConfig_reads [OF ok] devices_of_doc saved_items_def)
qed

lemma written_switches:
  "fst (writeConfigLocked E now m) = 0 \<Longrightarrow>
   loadSavedOfflineCacheConfig (be_json E) (snd (writeConfigLocked E now m)) = loadSavedOfflineCacheConfig (be_json E) m"
  using writeConfig_reads [of now m] switches_of_doc unfolding loadSavedOfflineCacheConfig_def by metis

lemma save_switches:
  assumes "file_object (be_json E) (pmg_file m)" "fst (saveOfflineCacheConfig E now a b m) = 0"
  shows "loadSavedOfflineCacheConfig (be_json E) (snd (saveOfflineCacheConfig E now a b m))
      = \<lparr>oc_cache_enabled = a, oc_flush_enabled = b\<rparr>"
    and "saved_devices (be_json E) steady slot port (pmg_file (snd (saveOfflineCacheConfig E now a b m)))
      = saved_devices (be_json E) steady slot port (pmg_file m)"
proof -
  let ?C = "be_json E"
  obtain ms where ms: "(case pmg_file m of None \<Rightarrow> jc_object ?C [] | Some r \<Rightarrow> r) = jc_object ?C ms"
      "pmg_file m = None \<Longrightarrow> ms = []"
    using assms(1) by (cases "pmg_file m") (auto simp: file_object_def)
  let ?ms = "ms @ [(''version'', jc_int ?C 1), (''updated_ms'', jc_int64 ?C now),
      (''offline_cache_enabled'', jc_bool ?C a), (''offline_cache_flush_enabled'', jc_bool ?C b)]"
  let ?doc = "if jc_is_array_member ?C (jc_object ?C ?ms) ''devices'' then jc_object ?C ?ms
      else jc_object ?C (?ms @ [(''devices'', jc_array ?C [])])"
  have w: "saveOfflineCacheConfig E now a b m = write_file E ?doc m"
    by (simp add: saveOfflineCacheConfig_def ms(1) add_object Let_def)
  have f: "pmg_file (snd (saveOfflineCacheConfig E now a b m)) = Some ?doc"
    using write_file_reads [of ?doc m] assms(2) unfolding w by blast
  have get: "jc_get ?C (jc_object ?C ?ms) ''devices'' = jc_get ?C (jc_object ?C ms) ''devices''"
    by (simp add: get_object)
  show "loadSavedOfflineCacheConfig ?C (snd (saveOfflineCacheConfig E now a b m))
      = \<lparr>oc_cache_enabled = a, oc_flush_enabled = b\<rparr>"
    unfolding loadSavedOfflineCacheConfig_def f
    by (simp add: loadOfflineCacheConfigFromRoot_def jc_get2_def get_object bool_value)
  show "saved_devices ?C steady slot port (pmg_file (snd (saveOfflineCacheConfig E now a b m)))
      = saved_devices ?C steady slot port (pmg_file m)"
  proof (cases "jc_is_array_member ?C (jc_object ?C ?ms) ''devices''")
    case True
    then have "pmg_file m = Some (jc_object ?C ms)"
      using ms get by (cases "pmg_file m") (auto simp: jc_is_array_member_def get_object)
    then show ?thesis unfolding f using True get by (simp add: saved_devices_def jc_array_member_def)
  next
    case False
    then have "jc_array_member ?C (jc_object ?C ms) ''devices'' = None"
      using get by (auto simp: jc_is_array_member_def jc_array_member_def split: option.split)
    then have "saved_devices ?C steady slot port (pmg_file m) = []"
      using ms by (cases "pmg_file m") (auto simp: saved_devices_def)
    then show ?thesis unfolding f using False
      by (simp add: saved_devices_def jc_array_member_def get_object array_is array_elements)
  qed
qed

end

text \<open>The configuration that lists exactly the devices of every slot.\<close>

definition file_lists :: "'v json_c \<Rightarrow> 'v option \<Rightarrow> (int \<Rightarrow> PortChannel) \<Rightarrow> bool" where
  "file_lists C file chans \<longleftrightarrow> (\<forall>slot steady port. validSlot slot \<longrightarrow>
     saved_devices C steady slot port file = map (reloaded steady) (ch_devices (chans slot)))"

context board_laws
begin

lemma written_lists:
  assumes "board_wf m'" "all_storable (pmg_channels m')" "pmg_channels m' = pmg_channels m"
    and "pmg_terminated m' = pmg_terminated m" "fst (writeConfigLocked E now m) = 0"
    and "pmg_file m' = pmg_file (snd (writeConfigLocked E now m))"
  shows "file_lists (be_json E) (pmg_file m') (pmg_channels m')"
proof -
  have "board_wf m" using board_wf_cong [OF assms(3,4)] assms(1) by simp
  then show ?thesis
    using written_devices [OF _ _ assms(5)] assms(2,3,6) by (auto simp: file_lists_def)
qed

lemma addDevice_saved:
  assumes "board_wf m'" "all_storable (pmg_channels m')"
    and "addDevice E now steady slot slave_id kind interval config m = ((0, reason), m')"
  shows "file_lists (be_json E) (pmg_file m') (pmg_channels m')"
proof -
  have a: "add_accepted slot slave_id kind interval m"
    using addDevice_result(2) [OF assms(3)] by simp
  then obtain s where s: "createSensorDevice (parseType kind) slave_id interval config = Some s"
    using accepted_sensor by (metis add_accepted_def)
  let ?m = "set_devices slot (ch_devices (pmg_channels m slot) @ [new_device steady s])
      (snd (verifyDeviceOnlineLocked (be_modbus E) slot s m))"
  show ?thesis
    by (rule written_lists [OF assms(1,2), of ?m now])
      (use assms(3) in \<open>auto simp: add_cases [OF a s] Let_def split_def split: if_splits\<close>)
qed

lemma removeDevice_saved:
  assumes "board_wf m'" "all_storable (pmg_channels m')"
    and "removeDevice E now slot slave_id m = ((0, reason), m')"
  shows "file_lists (be_json E) (pmg_file m') (pmg_channels m')"
  by (rule written_lists [OF assms(1,2), of
        "on_channel slot (\<lambda>ch. ch\<lparr>ch_devices := remove_first slave_id (ch_devices ch)\<rparr>) m" now])
    (use assms(3) in \<open>auto simp: removeDevice_def Let_def split_def split: if_splits option.splits\<close>)

end

text \<open>
  A threshold is set in memory and in the file, or, when the file cannot be written, replaced
  by the one before (a sensor without one is left with the empty one).
\<close>

definition old_threshold :: "ManagedDevice \<Rightarrow> sensor_threshold_config" where
  "old_threshold d = (case thresholdConfig (md_sensor d) of None \<Rightarrow> sensor_threshold_zero | Some c \<Rightarrow> c)"

lemma set_threshold_compose [simp]:
  "set_threshold c (set_threshold c' d) = set_threshold c d"
  by (cases "md_sensor d") (simp_all add: set_threshold_def)

lemma set_threshold_storable:
  assumes "all_storable (pmg_channels m)" "float_config c"
  shows "all_storable (pmg_channels (on_device slot i (set_threshold c) m))"
proof -
  have "storable (set_threshold c d)" if "storable d" for d
    using that assms(2) by (cases "md_sensor d") (auto simp: storable_def set_threshold_def)
  then have "\<forall>d \<in> set (update_first i (set_threshold c) ds). storable d" if "\<forall>d \<in> set ds. storable d" for ds
    using update_first_all [OF that] by blast
  from this [of "ch_devices (pmg_channels m slot)"] show ?thesis
    using assms(1) unfolding all_storable_def by (simp add: on_device_def)
qed

lemma on_device_channels:
  "pmg_channels m' = pmg_channels m \<Longrightarrow> pmg_channels (on_device slot i f m') = pmg_channels (on_device slot i f m)"
  by (simp add: on_device_def)

lemma setDeviceThreshold_result:
  assumes "setDeviceThreshold E now slot slave_id config m = ((ret, reason), m')"
  shows "ret = 0 \<Longrightarrow> \<exists>c d. config = Some c \<and> find_device slave_id (ch_devices (pmg_channels m slot)) = Some d
      \<and> deviceType (md_sensor d) = DEV_SENSOR_TH
      \<and> pmg_channels m' = pmg_channels (on_device slot slave_id (set_threshold c) m)"
    and "ret \<noteq> 0 \<Longrightarrow> ret = -1 \<and> (pmg_channels m' = pmg_channels m \<or> reason = ''config_write_failed'' \<and>
      (\<exists>d. find_device slave_id (ch_devices (pmg_channels m slot)) = Some d
        \<and> pmg_channels m' = pmg_channels (on_device slot slave_id (set_threshold (old_threshold d)) m)))"
proof -
  show "ret = 0 \<Longrightarrow> \<exists>c d. config = Some c \<and> find_device slave_id (ch_devices (pmg_channels m slot)) = Some d
      \<and> deviceType (md_sensor d) = DEV_SENSOR_TH
      \<and> pmg_channels m' = pmg_channels (on_device slot slave_id (set_threshold c) m)"
    using assms by (auto simp: setDeviceThreshold_def Let_def split_def split: option.splits if_splits)
next
  assume r: "ret \<noteq> 0"
  have undo: "pmg_channels (on_device slot slave_id (set_threshold oc) (snd (writeConfigLocked E now
      (on_device slot slave_id (set_threshold c) m))))
      = pmg_channels (on_device slot slave_id (set_threshold oc) m)" for oc c
  proof -
    have "pmg_channels (on_device slot slave_id (set_threshold oc) (snd (writeConfigLocked E now
        (on_device slot slave_id (set_threshold c) m))))
      = pmg_channels (on_device slot slave_id (set_threshold oc) (on_device slot slave_id (set_threshold c) m))"
      by (rule on_device_channels) simp
    then show ?thesis by (simp add: on_device_compose)
  qed
  show "ret = -1 \<and> (pmg_channels m' = pmg_channels m \<or> reason = ''config_write_failed'' \<and>
      (\<exists>d. find_device slave_id (ch_devices (pmg_channels m slot)) = Some d
        \<and> pmg_channels m' = pmg_channels (on_device slot slave_id (set_threshold (old_threshold d)) m)))"
    using assms r
    by (auto simp: setDeviceThreshold_def old_threshold_def Let_def split_def undo split: option.splits if_splits)
qed

lemma on_device_terminated [simp]: "pmg_terminated (on_device slot i f m) = pmg_terminated m"
  by (simp add: on_device_def)

context board_laws
begin

lemma setDeviceThreshold_saved:
  assumes "board_wf m'" "all_storable (pmg_channels m')"
    and "setDeviceThreshold E now slot slave_id (Some c) m = ((0, reason), m')"
  shows "file_lists (be_json E) (pmg_file m') (pmg_channels m')"
  by (rule written_lists [OF assms(1,2), of "on_device slot slave_id (set_threshold c) m" now])
    (use assms(3) in \<open>auto simp: setDeviceThreshold_def Let_def split_def split: if_splits option.splits\<close>)

end

text \<open>The next start: a new manager on the file that was written, connected to a slot.\<close>

lemma restart_devices:
  assumes "connectPort E now steady slot (Some port) baud (PortManager_new file) = ((0, reason), m')"
  shows "validSlot slot \<and>
    ch_devices (pmg_channels m' slot) = saved_devices (be_json E) steady slot (c_str port) file"
proof -
  let ?m = "PortManager_new file"
  have acc: "connect_accepted slot (Some port) baud ?m"
  proof (rule ccontr)
    assume "\<not> connect_accepted slot (Some port) baud ?m"
    then have "fst (fst (connectPort E now steady slot (Some port) baud ?m)) = -1"
      by (auto simp: connectPort_def connect_accepted_def Let_def)
    then show False using assms by simp
  qed
  obtain ok bus n where i: "mb_init (be_modbus E) (pmg_io ?m) (createBus slot (c_str port) baud) = (ok, bus, n)"
    by (metis prod.exhaust)
  have "validSlot slot" using acc by (auto simp: connect_accepted_def)
  moreover have "pmg_file ?m = file" by (simp add: PortManager_new_def)
  ultimately show ?thesis
    using assms connect_cases [OF acc i, of now steady]
    by (auto simp: Let_def split_def opened_channel_def split: if_splits)
qed


lemma connect_accepted_ok:
  assumes "connectPort E now steady slot (Some port) baud m = ((0, reason), m')"
  shows "connect_accepted slot (Some port) baud m"
  using connect_refused_ret [of slot "Some port" baud m E now steady] assms by (cases "connect_accepted slot (Some port) baud m") auto

lemma connect_other_slot:
  assumes "connectPort E now steady slot (Some port) baud m = ((0, reason), m')" "other \<noteq> slot"
  shows "pmg_channels m' other = pmg_channels m other"
proof -
  obtain ok bus n where i: "mb_init (be_modbus E) (pmg_io m) (createBus slot (c_str port) baud) = (ok, bus, n)"
    by (metis prod.exhaust)
  show ?thesis
    using assms connect_cases [OF connect_accepted_ok [OF assms(1)] i, of now steady]
    by (auto simp: Let_def split_def split: if_splits)
qed

context board_laws
begin

lemma connectPort_saved:
  assumes "board_wf m'" "all_storable (pmg_channels m')"
    and "connectPort E now steady slot (Some port) baud m = ((0, reason), m')"
  shows "file_lists (be_json E) (pmg_file m') (pmg_channels m')"
proof -
  obtain ok bus n where i: "mb_init (be_modbus E) (pmg_io m) (createBus slot (c_str port) baud) = (ok, bus, n)"
    by (metis prod.exhaust)
  let ?m = "m\<lparr>pmg_io := n, pmg_channels := (pmg_channels m)(slot := opened_channel (c_str port) baud bus
      (saved_devices (be_json E) steady slot (c_str port) (pmg_file m)))\<rparr>"
  show ?thesis
    by (rule written_lists [OF assms(1,2), of ?m now])
      (use assms(3) connect_cases [OF connect_accepted_ok [OF assms(3)] i, of now steady]
       in \<open>auto simp: Let_def split_def split: if_splits\<close>)
qed

end

end
