(* ===== verification/MqttQueue.thy ===== *)
theory MqttQueue
  imports PortManager
begin

text \<open>
  Linux_data/mqtt/wrapper/mqtt_wrapper.c: the ring of messages between the publishers and the
  MQTT thread, the two sending functions, and the topics.  The ring has 32 cells, of which one
  stays free; a topic is cut to 127 characters and a payload to 4095.  A C string is its
  characters before the NUL; a null pointer is \<open>None\<close>.
\<close>

subsection \<open>The ring\<close>

definition MQTT_QUEUE_MAX :: nat where "MQTT_QUEUE_MAX = 32"
definition MQTT_PAYLOAD_MAX :: nat where "MQTT_PAYLOAD_MAX = 4096"

record mqtt_item =
  mi_topic :: string
  mi_payload :: string

record mqtt_queue =
  mq_cells :: "mqtt_item list"
  mq_head :: nat
  mq_tail :: nat

text \<open>\<open>strncpy(dst, src, n - 1); dst[n - 1] = '\0'\<close>.\<close>

definition strncpy_text :: "nat \<Rightarrow> string \<Rightarrow> string" where
  "strncpy_text n s = take (n - 1) (c_str s)"

definition new_item :: "string \<Rightarrow> string \<Rightarrow> mqtt_item" where
  "new_item topic payload = \<lparr>mi_topic = strncpy_text 128 topic, mi_payload = strncpy_text MQTT_PAYLOAD_MAX payload\<rparr>"

definition queue_empty :: "mqtt_queue \<Rightarrow> bool" where
  "queue_empty q \<longleftrightarrow> mq_head q = mq_tail q"

definition queue_full :: "mqtt_queue \<Rightarrow> bool" where
  "queue_full q \<longleftrightarrow> (mq_tail q + 1) mod MQTT_QUEUE_MAX = mq_head q"

definition queue_count :: "mqtt_queue \<Rightarrow> nat" where
  "queue_count q = (if mq_tail q \<ge> mq_head q then mq_tail q - mq_head q
                    else MQTT_QUEUE_MAX - mq_head q + mq_tail q)"

definition queue_push :: "string \<Rightarrow> string \<Rightarrow> mqtt_queue \<Rightarrow> int \<times> mqtt_queue" where
  "queue_push topic payload q =
     (if queue_full q then (-1, q)
      else (0, q\<lparr>mq_cells := (mq_cells q)[mq_tail q := new_item topic payload],
                  mq_tail := (mq_tail q + 1) mod MQTT_QUEUE_MAX\<rparr>))"

definition queue_pop :: "mqtt_queue \<Rightarrow> mqtt_item option \<times> mqtt_queue" where
  "queue_pop q =
     (if queue_empty q then (None, q)
      else (Some (mq_cells q ! mq_head q), q\<lparr>mq_head := (mq_head q + 1) mod MQTT_QUEUE_MAX\<rparr>))"

definition mqtt_queue_new :: mqtt_queue where
  "mqtt_queue_new = \<lparr>mq_cells = replicate MQTT_QUEUE_MAX \<lparr>mi_topic = [], mi_payload = []\<rparr>,
     mq_head = 0, mq_tail = 0\<rparr>"

subsection \<open>A bounded first-in first-out queue\<close>

text \<open>
  What the users of the ring rely on: a queue of capacity \<open>cap\<close> that takes a message when there
  is room, keeps it as \<open>cell\<close> says, and gives back the oldest one.
\<close>

locale bounded_fifo =
  fixes good :: "'q \<Rightarrow> bool"
    and items :: "'q \<Rightarrow> 'a list"
    and cap :: nat
    and cell :: "'m \<Rightarrow> 'a"
    and put :: "'m \<Rightarrow> 'q \<Rightarrow> bool \<times> 'q"
    and get :: "'q \<Rightarrow> 'a option \<times> 'q"
  assumes put_room: "good q \<Longrightarrow> length (items q) < cap \<Longrightarrow>
       \<exists>q'. put x q = (True, q') \<and> good q' \<and> items q' = items q @ [cell x]"
    and put_full: "good q \<Longrightarrow> length (items q) = cap \<Longrightarrow> put x q = (False, q)"
    and bounded: "good q \<Longrightarrow> length (items q) \<le> cap"
    and get_item: "good q \<Longrightarrow> items q = y # ys \<Longrightarrow> \<exists>q'. get q = (Some y, q') \<and> good q' \<and> items q' = ys"
    and get_none: "good q \<Longrightarrow> items q = [] \<Longrightarrow> get q = (None, q)"

text \<open>
  A run of puts (\<open>Some x\<close>) and gets (\<open>None\<close>) and what each returned; and the same run on a list.
\<close>

datatype 'a fifo_result = Put bool | Got "'a option"

fun fifo_run :: "('m \<Rightarrow> 'q \<Rightarrow> bool \<times> 'q) \<Rightarrow> ('q \<Rightarrow> 'a option \<times> 'q) \<Rightarrow> 'm option list \<Rightarrow> 'q
    \<Rightarrow> 'a fifo_result list \<times> 'q" where
  "fifo_run put get [] q = ([], q)"
| "fifo_run put get (Some x # es) q =
     (let (ok, q) = put x q; (rs, q) = fifo_run put get es q in (Put ok # rs, q))"
| "fifo_run put get (None # es) q =
     (let (y, q) = get q; (rs, q) = fifo_run put get es q in (Got y # rs, q))"

fun fifo_spec :: "nat \<Rightarrow> ('m \<Rightarrow> 'a) \<Rightarrow> 'm option list \<Rightarrow> 'a list \<Rightarrow> 'a fifo_result list \<times> 'a list" where
  "fifo_spec cap cell [] xs = ([], xs)"
| "fifo_spec cap cell (Some x # es) xs =
     (if length xs < cap then apfst ((#) (Put True)) (fifo_spec cap cell es (xs @ [cell x]))
      else apfst ((#) (Put False)) (fifo_spec cap cell es xs))"
| "fifo_spec cap cell (None # es) [] = apfst ((#) (Got None)) (fifo_spec cap cell es [])"
| "fifo_spec cap cell (None # es) (x # xs) = apfst ((#) (Got (Some x))) (fifo_spec cap cell es xs)"

context bounded_fifo
begin

lemma put_cases:
  assumes "good q"
  obtains "length (items q) < cap" "fst (put x q)" "good (snd (put x q))" "items (snd (put x q)) = items q @ [cell x]"
  | "length (items q) = cap" "put x q = (False, q)"
  using put_room [OF assms, of x] put_full [OF assms, of x] bounded [OF assms] by fastforce

lemma get_cases:
  assumes "good q"
  obtains x xs q' where "items q = x # xs" "get q = (Some x, q')" "good q'" "items q' = xs"
  | "items q = []" "get q = (None, q)"
proof (cases "items q")
  case Nil
  then show thesis using that(2) get_none [OF assms] by simp
next
  case (Cons x xs)
  then show thesis using that(1) get_item [OF assms Cons] by blast
qed

lemma run_fifo:
  assumes "good q"
  shows "let (rs, q') = fifo_run put get es q
    in good q' \<and> length (items q') \<le> cap \<and> fifo_spec cap cell es (items q) = (rs, items q')"
  using assms
proof (induction es arbitrary: q)
  case (Cons e es)
  show ?case
  proof (cases e)
    case None
    show ?thesis
    proof (cases rule: get_cases [OF Cons.prems])
      case (1 x xs p)
      then show ?thesis using Cons.IH [of p] None by (simp add: split_def Let_def)
    next
      case 2
      then show ?thesis using Cons.IH [of q] Cons.prems None by (simp add: split_def Let_def)
    qed
  next
    case (Some x)
    show ?thesis
    proof (cases rule: put_cases [OF Cons.prems, of x])
      case 1
      moreover have "fst (put x q)" using 1 by simp
      ultimately show ?thesis using Cons.IH [of "snd (put x q)"] Some by (simp add: split_def Let_def)
    next
      case 2
      then show ?thesis using Cons.IH [of q] Cons.prems Some by (simp add: split_def Let_def)
    qed
  qed
qed (simp add: bounded)

end

subsection \<open>The ring is such a queue\<close>

definition ring_wf :: "mqtt_queue \<Rightarrow> bool" where
  "ring_wf q \<longleftrightarrow> length (mq_cells q) = MQTT_QUEUE_MAX \<and> mq_head q < MQTT_QUEUE_MAX \<and> mq_tail q < MQTT_QUEUE_MAX"

definition queue_items :: "mqtt_queue \<Rightarrow> mqtt_item list" where
  "queue_items q = map (\<lambda>i. mq_cells q ! ((mq_head q + i) mod MQTT_QUEUE_MAX)) [0..<queue_count q]"

definition put_item :: "string \<times> string \<Rightarrow> mqtt_queue \<Rightarrow> bool \<times> mqtt_queue" where
  "put_item m q = (let (r, q) = queue_push (fst m) (snd m) q in (r = 0, q))"

lemma new_ring [simp]: "ring_wf mqtt_queue_new" "queue_items mqtt_queue_new = []"
  by (simp_all add: ring_wf_def mqtt_queue_new_def MQTT_QUEUE_MAX_def queue_items_def queue_count_def)

lemma count_items [simp]: "length (queue_items q) = queue_count q"
  by (simp add: queue_items_def)

lemma count_bound: "ring_wf q \<Longrightarrow> queue_count q \<le> 31"
  by (auto simp: ring_wf_def queue_count_def MQTT_QUEUE_MAX_def)

lemma mod_ring: "x < 64 \<Longrightarrow> x mod 32 = (if x < 32 then x else x - 32 :: nat)"
  by (simp add: mod_if)

lemma full_count: "ring_wf q \<Longrightarrow> queue_full q \<longleftrightarrow> queue_count q = 31"
  by (auto simp: ring_wf_def queue_full_def queue_count_def MQTT_QUEUE_MAX_def mod_ring split: if_splits)

lemma empty_count: "ring_wf q \<Longrightarrow> queue_empty q \<longleftrightarrow> queue_count q = 0"
  by (auto simp: ring_wf_def queue_empty_def queue_count_def MQTT_QUEUE_MAX_def)

lemma tail_cell: "ring_wf q \<Longrightarrow> i \<le> queue_count q \<Longrightarrow>
   (mq_head q + i) mod 32 = mq_tail q \<longleftrightarrow> i = queue_count q"
  by (auto simp: ring_wf_def queue_count_def MQTT_QUEUE_MAX_def mod_ring split: if_splits)

lemma push_room:
  assumes "ring_wf q" "queue_count q < 31"
  shows "\<exists>q'. queue_push t p q = (0, q') \<and> ring_wf q' \<and> queue_items q' = queue_items q @ [new_item t p]"
proof -
  let ?q = "q\<lparr>mq_cells := (mq_cells q)[mq_tail q := new_item t p], mq_tail := (mq_tail q + 1) mod 32\<rparr>"
  have push: "queue_push t p q = (0, ?q)"
    using assms full_count by (simp add: queue_push_def MQTT_QUEUE_MAX_def)
  have wf: "ring_wf ?q" using assms(1) by (simp add: ring_wf_def MQTT_QUEUE_MAX_def)
  have n: "queue_count ?q = Suc (queue_count q)"
    using assms by (auto simp: ring_wf_def queue_count_def MQTT_QUEUE_MAX_def mod_ring split: if_splits)
  have cell: "mq_cells ?q ! ((mq_head q + i) mod 32)
      = (if i = queue_count q then new_item t p else mq_cells q ! ((mq_head q + i) mod 32))"
    if "i \<le> queue_count q" for i
    using tail_cell [OF assms(1) that] assms(1) by (auto simp: ring_wf_def MQTT_QUEUE_MAX_def)
  have "queue_items ?q = map (\<lambda>i. mq_cells ?q ! ((mq_head q + i) mod 32)) [0..<queue_count q]
      @ [mq_cells ?q ! ((mq_head q + queue_count q) mod 32)]"
    unfolding queue_items_def n MQTT_QUEUE_MAX_def by simp
  also have "\<dots> = queue_items q @ [new_item t p]"
    unfolding cell [OF order_refl] queue_items_def MQTT_QUEUE_MAX_def
    using cell by (intro arg_cong2 [where f = append] map_cong) auto
  finally show ?thesis using push wf by blast
qed

lemma pop_items:
  assumes "ring_wf q" "queue_items q = x # xs"
  shows "\<exists>q'. queue_pop q = (Some x, q') \<and> ring_wf q' \<and> queue_items q' = xs"
proof -
  let ?q = "q\<lparr>mq_head := (mq_head q + 1) mod 32\<rparr>"
  have n: "queue_count q = Suc (length xs)" using assms(2) count_items [of q] by simp
  have wf: "ring_wf ?q" using assms(1) by (simp add: ring_wf_def MQTT_QUEUE_MAX_def)
  have n': "queue_count ?q = length xs"
    using assms(1) n by (auto simp: ring_wf_def queue_count_def MQTT_QUEUE_MAX_def mod_ring split: if_splits)
  have "queue_items q = map (\<lambda>i. mq_cells q ! ((mq_head q + i) mod 32)) (0 # map Suc [0..<length xs])"
    unfolding queue_items_def n MQTT_QUEUE_MAX_def by (simp only: upt_conv_Cons map_Suc_upt zero_less_Suc)
  then have "x = mq_cells q ! mq_head q" "xs = map (\<lambda>i. mq_cells q ! ((mq_head q + Suc i) mod 32)) [0..<length xs]"
    using assms by (simp_all add: ring_wf_def MQTT_QUEUE_MAX_def o_def)
  moreover have "(mq_head q + Suc i) mod 32 = ((mq_head q + 1) mod 32 + i) mod 32" for i
    by (simp add: mod_simps)
  ultimately have "queue_items ?q = xs" unfolding queue_items_def n' MQTT_QUEUE_MAX_def by simp
  moreover have "queue_pop q = (Some x, ?q)"
    using empty_count [OF assms(1)] n \<open>x = _\<close> by (simp add: queue_pop_def MQTT_QUEUE_MAX_def)
  ultimately show ?thesis using wf by blast
qed

interpretation ring: bounded_fifo ring_wf queue_items 31 "\<lambda>m. new_item (fst m) (snd m)" put_item queue_pop
proof
  fix q x
  show "ring_wf q \<Longrightarrow> length (queue_items q) < 31 \<Longrightarrow> \<exists>q'. put_item x q = (True, q') \<and> ring_wf q'
      \<and> queue_items q' = queue_items q @ [new_item (fst x) (snd x)]"
    using push_room [of q "fst x" "snd x"] by (auto simp: put_item_def)
  show "ring_wf q \<Longrightarrow> length (queue_items q) = 31 \<Longrightarrow> put_item x q = (False, q)"
    using full_count [of q] by (simp add: put_item_def queue_push_def)
  show "ring_wf q \<Longrightarrow> queue_items q = [] \<Longrightarrow> queue_pop q = (None, q)"
    using empty_count [of q] count_items [of q] by (simp add: queue_pop_def)
qed (use count_bound pop_items in simp_all)

subsection \<open>Sending\<close>

definition DATA_SEND_OK :: int where "DATA_SEND_OK = 0"
definition DATA_SEND_INVALID_ARG :: int where "DATA_SEND_INVALID_ARG = -1"
definition DATA_SEND_JSON_ERROR :: int where "DATA_SEND_JSON_ERROR = -2"
definition DATA_SEND_IPC_NO_CLIENT :: int where "DATA_SEND_IPC_NO_CLIENT = -3"
definition DATA_SEND_IPC_WRITE_FAILED :: int where "DATA_SEND_IPC_WRITE_FAILED = -4"
definition DATA_SEND_MQTT_NOT_READY :: int where "DATA_SEND_MQTT_NOT_READY = -5"
definition DATA_SEND_MQTT_QUEUE_FULL :: int where "DATA_SEND_MQTT_QUEUE_FULL = -6"
definition DATA_SEND_PARTIAL_FAILED :: int where "DATA_SEND_PARTIAL_FAILED = -7"
definition DATA_SEND_OFFLINE_CACHE_DISABLED :: int where "DATA_SEND_OFFLINE_CACHE_DISABLED = -8"

lemmas send_codes = DATA_SEND_OK_def DATA_SEND_INVALID_ARG_def DATA_SEND_JSON_ERROR_def
  DATA_SEND_IPC_NO_CLIENT_def DATA_SEND_IPC_WRITE_FAILED_def DATA_SEND_MQTT_NOT_READY_def
  DATA_SEND_MQTT_QUEUE_FULL_def DATA_SEND_PARTIAL_FAILED_def DATA_SEND_OFFLINE_CACHE_DISABLED_def

text \<open>The static variables of the file; \<open>mw_client\<close> says whether \<open>g_client\<close> is set.\<close>

record mqtt_wrapper =
  mw_client :: bool
  mw_connected :: bool
  mw_subscribed :: bool
  mw_gateway_seq :: "32 word"
  mw_last_heartbeat_ms :: int
  mw_last_flush_ms :: int
  mw_queue :: mqtt_queue

definition mqtt_wrapper_new :: mqtt_wrapper where
  "mqtt_wrapper_new = \<lparr>mw_client = False, mw_connected = False, mw_subscribed = False,
     mw_gateway_seq = 1000, mw_last_heartbeat_ms = 0, mw_last_flush_ms = 0, mw_queue = mqtt_queue_new\<rparr>"

definition next_gateway_seq :: "mqtt_wrapper \<Rightarrow> 32 word \<times> mqtt_wrapper" where
  "next_gateway_seq w = (let n = mw_gateway_seq w + 1 in (n, w\<lparr>mw_gateway_seq := n\<rparr>))"

definition mqtt_is_connected :: "mqtt_wrapper \<Rightarrow> bool" where
  "mqtt_is_connected w = mw_connected w"

definition mqtt_send :: "string option \<Rightarrow> string option \<Rightarrow> mqtt_wrapper \<Rightarrow> int \<times> mqtt_wrapper" where
  "mqtt_send topic payload w =
     (case (topic, payload) of
        (Some t, Some p) \<Rightarrow>
          if \<not> mw_client w then (DATA_SEND_MQTT_NOT_READY, w)
          else if \<not> mw_connected w then (DATA_SEND_MQTT_NOT_READY, w)
          else let (r, q) = queue_push t p (mw_queue w); w = w\<lparr>mw_queue := q\<rparr>
               in (if r < 0 then DATA_SEND_MQTT_QUEUE_FULL else DATA_SEND_OK, w)
      | _ \<Rightarrow> (DATA_SEND_INVALID_ARG, w))"

definition mqtt_send_direct_if_connected :: "string option \<Rightarrow> string option \<Rightarrow> mqtt_wrapper
    \<Rightarrow> int \<times> mqtt_wrapper" where
  "mqtt_send_direct_if_connected topic payload w =
     (case (topic, payload) of
        (Some t, Some p) \<Rightarrow>
          if \<not> mw_client w then (DATA_SEND_MQTT_NOT_READY, w)
          else if \<not> mw_connected w then (DATA_SEND_MQTT_NOT_READY, w)
          else let (r, q) = queue_push t p (mw_queue w); w = w\<lparr>mw_queue := q\<rparr>
               in (if r < 0 then DATA_SEND_MQTT_QUEUE_FULL else DATA_SEND_OK, w)
      | _ \<Rightarrow> (DATA_SEND_INVALID_ARG, w))"

lemma direct_is_send: "mqtt_send_direct_if_connected t p w = mqtt_send t p w"
  by (simp add: mqtt_send_def mqtt_send_direct_if_connected_def)

lemma send_cases:
  assumes "ring_wf (mw_queue w)"
  shows "mqtt_send (Some t) (Some p) w =
    (if \<not> mw_client w \<or> \<not> mw_connected w then (-5, w)
     else if queue_count (mw_queue w) < 31
     then (0, w\<lparr>mw_queue := snd (queue_push t p (mw_queue w))\<rparr>) else (-6, w))"
  using push_room [OF assms, of t p] full_count [OF assms] count_bound [OF assms]
  by (auto simp: mqtt_send_def queue_push_def send_codes)

subsection \<open>Topics\<close>

text \<open>
  \<open>None\<close> is the result -1.  The identifiers of a C string are its characters before the NUL,
  and the texts here hold none.
\<close>

definition MQTT_DEFAULT_PUBLISH_TOPIC :: string where
  "MQTT_DEFAULT_PUBLISH_TOPIC = ''gateway/'' @ DEFAULT_GATEWAY_ID @ ''/up''"

definition MQTT_GATEWAY_REGISTER_TOPIC :: string where
  "MQTT_GATEWAY_REGISTER_TOPIC = ''gateway/register''"

definition MQTT_GATEWAY_COMMAND_WILDCARD_TOPIC :: string where
  "MQTT_GATEWAY_COMMAND_WILDCARD_TOPIC = ''cmd/'' @ DEFAULT_GATEWAY_ID @ ''/#''"

definition fit_buffer :: "string \<Rightarrow> int \<Rightarrow> string option" where
  "fit_buffer t buffer_size = (if 0 < length t \<and> int (length t) < buffer_size then Some t else None)"

definition mqtt_make_gateway_up_topic :: "int \<Rightarrow> string option" where
  "mqtt_make_gateway_up_topic buffer_size =
     (if buffer_size \<le> 0 then None else fit_buffer (''gateway/'' @ DEFAULT_GATEWAY_ID @ ''/up'') buffer_size)"

definition mqtt_make_gateway_command_topic :: "int \<Rightarrow> string option" where
  "mqtt_make_gateway_command_topic buffer_size =
     (if buffer_size \<le> 0 then None else fit_buffer (''cmd/'' @ DEFAULT_GATEWAY_ID @ ''/gateway'') buffer_size)"

definition mqtt_make_port_command_topic :: "string option \<Rightarrow> int \<Rightarrow> string option" where
  "mqtt_make_port_command_topic port_id buffer_size =
     (case port_id of None \<Rightarrow> None
      | Some p \<Rightarrow> if buffer_size \<le> 0 \<or> p = [] then None
                  else fit_buffer (''cmd/'' @ DEFAULT_GATEWAY_ID @ ''/'' @ p) buffer_size)"

definition copy_token :: "int \<Rightarrow> string \<Rightarrow> string option" where
  "copy_token out_size s = (if out_size \<le> 0 \<or> int (length s) \<ge> out_size then None else Some s)"

abbreviation before_slash :: "string \<Rightarrow> string" where
  "before_slash s \<equiv> takeWhile (\<lambda>c. c \<noteq> CHR ''/'') s"

abbreviation from_slash :: "string \<Rightarrow> string" where
  "from_slash s \<equiv> dropWhile (\<lambda>c. c \<noteq> CHR ''/'') s"

definition mqtt_parse_gateway_command_topic :: "string \<Rightarrow> int \<Rightarrow> string option" where
  "mqtt_parse_gateway_command_topic topic gateway_size =
     (if \<not> starts_with ''cmd/'' topic then None
      else let gateway = drop 4 topic
           in if CHR ''/'' \<in> set gateway \<or> gateway = [] then None else copy_token gateway_size gateway)"

definition mqtt_parse_port_command_topic :: "string \<Rightarrow> int \<Rightarrow> int \<Rightarrow> (string \<times> string) option" where
  "mqtt_parse_port_command_topic topic gateway_size port_size =
     (if \<not> starts_with ''cmd/'' topic then None
      else let gateway = before_slash (drop 4 topic); slash = from_slash (drop 4 topic)
           in if slash = [] \<or> gateway = [] \<or> tl slash = [] \<or> CHR ''/'' \<in> set (tl slash) then None
              else case copy_token gateway_size gateway of None \<Rightarrow> None
                   | Some g \<Rightarrow> map_option (Pair g) (copy_token port_size (tl slash)))"

definition mqtt_parse_port_up_topic :: "string \<Rightarrow> int \<Rightarrow> int \<Rightarrow> (string \<times> string) option" where
  "mqtt_parse_port_up_topic topic gateway_size port_size =
     (if \<not> starts_with ''gateway/'' topic then None
      else let gateway = before_slash (drop 8 topic); gateway_end = from_slash (drop 8 topic)
           in if gateway_end = [] \<or> gateway = [] then None
              else let port = before_slash (tl gateway_end); port_end = from_slash (tl gateway_end)
                   in if port_end = [] \<or> port = [] \<or> port_end \<noteq> ''/up'' then None
                      else case copy_token gateway_size gateway of None \<Rightarrow> None
                           | Some g \<Rightarrow> map_option (Pair g) (copy_token port_size port))"

lemma slash_split: "CHR ''/'' \<notin> set g \<Longrightarrow> before_slash (g @ CHR ''/'' # r) = g \<and> from_slash (g @ CHR ''/'' # r) = CHR ''/'' # r"
  by (induction g) auto

lemma slash_split_back: "from_slash s \<noteq> [] \<Longrightarrow>
  s = before_slash s @ CHR ''/'' # tl (from_slash s) \<and> CHR ''/'' \<notin> set (before_slash s)"
  by (induction s) auto

lemma no_slash_before: "CHR ''/'' \<notin> set (before_slash s)"
  by (induction s) auto

text \<open>The parsers accept exactly the topics of their form.\<close>

lemma port_command_exact:
  "mqtt_parse_port_command_topic topic gs ps = Some (g, p) \<longleftrightarrow>
     topic = ''cmd/'' @ g @ ''/'' @ p \<and> g \<noteq> [] \<and> p \<noteq> [] \<and> CHR ''/'' \<notin> set g \<and> CHR ''/'' \<notin> set p
     \<and> int (length g) < gs \<and> int (length p) < ps"
    (is "?l \<longleftrightarrow> ?r")
proof
  assume l: ?l
  then obtain r where r: "topic = ''cmd/'' @ r"
    by (auto simp: mqtt_parse_port_command_topic_def starts_with_iff split: if_splits)
  have 1: "from_slash r \<noteq> []" "before_slash r = g" "tl (from_slash r) = p" "g \<noteq> []" "p \<noteq> []"
    "CHR ''/'' \<notin> set p" "int (length g) < gs" "int (length p) < ps"
    using l unfolding r
    by (auto simp: mqtt_parse_port_command_topic_def copy_token_def Let_def starts_with_def
        simp del: dropWhile_eq_Nil_conv split: if_splits)
  then have "r = g @ CHR ''/'' # p" using slash_split_back [of r] by auto
  then show ?r using r 1 no_slash_before [of r] by simp
next
  assume r: ?r
  then show ?l using slash_split [of g p]
    by (auto simp: mqtt_parse_port_command_topic_def copy_token_def Let_def starts_with_def)
qed

lemma port_up_exact:
  "mqtt_parse_port_up_topic topic gs ps = Some (g, p) \<longleftrightarrow>
     topic = ''gateway/'' @ g @ ''/'' @ p @ ''/up'' \<and> g \<noteq> [] \<and> p \<noteq> [] \<and> CHR ''/'' \<notin> set g \<and> CHR ''/'' \<notin> set p
     \<and> int (length g) < gs \<and> int (length p) < ps"
    (is "?l \<longleftrightarrow> ?r")
proof
  assume l: ?l
  then obtain r where r: "topic = ''gateway/'' @ r"
    by (auto simp: mqtt_parse_port_up_topic_def starts_with_iff split: if_splits)
  define s where "s = tl (from_slash r)"
  have 1: "from_slash r \<noteq> []" "from_slash s = ''/up''" "before_slash r = g" "before_slash s = p"
    "g \<noteq> []" "p \<noteq> []" "int (length g) < gs" "int (length p) < ps"
    using l r by (auto simp: mqtt_parse_port_up_topic_def s_def copy_token_def Let_def split: if_splits)
  then have "r = g @ CHR ''/'' # s" using slash_split_back [of r] by (auto simp: s_def)
  moreover have "s = p @ ''/up''" using slash_split_back [of s] 1 by auto
  ultimately show ?r using r 1 no_slash_before [of r] no_slash_before [of s] by simp
next
  assume r: ?r
  then show ?l using slash_split [of g "p @ ''/up''"] slash_split [of p "''up''"]
    by (auto simp: mqtt_parse_port_up_topic_def copy_token_def Let_def starts_with_def)
qed

lemma gateway_command_exact:
  "mqtt_parse_gateway_command_topic topic gs = Some g \<longleftrightarrow>
     topic = ''cmd/'' @ g \<and> g \<noteq> [] \<and> CHR ''/'' \<notin> set g \<and> int (length g) < gs"
  by (auto simp: mqtt_parse_gateway_command_topic_def copy_token_def Let_def starts_with_iff split: if_splits)

end
