(* ===== verification/BoardNet.thy ===== *)
theory BoardNet
  imports OfflineQueue MqttQueue
begin

text \<open>
  The publishing path of the board: the offline queue with \<open>mqtt_send_direct_if_connected\<close> as
  its sender (\<open>offline_publish_queue_set_sender\<close> in \<open>mqtt_init\<close>).  \<open>OfflineQueue\<close> takes the
  sender's answers as a function of the number of calls; \<open>direct_link\<close> is that function for the
  ring, and \<open>send_calls\<close> puts the recorded calls into the ring.  The lemma \<open>codes_agree\<close> says
  that the two are one run of the source: every recorded answer is the value the wrapper's
  function returns at that moment.
\<close>

record board_net =
  bn_mqtt :: mqtt_wrapper
  bn_offline :: OfflinePublishQueue
  bn_ipc :: "string list"

text \<open>What the socket does with a message: there is no client, or whether the write succeeds.\<close>

datatype ipc_outcome = IpcNoClient | IpcWritten bool

text \<open>The world of the messages: json-c, the database engine, the socket (by the number of the call).\<close>

record 'v net_env =
  ne_json :: "'v json_c"
  ne_sql :: sqlite
  ne_ipc :: "nat \<Rightarrow> ipc_outcome"

definition direct_link :: "mqtt_wrapper \<Rightarrow> nat \<Rightarrow> nat \<Rightarrow> int" where
  "direct_link w n0 n =
     (if \<not> mw_client w \<or> \<not> mw_connected w then DATA_SEND_MQTT_NOT_READY
      else if queue_count (mw_queue w) + (n - n0) < MQTT_QUEUE_MAX - 1 then DATA_SEND_OK
      else DATA_SEND_MQTT_QUEUE_FULL)"

fun send_calls :: "(string \<times> string \<times> int) list \<Rightarrow> mqtt_wrapper \<Rightarrow> mqtt_wrapper" where
  "send_calls [] w = w"
| "send_calls ((t, p, r) # cs) w = send_calls cs (snd (mqtt_send_direct_if_connected (Some t) (Some p) w))"

fun codes_agree :: "(string \<times> string \<times> int) list \<Rightarrow> mqtt_wrapper \<Rightarrow> bool" where
  "codes_agree [] w = True"
| "codes_agree ((t, p, r) # cs) w =
     (let (code, w) = mqtt_send_direct_if_connected (Some t) (Some p) w in code = r \<and> codes_agree cs w)"

text \<open>Run an operation of the offline queue with the ring behind it.\<close>

definition with_sender :: "((nat \<Rightarrow> int) \<Rightarrow> OfflinePublishQueue \<Rightarrow> 'r \<times> OfflinePublishQueue)
    \<Rightarrow> 'a board_net_scheme \<Rightarrow> 'r \<times> 'a board_net_scheme" where
  "with_sender op n =
     (let n0 = length (oq_calls (bn_offline n));
          (r, q) = op (direct_link (bn_mqtt n) n0) (bn_offline n)
      in (r, n\<lparr>bn_mqtt := send_calls (drop n0 (oq_calls q)) (bn_mqtt n), bn_offline := q\<rparr>))"

definition net_publish_or_cache :: "sqlite \<Rightarrow> int \<Rightarrow> string option \<Rightarrow> string option
    \<Rightarrow> offline_publish_meta option \<Rightarrow> 'a board_net_scheme \<Rightarrow> int \<times> 'a board_net_scheme" where
  "net_publish_or_cache E now topic payload meta =
     with_sender (\<lambda>link. offline_publish_or_cache E link now topic payload meta)"

definition net_flush_once :: "sqlite \<Rightarrow> int \<Rightarrow> 'a board_net_scheme \<Rightarrow> 'a board_net_scheme" where
  "net_flush_once E now n = snd (with_sender (\<lambda>link q. ((), oq_flushToMqttOnce E link now q)) n)"

text \<open>\<open>ipc_server_send\<close> of ipc_server.c; \<open>bn_ipc\<close> holds the messages given to it, oldest first.\<close>

definition ipc_server_send :: "'v net_env \<Rightarrow> string option \<Rightarrow> 'a board_net_scheme \<Rightarrow> int \<times> 'a board_net_scheme" where
  "ipc_server_send E msg n =
     (case msg of None \<Rightarrow> (DATA_SEND_INVALID_ARG, n)
      | Some m \<Rightarrow>
         (case ne_ipc E (length (bn_ipc n)) of
            IpcNoClient \<Rightarrow> DATA_SEND_IPC_NO_CLIENT
          | IpcWritten ok \<Rightarrow> if ok then DATA_SEND_OK else DATA_SEND_IPC_WRITE_FAILED,
          n\<lparr>bn_ipc := bn_ipc n @ [m]\<rparr>))"

subsection \<open>The recorded answers are those of the ring\<close>

definition answered_by :: "(nat \<Rightarrow> int) \<Rightarrow> nat \<Rightarrow> (string \<times> string \<times> int) list \<Rightarrow> bool" where
  "answered_by link n0 cs \<longleftrightarrow> (\<forall>i < length cs. snd (snd (cs ! i)) = link (n0 + i))"

lemma answered_Nil [simp]: "answered_by link n0 []"
  by (simp add: answered_by_def)

lemma answered_Cons [simp]:
  "answered_by link n0 ((t, p, r) # cs) \<longleftrightarrow> r = link n0 \<and> answered_by link (Suc n0) cs"
  by (simp add: answered_by_def All_less_Suc2)

lemma answered_append [simp]:
  "answered_by link n0 (cs @ ds) \<longleftrightarrow> answered_by link n0 cs \<and> answered_by link (n0 + length cs) ds"
  by (induction cs arbitrary: n0) auto

lemma direct_wf: "ring_wf (mw_queue w) \<Longrightarrow> ring_wf (mw_queue (snd (mqtt_send_direct_if_connected (Some t) (Some p) w)))"
  using push_room [of "mw_queue w" t p] by (auto simp: direct_is_send send_cases)

lemma direct_code:
  "ring_wf (mw_queue w) \<Longrightarrow> fst (mqtt_send_direct_if_connected (Some t) (Some p) w) = direct_link w n n"
  by (simp add: direct_is_send send_cases direct_link_def send_codes MQTT_QUEUE_MAX_def)

lemma direct_next:
  assumes "ring_wf (mw_queue w)" "n0 < n"
  shows "direct_link (snd (mqtt_send_direct_if_connected (Some t) (Some p) w)) (Suc n0) n = direct_link w n0 n"
proof -
  have "queue_count (snd (queue_push t p (mw_queue w))) = Suc (queue_count (mw_queue w))"
    if "queue_count (mw_queue w) < 31"
    using push_room [OF assms(1) that, of t p] by (metis count_items length_append_singleton snd_conv)
  then show ?thesis
    using assms by (simp add: direct_is_send send_cases direct_link_def MQTT_QUEUE_MAX_def) linarith
qed

lemma answered_next:
  assumes "ring_wf (mw_queue w)" "Suc n0 \<le> m"
  shows "answered_by (direct_link w n0) m cs \<longleftrightarrow>
     answered_by (direct_link (snd (mqtt_send_direct_if_connected (Some t) (Some p) w)) (Suc n0)) m cs"
  using assms direct_next [OF assms(1)] by (simp add: answered_by_def)

lemma answered_agree:
  "ring_wf (mw_queue w) \<Longrightarrow> answered_by (direct_link w n0) n0 cs \<Longrightarrow>
   codes_agree cs w \<and> ring_wf (mw_queue (send_calls cs w))"
proof (induction cs arbitrary: w n0)
  case (Cons c cs)
  obtain t p r where c: "c = (t, p, r)" by (cases c)
  let ?w = "snd (mqtt_send_direct_if_connected (Some t) (Some p) w)"
  have "ring_wf (mw_queue ?w)" using Cons.prems(1) by (rule direct_wf)
  moreover have "answered_by (direct_link ?w (Suc n0)) (Suc n0) cs"
    using Cons.prems c answered_next [OF Cons.prems(1)] by simp
  moreover have "fst (mqtt_send_direct_if_connected (Some t) (Some p) w) = r"
    using Cons.prems c direct_code [OF Cons.prems(1)] by simp
  ultimately show ?case using Cons.IH [of ?w "Suc n0"] c by (simp add: split_def Let_def)
qed simp

text \<open>An operation whose calls are answered by its sender.\<close>

definition honest :: "((nat \<Rightarrow> int) \<Rightarrow> OfflinePublishQueue \<Rightarrow> 'r \<times> OfflinePublishQueue) \<Rightarrow> bool" where
  "honest op \<longleftrightarrow> (\<forall>link q. \<exists>cs. oq_calls (snd (op link q)) = oq_calls q @ cs
      \<and> answered_by link (length (oq_calls q)) cs)"

lemma honest_agree:
  assumes "honest op" "ring_wf (mw_queue (bn_mqtt n))"
  shows "\<exists>cs. oq_calls (bn_offline (snd (with_sender op n))) = oq_calls (bn_offline n) @ cs
    \<and> codes_agree cs (bn_mqtt n) \<and> bn_mqtt (snd (with_sender op n)) = send_calls cs (bn_mqtt n)
    \<and> ring_wf (mw_queue (bn_mqtt (snd (with_sender op n))))"
proof -
  let ?link = "direct_link (bn_mqtt n) (length (oq_calls (bn_offline n)))"
  obtain cs where "oq_calls (snd (op ?link (bn_offline n))) = oq_calls (bn_offline n) @ cs"
      "answered_by ?link (length (oq_calls (bn_offline n))) cs"
    using assms(1) by (auto simp: honest_def)
  then show ?thesis
    using answered_agree [OF assms(2)] by (intro exI [of _ cs]) (simp add: with_sender_def split_def Let_def)
qed

lemma publish_honest: "honest (\<lambda>link. offline_publish_or_cache E link now t p m)"
  unfolding honest_def
proof (intro allI)
  fix link q
  show "\<exists>cs. oq_calls (snd (offline_publish_or_cache E link now t p m q)) = oq_calls q @ cs
      \<and> answered_by link (length (oq_calls q)) cs"
  proof (cases "t = None \<or> p = None \<or> \<not> oq_sender q")
    case True
    then show ?thesis
      by (intro exI [of _ "[]"])
        (auto simp: offline_publish_or_cache_def oq_publishOrCache_def cache_calls Let_def split_def split: option.splits)
  next
    case False
    then show ?thesis
      by (intro exI [of _ "[(c_str (the t), c_str (the p), link (length (oq_calls q)))]"])
        (auto simp: offline_publish_or_cache_def oq_publishOrCache_def call_sender_def cache_calls Let_def split_def
          split: option.splits)
  qed
qed

lemma flush_rows_honest:
  "\<exists>cs. oq_calls (flush_rows E link now ms q) = oq_calls q @ cs \<and> answered_by link (length (oq_calls q)) cs"
proof (induction ms arbitrary: q)
  case (Cons m ms)
  let ?c = "(c_str (op_topic m), c_str (op_payload m), link (length (oq_calls q)))"
  show ?case
  proof (cases "link (length (oq_calls q)) = 0")
    case True
    obtain cs where "oq_calls (flush_rows E link now (m # ms) q) = (oq_calls q @ [?c]) @ cs"
        "answered_by link (length (oq_calls q @ [?c])) cs"
      using Cons.IH [of "snd (call_sender link (op_topic m) (op_payload m) q)
          \<lparr>oq_db := snd (od_remove E (op_id m) (oq_db q))\<rparr>"] True
      by (auto simp: call_sender_def Let_def)
    then show ?thesis by (intro exI [of _ "?c # cs"]) simp
  next
    case False
    then show ?thesis by (intro exI [of _ "[?c]"]) (simp add: call_sender_def Let_def)
  qed
qed simp

lemma flush_honest: "honest (\<lambda>link q. ((), oq_flushToMqttOnce E link now q))"
  unfolding honest_def
proof (intro allI)
  fix link q
  show "\<exists>cs. oq_calls (snd ((), oq_flushToMqttOnce E link now q)) = oq_calls q @ cs
      \<and> answered_by link (length (oq_calls q)) cs"
    using flush_rows_honest [of E link now "fst (od_loadPending E kFlushBatchSize (oq_db q))"
        "q\<lparr>oq_db := snd (od_loadPending E kFlushBatchSize (oq_db q))\<rparr>"]
    by (auto simp: oq_flushToMqttOnce_def split_def Let_def)
qed

subsection \<open>What a flush hands to the ring\<close>

lemma delivered_ring:
  assumes "mw_client w" "mw_connected w"
  shows "delivered (direct_link w n0) (n0 + i) ms = min (length ms) (31 - queue_count (mw_queue w) - i)"
proof (induction ms arbitrary: i)
  case (Cons m ms)
  show ?case
  proof (cases "queue_count (mw_queue w) + i < 31")
    case True
    then have "direct_link w n0 (n0 + i) = 0" using assms by (simp add: direct_link_def send_codes MQTT_QUEUE_MAX_def)
    then show ?thesis using Cons.IH [of "Suc i"] True by simp
  next
    case False
    then have "direct_link w n0 (n0 + i) \<noteq> 0" using assms by (simp add: direct_link_def send_codes MQTT_QUEUE_MAX_def)
    then show ?thesis using False by simp
  qed
qed simp

lemma direct_room:
  fixes w :: mqtt_wrapper and t p :: string
  assumes "ring_wf (mw_queue w)" "mw_client w" "mw_connected w" "queue_count (mw_queue w) < 31"
  defines "w' \<equiv> snd (mqtt_send_direct_if_connected (Some t) (Some p) w)"
  shows "ring_wf (mw_queue w') \<and> queue_items (mw_queue w') = queue_items (mw_queue w) @ [new_item t p]
    \<and> mw_client w' \<and> mw_connected w'"
  using push_room [OF assms(1,4), of t p] assms(1-4) by (auto simp: w'_def direct_is_send send_cases)

lemma direct_refused:
  "ring_wf (mw_queue w) \<Longrightarrow> direct_link w n n \<noteq> 0 \<Longrightarrow> snd (mqtt_send_direct_if_connected (Some t) (Some p) w) = w"
  by (auto simp: direct_is_send send_cases direct_link_def send_codes MQTT_QUEUE_MAX_def)

lemma new_item_c_str [simp]: "new_item (c_str t) (c_str p) = new_item t p"
  by (simp add: new_item_def strncpy_text_def)

lemma send_accepted:
  fixes w :: mqtt_wrapper and rs :: "OfflineRow list"
  assumes "ring_wf (mw_queue w)" "mw_client w" "mw_connected w" "queue_count (mw_queue w) + length rs \<le> 31"
  defines "w' \<equiv> send_calls (map (call_of 0) rs) w"
  shows "ring_wf (mw_queue w') \<and> mw_client w' \<and> mw_connected w' \<and>
    queue_items (mw_queue w') = queue_items (mw_queue w) @ map (\<lambda>r. new_item (or_topic r) (or_payload r)) rs"
  using assms(1-4) unfolding w'_def
proof (induction rs arbitrary: w)
  case (Cons r rs)
  let ?w = "snd (mqtt_send_direct_if_connected (Some (c_str (or_topic r))) (Some (c_str (or_payload r))) w)"
  have d: "ring_wf (mw_queue ?w) \<and> queue_items (mw_queue ?w) = queue_items (mw_queue w) @ [new_item (or_topic r) (or_payload r)]
      \<and> mw_client ?w \<and> mw_connected ?w"
    using direct_room [of w "c_str (or_topic r)" "c_str (or_payload r)"] Cons.prems by simp
  then have "queue_count (mw_queue ?w) = Suc (queue_count (mw_queue w))"
    by (metis count_items length_append_singleton)
  then show ?case using Cons.IH [of ?w] Cons.prems d by (simp add: call_of_def)
qed simp

lemma send_calls_append: "send_calls (cs @ ds) w = send_calls ds (send_calls cs w)"
proof (induction cs arbitrary: w)
  case (Cons c cs)
  then show ?case by (cases c) simp
qed simp

lemma flush_into_ring:
  assumes "sql_engine E" "\<forall>i. sq_ok E i" "\<forall>i. sq_fetch E i = None"
    and "oq_initialized (bn_offline n)" "oq_sender (bn_offline n)" "oq_flushEnabled (bn_offline n)"
      "od_open (oq_db (bn_offline n))"
    and ring: "ring_wf (mw_queue (bn_mqtt n))" "mw_client (bn_mqtt n)" "mw_connected (bn_mqtt n)"
  shows "let ms = batch E (oq_db (bn_offline n)); k = min (length ms) (31 - queue_count (mw_queue (bn_mqtt n)));
             n' = net_flush_once E now n
         in od_rows (oq_db (bn_offline n')) = after_flush now ms k (od_rows (oq_db (bn_offline n)))
          \<and> queue_items (mw_queue (bn_mqtt n')) = queue_items (mw_queue (bn_mqtt n))
              @ map (\<lambda>r. new_item (or_topic r) (or_payload r)) (take k ms)"
proof -
  define w q where "w = bn_mqtt n" and "q = bn_offline n"
  define n0 where "n0 = length (oq_calls q)"
  define ms where "ms = batch E (oq_db q)"
  define k where "k = min (length ms) (31 - queue_count (mw_queue w))"
  define q' where "q' = oq_flushToMqttOnce E (direct_link w n0) now q"
  have d: "delivered (direct_link w n0) n0 ms = k"
    using delivered_ring [of w n0 0 ms] ring by (simp add: w_def k_def)
  have f: "od_rows (oq_db q') = after_flush now ms k (od_rows (oq_db q))"
    "oq_calls q' = oq_calls q @ map (call_of 0) (take k ms)
       @ (if k < length ms then [call_of (direct_link w n0 (n0 + k)) (ms ! k)] else [])"
    using flush_spec [OF assms(1-7), of "direct_link w n0" now] d
    by (simp_all add: Let_def q'_def ms_def [symmetric] q_def [symmetric] n0_def [symmetric])
  let ?w = "send_calls (map (call_of 0) (take k ms)) w"
  have s: "ring_wf (mw_queue ?w) \<and> mw_client ?w \<and> mw_connected ?w \<and> queue_items (mw_queue ?w) =
      queue_items (mw_queue w) @ map (\<lambda>r. new_item (or_topic r) (or_payload r)) (take k ms)"
    using send_accepted [of w "take k ms"] ring count_bound [OF ring(1)] by (simp add: w_def k_def)
  have last: "send_calls (if k < length ms then [call_of (direct_link w n0 (n0 + k)) (ms ! k)] else []) ?w = ?w"
  proof (cases "k < length ms")
    case True
    then have "31 \<le> queue_count (mw_queue ?w)"
      using s count_items [of "mw_queue ?w"] by (simp add: k_def)
    then have "direct_link ?w n0 n0 \<noteq> 0" by (simp add: direct_link_def send_codes MQTT_QUEUE_MAX_def)
    then show ?thesis using True s by (simp add: call_of_def direct_refused)
  qed simp
  have "bn_mqtt (net_flush_once E now n) = ?w" "bn_offline (net_flush_once E now n) = q'"
    using f(2) last
    by (simp_all add: net_flush_once_def with_sender_def send_calls_append q'_def [symmetric]
        w_def [symmetric] q_def [symmetric] n0_def [symmetric])
  then show ?thesis using f(1) s by (simp add: Let_def w_def q_def ms_def k_def)
qed

end
