(* ===== verification/DataTelemetry.thy ===== *)
theory DataTelemetry
  imports PortManager
begin

text \<open>
  Linux_data/data/data_telemetry.c: the telemetry message of the board.  A pack of devices is
  written as a JSON document; the members of an object are listed in the order in which the
  source adds them.  The clock is read once per message, and is not before 1970.  A fixed-size \<open>char\<close> array is the text
  it holds, and \<open>copy_text\<close> cuts a text to the array.  Texts that are not ASCII are their
  UTF-8 bytes.
\<close>

definition copy_text :: "nat \<Rightarrow> string option \<Rightarrow> string" where
  "copy_text dst_size src = (case src of None \<Rightarrow> [] | Some s \<Rightarrow> take (dst_size - 1) (c_str s))"

lemma copy_text_length: "length (copy_text n s) \<le> n - 1"
  by (simp add: copy_text_def split: option.splits)

record site_context =
  sx_factory_id :: string
  sx_factory_name :: string
  sx_area_id :: string
  sx_area_name :: string
  sx_gateway_id :: string
  sx_gateway_name :: string
  sx_port_id :: string
  sx_port_name :: string

record telemetry_pack =
  tk_seq :: "32 word"
  tk_timestamp :: int
  tk_timestamp_ms :: int
  tk_source_id :: string
  tk_target_id :: string
  tk_site :: site_context
  tk_device_count :: int
  tk_devices :: "device_data list"

definition MAX_DEVICES_PER_PACK :: nat where "MAX_DEVICES_PER_PACK = 8"
definition MAX_CLIENT_ID_LEN :: nat where "MAX_CLIENT_ID_LEN = 32"
definition MAX_DEVICE_NAME_LEN :: nat where "MAX_DEVICE_NAME_LEN = 64"
definition DEFAULT_PORT_ID :: string where "DEFAULT_PORT_ID = ''port_001''"
definition DEFAULT_PORT_NAME :: string where "DEFAULT_PORT_NAME = ''RS485-1''"

fun device_type_to_str :: "device_type_t \<Rightarrow> string" where
  "device_type_to_str DEV_SENSOR_TH = ''sensor_th''"
| "device_type_to_str DEV_RELAY = ''relay''"
| "device_type_to_str DEV_ELECTRIC_METER = ''electric_meter''"
| "device_type_to_str DEV_SYSINFO = ''sysinfo''"
| "device_type_to_str DEV_UNKNOWN = ''unknown''"

definition fill_default_site :: site_context where
  "fill_default_site =
    \<lparr>sx_factory_id = copy_text MAX_CLIENT_ID_LEN (Some DEFAULT_FACTORY_ID),
     sx_factory_name = copy_text MAX_DEVICE_NAME_LEN (Some DEFAULT_FACTORY_NAME),
     sx_area_id = copy_text MAX_CLIENT_ID_LEN (Some DEFAULT_AREA_ID),
     sx_area_name = copy_text MAX_DEVICE_NAME_LEN (Some DEFAULT_AREA_NAME),
     sx_gateway_id = copy_text MAX_CLIENT_ID_LEN (Some DEFAULT_GATEWAY_ID),
     sx_gateway_name = copy_text MAX_DEVICE_NAME_LEN (Some DEFAULT_GATEWAY_NAME),
     sx_port_id = copy_text MAX_CLIENT_ID_LEN (Some DEFAULT_PORT_ID),
     sx_port_name = copy_text MAX_DEVICE_NAME_LEN (Some DEFAULT_PORT_NAME)\<rparr>"

definition fill_slot_site :: "int \<Rightarrow> site_context" where
  "fill_slot_site slot =
     (if slot = 1
      then fill_default_site\<lparr>sx_port_id := copy_text MAX_CLIENT_ID_LEN (Some ''port_002''),
             sx_port_name := copy_text MAX_DEVICE_NAME_LEN (Some ''RS485-2'')\<rparr>
      else fill_default_site)"

definition site_to_json :: "'v json_c \<Rightarrow> site_context \<Rightarrow> 'v" where
  "site_to_json C site = jc_object C
     [(''factoryId'', jc_string C (sx_factory_id site)), (''factoryName'', jc_string C (sx_factory_name site)),
      (''areaId'', jc_string C (sx_area_id site)), (''areaName'', jc_string C (sx_area_name site)),
      (''gatewayId'', jc_string C (sx_gateway_id site)), (''gatewayName'', jc_string C (sx_gateway_name site)),
      (''portId'', jc_string C (sx_port_id site)), (''portName'', jc_string C (sx_port_name site))]"

definition default_device_name :: "device_data \<Rightarrow> string" where
  "default_device_name dev =
     (if dv_device_name dev \<noteq> [] then dv_device_name dev
      else copy_text MAX_DEVICE_NAME_LEN (Some (''Device '' @ to_string (dv_device_id dev))))"

text \<open>The text for a reading that is not valid and has no message of its own.\<close>

definition invalid_text :: string where
  "invalid_text = [CHR 0xE6, CHR 0x95, CHR 0xB0, CHR 0xE6, CHR 0x8D, CHR 0xAE, CHR 0xE6, CHR 0x97, CHR 0xA0, CHR 0xE6, CHR 0x95, CHR 0x88]"

definition relay_channels :: "device_data \<Rightarrow> int" where
  "relay_channels dev = (if dv_channel_count dev > 0 then dv_channel_count dev else 16)"

subsection \<open>The members of one device\<close>

definition device_head :: "'v json_c \<Rightarrow> int \<Rightarrow> device_data \<Rightarrow> (string \<times> 'v) list" where
  "device_head C now dev =
    [(''deviceId'', jc_int C (dv_device_id dev)), (''deviceName'', jc_string C (default_device_name dev)),
     (''deviceType'', jc_string C (device_type_to_str (dv_type dev))), (''timestampMs'', jc_int64 C now),
     (''valid'', jc_bool C (dv_valid dev)),
     (''errorMessage'', jc_string C (if dv_valid dev \<or> dv_error_message dev \<noteq> []
        then dv_error_message dev else invalid_text)),
     (''id'', jc_int C (dv_device_id dev)), (''type'', jc_string C (device_type_to_str (dv_type dev)))]"

definition th_members :: "'v json_c \<Rightarrow> device_data \<Rightarrow> (string \<times> 'v) list" where
  "th_members C dev =
    (let t = jc_double C (dv_temperature dev); h = jc_double C (dv_humidity dev)
     in [(''th'', jc_object C [(''temperature'', t), (''humidity'', h)]),
         (''temperature'', t), (''humidity'', h), (''temp'', t), (''humi'', h)])"

definition relay_members :: "'v json_c \<Rightarrow> device_data \<Rightarrow> (string \<times> 'v) list" where
  "relay_members C dev =
    (let states = jc_int C (uint (dv_relay_states dev)); n = jc_int C (relay_channels dev)
     in [(''relay'', jc_object C [(''relayStates'', states), (''channelCount'', n)]),
         (''relayStates'', states), (''channelCount'', n), (''states'', states)])"

definition meter_members :: "'v json_c \<Rightarrow> device_data \<Rightarrow> (string \<times> 'v) list" where
  "meter_members C dev =
    (let m = dv_meter dev;
         values = [(''voltage'', jc_double C (mv_voltage m)), (''current'', jc_double C (mv_current m)),
                   (''power'', jc_double C (mv_power m)), (''energy'', jc_double C (mv_energy m))]
     in (''meter'', jc_object C values) # values)"

definition sys_members :: "'v json_c \<Rightarrow> device_data \<Rightarrow> (string \<times> 'v) list" where
  "sys_members C dev =
    (let s = dv_sys dev;
         values = [(''kernel'', jc_string C (sv_kernel s)), (''arch'', jc_string C (sv_arch s)),
                   (''os'', jc_string C (sv_os s)), (''screenWidth'', jc_int C (sv_screen_w s)),
                   (''screenHeight'', jc_int C (sv_screen_h s)), (''cpuUsage'', jc_double C (sv_cpu_usage s)),
                   (''memoryUsage'', jc_double C (sv_memory_usage s))]
     in (''sys'', jc_object C values) # values
        @ [(''screen_w'', jc_int C (sv_screen_w s)), (''screen_h'', jc_int C (sv_screen_h s))])"

definition type_members :: "'v json_c \<Rightarrow> device_data \<Rightarrow> (string \<times> 'v) list" where
  "type_members C dev =
    (case dv_type dev of
       DEV_SENSOR_TH \<Rightarrow> th_members C dev
     | DEV_RELAY \<Rightarrow> relay_members C dev
     | DEV_ELECTRIC_METER \<Rightarrow> meter_members C dev
     | DEV_SYSINFO \<Rightarrow> sys_members C dev
     | DEV_UNKNOWN \<Rightarrow> [])"

definition number_point :: "'v json_c \<Rightarrow> string \<Rightarrow> string \<Rightarrow> fval \<Rightarrow> string \<Rightarrow> 'v" where
  "number_point C key nm value unit = jc_object C
     [(''pointKey'', jc_string C key), (''pointName'', jc_string C nm),
      (''valueType'', jc_string C ''Number''), (''numberValue'', jc_double C value),
      (''unit'', jc_string C unit)]"

definition relay_point_json :: "'v json_c \<Rightarrow> device_data \<Rightarrow> 'v" where
  "relay_point_json C dev = jc_object C
     [(''pointKey'', jc_string C ''relay.ch1''),
      (''pointName'', jc_string C ([CHR 0xE7, CHR 0xBB, CHR 0xA7, CHR 0xE7, CHR 0x94, CHR 0xB5,
         CHR 0xE5, CHR 0x99, CHR 0xA8, CHR 0xE9, CHR 0x80, CHR 0x9A, CHR 0xE9, CHR 0x81, CHR 0x93] @ ''1'')),
      (''valueType'', jc_string C ''Boolean''), (''boolValue'', jc_bool C (dv_relay_states dev AND 1 \<noteq> 0)),
      (''unit'', jc_string C [])]"

definition device_points_json :: "'v json_c \<Rightarrow> device_data \<Rightarrow> 'v list" where
  "device_points_json C dev =
    (case dv_type dev of
       DEV_SENSOR_TH \<Rightarrow>
         [number_point C ''temperature'' [CHR 0xE6, CHR 0xB8, CHR 0xA9, CHR 0xE5, CHR 0xBA, CHR 0xA6]
            (dv_temperature dev) [CHR 0xE2, CHR 0x84, CHR 0x83],
          number_point C ''humidity'' [CHR 0xE6, CHR 0xB9, CHR 0xBF, CHR 0xE5, CHR 0xBA, CHR 0xA6]
            (dv_humidity dev) [CHR 0x25]]
     | DEV_RELAY \<Rightarrow> [relay_point_json C dev]
     | _ \<Rightarrow> [])"

definition pack_device_json :: "'v json_c \<Rightarrow> int \<Rightarrow> device_data \<Rightarrow> 'v" where
  "pack_device_json C now dev =
    (let points = device_points_json C dev
     in jc_object C (device_head C now dev @ type_members C dev
          @ (if points = [] then [] else [(''points'', jc_array C points)])))"

subsection \<open>The pack\<close>

text \<open>
  \<open>seq\<close> is the static counter of the function; the pack carries its value before the
  increment.
\<close>

definition telemetry_pack_single_for_slot ::
    "32 word \<Rightarrow> int \<Rightarrow> int \<Rightarrow> device_data option \<Rightarrow> telemetry_pack \<times> 32 word" where
  "telemetry_pack_single_for_slot seq now slot dev =
     (\<lparr>tk_seq = seq, tk_timestamp = now div 1000, tk_timestamp_ms = now,
       tk_source_id = copy_text MAX_CLIENT_ID_LEN (Some DEFAULT_SOURCE_ID),
       tk_target_id = copy_text MAX_CLIENT_ID_LEN (Some DEFAULT_TARGET_ID),
       tk_site = fill_slot_site slot, tk_device_count = 1,
       tk_devices = (case dev of None \<Rightarrow> replicate MAX_DEVICES_PER_PACK device_data_zero
         | Some d \<Rightarrow> (replicate MAX_DEVICES_PER_PACK device_data_zero)[0 := d])\<rparr>, seq + 1)"

definition pack_json :: "'v json_c \<Rightarrow> int \<Rightarrow> telemetry_pack \<Rightarrow> 'v" where
  "pack_json C now pack = jc_object C
     [(''type'', jc_string C ''telemetry_pack''), (''version'', jc_int C PROTOCOL_VER),
      (''sequence'', jc_int64 C (uint (tk_seq pack))), (''timestampMs'', jc_int64 C (tk_timestamp_ms pack)),
      (''sourceId'', jc_string C (tk_source_id pack)), (''targetId'', jc_string C (tk_target_id pack)),
      (''site'', site_to_json C (tk_site pack)), (''ver'', jc_int C PROTOCOL_VER),
      (''seq'', jc_int64 C (uint (tk_seq pack))), (''time'', jc_int64 C (tk_timestamp pack)),
      (''count'', jc_int C (tk_device_count pack)),
      (''devices'', jc_array C (map (pack_device_json C now)
         (take (min MAX_DEVICES_PER_PACK (nat (tk_device_count pack))) (tk_devices pack))))]"

text \<open>\<open>None\<close> is the result -1; the text ends with a line feed.\<close>

definition telemetry_pack_to_json :: "'v json_c \<Rightarrow> int \<Rightarrow> telemetry_pack \<Rightarrow> int \<Rightarrow> string option" where
  "telemetry_pack_to_json C now pack buf_size =
     (if buf_size \<le> 0 then None
      else let json = c_str (jc_print C (pack_json C now pack))
           in if int (length json) + 2 > buf_size then None else Some (json @ [CHR 0x0A]))"

lemma text_plain: "telemetry_pack_to_json C now pack n = Some text \<Longrightarrow> c_str text = text"
  by (auto simp: telemetry_pack_to_json_def Let_def c_str_def takeWhile_append split: if_splits)
    (auto dest: set_takeWhileD)

lemma text_length: "telemetry_pack_to_json C now pack n = Some text \<Longrightarrow> int (length text) + 1 \<le> n"
  by (auto simp: telemetry_pack_to_json_def Let_def split: if_splits)

end
