(* ===== verification/ConfigSync.thy ===== *)
theory ConfigSync
  imports BoardNet DataTelemetry
begin

text \<open>
  Linux_data/data/data_config_sync.c: the board's registrations and configuration snapshots,
  each kept until Pc_data acknowledges it.  At most one message is active; up to eight wait.
  The clock is read once per operation.  The texts sent to the user interface go through
  \<open>ipc_server_send\<close>; the messages to the broker go through \<open>net_publish_or_cache\<close>.
\<close>

definition CONFIG_SYNC_PAYLOAD_MAX :: nat where "CONFIG_SYNC_PAYLOAD_MAX = 65536"
definition CONFIG_SYNC_REASON_MAX :: nat where "CONFIG_SYNC_REASON_MAX = 128"
definition CONFIG_SYNC_ACK_TIMEOUT_MS :: int where "CONFIG_SYNC_ACK_TIMEOUT_MS = 5000"
definition CONFIG_SYNC_RETRY_INTERVAL_MS :: int where "CONFIG_SYNC_RETRY_INTERVAL_MS = 8000"
definition CONFIG_SYNC_MAX_FAST_RETRY_COUNT :: int where "CONFIG_SYNC_MAX_FAST_RETRY_COUNT = 3"
definition CONFIG_SYNC_PENDING_MAX :: nat where "CONFIG_SYNC_PENDING_MAX = 8"
definition MAX_CMD_NAME_LEN :: nat where "MAX_CMD_NAME_LEN = 32"

record config_sync_pending =
  pq_used :: bool
  pq_seq :: "32 word"
  pq_cmd :: string
  pq_port_id :: string
  pq_payload :: string

record config_sync =
  cs_config_version :: "32 word"
  cs_last_acked_version :: "32 word"
  cs_pending_seq :: "32 word"
  cs_status :: string
  cs_reason :: string
  cs_message :: string
  cs_retry_count :: int
  cs_retryable :: bool
  cs_last_send_ms :: int
  cs_last_ack_ms :: int
  cs_pending_cmd :: string
  cs_pending_port_id :: string
  cs_pending_snapshot :: string
  cs_last_acked_snapshot :: bool
  cs_queue :: "config_sync_pending list"
  cs_seq :: "32 word"

record sync_net = board_net +
  sn_sync :: config_sync

abbreviation on_sync :: "(config_sync \<Rightarrow> config_sync) \<Rightarrow> 'a sync_net_scheme \<Rightarrow> 'a sync_net_scheme" where
  "on_sync f n \<equiv> n\<lparr>sn_sync := f (sn_sync n)\<rparr>"

definition pending_zero :: config_sync_pending where
  "pending_zero = \<lparr>pq_used = False, pq_seq = 0, pq_cmd = [], pq_port_id = [], pq_payload = []\<rparr>"

definition config_sync_new :: config_sync where
  "config_sync_new = \<lparr>cs_config_version = 0, cs_last_acked_version = 0, cs_pending_seq = 0,
     cs_status = ''idle'', cs_reason = [], cs_message = [], cs_retry_count = 0, cs_retryable = True,
     cs_last_send_ms = 0, cs_last_ack_ms = 0, cs_pending_cmd = [], cs_pending_port_id = [],
     cs_pending_snapshot = [], cs_last_acked_snapshot = False,
     cs_queue = replicate CONFIG_SYNC_PENDING_MAX pending_zero, cs_seq = 50000\<rparr>"

subsection \<open>Texts for the user\<close>

definition text_syncing :: string where
  "text_syncing = [CHR 0xE6, CHR 0xB3, CHR 0xA8, CHR 0xE5, CHR 0x86, CHR 0x8C, CHR 0xE8, CHR 0xA1, CHR 0xA8] @
     [CHR 0xE5, CHR 0x90, CHR 0x8C, CHR 0xE6, CHR 0xAD, CHR 0xA5, CHR 0xE4, CHR 0xB8, CHR 0xAD] @
     [CHR 0xEF, CHR 0xBC, CHR 0x8C, CHR 0xE7, CHR 0xAD, CHR 0x89, CHR 0xE5, CHR 0xBE, CHR 0x85] @
     '' Pc_data '' @
     [CHR 0xE7, CHR 0xA1, CHR 0xAE, CHR 0xE8, CHR 0xAE, CHR 0xA4]"

definition text_offline :: string where
  "text_offline = ''MQTT '' @
     [CHR 0xE6, CHR 0x9C, CHR 0xAA, CHR 0xE8, CHR 0xBF, CHR 0x9E, CHR 0xE6, CHR 0x8E, CHR 0xA5] @
     [CHR 0xEF, CHR 0xBC, CHR 0x8C, CHR 0xE6, CHR 0xB3, CHR 0xA8, CHR 0xE5, CHR 0x86, CHR 0x8C] @
     [CHR 0xE8, CHR 0xA1, CHR 0xA8, CHR 0xE4, CHR 0xBB, CHR 0x85, CHR 0xE4, CHR 0xBF, CHR 0x9D] @
     [CHR 0xE5, CHR 0xAD, CHR 0x98, CHR 0xE5, CHR 0x9C, CHR 0xA8, CHR 0xE6, CHR 0x9C, CHR 0xAC] @
     [CHR 0xE5, CHR 0x9C, CHR 0xB0]"

definition text_synced :: string where
  "text_synced = [CHR 0xE6, CHR 0xB3, CHR 0xA8, CHR 0xE5, CHR 0x86, CHR 0x8C, CHR 0xE8, CHR 0xA1, CHR 0xA8] @
     [CHR 0xE5, CHR 0xB7, CHR 0xB2, CHR 0xE5, CHR 0x90, CHR 0x8C, CHR 0xE6, CHR 0xAD, CHR 0xA5]"

definition text_confirmed :: string where
  "text_confirmed = [CHR 0xE6, CHR 0xB3, CHR 0xA8, CHR 0xE5, CHR 0x86, CHR 0x8C, CHR 0xE7, CHR 0xB1, CHR 0xBB] @
     [CHR 0xE6, CHR 0x95, CHR 0xB0, CHR 0xE6, CHR 0x8D, CHR 0xAE, CHR 0xE5, CHR 0xB7, CHR 0xB2] @
     [CHR 0xE7, CHR 0xA1, CHR 0xAE, CHR 0xE8, CHR 0xAE, CHR 0xA4]"

definition text_no_ack :: string where
  "text_no_ack = [CHR 0xE6, CHR 0x9C, CHR 0xAA, CHR 0xE6, CHR 0x94, CHR 0xB6, CHR 0xE5, CHR 0x88, CHR 0xB0] @
     '' Pc_data '' @
     [CHR 0xE7, CHR 0xA1, CHR 0xAE, CHR 0xE8, CHR 0xAE, CHR 0xA4, CHR 0xEF, CHR 0xBC, CHR 0x8C] @
     [CHR 0xE6, CHR 0xAD, CHR 0xA3, CHR 0xE5, CHR 0x9C, CHR 0xA8, CHR 0xE9, CHR 0x87, CHR 0x8D] @
     [CHR 0xE8, CHR 0xAF, CHR 0x95]"

definition text_no_answer :: string where
  "text_no_answer = ''Pc_data '' @
     [CHR 0xE9, CHR 0x95, CHR 0xBF, CHR 0xE6, CHR 0x97, CHR 0xB6, CHR 0xE9, CHR 0x97, CHR 0xB4] @
     [CHR 0xE6, CHR 0x97, CHR 0xA0, CHR 0xE5, CHR 0x93, CHR 0x8D, CHR 0xE5, CHR 0xBA, CHR 0x94] @
     [CHR 0xEF, CHR 0xBC, CHR 0x8C, CHR 0xE8, CHR 0xAF, CHR 0xB7, CHR 0xE6, CHR 0xA3, CHR 0x80] @
     [CHR 0xE6, CHR 0x9F, CHR 0xA5] @
     '' Pc_data / MQTT / topic '' @
     [CHR 0xE9, CHR 0x85, CHR 0x8D, CHR 0xE7, CHR 0xBD, CHR 0xAE]"

definition set_status :: "string \<Rightarrow> config_sync \<Rightarrow> config_sync" where
  "set_status t s = s\<lparr>cs_status := copy_text 24 (Some t)\<rparr>"

definition set_reason :: "string option \<Rightarrow> config_sync \<Rightarrow> config_sync" where
  "set_reason t s = s\<lparr>cs_reason := copy_text CONFIG_SYNC_REASON_MAX t\<rparr>"

definition set_message :: "string option \<Rightarrow> config_sync \<Rightarrow> config_sync" where
  "set_message t s = s\<lparr>cs_message := copy_text CONFIG_SYNC_REASON_MAX t\<rparr>"

definition sync_state_json :: "'v json_c \<Rightarrow> config_sync \<Rightarrow> 'v" where
  "sync_state_json C s = jc_object C
     [(''type'', jc_string C ''config_sync_state''), (''configVersion'', jc_int64 C (uint (cs_config_version s))),
      (''lastAckedConfigVersion'', jc_int64 C (uint (cs_last_acked_version s))),
      (''pendingSeq'', jc_int64 C (uint (cs_pending_seq s))), (''status'', jc_string C (cs_status s)),
      (''reason'', jc_string C (cs_reason s)), (''message'', jc_string C (cs_message s)),
      (''retryCount'', jc_int C (cs_retry_count s)), (''retryable'', jc_bool C (cs_retryable s)),
      (''lastSendTimeMs'', jc_int64 C (cs_last_send_ms s)), (''lastAckTimeMs'', jc_int64 C (cs_last_ack_ms s))]"

definition publish_state_locked :: "'v net_env \<Rightarrow> 'a sync_net_scheme \<Rightarrow> 'a sync_net_scheme" where
  "publish_state_locked E n =
     snd (ipc_server_send E (Some (jc_print (ne_json E) (sync_state_json (ne_json E) (sn_sync n)))) n)"

subsection \<open>The active message and the waiting ones\<close>

definition next_seq_locked :: "config_sync \<Rightarrow> 32 word \<times> config_sync" where
  "next_seq_locked s = (let n = cs_seq s + 1 in (n, s\<lparr>cs_seq := n\<rparr>))"

definition is_snapshot_cmd :: "string option \<Rightarrow> bool" where
  "is_snapshot_cmd cmd \<longleftrightarrow> cmd = Some ''config_snapshot'' \<or> cmd = Some ''device_config_snapshot''"

definition has_active_pending :: "config_sync \<Rightarrow> bool" where
  "has_active_pending s \<longleftrightarrow> cs_pending_snapshot s \<noteq> [] \<and> cs_pending_seq s \<noteq> 0"

definition set_active_pending :: "int \<Rightarrow> 32 word \<Rightarrow> string option \<Rightarrow> string option \<Rightarrow> string option
    \<Rightarrow> config_sync \<Rightarrow> config_sync" where
  "set_active_pending now seq cmd payload port_id s =
     s\<lparr>cs_pending_seq := seq, cs_pending_cmd := copy_text MAX_CMD_NAME_LEN cmd,
       cs_pending_port_id := copy_text 32 port_id,
       cs_pending_snapshot := copy_text CONFIG_SYNC_PAYLOAD_MAX payload,
       cs_retry_count := 0, cs_retryable := True, cs_last_send_ms := now\<rparr>"

definition clear_active_pending :: "config_sync \<Rightarrow> config_sync" where
  "clear_active_pending s = s\<lparr>cs_pending_seq := 0, cs_pending_snapshot := [], cs_pending_cmd := [],
     cs_pending_port_id := []\<rparr>"

definition first_index :: "('a \<Rightarrow> bool) \<Rightarrow> 'a list \<Rightarrow> nat option" where
  "first_index P xs = find (\<lambda>i. P (xs ! i)) [0..<length xs]"

definition enqueue_pending :: "32 word \<Rightarrow> string option \<Rightarrow> string option \<Rightarrow> string option
    \<Rightarrow> config_sync \<Rightarrow> int \<times> config_sync" where
  "enqueue_pending seq cmd payload port_id s =
     (let name = (case cmd of None \<Rightarrow> [] | Some c \<Rightarrow> c); q = cs_queue s
      in case first_index (\<lambda>p. pq_used p \<and> pq_seq p = seq \<and> pq_cmd p = name) q of
           Some i \<Rightarrow> (DATA_SEND_OK, s\<lparr>cs_queue := q[i := (q ! i)\<lparr>pq_port_id := copy_text 32 port_id,
                        pq_payload := copy_text CONFIG_SYNC_PAYLOAD_MAX payload\<rparr>]\<rparr>)
         | None \<Rightarrow>
            (case first_index (\<lambda>p. \<not> pq_used p) q of
               Some i \<Rightarrow> (DATA_SEND_OK, s\<lparr>cs_queue := q[i := \<lparr>pq_used = True, pq_seq = seq,
                            pq_cmd = copy_text MAX_CMD_NAME_LEN cmd, pq_port_id = copy_text 32 port_id,
                            pq_payload = copy_text CONFIG_SYNC_PAYLOAD_MAX payload\<rparr>]\<rparr>)
             | None \<Rightarrow> (DATA_SEND_MQTT_QUEUE_FULL, s)))"

definition promote_next_pending :: "int \<Rightarrow> config_sync \<Rightarrow> config_sync" where
  "promote_next_pending now s =
     (if has_active_pending s then s
      else case first_index pq_used (cs_queue s) of
             None \<Rightarrow> s
           | Some i \<Rightarrow>
               let p = cs_queue s ! i
               in (set_active_pending now (pq_seq p) (Some (pq_cmd p)) (Some (pq_payload p)) (Some (pq_port_id p)) s)
                    \<lparr>cs_queue := (cs_queue s)[i := pending_zero]\<rparr>)"

definition remove_queued_pending :: "32 word \<Rightarrow> string option \<Rightarrow> config_sync \<Rightarrow> bool \<times> config_sync" where
  "remove_queued_pending seq cmd s =
     (case first_index (\<lambda>p. pq_used p \<and> pq_seq p = seq
             \<and> (case cmd of None \<Rightarrow> True | Some c \<Rightarrow> c = [] \<or> pq_cmd p = c)) (cs_queue s) of
        None \<Rightarrow> (False, s)
      | Some i \<Rightarrow> (True, s\<lparr>cs_queue := (cs_queue s)[i := pending_zero]\<rparr>))"

subsection \<open>Sending\<close>

definition show_waiting :: "bool \<Rightarrow> config_sync \<Rightarrow> config_sync" where
  "show_waiting up s =
     (if up then set_message (Some text_syncing) (set_status ''syncing'' s)
      else set_message (Some text_offline) (set_status ''offline'' s))"

definition next_version :: "config_sync \<Rightarrow> config_sync" where
  "next_version s = s\<lparr>cs_config_version := cs_config_version s + 1\<rparr>"

definition no_zero_version :: "config_sync \<Rightarrow> config_sync" where
  "no_zero_version s = (if cs_config_version s = 0 then s\<lparr>cs_config_version := 1\<rparr> else s)"

text \<open>The message becomes the active one when there is none, or replaces itself; else it waits.\<close>

definition take_pending :: "int \<Rightarrow> 32 word \<Rightarrow> string \<Rightarrow> string \<Rightarrow> string option \<Rightarrow> config_sync
    \<Rightarrow> int \<times> config_sync" where
  "take_pending now seq cmd payload port_id s =
     (if \<not> has_active_pending s \<or> cs_pending_seq s = seq \<and> cs_pending_cmd s = cmd
      then (DATA_SEND_OK, set_active_pending now seq (Some cmd) (Some payload) port_id s)
      else enqueue_pending seq (Some cmd) (Some payload) port_id s)"

definition data_config_sync_mark_sent :: "'v net_env \<Rightarrow> int \<Rightarrow> 32 word \<Rightarrow> string option \<Rightarrow> string option
    \<Rightarrow> string option \<Rightarrow> 'a sync_net_scheme \<Rightarrow> int \<times> 'a sync_net_scheme" where
  "data_config_sync_mark_sent E now seq cmd payload port_id n =
     (case (cmd, payload) of
        (Some cmd, Some payload) \<Rightarrow>
          if c_str payload = [] then (DATA_SEND_INVALID_ARG, n)
          else
            let s = (if is_snapshot_cmd (Some cmd) then next_version (sn_sync n) else sn_sync n);
                (ret, s) = take_pending now seq cmd payload port_id (no_zero_version s);
                s = show_waiting (mqtt_is_connected (bn_mqtt n)) (set_reason (Some []) s)
            in (ret, publish_state_locked E (n\<lparr>sn_sync := s\<rparr>))
      | _ \<Rightarrow> (DATA_SEND_INVALID_ARG, n))"

definition sync_meta :: "string \<Rightarrow> string \<Rightarrow> int \<Rightarrow> offline_publish_meta" where
  "sync_meta message_type port_id ts = meta_zero\<lparr>ofm_message_type := Some message_type,
     ofm_gateway_id := Some DEFAULT_GATEWAY_ID, ofm_port_id := Some port_id, ofm_priority := 0,
     ofm_timestamp_ms := ts\<rparr>"

definition put_member :: "'v json_c \<Rightarrow> string \<Rightarrow> 'v \<Rightarrow> 'v \<Rightarrow> 'v" where
  "put_member C key v doc = jc_add C (jc_del C doc key) key v"

definition send_pending_locked :: "'v net_env \<Rightarrow> int \<Rightarrow> 32 word \<Rightarrow> 'a sync_net_scheme
    \<Rightarrow> int \<times> 'a sync_net_scheme" where
  "send_pending_locked E now seq n =
     (let C = ne_json E; s = sn_sync n
      in if cs_pending_snapshot s = [] then (DATA_SEND_INVALID_ARG, n)
         else case jc_parse C (cs_pending_snapshot s) of None \<Rightarrow> (DATA_SEND_JSON_ERROR, n)
         | Some doc \<Rightarrow>
             let doc = put_member C ''seq'' (jc_int64 C (uint seq)) doc;
                 doc = put_member C ''configVersion'' (jc_int64 C (uint (cs_config_version s))) doc;
                 json = c_str (jc_print C doc);
                 s = s\<lparr>cs_pending_snapshot := copy_text CONFIG_SYNC_PAYLOAD_MAX (Some json),
                       cs_pending_seq := seq, cs_last_send_ms := now\<rparr>;
                 meta = sync_meta (if cs_pending_cmd s \<noteq> [] then cs_pending_cmd s else ''config_snapshot'')
                          (if cs_pending_port_id s \<noteq> [] then cs_pending_port_id s else DEFAULT_PORT_ID) now
             in net_publish_or_cache (ne_sql E) now (Some MQTT_GATEWAY_REGISTER_TOPIC) (Some json) (Some meta)
                  (n\<lparr>sn_sync := s\<rparr>))"

text \<open>
  \<open>snapshot\<close> is what \<open>port_manager_export_config_snapshot\<close> writes to its buffer, \<open>None\<close> when
  it fails.
\<close>

definition data_config_sync_publish_latest_snapshot :: "'v net_env \<Rightarrow> int \<Rightarrow> 32 word \<Rightarrow> string option
    \<Rightarrow> 'a sync_net_scheme \<Rightarrow> int \<times> 'a sync_net_scheme" where
  "data_config_sync_publish_latest_snapshot E now seq snapshot n =
     (let C = ne_json E
      in case snapshot of None \<Rightarrow> (DATA_SEND_JSON_ERROR, n)
      | Some text0 \<Rightarrow>
         (case jc_parse C text0 of None \<Rightarrow> (DATA_SEND_JSON_ERROR, n)
          | Some doc \<Rightarrow>
             let s = no_zero_version (next_version (sn_sync n));
                 json = c_str (jc_print C
                   (put_member C ''configVersion'' (jc_int64 C (uint (cs_config_version s))) doc));
                 s = snd (take_pending now seq ''config_snapshot'' json (Some DEFAULT_PORT_ID) s);
                 s = show_waiting (mqtt_is_connected (bn_mqtt n)) (set_reason (Some []) s);
                 (ret, n) = net_publish_or_cache (ne_sql E) now (Some MQTT_GATEWAY_REGISTER_TOPIC) (Some json)
                   (Some (sync_meta ''config_snapshot'' DEFAULT_PORT_ID (cs_last_send_ms s))) (n\<lparr>sn_sync := s\<rparr>)
             in (ret, publish_state_locked E n)))"

subsection \<open>Acknowledgements\<close>

definition string_in_register_cmds :: "string option \<Rightarrow> bool" where
  "string_in_register_cmds cmd \<longleftrightarrow> (case cmd of None \<Rightarrow> False | Some c \<Rightarrow>
     c \<in> {''gateway_register'', ''port_register'', ''port_status'', ''device_register'',
          ''config_snapshot'', ''device_config_snapshot''})"

record sync_ack =
  sa_cmd :: string
  sa_seq :: "32 word"
  sa_version :: "32 word"
  sa_ok :: bool
  sa_status :: "string option"
  sa_reason :: "string option"
  sa_message :: "string option"
  sa_retryable :: bool

definition word_member :: "'v json_c \<Rightarrow> 'v \<Rightarrow> string \<Rightarrow> 32 word" where
  "word_member C doc key = (case jc_get C doc key of None \<Rightarrow> 0 | Some v \<Rightarrow> word_of_int (jc_get_int64 C v))"

definition bool_member :: "'v json_c \<Rightarrow> 'v \<Rightarrow> string \<Rightarrow> bool \<Rightarrow> bool" where
  "bool_member C doc key d = (case jc_get C doc key of None \<Rightarrow> d | Some v \<Rightarrow> jc_get_boolean C v)"

definition read_ack :: "'v json_c \<Rightarrow> string option \<Rightarrow> sync_ack option" where
  "read_ack C payload =
     (case payload of None \<Rightarrow> None
      | Some text0 \<Rightarrow>
         (case jc_parse C text0 of None \<Rightarrow> None
          | Some doc \<Rightarrow>
             if jc_string_member C doc ''type'' [] \<noteq> Some ''ack'' then None
             else let cmd = jc_string_member C doc ''cmd'' []
               in if \<not> string_in_register_cmds cmd then None
                  else Some \<lparr>sa_cmd = the cmd, sa_seq = word_member C doc ''seq'',
                    sa_version = word_member C doc ''configVersion'', sa_ok = bool_member C doc ''ok'' False,
                    sa_status = jc_string_member C doc ''status'' [],
                    sa_reason = jc_string_member C doc ''reason'' [],
                    sa_message = jc_string_member C doc ''message'' [],
                    sa_retryable = bool_member C doc ''retryable'' True\<rparr>))"

definition active_match :: "sync_ack \<Rightarrow> config_sync \<Rightarrow> bool" where
  "active_match a s \<longleftrightarrow> sa_seq a \<noteq> 0 \<and> cs_pending_seq s = sa_seq a
     \<and> (sa_cmd a = [] \<or> cs_pending_cmd s = sa_cmd a)"

definition show_left :: "string \<Rightarrow> config_sync \<Rightarrow> config_sync" where
  "show_left done_text s =
     (if cs_pending_snapshot s \<noteq> [] then set_message (Some text_syncing) (set_status ''syncing'' s)
      else set_message (Some done_text) (set_status ''success'' s))"

definition ack_success :: "int \<Rightarrow> sync_ack \<Rightarrow> bool \<Rightarrow> config_sync \<Rightarrow> config_sync" where
  "ack_success now a active s =
     (let s = set_reason (Some []) (s\<lparr>cs_retry_count := 0\<rparr>)
      in if is_snapshot_cmd (Some (sa_cmd a))
         then let s = s\<lparr>cs_last_acked_version := (if sa_version a > 0 then sa_version a else cs_config_version s),
                        cs_last_acked_snapshot := True\<rparr>;
                  s = (if active then clear_active_pending s else s)
              in show_left text_synced (promote_next_pending now s)
         else if active then show_left text_confirmed (promote_next_pending now (clear_active_pending s))
         else show_left text_confirmed s)"

definition ack_failure :: "sync_ack \<Rightarrow> config_sync \<Rightarrow> config_sync" where
  "ack_failure a s =
     (let s = set_status (if sa_status a = Some ''partial_failed'' then ''partial_failed'' else ''failed'') s
      in if sa_message a = None \<or> sa_message a = Some [] then set_message (sa_reason a) s else s)"

text \<open>\<open>None\<close>: the acknowledgement is dropped.\<close>

definition apply_ack :: "int \<Rightarrow> sync_ack \<Rightarrow> config_sync \<Rightarrow> config_sync option" where
  "apply_ack now a s =
     (let active = active_match a s;
          (queued, s) = (if \<not> active \<and> sa_seq a \<noteq> 0 then remove_queued_pending (sa_seq a) (Some (sa_cmd a)) s
                         else (False, s))
      in if is_snapshot_cmd (Some (sa_cmd a)) \<and> sa_seq a \<noteq> 0 \<and> cs_pending_seq s \<noteq> 0
            \<and> sa_seq a \<noteq> cs_pending_seq s \<and> \<not> queued then None
         else let s = set_message (sa_message a) (set_reason (sa_reason a)
                        (s\<lparr>cs_last_ack_ms := now, cs_retryable := sa_retryable a\<rparr>))
              in Some (if sa_ok a then ack_success now a active s else ack_failure a s))"

definition data_config_sync_handle_ack_json :: "'v net_env \<Rightarrow> int \<Rightarrow> string option
    \<Rightarrow> 'a sync_net_scheme \<Rightarrow> 'a sync_net_scheme" where
  "data_config_sync_handle_ack_json E now payload n =
     (case read_ack (ne_json E) payload of None \<Rightarrow> n
      | Some a \<Rightarrow>
         (case apply_ack now a (sn_sync n) of None \<Rightarrow> n
          | Some s \<Rightarrow> publish_state_locked E (n\<lparr>sn_sync := s\<rparr>)))"

subsection \<open>The clock\<close>

text \<open>A status that is not yet shown, with its text, and the state sent to the user interface.\<close>

definition show_once :: "'v net_env \<Rightarrow> string \<Rightarrow> string \<Rightarrow> 'a sync_net_scheme \<Rightarrow> 'a sync_net_scheme" where
  "show_once E status text0 n =
     (if cs_status (sn_sync n) \<noteq> status
      then publish_state_locked E (on_sync (\<lambda>s. set_message (Some text0) (set_status status s)) n) else n)"

definition resend :: "'v net_env \<Rightarrow> int \<Rightarrow> 'a sync_net_scheme \<Rightarrow> 'a sync_net_scheme" where
  "resend E now n =
     (let s = (sn_sync n)\<lparr>cs_retry_count := cs_retry_count (sn_sync n) + 1\<rparr>;
          (seq, s) = next_seq_locked s;
          s = (if cs_retry_count s > CONFIG_SYNC_MAX_FAST_RETRY_COUNT
               then set_message (Some text_no_answer) (set_status ''retrying'' s)
               else set_message (Some text_no_ack) (set_status ''timeout'' s))
      in publish_state_locked E (snd (send_pending_locked E now seq (n\<lparr>sn_sync := s\<rparr>))))"

definition data_config_sync_tick :: "'v net_env \<Rightarrow> int \<Rightarrow> 'a sync_net_scheme \<Rightarrow> 'a sync_net_scheme" where
  "data_config_sync_tick E now n =
     (let n = on_sync (promote_next_pending now) n; s = sn_sync n
      in if \<not> has_active_pending s then n
         else if \<not> mqtt_is_connected (bn_mqtt n) then show_once E ''offline'' text_offline n
         else if \<not> cs_retryable s then n
         else if now - cs_last_send_ms s < CONFIG_SYNC_ACK_TIMEOUT_MS then n
         else if now - cs_last_send_ms s < CONFIG_SYNC_RETRY_INTERVAL_MS then show_once E ''timeout'' text_no_ack n
         else resend E now n)"

definition data_config_sync_telemetry_allowed :: "config_sync \<Rightarrow> bool" where
  "data_config_sync_telemetry_allowed s \<longleftrightarrow> cs_last_acked_version s > 0
     \<and> cs_last_acked_version s = cs_config_version s \<and> cs_last_acked_snapshot s"

definition data_config_sync_next_seq :: "'a sync_net_scheme \<Rightarrow> 32 word \<times> 'a sync_net_scheme" where
  "data_config_sync_next_seq n =
     (let (q, s) = next_seq_locked (sn_sync n) in (q, n\<lparr>sn_sync := s\<rparr>))"

subsection \<open>The synchronisation as a machine\<close>

datatype sync_event =
    SyMark "32 word" "string option" "string option" "string option"
  | SySnapshot "32 word" "string option"
  | SyAck "string option"
  | SyTick
  | SyNextSeq

fun sync_exec :: "'v net_env \<Rightarrow> int \<Rightarrow> sync_event \<Rightarrow> 'a sync_net_scheme \<Rightarrow> 'a sync_net_scheme" where
  "sync_exec E now (SyMark seq cmd payload port) n = snd (data_config_sync_mark_sent E now seq cmd payload port n)"
| "sync_exec E now (SySnapshot seq snapshot) n = snd (data_config_sync_publish_latest_snapshot E now seq snapshot n)"
| "sync_exec E now (SyAck payload) n = data_config_sync_handle_ack_json E now payload n"
| "sync_exec E now SyTick n = data_config_sync_tick E now n"
| "sync_exec E now SyNextSeq n = snd (data_config_sync_next_seq n)"

text \<open>
  An event that leaves every message a number: a message is handed over with a sequence number
  that is not zero (a command without one, which data_command.c passes on as 0, is not such an
  event), and the resend of a tick does not wrap the board's counter round to zero (it starts at
  50000 and counts the resends).
\<close>

definition sync_event_numbered :: "sync_event \<Rightarrow> config_sync \<Rightarrow> bool" where
  "sync_event_numbered e s \<longleftrightarrow>
     (case e of SyMark seq _ _ _ \<Rightarrow> seq \<noteq> 0 | SySnapshot seq _ \<Rightarrow> seq \<noteq> 0 | SyAck _ \<Rightarrow> True
      | SyTick \<Rightarrow> cs_seq s + 1 \<noteq> 0 | SyNextSeq \<Rightarrow> True)"

text \<open>
  A step is any operation of this file, or one of another module, which may do anything to the
  ring, the offline queue and the socket but does not touch this state.  The flag tells whether
  all events so far left every message a number.
\<close>

inductive sync_reachable :: "'v net_env \<Rightarrow> bool \<Rightarrow> sync_net \<Rightarrow> bool" for E where
  start: "sn_sync n = config_sync_new \<Longrightarrow> sync_reachable E True n"
| event: "sync_reachable E numbered n
    \<Longrightarrow> sync_reachable E (numbered \<and> sync_event_numbered e (sn_sync n)) (sync_exec E now e n)"
| other: "sync_reachable E numbered n \<Longrightarrow> sn_sync n' = sn_sync n \<Longrightarrow> sync_reachable E numbered n'"

end
