(* ===== verification/ConfigSyncLemmas.thy ===== *)
theory ConfigSyncLemmas
  imports ConfigSync
begin

text \<open>
  What the configuration synchronisation keeps: the invariant \<open>cfg_wf\<close> of its state, the
  acknowledgements and the retries, and when telemetry may go out.
\<close>

subsection \<open>Searching the waiting messages\<close>

lemma first_index_Some:
  "first_index P xs = Some i \<longleftrightarrow> i < length xs \<and> P (xs ! i) \<and> (\<forall>j < i. \<not> P (xs ! j))"
  by (auto simp: first_index_def find_Some_iff)

lemma first_index_None: "first_index P xs = None \<longleftrightarrow> (\<forall>x \<in> set xs. \<not> P x)"
  by (simp add: first_index_def find_None_iff all_set_conv_all_nth)

subsection \<open>The network below\<close>

lemma sync_kept [simp]:
  "sn_sync (snd (with_sender op n)) = sn_sync n"
  "sn_sync (snd (ipc_server_send E m n)) = sn_sync n"
  "sn_sync (publish_state_locked E n) = sn_sync n"
  "sn_sync (snd (net_publish_or_cache S now t p meta n)) = sn_sync n"
  by (simp_all add: with_sender_def ipc_server_send_def publish_state_locked_def net_publish_or_cache_def
      Let_def split_def split: option.splits)

lemma net_kept [simp]:
  "bn_mqtt (publish_state_locked E n) = bn_mqtt n"
  "bn_offline (publish_state_locked E n) = bn_offline n"
  by (simp_all add: publish_state_locked_def ipc_server_send_def)

subsection \<open>The invariant\<close>

definition cfg_mid :: "config_sync \<Rightarrow> bool" where
  "cfg_mid s \<longleftrightarrow> length (cs_queue s) = CONFIG_SYNC_PENDING_MAX
     \<and> (\<forall>p \<in> set (cs_queue s). pq_used p \<longrightarrow> pq_seq p \<noteq> 0 \<and> c_str (pq_payload p) \<noteq> [])
     \<and> (cs_pending_seq s = 0 \<longleftrightarrow> cs_pending_snapshot s = []) \<and> cs_retry_count s \<ge> 0"

text \<open>A message waits only while another one is active.\<close>

definition cfg_wf :: "config_sync \<Rightarrow> bool" where
  "cfg_wf s \<longleftrightarrow> cfg_mid s \<and> ((\<exists>p \<in> set (cs_queue s). pq_used p) \<longrightarrow> has_active_pending s)"

lemma cfg_new: "cfg_wf config_sync_new"
  by (simp add: cfg_wf_def cfg_mid_def config_sync_new_def pending_zero_def)

lemma set_fields [simp]:
  "cs_queue (set_status t s) = cs_queue s" "cs_pending_seq (set_status t s) = cs_pending_seq s"
  "cs_pending_snapshot (set_status t s) = cs_pending_snapshot s" "cs_retry_count (set_status t s) = cs_retry_count s"
  "cs_queue (set_reason r s) = cs_queue s" "cs_pending_seq (set_reason r s) = cs_pending_seq s"
  "cs_pending_snapshot (set_reason r s) = cs_pending_snapshot s" "cs_retry_count (set_reason r s) = cs_retry_count s"
  "cs_queue (set_message r s) = cs_queue s" "cs_pending_seq (set_message r s) = cs_pending_seq s"
  "cs_pending_snapshot (set_message r s) = cs_pending_snapshot s" "cs_retry_count (set_message r s) = cs_retry_count s"
  by (simp_all add: set_status_def set_reason_def set_message_def)

lemma cfg_shown [simp]:
  "cfg_wf (set_status t s) = cfg_wf s" "cfg_wf (set_reason r s) = cfg_wf s" "cfg_wf (set_message r s) = cfg_wf s"
  "cfg_mid (set_status t s) = cfg_mid s" "cfg_mid (set_reason r s) = cfg_mid s" "cfg_mid (set_message r s) = cfg_mid s"
  by (simp_all add: cfg_wf_def cfg_mid_def has_active_pending_def)

lemma cfg_unrelated [simp]:
  "cfg_wf (next_version s) = cfg_wf s" "cfg_wf (no_zero_version s) = cfg_wf s" "cfg_wf (show_waiting b s) = cfg_wf s"
  "cfg_wf (show_left t s) = cfg_wf s" "cfg_wf (s\<lparr>cs_retryable := r\<rparr>) = cfg_wf s" "cfg_wf (s\<lparr>cs_last_ack_ms := i\<rparr>) = cfg_wf s"
  by (simp_all add: next_version_def no_zero_version_def show_waiting_def show_left_def)
    (simp_all add: cfg_wf_def cfg_mid_def has_active_pending_def)

lemma c_str_copy_text [simp]: "c_str (copy_text n t) = copy_text n t"
proof (cases t)
  case (Some s)
  have "c \<in> set (c_str s) \<Longrightarrow> c \<noteq> CHR 0x00" for c by (auto simp: c_str_def dest: set_takeWhileD)
  then show ?thesis
    using Some by (auto simp: copy_text_def c_str_def takeWhile_eq_all_conv dest!: in_set_takeD)
qed (simp add: copy_text_def c_str_def)

lemma copy_text_nonempty: "c_str p \<noteq> [] \<Longrightarrow> 1 < n \<Longrightarrow> copy_text n (Some p) \<noteq> []"
  by (simp add: copy_text_def)

lemma payload_kept: "c_str p \<noteq> [] \<Longrightarrow> copy_text CONFIG_SYNC_PAYLOAD_MAX (Some p) \<noteq> []"
  by (rule copy_text_nonempty) (simp_all add: CONFIG_SYNC_PAYLOAD_MAX_def)

lemma set_active_wf:
  "cfg_mid s \<Longrightarrow> seq \<noteq> 0 \<Longrightarrow> c_str payload \<noteq> [] \<Longrightarrow> cfg_wf (set_active_pending now seq cmd (Some payload) port s)"
  by (simp add: cfg_wf_def cfg_mid_def set_active_pending_def has_active_pending_def payload_kept)

lemma queue_update_mid:
  assumes "cfg_mid s" "pq_used p \<Longrightarrow> pq_seq p \<noteq> 0 \<and> c_str (pq_payload p) \<noteq> []"
  shows "cfg_mid (s\<lparr>cs_queue := (cs_queue s)[i := p]\<rparr>)"
proof -
  have "x \<in> set ((cs_queue s)[i := p]) \<Longrightarrow> x = p \<or> x \<in> set (cs_queue s)" for x
    using set_update_subset_insert by fastforce
  then show ?thesis using assms by (auto simp: cfg_mid_def)
qed

lemma active_queue [simp]: "has_active_pending (s\<lparr>cs_queue := q\<rparr>) = has_active_pending s"
  by (simp add: has_active_pending_def)

lemma enqueue_wf:
  assumes "cfg_wf s" "has_active_pending s" "seq \<noteq> 0" "c_str payload \<noteq> []"
  shows "cfg_wf (snd (enqueue_pending seq cmd (Some payload) port s))"
  using assms
  by (auto simp: enqueue_pending_def first_index_Some cfg_wf_def payload_kept Let_def
      intro!: queue_update_mid split: option.splits)

lemma promote_wf:
  assumes "cfg_mid s"
  shows "cfg_wf (promote_next_pending now s)"
proof (cases "has_active_pending s")
  case False
  show ?thesis
  proof (cases "first_index pq_used (cs_queue s)")
    case None
    then have "promote_next_pending now s = s" by (simp add: promote_next_pending_def)
    then show ?thesis using assms None by (simp add: first_index_None cfg_wf_def)
  next
    case (Some i)
    then have i: "cs_queue s ! i \<in> set (cs_queue s)" "pq_used (cs_queue s ! i)" by (simp_all add: first_index_Some)
    then have p: "pq_seq (cs_queue s ! i) \<noteq> 0" "c_str (pq_payload (cs_queue s ! i)) \<noteq> []"
      using assms by (auto simp: cfg_mid_def)
    have "cfg_wf (set_active_pending now (pq_seq (cs_queue s ! i)) (Some (pq_cmd (cs_queue s ! i)))
        (Some (pq_payload (cs_queue s ! i))) (Some (pq_port_id (cs_queue s ! i))) s)" (is "cfg_wf ?a")
      using assms p by (rule set_active_wf)
    moreover have "cs_queue ?a = cs_queue s" "has_active_pending ?a"
      using p by (simp_all add: set_active_pending_def has_active_pending_def payload_kept)
    ultimately have "cfg_wf (?a\<lparr>cs_queue := (cs_queue s)[i := pending_zero]\<rparr>)"
      using queue_update_mid [of ?a pending_zero i] by (simp add: cfg_wf_def pending_zero_def)
    then show ?thesis using False Some by (simp add: promote_next_pending_def Let_def)
  qed
qed (use assms in \<open>simp add: promote_next_pending_def cfg_wf_def\<close>)

lemma take_wf:
  "cfg_wf s \<Longrightarrow> seq \<noteq> 0 \<Longrightarrow> c_str payload \<noteq> [] \<Longrightarrow> cfg_wf (snd (take_pending now seq cmd payload port s))"
  using set_active_wf enqueue_wf by (simp add: take_pending_def cfg_wf_def)

lemma removed_wf:
  assumes "cfg_wf s"
  shows "cfg_wf (snd (remove_queued_pending seq cmd s))"
proof -
  have "(\<exists>p \<in> set ((cs_queue s)[i := pending_zero]). pq_used p) \<Longrightarrow> (\<exists>p \<in> set (cs_queue s). pq_used p)" for i
    using set_update_subset_insert [of "cs_queue s" i pending_zero] by (auto simp: pending_zero_def)
  then have "cfg_wf (s\<lparr>cs_queue := (cs_queue s)[i := pending_zero]\<rparr>)" for i
    using assms queue_update_mid [of s pending_zero i] by (auto simp: cfg_wf_def pending_zero_def)
  then show ?thesis using assms by (simp add: remove_queued_pending_def split: option.splits)
qed

lemma clear_mid: "cfg_mid s \<Longrightarrow> cfg_mid (clear_active_pending s)"
  by (simp add: clear_active_pending_def cfg_mid_def)

lemma cfg_counted [simp]:
  "cfg_wf s \<Longrightarrow> cfg_wf (s\<lparr>cs_retry_count := 0\<rparr>)"
  "cfg_wf (s\<lparr>cs_last_acked_version := v\<rparr>) = cfg_wf s" "cfg_wf (s\<lparr>cs_last_acked_snapshot := b\<rparr>) = cfg_wf s"
  by (simp_all add: cfg_wf_def cfg_mid_def has_active_pending_def)

lemma cleared_cfg: "cfg_wf s \<Longrightarrow> cfg_wf (promote_next_pending now (clear_active_pending s))"
  by (rule promote_wf) (simp add: clear_mid cfg_wf_def)

lemma promoted_wf: "cfg_wf s \<Longrightarrow> cfg_wf (promote_next_pending now s)"
  by (rule promote_wf) (simp add: cfg_wf_def)

lemma ack_success_wf: "cfg_wf s \<Longrightarrow> cfg_wf (ack_success now a active s)"
  by (simp add: ack_success_def cleared_cfg promoted_wf Let_def)

lemma ack_failure_wf: "cfg_wf s \<Longrightarrow> cfg_wf (ack_failure a s)"
  by (simp add: ack_failure_def Let_def)

lemma ack_wf:
  assumes "cfg_wf s" "apply_ack now a s = Some s'"
  shows "cfg_wf s'"
proof -
  define r where "r = (if \<not> active_match a s \<and> sa_seq a \<noteq> 0 then remove_queued_pending (sa_seq a) (Some (sa_cmd a)) s
      else (False, s))"
  have "cfg_wf (snd r)" using assms(1) by (simp add: r_def removed_wf)
  then have "cfg_wf (set_message (sa_message a) (set_reason (sa_reason a)
      ((snd r)\<lparr>cs_last_ack_ms := now, cs_retryable := sa_retryable a\<rparr>)))" (is "cfg_wf ?s")
    by simp
  moreover have "s' = ack_success now a (active_match a s) ?s \<or> s' = ack_failure a ?s"
    using assms(2) by (auto simp: apply_ack_def Let_def split_def r_def split: if_splits)
  ultimately show ?thesis using ack_success_wf ack_failure_wf by metis
qed

lemma mark_wf:
  assumes "cfg_wf (sn_sync n)" "seq \<noteq> 0"
  shows "cfg_wf (sn_sync (snd (data_config_sync_mark_sent E now seq cmd payload port n)))"
  using assms
  by (simp add: data_config_sync_mark_sent_def take_wf Let_def split_def split: option.splits)

lemma snapshot_wf:
  assumes "cfg_wf (sn_sync n)" "seq \<noteq> 0" "\<forall>v. c_str (jc_print (ne_json E) v) \<noteq> []"
  shows "cfg_wf (sn_sync (snd (data_config_sync_publish_latest_snapshot E now seq snapshot n)))"
  using assms
  by (simp add: data_config_sync_publish_latest_snapshot_def take_wf Let_def split_def split: option.splits)

lemma ack_json_wf:
  "cfg_wf (sn_sync n) \<Longrightarrow> cfg_wf (sn_sync (data_config_sync_handle_ack_json E now payload n))"
  by (simp add: data_config_sync_handle_ack_json_def ack_wf split: option.splits)

lemma send_pending_wf:
  assumes "cfg_wf (sn_sync n)" "seq \<noteq> 0" "has_active_pending (sn_sync n)" "\<forall>v. c_str (jc_print (ne_json E) v) \<noteq> []"
  shows "cfg_wf (sn_sync (snd (send_pending_locked E now seq n)))"
  using assms
  by (simp add: send_pending_locked_def Let_def payload_kept split: option.splits)
    (simp add: cfg_wf_def cfg_mid_def has_active_pending_def payload_kept)

lemma show_once_wf [simp]: "cfg_wf (sn_sync (show_once E t m n)) = cfg_wf (sn_sync n)"
  by (simp add: show_once_def)

lemma resend_wf:
  assumes "cfg_wf (sn_sync n)" "cs_seq (sn_sync n) + 1 \<noteq> 0" "has_active_pending (sn_sync n)"
    "\<forall>v. c_str (jc_print (ne_json E) v) \<noteq> []"
  shows "cfg_wf (sn_sync (resend E now n))"
proof -
  define s where "s = snd (next_seq_locked ((sn_sync n)\<lparr>cs_retry_count := cs_retry_count (sn_sync n) + 1\<rparr>))"
  have s: "cfg_wf s" "has_active_pending s"
    using assms(1,3) by (simp_all add: s_def next_seq_locked_def cfg_wf_def cfg_mid_def has_active_pending_def Let_def)
  have "cfg_wf (sn_sync (snd (send_pending_locked E now (cs_seq (sn_sync n) + 1)
      (n\<lparr>sn_sync := set_message (Some m) (set_status t s)\<rparr>))))" for m t
    using s assms(2,4) by (intro send_pending_wf) (simp_all add: has_active_pending_def)
  then show ?thesis by (simp add: resend_def Let_def next_seq_locked_def s_def)
qed

lemma tick_wf:
  assumes "cfg_wf (sn_sync n)" "cs_seq (sn_sync n) + 1 \<noteq> 0" "\<forall>v. c_str (jc_print (ne_json E) v) \<noteq> []"
  shows "cfg_wf (sn_sync (data_config_sync_tick E now n))"
proof -
  have "cs_seq (promote_next_pending now (sn_sync n)) = cs_seq (sn_sync n)"
    by (simp add: promote_next_pending_def set_active_pending_def Let_def split: option.splits)
  then show ?thesis
    using assms by (simp add: data_config_sync_tick_def promoted_wf resend_wf Let_def)
qed

lemma next_seq_wf: "cfg_wf (sn_sync n) \<Longrightarrow> cfg_wf (sn_sync (snd (data_config_sync_next_seq n)))"
  by (simp add: data_config_sync_next_seq_def next_seq_locked_def cfg_wf_def cfg_mid_def has_active_pending_def Let_def)

lemma reachable_cfg:
  assumes "sync_reachable E numbered n" "numbered" "\<forall>v. c_str (jc_print (ne_json E) v) \<noteq> []"
  shows "cfg_wf (sn_sync n)"
  using assms
proof (induction rule: sync_reachable.induct)
  case (event numbered n e now)
  then show ?case
    by (cases e) (auto simp: sync_event_numbered_def mark_wf snapshot_wf ack_json_wf tick_wf next_seq_wf)
qed (simp_all add: cfg_new)

subsection \<open>What holds with any numbers\<close>

text \<open>Messages have a text, whatever numbers they were given; a number without a text never stays.\<close>

definition cfg_any :: "config_sync \<Rightarrow> bool" where
  "cfg_any s \<longleftrightarrow> length (cs_queue s) = CONFIG_SYNC_PENDING_MAX
     \<and> (\<forall>p \<in> set (cs_queue s). pq_used p \<longrightarrow> c_str (pq_payload p) \<noteq> [])
     \<and> (cs_pending_seq s \<noteq> 0 \<longrightarrow> cs_pending_snapshot s \<noteq> [])"

lemma any_shown [simp]:
  "cfg_any (set_status t s) = cfg_any s" "cfg_any (set_reason r s) = cfg_any s" "cfg_any (set_message r s) = cfg_any s"
  by (simp_all add: cfg_any_def)

lemma any_fields [simp]:
  "cfg_any (next_version s) = cfg_any s" "cfg_any (no_zero_version s) = cfg_any s" "cfg_any (show_waiting b s) = cfg_any s"
  "cfg_any (show_left t s) = cfg_any s" "cfg_any (s\<lparr>cs_retryable := r\<rparr>) = cfg_any s" "cfg_any (s\<lparr>cs_last_ack_ms := i\<rparr>) = cfg_any s"
  "cfg_any (s\<lparr>cs_retry_count := k\<rparr>) = cfg_any s" "cfg_any (s\<lparr>cs_last_acked_version := v\<rparr>) = cfg_any s"
  "cfg_any (s\<lparr>cs_last_acked_snapshot := c\<rparr>) = cfg_any s" "cfg_any (s\<lparr>cs_seq := w\<rparr>) = cfg_any s"
  by (simp_all add: next_version_def no_zero_version_def show_waiting_def show_left_def) (simp_all add: cfg_any_def)

lemma any_active:
  "cfg_any s \<Longrightarrow> c_str payload \<noteq> [] \<Longrightarrow> cfg_any (set_active_pending now seq cmd (Some payload) port s)"
  by (simp add: cfg_any_def set_active_pending_def payload_kept)

lemma any_update:
  assumes "cfg_any s" "pq_used p \<Longrightarrow> c_str (pq_payload p) \<noteq> []"
  shows "cfg_any (s\<lparr>cs_queue := (cs_queue s)[i := p]\<rparr>)"
proof -
  have "x \<in> set ((cs_queue s)[i := p]) \<Longrightarrow> x = p \<or> x \<in> set (cs_queue s)" for x
    using set_update_subset_insert by fastforce
  then show ?thesis using assms by (auto simp: cfg_any_def)
qed

lemma any_take:
  assumes "cfg_any s" "c_str payload \<noteq> []"
  shows "cfg_any (snd (take_pending now seq cmd payload port s))"
  using assms any_active [OF assms]
  by (auto simp: take_pending_def enqueue_pending_def payload_kept Let_def intro!: any_update split: option.splits)

lemma any_promote:
  assumes "cfg_any s"
  shows "cfg_any (promote_next_pending now s)"
proof (cases "has_active_pending s \<or> first_index pq_used (cs_queue s) = None")
  case True
  then have "promote_next_pending now s = s" by (auto simp: promote_next_pending_def)
  then show ?thesis using assms by simp
next
  case False
  then obtain i where i: "first_index pq_used (cs_queue s) = Some i" by auto
  then have "cs_queue s ! i \<in> set (cs_queue s)" "pq_used (cs_queue s ! i)" by (simp_all add: first_index_Some)
  then have p: "c_str (pq_payload (cs_queue s ! i)) \<noteq> []" using assms by (simp add: cfg_any_def)
  let ?a = "set_active_pending now (pq_seq (cs_queue s ! i)) (Some (pq_cmd (cs_queue s ! i)))
      (Some (pq_payload (cs_queue s ! i))) (Some (pq_port_id (cs_queue s ! i))) s"
  have q: "cs_queue ?a = cs_queue s" by (simp add: set_active_pending_def)
  have "cfg_any (?a\<lparr>cs_queue := (cs_queue ?a)[i := pending_zero]\<rparr>)"
    by (rule any_update [OF any_active [OF assms p]]) (simp add: pending_zero_def)
  then have "cfg_any (?a\<lparr>cs_queue := (cs_queue s)[i := pending_zero]\<rparr>)" by (simp only: q)
  then show ?thesis using False i by (simp add: promote_next_pending_def Let_def)
qed

lemma any_removed: "cfg_any s \<Longrightarrow> cfg_any (snd (remove_queued_pending seq cmd s))"
  using any_update [of s pending_zero] by (simp add: remove_queued_pending_def pending_zero_def split: option.splits)

lemma any_clear: "cfg_any s \<Longrightarrow> cfg_any (clear_active_pending s)"
  by (simp add: clear_active_pending_def cfg_any_def)

lemma any_ack:
  assumes "cfg_any s" "apply_ack now a s = Some s'"
  shows "cfg_any s'"
proof -
  define r where "r = (if \<not> active_match a s \<and> sa_seq a \<noteq> 0 then remove_queued_pending (sa_seq a) (Some (sa_cmd a)) s
      else (False, s))"
  have "cfg_any (snd r)" using assms(1) by (simp add: r_def any_removed)
  then have s: "cfg_any (set_message (sa_message a) (set_reason (sa_reason a)
      ((snd r)\<lparr>cs_last_ack_ms := now, cs_retryable := sa_retryable a\<rparr>)))" (is "cfg_any ?s")
    by simp
  have "s' = ack_success now a (active_match a s) ?s \<or> s' = ack_failure a ?s"
    using assms(2) by (auto simp: apply_ack_def Let_def split_def r_def split: if_splits)
  moreover have "cfg_any (ack_success now a b ?s)" for b
    using s by (simp add: ack_success_def any_promote any_clear Let_def)
  moreover have "cfg_any (ack_failure a ?s)" using s by (simp add: ack_failure_def Let_def)
  ultimately show ?thesis by metis
qed

lemma any_send:
  assumes "cfg_any (sn_sync n)" "\<forall>v. c_str (jc_print (ne_json E) v) \<noteq> []"
  shows "cfg_any (sn_sync (snd (send_pending_locked E now seq n)))"
  using assms by (simp add: send_pending_locked_def Let_def payload_kept split: option.splits)
    (simp add: cfg_any_def payload_kept)

lemma any_resend:
  assumes "cfg_any (sn_sync n)" "\<forall>v. c_str (jc_print (ne_json E) v) \<noteq> []"
  shows "cfg_any (sn_sync (resend E now n))"
  using assms by (simp add: resend_def next_seq_locked_def any_send Let_def)

lemma any_show_once [simp]: "cfg_any (sn_sync (show_once E t m n)) = cfg_any (sn_sync n)"
  by (simp add: show_once_def)

lemma any_tick:
  assumes "cfg_any (sn_sync n)" "\<forall>v. c_str (jc_print (ne_json E) v) \<noteq> []"
  shows "cfg_any (sn_sync (data_config_sync_tick E now n))"
  using assms by (simp add: data_config_sync_tick_def any_promote any_resend Let_def)

lemma reachable_any:
  assumes "sync_reachable E numbered n" "\<forall>v. c_str (jc_print (ne_json E) v) \<noteq> []"
  shows "cfg_any (sn_sync n)"
  using assms
proof (induction rule: sync_reachable.induct)
  case (start n)
  then show ?case by (simp add: cfg_any_def config_sync_new_def pending_zero_def)
next
  case (event numbered n e now)
  then have n: "cfg_any (sn_sync n)" by simp
  show ?case
  proof (cases e)
    case (SyMark seq cmd payload port)
    then show ?thesis using n by (simp add: data_config_sync_mark_sent_def any_take Let_def split_def split: option.splits)
  next
    case (SySnapshot seq snapshot)
    then show ?thesis using n event.prems
      by (simp add: data_config_sync_publish_latest_snapshot_def any_take Let_def split_def split: option.splits)
  next
    case (SyAck payload)
    then show ?thesis using n by (simp add: data_config_sync_handle_ack_json_def any_ack split: option.splits)
  next
    case SyTick
    then show ?thesis using n event.prems by (simp add: any_tick)
  next
    case SyNextSeq
    then show ?thesis using n by (simp add: data_config_sync_next_seq_def next_seq_locked_def Let_def)
  qed
qed simp

subsection \<open>Telemetry waits for the acknowledgement of the last configuration\<close>

definition versions :: "config_sync \<Rightarrow> 32 word \<times> 32 word" where
  "versions s = (cs_last_acked_version s, cs_config_version s)"

lemma versions_kept [simp]:
  "versions (set_status t s) = versions s" "versions (set_reason r s) = versions s"
  "versions (set_message r s) = versions s" "versions (show_waiting b s) = versions s"
  "versions (show_left t s) = versions s" "versions (clear_active_pending s) = versions s"
  "versions (set_active_pending now q c p pt s) = versions s"
  "versions (s\<lparr>cs_retry_count := i\<rparr>) = versions s" "versions (s\<lparr>cs_queue := x\<rparr>) = versions s"
  "versions (s\<lparr>cs_last_ack_ms := k\<rparr>) = versions s" "versions (s\<lparr>cs_retryable := b\<rparr>) = versions s"
  "versions (s\<lparr>cs_seq := w\<rparr>) = versions s" "versions (s\<lparr>cs_last_acked_snapshot := b\<rparr>) = versions s"
  by (simp_all add: versions_def set_status_def set_reason_def set_message_def show_waiting_def show_left_def
      clear_active_pending_def set_active_pending_def)

lemma versions_moved [simp]:
  "versions (promote_next_pending now s) = versions s"
  "versions (snd (take_pending now seq cmd payload port s)) = versions s"
  "versions (snd (remove_queued_pending seq cmd' s)) = versions s"
  "versions (ack_failure a s) = versions s"
  "versions (snd (next_seq_locked s)) = versions s"
  by (simp_all add: promote_next_pending_def take_pending_def enqueue_pending_def remove_queued_pending_def
      ack_failure_def next_seq_locked_def Let_def split: option.splits)

lemma versions_send [simp]: "versions (sn_sync (snd (send_pending_locked E now seq n))) = versions (sn_sync n)"
  by (simp add: send_pending_locked_def Let_def split: option.splits) (simp add: versions_def)

lemma versions_resend [simp]: "versions (sn_sync (resend E now n)) = versions (sn_sync n)"
  by (simp add: resend_def Let_def split_def)

lemma versions_tick [simp]: "versions (sn_sync (data_config_sync_tick E now n)) = versions (sn_sync n)"
  by (simp add: data_config_sync_tick_def show_once_def Let_def)

definition positive_ack :: "'v json_c \<Rightarrow> string option \<Rightarrow> bool" where
  "positive_ack C payload \<longleftrightarrow> (case read_ack C payload of None \<Rightarrow> False
     | Some a \<Rightarrow> sa_ok a \<and> is_snapshot_cmd (Some (sa_cmd a)))"

lemma versions_ack:
  assumes "apply_ack now a s = Some s'"
  shows "versions s' = (if sa_ok a \<and> is_snapshot_cmd (Some (sa_cmd a))
     then (if sa_version a > 0 then sa_version a else cs_config_version s, cs_config_version s) else versions s)"
proof -
  define r where "r = (if \<not> active_match a s \<and> sa_seq a \<noteq> 0 then remove_queued_pending (sa_seq a) (Some (sa_cmd a)) s
      else (False, s))"
  have r: "versions (snd r) = versions s" by (simp add: r_def)
  let ?s = "set_message (sa_message a) (set_reason (sa_reason a)
      ((snd r)\<lparr>cs_last_ack_ms := now, cs_retryable := sa_retryable a\<rparr>))"
  have v: "versions ?s = versions s" using r by simp
  then have c: "cs_config_version ?s = cs_config_version s" by (simp add: versions_def)
  have s': "s' = (if sa_ok a then ack_success now a (active_match a s) ?s else ack_failure a ?s)"
    using assms by (auto simp: apply_ack_def Let_def split_def r_def split: if_splits)
  have "versions (ack_success now a b s) = (if is_snapshot_cmd (Some (sa_cmd a))
      then (if sa_version a > 0 then sa_version a else cs_config_version s, cs_config_version s) else versions s)" for b s
  proof -
    have "versions (set_reason (Some []) (s\<lparr>cs_retry_count := 0\<rparr>)) = versions s" by simp
    then have f: "cs_config_version (set_reason (Some []) (s\<lparr>cs_retry_count := 0\<rparr>)) = cs_config_version s"
      by (simp add: versions_def)
    have "versions (s\<lparr>cs_last_acked_version := x\<rparr>) = (x, cs_config_version s)" for x s
      by (simp add: versions_def)
    then show ?thesis using f by (simp add: ack_success_def Let_def)
  qed
  then show ?thesis using s' v c by simp
qed

definition bumps :: "'v json_c \<Rightarrow> sync_event \<Rightarrow> bool" where
  "bumps C e \<longleftrightarrow> (case e of
     SyMark _ (Some c) (Some p) _ \<Rightarrow> is_snapshot_cmd (Some c) \<and> c_str p \<noteq> []
   | SySnapshot _ (Some t) \<Rightarrow> jc_parse C t \<noteq> None | _ \<Rightarrow> False)"

lemma bumped_version:
  "cs_config_version s + 1 \<noteq> 0 \<Longrightarrow> versions (no_zero_version (next_version s))
     = (cs_last_acked_version s, cs_config_version s + 1)"
  by (simp add: no_zero_version_def next_version_def versions_def)

lemma no_zero_versions: "fst (versions (no_zero_version s)) = fst (versions s)
    \<and> snd (versions s) \<le> snd (versions (no_zero_version s))"
  by (simp add: no_zero_version_def versions_def)

lemma word_next: "(w :: 32 word) + 1 \<noteq> 0 \<Longrightarrow> w < w + 1"
  by (metis add.commute lessI unatSuc word_less_nat_alt)

text \<open>What one event does to the versions.\<close>

lemma event_versions:
  assumes "cs_config_version (sn_sync n) + 1 \<noteq> 0"
  shows "let (a, v) = versions (sn_sync n); (a', v') = versions (sn_sync (sync_exec E now e n))
    in v \<le> v' \<and> (bumps (ne_json E) e \<longrightarrow> v < v')
      \<and> (\<not> (\<exists>p. e = SyAck p \<and> positive_ack (ne_json E) p) \<longrightarrow> a' = a)
      \<and> (\<forall>p k. e = SyAck p \<and> read_ack (ne_json E) p = Some k \<and> sa_version k \<le> v \<and> a \<le> v \<longrightarrow> a' \<le> v')"
proof (cases e)
  case (SyMark seq cmd payload port)
  show ?thesis
  proof (cases "\<exists>c p. cmd = Some c \<and> payload = Some p \<and> c_str p \<noteq> []")
    case True
    then obtain c p where cp: "cmd = Some c" "payload = Some p" "c_str p \<noteq> []" by blast
    let ?s = "if is_snapshot_cmd (Some c) then next_version (sn_sync n) else sn_sync n"
    have "versions (sn_sync (sync_exec E now e n)) = versions (no_zero_version ?s)"
      using SyMark cp by (simp add: data_config_sync_mark_sent_def Let_def split_def)
    then show ?thesis
      using SyMark cp bumped_version [OF assms] word_next [OF assms] no_zero_versions [of "sn_sync n"]
      by (auto simp: Let_def split_def bumps_def versions_def)
  next
    case False
    then have "sn_sync (sync_exec E now e n) = sn_sync n" "\<not> bumps (ne_json E) e"
      using SyMark by (auto simp: data_config_sync_mark_sent_def bumps_def split: option.splits)
    then show ?thesis using SyMark by (simp add: Let_def split_def)
  qed
next
  case (SySnapshot seq snap)
  show ?thesis
  proof (cases "\<exists>t d. snap = Some t \<and> jc_parse (ne_json E) t = Some d")
    case True
    then obtain t d where td: "snap = Some t" "jc_parse (ne_json E) t = Some d" by blast
    have "versions (sn_sync (sync_exec E now e n)) = versions (no_zero_version (next_version (sn_sync n)))"
      using SySnapshot td by (simp add: data_config_sync_publish_latest_snapshot_def Let_def split_def)
    then show ?thesis
      using SySnapshot bumped_version [OF assms] word_next [OF assms]
      by (auto simp: Let_def split_def versions_def)
  next
    case False
    then have "sn_sync (sync_exec E now e n) = sn_sync n" "\<not> bumps (ne_json E) e"
      using SySnapshot by (auto simp: data_config_sync_publish_latest_snapshot_def bumps_def Let_def split: option.splits)
    then show ?thesis using SySnapshot by (simp add: Let_def split_def)
  qed
next
  case (SyAck p)
  show ?thesis
  proof (cases "\<exists>a s'. read_ack (ne_json E) p = Some a \<and> apply_ack now a (sn_sync n) = Some s'")
    case True
    then obtain a s' where as: "read_ack (ne_json E) p = Some a" "apply_ack now a (sn_sync n) = Some s'" by blast
    have "versions (sn_sync (sync_exec E now e n)) = versions s'"
      using SyAck as by (simp add: data_config_sync_handle_ack_json_def)
    then show ?thesis
      using SyAck as versions_ack [OF as(2)] by (auto simp: Let_def split_def bumps_def positive_ack_def versions_def)
  next
    case False
    then have "sn_sync (sync_exec E now e n) = sn_sync n"
      using SyAck by (auto simp: data_config_sync_handle_ack_json_def split: option.splits)
    then show ?thesis using SyAck by (auto simp: Let_def split_def bumps_def)
  qed
next
  case SyTick
  then show ?thesis by (simp add: Let_def split_def bumps_def)
next
  case SyNextSeq
  then show ?thesis by (simp add: Let_def split_def bumps_def data_config_sync_next_seq_def)
qed

text \<open>
  A history in which every acknowledgement names a version that exists and the version counter
  has not wrapped round.
\<close>

inductive honest_reachable :: "'v net_env \<Rightarrow> sync_net \<Rightarrow> bool" for E where
  honest_start: "sn_sync n = config_sync_new \<Longrightarrow> honest_reachable E n"
| honest_event: "honest_reachable E n \<Longrightarrow> cs_config_version (sn_sync n) + 1 \<noteq> 0 \<Longrightarrow>
    (\<forall>p a. e = SyAck p \<and> read_ack (ne_json E) p = Some a \<longrightarrow> sa_version a \<le> cs_config_version (sn_sync n)) \<Longrightarrow>
    honest_reachable E (sync_exec E now e n)"
| honest_other: "honest_reachable E n \<Longrightarrow> sn_sync n' = sn_sync n \<Longrightarrow> honest_reachable E n'"

text \<open>Steps among which there is no positive acknowledgement of a snapshot.\<close>

inductive quiet_steps :: "'v net_env \<Rightarrow> sync_net \<Rightarrow> sync_net \<Rightarrow> bool" for E where
  quiet_refl: "quiet_steps E n n"
| quiet_event: "quiet_steps E n n' \<Longrightarrow> cs_config_version (sn_sync n') + 1 \<noteq> 0 \<Longrightarrow>
    \<not> (\<exists>p. e = SyAck p \<and> positive_ack (ne_json E) p) \<Longrightarrow> quiet_steps E n (sync_exec E now e n')"
| quiet_other: "quiet_steps E n n' \<Longrightarrow> sn_sync n'' = sn_sync n' \<Longrightarrow> quiet_steps E n n''"

lemma honest_versions:
  "honest_reachable E n \<Longrightarrow> cs_last_acked_version (sn_sync n) \<le> cs_config_version (sn_sync n)"
proof (induction rule: honest_reachable.induct)
  case (honest_event n e now)
  show ?case
  proof (cases "\<exists>p a. e = SyAck p \<and> read_ack (ne_json E) p = Some a")
    case True
    then show ?thesis
      using event_versions [OF honest_event.hyps(2), of E now e] honest_event
      by (auto simp: versions_def Let_def)
  next
    case False
    then have "\<not> (\<exists>p. e = SyAck p \<and> positive_ack (ne_json E) p)"
      by (auto simp: positive_ack_def split: option.splits)
    then show ?thesis
      using event_versions [OF honest_event.hyps(2), of E now e] honest_event.IH
      by (auto simp: versions_def Let_def)
  qed
qed (simp_all add: config_sync_new_def)

lemma quiet_versions:
  "quiet_steps E n n' \<Longrightarrow> cs_last_acked_version (sn_sync n') = cs_last_acked_version (sn_sync n)
     \<and> cs_config_version (sn_sync n) \<le> cs_config_version (sn_sync n')"
proof (induction rule: quiet_steps.induct)
  case (quiet_event n n' e now)
  then show ?case
    using event_versions [OF quiet_event.hyps(2), of E now e] by (auto simp: versions_def Let_def)
qed simp_all

lemma no_telemetry_before_ack:
  assumes "honest_reachable E n" "bumps (ne_json E) e" "cs_config_version (sn_sync n) + 1 \<noteq> 0"
    and "quiet_steps E (sync_exec E now e n) n'"
  shows "\<not> data_config_sync_telemetry_allowed (sn_sync n')"
proof -
  have "\<not> (\<exists>p. e = SyAck p \<and> positive_ack (ne_json E) p)" using assms(2) by (auto simp: bumps_def)
  then have "cs_last_acked_version (sn_sync (sync_exec E now e n)) < cs_config_version (sn_sync (sync_exec E now e n))"
    using event_versions [OF assms(3), of E now e] honest_versions [OF assms(1)] assms(2)
    by (auto simp: versions_def Let_def)
  then show ?thesis
    using quiet_versions [OF assms(4)] by (auto simp: data_config_sync_telemetry_allowed_def)
qed

text \<open>And the acknowledgement opens it.\<close>

lemma acked_kept [simp]:
  "cs_last_acked_snapshot (set_status t s) = cs_last_acked_snapshot s"
  "cs_last_acked_snapshot (set_reason r s) = cs_last_acked_snapshot s"
  "cs_last_acked_snapshot (set_message r s) = cs_last_acked_snapshot s"
  "cs_last_acked_snapshot (show_left m s) = cs_last_acked_snapshot s"
  "cs_last_acked_snapshot (clear_active_pending s) = cs_last_acked_snapshot s"
  "cs_last_acked_snapshot (promote_next_pending now s) = cs_last_acked_snapshot s"
  by (simp_all add: set_status_def set_reason_def set_message_def show_left_def clear_active_pending_def
      promote_next_pending_def set_active_pending_def Let_def split: option.splits)

lemma ack_opens:
  assumes "apply_ack now a s = Some s'" "sa_ok a" "is_snapshot_cmd (Some (sa_cmd a))"
    "sa_version a = 0 \<or> sa_version a = cs_config_version s" "cs_config_version s > 0"
  shows "data_config_sync_telemetry_allowed s'"
proof -
  have "cs_last_acked_snapshot (ack_success now a b s)" for b s
    using assms(3) by (simp add: ack_success_def Let_def)
  then have "cs_last_acked_snapshot s'"
    using assms(1,2) by (auto simp: apply_ack_def Let_def split_def split: if_splits)
  then show ?thesis
    using versions_ack [OF assms(1)] assms by (auto simp: versions_def data_config_sync_telemetry_allowed_def)
qed

subsection \<open>What an acknowledgement does\<close>

lemma snapshot_kept [simp]:
  "cs_pending_snapshot (show_left m s) = cs_pending_snapshot s" "cs_pending_seq (show_left m s) = cs_pending_seq s"
  "cs_queue (show_left m s) = cs_queue s"
  "cs_pending_cmd (show_left m s) = cs_pending_cmd s"
  by (simp_all add: show_left_def set_status_def set_message_def)

definition next_waiting :: "config_sync \<Rightarrow> config_sync_pending option" where
  "next_waiting s = map_option (\<lambda>i. cs_queue s ! i) (first_index pq_used (cs_queue s))"

definition waiting :: "config_sync \<Rightarrow> config_sync_pending list" where
  "waiting s = filter pq_used (cs_queue s)"

text \<open>The active message, as the entry it would be in the queue.\<close>

definition active_is :: "config_sync_pending \<Rightarrow> config_sync \<Rightarrow> bool" where
  "active_is p s \<longleftrightarrow> cs_pending_seq s = pq_seq p \<and> cs_pending_cmd s = copy_text MAX_CMD_NAME_LEN (Some (pq_cmd p))
     \<and> cs_pending_port_id s = copy_text 32 (Some (pq_port_id p))
     \<and> cs_pending_snapshot s = copy_text CONFIG_SYNC_PAYLOAD_MAX (Some (pq_payload p))"

lemma first_waiting:
  assumes "first_index pq_used q = Some i"
  shows "filter pq_used q = (q ! i) # filter pq_used (q[i := pending_zero])"
proof -
  have i: "i < length q" "pq_used (q ! i)" "\<forall>j < i. \<not> pq_used (q ! j)"
    using assms by (simp_all add: first_index_Some)
  have q: "q = take i q @ q ! i # drop (Suc i) q" using i(1) by (rule id_take_nth_drop)
  have "filter pq_used (take i q) = []" using i by (auto simp: filter_empty_conv in_set_conv_nth)
  moreover have "q[i := pending_zero] = take i q @ pending_zero # drop (Suc i) q"
    using i(1) by (simp add: upd_conv_take_nth_drop)
  ultimately show ?thesis using i(2) by (subst q) (simp add: pending_zero_def)
qed

lemma no_waiting: "first_index pq_used q = None \<Longrightarrow> filter pq_used q = []"
  by (simp add: first_index_None filter_empty_conv)

lemma promoted:
  fixes s :: config_sync and now :: int
  assumes "cfg_mid s" "\<not> has_active_pending s"
  defines "s' \<equiv> promote_next_pending now s"
  shows "case waiting s of
      [] \<Rightarrow> s' = s
    | p # ps \<Rightarrow> active_is p s' \<and> has_active_pending s' \<and> waiting s' = ps"
proof (cases "first_index pq_used (cs_queue s)")
  case None
  then show ?thesis using assms by (simp add: promote_next_pending_def waiting_def no_waiting)
next
  case (Some i)
  let ?p = "cs_queue s ! i"
  have mem: "?p \<in> set (cs_queue s)" "pq_used ?p" using Some by (simp_all add: first_index_Some)
  then have p: "pq_seq ?p \<noteq> 0" "c_str (pq_payload ?p) \<noteq> []" using assms(1) by (auto simp: cfg_mid_def)
  have s': "s' = (set_active_pending now (pq_seq ?p) (Some (pq_cmd ?p)) (Some (pq_payload ?p)) (Some (pq_port_id ?p)) s)
      \<lparr>cs_queue := (cs_queue s)[i := pending_zero]\<rparr>"
    using assms(2) Some by (simp add: s'_def promote_next_pending_def Let_def)
  have "active_is ?p s'" by (simp add: s' set_active_pending_def active_is_def)
  moreover have "has_active_pending s'"
    using p by (simp add: s' set_active_pending_def has_active_pending_def payload_kept)
  moreover have "waiting s = ?p # waiting s'" using first_waiting [OF Some] by (simp add: waiting_def s')
  ultimately show ?thesis by simp
qed

lemma ack_of_active:
  assumes "cfg_wf s" "active_match a s" "sa_ok a"
  shows "\<exists>s'. apply_ack now a s = Some s' \<and> cs_retry_count s' = 0 \<and>
    (case waiting s of
       [] \<Rightarrow> \<not> has_active_pending s' \<and> waiting s' = [] \<and> cs_status s' = ''success''
     | p # ps \<Rightarrow> active_is p s' \<and> has_active_pending s' \<and> waiting s' = ps \<and> cs_status s' = ''syncing'')"
proof -
  let ?s = "set_message (sa_message a) (set_reason (sa_reason a)
      (s\<lparr>cs_last_ack_ms := now, cs_retryable := sa_retryable a\<rparr>))"
  let ?r = "set_reason (Some []) (?s\<lparr>cs_retry_count := 0\<rparr>)"
  let ?snap = "is_snapshot_cmd (Some (sa_cmd a))"
  let ?v = "if ?snap then ?r\<lparr>cs_last_acked_version := (if sa_version a > 0 then sa_version a else cs_config_version s),
        cs_last_acked_snapshot := True\<rparr> else ?r"
  let ?c = "clear_active_pending ?v"
  define s' where "s' = show_left (if ?snap then text_synced else text_confirmed) (promote_next_pending now ?c)"
  have q: "cs_queue ?v = cs_queue s" by simp
  have ver: "cs_config_version ?r = cs_config_version s" by (simp add: set_reason_def set_message_def)
  have "cfg_wf ?v" using assms(1) by simp
  then have mid: "cfg_mid ?c" by (intro clear_mid) (simp only: cfg_wf_def)
  have na: "\<not> has_active_pending ?c" by (simp add: clear_active_pending_def has_active_pending_def)
  have "waiting ?c = waiting s" using q by (simp add: waiting_def clear_active_pending_def)
  note pr = promoted [OF mid na, of now, unfolded this]
  have ap: "apply_ack now a s = Some s'"
    using assms(2,3) ver
    by (auto simp: apply_ack_def active_match_def ack_success_def Let_def s'_def)
  have rc: "cs_retry_count s' = 0"
    by (simp add: s'_def show_left_def promote_next_pending_def set_active_pending_def clear_active_pending_def Let_def
        set_status_def set_message_def set_reason_def split: option.splits)
  have st: "cs_status s' = (if cs_pending_snapshot (promote_next_pending now ?c) \<noteq> [] then ''syncing'' else ''success'')"
    by (simp add: s'_def show_left_def set_status_def set_message_def copy_text_def c_str_def)
  show ?thesis
  proof (intro exI [of _ s'] conjI ap rc)
    show "case waiting s of [] \<Rightarrow> \<not> has_active_pending s' \<and> waiting s' = [] \<and> cs_status s' = ''success''
        | p # ps \<Rightarrow> active_is p s' \<and> has_active_pending s' \<and> waiting s' = ps \<and> cs_status s' = ''syncing''"
    proof (cases "waiting s")
      case Nil
      then have "promote_next_pending now ?c = ?c" using pr by simp
      then show ?thesis
        using Nil na \<open>waiting ?c = waiting s\<close> st
        by (simp add: s'_def waiting_def has_active_pending_def) (simp add: clear_active_pending_def)
    next
      case (Cons p ps)
      then show ?thesis
        using pr st by (auto simp: s'_def active_is_def waiting_def has_active_pending_def)
          (simp_all add: show_left_def set_status_def set_message_def)
    qed
  qed
qed

text \<open>Where a message that is handed over ends up: it is the active one or waits under its number;
  it is refused only when another one is active and eight others wait.\<close>

definition holds_message :: "32 word \<Rightarrow> string \<Rightarrow> config_sync \<Rightarrow> bool" where
  "holds_message seq payload s \<longleftrightarrow>
     cs_pending_seq s = seq \<and> cs_pending_snapshot s = copy_text CONFIG_SYNC_PAYLOAD_MAX (Some payload)
     \<or> (\<exists>p \<in> set (waiting s). pq_seq p = seq \<and> pq_payload p = copy_text CONFIG_SYNC_PAYLOAD_MAX (Some payload))"

lemma take_outcome:
  assumes "length (cs_queue s) = CONFIG_SYNC_PENDING_MAX"
  shows "case take_pending now seq cmd payload port s of (ret, s') \<Rightarrow>
    ret = DATA_SEND_OK \<and> holds_message seq payload s'
    \<or> ret = DATA_SEND_MQTT_QUEUE_FULL \<and> has_active_pending s \<and> length (waiting s) = 8 \<and> s' = s"
proof (cases "\<not> has_active_pending s \<or> cs_pending_seq s = seq \<and> cs_pending_cmd s = cmd")
  case True
  then show ?thesis by (auto simp: take_pending_def set_active_pending_def holds_message_def)
next
  case False
  have put: "p \<in> set (waiting (s\<lparr>cs_queue := (cs_queue s)[i := p]\<rparr>))" if "pq_used p" "i < length (cs_queue s)" for p i
    using that by (simp add: waiting_def set_update_memI)
  show ?thesis
  proof (cases "first_index (\<lambda>p. pq_used p \<and> pq_seq p = seq \<and> pq_cmd p = cmd) (cs_queue s)")
    case (Some i)
    then have i: "i < length (cs_queue s)" "pq_used (cs_queue s ! i)" "pq_seq (cs_queue s ! i) = seq"
      by (simp_all add: first_index_Some)
    let ?p = "(cs_queue s ! i)\<lparr>pq_port_id := copy_text 32 port, pq_payload := copy_text CONFIG_SYNC_PAYLOAD_MAX (Some payload)\<rparr>"
    have "?p \<in> set (waiting (s\<lparr>cs_queue := (cs_queue s)[i := ?p]\<rparr>))" using i by (intro put) simp_all
    then have "holds_message seq payload (s\<lparr>cs_queue := (cs_queue s)[i := ?p]\<rparr>)"
      unfolding holds_message_def using i(3) by (intro disjI2 bexI [of _ ?p]) simp_all
    then show ?thesis using False Some by (auto simp: take_pending_def enqueue_pending_def Let_def)
  next
    case None
    note same = None
    show ?thesis
    proof (cases "first_index (\<lambda>p. \<not> pq_used p) (cs_queue s)")
      case (Some i)
      let ?p = "\<lparr>pq_used = True, pq_seq = seq, pq_cmd = copy_text MAX_CMD_NAME_LEN (Some cmd), pq_port_id = copy_text 32 port,
        pq_payload = copy_text CONFIG_SYNC_PAYLOAD_MAX (Some payload)\<rparr>"
      have "?p \<in> set (waiting (s\<lparr>cs_queue := (cs_queue s)[i := ?p]\<rparr>))"
        using Some by (intro put) (simp_all add: first_index_Some)
      then have "holds_message seq payload (s\<lparr>cs_queue := (cs_queue s)[i := ?p]\<rparr>)"
        unfolding holds_message_def by (intro disjI2 bexI [of _ ?p]) simp_all
      then show ?thesis using False same Some by (auto simp: take_pending_def enqueue_pending_def Let_def)
    next
      case None
      then have "waiting s = cs_queue s" by (simp add: waiting_def first_index_None)
      then show ?thesis
        using False same None assms by (auto simp: take_pending_def enqueue_pending_def CONFIG_SYNC_PENDING_MAX_def Let_def)
    qed
  qed
qed

lemma mark_outcome:
  assumes "length (cs_queue (sn_sync n)) = CONFIG_SYNC_PENDING_MAX" "c_str payload \<noteq> []"
  shows "let s = sn_sync n; (ret, n') = data_config_sync_mark_sent E now seq (Some cmd) (Some payload) port n; s' = sn_sync n'
    in ret = DATA_SEND_OK \<and> holds_message seq payload s'
      \<or> ret = DATA_SEND_MQTT_QUEUE_FULL \<and> has_active_pending s \<and> length (waiting s) = 8 \<and> waiting s' = waiting s
        \<and> cs_pending_seq s' = cs_pending_seq s \<and> cs_pending_snapshot s' = cs_pending_snapshot s"
proof -
  define s1 where "s1 = no_zero_version (if is_snapshot_cmd (Some cmd) then next_version (sn_sync n) else sn_sync n)"
  have s1: "cs_queue s1 = cs_queue (sn_sync n)" "cs_pending_seq s1 = cs_pending_seq (sn_sync n)"
    "cs_pending_snapshot s1 = cs_pending_snapshot (sn_sync n)"
    by (simp_all add: s1_def no_zero_version_def next_version_def)
  obtain ret s2 where t: "take_pending now seq cmd payload port s1 = (ret, s2)" by fastforce
  have shown: "cs_queue (show_waiting b (set_reason r s)) = cs_queue s"
    "cs_pending_seq (show_waiting b (set_reason r s)) = cs_pending_seq s"
    "cs_pending_snapshot (show_waiting b (set_reason r s)) = cs_pending_snapshot s" for b r s
    by (simp_all add: show_waiting_def)
  have "data_config_sync_mark_sent E now seq (Some cmd) (Some payload) port n
      = (ret, publish_state_locked E (n\<lparr>sn_sync := show_waiting (mqtt_is_connected (bn_mqtt n)) (set_reason (Some []) s2)\<rparr>))"
    using assms(2) t by (simp add: data_config_sync_mark_sent_def s1_def Let_def)
  moreover have "ret = DATA_SEND_OK \<and> holds_message seq payload s2
    \<or> ret = DATA_SEND_MQTT_QUEUE_FULL \<and> has_active_pending s1 \<and> length (waiting s1) = 8 \<and> s2 = s1"
    using take_outcome [of s1 seq payload now cmd port] assms(1) by (simp add: s1 t)
  ultimately show ?thesis
    by (auto simp: holds_message_def waiting_def shown s1 has_active_pending_def Let_def)
qed

text \<open>A snapshot acknowledgement that matches nothing is dropped.\<close>

lemma stale_snapshot_ack:
  assumes "is_snapshot_cmd (Some (sa_cmd a))" "sa_seq a \<noteq> 0" "has_active_pending s" "sa_seq a \<noteq> cs_pending_seq s"
    and "\<not> (\<exists>p \<in> set (waiting s). pq_seq p = sa_seq a \<and> pq_cmd p = sa_cmd a)"
  shows "apply_ack now a s = None"
proof -
  have "sa_cmd a \<noteq> []" using assms(1) by (auto simp: is_snapshot_cmd_def)
  then have "first_index (\<lambda>p. pq_used p \<and> pq_seq p = sa_seq a \<and> (sa_cmd a = [] \<or> pq_cmd p = sa_cmd a)) (cs_queue s) = None"
    using assms(5) by (auto simp: first_index_None waiting_def)
  then have "remove_queued_pending (sa_seq a) (Some (sa_cmd a)) s = (False, s)"
    by (simp add: remove_queued_pending_def)
  then show ?thesis using assms by (simp add: apply_ack_def active_match_def has_active_pending_def Let_def)
qed

text \<open>Every other acknowledgement is taken.\<close>

lemma ack_taken:
  assumes "cfg_wf s" "\<not> (is_snapshot_cmd (Some (sa_cmd a)) \<and> sa_seq a \<noteq> 0 \<and> has_active_pending s
      \<and> sa_seq a \<noteq> cs_pending_seq s \<and> \<not> (\<exists>p \<in> set (waiting s). pq_seq p = sa_seq a \<and> pq_cmd p = sa_cmd a))"
  obtains s' where "apply_ack now a s = Some s'"
proof -
  have active: "has_active_pending s \<longleftrightarrow> cs_pending_seq s \<noteq> 0"
    using assms(1) by (auto simp: cfg_wf_def cfg_mid_def has_active_pending_def)
  have found: "fst (remove_queued_pending (sa_seq a) (Some (sa_cmd a)) s)"
    if "\<exists>p \<in> set (waiting s). pq_seq p = sa_seq a \<and> pq_cmd p = sa_cmd a"
  proof -
    have "first_index (\<lambda>p. pq_used p \<and> pq_seq p = sa_seq a \<and> (sa_cmd a = [] \<or> pq_cmd p = sa_cmd a)) (cs_queue s) \<noteq> None"
      using that by (auto simp: first_index_None waiting_def)
    then show ?thesis by (auto simp: remove_queued_pending_def)
  qed
  have "cs_pending_seq (snd (remove_queued_pending q c s)) = cs_pending_seq s" for q c
    by (simp add: remove_queued_pending_def split: option.split)
  then have "apply_ack now a s \<noteq> None"
    using assms(2) found active by (auto simp: apply_ack_def Let_def split_def active_match_def)
  then show thesis using that by blast
qed

subsection \<open>What a tick does\<close>

text \<open>The text of a resend: the stored message with the new number and the current version.\<close>

definition resend_text :: "'v json_c \<Rightarrow> 32 word \<Rightarrow> 32 word \<Rightarrow> 'v \<Rightarrow> string" where
  "resend_text C seq version doc = c_str (jc_print C (put_member C ''configVersion'' (jc_int64 C (uint version))
     (put_member C ''seq'' (jc_int64 C (uint seq)) doc)))"

lemma tick_quiet:
  assumes "cfg_wf (sn_sync n)" "has_active_pending (sn_sync n)" "mqtt_is_connected (bn_mqtt n)"
    "now - cs_last_send_ms (sn_sync n) < 5000 \<or> \<not> cs_retryable (sn_sync n)"
  shows "data_config_sync_tick E now n = n"
  using assms by (auto simp: data_config_sync_tick_def promote_next_pending_def CONFIG_SYNC_ACK_TIMEOUT_MS_def Let_def)

lemma tick_late:
  assumes "cfg_wf (sn_sync n)" "has_active_pending (sn_sync n)" "mqtt_is_connected (bn_mqtt n)" "cs_retryable (sn_sync n)"
    "5000 \<le> now - cs_last_send_ms (sn_sync n)" "now - cs_last_send_ms (sn_sync n) < 8000"
  shows "let n' = data_config_sync_tick E now n
    in bn_mqtt n' = bn_mqtt n \<and> bn_offline n' = bn_offline n \<and> cs_status (sn_sync n') = ''timeout''
      \<and> sn_sync n' = (sn_sync n)\<lparr>cs_status := ''timeout'', cs_message := cs_message (sn_sync n')\<rparr>"
  using assms
  by (auto simp: data_config_sync_tick_def promote_next_pending_def CONFIG_SYNC_ACK_TIMEOUT_MS_def
      CONFIG_SYNC_RETRY_INTERVAL_MS_def show_once_def set_status_def set_message_def copy_text_def c_str_def Let_def)

definition pending_meta :: "int \<Rightarrow> config_sync \<Rightarrow> offline_publish_meta" where
  "pending_meta now s = sync_meta (if cs_pending_cmd s \<noteq> [] then cs_pending_cmd s else ''config_snapshot'')
     (if cs_pending_port_id s \<noteq> [] then cs_pending_port_id s else DEFAULT_PORT_ID) now"

lemma send_pending_result:
  fixes seq :: "32 word" and n :: "'a sync_net_scheme" and doc :: 'v and E :: "'v net_env"
  assumes "cs_pending_snapshot (sn_sync n) \<noteq> []" "jc_parse (ne_json E) (cs_pending_snapshot (sn_sync n)) = Some doc"
  defines "sent \<equiv> resend_text (ne_json E) seq (cs_config_version (sn_sync n)) doc"
  shows "send_pending_locked E now seq n =
     net_publish_or_cache (ne_sql E) now (Some MQTT_GATEWAY_REGISTER_TOPIC) (Some sent) (Some (pending_meta now (sn_sync n)))
       (n\<lparr>sn_sync := (sn_sync n)\<lparr>cs_pending_snapshot := copy_text CONFIG_SYNC_PAYLOAD_MAX (Some sent),
          cs_pending_seq := seq, cs_last_send_ms := now\<rparr>\<rparr>)"
  using assms(1,2) by (simp add: send_pending_locked_def sent_def resend_text_def pending_meta_def Let_def)

lemma tick_resends:
  assumes "cfg_wf (sn_sync n)" "has_active_pending (sn_sync n)" "mqtt_is_connected (bn_mqtt n)" "cs_retryable (sn_sync n)"
    "8000 \<le> now - cs_last_send_ms (sn_sync n)" "jc_parse (ne_json E) (cs_pending_snapshot (sn_sync n)) = Some doc"
  defines "s \<equiv> sn_sync n"
  defines "sent \<equiv> resend_text (ne_json E) (cs_seq s + 1) (cs_config_version s) doc"
  shows "\<exists>m. let n' = data_config_sync_tick E now n; s' = sn_sync n'
    in bn_mqtt n' = bn_mqtt m \<and> bn_offline n' = bn_offline m
      \<and> m = snd (net_publish_or_cache (ne_sql E) now (Some MQTT_GATEWAY_REGISTER_TOPIC) (Some sent)
                 (Some (pending_meta now s)) (n\<lparr>sn_sync := s'\<rparr>))
      \<and> cs_pending_seq s' = cs_seq s + 1 \<and> cs_pending_snapshot s' = copy_text CONFIG_SYNC_PAYLOAD_MAX (Some sent)
      \<and> cs_last_send_ms s' = now \<and> cs_retry_count s' = cs_retry_count s + 1
      \<and> cs_status s' = (if cs_retry_count s \<ge> 3 then ''retrying'' else ''timeout'')"
proof -
  define w where "w = (if cs_retry_count s \<ge> 3 then set_message (Some text_no_answer) \<circ> set_status ''retrying''
      else set_message (Some text_no_ack) \<circ> set_status ''timeout'')"
  define s1 where "s1 = w (s\<lparr>cs_retry_count := cs_retry_count s + 1, cs_seq := cs_seq s + 1\<rparr>)"
  have f: "cs_pending_snapshot s1 = cs_pending_snapshot s" "cs_config_version s1 = cs_config_version s"
    "cs_retry_count s1 = cs_retry_count s + 1" "cs_status s1 = (if cs_retry_count s \<ge> 3 then ''retrying'' else ''timeout'')"
    by (simp_all add: s1_def w_def set_status_def set_message_def copy_text_def c_str_def)
  have tick: "data_config_sync_tick E now n
      = publish_state_locked E (snd (send_pending_locked E now (cs_seq s + 1) (n\<lparr>sn_sync := s1\<rparr>)))"
    using assms(1-5)
    by (simp add: data_config_sync_tick_def promote_next_pending_def CONFIG_SYNC_ACK_TIMEOUT_MS_def
        CONFIG_SYNC_RETRY_INTERVAL_MS_def resend_def next_seq_locked_def CONFIG_SYNC_MAX_FAST_RETRY_COUNT_def
        Let_def s_def s1_def w_def)
  have "cs_pending_snapshot (sn_sync (n\<lparr>sn_sync := s1\<rparr>)) \<noteq> []"
    "jc_parse (ne_json E) (cs_pending_snapshot (sn_sync (n\<lparr>sn_sync := s1\<rparr>))) = Some doc"
    using assms(2,6) f(1) by (simp_all add: s_def has_active_pending_def)
  note send_pending_result [OF this, of now "cs_seq s + 1"]
  moreover have "pending_meta now s1 = pending_meta now s"
    by (simp add: s1_def w_def pending_meta_def set_status_def set_message_def)
  ultimately have send: "send_pending_locked E now (cs_seq s + 1) (n\<lparr>sn_sync := s1\<rparr>) =
      net_publish_or_cache (ne_sql E) now (Some MQTT_GATEWAY_REGISTER_TOPIC) (Some sent) (Some (pending_meta now s))
       (n\<lparr>sn_sync := s1\<lparr>cs_pending_snapshot := copy_text CONFIG_SYNC_PAYLOAD_MAX (Some sent),
          cs_pending_seq := cs_seq s + 1, cs_last_send_ms := now\<rparr>\<rparr>)"
    by (simp add: f(2) sent_def)
  show ?thesis
    by (rule exI [of _ "snd (send_pending_locked E now (cs_seq s + 1) (n\<lparr>sn_sync := s1\<rparr>))"])
      (simp add: tick send Let_def f(3,4))
qed

text \<open>
  A negative acknowledgement of a registration that is neither active nor waiting, with
  \<open>retryable\<close> false, stops the resending of the active message.
\<close>

lemma unrelated_ack:
  assumes "\<not> is_snapshot_cmd (Some (sa_cmd a))" "\<not> sa_ok a" "\<not> active_match a s"
    and "\<not> (\<exists>p \<in> set (waiting s). pq_seq p = sa_seq a \<and> pq_cmd p = sa_cmd a)" "sa_cmd a \<noteq> []"
  shows "\<exists>s'. apply_ack now a s = Some s' \<and> cs_retryable s' = sa_retryable a
    \<and> has_active_pending s' = has_active_pending s \<and> cs_pending_snapshot s' = cs_pending_snapshot s \<and> waiting s' = waiting s"
proof -
  have "first_index (\<lambda>p. pq_used p \<and> pq_seq p = sa_seq a \<and> (sa_cmd a = [] \<or> pq_cmd p = sa_cmd a)) (cs_queue s) = None"
    using assms(4,5) by (auto simp: first_index_None waiting_def)
  then have "remove_queued_pending (sa_seq a) (Some (sa_cmd a)) s = (False, s)"
    by (simp add: remove_queued_pending_def)
  then show ?thesis
    using assms(1-3)
    by (simp add: apply_ack_def ack_failure_def Let_def)
      (simp add: set_status_def set_message_def set_reason_def has_active_pending_def waiting_def)
qed

lemma ticks_stopped:
  assumes "cfg_wf (sn_sync n)" "has_active_pending (sn_sync n)" "mqtt_is_connected (bn_mqtt n)" "\<not> cs_retryable (sn_sync n)"
  shows "foldl (\<lambda>n now. data_config_sync_tick E now n) n ts = n"
  using assms by (induction ts) (simp_all add: tick_quiet)

end
