(* ===== verification/DataPublish.thy ===== *)
theory DataPublish
  imports ConfigSyncLemmas
begin

text \<open>
  Linux_data/data/data_publish.c: the messages of the board.  A reading goes to the user
  interface over the socket and, once Pc_data has acknowledged the configuration, to the
  broker or the offline table; registrations and heartbeats go to the broker.  The clock is
  read once per operation.
\<close>

record device_status_cache =
  dc_slot :: int
  dc_device_id :: int
  dc_valid :: bool
  dc_seen :: bool

record publish_net = sync_net +
  pb_status :: "device_status_cache list"
  pb_telemetry_seq :: "32 word"

definition STATUS_CACHE_SIZE :: nat where "STATUS_CACHE_SIZE = 64"

definition status_cache_new :: "device_status_cache list" where
  "status_cache_new = replicate STATUS_CACHE_SIZE \<lparr>dc_slot = 0, dc_device_id = 0, dc_valid = False, dc_seen = False\<rparr>"

definition point_key_from_device :: "device_data \<Rightarrow> string" where
  "point_key_from_device dev =
     (case dv_type dev of
        DEV_SENSOR_TH \<Rightarrow> ''temperature_humidity''
      | DEV_RELAY \<Rightarrow> ''relay_states''
      | DEV_ELECTRIC_METER \<Rightarrow> ''meter_values''
      | DEV_SYSINFO \<Rightarrow> ''sysinfo''
      | DEV_UNKNOWN \<Rightarrow> ''device'')"

definition is_status_of :: "int \<Rightarrow> int \<Rightarrow> device_status_cache \<Rightarrow> bool" where
  "is_status_of slot i c \<longleftrightarrow> dc_seen c \<and> dc_slot c = slot \<and> dc_device_id c = i"

definition check_device_status_changed :: "int \<Rightarrow> device_data \<Rightarrow> device_status_cache list
    \<Rightarrow> bool \<times> device_status_cache list" where
  "check_device_status_changed slot dev cache =
     (let found = (case first_index (is_status_of slot (dv_device_id dev)) cache of
                     Some i \<Rightarrow> Some i | None \<Rightarrow> first_index (\<lambda>c. \<not> dc_seen c) cache)
      in case found of None \<Rightarrow> (False, cache)
         | Some i \<Rightarrow>
             let c = cache ! i
             in (dc_seen c \<and> dc_valid c \<noteq> dv_valid dev,
                 cache[i := \<lparr>dc_slot = slot, dc_device_id = dv_device_id dev, dc_valid = dv_valid dev, dc_seen = True\<rparr>]))"

definition fill_base_meta :: "string \<Rightarrow> int \<Rightarrow> int \<Rightarrow> int \<Rightarrow> offline_publish_meta" where
  "fill_base_meta message_type priority timestamp_ms now = meta_zero
     \<lparr>ofm_message_type := Some message_type, ofm_gateway_id := Some DEFAULT_GATEWAY_ID,
      ofm_port_id := Some DEFAULT_PORT_ID, ofm_device_id := -1, ofm_priority := priority,
      ofm_timestamp_ms := (if timestamp_ms > 0 then timestamp_ms else now)\<rparr>"

definition publish_json_to_mqtt_topic_with_meta :: "'v net_env \<Rightarrow> int \<Rightarrow> string option \<Rightarrow> 'v
    \<Rightarrow> offline_publish_meta \<Rightarrow> 'a board_net_scheme \<Rightarrow> int \<times> 'a board_net_scheme" where
  "publish_json_to_mqtt_topic_with_meta E now topic doc meta =
     net_publish_or_cache (ne_sql E) now
       (Some (case topic of Some t \<Rightarrow> t | None \<Rightarrow> MQTT_DEFAULT_PUBLISH_TOPIC))
       (Some (jc_print (ne_json E) doc)) (Some meta)"

definition device_type_expects_telemetry :: "string option \<Rightarrow> bool" where
  "device_type_expects_telemetry t \<longleftrightarrow> (case t of None \<Rightarrow> True | Some s \<Rightarrow> s \<noteq> ''relay'' \<and> s \<noteq> ''led'')"

definition send_code_message :: "int \<Rightarrow> string" where
  "send_code_message code =
     (if code = DATA_SEND_OK then ''send success''
      else if code = DATA_SEND_INVALID_ARG then ''invalid argument''
      else if code = DATA_SEND_JSON_ERROR then ''json build failed''
      else if code = DATA_SEND_IPC_NO_CLIENT then ''ipc client not connected''
      else if code = DATA_SEND_IPC_WRITE_FAILED then ''ipc write failed''
      else if code = DATA_SEND_MQTT_NOT_READY then ''mqtt not ready''
      else if code = DATA_SEND_MQTT_QUEUE_FULL then ''mqtt queue full''
      else if code = DATA_SEND_PARTIAL_FAILED then ''partial send failed''
      else if code = DATA_SEND_OFFLINE_CACHE_DISABLED then ''offline cache flush is disabled''
      else ''send failed'')"

definition merge_send_code :: "int \<Rightarrow> int \<Rightarrow> int" where
  "merge_send_code ipc_code mqtt_code =
     (if ipc_code = DATA_SEND_OK \<and> mqtt_code = DATA_SEND_OK then DATA_SEND_OK
      else if ipc_code \<noteq> DATA_SEND_OK \<and> mqtt_code \<noteq> DATA_SEND_OK then DATA_SEND_PARTIAL_FAILED
      else if ipc_code \<noteq> DATA_SEND_OK then ipc_code else mqtt_code)"

definition send_publish_ack :: "'v net_env \<Rightarrow> 32 word \<Rightarrow> int \<Rightarrow> int \<Rightarrow> int \<Rightarrow> 'a board_net_scheme
    \<Rightarrow> 'a board_net_scheme" where
  "send_publish_ack E seq code ipc_code mqtt_code n =
     (let C = ne_json E
      in snd (ipc_server_send E (Some (jc_print C (jc_object C
           [(''type'', jc_string C ''publish_ack''), (''sequence'', jc_int64 C (uint seq)),
            (''seq'', jc_int64 C (uint seq)),
            (''status'', jc_string C (if code = DATA_SEND_OK then ''ok'' else ''failed'')),
            (''code'', jc_int C code), (''ipcCode'', jc_int C ipc_code), (''mqttCode'', jc_int C mqtt_code),
            (''message'', jc_string C (send_code_message code))]))) n))"

definition status_meta :: "int \<Rightarrow> int \<Rightarrow> bool \<Rightarrow> device_data \<Rightarrow> offline_publish_meta" where
  "status_meta now slot changed dev =
     (fill_base_meta ''telemetry_pack'' (if \<not> dv_valid dev \<or> changed then 2 else 1) now now)
       \<lparr>ofm_port_id := Some (portIdForSlot slot), ofm_device_id := dv_device_id dev,
        ofm_has_invalid_data := (if dv_valid dev then 0 else 1),
        ofm_status_changed := (if changed then 1 else 0),
        ofm_point_key := Some (point_key_from_device dev)\<rparr>"

definition data_publish_device_status_for_slot :: "'v net_env \<Rightarrow> int \<Rightarrow> int \<Rightarrow> device_data option
    \<Rightarrow> 'a publish_net_scheme \<Rightarrow> int \<times> 'a publish_net_scheme" where
  "data_publish_device_status_for_slot E now slot dev n =
     (case dev of None \<Rightarrow> (DATA_SEND_INVALID_ARG, n)
      | Some dev \<Rightarrow>
         let (pack, seq) = telemetry_pack_single_for_slot (pb_telemetry_seq n) now slot (Some dev);
             n = n\<lparr>pb_telemetry_seq := seq\<rparr>
         in case telemetry_pack_to_json (ne_json E) now pack 4096 of
              None \<Rightarrow> (DATA_SEND_JSON_ERROR, send_publish_ack E (tk_seq pack) DATA_SEND_JSON_ERROR
                        DATA_SEND_JSON_ERROR DATA_SEND_JSON_ERROR n)
            | Some json \<Rightarrow>
               let (ipc_code, n) = ipc_server_send E (Some json) n;
                   (changed, cache) = check_device_status_changed slot dev (pb_status n);
                   n = n\<lparr>pb_status := cache\<rparr>;
                   (mqtt_code, n) =
                     (if data_config_sync_telemetry_allowed (sn_sync n)
                      then case mqtt_make_port_up_topic_for_slot slot 128 of
                             Some topic \<Rightarrow> net_publish_or_cache (ne_sql E) now (Some topic) (Some json)
                                             (Some (status_meta now slot changed dev)) n
                           | None \<Rightarrow> (DATA_SEND_INVALID_ARG, n)
                      else (DATA_SEND_OK, n));
                   code = merge_send_code ipc_code mqtt_code
               in (code, send_publish_ack E (tk_seq pack) code ipc_code mqtt_code n))"

definition data_publish_device_status :: "'v net_env \<Rightarrow> int \<Rightarrow> device_data option
    \<Rightarrow> 'a publish_net_scheme \<Rightarrow> int \<times> 'a publish_net_scheme" where
  "data_publish_device_status E now dev = data_publish_device_status_for_slot E now 0 dev"

subsection \<open>Registrations and heartbeats\<close>

definition data_publish_gateway_register :: "'v net_env \<Rightarrow> int \<Rightarrow> 32 word \<Rightarrow> 'a sync_net_scheme
    \<Rightarrow> int \<times> 'a sync_net_scheme" where
  "data_publish_gateway_register E now seq n =
     (let C = ne_json E;
          up = (case mqtt_make_gateway_up_topic 128 of Some t \<Rightarrow> t | None \<Rightarrow> []);
          doc = jc_object C
            [(''type'', jc_string C ''gateway_register''), (''seq'', jc_int64 C (uint seq)),
             (''timestampMs'', jc_int64 C now), (''gatewayId'', jc_string C DEFAULT_GATEWAY_ID),
             (''gatewayName'', jc_string C DEFAULT_GATEWAY_NAME), (''factoryId'', jc_string C DEFAULT_FACTORY_ID),
             (''areaId'', jc_string C DEFAULT_AREA_ID), (''upTopic'', jc_string C up),
             (''cmdTopic'', jc_string C (''cmd/'' @ DEFAULT_GATEWAY_ID @ ''/#''))];
          (ret, n) = publish_json_to_mqtt_topic_with_meta E now (Some MQTT_GATEWAY_REGISTER_TOPIC) doc
            (fill_base_meta ''gateway_register'' 0 now now) n
      in (ret, snd (data_config_sync_mark_sent E now seq (Some ''gateway_register'') (Some (jc_print C doc))
                 (Some DEFAULT_PORT_ID) n)))"

definition data_publish_gateway_heartbeat :: "'v net_env \<Rightarrow> int \<Rightarrow> 32 word \<Rightarrow> 'a board_net_scheme
    \<Rightarrow> int \<times> 'a board_net_scheme" where
  "data_publish_gateway_heartbeat E now seq n =
     (let C = ne_json E
      in publish_json_to_mqtt_topic_with_meta E now (Some MQTT_DEFAULT_PUBLISH_TOPIC)
           (jc_object C [(''type'', jc_string C ''gateway_heartbeat''), (''seq'', jc_int64 C (uint seq)),
              (''timestampMs'', jc_int64 C now), (''gatewayId'', jc_string C DEFAULT_GATEWAY_ID),
              (''status'', jc_string C ''online'')])
           (fill_base_meta ''gateway_heartbeat'' 0 now now) n)"

definition text_of :: "string option \<Rightarrow> string" where
  "text_of t = (case t of None \<Rightarrow> [] | Some s \<Rightarrow> s)"

definition data_publish_port_register :: "'v net_env \<Rightarrow> int \<Rightarrow> 32 word \<Rightarrow> int \<Rightarrow> string option \<Rightarrow> int
    \<Rightarrow> string option \<Rightarrow> 'a sync_net_scheme \<Rightarrow> int \<times> 'a sync_net_scheme" where
  "data_publish_port_register E now seq slot device_path baud status n =
     (if slot < 0 then (DATA_SEND_INVALID_ARG, n)
      else
        let C = ne_json E;
            doc = jc_object C
              [(''type'', jc_string C ''port_register''), (''seq'', jc_int64 C (uint seq)),
               (''timestampMs'', jc_int64 C now), (''gatewayId'', jc_string C DEFAULT_GATEWAY_ID),
               (''portId'', jc_string C (portIdForSlot slot)), (''portName'', jc_string C (portNameForSlot slot)),
               (''slot'', jc_int C slot), (''devicePath'', jc_string C (text_of device_path)),
               (''baud'', jc_int C baud),
               (''status'', jc_string C (if text_of status \<noteq> [] then text_of status else ''connected''))];
            (ret, n) = publish_json_to_mqtt_topic_with_meta E now (Some MQTT_GATEWAY_REGISTER_TOPIC) doc
              ((fill_base_meta ''port_register'' 0 now now)\<lparr>ofm_port_id := Some (portIdForSlot slot)\<rparr>) n
        in (ret, snd (data_config_sync_mark_sent E now seq (Some ''port_register'') (Some (jc_print C doc))
                   (Some (portIdForSlot slot)) n)))"

definition register_site_json :: "'v json_c \<Rightarrow> int \<Rightarrow> 'v" where
  "register_site_json C slot = jc_object C
     [(''factoryId'', jc_string C DEFAULT_FACTORY_ID), (''factoryName'', jc_string C DEFAULT_FACTORY_NAME),
      (''areaId'', jc_string C DEFAULT_AREA_ID), (''areaName'', jc_string C DEFAULT_AREA_NAME),
      (''gatewayId'', jc_string C DEFAULT_GATEWAY_ID), (''gatewayName'', jc_string C DEFAULT_GATEWAY_NAME),
      (''portId'', jc_string C (portIdForSlot slot)), (''portName'', jc_string C (portNameForSlot slot))]"

definition device_register_json :: "'v json_c \<Rightarrow> int \<Rightarrow> 32 word \<Rightarrow> int \<Rightarrow> int \<Rightarrow> string \<Rightarrow> int \<Rightarrow> 'v" where
  "device_register_json C now seq slot slave_id device_type poll_interval_ms = jc_object C
     [(''type'', jc_string C ''device_register''), (''sequence'', jc_int64 C (uint seq)),
      (''seq'', jc_int64 C (uint seq)), (''timestampMs'', jc_int64 C now), (''slot'', jc_int C slot),
      (''sourceId'', jc_string C DEFAULT_SOURCE_ID), (''targetId'', jc_string C DEFAULT_TARGET_ID),
      (''site'', register_site_json C slot), (''deviceId'', jc_int C slave_id),
      (''deviceName'', jc_string C (copy_text MAX_DEVICE_NAME_LEN (Some (''Device '' @ to_string slave_id)))),
      (''deviceType'', jc_string C device_type),
      (''pollIntervalMs'', jc_int C (if poll_interval_ms > 0 then poll_interval_ms else 1000)),
      (''expectTelemetry'', jc_bool C (device_type_expects_telemetry (Some device_type)))]"

definition data_publish_device_register :: "'v net_env \<Rightarrow> int \<Rightarrow> 32 word \<Rightarrow> int \<Rightarrow> int \<Rightarrow> string option \<Rightarrow> int
    \<Rightarrow> 'a sync_net_scheme \<Rightarrow> int \<times> 'a sync_net_scheme" where
  "data_publish_device_register E now seq slot slave_id device_type poll_interval_ms n =
     (if slave_id \<le> 0 \<or> text_of device_type = [] then (DATA_SEND_INVALID_ARG, n)
      else
        let json = jc_print (ne_json E)
              (device_register_json (ne_json E) now seq slot slave_id (text_of device_type) poll_interval_ms);
            meta = (fill_base_meta ''device_register'' 0 now now)
              \<lparr>ofm_port_id := Some (portIdForSlot slot), ofm_device_id := slave_id\<rparr>;
            n = snd (ipc_server_send E (Some json) n);
            (ret, n) = net_publish_or_cache (ne_sql E) now (Some MQTT_GATEWAY_REGISTER_TOPIC) (Some json) (Some meta) n
        in (ret, snd (data_config_sync_mark_sent E now seq (Some ''device_register'') (Some json)
                   (Some (portIdForSlot slot)) n)))"

end
