(* ===== verification/Wire.thy ===== *)
theory Wire
  imports DataTelemetry TelemetryPath
begin

text \<open>
  A telemetry message from the board to the snapshot of Pc_data.  json-c writes the text on
  one side and rapidjson reads it on the other; the locale \<open>wire\<close> states what both rest on:
  \<open>doc v\<close> is the document rapidjson sees for the value \<open>v\<close> of json-c, with the same members,
  elements, texts and numbers.  That the text of a message parses to its document is a
  hypothesis about that message.
\<close>

locale wire = json_c_laws C + rapidjson_dom J
  for C :: "'v json_c" and J :: "'w rapidjson" +
  fixes doc :: "'v \<Rightarrow> 'w"
  assumes doc_object: "rj_is_object J (doc (jc_object C ms))"
    and doc_member: "rj_member J (doc (jc_object C ms)) k = map_option doc (map_of (rev ms) k)"
    and doc_array: "rj_is_array J (doc (jc_array C xs))"
    and doc_elements: "rj_elements J (doc (jc_array C xs)) = map doc xs"
    and doc_is_string: "rj_is_string J (doc (jc_string C s))"
    and doc_string: "rj_get_string J (doc (jc_string C s)) = c_str s"
    and doc_is_int: "in_int i \<Longrightarrow> rj_is_int J (doc (jc_int C i))"
    and doc_int: "in_int i \<Longrightarrow> rj_get_int J (doc (jc_int C i)) = i"
    and doc_is_int64: "in_int64 i \<Longrightarrow> rj_is_int64 J (doc (jc_int64 C i))"
    and doc_int64: "in_int64 i \<Longrightarrow> rj_get_int64 J (doc (jc_int64 C i)) = i"
    and doc_is_bool: "rj_is_bool J (doc (jc_bool C b))"
    and doc_bool: "rj_get_bool J (doc (jc_bool C b)) = b"
    and doc_is_number: "rj_is_number J (doc (jc_double C (Fin q)))"
    and doc_double: "rj_get_double J (doc (jc_double C (Fin q))) = Fin q"

subsection \<open>The two models agree\<close>

fun jcv_doc :: "jcv \<Rightarrow> jv" where
  "jcv_doc CNull = JNull"
| "jcv_doc (CBool b) = JBool b"
| "jcv_doc (CInt i) = JInt i"
| "jcv_doc (CDouble x) = JReal x"
| "jcv_doc (CStr s) = JStr s"
| "jcv_doc (CArr xs) = JArr (map jcv_doc xs)"
| "jcv_doc (CObj ms) = JObj (map (\<lambda>(k, v). (k, jcv_doc v)) ms)"

lemma map_of_doc: "map_of (map (\<lambda>(k, v). (k, f v)) ms) k = map_option f (map_of ms k)"
  by (induction ms) auto

interpretation wired: wire "jcv_model print" "jv_dom parse stod" jcv_doc for print parse stod
  by unfold_locales
    (auto simp: jcv_model_def jv_dom_def map_of_doc jv_int_in_def jv_int_def in_int_def in_int64_def
      int_min_def int_max_def)

lemma models_wired: "wire (jcv_model print) (jv_dom parse stod) jcv_doc"
  by unfold_locales

definition wire_type :: "device_type_t \<Rightarrow> DeviceType" where
  "wire_type ty = parseDeviceType (device_type_to_str ty)"

lemma no_null_types [simp]: "c_str (device_type_to_str ty) = device_type_to_str ty"
  by (cases ty) (simp_all add: c_str_def)

lemma type_not_empty [simp]: "device_type_to_str ty \<noteq> []"
  by (cases ty) simp_all

definition device_body :: "'v json_c \<Rightarrow> device_data \<Rightarrow> (string \<times> 'v) list" where
  "device_body C dev = type_members C dev
     @ (if device_points_json C dev = [] then [] else [(''points'', jc_array C (device_points_json C dev))])"

subsection \<open>What the accessors read\<close>

context wire
begin

lemma member_of: "obj_member J (doc (jc_object C ms)) k = map_option doc (map_of (rev ms) k)"
  by (simp add: obj_member_def doc_object doc_member)

lemma read_string:
  "map_of (rev ms) k = Some (jc_string C s) \<Longrightarrow> tpp_getString J (doc (jc_object C ms)) k d = c_str s"
  by (simp add: tpp_getString_def member_of doc_is_string doc_string)

lemma read_json_string:
  "map_of (rev ms) k = Some (jc_string C s) \<Longrightarrow> getJsonString J (doc (jc_object C ms)) k = c_str s"
  by (simp add: getJsonString_def member_of doc_is_string doc_string)

lemma read_int:
  "map_of (rev ms) k = Some (jc_int C i) \<Longrightarrow> in_int i \<Longrightarrow> tpp_getInt J (doc (jc_object C ms)) k d = i"
  by (simp add: tpp_getInt_def member_of doc_is_int doc_int)

lemma read_no_int: "map_of (rev ms) k = None \<Longrightarrow> tpp_getInt J (doc (jc_object C ms)) k d = d"
  by (simp add: tpp_getInt_def member_of)

lemma read_bool:
  "map_of (rev ms) k = Some (jc_bool C b) \<Longrightarrow> tpp_getBool J (doc (jc_object C ms)) k d = b"
  by (simp add: tpp_getBool_def member_of doc_is_bool doc_bool)

lemma read_double:
  "map_of (rev ms) k = Some (jc_double C (Fin q)) \<Longrightarrow> tpp_getDouble J (doc (jc_object C ms)) k d = Fin q"
  by (simp add: tpp_getDouble_def member_of doc_is_number doc_double)

lemma read_int64:
  "map_of (rev ms) k = Some (jc_int64 C i) \<Longrightarrow> in_int64 i \<Longrightarrow>
   getJsonInt64Any J (doc (jc_object C ms)) (k # ks) d = i"
  by (simp add: getJsonInt64Any_def getJsonInt64_def member_of doc_object doc_member doc_is_int64 doc_int64)

lemma nested:
  "map_of (rev ms) k = Some (jc_object C ns) \<Longrightarrow> nestedObject J (doc (jc_object C ms)) k = doc (jc_object C ns)"
  by (simp add: nestedObject_def member_of doc_object)

lemma not_nested: "map_of (rev ms) k = None \<Longrightarrow> nestedObject J (doc (jc_object C ms)) k = rj_null J"
  by (simp add: nestedObject_def member_of)

lemma read_type:
  "map_of (rev ms) ''deviceType'' = Some (jc_string C t) \<Longrightarrow> c_str t \<noteq> [] \<Longrightarrow>
   getJsonStringAny J (doc (jc_object C ms)) [''deviceType'', ''device_type''] = c_str t"
  by (simp add: getJsonStringAny_def doc_object read_json_string)

lemmas read_simps = read_string read_int read_bool read_double nested not_nested read_type

subsection \<open>Devices\<close>

lemma head_lookup:
  "k \<notin> fst ` set ms \<Longrightarrow> map_of (rev (device_head C now dev @ ms)) k = map_of (rev (device_head C now dev)) k"
  using map_of_eq_None_iff [of "rev ms" k] by (simp add: map_add_def)

lemma head_members:
  "map_of (rev (device_head C now dev)) ''deviceId'' = Some (jc_int C (dv_device_id dev))"
  "map_of (rev (device_head C now dev)) ''deviceName'' = Some (jc_string C (default_device_name dev))"
  "map_of (rev (device_head C now dev)) ''deviceType'' = Some (jc_string C (device_type_to_str (dv_type dev)))"
  "map_of (rev (device_head C now dev)) ''valid'' = Some (jc_bool C (dv_valid dev))"
  "map_of (rev (device_head C now dev)) ''errorMessage'' = Some (jc_string C
     (if dv_valid dev \<or> dv_error_message dev \<noteq> [] then dv_error_message dev else invalid_text))"
  by (simp_all add: device_head_def)

lemma device_json: "pack_device_json C now dev = jc_object C (device_head C now dev @ device_body C dev)"
  by (simp add: pack_device_json_def device_body_def Let_def)

lemma body_keys:
  "''deviceId'' \<notin> fst ` set (device_body C dev)" "''deviceName'' \<notin> fst ` set (device_body C dev)"
  "''deviceType'' \<notin> fst ` set (device_body C dev)" "''valid'' \<notin> fst ` set (device_body C dev)"
  "''errorMessage'' \<notin> fst ` set (device_body C dev)"
  by (auto simp: device_body_def type_members_def th_members_def relay_members_def meter_members_def
      sys_members_def Let_def split: device_type_t.splits if_splits)

lemma parsed_head:
  assumes "in_int (dv_device_id dev)"
  shows "\<exists>err. parse_device_head J (doc (pack_device_json C now dev)) =
    (dv_device_id dev, c_str (default_device_name dev), wire_type (dv_type dev),
     dv_valid dev \<and> dv_device_id dev > 0 \<and> wire_type (dv_type dev) \<noteq> DT_Unknown, err)"
proof -
  let ?item = "doc (pack_device_json C now dev)"
  have r: "tpp_getInt J ?item ''deviceId'' d = dv_device_id dev"
    "tpp_getString J ?item ''deviceName'' s = c_str (default_device_name dev)"
    "getJsonStringAny J ?item [''deviceType'', ''device_type''] = device_type_to_str (dv_type dev)"
    "tpp_getBool J ?item ''valid'' b = dv_valid dev" for d s b
    using assms
    by (simp_all add: device_json body_keys read_int [OF trans [OF head_lookup head_members(1)]]
        read_string [OF trans [OF head_lookup head_members(2)]]
        read_type [OF trans [OF head_lookup head_members(3)]] read_bool [OF trans [OF head_lookup head_members(4)]])
  show ?thesis by (simp add: parse_device_head_def r wire_type_def Let_def)
qed

lemma parsed_id_type:
  assumes "in_int (dv_device_id dev)"
  shows "dd_deviceId (parse_device J (doc (pack_device_json C now dev))) = dv_device_id dev"
    and "dd_deviceName (parse_device J (doc (pack_device_json C now dev))) = c_str (default_device_name dev)"
    and "dd_type (parse_device J (doc (pack_device_json C now dev))) = wire_type (dv_type dev)"
  using parsed_head [OF assms, of now] by (auto simp: parse_device_def Let_def split: prod.splits)

lemma points_of_device:
  "item_points J (doc (pack_device_json C now dev)) = map doc (device_points_json C dev)"
proof -
  have "''points'' \<notin> fst ` set (device_head C now dev @ type_members C dev)"
    by (auto simp: device_head_def type_members_def th_members_def relay_members_def meter_members_def
        sys_members_def Let_def split: device_type_t.splits)
  then have none: "map_of (rev (device_head C now dev @ type_members C dev)) ''points'' = None"
    by (metis map_of_eq_None_iff set_rev)
  show ?thesis
  proof (cases "device_points_json C dev = []")
    case True
    then show ?thesis using none by (simp add: item_points_def device_json device_body_def member_of map_add_def)
  next
    case False
    then have "obj_member J (doc (pack_device_json C now dev)) ''points''
        = Some (doc (jc_array C (device_points_json C dev)))"
      by (simp add: device_json device_body_def member_of)
    then show ?thesis by (simp add: item_points_def doc_array doc_elements)
  qed
qed

lemma scan_of_device:
  "scan_points J (doc (pack_device_json C now dev))
     = foldl (scan_point J) point_scan_init (map doc (device_points_json C dev))"
  by (simp add: scan_points_item points_of_device)

lemma number_point_scan:
  assumes "key = ''temperature'' \<or> key = ''humidity''"
  shows "scan_point J ps (doc (number_point C key nm (Fin q) unit)) =
    (if key = ''temperature''
     then ps\<lparr>ps_pointKeys := ps_pointKeys ps @ [key], ps_temperature := float_round q, ps_hasPointTemperature := True\<rparr>
     else ps\<lparr>ps_pointKeys := ps_pointKeys ps @ [key], ps_humidity := float_round q, ps_hasPointHumidity := True\<rparr>)"
proof -
  let ?p = "doc (number_point C key nm (Fin q) unit)"
  have "c_str key = key" using assms by (auto simp: c_str_def)
  then have k: "tpp_getString J ?p ''pointKey'' [] = key"
    by (simp add: number_point_def read_string)
  have v: "tpp_getDouble J ?p ''numberValue'' d = Fin q" for d
    by (simp add: number_point_def read_double)
  have o: "rj_is_object J ?p" by (simp add: number_point_def doc_object)
  have "scan_point J ps ?p = (let ps = ps\<lparr>ps_pointKeys := ps_pointKeys ps @ [key]\<rparr> in
      if key = ''temperature'' then ps\<lparr>ps_temperature := float_round q, ps_hasPointTemperature := True\<rparr>
      else ps\<lparr>ps_humidity := float_round q, ps_hasPointHumidity := True\<rparr>)"
    using assms unfolding scan_point_def point_number_def k v to_float.simps by (auto simp: o)
  then show ?thesis by (simp add: Let_def)
qed

lemma relay_point_scan:
  "scan_point J ps (doc (relay_point_json C dev)) =
     ps\<lparr>ps_pointKeys := ps_pointKeys ps @ [''relay.ch1''],
        ps_relayStates := (if dv_relay_states dev AND 1 \<noteq> 0 then ps_relayStates ps OR 1 else ps_relayStates ps),
        ps_maxPointChannel := max 1 (ps_maxPointChannel ps), ps_hasPointRelay := True\<rparr>"
proof -
  have k: "tpp_getString J (doc (relay_point_json C dev)) ''pointKey'' [] = ''relay.ch1''"
    "tpp_getBool J (doc (relay_point_json C dev)) ''boolValue'' d = (dv_relay_states dev AND 1 \<noteq> 0)" for d
    by (simp_all add: relay_point_json_def read_string read_bool c_str_def)
  have "relayChannelIndex ''relay.ch1'' = 1" "is_relay_key ''relay.ch1''" by code_simp+
  moreover have "rj_is_object J (doc (relay_point_json C dev))" by (simp add: relay_point_json_def doc_object)
  ultimately show ?thesis
    by (simp add: scan_point_def scan_relay_point_def k Let_def kRelayMaxChannelCount_def max_def)
qed

lemma parsed_valid:
  assumes "in_int (dv_device_id dev)"
    and "dv_type dev = DEV_SENSOR_TH \<Longrightarrow> ps_hasPointTemperature (scan_points J (doc (pack_device_json C now dev)))"
    and "dv_type dev = DEV_RELAY \<Longrightarrow> ps_hasPointRelay (scan_points J (doc (pack_device_json C now dev)))"
  shows "dd_valid (parse_device J (doc (pack_device_json C now dev))) \<longleftrightarrow>
     dv_valid dev \<and> dv_device_id dev > 0 \<and> dv_type dev \<noteq> DEV_UNKNOWN"
proof -
  obtain err where h: "parse_device_head J (doc (pack_device_json C now dev)) =
    (dv_device_id dev, c_str (default_device_name dev), wire_type (dv_type dev),
     dv_valid dev \<and> dv_device_id dev > 0 \<and> wire_type (dv_type dev) \<noteq> DT_Unknown, err)"
    using parsed_head [OF assms(1)] by blast
  have ty: "wire_type (dv_type dev) = DT_Unknown \<longleftrightarrow> dv_type dev = DEV_UNKNOWN"
    "wire_type (dv_type dev) = DT_SensorTH \<longleftrightarrow> dv_type dev = DEV_SENSOR_TH"
    "wire_type (dv_type dev) = DT_Relay \<longleftrightarrow> dv_type dev = DEV_RELAY"
    by (cases "dv_type dev"; simp add: wire_type_def parseDeviceType_def)+
  have "check_required J item th relay (wire_type (dv_type dev))
      (scan_points J (doc (pack_device_json C now dev))) ve = ve" for item th relay ve
    using assms(2,3) by (cases ve) (auto simp: check_required_def ty Let_def)
  then show ?thesis by (simp add: parse_device_def h ty Let_def)
qed

text \<open>A sensor reading arrives as the floats the board has.\<close>

lemma th_parsed:
  assumes "dv_type dev = DEV_SENSOR_TH" "in_int (dv_device_id dev)"
    and "dv_temperature dev = Fin t" "dv_humidity dev = Fin h"
  shows "dd_th (parse_device J (doc (pack_device_json C now dev)))
      = \<lparr>th_temperature = float_round t, th_humidity = float_round h\<rparr>"
    and "dd_valid (parse_device J (doc (pack_device_json C now dev))) \<longleftrightarrow> dv_valid dev \<and> dv_device_id dev > 0"
proof -
  let ?item = "doc (pack_device_json C now dev)"
  have scan: "scan_points J ?item = point_scan_init\<lparr>ps_pointKeys := [''temperature'', ''humidity''],
      ps_temperature := float_round t, ps_hasPointTemperature := True,
      ps_humidity := float_round h, ps_hasPointHumidity := True\<rparr>"
    using assms by (simp add: scan_of_device device_points_json_def number_point_scan point_scan_init_def)
  then show "dd_th (parse_device J ?item) = \<lparr>th_temperature = float_round t, th_humidity = float_round h\<rparr>"
    by (simp add: parse_device_def parse_th_def Let_def split: prod.splits)
  show "dd_valid (parse_device J ?item) \<longleftrightarrow> dv_valid dev \<and> dv_device_id dev > 0"
    using assms by (subst parsed_valid) (simp_all add: scan)
qed

text \<open>Of a relay only the first channel arrives, since the points array lists no other.\<close>

lemma word_and_1: "(w :: 16 word) AND 1 = (if w AND 1 \<noteq> 0 then 1 else 0)"
  by (simp add: and_one_eq mod_2_eq_odd)

lemma declared_channels:
  assumes "dv_type dev = DEV_RELAY" "in_int (relay_channels dev)"
  shows "declaredRelayChannelCount J (doc (pack_device_json C now dev)) relay
     = (if relay_channels dev \<le> 64 then relay_channels dev
        else firstValidRelayChannelCount J relay ''channelCount'' ''channel_count'')"
proof -
  have "map_of (rev (device_head C now dev @ device_body C dev)) ''channelCount'' = Some (jc_int C (relay_channels dev))"
    "map_of (rev (device_head C now dev @ device_body C dev)) ''channel_count'' = None"
    using assms(1) by (simp_all add: device_head_def device_body_def type_members_def relay_members_def
        device_points_json_def Let_def)
  then have "tpp_getInt J (doc (pack_device_json C now dev)) ''channelCount'' 0 = relay_channels dev"
    "tpp_getInt J (doc (pack_device_json C now dev)) ''channel_count'' 0 = 0"
    using assms(2) by (simp_all add: device_json read_int read_no_int del: rev_append)
  moreover have "relay_channels dev \<ge> 1" by (simp add: relay_channels_def)
  ultimately show ?thesis
    by (simp add: declaredRelayChannelCount_def firstValidRelayChannelCount_def validRelayChannelCount_def
        kRelayMaxChannelCount_def Let_def)
qed

lemma relay_parsed:
  assumes "dv_type dev = DEV_RELAY" "in_int (dv_device_id dev)" "in_int (relay_channels dev)"
  shows "rd_relayStates (dd_relay (parse_device J (doc (pack_device_json C now dev)))) = dv_relay_states dev AND 1"
    and "relay_channels dev \<le> 64 \<Longrightarrow>
      rd_channelCount (dd_relay (parse_device J (doc (pack_device_json C now dev)))) = relay_channels dev"
    and "dd_valid (parse_device J (doc (pack_device_json C now dev))) \<longleftrightarrow> dv_valid dev \<and> dv_device_id dev > 0"
proof -
  let ?item = "doc (pack_device_json C now dev)"
  have scan: "scan_points J ?item = point_scan_init\<lparr>ps_pointKeys := [''relay.ch1''],
      ps_relayStates := dv_relay_states dev AND 1, ps_maxPointChannel := 1, ps_hasPointRelay := True\<rparr>"
    using assms(1) by (subst word_and_1) (simp add: scan_of_device device_points_json_def relay_point_scan point_scan_init_def)
  have ty: "dd_type (parse_device J ?item) = DT_Relay"
    using assms by (simp add: parsed_id_type wire_type_def parseDeviceType_def)
  show "rd_relayStates (dd_relay (parse_device J ?item)) = dv_relay_states dev AND 1"
    by (simp add: parse_device_relay parse_relay_def scan Let_def)
  show "rd_channelCount (dd_relay (parse_device J ?item)) = relay_channels dev" if "relay_channels dev \<le> 64"
    using that declared_channels [OF assms(1,3)] ty
    by (simp add: parse_device_relay parse_relay_def scan relay_channels_def Let_def)
  show "dd_valid (parse_device J ?item) \<longleftrightarrow> dv_valid dev \<and> dv_device_id dev > 0"
    using assms by (subst parsed_valid) (simp_all add: scan)
qed

subsection \<open>The message\<close>

lemma message_parsed:
  assumes "telemetry_pack_to_json C now pack n = Some text"
    and "rj_parse J text = Inr (doc (pack_json C now pack))"
    and "in_int64 (tk_timestamp_ms pack)" "tk_timestamp_ms pack > 0"
  shows "\<exists>pk. TelemetryPackParser_parseJson J rx text = Inr pk
    \<and> pk_devices pk = map (\<lambda>d. parse_device J (doc (pack_device_json C now d)))
        (take (min MAX_DEVICES_PER_PACK (nat (tk_device_count pack))) (tk_devices pack))
    \<and> pk_timestampMs pk = tk_timestamp_ms pack
    \<and> pk_site pk = parse_site J (doc (site_to_json C (tk_site pack)))"
proof -
  let ?ms = "[(''type'', jc_string C ''telemetry_pack''), (''version'', jc_int C PROTOCOL_VER),
      (''sequence'', jc_int64 C (uint (tk_seq pack))), (''timestampMs'', jc_int64 C (tk_timestamp_ms pack)),
      (''sourceId'', jc_string C (tk_source_id pack)), (''targetId'', jc_string C (tk_target_id pack)),
      (''site'', site_to_json C (tk_site pack)), (''ver'', jc_int C PROTOCOL_VER),
      (''seq'', jc_int64 C (uint (tk_seq pack))), (''time'', jc_int64 C (tk_timestamp pack)),
      (''count'', jc_int C (tk_device_count pack)),
      (''devices'', jc_array C (map (pack_device_json C now)
         (take (min MAX_DEVICES_PER_PACK (nat (tk_device_count pack))) (tk_devices pack))))]"
  let ?doc = "doc (jc_object C ?ms)"
  have doc: "doc (pack_json C now pack) = ?doc" by (simp add: pack_json_def)
  have ty: "tpp_getString J ?doc ''type'' [] = ''telemetry_pack''"
    by (subst read_string [of _ _ "''telemetry_pack''"]) (simp_all add: c_str_def)
  have site: "nestedObject J ?doc ''site'' = doc (site_to_json C (tk_site pack))"
    unfolding site_to_json_def by (rule nested) simp
  have stamp: "parse_timestamp J rx ?doc = tk_timestamp_ms pack"
    using assms(4) by (simp add: parse_timestamp_def read_int64 [where i = "tk_timestamp_ms pack"] assms(3))
  have dev: "rj_member J ?doc ''devices'' = Some (doc (jc_array C (map (pack_device_json C now)
       (take (min MAX_DEVICES_PER_PACK (nat (tk_device_count pack))) (tk_devices pack)))))"
    by (simp add: doc_member)
  have objs: "filter (rj_is_object J) (map (doc \<circ> pack_device_json C now) ds) = map (doc \<circ> pack_device_json C now) ds" for ds
    by (induction ds) (simp_all add: device_json doc_object)
  show ?thesis
    unfolding TelemetryPackParser_parseJson_def text_plain [OF assms(1)] assms(2) doc
    using objs by (simp add: Let_def ty site stamp dev doc_array doc_elements doc_object [of ?ms, simplified] comp_def del: rev_append)
qed

lemma site_parsed:
  "sc_factoryId (parse_site J (doc (site_to_json C s))) = c_str (sx_factory_id s)"
  "sc_areaId (parse_site J (doc (site_to_json C s))) = c_str (sx_area_id s)"
  "sc_gatewayId (parse_site J (doc (site_to_json C s))) = c_str (sx_gateway_id s)"
  "sc_portId (parse_site J (doc (site_to_json C s))) = c_str (sx_port_id s)"
  by (simp_all add: parse_site_def site_to_json_def read_string Let_def)

end

lemma slot_site:
  assumes "validSlot slot"
  shows "c_str (sx_gateway_id (fill_slot_site slot)) = ''gateway_001''"
    "c_str (sx_port_id (fill_slot_site slot)) = portIdForSlot slot"
    "c_str (sx_factory_id (fill_slot_site slot)) = ''factory_001''"
    "c_str (sx_area_id (fill_slot_site slot)) = ''area_001''"
proof -
  have "slot = 0 \<or> slot = 1" using assms by (auto simp: validSlot_def kSlotCount_def)
  then show "c_str (sx_gateway_id (fill_slot_site slot)) = ''gateway_001''"
    "c_str (sx_port_id (fill_slot_site slot)) = portIdForSlot slot"
    "c_str (sx_factory_id (fill_slot_site slot)) = ''factory_001''"
    "c_str (sx_area_id (fill_slot_site slot)) = ''area_001''"
    by (auto simp: fill_slot_site_def fill_default_site_def copy_text_def c_str_def portIdForSlot_def
        MAX_CLIENT_ID_LEN_def DEFAULT_GATEWAY_ID_def DEFAULT_PORT_ID_def DEFAULT_FACTORY_ID_def DEFAULT_AREA_ID_def)
qed

subsection \<open>From the device to the snapshot\<close>

definition telemetry_text :: "'v json_c \<Rightarrow> 32 word \<Rightarrow> int \<Rightarrow> int \<Rightarrow> device_data \<Rightarrow> string option" where
  "telemetry_text C seq now slot dev =
     telemetry_pack_to_json C now (fst (telemetry_pack_single_for_slot seq now slot (Some dev))) 4096"

definition telemetry_doc :: "'v json_c \<Rightarrow> 32 word \<Rightarrow> int \<Rightarrow> int \<Rightarrow> device_data \<Rightarrow> 'v" where
  "telemetry_doc C seq now slot dev =
     pack_json C now (fst (telemetry_pack_single_for_slot seq now slot (Some dev)))"

definition wire_id :: "int \<Rightarrow> int \<Rightarrow> string \<Rightarrow> string" where
  "wire_id slot i key = buildPointId ''factory_001'' ''area_001'' ''gateway_001'' (portIdForSlot slot) i key"

context wire
begin

lemma single_parsed:
  assumes "telemetry_text C seq now slot dev = Some text"
    and "rj_parse J text = Inr (doc (telemetry_doc C seq now slot dev))"
    and "validSlot slot" "0 < now" "in_int64 now" "in_int (dv_device_id dev)"
  obtains pk where "TelemetryPackParser_parseJson J rx text = Inr pk"
    "pk_devices pk = [parse_device J (doc (pack_device_json C now dev))]" "pk_timestampMs pk = now"
    "sc_gatewayId (pk_site pk) = ''gateway_001''" "sc_portId (pk_site pk) = portIdForSlot slot"
    "\<And>key. pack_point_id pk (parse_device J (doc (pack_device_json C now dev))) key
       = wire_id slot (dv_device_id dev) key"
proof -
  let ?pack = "fst (telemetry_pack_single_for_slot seq now slot (Some dev))"
  have p: "tk_timestamp_ms ?pack = now" "tk_device_count ?pack = 1" "tk_site ?pack = fill_slot_site slot"
    "take 1 (tk_devices ?pack) = [dev]"
    by (simp_all add: telemetry_pack_single_for_slot_def MAX_DEVICES_PER_PACK_def numeral_eq_Suc)
  obtain pk where pk: "TelemetryPackParser_parseJson J rx text = Inr pk"
    "pk_devices pk = [parse_device J (doc (pack_device_json C now dev))]" "pk_timestampMs pk = now"
    "pk_site pk = parse_site J (doc (site_to_json C (fill_slot_site slot)))"
    using message_parsed [of now ?pack 4096 "text" rx] assms p
    by (auto simp: telemetry_text_def telemetry_doc_def MAX_DEVICES_PER_PACK_def)
  show thesis
    by (rule that [OF pk(1-3)])
      (simp_all add: pk(4) site_parsed slot_site [OF assms(3)] pack_point_id_def wire_id_def
        parsed_id_type(1) [OF assms(6)])
qed

text \<open>Every point of the message is stored when the device is not under a removal.\<close>

lemma single_stored:
  assumes "pk_devices pk = [d]" "sc_gatewayId (pk_site pk) = g" "sc_portId (pk_site pk) = p"
    and "snap_wf t s" "t \<le> rx"
    and "\<not> isRemovedDeviceLocked g p (dd_deviceId d) (pruneExpiredRemovedDevicesLocked rx s)"
    and "\<not> isRemovedMasterLocked g p (pruneExpiredRemovedDevicesLocked rx s)"
    and "q \<in> set (device_points pk d)"
  shows "getPointById (tp_pointId q) (handleTelemetryPack rx pk s) = Some (q\<lparr>tp_receiveTimeMs := rx\<rparr>)"
proof (rule pack_point_stored [OF assms(4,5)])
  have "point_of pk d r" if "r \<in> set (device_points pk d)" for r
    using that device_points_point_of by blast
  then show "\<forall>r \<in> set (toTelemetryPoints pk). \<not> point_blocked (pruneExpiredRemovedDevicesLocked rx s) r"
    using assms(2,3,6,7) by (auto simp: toTelemetryPoints_def assms(1) point_of_def point_blocked_def)
qed (use assms(1,8) in \<open>simp_all add: toTelemetryPoints_def\<close>)

lemma reading_stored:
  assumes sent: "telemetry_text C seq now slot dev = Some text"
      "rj_parse J text = Inr (doc (telemetry_doc C seq now slot dev))"
    and here: "validSlot slot" "0 < now" "in_int64 now"
    and dev: "dv_type dev = DEV_SENSOR_TH" "dv_valid dev" "0 < dv_device_id dev" "in_int (dv_device_id dev)"
      "dv_temperature dev = Fin c" "dv_humidity dev = Fin h"
    and service: "snap_wf t s" "t \<le> rx"
      "\<not> isRemovedDeviceLocked ''gateway_001'' (portIdForSlot slot) (dv_device_id dev) (pruneExpiredRemovedDevicesLocked rx s)"
      "\<not> isRemovedMasterLocked ''gateway_001'' (portIdForSlot slot) (pruneExpiredRemovedDevicesLocked rx s)"
  obtains pk p q where "TelemetryPackParser_parseJson J rx text = Inr pk"
    "getPointById (wire_id slot (dv_device_id dev) ''temperature'') (handleTelemetryPack rx pk s) = Some p"
    "tp_valid p" "tp_numberValue p = float_round c" "tp_timestampMs p = now"
    "getPointById (wire_id slot (dv_device_id dev) ''humidity'') (handleTelemetryPack rx pk s) = Some q"
    "tp_valid q" "tp_numberValue q = float_round h" "tp_timestampMs q = now"
proof -
  let ?d = "parse_device J (doc (pack_device_json C now dev))"
  obtain pk where pk: "TelemetryPackParser_parseJson J rx text = Inr pk"
    "pk_devices pk = [?d]" "pk_timestampMs pk = now"
    "sc_gatewayId (pk_site pk) = ''gateway_001''" "sc_portId (pk_site pk) = portIdForSlot slot"
    "\<And>key. pack_point_id pk ?d key = wire_id slot (dv_device_id dev) key"
    using single_parsed [OF sent here dev(4)] by metis
  have d: "dd_type ?d = DT_SensorTH" "dd_valid ?d" "dd_deviceId ?d = dv_device_id dev"
    "dd_th ?d = \<lparr>th_temperature = float_round c, th_humidity = float_round h\<rparr>"
    using parsed_id_type [OF dev(4), of now] th_parsed [OF dev(1,4,5,6), of now] dev
    by (simp_all add: wire_type_def parseDeviceType_def)
  let ?p = "fill_point pk ?d ''temperature'' ''Temperature'' ''C'' PV_Number (float_round c) []"
  let ?q = "fill_point pk ?d ''humidity'' ''Humidity'' [CHR 0x25] PV_Number (float_round h) []"
  have "set (device_points pk ?d) = {?p, ?q}"
    by (simp add: device_points_def appendTemperatureHumidityPoints_def d)
  then have mem: "?p \<in> set (device_points pk ?d)" "?q \<in> set (device_points pk ?d)" by simp_all
  note store = single_stored [OF pk(2,4,5) service(1,2), unfolded d(3), OF service(3,4)]
  have ids: "tp_pointId ?p = wire_id slot (dv_device_id dev) ''temperature''"
    "tp_pointId ?q = wire_id slot (dv_device_id dev) ''humidity''" by (simp_all add: pk(6))
  show thesis
    by (rule that [OF pk(1) store [OF mem(1), unfolded ids] _ _ _ store [OF mem(2), unfolded ids]])
      (simp_all add: pk(3) d(2))
qed

text \<open>The channel points Pc_data makes of a relay message.\<close>

lemma relay_channels_lost:
  assumes sent: "telemetry_text C seq now slot dev = Some text"
      "rj_parse J text = Inr (doc (telemetry_doc C seq now slot dev))"
    and here: "validSlot slot" "0 < now" "in_int64 now"
    and dev: "dv_type dev = DEV_RELAY" "in_int (dv_device_id dev)" "relay_channels dev \<le> 64"
  obtains pk where "TelemetryPackParser_parseJson J rx text = Inr pk"
    "map (\<lambda>p. (tp_pointKey p, tp_textValue p)) (toTelemetryPoints pk) =
       map (\<lambda>i. (''relay_'' @ to_string (int i + 1),
                 if i = 0 \<and> bit (dv_relay_states dev) 0 then ''on'' else ''off''))
         [0..<nat (relay_channels dev)]"
proof -
  let ?d = "parse_device J (doc (pack_device_json C now dev))"
  obtain pk where pk: "TelemetryPackParser_parseJson J rx text = Inr pk" "pk_devices pk = [?d]"
    using single_parsed [OF sent here dev(2)] by metis
  have "in_int (relay_channels dev)"
    using dev(3) by (simp add: relay_channels_def in_int_def int_min_def int_max_def)
  note r = relay_parsed [OF dev(1,2) this, of now]
  have ty: "dd_type ?d = DT_Relay" using dev by (simp add: parsed_id_type wire_type_def parseDeviceType_def)
  have n: "relay_channel_count (dd_relay ?d) = relay_channels dev"
    using r(2) [OF dev(3)] dev(3) by (auto simp: relay_channel_count_def relay_channels_def Let_def)
  have on: "relay_is_on (dd_relay ?d) i \<longleftrightarrow> i = 0 \<and> bit (dv_relay_states dev) 0" for i
    by (auto simp: relay_is_on_def r(1) bit_and_iff bit_1_iff)
  show thesis
    by (rule that [OF pk(1)])
      (simp add: toTelemetryPoints_def pk(2) device_points_def ty appendRelayPoints_def n relay_channel_point_fields on o_def)
qed

end

end
