(* ===== verification/DataPublishLemmas.thy ===== *)
theory DataPublishLemmas
  imports DataPublish Wire
begin

text \<open>
  What the publishing of readings shows: the status cache finds exactly the changes of a
  device's validity, and a reading stays on the board until the configuration is acknowledged.
\<close>

subsection \<open>The status cache as a map\<close>

definition status_of :: "int \<times> int \<Rightarrow> device_status_cache list \<Rightarrow> bool option" where
  "status_of k cache = map_option (\<lambda>i. dc_valid (cache ! i)) (first_index (is_status_of (fst k) (snd k)) cache)"

definition status_key :: "device_status_cache \<Rightarrow> int \<times> int" where
  "status_key c = (dc_slot c, dc_device_id c)"

text \<open>The keys in use, each in one cell.\<close>

definition status_keys :: "device_status_cache list \<Rightarrow> (int \<times> int) set" where
  "status_keys cache = set (map status_key (filter dc_seen cache))"

definition status_wf :: "device_status_cache list \<Rightarrow> bool" where
  "status_wf cache \<longleftrightarrow> length cache = STATUS_CACHE_SIZE \<and> distinct (map status_key (filter dc_seen cache))"

lemma status_new: "status_wf status_cache_new" "status_keys status_cache_new = {}"
  "status_of k status_cache_new = None"
  by (simp_all add: status_wf_def status_keys_def status_of_def status_cache_new_def first_index_None is_status_of_def
      filter_empty_conv)

lemma is_status_key: "is_status_of a b c \<longleftrightarrow> dc_seen c \<and> status_key c = (a, b)"
  by (auto simp: is_status_of_def status_key_def)

lemma status_None: "status_of k cache = None \<longleftrightarrow> k \<notin> status_keys cache"
proof -
  have "status_of k cache = None \<longleftrightarrow> (\<forall>c \<in> set cache. \<not> (dc_seen c \<and> status_key c = k))"
    by (simp add: status_of_def first_index_None is_status_key)
  then show ?thesis by (auto simp: status_keys_def)
qed

text \<open>A cell of its own for the key: its cell, or a free one.\<close>

lemma status_write:
  fixes cache :: "device_status_cache list" and i :: nat and k k' :: "int \<times> int" and v :: bool
  assumes "i < length cache" "\<forall>j < length cache. j \<noteq> i \<longrightarrow> \<not> is_status_of (fst k) (snd k) (cache ! j)"
    and "distinct (map status_key (filter dc_seen cache))"
    and "dc_seen (cache ! i) \<Longrightarrow> status_key (cache ! i) = k"
  defines "cache' \<equiv> cache[i := \<lparr>dc_slot = fst k, dc_device_id = snd k, dc_valid = v, dc_seen = True\<rparr>]"
  shows "distinct (map status_key (filter dc_seen cache'))" "status_keys cache' = insert k (status_keys cache)"
    "status_of k' cache' = (if k' = k then Some v else status_of k' cache)"
proof -
  let ?c = "\<lparr>dc_slot = fst k, dc_device_id = snd k, dc_valid = v, dc_seen = True\<rparr>"
  have key: "status_key ?c = k" by (simp add: status_key_def)
  have split: "cache = take i cache @ cache ! i # drop (Suc i) cache" "cache' = take i cache @ ?c # drop (Suc i) cache"
    using assms(1) by (simp_all add: id_take_nth_drop cache'_def upd_conv_take_nth_drop)
  have away: "\<not> (dc_seen c \<and> status_key c = k)" if "c \<in> set (take i cache) \<union> set (drop (Suc i) cache)" for c
    using that assms(1,2) by (cases k) (auto simp: in_set_conv_nth is_status_key)
  have "distinct (map status_key (filter dc_seen (take i cache @ drop (Suc i) cache)))"
    using assms(3) by (subst (asm) split(1)) (auto split: if_splits)
  then show "distinct (map status_key (filter dc_seen cache'))"
    using away key by (subst split(2)) auto
  have "status_keys cache = set (map status_key (filter dc_seen (take i cache @ drop (Suc i) cache)))
      \<union> (if dc_seen (cache ! i) then {k} else {})"
    using assms(4) unfolding status_keys_def by (subst split(1)) simp
  then show "status_keys cache' = insert k (status_keys cache)"
    unfolding status_keys_def by (subst split(2)) (simp add: key insert_commute Un_commute)
  have nth: "cache' ! j = (if j = i then ?c else cache ! j)" if "j < length cache" for j
    using that by (simp add: cache'_def)
  show "status_of k' cache' = (if k' = k then Some v else status_of k' cache)"
  proof (cases "k' = k")
    case True
    have "first_index (is_status_of (fst k) (snd k)) cache' = Some i"
      using assms(1,2) by (auto simp: first_index_Some nth cache'_def is_status_of_def)
    then show ?thesis using True assms(1) by (simp add: status_of_def nth)
  next
    case False
    have same: "is_status_of (fst k') (snd k') (cache' ! j) = is_status_of (fst k') (snd k') (cache ! j)"
      if "j < length cache" for j
      using that False assms(4) by (cases k') (auto simp: nth is_status_key key)
    have "first_index (is_status_of (fst k') (snd k')) cache' = first_index (is_status_of (fst k') (snd k')) cache"
      unfolding first_index_def using same by (auto simp: cache'_def intro!: find_cong)
    moreover have "j \<noteq> i" if "first_index (is_status_of (fst k') (snd k')) cache = Some j" for j
      using that False assms(4) by (cases k') (auto simp: first_index_Some is_status_key)
    moreover have "j < length cache" if "first_index (is_status_of (fst k') (snd k')) cache = Some j" for j
      using that by (simp add: first_index_Some)
    ultimately show ?thesis
      using False by (cases "first_index (is_status_of (fst k') (snd k')) cache") (simp_all add: status_of_def nth)
  qed
qed


definition found_cell :: "int \<times> int \<Rightarrow> device_status_cache list \<Rightarrow> nat option" where
  "found_cell k cache = (case first_index (is_status_of (fst k) (snd k)) cache of
     Some i \<Rightarrow> Some i | None \<Rightarrow> first_index (\<lambda>c. \<not> dc_seen c) cache)"

lemma found_alone:
  assumes "status_wf cache" "found_cell k cache = Some i"
  shows "i < length cache" "\<forall>j < length cache. j \<noteq> i \<longrightarrow> \<not> is_status_of (fst k) (snd k) (cache ! j)"
    "dc_seen (cache ! i) \<Longrightarrow> status_key (cache ! i) = k"
    "status_of k cache = (if dc_seen (cache ! i) then Some (dc_valid (cache ! i)) else None)"
proof -
  have one: "i = j" if "i < length cache" "j < length cache" "is_status_of (fst k) (snd k) (cache ! i)"
    "is_status_of (fst k) (snd k) (cache ! j)" for i j
  proof (rule ccontr)
    assume ne: "i \<noteq> j"
    have "distinct (map status_key (filter dc_seen cache))" using assms(1) by (simp add: status_wf_def)
    then show False
      using that ne
    proof (induction cache arbitrary: i j)
      case (Cons c cs)
      have no: "\<not> (dc_seen (cs ! m) \<and> m < length cs \<and> status_key (cs ! m) = status_key c)" if "dc_seen c" for m
        using Cons.prems(1) that by (force simp: image_iff in_set_conv_nth)
      show ?case
        using Cons.prems Cons.IH no by (cases i; cases j) (auto simp: is_status_key split: if_splits)
    qed simp
  qed
  show "i < length cache" "\<forall>j < length cache. j \<noteq> i \<longrightarrow> \<not> is_status_of (fst k) (snd k) (cache ! j)"
    "dc_seen (cache ! i) \<Longrightarrow> status_key (cache ! i) = k"
    "status_of k cache = (if dc_seen (cache ! i) then Some (dc_valid (cache ! i)) else None)"
    using assms(2) one
    by (auto simp: found_cell_def status_of_def first_index_Some first_index_None is_status_key split: option.splits)
qed


lemma check_spec:
  assumes "status_wf cache" "k = (slot, dv_device_id dev)" "k \<in> status_keys cache \<or> card (status_keys cache) < 64"
  shows "let (changed, cache') = check_device_status_changed slot dev cache
    in changed = (status_of k cache = Some (\<not> dv_valid dev)) \<and> status_wf cache'
     \<and> status_keys cache' = insert k (status_keys cache)
     \<and> (\<forall>k'. status_of k' cache' = (if k' = k then Some (dv_valid dev) else status_of k' cache))"
proof -
  have "found_cell k cache \<noteq> None"
  proof
    assume "found_cell k cache = None"
    then have "first_index (is_status_of (fst k) (snd k)) cache = None" "\<forall>c \<in> set cache. dc_seen c"
      by (auto simp: found_cell_def first_index_None split: option.splits)
    then have "k \<notin> status_keys cache" "filter dc_seen cache = cache"
      using status_None [of k cache] by (simp_all add: status_of_def filter_id_conv)
    then have "card (status_keys cache) = 64"
      using assms(1) distinct_card [of "map status_key cache"]
      unfolding status_keys_def status_wf_def STATUS_CACHE_SIZE_def by (metis length_map)
    then show False using assms(3) \<open>k \<notin> status_keys cache\<close> by simp
  qed
  then obtain i where i: "found_cell k cache = Some i" by blast
  note a = found_alone [OF assms(1) i]
  have d: "distinct (map status_key (filter dc_seen cache))" using assms(1) by (simp add: status_wf_def)
  note w = status_write [where v = "dv_valid dev", OF a(1,2) d a(3)]
  have "check_device_status_changed slot dev cache = (dc_seen (cache ! i) \<and> dc_valid (cache ! i) \<noteq> dv_valid dev,
      cache[i := \<lparr>dc_slot = fst k, dc_device_id = snd k, dc_valid = dv_valid dev, dc_seen = True\<rparr>])"
    using i assms(2) by (simp add: check_device_status_changed_def found_cell_def Let_def split: option.splits)
  then show ?thesis
    using w a(4) assms(1) by (auto simp: status_wf_def Let_def)
qed

subsection \<open>Changes of validity\<close>

definition reading_key :: "int \<times> device_data \<Rightarrow> int \<times> int" where
  "reading_key r = (fst r, dv_device_id (snd r))"

fun status_run :: "(int \<times> device_data) list \<Rightarrow> device_status_cache list \<Rightarrow> bool list \<times> device_status_cache list" where
  "status_run [] cache = ([], cache)"
| "status_run ((slot, dev) # rs) cache =
     (let (b, cache) = check_device_status_changed slot dev cache; (bs, cache) = status_run rs cache
      in (b # bs, cache))"

text \<open>The validity of the last reading of a device.\<close>

definition last_valid :: "(int \<times> device_data) list \<Rightarrow> int \<times> int \<Rightarrow> bool option" where
  "last_valid rs k = map_of (rev (map (\<lambda>r. (reading_key r, dv_valid (snd r))) rs)) k"

lemma status_run_from:
  assumes "status_wf cache" "status_keys cache = reading_key ` set ps" "\<forall>k. status_of k cache = last_valid ps k"
    "card (reading_key ` set (ps @ rs)) \<le> 64"
  shows "let flags = fst (status_run rs cache) in length flags = length rs \<and>
    (\<forall>i < length rs. flags ! i \<longleftrightarrow>
       last_valid (ps @ take i rs) (reading_key (rs ! i)) = Some (\<not> dv_valid (snd (rs ! i))))"
  using assms
proof (induction rs arbitrary: ps cache)
  case (Cons r rs)
  obtain slot dev where r: "r = (slot, dev)" by fastforce
  let ?k = "reading_key r"
  have "?k \<in> status_keys cache \<or> card (status_keys cache) < 64"
  proof (rule disjCI)
    assume "\<not> card (status_keys cache) < 64"
    then have "card (reading_key ` set (ps @ r # rs)) \<le> card (reading_key ` set ps)"
      using Cons.prems(2,4) by simp
    then have "reading_key ` set (ps @ r # rs) = reading_key ` set ps"
      by (intro card_seteq [symmetric]) auto
    then show "?k \<in> status_keys cache" using Cons.prems(2) by auto
  qed
  note c = check_spec [OF Cons.prems(1) _ this, of slot dev]
  obtain b cache' where b: "check_device_status_changed slot dev cache = (b, cache')" by fastforce
  have s: "b = (status_of ?k cache = Some (\<not> dv_valid dev))" "status_wf cache'"
    "status_keys cache' = insert ?k (status_keys cache)"
    "\<forall>k'. status_of k' cache' = (if k' = ?k then Some (dv_valid dev) else status_of k' cache)"
    using c b r by (simp_all add: reading_key_def)
  have "\<forall>k'. status_of k' cache' = last_valid (ps @ [r]) k'"
    using s(4) Cons.prems(3) r by (auto simp: last_valid_def)
  then have "let flags = fst (status_run rs cache') in length flags = length rs \<and>
    (\<forall>i < length rs. flags ! i \<longleftrightarrow>
       last_valid ((ps @ [r]) @ take i rs) (reading_key (rs ! i)) = Some (\<not> dv_valid (snd (rs ! i))))"
    using s(2,3) Cons.prems(2,4) by (intro Cons.IH) simp_all
  then show ?case
    using s(1) Cons.prems(3) r b by (auto simp: Let_def split_def less_Suc_eq_0_disj)
qed simp

lemma status_run_spec:
  assumes "card (reading_key ` set rs) \<le> 64"
  shows "let flags = fst (status_run rs status_cache_new) in length flags = length rs \<and>
    (\<forall>i < length rs. flags ! i \<longleftrightarrow>
       last_valid (take i rs) (reading_key (rs ! i)) = Some (\<not> dv_valid (snd (rs ! i))))"
  using status_run_from [of status_cache_new "[]" rs] status_new assms by (simp add: last_valid_def)


subsection \<open>Where a reading goes\<close>

lemma ipc_kept [simp]:
  "bn_mqtt (snd (ipc_server_send E m n)) = bn_mqtt n" "bn_offline (snd (ipc_server_send E m n)) = bn_offline n"
  "pb_status (snd (ipc_server_send E m n')) = pb_status n'"
  by (simp_all add: ipc_server_send_def split: option.splits)

lemma publish_ack_kept [simp]:
  "bn_mqtt (send_publish_ack E seq c i m n) = bn_mqtt n" "bn_offline (send_publish_ack E seq c i m n) = bn_offline n"
  by (simp_all add: send_publish_ack_def Let_def)

lemma local_only:
  assumes "\<not> data_config_sync_telemetry_allowed (sn_sync n)"
  shows "let n' = snd (data_publish_device_status_for_slot E now slot dev n)
    in bn_mqtt n' = bn_mqtt n \<and> bn_offline n' = bn_offline n"
proof (cases dev)
  case (Some d)
  then show ?thesis
    using assms by (simp add: data_publish_device_status_for_slot_def Let_def split_def split: option.splits)
qed (simp add: data_publish_device_status_for_slot_def)


lemma port_topic:
  "mqtt_make_port_up_topic_for_slot slot 128 = Some (''gateway/gateway_001/'' @ portIdForSlot slot @ ''/up'')"
  by (simp add: mqtt_make_port_up_topic_for_slot_def mqtt_make_port_up_topic_def portIdForSlot_def
      DEFAULT_GATEWAY_ID_def)

lemma port_topic_whole:
  "strncpy_text 128 (''gateway/gateway_001/'' @ portIdForSlot slot @ ''/up'') = ''gateway/gateway_001/'' @ portIdForSlot slot @ ''/up''"
  by (simp add: strncpy_text_def portIdForSlot_def c_str_def)

text \<open>With room in the ring the broker's thread gets the whole message, and the table is left alone.\<close>

lemma publish_into_ring:
  assumes "ring_wf (mw_queue (bn_mqtt n))" "mw_client (bn_mqtt n)" "mw_connected (bn_mqtt n)"
    "queue_count (mw_queue (bn_mqtt n)) < 31" "oq_sender (bn_offline n)"
    and "net_publish_or_cache S now (Some t) (Some p) (Some m) n = (code, n')"
  shows "code = 0" "queue_items (mw_queue (bn_mqtt n')) = queue_items (mw_queue (bn_mqtt n)) @ [new_item t p]"
    "oq_db (bn_offline n') = oq_db (bn_offline n)"
proof -
  have link: "direct_link (bn_mqtt n) i i = 0" for i
    using assms(2-4) by (simp add: direct_link_def send_codes MQTT_QUEUE_MAX_def)
  have call: "offline_publish_or_cache S (direct_link (bn_mqtt n) (length (oq_calls (bn_offline n)))) now (Some t) (Some p)
      (Some m) (bn_offline n) = (0, (bn_offline n)\<lparr>oq_calls := oq_calls (bn_offline n) @ [(c_str t, c_str p, 0)]\<rparr>)"
    using assms(5) link
    by (simp add: offline_publish_or_cache_def oq_publishOrCache_def call_sender_def Let_def)
  show "code = 0" "queue_items (mw_queue (bn_mqtt n')) = queue_items (mw_queue (bn_mqtt n)) @ [new_item t p]"
    "oq_db (bn_offline n') = oq_db (bn_offline n)"
    using call direct_room [OF assms(1-4), of "c_str t" "c_str p"] assms(6)
    by (auto simp: net_publish_or_cache_def with_sender_def Let_def)
qed

lemma reading_into_ring:
  assumes "data_config_sync_telemetry_allowed (sn_sync n)" "oq_sender (bn_offline n)"
    and "ring_wf (mw_queue (bn_mqtt n))" "mw_client (bn_mqtt n)" "mw_connected (bn_mqtt n)"
      "queue_count (mw_queue (bn_mqtt n)) < 31"
    and "telemetry_text (ne_json E) (pb_telemetry_seq n) now slot dev = Some json"
  shows "let n' = snd (data_publish_device_status_for_slot E now slot (Some dev) n)
    in queue_items (mw_queue (bn_mqtt n')) = queue_items (mw_queue (bn_mqtt n))
         @ [\<lparr>mi_topic = ''gateway/gateway_001/'' @ portIdForSlot slot @ ''/up'', mi_payload = json\<rparr>]
     \<and> oq_db (bn_offline n') = oq_db (bn_offline n)"
proof -
  let ?pack = "fst (telemetry_pack_single_for_slot (pb_telemetry_seq n) now slot (Some dev))"
  define up where "up = ''gateway/gateway_001/'' @ portIdForSlot slot @ ''/up''"
  have up: "mqtt_make_port_up_topic_for_slot slot 128 = Some up" by (simp add: port_topic up_def)
  have json: "telemetry_pack_to_json (ne_json E) now ?pack 4096 = Some json"
    using assms(7) by (simp add: telemetry_text_def)
  then have "strncpy_text MQTT_PAYLOAD_MAX json = json"
    using text_plain [OF json] text_length [OF json] by (simp add: strncpy_text_def MQTT_PAYLOAD_MAX_def)
  then have item: "new_item up json = \<lparr>mi_topic = up, mi_payload = json\<rparr>"
    using port_topic_whole [of slot] by (simp add: new_item_def up_def del: append.simps)
  let ?m = "(snd (ipc_server_send E (Some json) (n\<lparr>pb_telemetry_seq :=
      snd (telemetry_pack_single_for_slot (pb_telemetry_seq n) now slot (Some dev))\<rparr>)))\<lparr>pb_status := snd (check_device_status_changed slot dev (pb_status n))\<rparr>"
  have "ring_wf (mw_queue (bn_mqtt ?m)) \<and> mw_client (bn_mqtt ?m) \<and> mw_connected (bn_mqtt ?m)
      \<and> queue_count (mw_queue (bn_mqtt ?m)) < 31 \<and> oq_sender (bn_offline ?m)"
    using assms by simp
  then show ?thesis
    using json assms(1) publish_into_ring(2,3) [of ?m, OF _ _ _ _ _ prod.collapse [symmetric]] item up
    unfolding up_def [symmetric]
    by (simp add: data_publish_device_status_for_slot_def Let_def split_def)
qed

end
