(* ===== verification/DataAck.thy ===== *)
theory DataAck
  imports DataPublishLemmas
begin

text \<open>
  Linux_data/data/data_ack.c: the acknowledgements of commands.  Each goes to the user interface
  over the socket and, those of the offline cache apart, to the broker or the offline table.  An
  acknowledgement carries the \<open>cmd_id\<close> of the command in progress, kept in a buffer of 128 bytes.
  A member added twice counts as json-c counts it: the later value.
\<close>

record ack_net = publish_net +
  an_cmd_id :: string

definition data_ack_set_current_cmd_id :: "string option \<Rightarrow> 'a ack_net_scheme \<Rightarrow> 'a ack_net_scheme" where
  "data_ack_set_current_cmd_id cmd_id n =
     (case cmd_id of None \<Rightarrow> n\<lparr>an_cmd_id := []\<rparr>
      | Some s \<Rightarrow> if s = [] then n\<lparr>an_cmd_id := []\<rparr> else n\<lparr>an_cmd_id := strncpy_text 128 s\<rparr>)"

definition data_ack_clear_current_cmd_id :: "'a ack_net_scheme \<Rightarrow> 'a ack_net_scheme" where
  "data_ack_clear_current_cmd_id n = n\<lparr>an_cmd_id := []\<rparr>"

definition data_ack_add_current_cmd_id :: "'v json_c \<Rightarrow> 'a ack_net_scheme \<Rightarrow> (string \<times> 'v) list" where
  "data_ack_add_current_cmd_id C n = (if an_cmd_id n \<noteq> [] then [(''cmd_id'', jc_string C (an_cmd_id n))] else [])"

definition ACK_ERROR :: int where "ACK_ERROR = 1"

definition data_ack_code_from_reason :: "string option \<Rightarrow> int" where
  "data_ack_code_from_reason reason =
     (case reason of None \<Rightarrow> DATA_SEND_OK
      | Some r \<Rightarrow>
          if r = [] then DATA_SEND_OK
          else if r = ''invalid_request'' \<or> r = ''invalid_argument'' then DATA_SEND_INVALID_ARG
          else if r = ''config_write_failed'' then DATA_SEND_IPC_WRITE_FAILED
          else if r = ''mqtt_disconnected'' \<or> r = ''mqtt_not_connected'' then DATA_SEND_MQTT_NOT_READY
          else if r = ''offline_cache_flush_disabled'' then DATA_SEND_OFFLINE_CACHE_DISABLED
          else ACK_ERROR)"

definition data_ack_port_id_from_slot :: "int \<Rightarrow> string" where
  "data_ack_port_id_from_slot slot = (if slot = 0 then ''port_001'' else ''port_002'')"

definition data_ack_add_identity :: "'v json_c \<Rightarrow> string option \<Rightarrow> int \<Rightarrow> int \<Rightarrow> (string \<times> 'v) list" where
  "data_ack_add_identity C cmd slot device_id =
     [(''gatewayId'', jc_string C DEFAULT_GATEWAY_ID), (''gateway_id'', jc_string C DEFAULT_GATEWAY_ID),
      (''cmdType'', jc_string C (text_of cmd)), (''cmd'', jc_string C (text_of cmd)),
      (''command'', jc_string C (text_of cmd)), (''commandType'', jc_string C (text_of cmd))]
     @ (if slot \<ge> 0 then [(''portId'', jc_string C (data_ack_port_id_from_slot slot)),
          (''port_id'', jc_string C (data_ack_port_id_from_slot slot))] else [])
     @ (if device_id > 0 then [(''deviceId'', jc_int C device_id), (''device_id'', jc_int C device_id),
          (''slave_id'', jc_int C device_id)] else [])"

text \<open>The members every acknowledgement starts with.\<close>

definition ack_head :: "'v json_c \<Rightarrow> int \<Rightarrow> 32 word \<Rightarrow> string option \<Rightarrow> bool \<Rightarrow> string option \<Rightarrow> string option
    \<Rightarrow> 'a ack_net_scheme \<Rightarrow> (string \<times> 'v) list" where
  "ack_head C now seq cmd ok reason message n =
     [(''type'', jc_string C ''ack'')] @ data_ack_add_current_cmd_id C n
     @ [(''seq'', jc_int64 C (uint seq)), (''boardSeq'', jc_int64 C (uint seq)),
        (''cmd'', jc_string C (text_of cmd)), (''command'', jc_string C (text_of cmd)),
        (''commandType'', jc_string C (text_of cmd)), (''cmdType'', jc_string C (text_of cmd)),
        (''stage'', jc_string C ''done''), (''status'', jc_string C (if ok then ''success'' else ''failed'')),
        (''ok'', jc_bool C ok),
        (''code'', jc_int C (if ok then DATA_SEND_OK else data_ack_code_from_reason reason)),
        (''reason'', jc_string C (text_of reason)), (''message'', jc_string C (text_of message)),
        (''timestampMs'', jc_int64 C now)]"

definition data_ack_add_common :: "'v json_c \<Rightarrow> int \<Rightarrow> 32 word \<Rightarrow> string option \<Rightarrow> bool \<Rightarrow> string option
    \<Rightarrow> string option \<Rightarrow> 'a ack_net_scheme \<Rightarrow> (string \<times> 'v) list" where
  "data_ack_add_common C now seq cmd ok reason message n =
     ack_head C now seq cmd ok reason message n @ data_ack_add_identity C cmd (-1) 0"

subsection \<open>Where an acknowledgement goes\<close>

definition ack_meta :: "string option \<Rightarrow> int \<Rightarrow> offline_publish_meta" where
  "ack_meta port_id timestamp_ms = meta_zero\<lparr>ofm_message_type := Some ''ack'',
     ofm_gateway_id := Some DEFAULT_GATEWAY_ID, ofm_port_id := port_id, ofm_priority := 3,
     ofm_timestamp_ms := timestamp_ms\<rparr>"

definition data_ack_publish_gateway :: "'v net_env \<Rightarrow> int \<Rightarrow> string \<Rightarrow> offline_publish_meta
    \<Rightarrow> 'a board_net_scheme \<Rightarrow> int \<times> 'a board_net_scheme" where
  "data_ack_publish_gateway E now payload meta =
     net_publish_or_cache (ne_sql E) now (Some MQTT_DEFAULT_PUBLISH_TOPIC) (Some payload) (Some meta)"

definition data_ack_publish_port :: "'v net_env \<Rightarrow> int \<Rightarrow> int \<Rightarrow> string \<Rightarrow> offline_publish_meta
    \<Rightarrow> 'a board_net_scheme \<Rightarrow> int \<times> 'a board_net_scheme" where
  "data_ack_publish_port E now slot payload meta n =
     (case mqtt_make_port_up_topic_for_slot slot 128 of None \<Rightarrow> (DATA_SEND_INVALID_ARG, n)
      | Some topic \<Rightarrow> net_publish_or_cache (ne_sql E) now (Some topic) (Some payload) (Some meta) n)"

text \<open>The socket first, then the gateway's topic, or the topic of a slot.\<close>

definition ack_to_gateway :: "'v net_env \<Rightarrow> int \<Rightarrow> (string \<times> 'v) list \<Rightarrow> int \<Rightarrow> 'a board_net_scheme
    \<Rightarrow> 'a board_net_scheme" where
  "ack_to_gateway E now members timestamp_ms n =
     (let payload = jc_print (ne_json E) (jc_object (ne_json E) members)
      in snd (data_ack_publish_gateway E now payload (ack_meta None timestamp_ms)
           (snd (ipc_server_send E (Some payload) n))))"

definition ack_to_port :: "'v net_env \<Rightarrow> int \<Rightarrow> int \<Rightarrow> (string \<times> 'v) list \<Rightarrow> int \<Rightarrow> 'a board_net_scheme
    \<Rightarrow> 'a board_net_scheme" where
  "ack_to_port E now slot members timestamp_ms n =
     (let payload = jc_print (ne_json E) (jc_object (ne_json E) members)
      in snd (data_ack_publish_port E now slot payload
           (ack_meta (Some (data_ack_port_id_from_slot slot)) timestamp_ms)
           (snd (ipc_server_send E (Some payload) n))))"

subsection \<open>The acknowledgements\<close>

definition data_ack_send :: "'v net_env \<Rightarrow> int \<Rightarrow> 32 word \<Rightarrow> string option \<Rightarrow> bool \<Rightarrow> string option
    \<Rightarrow> string option \<Rightarrow> 'a ack_net_scheme \<Rightarrow> 'a ack_net_scheme" where
  "data_ack_send E now seq cmd ok reason message n =
     ack_to_gateway E now (ack_head (ne_json E) now seq cmd ok reason message n
       @ data_ack_add_identity (ne_json E) cmd (-1) 0) 0 n"

definition data_ack_send_ports :: "'v net_env \<Rightarrow> int \<Rightarrow> 32 word \<Rightarrow> string option \<Rightarrow> string list
    \<Rightarrow> 'a ack_net_scheme \<Rightarrow> 'a ack_net_scheme" where
  "data_ack_send_ports E now seq cmd ports n =
     (let C = ne_json E; cmd = Some (case cmd of None \<Rightarrow> ''scan_ports'' | Some c \<Rightarrow> c)
      in ack_to_gateway E now (ack_head C now seq cmd True (Some []) (Some ''scan ports success'') n
           @ data_ack_add_identity C cmd (-1) 0 @ [(''ports'', jc_array C (map (jc_string C) ports))]) now n)"

definition port_result_members :: "'v json_c \<Rightarrow> string option \<Rightarrow> int \<Rightarrow> string option \<Rightarrow> string option \<Rightarrow> int \<Rightarrow> bool
    \<Rightarrow> (string \<times> 'v) list" where
  "port_result_members C cmd slot port device_type baud is_connected =
     [(''slot'', jc_int C slot), (''port'', jc_string C (text_of port)),
      (''device_type'', jc_string C (case device_type of None \<Rightarrow> ''unknown'' | Some t \<Rightarrow> t)),
      (''baud'', jc_int C baud), (''connected'', jc_bool C is_connected)]
     @ (if cmd = Some ''connect_port'' then [(''auto_restore'', jc_bool C True)] else [])
     @ (if cmd = Some ''disconnect_port''
        then [(''config_removed'', jc_bool C False), (''auto_restore'', jc_bool C True)] else [])"

definition data_ack_send_port_result :: "'v net_env \<Rightarrow> int \<Rightarrow> 32 word \<Rightarrow> string option \<Rightarrow> bool \<Rightarrow> string option
    \<Rightarrow> string option \<Rightarrow> int \<Rightarrow> string option \<Rightarrow> string option \<Rightarrow> int \<Rightarrow> bool
    \<Rightarrow> 'a ack_net_scheme \<Rightarrow> 'a ack_net_scheme" where
  "data_ack_send_port_result E now seq cmd ok reason message slot port device_type baud is_connected n =
     ack_to_port E now slot (ack_head (ne_json E) now seq cmd ok reason message n
       @ data_ack_add_identity (ne_json E) cmd slot 0
       @ port_result_members (ne_json E) cmd slot port device_type baud is_connected) now n"

definition threshold_limits :: "'v json_c \<Rightarrow> point_threshold_config \<Rightarrow> 'v" where
  "threshold_limits C p = jc_object C
     [(''enable_alarm'', jc_bool C (pt_enable_alarm p)),
      (''alarm_low'', if pt_has_low p then jc_double C (pt_alarm_low p) else jc_null C),
      (''alarm_high'', if pt_has_high p then jc_double C (pt_alarm_high p) else jc_null C)]"

definition data_ack_thresholds_to_json :: "'v json_c \<Rightarrow> sensor_threshold_config option \<Rightarrow> 'v" where
  "data_ack_thresholds_to_json C config =
     (case config of None \<Rightarrow> jc_object C []
      | Some c \<Rightarrow> jc_object C [(''temperature'', threshold_limits C (st_temperature c)),
                             (''humidity'', threshold_limits C (st_humidity c))])"

definition data_ack_send_relay_result :: "'v net_env \<Rightarrow> int \<Rightarrow> 32 word \<Rightarrow> string option \<Rightarrow> bool \<Rightarrow> string option
    \<Rightarrow> string option \<Rightarrow> int \<Rightarrow> int \<Rightarrow> int \<Rightarrow> 16 word \<Rightarrow> 'a ack_net_scheme \<Rightarrow> 'a ack_net_scheme" where
  "data_ack_send_relay_result E now seq cmd ok reason message slot slave_id device_id states n =
     (let C = ne_json E
      in ack_to_port E now slot (data_ack_add_common C now seq cmd ok reason message n
           @ data_ack_add_identity C cmd slot (if device_id > 0 then device_id else slave_id)
           @ [(''slot'', jc_int C slot), (''slave_id'', jc_int C slave_id), (''deviceId'', jc_int C slave_id),
              (''device_id'', jc_int C device_id),
              (''states'', jc_array C (map (\<lambda>i. jc_bool C (bit states i)) [0..<4]))]) 0 n)"

definition data_ack_send_device_result :: "'v net_env \<Rightarrow> int \<Rightarrow> 32 word \<Rightarrow> string option \<Rightarrow> bool \<Rightarrow> string option
    \<Rightarrow> string option \<Rightarrow> int \<Rightarrow> int \<Rightarrow> string option \<Rightarrow> int \<Rightarrow> 'a ack_net_scheme \<Rightarrow> 'a ack_net_scheme" where
  "data_ack_send_device_result E now seq cmd ok reason message slot slave_id device_type poll_interval_ms n =
     (let C = ne_json E; kind = jc_string C (case device_type of None \<Rightarrow> ''unknown'' | Some t \<Rightarrow> t)
      in ack_to_port E now slot (data_ack_add_common C now seq cmd ok reason message n
           @ data_ack_add_identity C cmd slot slave_id
           @ [(''slot'', jc_int C slot), (''slave_id'', jc_int C slave_id), (''deviceId'', jc_int C slave_id),
              (''deviceType'', kind), (''device_type'', kind)]
           @ (if poll_interval_ms > 0 then [(''pollIntervalMs'', jc_int C poll_interval_ms),
                (''poll_interval_ms'', jc_int C poll_interval_ms)] else [])) 0 n)"

definition data_ack_send_threshold_result :: "'v net_env \<Rightarrow> int \<Rightarrow> 32 word \<Rightarrow> string option \<Rightarrow> bool
    \<Rightarrow> string option \<Rightarrow> string option \<Rightarrow> int \<Rightarrow> int \<Rightarrow> string option \<Rightarrow> bool \<Rightarrow> sensor_threshold_config option
    \<Rightarrow> 'a ack_net_scheme \<Rightarrow> 'a ack_net_scheme" where
  "data_ack_send_threshold_result E now seq cmd ok reason message slot slave_id device_type threshold_enabled
       threshold_config n =
     (let C = ne_json E; kind = jc_string C (case device_type of None \<Rightarrow> ''sensor_th'' | Some t \<Rightarrow> t)
      in ack_to_port E now slot (data_ack_add_common C now seq cmd ok reason message n
           @ data_ack_add_identity C cmd slot slave_id
           @ [(''slot'', jc_int C slot), (''slave_id'', jc_int C slave_id), (''deviceId'', jc_int C slave_id),
              (''deviceType'', kind), (''device_type'', kind),
              (''threshold_enabled'', jc_bool C threshold_enabled), (''thresholdEnabled'', jc_bool C threshold_enabled),
              (''thresholds'', data_ack_thresholds_to_json C threshold_config)]) 0 n)"

definition data_ack_send_offline_cache_config :: "'v net_env \<Rightarrow> int \<Rightarrow> 32 word \<Rightarrow> string option \<Rightarrow> bool
    \<Rightarrow> string option \<Rightarrow> string option \<Rightarrow> bool \<Rightarrow> bool \<Rightarrow> int \<Rightarrow> 'a ack_net_scheme \<Rightarrow> 'a ack_net_scheme" where
  "data_ack_send_offline_cache_config E now seq cmd ok reason message cache_enabled flush_enabled pending_count n =
     (let C = ne_json E
      in snd (ipc_server_send E (Some (jc_print C (jc_object C (ack_head C now seq cmd ok reason message n
           @ [(''cache_enabled'', jc_bool C cache_enabled), (''cacheEnabled'', jc_bool C cache_enabled),
              (''flush_enabled'', jc_bool C flush_enabled), (''flushEnabled'', jc_bool C flush_enabled),
              (''pending_count'', jc_int C pending_count), (''pendingCount'', jc_int C pending_count)])))) n))"

definition data_ack_message_from_reason :: "string \<Rightarrow> string" where
  "data_ack_message_from_reason reason =
     (if reason = ''invalid_request'' then ''invalid request''
      else if reason = ''unknown_command'' then ''unknown command''
      else if reason = ''invalid_argument'' then ''invalid argument''
      else if reason = ''port_not_found'' then ''port not found''
      else if reason = ''slave_address_conflict'' then ''slave address already exists''
      else if reason = ''unsupported_device_type'' then ''unsupported device type''
      else if reason = ''port_already_connected'' then ''port already connected''
      else if reason = ''open_failed'' \<or> reason = ''open_port_failed'' then ''port open failed''
      else if reason = ''not_connected'' then ''not connected''
      else if reason = ''relay_not_connected'' then ''relay not connected''
      else if reason = ''port_not_connected'' then ''port not connected''
      else if reason = ''invalid_poll_interval'' then ''invalid poll interval''
      else if reason = ''device_exists'' then ''device already exists''
      else if reason = ''device_not_found'' then ''device not found''
      else if reason = ''modbus_write_failed'' then ''modbus write failed''
      else if reason = ''config_write_failed'' then ''config write failed''
      else reason)"

end
