(* ===== verification/PortSnapshot.thy ===== *)
theory PortSnapshot
  imports PortManager "HOL-Library.Char_ord" "HOL-Library.List_Lexorder"
begin

text \<open>
  The documents \<open>port_manager.cpp\<close> makes of its state: the configuration snapshot, from the
  devices in memory and those of the configuration file, and the runtime state; and the saved
  ports it reads back.  While a snapshot is built a port of its array is a record of its slot,
  its other members and its devices; the source finds a port again by the member \<open>slot\<close>.
\<close>

subsection \<open>Available and saved ports\<close>

text \<open>\<open>names\<close>: the entries of the directory \<open>/dev\<close>, none when it cannot be opened.\<close>

definition scanPorts :: "string list \<Rightarrow> string list" where
  "scanPorts names =
     remdups_adj (sort (map ((@) ''/dev/'') (filter (\<lambda>n. starts_with ''ttyS'' n \<or> starts_with ''ttyUSB'' n
       \<or> starts_with ''ttymxc'' n) names)))"

record SavedPortConfig =
  sv_port :: string
  sv_baud :: int
  sv_auto_restore :: bool

text \<open>The port and the baud rate of an item, when it has a usable slot and port.\<close>

definition saved_entry :: "'v json_c \<Rightarrow> 'v \<Rightarrow> (int \<times> string \<times> int) option" where
  "saved_entry C item =
     (let slot = jc_int_member C item ''slot'' (-1)
      in if \<not> validSlot slot then None
         else case jc_string_member C item ''port'' [] of None \<Rightarrow> None
         | Some port \<Rightarrow>
             if port = [] then None
             else let baud = jc_int_member C item ''baud'' 9600
                  in Some (slot, port, if baud \<le> 0 then 9600 else baud))"

definition saved_port :: "'v json_c \<Rightarrow> 'v \<Rightarrow> (int \<rightharpoonup> SavedPortConfig) \<Rightarrow> (int \<rightharpoonup> SavedPortConfig)" where
  "saved_port C item configs =
     (case saved_entry C item of None \<Rightarrow> configs
      | Some (slot, port, baud) \<Rightarrow>
          configs(slot \<mapsto> \<lparr>sv_port = port, sv_baud = baud,
            sv_auto_restore = (case jc_get2 C item ''auto_restore'' ''autoRestore'' of
              None \<Rightarrow> True | Some v \<Rightarrow> jc_get_boolean C v)\<rparr>))"

definition saved_device_port :: "'v json_c \<Rightarrow> 'v \<Rightarrow> (int \<rightharpoonup> SavedPortConfig) \<Rightarrow> (int \<rightharpoonup> SavedPortConfig)" where
  "saved_device_port C item configs =
     (case saved_entry C item of None \<Rightarrow> configs
      | Some (slot, port, baud) \<Rightarrow>
          if configs slot \<noteq> None then configs
          else configs(slot \<mapsto> \<lparr>sv_port = port, sv_baud = baud, sv_auto_restore = True\<rparr>))"

definition loadSavedPortConfigs :: "'v json_c \<Rightarrow> 'v PortManager \<Rightarrow> (int \<rightharpoonup> SavedPortConfig)" where
  "loadSavedPortConfigs C m =
     (case pmg_file m of None \<Rightarrow> Map.empty
      | Some doc \<Rightarrow>
          (case jc_array_member C doc ''ports'' of
             Some items \<Rightarrow> fold (saved_port C) items Map.empty
           | None \<Rightarrow>
               (case jc_array_member C doc ''devices'' of
                  Some items \<Rightarrow> fold (saved_device_port C) items Map.empty
                | None \<Rightarrow> Map.empty)))"

subsection \<open>The filter of a snapshot\<close>

record ConfigSnapshotFilter =
  sf_has_devices :: bool
  sf_devices :: "(int \<times> int) set"
  sf_slots :: "int set"

definition no_filter :: ConfigSnapshotFilter where
  "no_filter = \<lparr>sf_has_devices = False, sf_devices = {}, sf_slots = {}\<rparr>"

definition acceptsSlot :: "ConfigSnapshotFilter \<Rightarrow> int \<Rightarrow> bool" where
  "acceptsSlot f slot \<longleftrightarrow> \<not> sf_has_devices f \<or> slot \<in> sf_slots f"

definition acceptsDevice :: "ConfigSnapshotFilter \<Rightarrow> int \<Rightarrow> int \<Rightarrow> bool" where
  "acceptsDevice f slot device_id \<longleftrightarrow> \<not> sf_has_devices f \<or> (slot, device_id) \<in> sf_devices f"

definition filter_item :: "'v json_c \<Rightarrow> 'v \<Rightarrow> ConfigSnapshotFilter \<Rightarrow> ConfigSnapshotFilter" where
  "filter_item C item f =
     (let slot = slotFromPortId (jc_string_member C item ''portId'' []);
          device_id = jc_int_member C item ''deviceId'' 0;
          device_id = (if device_id \<le> 0 then jc_int_member C item ''slaveAddress'' device_id else device_id)
      in if validSlot slot \<and> device_id > 0
         then \<lparr>sf_has_devices = True, sf_devices = insert (slot, device_id) (sf_devices f),
               sf_slots = insert slot (sf_slots f)\<rparr>
         else f)"

definition parseConfigSnapshotFilter :: "'v json_c \<Rightarrow> string option \<Rightarrow> ConfigSnapshotFilter" where
  "parseConfigSnapshotFilter C target_json =
     (case target_json of None \<Rightarrow> no_filter
      | Some t \<Rightarrow>
          if t = [] then no_filter
          else case jc_parse C t of None \<Rightarrow> no_filter
          | Some target \<Rightarrow>
              (case jc_array_member C target ''devices'' of None \<Rightarrow> no_filter
               | Some items \<Rightarrow> fold (filter_item C) items no_filter))"

subsection \<open>The configuration snapshot\<close>

record 'v snapshot_port =
  sp_slot :: int
  sp_head :: "(string \<times> 'v) list"
  sp_devices :: "'v list"

definition port_head :: "'v json_c \<Rightarrow> int \<Rightarrow> string \<Rightarrow> int \<Rightarrow> bool \<Rightarrow> (string \<times> 'v) list" where
  "port_head C slot port baud online =
     [(''slot'', jc_int C slot), (''portId'', jc_string C (portIdForSlot slot)),
      (''portName'', jc_string C (portNameForSlot slot)), (''port'', jc_string C port),
      (''baud'', jc_int C baud), (''connected'', jc_bool C online), (''devicePath'', jc_string C port),
      (''status'', jc_string C (if online then ''connected'' else ''disconnected''))]"

definition snapshot_threshold :: "'v json_c \<Rightarrow> sensor_threshold_config option \<Rightarrow> (string \<times> 'v) list" where
  "snapshot_threshold C config =
     (case config of
        Some c \<Rightarrow> [(''thresholdEnabled'', jc_bool C (st_threshold_enabled c)),
                   (''thresholdConfig'', thresholdConfigToJson C c), (''threshold_config'', thresholdConfigToJson C c)]
      | None \<Rightarrow> [(''thresholdEnabled'', jc_bool C False)])"

definition snapshot_device :: "'v json_c \<Rightarrow> string \<Rightarrow> int \<Rightarrow> int \<Rightarrow> string \<Rightarrow> int \<Rightarrow> string
    \<Rightarrow> sensor_threshold_config option \<Rightarrow> 'v" where
  "snapshot_device C gateway slot slave_id device_type interval status config = jc_object C
     ([(''deviceId'', jc_int C slave_id), (''slave_id'', jc_int C slave_id),
       (''gatewayId'', jc_string C gateway), (''portId'', jc_string C (portIdForSlot slot)),
       (''deviceType'', jc_string C device_type), (''pollIntervalMs'', jc_int C interval),
       (''poll_interval_ms'', jc_int C interval), (''status'', jc_string C status)]
      @ snapshot_threshold C config)"

definition live_device :: "'v json_c \<Rightarrow> string \<Rightarrow> int \<Rightarrow> bool \<Rightarrow> ManagedDevice \<Rightarrow> 'v" where
  "live_device C gateway slot online d =
     snapshot_device C gateway slot (md_id d) (deviceTypeName (md_sensor d)) (pollIntervalMs (md_sensor d))
       (if online then ''online'' else ''unknown'') (thresholdConfig (md_sensor d))"

definition exported :: "ConfigSnapshotFilter \<Rightarrow> int \<Rightarrow> PortChannel \<Rightarrow> ManagedDevice list" where
  "exported f slot ch = filter (\<lambda>d. acceptsDevice f slot (md_id d)) (ch_devices ch)"

definition live_port :: "'v json_c \<Rightarrow> string \<Rightarrow> ConfigSnapshotFilter \<Rightarrow> int \<Rightarrow> PortChannel \<Rightarrow> 'v snapshot_port" where
  "live_port C gateway f slot ch =
     \<lparr>sp_slot = slot, sp_head = port_head C slot (ch_port ch) (ch_baud ch) (ch_connected ch),
      sp_devices = map (live_device C gateway slot (ch_connected ch)) (exported f slot ch)\<rparr>"

definition live_ports :: "'v json_c \<Rightarrow> string \<Rightarrow> ConfigSnapshotFilter \<Rightarrow> 'v PortManager \<Rightarrow> 'v snapshot_port list" where
  "live_ports C gateway f m =
     map (\<lambda>slot. live_port C gateway f slot (pmg_channels m slot)) (filter (acceptsSlot f) [0..kSlotCount - 1])"

definition exported_keys :: "ConfigSnapshotFilter \<Rightarrow> 'v PortManager \<Rightarrow> (int \<times> int) set" where
  "exported_keys f m = set (concat (map (\<lambda>slot. map (\<lambda>d. (slot, md_id d)) (exported f slot (pmg_channels m slot)))
     (filter (acceptsSlot f) [0..kSlotCount - 1])))"

text \<open>The slot and the id of a saved device that goes into the snapshot.\<close>

definition saved_key :: "'v json_c \<Rightarrow> ConfigSnapshotFilter \<Rightarrow> (int \<times> int) set \<Rightarrow> 'v \<Rightarrow> (int \<times> int) option" where
  "saved_key C f live item =
     (let slot = jc_int_member C item ''slot'' (-1); slave_id = jc_int_member C item ''slave_id'' 0
      in if \<not> validSlot slot \<or> \<not> acceptsSlot f slot then None
         else if slave_id \<le> 0 \<or> \<not> acceptsDevice f slot slave_id then None
         else if (slot, slave_id) \<in> live then None else Some (slot, slave_id))"

definition text_member :: "'v json_c \<Rightarrow> 'v \<Rightarrow> string \<Rightarrow> string \<Rightarrow> string" where
  "text_member C item key d = (case jc_string_member C item key d of None \<Rightarrow> [] | Some s \<Rightarrow> s)"

definition saved_snapshot_device :: "'v json_c \<Rightarrow> string \<Rightarrow> int \<Rightarrow> int \<Rightarrow> 'v \<Rightarrow> 'v" where
  "saved_snapshot_device C gateway slot slave_id item =
     snapshot_device C gateway slot slave_id (text_member C item ''device_type'' ''unknown'')
       (jc_int_member C item ''poll_interval_ms'' 1000) ''unknown''
       (map_option (\<lambda>t. thresholdConfigFromJson C t sensor_threshold_zero) (jc_get C item ''threshold_config''))"

fun add_to_port :: "int \<Rightarrow> 'v \<Rightarrow> 'v snapshot_port list \<Rightarrow> 'v snapshot_port list option" where
  "add_to_port slot dev [] = None"
| "add_to_port slot dev (p # ps) =
     (if sp_slot p = slot then Some (p\<lparr>sp_devices := sp_devices p @ [dev]\<rparr> # ps)
      else map_option ((#) p) (add_to_port slot dev ps))"

definition add_saved :: "'v json_c \<Rightarrow> string \<Rightarrow> ConfigSnapshotFilter \<Rightarrow> (int \<times> int) set \<Rightarrow> 'v
    \<Rightarrow> 'v snapshot_port list \<Rightarrow> 'v snapshot_port list" where
  "add_saved C gateway f live item ports =
     (case saved_key C f live item of None \<Rightarrow> ports
      | Some (slot, slave_id) \<Rightarrow>
          let dev = saved_snapshot_device C gateway slot slave_id item
          in case add_to_port slot dev ports of Some ports \<Rightarrow> ports
             | None \<Rightarrow> ports @ [\<lparr>sp_slot = slot,
                 sp_head = port_head C slot (text_member C item ''port'' []) (jc_int_member C item ''baud'' 0) False,
                 sp_devices = [dev]\<rparr>])"

definition snapshot_ports :: "'v json_c \<Rightarrow> string \<Rightarrow> ConfigSnapshotFilter \<Rightarrow> 'v PortManager \<Rightarrow> 'v snapshot_port list" where
  "snapshot_ports C gateway f m =
     (case pmg_file m of None \<Rightarrow> live_ports C gateway f m
      | Some doc \<Rightarrow>
          (case jc_array_member C doc ''devices'' of None \<Rightarrow> live_ports C gateway f m
           | Some items \<Rightarrow> fold (add_saved C gateway f (exported_keys f m)) items (live_ports C gateway f m)))"

definition snapshot_port_json :: "'v json_c \<Rightarrow> 'v snapshot_port \<Rightarrow> 'v" where
  "snapshot_port_json C p = jc_object C (sp_head p @ [(''devices'', jc_array C (sp_devices p))])"

definition snapshot_json :: "'v json_c \<Rightarrow> int \<Rightarrow> 32 word \<Rightarrow> string \<Rightarrow> ConfigSnapshotFilter \<Rightarrow> 'v PortManager \<Rightarrow> 'v" where
  "snapshot_json C now seq gateway f m = jc_object C
     [(''type'', jc_string C ''config_snapshot''), (''seq'', jc_int64 C (uint seq)),
      (''fullSnapshot'', jc_bool C (\<not> sf_has_devices f)), (''full_snapshot'', jc_bool C (\<not> sf_has_devices f)),
      (''factoryId'', jc_string C DEFAULT_FACTORY_ID), (''factoryName'', jc_string C DEFAULT_FACTORY_NAME),
      (''areaId'', jc_string C DEFAULT_AREA_ID), (''areaName'', jc_string C DEFAULT_AREA_NAME),
      (''gatewayId'', jc_string C gateway), (''gatewayName'', jc_string C DEFAULT_GATEWAY_NAME),
      (''timestampMs'', jc_int64 C now),
      (''ports'', jc_array C (map (snapshot_port_json C) (snapshot_ports C gateway f m)))]"

definition effective_gateway :: "string option \<Rightarrow> string" where
  "effective_gateway g = (case g of None \<Rightarrow> DEFAULT_GATEWAY_ID | Some s \<Rightarrow> if s = [] then DEFAULT_GATEWAY_ID else s)"

text \<open>The text written to the buffer; \<open>None\<close> is the result -1.\<close>

definition exportConfigSnapshotJson :: "'v json_c \<Rightarrow> int \<Rightarrow> 32 word \<Rightarrow> string option \<Rightarrow> string option \<Rightarrow> int
    \<Rightarrow> 'v PortManager \<Rightarrow> string option" where
  "exportConfigSnapshotJson C now seq gateway target_json buffer_size m =
     (if buffer_size = 0 then None
      else let json = c_str (jc_print C (snapshot_json C now seq (effective_gateway gateway)
                        (parseConfigSnapshotFilter C target_json) m))
           in if int (length json) + 1 > buffer_size then None else Some json)"

subsection \<open>What a snapshot lists\<close>

text \<open>
  The devices of the file that are listed under a slot, in the order of the file; and the ports
  of a snapshot written without the search for a port.
\<close>

definition saved_devices_of :: "'v json_c \<Rightarrow> string \<Rightarrow> ConfigSnapshotFilter \<Rightarrow> (int \<times> int) set \<Rightarrow> 'v list
    \<Rightarrow> int \<Rightarrow> 'v list" where
  "saved_devices_of C gateway f live items slot = concat (map (\<lambda>item.
     case saved_key C f live item of None \<Rightarrow> []
     | Some (s, i) \<Rightarrow> if s = slot then [saved_snapshot_device C gateway s i item] else []) items)"

definition saved_items :: "'v json_c \<Rightarrow> 'v PortManager \<Rightarrow> 'v list" where
  "saved_items C m = (case pmg_file m of None \<Rightarrow> []
     | Some doc \<Rightarrow> (case jc_array_member C doc ''devices'' of None \<Rightarrow> [] | Some items \<Rightarrow> items))"

definition listed_port :: "'v json_c \<Rightarrow> string \<Rightarrow> ConfigSnapshotFilter \<Rightarrow> 'v PortManager \<Rightarrow> int \<Rightarrow> 'v snapshot_port" where
  "listed_port C gateway f m slot =
     (let ch = pmg_channels m slot
      in \<lparr>sp_slot = slot, sp_head = port_head C slot (ch_port ch) (ch_baud ch) (ch_connected ch),
          sp_devices = map (live_device C gateway slot (ch_connected ch)) (exported f slot ch)
            @ saved_devices_of C gateway f (exported_keys f m) (saved_items C m) slot\<rparr>)"

lemma saved_devices_snoc [simp]:
  "saved_devices_of C g f live [] slot = []"
  "saved_devices_of C g f live (item # items) slot =
     (case saved_key C f live item of None \<Rightarrow> []
      | Some (s, i) \<Rightarrow> if s = slot then [saved_snapshot_device C g s i item] else [])
     @ saved_devices_of C g f live items slot"
  by (simp_all add: saved_devices_of_def)

lemma add_to_port_listed:
  assumes "\<forall>s. sp_slot (F s) = s" "distinct slots" "slot \<in> set slots"
  shows "add_to_port slot dev (map F slots) =
    Some (map (F(slot := (F slot)\<lparr>sp_devices := sp_devices (F slot) @ [dev]\<rparr>)) slots)"
  using assms(2,3)
proof (induction slots)
  case (Cons s slots)
  then show ?case using assms(1) by (auto intro: map_cong)
qed simp

lemma saved_key_slot:
  "saved_key C f live item = Some (slot, i) \<Longrightarrow> validSlot slot \<and> acceptsSlot f slot \<and> 0 < i
     \<and> acceptsDevice f slot i \<and> (slot, i) \<notin> live"
  by (auto simp: saved_key_def Let_def split: if_splits)

lemma fold_saved:
  assumes "\<forall>s. sp_slot (F s) = s" "distinct slots" "\<forall>s. validSlot s \<and> acceptsSlot f s \<longrightarrow> s \<in> set slots"
  shows "fold (add_saved C g f live) items (map F slots) =
    map (\<lambda>s. (F s)\<lparr>sp_devices := sp_devices (F s) @ saved_devices_of C g f live items s\<rparr>) slots"
  using assms(1)
proof (induction items arbitrary: F)
  case (Cons item items)
  show ?case
  proof (cases "saved_key C f live item")
    case None
    then show ?thesis using Cons by (simp add: add_saved_def)
  next
    case (Some k)
    obtain slot i where k: "k = (slot, i)" by (cases k)
    let ?F = "F(slot := (F slot)\<lparr>sp_devices := sp_devices (F slot) @ [saved_snapshot_device C g slot i item]\<rparr>)"
    have "slot \<in> set slots" using saved_key_slot Some k assms(3) by metis
    then have "add_saved C g f live item (map F slots) = map ?F slots"
      using add_to_port_listed [OF Cons.prems assms(2)] Some k by (simp add: add_saved_def)
    moreover have "fold (add_saved C g f live) items (map ?F slots)
        = map (\<lambda>s. (?F s)\<lparr>sp_devices := sp_devices (?F s) @ saved_devices_of C g f live items s\<rparr>) slots"
      using Cons.prems by (intro Cons.IH) simp
    ultimately show ?thesis using Some k by (auto simp del: fun_upd_apply simp: fun_upd_def intro!: map_cong)
  qed
qed simp

lemma snapshot_closed:
  "snapshot_ports C g f m = map (listed_port C g f m) (filter (acceptsSlot f) [0..kSlotCount - 1])"
proof -
  define slots where "slots = filter (acceptsSlot f) [0..kSlotCount - 1]"
  define F where "F = (\<lambda>s. live_port C g f s (pmg_channels m s))"
  have F: "\<forall>s. sp_slot (F s) = s" by (simp add: F_def live_port_def)
  have slots: "distinct slots" "\<forall>s. validSlot s \<and> acceptsSlot f s \<longrightarrow> s \<in> set slots"
    by (auto simp: slots_def validSlot_def)
  have live: "live_ports C g f m = map F slots" by (simp add: live_ports_def slots_def F_def)
  have "snapshot_ports C g f m = fold (add_saved C g f (exported_keys f m)) (saved_items C m) (map F slots)"
    by (simp add: snapshot_ports_def saved_items_def live split: option.splits)
  also have "\<dots> = map (listed_port C g f m) slots"
    unfolding fold_saved [OF F slots]
    by (rule map_cong) (simp_all add: F_def live_port_def listed_port_def Let_def)
  finally show ?thesis by (simp add: slots_def)
qed

subsection \<open>The runtime state\<close>

definition runtime_device :: "'v json_c \<Rightarrow> ManagedDevice \<Rightarrow> 'v" where
  "runtime_device C d = jc_object C
     [(''deviceId'', jc_int C (md_id d)),
      (''deviceName'', jc_string C (take 63 (''Device '' @ to_string (md_id d)))),
      (''deviceType'', jc_string C (deviceTypeName (md_sensor d))),
      (''pollIntervalMs'', jc_int C (pollIntervalMs (md_sensor d)))]"

definition runtime_port :: "'v json_c \<Rightarrow> int \<Rightarrow> SavedPortConfig option \<Rightarrow> PortChannel \<Rightarrow> 'v" where
  "runtime_port C slot saved ch = jc_object C
     [(''slot'', jc_int C slot), (''portId'', jc_string C (portIdForSlot slot)),
      (''portName'', jc_string C (portNameForSlot slot)),
      (''port'', jc_string C (if ch_port ch \<noteq> [] then ch_port ch
         else case saved of None \<Rightarrow> [] | Some s \<Rightarrow> sv_port s)),
      (''baud'', jc_int C (if ch_baud ch > 0 then ch_baud ch else case saved of None \<Rightarrow> 0 | Some s \<Rightarrow> sv_baud s)),
      (''connected'', jc_bool C (ch_connected ch)),
      (''auto_restore'', jc_bool C (case saved of None \<Rightarrow> True | Some s \<Rightarrow> sv_auto_restore s)),
      (''devices'', jc_array C (map (runtime_device C) (ch_devices ch)))]"

definition createRuntimeStateLocked :: "'v json_c \<Rightarrow> int \<Rightarrow> 32 word \<Rightarrow> string option
    \<Rightarrow> (int \<rightharpoonup> SavedPortConfig) \<Rightarrow> 'v PortManager \<Rightarrow> 'v" where
  "createRuntimeStateLocked C now seq cmd saved m = jc_object C
     [(''type'', jc_string C ''runtime_state''), (''seq'', jc_int64 C (uint seq)),
      (''cmd'', jc_string C (case cmd of None \<Rightarrow> ''get_runtime_state'' | Some c \<Rightarrow> c)),
      (''timestampMs'', jc_int64 C now),
      (''ports'', jc_array C (map (\<lambda>slot. runtime_port C slot (saved slot) (pmg_channels m slot))
         [0..kSlotCount - 1]))]"

end
