(* ===== verification/BoardControl.thy ===== *)
theory BoardControl
  imports DataAck PortSnapshot
begin

text \<open>
  The board as one state: the publishing path, the configuration sync, the acknowledgements and
  the port manager.  An operation of the port manager is run on its own state and the outputs it
  recorded are then handed on in their order, as the source does it at the moment of the call:
  no operation of the manager reads what they change.  Then the operations of
  port_manager.cpp that publish themselves, and the C interface other files call.
\<close>

record 'v board = ack_net +
  bd_manager :: "'v PortManager"

text \<open>
  \<open>bw_dev now\<close>: the entries of \<open>/dev\<close> at a time.  \<open>bw_slot\<close> and \<open>bw_connected\<close> stand for the
  names \<open>slot\<close> and \<open>connected\<close> that \<open>sendRuntimeState\<close> uses and the file does not declare there.
\<close>

record 'v board_world = "'v net_env" +
  bw_modbus :: modbus_lib
  bw_dir :: "nat \<Rightarrow> bool"
  bw_write :: "nat \<Rightarrow> 'v \<Rightarrow> bool \<times> 'v option"
  bw_dev :: "int \<Rightarrow> string list"
  bw_slot :: int
  bw_connected :: bool

text \<open>The two clocks: the time of day and the steady clock, in milliseconds.\<close>

record clock =
  ck_now :: int
  ck_steady :: int

definition net_of :: "'v board_world \<Rightarrow> 'v net_env" where
  "net_of W = \<lparr>ne_json = ne_json W, ne_sql = ne_sql W, ne_ipc = ne_ipc W\<rparr>"

definition manager_env :: "'v board_world \<Rightarrow> 'v board_env" where
  "manager_env W = \<lparr>be_json = ne_json W, be_modbus = bw_modbus W, be_dir = bw_dir W, be_write = bw_write W\<rparr>"

subsection \<open>Running the port manager\<close>

definition hand_on :: "'v net_env \<Rightarrow> int \<Rightarrow> board_output \<Rightarrow> 'a publish_net_scheme \<Rightarrow> 'a publish_net_scheme" where
  "hand_on E now out n =
     (case out of
        IpcSend p \<Rightarrow> snd (ipc_server_send E (Some p) n)
      | Publish t p meta \<Rightarrow> snd (net_publish_or_cache (ne_sql E) now (Some t) (Some p) (Some meta) n)
      | DeviceStatus slot dev \<Rightarrow> snd (data_publish_device_status_for_slot E now slot (Some dev) n))"

definition run_manager :: "'v board_world \<Rightarrow> clock \<Rightarrow> ('v PortManager \<Rightarrow> 'r \<times> 'v PortManager)
    \<Rightarrow> 'v board \<Rightarrow> 'r \<times> 'v board" where
  "run_manager W ck op b =
     (let (r, m) = op (bd_manager b);
          outs = drop (length (pmg_out (bd_manager b))) (pmg_out m)
      in (r, fold (hand_on (net_of W) (ck_now ck)) outs (b\<lparr>bd_manager := m\<rparr>)))"

definition port_manager_connect :: "'v board_world \<Rightarrow> clock \<Rightarrow> int \<Rightarrow> string option \<Rightarrow> int \<Rightarrow> 'v board
    \<Rightarrow> reply \<times> 'v board" where
  "port_manager_connect W ck slot port baud =
     run_manager W ck (connectPort (manager_env W) (ck_now ck) (ck_steady ck) slot port baud)"

definition port_manager_disconnect :: "'v board_world \<Rightarrow> clock \<Rightarrow> int \<Rightarrow> 'v board \<Rightarrow> reply \<times> 'v board" where
  "port_manager_disconnect W ck slot = run_manager W ck (disconnectPort slot)"

definition port_manager_add_device_ex :: "'v board_world \<Rightarrow> clock \<Rightarrow> int \<Rightarrow> int \<Rightarrow> string option \<Rightarrow> int
    \<Rightarrow> sensor_threshold_config option \<Rightarrow> 'v board \<Rightarrow> reply \<times> 'v board" where
  "port_manager_add_device_ex W ck slot slave_id device_type interval config =
     run_manager W ck
       (addDevice (manager_env W) (ck_now ck) (ck_steady ck) slot slave_id device_type interval config)"

definition port_manager_set_device_threshold :: "'v board_world \<Rightarrow> clock \<Rightarrow> int \<Rightarrow> int
    \<Rightarrow> sensor_threshold_config option \<Rightarrow> 'v board \<Rightarrow> reply \<times> 'v board" where
  "port_manager_set_device_threshold W ck slot slave_id config =
     run_manager W ck (setDeviceThreshold (manager_env W) (ck_now ck) slot slave_id config)"

definition port_manager_remove_device :: "'v board_world \<Rightarrow> clock \<Rightarrow> int \<Rightarrow> int \<Rightarrow> 'v board \<Rightarrow> reply \<times> 'v board" where
  "port_manager_remove_device W ck slot slave_id =
     run_manager W ck (removeDevice (manager_env W) (ck_now ck) slot slave_id)"

definition port_manager_handle_relay :: "'v board_world \<Rightarrow> clock \<Rightarrow> int \<Rightarrow> int \<Rightarrow> device_data option \<Rightarrow> 'v board
    \<Rightarrow> reply \<times> 'v board" where
  "port_manager_handle_relay W ck slot slave_id dev =
     run_manager W ck (handleRelay (manager_env W) slot slave_id dev)"

definition port_manager_poll_slot :: "'v board_world \<Rightarrow> clock \<Rightarrow> int \<Rightarrow> 'v board \<Rightarrow> 'v board" where
  "port_manager_poll_slot W ck slot b =
     snd (run_manager W ck (\<lambda>m. ((), pollSlot (manager_env W) (ck_now ck) (ck_steady ck) slot m)) b)"

definition port_manager_publish_latest_status :: "'v board_world \<Rightarrow> clock \<Rightarrow> 'v board \<Rightarrow> 'v board" where
  "port_manager_publish_latest_status W ck b =
     snd (run_manager W ck (\<lambda>m. ((), publishLatestStatus m)) b)"

definition port_manager_save_offline_cache_config :: "'v board_world \<Rightarrow> clock \<Rightarrow> bool \<Rightarrow> bool \<Rightarrow> 'v board
    \<Rightarrow> int \<times> 'v board" where
  "port_manager_save_offline_cache_config W ck cache flush =
     run_manager W ck (saveOfflineCacheConfig (manager_env W) (ck_now ck) cache flush)"

definition port_manager_load_offline_cache_config :: "'v board_world \<Rightarrow> 'v board \<Rightarrow> int \<times> int" where
  "port_manager_load_offline_cache_config W b = loadOfflineCacheConfig (ne_json W) (bd_manager b)"

definition port_manager_export_config_snapshot :: "'v board_world \<Rightarrow> clock \<Rightarrow> 32 word \<Rightarrow> string option
    \<Rightarrow> string option \<Rightarrow> int \<Rightarrow> 'v board \<Rightarrow> string option" where
  "port_manager_export_config_snapshot W ck seq gateway_id target_json buffer_size b =
     exportConfigSnapshotJson (ne_json W) (ck_now ck) seq gateway_id target_json buffer_size (bd_manager b)"

definition port_manager_scan_ports :: "'v board_world \<Rightarrow> clock \<Rightarrow> 32 word \<Rightarrow> string option \<Rightarrow> 'v board \<Rightarrow> 'v board" where
  "port_manager_scan_ports W ck seq cmd =
     data_ack_send_ports (net_of W) (ck_now ck) seq cmd (scanPorts (bw_dev W (ck_now ck)))"

text \<open>The snapshot \<open>data_config_sync_publish_latest_snapshot\<close> exports, and the call of it.\<close>

definition publish_snapshot :: "'v board_world \<Rightarrow> clock \<Rightarrow> 32 word \<Rightarrow> 'v board \<Rightarrow> int \<times> 'v board" where
  "publish_snapshot W ck seq b =
     data_config_sync_publish_latest_snapshot (net_of W) (ck_now ck) seq
       (port_manager_export_config_snapshot W ck seq (Some DEFAULT_GATEWAY_ID) (Some []) 65536 b) b"

subsection \<open>Status messages of the port manager\<close>

definition status_message_meta :: "int \<Rightarrow> int \<Rightarrow> bool \<Rightarrow> offline_publish_meta" where
  "status_message_meta now slot is_connected = meta_zero\<lparr>ofm_message_type := Some ''port_status'',
     ofm_gateway_id := Some DEFAULT_GATEWAY_ID, ofm_port_id := Some (portIdForSlot slot),
     ofm_priority := (if is_connected then 1 else 2), ofm_timestamp_ms := now\<rparr>"

definition send_port_message :: "'v net_env \<Rightarrow> int \<Rightarrow> int \<Rightarrow> bool \<Rightarrow> 'v \<Rightarrow> 'a board_net_scheme \<Rightarrow> 'a board_net_scheme" where
  "send_port_message E now slot is_connected doc n =
     (let payload = jc_print (ne_json E) doc; n = snd (ipc_server_send E (Some payload) n)
      in case mqtt_make_port_up_topic_for_slot slot 128 of None \<Rightarrow> n
         | Some topic \<Rightarrow> snd (net_publish_or_cache (ne_sql E) now (Some topic) (Some payload)
             (Some (status_message_meta now slot is_connected)) n))"

definition sendRuntimeState :: "'v board_world \<Rightarrow> clock \<Rightarrow> 32 word \<Rightarrow> string option \<Rightarrow> 'v board \<Rightarrow> 'v board" where
  "sendRuntimeState W ck seq cmd b =
     (let C = ne_json W; m = bd_manager b
      in send_port_message (net_of W) (ck_now ck) (bw_slot W) (bw_connected W)
           (createRuntimeStateLocked C (ck_now ck) seq cmd (loadSavedPortConfigs C m) m) b)"

definition port_status_json :: "'v json_c \<Rightarrow> 32 word \<Rightarrow> int \<Rightarrow> string \<Rightarrow> int \<Rightarrow> bool \<Rightarrow> string option \<Rightarrow> 'v" where
  "port_status_json C seq slot port baud is_connected message = jc_object C
     [(''type'', jc_string C ''port_status''), (''seq'', jc_int64 C (uint seq)),
      (''gatewayId'', jc_string C DEFAULT_GATEWAY_ID), (''portId'', jc_string C (portIdForSlot slot)),
      (''slot'', jc_int C slot), (''port'', jc_string C port), (''device_type'', jc_string C ''unknown''),
      (''baud'', jc_int C baud), (''connected'', jc_bool C is_connected),
      (''message'', jc_string C (text_of message))]"

definition sendPortStatus :: "'v board_world \<Rightarrow> clock \<Rightarrow> int \<Rightarrow> bool \<Rightarrow> string option \<Rightarrow> string option \<Rightarrow> int
    \<Rightarrow> 'v board \<Rightarrow> 'v board" where
  "sendPortStatus W ck slot is_connected message port_override baud_override b =
     (if \<not> validSlot slot then b
      else
        let ch = pmg_channels (bd_manager b) slot;
            port = (case port_override of None \<Rightarrow> ch_port ch | Some p \<Rightarrow> p);
            baud = (if baud_override > 0 then baud_override else ch_baud ch);
            (seq, b) = data_config_sync_next_seq b
        in send_port_message (net_of W) (ck_now ck) slot is_connected
             (port_status_json (ne_json W) seq slot port baud is_connected message) b)"

definition register_one :: "'v board_world \<Rightarrow> clock \<Rightarrow> 32 word \<Rightarrow> int \<Rightarrow> ManagedDevice \<Rightarrow> 'v board \<Rightarrow> 'v board" where
  "register_one W ck seq slot d b =
     (let (register_seq, b) = (if seq \<noteq> 0 then (seq, b) else data_config_sync_next_seq b)
      in snd (data_publish_device_register (net_of W) (ck_now ck) register_seq slot (md_id d)
           (Some (deviceTypeName (md_sensor d))) (pollIntervalMs (md_sensor d)) b))"

definition publishDeviceRegistersForSlot :: "'v board_world \<Rightarrow> clock \<Rightarrow> 32 word \<Rightarrow> int \<Rightarrow> 'v board \<Rightarrow> 'v board" where
  "publishDeviceRegistersForSlot W ck seq slot b =
     (if \<not> validSlot slot then b
      else fold (register_one W ck seq slot) (ch_devices (pmg_channels (bd_manager b) slot)) b)"

text \<open>One saved port.\<close>

definition restore_port :: "'v board_world \<Rightarrow> clock \<Rightarrow> string list \<Rightarrow> int \<Rightarrow> SavedPortConfig \<Rightarrow> 'v board \<Rightarrow> 'v board" where
  "restore_port W ck available slot config b =
     (let port = sv_port config; baud = sv_baud config
      in if \<not> sv_auto_restore config
         then sendPortStatus W ck slot False (Some ''auto_restore_disabled'') (Some port) baud b
         else if port \<notin> set available
         then sendPortStatus W ck slot False (Some ''port_not_found'') (Some port) baud b
         else
           let ((ret, reason), b) = port_manager_connect W ck slot (Some port) baud b
           in if ret = 0
              then
                let b = sendPortStatus W ck slot True (Some ''restored'') None 0 b;
                    (seq, b) = data_config_sync_next_seq b;
                    b = snd (data_publish_port_register (net_of W) (ck_now ck) seq slot (Some port) baud
                          (Some ''connected'') b)
                in publishDeviceRegistersForSlot W ck 0 slot b
              else sendPortStatus W ck slot False (Some (if reason \<noteq> [] then reason else ''restore_failed''))
                     (Some port) baud b)"

definition port_manager_restore_saved_connections :: "'v board_world \<Rightarrow> clock \<Rightarrow> 'v board \<Rightarrow> 'v board" where
  "port_manager_restore_saved_connections W ck b =
     (let configs = loadSavedPortConfigs (ne_json W) (bd_manager b);
          slots = filter (\<lambda>slot. configs slot \<noteq> None) [0..kSlotCount - 1]
      in if slots = [] then b
         else sendRuntimeState W ck 0 (Some ''restore_saved_connections'')
           (fold (\<lambda>slot. restore_port W ck (scanPorts (bw_dev W (ck_now ck))) slot (the (configs slot))) slots b))"

definition port_manager_send_runtime_state :: "'v board_world \<Rightarrow> clock \<Rightarrow> 32 word \<Rightarrow> string option \<Rightarrow> 'v board
    \<Rightarrow> int \<times> 'v board" where
  "port_manager_send_runtime_state W ck seq cmd b = (0, sendRuntimeState W ck seq cmd b)"

subsection \<open>The offline cache of the wrapper\<close>

definition mqtt_set_offline_cache_enabled :: "bool \<Rightarrow> 'a board_net_scheme \<Rightarrow> 'a board_net_scheme" where
  "mqtt_set_offline_cache_enabled enabled n = n\<lparr>bn_offline := oq_setCacheEnabled enabled (bn_offline n)\<rparr>"

definition mqtt_offline_cache_enabled :: "'a board_net_scheme \<Rightarrow> bool" where
  "mqtt_offline_cache_enabled n = oq_cacheEnabled (bn_offline n)"

definition mqtt_set_offline_cache_flush_enabled :: "bool \<Rightarrow> 'a board_net_scheme \<Rightarrow> 'a board_net_scheme" where
  "mqtt_set_offline_cache_flush_enabled enabled n = n\<lparr>bn_offline := oq_setFlushEnabled enabled (bn_offline n)\<rparr>"

definition mqtt_offline_cache_flush_enabled :: "'a board_net_scheme \<Rightarrow> bool" where
  "mqtt_offline_cache_flush_enabled n = oq_flushEnabled (bn_offline n)"

definition mqtt_offline_cache_pending_count :: "sqlite \<Rightarrow> 'a board_net_scheme \<Rightarrow> int \<times> 'a board_net_scheme" where
  "mqtt_offline_cache_pending_count S n =
     (let (c, q) = oq_countPending S (bn_offline n) in (c, n\<lparr>bn_offline := q\<rparr>))"

definition mqtt_clear_offline_cache :: "sqlite \<Rightarrow> 'a board_net_scheme \<Rightarrow> int \<times> 'a board_net_scheme" where
  "mqtt_clear_offline_cache S n =
     (let (ret, q) = offline_publish_clear_pending S (bn_offline n) in (ret, n\<lparr>bn_offline := q\<rparr>))"

definition mqtt_flush_offline_cache_once :: "sqlite \<Rightarrow> int \<Rightarrow> 'a board_net_scheme \<Rightarrow> int \<times> 'a board_net_scheme" where
  "mqtt_flush_offline_cache_once S now n =
     (if \<not> mqtt_offline_cache_flush_enabled n then (DATA_SEND_OFFLINE_CACHE_DISABLED, n)
      else let (pending, n) = mqtt_offline_cache_pending_count S n
      in if pending \<le> 0 then (DATA_SEND_OK, n)
         else if \<not> mqtt_is_connected (bn_mqtt n) then (DATA_SEND_MQTT_NOT_READY, n)
         else
           let old_flush_enabled = mqtt_offline_cache_flush_enabled n;
               n = net_flush_once S now (mqtt_set_offline_cache_flush_enabled True n)
           in (DATA_SEND_OK, mqtt_set_offline_cache_flush_enabled old_flush_enabled n))"

end
