(* ===== verification/DataCommand.thy ===== *)
theory DataCommand
  imports BoardControl
begin

text \<open>
  Linux_data/data/data_command.c: the commands of the user interface and of Pc_data.  A handler
  reads the members of the command, calls the port manager or the offline cache, and answers
  with an acknowledgement that carries the command's number.  A C string that may be null is an
  option.
\<close>

definition CMD_PROCESS_ERROR :: int where "CMD_PROCESS_ERROR = -1"
definition CMD_PROCESS_HANDLED :: int where "CMD_PROCESS_HANDLED = 0"
definition CMD_PROCESS_FORWARD_MQTT :: int where "CMD_PROCESS_FORWARD_MQTT = 1"

lemmas cmd_codes = CMD_PROCESS_ERROR_def CMD_PROCESS_HANDLED_def CMD_PROCESS_FORWARD_MQTT_def

subsection \<open>Reading members\<close>

fun json_get_object_any :: "'v json_c \<Rightarrow> 'v \<Rightarrow> string list \<Rightarrow> 'v option" where
  "json_get_object_any C obj [] = None"
| "json_get_object_any C obj (k # ks) = (case jc_get C obj k of Some v \<Rightarrow> Some v | None \<Rightarrow> json_get_object_any C obj ks)"

text \<open>The first of the keys that is there, when it is not null.\<close>

definition json_get_value_any :: "'v json_c \<Rightarrow> 'v \<Rightarrow> string list \<Rightarrow> 'v option" where
  "json_get_value_any C obj keys =
     (case json_get_object_any C obj keys of None \<Rightarrow> None | Some v \<Rightarrow> if jc_is_null C v then None else Some v)"

definition json_get_string_any :: "'v json_c \<Rightarrow> 'v \<Rightarrow> string list \<Rightarrow> string \<Rightarrow> string" where
  "json_get_string_any C obj keys d =
     (case json_get_value_any C obj keys of None \<Rightarrow> d
      | Some v \<Rightarrow> (case jc_get_string C v of None \<Rightarrow> d | Some s \<Rightarrow> if s \<noteq> [] then s else d))"

definition json_get_int_any :: "'v json_c \<Rightarrow> 'v \<Rightarrow> string list \<Rightarrow> int \<Rightarrow> int" where
  "json_get_int_any C obj keys d =
     (case json_get_value_any C obj keys of None \<Rightarrow> d | Some v \<Rightarrow> jc_get_int C v)"

definition json_get_bool_any :: "'v json_c \<Rightarrow> 'v \<Rightarrow> string list \<Rightarrow> bool \<Rightarrow> bool" where
  "json_get_bool_any C obj keys d =
     (case json_get_value_any C obj keys of None \<Rightarrow> d | Some v \<Rightarrow> jc_get_boolean C v)"

definition json_get_double_any :: "'v json_c \<Rightarrow> 'v option \<Rightarrow> string list \<Rightarrow> fval option" where
  "json_get_double_any C obj keys =
     (case obj of None \<Rightarrow> None | Some obj \<Rightarrow> map_option (jc_get_double C) (json_get_value_any C obj keys))"

definition parse_device_type :: "string option \<Rightarrow> device_type_t" where
  "parse_device_type t =
     (case t of None \<Rightarrow> DEV_UNKNOWN
      | Some s \<Rightarrow> if s = ''sensor_th'' then DEV_SENSOR_TH else if s = ''relay'' then DEV_RELAY
                  else if s = ''sysinfo'' then DEV_SYSINFO else DEV_UNKNOWN)"

definition slot_from_port_id :: "string option \<Rightarrow> int" where
  "slot_from_port_id port_id =
     (case port_id of None \<Rightarrow> -1
      | Some s \<Rightarrow> if s = ''port_001'' \<or> s = ''RS485-1'' then 0
                  else if s = ''port_002'' \<or> s = ''RS485-2'' then 1 else -1)"

subsection \<open>Thresholds of a command\<close>

definition parse_point_threshold :: "'v json_c \<Rightarrow> 'v \<Rightarrow> point_threshold_config \<Rightarrow> point_threshold_config" where
  "parse_point_threshold C obj p =
     (if jc_is_null C obj then p
      else
        let p = point_threshold_zero;
            p = (case jc_get2 C obj ''enable_alarm'' ''enableAlarm'' of None \<Rightarrow> p
                 | Some v \<Rightarrow> p\<lparr>pt_enable_alarm := jc_get_boolean C v\<rparr>);
            p = (case jc_get2 C obj ''alarm_low'' ''alarmLow'' of None \<Rightarrow> p
                 | Some v \<Rightarrow> if jc_is_null C v then p
                     else p\<lparr>pt_has_low := True, pt_alarm_low := to_float (jc_get_double C v)\<rparr>)
        in case jc_get2 C obj ''alarm_high'' ''alarmHigh'' of None \<Rightarrow> p
           | Some v \<Rightarrow> if jc_is_null C v then p
               else p\<lparr>pt_has_high := True, pt_alarm_high := to_float (jc_get_double C v)\<rparr>)"

definition high_limit :: "fval option \<Rightarrow> point_threshold_config \<Rightarrow> point_threshold_config" where
  "high_limit v p = (case v of None \<Rightarrow> p
     | Some x \<Rightarrow> p\<lparr>pt_enable_alarm := True, pt_has_high := True, pt_alarm_high := to_float x\<rparr>)"

definition first_some :: "'a option \<Rightarrow> 'a option \<Rightarrow> 'a option" where
  "first_some x y = (case x of None \<Rightarrow> y | Some _ \<Rightarrow> x)"

text \<open>The part under \<open>thresholds\<close>, when it is an object.\<close>

definition parse_thresholds :: "'v json_c \<Rightarrow> 'v \<Rightarrow> sensor_threshold_config \<Rightarrow> sensor_threshold_config" where
  "parse_thresholds C thresholds c =
     (let point = (\<lambda>key p. case jc_get C thresholds key of None \<Rightarrow> p | Some v \<Rightarrow> parse_point_threshold C v p)
      in c\<lparr>st_temperature := point ''temperature''
             (high_limit (json_get_double_any C (Some thresholds) [''temp_high'', ''tempHigh'']) (st_temperature c)),
           st_humidity := point ''humidity''
             (high_limit (json_get_double_any C (Some thresholds) [''humi_high'', ''humiHigh'']) (st_humidity c))\<rparr>)"

definition non_null :: "'v json_c \<Rightarrow> 'v option \<Rightarrow> 'v option" where
  "non_null C v = (case v of None \<Rightarrow> None | Some v \<Rightarrow> if jc_is_null C v then None else Some v)"

definition parse_sensor_threshold_config :: "'v json_c \<Rightarrow> 'v \<Rightarrow> sensor_threshold_config option" where
  "parse_sensor_threshold_config C doc =
     (if jc_is_null C doc then None
      else
        let (has, enabled) = (case json_get_object_any C doc [''threshold_enabled'', ''thresholdEnabled''] of
                                None \<Rightarrow> (False, False) | Some v \<Rightarrow> (True, jc_get_boolean C v));
            compat = non_null C (json_get_object_any C doc [''threshold_config'', ''thresholdConfig'']);
            (has, enabled) = (case compat of None \<Rightarrow> (has, enabled)
              | Some v \<Rightarrow> if jc_is_object C v then (True, json_get_bool_any C v [''enable''] enabled) else (has, enabled));
            temp = first_some (json_get_double_any C (Some doc) [''temp_high'', ''tempHigh''])
                     (json_get_double_any C compat [''temp_high'', ''tempHigh'']);
            humi = first_some (json_get_double_any C (Some doc) [''humi_high'', ''humiHigh''])
                     (json_get_double_any C compat [''humi_high'', ''humiHigh'']);
            has = (has \<or> temp \<noteq> None \<or> humi \<noteq> None);
            c = \<lparr>st_threshold_enabled = enabled, st_temperature = high_limit temp point_threshold_zero,
                 st_humidity = high_limit humi point_threshold_zero\<rparr>
        in case first_some (jc_get C doc ''thresholds'')
                  (case compat of None \<Rightarrow> None | Some v \<Rightarrow> jc_get C v ''thresholds'') of
             None \<Rightarrow> if has then Some c else None
           | Some t \<Rightarrow> if \<not> jc_is_null C t \<and> jc_is_object C t then Some (parse_thresholds C t c)
                       else if has then Some c else None)"

subsection \<open>The handlers\<close>

type_synonym 'v handler = "'v board_world \<Rightarrow> clock \<Rightarrow> 32 word \<Rightarrow> 'v \<Rightarrow> string \<Rightarrow> 'v board \<Rightarrow> int \<times> 'v board"

definition processed :: "int \<Rightarrow> int" where
  "processed ret = (if ret = 0 then CMD_PROCESS_HANDLED else CMD_PROCESS_ERROR)"

definition reason_of :: "int \<Rightarrow> string \<Rightarrow> string option" where
  "reason_of ret reason = Some (if ret = 0 then [] else reason)"

definition message_of :: "int \<Rightarrow> string \<Rightarrow> string \<Rightarrow> string option" where
  "message_of ret success reason = Some (if ret = 0 then success else data_ack_message_from_reason reason)"

text \<open>An error answered by \<open>data_ack_send\<close> with its reason.\<close>

definition reject :: "'v board_world \<Rightarrow> clock \<Rightarrow> 32 word \<Rightarrow> string option \<Rightarrow> string \<Rightarrow> 'v board \<Rightarrow> int \<times> 'v board" where
  "reject W ck seq cmd reason b =
     (CMD_PROCESS_ERROR, data_ack_send (net_of W) (ck_now ck) seq cmd False (Some reason)
        (Some (data_ack_message_from_reason reason)) b)"

definition handle_scan_ports :: "'v handler" where
  "handle_scan_ports W ck seq doc cmd b = (CMD_PROCESS_HANDLED, port_manager_scan_ports W ck seq (Some cmd) b)"

definition handle_get_runtime_state :: "'v handler" where
  "handle_get_runtime_state W ck seq doc cmd b =
     (let (ret, b) = port_manager_send_runtime_state W ck seq (Some cmd) b in (processed ret, b))"

definition handle_connect_port :: "'v handler" where
  "handle_connect_port W ck seq doc cmd b =
     (let C = ne_json W; E = net_of W; now = ck_now ck;
          slot = jc_int_member C doc ''slot'' 0;
          baud = jc_int_member C doc ''baud'' 9600;
          port = jc_string_member C doc ''port'' [];
          ((ret, reason), b) = port_manager_connect W ck slot port baud b;
          b = data_ack_send_port_result E now seq (Some cmd) (ret = 0) (reason_of ret reason)
                (Some (if ret = 0 then ''port connected''
                       else if reason = ''config_write_failed'' then ''config write failed''
                       else data_ack_message_from_reason reason))
                slot port (Some ''unknown'') baud (ret = 0) b
      in (processed ret,
          if ret = 0
          then snd (publish_snapshot W ck seq
                 (snd (data_publish_port_register E now seq slot port baud (Some ''connected'') b)))
          else b))"

definition port_manager_get_port_info :: "int \<Rightarrow> 'v board \<Rightarrow> string \<times> int" where
  "port_manager_get_port_info slot b =
     (case getPortInfo slot (bd_manager b) of None \<Rightarrow> ([], 0)
      | Some (port, baud, _) \<Rightarrow> (copy_text 128 (Some port), baud))"

definition handle_disconnect_port :: "'v handler" where
  "handle_disconnect_port W ck seq doc cmd b =
     (let C = ne_json W; E = net_of W; now = ck_now ck;
          slot = jc_int_member C doc ''slot'' 0;
          (old_port, old_baud) = port_manager_get_port_info slot b;
          ((ret, reason), b) = port_manager_disconnect W ck slot b;
          b = data_ack_send_port_result E now seq (Some cmd) (ret = 0) (reason_of ret reason)
                (message_of ret ''port disconnected, config kept'' reason)
                slot (Some old_port) (Some ''unknown'') old_baud False b
      in (processed ret,
          if ret = 0
          then snd (publish_snapshot W ck seq
                 (snd (data_publish_port_register E now seq slot (Some old_port) old_baud (Some ''disconnected'') b)))
          else b))"

text \<open>The slot a \<open>target\<close> names, or the reason to refuse it.\<close>

definition target_slot :: "'v json_c \<Rightarrow> 'v \<Rightarrow> string + int" where
  "target_slot C target =
     (let gateway_id = jc_string_member C target ''gatewayId'' [];
          slot = slot_from_port_id (jc_string_member C target ''portId'' [])
      in if gateway_id \<noteq> None \<and> gateway_id \<noteq> Some [] \<and> gateway_id \<noteq> Some DEFAULT_GATEWAY_ID
         then Inl ''invalid_argument''
         else if slot < 0 then Inl ''port_not_found'' else Inr slot)"

definition slave_keys :: "string list" where
  "slave_keys = [''slave_id'', ''deviceId'', ''slaveAddress'']"

definition poll_interval_of :: "'v json_c \<Rightarrow> 'v \<Rightarrow> int" where
  "poll_interval_of C device =
     (let p = jc_int_member C device ''pollIntervalMs'' 0
      in if p \<le> 0 then jc_int_member C device ''poll_interval_ms'' p else p)"

definition add_device_to :: "'v board_world \<Rightarrow> clock \<Rightarrow> 32 word \<Rightarrow> int \<Rightarrow> 'v \<Rightarrow> string \<Rightarrow> 'v board \<Rightarrow> int \<times> 'v board" where
  "add_device_to W ck seq slot device cmd b =
     (let C = ne_json W; E = net_of W; now = ck_now ck;
          slave_id = json_get_int_any C device slave_keys 0;
          device_type = json_get_string_any C device [''device_type'', ''deviceType''] ''unknown'';
          interval = poll_interval_of C device;
          answer = (\<lambda>ok reason message. data_ack_send_device_result E now seq (Some cmd) ok reason message slot slave_id
                      (Some device_type) interval)
      in if slave_id \<le> 0
         then (CMD_PROCESS_ERROR, answer False (Some ''invalid_request'') (Some ''missing field: slave_id'') b)
         else if device_type = [] \<or> device_type = ''unknown''
         then (CMD_PROCESS_ERROR, answer False (Some ''invalid_request'') (Some ''missing field: device_type'') b)
         else
           let ((ret, reason), b) = port_manager_add_device_ex W ck slot slave_id (Some device_type) interval
                 (parse_sensor_threshold_config C device) b;
               b = answer (ret = 0) (reason_of ret reason) (message_of ret ''device added'' reason) b
           in (processed ret,
               if ret = 0
               then snd (publish_snapshot W ck seq
                      (snd (data_publish_device_register E now seq slot slave_id (Some device_type) interval b)))
               else b))"

definition handle_add_device :: "'v handler" where
  "handle_add_device W ck seq doc cmd b =
     (let C = ne_json W; device = (case jc_get C doc ''device'' of None \<Rightarrow> doc | Some d \<Rightarrow> d)
      in case non_null C (jc_get C doc ''target'') of
           None \<Rightarrow> add_device_to W ck seq (jc_int_member C doc ''slot'' 0) device cmd b
         | Some target \<Rightarrow>
             (case target_slot C target of Inl reason \<Rightarrow> reject W ck seq (Some cmd) reason b
              | Inr slot \<Rightarrow> add_device_to W ck seq slot device cmd b))"

definition handle_set_device_threshold :: "'v handler" where
  "handle_set_device_threshold W ck seq doc cmd b =
     (let C = ne_json W;
          slot = jc_int_member C doc ''slot'' 0;
          slave_id = json_get_int_any C doc slave_keys 0
      in case parse_sensor_threshold_config C doc of
           None \<Rightarrow> reject W ck seq (Some cmd) ''invalid_request'' b
         | Some config \<Rightarrow>
             let ((ret, reason), b) = port_manager_set_device_threshold W ck slot slave_id (Some config) b;
                 b = data_ack_send_threshold_result (net_of W) (ck_now ck) seq (Some cmd) (ret = 0)
                       (reason_of ret reason) (message_of ret ''threshold updated'' reason) slot slave_id
                       (Some ''sensor_th'') (st_threshold_enabled config) (Some config) b
             in (processed ret, if ret = 0 then snd (publish_snapshot W ck seq b) else b))"

definition remove_device_at :: "'v board_world \<Rightarrow> clock \<Rightarrow> 32 word \<Rightarrow> int \<Rightarrow> 'v \<Rightarrow> string \<Rightarrow> 'v board \<Rightarrow> int \<times> 'v board" where
  "remove_device_at W ck seq slot doc cmd b =
     (let C = ne_json W;
          slot = jc_int_member C doc ''slot'' slot;
          slave_id = json_get_int_any C doc slave_keys 0;
          device_type = json_get_string_any C doc [''device_type'', ''deviceType''] ''unknown'';
          ((ret, reason), b) = port_manager_remove_device W ck slot slave_id b;
          b = data_ack_send_device_result (net_of W) (ck_now ck) seq (Some cmd) (ret = 0) (reason_of ret reason)
                (message_of ret ''device removed'' reason) slot slave_id (Some device_type) 0 b
      in (processed ret, if ret = 0 then snd (publish_snapshot W ck seq b) else b))"

definition handle_remove_device :: "'v handler" where
  "handle_remove_device W ck seq doc cmd b =
     (case non_null (ne_json W) (jc_get (ne_json W) doc ''target'') of
        None \<Rightarrow> remove_device_at W ck seq 0 doc cmd b
      | Some target \<Rightarrow>
          (case target_slot (ne_json W) target of Inl reason \<Rightarrow> reject W ck seq (Some cmd) reason b
           | Inr slot \<Rightarrow> remove_device_at W ck seq slot doc cmd b))"

text \<open>The bits of a relay command; \<open>None\<close> for an empty array.\<close>

definition relay_states_of :: "'v json_c \<Rightarrow> 'v \<Rightarrow> 16 word option" where
  "relay_states_of C v =
     (if jc_is_array C v
      then if jc_elements C v = [] then None
           else Some (foldl (\<lambda>mask i. if jc_get_boolean C (jc_elements C v ! i) then mask OR push_bit i 1 else mask)
                  0 [0..<min 16 (length (jc_elements C v))])
      else Some (word_of_int (jc_get_int C v)))"

definition relay_reason :: "int \<Rightarrow> string \<Rightarrow> string" where
  "relay_reason ret reason = (if ret \<noteq> 0 \<and> reason = ''relay_not_connected'' then ''relay_not_found'' else reason)"

definition relay_message :: "int \<Rightarrow> string \<Rightarrow> string" where
  "relay_message ret reason =
     (if ret = 0 then ''relay write success''
      else if reason = ''modbus_write_failed'' then ''relay write failed''
      else if reason = ''port_not_connected'' then ''port is not connected''
      else if reason = ''relay_not_found'' then ''relay device not found''
      else data_ack_message_from_reason reason)"

definition relay_command :: "int \<Rightarrow> 16 word \<Rightarrow> device_data" where
  "relay_command device_id states = device_data_zero\<lparr>dv_device_id := device_id, dv_type := DEV_RELAY,
     dv_valid := True, dv_relay_states := states\<rparr>"

definition handle_set_relay :: "'v handler" where
  "handle_set_relay W ck seq doc cmd b =
     (let C = ne_json W;
          slot = jc_int_member C doc ''slot'' 0;
          slave_id = json_get_int_any C doc slave_keys 1;
          device_id = json_get_int_any C doc [''device_id'', ''deviceId'', ''slave_id''] slave_id;
          answer = (\<lambda>ok reason message states. data_ack_send_relay_result (net_of W) (ck_now ck) seq (Some cmd) ok reason
                      message slot slave_id device_id states)
      in case (case jc_get C doc ''states'' of None \<Rightarrow> None | Some v \<Rightarrow> relay_states_of C v) of
           None \<Rightarrow> (CMD_PROCESS_ERROR, answer False (Some ''invalid_request'') (Some ''invalid relay command'') 0 b)
         | Some states \<Rightarrow>
             let ((ret, reason), b) = port_manager_handle_relay W ck slot slave_id
                   (Some (relay_command device_id states)) b;
                 reason = relay_reason ret reason
             in (if ret = 0 then CMD_PROCESS_FORWARD_MQTT else CMD_PROCESS_ERROR,
                 answer (ret = 0) (reason_of ret reason) (Some (relay_message ret reason)) states b))"

definition publish_selected :: "'v board_world \<Rightarrow> clock \<Rightarrow> 32 word \<Rightarrow> string \<Rightarrow> string \<Rightarrow> 'v board \<Rightarrow> int \<times> 'v board" where
  "publish_selected W ck seq target_json cmd b =
     (case port_manager_export_config_snapshot W ck seq (Some DEFAULT_GATEWAY_ID) (Some target_json) 65536 b of
        None \<Rightarrow> reject W ck seq (Some cmd) ''config_snapshot_failed'' b
      | Some snapshot \<Rightarrow>
          let (ret, w) = mqtt_send (Some MQTT_GATEWAY_REGISTER_TOPIC) (Some snapshot) (bn_mqtt b);
              b = b\<lparr>bn_mqtt := w\<rparr>
          in if ret \<noteq> DATA_SEND_OK then reject W ck seq (Some cmd) ''mqtt_publish_failed'' b
             else
               let b = snd (data_config_sync_mark_sent (net_of W) (ck_now ck) seq (Some ''config_snapshot'')
                     (Some snapshot) (Some DEFAULT_PORT_ID) b)
               in (CMD_PROCESS_HANDLED, data_ack_send (net_of W) (ck_now ck) seq (Some cmd) True (Some [])
                     (Some ''config snapshot published'') b))"

definition handle_get_config :: "'v handler" where
  "handle_get_config W ck seq doc cmd b =
     (let C = ne_json W;
          target = non_null C (jc_get C doc ''target'');
          gateway_id = (case target of None \<Rightarrow> Some DEFAULT_GATEWAY_ID
                        | Some t \<Rightarrow> jc_string_member C t ''gatewayId'' DEFAULT_GATEWAY_ID);
          target_json = (case target of None \<Rightarrow> [] | Some t \<Rightarrow> c_str (jc_print C t))
      in if gateway_id \<noteq> None \<and> gateway_id \<noteq> Some [] \<and> gateway_id \<noteq> Some DEFAULT_GATEWAY_ID
         then reject W ck seq (Some cmd) ''invalid_argument'' b
         else if target_json \<noteq> [] then publish_selected W ck seq target_json cmd b
         else
           let (ret, b) = publish_snapshot W ck seq b
           in if ret \<noteq> DATA_SEND_OK then reject W ck seq (Some cmd) ''config_snapshot_failed'' b
              else (CMD_PROCESS_HANDLED, data_ack_send (net_of W) (ck_now ck) seq (Some cmd) True (Some [])
                     (Some ''config snapshot published'') b))"

text \<open>The answer to a command about the offline cache: its switches and the rows it holds.\<close>

definition answer_cache :: "'v board_world \<Rightarrow> clock \<Rightarrow> 32 word \<Rightarrow> string \<Rightarrow> bool \<Rightarrow> string \<Rightarrow> string \<Rightarrow> 'v board \<Rightarrow> 'v board" where
  "answer_cache W ck seq cmd ok reason message b =
     (let (pending, b) = mqtt_offline_cache_pending_count (ne_sql W) b
      in data_ack_send_offline_cache_config (net_of W) (ck_now ck) seq (Some cmd) ok (Some reason) (Some message)
           (mqtt_offline_cache_enabled b) (mqtt_offline_cache_flush_enabled b) pending b)"

definition handle_get_offline_cache_config :: "'v handler" where
  "handle_get_offline_cache_config W ck seq doc cmd b =
     (let (cache, flush) = port_manager_load_offline_cache_config W b;
          b = mqtt_set_offline_cache_flush_enabled (flush \<noteq> 0) (mqtt_set_offline_cache_enabled (cache \<noteq> 0) b)
      in (CMD_PROCESS_HANDLED, answer_cache W ck seq cmd True [] ''offline cache config loaded'' b))"

definition handle_set_offline_cache_config :: "'v handler" where
  "handle_set_offline_cache_config W ck seq doc cmd b =
     (let C = ne_json W;
          cache = json_get_bool_any C doc [''cache_enabled'', ''cacheEnabled''] (mqtt_offline_cache_enabled b);
          flush = json_get_bool_any C doc [''flush_enabled'', ''flushEnabled''] (mqtt_offline_cache_flush_enabled b);
          flush = (cache \<and> flush);
          (ret, b) = port_manager_save_offline_cache_config W ck cache flush b;
          b = (if ret = 0 then mqtt_set_offline_cache_flush_enabled flush (mqtt_set_offline_cache_enabled cache b) else b)
      in (processed ret,
          answer_cache W ck seq cmd (ret = 0) (if ret = 0 then [] else ''offline_cache_config_save_failed'')
            (if ret = 0 then ''offline cache config saved'' else ''offline cache config save failed'') b))"

definition handle_clear_offline_cache :: "'v handler" where
  "handle_clear_offline_cache W ck seq doc cmd b =
     (let (ret, b) = mqtt_clear_offline_cache (ne_sql W) b
      in (processed ret,
          answer_cache W ck seq cmd (ret = 0) (if ret = 0 then [] else ''offline_cache_clear_failed'')
            (if ret = 0 then ''pending offline cache cleared'' else ''offline cache clear failed'') b))"

definition flush_reason :: "int \<Rightarrow> string \<times> string" where
  "flush_reason ret =
     (if ret = DATA_SEND_OK then ([], ''offline cache flush once triggered'')
      else if ret = DATA_SEND_MQTT_NOT_READY then (''mqtt_disconnected'', ''MQTT is disconnected'')
      else if ret = DATA_SEND_OFFLINE_CACHE_DISABLED
      then (''offline_cache_flush_disabled'', ''offline cache flush is disabled'')
      else (''offline_cache_flush_failed'', ''offline cache flush failed''))"

definition handle_flush_offline_cache :: "'v handler" where
  "handle_flush_offline_cache W ck seq doc cmd b =
     (let (ret, b) = mqtt_flush_offline_cache_once (ne_sql W) (ck_now ck) b; (reason, message) = flush_reason ret
      in (processed ret, answer_cache W ck seq cmd (ret = 0) reason message b))"

definition command_table :: "(string \<times> 'v handler) list" where
  "command_table =
     [(''scan_ports'', handle_scan_ports), (''get_runtime_state'', handle_get_runtime_state),
      (''connect_port'', handle_connect_port), (''disconnect_port'', handle_disconnect_port),
      (''add_device'', handle_add_device), (''set_device_threshold'', handle_set_device_threshold),
      (''set_threshold'', handle_set_device_threshold), (''remove_device'', handle_remove_device),
      (''set_relay'', handle_set_relay), (''get_config'', handle_get_config),
      (''request_config_snapshot'', handle_get_config),
      (''get_offline_cache_config'', handle_get_offline_cache_config),
      (''set_offline_cache_config'', handle_set_offline_cache_config),
      (''clear_offline_cache'', handle_clear_offline_cache),
      (''flush_offline_cache'', handle_flush_offline_cache)]"

subsection \<open>Messages\<close>

definition process_command_message :: "'v board_world \<Rightarrow> clock \<Rightarrow> 32 word \<Rightarrow> 'v \<Rightarrow> string option \<Rightarrow> 'v board
    \<Rightarrow> int \<times> 'v board" where
  "process_command_message W ck seq doc cmd b =
     (if text_of cmd = []
      then (CMD_PROCESS_ERROR, data_ack_send (net_of W) (ck_now ck) seq (Some []) False (Some ''invalid_request'')
             (Some ''missing field: cmd'') b)
      else case map_of command_table (text_of cmd) of
             Some h \<Rightarrow> h W ck seq doc (text_of cmd) b
           | None \<Rightarrow> reject W ck seq cmd ''unsupported_command'' b)"

definition copy_keys :: "string list" where
  "copy_keys = [''gatewayId'', ''gateway_id'', ''portId'', ''port_id'', ''cmd_id'', ''cmdId'', ''commandId'', ''cmd'',
     ''cmdType'', ''commandType'', ''command'', ''seq'', ''sequence'', ''timestampMs'']"

text \<open>The payload of a command with the members of the envelope it lacks.\<close>

definition copy_member :: "'v json_c \<Rightarrow> 'v \<Rightarrow> string \<Rightarrow> 'v \<Rightarrow> 'v" where
  "copy_member C doc key payload =
     (case (jc_get C payload key, jc_get C doc key) of
        (None, Some v) \<Rightarrow> jc_add C payload key v | _ \<Rightarrow> payload)"

definition command_effective_root :: "'v json_c \<Rightarrow> 'v \<Rightarrow> 'v" where
  "command_effective_root C doc =
     (case non_null C (jc_get C doc ''payload'') of
        None \<Rightarrow> doc
      | Some payload \<Rightarrow>
          if \<not> jc_is_object C payload then doc
          else fold (copy_member C doc) copy_keys
                 (case non_null C (jc_get C doc ''target'') of None \<Rightarrow> payload
                  | Some target \<Rightarrow> jc_add C payload ''target'' target))"

text \<open>\<open>json_object_object_get\<close>: the member, or null.\<close>

definition obj_get :: "'v json_c \<Rightarrow> 'v \<Rightarrow> string \<Rightarrow> 'v" where
  "obj_get C d key = (case jc_get C d key of None \<Rightarrow> jc_null C | Some v \<Rightarrow> v)"

record 'v device_run =
  dr_ret :: int
  dr_relay :: bool
  dr_reason :: string
  dr_board :: "'v board"

definition device_relay_step :: "'v board_world \<Rightarrow> clock \<Rightarrow> 'v \<Rightarrow> 'v device_run \<Rightarrow> 'v device_run" where
  "device_relay_step W ck d r =
     (let C = ne_json W;
          slot = (case non_null C (jc_get C d ''slot'') of None \<Rightarrow> 0 | Some v \<Rightarrow> jc_get_int C v);
          slave_id = (case non_null C (jc_get C d ''slave_id'') of
                        None \<Rightarrow> jc_get_int C (obj_get C d ''id'') | Some v \<Rightarrow> jc_get_int C v);
          dev = device_data_zero\<lparr>dv_device_id := slave_id, dv_type := DEV_RELAY,
                  dv_valid := jc_get_boolean C (obj_get C d ''valid''),
                  dv_relay_states := word_of_int (jc_get_int C (obj_get C d ''states''))\<rparr>;
          ((ret, reason), b) = port_manager_handle_relay W ck slot slave_id (Some dev) (dr_board r)
      in \<lparr>dr_ret = (if ret \<noteq> 0 then CMD_PROCESS_ERROR else dr_ret r), dr_relay = True, dr_reason = reason,
          dr_board = b\<rparr>)"

definition device_step :: "'v board_world \<Rightarrow> clock \<Rightarrow> 'v \<Rightarrow> 'v device_run \<Rightarrow> 'v device_run" where
  "device_step W ck d r =
     (let C = ne_json W
      in case parse_device_type (jc_get_string C (obj_get C d ''type'')) of
           DEV_RELAY \<Rightarrow> device_relay_step W ck d r
         | DEV_SENSOR_TH \<Rightarrow>
             let dev = device_data_zero\<lparr>dv_device_id := jc_get_int C (obj_get C d ''id''), dv_type := DEV_SENSOR_TH,
                   dv_valid := jc_get_boolean C (obj_get C d ''valid''),
                   dv_temperature := to_float (jc_get_double C (obj_get C d ''temp'')),
                   dv_humidity := to_float (jc_get_double C (obj_get C d ''humi''))\<rparr>
             in r\<lparr>dr_board := snd (data_publish_device_status (net_of W) (ck_now ck) (Some dev) (dr_board r))\<rparr>
         | _ \<Rightarrow> r)"

definition process_device_message :: "'v board_world \<Rightarrow> clock \<Rightarrow> 32 word \<Rightarrow> 'v \<Rightarrow> 'v board \<Rightarrow> int \<times> 'v board" where
  "process_device_message W ck seq doc b =
     (let C = ne_json W;
          devices = (case jc_get C doc ''devices'' of None \<Rightarrow> [] | Some v \<Rightarrow> jc_elements C v);
          r = fold (device_step W ck) devices
                \<lparr>dr_ret = CMD_PROCESS_HANDLED, dr_relay = False, dr_reason = [], dr_board = b\<rparr>;
          ok = (dr_ret r \<noteq> CMD_PROCESS_ERROR)
      in if \<not> dr_relay r then (dr_ret r, dr_board r)
         else (if ok then CMD_PROCESS_FORWARD_MQTT else dr_ret r,
               data_ack_send (net_of W) (ck_now ck) seq (Some ''relay'') ok
                 (Some (if ok then [] else dr_reason r))
                 (Some (if ok then ''relay write success'' else data_ack_message_from_reason (dr_reason r)))
                 (dr_board r)))"

text \<open>The message after its number and \<open>cmd_id\<close> are read.\<close>

definition process_parsed :: "'v board_world \<Rightarrow> clock \<Rightarrow> 32 word \<Rightarrow> 'v \<Rightarrow> 'v board \<Rightarrow> int \<times> 'v board" where
  "process_parsed W ck seq doc b =
     (let C = ne_json W;
          msg_type = text_of (jc_string_member C doc ''type'' []);
          fail = (\<lambda>cmd message. (CMD_PROCESS_ERROR, data_ack_send (net_of W) (ck_now ck) seq cmd False
                    (Some ''invalid_request'') (Some message) b))
      in if msg_type = ''ack'' then (CMD_PROCESS_HANDLED, b)
         else case non_null C (json_get_object_any C doc [''cmdType'', ''cmd'', ''commandType'', ''command'']) of
             Some cmd \<Rightarrow>
               if msg_type \<noteq> [] \<and> msg_type \<noteq> ''command''
               then fail (jc_get_string C cmd) (data_ack_message_from_reason ''invalid_request'')
               else process_command_message W ck seq (command_effective_root C doc) (jc_get_string C cmd) b
           | None \<Rightarrow>
               if msg_type \<noteq> [] then fail (Some []) ''missing field: cmd''
               else process_device_message W ck seq doc b)"

definition message_seq :: "'v json_c \<Rightarrow> 'v \<Rightarrow> 32 word" where
  "message_seq C doc =
     (case json_get_object_any C doc [''seq'', ''sequence''] of None \<Rightarrow> 0 | Some v \<Rightarrow> word_of_int (jc_get_int64 C v))"

definition data_command_process_message :: "'v board_world \<Rightarrow> clock \<Rightarrow> string option \<Rightarrow> 'v board \<Rightarrow> int \<times> 'v board" where
  "data_command_process_message W ck json_str b =
     (case json_str of None \<Rightarrow> (CMD_PROCESS_ERROR, b)
      | Some s \<Rightarrow>
         (case jc_parse (ne_json W) s of None \<Rightarrow> (CMD_PROCESS_ERROR, b)
          | Some doc \<Rightarrow>
             let C = ne_json W;
                 b = data_ack_set_current_cmd_id
                       (Some (json_get_string_any C doc [''cmd_id'', ''cmdId'', ''commandId''] [])) b;
                 (ret, b) = process_parsed W ck (message_seq C doc) doc b
             in (ret, data_ack_clear_current_cmd_id b)))"

end
