(* ===== verification/MqttLoop.thy ===== *)
theory MqttLoop
  imports DataCommand
begin

text \<open>
  The rest of Linux_data/mqtt/wrapper/mqtt_wrapper.c: the callback for messages of the broker,
  the start, and one round of the MQTT thread.  The client library is not part of the
  repository: whether it gives a client and what \<open>mqtt_connect\<close> returns are arguments, and the
  message handed to \<open>mqtt_publish\<close> in a round is a result.  The attempts counted for the log are
  left out.
\<close>

definition mqtt_payload_is_ack :: "'v json_c \<Rightarrow> string option \<Rightarrow> bool" where
  "mqtt_payload_is_ack C payload =
     (case payload of None \<Rightarrow> False
      | Some p \<Rightarrow> (case jc_parse C p of None \<Rightarrow> False
         | Some doc \<Rightarrow> (case jc_get C doc ''type'' of None \<Rightarrow> False | Some v \<Rightarrow> jc_get_string C v = Some ''ack'')))"

text \<open>The bytes of the payload; the command is what comes before a zero byte.\<close>

definition mqtt_message_handler :: "'v board_world \<Rightarrow> clock \<Rightarrow> string \<Rightarrow> string \<Rightarrow> 'v board \<Rightarrow> 'v board" where
  "mqtt_message_handler W ck topic payload b =
     (case mqtt_parse_port_command_topic topic 64 64 of None \<Rightarrow> b
      | Some (gateway, port) \<Rightarrow>
          if gateway \<noteq> DEFAULT_GATEWAY_ID then b
          else
            let command = c_str (take (MQTT_PAYLOAD_MAX - 1) payload);
                b = data_config_sync_handle_ack_json (net_of W) (ck_now ck) (Some command) b
            in if mqtt_payload_is_ack (ne_json W) (Some command) then b
               else snd (data_command_process_message W ck (Some command) b))"

text \<open>\<open>lease\<close>: the library gives a client.\<close>

definition mqtt_init :: "'v board_world \<Rightarrow> bool \<Rightarrow> 'v board \<Rightarrow> int \<times> 'v board" where
  "mqtt_init W lease b =
     (if \<not> lease then (-1, b\<lparr>bn_mqtt := (bn_mqtt b)\<lparr>mw_client := False\<rparr>\<rparr>)
      else
        let q = snd (offline_publish_queue_init (ne_sql W) (oq_setSender True (bn_offline b)));
            b = b\<lparr>bn_mqtt := (bn_mqtt b)\<lparr>mw_client := True\<rparr>, bn_offline := q\<rparr>;
            (cache, flush) = port_manager_load_offline_cache_config W b;
            b = mqtt_set_offline_cache_flush_enabled (flush \<noteq> 0) (mqtt_set_offline_cache_enabled (cache \<noteq> 0) b)
        in (0, b\<lparr>bn_mqtt := (bn_mqtt b)\<lparr>mw_connected := False, mw_subscribed := False, mw_last_heartbeat_ms := 0,
              mw_last_flush_ms := 0\<rparr>\<rparr>))"

definition MQTT_GATEWAY_HEARTBEAT_MS :: int where "MQTT_GATEWAY_HEARTBEAT_MS = 10000"

definition gateway_seq :: "'a board_net_scheme \<Rightarrow> 32 word \<times> 'a board_net_scheme" where
  "gateway_seq n = (let (seq, w) = next_gateway_seq (bn_mqtt n) in (seq, n\<lparr>bn_mqtt := w\<rparr>))"

text \<open>What follows a successful \<open>mqtt_connect\<close>.\<close>

definition mqtt_connected_now :: "'v board_world \<Rightarrow> clock \<Rightarrow> 'v board \<Rightarrow> 'v board" where
  "mqtt_connected_now W ck b =
     (let b = b\<lparr>bn_mqtt := (bn_mqtt b)\<lparr>mw_connected := True, mw_subscribed := False\<rparr>\<rparr>;
          (seq, b) = gateway_seq b;
          b = snd (data_publish_gateway_register (net_of W) (ck_now ck) seq b);
          b = port_manager_publish_latest_status W ck b;
          (seq, b) = gateway_seq b;
          b = snd (publish_snapshot W ck seq b);
          b = snd (mqtt_offline_cache_pending_count (ne_sql W) b);
          b = (if mqtt_offline_cache_flush_enabled b then net_flush_once (ne_sql W) (ck_now ck) b else b)
      in b\<lparr>bn_mqtt := (bn_mqtt b)\<lparr>mw_last_flush_ms := ck_now ck, mw_last_heartbeat_ms := 0\<rparr>\<rparr>)"

definition mqtt_heartbeat :: "'v board_world \<Rightarrow> clock \<Rightarrow> 'v board \<Rightarrow> 'v board" where
  "mqtt_heartbeat W ck b =
     (let last = mw_last_heartbeat_ms (bn_mqtt b)
      in if last = 0 \<or> ck_now ck - last \<ge> MQTT_GATEWAY_HEARTBEAT_MS
         then let (seq, b) = gateway_seq b;
                  b = snd (data_publish_gateway_heartbeat (net_of W) (ck_now ck) seq b)
              in b\<lparr>bn_mqtt := (bn_mqtt b)\<lparr>mw_last_heartbeat_ms := ck_now ck\<rparr>\<rparr>
         else b)"

definition mqtt_timed_flush :: "'v board_world \<Rightarrow> clock \<Rightarrow> 'v board \<Rightarrow> 'v board" where
  "mqtt_timed_flush W ck b =
     (if mqtt_offline_cache_flush_enabled b \<and> ck_now ck - mw_last_flush_ms (bn_mqtt b) \<ge> 200
      then let b = net_flush_once (ne_sql W) (ck_now ck) b
           in b\<lparr>bn_mqtt := (bn_mqtt b)\<lparr>mw_last_flush_ms := ck_now ck\<rparr>\<rparr>
      else b)"

text \<open>One round: the message published, and the board after it.\<close>

definition mqtt_poll :: "'v board_world \<Rightarrow> clock \<Rightarrow> int \<Rightarrow> 'v board \<Rightarrow> mqtt_item option \<times> 'v board" where
  "mqtt_poll W ck connect_ret b =
     (if \<not> mw_client (bn_mqtt b) then (None, b)
      else if \<not> mw_connected (bn_mqtt b) \<and> connect_ret \<noteq> 0 then (None, b)
      else
        let b = (if mw_connected (bn_mqtt b) then b else mqtt_connected_now W ck b);
            b = b\<lparr>bn_mqtt := (bn_mqtt b)\<lparr>mw_subscribed := True\<rparr>\<rparr>;
            b = mqtt_heartbeat W ck b;
            (item, q) = queue_pop (mw_queue (bn_mqtt b));
            b = mqtt_timed_flush W ck (b\<lparr>bn_mqtt := (bn_mqtt b)\<lparr>mw_queue := q\<rparr>\<rparr>)
        in (item, data_config_sync_tick (net_of W) (ck_now ck) b))"

end
