(* ===== verification/Lines.thy ===== *)
theory Lines
  imports Prelude
begin

text \<open>
  Texts as lines: both ends of a local socket split what they read at the newlines.
\<close>

definition newline :: char where "newline = CHR 0x0A"

text \<open>The lines of a text without the empty ones, and what follows the last newline.\<close>

fun pieces :: "string \<Rightarrow> string list" where
  "pieces [] = [[]]"
| "pieces (c # cs) = (if c = newline then [] # pieces cs
                     else (case pieces cs of [] \<Rightarrow> [[c]] | l # ls \<Rightarrow> (c # l) # ls))"

definition stream_lines :: "string \<Rightarrow> string list" where
  "stream_lines s = filter (\<lambda>l. l \<noteq> []) (butlast (pieces s))"

lemma pieces_not_Nil [simp]: "pieces s \<noteq> []"
  by (cases s) (auto split: list.splits)

lemma pieces_clean: "newline \<notin> set xs \<Longrightarrow> pieces (xs @ ys) = (xs @ hd (pieces ys)) # tl (pieces ys)"
  by (induction xs) auto

lemma pieces_append: "pieces (xs @ ys) = butlast (pieces xs) @ pieces (last (pieces xs) @ ys)"
proof (induction xs)
  case (Cons c xs)
  then show ?case by (cases "pieces xs") auto
qed simp

lemma pieces_here: "newline \<notin> set xs \<Longrightarrow> pieces xs = [xs]"
  using pieces_clean [of xs "[]"] by simp

lemma last_pieces_clean: "newline \<notin> set (last (pieces xs))"
proof (induction xs)
  case (Cons c xs)
  then show ?case by (cases "pieces xs") auto
qed simp

text \<open>The piece a text ends with goes on in the first piece of what follows.\<close>

lemma last_piece_grows: "last (pieces xs) @ hd (pieces ys) \<in> set (pieces (xs @ ys))"
  unfolding pieces_append [of xs ys] pieces_clean [OF last_pieces_clean] by simp

end
