(* ===== verification/IpcServer.thy ===== *)
theory IpcServer
  imports MqttLoop Lines
begin

text \<open>
  Linux_data/ipc/ipc_server.c, the receiving side, and Linux_data/device/device_info.cpp, whose
  message greets a new client.  The bytes read from the socket are lines; a line is a command.
  What the kernel and the files tell about the device is a parameter.
\<close>

definition RECV_BUF_SIZE :: nat where "RECV_BUF_SIZE = 4096"
definition IPC_BUF_SIZE :: nat where "IPC_BUF_SIZE = 1024"

text \<open>The lines that end in the buffer, the empty ones left out, and the bytes after the last.\<close>

fun ipc_messages :: "string \<Rightarrow> string \<Rightarrow> string list \<times> string" where
  "ipc_messages line [] = ([], line)"
| "ipc_messages line (c # cs) =
     (if c = newline
      then (let (ms, rest) = ipc_messages [] cs in (if line = [] then ms else line # ms, rest))
      else ipc_messages (line @ [c]) cs)"

definition ipc_forward_meta :: offline_publish_meta where
  "ipc_forward_meta = meta_zero\<lparr>ofm_message_type := Some ''ipc_forward'', ofm_gateway_id := Some DEFAULT_GATEWAY_ID,
     ofm_priority := 0\<rparr>"

definition ipc_message :: "'v board_world \<Rightarrow> clock \<Rightarrow> string \<Rightarrow> 'v board \<Rightarrow> 'v board" where
  "ipc_message W ck line b =
     (let msg = c_str line; (ret, b) = data_command_process_message W ck (Some msg) b
      in if ret = CMD_PROCESS_FORWARD_MQTT
         then snd (net_publish_or_cache (ne_sql W) (ck_now ck) (Some MQTT_GATEWAY_REGISTER_TOPIC) (Some msg)
                (Some ipc_forward_meta) b)
         else b)"

text \<open>The bytes kept when more arrive; a buffer that would overflow is emptied first.\<close>

definition ipc_append :: "string \<Rightarrow> string \<Rightarrow> string" where
  "ipc_append recv buf = (if length recv + length buf \<ge> RECV_BUF_SIZE then [] else recv) @ buf"

record 'v service =
  se_recv :: string
  se_board :: "'v board"

definition ipc_process_received_data :: "'v board_world \<Rightarrow> clock \<Rightarrow> string \<Rightarrow> 'v service \<Rightarrow> 'v service" where
  "ipc_process_received_data W ck buf s =
     (let (ms, rest) = ipc_messages [] (ipc_append (se_recv s) buf)
      in \<lparr>se_recv = rest, se_board = fold (ipc_message W ck) ms (se_board s)\<rparr>)"

subsection \<open>The device's own message\<close>

text \<open>
  \<open>uname\<close>: the release and the machine; the lines of \<open>/etc/os-release\<close>, cut at 255 bytes as
  \<open>fgets\<close> returns them; the numbers \<open>fscanf\<close> reads of the frame buffer.
\<close>

record device_facts =
  df_uname :: "(string \<times> string) option"
  df_os_release :: "string list option"
  df_screen_w :: int
  df_screen_h :: int

definition get_kernel_info :: "device_facts \<Rightarrow> nat \<Rightarrow> nat \<Rightarrow> string \<times> string" where
  "get_kernel_info F klen alen =
     (case df_uname F of None \<Rightarrow> ([], [])
      | Some (release, machine) \<Rightarrow> (strncpy_text klen release, strncpy_text alen machine))"

definition get_os_info :: "device_facts \<Rightarrow> nat \<Rightarrow> string" where
  "get_os_info F len =
     (case df_os_release F of None \<Rightarrow> []
      | Some lines \<Rightarrow>
          (case find (starts_with ''PRETTY_NAME='') lines of None \<Rightarrow> []
           | Some line \<Rightarrow>
               let p = drop 12 line;
                   p = (case p of [] \<Rightarrow> [] | c # cs \<Rightarrow> if c = CHR 0x22 then cs else p)
               in strncpy_text len (takeWhile (\<lambda>c. c \<noteq> CHR 0x22) p)))"

definition sysinfo_data :: "device_facts \<Rightarrow> device_data" where
  "sysinfo_data F =
     (let (kernel, arch) = get_kernel_info F 32 16
      in device_data_zero\<lparr>dv_device_id := 0, dv_device_name := ''System Info'', dv_type := DEV_SYSINFO, dv_valid := True,
           dv_sys := (dv_sys device_data_zero)\<lparr>sv_kernel := kernel, sv_arch := arch, sv_os := get_os_info F 32,
             sv_screen_w := df_screen_w F, sv_screen_h := df_screen_h F\<rparr>\<rparr>)"

definition Deviceinfo_send :: "'v board_world \<Rightarrow> clock \<Rightarrow> device_facts \<Rightarrow> 'v board \<Rightarrow> 'v board" where
  "Deviceinfo_send W ck F b = snd (data_publish_device_status (net_of W) (ck_now ck) (Some (sysinfo_data F)) b)"

subsection \<open>The loop\<close>

text \<open>A new client; bytes read; the end of the connection or an error.\<close>

definition ipc_accept :: "'v board_world \<Rightarrow> clock \<Rightarrow> device_facts \<Rightarrow> 'v service \<Rightarrow> 'v service" where
  "ipc_accept W ck F s = s\<lparr>se_recv := [], se_board := Deviceinfo_send W ck F (se_board s)\<rparr>"

definition ipc_close :: "'v service \<Rightarrow> 'v service" where
  "ipc_close s = s\<lparr>se_recv := []\<rparr>"

subsection \<open>The board as a machine\<close>

text \<open>
  What happens on the board: the IPC thread, the MQTT thread, its callback and its start, the
  poll threads, and the main thread that restores the saved ports.
\<close>

datatype service_event =
    EvAccept device_facts
  | EvRead string
  | EvClose
  | EvMqttInit bool
  | EvMqttPoll int
  | EvMqttMessage string string
  | EvPollThread int
  | EvRestore

definition poll_thread_round :: "'v board_world \<Rightarrow> clock \<Rightarrow> int \<Rightarrow> 'v board \<Rightarrow> 'v board" where
  "poll_thread_round W ck slot b =
     snd (run_manager W ck (\<lambda>m. ((), pollThreadMain (manager_env W) (ck_now ck) (ck_steady ck) slot m)) b)"

fun service_step :: "'v board_world \<Rightarrow> clock \<Rightarrow> service_event \<Rightarrow> 'v service \<Rightarrow> 'v service" where
  "service_step W ck (EvAccept F) s = ipc_accept W ck F s"
| "service_step W ck (EvRead buf) s = ipc_process_received_data W ck buf s"
| "service_step W ck EvClose s = ipc_close s"
| "service_step W ck (EvMqttInit lease) s = s\<lparr>se_board := snd (mqtt_init W lease (se_board s))\<rparr>"
| "service_step W ck (EvMqttPoll ret) s = s\<lparr>se_board := snd (mqtt_poll W ck ret (se_board s))\<rparr>"
| "service_step W ck (EvMqttMessage topic payload) s =
     s\<lparr>se_board := mqtt_message_handler W ck topic payload (se_board s)\<rparr>"
| "service_step W ck (EvPollThread slot) s = s\<lparr>se_board := poll_thread_round W ck slot (se_board s)\<rparr>"
| "service_step W ck EvRestore s = s\<lparr>se_board := port_manager_restore_saved_connections W ck (se_board s)\<rparr>"

definition board_new :: "OfflineRow list \<Rightarrow> int \<Rightarrow> 'v option \<Rightarrow> 'v board" where
  "board_new rows next file = \<lparr>bn_mqtt = mqtt_wrapper_new, bn_offline = OfflinePublishQueue_new rows next, bn_ipc = [],
     sn_sync = config_sync_new, pb_status = status_cache_new, pb_telemetry_seq = 0, an_cmd_id = [],
     bd_manager = PortManager_new file\<rparr>"

text \<open>A read returns at most one byte less than its buffer holds.\<close>

definition event_ok :: "service_event \<Rightarrow> bool" where
  "event_ok e \<longleftrightarrow> (case e of EvRead buf \<Rightarrow> length buf < IPC_BUF_SIZE | _ \<Rightarrow> True)"

inductive service_reachable :: "'v board_world \<Rightarrow> 'v option \<Rightarrow> 'v service \<Rightarrow> bool" for W initial where
  start: "store_wf \<lparr>od_open = False, od_rows = rows, od_nextId = next, od_tick = 0\<rparr> \<Longrightarrow>
     service_reachable W initial \<lparr>se_recv = [], se_board = board_new rows next initial\<rparr>"
| step: "service_reachable W initial s \<Longrightarrow> event_ok e \<Longrightarrow> service_reachable W initial (service_step W ck e s)"

end
