(* ===== verification/BoardLemmas.thy ===== *)
theory BoardLemmas
  imports MqttLoop PortLemmas "HOL-Library.Sublist"
begin

text \<open>
  The board as a whole.  \<open>quiet\<close> relates the board before and after an operation that does not
  touch the port manager: it adds to what is written to the socket and keeps the ring, the
  offline table and the status cache well formed.  Every operation of the publishing path is
  quiet; every operation of the board keeps \<open>board_ok\<close>.
\<close>

definition net_ok :: "'v board \<Rightarrow> bool" where
  "net_ok b \<longleftrightarrow> ring_wf (mw_queue (bn_mqtt b)) \<and> store_wf (oq_db (bn_offline b))
     \<and> status_wf (pb_status b) \<and> length (an_cmd_id b) < 128"

definition quiet :: "'v board \<Rightarrow> 'v board \<Rightarrow> bool" where
  "quiet b b' \<longleftrightarrow> bd_manager b' = bd_manager b \<and> an_cmd_id b' = an_cmd_id b
     \<and> prefix (bn_ipc b) (bn_ipc b') \<and> (net_ok b \<longrightarrow> net_ok b')"

named_theorems quiet_ops

lemma quiet_refl [simp, intro]: "quiet b b"
  by (simp add: quiet_def)

lemma quiet_trans [trans]: "quiet a b \<Longrightarrow> quiet b c \<Longrightarrow> quiet a c"
  by (auto simp: quiet_def intro: prefix_order.trans)

lemma quiet_then: "quiet a b \<Longrightarrow> (\<And>b. quiet b (f b)) \<Longrightarrow> quiet a (f b)"
  by (rule quiet_trans)

subsection \<open>The publishing path\<close>

lemma quiet_ipc [quiet_ops]: "quiet b (snd (ipc_server_send E msg b))"
  by (auto simp: quiet_def net_ok_def ipc_server_send_def split: option.splits)

lemma quiet_sender:
  assumes "honest op" "\<And>link q. store_wf (oq_db q) \<Longrightarrow> store_wf (oq_db (snd (op link q)))"
  shows "quiet b (snd (with_sender op b))"
proof -
  have "ring_wf (mw_queue (bn_mqtt b)) \<Longrightarrow> ring_wf (mw_queue (bn_mqtt (snd (with_sender op b))))"
    using honest_agree [OF assms(1), of b] by blast
  moreover have "bn_offline (snd (with_sender op b)) = snd (op (direct_link (bn_mqtt b)
      (length (oq_calls (bn_offline b)))) (bn_offline b))"
    by (simp add: with_sender_def split_def Let_def)
  ultimately show ?thesis
    using assms(2) by (auto simp: quiet_def net_ok_def with_sender_def split_def Let_def)
qed

lemma quiet_publish [quiet_ops]: "quiet b (snd (net_publish_or_cache S now t p m b))"
  unfolding net_publish_or_cache_def
proof (rule quiet_sender)
  fix link and q :: OfflinePublishQueue
  assume "store_wf (oq_db q)"
  then show "store_wf (oq_db (snd (offline_publish_or_cache S link now t p m q)))"
    using oq_exec_wf [of q S link now "OqPublish (the t) (the p) (toPublishMeta m)"]
    by (auto simp: offline_publish_or_cache_def split: option.splits)
qed (rule publish_honest)

lemma quiet_flush [quiet_ops]: "quiet b (net_flush_once S now b)"
  unfolding net_flush_once_def
proof (rule quiet_sender)
  fix link and q :: OfflinePublishQueue
  assume "store_wf (oq_db q)"
  then show "store_wf (oq_db (snd ((), oq_flushToMqttOnce S link now q)))"
    using oq_exec_wf [of q S link now OqFlush] by simp
qed (rule flush_honest)

lemma quiet_fields [simp]:
  "quiet b (b\<lparr>sn_sync := s\<rparr>)" "quiet b (b\<lparr>pb_telemetry_seq := q\<rparr>)"
  "quiet b (b\<lparr>bn_mqtt := (bn_mqtt b)\<lparr>mw_connected := c, mw_subscribed := d\<rparr>\<rparr>)"
  by (simp_all add: quiet_def net_ok_def)

lemma quiet_mqtt: "(ring_wf (mw_queue (bn_mqtt b)) \<Longrightarrow> ring_wf (mw_queue w)) \<Longrightarrow> quiet b (b\<lparr>bn_mqtt := w\<rparr>)"
  by (simp add: quiet_def net_ok_def)

lemma quiet_offline: "(store_wf (oq_db (bn_offline b)) \<Longrightarrow> store_wf (oq_db q)) \<Longrightarrow> quiet b (b\<lparr>bn_offline := q\<rparr>)"
  by (simp add: quiet_def net_ok_def)

subsection \<open>Configuration sync\<close>

lemma quiet_state [quiet_ops]: "quiet b (publish_state_locked E b)"
  unfolding publish_state_locked_def by (rule quiet_ipc)

lemma quiet_mark [quiet_ops]: "quiet b (snd (data_config_sync_mark_sent E now seq cmd payload port b))"
  by (auto simp: data_config_sync_mark_sent_def split_def Let_def split: option.splits
      intro!: quiet_trans [OF _ quiet_state])

lemma quiet_next_seq [quiet_ops]: "quiet b (snd (data_config_sync_next_seq b))"
  by (simp add: data_config_sync_next_seq_def split_def Let_def)

lemma quiet_snapshot [quiet_ops]:
  "quiet b (snd (data_config_sync_publish_latest_snapshot E now seq snapshot b))"
  by (auto simp: data_config_sync_publish_latest_snapshot_def split_def Let_def split: option.splits
      intro!: quiet_trans [OF quiet_trans [OF _ quiet_publish] quiet_state])

lemma quiet_ack_json [quiet_ops]: "quiet b (data_config_sync_handle_ack_json E now payload b)"
  by (auto simp: data_config_sync_handle_ack_json_def split: option.splits intro!: quiet_trans [OF _ quiet_state])

lemma quiet_tick [quiet_ops]: "quiet b (data_config_sync_tick E now b)"
proof -
  have send: "quiet b (snd (send_pending_locked E now seq b))" for b :: "'a board" and seq
    by (auto simp: send_pending_locked_def Let_def split: option.splits intro!: quiet_trans [OF _ quiet_publish])
  have show1: "quiet b (show_once E s t b)" for b :: "'a board" and s t
    by (auto simp: show_once_def intro!: quiet_trans [OF _ quiet_state])
  have again: "quiet b (resend E now b)" for b :: "'a board"
    by (auto simp: resend_def split_def Let_def intro!: quiet_trans [OF quiet_trans [OF _ send] quiet_state])
  show ?thesis
    using quiet_trans [OF _ show1] quiet_trans [OF _ again] by (simp add: data_config_sync_tick_def Let_def)
qed

subsection \<open>Messages\<close>

lemma status_cache_kept:
  assumes "status_wf cache"
  shows "status_wf (snd (check_device_status_changed slot dev cache))"
proof (cases "found_cell (slot, dv_device_id dev) cache")
  case None
  then have "check_device_status_changed slot dev cache = (False, cache)"
    by (simp add: check_device_status_changed_def found_cell_def Let_def split: option.splits)
  then show ?thesis using assms by simp
next
  case (Some i)
  note a = found_alone [OF assms Some]
  have d: "distinct (map status_key (filter dc_seen cache))" using assms by (simp add: status_wf_def)
  have "snd (check_device_status_changed slot dev cache) = cache[i := \<lparr>dc_slot = slot,
      dc_device_id = dv_device_id dev, dc_valid = dv_valid dev, dc_seen = True\<rparr>]"
    using Some by (simp add: check_device_status_changed_def found_cell_def Let_def split: option.splits)
  then show ?thesis
    using status_write(1) [where v = "dv_valid dev", OF a(1,2) d a(3)] assms by (simp add: status_wf_def)
qed

lemma quiet_publish_ack [quiet_ops]: "quiet b (send_publish_ack E seq code ipc mqtt b)"
  unfolding send_publish_ack_def Let_def by (rule quiet_ipc)

lemma quiet_status_cache: "quiet b (b\<lparr>pb_status := snd (check_device_status_changed slot dev (pb_status b))\<rparr>)"
  by (simp add: quiet_def net_ok_def status_cache_kept)

lemma quiet_status [quiet_ops]: "quiet b (snd (data_publish_device_status_for_slot E now slot dev b))"
proof (cases dev)
  case (Some d)
  obtain pack seq where p: "telemetry_pack_single_for_slot (pb_telemetry_seq b) now slot (Some d) = (pack, seq)"
    by fastforce
  let ?b = "b\<lparr>pb_telemetry_seq := seq\<rparr>"
  show ?thesis
  proof (cases "telemetry_pack_to_json (ne_json E) now pack 4096")
    case None
    then show ?thesis
      using quiet_trans [OF quiet_fields(2) quiet_publish_ack] Some p
      by (simp add: data_publish_device_status_for_slot_def)
  next
    case (Some json)
    let ?c = "snd (ipc_server_send E (Some json) ?b)"
    let ?d = "?c\<lparr>pb_status := snd (check_device_status_changed slot d (pb_status ?c))\<rparr>"
    have d: "quiet b ?d"
      by (intro quiet_trans [OF quiet_trans [OF quiet_fields(2) quiet_ipc] quiet_status_cache])
    have "quiet b (snd (net_publish_or_cache S now t p m ?d))" for S t p m
      by (rule quiet_trans [OF d quiet_publish])
    then show ?thesis
      using d Some p \<open>dev = Some d\<close>
      by (auto simp: data_publish_device_status_for_slot_def split_def Let_def split: option.splits
          intro!: quiet_trans [OF _ quiet_publish_ack])
  qed
qed (simp add: data_publish_device_status_for_slot_def)

lemma quiet_topic_meta [quiet_ops]:
  "quiet b (snd (publish_json_to_mqtt_topic_with_meta E now topic doc meta b))"
  unfolding publish_json_to_mqtt_topic_with_meta_def by (rule quiet_publish)

lemma quiet_registers [quiet_ops]:
  "quiet b (snd (data_publish_gateway_register E now seq b))"
  "quiet b (snd (data_publish_gateway_heartbeat E now seq b))"
  "quiet b (snd (data_publish_port_register E now seq slot path baud status b))"
  "quiet b (snd (data_publish_device_register E now seq slot slave kind interval b))"
  by (auto simp: data_publish_gateway_register_def data_publish_gateway_heartbeat_def
      data_publish_port_register_def data_publish_device_register_def split_def Let_def
      intro: quiet_ops intro!: quiet_trans [OF quiet_topic_meta quiet_mark]
        quiet_trans [OF quiet_trans [OF quiet_ipc quiet_publish] quiet_mark])

lemma quiet_acks [quiet_ops]:
  "quiet b (ack_to_gateway E now members ts b)"
  "quiet b (ack_to_port E now slot members ts b)"
proof -
  have "quiet b (snd (data_ack_publish_port E now slot payload meta b))" for b :: "'a board" and payload meta
    by (auto simp: data_ack_publish_port_def split: option.splits intro: quiet_ops)
  then show "quiet b (ack_to_port E now slot members ts b)"
    unfolding ack_to_port_def Let_def by (rule quiet_trans [OF quiet_ipc])
  show "quiet b (ack_to_gateway E now members ts b)"
    unfolding ack_to_gateway_def data_ack_publish_gateway_def Let_def by (rule quiet_trans [OF quiet_ipc quiet_publish])
qed

lemma quiet_answers [quiet_ops]:
  "quiet b (data_ack_send E now seq cmd ok reason message b)"
  "quiet b (data_ack_send_ports E now seq cmd ports b)"
  "quiet b (data_ack_send_port_result E now seq cmd ok reason message slot port kind baud up b)"
  "quiet b (data_ack_send_relay_result E now seq cmd ok reason message slot slave dev states b)"
  "quiet b (data_ack_send_device_result E now seq cmd ok reason message slot slave kind interval b)"
  "quiet b (data_ack_send_threshold_result E now seq cmd ok reason message slot slave kind en config b)"
  "quiet b (data_ack_send_offline_cache_config E now seq cmd ok reason message cache flush num b)"
  by (simp_all add: data_ack_send_def data_ack_send_ports_def data_ack_send_port_result_def
      data_ack_send_relay_result_def data_ack_send_device_result_def data_ack_send_threshold_result_def
      data_ack_send_offline_cache_config_def Let_def quiet_acks quiet_ipc)

subsection \<open>The offline cache and the clockwork of the MQTT thread\<close>

lemma quiet_cache [quiet_ops]:
  "quiet b (mqtt_set_offline_cache_enabled c b)"
  "quiet b (mqtt_set_offline_cache_flush_enabled c b)"
  "quiet b (snd (mqtt_offline_cache_pending_count S b))"
  "quiet b (snd (mqtt_clear_offline_cache S b))"
  using oq_exec_wf [of "bn_offline b" S _ 0 OqCount] oq_exec_wf [of "bn_offline b" S _ 0 OqClear]
  by (auto simp: quiet_def net_ok_def mqtt_set_offline_cache_enabled_def mqtt_set_offline_cache_flush_enabled_def
      mqtt_offline_cache_pending_count_def mqtt_clear_offline_cache_def offline_publish_clear_pending_def
      oq_setCacheEnabled_def oq_setFlushEnabled_def split_def Let_def)

lemma quiet_flush_once [quiet_ops]: "quiet b (snd (mqtt_flush_offline_cache_once S now b))"
  by (auto simp: mqtt_flush_offline_cache_once_def split_def Let_def intro: quiet_ops
      intro!: quiet_trans [OF quiet_cache(3) quiet_trans [OF quiet_cache(2) quiet_trans [OF quiet_flush quiet_cache(2)]]])

lemma quiet_gateway_seq [quiet_ops]: "quiet b (snd (gateway_seq b))"
  by (simp add: gateway_seq_def next_gateway_seq_def quiet_def net_ok_def Let_def)

lemma quiet_heartbeat [quiet_ops]: "quiet b (mqtt_heartbeat W ck b)"
  by (auto simp: mqtt_heartbeat_def split_def Let_def
      intro!: quiet_trans [OF quiet_gateway_seq quiet_trans [OF quiet_registers(2) quiet_mqtt]])

lemma quiet_timed_flush [quiet_ops]: "quiet b (mqtt_timed_flush W ck b)"
  by (auto simp: mqtt_timed_flush_def Let_def intro!: quiet_trans [OF quiet_flush quiet_mqtt])

subsection \<open>The port manager\<close>

definition board_ok :: "'v board \<Rightarrow> bool" where
  "board_ok b \<longleftrightarrow> board_wf (bd_manager b) \<and> net_ok b"

definition advances :: "'v board \<Rightarrow> 'v board \<Rightarrow> bool" where
  "advances b b' \<longleftrightarrow> an_cmd_id b' = an_cmd_id b \<and> prefix (bn_ipc b) (bn_ipc b') \<and> (board_ok b \<longrightarrow> board_ok b')"

named_theorems advance_ops

lemma quiet_advances: "quiet b b' \<Longrightarrow> advances b b'"
  by (simp add: quiet_def advances_def board_ok_def)

lemma advances_refl [simp, intro]: "advances b b"
  by (simp add: advances_def)

lemma advances_trans [trans]: "advances a b \<Longrightarrow> advances b c \<Longrightarrow> advances a c"
  by (auto simp: advances_def intro: prefix_order.trans)

lemma then_quiet: "advances a b \<Longrightarrow> quiet b c \<Longrightarrow> advances a c"
  by (rule advances_trans [OF _ quiet_advances])

lemma quiet_fold: "(\<And>x b. quiet b (f x b)) \<Longrightarrow> quiet b (fold f xs b)"
  by (induction xs arbitrary: b) (auto intro: quiet_trans)

lemma advances_fold: "(\<And>x b. advances b (f x b)) \<Longrightarrow> advances b (fold f xs b)"
  by (induction xs arbitrary: b) (auto intro: advances_trans)

lemma quiet_hand_on [quiet_ops]: "quiet b (hand_on E now out b)"
  by (auto simp: hand_on_def split: board_output.splits intro: quiet_ops)

lemma run_advances:
  assumes "\<And>m. board_wf m \<Longrightarrow> board_wf (snd (op m))"
  shows "advances b (snd (run_manager W ck op b))"
proof -
  let ?b = "b\<lparr>bd_manager := snd (op (bd_manager b))\<rparr>"
  have "advances b ?b" using assms by (simp add: advances_def board_ok_def net_ok_def)
  moreover have "quiet ?b (fold (hand_on (net_of W) (ck_now ck)) outs ?b)" for outs
    by (rule quiet_fold) (rule quiet_hand_on)
  ultimately show ?thesis by (simp add: run_manager_def split_def Let_def then_quiet)
qed

lemma advances_manager [advance_ops]:
  "advances b (snd (port_manager_connect W ck slot port baud b))"
  "advances b (snd (port_manager_disconnect W ck slot b))"
  "advances b (snd (port_manager_add_device_ex W ck slot slave kind interval config b))"
  "advances b (snd (port_manager_set_device_threshold W ck slot slave config b))"
  "advances b (snd (port_manager_remove_device W ck slot slave b))"
  "advances b (snd (port_manager_handle_relay W ck slot slave dev b))"
  "advances b (port_manager_poll_slot W ck slot b)"
  "advances b (port_manager_publish_latest_status W ck b)"
  "advances b (snd (port_manager_save_offline_cache_config W ck cache flush b))"
  unfolding port_manager_connect_def port_manager_disconnect_def port_manager_add_device_ex_def
    port_manager_set_device_threshold_def port_manager_remove_device_def port_manager_handle_relay_def
    port_manager_poll_slot_def port_manager_publish_latest_status_def port_manager_save_offline_cache_config_def
  by (rule run_advances; simp add: connectPort_wf disconnectPort_wf addDevice_wf setDeviceThreshold_wf removeDevice_wf
      handleRelay_wf pollSlot_wf saveOfflineCacheConfig_wf publishLatestStatus_def)+

lemma quiet_port_message [quiet_ops]: "quiet b (send_port_message E now slot up doc b)"
  by (auto simp: send_port_message_def Let_def split: option.splits intro: quiet_ops quiet_trans [OF quiet_ipc quiet_publish])

lemma quiet_status_messages [quiet_ops]:
  "quiet b (sendRuntimeState W ck seq cmd b)"
  "quiet b (sendPortStatus W ck slot up message port baud b)"
  "quiet b (snd (publish_snapshot W ck seq b))"
  "quiet b (port_manager_scan_ports W ck seq cmd b)"
  by (auto simp: sendRuntimeState_def sendPortStatus_def publish_snapshot_def port_manager_scan_ports_def split_def Let_def
      intro: quiet_ops intro!: quiet_trans [OF quiet_next_seq quiet_port_message])

lemma quiet_register_devices [quiet_ops]: "quiet b (publishDeviceRegistersForSlot W ck seq slot b)"
proof -
  have "quiet b (register_one W ck seq slot d b)" for d and b :: "'a board"
    by (auto simp: register_one_def split_def Let_def intro: quiet_ops
        intro!: quiet_trans [OF quiet_next_seq quiet_registers(4)])
  then show ?thesis by (simp add: publishDeviceRegistersForSlot_def quiet_fold)
qed

lemma advances_restore [advance_ops]: "advances b (port_manager_restore_saved_connections W ck b)"
proof -
  have "advances b (restore_port W ck ports slot config b)" for ports slot config and b :: "'a board"
  proof -
    let ?r = "port_manager_connect W ck slot (Some (sv_port config)) (sv_baud config) b"
    have r: "advances b (snd ?r)" by (rule advances_manager)
    have reg: "quiet (snd ?r) (publishDeviceRegistersForSlot W ck 0 slot (snd (data_publish_port_register E now
        (fst (data_config_sync_next_seq c)) slot p n s (snd (data_config_sync_next_seq c)))))"
      if "quiet (snd ?r) c" for E :: "'a net_env" and now p n s c
      by (intro quiet_trans [OF _ quiet_register_devices] quiet_trans [OF _ quiet_registers(3)]
          quiet_trans [OF that quiet_next_seq])
    show ?thesis
    proof (cases "\<not> sv_auto_restore config \<or> sv_port config \<notin> set ports")
      case True
      then show ?thesis
        by (auto simp: restore_port_def Let_def intro: quiet_advances quiet_status_messages)
    next
      case False
      then show ?thesis
        using then_quiet [OF r reg [OF quiet_status_messages(2)]] then_quiet [OF r quiet_status_messages(2)]
        by (simp add: restore_port_def split_def Let_def)
    qed
  qed
  then show ?thesis
    by (auto simp: port_manager_restore_saved_connections_def Let_def
        intro!: then_quiet [OF advances_fold quiet_status_messages(1)])
qed

end
