(* ===== verification/CommandLemmas.thy ===== *)
theory CommandLemmas
  imports BoardLemmas
begin

text \<open>
  What the commands show: each is answered on the socket by an acknowledgement with its number,
  its name and its \<open>cmd_id\<close>, whose \<open>ok\<close> is the result the command returns.
\<close>

subsection \<open>Answers\<close>

text \<open>
  The members of an acknowledgement, a later value of a repeated key replacing an earlier one:
  the number, the command, the outcome, and a reason that is empty exactly on success.
\<close>

definition is_answer :: "'v json_c \<Rightarrow> string \<Rightarrow> 32 word \<Rightarrow> string \<Rightarrow> bool \<Rightarrow> (string \<times> 'v) list \<Rightarrow> bool" where
  "is_answer C cmd_id seq cmd ok members \<longleftrightarrow>
     (let m = map_of (rev members)
      in m ''type'' = Some (jc_string C ''ack'') \<and> m ''seq'' = Some (jc_int64 C (uint seq))
       \<and> m ''cmd'' = Some (jc_string C cmd) \<and> m ''ok'' = Some (jc_bool C ok)
       \<and> m ''cmd_id'' = (if cmd_id = [] then None else Some (jc_string C cmd_id))
       \<and> (\<exists>reason. m ''reason'' = Some (jc_string C reason) \<and> (ok \<longleftrightarrow> reason = [])))"

text \<open>Such a message is among those written to the socket between two states.\<close>

definition answered :: "'v json_c \<Rightarrow> 32 word \<Rightarrow> string \<Rightarrow> bool \<Rightarrow> 'v board \<Rightarrow> 'v board \<Rightarrow> bool" where
  "answered C seq cmd ok b b' \<longleftrightarrow>
     (\<exists>members ms. is_answer C (an_cmd_id b) seq cmd ok members
        \<and> prefix (bn_ipc b @ ms @ [jc_print C (jc_object C members)]) (bn_ipc b'))"

lemma answered_after:
  assumes "advances a b" "answered C seq cmd ok b c"
  shows "answered C seq cmd ok a c"
proof -
  obtain ms where "bn_ipc b = bn_ipc a @ ms" using assms(1) by (auto simp: advances_def prefix_def)
  moreover obtain members ms' where "is_answer C (an_cmd_id a) seq cmd ok members"
      "prefix (bn_ipc b @ ms' @ [jc_print C (jc_object C members)]) (bn_ipc c)"
    using assms by (auto simp: answered_def advances_def)
  ultimately show ?thesis
    unfolding answered_def by (intro exI [of _ members] exI [of _ "ms @ ms'"]) simp
qed

lemma answered_then: "answered C seq cmd ok a b \<Longrightarrow> prefix (bn_ipc b) (bn_ipc c) \<Longrightarrow> answered C seq cmd ok a c"
  unfolding answered_def by (blast intro: prefix_order.trans)

lemma answered_quiet: "answered C seq cmd ok a b \<Longrightarrow> quiet b c \<Longrightarrow> answered C seq cmd ok a c"
  by (erule answered_then) (simp add: quiet_def)

text \<open>Which acknowledgements are answers: the head makes them one, and nothing after it changes that.\<close>

definition keeps_cmd :: "'v json_c \<Rightarrow> string \<Rightarrow> (string \<times> 'v) list \<Rightarrow> bool" where
  "keeps_cmd C cmd members \<longleftrightarrow> list_all (\<lambda>(k, v). k \<noteq> ''type'' \<and> k \<noteq> ''seq'' \<and> k \<noteq> ''ok'' \<and> k \<noteq> ''cmd_id''
     \<and> k \<noteq> ''reason'' \<and> (k = ''cmd'' \<longrightarrow> v = jc_string C cmd)) members"

lemma keeps_append [simp]: "keeps_cmd C cmd (xs @ ys) \<longleftrightarrow> keeps_cmd C cmd xs \<and> keeps_cmd C cmd ys"
  by (simp add: keeps_cmd_def)

lemma keeps_Nil [simp]: "keeps_cmd C cmd []"
  by (simp add: keeps_cmd_def)

lemma keeps_Cons [simp]:
  "keeps_cmd C cmd ((k, v) # xs) \<longleftrightarrow> k \<noteq> ''type'' \<and> k \<noteq> ''seq'' \<and> k \<noteq> ''ok'' \<and> k \<noteq> ''cmd_id'' \<and> k \<noteq> ''reason''
     \<and> (k = ''cmd'' \<longrightarrow> v = jc_string C cmd) \<and> keeps_cmd C cmd xs"
  by (simp add: keeps_cmd_def)

lemma keeps_identity [simp]: "keeps_cmd C (text_of cmd) (data_ack_add_identity C cmd slot device)"
  by (simp add: data_ack_add_identity_def)

lemma keeps_identity_Some [simp]: "keeps_cmd C cmd (data_ack_add_identity C (Some cmd) slot device)"
  using keeps_identity [of C "Some cmd"] by (simp add: text_of_def)

lemma head_answer:
  assumes "keeps_cmd C (text_of cmd) xs" "ok \<longleftrightarrow> text_of reason = []"
  shows "is_answer C (an_cmd_id n) seq (text_of cmd) ok (ack_head C now seq cmd ok reason message n @ xs)"
proof -
  have mem: "k \<noteq> ''type'' \<and> k \<noteq> ''seq'' \<and> k \<noteq> ''ok'' \<and> k \<noteq> ''cmd_id'' \<and> k \<noteq> ''reason''
      \<and> (k = ''cmd'' \<longrightarrow> v = jc_string C (text_of cmd))" if "map_of (rev xs) k = Some v" for k v
    using assms(1) map_of_SomeD [OF that] by (auto simp: keeps_cmd_def list_all_iff)
  have "map_of (rev xs) ''type'' = None" "map_of (rev xs) ''seq'' = None" "map_of (rev xs) ''ok'' = None"
    "map_of (rev xs) ''cmd_id'' = None" "map_of (rev xs) ''reason'' = None"
    using mem by (metis option.exhaust)+
  moreover have "map_of (rev xs) ''cmd'' = None \<or> map_of (rev xs) ''cmd'' = Some (jc_string C (text_of cmd))"
    using mem by (metis option.exhaust)
  ultimately show ?thesis
    using assms(2)
    by (auto simp: is_answer_def ack_head_def data_ack_add_current_cmd_id_def map_add_def Let_def)
qed

lemma publish_ipc [simp]: "bn_ipc (snd (net_publish_or_cache S now t p m b)) = bn_ipc b"
  by (simp add: net_publish_or_cache_def with_sender_def split_def Let_def)

lemma sent_ipc [simp]: "bn_ipc (snd (ipc_server_send E (Some m) b)) = bn_ipc b @ [m]"
  by (simp add: ipc_server_send_def)

lemma acks_on_socket [simp]:
  "bn_ipc (ack_to_gateway E now members ts b) = bn_ipc b @ [jc_print (ne_json E) (jc_object (ne_json E) members)]"
  "bn_ipc (ack_to_port E now slot members ts b) = bn_ipc b @ [jc_print (ne_json E) (jc_object (ne_json E) members)]"
  by (simp_all add: ack_to_gateway_def ack_to_port_def data_ack_publish_gateway_def data_ack_publish_port_def Let_def
      split: option.splits)

lemma answered_by_ack:
  assumes "is_answer C (an_cmd_id b) seq cmd ok members" "bn_ipc b' = bn_ipc b @ [jc_print C (jc_object C members)]"
  shows "answered C seq cmd ok b b'"
  using assms unfolding answered_def by (intro exI [of _ members] exI [of _ "[]"]) simp

lemma acks_answer:
  assumes "ok \<longleftrightarrow> text_of reason = []"
  shows "answered (ne_json E) seq (text_of cmd) ok b (data_ack_send E now seq cmd ok reason message b)"
    "answered (ne_json E) seq (text_of cmd) ok b
       (data_ack_send_port_result E now seq cmd ok reason message slot port kind baud up b)"
    "answered (ne_json E) seq (text_of cmd) ok b
       (data_ack_send_relay_result E now seq cmd ok reason message slot slave dev states b)"
    "answered (ne_json E) seq (text_of cmd) ok b
       (data_ack_send_device_result E now seq cmd ok reason message slot slave kind interval b)"
    "answered (ne_json E) seq (text_of cmd) ok b
       (data_ack_send_threshold_result E now seq cmd ok reason message slot slave kind en config b)"
    "answered (ne_json E) seq (text_of cmd) ok b
       (data_ack_send_offline_cache_config E now seq cmd ok reason message cache flush num b)"
  unfolding data_ack_send_def data_ack_send_port_result_def data_ack_send_relay_result_def
    data_ack_send_device_result_def data_ack_send_threshold_result_def data_ack_send_offline_cache_config_def
    data_ack_add_common_def Let_def append_assoc
  by ((rule answered_by_ack [OF head_answer]; simp add: assms port_result_members_def)+)

lemma ports_answer: "answered (ne_json E) seq cmd True b (data_ack_send_ports E now seq (Some cmd) ports b)"
proof -
  have "is_answer (ne_json E) (an_cmd_id b) seq (text_of (Some cmd)) True
      (ack_head (ne_json E) now seq (Some cmd) True (Some []) (Some ''scan ports success'') b
        @ data_ack_add_identity (ne_json E) (Some cmd) (-1) 0
        @ [(''ports'', jc_array (ne_json E) (map (jc_string (ne_json E)) ports))])"
    by (rule head_answer) (simp_all add: text_of_def)
  then show ?thesis
    by (intro answered_by_ack) (simp_all add: data_ack_send_ports_def text_of_def Let_def)
qed

subsection \<open>The handlers\<close>

definition replies :: "'v board_world \<Rightarrow> 32 word \<Rightarrow> string \<Rightarrow> 'v board \<Rightarrow> int \<times> 'v board \<Rightarrow> bool" where
  "replies W seq cmd b r \<longleftrightarrow> advances b (snd r)
     \<and> answered (ne_json W) seq cmd (fst r \<noteq> CMD_PROCESS_ERROR) b (snd r)"

lemma replies_intro:
  assumes "advances b c" "quiet c d" "answered (ne_json W) seq cmd ok c d" "quiet d e"
    and "ok \<longleftrightarrow> ret \<noteq> CMD_PROCESS_ERROR"
  shows "replies W seq cmd b (ret, e)"
  using assms answered_quiet [OF answered_after [OF assms(1,3)] assms(4)] then_quiet [OF then_quiet [OF assms(1,2)] assms(4)]
  by (simp add: replies_def)

lemma net_of_json [simp]: "ne_json (net_of W) = ne_json W"
  by (simp add: net_of_def)

lemma text_of_Some [simp]: "text_of (Some s) = s"
  by (simp add: text_of_def)

text \<open>A failed operation of the port manager names its reason.\<close>

definition gives_reason :: "('v PortManager \<Rightarrow> reply \<times> 'v PortManager) \<Rightarrow> bool" where
  "gives_reason op \<longleftrightarrow> (\<forall>m. fst (fst (op m)) \<noteq> 0 \<longrightarrow> snd (fst (op m)) \<noteq> [])"

lemma gives_reasons:
  "gives_reason (connectPort E now steady slot port baud)"
  "gives_reason (disconnectPort slot)"
  "gives_reason (addDevice E now steady slot slave kind interval config)"
  "gives_reason (setDeviceThreshold E now slot slave config)"
  "gives_reason (removeDevice E now slot slave)"
  "gives_reason (handleRelay E slot slave dev)"
  by (simp_all add: gives_reason_def connectPort_def disconnectPort_def addDevice_def setDeviceThreshold_def
      removeDevice_def handleRelay_def Let_def split_def split: option.splits)

lemma run_reason:
  assumes "gives_reason op"
  shows "fst (fst (run_manager W ck op b)) = 0 \<longleftrightarrow>
    text_of (reason_of (fst (fst (run_manager W ck op b))) (snd (fst (run_manager W ck op b)))) = []"
  using assms by (auto simp: gives_reason_def run_manager_def reason_of_def split_def Let_def)

lemma manager_reasons:
  "fst (fst (port_manager_connect W ck slot port baud b)) = 0 \<longleftrightarrow>
     text_of (reason_of (fst (fst (port_manager_connect W ck slot port baud b)))
       (snd (fst (port_manager_connect W ck slot port baud b)))) = []"
  "fst (fst (port_manager_disconnect W ck slot b)) = 0 \<longleftrightarrow>
     text_of (reason_of (fst (fst (port_manager_disconnect W ck slot b)))
       (snd (fst (port_manager_disconnect W ck slot b)))) = []"
  "fst (fst (port_manager_add_device_ex W ck slot slave kind interval config b)) = 0 \<longleftrightarrow>
     text_of (reason_of (fst (fst (port_manager_add_device_ex W ck slot slave kind interval config b)))
       (snd (fst (port_manager_add_device_ex W ck slot slave kind interval config b)))) = []"
  "fst (fst (port_manager_set_device_threshold W ck slot slave config b)) = 0 \<longleftrightarrow>
     text_of (reason_of (fst (fst (port_manager_set_device_threshold W ck slot slave config b)))
       (snd (fst (port_manager_set_device_threshold W ck slot slave config b)))) = []"
  "fst (fst (port_manager_remove_device W ck slot slave b)) = 0 \<longleftrightarrow>
     text_of (reason_of (fst (fst (port_manager_remove_device W ck slot slave b)))
       (snd (fst (port_manager_remove_device W ck slot slave b)))) = []"
  "fst (fst (port_manager_handle_relay W ck slot slave dev b)) = 0 \<longleftrightarrow>
     text_of (reason_of (fst (fst (port_manager_handle_relay W ck slot slave dev b)))
       (snd (fst (port_manager_handle_relay W ck slot slave dev b)))) = []"
  unfolding port_manager_connect_def port_manager_disconnect_def port_manager_add_device_ex_def
    port_manager_set_device_threshold_def port_manager_remove_device_def port_manager_handle_relay_def
  by (rule run_reason, rule gives_reasons)+

lemma processed_ok [simp]: "processed ret = CMD_PROCESS_ERROR \<longleftrightarrow> ret \<noteq> 0"
  by (simp add: processed_def cmd_codes)

lemma reject_replies:
  "reason \<noteq> [] \<Longrightarrow> text_of cmd = c \<Longrightarrow> advances b b' \<Longrightarrow> replies W seq c b (reject W ck seq cmd reason b')"
  unfolding reject_def
  using acks_answer(1) [of False "Some reason" "net_of W" seq cmd b']
  by (auto intro: replies_intro [where ok = False] quiet_answers)

lemma quiet_after: "quiet b (snd (publish_snapshot W ck seq (snd (data_publish_port_register E now seq slot p baud s b))))"
  "quiet b (snd (publish_snapshot W ck seq (snd (data_publish_device_register E now seq slot i k interval b))))"
  by (rule quiet_trans [OF quiet_registers(3) quiet_status_messages(3)],
      rule quiet_trans [OF quiet_registers(4) quiet_status_messages(3)])

lemma replies_then:
  assumes "advances b c" "quiet c d" "answered (ne_json W) seq cmd ok c d" "\<And>x. quiet x (f x)"
    and "ok \<longleftrightarrow> ret \<noteq> CMD_PROCESS_ERROR"
  shows "replies W seq cmd b (ret, if p then f d else d)"
  using replies_intro [OF assms(1-3) assms(4) assms(5)] replies_intro [OF assms(1-3) quiet_refl assms(5)] by simp

lemma replies_if:
  "(p \<Longrightarrow> replies W seq cmd b x) \<Longrightarrow> (\<not> p \<Longrightarrow> replies W seq cmd b y) \<Longrightarrow> replies W seq cmd b (if p then x else y)"
  by simp

text \<open>The three ways a command goes on after its answer.\<close>

lemmas then_port = replies_then [where f = "\<lambda>x. snd (publish_snapshot W ck seq
  (snd (data_publish_port_register E now seq slot p baud s x)))" for W ck seq E now slot p baud s, OF _ _ _ quiet_after(1)]

lemmas then_device = replies_then [where f = "\<lambda>x. snd (publish_snapshot W ck seq
  (snd (data_publish_device_register E now seq slot i k interval x)))" for W ck seq E now slot i k interval,
  OF _ _ _ quiet_after(2)]

lemmas then_snapshot = replies_then [where f = "\<lambda>x. snd (publish_snapshot W ck seq x)" for W ck seq,
  OF _ _ _ quiet_status_messages(3)]

lemmas board_answers = acks_answer [where cmd = "Some cmd" and E = "net_of W" for cmd W, unfolded text_of_Some net_of_json]

lemma connect_replies: "replies W seq cmd b (handle_connect_port W ck seq doc cmd b)"
  unfolding handle_connect_port_def Let_def split_def prod.sel
  by (rule then_port [OF advances_manager(1) quiet_answers(3) board_answers(2)]) (rule manager_reasons, simp)

lemma disconnect_replies: "replies W seq cmd b (handle_disconnect_port W ck seq doc cmd b)"
  unfolding handle_disconnect_port_def Let_def split_def prod.sel
  by (rule then_port [OF advances_manager(2) quiet_answers(3) board_answers(2)]) (rule manager_reasons, simp)

lemma add_to_replies: "replies W seq cmd b (add_device_to W ck seq slot device cmd b)"
proof -
  have bad: "replies W seq cmd b (CMD_PROCESS_ERROR, data_ack_send_device_result (net_of W) (ck_now ck) seq (Some cmd)
      False (Some ''invalid_request'') (Some m) slot slave kind interval b)" for m slave kind interval
    by (rule replies_intro [OF advances_refl quiet_answers(5) board_answers(4) quiet_refl]) simp_all
  show ?thesis
    unfolding add_device_to_def Let_def split_def prod.sel
    by (intro replies_if bad then_device [OF advances_manager(3) quiet_answers(5) board_answers(4)] manager_reasons) simp
qed

lemma target_reason: "target_slot C target = Inl reason \<Longrightarrow> reason \<noteq> []"
  by (auto simp: target_slot_def Let_def split: if_splits)

lemma add_replies: "replies W seq cmd b (handle_add_device W ck seq doc cmd b)"
  by (auto simp: handle_add_device_def Let_def add_to_replies
      intro!: reject_replies dest: target_reason split: option.splits sum.splits)

lemma threshold_replies: "replies W seq cmd b (handle_set_device_threshold W ck seq doc cmd b)"
proof (cases "parse_sensor_threshold_config (ne_json W) doc")
  case None
  then show ?thesis by (simp add: handle_set_device_threshold_def Let_def reject_replies)
next
  case (Some config)
  show ?thesis
    unfolding handle_set_device_threshold_def Let_def split_def prod.sel Some option.case
    by (rule then_snapshot [OF advances_manager(4) quiet_answers(6) board_answers(5)]) (rule manager_reasons, simp)
qed

lemma remove_at_replies: "replies W seq cmd b (remove_device_at W ck seq slot doc cmd b)"
  unfolding remove_device_at_def Let_def split_def prod.sel
  by (rule then_snapshot [OF advances_manager(5) quiet_answers(5) board_answers(4)]) (rule manager_reasons, simp)

lemma remove_replies: "replies W seq cmd b (handle_remove_device W ck seq doc cmd b)"
  by (auto simp: handle_remove_device_def Let_def remove_at_replies
      intro!: reject_replies dest: target_reason split: option.splits sum.splits)

lemma relay_reason_empty: "(text_of (reason_of ret (relay_reason ret reason)) = []) = (text_of (reason_of ret reason) = [])"
  by (simp add: relay_reason_def reason_of_def)

lemma relay_replies: "replies W seq cmd b (handle_set_relay W ck seq doc cmd b)"
proof -
  have bad: "replies W seq cmd b (CMD_PROCESS_ERROR, data_ack_send_relay_result (net_of W) (ck_now ck) seq (Some cmd)
      False (Some ''invalid_request'') (Some m) slot slave dev states b)" for m slot slave dev states
    by (rule replies_intro [OF advances_refl quiet_answers(4) board_answers(3) quiet_refl]) simp_all
  have good: "replies W seq cmd b
      (if fst (fst (port_manager_handle_relay W ck slot slave dev b)) = 0 then CMD_PROCESS_FORWARD_MQTT else CMD_PROCESS_ERROR,
       data_ack_send_relay_result (net_of W) (ck_now ck) seq (Some cmd)
         (fst (fst (port_manager_handle_relay W ck slot slave dev b)) = 0)
         (reason_of (fst (fst (port_manager_handle_relay W ck slot slave dev b)))
           (relay_reason (fst (fst (port_manager_handle_relay W ck slot slave dev b)))
             (snd (fst (port_manager_handle_relay W ck slot slave dev b)))))
         m slot slave i states (snd (port_manager_handle_relay W ck slot slave dev b)))" for slot slave dev m i states
    by (rule replies_intro [OF advances_manager(6) quiet_answers(4) board_answers(3) quiet_refl])
      (simp_all add: relay_reason_empty manager_reasons [symmetric] cmd_codes)
  show ?thesis
  proof (cases "case jc_get (ne_json W) doc ''states'' of None \<Rightarrow> None | Some v \<Rightarrow> relay_states_of (ne_json W) v")
    case None
    then show ?thesis unfolding handle_set_relay_def Let_def split_def prod.sel by (simp only: option.case bad)
  next
    case (Some states)
    then show ?thesis unfolding handle_set_relay_def Let_def split_def prod.sel by (simp only: option.case good)
  qed
qed

lemma published_replies:
  "quiet b b' \<Longrightarrow> replies W seq cmd b (CMD_PROCESS_HANDLED, data_ack_send (net_of W) (ck_now ck) seq (Some cmd) True
     (Some []) (Some message) b')"
  by (rule replies_intro [OF quiet_advances quiet_answers(1) board_answers(1) quiet_refl]) (simp_all add: cmd_codes)

lemma quiet_mqtt_send: "quiet b (b\<lparr>bn_mqtt := snd (mqtt_send (Some t) (Some p) (bn_mqtt b))\<rparr>)"
  by (rule quiet_mqtt) (simp add: direct_wf direct_is_send [symmetric])

lemma selected_replies: "replies W seq cmd b (publish_selected W ck seq target cmd b)"
proof (cases "port_manager_export_config_snapshot W ck seq (Some DEFAULT_GATEWAY_ID) (Some target) 65536 b")
  case None
  then show ?thesis by (simp add: publish_selected_def reject_replies)
next
  case (Some snapshot)
  show ?thesis
    unfolding publish_selected_def Some option.case Let_def split_def prod.sel
    by (intro replies_if reject_replies published_replies quiet_advances quiet_mqtt_send
        quiet_trans [OF quiet_mqtt_send quiet_mark]) simp_all
qed

lemma config_replies: "replies W seq cmd b (handle_get_config W ck seq doc cmd b)"
  unfolding handle_get_config_def Let_def split_def prod.sel
  by (intro replies_if reject_replies published_replies selected_replies quiet_advances quiet_status_messages(3)) simp_all

lemma cache_replies:
  assumes "advances b b'" "ok \<longleftrightarrow> reason = []" "ok \<longleftrightarrow> ret \<noteq> CMD_PROCESS_ERROR"
  shows "replies W seq cmd b (ret, answer_cache W ck seq cmd ok reason message b')"
  unfolding answer_cache_def Let_def split_def
  by (rule replies_intro [OF then_quiet [OF assms(1) quiet_cache(3)] quiet_answers(7) board_answers(6) quiet_refl])
    (simp_all add: assms(2) assms(3) [symmetric])

lemma switches_replies:
  "replies W seq cmd b (handle_get_offline_cache_config W ck seq doc cmd b)"
  "replies W seq cmd b (handle_set_offline_cache_config W ck seq doc cmd b)"
  "replies W seq cmd b (handle_clear_offline_cache W ck seq doc cmd b)"
  "replies W seq cmd b (handle_flush_offline_cache W ck seq doc cmd b)"
proof -
  have two: "quiet b (mqtt_set_offline_cache_flush_enabled f (mqtt_set_offline_cache_enabled c b))" for f c and b :: "'a board"
    by (rule quiet_trans [OF quiet_cache(1,2)])
  show "replies W seq cmd b (handle_get_offline_cache_config W ck seq doc cmd b)"
    unfolding handle_get_offline_cache_config_def Let_def split_def prod.sel
    by (rule cache_replies) (simp_all add: quiet_advances two cmd_codes)
  show "replies W seq cmd b (handle_set_offline_cache_config W ck seq doc cmd b)"
    unfolding handle_set_offline_cache_config_def Let_def split_def prod.sel
    by (rule cache_replies) (auto intro: advance_ops then_quiet [OF advances_manager(9) two])
  show "replies W seq cmd b (handle_clear_offline_cache W ck seq doc cmd b)"
    unfolding handle_clear_offline_cache_def Let_def split_def prod.sel
    by (rule cache_replies) (simp_all add: quiet_advances quiet_cache)
  show "replies W seq cmd b (handle_flush_offline_cache W ck seq doc cmd b)"
    unfolding handle_flush_offline_cache_def Let_def split_def prod.sel
    by (rule cache_replies) (auto simp: quiet_advances quiet_flush_once flush_reason_def send_codes)
qed

lemma scan_replies: "replies W seq cmd b (handle_scan_ports W ck seq doc cmd b)"
  using ports_answer [of "net_of W" seq cmd b] quiet_status_messages(4) [THEN quiet_advances]
  by (simp add: handle_scan_ports_def replies_def port_manager_scan_ports_def cmd_codes)

lemma runtime_advances: "advances b (snd (handle_get_runtime_state W ck seq doc cmd b))"
  by (simp add: handle_get_runtime_state_def port_manager_send_runtime_state_def quiet_advances quiet_status_messages)

lemma table_replies:
  assumes "map_of command_table cmd = Some h" "cmd \<noteq> ''get_runtime_state''"
  shows "replies W seq c b (h W ck seq doc c b)"
  using assms
  by (auto simp: command_table_def scan_replies connect_replies disconnect_replies add_replies threshold_replies
      remove_replies relay_replies config_replies switches_replies split: if_splits)

lemma command_replies:
  assumes "text_of cmd \<noteq> ''get_runtime_state''"
  shows "replies W seq (text_of cmd) b (process_command_message W ck seq doc cmd b)"
proof (cases "text_of cmd = []")
  case True
  then show ?thesis
    using acks_answer(1) [of False "Some ''invalid_request''" "net_of W" seq "Some []" b]
    by (auto simp: process_command_message_def intro!: replies_intro [OF advances_refl quiet_answers(1)])
next
  case False
  then show ?thesis
    by (auto simp: process_command_message_def table_replies [OF _ assms] intro!: reject_replies split: option.splits)
qed

lemma command_advances: "advances b (snd (process_command_message W ck seq doc cmd b))"
proof (cases "text_of cmd = ''get_runtime_state''")
  case True
  then show ?thesis by (simp add: process_command_message_def command_table_def runtime_advances)
qed (use command_replies [of cmd W seq b ck doc] in \<open>simp add: replies_def\<close>)

end
