(* ===== verification/BoardService.thy ===== *)
theory BoardService
  imports IpcServer CommandLemmas
begin

text \<open>
  The board as a machine: what every step of its threads keeps, how the bytes of the socket
  become commands, and how the rounds of the MQTT thread empty the offline table.
\<close>

subsection \<open>Steps of the board\<close>

definition grows :: "'v board \<Rightarrow> 'v board \<Rightarrow> bool" where
  "grows b b' \<longleftrightarrow> prefix (bn_ipc b) (bn_ipc b') \<and> (board_ok b \<longrightarrow> board_ok b')"

lemma advances_grows: "advances b b' \<Longrightarrow> grows b b'"
  by (simp add: grows_def advances_def)

lemma quiet_grows: "quiet b b' \<Longrightarrow> grows b b'"
  by (simp add: advances_grows quiet_advances)

lemma grows_ok: "grows b b' \<Longrightarrow> board_ok b \<Longrightarrow> board_ok b'"
  by (simp add: grows_def)

lemma grows_trans [trans]: "grows a b \<Longrightarrow> grows b c \<Longrightarrow> grows a c"
  by (auto simp: grows_def intro: prefix_order.trans)

lemma grows_refl [simp, intro]: "grows b b"
  by (simp add: grows_def)

lemma grows_cmd_id:
  "grows b (data_ack_set_current_cmd_id cmd b)" "grows b (data_ack_clear_current_cmd_id b)"
  by (auto simp: grows_def board_ok_def net_ok_def data_ack_set_current_cmd_id_def data_ack_clear_current_cmd_id_def
      strncpy_text_def split: option.splits)

lemma device_step_advances: "advances (dr_board r) (dr_board (device_step W ck d r))"
proof -
  have "quiet b (snd (data_publish_device_status E now dev b))" for b :: "'a board" and E :: "'a net_env" and now dev
    unfolding data_publish_device_status_def by (rule quiet_status)
  then show ?thesis
    by (auto simp: device_step_def device_relay_step_def split_def Let_def split: device_type_t.splits
        intro: advances_manager quiet_advances)
qed

lemma device_steps_advance: "advances (dr_board r) (dr_board (fold (device_step W ck) ds r))"
  by (induction ds arbitrary: r) (auto intro: advances_trans device_step_advances)

lemma device_message_advances: "advances b (snd (process_device_message W ck seq doc b))"
  using device_steps_advance [where r = "\<lparr>dr_ret = CMD_PROCESS_HANDLED, dr_relay = False, dr_reason = [], dr_board = b\<rparr>"]
  by (auto simp: process_device_message_def Let_def intro: then_quiet quiet_answers)

lemma parsed_advances: "advances b (snd (process_parsed W ck seq doc b))"
  by (auto simp: process_parsed_def Let_def intro: command_advances device_message_advances quiet_advances quiet_answers
      split: option.splits)

lemma message_grows: "grows b (snd (data_command_process_message W ck s b))"
  by (auto simp: data_command_process_message_def split_def Let_def split: option.splits
      intro!: grows_trans [OF grows_trans [OF grows_cmd_id(1) advances_grows [OF parsed_advances]] grows_cmd_id(2)])

lemma handler_grows: "grows b (mqtt_message_handler W ck topic payload b)"
  by (auto simp: mqtt_message_handler_def Let_def split: option.splits prod.splits
      intro: quiet_grows quiet_ack_json grows_trans [OF quiet_grows [OF quiet_ack_json] message_grows])

lemma init_grows: "grows b (snd (mqtt_init W lease b))"
proof -
  have store: "store_wf (oq_db q) \<Longrightarrow> store_wf (oq_db (snd (offline_publish_queue_init S (oq_setSender True q))))" for S q
    using oq_exec_wf [of q S _ 0 "OqSetSender True"] oq_exec_wf [of "oq_setSender True q" S _ 0 OqInit]
    by (auto simp: offline_publish_queue_init_def split_def Let_def)
  show ?thesis
    by (auto simp: mqtt_init_def grows_def board_ok_def net_ok_def split_def Let_def store
        mqtt_set_offline_cache_enabled_def mqtt_set_offline_cache_flush_enabled_def oq_setCacheEnabled_def
        oq_setFlushEnabled_def)
qed

lemma connected_grows: "grows b (mqtt_connected_now W ck b)"
proof -
  have m: "quiet c (c\<lparr>bn_mqtt := (bn_mqtt c)\<lparr>mw_last_flush_ms := x, mw_last_heartbeat_ms := y\<rparr>\<rparr>)" for c :: "'a board" and x y
    by (rule quiet_mqtt) simp
  have flush: "quiet c (if p then net_flush_once S now c else c)" for c :: "'a board" and p S now
    by (simp add: quiet_flush)
  show ?thesis
    unfolding mqtt_connected_now_def Let_def split_def prod.sel
    by (intro grows_trans [OF _ quiet_grows [OF m]] grows_trans [OF _ quiet_grows [OF flush]]
        grows_trans [OF _ quiet_grows [OF quiet_cache(3)]] grows_trans [OF _ quiet_grows [OF quiet_status_messages(3)]]
        grows_trans [OF _ quiet_grows [OF quiet_gateway_seq]] grows_trans [OF _ advances_grows [OF advances_manager(8)]]
        grows_trans [OF _ quiet_grows [OF quiet_registers(1)]] quiet_grows quiet_fields(3))
qed

lemma pop_ring: "ring_wf q \<Longrightarrow> ring_wf (snd (queue_pop q))"
  by (cases rule: ring.get_cases [of q]) auto

lemma poll_grows: "grows b (snd (mqtt_poll W ck ret b))"
proof -
  have pop: "quiet c (c\<lparr>bn_mqtt := (bn_mqtt c)\<lparr>mw_queue := snd (queue_pop (mw_queue (bn_mqtt c)))\<rparr>\<rparr>)" for c :: "'a board"
    by (rule quiet_mqtt) (simp add: pop_ring)
  have sub: "quiet c (c\<lparr>bn_mqtt := (bn_mqtt c)\<lparr>mw_subscribed := True\<rparr>\<rparr>)" for c :: "'a board"
    by (rule quiet_mqtt) simp
  have first: "grows b (if up then b else mqtt_connected_now W ck b)" for up by (simp add: connected_grows)
  show ?thesis
    unfolding mqtt_poll_def Let_def split_def
    by (auto intro!: grows_trans [OF _ quiet_grows [OF quiet_tick]] grows_trans [OF _ quiet_grows [OF quiet_timed_flush]]
        grows_trans [OF _ quiet_grows [OF pop]] grows_trans [OF _ quiet_grows [OF quiet_heartbeat]]
        grows_trans [OF _ quiet_grows [OF sub]] connected_grows)
qed

subsection \<open>The socket\<close>

lemma ipc_message_grows: "grows b (ipc_message W ck line b)"
  by (auto simp: ipc_message_def split_def Let_def intro: message_grows grows_trans [OF message_grows quiet_grows [OF quiet_publish]])

lemma ipc_fold_grows: "grows b (fold (ipc_message W ck) ms b)"
  by (induction ms arbitrary: b) (auto intro: grows_trans ipc_message_grows)

lemma ipc_rest_length: "length (snd (ipc_messages line cs)) \<le> length line + length cs"
proof (induction line cs rule: ipc_messages.induct)
  case (2 line c cs)
  then show ?case by (auto simp: split_def Let_def)
qed simp

text \<open>The buffer holds less than its size, and no line that has ended.\<close>

definition service_ok :: "'v service \<Rightarrow> bool" where
  "service_ok s \<longleftrightarrow> board_ok (se_board s) \<and> length (se_recv s) < RECV_BUF_SIZE \<and> newline \<notin> set (se_recv s)"

lemma ipc_rest_line: "newline \<notin> set line \<Longrightarrow> newline \<notin> set (snd (ipc_messages line cs))"
  by (induction line cs rule: ipc_messages.induct) (auto simp: split_def Let_def)

lemma received_ok:
  assumes "service_ok s" "length buf < IPC_BUF_SIZE"
  shows "service_ok (ipc_process_received_data W ck buf s)"
proof -
  have "length (ipc_append (se_recv s) buf) < RECV_BUF_SIZE"
    using assms by (simp add: service_ok_def ipc_append_def IPC_BUF_SIZE_def RECV_BUF_SIZE_def)
  then have "length (snd (ipc_messages [] (ipc_append (se_recv s) buf))) < RECV_BUF_SIZE"
    using ipc_rest_length [of "[]" "ipc_append (se_recv s) buf"] by simp
  then show ?thesis
    using assms(1) ipc_fold_grows [of "se_board s" W ck] ipc_rest_line [of "[]"]
    by (simp add: service_ok_def grows_def ipc_process_received_data_def split_def Let_def)
qed

lemma service_step_ok:
  assumes "service_ok s" "event_ok e"
  shows "service_ok (service_step W ck e s)"
proof (cases "\<exists>buf. e = EvRead buf")
  case True
  then show ?thesis using received_ok assms by (auto simp: event_ok_def)
next
  case False
  have poll: "grows b (poll_thread_round W ck slot b)" for slot and b :: "'a board" and W :: "'a board_world"
    unfolding poll_thread_round_def by (rule advances_grows, rule run_advances) (simp add: pollThreadMain_wf)
  have hello: "grows b (Deviceinfo_send W ck F b)" for F and b :: "'a board" and W :: "'a board_world"
    unfolding Deviceinfo_send_def data_publish_device_status_def by (rule quiet_grows [OF quiet_status])
  show ?thesis
    using False assms(1)
    by (cases e) (auto simp: service_ok_def ipc_accept_def ipc_close_def RECV_BUF_SIZE_def
        intro: grows_ok [OF poll] grows_ok [OF hello] grows_ok [OF init_grows] grows_ok [OF poll_grows]
          grows_ok [OF handler_grows] grows_ok [OF advances_grows [OF advances_restore]])
qed

lemma service_start_ok:
  assumes "store_wf \<lparr>od_open = False, od_rows = rows, od_nextId = next, od_tick = 0\<rparr>"
  shows "service_ok \<lparr>se_recv = [], se_board = board_new rows next initial\<rparr>"
  using assms board_reachable_wf [OF board_reachable.start]
  by (simp add: service_ok_def board_ok_def net_ok_def board_new_def RECV_BUF_SIZE_def status_new
      OfflinePublishQueue_new_def mqtt_wrapper_new_def)

lemma service_reachable_ok: "service_reachable W initial s \<Longrightarrow> service_ok s"
  by (induction rule: service_reachable.induct) (simp_all add: service_start_ok service_step_ok)

subsection \<open>The lines of a stream\<close>

lemma messages_pieces:
  "ipc_messages line cs = (filter (\<lambda>l. l \<noteq> []) (butlast ((line @ hd (pieces cs)) # tl (pieces cs))),
     last ((line @ hd (pieces cs)) # tl (pieces cs)))"
proof (induction line cs rule: ipc_messages.induct)
  case (2 line c cs)
  show ?case
  proof (cases "c = newline")
    case True
    then show ?thesis using 2(1) [OF True] by (cases "pieces cs") simp_all
  next
    case False
    then show ?thesis using 2(2) [OF False] by (cases "pieces cs") simp_all
  qed
qed simp

lemma messages_lines: "ipc_messages [] s = (stream_lines s, last (pieces s))"
  by (simp add: messages_pieces stream_lines_def)

lemma messages_append:
  "ipc_messages line (xs @ ys) =
    (let (ms, rest) = ipc_messages line xs; (ms', rest') = ipc_messages rest ys in (ms @ ms', rest'))"
  by (induction line xs rule: ipc_messages.induct) (auto simp: split_def Let_def)

lemma messages_clean: "newline \<notin> set xs \<Longrightarrow> ipc_messages line xs = ([], line @ xs)"
  by (induction line xs rule: ipc_messages.induct) auto

lemma fold_reads:
  assumes "\<forall>buf \<in> set bufs. length buf < IPC_BUF_SIZE" "newline \<notin> set (se_recv s)"
    and "\<forall>l \<in> set (pieces (se_recv s @ concat bufs)). length l \<le> RECV_BUF_SIZE - IPC_BUF_SIZE"
  shows "fold (ipc_process_received_data W ck) bufs s =
    \<lparr>se_recv = last (pieces (se_recv s @ concat bufs)),
     se_board = fold (ipc_message W ck) (stream_lines (se_recv s @ concat bufs)) (se_board s)\<rparr>"
  using assms
proof (induction bufs arbitrary: s)
  case Nil
  then have "pieces (se_recv s) = [se_recv s]" using pieces_clean [of "se_recv s" "[]"] by simp
  then show ?case by (simp add: stream_lines_def)
next
  case (Cons buf bufs)
  define r where "r = se_recv s"
  define rest where "rest = last (pieces (r @ buf))"
  have all: "pieces (r @ buf @ concat bufs) = butlast (pieces (r @ buf)) @ pieces (rest @ concat bufs)"
    using pieces_append [of "r @ buf" "concat bufs"] by (simp add: rest_def)
  have "r @ hd (pieces (buf @ concat bufs)) \<in> set (pieces (r @ buf @ concat bufs))"
    using pieces_clean [of r "buf @ concat bufs"] Cons.prems(2) by (simp add: r_def)
  then have "length r \<le> RECV_BUF_SIZE - IPC_BUF_SIZE" using Cons.prems(3) by (fastforce simp: r_def)
  then have "ipc_append r buf = r @ buf"
    using Cons.prems(1) by (simp add: ipc_append_def RECV_BUF_SIZE_def IPC_BUF_SIZE_def)
  then have step: "ipc_process_received_data W ck buf s =
      \<lparr>se_recv = rest, se_board = fold (ipc_message W ck) (stream_lines (r @ buf)) (se_board s)\<rparr>"
    by (simp add: ipc_process_received_data_def messages_lines rest_def r_def)
  have "newline \<notin> set rest"
    using ipc_rest_line [of "[]" "r @ buf"] by (simp add: messages_lines rest_def)
  moreover have "\<forall>l \<in> set (pieces (rest @ concat bufs)). length l \<le> RECV_BUF_SIZE - IPC_BUF_SIZE"
    using Cons.prems(3) all by (simp add: r_def)
  ultimately have "fold (ipc_process_received_data W ck) bufs (ipc_process_received_data W ck buf s) =
      \<lparr>se_recv = last (pieces (rest @ concat bufs)), se_board = fold (ipc_message W ck)
         (stream_lines (rest @ concat bufs)) (fold (ipc_message W ck) (stream_lines (r @ buf)) (se_board s))\<rparr>"
    using Cons.IH [of "ipc_process_received_data W ck buf s"] Cons.prems(1) step by simp
  moreover have "stream_lines (r @ buf @ concat bufs) = stream_lines (r @ buf) @ stream_lines (rest @ concat bufs)"
    by (simp add: stream_lines_def all butlast_append)
  ultimately show ?case by (simp add: all r_def [symmetric])
qed

subsection \<open>Answers to messages\<close>

text \<open>A message that is a command: not an acknowledgement, with a name.\<close>

definition command_of :: "'v json_c \<Rightarrow> 'v \<Rightarrow> string option" where
  "command_of C doc =
     (if text_of (jc_string_member C doc ''type'' []) = ''ack'' then None
      else map_option (\<lambda>v. text_of (jc_get_string C v))
             (non_null C (json_get_object_any C doc [''cmdType'', ''cmd'', ''commandType'', ''command''])))"

definition message_id :: "'v json_c \<Rightarrow> 'v \<Rightarrow> string" where
  "message_id C doc = take 127 (c_str (json_get_string_any C doc [''cmd_id'', ''cmdId'', ''commandId''] []))"

lemma parsed_replies:
  assumes "command_of (ne_json W) doc = Some cmd" "cmd \<noteq> ''get_runtime_state''"
  shows "replies W seq cmd b (process_parsed W ck seq doc b)"
proof -
  obtain v where v: "non_null (ne_json W) (json_get_object_any (ne_json W) doc [''cmdType'', ''cmd'', ''commandType'', ''command''])
      = Some v" "text_of (jc_get_string (ne_json W) v) = cmd"
      "text_of (jc_string_member (ne_json W) doc ''type'' []) \<noteq> ''ack''"
    using assms(1) by (auto simp: command_of_def split: if_splits)
  have bad: "replies W seq cmd b (CMD_PROCESS_ERROR, data_ack_send (net_of W) (ck_now ck) seq (jc_get_string (ne_json W) v)
      False (Some ''invalid_request'') (Some m) b)" for m
    using acks_answer(1) [of False "Some ''invalid_request''" "net_of W" seq "jc_get_string (ne_json W) v" b] v(2)
    by (auto intro!: replies_intro [OF advances_refl quiet_answers(1) _ quiet_refl])
  show ?thesis
    using v(1,3) bad command_replies [of "jc_get_string (ne_json W) v" W seq b ck] assms(2) v(2)
    by (simp add: process_parsed_def Let_def)
qed

lemma message_replies:
  assumes "jc_parse (ne_json W) s = Some doc" "command_of (ne_json W) doc = Some cmd" "cmd \<noteq> ''get_runtime_state''"
  shows "let (ret, b') = data_command_process_message W ck (Some s) b
    in \<exists>members ms. is_answer (ne_json W) (message_id (ne_json W) doc) (message_seq (ne_json W) doc) cmd
         (ret \<noteq> CMD_PROCESS_ERROR) members
       \<and> prefix (bn_ipc b @ ms @ [jc_print (ne_json W) (jc_object (ne_json W) members)]) (bn_ipc b')"
proof -
  let ?C = "ne_json W"
  let ?b = "data_ack_set_current_cmd_id (Some (json_get_string_any ?C doc [''cmd_id'', ''cmdId'', ''commandId''] [])) b"
  have b: "an_cmd_id ?b = message_id ?C doc" "bn_ipc ?b = bn_ipc b"
    by (simp_all add: data_ack_set_current_cmd_id_def message_id_def strncpy_text_def c_str_def)
  have clear: "bn_ipc (data_ack_clear_current_cmd_id c) = bn_ipc c" for c :: "'a board"
    by (simp add: data_ack_clear_current_cmd_id_def)
  show ?thesis
    using parsed_replies [OF assms(2,3), of "message_seq ?C doc" ?b ck] assms(1) b clear
    by (simp add: data_command_process_message_def replies_def answered_def split_def Let_def)
qed

end
