(* ===== verification/BoardDrain.thy ===== *)
theory BoardDrain
  imports BoardService
begin

text \<open>
  The rounds of the MQTT thread empty the offline table: while the connection holds and nothing
  but the heartbeat of every 10 s is published, no round makes the backlog larger except by that
  heartbeat, and every round that is due to flush (200 ms after the last flush; the thread polls
  every 20 ms) makes it smaller.
\<close>

definition backlog :: "'v board \<Rightarrow> nat" where
  "backlog b = 2 * length (filter pending (od_rows (oq_db (bn_offline b)))) + queue_count (mw_queue (bn_mqtt b))"

definition sync_idle :: "config_sync \<Rightarrow> bool" where
  "sync_idle s \<longleftrightarrow> \<not> has_active_pending s \<and> filter pq_used (cs_queue s) = []"

definition sending :: "'v board \<Rightarrow> bool" where
  "sending b \<longleftrightarrow> mw_client (bn_mqtt b) \<and> mw_connected (bn_mqtt b) \<and> oq_initialized (bn_offline b)
     \<and> oq_sender (bn_offline b) \<and> oq_flushEnabled (bn_offline b) \<and> od_open (oq_db (bn_offline b))
     \<and> net_ok b \<and> sync_idle (sn_sync b)"

subsection \<open>What stays\<close>

lemma send_calls_all:
  "mw_client (send_calls cs w) = mw_client w \<and> mw_connected (send_calls cs w) = mw_connected w
   \<and> mw_last_heartbeat_ms (send_calls cs w) = mw_last_heartbeat_ms w"
proof (induction cs w rule: send_calls.induct)
  case (2 t p r cs w)
  then show ?case by (simp add: mqtt_send_direct_if_connected_def split_def Let_def)
qed simp

lemmas send_calls_fields [simp] = send_calls_all [THEN conjunct1] send_calls_all [THEN conjunct2, THEN conjunct1]
  send_calls_all [THEN conjunct2, THEN conjunct2]

lemma flush_rows_flags [simp]:
  "oq_initialized (flush_rows E link now ms q) = oq_initialized q"
  "oq_sender (flush_rows E link now ms q) = oq_sender q"
  "oq_flushEnabled (flush_rows E link now ms q) = oq_flushEnabled q"
  "od_open (oq_db (flush_rows E link now ms q)) = od_open (oq_db q)"
  by (induction ms arbitrary: q)
    (simp_all add: call_sender_def od_remove_def od_markSendFailed_def od_execSql_def Let_def split_def)

lemma flush_flags [simp]:
  "oq_initialized (oq_flushToMqttOnce E link now q) = oq_initialized q"
  "oq_sender (oq_flushToMqttOnce E link now q) = oq_sender q"
  "oq_flushEnabled (oq_flushToMqttOnce E link now q) = oq_flushEnabled q"
  "od_open (oq_db (oq_flushToMqttOnce E link now q)) = od_open (oq_db q)"
  by (simp_all add: oq_flushToMqttOnce_def od_loadPending_def split_def Let_def)

lemma flush_kept:
  fixes b :: "'v board" and S :: sqlite and now :: int
  defines "b' \<equiv> net_flush_once S now b"
  shows "sending b \<Longrightarrow> sending b'" "mw_last_heartbeat_ms (bn_mqtt b') = mw_last_heartbeat_ms (bn_mqtt b)"
proof -
  have "net_ok b \<Longrightarrow> net_ok b'" using quiet_flush [of b S now] by (simp add: quiet_def b'_def)
  then show "sending b \<Longrightarrow> sending b'"
    by (simp add: sending_def b'_def net_flush_once_def with_sender_def split_def Let_def)
  show "mw_last_heartbeat_ms (bn_mqtt b') = mw_last_heartbeat_ms (bn_mqtt b)"
    by (simp add: b'_def net_flush_once_def with_sender_def split_def Let_def)
qed

subsection \<open>Pending rows\<close>

lemma pending_marked: "pending (mark_failed now r) \<Longrightarrow> pending r"
  by (auto simp: pending_def mark_failed_def split: if_splits)

lemma after_flush_pending:
  assumes "distinct (map or_id rows)" "set ms \<subseteq> set (filter pending rows)" "distinct ms" "k \<le> length ms"
  shows "length (filter pending (after_flush now ms k rows)) + k \<le> length (filter pending rows)"
proof -
  define gone where "gone = or_id ` set (take k ms)"
  have "inj_on or_id (set rows)" using assms(1) by (simp add: distinct_map)
  then have inj: "or_id r \<in> gone \<longleftrightarrow> r \<in> set (take k ms)" if "r \<in> set rows" for r
    using that assms(2) set_take_subset [of k ms] unfolding gone_def by (auto dest: inj_onD)
  have "length (filter pending (after_flush now ms k rows)) \<le> length (filter pending (filter (\<lambda>r. or_id r \<notin> gone) rows))"
    unfolding after_flush_def gone_def [symmetric]
    by (induction rows) (auto dest: pending_marked)
  also have "\<dots> + k = length (filter pending rows)"
  proof -
    have d: "distinct (filter pending rows)" using assms(1) by (simp add: distinct_map)
    have "set (filter (\<lambda>r. or_id r \<in> gone) (filter pending rows)) = set (take k ms)"
      using inj assms(2) set_take_subset [of k ms] by auto
    then have "length (filter (\<lambda>r. or_id r \<in> gone) (filter pending rows)) = k"
      using d assms(3,4) by (metis distinct_card distinct_filter distinct_take length_take min_absorb2)
    moreover have "filter pending (filter (\<lambda>r. or_id r \<notin> gone) rows) = filter (\<lambda>r. or_id r \<notin> gone) (filter pending rows)"
      by (simp add: conj_commute)
    ultimately show ?thesis using sum_length_filter_compl [of "\<lambda>r. or_id r \<in> gone" "filter pending rows"] by simp
  qed
  finally show ?thesis by simp
qed

lemma batch_pending:
  assumes "sql_engine E" "distinct (map or_id (od_rows db))"
  shows "set (batch E db) \<subseteq> set (filter pending (od_rows db))" "distinct (batch E db)"
    "length (batch E db) = min 50 (length (filter pending (od_rows db)))"
proof -
  have m: "mset (sq_pending E (filter pending (od_rows db))) = mset (filter pending (od_rows db))"
    by (rule sql_engine.pending_mset [OF assms(1)])
  then have "set (sq_pending E (filter pending (od_rows db))) = set (filter pending (od_rows db))" by (rule mset_eq_setD)
  then show "set (batch E db) \<subseteq> set (filter pending (od_rows db))"
    unfolding batch_def using set_take_subset by fastforce
  have "distinct (filter pending (od_rows db))" using assms(2) by (simp add: distinct_map)
  then have "distinct (sq_pending E (filter pending (od_rows db)))" using mset_eq_imp_distinct_iff [OF m] by simp
  then show "distinct (batch E db)" by (simp add: batch_def)
  show "length (batch E db) = min 50 (length (filter pending (od_rows db)))"
    using mset_eq_length [OF m] by (simp add: batch_def)
qed

subsection \<open>A round\<close>

definition sql_works :: "sqlite \<Rightarrow> bool" where
  "sql_works S \<longleftrightarrow> sql_engine S \<and> (\<forall>i. sq_ok S i) \<and> (\<forall>i. sq_fetch S i = None)"

lemma flush_backlog:
  assumes "sql_works S" "sending b"
  shows "backlog (net_flush_once S now b) \<le> backlog b"
    "0 < length (filter pending (od_rows (oq_db (bn_offline b)))) \<Longrightarrow> queue_count (mw_queue (bn_mqtt b)) < 31
       \<Longrightarrow> backlog (net_flush_once S now b) < backlog b"
proof -
  define db where "db = oq_db (bn_offline b)"
  define c where "c = queue_count (mw_queue (bn_mqtt b))"
  define k where "k = min (length (batch S db)) (31 - c)"
  define P where "P = length (filter pending (od_rows db))"
  have s: "ring_wf (mw_queue (bn_mqtt b))" "distinct (map or_id (od_rows db))"
    using assms(2) by (simp_all add: sending_def net_ok_def store_wf_def db_def)
  note bp = batch_pending [of S db, OF _ s(2)]
  have f: "od_rows (oq_db (bn_offline (net_flush_once S now b))) = after_flush now (batch S db) k (od_rows db)"
    "queue_items (mw_queue (bn_mqtt (net_flush_once S now b)))
      = queue_items (mw_queue (bn_mqtt b)) @ map (\<lambda>r. new_item (or_topic r) (or_payload r)) (take k (batch S db))"
    using flush_into_ring [of S b now] assms s(1)
    by (simp_all add: sql_works_def sending_def Let_def k_def c_def db_def)
  have "queue_count (mw_queue (bn_mqtt (net_flush_once S now b))) = c + k"
    using arg_cong [OF f(2), of length] by (simp add: c_def k_def)
  moreover have "length (filter pending (after_flush now (batch S db) k (od_rows db))) + k \<le> P"
    unfolding P_def using assms(1) bp(1,2)
    by (intro after_flush_pending s(2)) (simp_all add: sql_works_def, simp add: k_def)
  ultimately have le: "backlog (net_flush_once S now b) + k \<le> 2 * P + c"
    by (simp add: backlog_def f(1))
  have b: "backlog b = 2 * P + c" by (simp add: backlog_def P_def c_def db_def)
  show "backlog (net_flush_once S now b) \<le> backlog b" using le b by simp
  assume "0 < length (filter pending (od_rows (oq_db (bn_offline b))))" "queue_count (mw_queue (bn_mqtt b)) < 31"
  then have "0 < k" using bp(3) assms(1) by (simp add: k_def c_def db_def sql_works_def)
  then show "backlog (net_flush_once S now b) < backlog b" using le b by simp
qed

text \<open>What is due in a round of the thread.\<close>

definition heartbeat_due :: "clock \<Rightarrow> 'v board \<Rightarrow> bool" where
  "heartbeat_due ck b \<longleftrightarrow> mw_last_heartbeat_ms (bn_mqtt b) = 0
     \<or> ck_now ck - mw_last_heartbeat_ms (bn_mqtt b) \<ge> MQTT_GATEWAY_HEARTBEAT_MS"

definition flush_due :: "clock \<Rightarrow> 'v board \<Rightarrow> bool" where
  "flush_due ck b \<longleftrightarrow> ck_now ck - mw_last_flush_ms (bn_mqtt b) \<ge> 200"

lemma idle_tick: "sync_idle (sn_sync n) \<Longrightarrow> data_config_sync_tick E now n = n"
proof -
  assume i: "sync_idle (sn_sync n)"
  then have "first_index pq_used (cs_queue (sn_sync n)) = None"
    by (auto simp: first_index_None sync_idle_def filter_empty_conv)
  then show ?thesis
    using i by (simp add: data_config_sync_tick_def promote_next_pending_def sync_idle_def Let_def)
qed

text \<open>A heartbeat puts at most one message into the ring and is never stored.\<close>

lemma one_push:
  assumes "ring_wf q"
  shows "queue_count (snd (queue_push t p q)) \<le> Suc (queue_count q)"
proof (cases "queue_count q < 31")
  case True
  from push_room [OF assms this, of t p] show ?thesis by (auto simp flip: count_items)
next
  case False
  then have "queue_full q" using full_count [OF assms] count_bound [OF assms] by simp
  then show ?thesis by (simp add: queue_push_def)
qed

lemma publish_unstored:
  fixes n :: "'a board_net_scheme" and S :: sqlite and now :: int and topic json :: string
  assumes "ring_wf (mw_queue (bn_mqtt n))" "\<not> fst (shouldCache (toPublishMeta (Some m)) (oq_policy (bn_offline n)))"
  defines "n' \<equiv> snd (net_publish_or_cache S now (Some topic) (Some json) (Some m) n)"
  shows "oq_db (bn_offline n') = oq_db (bn_offline n)"
    "oq_initialized (bn_offline n') = oq_initialized (bn_offline n)" "oq_sender (bn_offline n') = oq_sender (bn_offline n)"
    "oq_flushEnabled (bn_offline n') = oq_flushEnabled (bn_offline n)"
    "queue_count (mw_queue (bn_mqtt n')) \<le> Suc (queue_count (mw_queue (bn_mqtt n)))"
    "mw_client (bn_mqtt n') = mw_client (bn_mqtt n)" "mw_connected (bn_mqtt n') = mw_connected (bn_mqtt n)"
    "mw_last_flush_ms (bn_mqtt n') = mw_last_flush_ms (bn_mqtt n)"
  using assms(2) one_push [OF assms(1)]
  by (simp_all add: n'_def net_publish_or_cache_def with_sender_def offline_publish_or_cache_def oq_publishOrCache_def
      call_sender_def oq_cacheMessage_def mqtt_send_direct_if_connected_def Let_def split_def)

lemma heartbeat_round:
  fixes W :: "'v board_world" and ck :: clock and b :: "'v board"
  defines "b' \<equiv> mqtt_heartbeat W ck b"
  assumes "sending b"
  shows "sending b'" "mw_last_flush_ms (bn_mqtt b') = mw_last_flush_ms (bn_mqtt b)"
    "mw_last_heartbeat_ms (bn_mqtt b') = (if heartbeat_due ck b then ck_now ck else mw_last_heartbeat_ms (bn_mqtt b))"
    "backlog b' \<le> backlog b + (if heartbeat_due ck b then 1 else 0)"
proof -
  have ok: "net_ok b'" using quiet_heartbeat [of b W ck] assms(2) by (simp add: quiet_def sending_def b'_def)
  have all: "sending b' \<and> mw_last_flush_ms (bn_mqtt b') = mw_last_flush_ms (bn_mqtt b)
      \<and> mw_last_heartbeat_ms (bn_mqtt b') = (if heartbeat_due ck b then ck_now ck else mw_last_heartbeat_ms (bn_mqtt b))
      \<and> backlog b' \<le> backlog b + (if heartbeat_due ck b then 1 else 0)"
  proof (cases "heartbeat_due ck b")
    case False
    then have "b' = b" by (simp add: b'_def mqtt_heartbeat_def heartbeat_due_def Let_def)
    then show ?thesis
      using assms(2) False by simp
  next
    case True
    define g where "g = snd (gateway_seq b)"
    define m where "m = fill_base_meta ''gateway_heartbeat'' 0 (ck_now ck) (ck_now ck)"
    have g: "bn_offline g = bn_offline b" "mw_queue (bn_mqtt g) = mw_queue (bn_mqtt b)" "sn_sync g = sn_sync b"
      "mw_client (bn_mqtt g) = mw_client (bn_mqtt b)" "mw_connected (bn_mqtt g) = mw_connected (bn_mqtt b)"
      "mw_last_flush_ms (bn_mqtt g) = mw_last_flush_ms (bn_mqtt b)"
      by (simp_all add: g_def gateway_seq_def next_gateway_seq_def Let_def)
    obtain json where b': "b' = (let n = snd (net_publish_or_cache (ne_sql (net_of W)) (ck_now ck)
        (Some MQTT_DEFAULT_PUBLISH_TOPIC) (Some json) (Some m) g)
        in n\<lparr>bn_mqtt := (bn_mqtt n)\<lparr>mw_last_heartbeat_ms := ck_now ck\<rparr>\<rparr>)"
      using True by (auto simp: b'_def mqtt_heartbeat_def heartbeat_due_def g_def m_def data_publish_gateway_heartbeat_def
          publish_json_to_mqtt_topic_with_meta_def split_def Let_def)
    have "\<not> fst (shouldCache (toPublishMeta (Some m)) (oq_policy (bn_offline g)))"
      by (simp add: m_def fill_base_meta_def toPublishMeta_def safeString_def shouldCache_def)
    note u = publish_unstored [OF _ this, of "ne_sql (net_of W)" "ck_now ck" MQTT_DEFAULT_PUBLISH_TOPIC json, unfolded g]
    show ?thesis
      using u assms(2) ok True by (simp add: b' Let_def sending_def net_ok_def g backlog_def)
  qed
  then show "sending b'" "mw_last_flush_ms (bn_mqtt b') = mw_last_flush_ms (bn_mqtt b)"
    "mw_last_heartbeat_ms (bn_mqtt b') = (if heartbeat_due ck b then ck_now ck else mw_last_heartbeat_ms (bn_mqtt b))"
    "backlog b' \<le> backlog b + (if heartbeat_due ck b then 1 else 0)"
    by simp_all
qed

subsection \<open>Any schedule of rounds\<close>

lemma poll_round:
  fixes W :: "'v board_world" and ck :: clock and b :: "'v board" and ret :: int
  defines "b' \<equiv> snd (mqtt_poll W ck ret b)" and "h \<equiv> (if heartbeat_due ck b then 1 else 0 :: nat)"
  assumes "sql_works (ne_sql W)" "sending b"
  shows "sending b'"
    "mw_last_heartbeat_ms (bn_mqtt b') = (if heartbeat_due ck b then ck_now ck else mw_last_heartbeat_ms (bn_mqtt b))"
    "mw_last_flush_ms (bn_mqtt b') = (if flush_due ck b then ck_now ck else mw_last_flush_ms (bn_mqtt b))"
    "backlog b' \<le> backlog b + h - (if flush_due ck b then 1 else 0)"
proof -
  define b0 where "b0 = b\<lparr>bn_mqtt := (bn_mqtt b)\<lparr>mw_subscribed := True\<rparr>\<rparr>"
  have b0: "sending b0" "backlog b0 = backlog b" "mw_last_flush_ms (bn_mqtt b0) = mw_last_flush_ms (bn_mqtt b)"
    "mw_last_heartbeat_ms (bn_mqtt b0) = mw_last_heartbeat_ms (bn_mqtt b)" "heartbeat_due ck b0 = heartbeat_due ck b"
    using assms(4) by (simp_all add: b0_def sending_def net_ok_def backlog_def heartbeat_due_def)
  define c where "c = mqtt_heartbeat W ck b0"
  note c = heartbeat_round [OF b0(1), of W ck, folded c_def, unfolded b0]
  define q where "q = mw_queue (bn_mqtt c)"
  define p where "p = c\<lparr>bn_mqtt := (bn_mqtt c)\<lparr>mw_queue := snd (queue_pop q)\<rparr>\<rparr>"
  have ring: "ring_wf q" using c(1) by (simp add: sending_def net_ok_def q_def)
  have p: "sending p" "mw_last_heartbeat_ms (bn_mqtt p) = mw_last_heartbeat_ms (bn_mqtt c)"
      "mw_last_flush_ms (bn_mqtt p) = mw_last_flush_ms (bn_mqtt b)"
    using c(1,2) pop_ring [OF ring] by (simp_all add: sending_def net_ok_def p_def)
  have pop: "queue_count (snd (queue_pop q)) = queue_count q - 1"
    by (cases rule: ring.get_cases [OF ring]) (simp_all flip: count_items)
  have pb: "backlog p = backlog c - (if queue_count q = 0 then 0 else 1)" "queue_count (mw_queue (bn_mqtt p)) < 31"
    "od_rows (oq_db (bn_offline p)) = od_rows (oq_db (bn_offline c))"
    using pop count_bound [OF ring] by (auto simp: backlog_def p_def q_def)
  have poll: "b' = data_config_sync_tick (net_of W) (ck_now ck) (mqtt_timed_flush W ck p)"
    using assms(4) by (simp add: b'_def mqtt_poll_def sending_def split_def Let_def c_def b0_def p_def q_def)
  define r where "r = mqtt_timed_flush W ck p"
  have due: "flush_due ck p = flush_due ck b" by (simp add: flush_due_def p(3))
  have r: "sending r \<and> mw_last_heartbeat_ms (bn_mqtt r) = mw_last_heartbeat_ms (bn_mqtt p)
    \<and> mw_last_flush_ms (bn_mqtt r) = (if flush_due ck b then ck_now ck else mw_last_flush_ms (bn_mqtt b))
    \<and> backlog r \<le> backlog c - (if flush_due ck b then 1 else 0)"
  proof (cases "flush_due ck b")
    case False
    then have "r = p" using due by (simp add: r_def mqtt_timed_flush_def flush_due_def)
    then show ?thesis using p False pb(1) by simp
  next
    case True
    define f where "f = net_flush_once (ne_sql W) (ck_now ck) p"
    note fk = flush_kept(1) [OF p(1), of "ne_sql W" "ck_now ck", folded f_def]
      flush_kept(2) [of "ne_sql W" "ck_now ck" p, folded f_def]
    have rf: "r = f\<lparr>bn_mqtt := (bn_mqtt f)\<lparr>mw_last_flush_ms := ck_now ck\<rparr>\<rparr>"
      using True due p(1) by (simp add: r_def mqtt_timed_flush_def flush_due_def sending_def
          mqtt_offline_cache_flush_enabled_def f_def Let_def)
    have "backlog f \<le> backlog c - 1"
    proof (cases "queue_count q = 0 \<and> filter pending (od_rows (oq_db (bn_offline c))) \<noteq> []")
      case True
      then have "0 < length (filter pending (od_rows (oq_db (bn_offline p))))" by (simp add: pb(3))
      then show ?thesis using flush_backlog(2) [OF assms(3) p(1) _ pb(2), of "ck_now ck"] pb(1) True by (simp add: f_def)
    next
      case False
      then have "backlog c = 0 \<or> queue_count q \<noteq> 0" by (auto simp: backlog_def q_def)
      then show ?thesis using flush_backlog(1) [OF assms(3) p(1), of "ck_now ck"] pb(1) by (auto simp: f_def)
    qed
    then show ?thesis using fk True by (simp add: rf sending_def net_ok_def backlog_def)
  qed
  have "data_config_sync_tick (net_of W) (ck_now ck) r = r" using r by (intro idle_tick) (simp add: sending_def)
  then have same: "b' = r" by (simp add: poll r_def)
  show "sending b'"
    "mw_last_heartbeat_ms (bn_mqtt b') = (if heartbeat_due ck b then ck_now ck else mw_last_heartbeat_ms (bn_mqtt b))"
    "mw_last_flush_ms (bn_mqtt b') = (if flush_due ck b then ck_now ck else mw_last_flush_ms (bn_mqtt b))"
    using r p(2) c(3) by (simp_all add: same)
  show "backlog b' \<le> backlog b + h - (if flush_due ck b then 1 else 0)"
    using r c(4) by (simp add: same h_def split: if_splits)
qed

definition poll_rounds :: "'v board_world \<Rightarrow> clock list \<Rightarrow> 'v board \<Rightarrow> 'v board" where
  "poll_rounds W cks b = fold (\<lambda>ck b. snd (mqtt_poll W ck 0 b)) cks b"

text \<open>What is left after rounds at the given times: a heartbeat adds one message, a flush takes one
  off.  The times of the last heartbeat and the last flush are carried along.\<close>

fun left_after :: "int \<Rightarrow> int \<Rightarrow> clock list \<Rightarrow> nat \<Rightarrow> nat" where
  "left_after beat flush [] n = n"
| "left_after beat flush (ck # cks) n =
     (let beats = (beat = 0 \<or> ck_now ck - beat \<ge> 10000); flushes = (ck_now ck - flush \<ge> 200)
      in left_after (if beats then ck_now ck else beat) (if flushes then ck_now ck else flush) cks
           (n + (if beats then 1 else 0) - (if flushes then 1 else 0)))"

lemma left_after_mono: "m \<le> n \<Longrightarrow> left_after beat flush cks m \<le> left_after beat flush cks n"
  by (induction cks arbitrary: beat flush m n) (auto simp: Let_def)

lemma rounds_shrink:
  assumes "sql_works (ne_sql W)" "sending b"
  shows "sending (poll_rounds W cks b) \<and> backlog (poll_rounds W cks b)
    \<le> left_after (mw_last_heartbeat_ms (bn_mqtt b)) (mw_last_flush_ms (bn_mqtt b)) cks (backlog b)"
  using assms(2)
proof (induction cks arbitrary: b)
  case Nil
  then show ?case by (simp add: poll_rounds_def)
next
  case (Cons ck cks)
  let ?b = "snd (mqtt_poll W ck 0 b)"
  note r = poll_round [OF assms(1) Cons.prems, of ck 0]
  have "sending (poll_rounds W cks ?b) \<and> backlog (poll_rounds W cks ?b)
      \<le> left_after (mw_last_heartbeat_ms (bn_mqtt ?b)) (mw_last_flush_ms (bn_mqtt ?b)) cks (backlog ?b)"
    using r(1) by (rule Cons.IH)
  moreover have "left_after (mw_last_heartbeat_ms (bn_mqtt ?b)) (mw_last_flush_ms (bn_mqtt ?b)) cks (backlog ?b)
      \<le> left_after (mw_last_heartbeat_ms (bn_mqtt b)) (mw_last_flush_ms (bn_mqtt b)) (ck # cks) (backlog b)"
    using left_after_mono [OF r(4)] by (simp add: r(2,3) heartbeat_due_def flush_due_def MQTT_GATEWAY_HEARTBEAT_MS_def Let_def)
  ultimately show ?case by (auto simp: poll_rounds_def)
qed

end
