(* ===== verification/PcTables.thy ===== *)
theory PcTables
  imports DataModel "HOL-Library.List_Lexorder" "HOL-Library.Char_ord" "HOL-Library.Product_Lexorder"
begin

text \<open>
  The database of Pc_data: the tables of Pc_data/storage/DatabaseSchema.cpp and the calls
  into SQLite that Pc_data/storage/PcDatabase.cpp makes.  A table is the list of its rows, a
  row a record of the columns the code writes or reads (row ids that nothing reads are left
  out).  A statement is its effect on the tables.  What SQLite leaves open is a parameter:
  \<open>de_ok E n\<close> tells whether the n-th statement succeeds, \<open>de_fetch E n\<close> how many rows the n-th
  query delivers before it breaks off (\<open>None\<close>: all of them), \<open>de_undo E n\<close> whether a failure of
  the n-th statement rolls an open transaction back, and \<open>de_points\<close>, \<open>de_configs\<close>
  and \<open>de_commands\<close> in which order rows come out where the code gives no order.
  \<open>pd_tick\<close> counts the statements.  Text is bound with \<open>c_str()\<close>, so a stored text ends
  before the first NUL; a bound NaN is NULL, as SQLite documents; a NULL text reads as the
  empty text and a NULL number as 0.

  A statement that fails leaves the tables as they are.  Most failures also leave an open
  transaction open; with some (disk full, I/O error, out of memory, an interrupt) SQLite rolls it
  back by itself and is in autocommit mode again, so that the statements that follow are each
  written at once.  Both are modelled (\<open>db_failed\<close>); \<open>undoes_none E\<close> says that the second does not happen.
\<close>

subsection \<open>Rows\<close>

text \<open>The tables \<open>gateway_registry\<close>, \<open>gateway_status\<close> and \<open>gateway_port\<close> have the columns of the
  structs \<open>GatewayRegistry\<close>, \<open>GatewayStatus\<close> and \<open>GatewayPort\<close>, \<open>point_config\<close> those of
  \<open>PointConfig\<close>, \<open>latest_point\<close> and \<open>telemetry_history\<close> those of \<open>TelemetryPoint\<close> except the
  receive time.\<close>

record CommandRow =
  cl_commandId :: string
  cl_seq :: int
  cl_commandType :: string
  cl_gatewayId :: string
  cl_portId :: string
  cl_deviceId :: int
  cl_status :: string
  cl_reason :: string
  cl_message :: string
  cl_createTimeMs :: int
  cl_sendTimeMs :: int
  cl_finishTimeMs :: int

record DeviceRow =
  dt_factoryId :: string
  dt_factoryName :: string
  dt_areaId :: string
  dt_areaName :: string
  dt_gatewayId :: string
  dt_gatewayName :: string
  dt_portId :: string
  dt_portName :: string
  dt_deviceId :: int
  dt_deviceName :: string
  dt_deviceType :: string
  dt_pollIntervalMs :: int
  dt_expectTelemetry :: bool
  dt_enabled :: bool
  dt_deleted :: bool
  dt_deletedTimeMs :: int
  dt_status :: string
  dt_createTimeMs :: int
  dt_updateTimeMs :: int

record DeviceStatusRow =
  ds_gatewayId :: string
  ds_portId :: string
  ds_deviceId :: int
  ds_status :: string
  ds_lastSeenMs :: int
  ds_lastOfflineMs :: int
  ds_statusReason :: string
  ds_updateTimeMs :: int

record AlarmRow =
  al_id :: int
  al_pointId :: string
  al_factoryId :: string
  al_factoryName :: string
  al_areaId :: string
  al_areaName :: string
  al_gatewayId :: string
  al_gatewayName :: string
  al_portId :: string
  al_portName :: string
  al_deviceId :: int
  al_deviceName :: string
  al_deviceType :: string
  al_pointKey :: string
  al_pointName :: string
  al_type :: string
  al_level :: string
  al_message :: string
  al_startTimeMs :: int
  al_recoverTimeMs :: int
  al_ackTimeMs :: int
  al_status :: string
  al_state :: string
  al_acked :: bool
  al_value :: fval
  al_threshold :: fval
  al_error :: string

record PcTables =
  tb_registry :: "GatewayRegistry list"
  tb_status :: "GatewayStatus list"
  tb_port :: "GatewayPort list"
  tb_command :: "CommandRow list"
  tb_device :: "DeviceRow list"
  tb_device_status :: "DeviceStatusRow list"
  tb_config :: "PointConfig list"
  tb_latest :: "TelemetryPoint list"
  tb_history :: "TelemetryPoint list"
  tb_alarm :: "AlarmRow list"
  tb_nextAlarm :: int

definition PcTables_empty :: PcTables where
  "PcTables_empty = \<lparr>tb_registry = [], tb_status = [], tb_port = [], tb_command = [], tb_device = [],
     tb_device_status = [], tb_config = [], tb_latest = [], tb_history = [], tb_alarm = [], tb_nextAlarm = 1\<rparr>"

subsection \<open>The structs of PcDatabase.hpp\<close>

record ConfigSnapshotDevice =
  csd_device :: DeviceRecord
  csd_thresholdConfigJson :: string
  csd_thresholdEnabled :: bool

record DbSelectedDevice =
  sel_portId :: string
  sel_deviceId :: int

record AlarmEvent =
  ae_alarmId :: string
  ae_timestampMs :: int
  ae_ackTimeMs :: int
  ae_recoverTimeMs :: int
  ae_factoryId :: string
  ae_factoryName :: string
  ae_areaId :: string
  ae_areaName :: string
  ae_gatewayId :: string
  ae_gatewayName :: string
  ae_portId :: string
  ae_portName :: string
  ae_deviceId :: int
  ae_deviceName :: string
  ae_deviceType :: string
  ae_pointKey :: string
  ae_pointName :: string
  ae_alarmType :: string
  ae_level :: string
  ae_state :: string
  ae_value :: fval
  ae_threshold :: fval
  ae_message :: string

definition AlarmEvent_default :: AlarmEvent where
  "AlarmEvent_default =
    \<lparr>ae_alarmId = [], ae_timestampMs = 0, ae_ackTimeMs = 0, ae_recoverTimeMs = 0, ae_factoryId = [],
     ae_factoryName = [], ae_areaId = [], ae_areaName = [], ae_gatewayId = [], ae_gatewayName = [],
     ae_portId = [], ae_portName = [], ae_deviceId = 0, ae_deviceName = [], ae_deviceType = [],
     ae_pointKey = [], ae_pointName = [], ae_alarmType = [], ae_level = [], ae_state = [],
     ae_value = Fin 0, ae_threshold = Fin 0, ae_message = []\<rparr>"

record CommandLogTarget =
  lt_commandId :: string
  lt_seq :: int
  lt_commandType :: string
  lt_gatewayId :: string
  lt_portId :: string
  lt_deviceId :: int

subsection \<open>The engine\<close>

record db_engine =
  de_ok :: "nat \<Rightarrow> bool"
  de_fetch :: "nat \<Rightarrow> nat option"
  de_undo :: "nat \<Rightarrow> bool"
  de_points :: "nat \<Rightarrow> TelemetryPoint list \<Rightarrow> TelemetryPoint list"
  de_configs :: "nat \<Rightarrow> PointConfig list \<Rightarrow> PointConfig list"
  de_commands :: "nat \<Rightarrow> CommandRow list \<Rightarrow> CommandRow list"

text \<open>\<open>pd_saved\<close> holds the tables as they were at \<open>BEGIN\<close> while a transaction is open.\<close>

record PcDatabase =
  pd_open :: bool
  pd_tables :: PcTables
  pd_saved :: "PcTables option"
  pd_tick :: nat

locale db_laws =
  fixes E :: db_engine
  assumes points_set: "set (de_points E n ps) = set ps"
    and configs_set: "set (de_configs E n cs) = set cs"
    and commands_set: "set (de_commands E n rs) = set rs"

definition plain_db :: "(nat \<Rightarrow> bool) \<Rightarrow> db_engine" where
  "plain_db ok = \<lparr>de_ok = ok, de_fetch = (\<lambda>_. None), de_undo = (\<lambda>_. False), de_points = (\<lambda>_ ps. ps), de_configs = (\<lambda>_ cs. cs),
     de_commands = (\<lambda>_ rs. rs)\<rparr>"

interpretation plain_engine: db_laws "plain_db ok" for ok
  by unfold_locales (simp_all add: plain_db_def)

lemma plain_db_laws: "db_laws (plain_db ok)"
  by unfold_locales

text \<open>A failing statement: the transaction stays open, or SQLite rolls it back by itself.\<close>

definition undo_tx :: "PcDatabase \<Rightarrow> PcDatabase" where
  "undo_tx db = (case pd_saved db of None \<Rightarrow> db | Some t \<Rightarrow> db\<lparr>pd_tables := t, pd_saved := None\<rparr>)"

definition db_tick :: "PcDatabase \<Rightarrow> PcDatabase" where
  "db_tick db = db\<lparr>pd_tick := Suc (pd_tick db)\<rparr>"

definition db_failed :: "db_engine \<Rightarrow> PcDatabase \<Rightarrow> PcDatabase" where
  "db_failed E db = db_tick (if de_undo E (pd_tick db) then undo_tx db else db)"

definition undoes_none :: "db_engine \<Rightarrow> bool" where
  "undoes_none E \<longleftrightarrow> (\<forall>n. \<not> de_undo E n)"

lemma failed_kept [simp]: "undoes_none E \<Longrightarrow> db_failed E db = db_tick db"
  by (simp add: undoes_none_def db_failed_def)

definition db_stmt :: "db_engine \<Rightarrow> (PcTables \<Rightarrow> PcTables) \<Rightarrow> PcDatabase \<Rightarrow> bool \<times> PcDatabase" where
  "db_stmt E f db =
     (if de_ok E (pd_tick db)
      then (True, db\<lparr>pd_tables := f (pd_tables db), pd_tick := Suc (pd_tick db)\<rparr>)
      else (False, db_failed E db))"

text \<open>The rows a query delivers, and whether it ran to its end; a query that cannot be prepared
  delivers none.\<close>

definition db_query :: "db_engine \<Rightarrow> (PcTables \<Rightarrow> 'r list) \<Rightarrow> PcDatabase \<Rightarrow> (bool \<times> 'r list) \<times> PcDatabase" where
  "db_query E f db =
     (if \<not> de_ok E (pd_tick db) then ((False, []), db_failed E db)
      else case de_fetch E (pd_tick db) of None \<Rightarrow> ((True, f (pd_tables db)), db_tick db)
           | Some k \<Rightarrow> ((False, take k (f (pd_tables db))), db_failed E db))"

text \<open>A lookup takes one step: what would come after the first row is not asked for.\<close>

definition db_lookup :: "db_engine \<Rightarrow> (PcTables \<Rightarrow> 'r list) \<Rightarrow> PcDatabase \<Rightarrow> 'r option \<times> PcDatabase" where
  "db_lookup E f db =
     (let ((_, rows), db') = db_query E f db
      in case rows of [] \<Rightarrow> (None, db') | r # _ \<Rightarrow> (Some r, db_tick db))"

text \<open>Transactions: \<open>BEGIN\<close> fails inside a transaction, \<open>COMMIT\<close> and \<open>ROLLBACK\<close> outside of one; a
  \<open>COMMIT\<close> or \<open>ROLLBACK\<close> that fails leaves the transaction open, unless SQLite rolls it back.\<close>

definition db_begin :: "db_engine \<Rightarrow> PcDatabase \<Rightarrow> bool \<times> PcDatabase" where
  "db_begin E db =
     (if pd_saved db \<noteq> None then (False, db_tick db)
      else if de_ok E (pd_tick db)
      then (True, db\<lparr>pd_saved := Some (pd_tables db), pd_tick := Suc (pd_tick db)\<rparr>)
      else (False, db_failed E db))"

definition db_commit :: "db_engine \<Rightarrow> PcDatabase \<Rightarrow> bool \<times> PcDatabase" where
  "db_commit E db =
     (if pd_saved db = None then (False, db_tick db)
      else if de_ok E (pd_tick db)
      then (True, db\<lparr>pd_saved := None, pd_tick := Suc (pd_tick db)\<rparr>)
      else (False, db_failed E db))"

definition db_rollback :: "db_engine \<Rightarrow> PcDatabase \<Rightarrow> bool \<times> PcDatabase" where
  "db_rollback E db =
     (case pd_saved db of
        Some t \<Rightarrow> if de_ok E (pd_tick db)
          then (True, db\<lparr>pd_tables := t, pd_saved := None, pd_tick := Suc (pd_tick db)\<rparr>)
          else (False, db_failed E db)
      | None \<Rightarrow> (False, db_tick db))"

text \<open>What remains of the database in each case.\<close>

lemma tick_fields [simp]:
  "pd_open (db_tick db) = pd_open db" "pd_tables (db_tick db) = pd_tables db" "pd_saved (db_tick db) = pd_saved db"
  "pd_tick (db_tick db) = Suc (pd_tick db)"
  by (simp_all add: db_tick_def)

lemma undo_fields:
  "pd_open (undo_tx db) = pd_open db" "pd_tick (undo_tx db) = pd_tick db" "pd_saved (undo_tx db) = None"
  "pd_tables (undo_tx db) = (case pd_saved db of None \<Rightarrow> pd_tables db | Some t \<Rightarrow> t)"
  by (simp_all add: undo_tx_def split: option.split)

lemma failed_fields [simp]:
  "pd_open (db_failed E db) = pd_open db" "pd_tick (db_failed E db) = Suc (pd_tick db)"
  by (simp_all add: db_failed_def undo_fields)

lemma failed_outside [simp]:
  "pd_saved db = None \<Longrightarrow> pd_tables (db_failed E db) = pd_tables db"
  "pd_saved db = None \<Longrightarrow> pd_saved (db_failed E db) = None"
  by (simp_all add: db_failed_def undo_tx_def)

lemma failed_inside:
  "pd_saved db = Some t \<Longrightarrow> (pd_saved (db_failed E db) = None \<and> pd_tables (db_failed E db) = t)
     \<or> (pd_saved (db_failed E db) = Some t \<and> pd_tables (db_failed E db) = pd_tables db)"
  by (simp add: db_failed_def undo_tx_def)

text \<open>The end of every transaction of the source.\<close>

definition db_finish :: "db_engine \<Rightarrow> bool \<Rightarrow> PcDatabase \<Rightarrow> bool \<times> PcDatabase" where
  "db_finish E ok db = (if ok then db_commit E db else (False, snd (db_rollback E db)))"

subsection \<open>Statements on a table\<close>

text \<open>\<open>INSERT ... ON CONFLICT DO UPDATE\<close> and \<open>REPLACE\<close>.\<close>

definition upsert :: "('r \<Rightarrow> 'k) \<Rightarrow> ('r \<Rightarrow> 'r \<Rightarrow> 'r) \<Rightarrow> 'r \<Rightarrow> 'r list \<Rightarrow> 'r list" where
  "upsert key merge new rows =
     (if key new \<in> key ` set rows then map (\<lambda>r. if key r = key new then merge r new else r) rows
      else rows @ [new])"

definition replace_row :: "('r \<Rightarrow> 'k) \<Rightarrow> 'r \<Rightarrow> 'r list \<Rightarrow> 'r list" where
  "replace_row key new rows = filter (\<lambda>r. key r \<noteq> key new) rows @ [new]"

type_synonym device_ref = "string \<times> string \<times> int"

definition bind_ref :: "string \<Rightarrow> string \<Rightarrow> int \<Rightarrow> device_ref" where
  "bind_ref g p d = (c_str g, c_str p, d)"

definition row_ref :: "DeviceRow \<Rightarrow> device_ref" where
  "row_ref r = (dt_gatewayId r, dt_portId r, dt_deviceId r)"

definition status_ref :: "DeviceStatusRow \<Rightarrow> device_ref" where
  "status_ref r = (ds_gatewayId r, ds_portId r, ds_deviceId r)"

definition point_ref :: "TelemetryPoint \<Rightarrow> device_ref" where
  "point_ref p = (tp_gatewayId p, tp_portId p, tp_deviceId p)"

definition config_ref :: "PointConfig \<Rightarrow> device_ref" where
  "config_ref c = (pc_gatewayId c, pc_portId c, pc_deviceId c)"

definition alarm_ref :: "AlarmRow \<Rightarrow> device_ref" where
  "alarm_ref r = (al_gatewayId r, al_portId r, al_deviceId r)"

definition device_active :: "DeviceRow \<Rightarrow> bool" where
  "device_active r \<longleftrightarrow> dt_enabled r \<and> \<not> dt_deleted r \<and> dt_status r = ''active''"

definition device_tomb :: "DeviceRow \<Rightarrow> bool" where
  "device_tomb r \<longleftrightarrow> dt_deleted r \<or> dt_status r = ''deleted''"

fun sql_double :: "fval \<Rightarrow> fval option" where
  "sql_double NaN = None"
| "sql_double x = Some x"

definition real_column :: "fval \<Rightarrow> fval" where
  "real_column x = (case sql_double x of None \<Rightarrow> Fin 0 | Some y \<Rightarrow> y)"

definition point_row :: "TelemetryPoint \<Rightarrow> TelemetryPoint" where
  "point_row p =
    \<lparr>tp_timestampMs = tp_timestampMs p, tp_receiveTimeMs = 0, tp_factoryId = c_str (tp_factoryId p),
     tp_factoryName = c_str (tp_factoryName p), tp_areaId = c_str (tp_areaId p),
     tp_areaName = c_str (tp_areaName p), tp_gatewayId = c_str (tp_gatewayId p),
     tp_gatewayName = c_str (tp_gatewayName p), tp_portId = c_str (tp_portId p),
     tp_portName = c_str (tp_portName p), tp_deviceId = tp_deviceId p,
     tp_deviceName = c_str (tp_deviceName p), tp_deviceType = c_str (tp_deviceType p),
     tp_pointId = c_str (tp_pointId p), tp_pointKey = c_str (tp_pointKey p),
     tp_pointName = c_str (tp_pointName p), tp_unit = c_str (tp_unit p),
     tp_valueType = tp_valueType p, tp_numberValue = real_column (tp_numberValue p),
     tp_textValue = c_str (tp_textValue p), tp_valid = tp_valid p,
     tp_errorMessage = c_str (tp_errorMessage p)\<rparr>"

definition config_row :: "PointConfig \<Rightarrow> PointConfig" where
  "config_row c =
     (let low = (if pc_hasAlarmLow c then sql_double (pc_alarmLow c) else None);
          high = (if pc_hasAlarmHigh c then sql_double (pc_alarmHigh c) else None) in
    \<lparr>pc_pointId = c_str (pc_pointId c), pc_factoryId = c_str (pc_factoryId c),
     pc_factoryName = c_str (pc_factoryName c), pc_areaId = c_str (pc_areaId c),
     pc_areaName = c_str (pc_areaName c), pc_gatewayId = c_str (pc_gatewayId c),
     pc_gatewayName = c_str (pc_gatewayName c), pc_portId = c_str (pc_portId c),
     pc_portName = c_str (pc_portName c), pc_deviceId = pc_deviceId c,
     pc_deviceName = c_str (pc_deviceName c), pc_deviceType = c_str (pc_deviceType c),
     pc_pointKey = c_str (pc_pointKey c), pc_pointName = c_str (pc_pointName c),
     pc_unit = c_str (pc_unit c), pc_valueType = c_str (pc_valueType c),
     pc_enableAlarm = pc_enableAlarm c, pc_hasAlarmLow = (low \<noteq> None),
     pc_alarmLow = (case low of None \<Rightarrow> Fin 0 | Some x \<Rightarrow> x), pc_hasAlarmHigh = (high \<noteq> None),
     pc_alarmHigh = (case high of None \<Rightarrow> Fin 0 | Some x \<Rightarrow> x), pc_enabled = pc_enabled c,
     pc_timestampMs = pc_timestampMs c\<rparr>)"

subsection \<open>Deleting by device and by port\<close>

datatype db_table = T_device_status | T_latest_point | T_point_config | T_telemetry_history | T_alarm_event

fun drop_refs :: "db_table \<Rightarrow> (device_ref \<Rightarrow> bool) \<Rightarrow> PcTables \<Rightarrow> PcTables" where
  "drop_refs T_device_status P t = t\<lparr>tb_device_status := filter (\<lambda>r. \<not> P (status_ref r)) (tb_device_status t)\<rparr>"
| "drop_refs T_latest_point P t = t\<lparr>tb_latest := filter (\<lambda>r. \<not> P (point_ref r)) (tb_latest t)\<rparr>"
| "drop_refs T_point_config P t = t\<lparr>tb_config := filter (\<lambda>r. \<not> P (config_ref r)) (tb_config t)\<rparr>"
| "drop_refs T_telemetry_history P t = t\<lparr>tb_history := filter (\<lambda>r. \<not> P (point_ref r)) (tb_history t)\<rparr>"
| "drop_refs T_alarm_event P t = t\<lparr>tb_alarm := filter (\<lambda>r. \<not> P (alarm_ref r)) (tb_alarm t)\<rparr>"

definition deleteRowsByDevice :: "db_engine \<Rightarrow> db_table \<Rightarrow> string \<Rightarrow> string \<Rightarrow> int \<Rightarrow> PcDatabase \<Rightarrow> bool \<times> PcDatabase" where
  "deleteRowsByDevice E T gatewayId portId deviceId =
     db_stmt E (drop_refs T (\<lambda>k. k = bind_ref gatewayId portId deviceId))"

definition deleteRowsByMaster :: "db_engine \<Rightarrow> db_table \<Rightarrow> string \<Rightarrow> string \<Rightarrow> PcDatabase \<Rightarrow> bool \<times> PcDatabase" where
  "deleteRowsByMaster E T gatewayId portId =
     db_stmt E (drop_refs T (\<lambda>(g, p, d). g = c_str gatewayId \<and> p = c_str portId))"

text \<open>Loops over statements: \<open>db_while\<close> stops at the first failure (\<open>ok = ...; if (!ok) break;\<close> and
  chains of \<open>&&\<close>), \<open>db_each\<close> goes on (\<open>ok = ... && ok\<close>).\<close>

fun db_while :: "('a \<Rightarrow> PcDatabase \<Rightarrow> bool \<times> PcDatabase) \<Rightarrow> 'a list \<Rightarrow> PcDatabase \<Rightarrow> bool \<times> PcDatabase" where
  "db_while op [] db = (True, db)"
| "db_while op (x # xs) db =
     (let (ok, db) = op x db in if ok then db_while op xs db else (False, db))"

fun db_each :: "('a \<Rightarrow> PcDatabase \<Rightarrow> bool \<times> PcDatabase) \<Rightarrow> 'a list \<Rightarrow> PcDatabase \<Rightarrow> bool \<times> PcDatabase" where
  "db_each op [] db = (True, db)"
| "db_each op (x # xs) db =
     (let (ok, db) = op x db; (rest, db) = db_each op xs db in (ok \<and> rest, db))"

end
