(* ===== verification/PcStore.thy ===== *)
theory PcStore
  imports PcTables
begin

text \<open>
  The operations of Pc_data/storage/PcDatabase.cpp, one definition each.  Every operation holds
  the recursive mutex for its whole body, so it is a function on \<open>PcDatabase\<close>; its log
  output is left out.  \<open>now\<close> is the value of \<open>currentTimeMs()\<close>.
\<close>

subsection \<open>Opening\<close>

text \<open>\<open>dir_ok\<close> tells whether the directory exists or could be made, \<open>open_ok\<close> whether
  \<open>sqlite3_open_v2\<close> succeeded; the three pragmas are statements whose results nothing reads.\<close>

definition openDatabase :: "bool \<Rightarrow> bool \<Rightarrow> PcDatabase \<Rightarrow> bool \<times> PcDatabase" where
  "openDatabase dir_ok open_ok db =
     (if pd_open db then (True, db)
      else if \<not> dir_ok then (False, db)
      else if \<not> open_ok then (False, db)
      else (True, db\<lparr>pd_open := True, pd_tick := pd_tick db + 3\<rparr>))"

text \<open>The tables, migrations and indexes leave existing tables as they are.\<close>

definition db_quiet :: "db_engine \<Rightarrow> nat \<Rightarrow> PcDatabase \<Rightarrow> bool \<times> PcDatabase" where
  "db_quiet E _ = db_stmt E (\<lambda>t. t)"

definition initTables :: "db_engine \<Rightarrow> PcDatabase \<Rightarrow> bool \<times> PcDatabase" where
  "initTables E db =
     (if \<not> pd_open db then (False, db)
      else let (ok, db) = db_while (db_quiet E) [0..<10] db in
           if \<not> ok then (False, db)
           else let (_, db) = db_each (db_quiet E) [0..<3] db
                in db_while (db_quiet E) [0..<15] db)"

text \<open>\<open>sqlite3_close\<close> rolls an open transaction back.\<close>

definition db_close :: "PcDatabase \<Rightarrow> PcDatabase" where
  "db_close db =
     (if pd_open db
      then db\<lparr>pd_open := False, pd_saved := None,
              pd_tables := (case pd_saved db of None \<Rightarrow> pd_tables db | Some t \<Rightarrow> t)\<rparr>
      else db)"

subsection \<open>Devices\<close>

definition no_ref :: "string \<Rightarrow> string \<Rightarrow> int \<Rightarrow> bool" where
  "no_ref gatewayId portId deviceId \<longleftrightarrow> gatewayId = [] \<or> portId = [] \<or> deviceId \<le> 0"

definition deviceExists :: "db_engine \<Rightarrow> string \<Rightarrow> string \<Rightarrow> int \<Rightarrow> PcDatabase \<Rightarrow> bool \<times> PcDatabase" where
  "deviceExists E gatewayId portId deviceId db =
     (if \<not> pd_open db \<or> no_ref gatewayId portId deviceId then (False, db)
      else let (r, db) = db_lookup E (\<lambda>t. filter (\<lambda>r. row_ref r = bind_ref gatewayId portId deviceId
             \<and> device_active r) (tb_device t)) db
           in (r \<noteq> None, db))"

definition deviceDeleted :: "db_engine \<Rightarrow> string \<Rightarrow> string \<Rightarrow> int \<Rightarrow> PcDatabase \<Rightarrow> bool \<times> PcDatabase" where
  "deviceDeleted E gatewayId portId deviceId db =
     (if \<not> pd_open db \<or> no_ref gatewayId portId deviceId then (False, db)
      else let (r, db) = db_lookup E (\<lambda>t. filter (\<lambda>r. row_ref r = bind_ref gatewayId portId deviceId
             \<and> device_tomb r) (tb_device t)) db
           in (r \<noteq> None, db))"

definition reactivate_row :: "int \<Rightarrow> DeviceRow \<Rightarrow> DeviceRow" where
  "reactivate_row now r = r\<lparr>dt_deleted := False, dt_deletedTimeMs := 0, dt_status := ''active'',
     dt_enabled := True, dt_updateTimeMs := now\<rparr>"

definition reactivateDeletedDevice ::
    "db_engine \<Rightarrow> int \<Rightarrow> string \<Rightarrow> string \<Rightarrow> int \<Rightarrow> PcDatabase \<Rightarrow> bool \<times> PcDatabase" where
  "reactivateDeletedDevice E now gatewayId portId deviceId db =
     (if \<not> pd_open db \<or> no_ref gatewayId portId deviceId then (False, db)
      else db_stmt E (\<lambda>t. t\<lparr>tb_device := map (\<lambda>r. if row_ref r = bind_ref gatewayId portId deviceId
             then reactivate_row now r else r) (tb_device t)\<rparr>) db)"

definition tomb_row :: "int \<Rightarrow> DeviceRow \<Rightarrow> DeviceRow" where
  "tomb_row t r = r\<lparr>dt_deleted := True, dt_deletedTimeMs := t, dt_status := ''deleted'',
     dt_enabled := False, dt_updateTimeMs := t\<rparr>"

definition markDeviceDeleted ::
    "db_engine \<Rightarrow> string \<Rightarrow> string \<Rightarrow> int \<Rightarrow> int \<Rightarrow> PcDatabase \<Rightarrow> bool \<times> PcDatabase" where
  "markDeviceDeleted E gatewayId portId deviceId deletedTimeMs db =
     (if \<not> pd_open db \<or> no_ref gatewayId portId deviceId then (False, db)
      else db_stmt E (\<lambda>t. t\<lparr>tb_device := map (\<lambda>r. if row_ref r = bind_ref gatewayId portId deviceId
             then tomb_row deletedTimeMs r else r) (tb_device t)\<rparr>) db)"

definition queryDeviceType :: "db_engine \<Rightarrow> string \<Rightarrow> string \<Rightarrow> int \<Rightarrow> PcDatabase \<Rightarrow> string \<times> PcDatabase" where
  "queryDeviceType E gatewayId portId deviceId db =
     (if \<not> pd_open db \<or> no_ref gatewayId portId deviceId then ([], db)
      else let (r, db) = db_lookup E (\<lambda>t. filter (\<lambda>r. row_ref r = bind_ref gatewayId portId deviceId
             \<and> device_active r) (tb_device t)) db
           in (case r of None \<Rightarrow> [] | Some r \<Rightarrow> dt_deviceType r, db))"

definition deviceCount :: "db_engine \<Rightarrow> PcDatabase \<Rightarrow> int \<times> PcDatabase" where
  "deviceCount E db =
     (if \<not> pd_open db then (0, db)
      else let (r, db) = db_lookup E (\<lambda>t. [int (length (tb_device t))]) db
           in (case r of None \<Rightarrow> 0 | Some n \<Rightarrow> n, db))"

definition status_row :: "DeviceRecord \<Rightarrow> DeviceStatusRow" where
  "status_row d =
    \<lparr>ds_gatewayId = c_str (dr_gatewayId d), ds_portId = c_str (dr_portId d), ds_deviceId = dr_deviceId d,
     ds_status = (if dr_status d = [] then ''unknown'' else c_str (dr_status d)),
     ds_lastSeenMs = dr_lastSeenMs d, ds_lastOfflineMs = dr_lastOfflineMs d,
     ds_statusReason = c_str (dr_statusReason d), ds_updateTimeMs = dr_updateTimeMs d\<rparr>"

definition merge_status :: "DeviceStatusRow \<Rightarrow> DeviceStatusRow \<Rightarrow> DeviceStatusRow" where
  "merge_status old new = old
     \<lparr>ds_status := ds_status new,
      ds_lastSeenMs := (if ds_lastSeenMs new > ds_lastSeenMs old then ds_lastSeenMs new else ds_lastSeenMs old),
      ds_lastOfflineMs := ds_lastOfflineMs new, ds_statusReason := ds_statusReason new,
      ds_updateTimeMs := ds_updateTimeMs new\<rparr>"

definition upsertDeviceStatus :: "db_engine \<Rightarrow> DeviceRecord \<Rightarrow> PcDatabase \<Rightarrow> bool \<times> PcDatabase" where
  "upsertDeviceStatus E device db =
     (if \<not> pd_open db \<or> no_ref (dr_gatewayId device) (dr_portId device) (dr_deviceId device) then (False, db)
      else db_stmt E (\<lambda>t. t\<lparr>tb_device_status :=
             upsert status_ref merge_status (status_row device) (tb_device_status t)\<rparr>) db)"

definition device_row :: "DeviceRecord \<Rightarrow> DeviceRow" where
  "device_row d =
     (let nowMs = (if dr_updateTimeMs d > 0 then dr_updateTimeMs d else dr_createTimeMs d) in
    \<lparr>dt_factoryId = c_str (dr_factoryId d), dt_factoryName = c_str (dr_factoryName d),
     dt_areaId = c_str (dr_areaId d), dt_areaName = c_str (dr_areaName d),
     dt_gatewayId = c_str (dr_gatewayId d), dt_gatewayName = c_str (dr_gatewayName d),
     dt_portId = c_str (dr_portId d), dt_portName = c_str (dr_portName d), dt_deviceId = dr_deviceId d,
     dt_deviceName = c_str (dr_deviceName d), dt_deviceType = c_str (dr_deviceType d),
     dt_pollIntervalMs = dr_pollIntervalMs d, dt_expectTelemetry = dr_expectTelemetry d,
     dt_enabled = dr_enabled d, dt_deleted = False, dt_deletedTimeMs = 0, dt_status = ''active'',
     dt_createTimeMs = (if dr_createTimeMs d > 0 then dr_createTimeMs d else nowMs),
     dt_updateTimeMs = nowMs\<rparr>)"

text \<open>On a conflict only the creation time of the old row stays.\<close>

definition merge_device :: "DeviceRow \<Rightarrow> DeviceRow \<Rightarrow> DeviceRow" where
  "merge_device old new = new\<lparr>dt_createTimeMs := dt_createTimeMs old\<rparr>"

definition upsertDevice :: "db_engine \<Rightarrow> DeviceRecord \<Rightarrow> bool \<Rightarrow> PcDatabase \<Rightarrow> bool \<times> PcDatabase" where
  "upsertDevice E device allowDeletedReactivate db =
     (if \<not> pd_open db \<or> no_ref (dr_gatewayId device) (dr_portId device) (dr_deviceId device)
         \<or> dr_deviceType device = [] then (False, db)
      else let (deleted, db) = deviceDeleted E (dr_gatewayId device) (dr_portId device) (dr_deviceId device) db in
           if deleted \<and> \<not> allowDeletedReactivate then (False, db)
           else let (ok, db) = db_begin E db in
                if \<not> ok then (False, db)
                else let (ok, db) = db_stmt E (\<lambda>t. t\<lparr>tb_device :=
                           upsert row_ref merge_device (device_row device) (tb_device t)\<rparr>) db;
                         (ok, db) = (if ok then upsertDeviceStatus E device db else (False, db))
                     in db_finish E ok db)"

definition point_device :: "int \<Rightarrow> TelemetryPoint \<Rightarrow> DeviceRecord" where
  "point_device receiveTimeMs point =
     (let kind = (if tp_deviceType point = [] then ''unknown'' else tp_deviceType point);
          status = (if tp_valid point then ''online''
                    else if tp_errorMessage point = ''device_offline'' then ''offline'' else ''error'')
      in DeviceRecord_default
        \<lparr>dr_factoryId := tp_factoryId point, dr_factoryName := tp_factoryName point,
         dr_areaId := tp_areaId point, dr_areaName := tp_areaName point,
         dr_gatewayId := tp_gatewayId point, dr_gatewayName := tp_gatewayName point,
         dr_portId := tp_portId point, dr_portName := tp_portName point,
         dr_deviceId := tp_deviceId point, dr_deviceName := tp_deviceName point,
         dr_deviceType := kind, dr_pollIntervalMs := 1000, dr_expectTelemetry := (kind \<noteq> ''relay''),
         dr_enabled := True, dr_status := status, dr_lastSeenMs := receiveTimeMs,
         dr_lastOfflineMs := (if status = ''offline'' then receiveTimeMs else 0),
         dr_statusReason := (if tp_valid point then [] else tp_errorMessage point),
         dr_createTimeMs := receiveTimeMs, dr_updateTimeMs := receiveTimeMs\<rparr>)"

definition updateDeviceOnlineFromTelemetry ::
    "db_engine \<Rightarrow> int \<Rightarrow> TelemetryPoint \<Rightarrow> PcDatabase \<Rightarrow> bool \<times> PcDatabase" where
  "updateDeviceOnlineFromTelemetry E now point db =
     (if \<not> pd_open db \<or> no_ref (tp_gatewayId point) (tp_portId point) (tp_deviceId point) then (False, db)
      else let (known, db) = deviceExists E (tp_gatewayId point) (tp_portId point) (tp_deviceId point) db in
           if \<not> known then (True, db)
           else upsertDeviceStatus E (point_device now point) db)"

subsection \<open>Telemetry\<close>

definition saveLatestPoint :: "db_engine \<Rightarrow> TelemetryPoint \<Rightarrow> PcDatabase \<Rightarrow> bool \<times> PcDatabase" where
  "saveLatestPoint E point =
     db_stmt E (\<lambda>t. t\<lparr>tb_latest := upsert tp_pointId (\<lambda>_ new. new) (point_row point) (tb_latest t)\<rparr>)"

definition saveHistoryPoint :: "db_engine \<Rightarrow> TelemetryPoint \<Rightarrow> PcDatabase \<Rightarrow> bool \<times> PcDatabase" where
  "saveHistoryPoint E point = db_stmt E (\<lambda>t. t\<lparr>tb_history := tb_history t @ [point_row point]\<rparr>)"

definition deleteLatestPointsForDevice ::
    "db_engine \<Rightarrow> string \<Rightarrow> string \<Rightarrow> int \<Rightarrow> PcDatabase \<Rightarrow> bool \<times> PcDatabase" where
  "deleteLatestPointsForDevice E gatewayId portId deviceId db =
     (if \<not> pd_open db then (False, db)
      else deleteRowsByDevice E T_latest_point gatewayId portId deviceId db)"

text \<open>The points whose device is known; the others are skipped.\<close>

fun accepted_rows :: "db_engine \<Rightarrow> TelemetryPoint list \<Rightarrow> PcDatabase \<Rightarrow> TelemetryPoint list \<times> PcDatabase" where
  "accepted_rows E [] db = ([], db)"
| "accepted_rows E (point # points) db =
     (if tp_pointId point = [] then accepted_rows E points db
      else let (known, db) = deviceExists E (tp_gatewayId point) (tp_portId point) (tp_deviceId point) db;
               (rest, db) = accepted_rows E points db
           in (if known then point # rest else rest, db))"

text \<open>\<open>incomingDevices\<close>: a \<open>std::map\<close> from the device key to the last point with that key, read in
  the order of the keys.\<close>

fun map_put :: "'k::linorder \<Rightarrow> 'v \<Rightarrow> ('k \<times> 'v) list \<Rightarrow> ('k \<times> 'v) list" where
  "map_put k v [] = [(k, v)]"
| "map_put k v ((k', v') # m) =
     (if k < k' then (k, v) # (k', v') # m else if k = k' then (k, v) # m else (k', v') # map_put k v m)"

definition point_key_text :: "TelemetryPoint \<Rightarrow> string" where
  "point_key_text p = tp_gatewayId p @ ''/'' @ tp_portId p @ ''/'' @ to_string (tp_deviceId p)"

definition incoming_devices :: "TelemetryPoint list \<Rightarrow> TelemetryPoint list" where
  "incoming_devices points = map snd (foldl (\<lambda>m p. map_put (point_key_text p) p m) [] points)"

definition save_point :: "db_engine \<Rightarrow> int \<Rightarrow> TelemetryPoint \<Rightarrow> PcDatabase \<Rightarrow> bool \<times> PcDatabase" where
  "save_point E now point db =
     (let (ok, db) = saveLatestPoint E point db in
      if \<not> ok then (False, db)
      else let (ok, db) = saveHistoryPoint E point db in
           if \<not> ok then (False, db) else updateDeviceOnlineFromTelemetry E now point db)"

definition saveTelemetryPoints :: "db_engine \<Rightarrow> int \<Rightarrow> TelemetryPoint list \<Rightarrow> PcDatabase \<Rightarrow> bool \<times> PcDatabase" where
  "saveTelemetryPoints E now points db =
     (if \<not> pd_open db then (False, db)
      else if points = [] then (True, db)
      else let (ok, db) = db_begin E db in
           if \<not> ok then (False, db)
           else let (accepted, db) = accepted_rows E points db;
                    (ok, db) = db_while (\<lambda>p. deleteLatestPointsForDevice E (tp_gatewayId p) (tp_portId p)
                                  (tp_deviceId p)) (incoming_devices accepted) db;
                    (ok, db) = (if ok then db_while (save_point E now) accepted db else (False, db))
                in db_finish E ok db)"

subsection \<open>Point configurations\<close>

definition savePointConfig :: "db_engine \<Rightarrow> PointConfig \<Rightarrow> PcDatabase \<Rightarrow> bool \<times> PcDatabase" where
  "savePointConfig E config =
     db_stmt E (\<lambda>t. t\<lparr>tb_config := replace_row pc_pointId (config_row config) (tb_config t)\<rparr>)"

definition save_known_config :: "db_engine \<Rightarrow> PointConfig \<Rightarrow> PcDatabase \<Rightarrow> bool \<times> PcDatabase" where
  "save_known_config E config db =
     (if pc_pointId config = [] then (True, db)
      else let (known, db) = deviceExists E (pc_gatewayId config) (pc_portId config) (pc_deviceId config) db in
           if \<not> known then (True, db) else savePointConfig E config db)"

definition savePointConfigs :: "db_engine \<Rightarrow> PointConfig list \<Rightarrow> PcDatabase \<Rightarrow> bool \<times> PcDatabase" where
  "savePointConfigs E configs db =
     (if \<not> pd_open db then (False, db)
      else if configs = [] then (True, db)
      else let (ok, db) = db_begin E db in
           if \<not> ok then (False, db)
           else let (ok, db) = db_while (save_known_config E) configs db in db_finish E ok db)"

definition pointConfigExists ::
    "db_engine \<Rightarrow> string \<Rightarrow> string \<Rightarrow> int \<Rightarrow> string \<Rightarrow> PcDatabase \<Rightarrow> bool \<times> PcDatabase" where
  "pointConfigExists E gatewayId portId deviceId pointKey db =
     (if \<not> pd_open db \<or> no_ref gatewayId portId deviceId \<or> pointKey = [] then (False, db)
      else let (known, db) = deviceExists E gatewayId portId deviceId db in
           if \<not> known then (False, db)
           else let (r, db) = db_lookup E (\<lambda>t. filter (\<lambda>c. config_ref c = bind_ref gatewayId portId deviceId
                      \<and> pc_pointKey c = c_str pointKey) (tb_config t)) db
                in (r \<noteq> None, db))"

end
