(* ===== verification/PcStoreOps.thy ===== *)
theory PcStoreOps
  imports PcStore
begin

text \<open>
  The other operations of Pc_data/storage/PcDatabase.cpp: gateways and ports, the queries that
  read whole tables, the command log, alarms, deletion, and the configuration snapshots that
  are composed of them.
\<close>

subsection \<open>Gateways and ports\<close>

definition nonempty_or :: "string \<Rightarrow> string \<Rightarrow> string" where
  "nonempty_or s d = (if s = [] then d else s)"

definition gateway_row :: "GatewayStatus \<Rightarrow> GatewayStatus" where
  "gateway_row g =
    \<lparr>gs_gatewayId = c_str (gs_gatewayId g), gs_gatewayName = c_str (gs_gatewayName g),
     gs_factoryId = c_str (gs_factoryId g), gs_areaId = c_str (gs_areaId g),
     gs_status = c_str (nonempty_or (gs_status g) ''online''),
     gs_lastRegisterTimeMs = gs_lastRegisterTimeMs g, gs_lastHeartbeatTimeMs = gs_lastHeartbeatTimeMs g,
     gs_updateTimeMs = gs_updateTimeMs g\<rparr>"

definition upsertGatewayStatus :: "db_engine \<Rightarrow> GatewayStatus \<Rightarrow> PcDatabase \<Rightarrow> bool \<times> PcDatabase" where
  "upsertGatewayStatus E gateway db =
     (if \<not> pd_open db \<or> gs_gatewayId gateway = [] then (False, db)
      else db_stmt E (\<lambda>t. t\<lparr>tb_status := upsert gs_gatewayId (\<lambda>_ new. new) (gateway_row gateway) (tb_status t)\<rparr>) db)"

definition registry_row :: "GatewayRegistry \<Rightarrow> GatewayRegistry" where
  "registry_row g =
    \<lparr>gr_gatewayId = c_str (gr_gatewayId g), gr_gatewayName = c_str (gr_gatewayName g),
     gr_status = c_str (nonempty_or (gr_status g) ''online''), gr_upTopic = c_str (gr_upTopic g),
     gr_cmdTopic = c_str (gr_cmdTopic g), gr_broadcastTopic = c_str (gr_broadcastTopic g),
     gr_lastRegisterTimeMs = gr_lastRegisterTimeMs g, gr_lastHeartbeatTimeMs = gr_lastHeartbeatTimeMs g,
     gr_updateTimeMs = gr_updateTimeMs g\<rparr>"

definition upsertGatewayRegistry :: "db_engine \<Rightarrow> GatewayRegistry \<Rightarrow> PcDatabase \<Rightarrow> bool \<times> PcDatabase" where
  "upsertGatewayRegistry E registry db =
     (if \<not> pd_open db \<or> gr_gatewayId registry = [] then (False, db)
      else db_stmt E (\<lambda>t. t\<lparr>tb_registry := upsert gr_gatewayId (\<lambda>_ new. new) (registry_row registry) (tb_registry t)\<rparr>) db)"

definition queryGatewayRegistry :: "db_engine \<Rightarrow> string \<Rightarrow> PcDatabase \<Rightarrow> GatewayRegistry option \<times> PcDatabase" where
  "queryGatewayRegistry E gatewayId db =
     (if \<not> pd_open db \<or> gatewayId = [] then (None, db)
      else db_lookup E (\<lambda>t. filter (\<lambda>r. gr_gatewayId r = c_str gatewayId) (tb_registry t)) db)"

definition queryGatewayCmdTopic :: "db_engine \<Rightarrow> string \<Rightarrow> PcDatabase \<Rightarrow> string \<times> PcDatabase" where
  "queryGatewayCmdTopic E gatewayId db =
     (let (r, db) = queryGatewayRegistry E gatewayId db in
      (case r of None \<Rightarrow> [] | Some r \<Rightarrow> gr_cmdTopic r, db))"

definition queryGatewayUpTopic :: "db_engine \<Rightarrow> string \<Rightarrow> PcDatabase \<Rightarrow> string \<times> PcDatabase" where
  "queryGatewayUpTopic E gatewayId db =
     (let (r, db) = queryGatewayRegistry E gatewayId db in
      (case r of None \<Rightarrow> [] | Some r \<Rightarrow> gr_upTopic r, db))"

definition gatewayRegistryExists :: "db_engine \<Rightarrow> string \<Rightarrow> PcDatabase \<Rightarrow> bool \<times> PcDatabase" where
  "gatewayRegistryExists E gatewayId db =
     (let (r, db) = queryGatewayRegistry E gatewayId db in (r \<noteq> None, db))"

definition getAllGatewayRegistry :: "db_engine \<Rightarrow> PcDatabase \<Rightarrow> GatewayRegistry list \<times> PcDatabase" where
  "getAllGatewayRegistry E db =
     (if \<not> pd_open db then ([], db)
      else let ((_, rows), db) = db_query E (\<lambda>t. sort_key gr_gatewayId (tb_registry t)) db in (rows, db))"

text \<open>The heartbeat's own time stamp is ignored; \<open>now\<close> is stored.\<close>

definition updateGatewayRegistryHeartbeat ::
    "db_engine \<Rightarrow> int \<Rightarrow> string \<Rightarrow> string \<Rightarrow> PcDatabase \<Rightarrow> bool \<times> PcDatabase" where
  "updateGatewayRegistryHeartbeat E now gatewayId status db =
     (if \<not> pd_open db \<or> gatewayId = [] then (False, db)
      else let new = \<lparr>gr_gatewayId = c_str gatewayId, gr_gatewayName = [],
                 gr_status = c_str (nonempty_or status ''online''), gr_upTopic = [], gr_cmdTopic = [],
                 gr_broadcastTopic = [], gr_lastRegisterTimeMs = 0, gr_lastHeartbeatTimeMs = now,
                 gr_updateTimeMs = now\<rparr>
           in db_stmt E (\<lambda>t. t\<lparr>tb_registry := upsert gr_gatewayId
                (\<lambda>old new. old\<lparr>gr_status := gr_status new, gr_lastHeartbeatTimeMs := gr_lastHeartbeatTimeMs new,
                   gr_updateTimeMs := gr_updateTimeMs new\<rparr>) new (tb_registry t)\<rparr>) db)"

definition updateGatewayHeartbeat ::
    "db_engine \<Rightarrow> int \<Rightarrow> string \<Rightarrow> string \<Rightarrow> PcDatabase \<Rightarrow> bool \<times> PcDatabase" where
  "updateGatewayHeartbeat E now gatewayId status db =
     (if \<not> pd_open db \<or> gatewayId = [] then (False, db)
      else let new = \<lparr>gs_gatewayId = c_str gatewayId, gs_gatewayName = [], gs_factoryId = [], gs_areaId = [],
                 gs_status = c_str (nonempty_or status ''online''), gs_lastRegisterTimeMs = 0,
                 gs_lastHeartbeatTimeMs = now, gs_updateTimeMs = now\<rparr>
           in db_stmt E (\<lambda>t. t\<lparr>tb_status := upsert gs_gatewayId
                (\<lambda>old new. old\<lparr>gs_status := gs_status new, gs_lastHeartbeatTimeMs := gs_lastHeartbeatTimeMs new,
                   gs_updateTimeMs := gs_updateTimeMs new\<rparr>) new (tb_status t)\<rparr>) db)"

definition port_row :: "GatewayPort \<Rightarrow> GatewayPort" where
  "port_row p =
    \<lparr>gp_gatewayId = c_str (gp_gatewayId p), gp_portId = c_str (gp_portId p), gp_portName = c_str (gp_portName p),
     gp_slot = gp_slot p, gp_devicePath = c_str (gp_devicePath p), gp_baud = gp_baud p,
     gp_status = c_str (nonempty_or (gp_status p) ''connected''),
     gp_lastRegisterTimeMs = gp_lastRegisterTimeMs p, gp_updateTimeMs = gp_updateTimeMs p\<rparr>"

definition port_ref :: "GatewayPort \<Rightarrow> string \<times> string" where
  "port_ref p = (gp_gatewayId p, gp_portId p)"

definition upsertGatewayPort :: "db_engine \<Rightarrow> GatewayPort \<Rightarrow> PcDatabase \<Rightarrow> bool \<times> PcDatabase" where
  "upsertGatewayPort E port db =
     (if \<not> pd_open db \<or> gp_gatewayId port = [] \<or> gp_portId port = [] then (False, db)
      else db_stmt E (\<lambda>t. t\<lparr>tb_port := upsert port_ref (\<lambda>_ new. new) (port_row port) (tb_port t)\<rparr>) db)"

definition find_port :: "db_engine \<Rightarrow> string \<Rightarrow> string \<Rightarrow> PcDatabase \<Rightarrow> GatewayPort option \<times> PcDatabase" where
  "find_port E gatewayId portId db =
     (if \<not> pd_open db \<or> gatewayId = [] \<or> portId = [] then (None, db)
      else db_lookup E (\<lambda>t. filter (\<lambda>r. port_ref r = (c_str gatewayId, c_str portId)) (tb_port t)) db)"

definition isGatewayPortConnected :: "db_engine \<Rightarrow> string \<Rightarrow> string \<Rightarrow> PcDatabase \<Rightarrow> bool \<times> PcDatabase" where
  "isGatewayPortConnected E gatewayId portId db =
     (let (r, db) = find_port E gatewayId portId db in
      (case r of None \<Rightarrow> False | Some r \<Rightarrow> gp_status r = ''connected'', db))"

definition gatewayPortExists :: "db_engine \<Rightarrow> string \<Rightarrow> string \<Rightarrow> PcDatabase \<Rightarrow> bool \<times> PcDatabase" where
  "gatewayPortExists E gatewayId portId db =
     (let (r, db) = find_port E gatewayId portId db in (r \<noteq> None, db))"

subsection \<open>Queries\<close>

definition queryGatewayStatuses :: "db_engine \<Rightarrow> PcDatabase \<Rightarrow> GatewayStatus list \<times> PcDatabase" where
  "queryGatewayStatuses E db =
     (if \<not> pd_open db then ([], db)
      else let ((_, rows), db) = db_query E (\<lambda>t. sort_key gs_gatewayId (tb_status t)) db in (rows, db))"

definition queryGatewayPorts :: "db_engine \<Rightarrow> PcDatabase \<Rightarrow> GatewayPort list \<times> PcDatabase" where
  "queryGatewayPorts E db =
     (if \<not> pd_open db then ([], db)
      else let ((_, rows), db) = db_query E
             (\<lambda>t. sort_key (\<lambda>p. (gp_gatewayId p, gp_slot p, gp_portId p)) (tb_port t)) db in (rows, db))"

text \<open>The join of \<open>device\<close> with \<open>device_status\<close>; the later of the two update times counts.\<close>

definition device_record :: "DeviceStatusRow list \<Rightarrow> DeviceRow \<Rightarrow> DeviceRecord" where
  "device_record statuses r =
     (let s = find (\<lambda>s. status_ref s = row_ref r) statuses;
          statusUpdate = (case s of None \<Rightarrow> 0 | Some s \<Rightarrow> ds_updateTimeMs s)
      in DeviceRecord_default
        \<lparr>dr_factoryId := dt_factoryId r, dr_factoryName := dt_factoryName r, dr_areaId := dt_areaId r,
         dr_areaName := dt_areaName r, dr_gatewayId := dt_gatewayId r, dr_gatewayName := dt_gatewayName r,
         dr_portId := dt_portId r, dr_portName := dt_portName r, dr_deviceId := dt_deviceId r,
         dr_deviceName := dt_deviceName r, dr_deviceType := dt_deviceType r,
         dr_pollIntervalMs := dt_pollIntervalMs r, dr_expectTelemetry := dt_expectTelemetry r,
         dr_enabled := dt_enabled r,
         dr_status := (case s of None \<Rightarrow> ''unknown'' | Some s \<Rightarrow> ds_status s),
         dr_lastSeenMs := (case s of None \<Rightarrow> 0 | Some s \<Rightarrow> ds_lastSeenMs s),
         dr_lastOfflineMs := (case s of None \<Rightarrow> 0 | Some s \<Rightarrow> ds_lastOfflineMs s),
         dr_statusReason := (case s of None \<Rightarrow> [] | Some s \<Rightarrow> ds_statusReason s),
         dr_createTimeMs := dt_createTimeMs r,
         dr_updateTimeMs := (if statusUpdate > dt_updateTimeMs r then statusUpdate else dt_updateTimeMs r)\<rparr>)"

definition listed_devices :: "PcTables \<Rightarrow> DeviceRecord list" where
  "listed_devices t =
     map (device_record (tb_device_status t)) (sort_key row_ref (filter device_active (tb_device t)))"

definition queryDevices :: "db_engine \<Rightarrow> PcDatabase \<Rightarrow> DeviceRecord list \<times> PcDatabase" where
  "queryDevices E db =
     (if \<not> pd_open db then ([], db)
      else let ((fin, rows), db) = db_query E listed_devices db in (if fin then rows else [], db))"

definition queryPointConfigs :: "db_engine \<Rightarrow> PcDatabase \<Rightarrow> PointConfig list \<times> PcDatabase" where
  "queryPointConfigs E db =
     (if \<not> pd_open db then ([], db)
      else let ((fin, rows), db') = db_query E (\<lambda>t. filter pc_enabled (de_configs E (pd_tick db) (tb_config t))) db
           in (if fin then filter (\<lambda>c. \<not> no_ref (pc_gatewayId c) (pc_portId c) (pc_deviceId c) \<and> pc_pointKey c \<noteq> []) rows
               else [], db'))"

definition queryLatestPoints :: "db_engine \<Rightarrow> PcDatabase \<Rightarrow> TelemetryPoint list \<times> PcDatabase" where
  "queryLatestPoints E db =
     (if \<not> pd_open db then ([], db)
      else let ((fin, rows), db') = db_query E (\<lambda>t. de_points E (pd_tick db) (tb_latest t)) db
           in (if fin then filter (\<lambda>p. tp_pointId p \<noteq> []) rows else [], db'))"

text \<open>A history point: only these columns are read.\<close>

definition history_point :: "string \<Rightarrow> TelemetryPoint \<Rightarrow> TelemetryPoint" where
  "history_point pointId r = TelemetryPoint_default
     \<lparr>tp_pointId := pointId, tp_timestampMs := tp_timestampMs r, tp_numberValue := tp_numberValue r,
      tp_textValue := tp_textValue r, tp_valid := tp_valid r\<rparr>"

definition history_limit :: "int \<Rightarrow> int" where
  "history_limit limit = (if limit \<le> 0 then 1000 else if limit > 5000 then 5000 else limit)"

definition history_end :: "int \<Rightarrow> int" where
  "history_end endMs = (if endMs \<le> 0 then 2 ^ 63 - 1 else endMs)"

text \<open>The answer with the flag \<open>ok\<close> and the reason.\<close>

definition queryHistoryPoints :: "db_engine \<Rightarrow> string \<Rightarrow> int \<Rightarrow> int \<Rightarrow> int \<Rightarrow> PcDatabase
    \<Rightarrow> (TelemetryPoint list \<times> bool \<times> string) \<times> PcDatabase" where
  "queryHistoryPoints E pointId startMs endMs limit db =
     (if pointId = [] then (([], False, ''invalid_point_id''), db)
      else if \<not> pd_open db then (([], False, ''db_not_open''), db)
      else let startMs = max 0 startMs; endMs = history_end endMs in
           if endMs < startMs then (([], False, ''invalid_time_range''), db)
           else let ((fin, rows), db') = db_query E
                  (\<lambda>t. take (nat (history_limit limit)) (sort_key tp_timestampMs
                     (filter (\<lambda>r. tp_pointId r = c_str pointId \<and> startMs \<le> tp_timestampMs r
                        \<and> tp_timestampMs r \<le> endMs) (de_points E (pd_tick db) (tb_history t))))) db
                in if \<not> fin then (([], False, ''db_query_failed''), db')
                   else ((map (history_point pointId) rows, True, if rows = [] then ''no_data'' else []), db'))"

subsection \<open>Status by time\<close>

text \<open>The number of rows a status scan changes, and the rows after it.\<close>

definition device_timed_out :: "PcTables \<Rightarrow> int \<Rightarrow> int \<Rightarrow> DeviceStatusRow \<Rightarrow> bool" where
  "device_timed_out t nowMs timeoutMs s \<longleftrightarrow> ds_status s \<noteq> ''offline''
     \<and> (\<exists>d \<in> set (tb_device t). row_ref d = status_ref s \<and> device_active d)
     \<and> ds_lastSeenMs s > 0 \<and> nowMs - ds_lastSeenMs s > timeoutMs"

definition markOfflineDevices :: "db_engine \<Rightarrow> int \<Rightarrow> int \<Rightarrow> PcDatabase \<Rightarrow> int \<times> PcDatabase" where
  "markOfflineDevices E nowMs timeoutMs db =
     (if \<not> pd_open db \<or> nowMs \<le> 0 \<or> timeoutMs \<le> 0 then (0, db)
      else let changed = length (filter (device_timed_out (pd_tables db) nowMs timeoutMs) (tb_device_status (pd_tables db)));
               (ok, db) = db_stmt E (\<lambda>t. t\<lparr>tb_device_status := map (\<lambda>s. if device_timed_out t nowMs timeoutMs s
                 then s\<lparr>ds_status := ''offline'', ds_lastOfflineMs := nowMs,
                        ds_statusReason := ''telemetry_timeout'', ds_updateTimeMs := nowMs\<rparr> else s) (tb_device_status t)\<rparr>) db
           in (if ok then int changed else 0, db))"

definition gateway_stale :: "int \<Rightarrow> int \<Rightarrow> GatewayStatus \<Rightarrow> bool" where
  "gateway_stale nowMs timeoutMs g \<longleftrightarrow> gs_status g = ''online'' \<and> gs_lastHeartbeatTimeMs g > 0
     \<and> nowMs - gs_lastHeartbeatTimeMs g > timeoutMs"

definition markStaleGateways :: "db_engine \<Rightarrow> int \<Rightarrow> int \<Rightarrow> PcDatabase \<Rightarrow> int \<times> PcDatabase" where
  "markStaleGateways E nowMs timeoutMs db =
     (if \<not> pd_open db \<or> nowMs \<le> 0 \<or> timeoutMs \<le> 0 then (0, db)
      else let changed = length (filter (gateway_stale nowMs timeoutMs) (tb_status (pd_tables db)));
               (ok, db) = db_stmt E (\<lambda>t. t\<lparr>tb_status := map (\<lambda>g. if gateway_stale nowMs timeoutMs g
                 then g\<lparr>gs_status := ''stale'', gs_updateTimeMs := nowMs\<rparr> else g) (tb_status t)\<rparr>) db
           in (if ok then int changed else 0, db))"

subsection \<open>The command log\<close>

definition createCommandLog :: "db_engine \<Rightarrow> string \<Rightarrow> int \<Rightarrow> string \<Rightarrow> string \<Rightarrow> string \<Rightarrow> int \<Rightarrow> int
    \<Rightarrow> PcDatabase \<Rightarrow> bool \<times> PcDatabase" where
  "createCommandLog E commandId seq commandType gatewayId portId deviceId createTimeMs db =
     (if \<not> pd_open db \<or> commandId = [] \<or> seq \<le> 0 \<or> commandType = [] then (False, db)
      else let new = \<lparr>cl_commandId = c_str commandId, cl_seq = seq, cl_commandType = c_str commandType,
                 cl_gatewayId = c_str gatewayId, cl_portId = c_str portId, cl_deviceId = deviceId,
                 cl_status = ''pending'', cl_reason = [], cl_message = [], cl_createTimeMs = createTimeMs,
                 cl_sendTimeMs = createTimeMs, cl_finishTimeMs = 0\<rparr>
           in db_stmt E (\<lambda>t. t\<lparr>tb_command := replace_row cl_commandId new (tb_command t)\<rparr>) db)"

definition log_outcome :: "string \<Rightarrow> string \<Rightarrow> string \<Rightarrow> int \<Rightarrow> CommandRow \<Rightarrow> CommandRow" where
  "log_outcome status reason message finishTimeMs r = r
     \<lparr>cl_status := c_str status, cl_reason := c_str reason, cl_message := c_str message,
      cl_finishTimeMs := finishTimeMs\<rparr>"

definition updateCommandLogBySeq ::
    "db_engine \<Rightarrow> int \<Rightarrow> string \<Rightarrow> string \<Rightarrow> string \<Rightarrow> int \<Rightarrow> PcDatabase \<Rightarrow> bool \<times> PcDatabase" where
  "updateCommandLogBySeq E seq status reason message finishTimeMs db =
     (if \<not> pd_open db \<or> seq \<le> 0 \<or> status = [] then (False, db)
      else db_stmt E (\<lambda>t. t\<lparr>tb_command := map (\<lambda>r. if cl_seq r = seq
             then log_outcome status reason message finishTimeMs r else r) (tb_command t)\<rparr>) db)"

definition updateCommandLogByCommandId ::
    "db_engine \<Rightarrow> string \<Rightarrow> string \<Rightarrow> string \<Rightarrow> string \<Rightarrow> int \<Rightarrow> PcDatabase \<Rightarrow> bool \<times> PcDatabase" where
  "updateCommandLogByCommandId E commandId status reason message finishTimeMs db =
     (if \<not> pd_open db \<or> commandId = [] \<or> status = [] then (False, db)
      else db_stmt E (\<lambda>t. t\<lparr>tb_command := map (\<lambda>r. if cl_commandId r = c_str commandId
             then log_outcome status reason message finishTimeMs r else r) (tb_command t)\<rparr>) db)"

definition command_target :: "CommandRow \<Rightarrow> CommandLogTarget" where
  "command_target r = \<lparr>lt_commandId = cl_commandId r, lt_seq = cl_seq r, lt_commandType = cl_commandType r,
     lt_gatewayId = cl_gatewayId r, lt_portId = cl_portId r, lt_deviceId = cl_deviceId r\<rparr>"

definition queryCommandTargetBySeq :: "db_engine \<Rightarrow> int \<Rightarrow> PcDatabase \<Rightarrow> CommandLogTarget option \<times> PcDatabase" where
  "queryCommandTargetBySeq E seq db =
     (if \<not> pd_open db \<or> seq \<le> 0 then (None, db)
      else let (r, db') = db_lookup E (\<lambda>t. filter (\<lambda>r. cl_seq r = seq) (de_commands E (pd_tick db) (tb_command t))) db
           in (map_option command_target r, db'))"

definition collectCommandTimeouts :: "db_engine \<Rightarrow> int \<Rightarrow> int \<Rightarrow> PcDatabase \<Rightarrow> CommandLogTarget list \<times> PcDatabase" where
  "collectCommandTimeouts E nowMs timeoutMs db =
     (if \<not> pd_open db then ([], db)
      else let ((_, rows), db') = db_query E (\<lambda>t. filter (\<lambda>r. cl_status r = ''sent'' \<and> cl_sendTimeMs r > 0
                 \<and> nowMs - cl_sendTimeMs r \<ge> timeoutMs) (de_commands E (pd_tick db) (tb_command t))) db;
               results = map command_target rows
           in (results, snd (db_each (\<lambda>c. updateCommandLogByCommandId E (lt_commandId c) ''timeout''
                 ''linux_data_ack_timeout'' ''device execution timeout'' nowMs) results db')))"

end
