(* ===== verification/PcStoreConfig.thy ===== *)
theory PcStoreConfig
  imports PcStoreOps
begin

text \<open>
  Pc_data/storage/PcDatabase.cpp, the remaining operations: alarms, the deletion of devices,
  ports and runtime data, and the storing of configuration snapshots.
\<close>

subsection \<open>Alarms\<close>

definition status_recovered_cn :: string where
  "status_recovered_cn = [CHR 0xE5, CHR 0xB7, CHR 0xB2, CHR 0xE6, CHR 0x81, CHR 0xA2, CHR 0xE5, CHR 0xA4, CHR 0x8D]"

definition status_acked_cn :: string where
  "status_acked_cn = [CHR 0xE5, CHR 0xB7, CHR 0xB2, CHR 0xE7, CHR 0xA1, CHR 0xAE, CHR 0xE8, CHR 0xAE, CHR 0xA4]"

definition alarm_acknowledged :: "string \<Rightarrow> bool" where
  "alarm_acknowledged state \<longleftrightarrow> state = ''acked'' \<or> state = ''acknowledged''"

text \<open>The columns that both statements of \<open>saveAlarmEvent\<close> bind.\<close>

definition alarm_columns :: "int \<Rightarrow> AlarmEvent \<Rightarrow> AlarmRow \<Rightarrow> AlarmRow" where
  "alarm_columns nowMs e r =
     (let state = nonempty_or (ae_state e) ''active'';
          ackTimeMs = (if ae_ackTimeMs e > 0 then ae_ackTimeMs e else if alarm_acknowledged state then nowMs else 0)
      in r\<lparr>al_factoryId := c_str (ae_factoryId e), al_factoryName := c_str (ae_factoryName e),
           al_areaId := c_str (ae_areaId e), al_areaName := c_str (ae_areaName e),
           al_gatewayId := c_str (ae_gatewayId e), al_gatewayName := c_str (ae_gatewayName e),
           al_portId := c_str (ae_portId e), al_portName := c_str (ae_portName e),
           al_deviceId := ae_deviceId e, al_deviceName := c_str (ae_deviceName e),
           al_deviceType := c_str (ae_deviceType e), al_pointKey := c_str (ae_pointKey e),
           al_pointName := c_str (ae_pointName e), al_level := c_str (nonempty_or (ae_level e) ''warning''),
           al_message := c_str (ae_message e),
           al_recoverTimeMs := (if state = ''recovered'' then nowMs else 0),
           al_ackTimeMs := (if ackTimeMs > 0 then ackTimeMs else 0), al_status := c_str state,
           al_acked := alarm_acknowledged state, al_value := real_column (ae_value e),
           al_threshold := real_column (ae_threshold e), al_error := c_str (ae_alarmId e)\<rparr>)"

definition alarm_new_row :: "int \<Rightarrow> int \<Rightarrow> AlarmEvent \<Rightarrow> AlarmRow" where
  "alarm_new_row i nowMs e = alarm_columns nowMs e
    \<lparr>al_id = i, al_pointId = c_str (ae_alarmId e), al_factoryId = [], al_factoryName = [], al_areaId = [],
     al_areaName = [], al_gatewayId = [], al_gatewayName = [], al_portId = [], al_portName = [],
     al_deviceId = 0, al_deviceName = [], al_deviceType = [], al_pointKey = [], al_pointName = [],
     al_type = c_str (nonempty_or (ae_alarmType e) ''emergency''), al_level = [], al_message = [],
     al_startTimeMs = nowMs, al_recoverTimeMs = 0, al_ackTimeMs = 0, al_status = [], al_state = [],
     al_acked = False, al_value = Fin 0, al_threshold = Fin 0, al_error = []\<rparr>"

definition alarm_same :: "AlarmEvent \<Rightarrow> AlarmRow \<Rightarrow> bool" where
  "alarm_same e r \<longleftrightarrow> al_pointId r = c_str (ae_alarmId e)
     \<and> al_type r = c_str (nonempty_or (ae_alarmType e) ''emergency'')
     \<and> al_status r \<in> {''active'', ''acked'', ''acknowledged''}"

definition saveAlarmEvent :: "db_engine \<Rightarrow> int \<Rightarrow> AlarmEvent \<Rightarrow> PcDatabase \<Rightarrow> bool \<times> PcDatabase" where
  "saveAlarmEvent E now event db =
     (if \<not> pd_open db \<or> ae_alarmId event = [] \<or> ae_gatewayId event = [] then (False, db)
      else let nowMs = (if ae_timestampMs event > 0 then ae_timestampMs event else now);
               changed = (\<exists>r \<in> set (tb_alarm (pd_tables db)). alarm_same event r);
               (ok, db) = db_stmt E (\<lambda>t. t\<lparr>tb_alarm := map (\<lambda>r. if alarm_same event r
                 then alarm_columns nowMs event r else r) (tb_alarm t)\<rparr>) db
           in if \<not> ok then (False, db)
              else if changed then (True, db)
              else db_stmt E (\<lambda>t. t\<lparr>tb_alarm := tb_alarm t @ [alarm_new_row (tb_nextAlarm t) nowMs event],
                     tb_nextAlarm := tb_nextAlarm t + 1\<rparr>) db)"

definition clearRecoveredAlarms :: "db_engine \<Rightarrow> PcDatabase \<Rightarrow> bool \<times> PcDatabase" where
  "clearRecoveredAlarms E db =
     (if \<not> pd_open db then (False, db)
      else db_stmt E (\<lambda>t. t\<lparr>tb_alarm := filter (\<lambda>r. \<not> (al_status r = ''recovered''
             \<or> al_status r = status_recovered_cn)) (tb_alarm t)\<rparr>) db)"

definition clearAcknowledgedAlarms :: "db_engine \<Rightarrow> PcDatabase \<Rightarrow> bool \<times> PcDatabase" where
  "clearAcknowledgedAlarms E db =
     (if \<not> pd_open db then (False, db)
      else db_stmt E (\<lambda>t. t\<lparr>tb_alarm := filter (\<lambda>r. \<not> (al_status r \<in> {''acked'', ''acknowledged'', status_acked_cn}
             \<or> al_acked r)) (tb_alarm t)\<rparr>) db)"

definition acknowledge_row :: "int \<Rightarrow> AlarmRow \<Rightarrow> AlarmRow" where
  "acknowledge_row nowMs r = r\<lparr>al_status := ''acknowledged'', al_state := ''acknowledged'', al_acked := True,
     al_ackTimeMs := nowMs\<rparr>"

definition acknowledgeAlarm :: "db_engine \<Rightarrow> int \<Rightarrow> string \<Rightarrow> int \<Rightarrow> PcDatabase \<Rightarrow> bool \<times> PcDatabase" where
  "acknowledgeAlarm E now alarmId ackTimeMs db =
     (if \<not> pd_open db \<or> alarmId = [] then (False, db)
      else let nowMs = (if ackTimeMs > 0 then ackTimeMs else now);
               changed = (\<exists>r \<in> set (tb_alarm (pd_tables db)). al_pointId r = c_str alarmId);
               (ok, db) = db_stmt E (\<lambda>t. t\<lparr>tb_alarm := map (\<lambda>r. if al_pointId r = c_str alarmId
                 then acknowledge_row nowMs r else r) (tb_alarm t)\<rparr>) db
           in (ok \<and> changed, db))"

definition alarm_event :: "AlarmRow \<Rightarrow> AlarmEvent" where
  "alarm_event r =
    \<lparr>ae_alarmId = al_pointId r, ae_timestampMs = al_startTimeMs r, ae_ackTimeMs = al_ackTimeMs r,
     ae_recoverTimeMs = al_recoverTimeMs r, ae_factoryId = al_factoryId r, ae_factoryName = al_factoryName r,
     ae_areaId = al_areaId r, ae_areaName = al_areaName r, ae_gatewayId = al_gatewayId r,
     ae_gatewayName = al_gatewayName r, ae_portId = al_portId r, ae_portName = al_portName r,
     ae_deviceId = al_deviceId r, ae_deviceName = al_deviceName r, ae_deviceType = al_deviceType r,
     ae_pointKey = al_pointKey r, ae_pointName = al_pointName r, ae_alarmType = al_type r,
     ae_level = al_level r, ae_state = (if al_status r = ''acked'' then ''acknowledged'' else al_status r),
     ae_value = al_value r, ae_threshold = al_threshold r, ae_message = al_message r\<rparr>"

definition listed_alarms :: "PcTables \<Rightarrow> AlarmRow list" where
  "listed_alarms t = sort_key (\<lambda>r. (- al_startTimeMs r, - al_id r)) (tb_alarm t)"

definition queryAlarmEvents :: "db_engine \<Rightarrow> PcDatabase \<Rightarrow> AlarmEvent list \<times> PcDatabase" where
  "queryAlarmEvents E db =
     (if \<not> pd_open db then ([], db)
      else let ((_, rows), db) = db_query E listed_alarms db in (map alarm_event rows, db))"

subsection \<open>Deletion\<close>

definition device_tables :: "db_table list" where
  "device_tables = [T_device_status, T_latest_point, T_point_config, T_telemetry_history, T_alarm_event]"

definition deleteDeviceData ::
    "db_engine \<Rightarrow> int \<Rightarrow> string \<Rightarrow> string \<Rightarrow> int \<Rightarrow> PcDatabase \<Rightarrow> bool \<times> PcDatabase" where
  "deleteDeviceData E now gatewayId portId deviceId db =
     (if \<not> pd_open db \<or> no_ref gatewayId portId deviceId then (False, db)
      else let (ok, db) = db_begin E db in
           if \<not> ok then (False, db)
           else let (ok, db) = markDeviceDeleted E gatewayId portId deviceId now db;
                    (ok, db) = (if ok then db_while (\<lambda>T. deleteRowsByDevice E T gatewayId portId deviceId)
                                  device_tables db else (False, db))
                in db_finish E ok db)"

definition deleteMasterData ::
    "db_engine \<Rightarrow> int \<Rightarrow> string \<Rightarrow> string \<Rightarrow> PcDatabase \<Rightarrow> bool \<times> PcDatabase" where
  "deleteMasterData E now gatewayId portId db =
     (if \<not> pd_open db \<or> gatewayId = [] \<or> portId = [] then (False, db)
      else let (ok, db) = db_begin E db in
           if \<not> ok then (False, db)
           else let (devices, db) = queryDevices E db;
                    (ok, db) = db_each (\<lambda>d. markDeviceDeleted E gatewayId portId (dr_deviceId d) now)
                      (filter (\<lambda>d. dr_gatewayId d = gatewayId \<and> dr_portId d = portId) devices) db;
                    (ok, db) = (if ok then db_while (\<lambda>T. deleteRowsByMaster E T gatewayId portId)
                                  device_tables db else (False, db))
                in db_finish E ok db)"

text \<open>The four statements of \<open>clearRuntimeData\<close>.\<close>

datatype runtime_table = R_alarm | R_history | R_latest | R_command

fun clear_table :: "runtime_table \<Rightarrow> PcTables \<Rightarrow> PcTables" where
  "clear_table R_alarm t = t\<lparr>tb_alarm := []\<rparr>"
| "clear_table R_history t = t\<lparr>tb_history := []\<rparr>"
| "clear_table R_latest t = t\<lparr>tb_latest := []\<rparr>"
| "clear_table R_command t = t\<lparr>tb_command := []\<rparr>"

definition clearRuntimeData :: "db_engine \<Rightarrow> PcDatabase \<Rightarrow> bool \<times> PcDatabase" where
  "clearRuntimeData E db =
     (if \<not> pd_open db then (False, db)
      else let (ok, db) = db_begin E db in
           if \<not> ok then (False, db)
           else let (ok, db) = db_while (\<lambda>T. db_stmt E (clear_table T)) [R_alarm, R_history, R_latest, R_command] db
                in db_finish E ok db)"

definition clearAllData :: "db_engine \<Rightarrow> PcDatabase \<Rightarrow> bool \<times> PcDatabase" where
  "clearAllData = clearRuntimeData"

subsection \<open>Configuration snapshots\<close>

definition own_port :: "string \<Rightarrow> GatewayPort \<Rightarrow> bool" where
  "own_port gatewayId p \<longleftrightarrow> gp_gatewayId p = gatewayId \<and> gp_portId p \<noteq> []"

definition own_snapshot :: "string \<Rightarrow> ConfigSnapshotDevice \<Rightarrow> bool" where
  "own_snapshot gatewayId s \<longleftrightarrow> dr_gatewayId (csd_device s) = gatewayId \<and> dr_portId (csd_device s) \<noteq> []
     \<and> dr_deviceId (csd_device s) > 0"

text \<open>A device of a snapshot: tombstoned ones are skipped.\<close>

definition store_snapshot_device ::
    "db_engine \<Rightarrow> bool \<Rightarrow> ConfigSnapshotDevice \<Rightarrow> PcDatabase \<Rightarrow> bool \<times> PcDatabase" where
  "store_snapshot_device E allow s db =
     (let device = csd_device s;
          (deleted, db) = deviceDeleted E (dr_gatewayId device) (dr_portId device) (dr_deviceId device) db
      in if deleted then (True, db) else upsertDevice E device allow db)"

fun known_configs :: "db_engine \<Rightarrow> PointConfig list \<Rightarrow> PcDatabase \<Rightarrow> PointConfig list \<times> PcDatabase" where
  "known_configs E [] db = ([], db)"
| "known_configs E (c # cs) db =
     (let (known, db) = deviceExists E (pc_gatewayId c) (pc_portId c) (pc_deviceId c) db;
          (rest, db) = known_configs E cs db
      in (if known then c # rest else rest, db))"

text \<open>The common end of both operations; the flag is the result so far.\<close>

definition store_snapshot :: "db_engine \<Rightarrow> string \<Rightarrow> GatewayPort list \<Rightarrow> ConfigSnapshotDevice list
    \<Rightarrow> PointConfig list \<Rightarrow> bool \<Rightarrow> bool \<Rightarrow> PcDatabase \<Rightarrow> bool \<times> PcDatabase" where
  "store_snapshot E gatewayId ports devices pointConfigs allow ok db =
     (let (ok1, db) = db_each (upsertGatewayPort E) (filter (own_port gatewayId) ports) db;
          (ok2, db) = db_each (store_snapshot_device E allow) (filter (own_snapshot gatewayId) devices) db
      in if pointConfigs = [] then (ok \<and> ok1 \<and> ok2, db)
         else let (accepted, db) = known_configs E pointConfigs db;
                  (ok3, db) = savePointConfigs E accepted db
              in (ok \<and> ok1 \<and> ok2 \<and> ok3, db))"

definition clear_selected :: "db_engine \<Rightarrow> string \<Rightarrow> DbSelectedDevice \<Rightarrow> PcDatabase \<Rightarrow> bool \<times> PcDatabase" where
  "clear_selected E gatewayId s db =
     (if sel_portId s = [] \<or> sel_deviceId s \<le> 0 then (True, db)
      else let (ok, db) = deleteRowsByDevice E T_device_status gatewayId (sel_portId s) (sel_deviceId s) db in
           if \<not> ok then (False, db)
           else deleteRowsByDevice E T_point_config gatewayId (sel_portId s) (sel_deviceId s) db)"

definition replaceSelectedDeviceConfig :: "db_engine \<Rightarrow> string \<Rightarrow> DbSelectedDevice list \<Rightarrow> GatewayPort list
    \<Rightarrow> ConfigSnapshotDevice list \<Rightarrow> PointConfig list \<Rightarrow> PcDatabase \<Rightarrow> bool \<times> PcDatabase" where
  "replaceSelectedDeviceConfig E gatewayId selectedDevices ports devices pointConfigs db =
     (if \<not> pd_open db \<or> gatewayId = [] \<or> selectedDevices = [] then (False, db)
      else let (ok, db) = db_begin E db in
           if \<not> ok then (False, db)
           else let (ok, db) = db_while (clear_selected E gatewayId) selectedDevices db in
                if \<not> ok then (False, snd (db_rollback E db))
                else let (ok, db) = db_commit E db
                     in store_snapshot E gatewayId ports devices pointConfigs True ok db)"

text \<open>The devices of a full snapshot, and the deletion of those it does not list.\<close>

definition snapshot_refs :: "string \<Rightarrow> ConfigSnapshotDevice list \<Rightarrow> (string \<times> int) list" where
  "snapshot_refs gatewayId devices =
     map (\<lambda>s. (dr_portId (csd_device s), dr_deviceId (csd_device s))) (filter (own_snapshot gatewayId) devices)"

definition missing_devices :: "string \<Rightarrow> ConfigSnapshotDevice list \<Rightarrow> DeviceRecord list \<Rightarrow> DeviceRecord list" where
  "missing_devices gatewayId devices existing =
     filter (\<lambda>d. \<not> (dr_gatewayId d \<noteq> gatewayId \<or> dr_portId d = [] \<or> dr_deviceId d \<le> 0)
       \<and> (dr_portId d, dr_deviceId d) \<notin> set (snapshot_refs gatewayId devices)) existing"

definition upsertGatewayConfigSnapshot :: "db_engine \<Rightarrow> int \<Rightarrow> string \<Rightarrow> GatewayPort list
    \<Rightarrow> ConfigSnapshotDevice list \<Rightarrow> PointConfig list \<Rightarrow> bool \<Rightarrow> PcDatabase \<Rightarrow> bool \<times> PcDatabase" where
  "upsertGatewayConfigSnapshot E now gatewayId ports devices pointConfigs fullSnapshot db =
     (if \<not> pd_open db \<or> gatewayId = [] then (False, db)
      else let (ok, db) =
             (if fullSnapshot
              then let (existing, db) = queryDevices E db
                   in db_each (\<lambda>d. deleteDeviceData E now (dr_gatewayId d) (dr_portId d) (dr_deviceId d))
                        (missing_devices gatewayId devices existing) db
              else (True, db))
           in store_snapshot E gatewayId ports devices pointConfigs False ok db)"

end
