(* ===== verification/PcDbWf.thy ===== *)
theory PcDbWf
  imports PcStoreConfig
begin

text \<open>
  What every operation of the database keeps.  \<open>pcdb_wf\<close> is the invariant of the tables, \<open>durable\<close>
  the tables a restart would find (those before an open transaction), and \<open>hoare\<close> the triples in
  which the operations are proved: inside a transaction the assertion \<open>intx J\<close> carries the
  invariant of the saved tables along with what is known of the tables in work.
\<close>

subsection \<open>The invariant\<close>

fun table_refs :: "db_table \<Rightarrow> PcTables \<Rightarrow> device_ref set" where
  "table_refs T_device_status t = status_ref ` set (tb_device_status t)"
| "table_refs T_latest_point t = point_ref ` set (tb_latest t)"
| "table_refs T_point_config t = config_ref ` set (tb_config t)"
| "table_refs T_telemetry_history t = point_ref ` set (tb_history t)"
| "table_refs T_alarm_event t = alarm_ref ` set (tb_alarm t)"

definition used_device :: "PcTables \<Rightarrow> device_ref \<Rightarrow> bool" where
  "used_device t k \<longleftrightarrow> (\<exists>r \<in> set (tb_device t). row_ref r = k \<and> \<not> device_tomb r)"

text \<open>The rows of the data tables whose device is unknown or deleted; alarms may outlive a device.\<close>

definition stray_refs :: "db_table \<Rightarrow> PcTables \<Rightarrow> device_ref set" where
  "stray_refs T t = (if T = T_alarm_event then {} else {k \<in> table_refs T t. \<not> used_device t k})"

definition keys_wf :: "PcTables \<Rightarrow> bool" where
  "keys_wf t \<longleftrightarrow> distinct (map gr_gatewayId (tb_registry t)) \<and> distinct (map gs_gatewayId (tb_status t))
     \<and> distinct (map port_ref (tb_port t)) \<and> distinct (map cl_commandId (tb_command t))
     \<and> distinct (map row_ref (tb_device t)) \<and> distinct (map status_ref (tb_device_status t))
     \<and> distinct (map pc_pointId (tb_config t)) \<and> distinct (map tp_pointId (tb_latest t))
     \<and> distinct (map al_id (tb_alarm t)) \<and> (\<forall>r \<in> set (tb_alarm t). al_id r < tb_nextAlarm t)"

text \<open>A device row is either in use or a tombstone, in all three of its columns.\<close>

definition row_wf :: "DeviceRow \<Rightarrow> bool" where
  "row_wf r \<longleftrightarrow> (if dt_deleted r then dt_status r = ''deleted'' \<and> \<not> dt_enabled r else dt_status r = ''active'')"

definition rows_wf :: "PcTables \<Rightarrow> bool" where
  "rows_wf t \<longleftrightarrow> keys_wf t \<and> (\<forall>r \<in> set (tb_device t). row_wf r)"

definition pcdb_wf :: "PcTables \<Rightarrow> bool" where
  "pcdb_wf t \<longleftrightarrow> rows_wf t \<and> (\<forall>T. stray_refs T t = {})"

definition durable :: "PcDatabase \<Rightarrow> PcTables" where
  "durable db = (case pd_saved db of None \<Rightarrow> pd_tables db | Some t \<Rightarrow> t)"

definition durable_wf :: "PcDatabase \<Rightarrow> bool" where
  "durable_wf db \<longleftrightarrow> pcdb_wf (durable db)"

subsection \<open>Triples\<close>

definition hoare :: "db_engine \<Rightarrow> (PcDatabase \<Rightarrow> bool) \<Rightarrow> (PcDatabase \<Rightarrow> 'r \<times> PcDatabase) \<Rightarrow> ('r \<Rightarrow> PcDatabase \<Rightarrow> bool) \<Rightarrow> bool" where
  "hoare E P op Q \<longleftrightarrow> undoes_none E \<longrightarrow> (\<forall>db. P db \<longrightarrow> (case op db of (r, db') \<Rightarrow> Q r db'))"

definition intx :: "(PcTables \<Rightarrow> bool) \<Rightarrow> PcDatabase \<Rightarrow> bool" where
  "intx J db \<longleftrightarrow> (\<exists>t. pd_saved db = Some t \<and> pcdb_wf t) \<and> J (pd_tables db)"

definition keeps :: "db_engine \<Rightarrow> (PcDatabase \<Rightarrow> 'r \<times> PcDatabase) \<Rightarrow> bool" where
  "keeps E op \<longleftrightarrow> hoare E durable_wf op (\<lambda>_. durable_wf)"

lemma hoare_bind:
  "hoare E P op Q \<Longrightarrow> (\<And>r. hoare E (Q r) (f r) R) \<Longrightarrow> hoare E P (\<lambda>db. case op db of (r, db') \<Rightarrow> f r db') R"
  by (fastforce simp: hoare_def split: prod.splits)

lemma hoare_let:
  "hoare E P op Q \<Longrightarrow> (\<And>r. hoare E (Q r) (f r) R) \<Longrightarrow> hoare E P (\<lambda>db. let (r, db') = op db in f r db') R"
  unfolding Let_def by (rule hoare_bind)

lemma hoare_return: "(\<And>db. P db \<Longrightarrow> Q r db) \<Longrightarrow> hoare E P (\<lambda>db. (r, db)) Q"
  by (simp add: hoare_def)

lemma hoare_if:
  "hoare E P X Q \<Longrightarrow> hoare E P Y Q \<Longrightarrow> hoare E P (\<lambda>db. if b db then X db else Y db) Q"
  by (simp add: hoare_def)

lemma hoare_cond:
  "(b \<Longrightarrow> hoare E P X Q) \<Longrightarrow> (\<not> b \<Longrightarrow> hoare E P Y Q) \<Longrightarrow> hoare E P (\<lambda>db. if b then X db else Y db) Q"
  by (simp add: hoare_def)

lemma hoare_post: "hoare E P op Q \<Longrightarrow> (\<And>r db. Q r db \<Longrightarrow> R r db) \<Longrightarrow> hoare E P op R"
  by (fastforce simp: hoare_def split: prod.splits)

lemma hoare_pre: "hoare E P op Q \<Longrightarrow> (\<And>db. P' db \<Longrightarrow> P db) \<Longrightarrow> hoare E P' op Q"
  by (simp add: hoare_def)

lemma hoare_while: "(\<And>x. x \<in> set xs \<Longrightarrow> hoare E P (op x) (\<lambda>_. P)) \<Longrightarrow> hoare E P (db_while op xs) (\<lambda>_. P)"
proof (induction xs)
  case Nil then show ?case by (simp add: hoare_def)
next
  case (Cons x xs)
  have a: "hoare E P (op x) (\<lambda>_. P)" and b: "hoare E P (db_while op xs) (\<lambda>_. P)" using Cons by auto
  show ?case unfolding db_while.simps by (rule hoare_let [OF a]) (intro hoare_cond b hoare_return)
qed

lemma hoare_each: "(\<And>x. x \<in> set xs \<Longrightarrow> hoare E P (op x) (\<lambda>_. P)) \<Longrightarrow> hoare E P (db_each op xs) (\<lambda>_. P)"
proof (induction xs)
  case Nil then show ?case by (simp add: hoare_def)
next
  case (Cons x xs)
  have a: "hoare E P (op x) (\<lambda>_. P)" and b: "hoare E P (db_each op xs) (\<lambda>_. P)" using Cons by auto
  show ?case unfolding db_each.simps by (rule hoare_let [OF a], rule hoare_let [OF b], rule hoare_return)
qed

subsection \<open>Statements, queries, transactions\<close>

lemma stmt_intx: "(\<And>t. J t \<Longrightarrow> J' (f t)) \<Longrightarrow> hoare E (intx J) (db_stmt E f) (\<lambda>ok. intx (if ok then J' else J))"
  by (auto simp: hoare_def db_stmt_def intx_def)

lemma stmt_intx_keep: "(\<And>t. J t \<Longrightarrow> J (f t)) \<Longrightarrow> hoare E (intx J) (db_stmt E f) (\<lambda>_. intx J)"
  by (auto simp: hoare_def db_stmt_def intx_def)

lemma stmt_keeps: "(\<And>t. pcdb_wf t \<Longrightarrow> pcdb_wf (f t)) \<Longrightarrow> keeps E (db_stmt E f)"
  by (auto simp: keeps_def hoare_def db_stmt_def durable_wf_def durable_def split: option.splits)

lemma durable_tick [simp]: "durable (db_tick db) = durable db" "intx J (db_tick db) = intx J db"
  by (simp_all add: durable_def intx_def split: option.split)

lemma query_state: "undoes_none E \<Longrightarrow> snd (db_query E f db) = db_tick db"
  by (simp add: db_query_def failed_kept split: option.split)

lemma lookup_state: "undoes_none E \<Longrightarrow> snd (db_lookup E f db) = db_tick db"
  by (simp add: db_lookup_def Let_def case_prod_beta query_state split: list.split)

lemma lookup_row: "fst (db_lookup E f db) = Some x \<Longrightarrow> x \<in> set (f (pd_tables db))"
  by (auto simp: db_lookup_def db_query_def dest: in_set_takeD[of x _ "f (pd_tables db)"] split: option.splits list.splits if_splits)
    (metis in_set_takeD list.set_intros(1))

lemma query_intx: "hoare E (intx J) (db_query E f) (\<lambda>_. intx J)"
  using query_state [of E f] by (simp add: hoare_def case_prod_beta)

lemma query_keeps: "keeps E (db_query E f)"
  using query_state [of E f] by (simp add: keeps_def hoare_def case_prod_beta durable_wf_def)

lemma lookup_intx: "hoare E (intx J) (db_lookup E f) (\<lambda>r. intx (\<lambda>t. J t \<and> (\<forall>x. r = Some x \<longrightarrow> x \<in> set (f t))))"
  using lookup_state [of E f] lookup_row [of E f] by (simp add: hoare_def case_prod_beta intx_def)

lemma lookup_keeps: "keeps E (db_lookup E f)"
  using lookup_state [of E f] by (simp add: keeps_def hoare_def case_prod_beta durable_wf_def)

lemma begin_hoare: "hoare E durable_wf (db_begin E) (\<lambda>ok. if ok then intx pcdb_wf else durable_wf)"
  by (simp add: hoare_def db_begin_def durable_wf_def durable_def intx_def split: option.splits)

lemma finish_hoare: "hoare E (intx (\<lambda>t. ok \<longrightarrow> pcdb_wf t)) (db_finish E ok) (\<lambda>_. durable_wf)"
  by (auto simp: hoare_def db_finish_def db_commit_def db_rollback_def durable_wf_def durable_def intx_def
      split: option.splits)

lemma intx_durable: "intx J db \<Longrightarrow> durable_wf db"
  by (auto simp: intx_def durable_wf_def durable_def)

text \<open>A transaction: the body ends with the flag on which the end depends.\<close>

lemma keeps_tx:
  assumes "hoare E (intx pcdb_wf) body (\<lambda>_. durable_wf)"
  shows "hoare E durable_wf (\<lambda>db. let (ok, db) = db_begin E db in if \<not> ok then (r, db) else body db) (\<lambda>_. durable_wf)"
  by (rule hoare_let [OF begin_hoare], rule hoare_cond, rule hoare_return, simp, simp add: assms)

lemma keeps_guard: "keeps E op \<Longrightarrow> keeps E (\<lambda>db. if b db then (r, db) else op db)"
  unfolding keeps_def by (intro hoare_if hoare_return)

subsection \<open>Rows and keys\<close>

lemma upsert_keys:
  assumes "distinct (map key rows)" "\<And>old. key old = key new \<Longrightarrow> key (merge old new) = key new"
  shows "distinct (map key (upsert key merge new rows))"
proof -
  have "key (if key r = key new then merge r new else r) = key r" for r using assms(2) by simp
  then have keys: "map key (map (\<lambda>r. if key r = key new then merge r new else r) rows) = map key rows"
    by (simp add: comp_def)
  show ?thesis
  proof (cases "key new \<in> key ` set rows")
    case True
    have "upsert key merge new rows = map (\<lambda>r. if key r = key new then merge r new else r) rows"
      unfolding upsert_def by (rule if_P [OF True])
    then show ?thesis using keys assms(1) by (metis (mono_tags, lifting))
  next
    case False
    then show ?thesis using assms(1) by (simp add: upsert_def)
  qed
qed

lemma upsert_other: "d \<in> set rows \<Longrightarrow> key d \<noteq> key new \<Longrightarrow> d \<in> set (upsert key merge new rows)"
  by (auto simp: upsert_def)

lemma upsert_own:
  assumes "P new" "\<And>old. key old = key new \<Longrightarrow> P (merge old new)"
  shows "\<exists>r \<in> set (upsert key merge new rows). P r"
proof (cases "key new \<in> key ` set rows")
  case True
  then obtain d where d: "d \<in> set rows" "key d = key new" by (metis image_iff)
  then have "merge d new \<in> (\<lambda>r. if key r = key new then merge r new else r) ` set rows"
    by (simp add: rev_image_eqI)
  then have "merge d new \<in> set (upsert key merge new rows)" using True by (simp add: upsert_def)
  then show ?thesis using assms(2) d(2) by blast
next
  case False
  then show ?thesis using assms(1) by (simp add: upsert_def)
qed

lemma upsert_key_set:
  assumes "\<And>old. key old = key new \<Longrightarrow> key (merge old new) = key new"
  shows "key ` set (upsert key merge new rows) \<subseteq> insert (key new) (key ` set rows)"
  using assms by (auto simp: upsert_def)

lemma upsert_all:
  assumes "\<forall>r \<in> set rows. P r" "P new" "\<And>old. key old = key new \<Longrightarrow> P old \<Longrightarrow> P (merge old new)"
  shows "\<forall>r \<in> set (upsert key merge new rows). P r"
  using assms by (auto simp: upsert_def)

lemma replace_keys: "distinct (map key rows) \<Longrightarrow> distinct (map key (replace_row key new rows))"
  by (auto simp: replace_row_def distinct_map_filter)

lemma map_keys:
  assumes "\<And>r. key (g r) = key r"
  shows "map key (map (\<lambda>r. if c r then g r else r) rows) = map key rows"
proof -
  have "key (if c r then g r else r) = key r" for r using assms by simp
  then show ?thesis by (simp add: comp_def)
qed

lemma stray_other [simp]:
  "stray_refs T (t\<lparr>tb_registry := a\<rparr>) = stray_refs T t" "stray_refs T (t\<lparr>tb_status := b\<rparr>) = stray_refs T t"
  "stray_refs T (t\<lparr>tb_port := c\<rparr>) = stray_refs T t" "stray_refs T (t\<lparr>tb_command := d\<rparr>) = stray_refs T t"
  "stray_refs T (t\<lparr>tb_alarm := e\<rparr>) = stray_refs T t" "stray_refs T (t\<lparr>tb_nextAlarm := n\<rparr>) = stray_refs T t"
  by (cases T; simp add: stray_refs_def used_device_def)+

lemma live_other [simp]:
  "used_device (t\<lparr>tb_device_status := a\<rparr>) k = used_device t k" "used_device (t\<lparr>tb_latest := b\<rparr>) k = used_device t k"
  "used_device (t\<lparr>tb_config := c\<rparr>) k = used_device t k" "used_device (t\<lparr>tb_history := d\<rparr>) k = used_device t k"
  by (simp_all add: used_device_def)

lemma stray_status: "stray_refs T (t\<lparr>tb_device_status := xs\<rparr>) =
    (if T = T_device_status then {k \<in> status_ref ` set xs. \<not> used_device t k} else stray_refs T t)"
  by (cases T) (simp_all add: stray_refs_def)

lemma stray_latest: "stray_refs T (t\<lparr>tb_latest := ps\<rparr>) =
    (if T = T_latest_point then {k \<in> point_ref ` set ps. \<not> used_device t k} else stray_refs T t)"
  by (cases T) (simp_all add: stray_refs_def)

lemma stray_config: "stray_refs T (t\<lparr>tb_config := cs\<rparr>) =
    (if T = T_point_config then {k \<in> config_ref ` set cs. \<not> used_device t k} else stray_refs T t)"
  by (cases T) (simp_all add: stray_refs_def)

lemma stray_history: "stray_refs T (t\<lparr>tb_history := ps\<rparr>) =
    (if T = T_telemetry_history then {k \<in> point_ref ` set ps. \<not> used_device t k} else stray_refs T t)"
  by (cases T) (simp_all add: stray_refs_def)

lemma pcdb_wf_live:
  assumes "pcdb_wf t" "T \<noteq> T_alarm_event" "k \<in> table_refs T t"
  shows "used_device t k"
proof -
  have "stray_refs T t = {}" using assms(1) by (simp add: pcdb_wf_def)
  then show ?thesis using assms(2,3) unfolding stray_refs_def by (simp only: if_False) blast
qed

text \<open>Writes of one row: the device it names must be in use.\<close>

lemma write_latest:
  assumes "pcdb_wf t" "used_device t (point_ref p)"
  shows "pcdb_wf (t\<lparr>tb_latest := upsert tp_pointId (\<lambda>_ new. new) p (tb_latest t)\<rparr>)"
proof -
  have "set (upsert tp_pointId (\<lambda>_ new. new) p (tb_latest t)) \<subseteq> insert p (set (tb_latest t))"
    by (auto simp: upsert_def)
  then have "{k \<in> point_ref ` set (upsert tp_pointId (\<lambda>_ new. new) p (tb_latest t)). \<not> used_device t k} = {}"
    using assms pcdb_wf_live [OF assms(1), of T_latest_point] by fastforce
  then show ?thesis using assms(1)
    by (simp add: pcdb_wf_def rows_wf_def keys_wf_def upsert_keys stray_latest)
qed

lemma write_history:
  assumes "pcdb_wf t" "used_device t (point_ref p)"
  shows "pcdb_wf (t\<lparr>tb_history := tb_history t @ [p]\<rparr>)"
  using assms pcdb_wf_live [OF assms(1), of T_telemetry_history]
  by (auto simp: pcdb_wf_def rows_wf_def keys_wf_def stray_history)

lemma write_config:
  assumes "pcdb_wf t" "used_device t (config_ref c)"
  shows "pcdb_wf (t\<lparr>tb_config := replace_row pc_pointId c (tb_config t)\<rparr>)"
  using assms pcdb_wf_live [OF assms(1), of T_point_config]
  by (auto simp: pcdb_wf_def rows_wf_def keys_wf_def replace_keys stray_config replace_row_def distinct_map_filter)

lemma write_status:
  assumes "pcdb_wf t" "used_device t (status_ref r)"
  shows "pcdb_wf (t\<lparr>tb_device_status := upsert status_ref merge_status r (tb_device_status t)\<rparr>)"
proof -
  have same: "status_ref (merge_status old r) = status_ref old" for old
    by (simp add: status_ref_def merge_status_def)
  have "{k \<in> status_ref ` set (upsert status_ref merge_status r (tb_device_status t)). \<not> used_device t k} = {}"
    using upsert_key_set [of status_ref r merge_status "tb_device_status t"] assms same
      pcdb_wf_live [OF assms(1), of T_device_status] by fastforce
  then show ?thesis using assms
    by (simp add: pcdb_wf_def rows_wf_def keys_wf_def upsert_keys same stray_status)
qed

text \<open>A device that is written is in use, and no device stops being in use.\<close>

lemma write_device:
  assumes "pcdb_wf t" "row_wf r" "\<not> device_tomb r"
  shows "pcdb_wf (t\<lparr>tb_device := upsert row_ref merge_device r (tb_device t)\<rparr>) \<and>
    used_device (t\<lparr>tb_device := upsert row_ref merge_device r (tb_device t)\<rparr>) (row_ref r)"
proof -
  let ?t = "t\<lparr>tb_device := upsert row_ref merge_device r (tb_device t)\<rparr>"
  have key: "row_ref (merge_device old r) = row_ref r" "row_wf (merge_device old r)" "\<not> device_tomb (merge_device old r)" for old
    using assms by (simp_all add: merge_device_def row_ref_def row_wf_def device_tomb_def)
  have own: "used_device ?t (row_ref r)"
    using upsert_own [of "\<lambda>d. row_ref d = row_ref r \<and> \<not> device_tomb d" r row_ref merge_device "tb_device t"] key assms(3)
    by (simp add: used_device_def)
  have live: "used_device ?t k" if "used_device t k" for k
  proof (cases "k = row_ref r")
    case True
    then show ?thesis using own by simp
  next
    case False
    with that obtain d where d: "d \<in> set (tb_device t)" "row_ref d = k" "\<not> device_tomb d" "row_ref d \<noteq> row_ref r"
      by (auto simp: used_device_def)
    then have "d \<in> set (tb_device ?t)" using upsert_other [OF d(1) d(4)] by simp
    then show ?thesis using d(2,3) by (auto simp: used_device_def)
  qed
  have "table_refs T ?t = table_refs T t" for T by (cases T) simp_all
  then have "stray_refs T ?t = {}" for T
    using live pcdb_wf_live [OF assms(1), of T] by (auto simp: stray_refs_def)
  moreover have "\<forall>d \<in> set (upsert row_ref merge_device r (tb_device t)). row_wf d"
    using assms key by (intro upsert_all) (simp_all add: pcdb_wf_def rows_wf_def)
  ultimately show ?thesis using own assms(1) key
    by (simp add: pcdb_wf_def rows_wf_def keys_wf_def upsert_keys)
qed

end
