(* ===== verification/PcDbKeeps.thy ===== *)
theory PcDbKeeps
  imports PcDbWf
begin

text \<open>
  Every operation of the database keeps the invariant of the durable tables, whatever statements
  fail: one lemma per operation, in the order of the source.
\<close>

named_theorems db_keeps \<open>operations that keep the invariant of the durable tables\<close>
named_theorems db_reads \<open>operations that only read\<close>

lemma keepsI: "hoare E durable_wf op (\<lambda>_. durable_wf) \<Longrightarrow> keeps E op"
  by (simp add: keeps_def)

lemma keepsD: "keeps E op \<Longrightarrow> hoare E durable_wf op (\<lambda>_. durable_wf)"
  by (simp add: keeps_def)

subsection \<open>Queries\<close>

definition reads :: "db_engine \<Rightarrow> (PcDatabase \<Rightarrow> 'r \<times> PcDatabase) \<Rightarrow> bool" where
  "reads E op \<longleftrightarrow> undoes_none E \<longrightarrow> (\<forall>db. pd_open (snd (op db)) = pd_open db \<and> pd_tables (snd (op db)) = pd_tables db
     \<and> pd_saved (snd (op db)) = pd_saved db)"

lemma reads_keeps: "reads E op \<Longrightarrow> keeps E op"
  by (simp add: reads_def keeps_def hoare_def case_prod_beta durable_wf_def durable_def split: option.split)

lemma reads_intx: "reads E op \<Longrightarrow> hoare E (intx J) op (\<lambda>_. intx J)"
  by (simp add: reads_def hoare_def case_prod_beta intx_def)

lemmas read_simps = reads_def Let_def case_prod_beta lookup_state query_state

lemma deviceExists_reads [db_reads]: "reads E (deviceExists E g p d)"
  by (simp add: read_simps deviceExists_def)

lemma deviceDeleted_reads [db_reads]: "reads E (deviceDeleted E g p d)"
  by (simp add: read_simps deviceDeleted_def)

lemma queryDeviceType_reads [db_reads]: "reads E (queryDeviceType E g p d)"
  by (simp add: read_simps queryDeviceType_def)

lemma deviceCount_reads [db_reads]: "reads E (deviceCount E)"
  by (simp add: read_simps deviceCount_def)

lemma pointConfigExists_reads [db_reads]: "reads E (pointConfigExists E g p d k)"
  using deviceExists_reads [of E g p d] by (simp add: read_simps pointConfigExists_def)

lemma queryGatewayRegistry_reads [db_reads]: "reads E (queryGatewayRegistry E g)"
  by (simp add: read_simps queryGatewayRegistry_def)

lemma registry_topics_reads [db_reads]: "reads E (queryGatewayCmdTopic E g)" "reads E (queryGatewayUpTopic E g)"
    "reads E (gatewayRegistryExists E g)"
  using queryGatewayRegistry_reads [of E g]
  by (simp_all add: read_simps queryGatewayCmdTopic_def queryGatewayUpTopic_def gatewayRegistryExists_def)

lemma find_port_reads [db_reads]: "reads E (find_port E g p)"
  by (simp add: read_simps find_port_def)

lemma port_reads [db_reads]: "reads E (isGatewayPortConnected E g p)" "reads E (gatewayPortExists E g p)"
  using find_port_reads [of E g p] by (simp_all add: read_simps isGatewayPortConnected_def gatewayPortExists_def)

lemma list_reads [db_reads]: "reads E (getAllGatewayRegistry E)" "reads E (queryGatewayStatuses E)"
    "reads E (queryGatewayPorts E)" "reads E (queryDevices E)" "reads E (queryPointConfigs E)" "reads E (queryLatestPoints E)"
    "reads E (queryAlarmEvents E)"
  by (simp_all add: read_simps getAllGatewayRegistry_def queryGatewayStatuses_def queryGatewayPorts_def
      queryDevices_def queryPointConfigs_def queryLatestPoints_def queryAlarmEvents_def)

lemma history_reads [db_reads]: "reads E (queryHistoryPoints E k a b n)"
  by (simp add: read_simps queryHistoryPoints_def)

lemma queryCommandTargetBySeq_reads [db_reads]: "reads E (queryCommandTargetBySeq E q)"
  by (simp add: read_simps queryCommandTargetBySeq_def)

lemma accepted_rows_reads [db_reads]: "reads E (accepted_rows E ps)"
proof (induction ps)
  case (Cons p ps)
  then show ?case
    using deviceExists_reads [of E "tp_gatewayId p" "tp_portId p" "tp_deviceId p"] by (simp add: read_simps)
qed (simp add: reads_def)

lemma known_configs_reads [db_reads]: "reads E (known_configs E cs)"
proof (induction cs)
  case (Cons c cs)
  then show ?case
    using deviceExists_reads [of E "pc_gatewayId c" "pc_portId c" "pc_deviceId c"] by (simp add: read_simps)
qed (simp add: reads_def)

text \<open>A device that is found is in use.\<close>

lemma deviceExists_live:
  assumes "fst (deviceExists E g p d db)"
  shows "used_device (pd_tables db) (bind_ref g p d)"
proof -
  from assms obtain r where "fst (db_lookup E (\<lambda>t. filter (\<lambda>r. row_ref r = bind_ref g p d
      \<and> device_active r) (tb_device t)) db) = Some r"
    by (auto simp: deviceExists_def case_prod_beta Let_def split: if_splits)
  from lookup_row [OF this] show ?thesis
    by (auto simp: used_device_def device_active_def device_tomb_def)
qed

lemma deviceExists_intx:
  "hoare E (intx J) (deviceExists E g p d) (\<lambda>r. intx (\<lambda>t. J t \<and> (r \<longrightarrow> used_device t (bind_ref g p d))))"
  using deviceExists_reads [of E g p d] deviceExists_live [of E g p d]
  by (simp add: hoare_def reads_def intx_def case_prod_beta)

lemma accepted_rows_live:
  "undoes_none E \<Longrightarrow> p \<in> set (fst (accepted_rows E ps db)) \<Longrightarrow>
     used_device (pd_tables db) (bind_ref (tp_gatewayId p) (tp_portId p) (tp_deviceId p)) \<and> p \<in> set ps \<and> tp_pointId p \<noteq> []"
proof (induction ps arbitrary: db)
  case (Cons q ps)
  let ?db = "snd (deviceExists E (tp_gatewayId q) (tp_portId q) (tp_deviceId q) db)"
  have same: "pd_tables ?db = pd_tables db"
    using deviceExists_reads [of E "tp_gatewayId q" "tp_portId q" "tp_deviceId q"] Cons.prems(1)
    by (simp add: reads_def)
  show ?case
  proof (cases "tp_pointId q = []")
    case True
    then show ?thesis using Cons by simp
  next
    case False
    then have "p \<in> set (fst (accepted_rows E ps ?db)) \<or>
        p = q \<and> fst (deviceExists E (tp_gatewayId q) (tp_portId q) (tp_deviceId q) db)"
      using Cons.prems(2) by (auto simp: case_prod_beta Let_def split: if_splits)
    then show ?thesis using Cons.IH [of ?db, OF Cons.prems(1)] same deviceExists_live [of E _ _ _ db] False by fastforce
  qed
qed simp

subsection \<open>Statements outside of transactions\<close>

lemma keeps_stmt_guard:
  "(\<And>t. pcdb_wf t \<Longrightarrow> pcdb_wf (f t)) \<Longrightarrow> keeps E (\<lambda>db. if b db then (r, db) else db_stmt E f db)"
  by (intro keeps_guard stmt_keeps)

lemma wf_registry:
  "pcdb_wf t \<Longrightarrow> distinct (map gr_gatewayId rs) \<Longrightarrow> pcdb_wf (t\<lparr>tb_registry := rs\<rparr>)"
  by (simp add: pcdb_wf_def rows_wf_def keys_wf_def)

lemma wf_status: "pcdb_wf t \<Longrightarrow> distinct (map gs_gatewayId gs) \<Longrightarrow> pcdb_wf (t\<lparr>tb_status := gs\<rparr>)"
  by (simp add: pcdb_wf_def rows_wf_def keys_wf_def)

lemma wf_port: "pcdb_wf t \<Longrightarrow> distinct (map port_ref ps) \<Longrightarrow> pcdb_wf (t\<lparr>tb_port := ps\<rparr>)"
  by (simp add: pcdb_wf_def rows_wf_def keys_wf_def)

lemma wf_command: "pcdb_wf t \<Longrightarrow> distinct (map cl_commandId cs) \<Longrightarrow> pcdb_wf (t\<lparr>tb_command := cs\<rparr>)"
  by (simp add: pcdb_wf_def rows_wf_def keys_wf_def)

lemma wf_alarm:
  "pcdb_wf t \<Longrightarrow> distinct (map al_id rs) \<Longrightarrow> \<forall>r \<in> set rs. al_id r < tb_nextAlarm t \<Longrightarrow> pcdb_wf (t\<lparr>tb_alarm := rs\<rparr>)"
  by (simp add: pcdb_wf_def rows_wf_def keys_wf_def)

lemmas wf_keys = pcdb_wf_def rows_wf_def keys_wf_def

lemma upsertGatewayStatus_keeps [db_keeps]: "keeps E (upsertGatewayStatus E g)"
  unfolding upsertGatewayStatus_def
  by (rule keeps_stmt_guard, rule wf_status) (simp_all add: upsert_keys wf_keys)

lemma upsertGatewayRegistry_keeps [db_keeps]: "keeps E (upsertGatewayRegistry E r)"
  unfolding upsertGatewayRegistry_def
  by (rule keeps_stmt_guard, rule wf_registry) (simp_all add: upsert_keys wf_keys)

lemma upsertGatewayPort_keeps [db_keeps]: "keeps E (upsertGatewayPort E p)"
  unfolding upsertGatewayPort_def
  by (rule keeps_stmt_guard, rule wf_port) (simp_all add: upsert_keys wf_keys)

lemma updateGatewayRegistryHeartbeat_keeps [db_keeps]: "keeps E (updateGatewayRegistryHeartbeat E now g s)"
  unfolding updateGatewayRegistryHeartbeat_def Let_def
  by (rule keeps_stmt_guard, rule wf_registry, assumption, rule upsert_keys) (simp_all add: wf_keys)

lemma updateGatewayHeartbeat_keeps [db_keeps]: "keeps E (updateGatewayHeartbeat E now g s)"
  unfolding updateGatewayHeartbeat_def Let_def
  by (rule keeps_stmt_guard, rule wf_status, assumption, rule upsert_keys) (simp_all add: wf_keys)

lemma createCommandLog_keeps [db_keeps]: "keeps E (createCommandLog E a b c d e f now)"
  unfolding createCommandLog_def Let_def
  by (rule keeps_stmt_guard, rule wf_command) (simp_all add: replace_keys wf_keys)

lemma log_outcome_key: "map cl_commandId (map (\<lambda>r. if b r then log_outcome s a m n r else r) rows) = map cl_commandId rows"
  by (rule map_keys) (simp add: log_outcome_def)

lemma updateCommandLog_keeps [db_keeps]: "keeps E (updateCommandLogByCommandId E k s a m n)" "keeps E (updateCommandLogBySeq E q s a m n)"
  unfolding updateCommandLogByCommandId_def updateCommandLogBySeq_def
  by (rule keeps_stmt_guard, rule wf_command, assumption, simp only: log_outcome_key, simp add: wf_keys)+

lemma keeps_cond: "keeps E op \<Longrightarrow> keeps E op' \<Longrightarrow> keeps E (\<lambda>db. if b db then op db else op' db)"
  unfolding keeps_def by (rule hoare_if)

text \<open>A count is taken of the tables, then a statement runs.\<close>

lemma keeps_stmt_count:
  "(\<And>t. pcdb_wf t \<Longrightarrow> pcdb_wf (f t)) \<Longrightarrow>
     keeps E (\<lambda>db. let n = c db; (ok, db) = db_stmt E f db in (h n ok, db))"
  using stmt_keeps [of f E] by (auto simp: keeps_def hoare_def Let_def split: prod.splits)

lemma status_map_stray:
  assumes "pcdb_wf t" "\<And>s. status_ref (h s) = status_ref s"
  shows "pcdb_wf (t\<lparr>tb_device_status := map h (tb_device_status t)\<rparr>)"
proof -
  have "map status_ref (map h xs) = map status_ref xs" for xs using assms(2) by (simp add: comp_def)
  moreover have refs: "status_ref ` set (map h (tb_device_status t)) = table_refs T_device_status t"
    using assms(2) by (simp add: image_image)
  have "{k \<in> status_ref ` set (map h (tb_device_status t)). \<not> used_device t k} = {}"
    using pcdb_wf_live [OF assms(1), of T_device_status] unfolding refs by blast
  ultimately show ?thesis using assms(1) by (simp add: wf_keys stray_status del: map_map)
qed

lemma markOfflineDevices_keeps [db_keeps]: "keeps E (markOfflineDevices E now t)"
  unfolding markOfflineDevices_def
  by (rule keeps_guard, rule keeps_stmt_count, rule status_map_stray) (simp_all add: status_ref_def)

lemma markStaleGateways_keeps [db_keeps]: "keeps E (markStaleGateways E now t)"
  unfolding markStaleGateways_def
  by (rule keeps_guard, rule keeps_stmt_count, rule wf_status, assumption, subst map_keys) (simp_all add: wf_keys)

subsection \<open>Alarms\<close>

lemma alarm_map_wf:
  assumes "pcdb_wf t" "\<And>r. al_id (g r) = al_id r"
  shows "pcdb_wf (t\<lparr>tb_alarm := map (\<lambda>r. if c r then g r else r) (tb_alarm t)\<rparr>)"
proof (rule wf_alarm [OF assms(1)])
  show "distinct (map al_id (map (\<lambda>r. if c r then g r else r) (tb_alarm t)))"
    unfolding map_keys [of al_id, OF assms(2)] using assms(1) by (simp add: wf_keys)
  show "\<forall>r \<in> set (map (\<lambda>r. if c r then g r else r) (tb_alarm t)). al_id r < tb_nextAlarm t"
    using assms by (auto simp: wf_keys)
qed

lemma alarm_columns_id [simp]: "al_id (alarm_columns n e r) = al_id r"
  by (simp add: alarm_columns_def Let_def)

lemma alarm_new_wf:
  assumes "pcdb_wf t"
  shows "pcdb_wf (t\<lparr>tb_alarm := tb_alarm t @ [alarm_new_row (tb_nextAlarm t) n e], tb_nextAlarm := tb_nextAlarm t + 1\<rparr>)"
proof -
  have "al_id (alarm_new_row (tb_nextAlarm t) n e) = tb_nextAlarm t" by (simp add: alarm_new_row_def)
  then show ?thesis using assms by (force simp: wf_keys)
qed

lemma keeps_then:
  assumes "keeps E a" "keeps E b"
  shows "keeps E (\<lambda>db. case a db of (ok, db') \<Rightarrow> if \<not> ok then (r, db') else if c db then (r', db') else b db')"
proof -
  have "durable_wf (snd (a db))" "durable_wf (snd (b (snd (a db))))" if "undoes_none E" "durable_wf db" for db
    using assms that by (auto simp: keeps_def hoare_def case_prod_beta)
  then show ?thesis by (simp add: keeps_def hoare_def case_prod_beta)
qed

lemma keeps_result:
  assumes "keeps E a"
  shows "keeps E (\<lambda>db. case a db of (x, db') \<Rightarrow> (f db x, db'))"
  using assms by (simp add: keeps_def hoare_def case_prod_beta)

lemma saveAlarmEvent_keeps [db_keeps]: "keeps E (saveAlarmEvent E now e)"
proof -
  let ?n = "if ae_timestampMs e > 0 then ae_timestampMs e else now"
  have first: "keeps E (db_stmt E (\<lambda>t. t\<lparr>tb_alarm := map (\<lambda>r. if alarm_same e r
      then alarm_columns ?n e r else r) (tb_alarm t)\<rparr>))"
    by (rule stmt_keeps) (simp add: alarm_map_wf)
  have second: "keeps E (db_stmt E (\<lambda>t. t\<lparr>tb_alarm := tb_alarm t @ [alarm_new_row (tb_nextAlarm t) ?n e],
      tb_nextAlarm := tb_nextAlarm t + 1\<rparr>))"
    by (rule stmt_keeps) (rule alarm_new_wf)
  show ?thesis
    unfolding saveAlarmEvent_def Let_def
    by (rule keeps_guard, rule keeps_then [OF first second])
qed

lemma filter_alarm_wf: "pcdb_wf t \<Longrightarrow> pcdb_wf (t\<lparr>tb_alarm := filter P (tb_alarm t)\<rparr>)"
  by (rule wf_alarm) (auto simp: wf_keys distinct_map_filter)

lemma clear_alarms_keeps [db_keeps]: "keeps E (clearRecoveredAlarms E)" "keeps E (clearAcknowledgedAlarms E)"
  unfolding clearRecoveredAlarms_def clearAcknowledgedAlarms_def
  by (rule keeps_stmt_guard, rule filter_alarm_wf, assumption)+

lemma acknowledgeAlarm_keeps [db_keeps]: "keeps E (acknowledgeAlarm E now k n)"
proof -
  let ?n = "if n > 0 then n else now"
  have first: "keeps E (db_stmt E (\<lambda>t. t\<lparr>tb_alarm := map (\<lambda>r. if al_pointId r = c_str k
      then acknowledge_row ?n r else r) (tb_alarm t)\<rparr>))"
    by (rule stmt_keeps, erule alarm_map_wf) (simp add: acknowledge_row_def)
  show ?thesis
    unfolding acknowledgeAlarm_def Let_def
    by (rule keeps_guard, rule keeps_result [OF first])
qed

subsection \<open>Writing devices\<close>

lemma status_row_ref: "status_ref (status_row d) = bind_ref (dr_gatewayId d) (dr_portId d) (dr_deviceId d)"
  by (simp add: status_ref_def status_row_def bind_ref_def)

lemma device_row_ref: "row_ref (device_row d) = bind_ref (dr_gatewayId d) (dr_portId d) (dr_deviceId d)"
  by (simp add: row_ref_def device_row_def bind_ref_def Let_def)

lemma device_row_wf: "row_wf (device_row d)" "\<not> device_tomb (device_row d)"
  by (simp_all add: device_row_def row_wf_def device_tomb_def Let_def)

lemma upsertDeviceStatus_intx:
  "hoare E (intx (\<lambda>t. pcdb_wf t \<and> used_device t (bind_ref (dr_gatewayId d) (dr_portId d) (dr_deviceId d))))
     (upsertDeviceStatus E d) (\<lambda>_. intx pcdb_wf)"
  unfolding upsertDeviceStatus_def
  by (rule hoare_if, rule hoare_return, simp add: intx_def, rule hoare_post [OF stmt_intx [where J' = pcdb_wf]])
    (auto simp: intx_def status_row_ref intro: write_status split: if_splits)

text \<open>The status is written after a statement that leaves the device in use.\<close>

lemma upsertDevice_keeps [db_keeps]: "keeps E (upsertDevice E d allow)"
proof -
  let ?k = "bind_ref (dr_gatewayId d) (dr_portId d) (dr_deviceId d)"
  have row: "hoare E (intx pcdb_wf) (db_stmt E (\<lambda>t. t\<lparr>tb_device := upsert row_ref merge_device (device_row d) (tb_device t)\<rparr>))
      (\<lambda>ok. intx (if ok then \<lambda>t. pcdb_wf t \<and> used_device t ?k else pcdb_wf))"
    by (rule stmt_intx) (use write_device [OF _ device_row_wf] in \<open>simp add: device_row_ref\<close>)
  have status: "hoare E (intx (if ok then \<lambda>t. pcdb_wf t \<and> used_device t ?k else pcdb_wf))
      (\<lambda>db. if ok then upsertDeviceStatus E d db else (False, db)) (\<lambda>_. intx pcdb_wf)" for ok
    by (cases ok) (use upsertDeviceStatus_intx [of E d] in \<open>simp_all add: hoare_def\<close>)
  have body: "hoare E (intx pcdb_wf)
      (\<lambda>db. let (ok, db) = db_stmt E (\<lambda>t. t\<lparr>tb_device := upsert row_ref merge_device (device_row d) (tb_device t)\<rparr>) db;
               (ok, db) = (if ok then upsertDeviceStatus E d db else (False, db)) in db_finish E ok db)
      (\<lambda>_. durable_wf)"
    by (rule hoare_let [OF row], rule hoare_let [OF status], rule hoare_pre [OF finish_hoare]) (simp add: intx_def)
  show ?thesis
    unfolding upsertDevice_def
    by (rule keeps_guard, rule keepsI, rule hoare_let [OF keepsD [OF reads_keeps [OF deviceDeleted_reads]]],
        rule hoare_if, rule hoare_return, assumption, rule keeps_tx [OF body])
qed

lemma lifecycle_wf:
  assumes "pcdb_wf t" "\<And>r. row_ref (g r) = row_ref r" "\<And>r. row_wf (g r)" "\<And>r. \<not> device_tomb (g r)"
  shows "pcdb_wf (t\<lparr>tb_device := map (\<lambda>r. if c r then g r else r) (tb_device t)\<rparr>)"
proof -
  let ?t = "t\<lparr>tb_device := map (\<lambda>r. if c r then g r else r) (tb_device t)\<rparr>"
  have live: "used_device ?t k" if k: "used_device t k" for k
  proof -
    from k obtain r where r: "r \<in> set (tb_device t)" "row_ref r = k" "\<not> device_tomb r" by (auto simp: used_device_def)
    then have "(if c r then g r else r) \<in> set (tb_device ?t)" by simp
    moreover have "row_ref (if c r then g r else r) = k" "\<not> device_tomb (if c r then g r else r)"
      using r assms by simp_all
    ultimately show ?thesis unfolding used_device_def by blast
  qed
  have "table_refs T ?t = table_refs T t" for T by (cases T) simp_all
  then have "stray_refs T ?t = {}" for T
    using live pcdb_wf_live [OF assms(1), of T] by (auto simp: stray_refs_def)
  moreover have "map row_ref (map (\<lambda>r. if c r then g r else r) (tb_device t)) = map row_ref (tb_device t)"
    by (rule map_keys) (rule assms(2))
  moreover have "\<forall>r \<in> set (map (\<lambda>r. if c r then g r else r) (tb_device t)). row_wf r"
    using assms(1,3) by (auto simp: wf_keys)
  ultimately show ?thesis using assms(1) by (simp add: wf_keys del: map_map set_map)
qed

lemma reactivateDeletedDevice_keeps [db_keeps]: "keeps E (reactivateDeletedDevice E now g p d)"
  unfolding reactivateDeletedDevice_def
  by (rule keeps_stmt_guard, erule lifecycle_wf) (simp_all add: reactivate_row_def row_ref_def row_wf_def device_tomb_def)

subsection \<open>Transactions\<close>

lemma wf_after_read: "reads E op \<Longrightarrow> hoare E (intx pcdb_wf) op (\<lambda>_. intx pcdb_wf)"
  by (rule reads_intx)

lemma finish_wf: "hoare E (intx pcdb_wf) (db_finish E ok) (\<lambda>_. durable_wf)"
  by (rule hoare_pre [OF finish_hoare]) (simp add: intx_def)

lemma point_row_ref: "point_ref (point_row p) = bind_ref (tp_gatewayId p) (tp_portId p) (tp_deviceId p)"
  by (simp add: point_ref_def point_row_def bind_ref_def)

lemma config_row_ref: "config_ref (config_row c) = bind_ref (pc_gatewayId c) (pc_portId c) (pc_deviceId c)"
  by (simp add: config_ref_def config_row_def bind_ref_def Let_def)

text \<open>Dropping rows.\<close>

lemma drop_keys:
  assumes "rows_wf t"
  shows "rows_wf (drop_refs T P t)"
proof -
  have "distinct (map f (filter Q xs))" if "distinct (map f xs)" for f :: "'r \<Rightarrow> 'k" and Q xs
    using that by (rule distinct_map_filter)
  then show ?thesis using assms by (cases T) (auto simp: rows_wf_def keys_wf_def distinct_map_filter)
qed

lemma drop_device [simp]: "tb_device (drop_refs T P t) = tb_device t"
  by (cases T) simp_all

lemma drop_table_refs: "table_refs T' (drop_refs T P t) \<subseteq> table_refs T' t - (if T = T' then {k. P k} else {})"
  by (cases T; cases T') auto

lemma drop_stray: "stray_refs T' (drop_refs T P t) \<subseteq> stray_refs T' t - (if T = T' then {k. P k} else {})"
  using drop_table_refs [of T' T P t] by (auto simp: stray_refs_def used_device_def split: if_splits)

lemma drop_wf: "pcdb_wf t \<Longrightarrow> pcdb_wf (drop_refs T P t)"
  using drop_stray [of _ T P t] drop_keys [of t T P] by (simp add: pcdb_wf_def)

lemma drop_live: "used_device (drop_refs T P t) k = used_device t k"
  by (simp add: used_device_def)

text \<open>What a batch of accepted points assumes: their devices stay in use.\<close>

definition all_live :: "device_ref set \<Rightarrow> PcTables \<Rightarrow> bool" where
  "all_live K t \<longleftrightarrow> pcdb_wf t \<and> (\<forall>k \<in> K. used_device t k)"

definition full_ref :: "TelemetryPoint \<Rightarrow> device_ref" where
  "full_ref p = bind_ref (tp_gatewayId p) (tp_portId p) (tp_deviceId p)"

lemma accepted_rows_intx:
  "hoare E (intx pcdb_wf) (accepted_rows E ps) (\<lambda>qs. intx (all_live (full_ref ` set qs)))"
  using accepted_rows_reads [of E ps] accepted_rows_live [of E _ ps]
  by (auto simp: hoare_def reads_def intx_def all_live_def full_ref_def case_prod_beta)

lemma deleteLatest_intx: "hoare E (intx (all_live K)) (deleteLatestPointsForDevice E g p d) (\<lambda>_. intx (all_live K))"
  unfolding deleteLatestPointsForDevice_def deleteRowsByDevice_def
  by (rule hoare_if, rule hoare_return, assumption, rule stmt_intx_keep) (simp add: all_live_def drop_wf drop_live del: drop_refs.simps)

lemma saveLatest_intx:
  "full_ref p \<in> K \<Longrightarrow> hoare E (intx (all_live K)) (saveLatestPoint E p) (\<lambda>_. intx (all_live K))"
  unfolding saveLatestPoint_def
  by (rule stmt_intx_keep) (simp add: all_live_def write_latest point_row_ref full_ref_def)

lemma saveHistory_intx:
  "full_ref p \<in> K \<Longrightarrow> hoare E (intx (all_live K)) (saveHistoryPoint E p) (\<lambda>_. intx (all_live K))"
  unfolding saveHistoryPoint_def
  by (rule stmt_intx_keep) (simp add: all_live_def write_history point_row_ref full_ref_def)

lemma upsertDeviceStatus_live:
  assumes "bind_ref (dr_gatewayId d) (dr_portId d) (dr_deviceId d) \<in> K"
  shows "hoare E (intx (all_live K)) (upsertDeviceStatus E d) (\<lambda>_. intx (all_live K))"
  unfolding upsertDeviceStatus_def
  by (rule hoare_if, rule hoare_return, assumption, rule stmt_intx_keep)
    (use assms in \<open>simp add: all_live_def write_status status_row_ref\<close>)

lemma point_device_ref: "bind_ref (dr_gatewayId (point_device now p)) (dr_portId (point_device now p))
    (dr_deviceId (point_device now p)) = full_ref p"
  by (simp add: point_device_def full_ref_def Let_def)

lemma save_point_intx:
  assumes "full_ref p \<in> K"
  shows "hoare E (intx (all_live K)) (save_point E now p) (\<lambda>_. intx (all_live K))"
proof -
  have online: "hoare E (intx (all_live K)) (updateDeviceOnlineFromTelemetry E now p) (\<lambda>_. intx (all_live K))"
    unfolding updateDeviceOnlineFromTelemetry_def
    by (rule hoare_if, rule hoare_return, assumption, rule hoare_let [OF reads_intx [OF deviceExists_reads]],
        rule hoare_cond, rule hoare_return, assumption, rule upsertDeviceStatus_live)
      (simp add: point_device_ref assms)
  show ?thesis
    unfolding save_point_def
    by (rule hoare_let [OF saveLatest_intx [OF assms]], rule hoare_cond, rule hoare_return, assumption,
        rule hoare_let [OF saveHistory_intx [OF assms]], rule hoare_cond, rule hoare_return, assumption, rule online)
qed

lemma saveTelemetryPoints_keeps [db_keeps]: "keeps E (saveTelemetryPoints E now ps)"
proof -
  have body: "hoare E (intx pcdb_wf) (\<lambda>db. let (accepted, db) = accepted_rows E ps db;
        (ok, db) = db_while (\<lambda>p. deleteLatestPointsForDevice E (tp_gatewayId p) (tp_portId p) (tp_deviceId p))
          (incoming_devices accepted) db;
        (ok, db) = (if ok then db_while (save_point E now) accepted db else (False, db)) in db_finish E ok db)
      (\<lambda>_. durable_wf)"
  proof (rule hoare_let [OF accepted_rows_intx], rule hoare_let [OF hoare_while [OF deleteLatest_intx]])
    fix qs ok
    show "hoare E (intx (all_live (full_ref ` set qs)))
        (\<lambda>db. let (ok, db) = (if ok then db_while (save_point E now) qs db else (False, db)) in db_finish E ok db)
        (\<lambda>_. durable_wf)"
      by (rule hoare_let, rule hoare_cond, rule hoare_while, rule save_point_intx, simp, rule hoare_return, assumption,
          rule hoare_pre [OF finish_wf]) (simp add: intx_def all_live_def)
  qed
  show ?thesis
    unfolding saveTelemetryPoints_def
    by (rule keeps_guard, rule keeps_guard, rule keepsI, rule keeps_tx [OF body])
qed

lemma save_known_config_intx: "hoare E (intx pcdb_wf) (save_known_config E c) (\<lambda>_. intx pcdb_wf)"
proof -
  have row: "hoare E (intx (\<lambda>t. pcdb_wf t \<and> used_device t (config_ref (config_row c)))) (savePointConfig E c) (\<lambda>_. intx pcdb_wf)"
    unfolding savePointConfig_def
    by (rule hoare_post [OF stmt_intx [where J' = pcdb_wf]]) (auto simp: intx_def intro: write_config split: if_splits)
  show ?thesis
    unfolding save_known_config_def
    by (rule hoare_if, rule hoare_return, assumption, rule hoare_let [OF deviceExists_intx],
        rule hoare_cond, rule hoare_return, simp add: intx_def, rule hoare_pre [OF row])
      (simp add: intx_def config_row_ref)
qed

lemma savePointConfigs_keeps [db_keeps]: "keeps E (savePointConfigs E cs)"
proof -
  have body: "hoare E (intx pcdb_wf) (\<lambda>db. let (ok, db) = db_while (save_known_config E) cs db in db_finish E ok db)
      (\<lambda>_. durable_wf)"
    by (rule hoare_let [OF hoare_while [OF save_known_config_intx]], rule finish_wf)
  show ?thesis
    unfolding savePointConfigs_def by (rule keeps_guard, rule keeps_guard, rule keepsI, rule keeps_tx [OF body])
qed

subsection \<open>Deletion\<close>

text \<open>In the middle of a deletion the tables of \<open>S\<close> may hold rows of the devices \<open>P\<close>, now tombstones.\<close>

definition marked :: "(device_ref \<Rightarrow> bool) \<Rightarrow> db_table set \<Rightarrow> PcTables \<Rightarrow> bool" where
  "marked P S t \<longleftrightarrow> rows_wf t \<and> (\<forall>T. stray_refs T t \<subseteq> (if T \<in> S then {k. P k} else {}))"

lemma marked_none: "marked P {} t \<longleftrightarrow> pcdb_wf t"
  by (simp add: marked_def pcdb_wf_def)

lemma pcdb_wf_marked: "pcdb_wf t \<Longrightarrow> marked P S t"
  by (simp add: marked_def pcdb_wf_def)

lemma tomb_rows:
  assumes "marked P UNIV t" "\<And>r. c r \<Longrightarrow> P (row_ref r)"
  shows "marked P UNIV (t\<lparr>tb_device := map (\<lambda>r. if c r then tomb_row n r else r) (tb_device t)\<rparr>)"
proof -
  let ?t = "t\<lparr>tb_device := map (\<lambda>r. if c r then tomb_row n r else r) (tb_device t)\<rparr>"
  have ref: "row_ref (tomb_row n r) = row_ref r" and wf: "row_wf (tomb_row n r)" for r
    by (simp_all add: tomb_row_def row_ref_def row_wf_def)
  have live: "used_device ?t k" if k: "used_device t k" "\<not> P k" for k
  proof -
    from k obtain r where r: "r \<in> set (tb_device t)" "row_ref r = k" "\<not> device_tomb r" "\<not> c r"
      using assms(2) by (auto simp: used_device_def)
    then have "r \<in> set (tb_device ?t)" by force
    then show ?thesis using r(2,3) unfolding used_device_def by blast
  qed
  have refs: "table_refs T ?t = table_refs T t" for T by (cases T) simp_all
  have stray: "stray_refs T ?t \<subseteq> {k. P k}" for T
  proof
    fix k assume "k \<in> stray_refs T ?t"
    then have k: "T \<noteq> T_alarm_event" "k \<in> table_refs T t" "\<not> used_device ?t k"
      unfolding stray_refs_def refs by (simp_all split: if_splits)
    have "P k" if "\<not> P k"
    proof -
      have "k \<in> stray_refs T t" using k live [OF _ that] by (auto simp: stray_refs_def)
      then show ?thesis using assms(1) by (auto simp: marked_def)
    qed
    then show "k \<in> {k. P k}" by blast
  qed
  have "map row_ref (map (\<lambda>r. if c r then tomb_row n r else r) (tb_device t)) = map row_ref (tb_device t)"
    by (rule map_keys) (rule ref)
  moreover have "\<forall>r \<in> set (map (\<lambda>r. if c r then tomb_row n r else r) (tb_device t)). row_wf r"
    using assms(1) wf by (auto simp: marked_def rows_wf_def)
  ultimately have "rows_wf ?t" using assms(1) by (simp add: marked_def rows_wf_def keys_wf_def del: map_map set_map)
  then show ?thesis using stray by (simp add: marked_def)
qed

lemma mark_intx:
  assumes "P (bind_ref g p d)"
  shows "hoare E (intx (marked P UNIV)) (markDeviceDeleted E g p d n) (\<lambda>_. intx (marked P UNIV))"
  unfolding markDeviceDeleted_def
  by (rule hoare_if, rule hoare_return, assumption, rule stmt_intx_keep, erule tomb_rows) (use assms in simp)

lemma drop_marked: "marked P S t \<Longrightarrow> marked P (S - {T}) (drop_refs T P t)"
  using drop_stray [of _ T P t] drop_keys [of t T P] by (fastforce simp: marked_def split: if_splits)

lemma drop_each_intx:
  "hoare E (intx (marked P (set Ts))) (db_while (\<lambda>T. db_stmt E (drop_refs T P)) Ts) (\<lambda>ok. intx (\<lambda>t. ok \<longrightarrow> pcdb_wf t))"
proof (induction Ts)
  case Nil
  then show ?case by (simp add: hoare_def marked_none)
next
  case (Cons T Ts)
  have next_set: "marked P (insert T (set Ts) - {T}) t \<Longrightarrow> marked P (set Ts) t" for t
    by (auto simp: marked_def split: if_splits)
  have one: "hoare E (intx (marked P (set (T # Ts)))) (db_stmt E (drop_refs T P))
      (\<lambda>ok. intx (if ok then marked P (set Ts) else marked P (set (T # Ts))))"
    by (rule stmt_intx) (use drop_marked [of P "set (T # Ts)" _ T] next_set in simp)
  show ?case
    unfolding db_while.simps
    by (rule hoare_let [OF one], rule hoare_cond, use Cons.IH in simp, rule hoare_return) (simp add: intx_def)
qed

lemma all_tables: "marked P UNIV = marked P (set device_tables)"
proof -
  have "UNIV = set device_tables" by (auto simp: device_tables_def) (metis db_table.exhaust)
  then show ?thesis by simp
qed

lemma deleteRows_drop:
  "(\<lambda>T. deleteRowsByDevice E T g p d) = (\<lambda>T. db_stmt E (drop_refs T (\<lambda>k. k = bind_ref g p d)))"
  "(\<lambda>T. deleteRowsByMaster E T g p) = (\<lambda>T. db_stmt E (drop_refs T (\<lambda>(g', p', d). g' = c_str g \<and> p' = c_str p)))"
  by (simp_all add: deleteRowsByDevice_def deleteRowsByMaster_def fun_eq_iff)

text \<open>The common end: the rows of the marked devices go, or everything is undone.\<close>

lemma drop_and_finish:
  "hoare E (intx (marked P UNIV))
     (\<lambda>db. let (ok, db) = (if ok then db_while (\<lambda>T. db_stmt E (drop_refs T P)) device_tables db else (False, db))
           in db_finish E ok db) (\<lambda>_. durable_wf)"
proof -
  have "hoare E (intx (marked P UNIV))
      (\<lambda>db. if ok then db_while (\<lambda>T. db_stmt E (drop_refs T P)) device_tables db else (False, db))
      (\<lambda>ok. intx (\<lambda>t. ok \<longrightarrow> pcdb_wf t))"
    by (rule hoare_cond, simp add: all_tables drop_each_intx, rule hoare_return) (simp add: intx_def)
  then show ?thesis by (rule hoare_let) (rule finish_hoare)
qed

lemma intx_marked: "hoare E (intx (marked P UNIV)) op Q \<Longrightarrow> hoare E (intx pcdb_wf) op Q"
  by (erule hoare_pre) (simp add: intx_def pcdb_wf_marked)

lemma deleteDeviceData_keeps [db_keeps]: "keeps E (deleteDeviceData E now g p d)"
  unfolding deleteDeviceData_def deleteRows_drop
  by (rule keeps_guard, rule keepsI, rule keeps_tx, rule hoare_let [OF intx_marked [OF mark_intx]], simp,
      rule drop_and_finish)

lemma deleteMasterData_keeps [db_keeps]: "keeps E (deleteMasterData E now g p)"
proof -
  have marks: "hoare E (intx (marked (\<lambda>(g', p', d). g' = c_str g \<and> p' = c_str p) UNIV))
      (db_each (\<lambda>d. markDeviceDeleted E g p (dr_deviceId d) now) ds)
      (\<lambda>_. intx (marked (\<lambda>(g', p', d). g' = c_str g \<and> p' = c_str p) UNIV))" for ds
    by (rule hoare_each, rule mark_intx) (simp add: bind_ref_def)
  show ?thesis
    unfolding deleteMasterData_def deleteRows_drop
    by (rule keeps_guard, rule keepsI, rule keeps_tx, rule hoare_let [OF reads_intx [OF list_reads(4)]],
        rule hoare_let [OF intx_marked [OF marks]], rule drop_and_finish)
qed

lemma clear_table_wf: "pcdb_wf t \<Longrightarrow> pcdb_wf (clear_table T t)"
  by (cases T) (auto simp: pcdb_wf_def rows_wf_def keys_wf_def stray_latest stray_history)

lemma clearRuntimeData_keeps [db_keeps]: "keeps E (clearRuntimeData E)"
  unfolding clearRuntimeData_def
  by (rule keeps_guard, rule keepsI, rule keeps_tx, rule hoare_let [OF hoare_while], rule stmt_intx_keep,
      erule clear_table_wf, rule finish_wf)

subsection \<open>Configuration snapshots\<close>

lemma keeps_each: "(\<And>x. keeps E (op x)) \<Longrightarrow> keeps E (db_each op xs)"
  unfolding keeps_def by (rule hoare_each)

lemma keeps_while: "(\<And>x. keeps E (op x)) \<Longrightarrow> keeps E (db_while op xs)"
  unfolding keeps_def by (rule hoare_while)

lemma keeps_let: "keeps E op \<Longrightarrow> (\<And>r. keeps E (f r)) \<Longrightarrow> keeps E (\<lambda>db. let (r, db') = op db in f r db')"
  unfolding keeps_def by (rule hoare_let)

lemma keeps_ret [db_keeps]: "keeps E (\<lambda>db. (r, db))"
  by (simp add: keeps_def hoare_def)

lemma store_snapshot_device_keeps [db_keeps]: "keeps E (store_snapshot_device E allow s)"
  unfolding store_snapshot_device_def Let_def [of "csd_device s"]
  by (intro keeps_let reads_keeps deviceDeleted_reads keeps_guard upsertDevice_keeps)

lemma store_snapshot_keeps [db_keeps]: "keeps E (store_snapshot E g ports devices configs allow ok)"
  unfolding store_snapshot_def
  by (intro keeps_let keeps_each keeps_guard upsertGatewayPort_keeps store_snapshot_device_keeps savePointConfigs_keeps
      reads_keeps [OF known_configs_reads] keeps_ret)

lemma deleteRows_wf: "pcdb_wf t \<Longrightarrow> pcdb_wf (drop_refs T P t)"
  by (rule drop_wf)

lemma clear_selected_intx: "hoare E (intx pcdb_wf) (clear_selected E g s) (\<lambda>_. intx pcdb_wf)"
  unfolding clear_selected_def deleteRowsByDevice_def
  by (rule hoare_if, rule hoare_return, assumption, rule hoare_let [OF stmt_intx_keep], erule drop_wf,
      rule hoare_cond, rule hoare_return, assumption, rule stmt_intx_keep, erule drop_wf)

lemma rollback_hoare: "hoare E (intx J) (\<lambda>db. (r, snd (db_rollback E db))) (\<lambda>_. durable_wf)"
  by (auto simp: hoare_def db_rollback_def durable_wf_def durable_def intx_def split: option.splits)

lemma commit_hoare: "hoare E (intx pcdb_wf) (db_commit E) (\<lambda>_. durable_wf)"
  by (auto simp: hoare_def db_commit_def durable_wf_def durable_def intx_def split: option.splits)

lemma replaceSelectedDeviceConfig_keeps [db_keeps]: "keeps E (replaceSelectedDeviceConfig E g sel ports devices configs)"
  unfolding replaceSelectedDeviceConfig_def
  by (rule keeps_guard, rule keepsI, rule keeps_tx, rule hoare_let [OF hoare_while [OF clear_selected_intx]],
      rule hoare_cond, rule rollback_hoare, rule hoare_let [OF commit_hoare], rule keepsD [OF store_snapshot_keeps])

lemma upsertGatewayConfigSnapshot_keeps [db_keeps]: "keeps E (upsertGatewayConfigSnapshot E now g ports devices configs full)"
proof -
  have old: "keeps E (\<lambda>db. if full then let (existing, db) = queryDevices E db
      in db_each (\<lambda>d. deleteDeviceData E now (dr_gatewayId d) (dr_portId d) (dr_deviceId d))
        (missing_devices g devices existing) db else (True, db))"
    by (intro keeps_cond keeps_let reads_keeps list_reads keeps_each deleteDeviceData_keeps keeps_ret)
  show ?thesis
    unfolding upsertGatewayConfigSnapshot_def
    by (rule keeps_guard, rule keeps_let [OF old], rule store_snapshot_keeps)
qed

subsection \<open>Opening\<close>

lemma initTables_keeps [db_keeps]: "keeps E (initTables E)"
proof -
  have quiet: "keeps E (db_quiet E i)" for i
    unfolding db_quiet_def by (rule stmt_keeps)
  show ?thesis
    unfolding initTables_def by (intro keeps_guard keeps_let keeps_while keeps_each quiet)
qed

lemma openDatabase_keeps [db_keeps]: "keeps E (openDatabase dirOk openOk)"
  by (simp add: openDatabase_def keeps_def hoare_def durable_wf_def durable_def split: option.split)

lemma close_durable: "pd_open db \<Longrightarrow> pd_tables (db_close db) = durable db \<and> pd_saved (db_close db) = None"
  by (simp add: db_close_def durable_def)

end
