(* ===== verification/PcDbAtomic.thy ===== *)
theory PcDbAtomic
  imports PcDbKeeps
begin

text \<open>
  What a transaction of Pc_data/storage/PcDatabase.cpp leaves behind: everything it wrote when it
  reports success; when it reports failure either nothing, or a transaction that is still open
  (the \<open>COMMIT\<close> or the \<open>ROLLBACK\<close> itself failed), in which no later transaction can begin.  This
  needs an engine that never rolls back by itself (\<open>undoes_none\<close>), except for the transactions
  that stop at their first failure: these notice it when SQLite rolls them back (\<open>strict\<close>).
\<close>

subsection \<open>Statements inside a transaction\<close>

definition frames :: "db_engine \<Rightarrow> (PcDatabase \<Rightarrow> 'r \<times> PcDatabase) \<Rightarrow> bool" where
  "frames E op \<longleftrightarrow> undoes_none E \<longrightarrow> (\<forall>db. pd_saved (snd (op db)) = pd_saved db)"

lemma stmt_frames: "frames E (db_stmt E f)"
  by (simp add: frames_def db_stmt_def)

lemma reads_frames: "reads E op \<Longrightarrow> frames E op"
  by (simp add: reads_def frames_def)

lemma frames_ret: "frames E (\<lambda>db. (r, db))"
  by (simp add: frames_def)

lemma frames_let: "frames E op \<Longrightarrow> (\<And>r. frames E (f r)) \<Longrightarrow> frames E (\<lambda>db. let (r, db') = op db in f r db')"
  by (simp add: frames_def Let_def case_prod_beta)

lemma frames_if: "frames E X \<Longrightarrow> frames E Y \<Longrightarrow> frames E (\<lambda>db. if b db then X db else Y db)"
  by (simp add: frames_def)

lemma frames_while: "(\<And>x. frames E (op x)) \<Longrightarrow> frames E (db_while op xs)"
proof (induction xs)
  case (Cons x xs)
  then have "frames E (op x)" "frames E (db_while op xs)" by blast+
  then show ?case unfolding db_while.simps by (intro frames_let frames_if frames_ret)
qed (simp add: frames_def)

lemma frames_each: "(\<And>x. frames E (op x)) \<Longrightarrow> frames E (db_each op xs)"
proof (induction xs)
  case (Cons x xs)
  then have "frames E (op x)" "frames E (db_each op xs)" by blast+
  then show ?case unfolding db_each.simps by (intro frames_let frames_if frames_ret)
qed (simp add: frames_def)

lemmas frames_intros = frames_let frames_if frames_ret frames_while frames_each stmt_frames reads_frames db_reads

lemma upsertDeviceStatus_frames: "frames E (upsertDeviceStatus E d)"
  unfolding upsertDeviceStatus_def by (intro frames_intros)

lemma markDeviceDeleted_frames: "frames E (markDeviceDeleted E g p d n)"
  unfolding markDeviceDeleted_def by (intro frames_intros)

lemma deleteRows_frames: "frames E (deleteRowsByDevice E T g p d)" "frames E (deleteRowsByMaster E T g p)"
  by (simp_all add: deleteRowsByDevice_def deleteRowsByMaster_def stmt_frames)

lemma deleteLatest_frames: "frames E (deleteLatestPointsForDevice E g p d)"
  unfolding deleteLatestPointsForDevice_def by (intro frames_intros deleteRows_frames)

lemma save_point_frames: "frames E (save_point E now p)"
  unfolding save_point_def saveLatestPoint_def saveHistoryPoint_def updateDeviceOnlineFromTelemetry_def
  by (intro frames_intros upsertDeviceStatus_frames)

lemma save_known_config_frames: "frames E (save_known_config E c)"
  unfolding save_known_config_def savePointConfig_def by (intro frames_intros)

subsection \<open>Whole transactions\<close>

definition ends :: "PcTables \<Rightarrow> bool \<Rightarrow> PcDatabase \<Rightarrow> bool" where
  "ends t ok db \<longleftrightarrow> (if ok then pd_saved db = None
     else (pd_saved db = None \<and> pd_tables db = t) \<or> pd_saved db = Some t)"

definition atomic :: "db_engine \<Rightarrow> (PcDatabase \<Rightarrow> bool \<times> PcDatabase) \<Rightarrow> bool" where
  "atomic E op \<longleftrightarrow> undoes_none E \<longrightarrow> (\<forall>db. pd_saved db = None \<longrightarrow> (case op db of (ok, db') \<Rightarrow> ends (pd_tables db) ok db'))"

definition blocked :: "db_engine \<Rightarrow> (PcDatabase \<Rightarrow> bool \<times> PcDatabase) \<Rightarrow> PcDatabase \<Rightarrow> bool" where
  "blocked E op db \<longleftrightarrow> undoes_none E \<longrightarrow> \<not> fst (op db) \<and> pd_tables (snd (op db)) = pd_tables db \<and> pd_saved (snd (op db)) = pd_saved db"

definition in_transaction :: "PcTables \<Rightarrow> PcDatabase \<Rightarrow> bool" where
  "in_transaction t db \<longleftrightarrow> pd_saved db = Some t"

lemma frame_hoare: "frames E op \<Longrightarrow> hoare E (in_transaction t) op (\<lambda>_. in_transaction t)"
  by (simp add: frames_def hoare_def in_transaction_def case_prod_beta)

lemma finish_ends: "hoare E (in_transaction t) (db_finish E ok) (ends t)"
  by (auto simp: hoare_def in_transaction_def ends_def db_finish_def db_commit_def db_rollback_def)

lemma begin_ends:
  "hoare E (\<lambda>db. pd_saved db = None \<and> pd_tables db = t) (db_begin E)
     (\<lambda>ok db. if ok then in_transaction t db else pd_saved db = None \<and> pd_tables db = t)"
  by (simp add: hoare_def db_begin_def in_transaction_def)

lemma atomicI: "(\<And>t. hoare E (\<lambda>db. pd_saved db = None \<and> pd_tables db = t) op (ends t)) \<Longrightarrow> atomic E op"
  by (simp add: atomic_def hoare_def)

lemma atomic_tx:
  assumes "\<And>t. hoare E (in_transaction t) body (ends t)"
  shows "hoare E (\<lambda>db. pd_saved db = None \<and> pd_tables db = t)
    (\<lambda>db. let (ok, db) = db_begin E db in if \<not> ok then (False, db) else body db) (ends t)"
  by (rule hoare_let [OF begin_ends], rule hoare_cond, rule hoare_return, simp add: ends_def, simp add: assms)

lemma atomic_guard:
  "hoare E (\<lambda>db. pd_saved db = None \<and> pd_tables db = t) op (ends t) \<Longrightarrow>
     hoare E (\<lambda>db. pd_saved db = None \<and> pd_tables db = t) (\<lambda>db. if b db then (r, db) else op db) (ends t)"
  by (rule hoare_if, rule hoare_return) (simp_all add: ends_def)

lemma saveTelemetryPoints_atomic: "atomic E (saveTelemetryPoints E now ps)"
  unfolding saveTelemetryPoints_def
  by (rule atomicI, rule atomic_guard, rule atomic_guard, rule atomic_tx,
      rule hoare_let [OF frame_hoare], intro frames_intros, rule hoare_let [OF frame_hoare],
      intro frames_intros deleteLatest_frames, rule hoare_let [OF frame_hoare],
      intro frames_intros save_point_frames, rule finish_ends)

lemma savePointConfigs_atomic: "atomic E (savePointConfigs E cs)"
  unfolding savePointConfigs_def
  by (rule atomicI, rule atomic_guard, rule atomic_guard, rule atomic_tx, rule hoare_let [OF frame_hoare],
      intro frames_intros save_known_config_frames, rule finish_ends)

lemma upsertDevice_atomic: "atomic E (upsertDevice E d allow)"
proof -
  have read: "hoare E (\<lambda>db. pd_saved db = None \<and> pd_tables db = t) (deviceDeleted E g p i)
      (\<lambda>_ db. pd_saved db = None \<and> pd_tables db = t)" for t g p i
    using deviceDeleted_reads [of E g p i] by (simp add: reads_def hoare_def case_prod_beta)
  show ?thesis
    unfolding upsertDevice_def
    by (rule atomicI, rule atomic_guard, rule hoare_let [OF read], rule atomic_guard, rule atomic_tx,
        rule hoare_let [OF frame_hoare], intro frames_intros, rule hoare_let [OF frame_hoare],
        intro frames_intros upsertDeviceStatus_frames, rule finish_ends)
qed

lemma deleteDeviceData_atomic: "atomic E (deleteDeviceData E now g p d)"
  unfolding deleteDeviceData_def
  by (rule atomicI, rule atomic_guard, rule atomic_tx, rule hoare_let [OF frame_hoare],
      rule markDeviceDeleted_frames, rule hoare_let [OF frame_hoare], intro frames_intros deleteRows_frames,
      rule finish_ends)

lemma deleteMasterData_atomic: "atomic E (deleteMasterData E now g p)"
  unfolding deleteMasterData_def
  by (rule atomicI, rule atomic_guard, rule atomic_tx, rule hoare_let [OF frame_hoare], intro frames_intros,
      rule hoare_let [OF frame_hoare], intro frames_intros markDeviceDeleted_frames, rule hoare_let [OF frame_hoare],
      intro frames_intros deleteRows_frames, rule finish_ends)

lemma clearRuntimeData_atomic: "atomic E (clearRuntimeData E)"
  unfolding clearRuntimeData_def
  by (rule atomicI, rule atomic_guard, rule atomic_tx, rule hoare_let [OF frame_hoare], intro frames_intros,
      rule finish_ends)

subsection \<open>Transactions that stop at the first failure\<close>

text \<open>Whatever the engine does: the transaction is still open, or a failure has undone it.\<close>

definition strict :: "(PcDatabase \<Rightarrow> bool \<times> PcDatabase) \<Rightarrow> bool" where
  "strict op \<longleftrightarrow> (\<forall>db t. pd_saved db = Some t \<longrightarrow> (case op db of (ok, db') \<Rightarrow>
     pd_saved db' = Some t \<or> (\<not> ok \<and> pd_saved db' = None \<and> pd_tables db' = t)))"

lemma strict_stmt: "strict (db_stmt E f)"
  unfolding strict_def
proof (intro allI impI)
  fix db :: PcDatabase and t assume "pd_saved db = Some t"
  then show "case db_stmt E f db of (ok, db') \<Rightarrow>
      pd_saved db' = Some t \<or> (\<not> ok \<and> pd_saved db' = None \<and> pd_tables db' = t)"
    using failed_inside [of db t E] by (auto simp: db_stmt_def)
qed

lemma strict_ret: "strict (\<lambda>db. (r, db))"
  by (simp add: strict_def)

lemma strict_if: "strict X \<Longrightarrow> strict Y \<Longrightarrow> strict (\<lambda>db. if b db then X db else Y db)"
  by (simp add: strict_def)

lemma strict_then: "strict a \<Longrightarrow> strict b \<Longrightarrow> strict (\<lambda>db. let (ok, db') = a db in if ok then b db' else (False, db'))"
  unfolding strict_def by (fastforce simp: Let_def split: prod.split if_splits)

lemma strict_while: "(\<And>x. strict (op x)) \<Longrightarrow> strict (db_while op xs)"
proof (induction xs)
  case (Cons x xs)
  then have "strict (op x)" "strict (db_while op xs)" by blast+
  then show ?case unfolding db_while.simps by (rule strict_then)
qed (simp add: strict_def)

lemma finish_ends_undone:
  assumes "pd_saved db = Some t \<or> (\<not> ok \<and> pd_saved db = None \<and> pd_tables db = t)"
  shows "case db_finish E ok db of (ok', db') \<Rightarrow> ends t ok' db'"
  using assms failed_inside [of db t E]
  by (auto simp: ends_def db_finish_def db_commit_def db_rollback_def)

lemma strict_tx:
  assumes "strict body" "pd_saved db = None"
  shows "case (let (ok, db) = db_begin E db in if \<not> ok then (False, db)
      else let (ok, db) = body db in db_finish E ok db) of (ok, db') \<Rightarrow> ends (pd_tables db) ok db'"
proof (cases "de_ok E (pd_tick db)")
  case True
  let ?b = "snd (db_begin E db)"
  have b: "db_begin E db = (True, ?b)" "pd_saved ?b = Some (pd_tables db)"
    using True assms(2) by (simp_all add: db_begin_def)
  obtain ok d where d: "body ?b = (ok, d)" by fastforce
  have "pd_saved d = Some (pd_tables db) \<or> (\<not> ok \<and> pd_saved d = None \<and> pd_tables d = pd_tables db)"
    using assms(1) b(2) d unfolding strict_def by fastforce
  from finish_ends_undone [OF this, of E] show ?thesis by (subst b(1)) (simp add: d)
next
  case False
  then show ?thesis using assms(2) by (simp add: db_begin_def ends_def)
qed

definition always_ends :: "(PcDatabase \<Rightarrow> bool \<times> PcDatabase) \<Rightarrow> bool" where
  "always_ends op \<longleftrightarrow> (\<forall>db. pd_saved db = None \<longrightarrow> (case op db of (ok, db') \<Rightarrow> ends (pd_tables db) ok db'))"

lemma always_ends_guard: "always_ends op \<Longrightarrow> always_ends (\<lambda>db. if b db then (False, db) else op db)"
  by (simp add: always_ends_def ends_def)

lemma always_ends_tx:
  "strict body \<Longrightarrow> always_ends (\<lambda>db. let (ok, db) = db_begin E db in if \<not> ok then (False, db)
      else let (ok, db) = body db in db_finish E ok db)"
  unfolding always_ends_def by (intro allI impI strict_tx)

lemma upsertDeviceStatus_strict: "strict (upsertDeviceStatus E d)"
  unfolding upsertDeviceStatus_def by (intro strict_if strict_ret strict_stmt)

lemma markDeviceDeleted_strict: "strict (markDeviceDeleted E g p d n)"
  unfolding markDeviceDeleted_def by (intro strict_if strict_ret strict_stmt)

lemma deleteRows_strict: "strict (deleteRowsByDevice E T g p d)"
  by (simp add: deleteRowsByDevice_def strict_stmt)

lemma deleteDeviceData_always: "always_ends (deleteDeviceData E now g p d)"
proof -
  have "strict (\<lambda>db. let (ok, db) = markDeviceDeleted E g p d now db
      in if ok then db_while (\<lambda>T. deleteRowsByDevice E T g p d) device_tables db else (False, db))"
    by (intro strict_then markDeviceDeleted_strict strict_while deleteRows_strict)
  from always_ends_tx [OF this, of E] show ?thesis
    unfolding deleteDeviceData_def Let_def case_prod_beta fst_conv snd_conv if_distrib [of fst] if_distrib [of snd]
    by (rule always_ends_guard)
qed

lemma clearRuntimeData_always: "always_ends (clearRuntimeData E)"
  unfolding clearRuntimeData_def
  by (rule always_ends_guard, rule always_ends_tx, rule strict_while, rule strict_stmt)

lemma lookup_outside:
  assumes "pd_saved db = None"
  shows "pd_saved (snd (db_lookup E f db)) = None \<and> pd_tables (snd (db_lookup E f db)) = pd_tables db"
  using assms by (auto simp: db_lookup_def db_query_def Let_def split: option.split list.split)

lemma deviceDeleted_outside:
  "pd_saved db = None \<Longrightarrow> pd_saved (snd (deviceDeleted E g p d db)) = None \<and> pd_tables (snd (deviceDeleted E g p d db)) = pd_tables db"
  by (simp add: deviceDeleted_def Let_def case_prod_beta lookup_outside)

lemma always_ends_after:
  assumes "always_ends op"
    and "\<And>db. pd_saved db = None \<Longrightarrow> pd_saved (snd (q db)) = None \<and> pd_tables (snd (q db)) = pd_tables db"
  shows "always_ends (\<lambda>db. let (b, db) = q db in if c b then (False, db) else op db)"
  unfolding always_ends_def
proof (intro allI impI)
  fix db :: PcDatabase assume outside: "pd_saved db = None"
  obtain b d where q: "q db = (b, d)" by fastforce
  then have "pd_saved d = None" "pd_tables d = pd_tables db" using assms(2) [OF outside] by simp_all
  then show "case let (b, db) = q db in if c b then (False, db) else op db of (ok, db') \<Rightarrow> ends (pd_tables db) ok db'"
    using assms(1) [unfolded always_ends_def, rule_format, of d] by (auto simp: q ends_def)
qed

lemma upsertDevice_always: "always_ends (upsertDevice E d allow)"
proof -
  have "strict (\<lambda>db. let (ok, db) = db_stmt E (\<lambda>t. t\<lparr>tb_device := upsert row_ref merge_device (device_row d) (tb_device t)\<rparr>) db
      in if ok then upsertDeviceStatus E d db else (False, db))"
    by (intro strict_then strict_stmt upsertDeviceStatus_strict)
  from always_ends_after [where q = "deviceDeleted E (dr_gatewayId d) (dr_portId d) (dr_deviceId d)"
      and c = "\<lambda>b. b \<and> \<not> allow", OF always_ends_tx [OF this, of E] deviceDeleted_outside]
  show ?thesis
    unfolding upsertDevice_def Let_def case_prod_beta fst_conv snd_conv if_distrib [of fst] if_distrib [of snd]
    by (rule always_ends_guard)
qed

subsection \<open>Inside an open transaction no transaction begins\<close>

lemma begin_blocked: "pd_saved db \<noteq> None \<Longrightarrow> db_begin E db = (False, db_tick db)"
  by (simp add: db_begin_def)

lemma transactions_blocked:
  assumes "pd_saved db \<noteq> None"
  shows "ps \<noteq> [] \<Longrightarrow> blocked E (saveTelemetryPoints E now ps) db" "cs \<noteq> [] \<Longrightarrow> blocked E (savePointConfigs E cs) db"
    "blocked E (upsertDevice E d allow) db" "blocked E (deleteDeviceData E now g p i) db"
    "blocked E (deleteMasterData E now g p) db" "blocked E (clearRuntimeData E) db"
proof -
  show "blocked E (upsertDevice E d allow) db"
    unfolding blocked_def
  proof
    let ?r = "deviceDeleted E (dr_gatewayId d) (dr_portId d) (dr_deviceId d) db"
    assume "undoes_none E"
    then have same: "pd_saved (snd ?r) = pd_saved db" "pd_tables (snd ?r) = pd_tables db"
      using deviceDeleted_reads [of E "dr_gatewayId d" "dr_portId d" "dr_deviceId d"] by (simp_all add: reads_def)
    then have "pd_saved (snd ?r) \<noteq> None" using assms by simp
    note no_begin = begin_blocked [OF this, of E]
    show "\<not> fst (upsertDevice E d allow db) \<and> pd_tables (snd (upsertDevice E d allow db)) = pd_tables db \<and>
        pd_saved (snd (upsertDevice E d allow db)) = pd_saved db"
      using no_begin same by (cases ?r) (simp add: upsertDevice_def Let_def)
  qed
qed (use assms in \<open>simp_all add: blocked_def begin_blocked saveTelemetryPoints_def savePointConfigs_def
      deleteDeviceData_def deleteMasterData_def clearRuntimeData_def\<close>)

end
