(* ===== verification/PcDbDeeds.thy ===== *)
theory PcDbDeeds
  imports PcDbAtomic
begin

text \<open>
  What the operations of the database do, beyond keeping its invariant: writes while a
  transaction is left open, the answer to a history query, and the deletion of a device.
\<close>

subsection \<open>A transaction left open\<close>

text \<open>The writing operations that answer whether they succeeded, with their arguments.\<close>

datatype pc_write =
    Wr_points int "TelemetryPoint list" | Wr_configs "PointConfig list" | Wr_device DeviceRecord bool
  | Wr_delete int string string int | Wr_master int string string | Wr_clear
  | Wr_selected string "DbSelectedDevice list" "GatewayPort list" "ConfigSnapshotDevice list" "PointConfig list"
  | Wr_snapshot int string "GatewayPort list" "ConfigSnapshotDevice list" "PointConfig list" bool
  | Wr_status GatewayStatus | Wr_registry GatewayRegistry | Wr_port GatewayPort
  | Wr_registryBeat int string string | Wr_beat int string string
  | Wr_alarm int AlarmEvent | Wr_ack int string int | Wr_clearRecovered | Wr_clearAcknowledged
  | Wr_log string int string string string int int | Wr_outcome string string string string int
  | Wr_reactivate int string string int | Wr_bySeq int string string string int

fun run_write :: "db_engine \<Rightarrow> pc_write \<Rightarrow> PcDatabase \<Rightarrow> bool \<times> PcDatabase" where
  "run_write E (Wr_points now ps) = saveTelemetryPoints E now ps"
| "run_write E (Wr_configs cs) = savePointConfigs E cs"
| "run_write E (Wr_device d allow) = upsertDevice E d allow"
| "run_write E (Wr_delete now g p i) = deleteDeviceData E now g p i"
| "run_write E (Wr_master now g p) = deleteMasterData E now g p"
| "run_write E Wr_clear = clearRuntimeData E"
| "run_write E (Wr_selected g sel ps ds cs) = replaceSelectedDeviceConfig E g sel ps ds cs"
| "run_write E (Wr_snapshot now g ps ds cs full) = upsertGatewayConfigSnapshot E now g ps ds cs full"
| "run_write E (Wr_status g) = upsertGatewayStatus E g"
| "run_write E (Wr_registry r) = upsertGatewayRegistry E r"
| "run_write E (Wr_port p) = upsertGatewayPort E p"
| "run_write E (Wr_registryBeat now g s) = updateGatewayRegistryHeartbeat E now g s"
| "run_write E (Wr_beat now g s) = updateGatewayHeartbeat E now g s"
| "run_write E (Wr_alarm now e) = saveAlarmEvent E now e"
| "run_write E (Wr_ack now i t) = acknowledgeAlarm E now i t"
| "run_write E Wr_clearRecovered = clearRecoveredAlarms E"
| "run_write E Wr_clearAcknowledged = clearAcknowledgedAlarms E"
| "run_write E (Wr_log c s ty g p d t) = createCommandLog E c s ty g p d t"
| "run_write E (Wr_outcome c st r m t) = updateCommandLogByCommandId E c st r m t"
| "run_write E (Wr_reactivate now g p i) = reactivateDeletedDevice E now g p i"
| "run_write E (Wr_bySeq s st r m t) = updateCommandLogBySeq E s st r m t"

definition run_writes :: "db_engine \<Rightarrow> pc_write list \<Rightarrow> PcDatabase \<Rightarrow> PcDatabase" where
  "run_writes E ws db = foldl (\<lambda>db w. snd (run_write E w db)) db ws"

fun is_transaction :: "pc_write \<Rightarrow> bool" where
  "is_transaction (Wr_points now ps) = (ps \<noteq> [])"
| "is_transaction (Wr_configs cs) = (cs \<noteq> [])"
| "is_transaction (Wr_device d allow) = True"
| "is_transaction (Wr_delete now g p i) = True"
| "is_transaction (Wr_master now g p) = True"
| "is_transaction Wr_clear = True"
| "is_transaction _ = False"

lemma transaction_atomic: "is_transaction w \<Longrightarrow> atomic E (run_write E w)"
  by (cases w) (simp_all add: saveTelemetryPoints_atomic savePointConfigs_atomic upsertDevice_atomic
      deleteDeviceData_atomic deleteMasterData_atomic clearRuntimeData_atomic)

lemma transaction_blocked: "is_transaction w \<Longrightarrow> pd_saved db \<noteq> None \<Longrightarrow> blocked E (run_write E w) db"
  by (cases w) (simp_all add: transactions_blocked)

text \<open>The transactions that stop at the first statement that fails; the others go on after a query
  or a statement whose failure they do not look at.\<close>

fun stops_at_failure :: "pc_write \<Rightarrow> bool" where
  "stops_at_failure (Wr_device d allow) = True"
| "stops_at_failure (Wr_delete now g p i) = True"
| "stops_at_failure Wr_clear = True"
| "stops_at_failure _ = False"

lemma stops_always_ends: "stops_at_failure w \<Longrightarrow> always_ends (run_write E w)"
  by (cases w) (simp_all add: upsertDevice_always deleteDeviceData_always clearRuntimeData_always)

text \<open>\<open>sticks\<close>: an open transaction stays open.\<close>

definition sticks :: "db_engine \<Rightarrow> (PcDatabase \<Rightarrow> 'r \<times> PcDatabase) \<Rightarrow> bool" where
  "sticks E op \<longleftrightarrow> undoes_none E \<longrightarrow> (\<forall>db t. pd_saved db = Some t \<longrightarrow> pd_saved (snd (op db)) = Some t)"

lemma frames_sticks: "frames E op \<Longrightarrow> sticks E op"
  by (simp add: frames_def sticks_def)

lemma blocked_sticks: "(\<And>db. pd_saved db \<noteq> None \<Longrightarrow> blocked E op db) \<Longrightarrow> sticks E op"
  by (simp add: sticks_def blocked_def)

lemma transaction_sticks: "is_transaction w \<Longrightarrow> sticks E (run_write E w)"
  by (rule blocked_sticks) (rule transaction_blocked)

lemma sticks_let: "sticks E op \<Longrightarrow> (\<And>r. sticks E (f r)) \<Longrightarrow> sticks E (\<lambda>db. let (r, db') = op db in f r db')"
  by (simp add: sticks_def Let_def case_prod_beta)

lemma sticks_if: "sticks E X \<Longrightarrow> sticks E Y \<Longrightarrow> sticks E (\<lambda>db. if b db then X db else Y db)"
  by (simp add: sticks_def)

lemma sticks_ret: "sticks E (\<lambda>db. (r, db))"
  by (simp add: sticks_def)

lemma sticks_each: "(\<And>x. sticks E (op x)) \<Longrightarrow> sticks E (db_each op xs)"
proof (induction xs)
  case (Cons x xs)
  then have "sticks E (op x)" "sticks E (db_each op xs)" by blast+
  then show ?case unfolding db_each.simps by (intro sticks_let sticks_ret)
qed (simp add: sticks_def)

lemma sticks_begin: "sticks E (\<lambda>db. let (ok, db) = db_begin E db in if \<not> ok then (r, db) else body db)"
  by (simp add: sticks_def db_begin_def)

lemma points_sticks: "sticks E (savePointConfigs E cs)"
  using transaction_sticks [of "Wr_configs cs" E]
  by (cases "cs = []") (simp_all add: savePointConfigs_def sticks_def)

lemma device_sticks: "sticks E (upsertDevice E d allow)" "sticks E (deleteDeviceData E now g p i)"
  using transaction_sticks [of "Wr_device d allow" E] transaction_sticks [of "Wr_delete now g p i" E] by simp_all

lemma known_configs_sticks: "sticks E (known_configs E cs)"
proof (induction cs)
  case (Cons c cs)
  have "sticks E (deviceExists E g p d)" for g p d by (intro frames_sticks reads_frames db_reads)
  then show ?case unfolding known_configs.simps by (intro sticks_let sticks_ret Cons)
qed (simp add: sticks_def)

lemma port_sticks: "sticks E (upsertGatewayPort E p)"
  unfolding upsertGatewayPort_def by (intro frames_sticks frames_intros)

lemma snapshot_device_sticks: "sticks E (store_snapshot_device E allow s)"
proof -
  have "sticks E (deviceDeleted E g p d)" for g p d by (intro frames_sticks reads_frames db_reads)
  then show ?thesis
    unfolding store_snapshot_device_def Let_def [of "csd_device s"] by (intro sticks_let sticks_if sticks_ret device_sticks)
qed

lemma store_snapshot_sticks: "sticks E (store_snapshot E g ps ds cs allow ok)"
  unfolding store_snapshot_def
  by (intro sticks_let sticks_if sticks_ret sticks_each port_sticks snapshot_device_sticks known_configs_sticks points_sticks)

lemma snapshots_stick:
  "sticks E (replaceSelectedDeviceConfig E g sel ps ds cs)" "sticks E (upsertGatewayConfigSnapshot E now g ps ds cs full)"
proof -
  show "sticks E (replaceSelectedDeviceConfig E g sel ps ds cs)"
    unfolding replaceSelectedDeviceConfig_def by (intro sticks_if sticks_ret sticks_begin)
  have "sticks E (queryDevices E)" by (intro frames_sticks reads_frames db_reads)
  then show "sticks E (upsertGatewayConfigSnapshot E now g ps ds cs full)"
    unfolding upsertGatewayConfigSnapshot_def
    by (cases full) (simp_all, (intro sticks_let sticks_if sticks_ret sticks_each device_sticks store_snapshot_sticks
        | assumption)+)
qed

lemma alarm_sticks: "sticks E (saveAlarmEvent E now e)" "sticks E (acknowledgeAlarm E now i t)"
  by (auto simp: sticks_def saveAlarmEvent_def acknowledgeAlarm_def db_stmt_def Let_def)

lemma row_sticks:
  "sticks E (upsertGatewayStatus E g)" "sticks E (upsertGatewayRegistry E r)" "sticks E (updateGatewayRegistryHeartbeat E now a s)"
  "sticks E (updateGatewayHeartbeat E now a s)" "sticks E (clearRecoveredAlarms E)" "sticks E (clearAcknowledgedAlarms E)"
  "sticks E (createCommandLog E c q ty a b d n)" "sticks E (updateCommandLogByCommandId E c st re m n)"
  "sticks E (updateCommandLogBySeq E q st re m n)" "sticks E (reactivateDeletedDevice E now a b d)"
  unfolding upsertGatewayStatus_def upsertGatewayRegistry_def updateGatewayRegistryHeartbeat_def
    updateGatewayHeartbeat_def clearRecoveredAlarms_def clearAcknowledgedAlarms_def createCommandLog_def
    updateCommandLogByCommandId_def updateCommandLogBySeq_def reactivateDeletedDevice_def
  by (simp_all add: sticks_def db_stmt_def Let_def)

lemma points_write_sticks: "sticks E (saveTelemetryPoints E now ps)"
  using transaction_sticks [of "Wr_points now ps" E]
  by (cases "ps = []") (simp_all add: saveTelemetryPoints_def sticks_def)

lemma write_sticks: "sticks E (run_write E w)"
proof (cases "is_transaction w")
  case False
  then show ?thesis
    by (cases w) (simp_all only: run_write.simps is_transaction.simps not_True_eq_False
        snapshots_stick alarm_sticks points_sticks points_write_sticks port_sticks row_sticks)
qed (rule transaction_sticks)

lemma writes_stick: "undoes_none E \<Longrightarrow> pd_saved db = Some t \<Longrightarrow> pd_saved (run_writes E ws db) = Some t"
proof (induction ws arbitrary: db)
  case (Cons w ws)
  then show ?case using write_sticks [of E w] by (simp add: run_writes_def sticks_def)
qed (simp add: run_writes_def)

lemma writes_durable: "undoes_none E \<Longrightarrow> pd_saved db = Some t \<Longrightarrow> durable (run_writes E ws db) = t"
  using writes_stick [of E db t ws] by (simp add: durable_def)

lemma writes_blocked:
  "undoes_none E \<Longrightarrow> pd_saved db = Some t \<Longrightarrow> is_transaction w \<Longrightarrow> \<not> fst (run_write E w (run_writes E ws db))"
  using writes_stick [of E db t ws] transaction_blocked [of w "run_writes E ws db" E] by (simp add: blocked_def)

lemma atomicD: "atomic E op \<Longrightarrow> undoes_none E \<Longrightarrow> pd_saved db = None \<Longrightarrow> ends (pd_tables db) (fst (op db)) (snd (op db))"
  by (simp add: atomic_def case_prod_beta)

lemma always_endsD: "always_ends op \<Longrightarrow> pd_saved db = None \<Longrightarrow> ends (pd_tables db) (fst (op db)) (snd (op db))"
  by (simp add: always_ends_def case_prod_beta)

lemma transaction_outcome:
  assumes "undoes_none E \<or> stops_at_failure w" "pd_saved db = None" "is_transaction w" "run_write E w db = (ok, db')"
  shows "if ok then pd_saved db' = None else durable db' = pd_tables db"
proof -
  have "ends (pd_tables db) ok db'"
    using assms(1) atomicD [OF transaction_atomic [OF assms(3), of E] _ assms(2)]
      always_endsD [OF stops_always_ends assms(2), of w E] by (auto simp: assms(4))
  then show ?thesis by (auto simp: ends_def durable_def split: if_splits)
qed

subsection \<open>The deletion of a device\<close>

text \<open>What a successful loop of statements did.\<close>

lemma stmts_done:
  "db_while (\<lambda>x. db_stmt E (f x)) xs db = (True, db') \<Longrightarrow>
     pd_tables db' = fold f xs (pd_tables db) \<and> pd_saved db' = pd_saved db"
  by (induction xs arbitrary: db) (auto simp: db_stmt_def Let_def split: if_splits)

lemma drop_refs_gone: "table_refs T (drop_refs T P t) = {k \<in> table_refs T t. \<not> P k}"
  by (cases T) auto

lemma drop_refs_other: "T \<noteq> T' \<Longrightarrow> table_refs T (drop_refs T' P t) = table_refs T t"
  by (cases T; cases T') auto

lemma drop_refs_device: "tb_device (drop_refs T P t) = tb_device t"
  by (cases T) simp_all

lemma device_tables_all: "T \<in> set device_tables"
  by (cases T) (simp_all add: device_tables_def)

lemma drops_device: "tb_device (fold (\<lambda>T. drop_refs T P) Ts t) = tb_device t"
  by (induction Ts arbitrary: t) (simp_all add: drop_refs_device)

lemma drops_refs:
  "table_refs T (fold (\<lambda>T. drop_refs T P) Ts t) = {k \<in> table_refs T t. T \<in> set Ts \<longrightarrow> \<not> P k}"
proof (induction Ts arbitrary: t)
  case (Cons a Ts)
  then show ?case by (cases "T = a") (auto simp: drop_refs_gone drop_refs_other)
qed simp

lemma device_deleted:
  assumes saved: "deleteDeviceData E now g p i db = (True, db')"
  shows "pd_saved db' = None"
    and "tb_device (pd_tables db') = map (\<lambda>r. if row_ref r = bind_ref g p i then tomb_row now r else r) (tb_device (pd_tables db))"
    and "table_refs T (pd_tables db') = table_refs T (pd_tables db) - {bind_ref g p i}"
proof -
  let ?k = "bind_ref g p i"
  let ?f = "\<lambda>t. t\<lparr>tb_device := map (\<lambda>r. if row_ref r = ?k then tomb_row now r else r) (tb_device t)\<rparr>"
  obtain b m d where b: "db_begin E db = (True, b)" and m: "markDeviceDeleted E g p i now b = (True, m)"
    and d: "db_while (\<lambda>T. db_stmt E (drop_refs T (\<lambda>k. k = ?k))) device_tables m = (True, d)"
    and c: "db_commit E d = (True, db')"
    using saved by (auto simp: deleteDeviceData_def db_finish_def deleteRowsByDevice_def Let_def split: if_splits prod.splits)
  have b': "pd_tables b = pd_tables db" using b by (auto simp: db_begin_def split: if_splits)
  have m': "pd_tables m = ?f (pd_tables db)"
    using m b' by (auto simp: markDeviceDeleted_def db_stmt_def split: if_splits)
  have d': "pd_tables d = fold (\<lambda>T. drop_refs T (\<lambda>k. k = ?k)) device_tables (?f (pd_tables db))"
    using stmts_done [OF d] m' by simp
  have c': "pd_tables db' = pd_tables d" "pd_saved db' = None" using c by (auto simp: db_commit_def split: if_splits)
  show "pd_saved db' = None" by (rule c')
  show "tb_device (pd_tables db') = map (\<lambda>r. if row_ref r = ?k then tomb_row now r else r) (tb_device (pd_tables db))"
    by (simp add: c' d' drops_device)
  have "table_refs T (?f (pd_tables db)) = table_refs T (pd_tables db)" by (cases T) simp_all
  then show "table_refs T (pd_tables db') = table_refs T (pd_tables db) - {?k}"
    by (auto simp: c' d' drops_refs device_tables_all)
qed

text \<open>The first \<open>n\<close> elements in the order of a key: nothing earlier is left out.\<close>

lemma take_sorted_key:
  fixes key :: "'a \<Rightarrow> 'k::linorder"
  assumes "ys = take n (sort_key key xs)"
  shows "sorted (map key ys)" and "set ys \<subseteq> set xs"
    and "x \<in> set xs \<Longrightarrow> x \<in> set ys \<or> length ys = n \<and> (\<forall>y \<in> set ys. key y \<le> key x)"
proof -
  let ?s = "sort_key key xs"
  have s: "sorted (map key ?s)" by simp
  show "sorted (map key ys)" unfolding assms take_map [symmetric] by (rule sorted_wrt_take [OF s])
  show "set ys \<subseteq> set xs" using set_take_subset [of n ?s] by (simp add: assms)
  assume "x \<in> set xs"
  then have "x \<in> set (take n ?s) \<union> set (drop n ?s)"
    unfolding set_append [symmetric] append_take_drop_id by simp
  moreover have "length ys = n \<and> (\<forall>y \<in> set ys. key y \<le> key x)" if "x \<in> set (drop n ?s)"
  proof -
    have "drop n ?s \<noteq> []" using that by auto
    then have "length ys = n" by (simp add: assms)
    moreover have "sorted (map key (take n ?s) @ map key (drop n ?s))"
      using s unfolding map_append [symmetric] append_take_drop_id .
    ultimately show ?thesis using that by (auto simp: assms sorted_append)
  qed
  ultimately show "x \<in> set ys \<or> length ys = n \<and> (\<forall>y \<in> set ys. key y \<le> key x)" by (auto simp: assms)
qed

definition in_history :: "string \<Rightarrow> int \<Rightarrow> int \<Rightarrow> TelemetryPoint \<Rightarrow> bool" where
  "in_history pointId startMs endMs r \<longleftrightarrow> tp_pointId r = c_str pointId
     \<and> max 0 startMs \<le> tp_timestampMs r \<and> tp_timestampMs r \<le> history_end endMs"

lemma history_answer:
  assumes laws: "db_laws E" and ran: "queryHistoryPoints E pointId startMs endMs limit db = ((ps, True, why), db')"
  shows "sorted (map tp_timestampMs ps)"
    and "length ps \<le> nat (history_limit limit)"
    and "p \<in> set ps \<Longrightarrow> \<exists>r \<in> set (tb_history (pd_tables db)). in_history pointId startMs endMs r \<and> p = history_point pointId r"
    and "r \<in> set (tb_history (pd_tables db)) \<Longrightarrow> in_history pointId startMs endMs r \<Longrightarrow>
      history_point pointId r \<in> set ps
      \<or> length ps = nat (history_limit limit) \<and> (\<forall>p \<in> set ps. tp_timestampMs p \<le> tp_timestampMs r)"
proof -
  let ?xs = "filter (in_history pointId startMs endMs) (de_points E (pd_tick db) (tb_history (pd_tables db)))"
  let ?ys = "take (nat (history_limit limit)) (sort_key tp_timestampMs ?xs)"
  have ps: "ps = map (history_point pointId) ?ys"
    using ran by (auto simp: queryHistoryPoints_def db_query_def Let_def in_history_def [abs_def]
        split: if_splits option.splits prod.splits)
  have ts: "tp_timestampMs (history_point pointId r) = tp_timestampMs r" for r by (simp add: history_point_def)
  then have keys: "map tp_timestampMs ps = map tp_timestampMs ?ys" by (simp add: ps)
  show "sorted (map tp_timestampMs ps)" unfolding keys by (rule take_sorted_key(1)) (rule refl)
  show "length ps \<le> nat (history_limit limit)" by (simp add: ps)
  have xs: "r \<in> set ?xs \<longleftrightarrow> r \<in> set (tb_history (pd_tables db)) \<and> in_history pointId startMs endMs r" for r
    using laws by (auto simp: db_laws.points_set)
  show "p \<in> set ps \<Longrightarrow> \<exists>r \<in> set (tb_history (pd_tables db)). in_history pointId startMs endMs r \<and> p = history_point pointId r"
    using take_sorted_key(2) [of ?ys] xs unfolding ps by fastforce
  show "history_point pointId r \<in> set ps
      \<or> length ps = nat (history_limit limit) \<and> (\<forall>p \<in> set ps. tp_timestampMs p \<le> tp_timestampMs r)"
    if "r \<in> set (tb_history (pd_tables db))" "in_history pointId startMs endMs r"
    using take_sorted_key(3) [OF refl, of r ?xs "nat (history_limit limit)" tp_timestampMs] that xs ts unfolding ps by auto
qed

end
