(* ===== verification/JsonText.thy ===== *)
theory JsonText
  imports JsonUtils
begin

text \<open>
  How Pc_data writes JSON: by putting texts into a \<open>std::ostringstream\<close>.  An object is the list
  of its members, so that a member under an \<open>if\<close> of the source is an optional list.
  \<open>stream_double\<close> is \<open>operator<<(double)\<close> with the stream's default format (\<open>%g\<close>, six
  significant digits); the model has one zero, which prints as \<open>0\<close>.
\<close>

subsection \<open>Members\<close>

definition jquote :: "string \<Rightarrow> string" where
  "jquote s = CHR 0x22 # s @ [CHR 0x22]"

definition jraw :: "string \<Rightarrow> string \<Rightarrow> string" where
  "jraw key v = jquote key @ '':'' @ v"

definition jtext :: "string \<Rightarrow> string \<Rightarrow> string" where
  "jtext key v = jraw key (jquote (jsonEscape v))"

definition jint :: "string \<Rightarrow> int \<Rightarrow> string" where
  "jint key i = jraw key (to_string i)"

definition bool_text :: "bool \<Rightarrow> string" where
  "bool_text b = (if b then ''true'' else ''false'')"

definition jbool :: "string \<Rightarrow> bool \<Rightarrow> string" where
  "jbool key b = jraw key (bool_text b)"

fun commas :: "string list \<Rightarrow> string" where
  "commas [] = []"
| "commas [x] = x"
| "commas (x # y # xs) = x @ '','' @ commas (y # xs)"

definition jobj :: "string list \<Rightarrow> string" where
  "jobj members = ''{'' @ commas members @ ''}''"

definition jarr :: "string list \<Rightarrow> string" where
  "jarr items = ''['' @ commas items @ '']''"

text \<open>An optional member.\<close>

definition opt :: "bool \<Rightarrow> 'a \<Rightarrow> 'a list" where
  "opt b x = (if b then [x] else [])"

subsection \<open>Numbers\<close>

definition pow10 :: "int \<Rightarrow> rat" where
  "pow10 e = (if 0 \<le> e then 10 ^ nat e else 1 / 10 ^ nat (- e))"

definition dec_exponent :: "rat \<Rightarrow> int" where
  "dec_exponent q =
     (let (a, b) = quotient_of q; e = int (length (nat_text (nat a))) - int (length (nat_text (nat b)))
      in if pow10 e \<le> q then e else e - 1)"

definition strip_zeros :: "string \<Rightarrow> string" where
  "strip_zeros s = rev (dropWhile (\<lambda>c. c = CHR ''0'') (rev s))"

definition with_fraction :: "string \<Rightarrow> string \<Rightarrow> string" where
  "with_fraction whole decimals = (let f = strip_zeros decimals in if f = [] then whole else whole @ ''.'' @ f)"

definition exponent_text :: "int \<Rightarrow> string" where
  "exponent_text x =
     (let ds = nat_text (nat \<bar>x\<bar>)
      in ''e'' @ (if x < 0 then ''-'' else ''+'') @ (if length ds < 2 then ''0'' else []) @ ds)"

text \<open>The six digits \<open>m\<close> of the rounded value \<open>m * 10 ^ (x - 5)\<close>.\<close>

definition format_digits :: "nat \<Rightarrow> int \<Rightarrow> string" where
  "format_digits m x =
     (let ds = nat_text m
      in if x < -4 \<or> 6 \<le> x then with_fraction [hd ds] (tl ds) @ exponent_text x
         else if 0 \<le> x then with_fraction (take (nat x + 1) ds) (drop (nat x + 1) ds)
         else with_fraction ''0'' (replicate (nat (- x - 1)) CHR ''0'' @ ds))"

definition positive_text :: "rat \<Rightarrow> string" where
  "positive_text q =
     (let x = dec_exponent q; m = nat (round_half_even (q / pow10 (x - 5)))
      in if m = 1000000 then format_digits 100000 (x + 1) else format_digits m x)"

fun stream_double :: "fval \<Rightarrow> string" where
  "stream_double NaN = ''nan''"
| "stream_double (Inf neg) = (if neg then ''-inf'' else ''inf'')"
| "stream_double (Fin q) =
     (if q = 0 then ''0'' else if q < 0 then ''-'' @ positive_text (- q) else positive_text q)"

definition jreal :: "string \<Rightarrow> fval \<Rightarrow> string" where
  "jreal key x = jraw key (stream_double x)"

subsection \<open>Reading a text back\<close>

text \<open>The document of a text, when it is an object.\<close>

definition parse_object :: "'v rapidjson \<Rightarrow> string \<Rightarrow> 'v option" where
  "parse_object J text =
     (case rj_parse J (c_str text) of Inl _ \<Rightarrow> None
      | Inr doc \<Rightarrow> if rj_is_object J doc then Some doc else None)"

lemma jsonEscape_newline: "CHR 0x0A \<notin> set (jsonEscape v)"
  using jsonEscape_plain by blast

text \<open>Messages hold no newline, which ends a message on the pipe.\<close>

definition one_line :: "string \<Rightarrow> bool" where
  "one_line s \<longleftrightarrow> CHR 0x0A \<notin> set s"

lemma one_line_append [simp]: "one_line (a @ b) \<longleftrightarrow> one_line a \<and> one_line b"
  by (auto simp: one_line_def)

lemma one_line_Nil [simp]: "one_line []"
  by (simp add: one_line_def)

lemma one_line_Cons [simp]: "one_line (c # s) \<longleftrightarrow> c \<noteq> CHR 0x0A \<and> one_line s"
  by (auto simp: one_line_def)

lemma one_line_commas [simp]: "one_line (commas xs) \<longleftrightarrow> list_all one_line xs"
  by (induction xs rule: commas.induct) auto

lemma one_line_nat [simp]: "one_line (nat_text n)"
  using nat_text_digits [of n] by (auto simp: one_line_def is_digit_def)

lemma one_line_int [simp]: "one_line (to_string i)"
  by (simp add: to_string_def)

lemma one_line_members [simp]:
  "one_line (jtext key v) \<longleftrightarrow> one_line key" "one_line (jint key i) \<longleftrightarrow> one_line key"
  "one_line (jbool key b) \<longleftrightarrow> one_line key" "one_line (jraw key v) \<longleftrightarrow> one_line key \<and> one_line v"
  using jsonEscape_newline [of v]
  by (auto simp: jtext_def jint_def jbool_def jraw_def jquote_def bool_text_def one_line_def [of "jsonEscape v"])

lemma one_line_jobj [simp]: "one_line (jobj xs) \<longleftrightarrow> list_all one_line xs"
  by (simp add: jobj_def)

lemma one_line_jarr [simp]: "one_line (jarr xs) \<longleftrightarrow> list_all one_line xs"
  by (simp add: jarr_def)

lemma one_line_jquote [simp]: "one_line (jquote s) \<longleftrightarrow> one_line s"
  by (simp add: jquote_def)

lemma one_line_take: "one_line s \<Longrightarrow> one_line (take n s)"
  by (auto simp: one_line_def dest: in_set_takeD)

lemma one_line_drop: "one_line s \<Longrightarrow> one_line (drop n s)"
  by (auto simp: one_line_def dest: in_set_dropD)

lemma one_line_strip: "one_line s \<Longrightarrow> one_line (strip_zeros s)"
  by (auto simp: strip_zeros_def one_line_def dest: set_dropWhileD)

lemma one_line_fraction: "one_line a \<Longrightarrow> one_line b \<Longrightarrow> one_line (with_fraction a b)"
  by (simp add: with_fraction_def Let_def one_line_strip)

lemma one_line_hd: "one_line s \<Longrightarrow> s \<noteq> [] \<Longrightarrow> hd s \<noteq> CHR 0x0A"
  by (cases s) auto

lemma one_line_tl: "one_line s \<Longrightarrow> one_line (tl s)"
  by (cases s) auto

lemma one_line_format: "one_line (format_digits m x)"
  unfolding format_digits_def exponent_text_def Let_def
  by (auto intro!: one_line_fraction one_line_take one_line_drop one_line_tl simp: one_line_hd)
    (auto simp: one_line_def)

lemma one_line_double [simp]: "one_line (stream_double x)"
  by (cases x rule: stream_double.cases) (simp_all add: positive_text_def Let_def one_line_format)

lemma one_line_jreal [simp]: "one_line (jreal key x) \<longleftrightarrow> one_line key"
  by (simp add: jreal_def)

end
