(* ===== verification/PcMessages.thy ===== *)
theory PcMessages
  imports JsonText PcTables
begin

text \<open>
  Pc_data/protocol/PcDataMessages.cpp: the messages Pc_data sends to the user interface, and the
  readers of registrations, heartbeats and user interface requests.  A reader answers \<open>None\<close>
  where the source returns \<open>false\<close>.  \<open>now\<close> is \<open>currentTimeMs()\<close>.
\<close>

subsection \<open>The configuration of the MQTT client\<close>

record MqttConfig =
  mc_host :: string
  mc_port :: int
  mc_clientId :: string
  mc_commandGatewayId :: string
  mc_topics :: "string list"

definition MqttConfig_default :: MqttConfig where
  "MqttConfig_default =
    \<lparr>mc_host = ''127.0.0.1'', mc_port = 1883, mc_clientId = ''pc_data_001'', mc_commandGatewayId = [],
     mc_topics = [''gateway/register'', ''gateway/+/up'', ''gateway/+/+/up'']\<rparr>"

subsection \<open>Messages to the user interface\<close>

fun valueTypeToString :: "PointValueType \<Rightarrow> string" where
  "valueTypeToString PV_Number = ''number''"
| "valueTypeToString PV_Text = ''text''"
| "valueTypeToString PV_Boolean = ''boolean''"

definition buildCommandAckJson :: "int \<Rightarrow> string \<Rightarrow> bool \<Rightarrow> string \<Rightarrow> int \<Rightarrow> string \<Rightarrow> string \<Rightarrow> string \<Rightarrow> int
    \<Rightarrow> string \<Rightarrow> string \<Rightarrow> int \<Rightarrow> string" where
  "buildCommandAckJson now cmdId ok reason seq commandType stage message boardSeq gatewayId portId deviceId =
     (let boardSeq = (if boardSeq \<le> 0 then seq else boardSeq);
          finalDone = (stage = ''done'');
          effectiveOk = (finalDone \<and> ok);
          status = (if finalDone then if effectiveOk then ''success'' else ''failed''
                    else if stage = [] then ''accepted'' else stage)
      in jobj ([jtext ''type'' ''command_ack'', jtext ''cmd_id'' cmdId, jint ''seq'' seq, jint ''uiSeq'' seq,
           jint ''boardSeq'' boardSeq, jint ''board_seq'' boardSeq, jtext ''cmd'' commandType,
           jtext ''cmdType'' commandType, jtext ''command'' commandType, jtext ''commandType'' commandType,
           jtext ''stage'' (if stage = [] then ''accepted'' else stage), jtext ''status'' status,
           jbool ''ok'' effectiveOk, jtext ''reason'' reason, jtext ''message'' message]
         @ opt (gatewayId \<noteq> []) (jtext ''gatewayId'' gatewayId) @ opt (portId \<noteq> []) (jtext ''portId'' portId)
         @ (if deviceId > 0 then [jint ''deviceId'' deviceId, jint ''device_id'' deviceId, jint ''slave_id'' deviceId] else [])
         @ [jint ''timestampMs'' now, jint ''timestamp'' now]))"

definition point_json :: "TelemetryPoint \<Rightarrow> string" where
  "point_json p = jobj ([jtext ''pointId'' (tp_pointId p), jint ''timestampMs'' (tp_timestampMs p),
      jint ''receiveTimeMs'' (if tp_receiveTimeMs p > 0 then tp_receiveTimeMs p else tp_timestampMs p),
      jtext ''factoryId'' (tp_factoryId p), jtext ''factoryName'' (tp_factoryName p),
      jtext ''areaId'' (tp_areaId p), jtext ''areaName'' (tp_areaName p),
      jtext ''gatewayId'' (tp_gatewayId p), jtext ''gatewayName'' (tp_gatewayName p),
      jtext ''portId'' (tp_portId p), jtext ''portName'' (tp_portName p), jint ''deviceId'' (tp_deviceId p),
      jtext ''deviceName'' (tp_deviceName p), jtext ''deviceType'' (tp_deviceType p),
      jtext ''pointKey'' (tp_pointKey p), jtext ''pointName'' (tp_pointName p), jtext ''unit'' (tp_unit p),
      jraw ''valueType'' (jquote (valueTypeToString (tp_valueType p)))]
    @ (if tp_valueType p = PV_Text
       then [jtext ''value'' (tp_textValue p), jraw ''numberValue'' ''0'', jtext ''textValue'' (tp_textValue p)]
       else [jreal ''value'' (tp_numberValue p), jreal ''numberValue'' (tp_numberValue p), jtext ''textValue'' []])
    @ [jbool ''valid'' (tp_valid p), jtext ''errorMessage'' (tp_errorMessage p)])"

definition buildLatestPointsJson :: "TelemetryPoint list \<Rightarrow> string" where
  "buildLatestPointsJson points = jobj [jtext ''type'' ''latest_points'', jint ''count'' (int (length points)),
     jraw ''points'' (jarr (map point_json points))]"

definition buildCommandLogUpdateJson :: "int \<Rightarrow> int \<Rightarrow> string \<Rightarrow> string \<Rightarrow> string \<Rightarrow> string
    \<Rightarrow> CommandLogTarget option \<Rightarrow> int \<Rightarrow> string" where
  "buildCommandLogUpdateJson now seq commandType status reason message target boardSeq =
     (let boardSeq = (if boardSeq \<le> 0 then seq else boardSeq);
          stage = (if status = ''sent'' \<or> status = ''waiting'' then ''sent'' else ''done'')
      in jobj ([jtext ''type'' ''command_log_update'']
         @ (case target of None \<Rightarrow> [] | Some t \<Rightarrow> [jtext ''cmd_id'' (lt_commandId t)])
         @ [jint ''seq'' seq, jint ''boardSeq'' boardSeq, jtext ''cmd'' commandType, jtext ''command'' commandType,
            jtext ''commandType'' commandType, jtext ''cmdType'' commandType, jraw ''stage'' (jquote stage),
            jtext ''status'' status, jbool ''ok'' (status = ''success''), jtext ''reason'' reason,
            jtext ''message'' message]
         @ (case target of None \<Rightarrow> []
            | Some t \<Rightarrow> [jtext ''gatewayId'' (lt_gatewayId t), jtext ''portId'' (lt_portId t),
                        jint ''deviceId'' (lt_deviceId t)])
         @ [jint ''timestampMs'' now]))"

definition device_json :: "DeviceRecord \<Rightarrow> string" where
  "device_json d = jobj [jtext ''factoryId'' (dr_factoryId d), jtext ''factoryName'' (dr_factoryName d),
     jtext ''areaId'' (dr_areaId d), jtext ''areaName'' (dr_areaName d), jtext ''gatewayId'' (dr_gatewayId d),
     jtext ''gatewayName'' (dr_gatewayName d), jtext ''portId'' (dr_portId d), jtext ''portName'' (dr_portName d),
     jint ''deviceId'' (dr_deviceId d), jtext ''deviceName'' (dr_deviceName d),
     jtext ''deviceType'' (dr_deviceType d), jint ''pollIntervalMs'' (dr_pollIntervalMs d),
     jbool ''expectTelemetry'' (dr_expectTelemetry d), jbool ''enabled'' (dr_enabled d),
     jtext ''status'' (dr_status d), jint ''lastSeenMs'' (dr_lastSeenMs d),
     jint ''lastOfflineMs'' (dr_lastOfflineMs d), jtext ''statusReason'' (dr_statusReason d),
     jint ''createTimeMs'' (dr_createTimeMs d), jint ''updateTimeMs'' (dr_updateTimeMs d)]"

definition buildDevicesSnapshotJson :: "DeviceRecord list \<Rightarrow> string" where
  "buildDevicesSnapshotJson devices = jobj [jtext ''type'' ''devices_snapshot'', jint ''count'' (int (length devices)),
     jraw ''devices'' (jarr (map device_json devices))]"

definition gateway_json :: "GatewayStatus \<Rightarrow> string" where
  "gateway_json g = jobj [jtext ''gatewayId'' (gs_gatewayId g), jtext ''gatewayName'' (gs_gatewayName g),
     jtext ''factoryId'' (gs_factoryId g), jtext ''areaId'' (gs_areaId g), jtext ''status'' (gs_status g),
     jint ''lastRegisterTimeMs'' (gs_lastRegisterTimeMs g), jint ''lastHeartbeatTimeMs'' (gs_lastHeartbeatTimeMs g),
     jint ''updateTimeMs'' (gs_updateTimeMs g)]"

definition buildGatewayStatusSnapshotJson :: "GatewayStatus list \<Rightarrow> string" where
  "buildGatewayStatusSnapshotJson gateways = jobj [jtext ''type'' ''gateway_status_snapshot'',
     jint ''count'' (int (length gateways)), jraw ''gateways'' (jarr (map gateway_json gateways))]"

definition port_json :: "GatewayPort \<Rightarrow> string" where
  "port_json p = jobj [jtext ''gatewayId'' (gp_gatewayId p), jtext ''portId'' (gp_portId p),
     jtext ''portName'' (gp_portName p), jint ''slot'' (gp_slot p), jtext ''devicePath'' (gp_devicePath p),
     jint ''baud'' (gp_baud p), jtext ''status'' (gp_status p),
     jint ''lastRegisterTimeMs'' (gp_lastRegisterTimeMs p), jint ''updateTimeMs'' (gp_updateTimeMs p)]"

definition buildPortStatusSnapshotJson :: "GatewayPort list \<Rightarrow> string" where
  "buildPortStatusSnapshotJson ports = jobj [jtext ''type'' ''port_status_snapshot'',
     jint ''count'' (int (length ports)), jraw ''ports'' (jarr (map port_json ports))]"

definition buildDeviceRegisterAckJson :: "int \<Rightarrow> 32 word \<Rightarrow> DeviceRecord \<Rightarrow> bool \<Rightarrow> string \<Rightarrow> string" where
  "buildDeviceRegisterAckJson now sequence device ok reason =
     jobj [jtext ''type'' ''device_register_ack'', jint ''sequence'' (uint sequence), jint ''seq'' (uint sequence),
       jbool ''ok'' ok, jtext ''reason'' reason, jtext ''gatewayId'' (dr_gatewayId device),
       jtext ''portId'' (dr_portId device), jint ''deviceId'' (dr_deviceId device), jint ''timestampMs'' now]"

definition history_json :: "TelemetryPoint \<Rightarrow> string" where
  "history_json p = jobj [jint ''timestampMs'' (tp_timestampMs p), jreal ''numberValue'' (tp_numberValue p),
     jtext ''textValue'' (tp_textValue p), jbool ''valid'' (tp_valid p)]"

definition buildHistoryPointsJson :: "string \<Rightarrow> TelemetryPoint list \<Rightarrow> bool \<Rightarrow> string \<Rightarrow> string \<Rightarrow> string" where
  "buildHistoryPointsJson pointId points ok reason message =
     (let actualReason = (if reason = [] \<and> ok \<and> points = [] then ''no_data'' else reason)
      in jobj ([jtext ''type'' ''history_points'', jbool ''ok'' ok, jtext ''reason'' actualReason]
         @ opt (message \<noteq> []) (jtext ''message'' message)
         @ [jtext ''pointId'' pointId, jint ''count'' (int (length points)),
            jraw ''points'' (jarr (map history_json points))]))"

definition buildDeleteDataAckJson :: "int \<Rightarrow> string \<Rightarrow> bool \<Rightarrow> string \<Rightarrow> string" where
  "buildDeleteDataAckJson now action ok reason =
     jobj [jtext ''type'' ''delete_data_ack'', jtext ''action'' action, jbool ''ok'' ok, jtext ''reason'' reason,
       jint ''timestamp'' now]"

definition buildAlarmActionAckJson :: "int \<Rightarrow> string \<Rightarrow> bool \<Rightarrow> string \<Rightarrow> string \<Rightarrow> string" where
  "buildAlarmActionAckJson now action ok reason alarmId =
     jobj ([jtext ''type'' ''alarm_action_ack'', jtext ''action'' action, jbool ''ok'' ok, jtext ''reason'' reason]
       @ (if alarmId \<noteq> [] then [jtext ''alarm_id'' alarmId, jtext ''alarmId'' alarmId] else [])
       @ [jint ''timestamp'' now])"

definition alarm_json :: "AlarmEvent \<Rightarrow> string" where
  "alarm_json e = jobj [jtext ''alarm_id'' (ae_alarmId e), jtext ''alarmId'' (ae_alarmId e),
     jint ''timestampMs'' (ae_timestampMs e), jint ''ack_time_ms'' (ae_ackTimeMs e), jint ''ackTimeMs'' (ae_ackTimeMs e),
     jint ''recover_time_ms'' (ae_recoverTimeMs e), jint ''recoverTimeMs'' (ae_recoverTimeMs e),
     jtext ''factoryId'' (ae_factoryId e), jtext ''factory_id'' (ae_factoryId e),
     jtext ''areaId'' (ae_areaId e), jtext ''area_id'' (ae_areaId e),
     jtext ''areaName'' (ae_areaName e), jtext ''area_name'' (ae_areaName e),
     jtext ''gatewayId'' (ae_gatewayId e), jtext ''gateway_id'' (ae_gatewayId e),
     jtext ''portId'' (ae_portId e), jtext ''port_id'' (ae_portId e),
     jint ''deviceId'' (ae_deviceId e), jint ''device_id'' (ae_deviceId e),
     jtext ''deviceName'' (ae_deviceName e), jtext ''device_name'' (ae_deviceName e),
     jtext ''deviceType'' (ae_deviceType e), jtext ''device_type'' (ae_deviceType e),
     jtext ''pointKey'' (ae_pointKey e), jtext ''point_key'' (ae_pointKey e),
     jtext ''pointName'' (ae_pointName e), jtext ''point_name'' (ae_pointName e),
     jtext ''alarmType'' (ae_alarmType e), jtext ''alarm_type'' (ae_alarmType e),
     jtext ''level'' (ae_level e), jtext ''alarm_level'' (ae_level e),
     jtext ''message'' (ae_message e), jtext ''alarm_message'' (ae_message e),
     jtext ''state'' (ae_state e), jtext ''status'' (ae_state e),
     jreal ''value'' (ae_value e), jreal ''trigger_value'' (ae_value e),
     jreal ''threshold'' (ae_threshold e), jreal ''threshold_value'' (ae_threshold e)]"

definition buildAlarmEventsSnapshotJson :: "AlarmEvent list \<Rightarrow> string" where
  "buildAlarmEventsSnapshotJson events = jobj [jtext ''type'' ''alarm_events_snapshot'',
     jint ''count'' (int (length events)), jraw ''alarms'' (jarr (map alarm_json events))]"

definition buildMqttConfigJson :: "MqttConfig \<Rightarrow> string \<Rightarrow> string" where
  "buildMqttConfigJson config status = jobj [jtext ''type'' ''mqtt_config'', jtext ''host'' (mc_host config),
     jint ''port'' (mc_port config), jtext ''status'' status]"

definition buildMqttConfigAckJson :: "bool \<Rightarrow> string \<Rightarrow> MqttConfig \<Rightarrow> string \<Rightarrow> string" where
  "buildMqttConfigAckJson ok reason config status = jobj [jtext ''type'' ''mqtt_config_ack'', jbool ''ok'' ok,
     jtext ''reason'' reason, jtext ''host'' (mc_host config), jint ''port'' (mc_port config), jtext ''status'' status]"

definition buildSyncConfigResultJson :: "bool \<Rightarrow> string \<Rightarrow> int \<Rightarrow> int \<Rightarrow> string" where
  "buildSyncConfigResultJson success message portCount deviceCount =
     jobj [jtext ''type'' ''sync_config_result'', jbool ''success'' success, jtext ''message'' message,
       jint ''portCount'' portCount, jint ''deviceCount'' deviceCount]"

subsection \<open>Registrations and heartbeats\<close>

text \<open>The object of a message of the given type.\<close>

definition typed_object :: "'v rapidjson \<Rightarrow> string \<Rightarrow> string \<Rightarrow> 'v option" where
  "typed_object J kind text =
     (case parse_object J text of None \<Rightarrow> None
      | Some doc \<Rightarrow> if getJsonString J doc ''type'' = kind then Some doc else None)"

text \<open>Pc_data/mqtt/MqttConfig.cpp: the configuration file, when it can be opened; what it does not say, or
  says wrongly, stays at its default.\<close>

definition loadMqttConfig :: "'v rapidjson \<Rightarrow> string option \<Rightarrow> MqttConfig" where
  "loadMqttConfig J content =
     (case content of None \<Rightarrow> MqttConfig_default
      | Some text \<Rightarrow>
        (case parse_object J text of None \<Rightarrow> MqttConfig_default
         | Some doc \<Rightarrow>
           let c = MqttConfig_default; host = getJsonString J doc ''host'';
               port = getJsonInt J doc ''port'' (mc_port c);
               commandGatewayId = getJsonString J doc ''commandGatewayId''
           in c\<lparr>mc_host := (if host = [] then mc_host c else host),
                mc_port := (if port \<ge> 1 \<and> port \<le> 65535 then port else mc_port c),
                mc_commandGatewayId := (if commandGatewayId = [] then mc_commandGatewayId c else commandGatewayId)\<rparr>))"

definition member_object :: "'v rapidjson \<Rightarrow> 'v \<Rightarrow> string \<Rightarrow> 'v option" where
  "member_object J doc key =
     (case rj_member J doc key of None \<Rightarrow> None | Some v \<Rightarrow> if rj_is_object J v then Some v else None)"

text \<open>\<open>root[key]\<close> when it is an object, else \<open>root\<close>.\<close>

definition object_or :: "'v rapidjson \<Rightarrow> 'v \<Rightarrow> string \<Rightarrow> 'v" where
  "object_or J doc key = (case member_object J doc key of None \<Rightarrow> doc | Some v \<Rightarrow> v)"

definition parseGatewayRegister :: "'v rapidjson \<Rightarrow> int \<Rightarrow> string \<Rightarrow> GatewayStatus option" where
  "parseGatewayRegister J now payload =
     (case typed_object J ''gateway_register'' payload of None \<Rightarrow> None
      | Some doc \<Rightarrow>
        let g = \<lparr>gs_gatewayId = getJsonString J doc ''gatewayId'', gs_gatewayName = getJsonString J doc ''gatewayName'',
                 gs_factoryId = getJsonString J doc ''factoryId'', gs_areaId = getJsonString J doc ''areaId'',
                 gs_status = ''online'', gs_lastRegisterTimeMs = now, gs_lastHeartbeatTimeMs = now,
                 gs_updateTimeMs = now\<rparr>
        in if gs_gatewayId g = [] then None else Some g)"

text \<open>The gateway, the time stamp and the status.\<close>

definition parseGatewayHeartbeat :: "'v rapidjson \<Rightarrow> int \<Rightarrow> string \<Rightarrow> (string \<times> int \<times> string) option" where
  "parseGatewayHeartbeat J now payload =
     (case typed_object J ''gateway_heartbeat'' payload of None \<Rightarrow> None
      | Some doc \<Rightarrow>
        let gatewayId = getJsonString J doc ''gatewayId'';
            timestampMs = getJsonInt64 J doc ''timestampMs'' now;
            status = getJsonString J doc ''status''
        in if gatewayId = [] then None
           else Some (gatewayId, timestampMs, if status = [] then ''online'' else status))"

definition parsePortRegister :: "'v rapidjson \<Rightarrow> int \<Rightarrow> string \<Rightarrow> GatewayPort option" where
  "parsePortRegister J now payload =
     (case typed_object J ''port_register'' payload of None \<Rightarrow> None
      | Some doc \<Rightarrow>
        let status = getJsonString J doc ''status'';
            p = \<lparr>gp_gatewayId = getJsonString J doc ''gatewayId'', gp_portId = getJsonString J doc ''portId'',
                 gp_portName = getJsonString J doc ''portName'', gp_slot = getJsonInt J doc ''slot'' 0,
                 gp_devicePath = getJsonString J doc ''devicePath'', gp_baud = getJsonInt J doc ''baud'' 0,
                 gp_status = (if status = [] then ''connected'' else status),
                 gp_lastRegisterTimeMs = now, gp_updateTimeMs = now\<rparr>
        in if gp_gatewayId p = [] \<or> gp_portId p = [] then None else Some p)"

text \<open>The device, the sequence number and the reason, which is not empty when a field is missing.\<close>

definition parseDeviceRegister :: "'v rapidjson \<Rightarrow> int \<Rightarrow> string \<Rightarrow> (DeviceRecord \<times> 32 word \<times> string) option" where
  "parseDeviceRegister J receiveTimeMs payload =
     (case typed_object J ''device_register'' payload of None \<Rightarrow> None
      | Some doc \<Rightarrow>
        let sequence = word_of_int (getJsonInt J doc ''sequence'' (getJsonInt J doc ''seq'' 0));
            site = object_or J doc ''site'';
            kind = getJsonString J doc ''deviceType'';
            device = DeviceRecord_default
             \<lparr>dr_factoryId := getJsonString J site ''factoryId'', dr_factoryName := getJsonString J site ''factoryName'',
              dr_areaId := getJsonString J site ''areaId'', dr_areaName := getJsonString J site ''areaName'',
              dr_gatewayId := getJsonString J site ''gatewayId'', dr_gatewayName := getJsonString J site ''gatewayName'',
              dr_portId := getJsonString J site ''portId'', dr_portName := getJsonString J site ''portName'',
              dr_deviceId := getJsonInt J doc ''deviceId'' (getJsonInt J doc ''slave_id'' 0),
              dr_deviceName := getJsonString J doc ''deviceName'', dr_deviceType := kind,
              dr_pollIntervalMs := getJsonInt J doc ''pollIntervalMs'' 1000,
              dr_expectTelemetry := getJsonBool J doc ''expectTelemetry'' (kind \<noteq> ''relay''),
              dr_enabled := True, dr_status := ''online'', dr_lastSeenMs := receiveTimeMs, dr_statusReason := [],
              dr_createTimeMs := receiveTimeMs, dr_updateTimeMs := receiveTimeMs\<rparr>
        in if dr_gatewayId device = [] \<or> dr_portId device = [] \<or> dr_deviceId device \<le> 0 \<or> dr_deviceType device = []
           then Some (device, sequence, ''invalid_device_register'')
           else Some (if dr_deviceName device = []
                      then device\<lparr>dr_deviceName := ''Device '' @ to_string (dr_deviceId device)\<rparr> else device,
                      sequence, []))"

subsection \<open>Requests of the user interface\<close>

text \<open>The new configuration and the reason, which is not empty when the request is refused.\<close>

definition parseSaveMqttConfigRequest :: "'v rapidjson \<Rightarrow> MqttConfig \<Rightarrow> string \<Rightarrow> (MqttConfig \<times> string) option" where
  "parseSaveMqttConfigRequest J config msg =
     (case typed_object J ''save_mqtt_config'' msg of None \<Rightarrow> None
      | Some doc \<Rightarrow>
        let host = getJsonString J doc ''host''; port = getJsonInt J doc ''port'' 0
        in if host = [] then Some (config, ''host_empty'')
           else if port < 1 \<or> port > 65535 then Some (config, ''port_invalid'')
           else Some (config\<lparr>mc_host := host, mc_port := port\<rparr>, []))"

definition parseGetMqttConfigRequest :: "'v rapidjson \<Rightarrow> string \<Rightarrow> bool" where
  "parseGetMqttConfigRequest J msg \<longleftrightarrow> typed_object J ''get_mqtt_config'' msg \<noteq> None"

text \<open>The point, the first and last time stamp, and the limit.\<close>

definition parseHistoryQuery :: "'v rapidjson \<Rightarrow> string \<Rightarrow> (string \<times> int \<times> int \<times> int) option" where
  "parseHistoryQuery J msg =
     (case typed_object J ''query_history'' msg of None \<Rightarrow> None
      | Some doc \<Rightarrow>
        if getJsonString J doc ''pointId'' = [] then None
        else Some (getJsonString J doc ''pointId'',
                   getJsonInt64 J doc ''startMs'' (getJsonInt64 J doc ''from'' 0),
                   getJsonInt64 J doc ''endMs'' (getJsonInt64 J doc ''to'' 0), getJsonInt J doc ''limit'' 1000))"

text \<open>A text member under its camel case or its snake case name.\<close>

definition camel_or_snake :: "'v rapidjson \<Rightarrow> 'v \<Rightarrow> string \<Rightarrow> string \<Rightarrow> string" where
  "camel_or_snake J doc a b = (let s = getJsonString J doc a in if s = [] then getJsonString J doc b else s)"

definition parseDeleteDeviceRequest :: "'v rapidjson \<Rightarrow> string \<Rightarrow> (string \<times> string \<times> int) option" where
  "parseDeleteDeviceRequest J msg =
     (case typed_object J ''delete_device_data'' msg of None \<Rightarrow> None
      | Some doc \<Rightarrow>
        let gatewayId = camel_or_snake J doc ''gatewayId'' ''gateway_id'';
            portId = camel_or_snake J doc ''portId'' ''port_id'';
            deviceId = getJsonInt J doc ''deviceId'' (getJsonInt J doc ''device_id'' 0)
        in if gatewayId = [] \<or> portId = [] \<or> deviceId \<le> 0 then None else Some (gatewayId, portId, deviceId))"

definition parseDeleteMasterRequest :: "'v rapidjson \<Rightarrow> string \<Rightarrow> (string \<times> string) option" where
  "parseDeleteMasterRequest J msg =
     (case typed_object J ''delete_master_data'' msg of None \<Rightarrow> None
      | Some doc \<Rightarrow>
        let gatewayId = camel_or_snake J doc ''gatewayId'' ''gateway_id'';
            portId = camel_or_snake J doc ''portId'' ''port_id''
        in if gatewayId = [] \<or> portId = [] then None else Some (gatewayId, portId))"

definition parseClearRecoveredAlarmsRequest :: "'v rapidjson \<Rightarrow> string \<Rightarrow> bool" where
  "parseClearRecoveredAlarmsRequest J msg \<longleftrightarrow> typed_object J ''clear_recovered_alarms'' msg \<noteq> None"

definition parseClearAcknowledgedAlarmsRequest :: "'v rapidjson \<Rightarrow> string \<Rightarrow> bool" where
  "parseClearAcknowledgedAlarmsRequest J msg \<longleftrightarrow> typed_object J ''clear_acknowledged_alarms'' msg \<noteq> None"

definition parseAckAlarmRequest :: "'v rapidjson \<Rightarrow> string \<Rightarrow> string option" where
  "parseAckAlarmRequest J msg =
     (case typed_object J ''ack_alarm'' msg of None \<Rightarrow> None
      | Some doc \<Rightarrow> Some (camel_or_snake J doc ''alarm_id'' ''alarmId''))"

definition parseGetAlarmEventsRequest :: "'v rapidjson \<Rightarrow> string \<Rightarrow> bool" where
  "parseGetAlarmEventsRequest J msg \<longleftrightarrow> typed_object J ''get_alarm_events'' msg \<noteq> None"

definition parseClearAllDataRequest :: "'v rapidjson \<Rightarrow> string \<Rightarrow> bool" where
  "parseClearAllDataRequest J msg \<longleftrightarrow> typed_object J ''clear_all_data'' msg \<noteq> None"

subsection \<open>Every message is one line\<close>

text \<open>The pipe to the user interface ends a message with a newline, so a message must hold none.\<close>

lemma items_one_line: "(\<And>p. one_line (item p)) \<Longrightarrow> list_all one_line (map item ps)"
  by (simp add: list_all_iff)

lemma valueTypeToString_one_line [simp]: "one_line (valueTypeToString v)"
  by (cases v) simp_all

lemma record_json_one_line:
  "one_line (point_json p)" "one_line (device_json d)" "one_line (gateway_json g)" "one_line (port_json q)"
  "one_line (history_json p)" "one_line (alarm_json e)"
  by (simp_all add: point_json_def device_json_def gateway_json_def port_json_def history_json_def alarm_json_def)

lemmas message_defs =
  buildCommandAckJson_def buildLatestPointsJson_def buildCommandLogUpdateJson_def
  buildDevicesSnapshotJson_def buildGatewayStatusSnapshotJson_def buildPortStatusSnapshotJson_def
  buildHistoryPointsJson_def buildDeleteDataAckJson_def buildAlarmActionAckJson_def
  buildAlarmEventsSnapshotJson_def buildMqttConfigJson_def buildMqttConfigAckJson_def
  buildSyncConfigResultJson_def

lemma messages_one_line:
  "one_line (buildCommandAckJson now c ok r s ty st m b g p d)"
  "one_line (buildLatestPointsJson ps)" "one_line (buildCommandLogUpdateJson now s ty st r m t b)"
  "one_line (buildDevicesSnapshotJson ds)" "one_line (buildGatewayStatusSnapshotJson gs)"
  "one_line (buildPortStatusSnapshotJson qs)" "one_line (buildHistoryPointsJson pid ps ok r m)"
  "one_line (buildDeleteDataAckJson now a ok r)" "one_line (buildAlarmActionAckJson now a ok r i)"
  "one_line (buildAlarmEventsSnapshotJson es)" "one_line (buildMqttConfigJson mc st)"
  "one_line (buildMqttConfigAckJson ok r mc st)" "one_line (buildSyncConfigResultJson ok m n k)"
  by (simp_all add: message_defs Let_def opt_def items_one_line record_json_one_line split: option.split)

end
