(* ===== verification/PcWorld.thy ===== *)
theory PcWorld
  imports PcMessages PcStoreConfig PcService
begin

text \<open>
  The running Pc_data: the pipe to the user interface (Pc_data/ipc/IpcServer.cpp, the build for
  Windows), the MQTT client (Pc_data/mqtt/MqttClient.cpp), the publisher of snapshots
  (Pc_data/ipc/PcUiPublisher.cpp), and the state on which the message handlers act.

  Parameters: \<open>pe_json\<close> and \<open>pe_print\<close> are rapidjson's document and its \<open>Writer\<close>, \<open>pe_db\<close> the
  SQLite engine, \<open>pe_pipe n\<close> the outcome of the n-th \<open>WriteFile\<close>, \<open>pe_paho n\<close> whether the n-th
  call of the paho library succeeds, \<open>pe_save n\<close> whether the n-th configuration file is written.
  What is written to the pipe and handed to paho is kept, in order.
\<close>

subsection \<open>State\<close>

datatype pipe_write = PipeFailed | PipeWrote nat

record PcIpc =
  ip_client :: bool
  ip_pipe :: bool
  ip_buffer :: string
  ip_out :: "string list"
  ip_tick :: nat

record PcMqtt =
  mt_client :: bool
  mt_address :: string
  mt_clientId :: string
  mt_topics :: "string list"
  mt_status :: string
  mt_sent :: "(string \<times> string) list"
  mt_subscribed :: "string list"
  mt_tick :: nat

record 'v pc_env =
  pe_json :: "'v rapidjson"
  pe_print :: "'v \<Rightarrow> string"
  pe_db :: db_engine
  pe_pipe :: "nat \<Rightarrow> pipe_write"
  pe_paho :: "nat \<Rightarrow> bool"
  pe_save :: "nat \<Rightarrow> bool"

record PcData =
  pw_db :: PcDatabase
  pw_service :: PcDataService
  pw_ipc :: PcIpc
  pw_mqtt :: PcMqtt
  pw_config :: MqttConfig
  pw_lastConfigRequest :: "(string, int) umap"
  pw_telemetryQueue :: "(string \<times> string) list"
  pw_pendingDb :: "(string, TelemetryPoint) umap"
  pw_latestDirty :: bool
  pw_saves :: nat

definition PcIpc_new :: PcIpc where
  "PcIpc_new = \<lparr>ip_client = False, ip_pipe = False, ip_buffer = [], ip_out = [], ip_tick = 0\<rparr>"

definition PcMqtt_new :: PcMqtt where
  "PcMqtt_new = \<lparr>mt_client = False, mt_address = [], mt_clientId = [], mt_topics = [],
     mt_status = ''disconnected'', mt_sent = [], mt_subscribed = [], mt_tick = 0\<rparr>"

definition PcDatabase_new :: "PcTables \<Rightarrow> PcDatabase" where
  "PcDatabase_new t = \<lparr>pd_open = False, pd_tables = t, pd_saved = None, pd_tick = 0\<rparr>"

definition PcData_new :: "PcTables \<Rightarrow> MqttConfig \<Rightarrow> PcData" where
  "PcData_new t config = \<lparr>pw_db = PcDatabase_new t, pw_service = svc_init, pw_ipc = PcIpc_new,
     pw_mqtt = PcMqtt_new, pw_config = config, pw_lastConfigRequest = um_empty, pw_telemetryQueue = [],
     pw_pendingDb = um_empty, pw_latestDirty = False, pw_saves = 0\<rparr>"

subsection \<open>IpcServer\<close>

definition ipc_sendMessage :: "'v pc_env \<Rightarrow> string \<Rightarrow> PcIpc \<Rightarrow> bool \<times> PcIpc" where
  "ipc_sendMessage E msg s =
     (if \<not> ip_client s \<or> \<not> ip_pipe s then (False, s)
      else let data = msg @ [CHR 0x0A]; s' = s\<lparr>ip_tick := Suc (ip_tick s)\<rparr> in
           case pe_pipe E (ip_tick s) of
             PipeFailed \<Rightarrow> (False, s'\<lparr>ip_client := False\<rparr>)
           | PipeWrote n \<Rightarrow> (length data \<le> n, s'\<lparr>ip_out := ip_out s @ [take n data]\<rparr>))"

definition ipc_clientConnected :: "PcIpc \<Rightarrow> PcIpc" where
  "ipc_clientConnected s = s\<lparr>ip_pipe := True, ip_client := True, ip_buffer := []\<rparr>"

definition ipc_closeClient :: "PcIpc \<Rightarrow> PcIpc" where
  "ipc_closeClient s = s\<lparr>ip_client := False, ip_pipe := False, ip_buffer := []\<rparr>"

definition maxBufferSize :: nat where "maxBufferSize = 1024 * 1024"

text \<open>The messages of a received text, and what stays in the buffer.\<close>

definition trim_cr :: "string \<Rightarrow> string" where
  "trim_cr msg = (if msg \<noteq> [] \<and> last msg = CHR 0x0D then butlast msg else msg)"

function split_lines :: "string \<Rightarrow> string list \<times> string" where
  "split_lines buffer =
     (if CHR 0x0A \<notin> set buffer then ([], buffer)
      else let msg = trim_cr (takeWhile (\<lambda>c. c \<noteq> CHR 0x0A) buffer);
               (rest, left) = split_lines (tl (dropWhile (\<lambda>c. c \<noteq> CHR 0x0A) buffer))
           in (if msg = [] then rest else msg # rest, left))"
  by pat_completeness auto
termination
proof (relation "measure length")
  fix buffer :: string
  assume "\<not> CHR 0x0A \<notin> set buffer"
  then have "dropWhile (\<lambda>c. c \<noteq> CHR 0x0A) buffer \<noteq> []" by (auto simp: dropWhile_eq_Nil_conv)
  then have "length (tl (dropWhile (\<lambda>c. c \<noteq> CHR 0x0A) buffer)) < length (dropWhile (\<lambda>c. c \<noteq> CHR 0x0A) buffer)"
    by (cases "dropWhile (\<lambda>c. c \<noteq> CHR 0x0A) buffer") auto
  then show "(tl (dropWhile (\<lambda>c. c \<noteq> CHR 0x0A) buffer), buffer) \<in> measure length"
    using length_dropWhile_le [of "\<lambda>c. c \<noteq> CHR 0x0A" buffer] by simp
qed simp

declare split_lines.simps [simp del]

definition ipc_processReceivedData :: "string \<Rightarrow> PcIpc \<Rightarrow> string list \<times> PcIpc" where
  "ipc_processReceivedData bytes s =
     (if bytes = [] then ([], s)
      else let buffer = ip_buffer s @ bytes in
           if length buffer > maxBufferSize then ([], s\<lparr>ip_buffer := []\<rparr>)
           else let (msgs, left) = split_lines buffer in (msgs, s\<lparr>ip_buffer := left\<rparr>))"

subsection \<open>MqttClient\<close>

definition mqtt_disconnect :: "PcMqtt \<Rightarrow> PcMqtt" where
  "mqtt_disconnect s = (if mt_client s then s\<lparr>mt_client := False, mt_status := ''disconnected''\<rparr> else s)"

text \<open>\<open>MQTTAsync_create\<close>, \<open>MQTTAsync_setCallbacks\<close> and \<open>MQTTAsync_connect\<close>, each with its outcome.\<close>

definition mqtt_connectToBroker ::
    "'v pc_env \<Rightarrow> string \<Rightarrow> int \<Rightarrow> string \<Rightarrow> string list \<Rightarrow> PcMqtt \<Rightarrow> bool \<times> PcMqtt" where
  "mqtt_connectToBroker E host port clientId topics s =
     (let s = (mqtt_disconnect s)\<lparr>mt_address := ''tcp://'' @ host @ '':'' @ to_string port,
                mt_clientId := clientId, mt_topics := topics, mt_status := ''connecting''\<rparr>;
          n = mt_tick s
      in if \<not> pe_paho E n then (False, s\<lparr>mt_client := False, mt_status := ''failed'', mt_tick := n + 1\<rparr>)
         else if \<not> pe_paho E (n + 1) then (False, s\<lparr>mt_client := False, mt_status := ''failed'', mt_tick := n + 2\<rparr>)
         else if \<not> pe_paho E (n + 2) then (False, s\<lparr>mt_client := False, mt_status := ''failed'', mt_tick := n + 3\<rparr>)
         else (True, s\<lparr>mt_client := True, mt_tick := n + 3\<rparr>))"

definition mqtt_publish :: "'v pc_env \<Rightarrow> string \<Rightarrow> string \<Rightarrow> PcMqtt \<Rightarrow> bool \<times> PcMqtt" where
  "mqtt_publish E topic payload s =
     (if \<not> mt_client s \<or> topic = [] then (False, s)
      else if CHR ''#'' \<in> set topic \<or> CHR ''+'' \<in> set topic then (False, s)
      else if \<not> pe_paho E (mt_tick s) then (False, s\<lparr>mt_tick := Suc (mt_tick s)\<rparr>)
      else (True, s\<lparr>mt_tick := Suc (mt_tick s), mt_sent := mt_sent s @ [(topic, payload)]\<rparr>))"

fun subscribe_each :: "'v pc_env \<Rightarrow> string list \<Rightarrow> PcMqtt \<Rightarrow> bool \<times> PcMqtt" where
  "subscribe_each E [] s = (True, s)"
| "subscribe_each E (topic # topics) s =
     (let ok = pe_paho E (mt_tick s);
          s = s\<lparr>mt_tick := Suc (mt_tick s), mt_subscribed := mt_subscribed s @ (if ok then [topic] else [])\<rparr>;
          (rest, s) = subscribe_each E topics s
      in (ok \<and> rest, s))"

definition mqtt_subscribeTopics :: "'v pc_env \<Rightarrow> PcMqtt \<Rightarrow> bool \<times> PcMqtt" where
  "mqtt_subscribeTopics E s = (if \<not> mt_client s then (False, s) else subscribe_each E (mt_topics s) s)"

text \<open>The callbacks of the library.\<close>

definition mqtt_onConnectSuccess :: "'v pc_env \<Rightarrow> PcMqtt \<Rightarrow> PcMqtt" where
  "mqtt_onConnectSuccess E s = snd (mqtt_subscribeTopics E (s\<lparr>mt_status := ''connected''\<rparr>))"

definition mqtt_onConnectFailure :: "PcMqtt \<Rightarrow> PcMqtt" where
  "mqtt_onConnectFailure s = s\<lparr>mt_status := ''failed''\<rparr>"

definition mqtt_onConnectionLost :: "PcMqtt \<Rightarrow> PcMqtt" where
  "mqtt_onConnectionLost s = s\<lparr>mt_status := ''connecting''\<rparr>"

subsection \<open>Acting on one part of the state\<close>

definition in_db :: "(PcDatabase \<Rightarrow> 'r \<times> PcDatabase) \<Rightarrow> PcData \<Rightarrow> 'r \<times> PcData" where
  "in_db f W = (let (r, db) = f (pw_db W) in (r, W\<lparr>pw_db := db\<rparr>))"

definition in_service :: "(PcDataService \<Rightarrow> 'r \<times> PcDataService) \<Rightarrow> PcData \<Rightarrow> 'r \<times> PcData" where
  "in_service f W = (let (r, s) = f (pw_service W) in (r, W\<lparr>pw_service := s\<rparr>))"

definition do_service :: "(PcDataService \<Rightarrow> PcDataService) \<Rightarrow> PcData \<Rightarrow> PcData" where
  "do_service f W = W\<lparr>pw_service := f (pw_service W)\<rparr>"

definition ui_send :: "'v pc_env \<Rightarrow> string \<Rightarrow> PcData \<Rightarrow> bool \<times> PcData" where
  "ui_send E msg W = (let (ok, s) = ipc_sendMessage E msg (pw_ipc W) in (ok, W\<lparr>pw_ipc := s\<rparr>))"

definition ui_tell :: "'v pc_env \<Rightarrow> string \<Rightarrow> PcData \<Rightarrow> PcData" where
  "ui_tell E msg W = snd (ui_send E msg W)"

definition broker_send :: "'v pc_env \<Rightarrow> string \<Rightarrow> string \<Rightarrow> PcData \<Rightarrow> bool \<times> PcData" where
  "broker_send E topic payload W =
     (let (ok, s) = mqtt_publish E topic payload (pw_mqtt W) in (ok, W\<lparr>pw_mqtt := s\<rparr>))"

definition db_isOpen :: "PcData \<Rightarrow> bool" where "db_isOpen W = pd_open (pw_db W)"
definition ui_hasClient :: "PcData \<Rightarrow> bool" where "ui_hasClient W = ip_client (pw_ipc W)"

subsection \<open>PcUiPublisher\<close>

definition sendLatestPoints :: "'v pc_env \<Rightarrow> PcData \<Rightarrow> PcData" where
  "sendLatestPoints E W = ui_tell E (buildLatestPointsJson (getLatestPoints (pw_service W))) W"

definition sendDevicesSnapshot :: "'v pc_env \<Rightarrow> PcData \<Rightarrow> PcData" where
  "sendDevicesSnapshot E W = ui_tell E (buildDevicesSnapshotJson (getDeviceRegistrySnapshot (pw_service W))) W"

definition sendGatewayStatusSnapshot :: "'v pc_env \<Rightarrow> PcData \<Rightarrow> PcData" where
  "sendGatewayStatusSnapshot E W =
     ui_tell E (buildGatewayStatusSnapshotJson (getGatewayStatusSnapshot (pw_service W))) W"

definition sendPortStatusSnapshot :: "'v pc_env \<Rightarrow> PcData \<Rightarrow> PcData" where
  "sendPortStatusSnapshot E W =
     ui_tell E (buildPortStatusSnapshotJson (getGatewayPortSnapshot (pw_service W))) W"

end
