(* ===== verification/PcIntake.thy ===== *)
theory PcIntake
  imports PcMessages PcStoreConfig ServiceState ModelConverter
begin

text \<open>
  The file-local functions of Pc_data/mqtt/MqttMessageHandler.cpp: topics, point keys, and the
  readers of acknowledgements, registrations, alarms and configuration snapshots.  The Chinese
  default names are their UTF-8 bytes.  \<open>now\<close> is \<open>currentTimeMs()\<close>.
\<close>

subsection \<open>Names\<close>

definition text_factory :: string where
  "text_factory = [CHR 0xE5, CHR 0xB7, CHR 0xA5, CHR 0xE5, CHR 0x8E, CHR 0x82]"
definition text_area :: string where
  "text_area = [CHR 0xE8, CHR 0xBD, CHR 0xA6, CHR 0xE9, CHR 0x97, CHR 0xB4]"
definition text_temperature :: string where
  "text_temperature = [CHR 0xE6, CHR 0xB8, CHR 0xA9, CHR 0xE5, CHR 0xBA, CHR 0xA6]"
definition text_humidity :: string where
  "text_humidity = [CHR 0xE6, CHR 0xB9, CHR 0xBF, CHR 0xE5, CHR 0xBA, CHR 0xA6]"

definition kUnknownTelemetryConfigRequestIntervalMs :: int where "kUnknownTelemetryConfigRequestIntervalMs = 5000"
definition kMaxTelemetryQueueSize :: nat where "kMaxTelemetryQueueSize = 256"

definition portIdFromSlot :: "int \<Rightarrow> string" where
  "portIdFromSlot slot =
     (let slot = (if slot < 0 then 0 else slot)
      in ''port_'' @ (if slot + 1 < 10 then ''00'' else if slot + 1 < 100 then ''0'' else []) @ to_string (slot + 1))"

definition portNameFromSlot :: "int \<Rightarrow> string" where
  "portNameFromSlot slot = ''RS485-'' @ to_string ((if slot < 0 then 0 else slot) + 1)"

definition deviceRecordFromAddDeviceAck :: "'v rapidjson \<Rightarrow> int \<Rightarrow> 'v \<Rightarrow> DeviceRecord" where
  "deviceRecordFromAddDeviceAck J nowMs doc =
     (let slot = getJsonInt J doc ''slot'' (getJsonInt J doc ''master_slot'' 0);
          target = object_or J doc ''target'';
          gatewayId = nonempty_or (getJsonString J target ''gatewayId'') (getJsonStringAny J doc [''gatewayId'', ''gateway_id'']);
          portId = nonempty_or (nonempty_or (getJsonString J target ''portId'')
            (getJsonStringAny J doc [''portId'', ''port_id''])) (portIdFromSlot slot);
          deviceId = getJsonIntAny J doc [''deviceId'', ''slave_id'', ''slaveAddress'', ''device_id'', ''slave_addr''] 0;
          kind = getJsonStringAny J doc [''deviceType'', ''device_type'']
      in DeviceRecord_default
        \<lparr>dr_factoryId := nonempty_or (getJsonStringAny J doc [''factoryId'', ''factory_id'']) ''factory_001'',
         dr_factoryName := nonempty_or (getJsonStringAny J doc [''factoryName'', ''factory_name'']) text_factory,
         dr_areaId := nonempty_or (getJsonStringAny J doc [''areaId'', ''area_id'']) ''area_001'',
         dr_areaName := nonempty_or (getJsonStringAny J doc [''areaName'', ''area_name'']) text_area,
         dr_gatewayId := gatewayId,
         dr_gatewayName := nonempty_or (getJsonStringAny J doc [''gatewayName'', ''gateway_name'']) ''IMX6ULL Gateway'',
         dr_portId := portId, dr_portName := portNameFromSlot slot, dr_deviceId := deviceId,
         dr_deviceName := ''Device '' @ to_string deviceId, dr_deviceType := kind,
         dr_pollIntervalMs := getJsonInt J doc ''pollIntervalMs'' (getJsonInt J doc ''poll_interval_ms'' 1000),
         dr_expectTelemetry := (kind \<noteq> ''relay''), dr_enabled := True, dr_status := ''online'',
         dr_lastSeenMs := nowMs, dr_createTimeMs := nowMs, dr_updateTimeMs := nowMs\<rparr>)"

definition pendingDeviceRecordFromTarget :: "int \<Rightarrow> PendingCommandTarget \<Rightarrow> DeviceRecord" where
  "pendingDeviceRecordFromTarget nowMs target = DeviceRecord_default
     \<lparr>dr_factoryId := ''factory_001'', dr_factoryName := text_factory, dr_areaId := ''area_001'',
      dr_areaName := text_area, dr_gatewayId := ct_gatewayId target, dr_gatewayName := ''IMX6ULL Gateway'',
      dr_portId := ct_portId target, dr_portName := ct_portId target, dr_deviceId := ct_deviceId target,
      dr_deviceName := ''Device '' @ to_string (ct_deviceId target), dr_deviceType := ''pending'',
      dr_status := ''unknown'', dr_lifecycleStatus := ''active'', dr_createTimeMs := nowMs,
      dr_updateTimeMs := nowMs\<rparr>"

subsection \<open>Point keys\<close>

definition isRelayPointKey :: "string \<Rightarrow> bool" where
  "isRelayPointKey pointKey \<longleftrightarrow> starts_with ''relay_'' pointKey
     \<and> (case stoi (drop 6 pointKey) of None \<Rightarrow> False | Some channel \<Rightarrow> channel \<ge> 1 \<and> channel \<le> 16)"

definition isDefaultTelemetryPointKey :: "string \<Rightarrow> string \<Rightarrow> bool" where
  "isDefaultTelemetryPointKey deviceType pointKey \<longleftrightarrow>
     (if deviceType = ''sensor_th'' then pointKey = ''temperature'' \<or> pointKey = ''humidity''
      else if deviceType = ''relay'' then pointKey = ''state'' \<or> pointKey = ''ch1'' \<or> isRelayPointKey pointKey
      else if deviceType = ''electric_meter'' \<or> deviceType = ''meter''
      then pointKey = ''voltage'' \<or> pointKey = ''current'' \<or> pointKey = ''power'' \<or> pointKey = ''energy''
      else False)"

definition deviceTypesMatch :: "string \<Rightarrow> string \<Rightarrow> bool" where
  "deviceTypesMatch registeredType telemetryType \<longleftrightarrow>
     registeredType = [] \<or> telemetryType = [] \<or> telemetryType = ''unknown'' \<or> registeredType = telemetryType
     \<or> registeredType = ''meter'' \<and> telemetryType = ''electric_meter''
     \<or> registeredType = ''electric_meter'' \<and> telemetryType = ''meter''"

definition normalizeTelemetryPointKey :: "string \<Rightarrow> string" where
  "normalizeTelemetryPointKey pointKey =
     (if starts_with ''relay.ch'' pointKey then ''relay_'' @ drop 8 pointKey
      else if starts_with ''relay_'' pointKey then pointKey
      else if starts_with ''ch'' pointKey then ''relay_'' @ drop 2 pointKey
      else if pointKey = ''relay'' \<or> pointKey = ''state'' then ''relay_1''
      else pointKey)"

definition mh_deviceKey :: "string \<Rightarrow> int \<Rightarrow> string" where
  "mh_deviceKey portId deviceId = portId @ ''/'' @ to_string deviceId"

definition buildSnapshotPointId :: "DeviceRecord \<Rightarrow> string \<Rightarrow> string" where
  "buildSnapshotPointId device pointKey = buildPointId (dr_factoryId device) (dr_areaId device)
     (dr_gatewayId device) (dr_portId device) (dr_deviceId device) pointKey"

subsection \<open>Topics\<close>

definition defaultUpTopic :: "string \<Rightarrow> string" where
  "defaultUpTopic gatewayId = (if gatewayId = [] then [] else ''gateway/'' @ gatewayId @ ''/up'')"

definition defaultCmdTopic :: "string \<Rightarrow> string" where
  "defaultCmdTopic gatewayId = (if gatewayId = [] then [] else ''cmd/'' @ gatewayId)"

definition makePortCommandTopic :: "string \<Rightarrow> string \<Rightarrow> string" where
  "makePortCommandTopic gatewayId portId =
     (if gatewayId = [] \<or> portId = [] then [] else ''cmd/'' @ gatewayId @ ''/'' @ portId)"

text \<open>What stands between \<open>gateway/\<close> and \<open>/up\<close>.\<close>

definition up_topic_body :: "string \<Rightarrow> string option" where
  "up_topic_body topic =
     (if \<not> starts_with ''gateway/'' topic \<or> length topic \<le> 8 + 3 \<or> drop (length topic - 3) topic \<noteq> ''/up'' then None
      else Some (take (length topic - 8 - 3) (drop 8 topic)))"

definition parsePortUpTopic :: "string \<Rightarrow> (string \<times> string) option" where
  "parsePortUpTopic topic =
     (case up_topic_body topic of None \<Rightarrow> None
      | Some body \<Rightarrow>
        let gatewayId = takeWhile (\<lambda>c. c \<noteq> CHR ''/'') body; rest = dropWhile (\<lambda>c. c \<noteq> CHR ''/'') body
        in if rest = [] \<or> gatewayId = [] \<or> tl rest = [] \<or> CHR ''/'' \<in> set (tl rest) then None
           else Some (gatewayId, tl rest))"

definition isValidPublishTopic :: "string \<Rightarrow> bool" where
  "isValidPublishTopic topic \<longleftrightarrow> topic \<noteq> [] \<and> CHR ''#'' \<notin> set topic \<and> CHR ''+'' \<notin> set topic"

definition isValidRegisterTopic :: "string \<Rightarrow> bool" where
  "isValidRegisterTopic topic \<longleftrightarrow> topic = ''gateway/register''"

text \<open>The parsed gateway id is an output of the source also when the answer is no.\<close>

definition gatewayUpTopicId :: "string \<Rightarrow> string" where
  "gatewayUpTopicId topic = (case up_topic_body topic of None \<Rightarrow> [] | Some body \<Rightarrow> body)"

definition isValidGatewayUpTopic :: "string \<Rightarrow> string \<Rightarrow> bool" where
  "isValidGatewayUpTopic topic gatewayId \<longleftrightarrow>
     (case up_topic_body topic of None \<Rightarrow> False
      | Some body \<Rightarrow> body \<noteq> [] \<and> CHR ''/'' \<notin> set body \<and> body = gatewayId)"

subsection \<open>Members under several names\<close>

definition getJsonStringCompat :: "'v rapidjson \<Rightarrow> 'v \<Rightarrow> string \<Rightarrow> string \<Rightarrow> string" where
  "getJsonStringCompat J obj snakeKey camelKey = camel_or_snake J obj snakeKey camelKey"

definition getJsonDoubleCompat :: "'v rapidjson \<Rightarrow> 'v \<Rightarrow> string \<Rightarrow> fval \<Rightarrow> fval" where
  "getJsonDoubleCompat J obj key defaultValue =
     (case obj_member J obj key of None \<Rightarrow> defaultValue
      | Some v \<Rightarrow> if rj_is_number J v then rj_get_double J v
                  else if rj_is_string J v
                  then (case std_stod J (c_str (rj_get_string J v)) of None \<Rightarrow> defaultValue | Some x \<Rightarrow> x)
                  else defaultValue)"

definition site_text :: "'v rapidjson \<Rightarrow> 'v \<Rightarrow> string list \<Rightarrow> string" where
  "site_text J doc keys =
     (let s = getJsonStringAny J doc keys in
      if s \<noteq> [] then s
      else case obj_member J doc ''site'' of None \<Rightarrow> []
           | Some site \<Rightarrow> if rj_is_object J site then getJsonStringAny J site keys else [])"

definition extractGatewayIdCompat :: "'v rapidjson \<Rightarrow> 'v \<Rightarrow> string" where
  "extractGatewayIdCompat J doc = site_text J doc [''gatewayId'', ''gateway_id'']"

definition extractPortIdCompat :: "'v rapidjson \<Rightarrow> 'v \<Rightarrow> string" where
  "extractPortIdCompat J doc = site_text J doc [''portId'', ''port_id'']"

subsection \<open>Port states and registrations\<close>

definition port_state :: "'v rapidjson \<Rightarrow> 'v \<Rightarrow> string" where
  "port_state J v =
     (if rj_member J v ''connected'' \<noteq> None
      then if getJsonBool J v ''connected'' False then ''connected'' else ''disconnected''
      else nonempty_or (getJsonString J v ''status'') ''connected'')"

text \<open>The port as far as it is read, and the reason and message of a failure.\<close>

definition parsePortStatusDetails :: "'v rapidjson \<Rightarrow> int \<Rightarrow> 'v \<Rightarrow> GatewayPort \<times> (string \<times> string) option" where
  "parsePortStatusDetails J nowMs doc =
     (let port = \<lparr>gp_gatewayId = extractGatewayIdCompat J doc, gp_portId = extractPortIdCompat J doc,
            gp_portName = getJsonStringAny J doc [''portName'', ''port_name''],
            gp_slot = getJsonInt J doc ''slot'' (getJsonInt J doc ''master_slot'' 0),
            gp_devicePath = getJsonStringAny J doc [''devicePath'', ''device_path'', ''port'', ''path''],
            gp_baud = getJsonInt J doc ''baud'' 0, gp_status = port_state J doc,
            gp_lastRegisterTimeMs = nowMs, gp_updateTimeMs = nowMs\<rparr>
      in (port, if gp_gatewayId port = [] then Some (''missing_field'', ''port_status missing gatewayId'')
                else if gp_portId port = [] then Some (''missing_field'', ''port_status missing portId'')
                else None))"

definition register_port :: "'v rapidjson \<Rightarrow> int \<Rightarrow> string \<Rightarrow> 'v \<Rightarrow> GatewayPort" where
  "register_port J nowMs gatewayId v =
    \<lparr>gp_gatewayId = gatewayId, gp_portId = getJsonString J v ''portId'', gp_portName = getJsonString J v ''portName'',
     gp_slot = getJsonInt J v ''slot'' 0,
     gp_devicePath = nonempty_or (nonempty_or (getJsonString J v ''port'') (getJsonString J v ''devicePath''))
       (getJsonString J v ''path''),
     gp_baud = getJsonInt J v ''baud'' 0, gp_status = port_state J v, gp_lastRegisterTimeMs = nowMs,
     gp_updateTimeMs = nowMs\<rparr>"

definition array_objects :: "'v rapidjson \<Rightarrow> 'v \<Rightarrow> string \<Rightarrow> 'v list" where
  "array_objects J doc key =
     (case rj_member J doc key of None \<Rightarrow> []
      | Some v \<Rightarrow> if rj_is_array J v then filter (rj_is_object J) (rj_elements J v) else [])"

definition parseGatewayRegisterDetails ::
    "'v rapidjson \<Rightarrow> int \<Rightarrow> string \<Rightarrow> (GatewayStatus \<times> GatewayRegistry \<times> GatewayPort list) option" where
  "parseGatewayRegisterDetails J nowMs payload =
     (case typed_object J ''gateway_register'' payload of None \<Rightarrow> None
      | Some doc \<Rightarrow>
        let site = object_or J doc ''site'';
            gatewayId = nonempty_or (getJsonStringAny J doc [''gatewayId'', ''gateway_id'']) (getJsonString J site ''gatewayId'');
            gatewayName = nonempty_or (getJsonStringAny J doc [''gatewayName'', ''gateway_name'']) (getJsonString J site ''gatewayName'');
            factoryId = nonempty_or (getJsonStringAny J doc [''factoryId'', ''factory_id'']) (getJsonString J site ''factoryId'');
            areaId = nonempty_or (getJsonStringAny J doc [''areaId'', ''area_id'']) (getJsonString J site ''areaId'');
            status = nonempty_or (getJsonString J doc ''status'') ''online'';
            gateway = \<lparr>gs_gatewayId = gatewayId, gs_gatewayName = gatewayName, gs_factoryId = factoryId,
              gs_areaId = areaId, gs_status = status, gs_lastRegisterTimeMs = nowMs,
              gs_lastHeartbeatTimeMs = nowMs, gs_updateTimeMs = nowMs\<rparr>;
            cmdTopic = getJsonString J doc ''cmdTopic'';
            registry = \<lparr>gr_gatewayId = gatewayId, gr_gatewayName = gatewayName, gr_status = status,
              gr_upTopic = nonempty_or (getJsonString J doc ''upTopic'') (defaultUpTopic gatewayId),
              gr_cmdTopic = (if isValidPublishTopic cmdTopic then cmdTopic else defaultCmdTopic gatewayId),
              gr_broadcastTopic = getJsonString J doc ''broadcastTopic'', gr_lastRegisterTimeMs = nowMs,
              gr_lastHeartbeatTimeMs = nowMs, gr_updateTimeMs = nowMs\<rparr>;
            ports = map (register_port J nowMs gatewayId) (array_objects J doc ''ports'')
        in if gatewayId = [] then None
           else Some (gateway, registry, filter (\<lambda>p. gp_portId p \<noteq> []) ports))"

subsection \<open>Alarms\<close>

definition buildStableAlarmId :: "AlarmEvent \<Rightarrow> string" where
  "buildStableAlarmId e = nonempty_or (ae_gatewayId e) ''unknown_gateway'' @ ''.''
     @ nonempty_or (ae_portId e) ''unknown_port'' @ ''.'' @ to_string (ae_deviceId e) @ ''.''
     @ nonempty_or (ae_pointKey e) ''unknown'' @ ''.'' @ nonempty_or (ae_alarmType e) ''emergency''"

definition alarm_state :: "'v rapidjson \<Rightarrow> 'v \<Rightarrow> string" where
  "alarm_state J doc =
     (let s = nonempty_or (getJsonString J doc ''state'') (getJsonString J doc ''status'')
      in nonempty_or (if s = ''acknowledged'' then ''acked'' else s) ''active'')"

text \<open>The event is complete whatever its gateway id; the source's answer is whether that is there.\<close>

definition fillAlarmEventFromObject :: "'v rapidjson \<Rightarrow> int \<Rightarrow> 'v \<Rightarrow> AlarmEvent" where
  "fillAlarmEventFromObject J now doc =
     (let pointKey = nonempty_or (getJsonStringCompat J doc ''point_key'' ''pointKey'') ''unknown'';
          pointName = getJsonStringCompat J doc ''point_name'' ''pointName'';
          e = AlarmEvent_default
           \<lparr>ae_timestampMs := getJsonInt64 J doc ''timestampMs'' (getJsonInt64 J doc ''timestamp'' now),
            ae_factoryId := getJsonStringCompat J doc ''factory_id'' ''factoryId'',
            ae_factoryName := getJsonStringCompat J doc ''factory_name'' ''factoryName'',
            ae_areaId := getJsonStringCompat J doc ''area_id'' ''areaId'',
            ae_areaName := getJsonStringCompat J doc ''area_name'' ''areaName'',
            ae_gatewayId := getJsonStringCompat J doc ''gateway_id'' ''gatewayId'',
            ae_gatewayName := getJsonStringCompat J doc ''gateway_name'' ''gatewayName'',
            ae_portId := getJsonStringCompat J doc ''port_id'' ''portId'',
            ae_portName := getJsonStringCompat J doc ''port_name'' ''portName'',
            ae_deviceId := getJsonInt J doc ''deviceId'' (getJsonInt J doc ''device_id'' (getJsonInt J doc ''slave_id''
              (getJsonInt J doc ''slaveAddr'' (getJsonInt J doc ''slaveAddress'' 0)))),
            ae_deviceName := getJsonStringCompat J doc ''device_name'' ''deviceName'',
            ae_deviceType := getJsonStringCompat J doc ''device_type'' ''deviceType'',
            ae_pointKey := pointKey,
            ae_pointName := (if pointName = [] \<and> pointKey = ''temperature'' then text_temperature
                             else if pointName = [] \<and> pointKey = ''humidity'' then text_humidity else pointName),
            ae_alarmType := nonempty_or (getJsonStringCompat J doc ''alarm_type'' ''alarmType'') ''emergency'',
            ae_level := nonempty_or (nonempty_or (getJsonString J doc ''level'') (getJsonString J doc ''alarm_level'')) ''warning'',
            ae_state := alarm_state J doc,
            ae_value := getJsonDoubleCompat J doc ''value'' (getJsonDoubleCompat J doc ''trigger_value'' (Fin 0)),
            ae_threshold := getJsonDoubleCompat J doc ''threshold'' (getJsonDoubleCompat J doc ''threshold_value'' (Fin 0)),
            ae_message := nonempty_or (nonempty_or (getJsonString J doc ''message'') (getJsonString J doc ''alarm_message''))
              ''emergency alarm''\<rparr>;
          alarmId = nonempty_or (getJsonString J doc ''alarm_id'') (getJsonString J doc ''alarmId'')
      in e\<lparr>ae_alarmId := nonempty_or alarmId (buildStableAlarmId e)\<rparr>)"

text \<open>The old \<open>emergency\<close> command: which limit was exceeded.\<close>

definition emergency_point :: "'v rapidjson \<Rightarrow> 'v \<Rightarrow> AlarmEvent \<Rightarrow> AlarmEvent" where
  "emergency_point J doc e =
     (let temp = getJsonDoubleCompat J doc ''temperature'' (Fin 0);
          tempHigh = getJsonDoubleCompat J doc ''temp_high'' (getJsonDoubleCompat J doc ''temperatureHigh'' (Fin 0));
          humi = getJsonDoubleCompat J doc ''humidity'' (Fin 0);
          humiHigh = getJsonDoubleCompat J doc ''humi_high'' (getJsonDoubleCompat J doc ''humidityHigh'' (Fin 0))
      in if ae_pointKey e = ''unknown'' \<and> f_less (Fin 0) tempHigh \<and> f_less tempHigh temp
         then e\<lparr>ae_pointKey := ''temperature'', ae_alarmType := ''threshold_high'', ae_value := temp,
                ae_threshold := tempHigh,
                ae_message := (if ae_message e = ''emergency alarm'' then ''temperature high'' else ae_message e)\<rparr>
         else if ae_pointKey e = ''unknown'' \<and> f_less (Fin 0) humiHigh \<and> f_less humiHigh humi
         then e\<lparr>ae_pointKey := ''humidity'', ae_alarmType := ''threshold_high'', ae_value := humi,
                ae_threshold := humiHigh,
                ae_message := (if ae_message e = ''emergency alarm'' then ''humidity high'' else ae_message e)\<rparr>
         else e)"

definition parseAlarmEventPayload :: "'v rapidjson \<Rightarrow> int \<Rightarrow> string \<Rightarrow> AlarmEvent option" where
  "parseAlarmEventPayload J now payload =
     (case parse_object J payload of None \<Rightarrow> None
      | Some doc \<Rightarrow>
        let type = getJsonString J doc ''type''; e = fillAlarmEventFromObject J now doc
        in if type = ''alarm_event'' then if ae_gatewayId e = [] then None else Some e
           else if type \<noteq> ''command'' \<or> getJsonString J doc ''cmd'' \<noteq> ''emergency'' then None
           else let e = emergency_point J doc e; e = e\<lparr>ae_alarmId := buildStableAlarmId e\<rparr>
                in if ae_gatewayId e = [] then None else Some e)"

definition buildAlarmEventJson :: "AlarmEvent \<Rightarrow> string" where
  "buildAlarmEventJson e = jobj [jtext ''type'' ''alarm_event'', jtext ''alarm_id'' (ae_alarmId e),
     jtext ''alarmId'' (ae_alarmId e), jint ''timestampMs'' (ae_timestampMs e),
     jtext ''gatewayId'' (ae_gatewayId e), jtext ''gateway_id'' (ae_gatewayId e), jtext ''portId'' (ae_portId e),
     jtext ''port_id'' (ae_portId e), jint ''deviceId'' (ae_deviceId e), jint ''device_id'' (ae_deviceId e),
     jtext ''deviceType'' (ae_deviceType e), jtext ''device_type'' (ae_deviceType e),
     jtext ''pointKey'' (ae_pointKey e), jtext ''point_key'' (ae_pointKey e),
     jtext ''alarmType'' (ae_alarmType e), jtext ''alarm_type'' (ae_alarmType e), jtext ''level'' (ae_level e),
     jreal ''value'' (ae_value e), jreal ''threshold'' (ae_threshold e), jtext ''state'' (ae_state e),
     jtext ''status'' (ae_state e), jtext ''message'' (ae_message e)]"

subsection \<open>Configuration snapshots\<close>

definition getOptionalSnapshotDouble :: "'v rapidjson \<Rightarrow> 'v \<Rightarrow> string \<Rightarrow> string \<Rightarrow> fval option" where
  "getOptionalSnapshotDouble J obj snakeKey camelKey =
     (let candidate = (case obj_member J obj snakeKey of None \<Rightarrow> obj_member J obj camelKey | Some v \<Rightarrow> Some v)
      in case candidate of None \<Rightarrow> None
         | Some v \<Rightarrow> if rj_is_null J v \<or> \<not> rj_is_number J v then None else Some (rj_get_double J v))"

text \<open>The configuration appended for one threshold object, if any.\<close>

definition thresholdPointConfig ::
    "'v rapidjson \<Rightarrow> 'v \<Rightarrow> DeviceRecord \<Rightarrow> string \<Rightarrow> string \<Rightarrow> string \<Rightarrow> int \<Rightarrow> PointConfig list" where
  "thresholdPointConfig J threshold device pointKey pointName unit timestampMs =
     (if \<not> rj_is_object J threshold then []
      else if dr_factoryId device = [] \<or> dr_areaId device = [] \<or> dr_gatewayId device = [] \<or> dr_portId device = []
              \<or> dr_deviceId device \<le> 0 \<or> pointKey = [] then []
      else let low = getOptionalSnapshotDouble J threshold ''alarm_low'' ''alarmLow'';
               high = getOptionalSnapshotDouble J threshold ''alarm_high'' ''alarmHigh''
           in [PointConfig_default
             \<lparr>pc_timestampMs := timestampMs, pc_factoryId := dr_factoryId device, pc_areaId := dr_areaId device,
              pc_gatewayId := dr_gatewayId device, pc_gatewayName := dr_gatewayName device,
              pc_portId := dr_portId device, pc_portName := dr_portName device, pc_deviceId := dr_deviceId device,
              pc_deviceName := dr_deviceName device, pc_deviceType := dr_deviceType device,
              pc_pointKey := pointKey, pc_pointName := pointName, pc_unit := unit, pc_valueType := ''number'',
              pc_enableAlarm := getJsonBool J threshold ''enable_alarm'' (getJsonBool J threshold ''enableAlarm'' False),
              pc_hasAlarmLow := (low \<noteq> None), pc_alarmLow := (case low of None \<Rightarrow> Fin 0 | Some x \<Rightarrow> x),
              pc_hasAlarmHigh := (high \<noteq> None), pc_alarmHigh := (case high of None \<Rightarrow> Fin 0 | Some x \<Rightarrow> x),
              pc_enabled := True, pc_pointId := buildSnapshotPointId device pointKey\<rparr>])"

definition snapshot_thresholds :: "'v rapidjson \<Rightarrow> int \<Rightarrow> 'v \<Rightarrow> DeviceRecord \<Rightarrow> PointConfig list" where
  "snapshot_thresholds J timestampMs v device =
     (if dr_deviceType device \<noteq> ''sensor_th'' then []
      else case (case member_object J v ''threshold_config'' of None \<Rightarrow> member_object J v ''thresholdConfig''
                 | Some c \<Rightarrow> Some c) of None \<Rightarrow> []
      | Some thresholdConfig \<Rightarrow>
        (case member_object J thresholdConfig ''thresholds'' of None \<Rightarrow> []
         | Some thresholds \<Rightarrow>
           (case rj_member J thresholds ''temperature'' of None \<Rightarrow> []
            | Some t \<Rightarrow> thresholdPointConfig J t device ''temperature'' ''temperature'' ''c'' timestampMs)
         @ (case rj_member J thresholds ''humidity'' of None \<Rightarrow> []
            | Some t \<Rightarrow> thresholdPointConfig J t device ''humidity'' ''humidity'' ''%'' timestampMs)))"

definition pack_snapshot_device :: "'v rapidjson \<Rightarrow> int \<Rightarrow> DeviceRecord \<Rightarrow> GatewayPort \<Rightarrow> 'v \<Rightarrow> ConfigSnapshotDevice" where
  "pack_snapshot_device J receiveTimeMs site port v =
     (let deviceId = getJsonIntAny J v [''deviceId'', ''slave_id'', ''slaveAddress''] 0;
          kind = getJsonStringAny J v [''deviceType'', ''device_type''];
          up = (gp_status port = ''connected'')
      in \<lparr>csd_device = site
           \<lparr>dr_portId := gp_portId port, dr_portName := gp_portName port, dr_deviceId := deviceId,
            dr_deviceType := kind, dr_pollIntervalMs := getJsonInt J v ''pollIntervalMs'' 1000,
            dr_expectTelemetry := (kind \<noteq> ''relay''), dr_enabled := True,
            dr_status := (if up then ''online'' else ''unknown''), dr_lastSeenMs := (if up then receiveTimeMs else 0),
            dr_createTimeMs := receiveTimeMs, dr_updateTimeMs := receiveTimeMs,
            dr_deviceName := ''Device '' @ to_string deviceId\<rparr>,
          csd_thresholdConfigJson = [],
          csd_thresholdEnabled = getJsonBoolAny J v [''threshold_enabled'', ''thresholdEnabled''] False\<rparr>)"

definition pack_snapshot_port :: "'v rapidjson \<Rightarrow> int \<Rightarrow> string \<Rightarrow> 'v \<Rightarrow> GatewayPort" where
  "pack_snapshot_port J receiveTimeMs gatewayId v =
    \<lparr>gp_gatewayId = gatewayId, gp_portId = getJsonString J v ''portId'', gp_portName = getJsonString J v ''portName'',
     gp_slot = getJsonInt J v ''slot'' 0, gp_devicePath = getJsonString J v ''port'',
     gp_baud = getJsonInt J v ''baud'' 0,
     gp_status = (if getJsonBool J v ''connected'' False then ''connected'' else ''disconnected''),
     gp_lastRegisterTimeMs = receiveTimeMs, gp_updateTimeMs = receiveTimeMs\<rparr>"

text \<open>Of the devices of a port only the selected ones are taken, when any are selected.\<close>

definition snapshot_selected :: "SyncGatewayPending \<Rightarrow> string \<Rightarrow> int \<Rightarrow> bool" where
  "snapshot_selected pending portId deviceId \<longleftrightarrow>
     sp_devices pending = [] \<or> (\<exists>d \<in> set (sp_devices pending). sd_portId d = portId \<and> sd_deviceId d = deviceId)"

definition port_devices :: "'v rapidjson \<Rightarrow> int \<Rightarrow> int \<Rightarrow> DeviceRecord \<Rightarrow> SyncGatewayPending \<Rightarrow> GatewayPort \<Rightarrow> 'v
    \<Rightarrow> (ConfigSnapshotDevice \<times> PointConfig list) list" where
  "port_devices J receiveTimeMs timestampMs site pending port v =
     map (\<lambda>dv. let d = pack_snapshot_device J receiveTimeMs site port dv
               in (d, snapshot_thresholds J timestampMs dv (csd_device d)))
       (filter (\<lambda>dv. snapshot_selected pending (gp_portId port)
                  (getJsonIntAny J dv [''deviceId'', ''slave_id'', ''slaveAddress''] 0))
         (array_objects J v ''devices''))"

record config_snapshot =
  cf_ports :: "GatewayPort list"
  cf_devices :: "ConfigSnapshotDevice list"
  cf_pointConfigs :: "PointConfig list"

definition is_snapshot :: "string \<Rightarrow> bool" where
  "is_snapshot type \<longleftrightarrow> type = ''config_snapshot'' \<or> type = ''device_config_snapshot''"

definition parseConfigSnapshot ::
    "'v rapidjson \<Rightarrow> int \<Rightarrow> string \<Rightarrow> SyncGatewayPending \<Rightarrow> config_snapshot option" where
  "parseConfigSnapshot J now payload pending =
     (case parse_object J payload of None \<Rightarrow> None
      | Some doc \<Rightarrow>
        if \<not> is_snapshot (getJsonString J doc ''type'') then None
        else let site = object_or J doc ''site'';
                 gatewayId = nonempty_or (getJsonString J doc ''gatewayId'') (getJsonString J site ''gatewayId'');
                 factoryId = getJsonString J site ''factoryId''; areaId = getJsonString J site ''areaId'';
                 base = DeviceRecord_default
                  \<lparr>dr_factoryId := factoryId, dr_factoryName := getJsonString J site ''factoryName'',
                   dr_areaId := areaId, dr_areaName := getJsonString J site ''areaName'',
                   dr_gatewayId := gatewayId, dr_gatewayName := getJsonString J site ''gatewayName''\<rparr>
             in if gatewayId \<noteq> sp_gatewayId pending \<or> factoryId = [] \<or> areaId = [] then None
                else case rj_member J doc ''ports'' of None \<Rightarrow> None
                     | Some ports \<Rightarrow>
                       if \<not> rj_is_array J ports then None
                       else let timestampMs = getJsonInt64 J doc ''timestampMs'' now;
                                read = map (\<lambda>v. (pack_snapshot_port J now gatewayId v, v))
                                  (filter (rj_is_object J) (rj_elements J ports));
                                devices = concat (map (\<lambda>(port, v). port_devices J now timestampMs base pending port v) read)
                            in Some \<lparr>cf_ports = filter (\<lambda>p. gp_portId p \<noteq> []) (map fst read),
                                     cf_devices = map fst devices, cf_pointConfigs = concat (map snd devices)\<rparr>)"

subsection \<open>Messages to a gateway\<close>

definition buildRequestConfigSnapshotJson :: "int \<Rightarrow> string \<Rightarrow> string" where
  "buildRequestConfigSnapshotJson now gatewayId =
     jobj [jtext ''type'' ''command'', jtext ''cmd'' ''request_config_snapshot'', jint ''seq'' now,
       jtext ''cmdType'' ''request_config_snapshot'', jtext ''gatewayId'' gatewayId, jint ''timestampMs'' now,
       jraw ''target'' (jobj [jtext ''gatewayId'' gatewayId]), jraw ''payload'' (jobj [jtext ''gatewayId'' gatewayId])]"

definition buildRegisterAckJson :: "int \<Rightarrow> string \<Rightarrow> int \<Rightarrow> bool \<Rightarrow> string \<Rightarrow> string \<Rightarrow> string \<Rightarrow> int \<Rightarrow> string
    \<Rightarrow> string \<Rightarrow> bool \<Rightarrow> int \<Rightarrow> int \<Rightarrow> int \<Rightarrow> string" where
  "buildRegisterAckJson now cmd seq ok status gatewayId portId configVersion reason message retryable
       registeredDeviceCount registeredPointCount deviceId =
     jobj ([jtext ''type'' ''ack'', jtext ''cmd'' cmd, jint ''seq'' seq, jbool ''ok'' ok,
         jtext ''status'' (if ok \<and> status = [] then ''success'' else status), jtext ''gatewayId'' gatewayId]
       @ opt (portId \<noteq> []) (jtext ''portId'' portId) @ opt (deviceId > 0) (jint ''deviceId'' deviceId)
       @ opt (configVersion > 0) (jint ''configVersion'' configVersion)
       @ [jtext ''reason'' (if ok then ''saved'' else reason), jtext ''commandType'' cmd, jtext ''cmdType'' cmd,
          jtext ''message'' (if ok then ''regsit save ok'' else message), jbool ''retryable'' retryable]
       @ opt (registeredDeviceCount \<ge> 0) (jint ''registeredDeviceCount'' registeredDeviceCount)
       @ opt (registeredPointCount \<ge> 0) (jint ''registeredPointCount'' registeredPointCount)
       @ [jint ''timestampMs'' now])"

text \<open>The last stage of a command that succeeded.\<close>

definition isFinalBusinessSuccess :: "'v rapidjson \<Rightarrow> 'v \<Rightarrow> bool" where
  "isFinalBusinessSuccess J doc \<longleftrightarrow> getJsonString J doc ''stage'' = ''done'' \<and> getJsonBool J doc ''ok'' False
     \<and> getJsonString J doc ''status'' = ''success''"

lemma buildAlarmEventJson_one_line: "one_line (buildAlarmEventJson e)"
  by (simp add: buildAlarmEventJson_def)

end
