(* ===== verification/PcHandler.thy ===== *)
theory PcHandler
  imports PcWorld PcIntake TelemetryParser PointConfigParser
begin

text \<open>
  \<open>MqttMessageHandler::handle\<close> (Pc_data/mqtt/MqttMessageHandler.cpp), one definition per kind of
  message.  A run of the handler is one step on the state of Pc_data, with one clock reading
  \<open>now\<close>; what it prints is left out.
\<close>

subsection \<open>Guards and sequences\<close>

text \<open>\<open>m_database.isOpen() && op\<close>; \<open>if (m_database.isOpen()) op;\<close>; \<open>if (m_ipc.hasClient()) ...\<close>.\<close>

definition db_try :: "(PcDatabase \<Rightarrow> bool \<times> PcDatabase) \<Rightarrow> PcData \<Rightarrow> bool \<times> PcData" where
  "db_try op W = (if db_isOpen W then in_db op W else (False, W))"

definition db_note :: "(PcDatabase \<Rightarrow> bool \<times> PcDatabase) \<Rightarrow> PcData \<Rightarrow> PcData" where
  "db_note op W = snd (db_try op W)"

definition when_client :: "(PcData \<Rightarrow> PcData) \<Rightarrow> PcData \<Rightarrow> PcData" where
  "when_client f W = (if ui_hasClient W then f W else W)"

definition in_order :: "(PcData \<Rightarrow> PcData) list \<Rightarrow> PcData \<Rightarrow> PcData" where
  "in_order fs W = foldl (\<lambda>W f. f W) W fs"

subsection \<open>Messages to a gateway\<close>

definition publishConfigSnapshotRequest :: "'v pc_env \<Rightarrow> int \<Rightarrow> string \<Rightarrow> PcData \<Rightarrow> bool \<times> PcData" where
  "publishConfigSnapshotRequest E now gatewayId W =
     (let topic = defaultCmdTopic gatewayId
      in if gatewayId = [] \<or> \<not> isValidPublishTopic topic then (False, W)
         else broker_send E topic (buildRequestConfigSnapshotJson now gatewayId) W)"

definition publishRegisterAck :: "'v pc_env \<Rightarrow> int \<Rightarrow> string \<Rightarrow> int \<Rightarrow> bool \<Rightarrow> string \<Rightarrow> string \<Rightarrow> int \<Rightarrow> string
    \<Rightarrow> string \<Rightarrow> bool \<Rightarrow> int \<Rightarrow> int \<Rightarrow> int \<Rightarrow> PcData \<Rightarrow> bool \<times> PcData" where
  "publishRegisterAck E now cmd seq ok gatewayId portId configVersion reason message retryable
       registeredDeviceCount registeredPointCount deviceId W =
     (let topic = (if portId = [] then defaultCmdTopic gatewayId else makePortCommandTopic gatewayId portId)
      in if gatewayId = [] \<or> \<not> isValidPublishTopic topic then (False, W)
         else broker_send E topic
           (buildRegisterAckJson now cmd seq ok (if ok then ''success'' else ''failed'') gatewayId portId
              configVersion (if ok then ''saved'' else reason) (if ok then ''regsit save ok'' else message)
              (if ok then False else retryable) registeredDeviceCount registeredPointCount deviceId) W)"

text \<open>The call without its three optional counts.\<close>

definition register_ack :: "'v pc_env \<Rightarrow> int \<Rightarrow> string \<Rightarrow> int \<Rightarrow> bool \<Rightarrow> string \<Rightarrow> string \<Rightarrow> int \<Rightarrow> string \<Rightarrow> string
    \<Rightarrow> bool \<Rightarrow> PcData \<Rightarrow> PcData" where
  "register_ack E now cmd seq ok gatewayId portId configVersion reason message retryable W =
     snd (publishRegisterAck E now cmd seq ok gatewayId portId configVersion reason message retryable (-1) (-1) (-1) W)"

definition sendDevicesSnapshotWithPendingDevice ::
    "'v pc_env \<Rightarrow> int \<Rightarrow> PendingCommandTarget \<Rightarrow> PcData \<Rightarrow> PcData" where
  "sendDevicesSnapshotWithPendingDevice E now target W =
     (let (devices, W) = (if db_isOpen W then in_db (queryDevices (pe_db E)) W else ([], W));
          found = list_ex (\<lambda>d. dr_gatewayId d = ct_gatewayId target \<and> dr_portId d = ct_portId target
                    \<and> dr_deviceId d = ct_deviceId target) devices
      in ui_tell E (buildDevicesSnapshotJson
           (devices @ (if \<not> found \<and> ct_deviceId target > 0 then [pendingDeviceRecordFromTarget now target] else []))) W)"

subsection \<open>Members of a payload that may not parse\<close>

definition payload_seq :: "'v rapidjson \<Rightarrow> string \<Rightarrow> int" where
  "payload_seq J payload =
     (case parse_object J payload of None \<Rightarrow> 0 | Some doc \<Rightarrow> getJsonInt64Any J doc [''seq'', ''sequence''] 0)"

definition payload_version :: "'v rapidjson \<Rightarrow> string \<Rightarrow> int" where
  "payload_version J payload =
     (case parse_object J payload of None \<Rightarrow> 0
      | Some doc \<Rightarrow> getJsonInt64Any J doc [''configVersion'', ''config_version''] 0)"

definition payload_gateway :: "'v rapidjson \<Rightarrow> string \<Rightarrow> string" where
  "payload_gateway J payload =
     (case parse_object J payload of None \<Rightarrow> extractJsonStringValue payload ''gatewayId''
      | Some doc \<Rightarrow> extractGatewayIdCompat J doc)"

definition payload_port :: "'v rapidjson \<Rightarrow> string \<Rightarrow> string" where
  "payload_port J payload =
     (case parse_object J payload of None \<Rightarrow> extractJsonStringValue payload ''portId''
      | Some doc \<Rightarrow> extractPortIdCompat J doc)"

subsection \<open>Alarms\<close>

text \<open>The gateway and the port (empty on a gateway topic) an alarm topic names.\<close>

definition alarm_topic :: "'v rapidjson \<Rightarrow> string \<Rightarrow> string \<Rightarrow> (bool \<times> string \<times> string) option" where
  "alarm_topic J topic payload =
     (case parsePortUpTopic topic of Some (g, p) \<Rightarrow> Some (True, g, p)
      | None \<Rightarrow> let g = payload_gateway J payload
                in if g = [] \<or> \<not> isValidGatewayUpTopic topic g then None
                   else Some (False, gatewayUpTopicId topic, []))"

definition handle_alarm_event :: "'v pc_env \<Rightarrow> int \<Rightarrow> string \<Rightarrow> string \<Rightarrow> PcData \<Rightarrow> PcData" where
  "handle_alarm_event E now topic payload W =
     (case alarm_topic (pe_json E) topic payload of None \<Rightarrow> W
      | Some (hasPortTopic, topicGatewayId, topicPortId) \<Rightarrow>
        if topicGatewayId = [] then W
        else case parseAlarmEventPayload (pe_json E) now payload of None \<Rightarrow> W
        | Some event \<Rightarrow>
          if (ae_gatewayId event \<noteq> [] \<and> ae_gatewayId event \<noteq> topicGatewayId)
             \<or> (hasPortTopic \<and> ae_portId event \<noteq> [] \<and> ae_portId event \<noteq> topicPortId) then W
          else let event = event\<lparr>ae_portId := nonempty_or (ae_portId event) topicPortId,
                            ae_gatewayId := nonempty_or (ae_gatewayId event) topicGatewayId\<rparr>;
                   event = event\<lparr>ae_alarmId := nonempty_or (ae_alarmId event) (buildStableAlarmId event)\<rparr>;
                   (dbOk, W) = db_try (saveAlarmEvent (pe_db E) now event) W
               in if dbOk then when_client (ui_tell E (buildAlarmEventJson event)) W else W)"

subsection \<open>Gateways\<close>

definition handle_gateway_register :: "'v pc_env \<Rightarrow> int \<Rightarrow> string \<Rightarrow> string \<Rightarrow> PcData \<Rightarrow> PcData" where
  "handle_gateway_register E now topic payload W =
     (if \<not> isValidRegisterTopic topic then W
      else let J = pe_json E; D = pe_db E; kind = ''gateway_register''; seq = payload_seq J payload;
               version = payload_version J payload; fallback = payload_gateway J payload
           in case parseGatewayRegisterDetails J now payload of
             None \<Rightarrow> register_ack E now kind seq False fallback [] version
               (if fallback = [] then ''missing_field'' else ''parse_error'')
               (if fallback = [] then ''gateway_register missing gatewayId'' else ''gateway_register parse failed'') False W
           | Some (gateway, registry, ports) \<Rightarrow>
             let isOpen = db_isOpen W;
                 (saved, W) = db_try (upsertGatewayRegistry D registry) W;
                 (saved, W) = (if saved then in_db (upsertGatewayStatus D gateway) W else (False, W));
                 (ok, W) = (if saved then in_db (db_each (upsertGatewayPort D) ports) W else (False, W));
                 message = (if ok then [] else if \<not> isOpen then ''database is not open''
                            else if \<not> saved then ''gateway_register database save failed''
                            else ''gateway_register port save failed'');
                 W = (if ok then do_service (updateGatewayStatus gateway \<circ> rememberGatewayPorts ports
                        \<circ> rememberGatewayRegistry registry) W else W);
                 W = (if ok then when_client (in_order [sendGatewayStatusSnapshot E, sendPortStatusSnapshot E,
                        sendDevicesSnapshot E]) W else W)
             in register_ack E now kind seq ok (gs_gatewayId gateway) [] version
                  (if ok then [] else ''db_error'') message True W)"

definition parseGatewayStatus :: "'v rapidjson \<Rightarrow> int \<Rightarrow> string \<Rightarrow> (string \<times> int \<times> string) option" where
  "parseGatewayStatus J now payload =
     (case parse_object J payload of None \<Rightarrow> None
      | Some doc \<Rightarrow>
        let gatewayId = extractGatewayIdCompat J doc
        in if gatewayId = [] then None
           else Some (gatewayId, getJsonInt64 J doc ''timestampMs'' now, nonempty_or (getJsonString J doc ''status'') ''online''))"

text \<open>The record a heartbeat puts into the snapshot: nothing else of the gateway is kept.\<close>

definition heartbeat_status :: "string \<Rightarrow> int \<Rightarrow> string \<Rightarrow> GatewayStatus" where
  "heartbeat_status gatewayId timestampMs status =
    \<lparr>gs_gatewayId = gatewayId, gs_gatewayName = [], gs_factoryId = [], gs_areaId = [], gs_status = status,
     gs_lastRegisterTimeMs = 0, gs_lastHeartbeatTimeMs = timestampMs, gs_updateTimeMs = timestampMs\<rparr>"

definition handle_gateway_status :: "'v pc_env \<Rightarrow> int \<Rightarrow> bool \<Rightarrow> string \<Rightarrow> string \<Rightarrow> PcData \<Rightarrow> PcData" where
  "handle_gateway_status E now heartbeat topic payload W =
     (case (if heartbeat then parseGatewayHeartbeat else parseGatewayStatus) (pe_json E) now payload of None \<Rightarrow> W
      | Some (gatewayId, timestampMs, status) \<Rightarrow>
        if \<not> isValidGatewayUpTopic topic gatewayId then W
        else let D = pe_db E;
                 (ok, W) = db_try (updateGatewayRegistryHeartbeat D now gatewayId status) W;
                 (ok, W) = (if ok then in_db (updateGatewayHeartbeat D now gatewayId status) W else (False, W))
             in if \<not> ok then W
                else when_client (sendGatewayStatusSnapshot E)
                  (do_service (updateGatewayStatus (heartbeat_status gatewayId timestampMs status)) W))"

subsection \<open>Ports\<close>

definition handle_port_register :: "'v pc_env \<Rightarrow> int \<Rightarrow> string \<Rightarrow> string \<Rightarrow> PcData \<Rightarrow> PcData" where
  "handle_port_register E now topic payload W =
     (if \<not> isValidRegisterTopic topic then W
      else let J = pe_json E; kind = ''port_register''; seq = payload_seq J payload;
               version = payload_version J payload; g = payload_gateway J payload; p = payload_port J payload
           in case parsePortRegister J now payload of
             None \<Rightarrow> register_ack E now kind seq False g p version
               (if g = [] \<or> p = [] then ''missing_field'' else ''parse_error'')
               (if g = [] then ''port_register missing gatewayId''
                else if p = [] then ''port_register missing portId'' else ''port_register parse failed'') False W
           | Some port \<Rightarrow>
             let isOpen = db_isOpen W;
                 (ok, W) = db_try (upsertGatewayPort (pe_db E) port) W;
                 message = (if ok then [] else if \<not> isOpen then ''database is not open''
                            else ''port_register database save failed'');
                 W = (if ok then when_client (sendPortStatusSnapshot E) (do_service (updateGatewayPort port) W) else W)
             in register_ack E now kind seq ok (gp_gatewayId port) (gp_portId port) version
                  (if ok then [] else ''db_error'') message True W)"

definition handle_port_status :: "'v pc_env \<Rightarrow> int \<Rightarrow> string \<Rightarrow> string \<Rightarrow> PcData \<Rightarrow> PcData" where
  "handle_port_status E now topic payload W =
     (let J = pe_json E; kind = ''port_status''
      in case parsePortUpTopic topic of None \<Rightarrow> W
      | Some (topicGatewayId, topicPortId) \<Rightarrow>
        (case parse_object J payload of
           None \<Rightarrow> let g = extractJsonStringValue payload ''gatewayId''
                   in register_ack E now kind 0 False g (extractJsonStringValue payload ''portId'') 0
                        (if g = [] then ''invalid_payload'' else ''parse_error'') ''port_status parse failed'' False W
         | Some doc \<Rightarrow>
           let (port, failure) = parsePortStatusDetails J now doc;
               failure = (if failure = None \<and> (gp_gatewayId port \<noteq> topicGatewayId \<or> gp_portId port \<noteq> topicPortId)
                          then Some (''topic_payload_mismatch'', ''port_status topic and payload mismatch'') else failure);
               failure = (if failure = None \<and> \<not> db_isOpen W then Some (''db_error'', ''database is not open'') else failure);
               (failure, W) = (case failure of Some f \<Rightarrow> (Some f, W)
                 | None \<Rightarrow> let (ok, W) = in_db (upsertGatewayPort (pe_db E) port) W
                           in (if ok then None else Some (''db_error'', ''port_status database save failed''), W));
               W = (if failure = None
                    then when_client (sendPortStatusSnapshot E) (do_service (updateGatewayPort port) W) else W);
               (reason, message) = (case failure of None \<Rightarrow> ([], []) | Some f \<Rightarrow> f)
           in register_ack E now kind (getJsonInt64Any J doc [''seq'', ''sequence''] 0) (failure = None)
                (gp_gatewayId port) (gp_portId port)
                (getJsonInt64Any J doc [''configVersion'', ''config_version''] 0) reason message True W))"

subsection \<open>Acknowledgements of commands\<close>

text \<open>The status, the reason and the message of a matched acknowledgement, as first read.\<close>

definition ack_outcome :: "'v rapidjson \<Rightarrow> 'v \<Rightarrow> string \<times> string \<times> string" where
  "ack_outcome J doc =
     (let stage = getJsonString J doc ''stage''; success = isFinalBusinessSuccess J doc;
          reason = getJsonString J doc ''reason''
      in (if success then ''success'' else if stage = ''done'' then ''failed'' else ''sent'',
          if \<not> success \<and> stage \<noteq> ''done'' \<and> reason = [] then ''waiting_linux_data_ack'' else reason,
          getJsonString J doc ''message''))"

text \<open>A success for \<open>remove_device\<close> counts only when that is the command that was sent.\<close>

definition ack_checked :: "string \<Rightarrow> PendingCommandTarget \<Rightarrow> string \<times> string \<times> string \<Rightarrow> string \<times> string \<times> string" where
  "ack_checked commandType target outcome =
     (case outcome of (status, reason, message) \<Rightarrow>
        if status = ''success'' \<and> commandType = ''remove_device'' \<and> ct_commandType target \<noteq> ''remove_device''
        then (''failed'', ''device_not_found'',
              nonempty_or message ''remove_device ack target not found in command_log'')
        else outcome)"

definition log_target :: "PendingCommandTarget \<Rightarrow> CommandLogTarget" where
  "log_target c = \<lparr>lt_commandId = ct_commandId c, lt_seq = ct_uiSeq c, lt_commandType = ct_commandType c,
     lt_gatewayId = ct_gatewayId c, lt_portId = ct_portId c, lt_deviceId = ct_deviceId c\<rparr>"

definition succeeded_as :: "string \<Rightarrow> string \<Rightarrow> string \<Rightarrow> PendingCommandTarget \<Rightarrow> bool" where
  "succeeded_as kind status commandType target \<longleftrightarrow>
     status = ''success'' \<and> commandType = kind \<and> ct_commandType target = kind"

text \<open>The answer to the user interface.\<close>

definition ack_to_ui :: "'v pc_env \<Rightarrow> int \<Rightarrow> bool \<Rightarrow> int \<Rightarrow> string \<Rightarrow> PendingCommandTarget
    \<Rightarrow> string \<times> string \<times> string \<Rightarrow> PcData \<Rightarrow> PcData" where
  "ack_to_ui E now finalAck uiSeq commandType target outcome W =
     (case outcome of (status, reason, message) \<Rightarrow>
        if \<not> (ui_hasClient W \<and> finalAck) then W
        else let W = ui_tell E (buildCommandAckJson now (ct_commandId target) (status = ''success'') reason uiSeq
                   commandType ''done'' message (if ct_boardSeq target > 0 then ct_boardSeq target else uiSeq)
                   (ct_gatewayId target) (ct_portId target) (ct_deviceId target)) W
             in if succeeded_as ''add_device'' status commandType target
                then sendDevicesSnapshotWithPendingDevice E now target W else W)"

text \<open>A device the gateway has removed is deleted here too.\<close>

definition ack_removed :: "'v pc_env \<Rightarrow> int \<Rightarrow> string \<Rightarrow> PendingCommandTarget \<Rightarrow> string \<times> string \<times> string
    \<Rightarrow> PcData \<Rightarrow> (string \<times> string \<times> string) \<times> PcData" where
  "ack_removed E now commandType target outcome W =
     (case outcome of (status, reason, message) \<Rightarrow>
        if \<not> succeeded_as ''remove_device'' status commandType target then (outcome, W)
        else let g = ct_gatewayId target; p = ct_portId target; d = ct_deviceId target;
                 (deleteOk, W) = in_db (deleteDeviceData (pe_db E) now g p d) W
             in if deleteOk
                then (outcome, when_client (in_order [sendLatestPoints E, sendDevicesSnapshot E,
                        sendPortStatusSnapshot E, sendGatewayStatusSnapshot E])
                        (snd (in_service (removeDeviceData now g p d) W)))
                else ((''failed'', ''delete_device_data_failed'',
                       nonempty_or message ''gateway removed device, but Pc_data database delete failed''), W))"

definition ack_added :: "'v pc_env \<Rightarrow> int \<Rightarrow> string \<Rightarrow> PendingCommandTarget \<Rightarrow> string \<Rightarrow> PcData \<Rightarrow> PcData" where
  "ack_added E now commandType target status W =
     (if \<not> succeeded_as ''add_device'' status commandType target then W
      else let g = ct_gatewayId target; p = ct_portId target; d = ct_deviceId target;
               W = db_note (reactivateDeletedDevice (pe_db E) now g p d) W;
               W = do_service (forgetRemovedDevice now g p d) W;
               W = snd (publishConfigSnapshotRequest E now g W)
           in if db_isOpen W \<and> ui_hasClient W
              then in_order [sendDevicesSnapshot E, sendLatestPoints E, sendPortStatusSnapshot E] W else W)"

text \<open>What follows a matched acknowledgement.  The branch for an \<open>add_device\<close> without a target cannot be
  reached: the target is there whenever the acknowledgement is matched.\<close>

definition ack_matched :: "'v pc_env \<Rightarrow> int \<Rightarrow> 'v \<Rightarrow> PendingCommandTarget \<Rightarrow> PcData \<Rightarrow> PcData" where
  "ack_matched E now doc target W =
     (let J = pe_json E;
          commandType = nonempty_or (getJsonStringAny J doc [''cmd'', ''commandType'', ''command'']) (ct_commandType target);
          uiSeq = (if ct_uiSeq target > 0 then ct_uiSeq target else getJsonInt64Any J doc [''seq'', ''sequence''] 0);
          outcome = ack_checked commandType target (ack_outcome J doc);
          W = ack_to_ui E now (getJsonString J doc ''stage'' = ''done'') uiSeq commandType target outcome W;
          ((status, reason, message), W) = ack_removed E now commandType target outcome W;
          W = db_note (updateCommandLogByCommandId (pe_db E) (ct_commandId target) status reason message now) W;
          W = ack_added E now commandType target status W
      in when_client (ui_tell E (buildCommandLogUpdateJson now uiSeq commandType status reason message
           (Some (log_target target)) (ct_boardSeq target))) W)"

definition handle_ack :: "'v pc_env \<Rightarrow> int \<Rightarrow> string \<Rightarrow> string \<Rightarrow> PcData \<Rightarrow> PcData" where
  "handle_ack E now topic payload W =
     (let J = pe_json E
      in case parsePortUpTopic topic of None \<Rightarrow> W
      | Some (topicGatewayId, topicPortId) \<Rightarrow>
        (case parse_object J payload of None \<Rightarrow> W
         | Some doc \<Rightarrow>
           let cmdId = getJsonStringAny J doc [''cmd_id'', ''cmdId'', ''commandId''];
               g = extractGatewayIdCompat J doc; p = extractPortIdCompat J doc
           in if (g \<noteq> [] \<and> g \<noteq> topicGatewayId) \<or> (p \<noteq> [] \<and> p \<noteq> topicPortId) then W
              else if cmdId = [] then W
              else let (found, W) = (if getJsonString J doc ''stage'' = ''done''
                         then in_service (takePendingCommand cmdId) W
                         else (findPendingCommand cmdId (pw_service W), W))
                   in case found of None \<Rightarrow> W | Some target \<Rightarrow> ack_matched E now doc target W))"

subsection \<open>Configuration snapshots\<close>

text \<open>The number of ports, devices and configurations of a snapshot that was stored.\<close>

definition full_snapshot :: "'v rapidjson \<Rightarrow> 'v \<Rightarrow> bool" where
  "full_snapshot J doc = getJsonBool J doc ''fullSnapshot'' (getJsonBool J doc ''full_snapshot'' False)"

text \<open>The request a snapshot answers; an unsolicited one stands for its own gateway.\<close>

definition snapshot_request :: "'v rapidjson \<Rightarrow> 'v \<Rightarrow> SyncGatewayPending option \<Rightarrow> SyncGatewayPending" where
  "snapshot_request J doc pending =
     (case pending of Some p \<Rightarrow> p
      | None \<Rightarrow> \<lparr>sp_requestId = 0, sp_seq = 0, sp_gatewayId = extractGatewayIdCompat J doc, sp_devices = [],
                 sp_requestTimeMs = 0\<rparr>)"

definition snapshot_refusal :: "'v rapidjson \<Rightarrow> 'v \<Rightarrow> SyncGatewayPending option \<Rightarrow> (string \<times> string) option" where
  "snapshot_refusal J doc pending =
     (let request = snapshot_request J doc pending
      in if getJsonInt64Any J doc [''configVersion'', ''config_version''] 0 \<le> 0
            \<and> rj_member J doc ''fullSnapshot'' = None \<and> rj_member J doc ''full_snapshot'' = None
         then Some (''missing_snapshot_version'', ''config snapshot missing configVersion/fullSnapshot'')
         else if sp_gatewayId request = [] then Some (''missing_field'', ''config snapshot missing gatewayId'')
         else if pending \<noteq> None \<and> sp_devices request = []
         then Some (''invalid_payload'', ''config snapshot pending devices empty'')
         else None)"

text \<open>Writing the snapshot; the devices listed before a full snapshot are needed afterwards.\<close>

definition save_snapshot :: "'v pc_env \<Rightarrow> int \<Rightarrow> bool \<Rightarrow> SyncGatewayPending \<Rightarrow> config_snapshot \<Rightarrow> bool \<Rightarrow> PcData
    \<Rightarrow> bool \<times> PcData" where
  "save_snapshot E now hasPending request cf full W =
     (let D = pe_db E; gatewayId = sp_gatewayId request
      in if hasPending
         then in_db (replaceSelectedDeviceConfig D gatewayId
                (map (\<lambda>d. \<lparr>sel_portId = sd_portId d, sel_deviceId = sd_deviceId d\<rparr>) (sp_devices request))
                (cf_ports cf) (cf_devices cf) (cf_pointConfigs cf)) W
         else in_db (upsertGatewayConfigSnapshot D now gatewayId (cf_ports cf) (cf_devices cf)
                (cf_pointConfigs cf) full) W)"

text \<open>The devices the service forgets, and those it no longer ignores.\<close>

definition settle_snapshot :: "int \<Rightarrow> bool \<Rightarrow> bool \<Rightarrow> string \<Rightarrow> ConfigSnapshotDevice list \<Rightarrow> DeviceRecord list
    \<Rightarrow> PcDataService \<Rightarrow> PcDataService" where
  "settle_snapshot now hasPending full gatewayId devices before s =
     (let s = (if full
               then foldl (\<lambda>s d. snd (removeDeviceData now (dr_gatewayId d) (dr_portId d) (dr_deviceId d) s)) s
                 (missing_devices gatewayId devices before)
               else s)
      in if hasPending
         then foldl (\<lambda>s c. forgetRemovedDevice now (dr_gatewayId (csd_device c)) (dr_portId (csd_device c))
                (dr_deviceId (csd_device c)) s) s devices
         else s)"

definition store_config_snapshot :: "'v pc_env \<Rightarrow> int \<Rightarrow> bool \<Rightarrow> SyncGatewayPending \<Rightarrow> config_snapshot option \<Rightarrow> bool
    \<Rightarrow> PcData \<Rightarrow> (string \<times> string) option \<times> PcData" where
  "store_config_snapshot E now hasPending request parsed full W =
     (case parsed of None \<Rightarrow> (Some (''parse_error'', ''config_snapshot parse failed''), W)
      | Some cf \<Rightarrow>
        if \<not> db_isOpen W then (Some (''db_error'', ''database is not open''), W)
        else let (before, W) = (if full then in_db (queryDevices (pe_db E)) W else ([], W));
                 (ok, W) = save_snapshot E now hasPending request cf full W
             in if \<not> ok then (Some (''db_error'', ''config_snapshot database save failed''), W)
                else let gatewayId = sp_gatewayId request;
                         W = do_service (settle_snapshot now hasPending full gatewayId (cf_devices cf) before) W;
                         W = do_service (replaceGatewayRegistry gatewayId (cf_ports cf)
                               (map csd_device (cf_devices cf)) (cf_pointConfigs cf) full) W
                     in (None, W))"

definition send_all_snapshots :: "'v pc_env \<Rightarrow> PcData \<Rightarrow> PcData" where
  "send_all_snapshots E = in_order [sendGatewayStatusSnapshot E, sendPortStatusSnapshot E,
     sendDevicesSnapshot E, sendLatestPoints E]"

definition sync_result_json :: "SyncConfigResult \<Rightarrow> string" where
  "sync_result_json r = buildSyncConfigResultJson (sr_success r) (sr_message r) (sr_portCount r) (sr_deviceCount r)"

text \<open>After the snapshot: the user interface is told, also of the result of a request this completes.\<close>

definition snapshot_to_ui :: "'v pc_env \<Rightarrow> bool \<Rightarrow> int \<Rightarrow> bool \<Rightarrow> int \<Rightarrow> int \<Rightarrow> PcData \<Rightarrow> PcData" where
  "snapshot_to_ui E hasPending seq ok nPorts nDevices W =
     (if \<not> hasPending
      then if \<not> ok then W
           else let hasClient = ui_hasClient W;
                    W = (if db_isOpen W then snd (in_db (queryDevices (pe_db E)) W) else W)
                in if hasClient then send_all_snapshots E W else W
      else let (result, W) = in_service (completeSyncConfig seq ok
                   (if ok then ''config sync success'' else ''config snapshot save failed'')
                   (if ok then nPorts else 0) (if ok then nDevices else 0)) W
           in case result of None \<Rightarrow> W
              | Some r \<Rightarrow> let W = ui_tell E (sync_result_json r) W
                          in if ok then when_client (send_all_snapshots E) W else W)"

definition handle_config_snapshot :: "'v pc_env \<Rightarrow> int \<Rightarrow> string \<Rightarrow> string \<Rightarrow> string \<Rightarrow> PcData \<Rightarrow> PcData" where
  "handle_config_snapshot E now kind topic payload W =
     (let J = pe_json E
      in if \<not> isValidRegisterTopic topic then W
         else case parse_object J payload of
           None \<Rightarrow> let g = extractJsonStringValue payload ''gatewayId''
                   in register_ack E now kind 0 False g [] 0 (if g = [] then ''invalid_payload'' else ''parse_error'')
                        ''config_snapshot parse failed'' False W
         | Some doc \<Rightarrow>
           let seq = getJsonInt64 J doc ''seq'' 0;
               version = getJsonInt64Any J doc [''configVersion'', ''config_version''] 0;
               pending = findSyncPending seq (pw_service W);
               request = snapshot_request J doc pending
           in case snapshot_refusal J doc pending of
                Some (reason, message) \<Rightarrow>
                  register_ack E now kind seq False
                    (if reason = ''missing_snapshot_version'' then extractGatewayIdCompat J doc else sp_gatewayId request)
                    [] version reason message False W
              | None \<Rightarrow>
                let parsed = parseConfigSnapshot J now payload request; hasPending = (pending \<noteq> None);
                    (failure, W) = store_config_snapshot E now hasPending request parsed
                      (\<not> hasPending \<and> full_snapshot J doc) W;
                    ok = (failure = None);
                    cf = (case parsed of None \<Rightarrow> \<lparr>cf_ports = [], cf_devices = [], cf_pointConfigs = []\<rparr> | Some c \<Rightarrow> c);
                    nDevices = int (length (cf_devices cf));
                    W = snapshot_to_ui E hasPending seq ok (int (length (cf_ports cf))) nDevices W;
                    (reason, message) = (case failure of None \<Rightarrow> ([], []) | Some f \<Rightarrow> f)
                in snd (publishRegisterAck E now kind seq ok (sp_gatewayId request) [] version reason message True
                     (if ok then nDevices else -1) (if ok then int (length (cf_pointConfigs cf)) else -1) (-1) W))"

subsection \<open>Devices and thresholds\<close>

text \<open>Why a registration that parses is not stored.\<close>

definition register_device :: "'v pc_env \<Rightarrow> int \<Rightarrow> DeviceRecord \<Rightarrow> string \<Rightarrow> PcData \<Rightarrow> (bool \<times> string) \<times> PcData" where
  "register_device E now device reason W =
     (let g = dr_gatewayId device; p = dr_portId device; d = dr_deviceId device
      in if reason \<noteq> [] then ((False, reason), W)
         else if \<not> db_isOpen W then ((False, ''database_not_open''), W)
         else let (removed, W) = in_service (isRemovedDevice now g p d) W;
                  (removed, W) = (if removed then (True, W) else in_db (deviceDeleted (pe_db E) g p d) W)
              in if removed then ((False, ''device_removed_wait_config_snapshot''), W)
                 else let (ok, W) = in_db (upsertDevice (pe_db E) device False) W
                      in ((ok, if ok then [] else ''device_db_save_failed''), W))"

definition handle_device_register :: "'v pc_env \<Rightarrow> int \<Rightarrow> string \<Rightarrow> string \<Rightarrow> PcData \<Rightarrow> PcData" where
  "handle_device_register E now topic payload W =
     (if \<not> isValidRegisterTopic topic then W
      else let J = pe_json E; kind = ''device_register''; g = payload_gateway J payload; p = payload_port J payload
           in case parseDeviceRegister J now payload of
             None \<Rightarrow> snd (publishRegisterAck E now kind (payload_seq J payload) False g p 0
               (if g = [] \<or> p = [] then ''missing_field'' else ''parse_error'')
               (if g = [] then ''device_register missing gatewayId''
                else if p = [] then ''device_register missing portId'' else ''device_register parse failed'')
               False (-1) (-1)
               (case parse_object J payload of None \<Rightarrow> 0
                | Some doc \<Rightarrow> getJsonIntAny J doc [''deviceId'', ''device_id'', ''slave_id'', ''slaveAddress''] 0) W)
           | Some (device, sequence, reason) \<Rightarrow>
             let ((ok, reason), W) = register_device E now device reason W;
                 W = snd (publishRegisterAck E now kind (uint sequence) ok (dr_gatewayId device) (dr_portId device) 0
                   reason (if ok then [] else nonempty_or reason ''device_register failed'')
                   (reason \<noteq> ''device_removed_wait_config_snapshot'') (if ok then 1 else -1) (-1)
                   (dr_deviceId device) W);
                 W = (if ok then do_service (updateDeviceRegistry [device]) W else W)
             in when_client (in_order [sendDevicesSnapshot E, sendPortStatusSnapshot E,
                  sendGatewayStatusSnapshot E, sendLatestPoints E]) W)"

definition normal_config :: "PointConfig \<Rightarrow> PointConfig" where
  "normal_config c =
     (let key = normalizeTelemetryPointKey (pc_pointKey c); n = c\<lparr>pc_pointKey := key\<rparr>
      in if key \<noteq> pc_pointKey c \<and> pc_pointId c \<noteq> []
         then n\<lparr>pc_pointId := buildPointId (pc_factoryId c) (pc_areaId c) (pc_gatewayId c) (pc_portId c)
                  (pc_deviceId c) key\<rparr>
         else n)"

definition accept_config :: "db_engine \<Rightarrow> PointConfig \<Rightarrow> PcDatabase \<Rightarrow> bool \<times> PcDatabase" where
  "accept_config D c db =
     (let g = pc_gatewayId c; p = pc_portId c; d = pc_deviceId c;
          (known, db) = deviceExists D g p d db
      in if \<not> known then (False, db)
         else let (deviceType, db) = queryDeviceType D g p d db;
                  key = pc_pointKey (normal_config c);
                  (known, db) = pointConfigExists D g p d key db
              in (known \<or> isDefaultTelemetryPointKey (nonempty_or deviceType (pc_deviceType c)) key, db))"

fun accepted_configs :: "db_engine \<Rightarrow> PointConfig list \<Rightarrow> PcDatabase \<Rightarrow> PointConfig list \<times> PcDatabase" where
  "accepted_configs D [] db = ([], db)"
| "accepted_configs D (c # cs) db =
     (let (ok, db) = accept_config D c db; (rest, db) = accepted_configs D cs db
      in (if ok then normal_config c # rest else rest, db))"

definition handle_threshold_config :: "'v pc_env \<Rightarrow> int \<Rightarrow> string \<Rightarrow> PcData \<Rightarrow> PcData" where
  "handle_threshold_config E now payload W =
     (case PointConfigPackParser_parseJson (pe_json E) now payload of Inl _ \<Rightarrow> W
      | Inr configs \<Rightarrow>
        if \<not> db_isOpen W then W
        else let (accepted, W) = in_db (accepted_configs (pe_db E) configs) W;
                 (ok, W) = in_db (savePointConfigs (pe_db E) accepted) W
             in if ok then foldl (\<lambda>W c. do_service (updatePointConfig c) W) W accepted else W)"

end
