(* ===== verification/PcRequests.thy ===== *)
theory PcRequests
  imports PcHandler
begin

text \<open>
  \<open>IpcMessageHandler::handle\<close> (Pc_data/ipc/IpcMessageHandler.cpp), first part: the requests of the
  user interface that Pc_data answers itself.  Commands to the boards are in \<open>PcCommands\<close>.
\<close>

subsection \<open>Synchronisation requests\<close>

definition selected_device :: "'v rapidjson \<Rightarrow> 'v \<Rightarrow> SyncSelectedDevice list" where
  "selected_device J v =
     (let portId = getJsonString J v ''portId''; deviceId = getJsonInt J v ''deviceId'' 0
      in if rj_is_object J v \<and> portId \<noteq> [] \<and> deviceId > 0
         then [\<lparr>sd_portId = portId, sd_deviceId = deviceId\<rparr>] else [])"

definition selected_gateway :: "'v rapidjson \<Rightarrow> 'v \<Rightarrow> SyncGatewaySelection list" where
  "selected_gateway J v =
     (if \<not> rj_is_object J v then []
      else let gatewayId = getJsonString J v ''gatewayId''
           in case rj_member J v ''devices'' of None \<Rightarrow> []
              | Some devices \<Rightarrow>
                if gatewayId = [] \<or> \<not> rj_is_array J devices then []
                else let ds = concat (map (selected_device J) (rj_elements J devices))
                     in if ds = [] then [] else [\<lparr>sg_gatewayId = gatewayId, sg_devices = ds\<rparr>])"

definition parseSyncConfigRequest :: "'v rapidjson \<Rightarrow> string \<Rightarrow> SyncGatewaySelection list" where
  "parseSyncConfigRequest J msg =
     (case typed_object J ''sync_config_request'' msg of None \<Rightarrow> []
      | Some doc \<Rightarrow>
        (case rj_member J doc ''targets'' of None \<Rightarrow> []
         | Some targets \<Rightarrow>
           if rj_is_array J targets then concat (map (selected_gateway J) (rj_elements J targets)) else []))"

definition isSyncConfigRequest :: "'v rapidjson \<Rightarrow> string \<Rightarrow> bool" where
  "isSyncConfigRequest J msg \<longleftrightarrow> typed_object J ''sync_config_request'' msg \<noteq> None"

definition buildGetConfigCommandJson :: "SyncGatewayPending \<Rightarrow> string" where
  "buildGetConfigCommandJson pending =
     jobj [jtext ''type'' ''command'', jtext ''cmd'' ''get_config'', jint ''seq'' (sp_seq pending),
       jraw ''target'' (jobj [jtext ''gatewayId'' (sp_gatewayId pending),
         jraw ''devices'' (jarr (map (\<lambda>d. jobj [jtext ''portId'' (sd_portId d), jint ''deviceId'' (sd_deviceId d)])
           (sp_devices pending)))])]"

definition makeGatewayCommandTopic :: "string \<Rightarrow> string" where
  "makeGatewayCommandTopic gatewayId = (if gatewayId = [] then [] else ''cmd/'' @ gatewayId)"

text \<open>One gateway of the request could not be asked; the result goes out when it was the last one.\<close>

definition fail_sync :: "'v pc_env \<Rightarrow> int \<Rightarrow> string \<Rightarrow> PcData \<Rightarrow> PcData" where
  "fail_sync E seq reason W =
     (let (result, W) = in_service (completeSyncConfig seq False reason 0 0) W
      in case result of None \<Rightarrow> W | Some r \<Rightarrow> ui_tell E (sync_result_json r) W)"

definition request_config :: "'v pc_env \<Rightarrow> SyncGatewayPending \<Rightarrow> PcData \<Rightarrow> PcData" where
  "request_config E pending W =
     (let topic = makeGatewayCommandTopic (sp_gatewayId pending)
      in if topic = [] then fail_sync E (sp_seq pending) ''gateway_not_registered'' W
         else let (publishOk, W) = broker_send E topic (buildGetConfigCommandJson pending) W
              in if publishOk then W else fail_sync E (sp_seq pending) ''mqtt publish failed'' W)"

definition refuse_sync :: "'v pc_env \<Rightarrow> PcData \<Rightarrow> PcData" where
  "refuse_sync E = ui_tell E (buildSyncConfigResultJson False ''invalid sync target'' 0 0)"

definition handle_sync_request :: "'v pc_env \<Rightarrow> int \<Rightarrow> SyncGatewaySelection list \<Rightarrow> PcData \<Rightarrow> PcData" where
  "handle_sync_request E now targets W =
     (let (pendingList, W) = in_service (beginSyncConfigRequest now targets) W
      in if pendingList = [] then refuse_sync E W
         else foldl (\<lambda>W p. request_config E p W) W pendingList)"

subsection \<open>History and alarms\<close>

definition handle_history :: "'v pc_env \<Rightarrow> string \<Rightarrow> int \<Rightarrow> int \<Rightarrow> int \<Rightarrow> PcData \<Rightarrow> PcData" where
  "handle_history E pointId startMs endMs limit W =
     (let ((points, queryOk, reason), W) = in_db (queryHistoryPoints (pe_db E) pointId startMs endMs limit) W
      in ui_tell E (buildHistoryPointsJson pointId points queryOk reason
           (if queryOk then [] else ''history query failed'')) W)"

definition handle_bad_history :: "'v pc_env \<Rightarrow> 'v \<Rightarrow> PcData \<Rightarrow> PcData" where
  "handle_bad_history E doc =
     ui_tell E (buildHistoryPointsJson (getJsonString (pe_json E) doc ''pointId'') [] False ''invalid_point_id''
       ''pointId is required'')"

definition send_alarms :: "'v pc_env \<Rightarrow> PcData \<Rightarrow> PcData" where
  "send_alarms E W =
     (let (alarms, W) = in_db (queryAlarmEvents (pe_db E)) W in ui_tell E (buildAlarmEventsSnapshotJson alarms) W)"

definition handle_get_alarms :: "'v pc_env \<Rightarrow> PcData \<Rightarrow> PcData" where
  "handle_get_alarms E W =
     (if db_isOpen W then send_alarms E W else ui_tell E (buildAlarmEventsSnapshotJson []) W)"

text \<open>The actions on alarms: the statement, the answer, and the alarms as they are now.\<close>

definition handle_alarm_action :: "'v pc_env \<Rightarrow> int \<Rightarrow> string \<Rightarrow> string \<Rightarrow> (PcDatabase \<Rightarrow> bool \<times> PcDatabase)
    \<Rightarrow> PcData \<Rightarrow> PcData" where
  "handle_alarm_action E now action alarmId op W =
     (let (dbOk, W) = db_try op W;
          W = ui_tell E (buildAlarmActionAckJson now action dbOk (if dbOk then [] else action @ ''_failed'') alarmId) W
      in if db_isOpen W then send_alarms E W else W)"

subsection \<open>Deleting\<close>

definition handle_delete_device :: "'v pc_env \<Rightarrow> int \<Rightarrow> string \<Rightarrow> string \<Rightarrow> int \<Rightarrow> PcData \<Rightarrow> PcData" where
  "handle_delete_device E now g p d W =
     (let (dbOk, W) = db_try (deleteDeviceData (pe_db E) now g p d) W;
          W = (if dbOk then snd (in_service (removeDeviceData now g p d) W) else W)
      in in_order [ui_tell E (buildDeleteDataAckJson now ''delete_device_data'' dbOk
                     (if dbOk then [] else ''delete_device_data_failed'')),
           sendLatestPoints E, sendDevicesSnapshot E] W)"

definition handle_delete_master :: "'v pc_env \<Rightarrow> int \<Rightarrow> string \<Rightarrow> string \<Rightarrow> PcData \<Rightarrow> PcData" where
  "handle_delete_master E now g p W =
     (let (dbOk, W) = db_try (deleteMasterData (pe_db E) now g p) W;
          (removed, W) = in_service (removeMasterData now g p) W;
          ok = (dbOk \<or> removed)
      in in_order [ui_tell E (buildDeleteDataAckJson now ''delete_master_data'' ok
                     (if ok then [] else ''delete_master_data_failed'')),
           sendLatestPoints E, sendDevicesSnapshot E] W)"

definition handle_clear_all :: "'v pc_env \<Rightarrow> int \<Rightarrow> PcData \<Rightarrow> PcData" where
  "handle_clear_all E now W =
     (let (dbOk, W) = db_try (clearRuntimeData (pe_db E)) W;
          W = (if dbOk then do_service svc_clear W else W)
      in in_order [ui_tell E (buildDeleteDataAckJson now ''clear_all_data'' dbOk
                     (if dbOk then [] else ''clear_runtime_data_failed'')),
           sendLatestPoints E, sendDevicesSnapshot E, sendGatewayStatusSnapshot E, sendPortStatusSnapshot E] W)"

subsection \<open>The broker\<close>

definition handle_get_mqtt :: "'v pc_env \<Rightarrow> PcData \<Rightarrow> PcData" where
  "handle_get_mqtt E W = ui_tell E (buildMqttConfigJson (pw_config W) (mt_status (pw_mqtt W))) W"

definition mqtt_connect :: "'v pc_env \<Rightarrow> PcData \<Rightarrow> bool \<times> PcData" where
  "mqtt_connect E W =
     (let c = pw_config W; (ok, m) = mqtt_connectToBroker E (mc_host c) (mc_port c) (mc_clientId c) (mc_topics c) (pw_mqtt W)
      in (ok, W\<lparr>pw_mqtt := m\<rparr>))"

definition handle_save_mqtt :: "'v pc_env \<Rightarrow> MqttConfig \<Rightarrow> string \<Rightarrow> PcData \<Rightarrow> PcData" where
  "handle_save_mqtt E requested reason W =
     (let answer = (\<lambda>ok reason W. ui_tell E (buildMqttConfigAckJson ok reason (pw_config W) (mt_status (pw_mqtt W))) W)
      in if reason \<noteq> [] then answer False reason W
         else let saved = pe_save E (pw_saves W); W = W\<lparr>pw_saves := Suc (pw_saves W)\<rparr>
              in if \<not> saved then answer False ''config_save_failed'' W
                 else let (connectOk, W) = mqtt_connect E (W\<lparr>pw_config := requested\<rparr>)
                      in answer connectOk (if connectOk then [] else ''mqtt_connect_failed'') W)"

end
