(* ===== verification/PcCommands.thy ===== *)
theory PcCommands
  imports PcRequests
begin

text \<open>
  Commands of the user interface to the boards (\<open>IpcMessageHandler::handle\<close>, second part): every
  command is answered, logged, published, and remembered until its final acknowledgement.  A
  value the source cannot read ends the process (an assertion of rapidjson on a relay state that
  is no integer, an uncaught exception of \<open>std::stoi\<close> on a port id): the result is then \<open>None\<close>.
\<close>

subsection \<open>Reading a command\<close>

definition remote_commands :: "string list" where
  "remote_commands = [''add_device'', ''remove_device'', ''set_relay'', ''set_device_threshold'', ''set_threshold'',
     ''get_config'', ''request_config_snapshot'', ''discover'']"

definition isRemoteCommandAllowed :: "string \<Rightarrow> bool" where
  "isRemoteCommandAllowed commandType \<longleftrightarrow> commandType \<in> set remote_commands"

definition isGatewayCommand :: "string \<Rightarrow> bool" where
  "isGatewayCommand commandType \<longleftrightarrow> commandType \<in> set [''delete_gateway'', ''disconnect_gateway'',
     ''request_gateway_status'', ''get_config'', ''request_config_snapshot'', ''discover'']"

definition commandNameFrom :: "'v rapidjson \<Rightarrow> 'v \<Rightarrow> string" where
  "commandNameFrom J doc = getJsonStringAny J doc [''cmdType'', ''cmd'', ''commandType'', ''command'']"

definition payloadObjectOrRoot :: "'v rapidjson \<Rightarrow> 'v \<Rightarrow> 'v" where
  "payloadObjectOrRoot J doc = (if rj_is_object J doc then object_or J doc ''payload'' else doc)"

definition sequenceFrom :: "'v rapidjson \<Rightarrow> 'v \<Rightarrow> int" where
  "sequenceFrom J doc = getJsonInt64Any J doc [''seq'', ''sequence''] 0"

text \<open>\<open>seq & 0x7fffffff\<close>, and 1 for 0.\<close>

definition linuxDataSeqFrom :: "int \<Rightarrow> int" where
  "linuxDataSeqFrom seq = (let s = seq mod 2 ^ 31 in if s > 0 then s else 1)"

definition deviceIdFrom :: "'v rapidjson \<Rightarrow> 'v \<Rightarrow> int" where
  "deviceIdFrom J doc = getJsonIntAny J doc [''deviceId'', ''slave_id'', ''slaveAddress'', ''device_id'', ''slave_addr''] 0"

definition slotFromPortId_or :: "string \<Rightarrow> int \<Rightarrow> int option" where
  "slotFromPortId_or portId fallback =
     (if fallback \<ge> 0 then Some fallback
      else let digits = filter (\<lambda>c. CHR ''0'' \<le> c \<and> c \<le> CHR ''9'') portId
           in if digits = [] then Some 0
              else map_option (\<lambda>v. if v > 0 then v - 1 else 0) (stoi digits))"

text \<open>The slot a message names, in its payload or at its top.\<close>

definition root_slot :: "'v rapidjson \<Rightarrow> 'v \<Rightarrow> int" where
  "root_slot J doc = getJsonInt J doc ''slot'' (getJsonInt J doc ''master_slot'' (-1))"

definition commandTopicFor :: "string \<Rightarrow> string \<Rightarrow> string \<Rightarrow> string" where
  "commandTopicFor commandType gatewayId portId =
     (if isGatewayCommand commandType then makeGatewayCommandTopic gatewayId else makePortCommandTopic gatewayId portId)"

text \<open>The command as far as every kind of command reads it.\<close>

record ui_command =
  uc_id :: string
  uc_kind :: string
  uc_gateway :: string
  uc_port :: string
  uc_seq :: int

definition read_command :: "'v rapidjson \<Rightarrow> string \<Rightarrow> 'v \<Rightarrow> ui_command" where
  "read_command J msg doc =
     (let target = member_object J doc ''target'';
          field = (\<lambda>key. case target of None \<Rightarrow> [] | Some t \<Rightarrow> getJsonString J t key)
      in \<lparr>uc_id = extractJsonStringValue msg ''cmd_id'', uc_kind = commandNameFrom J doc,
          uc_gateway = nonempty_or (nonempty_or (field ''gatewayId'') (getJsonString J doc ''gatewayId''))
            (getJsonString J doc ''gateway_id''),
          uc_port = nonempty_or (field ''portId'') (getJsonString J doc ''portId''),
          uc_seq = sequenceFrom J doc\<rparr>)"

definition uc_boardSeq :: "ui_command \<Rightarrow> int" where
  "uc_boardSeq c = linuxDataSeqFrom (uc_seq c)"

subsection \<open>Answering, logging, publishing\<close>

definition answer_command :: "'v pc_env \<Rightarrow> int \<Rightarrow> ui_command \<Rightarrow> int \<Rightarrow> bool \<Rightarrow> string \<Rightarrow> string \<Rightarrow> string \<Rightarrow> int
    \<Rightarrow> PcData \<Rightarrow> PcData" where
  "answer_command E now c boardSeq ok reason stage message deviceId =
     ui_tell E (buildCommandAckJson now (uc_id c) ok reason (uc_seq c) (uc_kind c) stage message boardSeq
       (uc_gateway c) (uc_port c) deviceId)"

definition log_command :: "'v pc_env \<Rightarrow> int \<Rightarrow> ui_command \<Rightarrow> int \<Rightarrow> PcData \<Rightarrow> PcData" where
  "log_command E now c deviceId =
     db_note (createCommandLog (pe_db E) (uc_id c) (uc_boardSeq c) (uc_kind c) (uc_gateway c) (uc_port c) deviceId now)"

definition log_result :: "'v pc_env \<Rightarrow> int \<Rightarrow> ui_command \<Rightarrow> string \<Rightarrow> string \<Rightarrow> string \<Rightarrow> PcData \<Rightarrow> PcData" where
  "log_result E now c status reason message =
     db_note (updateCommandLogByCommandId (pe_db E) (uc_id c) status reason message now)"

definition failGatewayNotRegistered :: "'v pc_env \<Rightarrow> int \<Rightarrow> ui_command \<Rightarrow> int \<Rightarrow> PcData \<Rightarrow> PcData" where
  "failGatewayNotRegistered E now c deviceId W =
     (let W = (if uc_id c \<noteq> [] \<and> uc_boardSeq c > 0
               then log_result E now c ''failed'' ''gateway_not_registered'' ''gateway is not registered''
                      (log_command E now c deviceId W)
               else W)
      in answer_command E now c (uc_boardSeq c) False ''gateway_not_registered'' ''done'' ''gateway is not registered''
           deviceId W)"

definition rememberCommand :: "int \<Rightarrow> ui_command \<Rightarrow> int \<Rightarrow> PcDataService \<Rightarrow> PcDataService" where
  "rememberCommand now c deviceId = rememberPendingCommand
     \<lparr>ct_commandId = uc_id c, ct_uiSeq = uc_seq c, ct_boardSeq = uc_boardSeq c, ct_commandType = uc_kind c,
      ct_gatewayId = uc_gateway c, ct_portId = uc_port c, ct_deviceId = deviceId, ct_requestTimeMs = now,
      ct_timeoutNotified = False, ct_hardTimeoutNotified = False\<rparr>"

text \<open>The end of every command that is sent.\<close>

definition send_command :: "'v pc_env \<Rightarrow> int \<Rightarrow> ui_command \<Rightarrow> int \<Rightarrow> string \<Rightarrow> string \<Rightarrow> PcData \<Rightarrow> PcData" where
  "send_command E now c deviceId topic payload W =
     (let (publishOk, W) = broker_send E topic payload W;
          reason = (if publishOk then [] else ''mqtt_publish_failed'');
          W = log_result E now c (if publishOk then ''sent'' else ''failed'') reason
                (if publishOk then ''command sent'' else ''mqtt publish failed'') W;
          W = (if publishOk then do_service (rememberCommand now c deviceId) W else W)
      in answer_command E now c (uc_boardSeq c) publishOk reason (if publishOk then ''sent'' else ''done'')
           (if publishOk then ''command published to gateway'' else ''MQTT publish failed'') deviceId W)"

text \<open>The log entry, and whether the port is connected; a command to a port that is not is refused.\<close>

definition open_port_command :: "'v pc_env \<Rightarrow> int \<Rightarrow> ui_command \<Rightarrow> int \<Rightarrow> PcData \<Rightarrow> bool \<times> PcData" where
  "open_port_command E now c deviceId W =
     (let W = log_command E now c deviceId W;
          (refused, W) = (if db_isOpen W
            then let (up, W) = in_db (isGatewayPortConnected (pe_db E) (uc_gateway c) (uc_port c)) W in (\<not> up, W)
            else (False, W))
      in if \<not> refused then (True, W)
         else (False, answer_command E now c (uc_boardSeq c) False ''port_not_connected'' ''done''
                ''gateway port is not connected'' deviceId
                (log_result E now c ''failed'' ''port_not_connected'' ''gateway port is not connected'' W)))"

definition refuse_command :: "'v pc_env \<Rightarrow> int \<Rightarrow> ui_command \<Rightarrow> int \<Rightarrow> string \<Rightarrow> PcData \<Rightarrow> PcData" where
  "refuse_command E now c deviceId message =
     answer_command E now c (uc_boardSeq c) False ''invalid_request'' ''done'' message deviceId"

definition jsonValueToString :: "'v pc_env \<Rightarrow> 'v \<Rightarrow> string" where
  "jsonValueToString E v = c_str (pe_print E v)"

text \<open>The members every command to a port begins with.\<close>

definition command_head :: "int \<Rightarrow> ui_command \<Rightarrow> string \<Rightarrow> int \<Rightarrow> int \<Rightarrow> string list" where
  "command_head now c kind deviceId slot =
     [jtext ''type'' ''command'', jraw ''cmd'' (jquote kind), jtext ''cmd_id'' (uc_id c), jint ''seq'' (uc_boardSeq c),
      jraw ''cmdType'' (jquote kind), jtext ''gatewayId'' (uc_gateway c), jtext ''portId'' (uc_port c),
      jint ''deviceId'' deviceId, jint ''timestampMs'' now, jint ''slot'' slot, jint ''slave_id'' deviceId]"

subsection \<open>Relays\<close>

definition relay_state_text :: "'v rapidjson \<Rightarrow> 'v \<Rightarrow> string option" where
  "relay_state_text J v =
     (if rj_is_bool J v then Some (bool_text (rj_get_bool J v))
      else if rj_is_int J v then Some (bool_text (rj_get_int J v \<noteq> 0)) else None)"

definition relay_payload :: "'v pc_env \<Rightarrow> int \<Rightarrow> ui_command \<Rightarrow> int \<Rightarrow> int \<Rightarrow> 'v \<Rightarrow> string list \<Rightarrow> string" where
  "relay_payload E now c slaveId slot states texts =
     jobj (command_head now c ''set_relay'' slaveId slot
       @ [jint ''device_id'' slaveId, jraw ''states'' (jarr texts),
          jraw ''payload'' (jobj [jint ''slot'' slot, jint ''slave_id'' slaveId, jint ''deviceId'' slaveId,
            jraw ''states'' (jsonValueToString E states)])])"

definition relay_states :: "'v rapidjson \<Rightarrow> 'v \<Rightarrow> 'v option" where
  "relay_states J request =
     (case rj_member J request ''states'' of None \<Rightarrow> None
      | Some states \<Rightarrow> if rj_is_array J states \<and> rj_elements J states \<noteq> [] then Some states else None)"

definition handle_relay_command :: "'v pc_env \<Rightarrow> int \<Rightarrow> 'v \<Rightarrow> ui_command \<Rightarrow> PcData \<Rightarrow> PcData option" where
  "handle_relay_command E now doc c W =
     (let J = pe_json E; request = payloadObjectOrRoot J doc;
          slot = getJsonInt J request ''slot'' (root_slot J doc); slaveId = deviceIdFrom J request
      in if uc_seq c \<le> 0 \<or> uc_gateway c = [] \<or> uc_port c = [] \<or> slot < 0 \<or> slaveId \<le> 0
         then Some (refuse_command E now c slaveId ''invalid relay command'' W)
         else case relay_states J request of None \<Rightarrow> Some (refuse_command E now c slaveId ''invalid relay command'' W)
         | Some states \<Rightarrow>
           let topic = makePortCommandTopic (uc_gateway c) (uc_port c)
           in if topic = [] then Some (failGatewayNotRegistered E now c slaveId W)
              else let (going, W) = open_port_command E now c slaveId W
                   in if \<not> going then Some W
                      else map_option (\<lambda>texts. send_command E now c slaveId topic
                             (relay_payload E now c slaveId slot states texts) W)
                           (those (map (relay_state_text J) (rj_elements J states))))"

subsection \<open>Thresholds\<close>

text \<open>The thresholds of a command under one of three names.\<close>

definition threshold_member :: "'v pc_env \<Rightarrow> 'v \<Rightarrow> string list" where
  "threshold_member E v =
     (let J = pe_json E; part = (\<lambda>key. map_option (\<lambda>t. jraw key (jsonValueToString E t)) (member_object J v key))
      in case part ''thresholds'' of Some t \<Rightarrow> [t]
         | None \<Rightarrow> (case part ''threshold_config'' of Some t \<Rightarrow> [t]
           | None \<Rightarrow> (case part ''thresholdConfig'' of Some t \<Rightarrow> [t] | None \<Rightarrow> [])))"

definition threshold_enabled :: "'v rapidjson \<Rightarrow> 'v \<Rightarrow> bool" where
  "threshold_enabled J v = getJsonBoolAny J v [''threshold_enabled'', ''thresholdEnabled''] True"

definition threshold_payload :: "'v pc_env \<Rightarrow> int \<Rightarrow> ui_command \<Rightarrow> int \<Rightarrow> int \<Rightarrow> 'v \<Rightarrow> string" where
  "threshold_payload E now c slaveId slot request =
     (let enabled = jbool ''threshold_enabled'' (threshold_enabled (pe_json E) request); t = threshold_member E request
      in jobj (command_head now c ''set_device_threshold'' slaveId slot @ [enabled] @ t
           @ [jraw ''payload'' (jobj ([jint ''slot'' slot, jint ''slave_id'' slaveId, jint ''deviceId'' slaveId, enabled] @ t))]))"

definition handle_threshold_command :: "'v pc_env \<Rightarrow> int \<Rightarrow> 'v \<Rightarrow> ui_command \<Rightarrow> PcData \<Rightarrow> PcData option" where
  "handle_threshold_command E now doc c W =
     (let J = pe_json E; request = payloadObjectOrRoot J doc;
          slaveId = deviceIdFrom J request;
          slaveId = (if slaveId > 0 then slaveId
                     else case member_object J doc ''device'' of None \<Rightarrow> slaveId | Some v \<Rightarrow> deviceIdFrom J v)
      in case slotFromPortId_or (uc_port c) (getJsonInt J request ''slot'' (root_slot J doc)) of None \<Rightarrow> None
      | Some slot \<Rightarrow>
        if uc_seq c \<le> 0 \<or> slot < 0 \<or> slaveId \<le> 0 \<or> threshold_member E request = []
        then Some (refuse_command E now c slaveId ''slot, slave_id and thresholds are required'' W)
        else let topic = makePortCommandTopic (uc_gateway c) (uc_port c)
             in if topic = [] then Some (failGatewayNotRegistered E now c slaveId W)
                else let (going, W) = open_port_command E now c slaveId W
                     in Some (if going then send_command E now c slaveId topic
                                (threshold_payload E now c slaveId slot request) W else W))"

subsection \<open>Devices\<close>

text \<open>Of a device to add: its type, its poll interval, and its options.\<close>

definition add_options :: "'v pc_env \<Rightarrow> 'v \<Rightarrow> string \<times> int \<times> string list" where
  "add_options E doc =
     (let J = pe_json E; request = payloadObjectOrRoot J doc; device = member_object J doc ''device'';
          kind = (case device of None \<Rightarrow> [] | Some v \<Rightarrow> getJsonStringAny J v [''deviceType'', ''device_type'']);
          kind = nonempty_or kind (getJsonStringAny J request [''deviceType'', ''device_type''])
      in (nonempty_or kind ''sensor_th'',
          case device of None \<Rightarrow> 1000 | Some v \<Rightarrow> getJsonIntAny J v [''pollIntervalMs'', ''poll_interval_ms''] 1000,
          case device of None \<Rightarrow> []
          | Some v \<Rightarrow> (case member_object J v ''device_options'' of None \<Rightarrow> []
             | Some opts \<Rightarrow> [jraw ''device_options'' (jsonValueToString E opts)])))"

definition device_payload :: "'v pc_env \<Rightarrow> int \<Rightarrow> 'v \<Rightarrow> ui_command \<Rightarrow> int \<Rightarrow> int \<Rightarrow> string" where
  "device_payload E now doc c deviceId slot =
     (let adding = (uc_kind c = ''add_device''); (kind, poll, options) = add_options E doc;
          t = threshold_member E doc;
          polls = [jint ''poll_interval_ms'' poll, jint ''pollIntervalMs'' poll];
          kinds = [jtext ''device_type'' kind, jtext ''deviceType'' kind];
          device = [jint ''slave_id'' deviceId, jint ''deviceId'' deviceId, jint ''slaveAddress'' deviceId]
            @ kinds @ polls @ options;
          top = (if \<not> adding then []
                 else [jtext ''device_type'' kind, jint ''poll_interval_ms'' poll, jraw ''device'' (jobj device)]
                   @ (if t = [] then [] else jbool ''threshold_enabled'' (threshold_enabled (pe_json E) doc) # t));
          inner = [jint ''slot'' slot, jint ''slave_id'' deviceId, jint ''deviceId'' deviceId]
            @ (if adding then kinds @ polls @ t else [])
      in jobj (command_head now c (uc_kind c) deviceId slot @ top @ [jraw ''payload'' (jobj inner)]))"

definition command_device :: "'v rapidjson \<Rightarrow> 'v \<Rightarrow> int" where
  "command_device J doc =
     (let d = (case member_object J doc ''device'' of None \<Rightarrow> 0 | Some v \<Rightarrow> deviceIdFrom J v)
      in if d > 0 then d else deviceIdFrom J (payloadObjectOrRoot J doc))"

definition handle_device_command :: "'v pc_env \<Rightarrow> int \<Rightarrow> 'v \<Rightarrow> ui_command \<Rightarrow> PcData \<Rightarrow> PcData option" where
  "handle_device_command E now doc c W =
     (let J = pe_json E; deviceId = command_device J doc
      in if uc_seq c \<le> 0 \<or> deviceId \<le> 0
         then Some (refuse_command E now c deviceId ''deviceId or slave_id is required'' W)
         else let topic = makePortCommandTopic (uc_gateway c) (uc_port c)
              in if topic = [] then Some (failGatewayNotRegistered E now c deviceId W)
                 else let (going, W) = open_port_command E now c deviceId W
                      in if \<not> going then Some W
                         else map_option (\<lambda>slot. send_command E now c deviceId topic
                                (device_payload E now doc c deviceId slot) W)
                              (slotFromPortId_or (uc_port c) (root_slot J doc)))"

subsection \<open>Commands to a gateway\<close>

definition gateway_payload :: "'v pc_env \<Rightarrow> 'v \<Rightarrow> ui_command \<Rightarrow> string" where
  "gateway_payload E doc c =
     (let part = (\<lambda>key. case rj_member (pe_json E) doc key of None \<Rightarrow> [] | Some v \<Rightarrow> [jraw key (jsonValueToString E v)])
      in jobj ([jtext ''type'' ''command'', jtext ''cmd'' (uc_kind c), jtext ''cmd_id'' (uc_id c),
           jint ''seq'' (uc_boardSeq c), jtext ''cmdType'' (uc_kind c), jtext ''commandType'' (uc_kind c),
           jtext ''gatewayId'' (uc_gateway c)]
         @ opt (uc_port c \<noteq> []) (jtext ''portId'' (uc_port c)) @ part ''target'' @ part ''payload''))"

definition handle_gateway_command :: "'v pc_env \<Rightarrow> int \<Rightarrow> 'v \<Rightarrow> ui_command \<Rightarrow> PcData \<Rightarrow> PcData" where
  "handle_gateway_command E now doc c W =
     (if uc_gateway c = [] then refuse_command E now c 0 ''gateway id is required'' W
      else let topic = commandTopicFor (uc_kind c) (uc_gateway c) (uc_port c)
           in if topic = [] then failGatewayNotRegistered E now c 0 W
              else send_command E now c 0 topic (gateway_payload E doc c) (log_command E now c 0 W))"

subsection \<open>The handler\<close>

definition no_command :: ui_command where
  "no_command = \<lparr>uc_id = [], uc_kind = [], uc_gateway = [], uc_port = [], uc_seq = 0\<rparr>"

definition bad_target :: "ui_command \<Rightarrow> bool" where
  "bad_target c \<longleftrightarrow> uc_id c = [] \<or> uc_gateway c = [] \<or> (\<not> isGatewayCommand (uc_kind c) \<and> uc_port c = [])"

definition handle_command :: "'v pc_env \<Rightarrow> int \<Rightarrow> string \<Rightarrow> PcData \<Rightarrow> PcData option" where
  "handle_command E now msg W =
     (case parse_object (pe_json E) msg of
        None \<Rightarrow> let c = no_command\<lparr>uc_id := extractJsonStringValue msg ''cmd_id''\<rparr>
                in Some (answer_command E now c 0 False ''unsupported_command'' ''done'' ''unsupported command'' 0 W)
      | Some doc \<Rightarrow>
        let c = read_command (pe_json E) msg doc
        in if \<not> isRemoteCommandAllowed (uc_kind c)
           then Some (answer_command E now c (uc_seq c) False ''unsupported_command'' ''done'' ''unsupported command'' 0 W)
           else if bad_target c
           then Some (answer_command E now c (uc_seq c) False ''invalid_request'' ''done''
                  ''gatewayId, seq, cmd_id and portId for port commands are required'' 0 W)
           else if uc_kind c = ''set_relay'' then handle_relay_command E now doc c W
           else if uc_kind c = ''set_device_threshold'' \<or> uc_kind c = ''set_threshold''
           then handle_threshold_command E now doc c W
           else if uc_kind c = ''add_device'' \<or> uc_kind c = ''remove_device''
           then handle_device_command E now doc c W
           else Some (handle_gateway_command E now doc c W))"

text \<open>Requests that are recognised by a word anywhere in their text, and commands.\<close>

definition mentions :: "string \<Rightarrow> string \<Rightarrow> bool" where
  "mentions msg word \<longleftrightarrow> find_text word msg \<noteq> None"

definition handle_plain :: "'v pc_env \<Rightarrow> int \<Rightarrow> string \<Rightarrow> PcData \<Rightarrow> PcData option" where
  "handle_plain E now msg W =
     (if mentions msg ''get_gateway_status'' then Some (sendGatewayStatusSnapshot E W)
      else if mentions msg ''get_port_status'' then Some (sendPortStatusSnapshot E W)
      else if mentions msg ''get_devices'' then Some (sendDevicesSnapshot E W)
      else if mentions msg ''get_latest_points'' \<or> mentions msg ''get_snapshot'' then Some (sendLatestPoints E W)
      else if mentions msg (jtext ''type'' ''command'') \<or> mentions msg (jtext ''msg_type'' ''command'')
      then handle_command E now msg W
      else Some (ui_tell E (buildCommandAckJson now [] False ''unsupported_command'' 0 ''unsupported'' ''done''
             ''unsupported command'' 0 [] [] 0) W))"

definition ipc_handle :: "'v pc_env \<Rightarrow> int \<Rightarrow> string \<Rightarrow> PcData \<Rightarrow> PcData option" where
  "ipc_handle E now msg W =
     (let J = pe_json E; D = pe_db E; targets = parseSyncConfigRequest J msg
      in if targets \<noteq> [] then Some (handle_sync_request E now targets W)
         else if isSyncConfigRequest J msg then Some (refuse_sync E W)
         else case parseHistoryQuery J msg of
           Some (pointId, startMs, endMs, limit) \<Rightarrow> Some (handle_history E pointId startMs endMs limit W)
         | None \<Rightarrow> case typed_object J ''query_history'' msg of Some doc \<Rightarrow> Some (handle_bad_history E doc W)
         | None \<Rightarrow> if parseGetAlarmEventsRequest J msg then Some (handle_get_alarms E W)
           else case parseAckAlarmRequest J msg of
             Some alarmId \<Rightarrow> Some (handle_alarm_action E now ''ack_alarm'' alarmId (acknowledgeAlarm D now alarmId now) W)
           | None \<Rightarrow> case parseDeleteDeviceRequest J msg of Some (g, p, d) \<Rightarrow> Some (handle_delete_device E now g p d W)
           | None \<Rightarrow> case parseDeleteMasterRequest J msg of Some (g, p) \<Rightarrow> Some (handle_delete_master E now g p W)
           | None \<Rightarrow> if parseClearRecoveredAlarmsRequest J msg
             then Some (handle_alarm_action E now ''clear_recovered_alarms'' [] (clearRecoveredAlarms D) W)
             else if parseClearAcknowledgedAlarmsRequest J msg
             then Some (handle_alarm_action E now ''clear_acknowledged_alarms'' [] (clearAcknowledgedAlarms D) W)
             else if parseClearAllDataRequest J msg then Some (handle_clear_all E now W)
             else if parseGetMqttConfigRequest J msg then Some (handle_get_mqtt E W)
             else case parseSaveMqttConfigRequest J (pw_config W) msg of
               Some (requested, reason) \<Rightarrow> Some (handle_save_mqtt E requested reason W)
             | None \<Rightarrow> handle_plain E now msg W)"

end
