(* ===== verification/PcTelemetry.thy ===== *)
theory PcTelemetry
  imports PcHandler ServiceTelemetry
begin

text \<open>
  The way of a telemetry pack through Pc_data/mqtt/MqttMessageHandler.cpp: the queue that
  \<open>handle\<close> fills, the worker that filters a pack and hands it to the service, the writer of the
  database, and the publisher of the latest points.  Each round of a worker's loop is one step.
\<close>

subsection \<open>The queue\<close>

definition enqueueTelemetry :: "string \<Rightarrow> string \<Rightarrow> PcData \<Rightarrow> PcData" where
  "enqueueTelemetry topic payload W =
     (let q = pw_telemetryQueue W;
          q = (if length q \<ge> kMaxTelemetryQueueSize then tl q else q)
      in W\<lparr>pw_telemetryQueue := q @ [(topic, payload)]\<rparr>)"

subsection \<open>Filtering a pack\<close>

text \<open>A configuration is asked for at most every five seconds per port.\<close>

definition unknown_device :: "'v pc_env \<Rightarrow> int \<Rightarrow> string \<Rightarrow> string \<Rightarrow> PcData \<Rightarrow> PcData" where
  "unknown_device E now gatewayId portId W =
     (let key = gatewayId @ ''/'' @ portId;
          due = (case um_find (pw_lastConfigRequest W) key of None \<Rightarrow> True
                 | Some t \<Rightarrow> now - t \<ge> kUnknownTelemetryConfigRequestIntervalMs)
      in if due
         then snd (publishConfigSnapshotRequest E now gatewayId
                (W\<lparr>pw_lastConfigRequest := um_set key now (pw_lastConfigRequest W)\<rparr>))
         else W)"

text \<open>What the loop over the devices of a pack collects: the type of every accepted device, the keys
  of its points, and the devices themselves.\<close>

record intake =
  in_types :: "(string, string) umap"
  in_keys :: "(string, string list) umap"
  in_devices :: "DeviceData list"

definition intake_start :: intake where
  "intake_start = \<lparr>in_types = um_empty, in_keys = um_empty, in_devices = []\<rparr>"

definition raw_keys :: "intake \<Rightarrow> string \<Rightarrow> string list" where
  "raw_keys i key = (case um_find (in_keys i) key of None \<Rightarrow> [] | Some ks \<Rightarrow> ks)"

definition intake_accept :: "TelemetryPack \<Rightarrow> string \<Rightarrow> DeviceData \<Rightarrow> intake \<Rightarrow> intake" where
  "intake_accept pack registeredType device i =
     (let key = mh_deviceKey (sc_portId (pk_site pack)) (dd_deviceId device);
          keys = map (\<lambda>p. normalizeTelemetryPointKey (tp_pointKey p))
                   (toTelemetryPoints (pack\<lparr>pk_devices := [device]\<rparr>))
      in i\<lparr>in_types := um_set key (nonempty_or registeredType (deviceTypeToString (dd_type device))) (in_types i),
           in_keys := (if keys = [] then in_keys i else um_set key (raw_keys i key @ keys) (in_keys i)),
           in_devices := in_devices i @ [device]\<rparr>)"

definition intake_device :: "'v pc_env \<Rightarrow> int \<Rightarrow> TelemetryPack \<Rightarrow> intake \<times> PcData \<Rightarrow> DeviceData \<Rightarrow> intake \<times> PcData" where
  "intake_device E now pack = (\<lambda>(i, W) device.
     (let g = sc_gatewayId (pk_site pack); p = sc_portId (pk_site pack); d = dd_deviceId device
      in if g = [] \<or> p = [] \<or> d \<le> 0 then (i, W)
         else let (removed, W) = in_service (isRemovedDevice now g p d) W
              in if removed then (i, W)
                 else if \<not> deviceRegistered g p d (pw_service W) then (i, unknown_device E now g p W)
                 else let registeredType = registeredDeviceType g p d (pw_service W)
                      in if \<not> deviceTypesMatch registeredType (deviceTypeToString (dd_type device)) then (i, W)
                         else (intake_accept pack registeredType device i, W)))"

definition point_accepted :: "intake \<Rightarrow> PcDataService \<Rightarrow> TelemetryPoint \<Rightarrow> bool" where
  "point_accepted i s point \<longleftrightarrow>
     (let key = mh_deviceKey (tp_portId point) (tp_deviceId point);
          deviceType = (case um_find (in_types i) key of None \<Rightarrow> tp_deviceType point | Some t \<Rightarrow> t);
          pointKey = normalizeTelemetryPointKey (tp_pointKey point)
      in \<not> (raw_keys i key \<noteq> [] \<and> pointKey \<notin> set (raw_keys i key))
         \<and> (pointConfigRegistered (tp_gatewayId point) (tp_portId point) (tp_deviceId point) pointKey s
            \<or> isDefaultTelemetryPointKey deviceType pointKey))"

definition received_points :: "TelemetryPack \<Rightarrow> intake \<Rightarrow> PcDataService \<Rightarrow> TelemetryPoint list" where
  "received_points pack i s = filter (point_accepted i s) (toTelemetryPoints (pack\<lparr>pk_devices := in_devices i\<rparr>))"

subsection \<open>The worker\<close>

definition enqueueTelemetryStorage :: "TelemetryPoint list \<Rightarrow> PcData \<Rightarrow> PcData" where
  "enqueueTelemetryStorage points W =
     W\<lparr>pw_pendingDb := foldl (\<lambda>m p. if tp_pointId p = [] then m else um_set (tp_pointId p) p m) (pw_pendingDb W) points\<rparr>"

definition markLatestPointsDirty :: "PcData \<Rightarrow> PcData" where
  "markLatestPointsDirty W = W\<lparr>pw_latestDirty := True\<rparr>"

text \<open>The pack as far as it is read: it parses, and names the gateway and the port of its topic.\<close>

definition addressed_pack :: "'v rapidjson \<Rightarrow> int \<Rightarrow> string \<Rightarrow> string \<Rightarrow> TelemetryPack option" where
  "addressed_pack J now topic payload =
     (case TelemetryPackParser_parseJson J now payload of Inl _ \<Rightarrow> None
      | Inr pack \<Rightarrow>
        (case parsePortUpTopic topic of None \<Rightarrow> None
         | Some (topicGatewayId, topicPortId) \<Rightarrow>
           let g = sc_gatewayId (pk_site pack); p = sc_portId (pk_site pack)
           in if g = [] \<or> p = [] \<or> g \<noteq> topicGatewayId \<or> p \<noteq> topicPortId then None else Some pack))"

definition handleTelemetryMessage :: "'v pc_env \<Rightarrow> int \<Rightarrow> string \<Rightarrow> string \<Rightarrow> PcData \<Rightarrow> PcData" where
  "handleTelemetryMessage E now topic payload W =
     (case addressed_pack (pe_json E) now topic payload of None \<Rightarrow> W
      | Some pack \<Rightarrow>
        let g = sc_gatewayId (pk_site pack); p = sc_portId (pk_site pack)
        in if \<not> gatewayRegistered g (pw_service W) \<or> \<not> portRegistered g p (pw_service W) then W
           else let (i, W) = foldl (intake_device E now pack) (intake_start, W) (pk_devices pack);
                    points = received_points pack i (pw_service W);
                    W = do_service (handleTelemetryPoints now points) W
                in markLatestPointsDirty (enqueueTelemetryStorage points W))"

definition telemetryWorker :: "'v pc_env \<Rightarrow> int \<Rightarrow> PcData \<Rightarrow> PcData" where
  "telemetryWorker E now W =
     (case pw_telemetryQueue W of [] \<Rightarrow> W
      | (topic, payload) # rest \<Rightarrow> handleTelemetryMessage E now topic payload (W\<lparr>pw_telemetryQueue := rest\<rparr>))"

subsection \<open>The writer and the publisher\<close>

definition dbWriter :: "'v pc_env \<Rightarrow> int \<Rightarrow> PcData \<Rightarrow> PcData" where
  "dbWriter E now W =
     (let points = um_values (pw_pendingDb W); W = W\<lparr>pw_pendingDb := um_empty\<rparr>
      in if points = [] then W else db_note (saveTelemetryPoints (pe_db E) now points) W)"

definition latestPublisher :: "'v pc_env \<Rightarrow> PcData \<Rightarrow> PcData" where
  "latestPublisher E W =
     (if \<not> pw_latestDirty W then W
      else let W = W\<lparr>pw_latestDirty := False\<rparr>
           in if \<not> ui_hasClient W then W
              else let (ok, W) = ui_send E (buildLatestPointsJson (getLatestPoints (pw_service W))) W
                   in if ok then W else markLatestPointsDirty W)"

subsection \<open>The handler\<close>

definition mqtt_handle :: "'v pc_env \<Rightarrow> int \<Rightarrow> string \<Rightarrow> string \<Rightarrow> PcData \<Rightarrow> PcData" where
  "mqtt_handle E now topic payload W =
     (let kind = extractJsonStringValue payload ''type''
      in if kind = ''telemetry_pack'' then enqueueTelemetry topic payload W
         else if kind = ''alarm_event'' \<or> kind = ''command'' \<and> extractJsonStringValue payload ''cmd'' = ''emergency''
         then handle_alarm_event E now topic payload W
         else if kind = ''gateway_register'' then handle_gateway_register E now topic payload W
         else if kind = ''gateway_heartbeat'' \<or> kind = ''gateway_status''
         then handle_gateway_status E now (kind = ''gateway_heartbeat'') topic payload W
         else if kind = ''port_register'' then handle_port_register E now topic payload W
         else if kind = ''port_status'' then handle_port_status E now topic payload W
         else if kind = ''ack'' \<or> kind = ''command_ack'' \<or> kind = ''command_result''
         then handle_ack E now topic payload W
         else if kind = ''config_snapshot'' \<or> kind = ''device_config_snapshot''
         then handle_config_snapshot E now kind topic payload W
         else if kind = ''device_register'' then handle_device_register E now topic payload W
         else if kind = ''threshold_config'' then handle_threshold_config E now payload W
         else W)"

end
