(* ===== verification/PcMachine.thy ===== *)
theory PcMachine
  imports PcCommands PcTelemetry PcService
begin

text \<open>
  Pc_data as one machine (Pc_data/main.cpp): start-up, the callbacks, the scan of every second,
  and the rounds of the three workers of the MQTT handler.  Every event runs to its end before the
  next one; the threads of the source may also interleave inside a handler, between two calls on
  the database or the service, which both lock.
\<close>

subsection \<open>Start-up\<close>

text \<open>The registry of the service is filled from the database.\<close>

definition seed_registry :: "'v pc_env \<Rightarrow> int \<Rightarrow> PcData \<Rightarrow> PcData" where
  "seed_registry E now W =
     (if \<not> db_isOpen W then W
      else let D = pe_db E;
               (gateways, W) = in_db (queryGatewayStatuses D) W; W = do_service (updateGatewayStatuses gateways) W;
               (ports, W) = in_db (queryGatewayPorts D) W; W = do_service (rememberGatewayPorts ports) W;
               (devices, W) = in_db (queryDevices D) W; W = do_service (rememberDeviceRegistries devices) W;
               (configs, W) = in_db (queryPointConfigs D) W; W = do_service (rememberPointConfigs configs) W;
               (points, W) = in_db (queryLatestPoints D) W
           in do_service (handleTelemetryPoints now points) W)"

text \<open>Opening and initialising the database, seeding, and the first connection to the broker.
  \<open>dirOk\<close> and \<open>openOk\<close> are the outcomes of creating the directory and opening the file.\<close>

definition pc_start :: "'v pc_env \<Rightarrow> int \<Rightarrow> bool \<Rightarrow> bool \<Rightarrow> PcData \<Rightarrow> PcData" where
  "pc_start E now dirOk openOk W =
     (let D = pe_db E;
          (opened, W) = in_db (openDatabase dirOk openOk) W;
          W = (if opened then snd (in_db (initTables D) W) else W);
          W = seed_registry E now W;
          W = (if db_isOpen W then snd (in_db (deviceCount D) W) else W)
      in snd (mqtt_connect E W))"

subsection \<open>The user interface\<close>

definition hello_json :: string where
  "hello_json = jobj [jtext ''type'' ''hello'', jtext ''message'' ''hello pc_ui'']"

definition ui_connected :: "'v pc_env \<Rightarrow> PcData \<Rightarrow> PcData" where
  "ui_connected E W = in_order [ui_tell E hello_json, send_all_snapshots E] (W\<lparr>pw_ipc := ipc_clientConnected (pw_ipc W)\<rparr>)"

fun handle_messages :: "'v pc_env \<Rightarrow> int \<Rightarrow> string list \<Rightarrow> PcData \<Rightarrow> PcData option" where
  "handle_messages E now [] W = Some W"
| "handle_messages E now (msg # msgs) W =
     (case ipc_handle E now msg W of None \<Rightarrow> None | Some W \<Rightarrow> handle_messages E now msgs W)"

definition ui_received :: "'v pc_env \<Rightarrow> int \<Rightarrow> string \<Rightarrow> PcData \<Rightarrow> PcData option" where
  "ui_received E now bytes W =
     (let (msgs, ipc) = ipc_processReceivedData bytes (pw_ipc W) in handle_messages E now msgs (W\<lparr>pw_ipc := ipc\<rparr>))"

subsection \<open>The scan of every second\<close>

definition offline_scan :: "'v pc_env \<Rightarrow> int \<Rightarrow> PcData \<Rightarrow> PcData" where
  "offline_scan E now W =
     (if \<not> db_isOpen W then W
      else let (changed, W) = in_db (markOfflineDevices (pe_db E) now 30000) W;
               W = (if changed > 0 then when_client (sendDevicesSnapshot E) W else W);
               (stale, W) = in_db (markStaleGateways (pe_db E) now 30000) W
           in if stale > 0 then when_client (sendGatewayStatusSnapshot E) W else W)"

definition timeout_json :: "int \<Rightarrow> string \<Rightarrow> string \<Rightarrow> string \<Rightarrow> PendingCommandTarget \<Rightarrow> string" where
  "timeout_json now status reason message c =
     buildCommandLogUpdateJson now (ct_uiSeq c) (ct_commandType c) status reason message (Some (log_target c)) (ct_boardSeq c)"

definition soft_timeout :: "'v pc_env \<Rightarrow> int \<Rightarrow> PendingCommandTarget \<Rightarrow> PcData \<Rightarrow> PcData" where
  "soft_timeout E now c = when_client (ui_tell E
     (timeout_json now ''waiting'' ''waiting_linux_data_ack'' ''waiting for Linux_data final ack'' c))"

definition hard_timeout :: "'v pc_env \<Rightarrow> int \<Rightarrow> PendingCommandTarget \<Rightarrow> PcData \<Rightarrow> PcData" where
  "hard_timeout E now c W =
     (let message = ''device execution timeout, keep waiting final ack'';
          W = db_note (updateCommandLogByCommandId (pe_db E) (ct_commandId c) ''timeout'' ''linux_data_ack_timeout''
                message now) W
      in when_client (ui_tell E (timeout_json now ''timeout'' ''linux_data_ack_timeout'' message c)) W)"

definition periodic :: "'v pc_env \<Rightarrow> int \<Rightarrow> PcData \<Rightarrow> PcData" where
  "periodic E now W =
     (let W = offline_scan E now W;
          (results, W) = in_service (collectSyncConfigTimeouts now 5000) W;
          W = foldl (\<lambda>W r. when_client (ui_tell E (sync_result_json r)) W) W results;
          (soft, W) = in_service (collectCommandSoftTimeouts now 10000) W;
          W = foldl (\<lambda>W c. soft_timeout E now c W) W soft;
          (hard, W) = in_service (collectCommandHardTimeouts now 30000) W
      in foldl (\<lambda>W c. hard_timeout E now c W) W hard)"

subsection \<open>Events\<close>

datatype pc_event =
    MqttArrived string string
  | UiConnected | UiBytes string | UiClosed
  | TelemetryRound | DbRound | PublishRound | ScanRound
  | BrokerConnected | BrokerRefused | BrokerLost

definition on_mqtt :: "(PcMqtt \<Rightarrow> PcMqtt) \<Rightarrow> PcData \<Rightarrow> PcData" where
  "on_mqtt f W = W\<lparr>pw_mqtt := f (pw_mqtt W)\<rparr>"

fun pc_step :: "'v pc_env \<Rightarrow> int \<Rightarrow> pc_event \<Rightarrow> PcData \<Rightarrow> PcData option" where
  "pc_step E now (MqttArrived topic payload) W = Some (mqtt_handle E now topic payload W)"
| "pc_step E now UiConnected W = Some (ui_connected E W)"
| "pc_step E now (UiBytes bytes) W = ui_received E now bytes W"
| "pc_step E now UiClosed W = Some (W\<lparr>pw_ipc := ipc_closeClient (pw_ipc W)\<rparr>)"
| "pc_step E now TelemetryRound W = Some (telemetryWorker E now W)"
| "pc_step E now DbRound W = Some (dbWriter E now W)"
| "pc_step E now PublishRound W = Some (latestPublisher E W)"
| "pc_step E now ScanRound W = Some (periodic E now W)"
| "pc_step E now BrokerConnected W = Some (on_mqtt (mqtt_onConnectSuccess E) W)"
| "pc_step E now BrokerRefused W = Some (on_mqtt mqtt_onConnectFailure W)"
| "pc_step E now BrokerLost W = Some (on_mqtt mqtt_onConnectionLost W)"

end
