(* ===== verification/PcInv.thy ===== *)
theory PcInv
  imports PcMachine PcDbKeeps
begin

text \<open>
  The invariant of Pc_data and the rules by which it is carried through the handlers: \<open>pres\<close> for
  a step on the state, \<open>holds\<close> for a step with a result.  A handler is taken apart along its
  bindings and branches; what is left are the operations of the database, of the service, of the
  pipe and of the MQTT client.
\<close>

subsection \<open>The invariant\<close>

text \<open>Everything the pipe was given is the beginning of one line, complete unless the pipe cut it off.\<close>

definition line_prefix :: "string \<Rightarrow> bool" where
  "line_prefix w \<longleftrightarrow> (\<exists>m n. one_line m \<and> w = take n (m @ [CHR 0x0A]))"

definition pc_inv :: "'v pc_env \<Rightarrow> int \<Rightarrow> PcData \<Rightarrow> bool" where
  "pc_inv E now W \<longleftrightarrow> (undoes_none (pe_db E) \<longrightarrow> durable_wf (pw_db W)) \<and> svc_inv now (pw_service W)
     \<and> (\<forall>w \<in> set (ip_out (pw_ipc W)). line_prefix w)
     \<and> (\<forall>(topic, payload) \<in> set (mt_sent (pw_mqtt W)). isValidPublishTopic topic)
     \<and> length (pw_telemetryQueue W) \<le> kMaxTelemetryQueueSize
     \<and> (\<forall>k p. um_find (pw_pendingDb W) k = Some p \<longrightarrow> tp_pointId p = k \<and> k \<noteq> [])"

definition pres :: "'v pc_env \<Rightarrow> int \<Rightarrow> (PcData \<Rightarrow> PcData) \<Rightarrow> bool" where
  "pres E now f \<longleftrightarrow> (\<forall>W. pc_inv E now W \<longrightarrow> pc_inv E now (f W))"

definition holds :: "'v pc_env \<Rightarrow> int \<Rightarrow> (PcData \<Rightarrow> 'r \<times> PcData) \<Rightarrow> bool" where
  "holds E now op \<longleftrightarrow> pres E now (\<lambda>W. snd (op W))"

definition svk :: "int \<Rightarrow> (PcDataService \<Rightarrow> PcDataService) \<Rightarrow> bool" where
  "svk now f \<longleftrightarrow> (\<forall>s. svc_inv now s \<longrightarrow> svc_inv now (f s))"

subsection \<open>Bindings and branches\<close>

lemma pres_id: "pres E now (\<lambda>W. W)"
  by (simp add: pres_def)

lemma pres_let: "holds E now op \<Longrightarrow> (\<And>r. pres E now (f r)) \<Longrightarrow> pres E now (\<lambda>W. let (r, W') = op W in f r W')"
  by (simp add: pres_def holds_def case_prod_beta Let_def)

lemma pres_let_state: "pres E now g \<Longrightarrow> pres E now f \<Longrightarrow> pres E now (\<lambda>W. let W' = g W in f W')"
  by (simp add: pres_def Let_def)

lemma pres_let_val: "(\<And>v. pres E now (f v)) \<Longrightarrow> pres E now (\<lambda>W. let v = c W in f v W)"
  by (simp add: pres_def Let_def)

lemma pres_if: "pres E now f \<Longrightarrow> pres E now g \<Longrightarrow> pres E now (\<lambda>W. if b W then f W else g W)"
  by (simp add: pres_def)

lemma pres_option: "pres E now f \<Longrightarrow> (\<And>v. pres E now (g v)) \<Longrightarrow> pres E now (\<lambda>W. case x W of None \<Rightarrow> f W | Some v \<Rightarrow> g v W)"
  by (simp add: pres_def split: option.split)

lemma pres_sum: "(\<And>a. pres E now (f a)) \<Longrightarrow> (\<And>b. pres E now (g b)) \<Longrightarrow> pres E now (\<lambda>W. case x W of Inl a \<Rightarrow> f a W | Inr b \<Rightarrow> g b W)"
  by (simp add: pres_def split: sum.split)

lemma pres_list: "pres E now f \<Longrightarrow> (\<And>a b. pres E now (g a b)) \<Longrightarrow> pres E now (\<lambda>W. case x W of [] \<Rightarrow> f W | a # b \<Rightarrow> g a b W)"
  by (simp add: pres_def split: list.split)

lemma pres_pair: "(\<And>a b. pres E now (f a b)) \<Longrightarrow> pres E now (\<lambda>W. case x W of (a, b) \<Rightarrow> f a b W)"
  by (simp add: pres_def split: prod.split)

lemma pres_pair_fun: "(\<And>a b. pres E now (f a b)) \<Longrightarrow> pres E now (case x of (a, b) \<Rightarrow> f a b)"
  by (simp split: prod.split)

lemma holds_pair_fun: "(\<And>a b. holds E now (f a b)) \<Longrightarrow> holds E now (case x of (a, b) \<Rightarrow> f a b)"
  by (simp split: prod.split)

lemma pres_let_pair: "(\<And>a b. pres E now (f a b)) \<Longrightarrow> pres E now (\<lambda>W. let (a, b) = x W in f a b W)"
  by (simp add: pres_def Let_def split: prod.split)

lemma pres_foldl: "(\<And>x. pres E now (\<lambda>W. f W x)) \<Longrightarrow> pres E now (\<lambda>W. foldl f W xs)"
proof (induction xs)
  case (Cons x xs)
  then have "pres E now (\<lambda>W. f W x)" "pres E now (\<lambda>W. foldl f W xs)" by blast+
  then show ?case by (simp add: pres_def)
qed (simp add: pres_def)

lemma pres_snd: "holds E now op \<Longrightarrow> pres E now (\<lambda>W. snd (op W))"
  by (simp add: holds_def)

lemma holds_let: "holds E now op \<Longrightarrow> (\<And>r. holds E now (f r)) \<Longrightarrow> holds E now (\<lambda>W. let (r, W') = op W in f r W')"
  by (simp add: pres_def holds_def case_prod_beta Let_def)

lemma holds_let_state: "pres E now g \<Longrightarrow> holds E now f \<Longrightarrow> holds E now (\<lambda>W. let W' = g W in f W')"
  by (simp add: pres_def holds_def Let_def)

lemma holds_let_val: "(\<And>v. holds E now (f v)) \<Longrightarrow> holds E now (\<lambda>W. let v = c W in f v W)"
  by (simp add: pres_def holds_def Let_def)

lemma holds_if: "holds E now f \<Longrightarrow> holds E now g \<Longrightarrow> holds E now (\<lambda>W. if b W then f W else g W)"
  by (simp add: pres_def holds_def)

lemma holds_option:
  "holds E now f \<Longrightarrow> (\<And>v. holds E now (g v)) \<Longrightarrow> holds E now (\<lambda>W. case x W of None \<Rightarrow> f W | Some v \<Rightarrow> g v W)"
  by (simp add: pres_def holds_def split: option.split)

lemma holds_pair: "(\<And>a b. holds E now (f a b)) \<Longrightarrow> holds E now (\<lambda>W. case x W of (a, b) \<Rightarrow> f a b W)"
  by (simp add: pres_def holds_def split: prod.split)

lemma holds_ret: "pres E now f \<Longrightarrow> holds E now (\<lambda>W. (c W, f W))"
  by (simp add: holds_def)

lemmas pres_rules = pres_let_state holds_let_state pres_let holds_let pres_let_pair pres_let_val holds_let_val
  pres_if holds_if pres_option holds_option pres_sum pres_list pres_pair holds_pair pres_pair_fun holds_pair_fun pres_id

subsection \<open>The parts of the state\<close>

lemma holds_in_db: "keeps (pe_db E) op \<Longrightarrow> holds E now (in_db op)"
  by (simp add: holds_def pres_def pc_inv_def in_db_def keeps_def hoare_def case_prod_beta Let_def)

lemma holds_db_try: "keeps (pe_db E) op \<Longrightarrow> holds E now (db_try op)"
  using holds_in_db [of E op now] by (simp add: holds_def pres_def db_try_def)

lemma pres_db_note: "keeps (pe_db E) op \<Longrightarrow> pres E now (db_note op)"
  using holds_db_try [of E op now] by (simp add: holds_def pres_def db_note_def)

lemma holds_in_service: "svk now (\<lambda>s. snd (f s)) \<Longrightarrow> holds E now (in_service f)"
  by (simp add: holds_def pres_def pc_inv_def in_service_def svk_def case_prod_beta Let_def)

lemma pres_do_service: "svk now f \<Longrightarrow> pres E now (do_service f)"
  by (simp add: pres_def pc_inv_def do_service_def svk_def)

lemma svk_comp: "svk now f \<Longrightarrow> svk now g \<Longrightarrow> svk now (f \<circ> g)"
  by (simp add: svk_def)

lemma svk_foldl: "(\<And>x. svk now (\<lambda>s. f s x)) \<Longrightarrow> svk now (\<lambda>s. foldl f s xs)"
proof (induction xs)
  case (Cons x xs)
  then have "svk now (\<lambda>s. f s x)" "svk now (\<lambda>s. foldl f s xs)" by blast+
  then show ?case by (simp add: svk_def)
qed (simp add: svk_def)

lemma svk_exec: "svk now (svc_exec now e)"
  using svc_exec_inv by (simp add: svk_def)

text \<open>Every operation of the service is one of its events.\<close>

lemma svk_ops:
  "svk now (updateDeviceRegistry ds)" "svk now (updateGatewayPorts ps)" "svk now (updateGatewayStatuses gs)"
  "svk now (updatePointConfigs cs)" "svk now (rememberGatewayRegistry r)" "svk now (rememberGatewayPorts ps)"
  "svk now (rememberDeviceRegistries ds)" "svk now (rememberPointConfigs cs)"
  "svk now (replaceGatewayRegistry g ps ds cs full)" "svk now (handleTelemetryPoints now tps)"
  "svk now (forgetRemovedDevice now g p d)" "svk now (rememberPendingCommand c)" "svk now svc_clear"
  "svk now (\<lambda>s. snd (removeDeviceData now g p d s))" "svk now (\<lambda>s. snd (removeMasterData now g p s))"
  "svk now (\<lambda>s. snd (isRemovedDevice now g p d s))" "svk now (\<lambda>s. snd (beginSyncConfigRequest now ts s))"
  "svk now (\<lambda>s. snd (completeSyncConfig q ok m pc dc s))" "svk now (\<lambda>s. snd (collectSyncConfigTimeouts now t s))"
  "svk now (\<lambda>s. snd (takePendingCommand k s))" "svk now (\<lambda>s. snd (collectCommandSoftTimeouts now t s))"
  "svk now (\<lambda>s. snd (collectCommandHardTimeouts now t s))"
  using svk_exec [of now "EvDevices ds"] svk_exec [of now "EvPorts ps"] svk_exec [of now "EvStatuses gs"]
    svk_exec [of now "EvConfigs cs"] svk_exec [of now "EvRememberGateway r"] svk_exec [of now "EvRememberPorts ps"]
    svk_exec [of now "EvRememberDevices ds"] svk_exec [of now "EvRememberConfigs cs"]
    svk_exec [of now "EvReplaceRegistry g ps ds cs full"] svk_exec [of now "EvTelemetry tps"]
    svk_exec [of now "EvForgetRemoved g p d"] svk_exec [of now "EvRememberCommand c"] svk_exec [of now EvClear]
    svk_exec [of now "EvRemoveDevice g p d"] svk_exec [of now "EvRemoveMaster g p"] svk_exec [of now "EvIsRemoved g p d"]
    svk_exec [of now "EvBeginSync ts"] svk_exec [of now "EvCompleteSync q ok m pc dc"]
    svk_exec [of now "EvSyncTimeouts now t"] svk_exec [of now "EvTakeCommand k"] svk_exec [of now "EvSoftTimeouts now t"]
    svk_exec [of now "EvHardTimeouts now t"]
  by (simp_all add: svk_def)

lemma svk_single:
  "svk now (updateGatewayPort p)" "svk now (updateGatewayStatus g)" "svk now (updatePointConfig c)"
  "svk now (rememberCommand t u d)"
  by (simp_all add: updateGatewayPort_def updateGatewayStatus_def updatePointConfig_def rememberCommand_def svk_ops)

lemma svk_let: "svk now f \<Longrightarrow> svk now g \<Longrightarrow> svk now (\<lambda>s. let s' = f s in g s')"
  by (simp add: svk_def)

lemma svk_if: "svk now f \<Longrightarrow> svk now g \<Longrightarrow> svk now (\<lambda>s. if b then f s else g s)"
  by (simp add: svk_def)

lemma svk_id: "svk now (\<lambda>s. s)"
  by (simp add: svk_def)

lemma svk_settle: "svk now (settle_snapshot now hasPending full g devices before)"
  unfolding settle_snapshot_def by (intro svk_let svk_if svk_foldl svk_ops svk_id)

lemmas svk_rules = svk_ops svk_single svk_settle svk_comp

lemma ui_send_inv:
  assumes "one_line m" "pc_inv E now W"
  shows "pc_inv E now (snd (ui_send E m W))"
proof -
  have "line_prefix (take n (m @ [CHR 0x0A]))" for n using assms(1) unfolding line_prefix_def by blast
  then show ?thesis using assms(2)
    by (auto simp: pc_inv_def ui_send_def ipc_sendMessage_def Let_def case_prod_beta split: pipe_write.split)
qed

lemma holds_ui_send: "(\<And>W. one_line (m W)) \<Longrightarrow> holds E now (\<lambda>W. ui_send E (m W) W)"
  unfolding holds_def pres_def by (intro allI impI ui_send_inv)

lemma pres_tell: "(\<And>W. one_line (m W)) \<Longrightarrow> pres E now (\<lambda>W. ui_tell E (m W) W)"
  unfolding ui_tell_def pres_def by (intro allI impI ui_send_inv)

lemma holds_broker: "holds E now (broker_send E topic payload)"
  by (auto simp: holds_def pres_def pc_inv_def broker_send_def mqtt_publish_def Let_def case_prod_beta isValidPublishTopic_def)

lemma pres_when_client: "pres E now f \<Longrightarrow> pres E now (when_client f)"
  by (simp add: pres_def when_client_def)

lemma pres_in_order: "list_all (pres E now) fs \<Longrightarrow> pres E now (in_order fs)"
proof (induction fs)
  case (Cons f fs)
  then have "pres E now f" "pres E now (in_order fs)" by simp_all
  then show ?case by (simp add: pres_def in_order_def)
qed (simp add: pres_def in_order_def)

lemma pc_inv_later: "pc_inv E t W \<Longrightarrow> t \<le> now \<Longrightarrow> pc_inv E now W"
proof -
  assume "pc_inv E t W" "t \<le> now"
  moreover have "svc_inv now s" if "svc_inv t s" "t \<le> now" for s
    using that by (fastforce simp: svc_inv_def snap_wf_def)
  ultimately show ?thesis by (simp add: pc_inv_def)
qed

end
