(* ===== verification/PcInvHandlers.thy ===== *)
theory PcInvHandlers
  imports PcInv
begin

text \<open>Every handler of Pc_data keeps the invariant: one lemma per handler, by the rules of \<open>PcInv\<close>.\<close>

subsection \<open>Rules for nested steps\<close>

lemma pres_comp: "pres E now h \<Longrightarrow> pres E now g \<Longrightarrow> pres E now (\<lambda>W. h (g W))"
  by (simp add: pres_def)

lemma tell_at: "(\<And>W. one_line (m W)) \<Longrightarrow> pres E now g \<Longrightarrow> pres E now (\<lambda>W. ui_tell E (m W) (g W))"
  unfolding ui_tell_def pres_def by (intro allI impI ui_send_inv) blast+

lemmas base_at = pres_when_client [THEN pres_comp] pres_in_order [THEN pres_comp] pres_do_service [THEN pres_comp]
  pres_db_note [THEN pres_comp]
  holds_in_service [unfolded holds_def, THEN pres_comp] holds_in_db [unfolded holds_def, THEN pres_comp]
  tell_at

lemmas base_rules = holds_in_db holds_db_try pres_db_note holds_in_service pres_do_service holds_ui_send pres_tell
  holds_broker pres_when_client

lemmas read_keeps = db_reads [THEN reads_keeps]

lemma accept_config_reads: "reads D (accept_config D c)"
  using deviceExists_reads [of D "pc_gatewayId c" "pc_portId c" "pc_deviceId c"]
    queryDeviceType_reads [of D "pc_gatewayId c" "pc_portId c" "pc_deviceId c"]
    pointConfigExists_reads [of D "pc_gatewayId c" "pc_portId c" "pc_deviceId c"]
  by (simp add: reads_def accept_config_def Let_def case_prod_beta)

lemma accepted_configs_reads: "reads D (accepted_configs D cs)"
proof (induction cs)
  case (Cons c cs)
  then show ?case using accept_config_reads [of D c] by (simp add: reads_def Let_def case_prod_beta)
qed (simp add: reads_def)

lemmas keep_rules = db_keeps read_keeps accepted_configs_reads [THEN reads_keeps] keeps_each

lemma one_lines [simp]:
  "one_line (sync_result_json r)" "one_line (timeout_json now s a b c)" "one_line hello_json"
  by (simp_all add: sync_result_json_def timeout_json_def hello_json_def messages_one_line)

declare messages_one_line [simp] buildAlarmEventJson_one_line [simp]

subsection \<open>Snapshots and acknowledgements\<close>

lemma snapshots_pres: "pres E now (sendLatestPoints E)" "pres E now (sendDevicesSnapshot E)"
    "pres E now (sendGatewayStatusSnapshot E)" "pres E now (sendPortStatusSnapshot E)"
  unfolding sendLatestPoints_def sendDevicesSnapshot_def sendGatewayStatusSnapshot_def sendPortStatusSnapshot_def
  by (rule pres_tell, simp)+

lemma in_order_pres: "list_all (pres E now) fs \<Longrightarrow> pres E now g \<Longrightarrow> pres E now (\<lambda>W. in_order fs (g W))"
  by (rule pres_comp [OF pres_in_order])

lemma send_all_pres: "pres E now (send_all_snapshots E)"
  unfolding send_all_snapshots_def by (rule pres_in_order) (simp add: snapshots_pres)

lemma publishConfigSnapshotRequest_holds: "holds E now (publishConfigSnapshotRequest E t g)"
  unfolding publishConfigSnapshotRequest_def by (rule pres_rules base_rules holds_ret)+

lemma publishRegisterAck_holds: "holds E now (publishRegisterAck E t k q ok g p v r m ret a b d)"
  unfolding publishRegisterAck_def by (rule pres_rules base_rules holds_ret)+

lemma register_ack_pres: "pres E now (register_ack E t k q ok g p v r m ret)"
  unfolding register_ack_def by (rule pres_snd) (rule publishRegisterAck_holds)

lemmas ack_rules = register_ack_pres publishRegisterAck_holds [THEN pres_snd] publishConfigSnapshotRequest_holds [THEN pres_snd]
lemmas ack_at = ack_rules [THEN pres_comp] snapshots_pres [THEN pres_comp]

lemma sendDevicesSnapshotWithPendingDevice_pres: "pres E now (sendDevicesSnapshotWithPendingDevice E t c)"
  unfolding sendDevicesSnapshotWithPendingDevice_def
  by (rule pres_rules base_rules holds_ret keep_rules | simp)+

subsection \<open>Messages of the boards\<close>

lemma handle_alarm_event_pres: "pres E now (handle_alarm_event E t topic payload)"
  unfolding handle_alarm_event_def
  by (rule pres_rules base_rules keep_rules | simp)+

lemma handle_gateway_register_pres: "pres E now (handle_gateway_register E t topic payload)"
  unfolding handle_gateway_register_def Let_def [of "pe_db E"]
  by (rule pres_rules base_rules ack_rules keep_rules svk_rules holds_ret pres_in_order | simp add: snapshots_pres)+

lemma handle_gateway_status_pres: "pres E now (handle_gateway_status E t hb topic payload)"
  unfolding handle_gateway_status_def Let_def [of "pe_db E"]
  by (rule pres_rules base_rules base_at keep_rules svk_rules holds_ret snapshots_pres)+

lemma handle_port_register_pres: "pres E now (handle_port_register E t topic payload)"
  unfolding handle_port_register_def
  by (rule pres_rules base_rules base_at ack_rules keep_rules svk_rules snapshots_pres)+

lemma handle_port_status_pres: "pres E now (handle_port_status E t topic payload)"
  unfolding handle_port_status_def
  by (rule pres_rules base_rules base_at ack_rules keep_rules svk_rules snapshots_pres holds_ret)+

lemma ack_to_ui_pres: "pres E now (ack_to_ui E t fin seq kind c outcome)"
  unfolding ack_to_ui_def
  by (rule pres_rules base_rules sendDevicesSnapshotWithPendingDevice_pres | simp)+

lemma ack_removed_holds: "holds E now (ack_removed E now kind c outcome)"
  unfolding ack_removed_def
  by (rule pres_rules base_rules base_at keep_rules svk_rules holds_ret pres_in_order | simp add: snapshots_pres)+

lemma ack_added_pres: "pres E now (ack_added E now kind c status)"
  unfolding ack_added_def
  by (rule pres_rules base_rules ack_rules keep_rules svk_rules pres_in_order | simp add: snapshots_pres)+

lemma ack_matched_pres: "pres E now (ack_matched E now doc c)"
  unfolding ack_matched_def
  by (rule ack_to_ui_pres ack_removed_holds ack_added_pres pres_rules base_rules keep_rules | simp)+

lemma handle_ack_pres: "pres E now (handle_ack E now topic payload)"
  unfolding handle_ack_def
  by (rule pres_rules base_rules svk_rules ack_matched_pres holds_ret)+

lemma save_snapshot_holds: "holds E now (save_snapshot E t hp request cf full)"
  unfolding save_snapshot_def Let_def [of "pe_db E"] by (rule pres_rules base_rules keep_rules)+

lemma store_config_snapshot_holds: "holds E now (store_config_snapshot E now hp request parsed full)"
  unfolding store_config_snapshot_def
  by (rule pres_rules base_rules keep_rules svk_rules save_snapshot_holds holds_ret)+

lemma snapshot_to_ui_pres: "pres E now (snapshot_to_ui E hp seq ok n k)"
  unfolding snapshot_to_ui_def
  by (rule pres_rules base_rules base_at keep_rules svk_rules send_all_pres | simp)+

lemma handle_config_snapshot_pres: "pres E now (handle_config_snapshot E now kind topic payload)"
  unfolding handle_config_snapshot_def
  by (rule store_config_snapshot_holds snapshot_to_ui_pres pres_rules ack_rules)+

lemma register_device_holds: "holds E now (register_device E now d reason)"
  unfolding register_device_def
  by (rule pres_rules base_rules keep_rules svk_rules holds_ret)+

lemma handle_device_register_pres: "pres E now (handle_device_register E now topic payload)"
  unfolding handle_device_register_def
  by (rule register_device_holds pres_rules base_rules ack_rules base_at svk_rules pres_in_order | simp add: snapshots_pres)+

lemma handle_threshold_config_pres: "pres E now (handle_threshold_config E t payload)"
  unfolding handle_threshold_config_def
  by (rule pres_rules base_rules keep_rules pres_foldl svk_rules)+

subsection \<open>Telemetry\<close>

lemma enqueueTelemetry_pres: "pres E now (enqueueTelemetry topic payload)"
  by (simp add: pres_def pc_inv_def enqueueTelemetry_def Let_def kMaxTelemetryQueueSize_def)

lemma request_time_pres: "pres E now (\<lambda>W. W\<lparr>pw_lastConfigRequest := m W\<rparr>)"
  by (simp add: pres_def pc_inv_def)

lemma unknown_device_pres: "pres E now (unknown_device E t g p)"
  unfolding unknown_device_def
  by (rule pres_rules ack_at request_time_pres)+

lemma intake_device_holds: "pres E now (\<lambda>W. snd (intake_device E now pack (i, W) d))"
proof -
  have "holds E now (\<lambda>W. intake_device E now pack (i, W) d)"
    unfolding intake_device_def prod.case
    by (rule pres_rules base_rules svk_rules holds_ret unknown_device_pres)+
  then show ?thesis by (simp add: holds_def)
qed

lemma intake_pres: "pres E now (\<lambda>W. snd (foldl (intake_device E now pack) (i, W) ds))"
proof (induction ds arbitrary: i)
  case Nil
  then show ?case by (simp add: pres_def)
next
  case (Cons d ds)
  have "pc_inv E now (snd (foldl (intake_device E now pack) (i, W) (d # ds)))" if "pc_inv E now W" for W
  proof (cases "intake_device E now pack (i, W) d")
    case (Pair i' W')
    then have "pc_inv E now W'" using intake_device_holds [of E now pack i d] that by (force simp: pres_def)
    then show ?thesis using Cons.IH [of i'] Pair by (simp add: pres_def)
  qed
  then show ?case by (simp add: pres_def)
qed

lemma pending_put:
  assumes "\<forall>k p. um_find m k = Some p \<longrightarrow> tp_pointId p = k \<and> k \<noteq> []"
  shows "um_find (foldl (\<lambda>m p. if tp_pointId p = [] then m else um_set (tp_pointId p) p m) m ps) k = Some p
    \<Longrightarrow> tp_pointId p = k \<and> k \<noteq> []"
  using assms
proof (induction ps arbitrary: m)
  case (Cons q ps)
  show ?case
  proof (rule Cons.IH)
    show "\<forall>k p. um_find (if tp_pointId q = [] then m else um_set (tp_pointId q) q m) k = Some p \<longrightarrow> tp_pointId p = k \<and> k \<noteq> []"
      using Cons.prems(2) by (auto simp: um_find_update split: if_splits)
  qed (use Cons.prems(1) in simp)
qed simp

lemma enqueueTelemetryStorage_pres: "pres E now (enqueueTelemetryStorage points)"
  unfolding pres_def pc_inv_def enqueueTelemetryStorage_def
  by (intro allI impI) (use pending_put in \<open>simp, blast\<close>)

lemma markLatestPointsDirty_pres: "pres E now markLatestPointsDirty"
  by (simp add: pres_def pc_inv_def markLatestPointsDirty_def)

lemma handleTelemetryMessage_pres: "pres E now (handleTelemetryMessage E now topic payload)"
proof -
  have intake: "holds E now (\<lambda>W. foldl (intake_device E now pack) (intake_start, W) ds)" for pack ds
    by (simp add: holds_def intake_pres)
  show ?thesis
    unfolding handleTelemetryMessage_def
    by (rule pres_rules intake base_rules svk_rules markLatestPointsDirty_pres [THEN pres_comp] enqueueTelemetryStorage_pres)+
qed

lemma telemetryWorker_pres: "pres E now (telemetryWorker E now)"
proof -
  have "pres E now (\<lambda>W. W\<lparr>pw_telemetryQueue := tl (pw_telemetryQueue W)\<rparr>)"
    by (auto simp: pres_def pc_inv_def)
  then have "pc_inv E now (W\<lparr>pw_telemetryQueue := rest\<rparr>)" if "pc_inv E now W" "pw_telemetryQueue W = m # rest" for W m rest
    using that by (auto simp: pres_def)
  then show ?thesis
    using handleTelemetryMessage_pres [of E now]
    by (simp add: pres_def telemetryWorker_def split: list.split)
qed

lemma dbWriter_pres: "pres E now (dbWriter E now)"
proof -
  have "pres E now (\<lambda>W. W\<lparr>pw_pendingDb := um_empty\<rparr>)"
    by (simp add: pres_def pc_inv_def lookup_simps)
  then show ?thesis unfolding dbWriter_def
    by (rule_tac pres_let_val, rule_tac pres_let_state) (assumption, (rule pres_rules base_rules keep_rules)+)
qed

lemma latestPublisher_pres: "pres E now (latestPublisher E)"
proof -
  have "pres E now (\<lambda>W. W\<lparr>pw_latestDirty := False\<rparr>)" by (simp add: pres_def pc_inv_def)
  then show ?thesis unfolding latestPublisher_def
    by (rule_tac pres_if, rule_tac pres_id, rule_tac pres_let_state) 
      (assumption, (rule pres_rules base_rules markLatestPointsDirty_pres | simp)+)
qed

lemma mqtt_handle_pres: "pres E now (mqtt_handle E now topic payload)"
  unfolding mqtt_handle_def
  by (rule pres_rules enqueueTelemetry_pres handle_alarm_event_pres handle_gateway_register_pres handle_gateway_status_pres
      handle_port_register_pres handle_port_status_pres handle_ack_pres handle_config_snapshot_pres
      handle_device_register_pres handle_threshold_config_pres)+

subsection \<open>Requests of the user interface\<close>

lemma fail_sync_pres: "pres E now (fail_sync E q reason)"
  unfolding fail_sync_def by (rule pres_rules base_rules svk_rules | simp)+

lemma request_config_pres: "pres E now (request_config E p)"
  unfolding request_config_def by (rule pres_rules base_rules fail_sync_pres)+

lemma refuse_sync_pres: "pres E now (refuse_sync E)"
  unfolding refuse_sync_def by (rule pres_tell) simp

lemma handle_sync_request_pres: "pres E now (handle_sync_request E now targets)"
  unfolding handle_sync_request_def
  by (rule pres_rules base_rules svk_rules refuse_sync_pres pres_foldl request_config_pres)+

lemma handle_history_pres: "pres E now (handle_history E k a b n)"
  unfolding handle_history_def by (rule pres_rules base_rules keep_rules | simp)+

lemma handle_bad_history_pres: "pres E now (handle_bad_history E doc)"
  unfolding handle_bad_history_def by (rule pres_tell) simp

lemma send_alarms_pres: "pres E now (send_alarms E)"
  unfolding send_alarms_def by (rule pres_rules base_rules keep_rules | simp)+

lemma handle_get_alarms_pres: "pres E now (handle_get_alarms E)"
  unfolding handle_get_alarms_def by (rule pres_rules base_rules send_alarms_pres | simp)+

lemma handle_alarm_action_pres: "keeps (pe_db E) op \<Longrightarrow> pres E now (handle_alarm_action E t a k op)"
  unfolding handle_alarm_action_def by (rule pres_rules base_rules send_alarms_pres | assumption | simp)+

lemma handle_delete_device_pres: "pres E now (handle_delete_device E now g p d)"
  unfolding handle_delete_device_def
  by (rule pres_rules base_rules base_at keep_rules svk_rules pres_in_order | simp add: snapshots_pres pres_tell)+

lemma handle_delete_master_pres: "pres E now (handle_delete_master E now g p)"
  unfolding handle_delete_master_def
  by (rule pres_rules base_rules keep_rules svk_rules pres_in_order | simp add: snapshots_pres pres_tell)+

lemma handle_clear_all_pres: "pres E now (handle_clear_all E t)"
  unfolding handle_clear_all_def
  by (rule pres_rules base_rules keep_rules svk_rules pres_in_order | simp add: snapshots_pres pres_tell)+

lemma handle_get_mqtt_pres: "pres E now (handle_get_mqtt E)"
  unfolding handle_get_mqtt_def by (rule pres_tell) simp

lemma connect_sent: "mt_sent (snd (mqtt_connectToBroker E h p c ts s)) = mt_sent s"
  by (simp add: mqtt_connectToBroker_def mqtt_disconnect_def Let_def)

lemma mqtt_connect_holds: "holds E now (mqtt_connect E)"
  by (simp add: holds_def pres_def pc_inv_def mqtt_connect_def Let_def case_prod_beta connect_sent)

lemma handle_save_mqtt_pres: "pres E now (handle_save_mqtt E c reason)"
proof -
  have config: "pres E now (\<lambda>W. W\<lparr>pw_config := c\<rparr>)" and saves: "pres E now (\<lambda>W. W\<lparr>pw_saves := n W\<rparr>)" for n
    by (simp_all add: pres_def pc_inv_def)
  have connect: "holds E now (\<lambda>W. mqtt_connect E (W\<lparr>pw_config := c\<rparr>))"
    using mqtt_connect_holds [of E now] config by (simp add: holds_def pres_def)
  show ?thesis
    unfolding handle_save_mqtt_def Let_def [of "\<lambda>ok. _ ok"]
    by (rule pres_rules saves connect pres_tell | simp)+
qed

subsection \<open>Commands\<close>

text \<open>Steps that may end the process.\<close>

definition popt :: "'v pc_env \<Rightarrow> int \<Rightarrow> (PcData \<Rightarrow> PcData option) \<Rightarrow> bool" where
  "popt E now f \<longleftrightarrow> (\<forall>W W'. pc_inv E now W \<longrightarrow> f W = Some W' \<longrightarrow> pc_inv E now W')"

lemma poptI: "(\<And>W W'. pc_inv E now W \<Longrightarrow> f W = Some W' \<Longrightarrow> pc_inv E now W') \<Longrightarrow> popt E now f"
  unfolding popt_def by blast

lemma poptD: "popt E now f \<Longrightarrow> pc_inv E now W \<Longrightarrow> f W = Some W' \<Longrightarrow> pc_inv E now W'"
  unfolding popt_def by blast

lemma presD: "pres E now f \<Longrightarrow> pc_inv E now W \<Longrightarrow> pc_inv E now (f W)"
  by (simp add: pres_def)

lemma popt_some: "pres E now f \<Longrightarrow> popt E now (\<lambda>W. Some (f W))"
  by (rule poptI) (auto dest: presD)

lemma popt_none: "popt E now (\<lambda>W. None)"
  by (rule poptI) simp

lemma popt_if: "popt E now f \<Longrightarrow> popt E now g \<Longrightarrow> popt E now (\<lambda>W. if b W then f W else g W)"
  by (rule poptI) (auto split: if_splits dest: poptD)

lemma popt_let: "holds E now op \<Longrightarrow> (\<And>r. popt E now (f r)) \<Longrightarrow> popt E now (\<lambda>W. let (r, W') = op W in f r W')"
  by (rule poptI) (auto simp: holds_def Let_def case_prod_beta dest: presD poptD)

lemma popt_let_val: "(\<And>v. popt E now (f v)) \<Longrightarrow> popt E now (\<lambda>W. let v = c W in f v W)"
  by (rule poptI) (auto simp: Let_def dest: poptD)

lemma popt_option:
  "popt E now f \<Longrightarrow> (\<And>v. popt E now (g v)) \<Longrightarrow> popt E now (\<lambda>W. case x W of None \<Rightarrow> f W | Some v \<Rightarrow> g v W)"
  by (rule poptI) (auto split: option.splits dest: poptD)

lemma popt_pair: "(\<And>a b. popt E now (f a b)) \<Longrightarrow> popt E now (\<lambda>W. case x W of (a, b) \<Rightarrow> f a b W)"
  by (rule poptI) (auto split: prod.splits dest: poptD)

lemma popt_map: "(\<And>x. pres E now (g x)) \<Longrightarrow> popt E now (\<lambda>W. map_option (\<lambda>x. g x W) (v W))"
  by (rule poptI) (auto dest: presD)

lemmas popt_rules = popt_let popt_let_val popt_if popt_option popt_pair popt_map popt_none popt_some

lemma answer_command_pres: "pres E now (answer_command E t c b ok r st m d)"
  unfolding answer_command_def by (rule pres_tell) simp

lemma refuse_command_pres: "pres E now (refuse_command E t c d m)"
  unfolding refuse_command_def by (rule answer_command_pres)

lemma log_command_pres: "pres E now (log_command E t c d)"
  unfolding log_command_def by (rule base_rules keep_rules)+

lemma log_result_pres: "pres E now (log_result E t c s r m)"
  unfolding log_result_def by (rule base_rules keep_rules)+

lemmas command_pres = answer_command_pres refuse_command_pres log_command_pres log_result_pres
lemmas command_at = command_pres [THEN pres_comp]

lemma failGatewayNotRegistered_pres: "pres E now (failGatewayNotRegistered E t c d)"
  unfolding failGatewayNotRegistered_def by (rule pres_rules command_at)+

lemma send_command_pres: "pres E now (send_command E t c d topic payload)"
  unfolding send_command_def by (rule pres_rules base_rules command_pres svk_rules)+

lemma open_port_command_holds: "holds E now (open_port_command E t c d)"
  unfolding open_port_command_def
  by (rule pres_rules base_rules command_pres keep_rules holds_ret command_at)+

lemmas command_rules = popt_rules failGatewayNotRegistered_pres send_command_pres open_port_command_holds command_pres
  pres_rules

lemma handle_relay_command_popt: "popt E now (handle_relay_command E t doc c)"
  unfolding handle_relay_command_def by (rule command_rules)+

lemma handle_threshold_command_popt: "popt E now (handle_threshold_command E t doc c)"
  unfolding handle_threshold_command_def by (rule command_rules)+

lemma handle_device_command_popt: "popt E now (handle_device_command E t doc c)"
  unfolding handle_device_command_def by (rule command_rules)+

lemma handle_gateway_command_pres: "pres E now (handle_gateway_command E t doc c)"
  unfolding handle_gateway_command_def
  by (rule pres_rules failGatewayNotRegistered_pres command_pres send_command_pres [THEN pres_comp])+

lemma handle_command_popt: "popt E now (handle_command E t msg)"
  unfolding handle_command_def
  by (rule popt_rules handle_relay_command_popt handle_threshold_command_popt handle_device_command_popt
      handle_gateway_command_pres command_pres)+

lemma handle_plain_popt: "popt E now (handle_plain E t msg)"
  unfolding handle_plain_def Let_def [of "pe_db E"]
  by (rule popt_rules handle_command_popt snapshots_pres pres_tell | simp)+

lemma ipc_handle_popt: "popt E now (ipc_handle E now msg)"
  unfolding ipc_handle_def Let_def [of "pe_db E"]
  by (rule popt_rules handle_sync_request_pres refuse_sync_pres handle_history_pres handle_bad_history_pres
      handle_get_alarms_pres handle_alarm_action_pres keep_rules handle_delete_device_pres handle_delete_master_pres
      handle_clear_all_pres handle_get_mqtt_pres handle_save_mqtt_pres handle_plain_popt)+

subsection \<open>The machine\<close>

lemma seed_registry_pres: "pres E now (seed_registry E now)"
  unfolding seed_registry_def Let_def [of "pe_db E"] by (rule pres_rules base_rules keep_rules svk_rules)+

lemma pc_start_pres: "pres E now (pc_start E now dirOk openOk)"
  unfolding pc_start_def Let_def [of "pe_db E"]
  by (rule pres_rules base_rules keep_rules pres_snd mqtt_connect_holds seed_registry_pres)+

lemma ipc_field_pres: "(\<And>s. ip_out (f s) = ip_out s) \<Longrightarrow> pres E now (\<lambda>W. W\<lparr>pw_ipc := f (pw_ipc W)\<rparr>)"
  by (simp add: pres_def pc_inv_def)

lemma ui_connected_pres: "pres E now (ui_connected E)"
proof -
  have "pres E now (\<lambda>W. W\<lparr>pw_ipc := ipc_clientConnected (pw_ipc W)\<rparr>)"
    by (rule ipc_field_pres) (simp add: ipc_clientConnected_def)
  then show ?thesis
    unfolding ui_connected_def
    by (rule_tac in_order_pres) (simp add: pres_tell send_all_pres)
qed

lemma handle_messages_inv: "handle_messages E now msgs W = Some W' \<Longrightarrow> pc_inv E now W \<Longrightarrow> pc_inv E now W'"
proof (induction msgs arbitrary: W)
  case (Cons m msgs)
  then obtain V where V: "ipc_handle E now m W = Some V" "handle_messages E now msgs V = Some W'"
    by (auto split: option.splits)
  then have "pc_inv E now V" using ipc_handle_popt [of E now m] Cons.prems(2) by (auto simp: popt_def)
  then show ?case using Cons.IH V(2) by blast
qed simp

lemma ui_received_popt: "popt E now (ui_received E now bytes)"
proof -
  have "ip_out (snd (ipc_processReceivedData bytes s)) = ip_out s" for s
    by (simp add: ipc_processReceivedData_def Let_def case_prod_beta)
  then have "pc_inv E now (W\<lparr>pw_ipc := snd (ipc_processReceivedData bytes (pw_ipc W))\<rparr>)" if "pc_inv E now W" for W
    using that by (simp add: pc_inv_def)
  then show ?thesis
    by (auto simp: popt_def ui_received_def Let_def case_prod_beta intro: handle_messages_inv)
qed

lemma offline_scan_pres: "pres E now (offline_scan E now)"
  unfolding offline_scan_def by (rule pres_rules base_rules keep_rules snapshots_pres)+

lemma periodic_pres: "pres E now (periodic E now)"
proof -
  have soft: "pres E now (soft_timeout E now c)" for c
    unfolding soft_timeout_def by (rule base_rules pres_tell | simp)+
  have hard: "pres E now (hard_timeout E now c)" for c
    unfolding hard_timeout_def by (rule pres_rules base_rules keep_rules pres_tell | simp)+
  show ?thesis
    unfolding periodic_def
    by (rule pres_rules offline_scan_pres base_rules svk_rules pres_foldl soft hard pres_tell | simp)+
qed

lemma on_mqtt_pres: "(\<And>s. mt_sent (f s) = mt_sent s) \<Longrightarrow> pres E now (on_mqtt f)"
  by (simp add: pres_def pc_inv_def on_mqtt_def)

lemma subscribe_sent: "mt_sent (snd (subscribe_each E ts s)) = mt_sent s"
  by (induction E ts s rule: subscribe_each.induct) (simp_all add: Let_def case_prod_beta)

lemma pc_step_inv:
  assumes "pc_step E now e W = Some W'" "pc_inv E now W"
  shows "pc_inv E now W'"
proof -
  have mqtt: "pres E now (on_mqtt (mqtt_onConnectSuccess E))" "pres E now (on_mqtt mqtt_onConnectFailure)"
      "pres E now (on_mqtt mqtt_onConnectionLost)"
    by (rule on_mqtt_pres, simp add: mqtt_onConnectSuccess_def mqtt_subscribeTopics_def subscribe_sent
        mqtt_onConnectFailure_def mqtt_onConnectionLost_def)+
  have close: "pres E now (\<lambda>W. W\<lparr>pw_ipc := ipc_closeClient (pw_ipc W)\<rparr>)"
    by (rule ipc_field_pres) (simp add: ipc_closeClient_def)
  show ?thesis
    using assms mqtt close mqtt_handle_pres [of E now] ui_connected_pres [of E now] ui_received_popt [of E now]
      telemetryWorker_pres [of E now] dbWriter_pres [of E now] latestPublisher_pres [of E now] periodic_pres [of E now]
    by (cases e) (auto simp: pres_def popt_def)
qed

text \<open>States reachable from the start with a clock that does not go back; the first argument is the
  last clock value read.  The database is found in a state that satisfies \<open>pcdb_wf\<close>.\<close>

inductive pc_reachable :: "'v pc_env \<Rightarrow> int \<Rightarrow> PcData \<Rightarrow> bool" for E :: "'v pc_env" where
  pc_started: "pcdb_wf t \<Longrightarrow> pc_reachable E now
    (pc_start E now dirOk openOk (PcData_new t (loadMqttConfig (pe_json E) content)))"
| pc_stepped: "pc_reachable E t W \<Longrightarrow> t \<le> now \<Longrightarrow> pc_step E now e W = Some W' \<Longrightarrow> pc_reachable E now W'"

lemma PcData_new_inv: "pcdb_wf t \<Longrightarrow> pc_inv E now (PcData_new t config)"
  using svc_inv_init [of now]
  by (simp add: pc_inv_def PcData_new_def PcDatabase_new_def PcIpc_new_def PcMqtt_new_def durable_wf_def durable_def lookup_simps)

lemma pc_reachable_inv: "pc_reachable E now W \<Longrightarrow> pc_inv E now W"
proof (induction rule: pc_reachable.induct)
  case (pc_started t now dirOk openOk content)
  then show ?case by (rule presD [OF pc_start_pres PcData_new_inv])
next
  case (pc_stepped t W now e W')
  then show ?case using pc_inv_later pc_step_inv by blast
qed

end
