(* ===== verification/PcDeeds.thy ===== *)
theory PcDeeds
  imports PcDbDeeds PcInvHandlers
begin

text \<open>
  What the handlers of Pc_data do: the lines of the pipe, heartbeats, the scan of every second,
  the answer to a command, acknowledgements, the devices telemetry is taken from.
\<close>

subsection \<open>The pipe is a stream of lines\<close>

lemma split_lines_append:
  "split_lines (a @ b) = (let (m, l) = split_lines a; (m', l') = split_lines (l @ b) in (m @ m', l'))"
proof (induction a rule: split_lines.induct)
  case (1 a)
  show ?case
  proof (cases "CHR 0x0A \<in> set a")
    case True
    let ?d = "dropWhile (\<lambda>c. c \<noteq> CHR 0x0A) a"
    have "?d \<noteq> []" using True by (auto simp: dropWhile_eq_Nil_conv)
    then have d: "tl (?d @ b) = tl ?d @ b" by (cases ?d) auto
    obtain m l where ml: "split_lines (tl ?d) = (m, l)" by force
    obtain m' l' where ml': "split_lines (l @ b) = (m', l')" by force
    have "split_lines (tl ?d @ b) = (m @ m', l')"
      using "1.IH" [OF _ refl] True by (simp add: ml ml')
    then show ?thesis
      using True by (simp add: split_lines.simps [of "a @ b"] split_lines.simps [of a] d ml ml'
          takeWhile_append1 [of "CHR 0x0A"] dropWhile_append1 [of "CHR 0x0A"] Let_def)
  qed (simp add: split_lines.simps [of a] split: prod.split)
qed

lemma split_lines_rest: "CHR 0x0A \<notin> set (snd (split_lines a)) \<and> length (snd (split_lines a)) \<le> length a"
proof (induction a rule: split_lines.induct)
  case (1 a)
  show ?case
  proof (cases "CHR 0x0A \<in> set a")
    case True
    let ?t = "tl (dropWhile (\<lambda>c. c \<noteq> CHR 0x0A) a)"
    have "length ?t \<le> length a"
      using length_dropWhile_le [of "\<lambda>c. c \<noteq> CHR 0x0A" a] by simp
    then show ?thesis using "1.IH" [OF _ refl] True
      by (simp add: split_lines.simps [of a] case_prod_beta Let_def)
  qed (simp add: split_lines.simps [of a])
qed

fun ipc_receive :: "string list \<Rightarrow> PcIpc \<Rightarrow> string list \<times> PcIpc" where
  "ipc_receive [] s = ([], s)"
| "ipc_receive (bytes # later) s =
     (let (msgs, s) = ipc_processReceivedData bytes s; (rest, s) = ipc_receive later s in (msgs @ rest, s))"

lemma received_lines:
  "CHR 0x0A \<notin> set (ip_buffer s) \<Longrightarrow> length (ip_buffer s @ concat pieces) \<le> maxBufferSize \<Longrightarrow>
     ipc_receive pieces s = (let (msgs, left) = split_lines (ip_buffer s @ concat pieces)
       in (msgs, s\<lparr>ip_buffer := left\<rparr>))"
proof (induction pieces arbitrary: s)
  case Nil
  then show ?case by (simp add: split_lines.simps)
next
  case (Cons bytes later)
  obtain m l where ml: "split_lines (ip_buffer s @ bytes) = (m, l)" by force
  have l: "CHR 0x0A \<notin> set l" "length l \<le> length (ip_buffer s @ bytes)"
    using split_lines_rest [of "ip_buffer s @ bytes"] by (simp_all add: ml)
  have step: "ipc_processReceivedData bytes s = (m, s\<lparr>ip_buffer := l\<rparr>)"
  proof (cases "bytes = []")
    case True
    then have "m = [] \<and> l = ip_buffer s" using ml Cons.prems(1) by (simp add: split_lines.simps [of "ip_buffer s"])
    then show ?thesis using True by (simp add: ipc_processReceivedData_def)
  next
    case False
    then show ?thesis using Cons.prems(2) by (simp add: ipc_processReceivedData_def ml Let_def)
  qed
  have "ipc_receive later (s\<lparr>ip_buffer := l\<rparr>) = (let (msgs, left) = split_lines (l @ concat later)
      in (msgs, s\<lparr>ip_buffer := l, ip_buffer := left\<rparr>))"
    using Cons.IH [of "s\<lparr>ip_buffer := l\<rparr>"] l Cons.prems(2) by simp
  moreover have "split_lines (ip_buffer s @ concat (bytes # later))
      = (let (m', l') = split_lines (l @ concat later) in (m @ m', l'))"
    using split_lines_append [of "ip_buffer s @ bytes" "concat later"] by (simp add: ml)
  ultimately show ?case by (simp add: step case_prod_beta Let_def)
qed

subsection \<open>A heartbeat\<close>

lemma client_service [simp]: "pw_service (when_client (sendGatewayStatusSnapshot E) W) = pw_service W"
  "pw_db (when_client (sendGatewayStatusSnapshot E) W) = pw_db W"
  by (simp_all add: when_client_def sendGatewayStatusSnapshot_def ui_tell_def ui_send_def Let_def case_prod_beta)

lemma upsert_column: "(\<And>old. f (merge old new) = f old) \<Longrightarrow> key new \<in> key ` set rows \<Longrightarrow>
    map f (upsert key merge new rows) = map f rows"
  by (simp add: upsert_def)

lemma beat_row:
  assumes "pd_open db" "g \<noteq> []" "de_ok E (pd_tick db)" "c_str g \<in> gs_gatewayId ` set (tb_status (pd_tables db))"
  shows "fst (updateGatewayHeartbeat E now g st db)"
    and "map (\<lambda>r. (gs_gatewayId r, gs_gatewayName r, gs_factoryId r, gs_areaId r))
          (tb_status (pd_tables (snd (updateGatewayHeartbeat E now g st db))))
      = map (\<lambda>r. (gs_gatewayId r, gs_gatewayName r, gs_factoryId r, gs_areaId r)) (tb_status (pd_tables db))"
  using assms by (simp_all add: updateGatewayHeartbeat_def db_stmt_def upsert_column)

lemma heartbeat_handled:
  assumes "(if heartbeat then parseGatewayHeartbeat else parseGatewayStatus) (pe_json E) now payload = Some (g, ts, st)"
    and "isValidGatewayUpTopic topic g" "g \<noteq> []" "pd_open (pw_db W)"
    and "de_ok (pe_db E) (pd_tick (pw_db W))" "de_ok (pe_db E) (Suc (pd_tick (pw_db W)))"
    and "c_str g \<in> gs_gatewayId ` set (tb_status (pd_tables (pw_db W)))"
    and W': "W' = handle_gateway_status E now heartbeat topic payload W"
  shows "pw_service W' = updateGatewayStatus (heartbeat_status g ts st) (pw_service W)"
    and "map (\<lambda>r. (gs_gatewayId r, gs_gatewayName r, gs_factoryId r, gs_areaId r)) (tb_status (pd_tables (pw_db W')))
      = map (\<lambda>r. (gs_gatewayId r, gs_gatewayName r, gs_factoryId r, gs_areaId r)) (tb_status (pd_tables (pw_db W)))"
proof -
  let ?r = "updateGatewayRegistryHeartbeat (pe_db E) now g st (pw_db W)"
  have r: "fst ?r" "pd_open (snd ?r)" "pd_tick (snd ?r) = Suc (pd_tick (pw_db W))"
    "tb_status (pd_tables (snd ?r)) = tb_status (pd_tables (pw_db W))"
    using assms by (simp_all add: updateGatewayRegistryHeartbeat_def db_stmt_def)
  note b = beat_row [of "snd ?r" g "pe_db E" now st]
  have e: "W' = when_client (sendGatewayStatusSnapshot E) (do_service (updateGatewayStatus (heartbeat_status g ts st))
      (W\<lparr>pw_db := snd (updateGatewayHeartbeat (pe_db E) now g st (snd ?r))\<rparr>))"
    using assms r b(1) by (simp add: handle_gateway_status_def db_try_def in_db_def db_isOpen_def Let_def case_prod_beta)
  show "pw_service W' = updateGatewayStatus (heartbeat_status g ts st) (pw_service W)"
    by (simp add: e do_service_def)
  show "map (\<lambda>r. (gs_gatewayId r, gs_gatewayName r, gs_factoryId r, gs_areaId r)) (tb_status (pd_tables (pw_db W')))
      = map (\<lambda>r. (gs_gatewayId r, gs_gatewayName r, gs_factoryId r, gs_areaId r)) (tb_status (pd_tables (pw_db W)))"
    using b(2) assms(3,6,7) r by (simp add: e do_service_def)
qed

subsection \<open>The scan of every second\<close>

lemma tell_parts [simp]: "pw_service (ui_tell E msg W) = pw_service W" "pw_db (ui_tell E msg W) = pw_db W"
  "pw_mqtt (ui_tell E msg W) = pw_mqtt W"
  by (simp_all add: ui_tell_def ui_send_def Let_def case_prod_beta)

lemma snapshot_parts [simp]:
  "pw_service (when_client (sendDevicesSnapshot E) W) = pw_service W" "pw_db (when_client (sendDevicesSnapshot E) W) = pw_db W"
  by (simp_all add: when_client_def sendDevicesSnapshot_def)

lemma scan_service: "pw_service (offline_scan E now W) = pw_service W"
  by (simp add: offline_scan_def in_db_def Let_def case_prod_beta)

lemma scan_marks:
  assumes "pd_open (pw_db W)" "0 < now" "de_ok (pe_db E) (pd_tick (pw_db W))"
    and u: "pd_saved (pw_db W) = None \<or> \<not> de_undo (pe_db E) (Suc (pd_tick (pw_db W)))"
    and s: "s \<in> set (tb_device_status (pd_tables (pw_db W)))" "device_timed_out (pd_tables (pw_db W)) now 30000 s"
  shows "s\<lparr>ds_status := ''offline'', ds_lastOfflineMs := now, ds_statusReason := ''telemetry_timeout'', ds_updateTimeMs := now\<rparr>
    \<in> set (tb_device_status (pd_tables (pw_db (offline_scan E now W))))"
proof -
  let ?m = "snd (markOfflineDevices (pe_db E) now 30000 (pw_db W))"
  have m: "s\<lparr>ds_status := ''offline'', ds_lastOfflineMs := now, ds_statusReason := ''telemetry_timeout'', ds_updateTimeMs := now\<rparr>
      \<in> set (tb_device_status (pd_tables ?m))"
    using assms by (auto simp: markOfflineDevices_def db_stmt_def Let_def image_iff intro!: bexI [of _ s])
  have kept: "pd_saved ?m = None \<or> \<not> de_undo (pe_db E) (pd_tick ?m)"
    using assms(1-3) u by (auto simp: markOfflineDevices_def db_stmt_def Let_def)
  have "tb_device_status (pd_tables (snd (markStaleGateways E' now t db))) = tb_device_status (pd_tables db)"
    if "pd_saved db = None \<or> \<not> de_undo E' (pd_tick db)" for E' t db
    using that by (auto simp: markStaleGateways_def db_stmt_def db_failed_def undo_fields Let_def)
  from this [OF kept] show ?thesis using m assms(1) by (simp add: offline_scan_def in_db_def db_isOpen_def Let_def case_prod_beta)
qed

text \<open>What was written to the pipe is the beginning of one of the given lines.\<close>

definition told :: "string set \<Rightarrow> PcData \<Rightarrow> PcData \<Rightarrow> bool" where
  "told M W W' \<longleftrightarrow> (\<exists>lines. ip_out (pw_ipc W') = ip_out (pw_ipc W) @ lines
     \<and> set lines \<subseteq> {take n (m @ [CHR 0x0A]) | m n. m \<in> M})"

lemma told_refl: "pw_ipc W' = pw_ipc W \<Longrightarrow> told M W W'"
  by (simp add: told_def)

lemma told_trans:
  assumes "told M U V" "told M V W"
  shows "told M U W"
proof -
  let ?X = "{take n (m @ [CHR 0x0A]) | m n. m \<in> M}"
  obtain a where a: "ip_out (pw_ipc V) = ip_out (pw_ipc U) @ a" "set a \<subseteq> ?X" using assms(1) unfolding told_def by (elim exE conjE)
  obtain b where b: "ip_out (pw_ipc W) = ip_out (pw_ipc V) @ b" "set b \<subseteq> ?X" using assms(2) unfolding told_def by (elim exE conjE)
  show ?thesis unfolding told_def
    by (rule exI [of _ "a @ b"]) (simp only: a(1) b(1) append.assoc set_append Un_subset_iff a(2) b(2) simp_thms)
qed

lemma told_tell: "m \<in> M \<Longrightarrow> told M W (when_client (ui_tell E m) W)"
  unfolding told_def when_client_def ui_tell_def ui_send_def ipc_sendMessage_def Let_def case_prod_beta
  by (cases "pe_pipe E (ip_tick (pw_ipc W))") auto

lemma told_db: "told M W (snd (in_db op W))"
  by (rule told_refl) (simp add: in_db_def case_prod_beta Let_def)

lemma db_service [simp]: "pw_service (snd (in_db op W)) = pw_service W"
  by (simp add: in_db_def Let_def case_prod_beta)

lemma scan_told:
  "told {buildDevicesSnapshotJson (getDeviceRegistrySnapshot (pw_service W)),
     buildGatewayStatusSnapshotJson (getGatewayStatusSnapshot (pw_service W))} W (offline_scan E now W)" (is "told ?M W _")
proof -
  let ?V = "snd (in_db (markOfflineDevices (pe_db E) now 30000) W)"
  let ?V' = "if fst (in_db (markOfflineDevices (pe_db E) now 30000) W) > 0 then when_client (sendDevicesSnapshot E) ?V else ?V"
  let ?U = "snd (in_db (markStaleGateways (pe_db E) now 30000) ?V')"
  have scan: "offline_scan E now W = (if \<not> db_isOpen W then W
      else if fst (in_db (markStaleGateways (pe_db E) now 30000) ?V') > 0 then when_client (sendGatewayStatusSnapshot E) ?U else ?U)"
    unfolding offline_scan_def Let_def case_prod_beta by (rule refl)
  have send: "told ?M X (when_client (sendDevicesSnapshot E) X)" "told ?M X (when_client (sendGatewayStatusSnapshot E) X)"
    if "pw_service X = pw_service W" for X
  proof -
    have "when_client (sendDevicesSnapshot E) X
        = when_client (ui_tell E (buildDevicesSnapshotJson (getDeviceRegistrySnapshot (pw_service W)))) X"
      "when_client (sendGatewayStatusSnapshot E) X
        = when_client (ui_tell E (buildGatewayStatusSnapshotJson (getGatewayStatusSnapshot (pw_service W)))) X"
      by (simp_all add: when_client_def sendDevicesSnapshot_def sendGatewayStatusSnapshot_def that)
    then show "told ?M X (when_client (sendDevicesSnapshot E) X)" "told ?M X (when_client (sendGatewayStatusSnapshot E) X)"
      by (simp_all add: told_tell)
  qed
  have V0: "told ?M W ?V" "pw_service ?V = pw_service W" by (rule told_db) simp
  have V: "told ?M W ?V'" using V0(1) told_trans [OF V0(1) send(1) [OF V0(2)]] by simp
  have U: "told ?M W ?U" "pw_service ?U = pw_service W" by (rule told_trans [OF V told_db]) (simp only: db_service split: if_split, simp)
  show ?thesis unfolding scan using told_refl told_trans [OF U(1) send(2) [OF U(2)]] U(1) by simp
qed

subsection \<open>An acknowledgement is used once\<close>

text \<open>Whatever follows a final acknowledgement, the command stays forgotten.\<close>

definition forgot :: "string \<Rightarrow> PcData \<Rightarrow> bool" where
  "forgot cmdId W \<longleftrightarrow> um_find (m_pendingCommandsByCommandId (pw_service W)) cmdId = None"

definition same_commands :: "(PcDataService \<Rightarrow> PcDataService) \<Rightarrow> bool" where
  "same_commands f \<longleftrightarrow> (\<forall>s. m_pendingCommandsByCommandId (f s) = m_pendingCommandsByCommandId s)"

lemma prune_commands [simp]:
  "m_pendingCommandsByCommandId (pruneExpiredRemovedDevicesLocked now s) = m_pendingCommandsByCommandId s"
  by (simp add: pruneExpiredRemovedDevicesLocked_def Let_def)

lemma remove_commands: "same_commands (\<lambda>s. snd (removeDeviceData now g p d s))" "same_commands (forgetRemovedDevice now g p d)"
  by (simp_all add: same_commands_def removeDeviceData_def forgetRemovedDevice_def rememberRemovedDeviceLocked_def Let_def)

lemma service_commands:
  "same_commands (\<lambda>s. snd (f s)) \<Longrightarrow> forgot c (snd (in_service f W)) = forgot c W"
  "same_commands h \<Longrightarrow> forgot c (do_service h W) = forgot c W"
  by (simp_all add: same_commands_def forgot_def in_service_def do_service_def Let_def case_prod_beta)

lemma forgot_other [simp]:
  "forgot c (ui_tell E msg W) = forgot c W" "forgot c (snd (in_db op W)) = forgot c W" "forgot c (db_note act W) = forgot c W"
  "forgot c (snd (broker_send E topic payload W)) = forgot c W"
  by (simp_all add: forgot_def in_db_def db_note_def db_try_def broker_send_def Let_def case_prod_beta)

lemma forgot_snapshots [simp]:
  "forgot c (sendLatestPoints E W) = forgot c W" "forgot c (sendDevicesSnapshot E W) = forgot c W"
  "forgot c (sendPortStatusSnapshot E W) = forgot c W" "forgot c (sendGatewayStatusSnapshot E W) = forgot c W"
  "forgot c (sendDevicesSnapshotWithPendingDevice E now t W) = forgot c W"
  by (simp_all add: sendLatestPoints_def sendDevicesSnapshot_def sendPortStatusSnapshot_def sendGatewayStatusSnapshot_def
      sendDevicesSnapshotWithPendingDevice_def Let_def case_prod_beta)

lemma forgot_request [simp]: "forgot c (snd (publishConfigSnapshotRequest E now g W)) = forgot c W"
  by (simp add: publishConfigSnapshotRequest_def Let_def case_prod_beta)

lemma ack_forgot [simp]:
  "forgot c (ack_to_ui E now final uiSeq kind t out W) = forgot c W"
  "forgot c (snd (ack_removed E now kind t out W)) = forgot c W"
  "forgot c (ack_added E now kind t st W) = forgot c W"
  by (simp_all add: ack_to_ui_def ack_removed_def ack_added_def in_order_def when_client_def case_prod_beta Let_def
      service_commands remove_commands)

lemma matched_forgot: "forgot c (ack_matched E now doc t W) = forgot c W"
  by (simp add: ack_matched_def when_client_def case_prod_beta Let_def)

text \<open>Either the acknowledgement is ignored, at any time, or it uses the command up.\<close>

lemma final_ack_cases:
  assumes topic: "parsePortUpTopic topic = Some (tg, tp)" and doc: "parse_object (pe_json E) payload = Some doc"
    and stage: "getJsonString (pe_json E) doc ''stage'' = ''done''"
  shows "(\<forall>now. handle_ack E now topic payload W = W)
    \<or> forgot (getJsonStringAny (pe_json E) doc [''cmd_id'', ''cmdId'', ''commandId'']) (handle_ack E now topic payload W)"
proof -
  let ?c = "getJsonStringAny (pe_json E) doc [''cmd_id'', ''cmdId'', ''commandId'']"
  let ?bad = "(extractGatewayIdCompat (pe_json E) doc \<noteq> [] \<and> extractGatewayIdCompat (pe_json E) doc \<noteq> tg)
    \<or> (extractPortIdCompat (pe_json E) doc \<noteq> [] \<and> extractPortIdCompat (pe_json E) doc \<noteq> tp) \<or> ?c = []"
  show ?thesis
  proof (cases "?bad \<or> um_find (m_pendingCommandsByCommandId (pw_service W)) ?c = None")
    case True
    then have "handle_ack E now topic payload W = W" for now
      by (auto simp: handle_ack_def topic doc stage in_service_def takePendingCommand_def Let_def)
    then show ?thesis by blast
  next
    case False
    then obtain t where t: "um_find (m_pendingCommandsByCommandId (pw_service W)) ?c = Some t" by auto
    have ok: "((extractGatewayIdCompat (pe_json E) doc \<noteq> [] \<and> extractGatewayIdCompat (pe_json E) doc \<noteq> tg)
      \<or> (extractPortIdCompat (pe_json E) doc \<noteq> [] \<and> extractPortIdCompat (pe_json E) doc \<noteq> tp)) = False" "(?c = []) = False"
      using False by blast+
    have "handle_ack E now topic payload W = ack_matched E now doc t (snd (in_service (takePendingCommand ?c) W))"
      unfolding handle_ack_def Let_def topic doc option.case prod.case ok if_False stage
      by (simp add: in_service_def takePendingCommand_def ok t)
    then have "forgot ?c (handle_ack E now topic payload W) = forgot ?c (snd (in_service (takePendingCommand ?c) W))"
      by (simp add: matched_forgot)
    moreover have "forgot ?c (snd (in_service (takePendingCommand ?c) W))"
      using ok(2) t by (simp add: forgot_def in_service_def takePendingCommand_def lookup_simps)
    ultimately show ?thesis by blast
  qed
qed

lemma forgotten_ack:
  assumes "parsePortUpTopic topic = Some (tg, tp)" "parse_object (pe_json E) payload = Some doc"
    "getJsonString (pe_json E) doc ''stage'' = ''done''"
    "forgot (getJsonStringAny (pe_json E) doc [''cmd_id'', ''cmdId'', ''commandId'']) W"
  shows "handle_ack E now topic payload W = W"
  using assms by (simp add: handle_ack_def forgot_def in_service_def takePendingCommand_def Let_def)

lemma not_pending_ack:
  assumes "parsePortUpTopic topic = Some (tg, tp)" "parse_object (pe_json E) payload = Some doc"
    "getJsonString (pe_json E) doc ''stage'' = ''done''"
    "findPendingCommand (getJsonStringAny (pe_json E) doc [''cmd_id'', ''cmdId'', ''commandId'']) (pw_service V) = None"
  shows "handle_ack E later topic payload V = V"
proof (cases "getJsonStringAny (pe_json E) doc [''cmd_id'', ''cmdId'', ''commandId''] = []")
  case True
  then show ?thesis by (auto simp: handle_ack_def assms(1-3) Let_def)
next
  case False
  then show ?thesis using assms by (intro forgotten_ack [OF assms(1-3)]) (simp add: forgot_def findPendingCommand_def)
qed

lemma final_ack_twice:
  assumes "parsePortUpTopic topic = Some (tg, tp)" "parse_object (pe_json E) payload = Some doc"
    "getJsonString (pe_json E) doc ''stage'' = ''done''"
  shows "handle_ack E later topic payload (handle_ack E now topic payload W) = handle_ack E now topic payload W"
  using final_ack_cases [OF assms, of W now] forgotten_ack [OF assms] by metis

subsection \<open>A command is answered once\<close>

text \<open>The one line the user interface is told, and what else has changed: a command that is reported
  as sent was published once and is remembered, any other leaves the broker and the service alone.\<close>

definition ack_told :: "'v pc_env \<Rightarrow> int \<Rightarrow> string \<Rightarrow> bool \<Rightarrow> PcData \<Rightarrow> PcData \<Rightarrow> bool" where
  "ack_told E now cmdId ok W W' \<longleftrightarrow> (\<exists>reason seq kind stage message boardSeq g p d.
     pw_ipc W' = snd (ipc_sendMessage E
       (buildCommandAckJson now cmdId ok reason seq kind stage message boardSeq g p d) (pw_ipc W)))"

definition command_sent :: "string \<Rightarrow> PcData \<Rightarrow> PcData \<Rightarrow> bool" where
  "command_sent cmdId W W' \<longleftrightarrow> (\<exists>topic payload. mt_sent (pw_mqtt W') = mt_sent (pw_mqtt W) @ [(topic, payload)])
     \<and> findPendingCommand cmdId (pw_service W') \<noteq> None"

definition command_dropped :: "PcData \<Rightarrow> PcData \<Rightarrow> bool" where
  "command_dropped W W' \<longleftrightarrow> mt_sent (pw_mqtt W') = mt_sent (pw_mqtt W) \<and> pw_service W' = pw_service W"

definition command_done :: "'v pc_env \<Rightarrow> int \<Rightarrow> string \<Rightarrow> PcData \<Rightarrow> PcData \<Rightarrow> bool" where
  "command_done E now cmdId W W' \<longleftrightarrow> ack_told E now cmdId True W W' \<and> command_sent cmdId W W'
     \<or> ack_told E now cmdId False W W' \<and> command_dropped W W'"

definition db_only :: "PcData \<Rightarrow> PcData \<Rightarrow> bool" where
  "db_only W W' \<longleftrightarrow> pw_ipc W' = pw_ipc W \<and> pw_mqtt W' = pw_mqtt W \<and> pw_service W' = pw_service W"

lemma db_note_only: "db_only W (db_note op W)"
  by (simp add: db_only_def db_note_def db_try_def in_db_def Let_def case_prod_beta)

lemma log_only: "db_only W (log_command E now c d W)" "db_only W (log_result E now c a b m W)"
  by (simp_all add: log_command_def log_result_def db_note_only)

lemma log_parts [simp]:
  "pw_ipc (log_result E now c a b m W) = pw_ipc W" "pw_mqtt (log_result E now c a b m W) = pw_mqtt W"
  "pw_service (log_result E now c a b m W) = pw_service W"
  using log_only(2) [of W E now c a b m] by (simp_all add: db_only_def)

lemma db_only_trans: "db_only W W1 \<Longrightarrow> db_only W1 W2 \<Longrightarrow> db_only W W2"
  by (simp add: db_only_def)

lemma command_done_after: "db_only W W1 \<Longrightarrow> command_done E now c W1 W2 \<Longrightarrow> command_done E now c W W2"
  by (simp add: db_only_def command_done_def ack_told_def command_sent_def command_dropped_def)

lemma ack_toldI: "pw_ipc W' = snd (ipc_sendMessage E
    (buildCommandAckJson now cmdId ok reason seq kind stage message boardSeq g p d) (pw_ipc W)) \<Longrightarrow> ack_told E now cmdId ok W W'"
  unfolding ack_told_def by blast

lemma answer_done: "command_done E now (uc_id c) W (answer_command E now c b False r s m d W)"
proof -
  have "pw_ipc (answer_command E now c b False r s m d W) = snd (ipc_sendMessage E
      (buildCommandAckJson now (uc_id c) False r (uc_seq c) (uc_kind c) s m b (uc_gateway c) (uc_port c) d) (pw_ipc W))"
    by (simp add: answer_command_def ui_tell_def ui_send_def case_prod_beta Let_def)
  then have "ack_told E now (uc_id c) False W (answer_command E now c b False r s m d W)"
    by (rule ack_toldI)
  then show ?thesis
    by (simp add: command_done_def command_dropped_def answer_command_def)
qed

lemma refuse_done: "command_done E now (uc_id c) W (refuse_command E now c d m W)"
  by (simp add: refuse_command_def answer_done)

lemma unregistered_done: "command_done E now (uc_id c) W (failGatewayNotRegistered E now c d W)"
  unfolding failGatewayNotRegistered_def Let_def
  by (rule command_done_after [OF _ answer_done]) (simp add: db_only_trans [OF log_only(1) log_only(2)], simp add: db_only_def)

lemma open_port_done:
  "fst (open_port_command E now c d W) \<Longrightarrow> db_only W (snd (open_port_command E now c d W))"
  "\<not> fst (open_port_command E now c d W) \<Longrightarrow> command_done E now (uc_id c) W (snd (open_port_command E now c d W))"
proof -
  have read: "db_only W (snd (in_db op (log_command E now c d W)))" for op
    using log_only(1) [of W E now c d] by (simp add: db_only_def in_db_def Let_def case_prod_beta)
  show "fst (open_port_command E now c d W) \<Longrightarrow> db_only W (snd (open_port_command E now c d W))"
    using read log_only(1) [of W E now c d] by (auto simp: open_port_command_def Let_def case_prod_beta split: if_splits)
  show "\<not> fst (open_port_command E now c d W) \<Longrightarrow> command_done E now (uc_id c) W (snd (open_port_command E now c d W))"
    using read by (auto simp: open_port_command_def Let_def case_prod_beta split: if_splits
        intro!: command_done_after [OF _ answer_done] db_only_trans [OF _ log_only(2)])
qed

lemma send_done:
  assumes "uc_id c \<noteq> []" "uc_kind c \<noteq> []"
  shows "command_done E now (uc_id c) W (send_command E now c d topic payload W)"
proof -
  have ipc: "pw_ipc (send_command E now c d topic payload W) = snd (ipc_sendMessage E
      (buildCommandAckJson now (uc_id c) (fst (broker_send E topic payload W))
        (if fst (broker_send E topic payload W) then [] else ''mqtt_publish_failed'') (uc_seq c) (uc_kind c)
        (if fst (broker_send E topic payload W) then ''sent'' else ''done'')
        (if fst (broker_send E topic payload W) then ''command published to gateway'' else ''MQTT publish failed'')
        (uc_boardSeq c) (uc_gateway c) (uc_port c) d) (pw_ipc W))"
    by (simp add: send_command_def answer_command_def broker_send_def ui_tell_def ui_send_def do_service_def
        Let_def case_prod_beta)
  show ?thesis
  proof (cases "fst (broker_send E topic payload W)")
    case True
    then have "command_sent (uc_id c) W (send_command E now c d topic payload W)"
      using assms
      by (auto simp: command_sent_def send_command_def answer_command_def broker_send_def mqtt_publish_def
          do_service_def Let_def case_prod_beta rememberCommand_def rememberPendingCommand_def findPendingCommand_def
          lookup_simps split: if_splits)
    moreover have "ack_told E now (uc_id c) True W (send_command E now c d topic payload W)"
      by (rule ack_toldI) (simp add: ipc True)
    ultimately show ?thesis by (simp add: command_done_def)
  next
    case False
    then have "command_dropped W (send_command E now c d topic payload W)"
      by (auto simp: command_dropped_def send_command_def answer_command_def broker_send_def mqtt_publish_def
          Let_def case_prod_beta split: if_splits)
    moreover have "ack_told E now (uc_id c) False W (send_command E now c d topic payload W)"
      by (rule ack_toldI) (simp add: ipc False)
    ultimately show ?thesis by (simp add: command_done_def)
  qed
qed

lemma command_parts:
  assumes c: "uc_id c \<noteq> []" "uc_kind c \<noteq> []"
  shows "handle_relay_command E now doc c W = Some W' \<Longrightarrow> command_done E now (uc_id c) W W'"
    and "handle_threshold_command E now doc c W = Some W' \<Longrightarrow> command_done E now (uc_id c) W W'"
    and "handle_device_command E now doc c W = Some W' \<Longrightarrow> command_done E now (uc_id c) W W'"
    and "command_done E now (uc_id c) W (handle_gateway_command E now doc c W)"
proof -
  have gone: "command_done E now (uc_id c) W (snd (open_port_command E now c d W))"
    if "\<not> fst (open_port_command E now c d W)" for d by (rule open_port_done(2) [OF that])
  have sent: "command_done E now (uc_id c) W (send_command E now c d topic payload (snd (open_port_command E now c d W)))"
    if "fst (open_port_command E now c d W)" for d topic payload
    by (rule command_done_after [OF open_port_done(1) [OF that] send_done [OF c]])
  show "handle_relay_command E now doc c W = Some W' \<Longrightarrow> command_done E now (uc_id c) W W'"
    by (auto simp: handle_relay_command_def Let_def case_prod_beta refuse_done unregistered_done gone sent
        split: if_splits option.splits)
  show "handle_threshold_command E now doc c W = Some W' \<Longrightarrow> command_done E now (uc_id c) W W'"
    unfolding handle_threshold_command_def Let_def case_prod_beta
    by (simp only: split: if_splits option.splits) (auto simp: refuse_done unregistered_done gone sent)
  show "handle_device_command E now doc c W = Some W' \<Longrightarrow> command_done E now (uc_id c) W W'"
    unfolding handle_device_command_def Let_def case_prod_beta
    by (auto simp: refuse_done unregistered_done gone sent split: if_splits)
  show "command_done E now (uc_id c) W (handle_gateway_command E now doc c W)"
    by (simp add: handle_gateway_command_def Let_def refuse_done unregistered_done
        command_done_after [OF log_only(1) send_done [OF c]])
qed

lemma command_handled:
  assumes "handle_command E now msg W = Some W'"
  shows "command_done E now (extractJsonStringValue msg ''cmd_id'') W W'"
proof (cases "parse_object (pe_json E) msg")
  case None
  then show ?thesis using assms answer_done [of E now "no_command\<lparr>uc_id := extractJsonStringValue msg ''cmd_id''\<rparr>"]
    by (auto simp: handle_command_def Let_def)
next
  case (Some doc)
  let ?c = "read_command (pe_json E) msg doc"
  have id: "uc_id ?c = extractJsonStringValue msg ''cmd_id''" by (simp add: read_command_def Let_def)
  show ?thesis
  proof (cases "isRemoteCommandAllowed (uc_kind ?c) \<and> \<not> bad_target ?c")
    case True
    then have c: "uc_id ?c \<noteq> []" "uc_kind ?c \<noteq> []"
      by (auto simp: bad_target_def isRemoteCommandAllowed_def remote_commands_def)
    show ?thesis using assms True command_parts [OF c]
      unfolding id [symmetric] by (auto simp: handle_command_def Some Let_def split: if_splits)
  next
    case False
    then show ?thesis using assms unfolding id [symmetric]
      by (auto simp: handle_command_def Some Let_def answer_done split: if_splits)
  qed
qed

subsection \<open>Telemetry is taken from known devices\<close>

definition device_welcome :: "int \<Rightarrow> string \<Rightarrow> string \<Rightarrow> int \<Rightarrow> PcDataService \<Rightarrow> bool" where
  "device_welcome now g p d s \<longleftrightarrow> g \<noteq> [] \<and> p \<noteq> [] \<and> 0 < d \<and> deviceRegistered g p d s
     \<and> \<not> isRemovedDeviceLocked g p d (pruneExpiredRemovedDevicesLocked now s)"

lemma prune_registered [simp]:
  "deviceRegistered g p d (pruneExpiredRemovedDevicesLocked now s) = deviceRegistered g p d s"
  by (simp add: deviceRegistered_def)

lemma prune_twice [simp]:
  "isRemovedDeviceLocked g p d (pruneExpiredRemovedDevicesLocked now (pruneExpiredRemovedDevicesLocked now s))
     = isRemovedDeviceLocked g p d (pruneExpiredRemovedDevicesLocked now s)"
  by (auto simp: isRemovedDeviceLocked_def)

definition intake_from :: "int \<Rightarrow> TelemetryPack \<Rightarrow> PcData \<Rightarrow> intake \<times> PcData \<Rightarrow> bool" where
  "intake_from now pack W = (\<lambda>(i, W'). pw_pendingDb W' = pw_pendingDb W
     \<and> (\<forall>g p d. device_welcome now g p d (pw_service W) = device_welcome now g p d (pw_service W'))
     \<and> (\<forall>d \<in> set (in_devices i). device_welcome now (sc_gatewayId (pk_site pack)) (sc_portId (pk_site pack))
           (dd_deviceId d) (pw_service W)))"

lemma unknown_device_parts [simp]: "pw_pendingDb (unknown_device E now g p W) = pw_pendingDb W"
  "pw_service (unknown_device E now g p W) = pw_service W"
  by (simp_all add: unknown_device_def publishConfigSnapshotRequest_def broker_send_def in_db_def Let_def case_prod_beta)

lemma welcome_prune [simp]:
  "device_welcome now g p d (pruneExpiredRemovedDevicesLocked now s) = device_welcome now g p d s"
  by (simp add: device_welcome_def)

lemma welcomeI: "g \<noteq> [] \<Longrightarrow> p \<noteq> [] \<Longrightarrow> \<not> d \<le> 0 \<Longrightarrow> deviceRegistered g p d s
    \<Longrightarrow> \<not> isRemovedDeviceLocked g p d (pruneExpiredRemovedDevicesLocked now s) \<Longrightarrow> device_welcome now g p d s"
  by (simp add: device_welcome_def)

lemma intake_device_from: "intake_from now pack W iW \<Longrightarrow> intake_from now pack W (intake_device E now pack iW d)"
  by (cases iW) (auto simp: intake_from_def intake_device_def in_service_def isRemovedDevice_def Let_def
      intake_accept_def intro: welcomeI)

lemma intake_from_all: "intake_from now pack W (foldl (intake_device E now pack) (intake_start, W) ds)"
proof -
  have "intake_from now pack W iW \<Longrightarrow> intake_from now pack W (foldl (intake_device E now pack) iW ds)" for iW
    by (induction ds arbitrary: iW) (simp_all add: intake_device_from)
  moreover have "intake_from now pack W (intake_start, W)" by (simp add: intake_from_def intake_start_def)
  ultimately show ?thesis by blast
qed

lemma storage_find:
  "um_find (pw_pendingDb (enqueueTelemetryStorage ps W)) k = Some q \<Longrightarrow>
     um_find (pw_pendingDb W) k = Some q \<or> q \<in> set ps \<and> tp_pointId q = k"
proof -
  have "um_find (foldl (\<lambda>m p. if tp_pointId p = [] then m else um_set (tp_pointId p) p m) m ps) k = Some q \<Longrightarrow>
      um_find m k = Some q \<or> q \<in> set ps \<and> tp_pointId q = k" for m
    by (induction ps arbitrary: m) (fastforce simp: lookup_simps split: if_splits)+
  then show "um_find (pw_pendingDb (enqueueTelemetryStorage ps W)) k = Some q \<Longrightarrow> ?thesis"
    by (simp add: enqueueTelemetryStorage_def)
qed

lemma telemetry_known:
  assumes stored: "um_find (pw_pendingDb (handleTelemetryMessage E now topic payload W)) k = Some q"
  shows "um_find (pw_pendingDb W) k = Some q
    \<or> tp_pointId q = k \<and> parsePortUpTopic topic = Some (tp_gatewayId q, tp_portId q)
      \<and> gatewayRegistered (tp_gatewayId q) (pw_service W) \<and> portRegistered (tp_gatewayId q) (tp_portId q) (pw_service W)
      \<and> device_welcome now (tp_gatewayId q) (tp_portId q) (tp_deviceId q) (pw_service W)"
proof (cases "addressed_pack (pe_json E) now topic payload")
  case None
  then show ?thesis using stored by (simp add: handleTelemetryMessage_def)
next
  case (Some pack)
  let ?g = "sc_gatewayId (pk_site pack)" and ?p = "sc_portId (pk_site pack)"
  have topic: "parsePortUpTopic topic = Some (?g, ?p)"
    using Some by (auto simp: addressed_pack_def Let_def split: sum.splits option.splits if_splits)
  show ?thesis
  proof (cases "gatewayRegistered ?g (pw_service W) \<and> portRegistered ?g ?p (pw_service W)")
    case False
    then show ?thesis using stored by (auto simp: handleTelemetryMessage_def Some Let_def)
  next
    case True
    obtain i V where f: "foldl (intake_device E now pack) (intake_start, W) (pk_devices pack) = (i, V)" by force
    have taken: "intake_from now pack W (i, V)" using intake_from_all [of now pack W E] f by metis
    have "um_find (pw_pendingDb V) k = Some q \<or> q \<in> set (received_points pack i (pw_service V)) \<and> tp_pointId q = k"
    proof -
      have "handleTelemetryMessage E now topic payload W = markLatestPointsDirty (enqueueTelemetryStorage
          (received_points pack i (pw_service V)) (do_service (handleTelemetryPoints now (received_points pack i (pw_service V))) V))"
        using True by (simp add: handleTelemetryMessage_def Some f Let_def)
      then show ?thesis using stored storage_find by (fastforce simp: markLatestPointsDirty_def do_service_def)
    qed
    moreover have "tp_gatewayId q = ?g \<and> tp_portId q = ?p \<and> device_welcome now ?g ?p (tp_deviceId q) (pw_service W)"
      if q: "q \<in> set (received_points pack i (pw_service V))"
    proof -
      obtain d where d: "d \<in> set (in_devices i)" "q \<in> set (device_points (pack\<lparr>pk_devices := in_devices i\<rparr>) d)"
        using q by (auto simp: received_points_def toTelemetryPoints_mem)
      then have "tp_gatewayId q = ?g \<and> tp_portId q = ?p \<and> tp_deviceId q = dd_deviceId d"
        using device_points_point_of [OF d(2)] by (simp add: point_of_def)
      then show ?thesis using taken d(1) by (auto simp: intake_from_def)
    qed
    ultimately show ?thesis using taken topic True by (auto simp: intake_from_def)
  qed
qed

subsection \<open>The deletion of a device\<close>

lemma delete_request:
  assumes "deleteDeviceData (pe_db E) now g p d (pw_db W) = (True, db')" "pd_open (pw_db W)"
    and W': "W' = handle_delete_device E now g p d W"
  shows "pw_db W' = db'" and "pw_service W' = snd (removeDeviceData now g p d (pw_service W))"
  using assms by (simp_all add: handle_delete_device_def db_try_def db_isOpen_def in_db_def in_service_def in_order_def
      sendLatestPoints_def sendDevicesSnapshot_def Let_def case_prod_beta)

lemma delete_refused:
  assumes "\<not> fst (deleteDeviceData (pe_db E) now g p d (pw_db W))"
  shows "pw_service (handle_delete_device E now g p d W) = pw_service W"
  using assms by (simp add: handle_delete_device_def db_try_def db_isOpen_def in_db_def in_order_def
      sendLatestPoints_def sendDevicesSnapshot_def Let_def case_prod_beta)

lemma removed_from_service:
  assumes "g \<noteq> []" "p \<noteq> []" "0 < d"
  shows "q \<in> set (getLatestPoints (snd (removeDeviceData now g p d s))) \<Longrightarrow> \<not> same_device g p d q"
    and "getDeviceRegistrySnapshot (snd (removeDeviceData now g p d s)) = getDeviceRegistrySnapshot s"
    and "isRemovedDeviceLocked g p d (snd (removeDeviceData now g p d s))"
proof -
  show "q \<in> set (getLatestPoints (snd (removeDeviceData now g p d s))) \<Longrightarrow> \<not> same_device g p d q"
    using assms by (auto simp: removeDeviceData_def rememberRemovedDeviceLocked_def getLatestPoints_def Let_def
        um_values_set lookup_simps split: if_splits option.splits)
  show "getDeviceRegistrySnapshot (snd (removeDeviceData now g p d s)) = getDeviceRegistrySnapshot s"
    by (simp add: removeDeviceData_def rememberRemovedDeviceLocked_def getDeviceRegistrySnapshot_def Let_def)
  show "isRemovedDeviceLocked g p d (snd (removeDeviceData now g p d s))"
    using assms by (auto simp: removeDeviceData_def rememberRemovedDeviceLocked_def isRemovedDeviceLocked_def Let_def
        lookup_simps)
qed

subsection \<open>The messages that end the process\<close>

text \<open>A relay state that is neither a boolean nor an integer; a port id whose digits are no \<open>int\<close>.\<close>

definition fatal_message :: "'v pc_env \<Rightarrow> string \<Rightarrow> bool" where
  "fatal_message E msg \<longleftrightarrow> (\<exists>doc. parse_object (pe_json E) msg = Some doc \<and>
     (let J = pe_json E; c = read_command J msg doc in
        uc_kind c = ''set_relay'' \<and> (\<exists>states. relay_states J (payloadObjectOrRoot J doc) = Some states
          \<and> (\<exists>v \<in> set (rj_elements J states). \<not> rj_is_bool J v \<and> \<not> rj_is_int J v))
        \<or> uc_kind c \<in> set [''set_device_threshold'', ''set_threshold'', ''add_device'', ''remove_device'']
          \<and> stoi (filter (\<lambda>c. CHR ''0'' \<le> c \<and> c \<le> CHR ''9'') (uc_port c)) = None
          \<and> filter (\<lambda>c. CHR ''0'' \<le> c \<and> c \<le> CHR ''9'') (uc_port c) \<noteq> []))"

lemma those_None: "those xs = None \<Longrightarrow> None \<in> set xs"
  by (induction xs) (auto split: option.splits)

lemma relay_fatal:
  "handle_relay_command E now doc c W = None \<Longrightarrow> \<exists>states. relay_states (pe_json E) (payloadObjectOrRoot (pe_json E) doc) = Some states
     \<and> (\<exists>v \<in> set (rj_elements (pe_json E) states). \<not> rj_is_bool (pe_json E) v \<and> \<not> rj_is_int (pe_json E) v)"
  by (auto simp: handle_relay_command_def Let_def case_prod_beta relay_state_text_def dest!: those_None split: if_splits option.splits)

lemma slot_fatal: "slotFromPortId_or port fallback = None \<Longrightarrow>
    stoi (filter (\<lambda>c. CHR ''0'' \<le> c \<and> c \<le> CHR ''9'') port) = None \<and> filter (\<lambda>c. CHR ''0'' \<le> c \<and> c \<le> CHR ''9'') port \<noteq> []"
  by (auto simp: slotFromPortId_or_def Let_def split: if_splits)

lemma threshold_fatal: "handle_threshold_command E now doc c W = None \<Longrightarrow> \<exists>fallback. slotFromPortId_or (uc_port c) fallback = None"
  unfolding handle_threshold_command_def Let_def case_prod_beta
  by (simp only: split: if_splits option.splits) auto

lemma device_fatal: "handle_device_command E now doc c W = None \<Longrightarrow> \<exists>fallback. slotFromPortId_or (uc_port c) fallback = None"
  unfolding handle_device_command_def Let_def case_prod_beta by (auto split: if_splits)

lemma command_fatal: "handle_command E now msg W = None \<Longrightarrow> fatal_message E msg"
  unfolding handle_command_def fatal_message_def Let_def
  by (auto dest!: relay_fatal threshold_fatal device_fatal slot_fatal split: option.splits if_splits)

lemma request_fatal: "ipc_handle E now msg W = None \<Longrightarrow> fatal_message E msg"
  unfolding ipc_handle_def handle_plain_def Let_def
  by (simp only: split: option.splits if_splits prod.splits) (simp_all add: command_fatal)

lemma messages_fatal: "handle_messages E now msgs W = None \<Longrightarrow> \<exists>msg \<in> set msgs. fatal_message E msg"
  by (induction msgs arbitrary: W) (auto split: option.splits dest: request_fatal)

lemma step_fatal:
  "pc_step E now ev W = None \<Longrightarrow>
     \<exists>bytes. ev = UiBytes bytes \<and> (\<exists>msg \<in> set (fst (ipc_processReceivedData bytes (pw_ipc W))). fatal_message E msg)"
  by (cases ev) (auto simp: ui_received_def Let_def case_prod_beta dest: messages_fatal)

end
