(* ===== verification/WireIntake.thy ===== *)
theory WireIntake
  imports Wire PcDeeds
begin

text \<open>
  A reading of the board on its way through the live intake of Pc_data
  (Pc_data/mqtt/MqttMessageHandler.cpp): \<open>handle\<close> queues the message, the worker filters it
  against the registry and hands the points to the service, to the queue of the database and to
  the publisher of the latest values.
\<close>

subsection \<open>A pack with one sensor\<close>

text \<open>What the intake asks of a temperature and humidity sensor: gateway, port and device are
  registered, the device without a type or with that of the sensor, and neither the device nor its
  port is under a removal.\<close>

definition sensor_known :: "int \<Rightarrow> string \<Rightarrow> string \<Rightarrow> int \<Rightarrow> PcDataService \<Rightarrow> bool" where
  "sensor_known now g p d s \<longleftrightarrow> gatewayRegistered g s \<and> portRegistered g p s \<and> deviceRegistered g p d s
     \<and> (registeredDeviceType g p d s = [] \<or> registeredDeviceType g p d s = ''sensor_th'')
     \<and> \<not> isRemovedDeviceLocked g p d (pruneExpiredRemovedDevicesLocked now s)
     \<and> \<not> isRemovedMasterLocked g p (pruneExpiredRemovedDevicesLocked now s)"

definition th_point :: "TelemetryPack \<Rightarrow> DeviceData \<Rightarrow> TelemetryPoint" where
  "th_point pk d = fill_point pk d ''temperature'' ''Temperature'' ''C'' PV_Number (th_temperature (dd_th d)) []"

definition rh_point :: "TelemetryPack \<Rightarrow> DeviceData \<Rightarrow> TelemetryPoint" where
  "rh_point pk d = fill_point pk d ''humidity'' ''Humidity'' [CHR 0x25] PV_Number (th_humidity (dd_th d)) []"

lemma sensor_points:
  assumes "pk_devices pk = [d]" "dd_type d = DT_SensorTH"
  shows "toTelemetryPoints pk = [th_point pk d, rh_point pk d]"
  using assms by (simp add: toTelemetryPoints_def device_points_def appendTemperatureHumidityPoints_def th_point_def rh_point_def)

lemma sensor_point_fields [simp]:
  "tp_pointKey (th_point pk d) = ''temperature''" "tp_pointKey (rh_point pk d) = ''humidity''"
  "tp_pointId (th_point pk d) = pack_point_id pk d ''temperature''"
  "tp_pointId (rh_point pk d) = pack_point_id pk d ''humidity''"
  "tp_portId (th_point pk d) = sc_portId (pk_site pk)" "tp_portId (rh_point pk d) = sc_portId (pk_site pk)"
  "tp_gatewayId (th_point pk d) = sc_gatewayId (pk_site pk)" "tp_gatewayId (rh_point pk d) = sc_gatewayId (pk_site pk)"
  "tp_deviceId (th_point pk d) = dd_deviceId d" "tp_deviceId (rh_point pk d) = dd_deviceId d"
  "tp_valid (th_point pk d) = dd_valid d" "tp_valid (rh_point pk d) = dd_valid d"
  "tp_numberValue (th_point pk d) = th_temperature (dd_th d)" "tp_numberValue (rh_point pk d) = th_humidity (dd_th d)"
  "tp_timestampMs (th_point pk d) = pk_timestampMs pk" "tp_timestampMs (rh_point pk d) = pk_timestampMs pk"
  by (simp_all add: th_point_def rh_point_def)

lemma prune_master [simp]:
  "isRemovedMasterLocked g p (pruneExpiredRemovedDevicesLocked now (pruneExpiredRemovedDevicesLocked now s))
     = isRemovedMasterLocked g p (pruneExpiredRemovedDevicesLocked now s)"
  by (auto simp: isRemovedMasterLocked_def)

text \<open>The filters let the device and both of its points pass.\<close>

lemma sensor_taken:
  assumes "pk_devices pk = [d]" "sc_gatewayId (pk_site pk) = g" "sc_portId (pk_site pk) = p" "g \<noteq> []" "p \<noteq> []"
    and "0 < dd_deviceId d" "dd_type d = DT_SensorTH" "sensor_known now g p (dd_deviceId d) (pw_service W)"
  shows "\<exists>i. foldl (intake_device E now pk) (intake_start, W) (pk_devices pk)
      = (i, W\<lparr>pw_service := pruneExpiredRemovedDevicesLocked now (pw_service W)\<rparr>)
    \<and> received_points pk i (pruneExpiredRemovedDevicesLocked now (pw_service W)) = [th_point pk d, rh_point pk d]"
proof -
  let ?s = "pruneExpiredRemovedDevicesLocked now (pw_service W)"
  let ?i = "intake_accept pk (registeredDeviceType g p (dd_deviceId d) ?s) d intake_start"
  have pk: "pk\<lparr>pk_devices := [d]\<rparr> = pk" using assms(1) by simp
  have ty: "registeredDeviceType g p (dd_deviceId d) ?s = [] \<or> registeredDeviceType g p (dd_deviceId d) ?s = ''sensor_th''"
    using assms(8) by (simp add: sensor_known_def registeredDeviceType_def)
  have i: "in_devices ?i = [d]" "raw_keys ?i (mh_deviceKey p (dd_deviceId d)) = [''temperature'', ''humidity'']"
    "um_find (in_types ?i) (mh_deviceKey p (dd_deviceId d)) = Some ''sensor_th''"
    using ty by (auto simp: intake_accept_def intake_start_def pk sensor_points [OF assms(1,7)] raw_keys_def assms(3,7)
        normalizeTelemetryPointKey_def starts_with_def nonempty_or_def lookup_simps Let_def)
  have step: "intake_device E now pk (intake_start, W) d = (?i, W\<lparr>pw_service := ?s\<rparr>)"
    using assms ty by (auto simp: intake_device_def in_service_def isRemovedDevice_def sensor_known_def deviceTypesMatch_def Let_def)
  have "received_points pk ?i ?s = [th_point pk d, rh_point pk d]"
    by (simp add: received_points_def i(1) pk sensor_points [OF assms(1,7)] point_accepted_def assms(3) i(2,3)
        normalizeTelemetryPointKey_def starts_with_def isDefaultTelemetryPointKey_def Let_def)
  then show ?thesis using step assms(1) by simp
qed

lemma point_id_not_empty: "pack_point_id pk d key \<noteq> []"
  by (simp add: pack_point_id_def buildPointId_def)

lemma sensor_handled:
  assumes parsed: "addressed_pack (pe_json E) now topic payload = Some pk"
    and pk: "pk_devices pk = [d]" "sc_gatewayId (pk_site pk) = g" "sc_portId (pk_site pk) = p" "g \<noteq> []" "p \<noteq> []"
    and d: "0 < dd_deviceId d" "dd_type d = DT_SensorTH" "sensor_known now g p (dd_deviceId d) (pw_service W)"
    and inv: "snap_wf t (pw_service W)" "t \<le> now"
    and ids: "pack_point_id pk d ''temperature'' \<noteq> pack_point_id pk d ''humidity''"
    and W': "W' = handleTelemetryMessage E now topic payload W"
  shows "getPointById (pack_point_id pk d ''temperature'') (pw_service W') = Some (th_point pk d\<lparr>tp_receiveTimeMs := now\<rparr>)"
    and "getPointById (pack_point_id pk d ''humidity'') (pw_service W') = Some (rh_point pk d\<lparr>tp_receiveTimeMs := now\<rparr>)"
    and "um_find (pw_pendingDb W') (pack_point_id pk d ''temperature'') = Some (th_point pk d)"
    and "um_find (pw_pendingDb W') (pack_point_id pk d ''humidity'') = Some (rh_point pk d)"
    and "pw_latestDirty W'"
proof -
  let ?s = "pruneExpiredRemovedDevicesLocked now (pw_service W)"
  let ?ps = "[th_point pk d, rh_point pk d]"
  have known: "gatewayRegistered g (pw_service W)" "portRegistered g p (pw_service W)"
    using d(3) by (simp_all add: sensor_known_def)
  obtain i where i: "foldl (intake_device E now pk) (intake_start, W) (pk_devices pk) = (i, W\<lparr>pw_service := ?s\<rparr>)"
    "received_points pk i ?s = ?ps"
    using sensor_taken [OF pk d, of E] by blast
  have outcome: "W' = markLatestPointsDirty (enqueueTelemetryStorage ?ps
      (do_service (handleTelemetryPoints now ?ps) (W\<lparr>pw_service := ?s\<rparr>)))"
    using known by (simp add: W' handleTelemetryMessage_def parsed pk(2,3) i Let_def)
  have wf: "snap_wf t ?s" using inv(1) by (simp add: snap_wf_def)
  have free: "\<forall>q \<in> set (toTelemetryPoints pk). \<not> point_blocked (pruneExpiredRemovedDevicesLocked now ?s) q"
    using d(3) by (simp add: sensor_points [OF pk(1) d(2)] point_blocked_def pk(2,3) sensor_known_def)
  have "distinct (map dd_deviceId (pk_devices pk))" by (simp add: pk(1))
  note store = pack_point_stored [OF wf inv(2) this free, unfolded handleTelemetryPack_def sensor_points [OF pk(1) d(2)]]
  have s: "pw_service W' = handleTelemetryPoints now ?ps ?s"
    by (simp add: outcome markLatestPointsDirty_def enqueueTelemetryStorage_def do_service_def)
  show "getPointById (pack_point_id pk d ''temperature'') (pw_service W') = Some (th_point pk d\<lparr>tp_receiveTimeMs := now\<rparr>)"
    "getPointById (pack_point_id pk d ''humidity'') (pw_service W') = Some (rh_point pk d\<lparr>tp_receiveTimeMs := now\<rparr>)"
    using store [of "th_point pk d"] store [of "rh_point pk d"] by (simp_all add: s)
  show "um_find (pw_pendingDb W') (pack_point_id pk d ''temperature'') = Some (th_point pk d)"
    "um_find (pw_pendingDb W') (pack_point_id pk d ''humidity'') = Some (rh_point pk d)" "pw_latestDirty W'"
    using ids by (simp_all add: outcome markLatestPointsDirty_def enqueueTelemetryStorage_def do_service_def
        point_id_not_empty lookup_simps)
qed

subsection \<open>From the text of the board to the answer of the service\<close>

lemma port_topic_read:
  "validSlot slot \<Longrightarrow> parsePortUpTopic (''gateway/gateway_001/'' @ portIdForSlot slot @ ''/up'')
     = Some (''gateway_001'', portIdForSlot slot)"
proof -
  assume "validSlot slot"
  then have "slot = 0 \<or> slot = 1" by (auto simp: validSlot_def kSlotCount_def)
  moreover have "parsePortUpTopic (''gateway/gateway_001/'' @ portIdForSlot 0 @ ''/up'') = Some (''gateway_001'', portIdForSlot 0)"
    "parsePortUpTopic (''gateway/gateway_001/'' @ portIdForSlot 1 @ ''/up'') = Some (''gateway_001'', portIdForSlot 1)"
    by code_simp+
  ultimately show ?thesis by auto
qed

text \<open>A message that is the only one in the queue is handled in the next round of the worker.\<close>

lemma queued_and_taken:
  assumes "extractJsonStringValue payload ''type'' = ''telemetry_pack''" "pw_telemetryQueue W = []"
  shows "telemetryWorker E now (mqtt_handle E now topic payload W) = handleTelemetryMessage E now topic payload W"
proof -
  have same: "W\<lparr>pw_telemetryQueue := []\<rparr> = W" using assms(2) by (cases W) simp
  have "telemetryWorker E now (mqtt_handle E now topic payload W)
      = handleTelemetryMessage E now topic payload (W\<lparr>pw_telemetryQueue := []\<rparr>)"
    using assms by (simp add: mqtt_handle_def enqueueTelemetry_def telemetryWorker_def kMaxTelemetryQueueSize_def)
  then show ?thesis by (simp only: same)
qed

lemma wire_ids_differ: "wire_id slot i ''temperature'' \<noteq> wire_id slot i ''humidity''"
  by (simp add: wire_id_def buildPointId_def)

context wire
begin

lemma reading_answered:
  assumes sent: "telemetry_text C seq now slot dev = Some text"
      "rj_parse J text = Inr (doc (telemetry_doc C seq now slot dev))"
      "extractJsonStringValue text ''type'' = ''telemetry_pack''"
    and here: "validSlot slot" "0 < now" "in_int64 now"
    and dev: "dv_type dev = DEV_SENSOR_TH" "dv_valid dev" "0 < dv_device_id dev" "in_int (dv_device_id dev)"
      "dv_temperature dev = Fin c" "dv_humidity dev = Fin h"
    and pc: "pe_json E = J" "pw_telemetryQueue W = []"
      "sensor_known rx ''gateway_001'' (portIdForSlot slot) (dv_device_id dev) (pw_service W)"
      "snap_wf t (pw_service W)" "t \<le> rx"
    and W': "W' = telemetryWorker E rx (mqtt_handle E rx (''gateway/gateway_001/'' @ portIdForSlot slot @ ''/up'') text W)"
  shows "\<exists>p q. getPointById (wire_id slot (dv_device_id dev) ''temperature'') (pw_service W') = Some (p\<lparr>tp_receiveTimeMs := rx\<rparr>)
    \<and> um_find (pw_pendingDb W') (wire_id slot (dv_device_id dev) ''temperature'') = Some p
    \<and> tp_valid p \<and> tp_numberValue p = float_round c \<and> tp_timestampMs p = now
    \<and> getPointById (wire_id slot (dv_device_id dev) ''humidity'') (pw_service W') = Some (q\<lparr>tp_receiveTimeMs := rx\<rparr>)
    \<and> um_find (pw_pendingDb W') (wire_id slot (dv_device_id dev) ''humidity'') = Some q
    \<and> tp_valid q \<and> tp_numberValue q = float_round h \<and> tp_timestampMs q = now \<and> pw_latestDirty W'"
proof -
  let ?d = "parse_device J (doc (pack_device_json C now dev))" and ?p = "portIdForSlot slot"
  let ?topic = "''gateway/gateway_001/'' @ portIdForSlot slot @ ''/up''"
  obtain pk where pk: "TelemetryPackParser_parseJson J rx text = Inr pk" "pk_devices pk = [?d]" "pk_timestampMs pk = now"
    "sc_gatewayId (pk_site pk) = ''gateway_001''" "sc_portId (pk_site pk) = ?p"
    "\<And>key. pack_point_id pk ?d key = wire_id slot (dv_device_id dev) key"
    using single_parsed [OF sent(1,2) here dev(4)] by metis
  have d: "dd_type ?d = DT_SensorTH" "dd_valid ?d" "dd_deviceId ?d = dv_device_id dev"
    "dd_th ?d = \<lparr>th_temperature = float_round c, th_humidity = float_round h\<rparr>"
    using parsed_id_type [OF dev(4), of now] th_parsed [OF dev(1,4,5,6), of now] dev
    by (simp_all add: wire_type_def parseDeviceType_def)
  have p: "?p \<noteq> []" by (simp add: portIdForSlot_def)
  have read: "addressed_pack (pe_json E) rx ?topic text = Some pk"
    unfolding addressed_pack_def pc(1) pk(1) port_topic_read [OF here(1)] by (simp add: pk(4,5) p Let_def)
  have W: "W' = handleTelemetryMessage E rx ?topic text W"
    using queued_and_taken [OF sent(3) pc(2)] by (simp add: W')
  have known: "sensor_known rx ''gateway_001'' ?p (dd_deviceId ?d) (pw_service W)" "0 < dd_deviceId ?d"
    using pc(3) dev(3) by (simp_all add: d(3))
  note handled = sensor_handled [OF read pk(2,4,5) _ p known(2) d(1) known(1) pc(4,5) _ W, unfolded pk(6)]
  show ?thesis
    by (rule exI [of _ "th_point pk ?d"], rule exI [of _ "rh_point pk ?d"])
      (use handled wire_ids_differ d in \<open>simp add: pk(3)\<close>)
qed

end

end
