(* ===== verification/UiModel.thy ===== *)
theory UiModel
  imports RapidJson
begin

text \<open>
  The data of the desktop user interface (Pc_ui/model) and the calls of Qt it rests on.  A
  \<open>QString\<close> is its UTF-8 text, a \<open>QHash\<close> or \<open>QMap\<close> a finite map, a \<open>QList\<close> a list.

  Qt is not part of the repository: its JSON values, \<open>QJsonDocument\<close>, \<open>QString::arg\<close>, the
  formatting of a date and the local socket are the record \<open>'v qt\<close>.  \<open>qv_value\<close> of an absent member
  is the undefined value, \<open>qv_absent\<close> is undefined or null; \<open>qv_string\<close>, \<open>qv_int\<close>, \<open>qv_double\<close> and
  \<open>qv_bool\<close> take the default of \<open>toString\<close>, \<open>toInt\<close>, \<open>toDouble\<close> and \<open>toBool\<close>; \<open>qv_long\<close> is
  \<open>toVariant().toLongLong()\<close>; \<open>qv_list\<close> is \<open>toArray\<close>.  \<open>qt_parse\<close> is \<open>QJsonDocument::fromJson\<close>
  where it succeeds with an object; \<open>qt_compact\<close> writes an object; \<open>qt_true\<close> and \<open>qt_map\<close> are
  \<open>toBool\<close> and \<open>toMap\<close> of an option; \<open>qt_write\<close> is whether the socket takes all of a frame, by the
  number of the frame; \<open>qt_stamp\<close> is the local time as \<open>yyyyMMddHHmmsszzz\<close>.
\<close>

record 'v qt =
  qv_value :: "'v \<Rightarrow> string \<Rightarrow> 'v"
  qv_has :: "'v \<Rightarrow> string \<Rightarrow> bool"
  qv_object :: "'v \<Rightarrow> bool"
  qv_number :: "'v \<Rightarrow> bool"
  qv_absent :: "'v \<Rightarrow> bool"
  qv_string :: "'v \<Rightarrow> string \<Rightarrow> string"
  qv_int :: "'v \<Rightarrow> int \<Rightarrow> int"
  qv_double :: "'v \<Rightarrow> fval \<Rightarrow> fval"
  qv_bool :: "'v \<Rightarrow> bool \<Rightarrow> bool"
  qv_long :: "'v \<Rightarrow> int"
  qv_list :: "'v \<Rightarrow> 'v list"
  qt_parse :: "string \<Rightarrow> 'v option"
  qt_compact :: "jv \<Rightarrow> string"
  qt_arg :: "string \<Rightarrow> string list \<Rightarrow> string"
  qt_stamp :: "int \<Rightarrow> string"
  qt_trimmed :: "string \<Rightarrow> string"
  qt_true :: "jv \<Rightarrow> bool"
  qt_map :: "jv \<Rightarrow> (string \<times> jv) list"
  qt_write :: "nat \<Rightarrow> string \<Rightarrow> bool"

text \<open>\<open>value(key).toString()\<close>.\<close>

definition qtext :: "'v qt \<Rightarrow> 'v \<Rightarrow> string \<Rightarrow> string" where
  "qtext Q obj key = qv_string Q (qv_value Q obj key) []"

subsection \<open>Texts\<close>

text \<open>A text of Unicode code points below 65536, as its UTF-8 bytes.\<close>

definition qchr :: "nat \<Rightarrow> nat list" where
  "qchr n = (if n < 0x80 then [n] else if n < 0x800 then [0xC0 + n div 64, 0x80 + n mod 64]
     else [0xE0 + n div 4096, 0x80 + (n div 64) mod 64, 0x80 + n mod 64])"

definition qstr :: "nat list \<Rightarrow> string" where
  "qstr ns = map char_of (concat (map qchr ns))"

definition txt_offline_kept :: string where
  "txt_offline_kept = qstr [0x8BBE, 0x5907, 0x79BB, 0x7EBF, 0xFF0C, 0x4FDD, 0x7559, 0x6700, 0x540E, 0x503C]"
definition txt_stale :: string where
  "txt_stale = qstr [0x65E7, 0x6570, 0x636E] @ '' / '' @ qstr [0x6570, 0x636E, 0x8FC7, 0x671F]"
definition txt_service_offline :: string where
  "txt_service_offline = ''Pc_data '' @ qstr [0x670D, 0x52A1, 0x79BB, 0x7EBF, 0xFF0C, 0x4FDD, 0x7559, 0x6700, 0x540E, 0x503C]"
definition txt_offline :: string where
  "txt_offline = qstr [0x8BBE, 0x5907, 0x79BB, 0x7EBF]"
definition txt_normal :: string where
  "txt_normal = qstr [0x6B63, 0x5E38]"
definition txt_error :: string where
  "txt_error = qstr [0x8BBE, 0x5907, 0x5F02, 0x5E38]"
definition txt_unknown :: string where
  "txt_unknown = qstr [0x672A, 0x77E5]"
definition txt_invalid :: string where
  "txt_invalid = qstr [0x6570, 0x636E, 0x65E0, 0x6548]"
definition txt_unknown_type :: string where
  "txt_unknown_type = qstr [0x672A, 0x77E5, 0x8BBE, 0x5907, 0x7C7B, 0x578B]"
definition txt_timeout :: string where
  "txt_timeout = qstr [0x901A, 0x4FE1, 0x8D85, 0x65F6]"
definition txt_crc :: string where
  "txt_crc = ''CRC '' @ qstr [0x6821, 0x9A8C, 0x9519, 0x8BEF]"
definition txt_illegal :: string where
  "txt_illegal = qstr [0x975E, 0x6CD5, 0x6570, 0x636E]"
definition txt_demo :: string where
  "txt_demo = qstr [0x6F14, 0x793A, 0x6570, 0x636E]"
definition txt_temperature :: string where
  "txt_temperature = qstr [0x6E29, 0x5EA6, 0x5F02, 0x5E38, 0x503C]"
definition txt_humidity :: string where
  "txt_humidity = qstr [0x6E7F, 0x5EA6, 0x5F02, 0x5E38, 0x503C]"
definition txt_voltage :: string where
  "txt_voltage = qstr [0x4F4E, 0x7535, 0x538B, 0x5F02, 0x5E38, 0x503C]"
definition txt_current :: string where
  "txt_current = qstr [0x7535, 0x6D41, 0x5F02, 0x5E38, 0x503C]"
definition txt_power :: string where
  "txt_power = qstr [0x529F, 0x7387, 0x5F02, 0x5E38, 0x503C]"
definition txt_cpu :: string where
  "txt_cpu = ''CPU '' @ qstr [0x4F7F, 0x7528, 0x7387, 0x5F02, 0x5E38, 0x503C]"
definition txt_memory :: string where
  "txt_memory = qstr [0x5185, 0x5B58, 0x4F7F, 0x7528, 0x7387, 0x5F02, 0x5E38, 0x503C]"
definition txt_comma :: string where
  "txt_comma = qstr [0x3001]"

text \<open>The number that follows one of the prefixes, and nothing else but a final newline: the pattern
  \<open>^(?:port_|rs485-|RS485-)?(\d+)$\<close>, and \<open>toInt\<close> of the digits.\<close>

definition strip_port :: "string \<Rightarrow> string" where
  "strip_port s =
     (if starts_with ''port_'' s then drop 5 s
      else if starts_with ''rs485-'' s \<or> starts_with ''RS485-'' s then drop 6 s else s)"

definition final_line :: "string \<Rightarrow> string" where
  "final_line s = (if s \<noteq> [] \<and> last s = CHR 0x0A then butlast s else s)"

definition decimal_int :: "string \<Rightarrow> int option" where
  "decimal_int ds =
     (if ds \<noteq> [] \<and> list_all is_digit ds \<and> int (digits_val ds) \<le> int_max then Some (int (digits_val ds)) else None)"

definition port_number :: "string \<Rightarrow> int option" where
  "port_number portId =
     (case decimal_int (final_line (strip_port portId)) of None \<Rightarrow> None
      | Some n \<Rightarrow> if n \<le> 0 then None else Some (n - 1))"

definition masterSlotFromPortId :: "string \<Rightarrow> int" where
  "masterSlotFromPortId portId = (case port_number portId of None \<Rightarrow> 0 | Some n \<Rightarrow> n)"

definition alarmSlotFromPortId :: "string \<Rightarrow> int" where
  "alarmSlotFromPortId portId = (case port_number portId of None \<Rightarrow> -1 | Some n \<Rightarrow> n)"

subsection \<open>DeviceModel.h\<close>

record DeviceNode =
  nd_factoryId :: string
  nd_factoryName :: string
  nd_areaId :: string
  nd_areaName :: string
  nd_gatewayId :: string
  nd_gatewayName :: string
  nd_masterSlot :: int
  nd_masterName :: string
  nd_port :: string
  nd_baud :: int
  nd_slaveAddr :: int
  nd_deviceId :: int
  nd_deviceName :: string
  nd_deviceType :: string
  nd_expectTelemetry :: bool
  nd_status :: string
  nd_statusReason :: string
  nd_online :: bool
  nd_lastUpdateTime :: int

definition DeviceNode_default :: DeviceNode where
  "DeviceNode_default =
    \<lparr>nd_factoryId = [], nd_factoryName = [], nd_areaId = [], nd_areaName = [], nd_gatewayId = [],
     nd_gatewayName = [], nd_masterSlot = 0, nd_masterName = [], nd_port = [], nd_baud = 9600,
     nd_slaveAddr = 0, nd_deviceId = 0, nd_deviceName = [], nd_deviceType = [], nd_expectTelemetry = True,
     nd_status = [], nd_statusReason = [], nd_online = False, nd_lastUpdateTime = 0\<rparr>"

definition node_key :: "'v qt \<Rightarrow> DeviceNode \<Rightarrow> string" where
  "node_key Q n = qt_arg Q (qt_arg Q (qt_arg Q ''%1/%2/%3/%4/%5'' [nd_factoryId n, nd_areaId n, nd_gatewayId n])
     [nd_port n]) [to_string (nd_deviceId n)]"

text \<open>The test before every use of a node; the slave id of a node.\<close>

definition node_named :: "DeviceNode \<Rightarrow> bool" where
  "node_named n \<longleftrightarrow> \<not> (nd_gatewayId n = [] \<or> nd_port n = [] \<or> nd_deviceId n \<le> 0)"

definition node_slave :: "DeviceNode \<Rightarrow> int" where
  "node_slave n = (if nd_slaveAddr n > 0 then nd_slaveAddr n else nd_deviceId n)"

record GatewayNode =
  gn_gatewayId :: string
  gn_gatewayName :: string
  gn_factoryId :: string
  gn_areaId :: string
  gn_status :: string
  gn_lastRegisterTimeMs :: int
  gn_lastHeartbeatTimeMs :: int
  gn_updateTimeMs :: int

definition gateway_online :: "GatewayNode \<Rightarrow> bool" where
  "gateway_online g \<longleftrightarrow> gn_status g = ''online''"

record PortNode =
  pn_gatewayId :: string
  pn_portId :: string
  pn_portName :: string
  pn_slot :: int
  pn_devicePath :: string
  pn_baud :: int
  pn_status :: string
  pn_lastRegisterTimeMs :: int
  pn_updateTimeMs :: int

definition port_key :: "PortNode \<Rightarrow> string" where
  "port_key p = pn_gatewayId p @ ''/'' @ pn_portId p"

subsection \<open>TelemetryModel.h\<close>

record TelemetryPointData =
  td_pointId :: string
  td_timestampMs :: int
  td_factoryId :: string
  td_factoryName :: string
  td_areaId :: string
  td_areaName :: string
  td_gatewayId :: string
  td_gatewayName :: string
  td_portId :: string
  td_portName :: string
  td_deviceId :: int
  td_deviceName :: string
  td_deviceType :: string
  td_pointKey :: string
  td_pointName :: string
  td_unit :: string
  td_valueType :: string
  td_numberValue :: fval
  td_textValue :: string
  td_valid :: bool
  td_errorMessage :: string
  td_dataState :: string
  td_receiveTimeMs :: int
  td_lastUpdateTime :: int

record UiRelayData =
  rl_led :: bool
  rl_fan :: bool
  rl_buzzer :: bool
  rl_channels :: "(string, bool) umap"

record RealtimeDeviceData =
  rt_node :: DeviceNode
  rt_temperature :: fval
  rt_humidity :: fval
  rt_relay :: UiRelayData
  rt_voltage :: fval
  rt_current :: fval
  rt_power :: fval
  rt_energy :: fval
  rt_points :: "TelemetryPointData list"
  rt_errorMessage :: string
  rt_statusText :: string
  rt_statusLevel :: string
  rt_dataState :: string
  rt_serviceOffline :: bool
  rt_mock :: bool
  rt_valid :: bool
  rt_timestamp :: int

definition RealtimeDeviceData_default :: RealtimeDeviceData where
  "RealtimeDeviceData_default =
    \<lparr>rt_node = DeviceNode_default, rt_temperature = Fin 0, rt_humidity = Fin 0,
     rt_relay = \<lparr>rl_led = False, rl_fan = False, rl_buzzer = False, rl_channels = um_empty\<rparr>,
     rt_voltage = Fin 0, rt_current = Fin 0, rt_power = Fin 0, rt_energy = Fin 0, rt_points = [],
     rt_errorMessage = [], rt_statusText = [], rt_statusLevel = [], rt_dataState = [],
     rt_serviceOffline = False, rt_mock = False, rt_valid = False, rt_timestamp = 0\<rparr>"

subsection \<open>AlarmModel.h and CommandModel.h\<close>

record AlarmRecord =
  ar_alarmId :: string
  ar_factoryId :: string
  ar_areaId :: string
  ar_areaName :: string
  ar_gatewayId :: string
  ar_portId :: string
  ar_masterSlot :: int
  ar_slaveAddr :: int
  ar_deviceName :: string
  ar_deviceType :: string
  ar_pointKey :: string
  ar_alarmType :: string
  ar_level :: string
  ar_message :: string
  ar_value :: fval
  ar_threshold :: fval
  ar_state :: string
  ar_startTime :: int
  ar_ackTime :: int
  ar_recoverTime :: int

record CommandRecord =
  cr_cmdId :: string
  cr_timestamp :: int
  cr_seq :: int
  cr_factoryId :: string
  cr_areaId :: string
  cr_gatewayId :: string
  cr_portId :: string
  cr_masterSlot :: int
  cr_slaveAddr :: int
  cr_deviceType :: string
  cr_command :: string
  cr_paramsJson :: string
  cr_state :: string
  cr_ok :: bool
  cr_reason :: string
  cr_ackTime :: int

text \<open>\<open>QHash::value\<close>: the value of a key, or the default.\<close>

definition um_value :: "('k, 'v) umap \<Rightarrow> 'k \<Rightarrow> 'v \<Rightarrow> 'v" where
  "um_value m k d = (case um_find m k of None \<Rightarrow> d | Some v \<Rightarrow> v)"

text \<open>\<open>insert\<close> for every element of a list.\<close>

definition um_insert_all :: "('v \<Rightarrow> 'k) \<Rightarrow> 'v list \<Rightarrow> ('k, 'v) umap \<Rightarrow> ('k, 'v) umap" where
  "um_insert_all key vs m = foldl (\<lambda>m v. um_set (key v) v m) m vs"

lemma um_insert_all_Nil [simp]: "um_insert_all key [] m = m"
  by (simp add: um_insert_all_def)

lemma um_insert_all_snoc [simp]: "um_insert_all key (vs @ [v]) m = um_set (key v) v (um_insert_all key vs m)"
  by (simp add: um_insert_all_def)

lemma um_find_insert_all:
  "um_find (um_insert_all key vs m) k = Some v \<Longrightarrow> (v \<in> set vs \<and> k = key v) \<or> um_find m k = Some v"
  by (induction vs rule: rev_induct) (auto simp: lookup_simps split: if_splits)

lemma um_value_cases:
  assumes "P d" "\<And>v. um_find m k = Some v \<Longrightarrow> P v"
  shows "P (um_value m k d)"
  using assms by (cases "um_find m k") (simp_all add: um_value_def)

end
