(* ===== verification/UiDevices.thy ===== *)
theory UiDevices
  imports UiModel
begin

text \<open>
  The device manager of the user interface (Pc_ui/core/DeviceManager.cpp): the nodes the pages
  show.  The signals it emits are kept in the order they are sent.
\<close>

datatype device_signal =
    DeviceConfigChanged | GatewayStatusChanged | PortStatusChanged
  | DeviceOnlineStateChanged string bool | OnlineGatewayCountChanged int | OnlineDeviceCountChanged int

record DeviceManager =
  dm_devices :: "(string, DeviceNode) umap"
  dm_gateways :: "(string, GatewayNode) umap"
  dm_ports :: "(string, PortNode) umap"
  dm_lastOnlineGatewayCount :: int
  dm_lastOnlineDeviceCount :: int
  dm_signals :: "device_signal list"

definition DeviceManager_new :: DeviceManager where
  "DeviceManager_new = \<lparr>dm_devices = um_empty, dm_gateways = um_empty, dm_ports = um_empty,
     dm_lastOnlineGatewayCount = -1, dm_lastOnlineDeviceCount = -1, dm_signals = []\<rparr>"

definition dm_emit :: "device_signal list \<Rightarrow> DeviceManager \<Rightarrow> DeviceManager" where
  "dm_emit sigs s = s\<lparr>dm_signals := dm_signals s @ sigs\<rparr>"

subsection \<open>Counting\<close>

definition dm_onlineGatewayCount :: "DeviceManager \<Rightarrow> int" where
  "dm_onlineGatewayCount s =
     (if um_values (dm_gateways s) \<noteq> [] then int (length (filter gateway_online (um_values (dm_gateways s))))
      else int (length (remdups (map nd_gatewayId (filter nd_online (um_values (dm_devices s)))))))"

definition dm_onlineDeviceCount :: "DeviceManager \<Rightarrow> int" where
  "dm_onlineDeviceCount s = int (length (filter nd_online (um_values (dm_devices s))))"

definition emitOnlineCountsIfChanged :: "DeviceManager \<Rightarrow> DeviceManager" where
  "emitOnlineCountsIfChanged s =
     (let g = dm_onlineGatewayCount s; d = dm_onlineDeviceCount s;
          s = (if dm_lastOnlineGatewayCount s \<noteq> g
               then dm_emit [OnlineGatewayCountChanged g] (s\<lparr>dm_lastOnlineGatewayCount := g\<rparr>) else s)
      in if dm_lastOnlineDeviceCount s \<noteq> d
         then dm_emit [OnlineDeviceCountChanged d] (s\<lparr>dm_lastOnlineDeviceCount := d\<rparr>) else s)"

subsection \<open>Replacing and inserting\<close>

definition config_fields :: "DeviceNode \<Rightarrow> DeviceNode" where
  "config_fields n = n\<lparr>nd_online := False, nd_status := [], nd_statusReason := [], nd_lastUpdateTime := 0\<rparr>"

definition configFieldsChanged :: "DeviceNode \<Rightarrow> DeviceNode \<Rightarrow> bool" where
  "configFieldsChanged old new \<longleftrightarrow> config_fields old \<noteq> config_fields new"

definition realtimeFieldsChanged :: "DeviceNode \<Rightarrow> DeviceNode \<Rightarrow> bool" where
  "realtimeFieldsChanged old new \<longleftrightarrow> nd_online old \<noteq> nd_online new \<or> nd_status old \<noteq> nd_status new
     \<or> nd_statusReason old \<noteq> nd_statusReason new \<or> nd_lastUpdateTime old \<noteq> nd_lastUpdateTime new"

definition setDevices :: "'v qt \<Rightarrow> DeviceNode list \<Rightarrow> DeviceManager \<Rightarrow> DeviceManager" where
  "setDevices Q devices s = emitOnlineCountsIfChanged (dm_emit [DeviceConfigChanged]
     (s\<lparr>dm_devices := um_insert_all (node_key Q) (filter node_named devices) um_empty\<rparr>))"

definition setGateways :: "GatewayNode list \<Rightarrow> DeviceManager \<Rightarrow> DeviceManager" where
  "setGateways gateways s = emitOnlineCountsIfChanged (dm_emit [GatewayStatusChanged]
     (s\<lparr>dm_gateways := um_insert_all gn_gatewayId (filter (\<lambda>g. gn_gatewayId g \<noteq> []) gateways) um_empty\<rparr>))"

definition setPorts :: "PortNode list \<Rightarrow> DeviceManager \<Rightarrow> DeviceManager" where
  "setPorts ports s = emitOnlineCountsIfChanged (dm_emit [PortStatusChanged, DeviceConfigChanged]
     (s\<lparr>dm_ports := um_insert_all port_key
          (filter (\<lambda>p. \<not> (pn_gatewayId p = [] \<or> pn_portId p = [])) ports) um_empty\<rparr>))"

definition dm_clearAll :: "DeviceManager \<Rightarrow> DeviceManager" where
  "dm_clearAll s = emitOnlineCountsIfChanged (dm_emit [DeviceConfigChanged, GatewayStatusChanged, PortStatusChanged]
     (s\<lparr>dm_devices := um_empty, dm_gateways := um_empty, dm_ports := um_empty\<rparr>))"

definition dm_upsertDevice :: "'v qt \<Rightarrow> DeviceNode \<Rightarrow> DeviceManager \<Rightarrow> DeviceManager" where
  "dm_upsertDevice Q node s =
     (if \<not> node_named node then s
      else let key = node_key Q node; s' = s\<lparr>dm_devices := um_set key node (dm_devices s)\<rparr> in
        case um_find (dm_devices s) key of
          None \<Rightarrow> emitOnlineCountsIfChanged
            (dm_emit [DeviceConfigChanged, DeviceOnlineStateChanged key (nd_online node)] s')
        | Some old \<Rightarrow>
            if \<not> configFieldsChanged old node \<and> \<not> realtimeFieldsChanged old node then s
            else emitOnlineCountsIfChanged (dm_emit
              ((if configFieldsChanged old node then [DeviceConfigChanged] else [])
                @ (if nd_online old \<noteq> nd_online node then [DeviceOnlineStateChanged key (nd_online node)] else [])) s'))"

definition updateDeviceOnline :: "string \<Rightarrow> bool \<Rightarrow> DeviceManager \<Rightarrow> DeviceManager" where
  "updateDeviceOnline key online s =
     (case um_find (dm_devices s) key of None \<Rightarrow> s
      | Some node \<Rightarrow>
        if nd_online node = online then s
        else emitOnlineCountsIfChanged (dm_emit [DeviceOnlineStateChanged key online]
          (s\<lparr>dm_devices := um_set key (node\<lparr>nd_online := online\<rparr>) (dm_devices s)\<rparr>)))"

subsection \<open>Removing\<close>

definition dm_removeNodes :: "(DeviceNode \<Rightarrow> bool) \<Rightarrow> DeviceManager \<Rightarrow> DeviceManager" where
  "dm_removeNodes P s =
     (if \<not> list_ex P (um_values (dm_devices s)) then s
      else emitOnlineCountsIfChanged (dm_emit [DeviceConfigChanged]
        (s\<lparr>dm_devices := um_erase_if (\<lambda>_. P) (dm_devices s)\<rparr>)))"

definition node_at :: "string \<Rightarrow> string \<Rightarrow> int \<Rightarrow> DeviceNode \<Rightarrow> bool" where
  "node_at g p d n \<longleftrightarrow> nd_gatewayId n = g \<and> nd_port n = p \<and> node_slave n = d"

definition node_on :: "string \<Rightarrow> string \<Rightarrow> DeviceNode \<Rightarrow> bool" where
  "node_on g p n \<longleftrightarrow> nd_gatewayId n = g \<and> nd_port n = p"

definition dm_removeDeviceData :: "string \<Rightarrow> string \<Rightarrow> int \<Rightarrow> DeviceManager \<Rightarrow> DeviceManager" where
  "dm_removeDeviceData g p d = dm_removeNodes (node_at g p d)"

definition dm_removeMasterData :: "string \<Rightarrow> string \<Rightarrow> DeviceManager \<Rightarrow> DeviceManager" where
  "dm_removeMasterData g p = dm_removeNodes (node_on g p)"

subsection \<open>Reading\<close>

definition allDevices :: "DeviceManager \<Rightarrow> DeviceNode list" where
  "allDevices s = um_values (dm_devices s)"

definition allGateways :: "DeviceManager \<Rightarrow> GatewayNode list" where
  "allGateways s = um_values (dm_gateways s)"

definition allPorts :: "DeviceManager \<Rightarrow> PortNode list" where
  "allPorts s = um_values (dm_ports s)"

definition dm_device :: "string \<Rightarrow> DeviceManager \<Rightarrow> DeviceNode" where
  "dm_device key s = um_value (dm_devices s) key DeviceNode_default"

end
