(* ===== verification/UiAlarms.thy ===== *)
theory UiAlarms
  imports UiModel
begin

text \<open>
  The alarm manager of the user interface (Pc_ui/core/AlarmManager.cpp).  The signals it emits are
  kept in the order they are sent; a local change takes the time in seconds, as the source does.
\<close>

datatype alarm_signal = AlarmAdded AlarmRecord | AlarmUpdated AlarmRecord | AlarmsChanged | ActiveAlarmCountChanged int

record AlarmManager =
  am_alarms :: "(string, AlarmRecord) umap"
  am_signals :: "alarm_signal list"

definition AlarmManager_new :: AlarmManager where
  "AlarmManager_new = \<lparr>am_alarms = um_empty, am_signals = []\<rparr>"

subsection \<open>Reading an alarm\<close>

definition alarm_text :: "'v qt \<Rightarrow> 'v \<Rightarrow> string \<Rightarrow> string \<Rightarrow> string" where
  "alarm_text Q obj snake camel = (if qtext Q obj snake = [] then qtext Q obj camel else qtext Q obj snake)"

definition int64Value :: "'v qt \<Rightarrow> 'v \<Rightarrow> string \<Rightarrow> int \<Rightarrow> int" where
  "int64Value Q obj key d =
     (let v = qv_value Q obj key in if qv_number Q v then to_int64 (qv_double Q v (Fin 0)) else d)"

definition or_text :: "string \<Rightarrow> string \<Rightarrow> string" where
  "or_text s d = (if s = [] then d else s)"

definition alarm_id_of :: "'v qt \<Rightarrow> AlarmRecord \<Rightarrow> string" where
  "alarm_id_of Q a =
     qt_arg Q (qt_arg Q (qt_arg Q ''%1.%2.%3.%4.%5''
         [or_text (ar_gatewayId a) ''unknown_gateway'', or_text (ar_portId a) ''unknown_port''])
       [to_string (ar_slaveAddr a)])
       [or_text (ar_pointKey a) ''unknown'', or_text (ar_alarmType a) ''emergency'']"

definition alarmRecordFromJson :: "'v qt \<Rightarrow> int \<Rightarrow> 'v \<Rightarrow> AlarmRecord" where
  "alarmRecordFromJson Q nowMs obj =
     (let v = qv_value Q obj;
          portId = alarm_text Q obj ''port_id'' ''portId'';
          state = qv_string Q (v ''state'') (qv_string Q (v ''status'') ''active'');
          a = \<lparr>ar_alarmId = alarm_text Q obj ''alarm_id'' ''alarmId'',
            ar_factoryId = alarm_text Q obj ''factory_id'' ''factoryId'',
            ar_areaId = alarm_text Q obj ''area_id'' ''areaId'',
            ar_areaName = alarm_text Q obj ''area_name'' ''areaName'',
            ar_gatewayId = alarm_text Q obj ''gateway_id'' ''gatewayId'',
            ar_portId = portId,
            ar_masterSlot = qv_int Q (v ''master_slot'') (alarmSlotFromPortId portId),
            ar_slaveAddr = qv_int Q (v ''slave_addr'') (qv_int Q (v ''deviceId'') (qv_int Q (v ''device_id'') 0)),
            ar_deviceName = alarm_text Q obj ''device_name'' ''deviceName'',
            ar_deviceType = alarm_text Q obj ''device_type'' ''deviceType'',
            ar_pointKey = alarm_text Q obj ''point_key'' ''pointKey'',
            ar_alarmType = alarm_text Q obj ''alarm_type'' ''alarmType'',
            ar_level = qv_string Q (v ''level'') (qv_string Q (v ''alarm_level'') ''warning''),
            ar_message = qv_string Q (v ''message'') (qtext Q obj ''alarm_message''),
            ar_value = qv_double Q (v ''value'') (qv_double Q (v ''trigger_value'') (Fin 0)),
            ar_threshold = qv_double Q (v ''threshold'') (qv_double Q (v ''threshold_value'') (Fin 0)),
            ar_state = (if state = ''acked'' then ''acknowledged'' else state),
            ar_startTime = int64Value Q obj ''timestampMs'' (int64Value Q obj ''timestamp'' nowMs),
            ar_ackTime = int64Value Q obj ''ackTimeMs'' (int64Value Q obj ''ack_time_ms'' 0),
            ar_recoverTime = int64Value Q obj ''recoverTimeMs'' (int64Value Q obj ''recover_time_ms'' 0)\<rparr>
      in if ar_alarmId a = [] then a\<lparr>ar_alarmId := alarm_id_of Q a\<rparr> else a)"

subsection \<open>Operations\<close>

definition alarms :: "AlarmManager \<Rightarrow> AlarmRecord list" where
  "alarms s = um_values (am_alarms s)"

definition latestAlarms :: "nat \<Rightarrow> AlarmManager \<Rightarrow> AlarmRecord list" where
  "latestAlarms limit s = take limit (um_values (am_alarms s))"

definition activeAlarmCount :: "AlarmManager \<Rightarrow> int" where
  "activeAlarmCount s = int (length (filter (\<lambda>a. ar_state a = ''active'') (um_values (am_alarms s))))"

definition am_emit :: "alarm_signal list \<Rightarrow> AlarmManager \<Rightarrow> AlarmManager" where
  "am_emit sigs s = s\<lparr>am_signals := am_signals s @ sigs\<rparr>"

definition am_changed :: "AlarmManager \<Rightarrow> AlarmManager" where
  "am_changed s = am_emit [AlarmsChanged, ActiveAlarmCountChanged (activeAlarmCount s)] s"

definition onAlarmMessage :: "'v qt \<Rightarrow> int \<Rightarrow> 'v \<Rightarrow> AlarmManager \<Rightarrow> AlarmManager" where
  "onAlarmMessage Q nowMs obj s =
     (let a = alarmRecordFromJson Q nowMs obj; existed = um_find (am_alarms s) (ar_alarmId a) \<noteq> None
      in am_changed (am_emit [if existed then AlarmUpdated a else AlarmAdded a]
           (s\<lparr>am_alarms := um_set (ar_alarmId a) a (am_alarms s)\<rparr>)))"

definition onAlarmSnapshot :: "'v qt \<Rightarrow> int \<Rightarrow> 'v list \<Rightarrow> AlarmManager \<Rightarrow> AlarmManager" where
  "onAlarmSnapshot Q nowMs rows s = am_changed (s\<lparr>am_alarms := um_insert_all ar_alarmId
     (map (alarmRecordFromJson Q nowMs) (filter (qv_object Q) rows)) um_empty\<rparr>)"

definition change_alarm :: "string \<Rightarrow> (AlarmRecord \<Rightarrow> AlarmRecord) \<Rightarrow> AlarmManager \<Rightarrow> AlarmManager" where
  "change_alarm alarmId f s =
     (case um_find (am_alarms s) alarmId of None \<Rightarrow> s
      | Some a \<Rightarrow> am_changed (am_emit [AlarmUpdated (f a)] (s\<lparr>am_alarms := um_set alarmId (f a) (am_alarms s)\<rparr>)))"

definition acknowledgeAlarm_ui :: "int \<Rightarrow> string \<Rightarrow> AlarmManager \<Rightarrow> AlarmManager" where
  "acknowledgeAlarm_ui nowSecs alarmId = change_alarm alarmId (\<lambda>a. a\<lparr>ar_state := ''acknowledged'', ar_ackTime := nowSecs\<rparr>)"

definition recoverAlarm :: "int \<Rightarrow> string \<Rightarrow> AlarmManager \<Rightarrow> AlarmManager" where
  "recoverAlarm nowSecs alarmId = change_alarm alarmId (\<lambda>a. a\<lparr>ar_state := ''recovered'', ar_recoverTime := nowSecs\<rparr>)"

definition am_remove :: "(AlarmRecord \<Rightarrow> bool) \<Rightarrow> AlarmManager \<Rightarrow> AlarmManager" where
  "am_remove P s =
     (if \<not> list_ex P (um_values (am_alarms s)) then s
      else am_changed (s\<lparr>am_alarms := um_erase_if (\<lambda>_. P) (am_alarms s)\<rparr>))"

definition removeDeviceAlarms :: "string \<Rightarrow> string \<Rightarrow> int \<Rightarrow> AlarmManager \<Rightarrow> AlarmManager" where
  "removeDeviceAlarms gatewayId portId deviceId s =
     (if gatewayId = [] \<or> deviceId \<le> 0 then s
      else let slot = alarmSlotFromPortId portId in
        am_remove (\<lambda>a. ar_gatewayId a = gatewayId \<and> ar_slaveAddr a = deviceId \<and> (slot < 0 \<or> ar_masterSlot a = slot)) s)"

definition clearRecoveredAlarms_ui :: "AlarmManager \<Rightarrow> AlarmManager" where
  "clearRecoveredAlarms_ui = am_remove (\<lambda>a. ar_state a = ''recovered'')"

definition clearAllAlarms :: "AlarmManager \<Rightarrow> AlarmManager" where
  "clearAllAlarms s =
     (if um_values (am_alarms s) = [] then s
      else am_emit [AlarmsChanged, ActiveAlarmCountChanged 0] (s\<lparr>am_alarms := um_empty\<rparr>))"

subsection \<open>Alarms are kept under their own id\<close>

definition alarms_keyed :: "AlarmManager \<Rightarrow> bool" where
  "alarms_keyed s \<longleftrightarrow> (\<forall>(k, a) \<in> set (um_entries (am_alarms s)). ar_alarmId a = k)"

lemma alarms_keyed_find: "alarms_keyed s \<longleftrightarrow> (\<forall>k a. um_find (am_alarms s) k = Some a \<longrightarrow> ar_alarmId a = k)"
  by (auto simp: alarms_keyed_def um_find_entries)

lemma am_alarms_emit [simp]: "am_alarms (am_emit sigs s) = am_alarms s" "am_alarms (am_changed s) = am_alarms s"
  by (simp_all add: am_emit_def am_changed_def)

lemma alarms_keyed_ops:
  assumes "alarms_keyed s"
  shows "alarms_keyed (onAlarmMessage Q nowMs obj s)" "alarms_keyed (onAlarmSnapshot Q nowMs rows s)"
    "alarms_keyed (acknowledgeAlarm_ui nowSecs alarmId s)" "alarms_keyed (recoverAlarm nowSecs alarmId s)"
    "alarms_keyed (removeDeviceAlarms g p d s)" "alarms_keyed (clearRecoveredAlarms_ui s)" "alarms_keyed (clearAllAlarms s)"
proof -
  have change: "alarms_keyed (change_alarm k f s)" if "\<And>a. ar_alarmId (f a) = ar_alarmId a" for k f
    using assms that
    by (auto simp: alarms_keyed_find change_alarm_def lookup_simps split: option.splits if_splits)
  have remove: "alarms_keyed (am_remove P s)" for P
    using assms by (auto simp: alarms_keyed_find am_remove_def lookup_simps split: option.splits if_splits)
  show "alarms_keyed (onAlarmMessage Q nowMs obj s)"
    using assms by (auto simp: alarms_keyed_find onAlarmMessage_def Let_def lookup_simps split: if_splits)
  show "alarms_keyed (onAlarmSnapshot Q nowMs rows s)"
    by (auto simp: alarms_keyed_find onAlarmSnapshot_def dest!: um_find_insert_all)
  show "alarms_keyed (acknowledgeAlarm_ui nowSecs alarmId s)" "alarms_keyed (recoverAlarm nowSecs alarmId s)"
    by (simp_all add: acknowledgeAlarm_ui_def recoverAlarm_def change)
  show "alarms_keyed (removeDeviceAlarms g p d s)" "alarms_keyed (clearRecoveredAlarms_ui s)"
    using assms by (simp_all add: removeDeviceAlarms_def clearRecoveredAlarms_ui_def remove Let_def)
  show "alarms_keyed (clearAllAlarms s)"
    using assms by (simp add: clearAllAlarms_def alarms_keyed_find)
qed

end
