(* ===== verification/UiData.thy ===== *)
theory UiData
  imports UiDevices UiAlarms
begin

text \<open>
  The data manager of the user interface (Pc_ui/core/DataManager.cpp): the last values of every
  device, and the devices that were deleted.  Its state holds the device and the alarm manager it
  points to.  The clock is read once per operation; the log and its counter are left out.
\<close>

datatype data_signal = RealtimeDataUpdated | DeviceTreeChanged

record DataManager =
  dt_device :: DeviceManager
  dt_alarm :: AlarmManager
  dt_realtime :: "(string, RealtimeDeviceData) umap"
  dt_marks :: "(string, int) umap"
  dt_serviceOnline :: bool
  dt_signals :: "data_signal list"

definition DataManager_new :: DataManager where
  "DataManager_new = \<lparr>dt_device = DeviceManager_new, dt_alarm = AlarmManager_new, dt_realtime = um_empty,
     dt_marks = um_empty, dt_serviceOnline = True, dt_signals = []\<rparr>"

definition do_devices :: "(DeviceManager \<Rightarrow> DeviceManager) \<Rightarrow> DataManager \<Rightarrow> DataManager" where
  "do_devices f s = s\<lparr>dt_device := f (dt_device s)\<rparr>"

definition dt_emit :: "data_signal list \<Rightarrow> DataManager \<Rightarrow> DataManager" where
  "dt_emit sigs s = s\<lparr>dt_signals := dt_signals s @ sigs\<rparr>"

definition dt_emit_both :: "DataManager \<Rightarrow> DataManager" where
  "dt_emit_both = dt_emit [DeviceTreeChanged, RealtimeDataUpdated]"

definition kRealtimeFreshMs :: int where "kRealtimeFreshMs = 30000"
definition kRealtimeOfflineMs :: int where "kRealtimeOfflineMs = 90000"
definition kRealtimeStaleToleranceMs :: int where "kRealtimeStaleToleranceMs = 1000"

definition ui_normalizeDeviceType :: "string \<Rightarrow> string" where
  "ui_normalizeDeviceType deviceType = (if deviceType = ''electric_meter'' then ''meter'' else deviceType)"

subsection \<open>Deleted devices\<close>

definition deletedDeviceKey :: "'v qt \<Rightarrow> string \<Rightarrow> string \<Rightarrow> int \<Rightarrow> string" where
  "deletedDeviceKey Q g p d = qt_arg Q (qt_arg Q ''%1/%2/%3'' [g, p]) [to_string d]"

definition isDeletedDevice :: "'v qt \<Rightarrow> int \<Rightarrow> string \<Rightarrow> string \<Rightarrow> int \<Rightarrow> DataManager \<Rightarrow> bool" where
  "isDeletedDevice Q nowMs g p d s =
     (case um_find (dt_marks s) (deletedDeviceKey Q g p d) of None \<Rightarrow> False
      | Some expiresAt \<Rightarrow> expiresAt < 0 \<or> expiresAt > nowMs)"

definition node_deleted :: "'v qt \<Rightarrow> int \<Rightarrow> DataManager \<Rightarrow> DeviceNode \<Rightarrow> bool" where
  "node_deleted Q nowMs s n = isDeletedDevice Q nowMs (nd_gatewayId n) (nd_port n) (nd_deviceId n) s"

definition rememberDeletedDevice :: "'v qt \<Rightarrow> string \<Rightarrow> string \<Rightarrow> int \<Rightarrow> int \<Rightarrow> DataManager \<Rightarrow> DataManager" where
  "rememberDeletedDevice Q g p d nowMs s =
     (if g = [] \<or> p = [] \<or> d \<le> 0 then s
      else s\<lparr>dt_marks := um_set (deletedDeviceKey Q g p d) (- nowMs) (dt_marks s)\<rparr>)"

definition dt_forgetRemovedDevice :: "'v qt \<Rightarrow> string \<Rightarrow> string \<Rightarrow> int \<Rightarrow> DataManager \<Rightarrow> DataManager" where
  "dt_forgetRemovedDevice Q g p d s = s\<lparr>dt_marks := um_erase (deletedDeviceKey Q g p d) (dt_marks s)\<rparr>"

definition dt_removeDeviceData :: "'v qt \<Rightarrow> int \<Rightarrow> string \<Rightarrow> string \<Rightarrow> int \<Rightarrow> DataManager \<Rightarrow> DataManager" where
  "dt_removeDeviceData Q nowMs g p d s =
     (let s = do_devices (dm_removeDeviceData g p d) s;
          s = rememberDeletedDevice Q g p d nowMs s
      in dt_emit_both (s\<lparr>dt_realtime := um_erase_if (\<lambda>_ r. node_at g p d (rt_node r)) (dt_realtime s)\<rparr>))"

definition dt_removeMasterData :: "'v qt \<Rightarrow> int \<Rightarrow> string \<Rightarrow> string \<Rightarrow> DataManager \<Rightarrow> DataManager" where
  "dt_removeMasterData Q nowMs g p s =
     (let s = do_devices (dm_removeMasterData g p) s;
          gone = filter (node_on g p) (map rt_node (um_values (dt_realtime s)));
          s = foldl (\<lambda>s n. rememberDeletedDevice Q (nd_gatewayId n) (nd_port n) (nd_deviceId n) nowMs s) s gone
      in dt_emit_both (s\<lparr>dt_realtime := um_erase_if (\<lambda>_ r. node_on g p (rt_node r)) (dt_realtime s)\<rparr>))"

definition dt_clearRuntimeData :: "DataManager \<Rightarrow> DataManager" where
  "dt_clearRuntimeData s =
     dt_emit [RealtimeDataUpdated] (s\<lparr>dt_alarm := clearAllAlarms (dt_alarm s), dt_realtime := um_empty\<rparr>)"

subsection \<open>Reading points\<close>

definition parseTelemetryPoint :: "'v qt \<Rightarrow> 'v \<Rightarrow> TelemetryPointData" where
  "parseTelemetryPoint Q obj =
     (let v = qv_value Q obj; t = qtext Q obj;
          valid = qv_bool Q (v ''valid'') True;
          received = qv_long Q (v ''receiveTimeMs'');
          received = (if received \<le> 0 then qv_long Q (v ''timestampMs'') else received)
      in \<lparr>td_pointId = t ''pointId'', td_timestampMs = qv_long Q (v ''timestampMs''),
          td_factoryId = t ''factoryId'', td_factoryName = t ''factoryName'',
          td_areaId = t ''areaId'', td_areaName = t ''areaName'',
          td_gatewayId = t ''gatewayId'', td_gatewayName = t ''gatewayName'',
          td_portId = t ''portId'', td_portName = t ''portName'',
          td_deviceId = qv_int Q (v ''deviceId'') 0, td_deviceName = t ''deviceName'',
          td_deviceType = ui_normalizeDeviceType (t ''deviceType''),
          td_pointKey = t ''pointKey'', td_pointName = t ''pointName'', td_unit = t ''unit'',
          td_valueType = t ''valueType'', td_numberValue = qv_double Q (v ''numberValue'') (Fin 0),
          td_textValue = t ''textValue'', td_valid = valid,
          td_errorMessage = (if \<not> valid \<and> t ''errorMessage'' = [] then txt_invalid else t ''errorMessage''),
          td_dataState = [], td_receiveTimeMs = received, td_lastUpdateTime = received\<rparr>)"

definition point_named :: "TelemetryPointData \<Rightarrow> bool" where
  "point_named p \<longleftrightarrow> \<not> (td_factoryId p = [] \<or> td_areaId p = [] \<or> td_gatewayId p = [] \<or> td_portId p = [] \<or> td_deviceId p \<le> 0)"

definition point_device_key :: "'v qt \<Rightarrow> TelemetryPointData \<Rightarrow> string" where
  "point_device_key Q p = qt_arg Q (qt_arg Q ''%1/%2/%3/%4/%5''
     [td_factoryId p, td_areaId p, td_gatewayId p, td_portId p]) [to_string (td_deviceId p)]"

definition groupPointsByDevice :: "'v qt \<Rightarrow> 'v \<Rightarrow> (string, TelemetryPointData list) umap" where
  "groupPointsByDevice Q obj =
     foldl (\<lambda>m p. let key = point_device_key Q p in um_set key (um_value m key [] @ [p]) m) um_empty
       (filter point_named (map (parseTelemetryPoint Q) (filter (qv_object Q) (qv_list Q (qv_value Q obj ''points'')))))"

definition relay_point_key :: "string \<Rightarrow> bool" where
  "relay_point_key key \<longleftrightarrow> starts_with ''relay_'' key \<or> starts_with ''relay.ch'' key"

definition applyPointToTypedFields :: "TelemetryPointData \<Rightarrow> RealtimeDeviceData \<Rightarrow> RealtimeDeviceData" where
  "applyPointToTypedFields p d =
     (let key = td_pointKey p; x = td_numberValue p; kind = nd_deviceType (rt_node d) in
      if \<not> td_valid p then d
      else if kind = ''sensor_th'' then
        (if key = ''temperature'' then d\<lparr>rt_temperature := x\<rparr>
         else if key = ''humidity'' then d\<lparr>rt_humidity := x\<rparr> else d)
      else if kind = ''meter'' then
        (if key = ''voltage'' then d\<lparr>rt_voltage := x\<rparr>
         else if key = ''current'' then d\<lparr>rt_current := x\<rparr>
         else if key = ''power'' then d\<lparr>rt_power := x\<rparr>
         else if key = ''energy'' then d\<lparr>rt_energy := x\<rparr> else d)
      else if kind = ''relay'' \<and> relay_point_key key then
        (let on = f_nonzero x; r = rt_relay d;
             r = r\<lparr>rl_channels := um_set key on (rl_channels r)\<rparr>;
             r = (if key = ''relay_1'' then r\<lparr>rl_led := on\<rparr>
                  else if key = ''relay_2'' then r\<lparr>rl_fan := on\<rparr>
                  else if key = ''relay_3'' then r\<lparr>rl_buzzer := on\<rparr> else r)
         in d\<lparr>rt_relay := r\<rparr>)
      else d)"

subsection \<open>The status of a device\<close>

definition rt_show :: "string \<Rightarrow> string \<Rightarrow> string \<Rightarrow> RealtimeDeviceData \<Rightarrow> RealtimeDeviceData" where
  "rt_show level shown state d = d\<lparr>rt_statusText := shown, rt_statusLevel := level, rt_dataState := state\<rparr>"

definition rt_set_node :: "(DeviceNode \<Rightarrow> DeviceNode) \<Rightarrow> RealtimeDeviceData \<Rightarrow> RealtimeDeviceData" where
  "rt_set_node f d = d\<lparr>rt_node := f (rt_node d)\<rparr>"

definition point_warning :: "TelemetryPointData \<Rightarrow> string option" where
  "point_warning p =
     (let key = td_pointKey p; x = td_numberValue p in
      if \<not> td_valid p \<or> td_valueType p = ''text'' then None
      else if key = ''temperature'' \<and> f_less (Fin 60) x then Some txt_temperature
      else if key = ''humidity'' \<and> f_less (Fin 85) x then Some txt_humidity
      else if key = ''voltage'' \<and> f_less x (Fin 180) then Some txt_voltage
      else if key = ''current'' \<and> f_less (Fin 20) x then Some txt_current
      else if key = ''power'' \<and> f_less (Fin 5000) x then Some txt_power
      else if key = ''cpu_usage'' \<and> f_less (Fin 90) x then Some txt_cpu
      else if key = ''memory_usage'' \<and> f_less (Fin 85) x then Some txt_memory
      else None)"

text \<open>\<open>QStringList::join\<close>.\<close>

fun join_texts :: "string \<Rightarrow> string list \<Rightarrow> string" where
  "join_texts sep [] = []"
| "join_texts sep [x] = x"
| "join_texts sep (x # xs) = x @ sep @ join_texts sep xs"

text \<open>The status of a device whose data is fresh.\<close>

definition invalid_status :: "RealtimeDeviceData \<Rightarrow> RealtimeDeviceData" where
  "invalid_status d =
     (let reason = rt_errorMessage d; off = rt_set_node (\<lambda>n. n\<lparr>nd_online := False\<rparr>) d in
      if reason = ''modbus_timeout'' then rt_show ''error'' txt_timeout ''invalid'' off
      else if reason = ''modbus_crc_error'' then rt_show ''error'' txt_crc ''invalid'' off
      else if reason = ''invalid_data'' then rt_show ''error'' txt_illegal ''invalid'' d
      else if reason = ''device_offline'' then rt_show ''offline'' txt_offline ''offline'' off
      else if reason = ''unknown_device_type'' then rt_show ''error'' txt_unknown_type ''invalid'' d
      else rt_show ''error'' (if reason = [] then txt_invalid else reason) ''invalid'' d)"

definition fresh_status :: "RealtimeDeviceData \<Rightarrow> RealtimeDeviceData" where
  "fresh_status d =
     (let d = rt_show ''normal'' txt_normal ''normal''
                (rt_set_node (\<lambda>n. n\<lparr>nd_status := ''online'', nd_online := True\<rparr>) d);
          d = (if nd_deviceType (rt_node d) = ''unknown''
               then (rt_show ''warning'' txt_unknown_type ''normal'' d)
                 \<lparr>rt_errorMessage := if rt_errorMessage d = [] then ''unknown_device_type'' else rt_errorMessage d\<rparr>
               else d);
          warnings = List.map_filter point_warning (rt_points d)
      in if \<not> rt_valid d then invalid_status d
         else if warnings \<noteq> [] then rt_show ''warning'' (join_texts txt_comma warnings) (rt_dataState d) d
         else d)"

definition offline_errors :: "string list" where
  "offline_errors = [''device_offline'', ''modbus_timeout'', ''timeout'']"

definition evaluateDeviceStatus :: "int \<Rightarrow> RealtimeDeviceData \<Rightarrow> RealtimeDeviceData" where
  "evaluateDeviceStatus nowMs d =
     (let d = rt_set_node (\<lambda>n. n\<lparr>nd_online := False\<rparr>) d;
          seen = nd_lastUpdateTime (rt_node d);
          ageMs = (if seen > 0 then nowMs - seen else kRealtimeOfflineMs + 1);
          offline = rt_show ''offline'' txt_offline_kept ''offline'' (rt_set_node (\<lambda>n. n\<lparr>nd_status := ''offline''\<rparr>) d)
      in if rt_mock d then rt_show ''mock'' txt_demo ''mock'' d
         else if \<not> rt_valid d \<and> rt_errorMessage d \<in> set offline_errors then offline
         else if ageMs > kRealtimeOfflineMs then offline
         else if ageMs > kRealtimeFreshMs
           then rt_show ''stale'' txt_stale ''stale'' (rt_set_node (\<lambda>n. n\<lparr>nd_status := ''stale''\<rparr>) d)
         else fresh_status d)"

end
