(* ===== verification/UiDataOps.thy ===== *)
theory UiDataOps
  imports UiData
begin

text \<open>
  The messages, the ageing and the snapshots of the data manager
  (Pc_ui/core/DataManager.cpp, second part).
\<close>

subsection \<open>Latest points\<close>

definition built_node :: "TelemetryPointData \<Rightarrow> DeviceNode" where
  "built_node p = DeviceNode_default
     \<lparr>nd_factoryId := td_factoryId p, nd_factoryName := td_factoryName p, nd_areaId := td_areaId p,
      nd_areaName := td_areaName p, nd_gatewayId := td_gatewayId p, nd_gatewayName := td_gatewayName p,
      nd_port := td_portId p, nd_masterSlot := masterSlotFromPortId (td_portId p), nd_masterName := td_portName p,
      nd_slaveAddr := td_deviceId p, nd_deviceId := td_deviceId p, nd_deviceName := td_deviceName p,
      nd_deviceType := td_deviceType p,
      nd_expectTelemetry := td_deviceType p \<noteq> ''relay'' \<and> td_deviceType p \<noteq> ''led'',
      nd_online := False, nd_status := ''unknown'', nd_lastUpdateTime := td_receiveTimeMs p\<rparr>"

definition add_built_point :: "RealtimeDeviceData \<Rightarrow> TelemetryPointData \<Rightarrow> RealtimeDeviceData" where
  "add_built_point d p = applyPointToTypedFields p
     (rt_set_node (\<lambda>n. n\<lparr>nd_lastUpdateTime := max (nd_lastUpdateTime n) (td_receiveTimeMs p)\<rparr>) d
       \<lparr>rt_valid := rt_valid d \<and> td_valid p,
        rt_errorMessage := (if rt_errorMessage d = [] then td_errorMessage p else rt_errorMessage d),
        rt_timestamp := max (rt_timestamp d) (td_timestampMs p)\<rparr>)"

definition buildRealtimeDeviceData :: "int \<Rightarrow> TelemetryPointData list \<Rightarrow> RealtimeDeviceData" where
  "buildRealtimeDeviceData nowMs points =
     (case points of [] \<Rightarrow> RealtimeDeviceData_default
      | p # _ \<Rightarrow> evaluateDeviceStatus nowMs (foldl add_built_point
          (RealtimeDeviceData_default\<lparr>rt_node := built_node p, rt_timestamp := td_timestampMs p, rt_valid := True,
             rt_dataState := ''normal'', rt_points := points\<rparr>) points))"

text \<open>A later one of the same key replaces an earlier one that is not more recent.\<close>

definition keep_latest :: "('v \<Rightarrow> string) \<Rightarrow> ('v \<Rightarrow> int) \<Rightarrow> 'v list \<Rightarrow> (string, 'v) umap" where
  "keep_latest key time vs = foldl (\<lambda>m v.
     (case um_find m (key v) of None \<Rightarrow> um_set (key v) v m
      | Some old \<Rightarrow> if time v \<ge> time old then um_set (key v) v m else m)) um_empty vs"

definition parseLatestPoints :: "'v qt \<Rightarrow> int \<Rightarrow> 'v \<Rightarrow> RealtimeDeviceData list" where
  "parseLatestPoints Q nowMs obj = um_values (keep_latest (\<lambda>d. node_key Q (rt_node d)) (\<lambda>d. nd_lastUpdateTime (rt_node d))
     (filter (\<lambda>d. nd_factoryId (rt_node d) \<noteq> [] \<and> node_key Q (rt_node d) \<noteq> [])
       (map (buildRealtimeDeviceData nowMs) (um_values (groupPointsByDevice Q obj)))))"

definition stale_update :: "RealtimeDeviceData \<Rightarrow> RealtimeDeviceData \<Rightarrow> bool" where
  "stale_update old new \<longleftrightarrow> rt_points old \<noteq> [] \<and> nd_lastUpdateTime (rt_node old) > 0 \<and> nd_lastUpdateTime (rt_node new) > 0
     \<and> nd_lastUpdateTime (rt_node new) + kRealtimeStaleToleranceMs < nd_lastUpdateTime (rt_node old)"

text \<open>Also whether anything changed.\<close>

definition upsertRealtimeData :: "'v qt \<Rightarrow> int \<Rightarrow> RealtimeDeviceData \<Rightarrow> DataManager \<Rightarrow> bool \<times> DataManager" where
  "upsertRealtimeData Q nowMs d s =
     (let key = node_key Q (rt_node d); old = um_value (dt_realtime s) key RealtimeDeviceData_default in
      if node_deleted Q nowMs s (rt_node d) \<or> stale_update old d then (False, s)
      else let s = s\<lparr>dt_realtime := um_set key d (dt_realtime s)\<rparr>;
               s = do_devices (updateDeviceOnline key (nd_online (rt_node d)) \<circ> dm_upsertDevice Q (rt_node d)) s
           in (True, if \<not> node_named (rt_node old) then dt_emit [DeviceTreeChanged] s else s))"

definition latest_upserts :: "'v qt \<Rightarrow> int \<Rightarrow> RealtimeDeviceData list \<Rightarrow> DataManager \<Rightarrow> bool \<times> DataManager" where
  "latest_upserts Q nowMs ds s = foldl (\<lambda>(changed, s) d.
     if node_deleted Q nowMs s (rt_node d) then (changed, s)
     else let (c, s) = upsertRealtimeData Q nowMs d s in (c \<or> changed, s)) (False, s) ds"

definition onLatestPointsMessage :: "'v qt \<Rightarrow> int \<Rightarrow> 'v \<Rightarrow> DataManager \<Rightarrow> DataManager" where
  "onLatestPointsMessage Q nowMs obj s =
     (let (changed, s) = latest_upserts Q nowMs (parseLatestPoints Q nowMs obj) (s\<lparr>dt_serviceOnline := True\<rparr>)
      in if changed then dt_emit [RealtimeDataUpdated] s else s)"

subsection \<open>Snapshots of the devices\<close>

definition snapshot_node :: "'v qt \<Rightarrow> 'v \<Rightarrow> DeviceNode" where
  "snapshot_node Q row =
     (let v = qv_value Q row; t = qtext Q row;
          deviceId = qv_int Q (v ''deviceId'') 0; status = qv_string Q (v ''status'') ''unknown''
      in DeviceNode_default
     \<lparr>nd_factoryId := t ''factoryId'', nd_factoryName := t ''factoryName'', nd_areaId := t ''areaId'',
      nd_areaName := t ''areaName'', nd_gatewayId := t ''gatewayId'', nd_gatewayName := t ''gatewayName'',
      nd_port := t ''portId'', nd_masterSlot := masterSlotFromPortId (t ''portId''), nd_masterName := t ''portName'',
      nd_deviceId := deviceId, nd_slaveAddr := deviceId, nd_deviceName := t ''deviceName'',
      nd_deviceType := ui_normalizeDeviceType (t ''deviceType''),
      nd_expectTelemetry := qv_bool Q (v ''expectTelemetry'') True,
      nd_status := status, nd_statusReason := t ''statusReason'', nd_online := status = ''online'',
      nd_lastUpdateTime := qv_long Q (v ''lastSeenMs'')\<rparr>)"

definition parseDevicesSnapshot :: "'v qt \<Rightarrow> 'v \<Rightarrow> DeviceNode list" where
  "parseDevicesSnapshot Q obj = um_values (keep_latest (node_key Q) nd_lastUpdateTime
     (filter (\<lambda>n. nd_factoryId n \<noteq> [] \<and> nd_areaId n \<noteq> [] \<and> node_named n)
       (map (snapshot_node Q) (filter (qv_object Q) (qv_list Q (qv_value Q obj ''devices''))))))"

definition with_live_state :: "DeviceNode \<Rightarrow> DeviceNode \<Rightarrow> DeviceNode" where
  "with_live_state live n = n\<lparr>nd_online := nd_online live, nd_status := nd_status live,
     nd_statusReason := nd_statusReason live, nd_lastUpdateTime := nd_lastUpdateTime live\<rparr>"

text \<open>What a node of the configuration becomes when there are values for it.\<close>

definition merge_live :: "DeviceNode \<Rightarrow> DeviceNode \<Rightarrow> DeviceNode" where
  "merge_live live n =
     (let n = with_live_state live n in
      n\<lparr>nd_factoryId := or_text (nd_factoryId n) (nd_factoryId live),
        nd_factoryName := or_text (nd_factoryName n) (nd_factoryName live),
        nd_areaId := or_text (nd_areaId n) (nd_areaId live),
        nd_areaName := or_text (nd_areaName n) (nd_areaName live),
        nd_gatewayId := or_text (nd_gatewayId n) (nd_gatewayId live),
        nd_gatewayName := or_text (nd_gatewayName n) (nd_gatewayName live),
        nd_port := or_text (nd_port n) (nd_port live),
        nd_masterName := or_text (nd_masterName n) (nd_masterName live),
        nd_deviceName := or_text (nd_deviceName n) (nd_deviceName live),
        nd_deviceType := or_text (nd_deviceType n) (nd_deviceType live),
        nd_deviceId := (if nd_deviceId n \<le> 0 then nd_deviceId live else nd_deviceId n),
        nd_slaveAddr := (if nd_slaveAddr n \<le> 0 then nd_slaveAddr live else nd_slaveAddr n),
        nd_expectTelemetry := nd_expectTelemetry live\<rparr>)"

definition merge_realtime :: "'v qt \<Rightarrow> RealtimeDeviceData list \<Rightarrow> (string, DeviceNode) umap \<Rightarrow> (string, DeviceNode) umap" where
  "merge_realtime Q rs m = foldl (\<lambda>m live.
     let key = node_key Q live in um_set key (merge_live live (um_value m key live)) m) m (filter node_named (map rt_node rs))"

text \<open>The values of a device of a snapshot.\<close>

definition snapshot_show :: "DeviceNode \<Rightarrow> RealtimeDeviceData \<Rightarrow> RealtimeDeviceData" where
  "snapshot_show n d =
     (if nd_status n = ''offline'' then rt_show ''offline'' txt_offline ''offline'' d
      else if nd_status n = ''online'' then rt_show ''normal'' txt_normal ''normal'' d
      else if nd_status n = ''error''
        then rt_show ''error'' (if nd_statusReason n = [] then txt_error else nd_statusReason n) ''invalid'' d
      else rt_show ''unknown'' txt_unknown ''unknown'' d)"

definition snapshot_values :: "DeviceNode \<Rightarrow> RealtimeDeviceData \<Rightarrow> RealtimeDeviceData" where
  "snapshot_values n d =
     (if rt_points d \<noteq> [] then d\<lparr>rt_node := with_live_state (rt_node d) n\<rparr>
      else snapshot_show n (d\<lparr>rt_node := n, rt_timestamp := nd_lastUpdateTime n\<rparr>))"

definition onDevicesSnapshotMessage :: "'v qt \<Rightarrow> int \<Rightarrow> 'v \<Rightarrow> DataManager \<Rightarrow> DataManager" where
  "onDevicesSnapshotMessage Q nowMs obj s =
     (let s = s\<lparr>dt_serviceOnline := True\<rparr>;
          devices = filter (\<lambda>n. \<not> node_deleted Q nowMs s n) (parseDevicesSnapshot Q obj);
          m = um_insert_all (node_key Q) (filter node_named (allDevices (dt_device s))) um_empty;
          m = um_insert_all (node_key Q) devices m;
          m = merge_realtime Q (um_values (dt_realtime s)) m;
          s = do_devices (setDevices Q (um_values m)) s;
          live = um_erase_if (\<lambda>_ r. node_deleted Q nowMs s (rt_node r)) (dt_realtime s);
          live = foldl (\<lambda>m n. um_set (node_key Q n)
                   (snapshot_values n (um_value m (node_key Q n) RealtimeDeviceData_default)) m) live devices
      in dt_emit_both (s\<lparr>dt_realtime := live\<rparr>))"

definition deviceTreeSnapshot :: "'v qt \<Rightarrow> DataManager \<Rightarrow> DeviceNode list" where
  "deviceTreeSnapshot Q s = um_values (merge_realtime Q (um_values (dt_realtime s))
     (um_insert_all (node_key Q) (filter node_named (allDevices (dt_device s))) um_empty))"

definition dt_deviceData :: "string \<Rightarrow> DataManager \<Rightarrow> RealtimeDeviceData" where
  "dt_deviceData key s = um_value (dt_realtime s) key RealtimeDeviceData_default"

definition allRealtimeData :: "DataManager \<Rightarrow> RealtimeDeviceData list" where
  "allRealtimeData s = um_values (dt_realtime s)"

subsection \<open>Ageing and the loss of the service\<close>

definition aged :: "int \<Rightarrow> int \<Rightarrow> bool \<Rightarrow> RealtimeDeviceData \<Rightarrow> RealtimeDeviceData" where
  "aged nowMs timeoutMs online d =
     (let d' = rt_set_node (\<lambda>n. n\<lparr>nd_online := online\<rparr>) d;
          ageMs = (if rt_timestamp d > 0 then nowMs - rt_timestamp d else timeoutMs + 1)
      in if online then d'
         else (if ageMs > kRealtimeOfflineMs then rt_show ''offline'' txt_offline_kept ''offline'' d'
               else rt_show ''stale'' txt_stale ''stale'' d')\<lparr>rt_valid := False\<rparr>)"

definition refresh_device :: "'v qt \<Rightarrow> int \<Rightarrow> int \<Rightarrow> bool \<times> DataManager \<Rightarrow> DeviceNode \<Rightarrow> bool \<times> DataManager" where
  "refresh_device Q nowMs timeoutMs = (\<lambda>(changed, s) n.
     let seen = nd_lastUpdateTime n; online = (seen > 0 \<and> nowMs - seen \<le> timeoutMs); key = node_key Q n in
     if \<not> nd_expectTelemetry n \<or> nd_online n = online then (changed, s)
     else let s = do_devices (updateDeviceOnline key online) s
          in (True, case um_find (dt_realtime s) key of None \<Rightarrow> s
                | Some d \<Rightarrow> s\<lparr>dt_realtime := um_set key (aged nowMs timeoutMs online d) (dt_realtime s)\<rparr>))"

definition dt_refreshOfflineStates :: "'v qt \<Rightarrow> int \<Rightarrow> int \<Rightarrow> DataManager \<Rightarrow> bool \<times> DataManager" where
  "dt_refreshOfflineStates Q nowMs timeoutMs s =
     (let (changed, s) = foldl (refresh_device Q nowMs timeoutMs) (False, s) (allDevices (dt_device s))
      in (changed, if changed then dt_emit_both s else s))"

definition service_lost :: "string \<Rightarrow> RealtimeDeviceData \<Rightarrow> RealtimeDeviceData" where
  "service_lost reason d =
     (rt_show ''offline'' (if reason = ''service_offline'' then txt_service_offline else txt_offline_kept) ''offline''
        (rt_set_node (\<lambda>n. n\<lparr>nd_online := False, nd_status := reason\<rparr>) d))
     \<lparr>rt_serviceOffline := True, rt_valid := False, rt_errorMessage := or_text (rt_errorMessage d) reason\<rparr>"

definition dt_markAllDevicesOffline :: "'v qt \<Rightarrow> string \<Rightarrow> DataManager \<Rightarrow> DataManager" where
  "dt_markAllDevicesOffline Q reason s =
     (let s = s\<lparr>dt_serviceOnline := False\<rparr>;
          devices = map (\<lambda>n. n\<lparr>nd_online := False, nd_status := reason, nd_statusReason := reason\<rparr>) (allDevices (dt_device s));
          s = do_devices (setDevices Q devices) s
      in dt_emit_both (s\<lparr>dt_realtime := um_map (\<lambda>_. service_lost reason) (dt_realtime s)\<rparr>))"

subsection \<open>Demonstration data\<close>

definition txt_demo_area :: string where
  "txt_demo_area = ''1'' @ qstr [0x53F7, 0x5382, 0x623F]"
definition txt_demo_bus :: string where
  "txt_demo_bus = qstr [0x73AF, 0x5883, 0x91C7, 0x96C6, 0x603B, 0x7EBF]"
definition txt_demo_sensor :: string where
  "txt_demo_sensor = qstr [0x6E29, 0x6E7F, 0x5EA6, 0x4F20, 0x611F, 0x5668] @ ''1''"
definition txt_demo_meter :: string where
  "txt_demo_meter = qstr [0x7535, 0x8868] @ ''1''"
definition txt_demo_control :: string where
  "txt_demo_control = qstr [0x8BBE, 0x5907, 0x63A7, 0x5236, 0x603B, 0x7EBF]"
definition txt_demo_relay :: string where
  "txt_demo_relay = qstr [0x7EE7, 0x7535, 0x5668, 0x6A21, 0x5757] @ ''1''"

definition demo_nodes :: "DeviceNode list" where
  "demo_nodes =
     (let th = DeviceNode_default\<lparr>nd_factoryId := ''factory_001'', nd_areaId := ''area_001'', nd_areaName := txt_demo_area,
                 nd_gatewayId := ''imx6ull_001'', nd_masterSlot := 0, nd_masterName := txt_demo_bus, nd_slaveAddr := 1,
                 nd_deviceId := 1, nd_deviceName := txt_demo_sensor, nd_deviceType := ''sensor_th'', nd_online := True\<rparr>
      in [th,
          th\<lparr>nd_slaveAddr := 3, nd_deviceId := 3, nd_deviceName := txt_demo_meter, nd_deviceType := ''meter''\<rparr>,
          th\<lparr>nd_masterSlot := 1, nd_masterName := txt_demo_control, nd_slaveAddr := 1, nd_deviceId := 2,
             nd_deviceName := txt_demo_relay, nd_deviceType := ''relay''\<rparr>])"

definition demo_values :: "int \<Rightarrow> DeviceNode \<Rightarrow> RealtimeDeviceData" where
  "demo_values nowMs n = (rt_show ''mock'' txt_demo ''mock'' RealtimeDeviceData_default)
     \<lparr>rt_node := n, rt_valid := True, rt_mock := True, rt_timestamp := nowMs,
      rt_temperature := double_round (265 / 10), rt_humidity := double_round (602 / 10),
      rt_relay := rt_relay RealtimeDeviceData_default\<lparr>rl_led := True\<rparr>,
      rt_voltage := Fin 220, rt_current := double_round (12 / 10), rt_power := Fin 260, rt_energy := double_round (888 / 10)\<rparr>"

definition loadDemoData :: "'v qt \<Rightarrow> int \<Rightarrow> bool \<Rightarrow> DataManager \<Rightarrow> DataManager" where
  "loadDemoData Q nowMs demoMode s =
     (if \<not> demoMode then s
      else let s = do_devices (setDevices Q demo_nodes) s
           in dt_emit_both (s\<lparr>dt_realtime := um_insert_all (\<lambda>d. node_key Q (rt_node d)) (map (demo_values nowMs) demo_nodes)
                (dt_realtime s)\<rparr>))"

end
