(* ===== verification/UiStore.thy ===== *)
theory UiStore
  imports UiDataOps
begin

text \<open>
  The state the pages of the user interface read (Pc_ui/core/UiStateStore.cpp): a mirror of the
  device and the data manager, rebuilt after each change, and one delayed notification for all
  changes of 50 milliseconds.
\<close>

record DeviceState =
  ds_node :: DeviceNode
  ds_realtime :: RealtimeDeviceData
  ds_lifecycleState :: string
  ds_lastMutationSource :: string
  ds_lastCommandStatus :: string
  ds_lastStateUpdateMs :: int

definition DeviceState_default :: DeviceState where
  "DeviceState_default = \<lparr>ds_node = DeviceNode_default, ds_realtime = RealtimeDeviceData_default, ds_lifecycleState = [],
     ds_lastMutationSource = [], ds_lastCommandStatus = [], ds_lastStateUpdateMs = 0\<rparr>"

record UiStateStore =
  st_data :: DataManager
  st_devices :: "(string, DeviceState) umap"
  st_stateChangePending :: bool
  st_notified :: nat

definition UiStateStore_new :: UiStateStore where
  "UiStateStore_new = \<lparr>st_data = DataManager_new, st_devices = um_empty, st_stateChangePending = False, st_notified = 0\<rparr>"

definition scheduleStateChanged :: "UiStateStore \<Rightarrow> UiStateStore" where
  "scheduleStateChanged s = s\<lparr>st_stateChangePending := True\<rparr>"

text \<open>The timer of a scheduled notification.\<close>

definition notify_state_changed :: "UiStateStore \<Rightarrow> UiStateStore" where
  "notify_state_changed s =
     (if st_stateChangePending s then s\<lparr>st_stateChangePending := False, st_notified := st_notified s + 1\<rparr> else s)"

subsection \<open>The mirror\<close>

definition lifecycleFor :: "DeviceState \<Rightarrow> string" where
  "lifecycleFor s =
     (let status = nd_status (ds_node s); state = rt_dataState (ds_realtime s) in
      if rt_serviceOffline (ds_realtime s) \<or> status = ''service_offline'' then ''service_offline''
      else if state = ''offline'' \<or> status = ''offline'' then ''offline''
      else if state = ''stale'' \<or> status = ''stale'' then ''stale''
      else if nd_online (ds_node s) \<or> status = ''online'' then ''online''
      else if status \<noteq> [] then status
      else ''unknown'')"

definition mirror_touched :: "string \<Rightarrow> int \<Rightarrow> DeviceState \<Rightarrow> DeviceState" where
  "mirror_touched source nowMs d = d\<lparr>ds_lastMutationSource := source, ds_lastStateUpdateMs := nowMs\<rparr>"

definition mirror_nodes :: "'v qt \<Rightarrow> string \<Rightarrow> int \<Rightarrow> (string, DeviceState) umap \<Rightarrow> DeviceNode list \<Rightarrow> (string, DeviceState) umap" where
  "mirror_nodes Q source nowMs old nodes = foldl (\<lambda>m n.
     um_set (node_key Q n) (mirror_touched source nowMs (um_value old (node_key Q n) DeviceState_default\<lparr>ds_node := n\<rparr>)) m)
     um_empty (filter node_named nodes)"

definition mirror_value :: "string \<Rightarrow> int \<Rightarrow> DeviceState \<Rightarrow> RealtimeDeviceData \<Rightarrow> DeviceState" where
  "mirror_value source nowMs d r =
     (let n = ds_node d;
          n = (if \<not> node_named n then rt_node r else with_live_state (rt_node r) n);
          d = mirror_touched source nowMs (d\<lparr>ds_realtime := r, ds_node := n\<rparr>)
      in d\<lparr>ds_lifecycleState := lifecycleFor d\<rparr>)"

definition mirror_values :: "'v qt \<Rightarrow> string \<Rightarrow> int \<Rightarrow> (string, DeviceState) umap \<Rightarrow> RealtimeDeviceData list
    \<Rightarrow> (string, DeviceState) umap \<Rightarrow> (string, DeviceState) umap" where
  "mirror_values Q source nowMs old rs m = foldl (\<lambda>m r.
     let key = node_key Q (rt_node r);
         d = mirror_value source nowMs (um_value m key (um_value old key DeviceState_default)) r
     in um_set (node_key Q (ds_node d)) d m) m (filter (\<lambda>r. node_named (rt_node r)) rs)"

definition rebuildStateMirror :: "'v qt \<Rightarrow> int \<Rightarrow> string \<Rightarrow> UiStateStore \<Rightarrow> UiStateStore" where
  "rebuildStateMirror Q nowMs source s =
     (let old = st_devices s;
          m = mirror_nodes Q source nowMs old (allDevices (dt_device (st_data s)));
          m = mirror_values Q source nowMs old (allRealtimeData (st_data s)) m
      in s\<lparr>st_devices := um_map (\<lambda>_ d. if ds_lifecycleState d = [] then d\<lparr>ds_lifecycleState := lifecycleFor d\<rparr> else d) m\<rparr>)"

definition do_data :: "(DataManager \<Rightarrow> DataManager) \<Rightarrow> UiStateStore \<Rightarrow> UiStateStore" where
  "do_data f s = s\<lparr>st_data := f (st_data s)\<rparr>"

definition store_change :: "'v qt \<Rightarrow> int \<Rightarrow> string \<Rightarrow> (DataManager \<Rightarrow> DataManager) \<Rightarrow> UiStateStore \<Rightarrow> UiStateStore" where
  "store_change Q nowMs source f s = scheduleStateChanged (rebuildStateMirror Q nowMs source (do_data f s))"

text \<open>An operation of the alarm manager: its signal \<open>alarmsChanged\<close> schedules a notification.\<close>

definition store_alarm :: "(AlarmManager \<Rightarrow> AlarmManager) \<Rightarrow> UiStateStore \<Rightarrow> UiStateStore" where
  "store_alarm f s =
     (let a = f (dt_alarm (st_data s)); s' = do_data (\<lambda>d. d\<lparr>dt_alarm := a\<rparr>) s
      in if length (am_signals a) = length (am_signals (dt_alarm (st_data s))) then s' else scheduleStateChanged s')"

subsection \<open>Messages\<close>

definition ui_gateway_row :: "'v qt \<Rightarrow> 'v \<Rightarrow> GatewayNode" where
  "ui_gateway_row Q row = \<lparr>gn_gatewayId = qtext Q row ''gatewayId'', gn_gatewayName = qtext Q row ''gatewayName'',
     gn_factoryId = qtext Q row ''factoryId'', gn_areaId = qtext Q row ''areaId'',
     gn_status = qv_string Q (qv_value Q row ''status'') ''unknown'',
     gn_lastRegisterTimeMs = qv_long Q (qv_value Q row ''lastRegisterTimeMs''),
     gn_lastHeartbeatTimeMs = qv_long Q (qv_value Q row ''lastHeartbeatTimeMs''),
     gn_updateTimeMs = qv_long Q (qv_value Q row ''updateTimeMs'')\<rparr>"

definition parseGatewayStatusSnapshot :: "'v qt \<Rightarrow> 'v \<Rightarrow> GatewayNode list" where
  "parseGatewayStatusSnapshot Q msg = filter (\<lambda>g. gn_gatewayId g \<noteq> [])
     (map (ui_gateway_row Q) (filter (qv_object Q) (qv_list Q (qv_value Q msg ''gateways''))))"

definition ui_port_row :: "'v qt \<Rightarrow> 'v \<Rightarrow> PortNode" where
  "ui_port_row Q row = \<lparr>pn_gatewayId = qtext Q row ''gatewayId'', pn_portId = qtext Q row ''portId'',
     pn_portName = qtext Q row ''portName'', pn_slot = qv_int Q (qv_value Q row ''slot'') 0,
     pn_devicePath = qtext Q row ''devicePath'', pn_baud = qv_int Q (qv_value Q row ''baud'') 0,
     pn_status = qv_string Q (qv_value Q row ''status'') ''unknown'',
     pn_lastRegisterTimeMs = qv_long Q (qv_value Q row ''lastRegisterTimeMs''),
     pn_updateTimeMs = qv_long Q (qv_value Q row ''updateTimeMs'')\<rparr>"

definition parsePortStatusSnapshot :: "'v qt \<Rightarrow> 'v \<Rightarrow> PortNode list" where
  "parsePortStatusSnapshot Q msg = filter (\<lambda>p. pn_gatewayId p \<noteq> [] \<and> pn_portId p \<noteq> [])
     (map (ui_port_row Q) (filter (qv_object Q) (qv_list Q (qv_value Q msg ''ports''))))"

text \<open>Also whether the type of the message is one of these.\<close>

definition applyIpcMessage :: "'v qt \<Rightarrow> int \<Rightarrow> 'v \<Rightarrow> UiStateStore \<Rightarrow> bool \<times> UiStateStore" where
  "applyIpcMessage Q nowMs msg s =
     (let kind = qtext Q msg ''type'' in
      if kind = ''latest_points'' then (True, store_change Q nowMs kind (onLatestPointsMessage Q nowMs msg) s)
      else if kind \<in> {''devices_snapshot'', ''state_snapshot'', ''state_delta''}
        then (True, store_change Q nowMs kind
                (if qv_has Q msg ''devices'' then onDevicesSnapshotMessage Q nowMs msg else id) s)
      else if kind = ''gateway_status_snapshot''
        then (True, store_change Q nowMs kind (do_devices (setGateways (parseGatewayStatusSnapshot Q msg))) s)
      else if kind = ''port_status_snapshot''
        then (True, store_change Q nowMs kind (do_devices (setPorts (parsePortStatusSnapshot Q msg))) s)
      else (False, s))"

definition refreshOfflineStates :: "'v qt \<Rightarrow> int \<Rightarrow> int \<Rightarrow> UiStateStore \<Rightarrow> UiStateStore" where
  "refreshOfflineStates Q nowMs timeoutMs s =
     (let (changed, d) = dt_refreshOfflineStates Q nowMs timeoutMs (st_data s); s = s\<lparr>st_data := d\<rparr>
      in if changed then store_change Q nowMs ''offline_refresh'' id s else s)"

definition markAllDevicesOffline :: "'v qt \<Rightarrow> int \<Rightarrow> string \<Rightarrow> UiStateStore \<Rightarrow> UiStateStore" where
  "markAllDevicesOffline Q nowMs reason = store_change Q nowMs reason (dt_markAllDevicesOffline Q reason)"

definition st_removeDeviceData :: "'v qt \<Rightarrow> int \<Rightarrow> string \<Rightarrow> string \<Rightarrow> int \<Rightarrow> UiStateStore \<Rightarrow> UiStateStore" where
  "st_removeDeviceData Q nowMs g p d = store_change Q nowMs ''remove_device'' (dt_removeDeviceData Q nowMs g p d)"

definition st_removeMasterData :: "'v qt \<Rightarrow> int \<Rightarrow> string \<Rightarrow> string \<Rightarrow> UiStateStore \<Rightarrow> UiStateStore" where
  "st_removeMasterData Q nowMs g p = store_change Q nowMs ''remove_master'' (dt_removeMasterData Q nowMs g p)"

definition st_forgetRemovedDevice :: "'v qt \<Rightarrow> int \<Rightarrow> string \<Rightarrow> string \<Rightarrow> int \<Rightarrow> UiStateStore \<Rightarrow> UiStateStore" where
  "st_forgetRemovedDevice Q nowMs g p d = store_change Q nowMs ''forget_removed_device'' (dt_forgetRemovedDevice Q g p d)"

definition st_clearRuntimeData :: "'v qt \<Rightarrow> int \<Rightarrow> UiStateStore \<Rightarrow> UiStateStore" where
  "st_clearRuntimeData Q nowMs = store_change Q nowMs ''clear_runtime_data'' dt_clearRuntimeData"

subsection \<open>What the pages read\<close>

definition st_deviceTreeSnapshot :: "UiStateStore \<Rightarrow> DeviceNode list" where
  "st_deviceTreeSnapshot s = filter node_named (map ds_node (um_values (st_devices s)))"

definition realtimeDataSnapshot :: "UiStateStore \<Rightarrow> RealtimeDeviceData list" where
  "realtimeDataSnapshot s = filter (\<lambda>r. node_named (rt_node r)) (map ds_realtime (um_values (st_devices s)))"

definition deviceStates :: "UiStateStore \<Rightarrow> DeviceState list" where
  "deviceStates s = um_values (st_devices s)"

definition deviceState :: "string \<Rightarrow> UiStateStore \<Rightarrow> DeviceState" where
  "deviceState key s = um_value (st_devices s) key DeviceState_default"

definition state_online :: "DeviceState \<Rightarrow> bool" where
  "state_online d \<longleftrightarrow> ds_lifecycleState d = ''online'' \<or> nd_online (ds_node d)"

definition st_onlineGatewayCount :: "UiStateStore \<Rightarrow> int" where
  "st_onlineGatewayCount s =
     int (length (remdups (map (nd_gatewayId \<circ> ds_node) (filter state_online (um_values (st_devices s))))))"

definition st_onlineDeviceCount :: "UiStateStore \<Rightarrow> int" where
  "st_onlineDeviceCount s = int (length (filter state_online (um_values (st_devices s))))"

definition onlineMasterCount :: "UiStateStore \<Rightarrow> int" where
  "onlineMasterCount s = int (length (remdups (map (\<lambda>d. nd_gatewayId (ds_node d) @ ''/'' @ to_string (nd_masterSlot (ds_node d)))
     (filter state_online (um_values (st_devices s))))))"

end
