(* ===== verification/UiCommands.thy ===== *)
theory UiCommands
  imports UiStore
begin

text \<open>
  The commands of the user interface (Pc_ui/core/CommandManager.cpp): building them, and following
  each one until its final acknowledgement.  Signals are kept in the order they are sent; a timer
  is the time it was started at, and its firing an operation of its own.
\<close>

subsection \<open>Texts\<close>

definition say_relay_not_sent :: string where
  "say_relay_not_sent = qstr [0x7EE7, 0x7535, 0x5668, 0x547D, 0x4EE4, 0x672A, 0x53D1, 0x9001]"
definition say_unknown_channel :: string where
  "say_unknown_channel = qstr [0x672A, 0x77E5, 0x7EE7, 0x7535, 0x5668, 0x901A, 0x9053]"
definition say_relay_busy :: string where
  "say_relay_busy = qstr [0x7EE7, 0x7535, 0x5668, 0x901A, 0x9053, 0x547D, 0x4EE4, 0x6B63, 0x5728, 0x6267, 0x884C]"
definition say_relay_wait :: string where
  "say_relay_wait = qstr [0x8BE5, 0x7EE7, 0x7535, 0x5668, 0x901A, 0x9053, 0x547D, 0x4EE4, 0x6B63, 0x5728, 0x6267, 0x884C, 0xFF0C, 0x8BF7, 0x7B49, 0x5F85, 0x56DE, 0x5305]"
definition say_states_unknown :: string where
  "say_states_unknown = qstr [0x5F53, 0x524D, 0x7EE7, 0x7535, 0x5668, 0x72B6, 0x6001, 0x672A, 0x77E5, 0xFF0C, 0x8BF7, 0x5237, 0x65B0, 0x540E, 0x518D, 0x64CD, 0x4F5C]"
definition say_sending :: string where
  "say_sending = qstr [0x6D88, 0x606F, 0x6B63, 0x5728, 0x53D1, 0x9001]"
definition say_adding :: string where
  "say_adding = qstr [0x6B63, 0x5728, 0x6DFB, 0x52A0, 0x4ECE, 0x7AD9] @ '' %1''"
definition say_removing :: string where
  "say_removing = qstr [0x6B63, 0x5728, 0x5220, 0x9664, 0x4ECE, 0x7AD9] @ '' %1''"
definition say_added :: string where
  "say_added = qstr [0x6DFB, 0x52A0, 0x6210, 0x529F, 0xFF0C, 0x6B63, 0x5728, 0x5237, 0x65B0, 0x8BBE, 0x5907, 0x5217, 0x8868]"
definition say_removed :: string where
  "say_removed = qstr [0x5220, 0x9664, 0x6210, 0x529F, 0xFF0C, 0x6B63, 0x5728, 0x5237, 0x65B0, 0x8BBE, 0x5907, 0x5217, 0x8868]"
definition say_add_failed :: string where
  "say_add_failed = qstr [0x6DFB, 0x52A0, 0x4ECE, 0x7AD9, 0x5931, 0x8D25]"
definition say_remove_failed :: string where
  "say_remove_failed = qstr [0x5220, 0x9664, 0x4ECE, 0x7AD9, 0x5931, 0x8D25]"
definition say_failed :: string where
  "say_failed = qstr [0x547D, 0x4EE4, 0x6267, 0x884C, 0x5931, 0x8D25]"
definition say_sent_wait :: string where
  "say_sent_wait = qstr [0x5DF2, 0x53D1, 0x9001, 0xFF0C, 0x7B49, 0x5F85, 0x8BBE, 0x5907, 0x786E, 0x8BA4]"
definition say_published :: string where
  "say_published = qstr [0x6D88, 0x606F, 0x53D1, 0x9001, 0x6210, 0x529F, 0xFF0C, 0x7B49, 0x5F85, 0x677F, 0x7AEF, 0x56DE, 0x5E94]"
definition say_wait_board :: string where
  "say_wait_board = qstr [0x7B49, 0x5F85, 0x677F, 0x7AEF, 0x56DE, 0x5E94]"
definition say_command_sent :: string where
  "say_command_sent = qstr [0x547D, 0x4EE4, 0x5DF2, 0x53D1, 0x9001]"
definition say_wait_device :: string where
  "say_wait_device = qstr [0x7B49, 0x5F85, 0x8BBE, 0x5907, 0x786E, 0x8BA4]"
definition say_wait_confirm :: string where
  "say_wait_confirm = qstr [0x7B49, 0x5F85, 0x677F, 0x7AEF, 0x786E, 0x8BA4]"
definition say_wait_final :: string where
  "say_wait_final = qstr [0x7B49, 0x5F85] @ '' Linux_data '' @ qstr [0x6700, 0x7EC8] @ '' ACK''"
definition say_ack_late :: string where
  "say_ack_late = ''Pc_data '' @ qstr [0x7B49, 0x5F85] @ '' Linux_data ACK '' @ qstr [0x8D85, 0x65F6, 0xFF0C, 0x7EE7, 0x7EED, 0x7B49, 0x5F85, 0x6700, 0x7EC8, 0x786E, 0x8BA4]"
definition say_ack_missing :: string where
  "say_ack_missing = ''Pc_data '' @ qstr [0x6682, 0x672A, 0x6536, 0x5230] @ '' Linux_data ACK'' @ qstr [0xFF0C, 0x4ECD, 0x5728, 0x7B49, 0x5F85, 0x6700, 0x7EC8, 0x7ED3, 0x679C]"
definition say_final_missing :: string where
  "say_final_missing = qstr [0x6682, 0x672A, 0x6536, 0x5230] @ '' Linux_data '' @ qstr [0x6700, 0x7EC8] @ '' ACK'' @ qstr [0xFF0C, 0x547D, 0x4EE4, 0x4ECD, 0x5728, 0x7B49, 0x5F85, 0x786E, 0x8BA4]"
definition say_written :: string where
  "say_written = qstr [0x5199, 0x5165, 0x6210, 0x529F, 0xFF0C, 0x7B49, 0x5F85, 0x72B6, 0x6001, 0x56DE, 0x8BFB]"
definition say_remove_ok :: string where
  "say_remove_ok = qstr [0x5220, 0x9664, 0x6210, 0x529F]"
definition say_add_ok :: string where
  "say_add_ok = qstr [0x6DFB, 0x52A0, 0x6210, 0x529F]"
definition say_threshold_ok :: string where
  "say_threshold_ok = qstr [0x9608, 0x503C, 0x8BBE, 0x7F6E, 0x6210, 0x529F]"
definition say_ok :: string where
  "say_ok = qstr [0x547D, 0x4EE4, 0x6267, 0x884C, 0x6210, 0x529F]"
definition say_unknown_error :: string where
  "say_unknown_error = qstr [0x672A, 0x77E5, 0x9519, 0x8BEF]"
definition why_request :: string where
  "why_request = qstr [0x8BF7, 0x6C42, 0x53C2, 0x6570, 0x9519, 0x8BEF]"
definition why_port :: string where
  "why_port = qstr [0x7AEF, 0x53E3, 0x672A, 0x8FDE, 0x63A5]"
definition why_no_port :: string where
  "why_no_port = qstr [0x7AEF, 0x53E3, 0x4E0D, 0x5B58, 0x5728, 0x6216, 0x672A, 0x8FDE, 0x63A5]"
definition why_mqtt :: string where
  "why_mqtt = ''MQTT '' @ qstr [0x53D1, 0x9001, 0x5931, 0x8D25, 0xFF0C, 0x8BF7, 0x68C0, 0x67E5] @ '' Pc_data '' @ qstr [0x4E0E] @ '' Broker '' @ qstr [0x8FDE, 0x63A5]"
definition why_board :: string where
  "why_board = qstr [0x677F, 0x7AEF, 0x6267, 0x884C, 0x8D85, 0x65F6, 0xFF0C, 0x53EF, 0x80FD] @ '' Linux_data '' @ qstr [0x672A, 0x8FD0, 0x884C, 0x6216] @ '' MQTT '' @ qstr [0x4E0D, 0x901A]"
definition why_delete :: string where
  "why_delete = ''PC '' @ qstr [0x4FA7, 0x6570, 0x636E, 0x5220, 0x9664, 0x5931, 0x8D25]"
definition why_command :: string where
  "why_command = qstr [0x4E0D, 0x652F, 0x6301, 0x7684, 0x547D, 0x4EE4]"
definition why_type :: string where
  "why_type = qstr [0x4E0D, 0x652F, 0x6301, 0x7684, 0x8BBE, 0x5907, 0x7C7B, 0x578B]"
definition why_no_device :: string where
  "why_no_device = qstr [0x8BBE, 0x5907, 0x4E0D, 0x5B58, 0x5728, 0x6216, 0x5DF2, 0x88AB, 0x5220, 0x9664]"
definition why_silent :: string where
  "why_silent = qstr [0x8BBE, 0x5907, 0x65E0, 0x54CD, 0x5E94, 0xFF0C, 0x8BF7, 0x68C0, 0x67E5, 0x4ECE, 0x7AD9, 0x5730, 0x5740, 0x3001, 0x63A5, 0x7EBF, 0x3001, 0x6CE2, 0x7279, 0x7387, 0x548C, 0x8BBE, 0x5907, 0x4F9B, 0x7535]"
definition why_address :: string where
  "why_address = qstr [0x4ECE, 0x7AD9, 0x5730, 0x5740, 0x5DF2, 0x5B58, 0x5728]"
definition why_config :: string where
  "why_config = qstr [0x677F, 0x7AEF, 0x914D, 0x7F6E, 0x4FDD, 0x5B58, 0x5931, 0x8D25]"
definition why_db_save :: string where
  "why_db_save = qstr [0x677F, 0x7AEF, 0x5DF2, 0x6DFB, 0x52A0, 0x8BBE, 0x5907, 0xFF0C, 0x4F46] @ '' PC '' @ qstr [0x672C, 0x5730, 0x6570, 0x636E, 0x5E93, 0x4FDD, 0x5B58, 0x5931, 0x8D25]"
definition why_db :: string where
  "why_db = qstr [0x6570, 0x636E, 0x5E93, 0x672A, 0x6253, 0x5F00]"
definition why_timeout :: string where
  "why_timeout = qstr [0x6267, 0x884C, 0x8D85, 0x65F6]"

definition friendly_reasons :: "(string \<times> string) list" where
  "friendly_reasons =
     [(''invalid_request'', why_request), (''port_not_connected'', why_port), (''port_not_found'', why_no_port),
      (''mqtt_publish_failed'', why_mqtt), (''linux_data_ack_timeout'', why_board),
      (''delete_device_data_failed'', why_delete), (''unsupported_command'', why_command),
      (''unsupported_device_type'', why_type), (''device_not_found'', why_no_device),
      (''device_no_response'', why_silent), (''device_exists'', why_address),
      (''slave_address_conflict'', why_address), (''config_write_failed'', why_config),
      (''device_db_save_failed'', why_db_save), (''db_not_open'', why_db), (''timeout'', why_timeout)]"

definition friendlyCommandReason :: "string \<Rightarrow> string \<Rightarrow> string" where
  "friendlyCommandReason reason message =
     (case map_of friendly_reasons reason of Some shown \<Rightarrow> shown
      | None \<Rightarrow> if message \<noteq> [] then message else or_text reason say_unknown_error)"

definition successMessageForCommand :: "string \<Rightarrow> string" where
  "successMessageForCommand commandType =
     (if commandType = ''remove_device'' then say_remove_ok
      else if commandType = ''add_device'' then say_add_ok
      else if commandType = ''set_device_threshold'' \<or> commandType = ''set_threshold'' then say_threshold_ok
      else if commandType = ''set_relay'' then say_written
      else say_ok)"

text \<open>The text for an added or removed slave, and another one for every other command.\<close>

definition by_command :: "string \<Rightarrow> string \<Rightarrow> string \<Rightarrow> string \<Rightarrow> string" where
  "by_command command added removed other =
     (if command = ''add_device'' then added else if command = ''remove_device'' then removed else other)"

definition success_state :: "string \<Rightarrow> string" where
  "success_state command = by_command command say_added say_removed (successMessageForCommand command)"

definition failure_state :: "string \<Rightarrow> string" where
  "failure_state command = by_command command say_add_failed say_remove_failed say_failed"

subsection \<open>State\<close>

datatype command_signal =
    CommandReadyForIpc string
  | CommandStateChanged string string
  | CommandTargetStateChanged string string string string int string string string
  | CommandMessage string string string string string
  | CommandTimeout string
  | RelayPendingChanged

record RelayPendingInfo =
  ri_deviceKey :: string
  ri_channel :: string
  ri_commandKey :: string

record CommandManager =
  cm_pending :: "(string, CommandRecord) umap"
  cm_timeoutTimers :: "(string, int) umap"
  cm_relayByCmdId :: "(string, RelayPendingInfo) umap"
  cm_relayCmdIdByKey :: "(string, string) umap"
  cm_relayDesired :: "(string, (string, bool) umap) umap"
  cm_cmdCounter :: "64 word"
  cm_signals :: "command_signal list"

definition CommandManager_new :: CommandManager where
  "CommandManager_new = \<lparr>cm_pending = um_empty, cm_timeoutTimers = um_empty, cm_relayByCmdId = um_empty,
     cm_relayCmdIdByKey = um_empty, cm_relayDesired = um_empty, cm_cmdCounter = 0, cm_signals = []\<rparr>"

definition cm_emit :: "command_signal list \<Rightarrow> CommandManager \<Rightarrow> CommandManager" where
  "cm_emit sigs s = s\<lparr>cm_signals := cm_signals s @ sigs\<rparr>"

definition counter_text :: "64 word \<Rightarrow> string" where
  "counter_text c = to_string (uint c)"

definition createCmdId :: "'v qt \<Rightarrow> int \<Rightarrow> CommandManager \<Rightarrow> string \<times> CommandManager" where
  "createCmdId Q nowMs s =
     (let c = cm_cmdCounter s + 1
      in (qt_arg Q (qt_arg Q ''CMD%1_%2'' [qt_stamp Q nowMs]) [counter_text c], s\<lparr>cm_cmdCounter := c\<rparr>))"

definition emitTargetState :: "CommandRecord \<Rightarrow> string \<Rightarrow> string \<Rightarrow> string \<Rightarrow> CommandManager \<Rightarrow> CommandManager" where
  "emitTargetState rec state reason message s =
     (if cr_command rec \<noteq> ''add_device'' \<and> cr_command rec \<noteq> ''remove_device'' then s
      else cm_emit [CommandTargetStateChanged (cr_cmdId rec) (cr_command rec) (cr_gatewayId rec) (cr_portId rec)
             (cr_slaveAddr rec) state reason message] s)"

definition startCommandTimeout :: "int \<Rightarrow> string \<Rightarrow> CommandManager \<Rightarrow> CommandManager" where
  "startCommandTimeout nowMs cmdId s = s\<lparr>cm_timeoutTimers := um_set cmdId nowMs (cm_timeoutTimers s)\<rparr>"

text \<open>The timer of a command fires.\<close>

definition command_timeout :: "string \<Rightarrow> CommandManager \<Rightarrow> CommandManager" where
  "command_timeout cmdId s =
     (case um_find (cm_pending s) cmdId of None \<Rightarrow> s
      | Some rec \<Rightarrow>
        cm_emit [CommandTimeout cmdId] (emitTargetState rec say_wait_final [] say_final_missing
          (cm_emit [CommandMessage cmdId (cr_command rec) ''warning'' say_wait_confirm say_final_missing,
             CommandStateChanged cmdId say_wait_final] s)))"

definition without_desired :: "RelayPendingInfo \<Rightarrow> (string, (string, bool) umap) umap \<Rightarrow> (string, (string, bool) umap) umap" where
  "without_desired info m =
     (case um_find m (ri_deviceKey info) of None \<Rightarrow> m
      | Some desired \<Rightarrow> let desired = um_erase (ri_channel info) desired
          in if um_entries desired = [] then um_erase (ri_deviceKey info) m else um_set (ri_deviceKey info) desired m)"

definition clearRelayPending :: "string \<Rightarrow> CommandManager \<Rightarrow> CommandManager" where
  "clearRelayPending cmdId s =
     (case um_find (cm_relayByCmdId s) cmdId of None \<Rightarrow> s
      | Some info \<Rightarrow> cm_emit [RelayPendingChanged]
          (s\<lparr>cm_relayByCmdId := um_erase cmdId (cm_relayByCmdId s),
             cm_relayCmdIdByKey := um_erase (ri_commandKey info) (cm_relayCmdIdByKey s),
             cm_relayDesired := without_desired info (cm_relayDesired s)\<rparr>))"

definition finishCommand :: "string \<Rightarrow> string \<Rightarrow> CommandManager \<Rightarrow> CommandManager" where
  "finishCommand cmdId state s =
     cm_emit [CommandStateChanged cmdId state] (clearRelayPending cmdId
       (s\<lparr>cm_pending := um_erase cmdId (cm_pending s), cm_timeoutTimers := um_erase cmdId (cm_timeoutTimers s)\<rparr>))"

subsection \<open>Relay channels\<close>

text \<open>The number at the end of a channel, when nothing but a final newline follows it: the patterns
  \<open>^relay\.ch(\d+)$\<close> and \<open>^(?:relay_|relay\.ch)(\d+)$\<close>.\<close>

definition channel_digits :: "string \<Rightarrow> string \<Rightarrow> string option" where
  "channel_digits prefix channel =
     (let ds = final_line (drop (length prefix) channel)
      in if starts_with prefix channel \<and> ds \<noteq> [] \<and> list_all is_digit ds then Some ds else None)"

definition normalizeRelayChannel :: "string \<Rightarrow> string" where
  "normalizeRelayChannel channel =
     (if channel = ''led'' then ''relay_1'' else if channel = ''fan'' then ''relay_2''
      else if channel = ''buzzer'' then ''relay_3''
      else case channel_digits ''relay.ch'' channel of Some ds \<Rightarrow> ''relay_'' @ ds | None \<Rightarrow> channel)"

definition relayChannelNumber :: "string \<Rightarrow> int" where
  "relayChannelNumber channel =
     (case (case channel_digits ''relay_'' channel of Some ds \<Rightarrow> Some ds | None \<Rightarrow> channel_digits ''relay.ch'' channel)
      of None \<Rightarrow> 0 | Some ds \<Rightarrow> (case decimal_int ds of None \<Rightarrow> 0 | Some n \<Rightarrow> n))"

definition relayDeviceKey :: "'v qt \<Rightarrow> DeviceNode \<Rightarrow> string" where
  "relayDeviceKey Q n = qt_arg Q (qt_arg Q ''%1|%2|%3'' [nd_gatewayId n, nd_port n]) [to_string (node_slave n)]"

definition relayCommandKey :: "'v qt \<Rightarrow> DeviceNode \<Rightarrow> string \<Rightarrow> string" where
  "relayCommandKey Q n channel = relayDeviceKey Q n @ ''|'' @ normalizeRelayChannel channel"

definition pendingRelayChannels :: "'v qt \<Rightarrow> DeviceNode \<Rightarrow> CommandManager \<Rightarrow> string list" where
  "pendingRelayChannels Q n s =
     remdups (map ri_channel (filter (\<lambda>i. ri_deviceKey i = relayDeviceKey Q n) (um_values (cm_relayByCmdId s))))"

definition isRelayChannelPending :: "'v qt \<Rightarrow> DeviceNode \<Rightarrow> string \<Rightarrow> CommandManager \<Rightarrow> bool" where
  "isRelayChannelPending Q n channel s \<longleftrightarrow>
     um_find (cm_relayCmdIdByKey s) (relayCommandKey Q n (normalizeRelayChannel channel)) \<noteq> None"

text \<open>The states a relay is set to: what is shown, what is on its way, and the new one.\<close>

definition normalized_states :: "(string, bool) umap \<Rightarrow> (string, bool) umap" where
  "normalized_states current = foldl (\<lambda>m (k, b). let key = normalizeRelayChannel k in if key \<noteq> [] then um_set key b m else m)
     um_empty (um_entries current)"

definition desired_states :: "(string, bool) umap \<Rightarrow> (string, bool) umap \<Rightarrow> string \<Rightarrow> bool \<Rightarrow> (string, bool) umap" where
  "desired_states current underway channel value =
     um_set channel value (foldl (\<lambda>m (k, b). um_set k b m) current (um_entries underway))"

definition channel_count :: "string \<Rightarrow> (string, bool) umap \<Rightarrow> int" where
  "channel_count channel desired =
     foldl (\<lambda>n (k, _). max n (relayChannelNumber k)) (relayChannelNumber channel) (um_entries desired)"

definition relay_state_list :: "string \<Rightarrow> (string, bool) umap \<Rightarrow> bool list" where
  "relay_state_list channel desired =
     map (\<lambda>i. um_value desired (''relay_'' @ to_string (int i + 1)) False) [0..<nat (channel_count channel desired)]"

subsection \<open>Sending\<close>

definition new_record :: "string \<Rightarrow> int \<Rightarrow> string \<Rightarrow> string \<Rightarrow> int \<Rightarrow> string \<Rightarrow> string \<Rightarrow> CommandRecord" where
  "new_record cmdId nowMs g p slave deviceType command =
     \<lparr>cr_cmdId = cmdId, cr_timestamp = nowMs, cr_seq = nowMs, cr_factoryId = [], cr_areaId = [], cr_gatewayId = g,
      cr_portId = p, cr_masterSlot = 0, cr_slaveAddr = slave, cr_deviceType = deviceType, cr_command = command,
      cr_paramsJson = [], cr_state = ''pending'', cr_ok = False, cr_reason = [], cr_ackTime = 0\<rparr>"

definition relay_params :: "string \<Rightarrow> bool \<Rightarrow> bool list \<Rightarrow> (string \<times> jv) list" where
  "relay_params channel value states =
     [(''channel'', JStr channel), (''value'', JBool value), (''states'', JArr (map JBool states))]"

definition ui_relay_message :: "CommandRecord \<Rightarrow> DeviceNode \<Rightarrow> string \<Rightarrow> bool \<Rightarrow> bool list \<Rightarrow> jv" where
  "ui_relay_message rec n channel value states =
     (let slave = node_slave n; slot = cr_masterSlot rec; params = relay_params channel value states in
      JObj [(''type'', JStr ''command''), (''msg_type'', JStr ''command''), (''version'', JInt 1),
        (''cmd_id'', JStr (cr_cmdId rec)), (''timestamp'', JInt (cr_timestamp rec)),
        (''timestampMs'', JInt (cr_timestamp rec)), (''seq'', JInt (cr_seq rec)), (''cmd'', JStr (cr_command rec)),
        (''cmdType'', JStr (cr_command rec)), (''commandType'', JStr (cr_command rec)),
        (''factory_id'', JStr (cr_factoryId rec)), (''area_id'', JStr (cr_areaId rec)),
        (''target'', JObj [(''gatewayId'', JStr (cr_gatewayId rec)), (''portId'', JStr (nd_port n))]),
        (''gatewayId'', JStr (cr_gatewayId rec)), (''portId'', JStr (nd_port n)),
        (''gateway_id'', JStr (cr_gatewayId rec)), (''port_id'', JStr (nd_port n)), (''slot'', JInt slot),
        (''deviceId'', JInt (nd_deviceId n)), (''deviceType'', JStr (cr_deviceType rec)), (''slave_id'', JInt slave),
        (''master_slot'', JInt slot), (''slave_addr'', JInt (cr_slaveAddr rec)), (''device_id'', JInt (nd_deviceId n)),
        (''device_type'', JStr (cr_deviceType rec)), (''states'', JArr (map JBool states)),
        (''command'', JStr (cr_command rec)), (''params'', JObj params),
        (''payload'', JObj (params @ [(''slot'', JInt slot), (''master_slot'', JInt slot), (''slave_id'', JInt slave),
           (''deviceId'', JInt slave), (''device_id'', JInt slave), (''slave_addr'', JInt slave)]))])"

definition relay_refused :: "string \<Rightarrow> string \<Rightarrow> CommandManager \<Rightarrow> CommandManager" where
  "relay_refused cmdId why = cm_emit [CommandMessage cmdId ''set_relay'' ''error'' say_relay_not_sent why,
     CommandStateChanged cmdId (''failed: '' @ why)]"

definition remember_relay :: "string \<Rightarrow> string \<Rightarrow> string \<Rightarrow> string \<Rightarrow> bool \<Rightarrow> CommandManager \<Rightarrow> CommandManager" where
  "remember_relay cmdId deviceKey channel relayKey value s =
     s\<lparr>cm_relayByCmdId := um_set cmdId \<lparr>ri_deviceKey = deviceKey, ri_channel = channel, ri_commandKey = relayKey\<rparr> (cm_relayByCmdId s),
       cm_relayCmdIdByKey := um_set relayKey cmdId (cm_relayCmdIdByKey s),
       cm_relayDesired := um_set deviceKey (um_set channel value (um_value (cm_relayDesired s) deviceKey um_empty)) (cm_relayDesired s)\<rparr>"

definition sendRelayCommand :: "'v qt \<Rightarrow> int \<Rightarrow> DeviceNode \<Rightarrow> string \<Rightarrow> bool \<Rightarrow> (string, bool) umap \<Rightarrow> CommandManager \<Rightarrow> CommandManager" where
  "sendRelayCommand Q nowMs n channel value current s =
     (let (cmdId, s) = createCmdId Q nowMs s;
          rec = new_record cmdId nowMs (nd_gatewayId n) (nd_port n) (nd_slaveAddr n) (nd_deviceType n) ''set_relay''
                  \<lparr>cr_factoryId := nd_factoryId n, cr_areaId := nd_areaId n, cr_masterSlot := nd_masterSlot n\<rparr>;
          relayChannel = normalizeRelayChannel channel; relayKey = relayCommandKey Q n relayChannel
      in if relayChannel = [] \<or> relayChannelNumber relayChannel \<le> 0 then relay_refused cmdId say_unknown_channel s
         else case um_find (cm_relayCmdIdByKey s) relayKey of
           Some busy \<Rightarrow> cm_emit [CommandMessage busy ''set_relay'' ''warning'' say_relay_busy say_relay_wait] s
         | None \<Rightarrow>
           let shown = normalized_states current in
           if um_find shown relayChannel = None then relay_refused cmdId say_states_unknown s
           else let deviceKey = relayDeviceKey Q n;
                    desired = desired_states shown (um_value (cm_relayDesired s) deviceKey um_empty) relayChannel value;
                    states = relay_state_list relayChannel desired;
                    rec = rec\<lparr>cr_paramsJson := qt_compact Q (JObj (relay_params relayChannel value states))\<rparr>;
                    s = s\<lparr>cm_pending := um_set cmdId rec (cm_pending s)\<rparr>;
                    s = startCommandTimeout nowMs cmdId (remember_relay cmdId deviceKey relayChannel relayKey value s)
                in cm_emit [CommandStateChanged cmdId (cr_state rec), RelayPendingChanged,
                     CommandReadyForIpc (qt_compact Q (ui_relay_message rec n relayChannel value states))] s)"

text \<open>Adding and removing a slave.  The options of a device are a map; two of them are taken out of it.\<close>

definition device_members :: "int \<Rightarrow> string \<Rightarrow> int \<Rightarrow> (string \<times> jv) list" where
  "device_members deviceId deviceType pollIntervalMs =
     [(''slave_id'', JInt deviceId), (''deviceId'', JInt deviceId), (''slaveAddress'', JInt deviceId),
      (''device_type'', JStr deviceType), (''deviceType'', JStr deviceType),
      (''poll_interval_ms'', JInt pollIntervalMs), (''pollIntervalMs'', JInt pollIntervalMs)]"

definition command_members :: "CommandRecord \<Rightarrow> (string \<times> jv) list" where
  "command_members rec =
     [(''type'', JStr ''command''), (''msg_type'', JStr ''command''), (''version'', JInt 1), (''cmd_id'', JStr (cr_cmdId rec)),
      (''seq'', JInt (cr_seq rec)), (''timestamp'', JInt (cr_timestamp rec)), (''timestampMs'', JInt (cr_timestamp rec)),
      (''commandType'', JStr (cr_command rec)), (''cmdType'', JStr (cr_command rec)), (''cmd'', JStr (cr_command rec)),
      (''gatewayId'', JStr (cr_gatewayId rec)), (''portId'', JStr (cr_portId rec))]"

definition ui_target :: "CommandRecord \<Rightarrow> string \<times> jv" where
  "ui_target rec = (''target'', JObj [(''gatewayId'', JStr (cr_gatewayId rec)), (''portId'', JStr (cr_portId rec))])"

definition threshold_members :: "'v qt \<Rightarrow> (string, jv) umap \<Rightarrow> (string \<times> jv) list" where
  "threshold_members Q options =
     (let enabled = (case um_find options ''threshold_enabled'' of None \<Rightarrow> False | Some v \<Rightarrow> qt_true Q v);
          thresholds = (case um_find options ''thresholds'' of None \<Rightarrow> [] | Some v \<Rightarrow> qt_map Q v)
      in if enabled \<and> thresholds \<noteq> []
         then [(''threshold_enabled'', JBool True), (''thresholds'', JObj thresholds)] else [])"

definition option_members :: "(string, jv) umap \<Rightarrow> (string \<times> jv) list" where
  "option_members options =
     (let rest = um_entries (um_erase ''thresholds'' (um_erase ''threshold_enabled'' options))
      in if rest = [] then [] else [(''device_options'', JObj rest)])"

definition add_message :: "'v qt \<Rightarrow> CommandRecord \<Rightarrow> int \<Rightarrow> (string, jv) umap \<Rightarrow> jv" where
  "add_message Q rec pollIntervalMs options =
     (let deviceId = cr_slaveAddr rec; deviceType = cr_deviceType rec; thresholds = threshold_members Q options;
          members = device_members deviceId deviceType pollIntervalMs
      in JObj (command_members rec @ [ui_target rec, (''device'', JObj (members @ option_members options)),
           (''deviceId'', JInt deviceId), (''deviceType'', JStr deviceType), (''slave_id'', JInt deviceId)]
         @ thresholds @ [(''payload'', JObj (members @ thresholds))]))"

definition remove_message :: "CommandRecord \<Rightarrow> jv" where
  "remove_message rec =
     (let ids = [(''deviceId'', JInt (cr_slaveAddr rec)), (''slave_id'', JInt (cr_slaveAddr rec))]
      in JObj (command_members rec @ ids @ [ui_target rec, (''payload'', JObj ids)]))"

definition start_command :: "'v qt \<Rightarrow> int \<Rightarrow> CommandRecord \<Rightarrow> string \<Rightarrow> jv \<Rightarrow> CommandManager \<Rightarrow> CommandManager" where
  "start_command Q nowMs rec message doc s =
     (let s = startCommandTimeout nowMs (cr_cmdId rec) (s\<lparr>cm_pending := um_set (cr_cmdId rec) rec (cm_pending s)\<rparr>);
          s = cm_emit [CommandStateChanged (cr_cmdId rec) (cr_state rec)] s;
          s = emitTargetState rec say_sending [] message s
      in cm_emit [CommandReadyForIpc (qt_compact Q doc)] s)"

definition sendAddDeviceCommand :: "'v qt \<Rightarrow> int \<Rightarrow> string \<Rightarrow> string \<Rightarrow> int \<Rightarrow> string \<Rightarrow> int \<Rightarrow> (string, jv) umap
    \<Rightarrow> CommandManager \<Rightarrow> CommandManager" where
  "sendAddDeviceCommand Q nowMs g p deviceId deviceType pollIntervalMs options s =
     (if g = [] \<or> p = [] \<or> deviceId \<le> 0 \<or> deviceType = [] \<or> pollIntervalMs \<le> 0 then s
      else let (cmdId, s) = createCmdId Q nowMs s; rec = new_record cmdId nowMs g p deviceId deviceType ''add_device''
           in start_command Q nowMs rec (qt_arg Q say_adding [to_string deviceId]) (add_message Q rec pollIntervalMs options) s)"

definition sendRemoveDeviceCommand :: "'v qt \<Rightarrow> int \<Rightarrow> string \<Rightarrow> string \<Rightarrow> int \<Rightarrow> CommandManager \<Rightarrow> CommandManager" where
  "sendRemoveDeviceCommand Q nowMs g p deviceId s =
     (if g = [] \<or> p = [] \<or> deviceId \<le> 0 then s
      else let (cmdId, s) = createCmdId Q nowMs s; rec = new_record cmdId nowMs g p deviceId [] ''remove_device''
           in start_command Q nowMs rec (qt_arg Q say_removing [to_string deviceId]) (remove_message rec) s)"

subsection \<open>Answers\<close>

definition ackSuccess :: "'v qt \<Rightarrow> 'v \<Rightarrow> bool" where
  "ackSuccess Q obj =
     (let status = qtext Q obj ''status''; ok = qv_bool Q (qv_value Q obj ''ok'') False in
      if qtext Q obj ''stage'' \<noteq> ''done'' then False
      else if status \<noteq> [] then status = ''success'' \<and> ok else ok)"

fun stringAny :: "'v qt \<Rightarrow> 'v \<Rightarrow> string list \<Rightarrow> string" where
  "stringAny Q obj [] = []"
| "stringAny Q obj (key # keys) = (if qtext Q obj key \<noteq> [] then qtext Q obj key else stringAny Q obj keys)"

fun int64Any :: "'v qt \<Rightarrow> 'v \<Rightarrow> string list \<Rightarrow> int \<Rightarrow> int" where
  "int64Any Q obj [] d = d"
| "int64Any Q obj (key # keys) d =
     (if \<not> qv_absent Q (qv_value Q obj key) then qv_long Q (qv_value Q obj key) else int64Any Q obj keys d)"

definition tell_sent :: "string \<Rightarrow> CommandRecord \<Rightarrow> CommandManager \<Rightarrow> CommandManager" where
  "tell_sent cmdId rec s =
     cm_emit [CommandMessage cmdId (cr_command rec) ''info'' say_command_sent say_wait_device]
       (emitTargetState rec say_published [] say_wait_board
         (cm_emit [CommandStateChanged cmdId say_sent_wait] s))"

definition tell_success :: "string \<Rightarrow> CommandRecord \<Rightarrow> CommandManager \<Rightarrow> CommandManager" where
  "tell_success cmdId rec s =
     (let msg = successMessageForCommand (cr_command rec)
      in finishCommand cmdId msg
           (cm_emit [CommandMessage cmdId (cr_command rec) ''success'' msg []]
             (emitTargetState rec (success_state (cr_command rec)) [] msg s)))"

text \<open>The record of an acknowledged command.\<close>

definition acked_record :: "'v qt \<Rightarrow> 'v \<Rightarrow> CommandRecord \<Rightarrow> CommandRecord" where
  "acked_record Q obj rec =
     rec\<lparr>cr_ok := ackSuccess Q obj,
       cr_command := (let cmd = stringAny Q obj [''cmd'', ''commandType'', ''command''] in or_text cmd (cr_command rec)),
       cr_reason := or_text (qtext Q obj ''reason'') (qtext Q obj ''message''),
       cr_ackTime := int64Any Q obj [''timestampMs'', ''timestamp''] 0\<rparr>"

definition keep_record :: "string \<Rightarrow> CommandRecord \<Rightarrow> CommandManager \<Rightarrow> CommandManager" where
  "keep_record cmdId rec s = s\<lparr>cm_pending := um_set cmdId rec (cm_pending s)\<rparr>"

definition onCommandAck :: "'v qt \<Rightarrow> 'v \<Rightarrow> CommandManager \<Rightarrow> CommandManager" where
  "onCommandAck Q obj s =
     (let cmdId = qtext Q obj ''cmd_id''; stage = qtext Q obj ''stage''; status = qtext Q obj ''status'';
          message = qtext Q obj ''message''
      in case (if cmdId = [] then None else um_find (cm_pending s) cmdId) of None \<Rightarrow> s
         | Some rec \<Rightarrow>
           let rec = acked_record Q obj rec in
           if stage = ''done'' \<and> status = ''success'' \<and> cr_ok rec then tell_success cmdId rec s
           else if stage = ''sent'' \<and> cr_ok rec then
             let rec = rec\<lparr>cr_ok := False, cr_state := ''running''\<rparr> in tell_sent cmdId rec (keep_record cmdId rec s)
           else if stage = ''done'' \<and> \<not> cr_ok rec then
             let rec = rec\<lparr>cr_state := ''failed''\<rparr>; why = friendlyCommandReason (cr_reason rec) message
             in finishCommand cmdId (if cr_reason rec = [] then ''failed'' else ''failed: '' @ cr_reason rec)
                  (cm_emit [CommandMessage cmdId (cr_command rec) ''error'' say_failed why]
                    (emitTargetState rec (failure_state (cr_command rec)) why message (keep_record cmdId rec s)))
           else if stage = ''done'' \<and> cr_ok rec then tell_success cmdId rec s
           else
             let underway = (stage = ''sent'' \<or> stage = ''accepted'');
                 rec = rec\<lparr>cr_state := (if underway \<or> cr_ok rec then ''running'' else ''failed'')\<rparr>;
                 s = keep_record cmdId rec s
             in if cr_ok rec \<or> underway
                then emitTargetState rec say_published [] say_wait_board (cm_emit [CommandStateChanged cmdId (cr_state rec)] s)
                else finishCommand cmdId (cr_state rec)
                  (emitTargetState rec (failure_state (cr_command rec)) (friendlyCommandReason (cr_reason rec) message) message s))"

definition onCommandLogUpdate :: "'v qt \<Rightarrow> 'v \<Rightarrow> CommandManager \<Rightarrow> CommandManager" where
  "onCommandLogUpdate Q obj s =
     (let cmdId = qtext Q obj ''cmd_id''; stage = qtext Q obj ''stage''; ok = ackSuccess Q obj;
          status = qv_string Q (qv_value Q obj ''status'') (if ok then ''success'' else ''failed'');
          reason = qtext Q obj ''reason''; message = qtext Q obj ''message''
      in case (if cmdId = [] then None else um_find (cm_pending s) cmdId) of None \<Rightarrow> s
         | Some rec \<Rightarrow>
           if stage = ''sent'' then tell_sent cmdId rec s
           else if stage = ''done'' \<and> ok then
             (if cr_command rec = ''set_relay''
              then finishCommand cmdId say_written (cm_emit [CommandMessage cmdId ''set_relay'' ''success'' say_written []] s)
              else tell_success cmdId rec s)
           else if stage = ''done'' \<and> status = ''timeout'' then
             let rec = rec\<lparr>cr_state := ''timeout_waiting_ack'', cr_reason := or_text reason message\<rparr>
             in cm_emit [CommandMessage cmdId (cr_command rec) ''warning'' say_wait_confirm say_ack_missing]
                  (emitTargetState rec say_wait_final [] say_ack_missing
                    (cm_emit [CommandStateChanged cmdId say_ack_late]
                      (keep_record cmdId rec s)))
           else if stage = ''done'' then
             let why = friendlyCommandReason reason message
             in finishCommand cmdId why (emitTargetState rec (failure_state (cr_command rec)) why message
                  (cm_emit [CommandMessage cmdId (cr_command rec) ''error'' say_failed why] s))
           else s)"

definition commandTopic :: "'v qt \<Rightarrow> DeviceNode \<Rightarrow> string" where
  "commandTopic Q n = qt_arg Q ''factory/%1/area/%2/gateway/%3/command'' [nd_factoryId n, nd_areaId n, nd_gatewayId n]"

end
