(* ===== verification/UiMain.thy ===== *)
theory UiMain
  imports UiCommands
begin

text \<open>
  The main window of the user interface and its connection to Pc_data (Pc_ui/MainWindow.cpp,
  Pc_ui/ipc/ipcclient.cpp): received bytes become messages, messages and timers change the state,
  actions of the user are sent.  What the pages show is kept as a list of outputs; an action of the
  user is an event.  Every frame written to the socket whole is in \<open>ui_sent\<close>.
\<close>

definition say_alarm_failed :: string where
  "say_alarm_failed = qstr [0x62A5, 0x8B66, 0x64CD, 0x4F5C, 0x5931, 0x8D25, 0xFF1A] @ ''%1''"
definition say_not_connected :: string where
  "say_not_connected = ''IPC '' @ qstr [0x672A, 0x8FDE, 0x63A5, 0x6216, 0x8BF7, 0x6C42, 0x53C2, 0x6570, 0x65E0, 0x6548]"
definition say_colon :: string where
  "say_colon = qstr [0xFF1A]"
definition say_remove_not_sent :: string where
  "say_remove_not_sent = qstr [0x5220, 0x9664, 0x4ECE, 0x7AD9, 0x5931, 0x8D25, 0xFF1A] @ ''IPC '' @ qstr [0x672A, 0x8FDE, 0x63A5, 0x6216, 0x8BF7, 0x6C42, 0x53C2, 0x6570, 0x65E0, 0x6548]"
definition say_add_not_sent :: string where
  "say_add_not_sent = qstr [0x6DFB, 0x52A0, 0x4ECE, 0x7AD9, 0x5931, 0x8D25, 0xFF1A] @ ''IPC '' @ qstr [0x672A, 0x8FDE, 0x63A5, 0x6216, 0x8BF7, 0x6C42, 0x53C2, 0x6570, 0x65E0, 0x6548]"

subsection \<open>State\<close>

datatype 'v ui_output =
    StatusText string
  | SettingsConnected bool
  | ShowServiceOnline bool
  | ShowCounts int int int
  | ShowTarget string string string string int string string string
  | ShowHistory 'v
  | ShowMqttConfig 'v
  | ShowMqttConfigAck 'v
  | ShowSyncResult 'v
  | ShowClearResult 'v

record 'v MainWindow =
  ui_store :: UiStateStore
  ui_commands :: CommandManager
  ui_linked :: bool
  ui_buffer :: string
  ui_lastIpcMessageMs :: int
  ui_lastLatestPointsMs :: int
  ui_deleteAction :: string
  ui_deleteGatewayId :: string
  ui_deletePortId :: string
  ui_deleteDeviceId :: int
  ui_writes :: nat
  ui_sent :: "string list"
  ui_shown :: "'v ui_output list"

definition MainWindow_new :: "'v MainWindow" where
  "MainWindow_new = \<lparr>ui_store = UiStateStore_new, ui_commands = CommandManager_new, ui_linked = False, ui_buffer = [],
     ui_lastIpcMessageMs = 0, ui_lastLatestPointsMs = 0, ui_deleteAction = [], ui_deleteGatewayId = [],
     ui_deletePortId = [], ui_deleteDeviceId = 0, ui_writes = 0, ui_sent = [], ui_shown = []\<rparr>"

definition ui_show :: "'v ui_output list \<Rightarrow> 'v MainWindow \<Rightarrow> 'v MainWindow" where
  "ui_show outs w = w\<lparr>ui_shown := ui_shown w @ outs\<rparr>"

definition do_store :: "(UiStateStore \<Rightarrow> UiStateStore) \<Rightarrow> 'v MainWindow \<Rightarrow> 'v MainWindow" where
  "do_store f w = w\<lparr>ui_store := f (ui_store w)\<rparr>"

definition ui_set_pending_delete :: "string \<Rightarrow> string \<Rightarrow> string \<Rightarrow> int \<Rightarrow> 'v MainWindow \<Rightarrow> 'v MainWindow" where
  "ui_set_pending_delete action g p d w =
     w\<lparr>ui_deleteAction := action, ui_deleteGatewayId := g, ui_deletePortId := p, ui_deleteDeviceId := d\<rparr>"

definition clear_pending_delete :: "'v MainWindow \<Rightarrow> 'v MainWindow" where
  "clear_pending_delete = ui_set_pending_delete [] [] [] 0"

definition markIpcDataOffline :: "'v qt \<Rightarrow> int \<Rightarrow> 'v MainWindow \<Rightarrow> 'v MainWindow" where
  "markIpcDataOffline Q nowMs w =
     do_store (markAllDevicesOffline Q nowMs ''service_offline'') (ui_show [ShowServiceOnline False] w)"

text \<open>The slot of \<open>errorOccured\<close>.\<close>

definition ui_socket_error :: "'v qt \<Rightarrow> int \<Rightarrow> 'v MainWindow \<Rightarrow> 'v MainWindow" where
  "ui_socket_error Q nowMs w = markIpcDataOffline Q nowMs (ui_show [SettingsConnected False] w)"

subsection \<open>Sending\<close>

definition ends_line :: "string \<Rightarrow> bool" where
  "ends_line s \<longleftrightarrow> s \<noteq> [] \<and> last s = CHR 0x0A"

definition client_send :: "'v qt \<Rightarrow> int \<Rightarrow> string \<Rightarrow> 'v MainWindow \<Rightarrow> 'v MainWindow" where
  "client_send Q nowMs msg w =
     (if \<not> ui_linked w then ui_socket_error Q nowMs w
      else let frame = (if ends_line msg then msg else msg @ [CHR 0x0A]); n = ui_writes w; w = w\<lparr>ui_writes := n + 1\<rparr>
           in if qt_write Q n frame then w\<lparr>ui_sent := ui_sent w @ [frame]\<rparr> else ui_socket_error Q nowMs w)"

definition request_text :: "string \<Rightarrow> string" where
  "request_text kind = CHR ''{'' # CHR 0x22 # ''type'' @ [CHR 0x22, CHR '':'', CHR 0x22] @ kind @ [CHR 0x22, CHR ''}'']"

definition ui_request :: "'v qt \<Rightarrow> int \<Rightarrow> string \<Rightarrow> 'v MainWindow \<Rightarrow> 'v MainWindow" where
  "ui_request Q nowMs kind w = (if \<not> ui_linked w then w else client_send Q nowMs (request_text kind) w)"

definition requestFullSnapshot :: "'v qt \<Rightarrow> int \<Rightarrow> 'v MainWindow \<Rightarrow> 'v MainWindow" where
  "requestFullSnapshot Q nowMs w =
     foldl (\<lambda>w kind. ui_request Q nowMs kind w) w
       [''get_latest_points'', ''get_devices'', ''get_gateway_status'', ''get_port_status'', ''get_alarm_events'']"

text \<open>The slots of the signals of the command manager.\<close>

definition command_slot :: "'v qt \<Rightarrow> int \<Rightarrow> 'v MainWindow \<Rightarrow> command_signal \<Rightarrow> 'v MainWindow" where
  "command_slot Q nowMs w sig =
     (case sig of
        CommandReadyForIpc payload \<Rightarrow>
          if \<not> ui_linked w then markIpcDataOffline Q nowMs w else client_send Q nowMs payload w
      | CommandMessage cmdId kind level title message \<Rightarrow>
          ui_show [StatusText (title @ (if message = [] then [] else say_colon @ message))] w
      | CommandTargetStateChanged cmdId kind g p d state reason message \<Rightarrow>
          ui_show [ShowTarget cmdId kind g p d state reason message] w
      | _ \<Rightarrow> w)"

definition do_command :: "'v qt \<Rightarrow> int \<Rightarrow> (CommandManager \<Rightarrow> CommandManager) \<Rightarrow> 'v MainWindow \<Rightarrow> 'v MainWindow" where
  "do_command Q nowMs f w =
     (let c = f (ui_commands w)
      in foldl (command_slot Q nowMs) (w\<lparr>ui_commands := c\<rparr>) (drop (length (cm_signals (ui_commands w))) (cm_signals c)))"

subsection \<open>Messages\<close>

definition ackCommandName :: "'v qt \<Rightarrow> 'v \<Rightarrow> string" where
  "ackCommandName Q msg = or_text (qtext Q msg ''cmd'') (qtext Q msg ''commandType'')"

definition ackSucceeded :: "'v qt \<Rightarrow> 'v \<Rightarrow> bool" where
  "ackSucceeded Q msg =
     (if qtext Q msg ''stage'' \<noteq> ''done'' then False
      else if qv_has Q msg ''ok'' then qv_bool Q (qv_value Q msg ''ok'') False \<and> qtext Q msg ''status'' = ''success''
      else qtext Q msg ''status'' = ''success'')"

definition onAddDeviceSucceeded :: "'v qt \<Rightarrow> int \<Rightarrow> string \<Rightarrow> string \<Rightarrow> int \<Rightarrow> 'v MainWindow \<Rightarrow> 'v MainWindow" where
  "onAddDeviceSucceeded Q nowMs g p d w =
     (if g = [] \<or> p = [] \<or> d \<le> 0 then w else do_store (st_forgetRemovedDevice Q nowMs g p d) w)"

definition onRemoveDeviceSucceeded :: "'v qt \<Rightarrow> int \<Rightarrow> string \<Rightarrow> string \<Rightarrow> int \<Rightarrow> 'v MainWindow \<Rightarrow> 'v MainWindow" where
  "onRemoveDeviceSucceeded Q nowMs g p d w =
     (if g = [] \<or> p = [] \<or> d \<le> 0 then w
      else let w = do_store (st_removeDeviceData Q nowMs g p d) w;
               w = do_store (store_alarm (removeDeviceAlarms g p d)) w
           in requestFullSnapshot Q nowMs (clear_pending_delete w))"

text \<open>The device an acknowledgement names.\<close>

definition ack_device :: "'v qt \<Rightarrow> 'v \<Rightarrow> int" where
  "ack_device Q msg = qv_int Q (qv_value Q msg ''deviceId'')
     (qv_int Q (qv_value Q msg ''slave_id'') (qv_int Q (qv_value Q msg ''slaveId'') 0))"

text \<open>An answer about a removed device, completed by the request that is waiting.\<close>

definition removed_target :: "string \<Rightarrow> string \<Rightarrow> int \<Rightarrow> 'v MainWindow \<Rightarrow> string \<times> string \<times> int" where
  "removed_target g p d w =
     (let pending = (ui_deleteAction w = ''delete_device_data'')
      in (if g = [] \<and> pending then ui_deleteGatewayId w else g, if p = [] \<and> pending then ui_deletePortId w else p,
          if d \<le> 0 \<and> pending then ui_deleteDeviceId w else d))"

definition handle_delete_ack :: "'v qt \<Rightarrow> int \<Rightarrow> 'v \<Rightarrow> 'v MainWindow \<Rightarrow> 'v MainWindow" where
  "handle_delete_ack Q nowMs msg w =
     (let action = qv_string Q (qv_value Q msg ''action'') (ui_deleteAction w);
          w = (if action = ''clear_all_data'' then ui_show [ShowClearResult msg] w else w);
          w = (if \<not> qv_bool Q (qv_value Q msg ''ok'') False then w
               else if action = ''delete_master_data''
                 then do_store (st_removeMasterData Q nowMs (ui_deleteGatewayId w) (ui_deletePortId w)) w
               else if action = ''delete_device_data''
                 then onRemoveDeviceSucceeded Q nowMs (ui_deleteGatewayId w) (ui_deletePortId w) (ui_deleteDeviceId w) w
               else if action = ''clear_all_data'' then do_store (st_clearRuntimeData Q nowMs) w
               else w)
      in requestFullSnapshot Q nowMs (clear_pending_delete w))"

definition handle_command_ack :: "'v qt \<Rightarrow> int \<Rightarrow> 'v \<Rightarrow> 'v MainWindow \<Rightarrow> 'v MainWindow" where
  "handle_command_ack Q nowMs msg w =
     (let command = ackCommandName Q msg; ok = ackSucceeded Q msg; stage = qtext Q msg ''stage'';
          g = qtext Q msg ''gatewayId''; p = qtext Q msg ''portId'';
          w = do_command Q nowMs (onCommandAck Q msg) w
      in if command = ''remove_device'' then
           (if stage = ''done'' \<and> ok
            then let (g, p, d) = removed_target g p (ack_device Q msg) w in onRemoveDeviceSucceeded Q nowMs g p d w
            else if \<not> ok then requestFullSnapshot Q nowMs (clear_pending_delete w) else w)
         else if command = ''add_device'' \<and> stage = ''done'' then
           requestFullSnapshot Q nowMs
             (if ok then ui_request Q nowMs ''get_gateway_status'' (onAddDeviceSucceeded Q nowMs g p (ack_device Q msg) w) else w)
         else w)"

definition refreshing_commands :: "string list" where
  "refreshing_commands = [''add_device'', ''set_relay'', ''set_threshold'', ''set_device_threshold'', ''cache'', ''sync'', ''get_config'']"

definition handle_command_log :: "'v qt \<Rightarrow> int \<Rightarrow> 'v \<Rightarrow> 'v MainWindow \<Rightarrow> 'v MainWindow" where
  "handle_command_log Q nowMs msg w =
     (let kind = qtext Q msg ''commandType''; stage = qtext Q msg ''stage''; status = qtext Q msg ''status'';
          g = qtext Q msg ''gatewayId''; p = qtext Q msg ''portId'';
          w = do_command Q nowMs (onCommandLogUpdate Q msg) w;
          w = (if stage = ''done'' \<and> status = ''success'' \<and> kind \<in> set refreshing_commands
               then ui_request Q nowMs ''get_gateway_status'' (requestFullSnapshot Q nowMs
                 (if kind = ''add_device'' then onAddDeviceSucceeded Q nowMs g p (ack_device Q msg) w else w))
               else w)
      in if kind = ''remove_device''
         then let (g, p, d) = removed_target g p (qv_int Q (qv_value Q msg ''deviceId'') 0) w
              in clear_pending_delete (if status = ''success'' \<and> g \<noteq> [] \<and> p \<noteq> [] \<and> d > 0
                   then onRemoveDeviceSucceeded Q nowMs g p d w else requestFullSnapshot Q nowMs w)
         else w)"

definition state_messages :: "string list" where
  "state_messages = [''latest_points'', ''devices_snapshot'', ''gateway_status_snapshot'', ''port_status_snapshot'',
     ''state_snapshot'', ''state_delta'']"

definition dispatch_message :: "'v qt \<Rightarrow> int \<Rightarrow> 'v \<Rightarrow> 'v MainWindow \<Rightarrow> 'v MainWindow" where
  "dispatch_message Q nowMs msg w =
     (let kind = qtext Q msg ''type'' in
      if kind = ''hello'' then w
      else if kind = ''alarm_event'' then do_store (store_alarm (onAlarmMessage Q nowMs msg)) w
      else if kind = ''alarm_events_snapshot''
        then do_store (store_alarm (onAlarmSnapshot Q nowMs (qv_list Q (qv_value Q msg ''alarms'')))) w
      else if kind = ''alarm_action_ack''
        then (if \<not> qv_bool Q (qv_value Q msg ''ok'') False
              then ui_show [StatusText (qt_arg Q say_alarm_failed [qtext Q msg ''reason''])] w else w)
      else if kind \<in> set state_messages
        then do_store (\<lambda>s. snd (applyIpcMessage Q nowMs msg s)) (w\<lparr>ui_lastLatestPointsMs := nowMs\<rparr>)
      else if kind = ''history_points'' then ui_show [ShowHistory msg] w
      else if kind = ''delete_data_ack'' then handle_delete_ack Q nowMs msg w
      else if kind = ''mqtt_config'' then ui_show [ShowMqttConfig msg] w
      else if kind = ''mqtt_config_ack'' then ui_show [ShowMqttConfigAck msg] w
      else if kind = ''sync_config_result'' then requestFullSnapshot Q nowMs (ui_show [ShowSyncResult msg] w)
      else if kind = ''ack'' \<or> kind = ''command_ack'' then handle_command_ack Q nowMs msg w
      else if kind = ''command_log_update'' then handle_command_log Q nowMs msg w
      else w)"

definition handleIpcMessage :: "'v qt \<Rightarrow> int \<Rightarrow> 'v MainWindow \<Rightarrow> string \<Rightarrow> 'v MainWindow" where
  "handleIpcMessage Q nowMs w frame =
     (case qt_parse Q frame of None \<Rightarrow> w
      | Some msg \<Rightarrow> dispatch_message Q nowMs msg
          (ui_show [ShowServiceOnline True] (w\<lparr>ui_lastIpcMessageMs := nowMs\<rparr>)))"

subsection \<open>Receiving\<close>

text \<open>The frames of a buffer, without the carriage return and without empty ones, and what is left.\<close>

fun split_frames :: "string \<Rightarrow> string \<Rightarrow> string list \<times> string" where
  "split_frames acc [] = ([], acc)"
| "split_frames acc (c # cs) =
     (if c = CHR 0x0A
      then (let frame = (if acc \<noteq> [] \<and> last acc = CHR 0x0D then butlast acc else acc);
                (frames, rest) = split_frames [] cs
            in (if frame = [] then frames else frame # frames, rest))
      else split_frames (acc @ [c]) cs)"

definition max_recv_buffer :: nat where "max_recv_buffer = 1024 * 1024"

definition processReceivedData :: "'v qt \<Rightarrow> int \<Rightarrow> string \<Rightarrow> 'v MainWindow \<Rightarrow> 'v MainWindow" where
  "processReceivedData Q nowMs data w =
     (let buffer = ui_buffer w @ data in
      if length buffer > max_recv_buffer then ui_socket_error Q nowMs (w\<lparr>ui_buffer := []\<rparr>)
      else let (frames, rest) = split_frames [] buffer
           in foldl (handleIpcMessage Q nowMs) (w\<lparr>ui_buffer := rest\<rparr>) frames)"

subsection \<open>Actions of the user\<close>

definition send_object :: "'v qt \<Rightarrow> int \<Rightarrow> (string \<times> jv) list \<Rightarrow> 'v MainWindow \<Rightarrow> 'v MainWindow" where
  "send_object Q nowMs members = client_send Q nowMs (qt_compact Q (JObj members))"

definition sendHistoryQuery :: "'v qt \<Rightarrow> int \<Rightarrow> string \<Rightarrow> int \<Rightarrow> int \<Rightarrow> int \<Rightarrow> 'v MainWindow \<Rightarrow> 'v MainWindow" where
  "sendHistoryQuery Q nowMs pointId startMs endMs limit w =
     (if \<not> ui_linked w \<or> pointId = [] then w
      else send_object Q nowMs [(''type'', JStr ''query_history''), (''pointId'', JStr pointId), (''startMs'', JInt startMs),
             (''endMs'', JInt endMs), (''limit'', JInt limit)] w)"

definition ui_devices :: "'v MainWindow \<Rightarrow> DeviceNode list" where
  "ui_devices w = allDevices (dt_device (st_data (ui_store w)))"

definition sendDeleteMasterData :: "'v qt \<Rightarrow> int \<Rightarrow> string \<Rightarrow> string \<Rightarrow> 'v MainWindow \<Rightarrow> 'v MainWindow" where
  "sendDeleteMasterData Q nowMs g p w =
     (if \<not> ui_linked w \<or> g = [] \<or> p = [] then w
      else let ids = map nd_deviceId (filter (\<lambda>n. node_on g p n \<and> nd_deviceId n > 0) (ui_devices w))
           in if ids \<noteq> [] then foldl (\<lambda>w d. do_command Q nowMs (sendRemoveDeviceCommand Q nowMs g p d) w) w ids
              else send_object Q nowMs [(''type'', JStr ''delete_master_data''), (''gatewayId'', JStr g), (''portId'', JStr p),
                     (''timestamp'', JInt nowMs)] (ui_set_pending_delete ''delete_master_data'' g p 0 w))"

definition refuse_target :: "string \<Rightarrow> string \<Rightarrow> string \<Rightarrow> string \<Rightarrow> int \<Rightarrow> string \<Rightarrow> 'v MainWindow \<Rightarrow> 'v MainWindow" where
  "refuse_target kind state g p d bar = ui_show [ShowTarget [] kind g p d state say_not_connected [], StatusText bar]"

definition sendDeleteDeviceData :: "'v qt \<Rightarrow> int \<Rightarrow> string \<Rightarrow> string \<Rightarrow> int \<Rightarrow> 'v MainWindow \<Rightarrow> 'v MainWindow" where
  "sendDeleteDeviceData Q nowMs g p d w =
     (if \<not> ui_linked w \<or> g = [] \<or> p = [] \<or> d \<le> 0
      then refuse_target ''remove_device'' say_remove_failed g p d say_remove_not_sent w
      else do_command Q nowMs (sendRemoveDeviceCommand Q nowMs g p d) (ui_set_pending_delete ''delete_device_data'' g p d w))"

definition sendAddSlaveCommand :: "'v qt \<Rightarrow> int \<Rightarrow> string \<Rightarrow> string \<Rightarrow> int \<Rightarrow> string \<Rightarrow> int \<Rightarrow> (string, jv) umap
    \<Rightarrow> 'v MainWindow \<Rightarrow> 'v MainWindow" where
  "sendAddSlaveCommand Q nowMs g p d deviceType pollIntervalMs options w =
     (if \<not> ui_linked w \<or> g = [] \<or> p = [] \<or> d \<le> 0 \<or> deviceType = [] \<or> pollIntervalMs \<le> 0
      then refuse_target ''add_device'' say_add_failed g p d say_add_not_sent w
      else do_command Q nowMs (sendAddDeviceCommand Q nowMs g p d deviceType pollIntervalMs options) w)"

definition sendSyncConfigRequest :: "'v qt \<Rightarrow> int \<Rightarrow> jv list \<Rightarrow> 'v MainWindow \<Rightarrow> 'v MainWindow" where
  "sendSyncConfigRequest Q nowMs targets w =
     (if \<not> ui_linked w \<or> targets = [] then w
      else send_object Q nowMs [(''type'', JStr ''sync_config_request''), (''targets'', JArr targets), (''timestamp'', JInt nowMs)] w)"

definition sendAcknowledgeAlarm :: "'v qt \<Rightarrow> int \<Rightarrow> string \<Rightarrow> 'v MainWindow \<Rightarrow> 'v MainWindow" where
  "sendAcknowledgeAlarm Q nowMs alarmId w =
     (if \<not> ui_linked w \<or> alarmId = [] then w
      else send_object Q nowMs [(''type'', JStr ''ack_alarm''), (''alarm_id'', JStr alarmId), (''timestamp'', JInt nowMs)] w)"

definition sendClearAcknowledgedAlarms :: "'v qt \<Rightarrow> int \<Rightarrow> 'v MainWindow \<Rightarrow> 'v MainWindow" where
  "sendClearAcknowledgedAlarms Q nowMs w =
     (if \<not> ui_linked w then w
      else send_object Q nowMs [(''type'', JStr ''clear_acknowledged_alarms''), (''timestamp'', JInt nowMs)] w)"

definition sendClearRecoveredAlarms :: "'v qt \<Rightarrow> int \<Rightarrow> 'v MainWindow \<Rightarrow> 'v MainWindow" where
  "sendClearRecoveredAlarms Q nowMs w =
     (if \<not> ui_linked w then w
      else send_object Q nowMs [(''type'', JStr ''clear_recovered_alarms''), (''timestamp'', JInt nowMs)] w)"

definition sendClearAllData :: "'v qt \<Rightarrow> int \<Rightarrow> 'v MainWindow \<Rightarrow> 'v MainWindow" where
  "sendClearAllData Q nowMs w =
     (if \<not> ui_linked w then w
      else send_object Q nowMs [(''type'', JStr ''clear_all_data''), (''timestamp'', JInt nowMs)]
             (ui_set_pending_delete ''clear_all_data'' [] [] 0 w))"

definition saveMqttConfig :: "'v qt \<Rightarrow> int \<Rightarrow> string \<Rightarrow> int \<Rightarrow> 'v MainWindow \<Rightarrow> 'v MainWindow" where
  "saveMqttConfig Q nowMs host port w =
     (if \<not> ui_linked w \<or> qt_trimmed Q host = [] \<or> port < 1 \<or> port > 65535 then w
      else send_object Q nowMs [(''type'', JStr ''save_mqtt_config''), (''host'', JStr (qt_trimmed Q host)), (''port'', JInt port),
             (''timestamp'', JInt nowMs)] w)"

subsection \<open>Events\<close>

datatype ui_event =
    SocketConnected
  | SocketDisconnected
  | SocketFailed
  | SocketData string
  | ReconnectTimer bool
  | PullTimer
  | WatchdogTimer
  | StateTimer
  | CommandTimer string
  | SwitchRelay DeviceNode string bool "(string, bool) umap"
  | QueryHistory string int int int
  | DeleteMaster string string
  | DeleteDevice string string int
  | AddSlave string string int string int "(string, jv) umap"
  | SyncConfig "jv list"
  | AcknowledgeAlarm string
  | ClearAcknowledged
  | ClearRecovered
  | ClearAll
  | RequestMqtt
  | SaveMqtt string int

definition ui_on_connected :: "'v qt \<Rightarrow> int \<Rightarrow> 'v MainWindow \<Rightarrow> 'v MainWindow" where
  "ui_on_connected Q nowMs w = ui_request Q nowMs ''get_alarm_events''
     (ui_show [SettingsConnected True, ShowServiceOnline True]
       (w\<lparr>ui_linked := True, ui_lastIpcMessageMs := nowMs, ui_lastLatestPointsMs := nowMs\<rparr>))"

definition ui_on_disconnected :: "'v qt \<Rightarrow> int \<Rightarrow> 'v MainWindow \<Rightarrow> 'v MainWindow" where
  "ui_on_disconnected Q nowMs w =
     markIpcDataOffline Q nowMs (ui_show [SettingsConnected False] (w\<lparr>ui_linked := False, ui_buffer := []\<rparr>))"

text \<open>\<open>connectToServer\<close> clears the buffer unless it is connected or already connecting.\<close>

definition ui_reconnect :: "bool \<Rightarrow> 'v MainWindow \<Rightarrow> 'v MainWindow" where
  "ui_reconnect connecting w = (if ui_linked w \<or> connecting then w else w\<lparr>ui_buffer := []\<rparr>)"

definition ui_pull :: "'v qt \<Rightarrow> int \<Rightarrow> 'v MainWindow \<Rightarrow> 'v MainWindow" where
  "ui_pull Q nowMs w = foldl (\<lambda>w kind. ui_request Q nowMs kind w) w
     [''get_latest_points'', ''get_devices'', ''get_gateway_status'', ''get_port_status'']"

definition ui_watchdog :: "'v qt \<Rightarrow> int \<Rightarrow> 'v MainWindow \<Rightarrow> 'v MainWindow" where
  "ui_watchdog Q nowMs w =
     (let w = do_store (refreshOfflineStates Q nowMs 30000) w in
      if \<not> ui_linked w then markIpcDataOffline Q nowMs w
      else if ui_lastIpcMessageMs w \<le> 0 \<or> nowMs - ui_lastIpcMessageMs w > 45000 then markIpcDataOffline Q nowMs w
      else w)"

definition ui_state_changed :: "'v MainWindow \<Rightarrow> 'v MainWindow" where
  "ui_state_changed w =
     (let due = st_stateChangePending (ui_store w); w = do_store notify_state_changed w; s = ui_store w
      in if due then ui_show [ShowCounts (st_onlineGatewayCount s) (st_onlineDeviceCount s)
           (activeAlarmCount (dt_alarm (st_data s)))] w else w)"

definition ui_step :: "'v qt \<Rightarrow> int \<Rightarrow> ui_event \<Rightarrow> 'v MainWindow \<Rightarrow> 'v MainWindow" where
  "ui_step Q nowMs e w =
     (case e of
        SocketConnected \<Rightarrow> ui_on_connected Q nowMs w
      | SocketDisconnected \<Rightarrow> ui_on_disconnected Q nowMs w
      | SocketFailed \<Rightarrow> ui_socket_error Q nowMs w
      | SocketData data \<Rightarrow> if data = [] then w else processReceivedData Q nowMs data w
      | ReconnectTimer connecting \<Rightarrow> ui_reconnect connecting w
      | PullTimer \<Rightarrow> ui_pull Q nowMs w
      | WatchdogTimer \<Rightarrow> ui_watchdog Q nowMs w
      | StateTimer \<Rightarrow> ui_state_changed w
      | CommandTimer cmdId \<Rightarrow> do_command Q nowMs (command_timeout cmdId) w
      | SwitchRelay n channel value current \<Rightarrow> do_command Q nowMs (sendRelayCommand Q nowMs n channel value current) w
      | QueryHistory pointId startMs endMs limit \<Rightarrow> sendHistoryQuery Q nowMs pointId startMs endMs limit w
      | DeleteMaster g p \<Rightarrow> sendDeleteMasterData Q nowMs g p w
      | DeleteDevice g p d \<Rightarrow> sendDeleteDeviceData Q nowMs g p d w
      | AddSlave g p d deviceType pollIntervalMs options \<Rightarrow>
          sendAddSlaveCommand Q nowMs g p d deviceType pollIntervalMs options w
      | SyncConfig targets \<Rightarrow> sendSyncConfigRequest Q nowMs targets w
      | AcknowledgeAlarm alarmId \<Rightarrow> sendAcknowledgeAlarm Q nowMs alarmId w
      | ClearAcknowledged \<Rightarrow> sendClearAcknowledgedAlarms Q nowMs w
      | ClearRecovered \<Rightarrow> sendClearRecoveredAlarms Q nowMs w
      | ClearAll \<Rightarrow> sendClearAllData Q nowMs w
      | RequestMqtt \<Rightarrow> ui_request Q nowMs ''get_mqtt_config'' w
      | SaveMqtt host port \<Rightarrow> saveMqttConfig Q nowMs host port w)"

text \<open>A run: events with the time each one happens at.\<close>

definition ui_run :: "'v qt \<Rightarrow> (int \<times> ui_event) list \<Rightarrow> 'v MainWindow \<Rightarrow> 'v MainWindow" where
  "ui_run Q es w = foldl (\<lambda>w (nowMs, e). ui_step Q nowMs e w) w es"

end
