(* ===== verification/UiMaps.thy ===== *)
theory UiMaps
  imports UiMain
begin

text \<open>
  Maps whose entries are kept under a key of their own, and the loops of the user interface that
  insert or update every element of such a map.
\<close>

definition um_all :: "('k \<Rightarrow> 'v \<Rightarrow> bool) \<Rightarrow> ('k, 'v) umap \<Rightarrow> bool" where
  "um_all P m \<longleftrightarrow> (\<forall>(k, v) \<in> set (um_entries m). P k v)"

lemma um_all_iff: "um_all P m \<longleftrightarrow> (\<forall>k v. um_find m k = Some v \<longrightarrow> P k v)"
  by (auto simp: um_all_def um_find_entries)

lemma um_allD: "um_all P m \<Longrightarrow> um_find m k = Some v \<Longrightarrow> P k v"
  by (simp add: um_all_iff)

lemma um_all_mono: "um_all P m \<Longrightarrow> (\<And>k v. P k v \<Longrightarrow> R k v) \<Longrightarrow> um_all R m"
  by (simp add: um_all_iff)

lemma um_all_empty [simp]: "um_all P um_empty"
  by (simp add: um_all_iff)

lemma um_all_set: "um_all P m \<Longrightarrow> P k v \<Longrightarrow> um_all P (um_set k v m)"
  by (simp add: um_all_iff lookup_simps)

lemma um_all_erase: "um_all P m \<Longrightarrow> um_all P (um_erase k m)"
  by (simp add: um_all_iff lookup_simps)

lemma um_all_erase_if: "um_all P m \<Longrightarrow> um_all (\<lambda>k v. P k v \<and> \<not> R k v) (um_erase_if R m)"
  by (auto simp: um_all_iff lookup_simps split: option.splits if_splits)

lemma um_all_map: "um_all P m \<Longrightarrow> (\<And>k v. P k v \<Longrightarrow> R k (f k v)) \<Longrightarrow> um_all R (um_map f m)"
  by (auto simp: um_all_iff lookup_simps)

lemma um_all_value: "um_all P m \<Longrightarrow> v \<in> set (um_values m) \<Longrightarrow> \<exists>k. um_find m k = Some v \<and> P k v"
  by (auto simp: um_values_set um_all_iff)

lemma um_all_um_value: "um_all P m \<Longrightarrow> P k d \<Longrightarrow> P k (um_value m k d)"
  by (auto simp: um_value_def um_all_iff split: option.split)

lemma um_all_insert_all:
  assumes "\<And>v. v \<in> set vs \<Longrightarrow> P (key v) v" "um_all P m"
  shows "um_all P (um_insert_all key vs m)"
  using assms by (induction vs rule: rev_induct) (simp_all add: um_all_set)

lemma um_all_keep_latest:
  assumes "\<And>v. v \<in> set vs \<Longrightarrow> P (key v) v"
  shows "um_all P (keep_latest key time vs)"
  using assms unfolding keep_latest_def
  by (induction vs rule: rev_induct) (auto intro: um_all_set split: option.split)

subsection \<open>Entries under their own key\<close>

definition keyed :: "('v \<Rightarrow> 'k) \<Rightarrow> ('k, 'v) umap \<Rightarrow> bool" where
  "keyed key m \<longleftrightarrow> um_all (\<lambda>k v. key v = k) m"

lemma keyedD: "keyed key m \<Longrightarrow> um_find m k = Some v \<Longrightarrow> key v = k"
  unfolding keyed_def by (rule um_allD)

lemma map_key_values: "keyed key m \<Longrightarrow> map key (um_values m) = map fst (um_entries m)"
  by (auto simp: keyed_def um_all_def um_values_def)

lemma distinct_key_values: "keyed key m \<Longrightarrow> distinct (map key (um_values m))"
  by (simp add: map_key_values um_entries_distinct)

lemma find_map_snd:
  "(\<And>a v. (a, v) \<in> set es \<Longrightarrow> key v = a) \<Longrightarrow> List.find (\<lambda>v. key v = k) (map snd es) = map_of es k"
  by (induction es) auto

lemma find_values: "keyed key m \<Longrightarrow> List.find (\<lambda>v. key v = k) (um_values m) = um_find m k"
  unfolding um_values_def
  by (subst find_map_snd) (auto simp: keyed_def um_all_def um_entries_def DAList.lookup.rep_eq)

lemma keyed_keep_latest: "keyed key (keep_latest key time vs)"
  unfolding keyed_def by (rule um_all_keep_latest) simp

text \<open>A loop that updates the entry of every element.\<close>

lemma find_fold_update:
  assumes "distinct (map key vs)"
  shows "um_find (foldl (\<lambda>m v. um_set (key v) (f v (um_find m (key v))) m) m vs) k =
    (case List.find (\<lambda>v. key v = k) vs of None \<Rightarrow> um_find m k | Some v \<Rightarrow> Some (f v (um_find m k)))"
  using assms
proof (induction vs arbitrary: m)
  case (Cons v vs)
  have "List.find (\<lambda>w. key w = k) vs = None" if "key v = k"
    using Cons.prems that by (simp add: find_None_iff) (metis imageI)
  with Cons show ?case by (auto simp: lookup_simps split: option.split)
qed simp

lemma um_insert_all_update:
  "um_insert_all key vs m = foldl (\<lambda>m v. um_set (key v) ((\<lambda>v _. v) v (um_find m (key v))) m) m vs"
  by (simp add: um_insert_all_def)

lemma find_insert_all:
  assumes "distinct (map key vs)"
  shows "um_find (um_insert_all key vs m) k =
    (case List.find (\<lambda>v. key v = k) vs of None \<Rightarrow> um_find m k | Some v \<Rightarrow> Some v)"
  unfolding um_insert_all_update by (rule find_fold_update [OF assms])

lemma find_reinsert:
  assumes "keyed key m" "um_all (\<lambda>k v. P v) m"
  shows "um_find (um_insert_all key (filter P (um_values m)) um_empty) k = um_find m k"
proof -
  have "filter P (um_values m) = um_values m"
    using assms(2) by (auto simp: um_all_iff um_values_set intro!: filter_True)
  then show ?thesis
    by (simp add: find_insert_all distinct_key_values find_values assms(1) split: option.split)
qed

end
