(* ===== verification/UiDataLemmas.thy ===== *)
theory UiDataLemmas
  imports UiMaps
begin

text \<open>
  The invariant of the data and the device manager of the user interface: every node is complete
  and under its own key, every device with values is one of the device manager, and no deleted
  device comes back.  The last part holds for any condition \<open>R\<close> on the gateway, port and id of the
  nodes that the nodes of incoming messages satisfy unless they are marked as deleted.
\<close>

definition node_ids :: "DeviceNode \<Rightarrow> string \<times> string \<times> int" where
  "node_ids n = (nd_gatewayId n, nd_port n, nd_deviceId n)"

definition node_proper :: "DeviceNode \<Rightarrow> bool" where
  "node_proper n \<longleftrightarrow> nd_factoryId n \<noteq> [] \<and> nd_areaId n \<noteq> [] \<and> node_named n \<and> nd_slaveAddr n = nd_deviceId n"

text \<open>Nodes that differ in their state and names only.\<close>

definition same_place :: "DeviceNode \<Rightarrow> DeviceNode \<Rightarrow> bool" where
  "same_place n n' \<longleftrightarrow> nd_factoryId n = nd_factoryId n' \<and> nd_areaId n = nd_areaId n' \<and> nd_gatewayId n = nd_gatewayId n'
     \<and> nd_port n = nd_port n' \<and> nd_deviceId n = nd_deviceId n' \<and> nd_slaveAddr n = nd_slaveAddr n'"

lemma same_place_facts:
  assumes "same_place n n'"
  shows "node_proper n \<longleftrightarrow> node_proper n'" "node_ids n = node_ids n'" "node_key Q n = node_key Q n'"
    "node_named n \<longleftrightarrow> node_named n'"
  using assms by (simp_all add: same_place_def node_proper_def node_named_def node_ids_def node_key_def)

lemma same_place_refl [simp]: "same_place n n"
  by (simp add: same_place_def)

lemma same_place_live [simp]: "same_place (with_live_state live n) n"
  by (simp add: same_place_def with_live_state_def)

lemma same_place_merge: "node_proper n \<Longrightarrow> same_place (merge_live live n) n"
  by (auto simp: same_place_def node_proper_def merge_live_def with_live_state_def Let_def node_named_def or_text_def)

lemma same_place_fields [simp]:
  "same_place (n\<lparr>nd_online := a\<rparr>) n" "same_place (n\<lparr>nd_online := a, nd_status := b\<rparr>) n"
  "same_place (n\<lparr>nd_online := a, nd_status := b, nd_statusReason := c\<rparr>) n"
  "same_place (n\<lparr>nd_status := b\<rparr>) n" "same_place (n\<lparr>nd_status := b, nd_online := a\<rparr>) n"
  "same_place (n\<lparr>nd_lastUpdateTime := t\<rparr>) n"
  by (simp_all add: same_place_def)

lemma node_slave_proper: "node_proper n \<Longrightarrow> node_slave n = nd_deviceId n"
  by (simp add: node_proper_def node_slave_def)

lemma node_properD: "node_proper n \<Longrightarrow> node_named n" "node_proper n \<Longrightarrow> nd_factoryId n \<noteq> []"
  by (simp_all add: node_proper_def)

type_synonym place = "string \<times> string \<times> int"

definition good_node :: "'v qt \<Rightarrow> (place \<Rightarrow> bool) \<Rightarrow> string \<Rightarrow> DeviceNode \<Rightarrow> bool" where
  "good_node Q R k n \<longleftrightarrow> node_proper n \<and> R (node_ids n) \<and> node_key Q n = k"

lemma good_node_place: "same_place n n' \<Longrightarrow> good_node Q R k n \<longleftrightarrow> good_node Q R k n'"
  by (simp add: good_node_def same_place_facts)

definition nodes_ok :: "'v qt \<Rightarrow> (place \<Rightarrow> bool) \<Rightarrow> DeviceManager \<Rightarrow> bool" where
  "nodes_ok Q R s \<longleftrightarrow> um_all (good_node Q R) (dm_devices s)"

definition values_ok :: "'v qt \<Rightarrow> (place \<Rightarrow> bool) \<Rightarrow> (string, RealtimeDeviceData) umap \<Rightarrow> bool" where
  "values_ok Q R m \<longleftrightarrow> um_all (\<lambda>k r. good_node Q R k (rt_node r)) m"

definition values_known :: "DataManager \<Rightarrow> bool" where
  "values_known s \<longleftrightarrow> um_all (\<lambda>k r. \<exists>n. um_find (dm_devices (dt_device s)) k = Some n \<and> node_ids n = node_ids (rt_node r))
     (dt_realtime s)"

definition marks_ok :: "(string, int) umap \<Rightarrow> bool" where
  "marks_ok m \<longleftrightarrow> um_all (\<lambda>_ v. v < 0) m"

definition data_ok :: "'v qt \<Rightarrow> (place \<Rightarrow> bool) \<Rightarrow> DataManager \<Rightarrow> bool" where
  "data_ok Q R s \<longleftrightarrow> nodes_ok Q R (dt_device s) \<and> values_ok Q R (dt_realtime s) \<and> values_known s \<and> marks_ok (dt_marks s)"

lemmas data_ok_defs = data_ok_def nodes_ok_def values_ok_def marks_ok_def

lemma devices_keyed: "nodes_ok Q R s \<Longrightarrow> keyed (node_key Q) (dm_devices s)"
  unfolding nodes_ok_def keyed_def by (erule um_all_mono) (simp add: good_node_def)

lemma values_keyed: "values_ok Q R m \<Longrightarrow> keyed (\<lambda>r. node_key Q (rt_node r)) m"
  unfolding values_ok_def keyed_def by (erule um_all_mono) (simp add: good_node_def)

lemma devices_named: "nodes_ok Q R s \<Longrightarrow> n \<in> set (allDevices s) \<Longrightarrow> node_proper n \<and> R (node_ids n)"
  by (auto simp: nodes_ok_def allDevices_def good_node_def dest: um_all_value)

lemma values_named: "values_ok Q R m \<Longrightarrow> r \<in> set (um_values m) \<Longrightarrow> node_proper (rt_node r) \<and> R (node_ids (rt_node r))"
  by (auto simp: values_ok_def good_node_def dest: um_all_value)

lemma reinsert_devices:
  assumes "nodes_ok Q R s"
  shows "um_find (um_insert_all (node_key Q) (filter node_named (allDevices s)) um_empty) k = um_find (dm_devices s) k"
  unfolding allDevices_def
proof (rule find_reinsert)
  show "keyed (node_key Q) (dm_devices s)" using assms by (rule devices_keyed)
  show "um_all (\<lambda>k. node_named) (dm_devices s)"
    using assms unfolding nodes_ok_def by (rule um_all_mono) (simp add: good_node_def node_proper_def)
qed

subsection \<open>The device manager\<close>

lemma dm_devices_emit [simp]:
  "dm_devices (dm_emit sigs s) = dm_devices s" "dm_devices (emitOnlineCountsIfChanged s) = dm_devices s"
  by (simp_all add: dm_emit_def emitOnlineCountsIfChanged_def Let_def)

lemma dm_devices_set:
  "dm_devices (setDevices Q ns s) = um_insert_all (node_key Q) (filter node_named ns) um_empty"
  "dm_devices (setGateways gs s) = dm_devices s" "dm_devices (setPorts ps s) = dm_devices s"
  by (simp_all add: setDevices_def setGateways_def setPorts_def)

lemma dm_devices_remove:
  "um_find (dm_devices (dm_removeNodes P s)) k =
     (case um_find (dm_devices s) k of None \<Rightarrow> None | Some n \<Rightarrow> if P n then None else Some n)"
  by (auto simp: dm_removeNodes_def lookup_simps list_ex_iff um_values_set split: option.split)

lemma dm_devices_online:
  "um_find (dm_devices (updateDeviceOnline key online s)) k =
     (if k = key then map_option (\<lambda>n. n\<lparr>nd_online := online\<rparr>) (um_find (dm_devices s) k) else um_find (dm_devices s) k)"
  by (auto simp: updateDeviceOnline_def lookup_simps split: option.split)

lemma unchanged_node: "\<not> configFieldsChanged old new \<Longrightarrow> \<not> realtimeFieldsChanged old new \<Longrightarrow> old = new"
  by (cases old; cases new) (simp add: configFieldsChanged_def config_fields_def realtimeFieldsChanged_def)

lemma dm_devices_upsert:
  assumes "node_named n"
  shows "um_find (dm_devices (dm_upsertDevice Q n s)) k = (if k = node_key Q n then Some n else um_find (dm_devices s) k)"
  using assms unchanged_node
  by (auto simp: dm_upsertDevice_def Let_def lookup_simps split: option.split)

end
