(* ===== verification/UiDataKeeps.thy ===== *)
theory UiDataKeeps
  imports UiDataLemmas
begin

text \<open>Every operation of the data manager keeps its invariant.\<close>

definition admits :: "'v qt \<Rightarrow> int \<Rightarrow> (place \<Rightarrow> bool) \<Rightarrow> DataManager \<Rightarrow> bool" where
  "admits Q nowMs R s \<longleftrightarrow> (\<forall>g p d. \<not> isDeletedDevice Q nowMs g p d s \<longrightarrow> R (g, p, d))"

lemma admitsD: "admits Q nowMs R s \<Longrightarrow> \<not> node_deleted Q nowMs s n \<Longrightarrow> R (node_ids n)"
  by (simp add: admits_def node_deleted_def node_ids_def)

lemma isDeletedDevice_cong: "dt_marks s = dt_marks s' \<Longrightarrow> isDeletedDevice Q nowMs g p d s = isDeletedDevice Q nowMs g p d s'"
  by (simp add: isDeletedDevice_def)

lemma admits_cong: "dt_marks s = dt_marks s' \<Longrightarrow> admits Q nowMs R s = admits Q nowMs R s'"
  by (simp add: admits_def isDeletedDevice_def)

lemma data_ok_cong:
  assumes "dt_device s = dt_device s'" "dt_realtime s = dt_realtime s'" "dt_marks s = dt_marks s'"
  shows "data_ok Q R s = data_ok Q R s'"
  using assms by (simp add: data_ok_def values_known_def)

lemma dt_emit_fields [simp]:
  "dt_device (dt_emit sigs s) = dt_device s" "dt_realtime (dt_emit sigs s) = dt_realtime s" "dt_marks (dt_emit sigs s) = dt_marks s"
  "dt_alarm (dt_emit sigs s) = dt_alarm s" "dt_serviceOnline (dt_emit sigs s) = dt_serviceOnline s"
  by (simp_all add: dt_emit_def)

lemma data_ok_emit [simp]: "data_ok Q R (dt_emit sigs s) = data_ok Q R s" "data_ok Q R (dt_emit_both s) = data_ok Q R s"
  by (rule data_ok_cong; simp add: dt_emit_both_def)+

lemma data_ok_new: "data_ok Q R DataManager_new"
  by (simp add: data_ok_defs values_known_def DataManager_new_def DeviceManager_new_def)

text \<open>Both maps looked up, the form the proofs use.\<close>

lemma data_ok_iff:
  "data_ok Q R s \<longleftrightarrow>
     (\<forall>k n. um_find (dm_devices (dt_device s)) k = Some n \<longrightarrow> good_node Q R k n)
   \<and> (\<forall>k r. um_find (dt_realtime s) k = Some r \<longrightarrow> good_node Q R k (rt_node r)
        \<and> (\<exists>n. um_find (dm_devices (dt_device s)) k = Some n \<and> node_ids n = node_ids (rt_node r)))
   \<and> (\<forall>k v. um_find (dt_marks s) k = Some v \<longrightarrow> v < 0)"
  unfolding data_ok_defs values_known_def um_all_iff by blast

subsection \<open>Nodes of messages\<close>

lemma rt_node_show [simp]: "rt_node (rt_show a b c d) = rt_node d" "rt_node (rt_set_node f d) = f (rt_node d)"
  by (simp_all add: rt_show_def rt_set_node_def)

lemma rt_node_if: "rt_node a = n \<Longrightarrow> rt_node b = n \<Longrightarrow> rt_node (if c then a else b) = n"
  by simp

lemma rt_node_apply [simp]: "rt_node (applyPointToTypedFields p d) = rt_node d"
  unfolding applyPointToTypedFields_def Let_def by (intro rt_node_if) simp_all

lemma same_place_add: "same_place (rt_node (add_built_point d p)) (rt_node d)"
  by (simp add: add_built_point_def)

lemma same_place_trans: "same_place a b \<Longrightarrow> same_place b c \<Longrightarrow> same_place a c"
  by (simp add: same_place_def)

lemma same_place_adds: "same_place (rt_node (foldl add_built_point d ps)) (rt_node d)"
proof (induction ps rule: rev_induct)
  case (snoc p ps)
  then show ?case using same_place_trans [OF same_place_add] by simp
qed simp

lemma same_place_invalid: "same_place (rt_node (invalid_status d)) (rt_node d)"
  unfolding invalid_status_def Let_def by (simp split: if_split)

lemma rt_node_fields [simp]: "rt_node (d\<lparr>rt_errorMessage := e\<rparr>) = rt_node d" "rt_node (d\<lparr>rt_valid := v\<rparr>) = rt_node d"
  by simp_all

lemma same_place_fresh: "same_place (rt_node (fresh_status d)) (rt_node d)"
proof -
  define d1 where "d1 = rt_show ''normal'' txt_normal ''normal'' (rt_set_node (\<lambda>n. n\<lparr>nd_status := ''online'', nd_online := True\<rparr>) d)"
  define d2 where "d2 = (if nd_deviceType (rt_node d1) = ''unknown''
     then (rt_show ''warning'' txt_unknown_type ''normal'' d1)
       \<lparr>rt_errorMessage := if rt_errorMessage d1 = [] then ''unknown_device_type'' else rt_errorMessage d1\<rparr>
     else d1)"
  have d2: "rt_node d2 = rt_node d1" by (simp only: d2_def rt_node_fields rt_node_show split: if_split) simp
  have "same_place (rt_node d1) (rt_node d)" by (simp only: d1_def rt_node_show same_place_fields)
  moreover have "same_place (rt_node (fresh_status d)) (rt_node d2)"
    unfolding fresh_status_def Let_def d1_def [symmetric] d2_def [symmetric]
    by (simp only: rt_node_show same_place_refl same_place_invalid split: if_split) simp
  ultimately show ?thesis unfolding d2 by (blast intro: same_place_trans)
qed

lemma same_place_evaluate: "same_place (rt_node (evaluateDeviceStatus nowMs d)) (rt_node d)"
proof -
  define d1 where "d1 = rt_set_node (\<lambda>n. n\<lparr>nd_online := False\<rparr>) d"
  have 1: "same_place (rt_node d1) (rt_node d)" by (simp only: d1_def rt_node_show same_place_fields)
  have "same_place (rt_node (evaluateDeviceStatus nowMs d)) (rt_node d1)"
    unfolding evaluateDeviceStatus_def Let_def d1_def [symmetric]
    by (simp only: rt_node_show same_place_refl same_place_fields same_place_fresh split: if_split) simp
  with 1 show ?thesis by (blast intro: same_place_trans)
qed

lemma proper_built: "point_named p \<Longrightarrow> node_proper (built_node p)"
  by (simp add: point_named_def built_node_def node_proper_def node_named_def)

lemma proper_build:
  assumes "ps \<noteq> []" "\<forall>p \<in> set ps. point_named p"
  shows "node_proper (rt_node (buildRealtimeDeviceData nowMs ps))"
proof -
  obtain p qs where ps: "ps = p # qs" using assms(1) by (cases ps) auto
  have "same_place (rt_node (buildRealtimeDeviceData nowMs ps)) (built_node p)"
    unfolding buildRealtimeDeviceData_def ps list.case
    by (rule same_place_trans [OF same_place_evaluate same_place_trans [OF same_place_adds]]) simp
  with assms proper_built [of p] show ?thesis by (simp add: ps same_place_facts)
qed

lemma group_step:
  assumes "um_all (\<lambda>_ ps. ps \<noteq> [] \<and> (\<forall>p \<in> set ps. point_named p)) m" "point_named p"
  shows "um_all (\<lambda>_ ps. ps \<noteq> [] \<and> (\<forall>p \<in> set ps. point_named p)) (um_set key (um_value m key [] @ [p]) m)"
proof (rule um_all_set [OF assms(1)])
  have "\<forall>p \<in> set (um_value m key []). point_named p"
    using um_allD [OF assms(1)] by (cases "um_find m key") (simp_all add: um_value_def)
  with assms(2) show "um_value m key [] @ [p] \<noteq> [] \<and> (\<forall>q \<in> set (um_value m key [] @ [p]). point_named q)" by simp
qed

lemma grouped_named: "um_all (\<lambda>_ ps. ps \<noteq> [] \<and> (\<forall>p \<in> set ps. point_named p)) (groupPointsByDevice Q obj)"
proof -
  have "um_all (\<lambda>_ ps. ps \<noteq> [] \<and> (\<forall>p \<in> set ps. point_named p))
      (foldl (\<lambda>m p. let key = point_device_key Q p in um_set key (um_value m key [] @ [p]) m) um_empty vs)"
    if "\<forall>p \<in> set vs. point_named p" for vs
    using that by (induction vs rule: rev_induct) (simp_all add: Let_def group_step)
  then show ?thesis unfolding groupPointsByDevice_def by simp
qed

lemma proper_latest: "d \<in> set (parseLatestPoints Q nowMs obj) \<Longrightarrow> node_proper (rt_node d)"
proof -
  let ?key = "\<lambda>d. node_key Q (rt_node d)"
  have "um_all (\<lambda>_ d. node_proper (rt_node d)) (keep_latest ?key time (filter S (map (buildRealtimeDeviceData nowMs)
      (um_values (groupPointsByDevice Q obj)))))" for time S
  proof (rule um_all_keep_latest)
    fix d
    assume "d \<in> set (filter S (map (buildRealtimeDeviceData nowMs) (um_values (groupPointsByDevice Q obj))))"
    then obtain ps where ps: "ps \<in> set (um_values (groupPointsByDevice Q obj))" and d: "d = buildRealtimeDeviceData nowMs ps"
      by auto
    then show "node_proper (rt_node d)" using um_all_value [OF grouped_named ps] proper_build unfolding d by blast
  qed
  then show "d \<in> set (parseLatestPoints Q nowMs obj) \<Longrightarrow> node_proper (rt_node d)"
    unfolding parseLatestPoints_def by (blast dest: um_all_value)
qed

lemma proper_snapshot: "n \<in> set (parseDevicesSnapshot Q obj) \<Longrightarrow> node_proper n"
proof -
  have "um_all (\<lambda>_ n. node_proper n) (keep_latest (node_key Q) nd_lastUpdateTime
      (filter (\<lambda>n. nd_factoryId n \<noteq> [] \<and> nd_areaId n \<noteq> [] \<and> node_named n) (map (snapshot_node Q) rows)))" for rows
    by (rule um_all_keep_latest) (auto simp: node_proper_def snapshot_node_def Let_def)
  then show "n \<in> set (parseDevicesSnapshot Q obj) \<Longrightarrow> node_proper n"
    unfolding parseDevicesSnapshot_def by (blast dest: um_all_value)
qed

lemma distinct_snapshot: "distinct (map (node_key Q) (parseDevicesSnapshot Q obj))"
  unfolding parseDevicesSnapshot_def by (rule distinct_key_values) (rule keyed_keep_latest)

subsection \<open>Latest points\<close>

lemma upsert_marks: "dt_marks (snd (upsertRealtimeData Q nowMs d s)) = dt_marks s"
  by (simp add: upsertRealtimeData_def Let_def do_devices_def)

lemma upsert_alarm: "dt_alarm (snd (upsertRealtimeData Q nowMs d s)) = dt_alarm s"
  by (simp add: upsertRealtimeData_def Let_def do_devices_def)

lemma upsert_devices:
  assumes "node_named (rt_node d)"
  shows "um_find (dm_devices (dt_device (snd (upsertRealtimeData Q nowMs d s)))) k =
    (if node_deleted Q nowMs s (rt_node d) \<or> stale_update (um_value (dt_realtime s) (node_key Q (rt_node d)) RealtimeDeviceData_default) d
     then um_find (dm_devices (dt_device s)) k
     else if k = node_key Q (rt_node d) then Some (rt_node d) else um_find (dm_devices (dt_device s)) k)"
  using assms by (simp add: upsertRealtimeData_def Let_def do_devices_def dm_devices_online dm_devices_upsert)

lemma upsert_values:
  "dt_realtime (snd (upsertRealtimeData Q nowMs d s)) =
    (if node_deleted Q nowMs s (rt_node d) \<or> stale_update (um_value (dt_realtime s) (node_key Q (rt_node d)) RealtimeDeviceData_default) d
     then dt_realtime s else um_set (node_key Q (rt_node d)) d (dt_realtime s))"
  by (simp add: upsertRealtimeData_def Let_def do_devices_def)

lemma upsert_ok:
  assumes "data_ok Q R s" "node_proper (rt_node d)" "admits Q nowMs R s"
  shows "data_ok Q R (snd (upsertRealtimeData Q nowMs d s))"
proof (cases "node_deleted Q nowMs s (rt_node d) \<or> stale_update (um_value (dt_realtime s) (node_key Q (rt_node d)) RealtimeDeviceData_default) d")
  case True
  then show ?thesis using assms(1) by (simp add: upsertRealtimeData_def Let_def)
next
  case False
  then have good: "good_node Q R (node_key Q (rt_node d)) (rt_node d)"
    using admitsD [OF assms(3)] assms(2) by (simp add: good_node_def)
  have named: "node_named (rt_node d)" using assms(2) by (rule node_properD)
  show ?thesis
    using assms(1) good False
    unfolding data_ok_iff upsert_devices [OF named] upsert_values upsert_marks
    by (auto simp: lookup_simps)
qed

lemma latest_step:
  assumes "data_ok Q R s" "node_proper (rt_node d)" "admits Q nowMs R s"
  shows "data_ok Q R (snd (latest_upserts Q nowMs [d] s))" "dt_marks (snd (latest_upserts Q nowMs [d] s)) = dt_marks s"
  using upsert_ok [OF assms] assms(1) upsert_marks [of Q nowMs d s]
  by (simp_all add: latest_upserts_def case_prod_beta)

lemma latest_upserts_snoc:
  "snd (latest_upserts Q nowMs (ds @ [d]) s) = snd (latest_upserts Q nowMs [d] (snd (latest_upserts Q nowMs ds s)))"
  by (simp add: latest_upserts_def case_prod_beta)

lemma latest_upserts_ok:
  assumes "data_ok Q R s" "\<And>d. d \<in> set ds \<Longrightarrow> node_proper (rt_node d)" "admits Q nowMs R s"
  shows "data_ok Q R (snd (latest_upserts Q nowMs ds s)) \<and> dt_marks (snd (latest_upserts Q nowMs ds s)) = dt_marks s"
  using assms(2)
proof (induction ds rule: rev_induct)
  case Nil
  then show ?case using assms(1) by (simp add: latest_upserts_def)
next
  case (snoc d ds)
  then have ok: "data_ok Q R (snd (latest_upserts Q nowMs ds s))"
    and marks: "dt_marks (snd (latest_upserts Q nowMs ds s)) = dt_marks s" by simp_all
  have "admits Q nowMs R (snd (latest_upserts Q nowMs ds s))" using assms(3) admits_cong [OF marks, of Q nowMs R] by simp
  from latest_step [OF ok _ this] snoc.prems marks show ?case by (simp add: latest_upserts_snoc)
qed

lemma latest_message:
  "dt_device (onLatestPointsMessage Q nowMs obj s)
     = dt_device (snd (latest_upserts Q nowMs (parseLatestPoints Q nowMs obj) (s\<lparr>dt_serviceOnline := True\<rparr>)))"
  "dt_realtime (onLatestPointsMessage Q nowMs obj s)
     = dt_realtime (snd (latest_upserts Q nowMs (parseLatestPoints Q nowMs obj) (s\<lparr>dt_serviceOnline := True\<rparr>)))"
  "dt_marks (onLatestPointsMessage Q nowMs obj s)
     = dt_marks (snd (latest_upserts Q nowMs (parseLatestPoints Q nowMs obj) (s\<lparr>dt_serviceOnline := True\<rparr>)))"
  by (simp_all add: onLatestPointsMessage_def case_prod_beta Let_def)

lemma latest_ok:
  assumes "data_ok Q R s" "admits Q nowMs R s"
  shows "data_ok Q R (onLatestPointsMessage Q nowMs obj s)" "dt_marks (onLatestPointsMessage Q nowMs obj s) = dt_marks s"
proof -
  let ?s = "s\<lparr>dt_serviceOnline := True\<rparr>"
  have same: "data_ok Q R ?s = data_ok Q R s" "admits Q nowMs R ?s = admits Q nowMs R s"
    by (rule data_ok_cong, simp_all) (rule admits_cong, simp)
  have *: "data_ok Q R (snd (latest_upserts Q nowMs (parseLatestPoints Q nowMs obj) ?s))
      \<and> dt_marks (snd (latest_upserts Q nowMs (parseLatestPoints Q nowMs obj) ?s)) = dt_marks ?s"
    by (rule latest_upserts_ok [OF same(1) [THEN iffD2, OF assms(1)] proper_latest same(2) [THEN iffD2, OF assms(2)]])
  then show "dt_marks (onLatestPointsMessage Q nowMs obj s) = dt_marks s" by (simp add: latest_message)
  show "data_ok Q R (onLatestPointsMessage Q nowMs obj s)"
    by (rule data_ok_cong [OF latest_message, THEN iffD2, OF * [THEN conjunct1]])
qed

end
