(* ===== verification/UiDataAll.thy ===== *)
theory UiDataAll
  imports UiDataKeeps
begin

text \<open>
  The invariant of the data manager through the other operations: snapshots of the devices, the
  ageing of the values, the loss of the service, removing, forgetting and clearing.
\<close>

lemma data_ok_device: "data_ok Q R s \<Longrightarrow> um_find (dm_devices (dt_device s)) k = Some n \<Longrightarrow> good_node Q R k n"
  unfolding data_ok_iff by blast

lemma data_ok_value: "data_ok Q R s \<Longrightarrow> um_find (dt_realtime s) k = Some r \<Longrightarrow> good_node Q R k (rt_node r)"
  unfolding data_ok_iff by blast

lemma data_ok_known:
  assumes "data_ok Q R s" "um_find (dt_realtime s) k = Some r"
  obtains n where "um_find (dm_devices (dt_device s)) k = Some n" "node_ids n = node_ids (rt_node r)"
  using assms unfolding data_ok_iff by blast

lemma data_ok_mark: "data_ok Q R s \<Longrightarrow> um_find (dt_marks s) k = Some v \<Longrightarrow> v < 0"
  unfolding data_ok_iff by blast

subsection \<open>Snapshots\<close>

lemma do_devices_fields [simp]:
  "dt_device (do_devices f s) = f (dt_device s)" "dt_realtime (do_devices f s) = dt_realtime s"
  "dt_marks (do_devices f s) = dt_marks s" "dt_alarm (do_devices f s) = dt_alarm s"
  by (simp_all add: do_devices_def)

lemma node_deleted_cong: "dt_marks s = dt_marks s' \<Longrightarrow> node_deleted Q nowMs s n = node_deleted Q nowMs s' n"
  by (simp add: node_deleted_def isDeletedDevice_def)

lemma find_merge:
  assumes "values_ok Q R rs"
  shows "um_find (merge_realtime Q (um_values rs) m) k =
    (case um_find rs k of None \<Rightarrow> um_find m k
     | Some r \<Rightarrow> Some (merge_live (rt_node r) (um_value m k (rt_node r))))"
proof -
  let ?key = "\<lambda>r. node_key Q (rt_node r)"
  let ?f = "\<lambda>r old. merge_live (rt_node r) (case old of None \<Rightarrow> rt_node r | Some v \<Rightarrow> v)"
  have all: "filter node_named (map rt_node (um_values rs)) = map rt_node (um_values rs)"
    using values_named [OF assms] by (auto simp: node_properD intro!: filter_True)
  have merge: "merge_realtime Q (um_values rs) m = foldl (\<lambda>m r. um_set (?key r) (?f r (um_find m (?key r))) m) m (um_values rs)"
    unfolding merge_realtime_def all by (simp add: foldl_map um_value_def Let_def)
  have "um_find (merge_realtime Q (um_values rs) m) k =
    (case List.find (\<lambda>r. ?key r = k) (um_values rs) of None \<Rightarrow> um_find m k | Some r \<Rightarrow> Some (?f r (um_find m k)))"
    unfolding merge by (rule find_fold_update [OF distinct_key_values [OF values_keyed [OF assms]]])
  also have "List.find (\<lambda>r. ?key r = k) (um_values rs) = um_find rs k"
    by (rule find_values [OF values_keyed [OF assms]])
  finally show ?thesis by (simp add: um_value_def split: option.split)
qed

lemma find_snapshot_values:
  assumes "distinct (map (node_key Q) ns)"
  shows "um_find (foldl (\<lambda>m n. um_set (node_key Q n) (snapshot_values n (um_value m (node_key Q n) RealtimeDeviceData_default)) m) m ns) k =
    (case List.find (\<lambda>n. node_key Q n = k) ns of None \<Rightarrow> um_find m k
     | Some n \<Rightarrow> Some (snapshot_values n (um_value m k RealtimeDeviceData_default)))"
  using find_fold_update [OF assms, of "\<lambda>n old. snapshot_values n (case old of None \<Rightarrow> RealtimeDeviceData_default | Some v \<Rightarrow> v)" m k]
  by (simp add: um_value_def split: option.split)

text \<open>The nodes of the configuration once a snapshot is merged in, and what is under a key of it.\<close>

definition merged_nodes :: "'v qt \<Rightarrow> DeviceNode list \<Rightarrow> DataManager \<Rightarrow> (string, DeviceNode) umap" where
  "merged_nodes Q devices s = merge_realtime Q (um_values (dt_realtime s))
     (um_insert_all (node_key Q) devices
       (um_insert_all (node_key Q) (filter node_named (allDevices (dt_device s))) um_empty))"

lemma find_merged:
  assumes "data_ok Q R s" "distinct (map (node_key Q) devices)"
  shows "um_find (merged_nodes Q devices s) k =
    (let n = (case List.find (\<lambda>n. node_key Q n = k) devices of None \<Rightarrow> um_find (dm_devices (dt_device s)) k | Some n \<Rightarrow> Some n)
     in case um_find (dt_realtime s) k of None \<Rightarrow> n
        | Some r \<Rightarrow> Some (merge_live (rt_node r) (case n of None \<Rightarrow> rt_node r | Some n \<Rightarrow> n)))"
proof -
  have ok: "nodes_ok Q R (dt_device s)" "values_ok Q R (dt_realtime s)" using assms(1) by (simp_all add: data_ok_def)
  show ?thesis
    unfolding merged_nodes_def find_merge [OF ok(2)] um_value_def find_insert_all [OF assms(2)] reinsert_devices [OF ok(1)] Let_def
    by (simp split: option.split)
qed

lemma find_devices_some: "List.find P xs = Some x \<Longrightarrow> P x \<and> x \<in> set xs"
  by (auto simp: find_Some_iff)

text \<open>Under every key there is a proper node; with values, it is the one the values are of, or one of
  the snapshot.\<close>

lemma merged_good:
  assumes ok: "data_ok Q R s" and distinct: "distinct (map (node_key Q) devices)"
    and new: "\<And>n. n \<in> set devices \<Longrightarrow> node_proper n \<and> R (node_ids n)"
    and here: "um_find (merged_nodes Q devices s) k = Some n"
  shows "good_node Q R k n"
    and "\<exists>n'. node_ids n = node_ids n' \<and> (case List.find (\<lambda>n. node_key Q n = k) devices of
      None \<Rightarrow> um_find (dm_devices (dt_device s)) k = Some n' | Some m \<Rightarrow> n' = m)"
proof -
  let ?n = "case List.find (\<lambda>n. node_key Q n = k) devices of None \<Rightarrow> um_find (dm_devices (dt_device s)) k | Some n \<Rightarrow> Some n"
  have base: "good_node Q R k m" if "?n = Some m" for m
    using that ok new
    by (auto simp: data_ok_iff good_node_def dest: find_devices_some split: option.splits)
  have "\<exists>m. ?n = Some m \<and> same_place n m"
  proof (cases "um_find (dt_realtime s) k")
    case None
    then show ?thesis using here unfolding find_merged [OF ok distinct] Let_def by (simp add: same_place_def)
  next
    case (Some r)
    then obtain d where "um_find (dm_devices (dt_device s)) k = Some d" by (rule data_ok_known [OF ok])
    then obtain m where m: "?n = Some m" by (cases "List.find (\<lambda>n. node_key Q n = k) devices") auto
    then have "node_proper m" using base by (simp add: good_node_def)
    moreover have "n = merge_live (rt_node r) m"
      using here Some m unfolding find_merged [OF ok distinct] Let_def by simp
    ultimately show ?thesis using m same_place_merge by blast
  qed
  then obtain m where m: "?n = Some m" and place: "same_place n m" by blast
  show "good_node Q R k n" using base [OF m] good_node_place [OF place, of Q R k] by simp
  show "\<exists>n'. node_ids n = node_ids n' \<and> (case List.find (\<lambda>n. node_key Q n = k) devices of
      None \<Rightarrow> um_find (dm_devices (dt_device s)) k = Some n' | Some m \<Rightarrow> n' = m)"
    using m same_place_facts(2) [OF place] by (auto split: option.splits)
qed

lemma merged_known:
  assumes "data_ok Q R s" "distinct (map (node_key Q) devices)"
  shows "um_find (merged_nodes Q devices s) k = None \<longleftrightarrow>
    List.find (\<lambda>n. node_key Q n = k) devices = None \<and> um_find (dm_devices (dt_device s)) k = None"
proof (cases "um_find (dt_realtime s) k")
  case None
  then show ?thesis unfolding find_merged [OF assms] Let_def by (simp split: option.split)
next
  case (Some r)
  then obtain d where "um_find (dm_devices (dt_device s)) k = Some d" by (rule data_ok_known [OF assms(1)])
  with Some show ?thesis unfolding find_merged [OF assms] Let_def by simp
qed

text \<open>The maps after a snapshot.\<close>

definition snapshot_devices :: "'v qt \<Rightarrow> int \<Rightarrow> 'v \<Rightarrow> DataManager \<Rightarrow> DeviceNode list" where
  "snapshot_devices Q nowMs obj s = filter (\<lambda>n. \<not> node_deleted Q nowMs s n) (parseDevicesSnapshot Q obj)"

lemma snapshot_maps:
  "dm_devices (dt_device (onDevicesSnapshotMessage Q nowMs obj s)) =
     um_insert_all (node_key Q) (filter node_named (um_values (merged_nodes Q (snapshot_devices Q nowMs obj s) s))) um_empty"
  "dt_realtime (onDevicesSnapshotMessage Q nowMs obj s) =
     foldl (\<lambda>m n. um_set (node_key Q n) (snapshot_values n (um_value m (node_key Q n) RealtimeDeviceData_default)) m)
       (um_erase_if (\<lambda>_ r. node_deleted Q nowMs s (rt_node r)) (dt_realtime s)) (snapshot_devices Q nowMs obj s)"
  "dt_marks (onDevicesSnapshotMessage Q nowMs obj s) = dt_marks s"
  "dt_alarm (onDevicesSnapshotMessage Q nowMs obj s) = dt_alarm s"
  unfolding onDevicesSnapshotMessage_def Let_def dt_emit_both_def
  by (simp_all add: dm_devices_set merged_nodes_def snapshot_devices_def node_deleted_def isDeletedDevice_def)

lemma snapshot_values_node: "same_place (rt_node (snapshot_values n d)) n"
  by (simp add: snapshot_values_def snapshot_show_def)

lemma snapshot_distinct: "distinct (map (node_key Q) (snapshot_devices Q nowMs obj s))"
  unfolding snapshot_devices_def by (rule distinct_map_filter [OF distinct_snapshot])

lemma snapshot_find_devices:
  assumes ok: "data_ok Q R s" and admits: "admits Q nowMs R s"
  shows "um_find (dm_devices (dt_device (onDevicesSnapshotMessage Q nowMs obj s))) k =
    um_find (merged_nodes Q (snapshot_devices Q nowMs obj s) s) k"
proof -
  have new: "node_proper n \<and> R (node_ids n)" if "n \<in> set (snapshot_devices Q nowMs obj s)" for n
    using that proper_snapshot admitsD [OF admits] by (auto simp: snapshot_devices_def)
  have good: "um_all (good_node Q R) (merged_nodes Q (snapshot_devices Q nowMs obj s) s)"
    unfolding um_all_iff using merged_good(1) [OF ok snapshot_distinct new] by blast
  show ?thesis unfolding snapshot_maps
  proof (rule find_reinsert)
    show "keyed (node_key Q) (merged_nodes Q (snapshot_devices Q nowMs obj s) s)"
      using good unfolding keyed_def by (rule um_all_mono) (simp add: good_node_def)
    show "um_all (\<lambda>k. node_named) (merged_nodes Q (snapshot_devices Q nowMs obj s) s)"
      using good by (rule um_all_mono) (simp add: good_node_def node_proper_def)
  qed
qed

lemma snapshot_ok:
  assumes ok: "data_ok Q R s" and admits: "admits Q nowMs R s"
  shows "data_ok Q R (onDevicesSnapshotMessage Q nowMs obj s)"
  unfolding data_ok_iff
proof (intro conjI allI impI)
  let ?devices = "snapshot_devices Q nowMs obj s"
  have new: "node_proper n \<and> R (node_ids n)" if "n \<in> set ?devices" for n
    using that proper_snapshot admitsD [OF admits] by (auto simp: snapshot_devices_def)
  fix k
  show "good_node Q R k n" if "um_find (dm_devices (dt_device (onDevicesSnapshotMessage Q nowMs obj s))) k = Some n" for n
    using that merged_good(1) [OF ok snapshot_distinct new] by (simp add: snapshot_find_devices [OF ok admits])
  show "v < 0" if "um_find (dt_marks (onDevicesSnapshotMessage Q nowMs obj s)) k = Some v" for v
    using that ok unfolding snapshot_maps data_ok_iff by blast
  show "good_node Q R k (rt_node r)" if r: "um_find (dt_realtime (onDevicesSnapshotMessage Q nowMs obj s)) k = Some r" for r
  proof (cases "List.find (\<lambda>n. node_key Q n = k) ?devices")
    case None
    then have "um_find (dt_realtime s) k = Some r" using r
      by (auto simp: snapshot_maps find_snapshot_values [OF snapshot_distinct] lookup_simps split: option.splits if_splits)
    then show ?thesis by (rule data_ok_value [OF ok])
  next
    case (Some n)
    then have "same_place (rt_node r) n"
      using r by (auto simp: snapshot_maps find_snapshot_values [OF snapshot_distinct] snapshot_values_node)
    moreover have "good_node Q R k n" using find_devices_some [OF Some] new by (auto simp: good_node_def)
    ultimately show ?thesis using good_node_place by blast
  qed
  show "\<exists>n. um_find (dm_devices (dt_device (onDevicesSnapshotMessage Q nowMs obj s))) k = Some n \<and> node_ids n = node_ids (rt_node r)"
    if r: "um_find (dt_realtime (onDevicesSnapshotMessage Q nowMs obj s)) k = Some r" for r
  proof (cases "List.find (\<lambda>n. node_key Q n = k) ?devices")
    case None
    then have old: "um_find (dt_realtime s) k = Some r" using r
      by (auto simp: snapshot_maps find_snapshot_values [OF snapshot_distinct] lookup_simps split: option.splits if_splits)
    then obtain d where d: "um_find (dm_devices (dt_device s)) k = Some d" "node_ids d = node_ids (rt_node r)"
      by (rule data_ok_known [OF ok])
    then obtain n where n: "um_find (merged_nodes Q ?devices s) k = Some n"
      using merged_known [OF ok snapshot_distinct, of nowMs obj s k] by auto
    have "node_ids n = node_ids d" using merged_good(2) [OF ok snapshot_distinct new n] None d(1) by auto
    then show ?thesis using n d(2) by (simp add: snapshot_find_devices [OF ok admits])
  next
    case (Some m)
    then have "same_place (rt_node r) m"
      using r by (auto simp: snapshot_maps find_snapshot_values [OF snapshot_distinct] snapshot_values_node)
    moreover obtain n where n: "um_find (merged_nodes Q ?devices s) k = Some n"
      using merged_known [OF ok snapshot_distinct, of nowMs obj s k] Some by auto
    have "node_ids n = node_ids m" using merged_good(2) [OF ok snapshot_distinct new n] Some by auto
    ultimately show ?thesis using n same_place_facts(2) by (auto simp: snapshot_find_devices [OF ok admits])
  qed
qed

text \<open>A device with no values after the snapshot was there before.\<close>

definition valueless_kept :: "DataManager \<Rightarrow> DataManager \<Rightarrow> bool" where
  "valueless_kept s s' \<longleftrightarrow> (\<forall>k n'. um_find (dm_devices (dt_device s')) k = Some n' \<and> um_find (dt_realtime s') k = None
     \<longrightarrow> (\<exists>n. um_find (dm_devices (dt_device s)) k = Some n \<and> node_ids n = node_ids n'))"

lemma snapshot_valueless:
  assumes ok: "data_ok Q R s" and admits: "admits Q nowMs R s"
  shows "valueless_kept s (onDevicesSnapshotMessage Q nowMs obj s)"
  unfolding valueless_kept_def snapshot_find_devices [OF ok admits]
proof (intro allI impI, elim conjE)
  let ?devices = "snapshot_devices Q nowMs obj s"
  have new: "node_proper n \<and> R (node_ids n)" if "n \<in> set ?devices" for n
    using that proper_snapshot admitsD [OF admits] by (auto simp: snapshot_devices_def)
  fix k n'
  assume n': "um_find (merged_nodes Q ?devices s) k = Some n'"
    and none: "um_find (dt_realtime (onDevicesSnapshotMessage Q nowMs obj s)) k = None"
  have "List.find (\<lambda>n. node_key Q n = k) ?devices = None"
    using none by (auto simp: snapshot_maps find_snapshot_values [OF snapshot_distinct] split: option.splits)
  then show "\<exists>n. um_find (dm_devices (dt_device s)) k = Some n \<and> node_ids n = node_ids n'"
    using merged_good(2) [OF ok snapshot_distinct new n'] by auto
qed

subsection \<open>Changes of state only\<close>

definition same_places :: "DataManager \<Rightarrow> DataManager \<Rightarrow> bool" where
  "same_places s s' \<longleftrightarrow>
     (\<forall>k. rel_option same_place (um_find (dm_devices (dt_device s')) k) (um_find (dm_devices (dt_device s)) k))
   \<and> (\<forall>k. rel_option (\<lambda>r' r. same_place (rt_node r') (rt_node r)) (um_find (dt_realtime s') k) (um_find (dt_realtime s) k))
   \<and> dt_marks s' = dt_marks s"

lemma rel_option_SomeD: "rel_option P (Some x) y \<Longrightarrow> \<exists>z. y = Some z \<and> P x z"
  by (cases y) auto

lemma rel_option_NoneD: "rel_option P None y \<Longrightarrow> y = None"
  by (cases y) auto

lemma same_places_refl [simp]: "same_places s s"
  by (simp add: same_places_def option.rel_refl)

lemma rel_option_trans:
  assumes "rel_option P x y" "rel_option P y z" and trans: "\<And>a b c. P a b \<Longrightarrow> P b c \<Longrightarrow> P a c"
  shows "rel_option P x z"
proof (cases x)
  case None
  then have "y = None" using assms(1) by (cases y) auto
  then have "z = None" using assms(2) by (cases z) auto
  with None show ?thesis by simp
next
  case (Some a)
  then obtain b where b: "y = Some b" "P a b" using assms(1) by (cases y) auto
  then obtain c where "z = Some c" "P b c" using assms(2) by (cases z) auto
  then show ?thesis using Some trans [OF b(2)] by simp
qed

lemma same_places_trans:
  assumes "same_places a b" "same_places b c"
  shows "same_places a c"
  unfolding same_places_def
proof (intro conjI allI)
  fix k
  have 1: "rel_option same_place (um_find (dm_devices (dt_device c)) k) (um_find (dm_devices (dt_device b)) k)"
      "rel_option same_place (um_find (dm_devices (dt_device b)) k) (um_find (dm_devices (dt_device a)) k)"
    and 2: "rel_option (\<lambda>r' r. same_place (rt_node r') (rt_node r)) (um_find (dt_realtime c) k) (um_find (dt_realtime b) k)"
      "rel_option (\<lambda>r' r. same_place (rt_node r') (rt_node r)) (um_find (dt_realtime b) k) (um_find (dt_realtime a) k)"
    using assms by (simp_all add: same_places_def)
  show "rel_option same_place (um_find (dm_devices (dt_device c)) k) (um_find (dm_devices (dt_device a)) k)"
    by (rule rel_option_trans [OF 1 same_place_trans])
  show "rel_option (\<lambda>r' r. same_place (rt_node r') (rt_node r)) (um_find (dt_realtime c) k) (um_find (dt_realtime a) k)"
    by (rule rel_option_trans [OF 2 same_place_trans])
  show "dt_marks c = dt_marks a" using assms by (simp add: same_places_def)
qed

lemma same_places_ok:
  assumes same: "same_places s s'" and ok: "data_ok Q R s"
  shows "data_ok Q R s'" "valueless_kept s s'"
proof -
  have dm: "\<exists>m. um_find (dm_devices (dt_device s)) k = Some m \<and> same_place n m"
    if "um_find (dm_devices (dt_device s')) k = Some n" for k n
  proof -
    have "rel_option same_place (um_find (dm_devices (dt_device s')) k) (um_find (dm_devices (dt_device s)) k)"
      using same by (simp add: same_places_def)
    then show ?thesis using rel_option_SomeD unfolding that by fast
  qed
  have rt: "\<exists>q. um_find (dt_realtime s) k = Some q \<and> same_place (rt_node r) (rt_node q)"
    if "um_find (dt_realtime s') k = Some r" for k r
  proof -
    have "rel_option (\<lambda>r' r. same_place (rt_node r') (rt_node r)) (um_find (dt_realtime s') k) (um_find (dt_realtime s) k)"
      using same by (simp add: same_places_def)
    then show ?thesis using rel_option_SomeD unfolding that by fast
  qed
  have there: "\<exists>n. um_find (dm_devices (dt_device s')) k = Some n \<and> same_place n m"
    if "um_find (dm_devices (dt_device s)) k = Some m" for k m
  proof (cases "um_find (dm_devices (dt_device s')) k")
    case None
    have "rel_option same_place (um_find (dm_devices (dt_device s')) k) (um_find (dm_devices (dt_device s)) k)"
      using same by (simp add: same_places_def)
    then show ?thesis using that rel_option_NoneD unfolding None by fastforce
  next
    case (Some n)
    then show ?thesis using dm that by force
  qed
  show "data_ok Q R s'"
    unfolding data_ok_iff
  proof (intro conjI allI impI)
    fix k
    show "good_node Q R k n" if "um_find (dm_devices (dt_device s')) k = Some n" for n
      using dm [OF that] data_ok_device [OF ok] good_node_place by blast
    show "good_node Q R k (rt_node r)" if "um_find (dt_realtime s') k = Some r" for r
      using rt [OF that] data_ok_value [OF ok] good_node_place by blast
    show "\<exists>n. um_find (dm_devices (dt_device s')) k = Some n \<and> node_ids n = node_ids (rt_node r)"
      if r: "um_find (dt_realtime s') k = Some r" for r
    proof -
      obtain q where q: "um_find (dt_realtime s) k = Some q" and 1: "same_place (rt_node r) (rt_node q)" using rt [OF r] by blast
      obtain m where m: "um_find (dm_devices (dt_device s)) k = Some m" and 2: "node_ids m = node_ids (rt_node q)"
        by (rule data_ok_known [OF ok q])
      obtain n where "um_find (dm_devices (dt_device s')) k = Some n" "same_place n m" using there [OF m] by blast
      then show ?thesis using 1 2 same_place_facts(2) by metis
    qed
    show "v < 0" if "um_find (dt_marks s') k = Some v" for v
      using that same data_ok_mark [OF ok] by (simp add: same_places_def)
  qed
  show "valueless_kept s s'" unfolding valueless_kept_def using dm same_place_facts(2) by metis
qed

lemma same_place_aged: "same_place (rt_node (aged nowMs timeoutMs online d)) (rt_node d)"
  unfolding aged_def Let_def by (simp split: if_split)

lemma same_place_lost: "same_place (rt_node (service_lost reason d)) (rt_node d)"
  by (simp add: service_lost_def)

lemma rel_option_same_place [simp]: "rel_option same_place x x"
  by (simp add: option.rel_refl)

lemma rel_option_same_values [simp]: "rel_option (\<lambda>r' r. same_place (rt_node r') (rt_node r)) x x"
  by (simp add: option.rel_refl)

lemma refresh_device_places: "same_places s (snd (refresh_device Q nowMs timeoutMs (changed, s) n))"
  by (auto simp: refresh_device_def Let_def same_places_def dm_devices_online lookup_simps option.rel_map
      same_place_aged intro!: option.rel_refl split: option.split)

lemma refresh_places: "same_places s (snd (dt_refreshOfflineStates Q nowMs timeoutMs s))"
proof -
  have "same_places s (snd (foldl (refresh_device Q nowMs timeoutMs) (False, s) ns))" for ns
  proof (induction ns rule: rev_induct)
    case (snoc n ns)
    have "same_places (snd (foldl (refresh_device Q nowMs timeoutMs) (False, s) ns))
        (snd (foldl (refresh_device Q nowMs timeoutMs) (False, s) (ns @ [n])))"
      using refresh_device_places [of "snd (foldl (refresh_device Q nowMs timeoutMs) (False, s) ns)" Q nowMs timeoutMs
          "fst (foldl (refresh_device Q nowMs timeoutMs) (False, s) ns)" n] by simp
    then show ?case by (rule same_places_trans [OF snoc])
  qed simp
  moreover have "same_places s s' \<Longrightarrow> same_places s (dt_emit_both s')" for s'
    by (simp add: same_places_def dt_emit_both_def)
  ultimately show ?thesis by (simp add: dt_refreshOfflineStates_def case_prod_beta)
qed

lemma lost_devices:
  assumes "nodes_ok Q R s"
  shows "um_find (dm_devices (setDevices Q (map (\<lambda>n. n\<lparr>nd_online := False, nd_status := reason, nd_statusReason := reason\<rparr>)
      (allDevices s)) s)) k
    = map_option (\<lambda>n. n\<lparr>nd_online := False, nd_status := reason, nd_statusReason := reason\<rparr>) (um_find (dm_devices s) k)"
proof -
  let ?f = "\<lambda>n. n\<lparr>nd_online := False, nd_status := reason, nd_statusReason := reason\<rparr>"
  have f: "node_key Q (?f n) = node_key Q n" "node_named (?f n) = node_named n" for n
    by (rule same_place_facts, simp)+
  have "filter node_named (map ?f (allDevices s)) = map ?f (allDevices s)"
    using devices_named [OF assms] by (auto simp: f node_properD intro!: filter_True)
  then have "um_find (dm_devices (setDevices Q (map ?f (allDevices s)) s)) k
      = um_find (um_insert_all (node_key Q) (map ?f (allDevices s)) um_empty) k"
    by (simp add: dm_devices_set)
  also have "\<dots> = (case List.find (\<lambda>n. node_key Q n = k) (map ?f (allDevices s)) of None \<Rightarrow> None | Some n \<Rightarrow> Some n)"
  proof -
    have "distinct (map (node_key Q) (map ?f (allDevices s)))"
      using distinct_key_values [OF devices_keyed [OF assms]] by (simp add: comp_def f allDevices_def)
    from find_insert_all [OF this, of um_empty k] show ?thesis by (simp split: option.split)
  qed
  also have "List.find (\<lambda>n. node_key Q n = k) (map ?f ns) = map_option ?f (List.find (\<lambda>n. node_key Q n = k) ns)" for ns
    by (induction ns) (simp_all add: f)
  finally show ?thesis
    using find_values [OF devices_keyed [OF assms], of k] by (simp add: allDevices_def split: option.split)
qed

lemma lost_places:
  assumes "data_ok Q R s"
  shows "same_places s (dt_markAllDevicesOffline Q reason s)"
proof -
  have "nodes_ok Q R (dt_device s)" using assms by (simp add: data_ok_def)
  from lost_devices [OF this] show ?thesis
    by (simp add: same_places_def dt_markAllDevicesOffline_def Let_def dt_emit_both_def lookup_simps option.rel_map
        same_place_lost option.rel_refl)
qed

subsection \<open>Removing, forgetting, clearing\<close>

definition only_less :: "DataManager \<Rightarrow> DataManager \<Rightarrow> bool" where
  "only_less s s' \<longleftrightarrow>
     (\<forall>k n. um_find (dm_devices (dt_device s')) k = Some n \<longrightarrow> um_find (dm_devices (dt_device s)) k = Some n)
   \<and> (\<forall>k r. um_find (dt_realtime s') k = Some r \<longrightarrow> um_find (dt_realtime s) k = Some r
        \<and> um_find (dm_devices (dt_device s')) k = um_find (dm_devices (dt_device s)) k)"

lemma only_less_ok:
  assumes "only_less s s'" "data_ok Q R s" "marks_ok (dt_marks s')"
  shows "data_ok Q R s'" "valueless_kept s s'"
proof -
  show "data_ok Q R s'"
    unfolding data_ok_iff
  proof (intro conjI allI impI)
    fix k
    show "good_node Q R k n" if "um_find (dm_devices (dt_device s')) k = Some n" for n
      using that assms(1) data_ok_device [OF assms(2)] unfolding only_less_def by blast
    show "good_node Q R k (rt_node r)" if "um_find (dt_realtime s') k = Some r" for r
      using that assms(1) data_ok_value [OF assms(2)] unfolding only_less_def by blast
    show "\<exists>n. um_find (dm_devices (dt_device s')) k = Some n \<and> node_ids n = node_ids (rt_node r)"
      if r: "um_find (dt_realtime s') k = Some r" for r
    proof -
      have old: "um_find (dt_realtime s) k = Some r"
        and same: "um_find (dm_devices (dt_device s')) k = um_find (dm_devices (dt_device s)) k"
        using r assms(1) unfolding only_less_def by blast+
      obtain n where "um_find (dm_devices (dt_device s)) k = Some n" "node_ids n = node_ids (rt_node r)"
        by (rule data_ok_known [OF assms(2) old])
      then show ?thesis unfolding same by blast
    qed
    show "v < 0" if "um_find (dt_marks s') k = Some v" for v
      using that assms(3) by (simp add: marks_ok_def um_all_iff)
  qed
  show "valueless_kept s s'"
    using assms(1) unfolding valueless_kept_def only_less_def by blast
qed

lemma remember_fields [simp]:
  "dt_device (rememberDeletedDevice Q g p d nowMs s) = dt_device s" "dt_realtime (rememberDeletedDevice Q g p d nowMs s) = dt_realtime s"
  "dt_alarm (rememberDeletedDevice Q g p d nowMs s) = dt_alarm s"
  by (simp_all add: rememberDeletedDevice_def)

lemma remember_marks: "marks_ok (dt_marks s) \<Longrightarrow> 0 < nowMs \<Longrightarrow> marks_ok (dt_marks (rememberDeletedDevice Q g p d nowMs s))"
  by (simp add: rememberDeletedDevice_def marks_ok_def um_all_set)

lemma remembers_fields:
  "dt_device (foldl (\<lambda>s n. rememberDeletedDevice Q (nd_gatewayId n) (nd_port n) (nd_deviceId n) nowMs s) s ns) = dt_device s"
  "dt_realtime (foldl (\<lambda>s n. rememberDeletedDevice Q (nd_gatewayId n) (nd_port n) (nd_deviceId n) nowMs s) s ns) = dt_realtime s"
  by (induction ns rule: rev_induct) simp_all

lemma remembers_marks:
  "marks_ok (dt_marks s) \<Longrightarrow> 0 < nowMs \<Longrightarrow>
   marks_ok (dt_marks (foldl (\<lambda>s n. rememberDeletedDevice Q (nd_gatewayId n) (nd_port n) (nd_deviceId n) nowMs s) s ns))"
  by (induction ns rule: rev_induct) (simp_all add: remember_marks)

lemma find_removed_device:
  "um_find (dm_devices (dt_device (dt_removeDeviceData Q nowMs g p d s))) k =
     (case um_find (dm_devices (dt_device s)) k of None \<Rightarrow> None | Some n \<Rightarrow> if node_at g p d n then None else Some n)"
  "um_find (dt_realtime (dt_removeDeviceData Q nowMs g p d s)) k =
     (case um_find (dt_realtime s) k of None \<Rightarrow> None | Some r \<Rightarrow> if node_at g p d (rt_node r) then None else Some r)"
  "dt_marks (dt_removeDeviceData Q nowMs g p d s) = dt_marks (rememberDeletedDevice Q g p d nowMs s)"
  by (simp_all add: dt_removeDeviceData_def Let_def dt_emit_both_def dm_removeDeviceData_def dm_devices_remove lookup_simps
      rememberDeletedDevice_def)

lemma find_removed_master:
  "um_find (dm_devices (dt_device (dt_removeMasterData Q nowMs g p s))) k =
     (case um_find (dm_devices (dt_device s)) k of None \<Rightarrow> None | Some n \<Rightarrow> if node_on g p n then None else Some n)"
  "um_find (dt_realtime (dt_removeMasterData Q nowMs g p s)) k =
     (case um_find (dt_realtime s) k of None \<Rightarrow> None | Some r \<Rightarrow> if node_on g p (rt_node r) then None else Some r)"
  by (simp_all add: dt_removeMasterData_def Let_def dt_emit_both_def dm_removeMasterData_def dm_devices_remove lookup_simps
      remembers_fields)

lemma removed_marks:
  assumes "marks_ok (dt_marks s)" "0 < nowMs"
  shows "marks_ok (dt_marks (dt_removeDeviceData Q nowMs g p d s))" "marks_ok (dt_marks (dt_removeMasterData Q nowMs g p s))"
  using assms by (simp_all add: find_removed_device remember_marks dt_removeMasterData_def Let_def dt_emit_both_def remembers_marks)

lemma node_at_ids: "node_proper n \<Longrightarrow> node_at g p d n \<longleftrightarrow> node_ids n = (g, p, d)"
  by (auto simp: node_at_def node_ids_def node_slave_proper)

lemma removed_less:
  assumes ok: "data_ok Q R s"
  shows "only_less s (dt_removeDeviceData Q nowMs g p d s)" "only_less s (dt_removeMasterData Q nowMs g p s)"
proof -
  have known: "\<exists>n. um_find (dm_devices (dt_device s)) k = Some n \<and> node_proper n \<and> node_ids n = node_ids (rt_node r) \<and> node_proper (rt_node r)"
    if "um_find (dt_realtime s) k = Some r" for k r
    using that ok data_ok_device [OF ok] data_ok_value [OF ok that]
    by (elim data_ok_known [OF ok]) (auto simp: good_node_def)
  show "only_less s (dt_removeDeviceData Q nowMs g p d s)"
    unfolding only_less_def find_removed_device
    by (auto dest!: known simp: node_at_ids split: option.splits if_splits)
  show "only_less s (dt_removeMasterData Q nowMs g p s)"
    unfolding only_less_def find_removed_master
    by (auto dest!: known simp: node_on_def node_ids_def split: option.splits if_splits)
qed

lemma removed_ok:
  assumes ok: "data_ok Q R s" and now: "0 < nowMs"
  shows "data_ok Q R (dt_removeDeviceData Q nowMs g p d s)" "valueless_kept s (dt_removeDeviceData Q nowMs g p d s)"
    "data_ok Q R (dt_removeMasterData Q nowMs g p s)" "valueless_kept s (dt_removeMasterData Q nowMs g p s)"
proof -
  have "marks_ok (dt_marks s)" using ok by (simp add: data_ok_def)
  note marks = removed_marks [OF this now]
  show "data_ok Q R (dt_removeDeviceData Q nowMs g p d s)" "valueless_kept s (dt_removeDeviceData Q nowMs g p d s)"
    by (rule only_less_ok [OF removed_less(1) [OF ok] ok marks(1)])+
  show "data_ok Q R (dt_removeMasterData Q nowMs g p s)" "valueless_kept s (dt_removeMasterData Q nowMs g p s)"
    by (rule only_less_ok [OF removed_less(2) [OF ok] ok marks(2)])+
qed

lemma forget_ok:
  assumes "data_ok Q R s"
  shows "data_ok Q R (dt_forgetRemovedDevice Q g p d s)" "valueless_kept s (dt_forgetRemovedDevice Q g p d s)"
proof -
  have "only_less s (dt_forgetRemovedDevice Q g p d s)" by (simp add: only_less_def dt_forgetRemovedDevice_def)
  moreover have "marks_ok (dt_marks (dt_forgetRemovedDevice Q g p d s))"
    using assms by (simp add: data_ok_defs dt_forgetRemovedDevice_def um_all_erase)
  ultimately show "data_ok Q R (dt_forgetRemovedDevice Q g p d s)" "valueless_kept s (dt_forgetRemovedDevice Q g p d s)"
    using only_less_ok assms by blast+
qed

lemma clear_ok:
  assumes "data_ok Q R s"
  shows "data_ok Q R (dt_clearRuntimeData s)" "valueless_kept s (dt_clearRuntimeData s)"
proof -
  have "only_less s (dt_clearRuntimeData s)" by (simp add: only_less_def dt_clearRuntimeData_def)
  moreover have "marks_ok (dt_marks (dt_clearRuntimeData s))" using assms by (simp add: data_ok_def dt_clearRuntimeData_def)
  ultimately show "data_ok Q R (dt_clearRuntimeData s)" "valueless_kept s (dt_clearRuntimeData s)"
    using only_less_ok assms by blast+
qed

end
