(* ===== verification/UiStoreLemmas.thy ===== *)
theory UiStoreLemmas
  imports UiDataAll
begin

text \<open>
  The mirror of the state store: what a rebuild leaves under each key, and the invariant that the
  mirror has exactly the devices of the device manager.
\<close>

subsection \<open>A rebuild\<close>

definition filled_lifecycle :: "DeviceState \<Rightarrow> DeviceState" where
  "filled_lifecycle d = (if ds_lifecycleState d = [] then d\<lparr>ds_lifecycleState := lifecycleFor d\<rparr> else d)"

definition mirrored :: "string \<Rightarrow> int \<Rightarrow> DeviceState \<Rightarrow> DeviceNode \<Rightarrow> RealtimeDeviceData option \<Rightarrow> DeviceState" where
  "mirrored source nowMs old n value = filled_lifecycle
     (let d = mirror_touched source nowMs (old\<lparr>ds_node := n\<rparr>) in
      case value of None \<Rightarrow> d | Some r \<Rightarrow> mirror_value source nowMs d r)"

lemma ds_node_touched [simp]: "ds_node (mirror_touched source nowMs d) = ds_node d" "ds_realtime (mirror_touched source nowMs d) = ds_realtime d"
  by (simp_all add: mirror_touched_def)

lemma ds_filled [simp]: "ds_node (filled_lifecycle d) = ds_node d" "ds_realtime (filled_lifecycle d) = ds_realtime d"
  by (simp_all add: filled_lifecycle_def)

lemma mirror_value_node:
  "node_named (ds_node d) \<Longrightarrow> ds_node (mirror_value source nowMs d r) = with_live_state (rt_node r) (ds_node d)"
  "ds_realtime (mirror_value source nowMs d r) = r"
  by (simp_all add: mirror_value_def Let_def)

lemma mirrored_fields:
  "node_named n \<Longrightarrow> ds_node (mirrored source nowMs old n value) = (case value of None \<Rightarrow> n | Some r \<Rightarrow> with_live_state (rt_node r) n)"
  "ds_realtime (mirrored source nowMs old n value) = (case value of None \<Rightarrow> ds_realtime old | Some r \<Rightarrow> r)"
  by (simp_all add: mirrored_def Let_def mirror_value_node split: option.split)

lemma find_mirror_nodes:
  assumes "nodes_ok Q R s"
  shows "um_find (mirror_nodes Q source nowMs old (allDevices s)) k =
    map_option (\<lambda>n. mirror_touched source nowMs (um_value old k DeviceState_default\<lparr>ds_node := n\<rparr>)) (um_find (dm_devices s) k)"
proof -
  let ?f = "\<lambda>n _. mirror_touched source nowMs (um_value old (node_key Q n) DeviceState_default\<lparr>ds_node := n\<rparr>)"
  have "filter node_named (allDevices s) = um_values (dm_devices s)"
    using devices_named [OF assms] by (auto simp: allDevices_def node_properD intro!: filter_True)
  then have "um_find (mirror_nodes Q source nowMs old (allDevices s)) k =
      um_find (foldl (\<lambda>m n. um_set (node_key Q n) (?f n (um_find m (node_key Q n))) m) um_empty (um_values (dm_devices s))) k"
    by (simp add: mirror_nodes_def)
  also have "\<dots> = (case List.find (\<lambda>n. node_key Q n = k) (um_values (dm_devices s)) of
      None \<Rightarrow> um_find um_empty k | Some n \<Rightarrow> Some (?f n (um_find um_empty k)))"
    by (rule find_fold_update [OF distinct_key_values [OF devices_keyed [OF assms]]])
  also have "List.find (\<lambda>n. node_key Q n = k) (um_values (dm_devices s)) = um_find (dm_devices s) k"
    by (rule find_values [OF devices_keyed [OF assms]])
  finally have eq: "um_find (mirror_nodes Q source nowMs old (allDevices s)) k =
      (case um_find (dm_devices s) k of None \<Rightarrow> um_find um_empty k | Some n \<Rightarrow> Some (?f n (um_find um_empty k)))" .
  show ?thesis
  proof (cases "um_find (dm_devices s) k")
    case None
    then show ?thesis unfolding eq by simp
  next
    case (Some n)
    then have "node_key Q n = k" by (rule keyedD [OF devices_keyed [OF assms]])
    with Some show ?thesis unfolding eq by simp
  qed
qed

text \<open>The loop over the values stores each entry under the key of its value.\<close>

definition mirror_keyed :: "'v qt \<Rightarrow> (string, DeviceState) umap \<Rightarrow> bool" where
  "mirror_keyed Q m \<longleftrightarrow> um_all (\<lambda>k d. node_named (ds_node d) \<and> node_key Q (ds_node d) = k) m"

lemma mirror_values_keyed:
  assumes "mirror_keyed Q m" "\<And>r. r \<in> set rs \<Longrightarrow> um_find m (node_key Q (rt_node r)) \<noteq> None"
  shows "foldl (\<lambda>m r. let key = node_key Q (rt_node r);
       d = mirror_value source nowMs (um_value m key (um_value old key DeviceState_default)) r
     in um_set (node_key Q (ds_node d)) d m) m rs
   = foldl (\<lambda>m r. um_set (node_key Q (rt_node r))
       (mirror_value source nowMs (um_value m (node_key Q (rt_node r)) DeviceState_default) r) m) m rs"
  using assms
proof (induction rs arbitrary: m)
  case (Cons r rs)
  let ?k = "node_key Q (rt_node r)"
  obtain d where d: "um_find m ?k = Some d" using Cons.prems(2) [of r] by auto
  have named: "node_named (ds_node d) \<and> node_key Q (ds_node d) = ?k"
    using um_allD [OF Cons.prems(1) [unfolded mirror_keyed_def] d] .
  let ?d = "mirror_value source nowMs d r"
  have place: "same_place (ds_node ?d) (ds_node d)" using named by (simp add: mirror_value_node)
  have key: "node_key Q (ds_node ?d) = ?k" using named same_place_facts(3) [OF place, of Q] by simp
  have "node_named (ds_node ?d)" using named same_place_facts(4) [OF place] by simp
  then have "mirror_keyed Q (um_set ?k ?d m)"
    using Cons.prems(1) key unfolding mirror_keyed_def by (intro um_all_set) simp_all
  moreover have "um_find (um_set ?k ?d m) (node_key Q (rt_node q)) \<noteq> None" if "q \<in> set rs" for q
    using Cons.prems(2) [of q] that by (simp add: lookup_simps)
  ultimately show ?case using Cons.IH [of "um_set ?k ?d m"] key d by (simp add: Let_def um_value_def)
qed simp

lemma rebuild_data [simp]: "st_data (rebuildStateMirror Q nowMs source s) = st_data s"
  by (simp add: rebuildStateMirror_def Let_def)

lemma find_rebuild:
  assumes ok: "data_ok Q R (st_data s)"
  shows "um_find (st_devices (rebuildStateMirror Q nowMs source s)) k =
    map_option (\<lambda>n. mirrored source nowMs (um_value (st_devices s) k DeviceState_default) n (um_find (dt_realtime (st_data s)) k))
      (um_find (dm_devices (dt_device (st_data s))) k)"
proof -
  let ?dm = "dt_device (st_data s)" and ?rt = "dt_realtime (st_data s)" and ?old = "st_devices s"
  let ?m = "mirror_nodes Q source nowMs ?old (allDevices ?dm)"
  have dm: "nodes_ok Q R ?dm" and rt: "values_ok Q R ?rt" using ok by (simp_all add: data_ok_def)
  note m = find_mirror_nodes [OF dm]
  have keyed: "mirror_keyed Q ?m"
    unfolding mirror_keyed_def um_all_iff using data_ok_device [OF ok]
    by (auto simp: m good_node_def node_properD)
  have all: "filter (\<lambda>r. node_named (rt_node r)) (um_values ?rt) = um_values ?rt"
    using values_named [OF rt] by (auto simp: node_properD intro!: filter_True)
  have here: "um_find ?m (node_key Q (rt_node r)) \<noteq> None" if r: "r \<in> set (um_values ?rt)" for r
  proof -
    obtain j where j: "um_find ?rt j = Some r" using r unfolding um_values_set by blast
    then have "node_key Q (rt_node r) = j" using data_ok_value [OF ok j] by (simp add: good_node_def)
    moreover obtain n where "um_find (dm_devices ?dm) j = Some n" by (rule data_ok_known [OF ok j])
    ultimately show ?thesis by (simp add: m)
  qed
  let ?f = "\<lambda>r old. mirror_value source nowMs (case old of None \<Rightarrow> DeviceState_default | Some d \<Rightarrow> d) r"
  have "mirror_values Q source nowMs ?old (allRealtimeData (st_data s)) ?m
      = foldl (\<lambda>m r. um_set (node_key Q (rt_node r)) (?f r (um_find m (node_key Q (rt_node r)))) m) ?m (um_values ?rt)"
    unfolding mirror_values_def allRealtimeData_def all
    by (rule trans [OF mirror_values_keyed [OF keyed here]]) (assumption, simp only: um_value_def)
  then have "um_find (mirror_values Q source nowMs ?old (allRealtimeData (st_data s)) ?m) k
      = (case um_find ?rt k of None \<Rightarrow> um_find ?m k | Some r \<Rightarrow> Some (?f r (um_find ?m k)))"
    using find_fold_update [OF distinct_key_values [OF values_keyed [OF rt]], of ?f ?m k]
      find_values [OF values_keyed [OF rt], of k] by (simp only:)
  moreover have "um_find (dm_devices ?dm) k \<noteq> None" if "um_find ?rt k = Some r" for r
    using data_ok_known [OF ok that] by blast
  ultimately show ?thesis
    by (auto simp: rebuildStateMirror_def Let_def lookup_simps m mirrored_def filled_lifecycle_def split: option.splits)
qed


subsection \<open>The invariant of the store\<close>

text \<open>Under every key the mirror has a device exactly when the device manager has one, both name the
  same gateway, port and id, and so do the values that are shown.\<close>

definition mirror_ok :: "UiStateStore \<Rightarrow> bool" where
  "mirror_ok s \<longleftrightarrow>
     (\<forall>k. um_find (st_devices s) k = None \<longleftrightarrow> um_find (dm_devices (dt_device (st_data s))) k = None)
   \<and> (\<forall>k d n. um_find (st_devices s) k = Some d \<longrightarrow> um_find (dm_devices (dt_device (st_data s))) k = Some n
        \<longrightarrow> same_place (ds_node d) n
          \<and> (node_named (rt_node (ds_realtime d)) \<longrightarrow> node_ids (rt_node (ds_realtime d)) = node_ids n))"

text \<open>Every device that is not marked as deleted satisfies \<open>R\<close>.\<close>

definition covers :: "'v qt \<Rightarrow> (place \<Rightarrow> bool) \<Rightarrow> DataManager \<Rightarrow> bool" where
  "covers Q R s \<longleftrightarrow> (\<forall>g p d. um_find (dt_marks s) (deletedDeviceKey Q g p d) = None \<longrightarrow> R (g, p, d))"

definition store_ok :: "'v qt \<Rightarrow> (place \<Rightarrow> bool) \<Rightarrow> UiStateStore \<Rightarrow> bool" where
  "store_ok Q R s \<longleftrightarrow> data_ok Q R (st_data s) \<and> covers Q R (st_data s) \<and> mirror_ok s"

lemma mirror_known:
  assumes "mirror_ok s" "um_find (st_devices s) k = Some d"
  obtains n where "um_find (dm_devices (dt_device (st_data s))) k = Some n" "same_place (ds_node d) n"
    "node_named (rt_node (ds_realtime d)) \<longrightarrow> node_ids (rt_node (ds_realtime d)) = node_ids n"
proof -
  have "um_find (dm_devices (dt_device (st_data s))) k \<noteq> None" using assms unfolding mirror_ok_def by (metis option.distinct(1))
  then obtain n where "um_find (dm_devices (dt_device (st_data s))) k = Some n" by blast
  with assms that show thesis unfolding mirror_ok_def by blast
qed

lemma covers_admits:
  assumes "covers Q R s" "marks_ok (dt_marks s)"
  shows "admits Q nowMs R s"
  unfolding admits_def
proof (intro allI impI)
  fix g p d
  assume free: "\<not> isDeletedDevice Q nowMs g p d s"
  have "um_find (dt_marks s) (deletedDeviceKey Q g p d) = None"
  proof (cases "um_find (dt_marks s) (deletedDeviceKey Q g p d)")
    case (Some v)
    then have "v < 0" using assms(2) unfolding marks_ok_def by (blast dest: um_allD)
    with Some free show ?thesis by (simp add: isDeletedDevice_def)
  qed
  then show "R (g, p, d)" using assms(1) unfolding covers_def by blast
qed

lemma covers_cong: "dt_marks s = dt_marks s' \<Longrightarrow> covers Q R s = covers Q R s'"
  by (simp add: covers_def)

lemma rebuild_mirror:
  assumes old: "mirror_ok s" and ok: "data_ok Q R data" and kept: "valueless_kept (st_data s) data"
  shows "mirror_ok (rebuildStateMirror Q nowMs source (s\<lparr>st_data := data\<rparr>))"
proof -
  let ?s = "s\<lparr>st_data := data\<rparr>"
  have dataok: "data_ok Q R (st_data ?s)" using ok by simp
  have find: "um_find (st_devices (rebuildStateMirror Q nowMs source ?s)) k =
      map_option (\<lambda>n. mirrored source nowMs (um_value (st_devices s) k DeviceState_default) n (um_find (dt_realtime data) k))
        (um_find (dm_devices (dt_device data)) k)" for k
    using find_rebuild [OF dataok, of nowMs source k] by simp
  have "same_place (ds_node d) n
      \<and> (node_named (rt_node (ds_realtime d)) \<longrightarrow> node_ids (rt_node (ds_realtime d)) = node_ids n)"
    if d: "d = mirrored source nowMs (um_value (st_devices s) k DeviceState_default) n (um_find (dt_realtime data) k)"
      and n: "um_find (dm_devices (dt_device data)) k = Some n" for k d n
  proof -
    have named: "node_named n" using data_ok_device [OF ok n] by (simp add: good_node_def node_properD)
    note fields = mirrored_fields(1) [OF named, of source nowMs "um_value (st_devices s) k DeviceState_default"
      "um_find (dt_realtime data) k", folded d] mirrored_fields(2) [of source nowMs
      "um_value (st_devices s) k DeviceState_default" n "um_find (dt_realtime data) k", folded d]
    show ?thesis
    proof (cases "um_find (dt_realtime data) k")
      case (Some r)
      obtain n' where "um_find (dm_devices (dt_device data)) k = Some n'" "node_ids n' = node_ids (rt_node r)"
        by (rule data_ok_known [OF ok Some])
      with n Some show ?thesis by (simp add: fields)
    next
      case None
      then obtain m where m: "um_find (dm_devices (dt_device (st_data s))) k = Some m" "node_ids m = node_ids n"
        using kept n unfolding valueless_kept_def by blast
      then obtain e where e: "um_find (st_devices s) k = Some e"
        using old unfolding mirror_ok_def by (metis not_None_eq)
      then have "node_named (rt_node (ds_realtime e)) \<longrightarrow> node_ids (rt_node (ds_realtime e)) = node_ids n"
        using old m unfolding mirror_ok_def by metis
      then show ?thesis using None e by (simp add: fields um_value_def)
    qed
  qed
  then show ?thesis unfolding mirror_ok_def find by (simp add: map_option_case split: option.split)
qed

lemma store_change_eq: "store_change Q nowMs source f s = (rebuildStateMirror Q nowMs source (s\<lparr>st_data := f (st_data s)\<rparr>))\<lparr>st_stateChangePending := True\<rparr>"
  by (simp add: store_change_def scheduleStateChanged_def do_data_def)

lemma store_change_ok:
  assumes "mirror_ok s" "data_ok Q R (f (st_data s))" "valueless_kept (st_data s) (f (st_data s))" "covers Q R (f (st_data s))"
  shows "store_ok Q R (store_change Q nowMs source f s)"
  using rebuild_mirror [OF assms(1-3), of nowMs source] assms(2,4)
  by (simp add: store_change_eq store_ok_def mirror_ok_def)


subsection \<open>Every operation of the store\<close>

definition may_forget :: "'v qt \<Rightarrow> (place \<Rightarrow> bool) \<Rightarrow> string \<Rightarrow> string \<Rightarrow> int \<Rightarrow> bool" where
  "may_forget Q R g p d \<longleftrightarrow> (\<forall>g' p' d'. deletedDeviceKey Q g' p' d' = deletedDeviceKey Q g p d \<longrightarrow> R (g', p', d'))"

lemma covers_remember: "covers Q R s \<Longrightarrow> covers Q R (rememberDeletedDevice Q g p d nowMs s)"
  by (auto simp: covers_def rememberDeletedDevice_def lookup_simps)

lemma covers_remembers:
  "covers Q R s \<Longrightarrow> covers Q R (foldl (\<lambda>s n. rememberDeletedDevice Q (nd_gatewayId n) (nd_port n) (nd_deviceId n) nowMs s) s ns)"
  by (induction ns rule: rev_induct) (simp_all add: covers_remember)

lemma covers_removed:
  assumes "covers Q R s"
  shows "covers Q R (dt_removeDeviceData Q nowMs g p d s)" "covers Q R (dt_removeMasterData Q nowMs g p s)"
proof -
  have "covers Q R (rememberDeletedDevice Q g p d nowMs s)" using assms by (rule covers_remember)
  then show "covers Q R (dt_removeDeviceData Q nowMs g p d s)" by (simp add: covers_def find_removed_device)
  show "covers Q R (dt_removeMasterData Q nowMs g p s)"
    unfolding dt_removeMasterData_def Let_def dt_emit_both_def
    using covers_remembers [OF covers_cong [THEN iffD2, OF _ assms], of "do_devices (dm_removeMasterData g p) s"]
    by (simp add: covers_def)
qed

lemma covers_forget:
  assumes "covers Q R s" "may_forget Q R g p d"
  shows "covers Q R (dt_forgetRemovedDevice Q g p d s)"
  using assms by (simp add: covers_def may_forget_def dt_forgetRemovedDevice_def lookup_simps)

lemma store_okD:
  assumes "store_ok Q R s"
  shows "data_ok Q R (st_data s)" "covers Q R (st_data s)" "mirror_ok s" "admits Q nowMs R (st_data s)"
  using assms covers_admits by (auto simp: store_ok_def data_ok_def)

lemma store_ok_change:
  assumes "store_ok Q R s" "data_ok Q R (f (st_data s))" "valueless_kept (st_data s) (f (st_data s))" "dt_marks (f (st_data s)) = dt_marks (st_data s)"
  shows "store_ok Q R (store_change Q nowMs source f s)"
proof (rule store_change_ok)
  show "mirror_ok s" "data_ok Q R (f (st_data s))" "valueless_kept (st_data s) (f (st_data s))"
    using assms store_okD(3) by auto
  show "covers Q R (f (st_data s))" using covers_cong [OF assms(4), of Q R] store_okD(2) [OF assms(1)] by simp
qed

lemma valueless_kept_refl: "valueless_kept s s"
  by (simp add: valueless_kept_def)

lemma store_ok_lost: "store_ok Q R s \<Longrightarrow> store_ok Q R (markAllDevicesOffline Q nowMs reason s)"
  unfolding markAllDevicesOffline_def
  using lost_places [OF store_okD(1)] same_places_ok [OF lost_places [OF store_okD(1)] store_okD(1)]
  by (intro store_ok_change) (auto simp: same_places_def)

lemma store_ok_removed:
  assumes "store_ok Q R s" "0 < nowMs"
  shows "store_ok Q R (st_removeDeviceData Q nowMs g p d s)" "store_ok Q R (st_removeMasterData Q nowMs g p s)"
  unfolding st_removeDeviceData_def st_removeMasterData_def using store_okD(1-3) [OF assms(1)] assms(2)
  by (simp_all add: store_change_ok removed_ok covers_removed)

lemma store_ok_forget:
  assumes "store_ok Q R s" "may_forget Q R g p d"
  shows "store_ok Q R (st_forgetRemovedDevice Q nowMs g p d s)"
  unfolding st_forgetRemovedDevice_def using store_okD(1-3) [OF assms(1)] assms(2)
  by (simp add: store_change_ok forget_ok covers_forget)

lemma store_ok_clear: "store_ok Q R s \<Longrightarrow> store_ok Q R (st_clearRuntimeData Q nowMs s)"
  unfolding st_clearRuntimeData_def
proof (rule store_ok_change)
  assume ok: "store_ok Q R s"
  show "data_ok Q R (dt_clearRuntimeData (st_data s))" "valueless_kept (st_data s) (dt_clearRuntimeData (st_data s))"
    by (rule clear_ok [OF store_okD(1) [OF ok]])+
qed (simp_all add: dt_clearRuntimeData_def)

text \<open>A change of the data that the mirror does not see.\<close>

lemma store_ok_data:
  assumes "store_ok Q R s" "same_places (st_data s) data"
  shows "store_ok Q R (s\<lparr>st_data := data\<rparr>)"
proof -
  have places: "rel_option same_place (um_find (dm_devices (dt_device data)) k) (um_find (dm_devices (dt_device (st_data s))) k)" for k
    using assms(2) by (simp add: same_places_def)
  have "mirror_ok (s\<lparr>st_data := data\<rparr>)"
    unfolding mirror_ok_def
  proof (intro conjI allI impI)
    fix k
    show "um_find (st_devices (s\<lparr>st_data := data\<rparr>)) k = None \<longleftrightarrow> um_find (dm_devices (dt_device (st_data (s\<lparr>st_data := data\<rparr>)))) k = None"
      using places [of k] store_okD(3) [OF assms(1)] unfolding mirror_ok_def
      by (cases "um_find (dm_devices (dt_device data)) k"; cases "um_find (dm_devices (dt_device (st_data s))) k") simp_all
    fix d n
    assume d: "um_find (st_devices (s\<lparr>st_data := data\<rparr>)) k = Some d"
      and n: "um_find (dm_devices (dt_device (st_data (s\<lparr>st_data := data\<rparr>)))) k = Some n"
    from d have "um_find (st_devices s) k = Some d" by simp
    then obtain m where m: "um_find (dm_devices (dt_device (st_data s))) k = Some m" "same_place (ds_node d) m"
        "node_named (rt_node (ds_realtime d)) \<longrightarrow> node_ids (rt_node (ds_realtime d)) = node_ids m"
      by (rule mirror_known [OF store_okD(3) [OF assms(1)]])
    have place: "same_place n m" using places [of k] n m(1) by simp
    then have "same_place m n" by (simp add: same_place_def)
    then show "same_place (ds_node d) n" by (rule same_place_trans [OF m(2)])
    show "node_ids (rt_node (ds_realtime d)) = node_ids n" if "node_named (rt_node (ds_realtime d))"
      using that m(3) same_place_facts(2) [OF place] by simp
  qed
  moreover have "dt_marks data = dt_marks (st_data s)" using assms(2) by (simp add: same_places_def)
  ultimately show ?thesis
    using same_places_ok(1) [OF assms(2)] store_okD [OF assms(1)] covers_cong [of data "st_data s" Q R] by (simp add: store_ok_def)
qed

lemma store_ok_pending: "store_ok Q R (s\<lparr>st_stateChangePending := b\<rparr>) = store_ok Q R s" "store_ok Q R (s\<lparr>st_notified := n\<rparr>) = store_ok Q R s"
  by (simp_all add: store_ok_def mirror_ok_def)

lemma store_ok_notified: "store_ok Q R s \<Longrightarrow> store_ok Q R (notify_state_changed s)"
  by (simp add: notify_state_changed_def store_ok_def mirror_ok_def)

lemma store_ok_alarm: "store_ok Q R s \<Longrightarrow> store_ok Q R (store_alarm f s)"
  using store_ok_data [of Q R s "(st_data s)\<lparr>dt_alarm := f (dt_alarm (st_data s))\<rparr>"]
  by (simp add: store_alarm_def Let_def do_data_def scheduleStateChanged_def store_ok_pending same_places_def)

lemma store_ok_refresh: "store_ok Q R s \<Longrightarrow> store_ok Q R (refreshOfflineStates Q nowMs timeoutMs s)"
proof -
  assume ok: "store_ok Q R s"
  let ?s = "s\<lparr>st_data := snd (dt_refreshOfflineStates Q nowMs timeoutMs (st_data s))\<rparr>"
  have "store_ok Q R ?s" using ok refresh_places by (rule store_ok_data)
  moreover from this have "store_ok Q R (store_change Q nowMs ''offline_refresh'' id ?s)"
    by (intro store_ok_change) (simp_all add: store_ok_def valueless_kept_refl)
  ultimately show ?thesis by (simp add: refreshOfflineStates_def case_prod_beta Let_def)
qed

text \<open>The latest points change a device only together with its values.\<close>

definition with_values_only :: "DataManager \<Rightarrow> DataManager \<Rightarrow> bool" where
  "with_values_only s s' \<longleftrightarrow> (\<forall>k. um_find (dt_realtime s') k = None \<longrightarrow> um_find (dt_realtime s) k = None
     \<and> um_find (dm_devices (dt_device s')) k = um_find (dm_devices (dt_device s)) k)"

lemma upsert_with_values:
  assumes "node_named (rt_node d)"
  shows "with_values_only s (snd (upsertRealtimeData Q nowMs d s))"
  unfolding with_values_only_def upsert_devices [OF assms] upsert_values by (auto simp: lookup_simps split: if_splits)

lemma upserts_with_values:
  assumes "\<And>d. d \<in> set ds \<Longrightarrow> node_named (rt_node d)"
  shows "with_values_only s (snd (latest_upserts Q nowMs ds s))"
  using assms
proof (induction ds rule: rev_induct)
  case Nil
  show ?case by (simp add: latest_upserts_def with_values_only_def)
next
  case (snoc d ds)
  let ?s = "snd (latest_upserts Q nowMs ds s)"
  have "with_values_only ?s (snd (latest_upserts Q nowMs [d] ?s))"
    using upsert_with_values [of d ?s Q nowMs] snoc.prems
    by (simp add: latest_upserts_def case_prod_beta with_values_only_def)
  with snoc show ?case unfolding latest_upserts_snoc with_values_only_def by simp
qed

lemma latest_valueless: "valueless_kept s (onLatestPointsMessage Q nowMs obj s)"
proof -
  have "with_values_only (s\<lparr>dt_serviceOnline := True\<rparr>)
      (snd (latest_upserts Q nowMs (parseLatestPoints Q nowMs obj) (s\<lparr>dt_serviceOnline := True\<rparr>)))"
    by (rule upserts_with_values) (blast dest: proper_latest node_properD)
  then show ?thesis unfolding with_values_only_def valueless_kept_def latest_message by auto
qed

lemma store_ok_message: "store_ok Q R s \<Longrightarrow> store_ok Q R (snd (applyIpcMessage Q nowMs msg s))"
proof -
  assume ok: "store_ok Q R s"
  note d = store_okD [OF ok]
  have devices: "store_ok Q R (store_change Q nowMs source (do_devices f) s)"
    if "\<And>m. dm_devices (f m) = dm_devices m" for f source
    using d(1) that by (intro store_ok_change [OF ok]) (simp_all add: data_ok_defs values_known_def valueless_kept_def)
  have latest: "store_ok Q R (store_change Q nowMs source (onLatestPointsMessage Q nowMs msg) s)" for source
    using latest_ok [OF d(1,4)] latest_valueless by (intro store_ok_change [OF ok]) simp_all
  have snapshot: "store_ok Q R (store_change Q nowMs source (onDevicesSnapshotMessage Q nowMs msg) s)" for source
    using snapshot_ok [OF d(1,4)] snapshot_valueless [OF d(1,4)] snapshot_maps(3)
    by (intro store_ok_change [OF ok]) simp_all
  have same: "store_ok Q R (store_change Q nowMs source id s)" for source
    using d(1) by (intro store_ok_change [OF ok]) (simp_all add: valueless_kept_refl)
  show ?thesis
    unfolding applyIpcMessage_def Let_def
    by (simp add: latest snapshot same devices dm_devices_set ok)
qed

lemma store_ok_new: "(\<And>g p d. R (g, p, d)) \<Longrightarrow> store_ok Q R UiStateStore_new"
proof -
  have "dm_devices (dt_device DataManager_new) = um_empty" by (simp add: DataManager_new_def DeviceManager_new_def)
  then show "(\<And>g p d. R (g, p, d)) \<Longrightarrow> store_ok Q R UiStateStore_new"
    by (simp add: store_ok_def UiStateStore_new_def data_ok_new covers_def mirror_ok_def)
qed

end
