(* ===== verification/UiWindow.thy ===== *)
theory UiWindow
  imports UiStoreLemmas
begin

text \<open>
  The main window as a client of the state store.  The window changes its state only through the
  operations of the store, so whatever all of these keep, every event keeps; the one operation
  that takes back a deletion is reached only by a message that acknowledges an added device.
\<close>

subsection \<open>Messages that take back a deletion\<close>

definition message_adds :: "'v qt \<Rightarrow> 'v \<Rightarrow> bool" where
  "message_adds Q msg \<longleftrightarrow>
     (if qtext Q msg ''type'' = ''command_log_update''
      then qtext Q msg ''commandType'' = ''add_device'' \<and> qtext Q msg ''stage'' = ''done'' \<and> qtext Q msg ''status'' = ''success''
      else (qtext Q msg ''type'' = ''ack'' \<or> qtext Q msg ''type'' = ''command_ack'')
        \<and> ackCommandName Q msg = ''add_device'' \<and> qtext Q msg ''stage'' = ''done'' \<and> ackSucceeded Q msg)"

text \<open>What a message says about devices: the one it reports as added, if \<open>F\<close> allows to take its deletion back.\<close>

definition message_allowed :: "'v qt \<Rightarrow> (string \<Rightarrow> string \<Rightarrow> int \<Rightarrow> bool) \<Rightarrow> 'v \<Rightarrow> bool" where
  "message_allowed Q F msg \<longleftrightarrow>
     (message_adds Q msg \<longrightarrow> F (qtext Q msg ''gatewayId'') (qtext Q msg ''portId'') (ack_device Q msg))"

definition frame_allowed :: "'v qt \<Rightarrow> (string \<Rightarrow> string \<Rightarrow> int \<Rightarrow> bool) \<Rightarrow> string \<Rightarrow> bool" where
  "frame_allowed Q F frame = (case qt_parse Q frame of None \<Rightarrow> True | Some msg \<Rightarrow> message_allowed Q F msg)"

text \<open>The frames an event delivers, and those of a run.\<close>

definition event_frames :: "ui_event \<Rightarrow> 'v MainWindow \<Rightarrow> string list" where
  "event_frames e w =
     (case e of
        SocketData data \<Rightarrow>
          if data = [] \<or> length (ui_buffer w @ data) > max_recv_buffer then []
          else fst (split_frames [] (ui_buffer w @ data))
      | _ \<Rightarrow> [])"

fun run_frames :: "'v qt \<Rightarrow> (int \<times> ui_event) list \<Rightarrow> 'v MainWindow \<Rightarrow> string list" where
  "run_frames Q [] w = []"
| "run_frames Q ((nowMs, e) # es) w = event_frames e w @ run_frames Q es (ui_step Q nowMs e w)"

subsection \<open>What leaves the store alone\<close>

lemma store_show [simp]: "ui_store (ui_show outs w) = ui_store w"
  by (simp add: ui_show_def)

lemma store_pending [simp]: "ui_store (ui_set_pending_delete action g p d w) = ui_store w" "ui_store (clear_pending_delete w) = ui_store w"
  by (simp_all add: ui_set_pending_delete_def clear_pending_delete_def)

lemma store_do [simp]: "ui_store (do_store f w) = f (ui_store w)"
  by (simp add: do_store_def)

lemma store_if: "ui_store (if b then w else w') = (if b then ui_store w else ui_store w')"
  by simp

subsection \<open>The contract of the store\<close>

text \<open>What the window needs of a property of the store: every operation keeps it, at the times \<open>T\<close>,
  and a deletion is taken back only where \<open>F\<close> allows it.\<close>

locale kept_by_store =
  fixes Q :: "'v qt" and P :: "UiStateStore \<Rightarrow> bool" and F :: "string \<Rightarrow> string \<Rightarrow> int \<Rightarrow> bool" and T :: "int \<Rightarrow> bool"
  assumes lost: "P s \<Longrightarrow> P (markAllDevicesOffline Q nowMs reason s)"
    and removed: "P s \<Longrightarrow> T nowMs \<Longrightarrow> P (st_removeDeviceData Q nowMs g p d s)"
    and removed_master: "P s \<Longrightarrow> T nowMs \<Longrightarrow> P (st_removeMasterData Q nowMs g p s)"
    and forgotten: "P s \<Longrightarrow> F g p d \<Longrightarrow> P (st_forgetRemovedDevice Q nowMs g p d s)"
    and cleared: "P s \<Longrightarrow> P (st_clearRuntimeData Q nowMs s)"
    and alarmed: "P s \<Longrightarrow> P (store_alarm f s)"
    and notified: "P s \<Longrightarrow> P (notify_state_changed s)"
    and refreshed: "P s \<Longrightarrow> P (refreshOfflineStates Q nowMs timeoutMs s)"
    and applied: "P s \<Longrightarrow> P (snd (applyIpcMessage Q nowMs msg s))"
begin

lemma offline: "P (ui_store w) \<Longrightarrow> P (ui_store (markIpcDataOffline Q nowMs w))"
  by (simp add: markIpcDataOffline_def lost)

lemma failed: "P (ui_store w) \<Longrightarrow> P (ui_store (ui_socket_error Q nowMs w))"
  by (simp add: ui_socket_error_def offline)

lemma sent: "P (ui_store w) \<Longrightarrow> P (ui_store (client_send Q nowMs msg w))"
  by (simp add: client_send_def Let_def failed)

lemma object_sent: "P (ui_store w) \<Longrightarrow> P (ui_store (send_object Q nowMs members w))"
  by (simp add: send_object_def sent)

lemma requested: "P (ui_store w) \<Longrightarrow> P (ui_store (ui_request Q nowMs kind w))"
  by (simp add: ui_request_def sent)

lemma all_requested: "P (ui_store w) \<Longrightarrow> P (ui_store (foldl (\<lambda>w kind. ui_request Q nowMs kind w) w kinds))"
  by (induction kinds rule: rev_induct) (simp_all add: requested)

lemma snapshot_requested: "P (ui_store w) \<Longrightarrow> P (ui_store (requestFullSnapshot Q nowMs w))"
  unfolding requestFullSnapshot_def by (rule all_requested)

lemma signalled: "P (ui_store w) \<Longrightarrow> P (ui_store (command_slot Q nowMs w sig))"
  by (cases sig) (simp_all add: command_slot_def offline sent)

lemma commanded: "P (ui_store w) \<Longrightarrow> P (ui_store (do_command Q nowMs f w))"
proof -
  have "P (ui_store v) \<Longrightarrow> P (ui_store (foldl (command_slot Q nowMs) v sigs))" for v sigs
    by (induction sigs rule: rev_induct) (simp_all add: signalled)
  then show "P (ui_store w) \<Longrightarrow> P (ui_store (do_command Q nowMs f w))" by (simp add: do_command_def Let_def)
qed

lemma remove_succeeded: "P (ui_store w) \<Longrightarrow> T nowMs \<Longrightarrow> P (ui_store (onRemoveDeviceSucceeded Q nowMs g p d w))"
  by (simp add: onRemoveDeviceSucceeded_def Let_def snapshot_requested alarmed removed)

lemma add_succeeded: "P (ui_store w) \<Longrightarrow> F g p d \<Longrightarrow> P (ui_store (onAddDeviceSucceeded Q nowMs g p d w))"
  by (simp add: onAddDeviceSucceeded_def forgotten)

lemma delete_acked: "P (ui_store w) \<Longrightarrow> T nowMs \<Longrightarrow> P (ui_store (handle_delete_ack Q nowMs msg w))"
  by (simp add: handle_delete_ack_def Let_def snapshot_requested removed_master remove_succeeded cleared)

lemma command_acked:
  assumes "P (ui_store w)" "T nowMs" "message_allowed Q F msg" "qtext Q msg ''type'' = ''ack'' \<or> qtext Q msg ''type'' = ''command_ack''"
  shows "P (ui_store (handle_command_ack Q nowMs msg w))"
proof -
  let ?w = "do_command Q nowMs (onCommandAck Q msg) w"
  have w: "P (ui_store ?w)" using assms(1) by (rule commanded)
  have "F (qtext Q msg ''gatewayId'') (qtext Q msg ''portId'') (ack_device Q msg)"
    if "ackCommandName Q msg = ''add_device''" "qtext Q msg ''stage'' = ''done''" "ackSucceeded Q msg"
    using assms(3,4) that by (auto simp: message_allowed_def message_adds_def)
  with w assms(2) show ?thesis
    by (simp add: handle_command_ack_def Let_def case_prod_beta snapshot_requested requested remove_succeeded add_succeeded)
qed

lemma command_logged:
  assumes "P (ui_store w)" "T nowMs" "message_allowed Q F msg" "qtext Q msg ''type'' = ''command_log_update''"
  shows "P (ui_store (handle_command_log Q nowMs msg w))"
proof -
  let ?w = "do_command Q nowMs (onCommandLogUpdate Q msg) w"
  have w: "P (ui_store ?w)" using assms(1) by (rule commanded)
  have "F (qtext Q msg ''gatewayId'') (qtext Q msg ''portId'') (ack_device Q msg)"
    if "qtext Q msg ''commandType'' = ''add_device''" "qtext Q msg ''stage'' = ''done''" "qtext Q msg ''status'' = ''success''"
    using assms(3,4) that by (auto simp: message_allowed_def message_adds_def)
  with w assms(2) show ?thesis
    by (simp add: handle_command_log_def Let_def case_prod_beta snapshot_requested requested remove_succeeded add_succeeded)
qed

lemma dispatched:
  assumes "P (ui_store w)" "T nowMs" "message_allowed Q F msg"
  shows "P (ui_store (dispatch_message Q nowMs msg w))"
  using assms
  by (simp add: dispatch_message_def Let_def alarmed applied delete_acked snapshot_requested command_acked command_logged
      del: list.set)

lemma handled:
  assumes "P (ui_store w)" "T nowMs" "frame_allowed Q F frame"
  shows "P (ui_store (handleIpcMessage Q nowMs w frame))"
  using assms by (cases "qt_parse Q frame") (simp_all add: handleIpcMessage_def frame_allowed_def dispatched)

lemma all_handled:
  assumes "P (ui_store w)" "T nowMs" "\<forall>f \<in> set frames. frame_allowed Q F f"
  shows "P (ui_store (foldl (handleIpcMessage Q nowMs) w frames))"
  using assms(1,3) by (induction frames arbitrary: w) (simp_all add: handled assms(2))

lemma received:
  assumes "P (ui_store w)" "T nowMs" "\<forall>f \<in> set (event_frames (SocketData data) w). frame_allowed Q F f" "data \<noteq> []"
  shows "P (ui_store (processReceivedData Q nowMs data w))"
  using assms
  by (auto simp: processReceivedData_def event_frames_def Let_def case_prod_beta failed intro!: all_handled)

lemma master_deleted: "P (ui_store w) \<Longrightarrow> P (ui_store (sendDeleteMasterData Q nowMs g p w))"
proof -
  have "P (ui_store v) \<Longrightarrow> P (ui_store (foldl (\<lambda>w d. do_command Q nowMs (sendRemoveDeviceCommand Q nowMs g p d) w) v ids))" for v ids
    by (induction ids rule: rev_induct) (simp_all add: commanded)
  then show "P (ui_store w) \<Longrightarrow> P (ui_store (sendDeleteMasterData Q nowMs g p w))"
    by (simp add: sendDeleteMasterData_def Let_def object_sent)
qed

lemma acted:
  assumes "P (ui_store w)"
  shows "P (ui_store (sendHistoryQuery Q nowMs pointId startMs endMs limit w))" "P (ui_store (sendDeleteDeviceData Q nowMs g p d w))"
    "P (ui_store (sendAddSlaveCommand Q nowMs g p d deviceType pollIntervalMs options w))"
    "P (ui_store (sendSyncConfigRequest Q nowMs targets w))" "P (ui_store (sendAcknowledgeAlarm Q nowMs alarmId w))"
    "P (ui_store (sendClearAcknowledgedAlarms Q nowMs w))" "P (ui_store (sendClearRecoveredAlarms Q nowMs w))"
    "P (ui_store (sendClearAllData Q nowMs w))" "P (ui_store (saveMqttConfig Q nowMs host port w))"
  using assms
  by (simp_all add: sendHistoryQuery_def sendDeleteDeviceData_def sendAddSlaveCommand_def sendSyncConfigRequest_def
      sendAcknowledgeAlarm_def sendClearAcknowledgedAlarms_def sendClearRecoveredAlarms_def sendClearAllData_def
      saveMqttConfig_def refuse_target_def object_sent commanded)

lemma watched: "P (ui_store w) \<Longrightarrow> P (ui_store (ui_watchdog Q nowMs w))"
  by (simp add: ui_watchdog_def Let_def offline refreshed)

lemma told: "P (ui_store w) \<Longrightarrow> P (ui_store (ui_state_changed w))"
  by (simp add: ui_state_changed_def Let_def notified)

lemma reconnected: "ui_store (ui_reconnect connecting w) = ui_store w"
  by (simp add: ui_reconnect_def)

lemma stepped:
  assumes "P (ui_store w)" "T nowMs" "\<forall>f \<in> set (event_frames e w). frame_allowed Q F f"
  shows "P (ui_store (ui_step Q nowMs e w))"
  using assms
  by (cases e) (simp_all add: ui_step_def ui_on_connected_def ui_on_disconnected_def ui_pull_def requested offline failed received
      all_requested watched told commanded acted master_deleted reconnected)

lemma ran:
  assumes "P (ui_store w)" "\<forall>(t, e) \<in> set es. T t" "\<forall>f \<in> set (run_frames Q es w). frame_allowed Q F f"
  shows "P (ui_store (ui_run Q es w))"
  using assms
proof (induction es arbitrary: w)
  case (Cons te es)
  obtain t e where te: "te = (t, e)" by (cases te)
  have "P (ui_store (ui_step Q t e w))" using Cons.prems te by (intro stepped) auto
  from Cons.IH [OF this] Cons.prems show ?case by (simp add: te ui_run_def)
qed (simp add: ui_run_def)

end

text \<open>The invariant of the store is such a property.\<close>

interpretation store_kept: kept_by_store Q "store_ok Q R" "may_forget Q R" "\<lambda>t. 0 < t" for Q :: "'v qt" and R
  by unfold_locales (simp_all add: store_ok_lost store_ok_removed store_ok_forget store_ok_clear store_ok_alarm
      store_ok_notified store_ok_refresh store_ok_message)

end
