(* ===== verification/UiDeeds.thy ===== *)
theory UiDeeds
  imports UiWindow
begin

text \<open>
  What the pages of the user interface can show: the newest values of each device, nothing of a
  deleted device, and nothing online once the connection is lost.
\<close>

subsection \<open>Latest points\<close>

lemma find_snoc: "List.find P (xs @ [x]) = (case List.find P xs of None \<Rightarrow> if P x then Some x else None | Some y \<Rightarrow> Some y)"
  by (induction xs) simp_all

lemma latest_upserts_found:
  assumes "distinct (map (\<lambda>d. node_key Q (rt_node d)) ds)" "\<And>d. d \<in> set ds \<Longrightarrow> node_named (rt_node d)"
  shows "um_find (dt_realtime (snd (latest_upserts Q nowMs ds s))) k =
      (case List.find (\<lambda>d. node_key Q (rt_node d) = k) ds of None \<Rightarrow> um_find (dt_realtime s) k
       | Some d \<Rightarrow> if node_deleted Q nowMs s (rt_node d) \<or> stale_update (um_value (dt_realtime s) k RealtimeDeviceData_default) d
           then um_find (dt_realtime s) k else Some d)
    \<and> um_find (dm_devices (dt_device (snd (latest_upserts Q nowMs ds s)))) k =
      (case List.find (\<lambda>d. node_key Q (rt_node d) = k) ds of None \<Rightarrow> um_find (dm_devices (dt_device s)) k
       | Some d \<Rightarrow> if node_deleted Q nowMs s (rt_node d) \<or> stale_update (um_value (dt_realtime s) k RealtimeDeviceData_default) d
           then um_find (dm_devices (dt_device s)) k else Some (rt_node d))
    \<and> dt_marks (snd (latest_upserts Q nowMs ds s)) = dt_marks s"
  using assms
proof (induction ds rule: rev_induct)
  case Nil
  show ?case by (simp add: latest_upserts_def)
next
  case (snoc d ds)
  let ?s = "snd (latest_upserts Q nowMs ds s)" and ?key = "node_key Q (rt_node d)"
  have IH: "um_find (dt_realtime ?s) k =
      (case List.find (\<lambda>d. node_key Q (rt_node d) = k) ds of None \<Rightarrow> um_find (dt_realtime s) k
       | Some d \<Rightarrow> if node_deleted Q nowMs s (rt_node d) \<or> stale_update (um_value (dt_realtime s) k RealtimeDeviceData_default) d
           then um_find (dt_realtime s) k else Some d)"
    "um_find (dm_devices (dt_device ?s)) k =
      (case List.find (\<lambda>d. node_key Q (rt_node d) = k) ds of None \<Rightarrow> um_find (dm_devices (dt_device s)) k
       | Some d \<Rightarrow> if node_deleted Q nowMs s (rt_node d) \<or> stale_update (um_value (dt_realtime s) k RealtimeDeviceData_default) d
           then um_find (dm_devices (dt_device s)) k else Some (rt_node d))"
    "dt_marks ?s = dt_marks s"
    using snoc by simp_all
  have named: "node_named (rt_node d)" using snoc.prems(2) by simp
  have deleted: "node_deleted Q nowMs ?s n = node_deleted Q nowMs s n" for n by (rule node_deleted_cong [OF IH(3)])
  have one: "snd (latest_upserts Q nowMs [d] ?s) = snd (upsertRealtimeData Q nowMs d ?s)"
    by (simp add: latest_upserts_def upsertRealtimeData_def case_prod_beta Let_def)
  show ?case
  proof (cases "?key = k")
    case True
    then have none: "List.find (\<lambda>d. node_key Q (rt_node d) = k) ds = None"
      using snoc.prems(1) unfolding find_None_iff by (auto simp: rev_image_eqI)
    have "um_value (dt_realtime ?s) k RealtimeDeviceData_default = um_value (dt_realtime s) k RealtimeDeviceData_default"
      using IH(1) by (simp add: none um_value_def)
    then show ?thesis
      unfolding latest_upserts_snoc one upsert_devices [OF named] upsert_values upsert_marks
      using IH True none by (simp add: deleted find_snoc lookup_simps)
  next
    case False
    then show ?thesis
      unfolding latest_upserts_snoc one upsert_devices [OF named] upsert_values upsert_marks
      using IH by (simp add: deleted find_snoc lookup_simps split: option.split)
  qed
qed

lemma latest_found:
  "um_find (dt_realtime (onLatestPointsMessage Q nowMs obj s)) k =
      (case List.find (\<lambda>d. node_key Q (rt_node d) = k) (parseLatestPoints Q nowMs obj) of None \<Rightarrow> um_find (dt_realtime s) k
       | Some d \<Rightarrow> if node_deleted Q nowMs s (rt_node d) \<or> stale_update (um_value (dt_realtime s) k RealtimeDeviceData_default) d
           then um_find (dt_realtime s) k else Some d)"
  "um_find (dm_devices (dt_device (onLatestPointsMessage Q nowMs obj s))) k =
      (case List.find (\<lambda>d. node_key Q (rt_node d) = k) (parseLatestPoints Q nowMs obj) of None \<Rightarrow> um_find (dm_devices (dt_device s)) k
       | Some d \<Rightarrow> if node_deleted Q nowMs s (rt_node d) \<or> stale_update (um_value (dt_realtime s) k RealtimeDeviceData_default) d
           then um_find (dm_devices (dt_device s)) k else Some (rt_node d))"
proof -
  have keys: "distinct (map (\<lambda>d. node_key Q (rt_node d)) (parseLatestPoints Q nowMs obj))"
    unfolding parseLatestPoints_def by (rule distinct_key_values) (rule keyed_keep_latest)
  have "node_named (rt_node d)" if "d \<in> set (parseLatestPoints Q nowMs obj)" for d
    using proper_latest [OF that] by (rule node_properD)
  note found = latest_upserts_found [OF keys this, of nowMs "s\<lparr>dt_serviceOnline := True\<rparr>" k]
  have "node_deleted Q nowMs (s\<lparr>dt_serviceOnline := True\<rparr>) n = node_deleted Q nowMs s n" for n
    by (rule node_deleted_cong) simp
  then show "um_find (dt_realtime (onLatestPointsMessage Q nowMs obj s)) k =
      (case List.find (\<lambda>d. node_key Q (rt_node d) = k) (parseLatestPoints Q nowMs obj) of None \<Rightarrow> um_find (dt_realtime s) k
       | Some d \<Rightarrow> if node_deleted Q nowMs s (rt_node d) \<or> stale_update (um_value (dt_realtime s) k RealtimeDeviceData_default) d
           then um_find (dt_realtime s) k else Some d)"
    and "um_find (dm_devices (dt_device (onLatestPointsMessage Q nowMs obj s))) k =
      (case List.find (\<lambda>d. node_key Q (rt_node d) = k) (parseLatestPoints Q nowMs obj) of None \<Rightarrow> um_find (dm_devices (dt_device s)) k
       | Some d \<Rightarrow> if node_deleted Q nowMs s (rt_node d) \<or> stale_update (um_value (dt_realtime s) k RealtimeDeviceData_default) d
           then um_find (dm_devices (dt_device s)) k else Some (rt_node d))"
    using found unfolding latest_message by (simp_all split: option.split)
qed

subsection \<open>Deleted devices\<close>

lemma data_hidden:
  assumes ok: "data_ok Q R s" and now: "0 < nowMs"
  shows "data_ok Q (\<lambda>x. x \<noteq> (g, p, d)) (dt_removeDeviceData Q nowMs g p d s)"
proof -
  let ?s = "dt_removeDeviceData Q nowMs g p d s"
  note kept = removed_ok(1) [OF ok now, of g p d]
  have free: "node_ids n \<noteq> (g, p, d)" if n: "um_find (dm_devices (dt_device ?s)) k = Some n" for k n
    using n data_ok_device [OF kept n]
    by (auto simp: find_removed_device good_node_def node_at_ids split: option.splits if_splits)
  show ?thesis
    unfolding data_ok_iff
  proof (intro conjI allI impI)
    fix k
    show "good_node Q (\<lambda>x. x \<noteq> (g, p, d)) k n" if "um_find (dm_devices (dt_device ?s)) k = Some n" for n
      using data_ok_device [OF kept that] free [OF that] by (simp add: good_node_def)
    show "v < 0" if "um_find (dt_marks ?s) k = Some v" for v by (rule data_ok_mark [OF kept that])
    show "\<exists>n. um_find (dm_devices (dt_device ?s)) k = Some n \<and> node_ids n = node_ids (rt_node r)"
      if "um_find (dt_realtime ?s) k = Some r" for r
      by (rule data_ok_known [OF kept that]) blast
    show "good_node Q (\<lambda>x. x \<noteq> (g, p, d)) k (rt_node r)" if r: "um_find (dt_realtime ?s) k = Some r" for r
    proof (rule data_ok_known [OF kept r])
      fix n
      assume n: "um_find (dm_devices (dt_device ?s)) k = Some n" "node_ids n = node_ids (rt_node r)"
      show ?thesis using data_ok_value [OF kept r] free [OF n(1)] n(2) by (simp add: good_node_def)
    qed
  qed
qed

lemma store_hidden:
  assumes ok: "store_ok Q R s" and now: "0 < nowMs" and device: "g \<noteq> []" "p \<noteq> []" "0 < d"
  shows "store_ok Q (\<lambda>x. x \<noteq> (g, p, d)) (st_removeDeviceData Q nowMs g p d s)"
  unfolding st_removeDeviceData_def
proof (rule store_change_ok)
  show "covers Q (\<lambda>x. x \<noteq> (g, p, d)) (dt_removeDeviceData Q nowMs g p d (st_data s))"
    using device by (auto simp: covers_def find_removed_device rememberDeletedDevice_def lookup_simps)
qed (use store_okD [OF ok] now in \<open>simp_all add: data_hidden removed_ok\<close>)

lemma store_shows:
  assumes ok: "store_ok Q R s"
  shows "n \<in> set (st_deviceTreeSnapshot s) \<Longrightarrow> R (node_ids n)"
    and "r \<in> set (realtimeDataSnapshot s) \<Longrightarrow> R (node_ids (rt_node r))"
    and "n \<in> set (allDevices (dt_device (st_data s))) \<Longrightarrow> R (node_ids n)"
    and "r \<in> set (allRealtimeData (st_data s)) \<Longrightarrow> R (node_ids (rt_node r))"
proof -
  have entry: "R (node_ids (ds_node d)) \<and> (node_named (rt_node (ds_realtime d)) \<longrightarrow> R (node_ids (rt_node (ds_realtime d))))"
    if d: "d \<in> set (um_values (st_devices s))" for d
  proof -
    obtain k where "um_find (st_devices s) k = Some d" using d unfolding um_values_set by blast
    then obtain n where n: "um_find (dm_devices (dt_device (st_data s))) k = Some n" "same_place (ds_node d) n"
        "node_named (rt_node (ds_realtime d)) \<longrightarrow> node_ids (rt_node (ds_realtime d)) = node_ids n"
      by (rule mirror_known [OF store_okD(3) [OF ok]])
    have "R (node_ids n)" using data_ok_device [OF store_okD(1) [OF ok] n(1)] by (simp add: good_node_def)
    then show ?thesis using n(3) same_place_facts(2) [OF n(2)] by simp
  qed
  show "n \<in> set (st_deviceTreeSnapshot s) \<Longrightarrow> R (node_ids n)" using entry by (auto simp: st_deviceTreeSnapshot_def)
  show "r \<in> set (realtimeDataSnapshot s) \<Longrightarrow> R (node_ids (rt_node r))" using entry by (auto simp: realtimeDataSnapshot_def)
  have "nodes_ok Q R (dt_device (st_data s))" "values_ok Q R (dt_realtime (st_data s))"
    using store_okD(1) [OF ok] by (simp_all add: data_ok_def)
  then show "n \<in> set (allDevices (dt_device (st_data s))) \<Longrightarrow> R (node_ids n)"
    and "r \<in> set (allRealtimeData (st_data s)) \<Longrightarrow> R (node_ids (rt_node r))"
    by (blast dest: devices_named, simp add: allRealtimeData_def, blast dest: values_named)
qed

text \<open>The message that ends a deletion.\<close>

definition message_removes :: "'v qt \<Rightarrow> string \<Rightarrow> string \<Rightarrow> int \<Rightarrow> 'v \<Rightarrow> bool" where
  "message_removes Q g p d msg \<longleftrightarrow>
     (qtext Q msg ''type'' = ''ack'' \<or> qtext Q msg ''type'' = ''command_ack'')
   \<and> ackCommandName Q msg = ''remove_device'' \<and> qtext Q msg ''stage'' = ''done'' \<and> ackSucceeded Q msg
   \<and> (qtext Q msg ''gatewayId'', qtext Q msg ''portId'', ack_device Q msg) = (g, p, d) \<and> g \<noteq> [] \<and> p \<noteq> [] \<and> 0 < d"

lemma ui_run_ok:
  assumes "\<forall>(t, e) \<in> set es. 0 < t"
  shows "store_ok Q (\<lambda>_. True) (ui_store (ui_run Q es MainWindow_new))"
  by (rule store_kept.ran)
    (use assms in \<open>simp_all add: MainWindow_new_def store_ok_new frame_allowed_def message_allowed_def may_forget_def split: option.split\<close>)

lemma ack_hidden:
  assumes ok: "store_ok Q (\<lambda>_. True) (ui_store w)" and now: "0 < nowMs" and removes: "message_removes Q g p d msg"
  shows "store_ok Q (\<lambda>x. x \<noteq> (g, p, d)) (ui_store (dispatch_message Q nowMs msg w))"
proof -
  let ?w = "do_command Q nowMs (onCommandAck Q msg) w"
  have "store_ok Q (\<lambda>_. True) (ui_store ?w)" using ok by (rule store_kept.commanded)
  then have "store_ok Q (\<lambda>x. x \<noteq> (g, p, d)) (st_removeDeviceData Q nowMs g p d (ui_store ?w))"
    by (rule store_hidden) (use now removes in \<open>simp_all add: message_removes_def\<close>)
  then have "store_ok Q (\<lambda>x. x \<noteq> (g, p, d)) (ui_store (onRemoveDeviceSucceeded Q nowMs g p d ?w))"
    using removes
    by (auto simp: onRemoveDeviceSucceeded_def Let_def message_removes_def intro!: store_kept.snapshot_requested store_kept.alarmed)
  moreover have "dispatch_message Q nowMs msg w = onRemoveDeviceSucceeded Q nowMs g p d ?w"
  proof -
    have kind: "qtext Q msg ''type'' = ''ack'' \<or> qtext Q msg ''type'' = ''command_ack''" using removes by (simp add: message_removes_def)
    have "handle_command_ack Q nowMs msg w = onRemoveDeviceSucceeded Q nowMs g p d ?w"
      using removes by (simp add: message_removes_def handle_command_ack_def removed_target_def Let_def)
    then show ?thesis using kind by (elim disjE) (simp_all add: dispatch_message_def state_messages_def)
  qed
  ultimately show ?thesis by simp
qed

lemma frame_hidden:
  assumes "store_ok Q (\<lambda>_. True) (ui_store w)" "0 < nowMs" "qt_parse Q frame = Some msg" "message_removes Q g p d msg"
  shows "store_ok Q (\<lambda>x. x \<noteq> (g, p, d)) (ui_store (handleIpcMessage Q nowMs w frame))"
  using assms by (simp add: handleIpcMessage_def ack_hidden)

text \<open>The devices whose deletion an added device does not take back.\<close>

lemma may_forget_other:
  "may_forget Q (\<lambda>x. x \<noteq> (g, p, d)) g' p' d' \<longleftrightarrow> deletedDeviceKey Q g p d \<noteq> deletedDeviceKey Q g' p' d'"
  by (auto simp: may_forget_def)


subsection \<open>A lost connection\<close>

lemma lost_mirror:
  assumes ok: "store_ok Q R s" and d: "um_find (st_devices (markAllDevicesOffline Q nowMs reason s)) k = Some d"
  shows "\<not> nd_online (ds_node d)" "nd_status (ds_node d) = reason"
    and "um_find (dt_realtime (st_data (markAllDevicesOffline Q nowMs reason s))) k = Some r \<Longrightarrow>
      ds_realtime d = r \<and> rt_serviceOffline r \<and> \<not> rt_valid r \<and> ds_lifecycleState d = ''service_offline''"
proof -
  let ?data = "dt_markAllDevicesOffline Q reason (st_data s)"
  let ?s = "s\<lparr>st_data := ?data\<rparr>"
  have data: "data_ok Q R (st_data ?s)"
    using same_places_ok(1) [OF lost_places [OF store_okD(1) [OF ok]] store_okD(1) [OF ok]] by simp
  have nodes: "nodes_ok Q R (dt_device (st_data s))" using store_okD(1) [OF ok] by (simp add: data_ok_def)
  obtain n where n: "um_find (dm_devices (dt_device ?data)) k = Some n"
    and here: "d = mirrored reason nowMs (um_value (st_devices s) k DeviceState_default) n (um_find (dt_realtime ?data) k)"
    using d find_rebuild [OF data, of nowMs reason k] by (auto simp: markAllDevicesOffline_def store_change_eq)
  have named: "node_named n" using data_ok_device [OF data] n by (simp add: good_node_def node_properD)
  have off: "\<not> nd_online n \<and> nd_status n = reason"
    using n lost_devices [OF nodes, of reason k]
    by (auto simp: dt_markAllDevicesOffline_def Let_def dt_emit_both_def)
  have lost: "rt_serviceOffline r \<and> \<not> rt_valid r \<and> \<not> nd_online (rt_node r) \<and> nd_status (rt_node r) = reason"
    if r: "um_find (dt_realtime ?data) k = Some r" for r
  proof -
    obtain q where "r = service_lost reason q"
      using r by (auto simp: dt_markAllDevicesOffline_def Let_def dt_emit_both_def lookup_simps)
    then show ?thesis by (simp add: service_lost_def)
  qed
  show "\<not> nd_online (ds_node d)" "nd_status (ds_node d) = reason"
    unfolding here mirrored_fields(1) [OF named] using off lost by (simp_all add: with_live_state_def split: option.split)
  show "ds_realtime d = r \<and> rt_serviceOffline r \<and> \<not> rt_valid r \<and> ds_lifecycleState d = ''service_offline''"
    if r: "um_find (dt_realtime (st_data (markAllDevicesOffline Q nowMs reason s))) k = Some r"
  proof -
    have here_r: "um_find (dt_realtime ?data) k = Some r" using r by (simp add: markAllDevicesOffline_def store_change_eq)
    then have "rt_serviceOffline r" "\<not> rt_valid r" using lost by simp_all
    then show ?thesis unfolding here here_r by (simp add: mirrored_def mirror_value_def Let_def lifecycleFor_def filled_lifecycle_def mirror_touched_def)
  qed
qed

lemma lost_counts:
  assumes ok: "store_ok Q R s"
    and all: "\<And>k. um_find (dm_devices (dt_device (st_data (markAllDevicesOffline Q nowMs reason s)))) k \<noteq> None \<Longrightarrow>
      um_find (dt_realtime (st_data (markAllDevicesOffline Q nowMs reason s))) k \<noteq> None"
  shows "filter state_online (um_values (st_devices (markAllDevicesOffline Q nowMs reason s))) = []"
proof -
  let ?s = "markAllDevicesOffline Q nowMs reason s"
  have "\<not> state_online d" if d: "d \<in> set (um_values (st_devices ?s))" for d
  proof -
    obtain k where k: "um_find (st_devices ?s) k = Some d" using d unfolding um_values_set by blast
    then have "um_find (dm_devices (dt_device (st_data ?s))) k \<noteq> None"
      by (rule mirror_known [OF store_okD(3) [OF store_ok_lost [OF ok]]]) simp
    then obtain r where "um_find (dt_realtime (st_data ?s)) k = Some r" using all by blast
    then show ?thesis using lost_mirror(1,3) [OF ok k] by (simp add: state_online_def)
  qed
  then show ?thesis by (simp add: filter_empty_conv)
qed

text \<open>The events that find the connection lost.\<close>

definition finds_lost :: "int \<Rightarrow> 'v MainWindow \<Rightarrow> ui_event \<Rightarrow> bool" where
  "finds_lost nowMs w e \<longleftrightarrow>
     e = SocketDisconnected \<or> e = SocketFailed
   \<or> e = WatchdogTimer \<and> (\<not> ui_linked w \<or> ui_lastIpcMessageMs w \<le> 0 \<or> nowMs - ui_lastIpcMessageMs w > 45000)"

lemma ui_linked_do [simp]: "ui_linked (do_store f w) = ui_linked w" "ui_lastIpcMessageMs (do_store f w) = ui_lastIpcMessageMs w"
  by (simp_all add: do_store_def)

lemma finds_lost_store:
  assumes "finds_lost nowMs w e" "store_ok Q R (ui_store w)"
  shows "\<exists>s. store_ok Q R s \<and> ui_store (ui_step Q nowMs e w) = markAllDevicesOffline Q nowMs ''service_offline'' s"
proof -
  have "ui_store (ui_step Q nowMs e w) = markAllDevicesOffline Q nowMs ''service_offline'' (ui_store w)"
    if "e = SocketDisconnected \<or> e = SocketFailed"
    using that by (auto simp: ui_step_def ui_on_disconnected_def ui_socket_error_def markIpcDataOffline_def)
  moreover have "ui_store (ui_step Q nowMs e w)
      = markAllDevicesOffline Q nowMs ''service_offline'' (refreshOfflineStates Q nowMs 30000 (ui_store w))"
    if "e = WatchdogTimer" using that assms(1)
    by (auto simp: finds_lost_def ui_step_def ui_watchdog_def markIpcDataOffline_def Let_def)
  ultimately show ?thesis using assms store_ok_refresh unfolding finds_lost_def by blast
qed

end
