(* ===== verification/UiFrames.thy ===== *)
theory UiFrames
  imports UiDeeds Lines
begin

text \<open>
  The frames of a run: whatever the pieces the socket delivers and whatever happens in between,
  the window handles the lines of the stream, in order.
\<close>

subsection \<open>Frames are lines\<close>

definition chop_cr :: "string \<Rightarrow> string" where
  "chop_cr line = (if line \<noteq> [] \<and> last line = CHR 0x0D then butlast line else line)"

definition frame_lines :: "string \<Rightarrow> string list" where
  "frame_lines s = filter (\<lambda>f. f \<noteq> []) (map chop_cr (butlast (pieces s)))"

lemma split_frames_pieces:
  "split_frames acc cs =
     (filter (\<lambda>f. f \<noteq> []) (map chop_cr (butlast ((acc @ hd (pieces cs)) # tl (pieces cs)))),
      last ((acc @ hd (pieces cs)) # tl (pieces cs)))"
proof (induction acc cs rule: split_frames.induct)
  case (2 acc c cs)
  show ?case
  proof (cases "c = CHR 0x0A")
    case True
    then show ?thesis using 2(1) by (cases "pieces cs") (simp_all add: newline_def chop_cr_def)
  next
    case False
    then show ?thesis using 2(2) [OF False] by (cases "pieces cs") (simp_all add: newline_def)
  qed
qed simp

lemma split_frames_lines: "split_frames [] s = (frame_lines s, last (pieces s))"
  by (simp add: split_frames_pieces frame_lines_def)

lemma frame_lines_append: "frame_lines (xs @ ys) = frame_lines xs @ frame_lines (last (pieces xs) @ ys)"
  by (simp add: frame_lines_def pieces_append [of xs ys] butlast_append)

subsection \<open>Nothing but the socket changes the buffer\<close>

lemma buffer_fields [simp]:
  "ui_buffer (ui_show outs w) = ui_buffer w" "ui_buffer (do_store f w) = ui_buffer w"
  "ui_buffer (ui_set_pending_delete action g p d w) = ui_buffer w" "ui_buffer (clear_pending_delete w) = ui_buffer w"
  "ui_buffer (markIpcDataOffline Q nowMs w) = ui_buffer w" "ui_buffer (ui_socket_error Q nowMs w) = ui_buffer w"
  by (simp_all add: ui_show_def do_store_def ui_set_pending_delete_def clear_pending_delete_def markIpcDataOffline_def
      ui_socket_error_def)

lemma buffer_send [simp]: "ui_buffer (client_send Q nowMs msg w) = ui_buffer w" "ui_buffer (send_object Q nowMs members w) = ui_buffer w"
  "ui_buffer (ui_request Q nowMs kind w) = ui_buffer w"
  by (simp_all add: client_send_def Let_def send_object_def ui_request_def)

lemma buffer_foldl: "(\<And>x w. ui_buffer (f w x) = ui_buffer w) \<Longrightarrow> ui_buffer (foldl f w xs) = ui_buffer w"
  by (induction xs arbitrary: w) simp_all

lemma buffer_snapshot [simp]: "ui_buffer (requestFullSnapshot Q nowMs w) = ui_buffer w" "ui_buffer (ui_pull Q nowMs w) = ui_buffer w"
  by (simp_all add: requestFullSnapshot_def ui_pull_def)

lemma buffer_slot: "ui_buffer (command_slot Q nowMs w sig) = ui_buffer w"
  by (cases sig) (simp_all add: command_slot_def)

lemma buffer_command [simp]: "ui_buffer (do_command Q nowMs f w) = ui_buffer w"
  by (simp add: do_command_def Let_def buffer_foldl buffer_slot)

lemma buffer_deeds [simp]:
  "ui_buffer (onRemoveDeviceSucceeded Q nowMs g p d w) = ui_buffer w" "ui_buffer (onAddDeviceSucceeded Q nowMs g p d w) = ui_buffer w"
  by (simp_all add: onRemoveDeviceSucceeded_def onAddDeviceSucceeded_def Let_def)

lemma buffer_acks [simp]:
  "ui_buffer (handle_delete_ack Q nowMs msg w) = ui_buffer w" "ui_buffer (handle_command_ack Q nowMs msg w) = ui_buffer w"
  "ui_buffer (handle_command_log Q nowMs msg w) = ui_buffer w"
  by (simp_all add: handle_delete_ack_def handle_command_ack_def handle_command_log_def Let_def case_prod_beta)

lemma buffer_message: "ui_buffer (handleIpcMessage Q nowMs w frame) = ui_buffer w"
  by (cases "qt_parse Q frame") (simp_all add: handleIpcMessage_def dispatch_message_def Let_def)

lemma buffer_actions:
  "ui_buffer (sendHistoryQuery Q nowMs pointId startMs endMs limit w) = ui_buffer w"
  "ui_buffer (sendDeleteDeviceData Q nowMs g p d w) = ui_buffer w"
  "ui_buffer (sendAddSlaveCommand Q nowMs g p d deviceType pollIntervalMs options w) = ui_buffer w"
  "ui_buffer (sendSyncConfigRequest Q nowMs targets w) = ui_buffer w" "ui_buffer (sendAcknowledgeAlarm Q nowMs alarmId w) = ui_buffer w"
  "ui_buffer (sendClearAcknowledgedAlarms Q nowMs w) = ui_buffer w" "ui_buffer (sendClearRecoveredAlarms Q nowMs w) = ui_buffer w"
  "ui_buffer (sendClearAllData Q nowMs w) = ui_buffer w" "ui_buffer (saveMqttConfig Q nowMs host port w) = ui_buffer w"
  "ui_buffer (sendDeleteMasterData Q nowMs g p w) = ui_buffer w" "ui_buffer (ui_on_connected Q nowMs w) = ui_buffer w"
  "ui_buffer (ui_watchdog Q nowMs w) = ui_buffer w" "ui_buffer (ui_state_changed w) = ui_buffer w"
  by (simp_all add: sendHistoryQuery_def sendDeleteDeviceData_def sendAddSlaveCommand_def sendSyncConfigRequest_def
      sendAcknowledgeAlarm_def sendClearAcknowledgedAlarms_def sendClearRecoveredAlarms_def sendClearAllData_def
      saveMqttConfig_def refuse_target_def sendDeleteMasterData_def buffer_foldl ui_on_connected_def ui_watchdog_def
      ui_state_changed_def Let_def)

text \<open>The bytes an event brings, and those of a run.\<close>

definition event_data :: "ui_event \<Rightarrow> string" where
  "event_data e = (case e of SocketData bytes \<Rightarrow> bytes | _ \<Rightarrow> [])"

definition run_data :: "(int \<times> ui_event) list \<Rightarrow> string" where
  "run_data es = concat (map (\<lambda>(t, e). event_data e) es)"

text \<open>An event that leaves the buffer of an open connection alone.\<close>

definition keeps_buffer :: "ui_event \<Rightarrow> bool" where
  "keeps_buffer e = (case e of SocketDisconnected \<Rightarrow> False | ReconnectTimer connecting \<Rightarrow> connecting | _ \<Rightarrow> True)"

text \<open>What an event does to the buffer, and the frames it handles.\<close>

lemma event_step:
  assumes "keeps_buffer e" "newline \<notin> set (ui_buffer w)" "length (ui_buffer w) + length (event_data e) \<le> max_recv_buffer"
  shows "event_frames e w = frame_lines (ui_buffer w @ event_data e)"
    and "ui_buffer (ui_step Q nowMs e w) = last (pieces (ui_buffer w @ event_data e))"
proof -
  have here: "frame_lines (ui_buffer w) = []" "last (pieces (ui_buffer w)) = ui_buffer w"
    using pieces_here [OF assms(2)] by (simp_all add: frame_lines_def)
  show "event_frames e w = frame_lines (ui_buffer w @ event_data e)"
    using assms here by (cases e) (simp_all add: event_frames_def event_data_def split_frames_lines)
  show "ui_buffer (ui_step Q nowMs e w) = last (pieces (ui_buffer w @ event_data e))"
  proof (cases e)
    case (SocketData bytes)
    then show ?thesis
      using assms(3) here
      by (simp add: ui_step_def event_data_def processReceivedData_def Let_def split_frames_lines buffer_foldl buffer_message)
  qed (use assms here in \<open>simp_all add: ui_step_def event_data_def keeps_buffer_def ui_reconnect_def buffer_actions\<close>)
qed

text \<open>A read hands the frames it completes to the window one after the other.\<close>

lemma frames_handled:
  assumes "bytes \<noteq> []" "length (ui_buffer w @ bytes) \<le> max_recv_buffer"
  shows "ui_step Q nowMs (SocketData bytes) w =
    foldl (handleIpcMessage Q nowMs) (w\<lparr>ui_buffer := last (pieces (ui_buffer w @ bytes))\<rparr>) (event_frames (SocketData bytes) w)"
  using assms by (simp add: ui_step_def processReceivedData_def event_frames_def split_frames_lines Let_def)

lemma frames_of_run:
  assumes "\<forall>(t, e) \<in> set es. keeps_buffer e" "newline \<notin> set (ui_buffer w)"
    and "\<forall>l \<in> set (pieces (ui_buffer w @ run_data es)). \<forall>(t, e) \<in> set es. length l + length (event_data e) \<le> max_recv_buffer"
  shows "run_frames Q es w = frame_lines (ui_buffer w @ run_data es)
    \<and> ui_buffer (ui_run Q es w) = last (pieces (ui_buffer w @ run_data es))"
  using assms
proof (induction es arbitrary: w)
  case Nil
  then show ?case using pieces_here [of "ui_buffer w"] by (simp add: run_data_def ui_run_def frame_lines_def)
next
  case (Cons te es)
  obtain t e where te: "te = (t, e)" by (cases te)
  let ?b = "ui_buffer w" and ?w = "ui_step Q t e w"
  let ?rest = "last (pieces (?b @ event_data e))"
  have data: "run_data (te # es) = event_data e @ run_data es" by (simp add: run_data_def te)
  have all: "pieces (?b @ run_data (te # es)) = butlast (pieces (?b @ event_data e)) @ pieces (?rest @ run_data es)"
    using pieces_append [of "?b @ event_data e" "run_data es"] by (simp add: data)
  have "?b @ hd (pieces (run_data (te # es))) \<in> set (pieces (?b @ run_data (te # es)))"
    using last_piece_grows [of ?b] pieces_here [OF Cons.prems(2)] by simp
  then have "length ?b + length (event_data e) \<le> max_recv_buffer"
    using Cons.prems(3) by (fastforce simp: te)
  note step = event_step(1) [OF _ Cons.prems(2) this] event_step(2) [OF _ Cons.prems(2) this, of Q t]
  have keeps: "keeps_buffer e" using Cons.prems(1) by (simp add: te)
  have "run_frames Q es ?w = frame_lines (ui_buffer ?w @ run_data es) \<and> ui_buffer (ui_run Q es ?w) = last (pieces (ui_buffer ?w @ run_data es))"
  proof (rule Cons.IH)
    show "\<forall>(t, e) \<in> set es. keeps_buffer e" using Cons.prems(1) by simp
    show "newline \<notin> set (ui_buffer ?w)" unfolding step(2) [OF keeps] by (rule last_pieces_clean)
    show "\<forall>l \<in> set (pieces (ui_buffer ?w @ run_data es)). \<forall>(t, e) \<in> set es. length l + length (event_data e) \<le> max_recv_buffer"
      using Cons.prems(3) unfolding step(2) [OF keeps] all by auto
  qed
  then show ?case
    using step [OF keeps] frame_lines_append [of "?b @ event_data e" "run_data es"]
      pieces_append [of "?b @ event_data e" "run_data es"]
    by (simp add: te ui_run_def data [unfolded te])
qed

end
