(* ===== verification/Spec2Isabelle.thy ===== *)
theory Spec2Isabelle
  imports TelemetryPath PointConfigParser PortTrace PortStore BoardDrain WireIntake PcInvHandlers PcDeeds UiFrames
begin

text \<open>
  A model of an industrial monitoring system of three programs.  \<open>src/Linux_data\<close> runs on the
  gateway board: it polls Modbus devices over two serial ports, publishes their readings over
  MQTT and answers commands.  \<open>src/Pc_data\<close> runs on the desktop: it parses what the boards
  publish, keeps a database, a snapshot and a registry, and serves the user interface over a
  local pipe.  \<open>src/Pc_ui\<close> is that user interface.

  The parts and their theories.
  \<^item> \<open>Prelude\<close>, \<open>Floats\<close>, \<open>Lines\<close>: decimal texts, C strings, machine ranges, the
    \<open>unordered_map\<close>, float and double rounding as functions on rationals, texts as lines.
  \<^item> \<open>RapidJson\<close>, \<open>BoardConfig\<close>: the interfaces of the two JSON libraries, as records of their
    functions and locales with their documented laws, each with a model.  \<open>BoardConfig\<close> also holds
    the threshold configuration of \<open>port_manager.cpp\<close>.

  The board (\<open>Linux_data\<close>).
  \<^item> \<open>OfflineStore\<close>, \<open>OfflineQueue\<close> (\<open>offline_cache\<close>): the policy, the table under the statements
    the code issues, the queue.
  \<^item> \<open>Sensors\<close> (\<open>sensors\<close>, \<open>modbus\<close>), \<open>PortManager\<close> and \<open>PortSnapshot\<close> (\<open>port\<close>), with
    \<open>PortLemmas\<close>, \<open>PortTrace\<close> (polling over time) and \<open>PortStore\<close> (the configuration file).
  \<^item> \<open>MqttQueue\<close> (\<open>mqtt/wrapper\<close>): the ring, the sending functions, the topics; \<open>MqttLoop\<close>: its
    start, its loop and its message callback.
  \<^item> \<open>BoardNet\<close>: the offline queue with the ring as its sender, and the socket to the local user
    interface.  \<open>DataTelemetry\<close>, \<open>ConfigSync\<close> with \<open>ConfigSyncLemmas\<close>, \<open>DataPublish\<close> with
    \<open>DataPublishLemmas\<close>, \<open>DataAck\<close>, \<open>DataCommand\<close>: the files of the same names in \<open>data\<close>, on the
    state \<open>board_net\<close> and its extensions.  \<open>BoardControl\<close> adds the port manager: the type \<open>board\<close>.
  \<^item> \<open>IpcServer\<close> (\<open>ipc\<close>, \<open>device\<close>); \<open>BoardService\<close>: the threads of the board as the steps of one
    machine; \<open>BoardLemmas\<close>, \<open>CommandLemmas\<close>, \<open>BoardDrain\<close>: what every step keeps, the answers to
    commands, the draining of the offline table under any schedule of polls (\<open>left_after\<close>).

  The desktop service (\<open>Pc_data\<close>).
  \<^item> \<open>JsonUtils\<close>, \<open>JsonText\<close> (\<open>common\<close>), \<open>DataModel\<close>, \<open>ModelConverter\<close> (\<open>model\<close>), \<open>TelemetryParser\<close>,
    \<open>PointConfigParser\<close> and \<open>PcMessages\<close> (\<open>protocol\<close>), \<open>TelemetryPath\<close> (parser and converter
    composed), \<open>Wire\<close> (a message of the board as Pc_data reads it).
  \<^item> \<open>ServiceState\<close>, \<open>ServiceRegistry\<close>, \<open>ServiceSync\<close>, \<open>ServiceTelemetry\<close>, \<open>ServiceCommands\<close>,
    \<open>PcService\<close>: \<open>service/PcDataService.cpp\<close>; \<open>PcService\<close> has the operations as one machine
    (\<open>svc_event\<close>, \<open>svc_exec\<close>) with its reachable states and invariant.
  \<^item> \<open>PcTables\<close>, \<open>PcStore\<close>, \<open>PcStoreOps\<close>, \<open>PcStoreConfig\<close>: \<open>storage/PcDatabase.cpp\<close>, its tables and
    each statement it issues, with transactions; \<open>PcDbWf\<close>, \<open>PcDbKeeps\<close>, \<open>PcDbAtomic\<close>, \<open>PcDbDeeds\<close>:
    the invariant of the tables, transactions, what deleting and querying do.
  \<^item> \<open>PcWorld\<close>: the state of the running service with the pipe and the MQTT client; \<open>PcIntake\<close>,
    \<open>PcHandler\<close>, \<open>PcTelemetry\<close> (\<open>mqtt/MqttMessageHandler.cpp\<close>), \<open>PcRequests\<close>, \<open>PcCommands\<close>
    (\<open>ipc/IpcMessageHandler.cpp\<close>); \<open>PcMachine\<close>: \<open>main.cpp\<close>, all of it as one machine (\<open>pc_event\<close>,
    \<open>pc_step\<close>, \<open>pc_reachable\<close>); \<open>PcInv\<close>, \<open>PcInvHandlers\<close>: its invariant; \<open>PcDeeds\<close>: what the
    handlers do; \<open>WireIntake\<close>: a message of the board from \<open>mqtt_handle\<close> through the telemetry worker.

  The user interface (\<open>Pc_ui\<close>).
  \<^item> \<open>UiModel\<close> (\<open>model\<close>, and Qt), \<open>UiDevices\<close>, \<open>UiAlarms\<close>, \<open>UiData\<close>, \<open>UiDataOps\<close>, \<open>UiStore\<close>,
    \<open>UiCommands\<close>: the managers and the state store of \<open>core\<close>; \<open>UiMain\<close>: \<open>MainWindow.cpp\<close> and
    \<open>ipc/ipcclient.cpp\<close>, as one machine (\<open>ui_event\<close>, \<open>ui_step\<close>, \<open>ui_run\<close>).
  \<^item> \<open>UiMaps\<close>, \<open>UiDataLemmas\<close>, \<open>UiDataKeeps\<close>, \<open>UiDataAll\<close>, \<open>UiStoreLemmas\<close>: the invariant of the
    data and of the mirror through every operation; \<open>UiWindow\<close>: the window as a client of the
    store; \<open>UiDeeds\<close>, \<open>UiFrames\<close>: what the pages show, and the frames of the pipe.

  How they interact.  A poll of \<open>PortManager\<close> gives a reading to \<open>DataPublish\<close>, which writes it
  with \<open>DataTelemetry\<close>, sends it over the socket and, once \<open>ConfigSync\<close> has the acknowledgement
  of the last configuration, hands it to the offline queue, whose sender puts it into the ring
  of \<open>MqttQueue\<close>; what the ring refuses goes to the offline table.  Pc_data parses the message
  (\<open>TelemetryParser\<close>), makes points of it (\<open>ModelConverter\<close>), checks the device against its
  registry (\<open>PcTelemetry\<close>), keeps the points in its snapshot (\<open>PcService\<close>) and stores them (\<open>PcStore\<close>).  Snapshots go
  down the pipe to the user interface, which mirrors them (\<open>UiStore\<close>).  A command goes the other
  way: \<open>UiCommands\<close> to \<open>PcCommands\<close> to \<open>DataCommand\<close>, and its acknowledgement comes back through
  \<open>DataAck\<close>, \<open>PcHandler\<close> and \<open>UiCommands\<close>.

  State and operations.  A class or the static variables of a C file are a record with the
  source's fields; an operation takes and returns the record, with every early return as a
  branch; errors are the source's codes, \<open>option\<close> or sums.  A mutex makes an operation one
  step, so that interleavings are sequences of operations.  The clock is read once per
  operation and is an argument.  What is written to a socket, a pipe, the broker or a page is
  kept in the state, in order.

  Parameters.  RapidJSON and json-c (\<open>'v rapidjson\<close>, \<open>'v json_c\<close>: the document is known only
  through the calls of the source); that both see the same document is the locale \<open>wire\<close>, and
  that a text parses back is a hypothesis about that text.  Qt (\<open>'v qt\<close>: its JSON values and
  document, \<open>QString::arg\<close>, the local socket).  SQLite (\<open>sqlite\<close>, \<open>db_engine\<close>: whether each
  statement succeeds, whether a failure rolls an open transaction back, as with a full disk or an
  I/O error, and in which order rows are returned; the statements themselves are modelled).  What
  needs that no failure does so says it (\<open>undoes_none\<close>); \<open>port_deletion_broken_off\<close> is a run where
  one does.
  The environment of Pc_data (\<open>pc_env\<close>: the pipe, the paho client, the configuration file), the
  world of the board (\<open>board_world\<close>), libmodbus (\<open>modbus_lib\<close>), the file system (\<open>be_dir\<close>,
  \<open>be_write\<close>), the socket (\<open>ne_ipc\<close>).  Functions of the call number answer differently over time.
  No hypothesis speaks of the code.

  Interfaces as locales, each interpreted on the code's own model: the JSON libraries, the
  database engine, the board laws of \<open>PortLemmas\<close>, \<open>bounded_fifo\<close> (the ring), \<open>wire\<close>, and
  \<open>kept_by_store\<close> (what the window needs of the state store).

  Bounds.  Words have the width of the source (sequence numbers 32 bits, relay bitmaps 16, JSON
  integers are range-checked); where a counter must not wrap round the statement says so.
  Loops of the source are over finite lists and are structural recursion; the loops by another
  measure (the trimming of the offline table, the splitting of the pipe into lines) are
  terminating \<open>function\<close>s.  No fuel is used.

  The properties are C1 to C40 below.  C1 to C8 follow a message from the board to the desktop
  and the configuration synchronisation; C9 to C13 are the board's commands, its socket, its
  machine and its snapshot; C14 and C15 the data service; C16 to C27 the desktop service as a
  whole with its database; C28 to C32 the user interface; C33 reading back escaped texts; C34
  the offline table; C35 to C40 the serial ports and the configuration file.  Theorems without
  a number say more about the same operations.

  Not modelled: the pages and widgets of the two user interfaces (layout and drawing over Qt;
  \<open>Linux_ui\<close> altogether), the paho and mqttclient libraries, sockets, pipes and threads beyond what
  is said above, the interleaving of the threads of Pc_data inside one handler, the writing of
  the MQTT configuration file (only whether it succeeds), the function
  \<open>deviceRecordFromTelemetry\<close>, which nothing calls, the sign of zero when a number is printed,
  and log output with its counters.
\<close>

section \<open>From the board to the desktop\<close>

text \<open>The board's messages in a state where the configuration is acknowledged, for the examples.\<close>

definition demo_sync :: config_sync where
  "demo_sync = config_sync_new\<lparr>cs_config_version := 1, cs_last_acked_version := 1, cs_last_acked_snapshot := True\<rparr>"

definition demo_net_env :: "(jcv \<Rightarrow> string) \<Rightarrow> jcv net_env" where
  "demo_net_env print = \<lparr>ne_json = jcv_model print, ne_sql = stable_engine (\<lambda>_. True) (\<lambda>_. None),
     ne_ipc = (\<lambda>_. IpcWritten True)\<rparr>"

definition demo_net :: "config_sync \<Rightarrow> publish_net" where
  "demo_net s = \<lparr>bn_mqtt = mqtt_wrapper_new\<lparr>mw_client := True, mw_connected := True\<rparr>,
     bn_offline = (OfflinePublishQueue_new [] 1)\<lparr>oq_sender := True\<rparr>, bn_ipc = [], sn_sync = s,
     pb_status = status_cache_new, pb_telemetry_seq = 0\<rparr>"

definition demo_reading :: device_data where
  "demo_reading = device_data_zero\<lparr>dv_device_id := 3, dv_type := DEV_SENSOR_TH, dv_valid := True,
     dv_temperature := Fin 25, dv_humidity := Fin 60\<rparr>"

definition demo_doc :: "device_data \<Rightarrow> jv" where
  "demo_doc dev = jcv_doc (telemetry_doc (jcv_model (\<lambda>_. ''{}'')) 0 5 0 dev)"

text \<open>
  C1.  A reading of a temperature and humidity sensor reaches the desktop.  When the
  configuration is acknowledged, the broker is connected and its ring has room, publishing a
  valid reading appends one message to the ring, on the topic of the port and not cut.  When that
  message arrives at Pc_data while no other waits in its queue, in the registry of which the gateway, the port and the device are,
  the device without a type or as this sensor, and neither it nor its port under a removal, then
  after the next round of the telemetry worker the service answers for both points of the sensor
  a valid point with the value (as a float) and the time of the reading and the time of receipt,
  both points wait to be stored, and the user interface is due to be told.
\<close>

theorem reading_reaches_snapshot:
  assumes "wire (ne_json E) (pe_json P) doc"
    and net: "data_config_sync_telemetry_allowed (sn_sync n)" "oq_sender (bn_offline n)"
      "ring_wf (mw_queue (bn_mqtt n))" "mw_client (bn_mqtt n)" "mw_connected (bn_mqtt n)"
      "queue_count (mw_queue (bn_mqtt n)) < 31"
    and text_sent: "telemetry_text (ne_json E) (pb_telemetry_seq n) now slot dev = Some json"
      "rj_parse (pe_json P) json = Inr (doc (telemetry_doc (ne_json E) (pb_telemetry_seq n) now slot dev))"
      "extractJsonStringValue json ''type'' = ''telemetry_pack''"
    and here: "validSlot slot" "0 < now" "in_int64 now"
    and dev: "dv_type dev = DEV_SENSOR_TH" "dv_valid dev" "0 < dv_device_id dev" "in_int (dv_device_id dev)"
      "dv_temperature dev = Fin c" "dv_humidity dev = Fin h"
    and names: "g = ''gateway_001''" "port = portIdForSlot slot"
    and registered: "gatewayRegistered g (pw_service W)" "portRegistered g port (pw_service W)"
      "deviceRegistered g port (dv_device_id dev) (pw_service W)"
      "registeredDeviceType g port (dv_device_id dev) (pw_service W) \<in> {[], ''sensor_th''}"
    and here_still: "\<not> isRemovedDeviceLocked g port (dv_device_id dev) (pruneExpiredRemovedDevicesLocked rx (pw_service W))"
      "\<not> isRemovedMasterLocked g port (pruneExpiredRemovedDevicesLocked rx (pw_service W))"
    and pc: "pw_telemetryQueue W = []" "snap_wf t (pw_service W)" "t \<le> rx"
  shows "\<exists>item p q.
      queue_items (mw_queue (bn_mqtt (snd (data_publish_device_status_for_slot E now slot (Some dev) n))))
        = queue_items (mw_queue (bn_mqtt n)) @ [item]
    \<and> mi_topic item = ''gateway/'' @ g @ ''/'' @ port @ ''/up''
    \<and> (let W' = telemetryWorker P rx (mqtt_handle P rx (mi_topic item) (mi_payload item) W);
           temperature = wire_id slot (dv_device_id dev) ''temperature''; humidity = wire_id slot (dv_device_id dev) ''humidity''
       in getPointById temperature (pw_service W') = Some (p\<lparr>tp_receiveTimeMs := rx\<rparr>)
        \<and> um_find (pw_pendingDb W') temperature = Some p
        \<and> tp_valid p \<and> tp_numberValue p = float_round c \<and> tp_timestampMs p = now
        \<and> getPointById humidity (pw_service W') = Some (q\<lparr>tp_receiveTimeMs := rx\<rparr>)
        \<and> um_find (pw_pendingDb W') humidity = Some q
        \<and> tp_valid q \<and> tp_numberValue q = float_round h \<and> tp_timestampMs q = now \<and> pw_latestDirty W')"
proof -
  let ?topic = "''gateway/gateway_001/'' @ portIdForSlot slot @ ''/up''"
  have known: "sensor_known rx ''gateway_001'' (portIdForSlot slot) (dv_device_id dev) (pw_service W)"
    using registered here_still unfolding names by (simp add: sensor_known_def)
  note answer = wire.reading_answered [OF assms(1) text_sent here dev refl pc(1) known pc(2,3) refl]
  have topic: "''gateway/'' @ g @ ''/'' @ port @ ''/up'' = ?topic" by (simp add: names)
  show ?thesis
    using reading_into_ring [OF net text_sent(1)] answer unfolding topic Let_def
    by (intro exI [of _ "\<lparr>mi_topic = ?topic, mi_payload = json\<rparr>"]) (simp only: mqtt_item.simps simp_thms ex_simps)
qed

text \<open>A desktop service that knows the sensor, for the example.\<close>

definition demo_intake :: PcData where
  "demo_intake = (PcData_new PcTables_empty (loadMqttConfig (jv_dom (\<lambda>_. Inr JNull) (\<lambda>_. None)) None))
     \<lparr>pw_service := svc_init\<lparr>m_registeredGateways := {''gateway_001''},
        m_registeredPorts := {registryPortKey ''gateway_001'' (portIdForSlot 0)},
        m_registeredDeviceTypes := um_set (registryDeviceKey ''gateway_001'' (portIdForSlot 0) 3) ''sensor_th'' um_empty\<rparr>\<rparr>"

definition demo_pack_text :: string where
  "demo_pack_text = CHR 0x22 # ''type'' @ CHR 0x22 # CHR '':'' # CHR 0x22 # ''telemetry_pack'' @ [CHR 0x22]"

text \<open>The document that text stands for: the telemetry of the reading.\<close>

definition demo_reading_doc :: jv where
  "demo_reading_doc = jcv_doc (telemetry_doc (jcv_model (\<lambda>_. demo_pack_text)) 0 5 0 demo_reading)"

definition demo_intake_env :: "jv pc_env" where
  "demo_intake_env = \<lparr>pe_json = jv_dom (\<lambda>_. Inr demo_reading_doc) (\<lambda>_. None), pe_print = (\<lambda>_. ''{}''),
     pe_db = plain_db (\<lambda>_. True), pe_pipe = (\<lambda>_. PipeWrote 100000), pe_paho = (\<lambda>_. True), pe_save = (\<lambda>_. True)\<rparr>"

theorem reading_reaches_snapshot_witness:
  "\<exists>item p. queue_items (mw_queue (bn_mqtt (snd (data_publish_device_status_for_slot
        (demo_net_env (\<lambda>_. demo_pack_text)) 5 0 (Some demo_reading) (demo_net demo_sync))))) = [item]
     \<and> getPointById (wire_id 0 3 ''temperature'') (pw_service (telemetryWorker demo_intake_env 9
          (mqtt_handle demo_intake_env 9 (mi_topic item) (mi_payload item) demo_intake))) = Some p
     \<and> tp_numberValue p = Fin 25"
proof -
  let ?P = "demo_intake_env" and ?E = "demo_net_env (\<lambda>_. demo_pack_text)" and ?g = "''gateway_001''" and ?p = "portIdForSlot 0"
  let ?n = "demo_net demo_sync" and ?text = "demo_pack_text @ [CHR 0x0A]" and ?s = "pw_service demo_intake"
  have "wire (ne_json ?E) (pe_json ?P) jcv_doc" by (simp add: demo_net_env_def demo_intake_env_def models_wired)
  moreover have "data_config_sync_telemetry_allowed (sn_sync ?n)"
    by (simp add: demo_net_def demo_sync_def data_config_sync_telemetry_allowed_def)
  moreover have "oq_sender (bn_offline ?n)" "ring_wf (mw_queue (bn_mqtt ?n))" "mw_client (bn_mqtt ?n)"
    "mw_connected (bn_mqtt ?n)" "queue_count (mw_queue (bn_mqtt ?n)) < 31"
    by (simp_all add: demo_net_def mqtt_wrapper_new_def mqtt_queue_new_def ring_wf_def queue_count_def MQTT_QUEUE_MAX_def)
  moreover have "telemetry_text (ne_json ?E) (pb_telemetry_seq ?n) 5 0 demo_reading = Some ?text"
    by (simp add: telemetry_text_def telemetry_pack_to_json_def demo_net_env_def jcv_model_def c_str_def demo_pack_text_def Let_def)
  moreover have "rj_parse (pe_json ?P) ?text = Inr (jcv_doc (telemetry_doc (ne_json ?E) (pb_telemetry_seq ?n) 5 0 demo_reading))"
    by (simp add: demo_intake_env_def jv_dom_def demo_reading_doc_def demo_net_env_def demo_net_def)
  moreover have "extractJsonStringValue ?text ''type'' = ''telemetry_pack''"
    using extractJsonStringValue_first [of "[]" "''type''" "''telemetry_pack'' @ [CHR 0x22, CHR 0x0A]"]
    by (simp add: demo_pack_text_def)
  moreover have "validSlot 0" "0 < (5 :: int)" "in_int64 5"
    by (simp_all add: validSlot_def kSlotCount_def in_int64_def)
  moreover have "dv_type demo_reading = DEV_SENSOR_TH" "dv_valid demo_reading" "0 < dv_device_id demo_reading"
    "in_int (dv_device_id demo_reading)" "dv_temperature demo_reading = Fin 25" "dv_humidity demo_reading = Fin 60"
    by (simp_all add: demo_reading_def in_int_def int_min_def int_max_def)
  moreover have "gatewayRegistered ?g ?s" "portRegistered ?g ?p ?s" "deviceRegistered ?g ?p (dv_device_id demo_reading) ?s"
    "registeredDeviceType ?g ?p (dv_device_id demo_reading) ?s \<in> {[], ''sensor_th''}"
    by (simp_all add: demo_intake_def demo_reading_def gatewayRegistered_def portRegistered_def deviceRegistered_def
        registeredDeviceType_def lookup_simps)
  moreover have "\<not> isRemovedDeviceLocked ?g ?p (dv_device_id demo_reading) (pruneExpiredRemovedDevicesLocked 9 ?s)"
    "\<not> isRemovedMasterLocked ?g ?p (pruneExpiredRemovedDevicesLocked 9 ?s)" "snap_wf 0 ?s" "0 \<le> (9 :: int)"
    "pw_telemetryQueue demo_intake = []"
    by (simp_all add: demo_intake_def snap_wf_def isRemovedDeviceLocked_def isRemovedMasterLocked_def
        pruneExpiredRemovedDevicesLocked_def svc_init_def lookup_simps PcData_new_def)
  ultimately have "\<exists>item p q.
      queue_items (mw_queue (bn_mqtt (snd (data_publish_device_status_for_slot ?E 5 0 (Some demo_reading) ?n))))
        = queue_items (mw_queue (bn_mqtt ?n)) @ [item]
    \<and> mi_topic item = ''gateway/'' @ ?g @ ''/'' @ ?p @ ''/up''
    \<and> (let W' = telemetryWorker ?P 9 (mqtt_handle ?P 9 (mi_topic item) (mi_payload item) demo_intake);
           temperature = wire_id 0 (dv_device_id demo_reading) ''temperature''; humidity = wire_id 0 (dv_device_id demo_reading) ''humidity''
       in getPointById temperature (pw_service W') = Some (p\<lparr>tp_receiveTimeMs := 9\<rparr>)
        \<and> um_find (pw_pendingDb W') temperature = Some p
        \<and> tp_valid p \<and> tp_numberValue p = float_round 25 \<and> tp_timestampMs p = 5
        \<and> getPointById humidity (pw_service W') = Some (q\<lparr>tp_receiveTimeMs := 9\<rparr>)
        \<and> um_find (pw_pendingDb W') humidity = Some q
        \<and> tp_valid q \<and> tp_numberValue q = float_round 60 \<and> tp_timestampMs q = 5 \<and> pw_latestDirty W')"
    by (intro reading_reaches_snapshot [OF _ _ _ _ _ _ _ _ _ _ _ _ _ _ _ _ _ _ _ refl refl])
  moreover have "float_round 25 = Fin 25" "dv_device_id demo_reading = 3" "queue_items (mw_queue (bn_mqtt ?n)) = []"
    by (code_simp, simp add: demo_reading_def, simp add: demo_net_def mqtt_wrapper_new_def mqtt_queue_new_def queue_items_def queue_count_def)
  ultimately show ?thesis unfolding Let_def by fastforce
qed

text \<open>
  C2.  Pc_data sees only the first channel of a relay.  From the message the board sends for
  a relay with at most 64 channels the parser and the converter make one point for each
  channel, but only the point of channel 1 follows the relay: the points of all other
  channels say \<open>off\<close>, whatever the states in the message.
\<close>

theorem relay_channels_on_wire:
  assumes "wire C J doc"
    and "telemetry_text C seq now slot dev = Some json" "rj_parse J json = Inr (doc (telemetry_doc C seq now slot dev))"
    and "validSlot slot" "0 < now" "in_int64 now"
    and "dv_type dev = DEV_RELAY" "in_int (dv_device_id dev)" "relay_channels dev \<le> 64"
  shows "\<exists>pk. TelemetryPackParser_parseJson J rx json = Inr pk
    \<and> map (\<lambda>p. (tp_pointKey p, tp_textValue p)) (toTelemetryPoints pk) =
       map (\<lambda>i. (''relay_'' @ to_string (int i + 1),
                 if i = 0 \<and> bit (dv_relay_states dev) 0 then ''on'' else ''off''))
         [0..<nat (relay_channels dev)]"
  by (rule wire.relay_channels_lost [OF assms]) blast

definition all_on_relay :: device_data where
  "all_on_relay = device_data_zero\<lparr>dv_device_id := 7, dv_type := DEV_RELAY, dv_valid := True,
     dv_relay_states := 15, dv_channel_count := 4\<rparr>"

theorem relay_channels_on_wire_witness:
  "\<exists>pk. TelemetryPackParser_parseJson (jv_dom (\<lambda>_. Inr (demo_doc all_on_relay)) (\<lambda>_. None)) 9 (''{}'' @ [CHR 0x0A]) = Inr pk
     \<and> map tp_textValue (toTelemetryPoints pk) = [''on'', ''off'', ''off'', ''off'']"
proof -
  let ?J = "jv_dom (\<lambda>_. Inr (demo_doc all_on_relay)) (\<lambda>_. None)" and ?C = "jcv_model (\<lambda>_. ''{}'')"
  have "telemetry_text ?C 0 5 0 all_on_relay = Some (''{}'' @ [CHR 0x0A])"
    by (simp add: telemetry_text_def telemetry_pack_to_json_def jcv_model_def c_str_def Let_def)
  moreover have "rj_parse ?J (''{}'' @ [CHR 0x0A]) = Inr (jcv_doc (telemetry_doc ?C 0 5 0 all_on_relay))"
    by (simp add: jv_dom_def demo_doc_def)
  moreover have "validSlot 0" "0 < (5 :: int)" "in_int64 5"
    by (simp_all add: validSlot_def kSlotCount_def in_int64_def)
  moreover have "dv_type all_on_relay = DEV_RELAY" "in_int (dv_device_id all_on_relay)" "relay_channels all_on_relay \<le> 64"
    by (simp_all add: all_on_relay_def in_int_def int_min_def int_max_def relay_channels_def)
  ultimately obtain pk where pk: "TelemetryPackParser_parseJson ?J 9 (''{}'' @ [CHR 0x0A]) = Inr pk"
    "map (\<lambda>p. (tp_pointKey p, tp_textValue p)) (toTelemetryPoints pk) =
       map (\<lambda>i. (''relay_'' @ to_string (int i + 1),
                 if i = 0 \<and> bit (dv_relay_states all_on_relay) 0 then ''on'' else ''off''))
         [0..<nat (relay_channels all_on_relay)]"
    using relay_channels_on_wire [OF models_wired, of "\<lambda>_. ''{}''" 0 5 0 all_on_relay "''{}'' @ [CHR 0x0A]"
        "\<lambda>_. Inr (demo_doc all_on_relay)" "\<lambda>_. None" 9] by blast
  have "bit (15 :: 16 word) 0" "nat (relay_channels all_on_relay) = 4" "dv_relay_states all_on_relay = 15"
    by (simp_all add: all_on_relay_def relay_channels_def)
  then have "map snd (map (\<lambda>p. (tp_pointKey p, tp_textValue p)) (toTelemetryPoints pk)) = [''on'', ''off'', ''off'', ''off'']"
    unfolding pk(2) by (simp add: upt_rec)
  then show ?thesis using pk(1) by (auto simp: o_def)
qed

text \<open>
  C3.  The ring of the MQTT wrapper is a first-in first-out queue of 31 messages.  From every
  well-formed ring, every sequence of pushes and pops returns what the same sequence returns
  on a list: a push is accepted exactly when there are fewer than 31 messages, a pop gives
  back the oldest one, and no accepted message is lost, repeated or overtaken.
\<close>

theorem ring_refines_list:
  assumes "ring_wf q"
  shows "let (rs, q') = fifo_run put_item queue_pop es q
    in ring_wf q' \<and> length (queue_items q') \<le> 31
     \<and> fifo_spec 31 (\<lambda>m. new_item (fst m) (snd m)) es (queue_items q) = (rs, queue_items q')"
  using assms by (rule ring.run_fifo)

theorem ring_refines_list_witness:
  "fst (fifo_run put_item queue_pop [Some (''t'', ''1''), Some (''t'', ''2''), None, None, None] mqtt_queue_new)
     = [Put True, Put True, Got (Some \<lparr>mi_topic = ''t'', mi_payload = ''1''\<rparr>),
        Got (Some \<lparr>mi_topic = ''t'', mi_payload = ''2''\<rparr>), Got None]"
proof -
  let ?es = "[Some (''t'', ''1''), Some (''t'', ''2''), None, None, None]"
  have "new_item ''t'' p = \<lparr>mi_topic = ''t'', mi_payload = p\<rparr>" if "p = ''1'' \<or> p = ''2''" for p
    using that by (auto simp: new_item_def strncpy_text_def c_str_def MQTT_PAYLOAD_MAX_def)
  then have "fst (fifo_spec 31 (\<lambda>m. new_item (fst m) (snd m)) ?es []) =
      [Put True, Put True, Got (Some \<lparr>mi_topic = ''t'', mi_payload = ''1''\<rparr>),
       Got (Some \<lparr>mi_topic = ''t'', mi_payload = ''2''\<rparr>), Got None]"
    by simp
  then show ?thesis using ring_refines_list [OF new_ring(1), of ?es] by (auto simp: split_def Let_def)
qed

text \<open>
  C4.  The topics.  The parser of port topics accepts exactly the texts
  \<open>gateway/<gateway>/<port>/up\<close>, and the parser of command topics exactly \<open>cmd/<gateway>/<port>\<close>,
  with nonempty parts without a slash that fit the buffers; so both read back what the
  builders of the same file write.  But the gateway's own command topic is taken for the
  topic of a port named \<open>gateway\<close>, and \<open>mqtt_parse_gateway_command_topic\<close> rejects it.
\<close>

theorem topics_exact:
  assumes "p \<noteq> []" "CHR ''/'' \<notin> set p" "length p < 64"
  shows "(\<forall>t g p'. mqtt_parse_port_up_topic t 64 64 = Some (g, p') \<longleftrightarrow>
            t = ''gateway/'' @ g @ ''/'' @ p' @ ''/up'' \<and> g \<noteq> [] \<and> p' \<noteq> [] \<and> CHR ''/'' \<notin> set g
            \<and> CHR ''/'' \<notin> set p' \<and> int (length g) < 64 \<and> int (length p') < 64)
    \<and> (\<forall>t g p'. mqtt_parse_port_command_topic t 64 64 = Some (g, p') \<longleftrightarrow>
            t = ''cmd/'' @ g @ ''/'' @ p' \<and> g \<noteq> [] \<and> p' \<noteq> [] \<and> CHR ''/'' \<notin> set g
            \<and> CHR ''/'' \<notin> set p' \<and> int (length g) < 64 \<and> int (length p') < 64)
    \<and> Option.bind (mqtt_make_port_up_topic (Some p) 128) (\<lambda>t. mqtt_parse_port_up_topic t 64 64)
       = Some (''gateway_001'', p)
    \<and> Option.bind (mqtt_make_port_command_topic (Some p) 128) (\<lambda>t. mqtt_parse_port_command_topic t 64 64)
       = Some (''gateway_001'', p)
    \<and> Option.bind (mqtt_make_gateway_command_topic 128) (\<lambda>t. mqtt_parse_gateway_command_topic t 64) = None
    \<and> Option.bind (mqtt_make_gateway_command_topic 128) (\<lambda>t. mqtt_parse_port_command_topic t 64 64)
       = Some (''gateway_001'', ''gateway'')"
proof -
  have "mqtt_make_port_up_topic (Some p) 128 = Some (''gateway/'' @ ''gateway_001'' @ ''/'' @ p @ ''/up'')"
    using assms by (simp add: mqtt_make_port_up_topic_def DEFAULT_GATEWAY_ID_def)
  moreover have "mqtt_parse_port_up_topic (''gateway/'' @ ''gateway_001'' @ ''/'' @ p @ ''/up'') 64 64 = Some (''gateway_001'', p)"
    unfolding port_up_exact using assms by simp
  ultimately have up: "Option.bind (mqtt_make_port_up_topic (Some p) 128) (\<lambda>t. mqtt_parse_port_up_topic t 64 64)
       = Some (''gateway_001'', p)" by (simp only: Option.bind.simps)
  have "mqtt_make_port_command_topic (Some p) 128 = Some (''cmd/'' @ ''gateway_001'' @ ''/'' @ p)"
    using assms by (simp add: mqtt_make_port_command_topic_def fit_buffer_def DEFAULT_GATEWAY_ID_def)
  moreover have "mqtt_parse_port_command_topic (''cmd/'' @ ''gateway_001'' @ ''/'' @ p) 64 64 = Some (''gateway_001'', p)"
    unfolding port_command_exact using assms by simp
  ultimately have cmd: "Option.bind (mqtt_make_port_command_topic (Some p) 128) (\<lambda>t. mqtt_parse_port_command_topic t 64 64)
       = Some (''gateway_001'', p)" by (simp only: Option.bind.simps)
  have make: "mqtt_make_gateway_command_topic 128 = Some ''cmd/gateway_001/gateway''" by code_simp
  have own: "Option.bind (mqtt_make_gateway_command_topic 128) (\<lambda>t. mqtt_parse_gateway_command_topic t 64) = None"
    "Option.bind (mqtt_make_gateway_command_topic 128) (\<lambda>t. mqtt_parse_port_command_topic t 64 64)
       = Some (''gateway_001'', ''gateway'')" unfolding make by code_simp+
  show ?thesis by (intro conjI allI port_up_exact port_command_exact up cmd own)
qed

theorem topics_exact_witness:
  "Option.bind (mqtt_make_port_command_topic (Some ''port_001'') 128) (\<lambda>t. mqtt_parse_port_command_topic t 64 64)
     = Some (''gateway_001'', ''port_001'')"
  using topics_exact [of "''port_001''"] by simp



definition demo_sync_net :: sync_net where
  "demo_sync_net = \<lparr>bn_mqtt = mqtt_wrapper_new\<lparr>mw_client := True, mw_connected := True\<rparr>,
     bn_offline = (OfflinePublishQueue_new [] 1)\<lparr>oq_sender := True\<rparr>, bn_ipc = [], sn_sync = config_sync_new\<rparr>"

definition two_marks :: sync_net where
  "two_marks = sync_exec (demo_net_env (\<lambda>_. ''{}'')) 7 (SyMark 2 (Some ''config_snapshot'') (Some ''{}'') (Some ''port_001''))
     (sync_exec (demo_net_env (\<lambda>_. ''{}'')) 5 (SyMark 1 (Some ''port_register'') (Some ''{}'') (Some ''port_001'')) demo_sync_net)"

lemma eight_cells:
  "replicate 8 x = [x, x, x, x, x, x, x, x]" "[0..<8] = [0, 1, 2, 3, 4, 5, 6, 7 :: nat]"
  by (simp add: eval_nat_numeral, simp add: upt_rec)

lemma two_marks_state:
  "cs_pending_seq (sn_sync two_marks) = 1" "cs_pending_cmd (sn_sync two_marks) = ''port_register''"
  "map pq_seq (waiting (sn_sync two_marks)) = [2]" "cs_config_version (sn_sync two_marks) = 2"
  "cs_retryable (sn_sync two_marks)" "cs_last_send_ms (sn_sync two_marks) = 5"
  "cs_pending_snapshot (sn_sync two_marks) = ''{}''" "mw_connected (bn_mqtt two_marks)" "cs_retry_count (sn_sync two_marks) = 0"
  "cs_seq (sn_sync two_marks) = 50000"
  by (simp_all add: two_marks_def demo_sync_net_def data_config_sync_mark_sent_def take_pending_def enqueue_pending_def
      set_active_pending_def no_zero_version_def next_version_def show_waiting_def is_snapshot_cmd_def has_active_pending_def
      first_index_def config_sync_new_def pending_zero_def copy_text_def c_str_def CONFIG_SYNC_PAYLOAD_MAX_def
      CONFIG_SYNC_PENDING_MAX_def MAX_CMD_NAME_LEN_def waiting_def mqtt_is_connected_def set_status_def set_message_def
      set_reason_def eight_cells Let_def)

lemma two_marks_reachable: "sync_reachable (demo_net_env (\<lambda>_. ''{}'')) True two_marks"
proof -
  let ?E = "demo_net_env (\<lambda>_. ''{}'')"
  have "sync_reachable ?E True demo_sync_net" by (rule sync_reachable.start) (simp add: demo_sync_net_def)
  then have "sync_reachable ?E True (sync_exec ?E 5 (SyMark 1 (Some ''port_register'') (Some ''{}'') (Some ''port_001'')) demo_sync_net)"
    using sync_reachable.event [of ?E True _ "SyMark 1 (Some ''port_register'') (Some ''{}'') (Some ''port_001'')" 5]
    by (simp add: sync_event_numbered_def del: sync_exec.simps)
  then show ?thesis
    using sync_reachable.event [of ?E True _ "SyMark 2 (Some ''config_snapshot'') (Some ''{}'') (Some ''port_001'')" 7]
    by (simp add: sync_event_numbered_def two_marks_def del: sync_exec.simps)
qed

lemma demo_prints: "\<forall>v. c_str (jc_print (ne_json (demo_net_env (\<lambda>_. ''{}''))) v) \<noteq> []"
  by (simp add: demo_net_env_def jcv_model_def c_str_def)

lemma two_marks_wf: "cfg_wf (sn_sync two_marks)"
  using two_marks_reachable demo_prints by (intro reachable_cfg) simp_all


text \<open>
  C6.  Telemetry waits for the acknowledgement of the last configuration.  From the moment a
  configuration snapshot is registered, in a history whose acknowledgements name versions that
  exist and whose version counter has not wrapped round, until a positive acknowledgement of a
  snapshot arrives, publishing a reading hands nothing to the ring and stores nothing in the
  offline table, whatever else happens on the board.
\<close>

theorem telemetry_waits_for_ack:
  assumes "honest_reachable E n0" "bumps (ne_json E) e" "cs_config_version (sn_sync n0) + 1 \<noteq> 0"
    and "quiet_steps E (sync_exec E t e n0) n1" "sn_sync (n :: publish_net) = sn_sync n1"
  shows "let n' = snd (data_publish_device_status_for_slot E now slot dev n)
    in bn_mqtt n' = bn_mqtt n \<and> bn_offline n' = bn_offline n"
  by (rule local_only) (simp add: assms(5) no_telemetry_before_ack [OF assms(1-4)])

theorem telemetry_waits_for_ack_witness:
  "let E = demo_net_env (\<lambda>_. ''{}'');
       n = demo_net (sn_sync (sync_exec E 5 (SyMark 1 (Some ''config_snapshot'') (Some ''{}'') None) demo_sync_net))
   in bn_mqtt (snd (data_publish_device_status_for_slot E 6 0 (Some demo_reading) n)) = bn_mqtt n"
proof -
  let ?E = "demo_net_env (\<lambda>_. ''{}'')" and ?e = "SyMark 1 (Some ''config_snapshot'') (Some ''{}'') None"
  have "honest_reachable ?E demo_sync_net" by (rule honest_reachable.honest_start) (simp add: demo_sync_net_def)
  moreover have "bumps (ne_json ?E) ?e" "cs_config_version (sn_sync demo_sync_net) + 1 \<noteq> 0"
    by (simp_all add: bumps_def is_snapshot_cmd_def c_str_def demo_sync_net_def config_sync_new_def)
  ultimately show ?thesis
    using telemetry_waits_for_ack [of ?E demo_sync_net ?e 5 "sync_exec ?E 5 ?e demo_sync_net"
        "demo_net (sn_sync (sync_exec ?E 5 ?e demo_sync_net))" 6 0 "Some demo_reading"]
      quiet_steps.quiet_refl [of ?E "sync_exec ?E 5 ?e demo_sync_net"]
    by (simp add: demo_net_def Let_def)
qed


definition ack_env :: "jcv net_env" where
  "ack_env = \<lparr>ne_json = (jcv_model (\<lambda>_. ''{}''))\<lparr>jc_parse := (\<lambda>t. if t = ''{}'' then Some (CObj []) else
       Some (CObj [(''type'', CStr ''ack''), (''cmd'', CStr ''port_register''), (''seq'', CInt 1), (''ok'', CBool True)]))\<rparr>,
     ne_sql = stable_engine (\<lambda>_. True) (\<lambda>_. None), ne_ipc = (\<lambda>_. IpcWritten True)\<rparr>"



text \<open>
  C8.  An unacknowledged message is resent.  While a message is active, resendable and the
  broker connected, the periodic tick does nothing for 5 s after the last send, shows
  \<open>timeout\<close> and sends nothing until 8 s, and from then on every tick takes the next number
  of the board, hands the stored text with this number and the current configuration version
  to the publisher, restarts the clock and counts the retry.
\<close>

theorem unacked_message_resent:
  assumes "cfg_wf (sn_sync n)" "has_active_pending (sn_sync n)" "mqtt_is_connected (bn_mqtt n)" "cs_retryable (sn_sync n)"
    and "jc_parse (ne_json E) (cs_pending_snapshot (sn_sync n)) = Some doc"
  shows "let s = sn_sync n; n' = data_config_sync_tick E now n; s' = sn_sync n'; late = now - cs_last_send_ms s;
      json = resend_text (ne_json E) (cs_seq s + 1) (cs_config_version s) doc
    in (late < 5000 \<longrightarrow> n' = n)
     \<and> (5000 \<le> late \<and> late < 8000 \<longrightarrow> cs_status s' = ''timeout'' \<and> bn_mqtt n' = bn_mqtt n \<and> bn_offline n' = bn_offline n
          \<and> cs_pending_seq s' = cs_pending_seq s \<and> cs_last_send_ms s' = cs_last_send_ms s)
     \<and> (8000 \<le> late \<longrightarrow> cs_pending_seq s' = cs_seq s + 1 \<and> cs_last_send_ms s' = now
          \<and> cs_retry_count s' = cs_retry_count s + 1 \<and> cs_pending_snapshot s' = copy_text CONFIG_SYNC_PAYLOAD_MAX (Some json)
          \<and> (\<exists>m. bn_mqtt n' = bn_mqtt m \<and> bn_offline n' = bn_offline m
               \<and> m = snd (net_publish_or_cache (ne_sql E) now (Some ''gateway/register'') (Some json)
                            (Some (pending_meta now s)) (n\<lparr>sn_sync := s'\<rparr>))))"
proof -
  let ?late = "now - cs_last_send_ms (sn_sync n)"
  have "?late < 5000 \<or> 5000 \<le> ?late \<and> ?late < 8000 \<or> 8000 \<le> ?late" by linarith
  then consider "?late < 5000" | "5000 \<le> ?late" "?late < 8000" | "8000 \<le> ?late" by blast
  then show ?thesis
  proof cases
    case 1
    then show ?thesis using tick_quiet [OF assms(1-3), of now E] by (simp add: Let_def)
  next
    case 2
    note l = tick_late [OF assms(1-4) 2, of E, unfolded Let_def]
    have "cs_pending_seq (s\<lparr>cs_status := a, cs_message := b\<rparr>) = cs_pending_seq s"
      "cs_last_send_ms (s\<lparr>cs_status := a, cs_message := b\<rparr>) = cs_last_send_ms s" for s :: config_sync and a b by simp_all
    then have "cs_pending_seq (sn_sync (data_config_sync_tick E now n)) = cs_pending_seq (sn_sync n)"
      "cs_last_send_ms (sn_sync (data_config_sync_tick E now n)) = cs_last_send_ms (sn_sync n)"
      using l by metis+
    then show ?thesis using l 2 by (simp add: Let_def)
  next
    case 3
    then show ?thesis
      using tick_resends [OF assms(1-4) 3 assms(5)] unfolding Let_def MQTT_GATEWAY_REGISTER_TOPIC_def by auto
  qed
qed

theorem unacked_message_resent_witness:
  "cs_pending_seq (sn_sync (data_config_sync_tick ack_env 8005 two_marks)) = 50001
   \<and> cs_retry_count (sn_sync (data_config_sync_tick ack_env 8005 two_marks)) = 1
   \<and> data_config_sync_tick ack_env 5004 two_marks = two_marks"
proof -
  have "has_active_pending (sn_sync two_marks)" "mqtt_is_connected (bn_mqtt two_marks)" "cs_retryable (sn_sync two_marks)"
    by (simp_all add: has_active_pending_def mqtt_is_connected_def two_marks_state)
  moreover have "jc_parse (ne_json ack_env) (cs_pending_snapshot (sn_sync two_marks)) = Some (CObj [])"
    by (simp add: ack_env_def two_marks_state)
  ultimately show ?thesis
    using unacked_message_resent [OF two_marks_wf, of ack_env "CObj []" 8005]
      unacked_message_resent [OF two_marks_wf, of ack_env "CObj []" 5004]
    by (simp add: two_marks_state Let_def)
qed

text \<open>
  Changes of validity are found.  For the readings of at most 64 devices, in any order,
  the status cache of the publisher flags exactly those readings whose validity differs from
  that of the previous reading of the same device; the first reading of a device is never
  flagged.
\<close>

theorem validity_changes_found:
  assumes "card (reading_key ` set rs) \<le> 64"
  shows "let flags = fst (status_run rs status_cache_new) in length flags = length rs \<and>
    (\<forall>i < length rs. flags ! i \<longleftrightarrow>
       last_valid (take i rs) (reading_key (rs ! i)) = Some (\<not> dv_valid (snd (rs ! i))))"
  using assms by (rule status_run_spec)

theorem validity_changes_found_witness:
  "fst (status_run [(0, demo_reading), (1, demo_reading), (0, demo_reading\<lparr>dv_valid := False\<rparr>)] status_cache_new)
     = [False, False, True]"
proof -
  define rs :: "(int \<times> device_data) list" where "rs = [(0, demo_reading), (1, demo_reading), (0, demo_reading\<lparr>dv_valid := False\<rparr>)]"
  define flags where "flags = fst (status_run rs status_cache_new)"
  have "card (set (map reading_key rs)) \<le> length (map reading_key rs)" by (rule card_length)
  then have "card (reading_key ` set rs) \<le> 64" unfolding set_map by (simp add: rs_def)
  from validity_changes_found [OF this] have f: "length flags = 3" "\<forall>i < 3. flags ! i \<longleftrightarrow>
       last_valid (take i rs) (reading_key (rs ! i)) = Some (\<not> dv_valid (snd (rs ! i)))"
    unfolding flags_def [symmetric] Let_def by (simp_all add: rs_def numeral_3_eq_3)
  have "flags ! 0 = False" "flags ! 1 = False" "flags ! 2 = True"
    using f(2) by (simp_all add: last_valid_def reading_key_def demo_reading_def rs_def)
  then have "flags = [False, False, True]"
    using f(1) by (intro nth_equalityI) (auto simp: less_Suc_eq_0_disj numeral_3_eq_3 numeral_2_eq_2)
  then show ?thesis by (simp add: flags_def rs_def)
qed

section \<open>The commands of the board\<close>

text \<open>A board with its two worlds, for the examples: all I/O succeeds, one text is a command.\<close>

definition demo_json :: "jcv \<Rightarrow> jcv json_c" where
  "demo_json doc = (jcv_model (\<lambda>_. ''{}''))\<lparr>jc_parse := (\<lambda>s. if s = ''cmd'' then Some doc else None)\<rparr>"

definition demo_world :: "jcv \<Rightarrow> jcv board_world" where
  "demo_world doc = \<lparr>ne_json = demo_json doc, ne_sql = stable_engine (\<lambda>_. True) (\<lambda>_. None),
     ne_ipc = (\<lambda>_. IpcWritten True),
     bw_modbus = \<lparr>ml_gpio = (\<lambda>_. True), ml_connect = (\<lambda>_. True), ml_read_registers = (\<lambda>_ _ _ _. (2, [0, 0])),
       ml_read_bits = (\<lambda>_ _ _ _. (4, [])), ml_write_register = (\<lambda>_ _ _ _. 1),
       ml_write_bits = (\<lambda>_ _ _ xs. int (length xs))\<rparr>,
     bw_dir = (\<lambda>_. True), bw_write = (\<lambda>_ d. (True, Some d)), bw_dev = (\<lambda>_. [''ttyS1'']), bw_slot = 0, bw_connected = True\<rparr>"

definition demo_command :: jcv where
  "demo_command = CObj [(''seq'', CInt 7), (''cmd'', CStr ''scan_ports''), (''type'', CStr ''command'')]"

definition demo_clock :: "int \<Rightarrow> clock" where
  "demo_clock t = \<lparr>ck_now = t, ck_steady = t\<rparr>"

text \<open>
  C9.  Every command is answered.  When a message parses and names a command other than
  \<open>get_runtime_state\<close> (which sends the state itself), whatever the ports, the bus, the file
  system, the database and the broker do, an acknowledgement is written to the socket that
  carries the message's number, the command's name and the message's \<open>cmd_id\<close> cut to 127
  characters; its \<open>ok\<close> is true exactly when the command does not return an error, and its
  reason is empty exactly then.
\<close>

theorem command_answered:
  assumes "jc_parse (ne_json W) s = Some doc" "command_of (ne_json W) doc = Some cmd" "cmd \<noteq> ''get_runtime_state''"
  shows "let (ret, b') = data_command_process_message W ck (Some s) b
    in \<exists>members ms. is_answer (ne_json W) (message_id (ne_json W) doc) (message_seq (ne_json W) doc) cmd
         (ret \<noteq> CMD_PROCESS_ERROR) members
       \<and> prefix (bn_ipc b @ ms @ [jc_print (ne_json W) (jc_object (ne_json W) members)]) (bn_ipc b')"
  by (rule message_replies [OF assms])

theorem command_answered_witness:
  "let (ret, b') = data_command_process_message (demo_world demo_command) (demo_clock 5) (Some ''cmd'') (board_new [] 1 None)
   in \<exists>members ms. is_answer (demo_json demo_command) [] 7 ''scan_ports'' (ret \<noteq> CMD_PROCESS_ERROR) members
      \<and> prefix (ms @ [''{}'']) (bn_ipc b')"
proof -
  let ?C = "demo_json demo_command"
  have "jc_parse (ne_json (demo_world demo_command)) ''cmd'' = Some demo_command"
    "command_of (ne_json (demo_world demo_command)) demo_command = Some ''scan_ports''"
    "message_id ?C demo_command = []" "message_seq ?C demo_command = 7" "ne_json (demo_world demo_command) = ?C"
    "jc_print ?C x = ''{}''" "bn_ipc (board_new [] 1 (None :: jcv option)) = []" for x
    by (simp_all add: demo_world_def demo_json_def jcv_model_def demo_command_def command_of_def message_id_def
        message_seq_def json_get_string_any_def json_get_value_any_def jc_string_member_def non_null_def text_of_def
        board_new_def c_str_def)
  then show ?thesis
    using command_answered [of "demo_world demo_command" "''cmd''" demo_command "''scan_ports''" "demo_clock 5"
        "board_new [] 1 None"] by (simp add: Let_def split_def)
qed

text \<open>
  C10.  The socket is a stream of lines.  However the bytes are split over the reads, the
  board processes exactly the nonempty lines of the stream, in order, and keeps the bytes after
  the last newline; provided that no read is larger than its buffer (1023 bytes) and no line
  longer than 3072 bytes, which is what surely fits beside one more read.
\<close>

theorem stream_of_lines:
  assumes "\<forall>buf \<in> set bufs. length buf < IPC_BUF_SIZE" "newline \<notin> set (se_recv s)"
    and "\<forall>l \<in> set (pieces (se_recv s @ concat bufs)). length l \<le> RECV_BUF_SIZE - IPC_BUF_SIZE"
  shows "fold (ipc_process_received_data W ck) bufs s =
    \<lparr>se_recv = last (pieces (se_recv s @ concat bufs)),
     se_board = fold (ipc_message W ck) (stream_lines (se_recv s @ concat bufs)) (se_board s)\<rparr>"
  by (rule fold_reads [OF assms])

theorem stream_of_lines_witness:
  "let s = \<lparr>se_recv = ''c'', se_board = board_new [] 1 None\<rparr>; W = demo_world demo_command
   in fold (ipc_process_received_data W (demo_clock 5)) [''m'', ''d'' @ [newline, newline] @ ''n''] s
     = \<lparr>se_recv = ''n'', se_board = ipc_message W (demo_clock 5) ''cmd'' (board_new [] 1 None)\<rparr>"
proof -
  let ?s = "\<lparr>se_recv = ''c'', se_board = board_new [] 1 None\<rparr>"
  let ?bufs = "[''m'', ''d'' @ [newline, newline] @ ''n'']"
  have p: "pieces (se_recv ?s @ concat ?bufs) = [''cmd'', [], ''n'']" by (simp add: newline_def)
  have "\<forall>buf \<in> set ?bufs. length buf < IPC_BUF_SIZE" "newline \<notin> set (se_recv ?s)"
    "\<forall>l \<in> set (pieces (se_recv ?s @ concat ?bufs)). length l \<le> RECV_BUF_SIZE - IPC_BUF_SIZE"
    unfolding p by (simp_all add: newline_def IPC_BUF_SIZE_def RECV_BUF_SIZE_def)
  from stream_of_lines [OF this, of "demo_world demo_command" "demo_clock 5"] show ?thesis
    unfolding p stream_lines_def by (simp add: p)
qed

text \<open>
  C11.  The board stays well formed.  In every state its threads reach, in any order and
  whatever the outside does, the port manager keeps its invariant, the ring its shape,
  the rows of the offline table distinct ids and consistent send counts, the status cache one
  cell for each device; the \<open>cmd_id\<close> and the bytes received fit their buffers, and no line that
  has ended is left in the buffer.
\<close>

theorem board_stays_ok:
  assumes "service_reachable W initial s"
  shows "board_wf (bd_manager (se_board s)) \<and> ring_wf (mw_queue (bn_mqtt (se_board s)))
    \<and> store_wf (oq_db (bn_offline (se_board s))) \<and> status_wf (pb_status (se_board s))
    \<and> length (an_cmd_id (se_board s)) < 128 \<and> length (se_recv s) < 4096 \<and> newline \<notin> set (se_recv s)"
  using service_reachable_ok [OF assms] by (simp add: service_ok_def board_ok_def net_ok_def RECV_BUF_SIZE_def)

theorem board_stays_ok_witness:
  "let s = service_step (demo_world demo_command) (demo_clock 5) (EvRead ''cmd'')
        (service_step (demo_world demo_command) (demo_clock 4) (EvMqttInit True)
          \<lparr>se_recv = [], se_board = board_new [] 1 None\<rparr>)
   in board_wf (bd_manager (se_board s)) \<and> ring_wf (mw_queue (bn_mqtt (se_board s)))
    \<and> store_wf (oq_db (bn_offline (se_board s))) \<and> status_wf (pb_status (se_board s))
    \<and> length (an_cmd_id (se_board s)) < 128 \<and> length (se_recv s) < 4096 \<and> newline \<notin> set (se_recv s)"
  unfolding Let_def
  by (rule board_stays_ok [of "demo_world demo_command" None], (rule service_reachable.intros)+)
    (simp_all add: store_wf_def event_ok_def IPC_BUF_SIZE_def)

text \<open>
  C12.  The backlog drains.  While the board is connected with a working database, flushing is
  switched on and no registration is outstanding, let the MQTT thread poll at any times whatever (it does so every
  20 ms).  Twice the pending rows plus the messages in the ring are then never more than before,
  but for one message that each due heartbeat adds (10 s after the last one, or the first), and
  each due flush (200 ms after the last one) makes them one fewer.  So when the flushes due at
  these times have outnumbered the heartbeats by the backlog, the ring is empty and no row pends.
\<close>

theorem backlog_drains:
  assumes "sql_works (ne_sql W)" "sending b"
  shows "let load = (\<lambda>b. 2 * length (filter pending (od_rows (oq_db (bn_offline b)))) + queue_count (mw_queue (bn_mqtt b)));
      rest = left_after (mw_last_heartbeat_ms (bn_mqtt b)) (mw_last_flush_ms (bn_mqtt b)) cks (load b);
      b' = poll_rounds W cks b
    in load b' \<le> rest
     \<and> (rest = 0 \<longrightarrow> queue_items (mw_queue (bn_mqtt b')) = [] \<and> filter pending (od_rows (oq_db (bn_offline b'))) = [])"
proof -
  have "backlog (poll_rounds W cks b) \<le> left_after (mw_last_heartbeat_ms (bn_mqtt b)) (mw_last_flush_ms (bn_mqtt b)) cks (backlog b)"
    using rounds_shrink [OF assms] by simp
  then show ?thesis by (auto simp: backlog_def Let_def simp flip: count_items)
qed

definition alarm_row :: OfflineRow where
  "alarm_row = new_row 1 5 ''t'' ''alarm'' (PublishMeta_default\<lparr>pm_messageType := ''alarm_event'',
     pm_priority := 3\<rparr>)"

definition ready_queue :: "OfflineRow list \<Rightarrow> int \<Rightarrow> OfflinePublishQueue" where
  "ready_queue rows next = (OfflinePublishQueue_new rows next)
     \<lparr>oq_db := \<lparr>od_open = True, od_rows = rows, od_nextId = next, od_tick = 0\<rparr>, oq_sender := True,
      oq_initialized := True, oq_flushEnabled := True\<rparr>"

definition full_board :: "OfflineRow list \<Rightarrow> jcv board" where
  "full_board rows = (board_new rows 9 None)\<lparr>bn_mqtt := mqtt_wrapper_new\<lparr>mw_client := True, mw_connected := True,
     mw_last_heartbeat_ms := 100\<rparr>, bn_offline := (ready_queue rows 9)\<lparr>oq_cacheEnabled := True\<rparr>\<rparr>"

theorem backlog_drains_witness:
  "filter pending (od_rows (oq_db (bn_offline (poll_rounds (demo_world demo_command) (map demo_clock [300, 320, 340, 500, 520])
     (full_board [alarm_row]))))) = []"
proof -
  let ?b = "full_board [alarm_row]" and ?W = "demo_world demo_command"
  have "store_wf (oq_db (ready_queue [alarm_row] 9))"
    by (simp add: ready_queue_def store_wf_def alarm_row_def row_ok_new)
  then have "sending ?b"
    by (simp add: sending_def full_board_def board_new_def net_ok_def status_new sync_idle_def config_sync_new_def
        has_active_pending_def pending_zero_def CONFIG_SYNC_PENDING_MAX_def mqtt_wrapper_new_def ready_queue_def)
  moreover have "sql_works (ne_sql ?W)"
    using stable_engine_law by (simp add: demo_world_def sql_works_def stable_engine_def)
  moreover have "left_after (mw_last_heartbeat_ms (bn_mqtt ?b)) (mw_last_flush_ms (bn_mqtt ?b)) (map demo_clock [300, 320, 340, 500, 520])
      (2 * length (filter pending (od_rows (oq_db (bn_offline ?b)))) + queue_count (mw_queue (bn_mqtt ?b))) = 0"
    by (simp add: full_board_def board_new_def mqtt_wrapper_new_def demo_clock_def
        ready_queue_def pending_def alarm_row_def new_row_def queue_count_def mqtt_queue_new_def Let_def)
  ultimately show ?thesis using backlog_drains [of ?W ?b "map demo_clock [300, 320, 340, 500, 520]"] unfolding Let_def by blast
qed

text \<open>
  C13.  What a configuration snapshot lists.  For every slot the filter accepts, in order, it
  has one port with the slot's state, and under it the devices in memory that the filter accepts,
  in their order, followed by those the configuration file saves for the slot, in the order of
  the file; a saved device is listed only when it is valid, accepted, and not in memory.  So the
  search for a port never adds one.
\<close>

theorem snapshot_lists_devices:
  "snapshot_ports C g f m = map (\<lambda>slot. let ch = pmg_channels m slot in
       \<lparr>sp_slot = slot, sp_head = port_head C slot (ch_port ch) (ch_baud ch) (ch_connected ch),
        sp_devices = map (live_device C g slot (ch_connected ch))
             (filter (\<lambda>d. acceptsDevice f slot (md_id d)) (ch_devices ch))
          @ concat (map (\<lambda>item. case saved_key C f (exported_keys f m) item of None \<Rightarrow> []
               | Some (s, i) \<Rightarrow> if s = slot then [saved_snapshot_device C g s i item] else []) (saved_items C m))\<rparr>)
     (filter (acceptsSlot f) [0, 1])
   \<and> (\<forall>item slot i. saved_key C f (exported_keys f m) item = Some (slot, i) \<longrightarrow>
        validSlot slot \<and> acceptsSlot f slot \<and> 0 < i \<and> acceptsDevice f slot i
        \<and> i \<notin> md_id ` set (ch_devices (pmg_channels m slot)))"
proof -
  have slots: "[0..kSlotCount - 1] = [0, 1]" by (simp add: kSlotCount_def upto.simps)
  have keys: "(slot, i) \<in> exported_keys f m" if "validSlot slot" "acceptsSlot f slot" "acceptsDevice f slot i"
    "i \<in> md_id ` set (ch_devices (pmg_channels m slot))" for slot i
    using that by (auto simp: exported_keys_def exported_def validSlot_def)
  have "snapshot_ports C g f m = map (listed_port C g f m) (filter (acceptsSlot f) [0, 1])"
    unfolding snapshot_closed slots ..
  moreover have "validSlot slot \<and> acceptsSlot f slot \<and> 0 < i \<and> acceptsDevice f slot i
      \<and> i \<notin> md_id ` set (ch_devices (pmg_channels m slot))"
    if "saved_key C f (exported_keys f m) item = Some (slot, i)" for item slot i
    using saved_key_slot [OF that] keys by blast
  ultimately show ?thesis
    by (simp add: listed_port_def exported_def saved_devices_of_def Let_def)
qed

theorem snapshot_lists_devices_witness:
  "let C = jcv_model (\<lambda>_. ''{}''); item = CObj [(''slot'', CInt 0), (''slave_id'', CInt 3)];
       m = PortManager_new (Some (CObj [(''devices'', CArr [item])]))
   in validSlot 0 \<and> map (\<lambda>p. (sp_slot p, length (sp_devices p))) (snapshot_ports C ''g'' no_filter m) = [(0, 1), (1, 0)]"
proof -
  let ?C = "jcv_model (\<lambda>_. ''{}'')" and ?item = "CObj [(''slot'', CInt 0), (''slave_id'', CInt 3)]"
  let ?m = "PortManager_new (Some (CObj [(''devices'', CArr [?item])]))"
  have k: "saved_key ?C no_filter (exported_keys no_filter ?m) ?item = Some (0, 3)"
    by (simp add: saved_key_def exported_keys_def exported_def acceptsSlot_def acceptsDevice_def no_filter_def
        jcv_model_def jc_int_member_def PortManager_new_def PortChannel_new_def validSlot_def kSlotCount_def upto.simps)
  have items: "saved_items ?C ?m = [?item]"
    by (simp add: saved_items_def PortManager_new_def jc_array_member_def jcv_model_def)
  note s = snapshot_lists_devices [of ?C "''g''" no_filter ?m]
  show ?thesis
    using s k unfolding Let_def items
    by (auto simp: PortManager_new_def PortChannel_new_def acceptsSlot_def no_filter_def)
qed

section \<open>Telemetry\<close>

text \<open>
  C14.  Removed devices stay out.  After \<open>removeDeviceData\<close> at time t0 the service answers no
  point of that device, whatever calls follow in the next 30 s (late telemetry, registry
  snapshots, other removals, synchronisation, commands), as long as no call revives this very
  device (\<open>forgetRemovedDevice\<close> on it) or clears the service.
\<close>

theorem removed_device_stays_out:
  assumes "g \<noteq> []" "p \<noteq> []" "d > 0"
    and "\<forall>(now, e) \<in> set es. t0 \<le> now \<and> now < t0 + kRemovedDeviceIgnoreMs
           \<and> \<not> revives (removedDeviceKey g p d) e"
  shows "getLatestPointsForDevice g p d (svc_run es (snd (removeDeviceData t0 g p d s))) = []"
proof (rule kept_out_no_points, rule kept_out_run)
  show "kept_out g p d (t0 + kRemovedDeviceIgnoreMs) (snd (removeDeviceData t0 g p d s))"
    by (rule removeDevice_kept_out [OF assms(1-3)])
qed (use assms(4) in auto)

definition late_point :: TelemetryPoint where
  "late_point = TelemetryPoint_default\<lparr>tp_pointId := ''p'', tp_gatewayId := ''g'',
     tp_portId := ''COM1'', tp_deviceId := 1\<rparr>"

theorem removed_device_stays_out_witness:
  "getLatestPointsForDevice ''g'' ''COM1'' 1
     (svc_run [(5, EvTelemetry [late_point]), (29999, EvTelemetry [late_point])]
        (snd (removeDeviceData 0 ''g'' ''COM1'' 1 (handleTelemetryPoints 0 [late_point] svc_init)))) = []"
  by (rule removed_device_stays_out) (simp_all add: kRemovedDeviceIgnoreMs_def)

section \<open>The data service\<close>

text \<open>
  C15.  The invariant of PcDataService.  In every state that calls of its operations can
  reach under a clock that does not go back, the registration tables are backed by stored
  records under their own keys, the three synchronisation tables agree, every pending command
  is stored under its own nonempty id, and every snapshot point is stored under its own
  nonempty id with a receive time that is not in the future.
\<close>

theorem service_invariant:
  "svc_reachable t s \<Longrightarrow> reg_wf s \<and> sync_wf s \<and> cmd_wf s \<and> snap_wf t s"
  using reachable_inv by (simp add: svc_inv_def)

theorem service_invariant_witness:
  "let s = svc_exec 7 (EvTelemetry [late_point]) (svc_exec 3 (EvRemoveDevice ''g'' ''COM1'' 1) svc_init)
   in reg_wf s \<and> sync_wf s \<and> cmd_wf s \<and> snap_wf 7 s"
  unfolding Let_def
  by (rule service_invariant) (rule svc_reachable.event [OF svc_reachable.event [OF svc_reachable.start [of 0]]],
      simp_all)

text \<open>
  A configuration synchronisation completes once.  After \<open>beginSyncConfigRequest\<close> has
  queued an entry for each selected gateway, completing these entries once each, in any
  order, returns exactly one result: it is ready, successful iff every gateway succeeded,
  sums the counts of all of them, and carries the reason of the last failure; afterwards no
  entry of the request is pending.
\<close>

theorem sync_request_completes_once:
  assumes "sync_wf s" "beginSyncConfigRequest now targets s = (ps, s')" "ps \<noteq> []"
    and acks: "mset (map fst acks) = mset (map sp_seq ps)"
  shows "\<exists>s''. complete_all acks s' = ([\<lparr>sr_ready = True, sr_success = list_all ack_ok acks,
             sr_message = (if list_all ack_ok acks then sync_success
                           else ack_reason (last (filter (\<lambda>a. \<not> ack_ok a) acks))),
             sr_portCount = sum_list (map ack_ports acks),
             sr_deviceCount = sum_list (map ack_devices acks)\<rparr>], s'')
           \<and> (\<forall>p \<in> set ps. findSyncPending (sp_seq p) s'' = None)"
proof -
  note b = beginSyncConfigRequest_fst [OF assms(1), of now targets]
  have ps: "numbered (m_nextSyncRequestId s) now (m_nextSyncSeq s) targets = ps"
    using b(1) assms(2) by simp
  let ?a = "SyncConfigResult_default\<lparr>sr_success := True, sr_message := sync_success\<rparr>"
  have c: "fst (complete_all acks s') = [finish_result (merge_all acks ?a)]"
    "\<forall>p \<in> set ps. findSyncPending (sp_seq p) (snd (complete_all acks s')) = None"
    using complete_all_request [OF _ _ _ acks, of s' "m_nextSyncRequestId s" ?a] b assms(2,3) ps by auto
  have "finish_result (merge_all acks ?a) =
      \<lparr>sr_ready = True, sr_success = list_all ack_ok acks,
       sr_message = (if list_all ack_ok acks then sync_success
                     else ack_reason (last (filter (\<lambda>a. \<not> ack_ok a) acks))),
       sr_portCount = sum_list (map ack_ports acks), sr_deviceCount = sum_list (map ack_devices acks)\<rparr>"
    by (simp add: finish_result_def merge_all_fields SyncConfigResult_default_def sync_success_def)
  then show ?thesis using c by (metis prod.collapse)
qed

definition two_gateways :: "SyncGatewaySelection list" where
  "two_gateways = map (\<lambda>g. \<lparr>sg_gatewayId = g, sg_devices = [\<lparr>sd_portId = ''COM1'', sd_deviceId = 1\<rparr>]\<rparr>)
     [''g1'', ''g2'']"

lemma two_gateways_begin:
  "map sp_seq (fst (beginSyncConfigRequest 0 two_gateways svc_init)) = [1, 2]"
  by (simp add: beginSyncConfigRequest_def two_gateways_def begin_target_def svc_init_def Let_def)

theorem sync_request_completes_once_witness:
  "\<exists>s''. complete_all [(2, False, ''busy'', 0, 0), (1, True, [], 2, 5)]
      (snd (beginSyncConfigRequest 0 two_gateways svc_init))
    = ([\<lparr>sr_ready = True, sr_success = False, sr_message = ''busy'', sr_portCount = 2,
         sr_deviceCount = 5\<rparr>], s'')"
proof -
  let ?b = "beginSyncConfigRequest 0 two_gateways svc_init"
  have "mset (map fst [(2, False, ''busy'', 0, 0), (1, True, [], 2, 5)]) = mset (map sp_seq (fst ?b))"
    "fst ?b \<noteq> []"
    using two_gateways_begin by (auto simp: add_mset_commute)
  from sync_request_completes_once [OF sync_wf_init prod.collapse [symmetric] this(2,1)]
  show ?thesis by (auto simp: ack_defs)
qed

text \<open>
  A command is reported as late at most once per kind of timeout: however often the
  soft and the hard timeouts are collected, and whatever happens in between, a command id
  that is not stored again appears at most once in all the soft notices and at most once in
  all the hard notices.
\<close>

theorem command_timeouts_reported_once:
  assumes "cmd_wf s" "\<forall>(now, e) \<in> set es. \<not> remembers k e"
  shows "count_list (soft_trace es s) k \<le> 1 \<and> count_list (hard_trace es s) k \<le> 1"
  using notices_bound [OF assms]
  by (force simp: soft_left_def hard_left_def split: option.splits if_splits)

definition slow_command :: PendingCommandTarget where
  "slow_command = \<lparr>ct_commandId = ''c'', ct_uiSeq = 1, ct_boardSeq = 1, ct_commandType = ''relay'',
     ct_gatewayId = ''g'', ct_portId = ''COM1'', ct_deviceId = 1, ct_requestTimeMs = 0,
     ct_timeoutNotified = False, ct_hardTimeoutNotified = False\<rparr>"

theorem command_timeouts_reported_once_witness:
  "let s = rememberPendingCommand slow_command svc_init;
       es = [(1, EvSoftTimeouts 10 5), (2, EvHardTimeouts 20 9), (3, EvSoftTimeouts 30 5)]
   in soft_trace es s = [''c''] \<and> count_list (soft_trace es s) ''c'' \<le> 1
      \<and> count_list (hard_trace es s) ''c'' \<le> 1"
proof -
  let ?s = "rememberPendingCommand slow_command svc_init"
  let ?es = "[(1, EvSoftTimeouts 10 5), (2, EvHardTimeouts 20 9), (3, EvSoftTimeouts 30 5)]"
  have "soft_trace ?es ?s = [''c'']"
    by (simp add: slow_command_def rememberPendingCommand_def svc_init_def um_values_def soft_due_def
        hard_due_def collectCommandSoftTimeouts_def collectCommandHardTimeouts_def Let_def)
  moreover have "count_list (soft_trace ?es ?s) ''c'' \<le> 1 \<and> count_list (hard_trace ?es ?s) ''c'' \<le> 1"
    by (rule command_timeouts_reported_once) (simp_all add: command_ops_wf cmd_wf_init)
  ultimately show ?thesis unfolding Let_def by blast
qed

text \<open>
  A full registry snapshot replaces exactly one gateway.  After
  \<open>replaceGatewayRegistry\<close> for gateway g the device stored under a key is the last device
  of the snapshot that belongs to g and has that key; without one it is the device stored
  before, except that a full snapshot drops the devices of g.  So the devices of other
  gateways are untouched unless the snapshot writes their key.
\<close>

theorem registry_replaced:
  assumes "g \<noteq> []"
  shows "getDeviceByKey g' p d (replaceGatewayRegistry g ps ds cs full s) =
     (case last_device g (registryDeviceKey g' p d) ds of Some r \<Rightarrow> Some r
      | None \<Rightarrow> (case getDeviceByKey g' p d s of None \<Rightarrow> None
                | Some r \<Rightarrow> if full \<and> dr_gatewayId r = g then None else Some r))"
  by (simp add: getDeviceByKey_def replaceGatewayRegistry_find [OF assms] cong: option.case_cong)

definition some_device :: "string \<Rightarrow> string \<Rightarrow> DeviceRecord" where
  "some_device g ty = DeviceRecord_default\<lparr>dr_gatewayId := g, dr_portId := ''COM1'', dr_deviceId := 1,
     dr_deviceType := ty\<rparr>"

theorem registry_replaced_witness:
  "getDeviceByKey ''g'' ''COM1'' 1 (replaceGatewayRegistry ''g'' [] [some_device ''g'' ''relay''] [] True
     (updateDeviceRegistry [some_device ''g'' ''meter''] svc_init)) = Some (some_device ''g'' ''relay'')"
  by (simp add: registry_replaced some_device_def last_device_def own_device_def device_key_def)

text \<open>
  The registration test agrees with the registry.  In every reachable state
  \<open>deviceRegistered\<close> is true exactly when \<open>getDeviceByKey\<close> finds a record, that record
  carries the ids asked for when no port id contains the separator, and a nonempty
  \<open>registeredDeviceType\<close> is the type of the stored record.
\<close>

theorem device_registered_iff_stored:
  assumes "svc_reachable t s"
  shows "deviceRegistered g p d s = (getDeviceByKey g p d s \<noteq> None)
       \<and> (registeredDeviceType g p d s = [] \<or>
          map_option dr_deviceType (getDeviceByKey g p d s) = Some (registeredDeviceType g p d s))
       \<and> (CHR ''/'' \<notin> set p \<longrightarrow> (\<forall>r. getDeviceByKey g p d s = Some r \<and> CHR ''/'' \<notin> set (dr_portId r)
            \<longrightarrow> dr_gatewayId r = g \<and> dr_portId r = p \<and> dr_deviceId r = d))"
proof -
  have wf: "reg_wf s" using reachable_inv [OF assms] by (simp add: svc_inv_def)
  show ?thesis
    using reg_wfD(1,4) [OF wf, of "registryDeviceKey g p d"] registryDeviceKey_inject
    by (auto simp: deviceRegistered_def getDeviceByKey_def registeredDeviceType_def split: option.splits)
qed

theorem device_registered_iff_stored_witness:
  "deviceRegistered ''g'' ''COM1'' 1 (svc_exec 1 (EvDevices [some_device ''g'' ''relay'']) svc_init) =
     (getDeviceByKey ''g'' ''COM1'' 1 (svc_exec 1 (EvDevices [some_device ''g'' ''relay'']) svc_init) \<noteq> None)"
  using device_registered_iff_stored [OF svc_reachable.event [OF svc_reachable.start [of 0], of 1
        "EvDevices [some_device ''g'' ''relay'']"]]
  by simp

text \<open>
  The snapshot after a batch of points.  With no stored point from the future, the
  service answers for a point id the last accepted point of the batch with that id, stamped
  with the receive time; otherwise the old point, unless its device sent accepted points in
  this batch, in which case the old point is gone.
\<close>

theorem snapshot_after_batch:
  assumes "snap_wf t s" "t \<le> now"
  shows "getPointById k (handleTelemetryPoints now ps s) =
     (let acc = accepted_points now (pruneExpiredRemovedDevicesLocked now s) ps
      in case last_with_id k acc of Some p \<Rightarrow> Some p
         | None \<Rightarrow> (case getPointById k s of None \<Rightarrow> None
                   | Some q \<Rightarrow> if telemetryDeviceKey q \<in> telemetryDeviceKey ` set acc
                              then None else Some q))"
proof -
  have "tp_receiveTimeMs q \<le> now" if "um_find (m_snapshot s) j = Some q" for j q
    using assms that unfolding snap_wf_def by fastforce
  then show ?thesis by (simp add: getPointById_def handleTelemetryPoints_find Let_def cong: option.case_cong)
qed

theorem snapshot_after_batch_witness:
  "getPointById ''p'' (handleTelemetryPoints 9 [late_point] svc_init) = Some (late_point\<lparr>tp_receiveTimeMs := 9\<rparr>)"
proof -
  have "snap_wf 0 svc_init" by (simp add: snap_wf_def svc_init_def lookup_simps)
  from snapshot_after_batch [OF this, of 9 "''p''" "[late_point]"] show ?thesis
    by (simp add: accepted_points_def late_point_def point_blocked_def isRemovedDeviceLocked_def
        isRemovedMasterLocked_def pruneExpiredRemovedDevicesLocked_def svc_init_def lookup_simps
        last_with_id_def TelemetryPoint_default_def)
qed

text \<open>
  Nothing of a pack is lost.  When the devices of a pack have distinct ids and none of
  them is under a removal, every point the converter makes of the pack can be read back from
  the service under its id, with the receive time of the call.  (\<open>handleTelemetryPack\<close> is a function
  of the service that nothing calls; for the live intake see C1 and C23.)
\<close>

theorem pack_readable:
  assumes "snap_wf t s" "t \<le> now" "distinct (map dd_deviceId (pk_devices pack))"
    and "\<forall>p \<in> set (toTelemetryPoints pack). \<not> point_blocked (pruneExpiredRemovedDevicesLocked now s) p"
    and "p \<in> set (toTelemetryPoints pack)"
  shows "getPointById (tp_pointId p) (handleTelemetryPack now pack s) = Some (p\<lparr>tp_receiveTimeMs := now\<rparr>)"
  using pack_point_stored [OF assms] .

definition th_device :: "int \<Rightarrow> DeviceData" where
  "th_device i = \<lparr>dd_deviceId = i, dd_deviceName = [], dd_type = DT_SensorTH, dd_valid = True,
     dd_errorMessage = [], dd_pointKeys = [], dd_th = \<lparr>th_temperature = Fin 25, th_humidity = Fin 60\<rparr>,
     dd_meter = \<lparr>em_voltage = Fin 0, em_current = Fin 0, em_power = Fin 0, em_energy = Fin 0\<rparr>,
     dd_relay = \<lparr>rd_relayStates = 0, rd_channelCount = 16\<rparr>,
     dd_sys = \<lparr>si_kernel = [], si_arch = [], si_os = [], si_screenWidth = 0, si_screenHeight = 0,
       si_cpuUsage = Fin 0, si_memoryUsage = Fin 0\<rparr>\<rparr>"

definition th_pack :: TelemetryPack where
  "th_pack = \<lparr>pk_version = 1, pk_sequence = 1, pk_timestampMs = 5, pk_sourceId = [], pk_targetId = [],
     pk_site = \<lparr>sc_factoryId = ''f'', sc_factoryName = [], sc_areaId = ''a'', sc_areaName = [],
       sc_gatewayId = ''g'', sc_gatewayName = [], sc_portId = ''COM1'', sc_portName = []\<rparr>,
     pk_devices = [th_device 1, th_device 2]\<rparr>"

theorem pack_readable_witness:
  "map_option tp_numberValue (getPointById ''f.a.g.COM1.2.humidity'' (handleTelemetryPack 9 th_pack svc_init))
     = Some (Fin 60)"
proof -
  let ?p = "fill_point th_pack (th_device 2) ''humidity'' ''Humidity'' [CHR 0x25] PV_Number (Fin 60) []"
  have p: "?p \<in> set (toTelemetryPoints th_pack)"
    by (simp add: toTelemetryPoints_def th_pack_def append_defs th_device_def)
  have "snap_wf 0 svc_init" by (simp add: snap_wf_def svc_init_def lookup_simps)
  moreover have "distinct (map dd_deviceId (pk_devices th_pack))" by (simp add: th_pack_def th_device_def)
  moreover have "\<forall>p \<in> set (toTelemetryPoints th_pack).
      \<not> point_blocked (pruneExpiredRemovedDevicesLocked 9 svc_init) p"
    by (simp add: point_blocked_def isRemovedDeviceLocked_def isRemovedMasterLocked_def
        pruneExpiredRemovedDevicesLocked_def svc_init_def lookup_simps)
  moreover have "tp_pointId ?p = ''f.a.g.COM1.2.humidity''"
    by code_simp
  ultimately show ?thesis using pack_readable [OF _ _ _ _ p, of 0 svc_init 9] by simp
qed

section \<open>The desktop service as a whole\<close>

text \<open>A desktop service for the examples: every call succeeds, and every text parses as the document.\<close>

definition demo_pc_env :: "jv \<Rightarrow> jv pc_env" where
  "demo_pc_env doc = \<lparr>pe_json = jv_dom (\<lambda>_. Inr doc) (\<lambda>_. None), pe_print = (\<lambda>_. ''{}''),
     pe_db = plain_db (\<lambda>_. True), pe_pipe = (\<lambda>_. PipeWrote 100000), pe_paho = (\<lambda>_. True), pe_save = (\<lambda>_. True)\<rparr>"

definition demo_device_row :: DeviceRow where
  "demo_device_row = device_row (DeviceRecord_default\<lparr>dr_gatewayId := ''g'', dr_portId := ''p'', dr_deviceId := 3\<rparr>)"

definition demo_tables :: PcTables where
  "demo_tables = PcTables_empty\<lparr>tb_device := [demo_device_row]\<rparr>"

lemma demo_tables_wf: "pcdb_wf demo_tables"
proof -
  have "table_refs T demo_tables = {}" for T by (cases T) (simp_all add: demo_tables_def PcTables_empty_def)
  moreover have "rows_wf demo_tables"
    by (simp add: rows_wf_def keys_wf_def demo_tables_def PcTables_empty_def row_wf_def demo_device_row_def
        device_row_def Let_def)
  ultimately show ?thesis by (simp add: pcdb_wf_def stray_refs_def)
qed

text \<open>A running service: an open database with one device.\<close>

definition demo_pc :: PcData where
  "demo_pc = (PcData_new demo_tables (loadMqttConfig (jv_dom (\<lambda>_. Inr JNull) (\<lambda>_. None)) None))
     \<lparr>pw_db := (PcDatabase_new demo_tables)\<lparr>pd_open := True\<rparr>\<rparr>"

text \<open>
  C16.  The invariant of the desktop database.  In every state the service reaches from well
  formed tables, by any sequence of MQTT messages, requests of the user interface, rounds of
  its workers and broker events, and whatever statements fail as long as no failure makes SQLite
  roll a transaction back by itself (as a full disk or an I/O error can), the tables a restart
  would find have unique keys, and every row of the status, latest value, history and
  configuration tables belongs to a device that is registered and not deleted.
\<close>

theorem pcdata_database_invariant:
  assumes "pc_reachable E now W" "\<forall>n. \<not> de_undo (pe_db E) n"
  shows "let t = durable (pw_db W);
      used = row_ref ` {r \<in> set (tb_device t). \<not> dt_deleted r \<and> dt_status r \<noteq> ''deleted''}
    in keys_wf t \<and> status_ref ` set (tb_device_status t) \<subseteq> used \<and> point_ref ` set (tb_latest t) \<subseteq> used
     \<and> point_ref ` set (tb_history t) \<subseteq> used \<and> config_ref ` set (tb_config t) \<subseteq> used"
proof -
  let ?t = "durable (pw_db W)"
  have wf: "pcdb_wf ?t"
    using pc_reachable_inv [OF assms(1)] assms(2) by (simp add: pc_inv_def durable_wf_def undoes_none_def)
  have used: "{k. used_device ?t k} = row_ref ` {r \<in> set (tb_device ?t). \<not> dt_deleted r \<and> dt_status r \<noteq> ''deleted''}"
    unfolding used_device_def device_tomb_def by blast
  have "table_refs T ?t \<subseteq> {k. used_device ?t k}" if "T \<noteq> T_alarm_event" for T
    using wf that unfolding pcdb_wf_def stray_refs_def by (metis (no_types, lifting) Collect_empty_eq subsetI mem_Collect_eq)
  from this [of T_device_status] this [of T_latest_point] this [of T_telemetry_history] this [of T_point_config]
  show ?thesis using wf by (simp add: Let_def used pcdb_wf_def rows_wf_def)
qed

theorem pcdata_database_invariant_witness:
  "\<exists>W. pc_reachable (demo_pc_env JNull) 5 W \<and> keys_wf (durable (pw_db W)) \<and> tb_device (pd_tables (pw_db W)) = [demo_device_row]"
proof -
  let ?E = "demo_pc_env JNull"
  let ?W = "pc_start ?E 5 True False (PcData_new demo_tables (loadMqttConfig (pe_json ?E) None))"
  have r: "pc_reachable ?E 5 ?W" by (rule pc_started [OF demo_tables_wf])
  have "tb_device (pd_tables (pw_db ?W)) = [demo_device_row]"
    by (simp add: pc_start_def openDatabase_def in_db_def seed_registry_def db_isOpen_def PcData_new_def PcDatabase_new_def
        mqtt_connect_def Let_def case_prod_beta demo_tables_def)
  moreover have "keys_wf (durable (pw_db ?W))"
    using pcdata_database_invariant [OF r] by (simp add: demo_pc_env_def plain_db_def Let_def)
  ultimately show ?thesis using r by blast
qed

text \<open>
  C17.  What leaves the desktop service.  In every state it reaches, each write to the pipe of
  the user interface is the beginning of one line, every message it has published has a topic
  that is not empty and has no wildcard, at most 256 messages wait in its telemetry queue, and
  the point that waits to be stored under an id has that id.
\<close>

theorem pcdata_outputs_invariant:
  assumes "pc_reachable E now W"
  shows "(\<forall>w \<in> set (ip_out (pw_ipc W)). \<exists>m n. CHR 0x0A \<notin> set m \<and> w = take n (m @ [CHR 0x0A]))
    \<and> (\<forall>(topic, payload) \<in> set (mt_sent (pw_mqtt W)). topic \<noteq> [] \<and> CHR ''#'' \<notin> set topic \<and> CHR ''+'' \<notin> set topic)
    \<and> length (pw_telemetryQueue W) \<le> 256
    \<and> (\<forall>(k, p) \<in> set (um_entries (pw_pendingDb W)). k \<noteq> [] \<and> tp_pointId p = k)"
proof -
  note inv = pc_reachable_inv [OF assms, unfolded pc_inv_def isValidPublishTopic_def kMaxTelemetryQueueSize_def]
  have "\<forall>w \<in> set (ip_out (pw_ipc W)). line_prefix w" "\<forall>(k, p) \<in> set (um_entries (pw_pendingDb W)). k \<noteq> [] \<and> tp_pointId p = k"
    using inv by (auto simp: um_find_entries)
  then show ?thesis using inv unfolding line_prefix_def one_line_def by blast
qed

theorem pcdata_outputs_invariant_witness:
  "let W = ui_connected (demo_pc_env JNull) (pc_start (demo_pc_env JNull) 5 True False
       (PcData_new demo_tables (loadMqttConfig (pe_json (demo_pc_env JNull)) None)))
   in ip_out (pw_ipc W) \<noteq> [] \<and> (\<forall>w \<in> set (ip_out (pw_ipc W)). \<exists>m n. CHR 0x0A \<notin> set m \<and> w = take n (m @ [CHR 0x0A]))"
proof -
  let ?E = "demo_pc_env JNull"
  let ?W = "pc_start ?E 5 True False (PcData_new demo_tables (loadMqttConfig (pe_json ?E) None))"
  have "pc_reachable ?E 5 (ui_connected ?E ?W)"
    by (rule pc_stepped [where e = UiConnected, OF pc_started [OF demo_tables_wf]]) simp_all
  note all = pcdata_outputs_invariant [OF this]
  have "ip_client (pw_ipc (W\<lparr>pw_ipc := ipc_clientConnected (pw_ipc W)\<rparr>))" for W by (simp add: ipc_clientConnected_def)
  then have "ip_out (pw_ipc (ui_connected ?E ?W)) \<noteq> []"
    by (simp add: ui_connected_def in_order_def send_all_snapshots_def sendDevicesSnapshot_def sendLatestPoints_def
        sendPortStatusSnapshot_def sendGatewayStatusSnapshot_def ui_tell_def ui_send_def ipc_sendMessage_def
        ipc_clientConnected_def demo_pc_env_def Let_def case_prod_beta)
  then show ?thesis using all by (simp add: Let_def)
qed

text \<open>
  C18.  A transaction of the database is all or nothing.  Saving points, configurations or a
  device, and deleting a device, a port or the runtime data, started outside a transaction,
  end outside of one when they report success; when they report failure the tables a restart
  would find are those from before.  For saving and deleting a device and for the runtime data,
  which stop at the first failure, this holds for every failure; for saving points and
  configurations and deleting a port, which go on after some, as long as no failure makes SQLite
  roll the transaction back by itself.
\<close>

theorem transaction_all_or_nothing:
  assumes "pd_saved db = None" "is_transaction w" "run_write E w db = (ok, db')"
    and "(\<forall>n. \<not> de_undo E n) \<or> (case w of Wr_device _ _ \<Rightarrow> True | Wr_delete _ _ _ _ \<Rightarrow> True | Wr_clear \<Rightarrow> True | _ \<Rightarrow> False)"
  shows "if ok then pd_saved db' = None else durable db' = pd_tables db"
proof -
  have "undoes_none E \<or> stops_at_failure w" using assms(4) by (cases w) (auto simp: undoes_none_def)
  then show ?thesis by (rule transaction_outcome [OF _ assms(1-3)])
qed

theorem transaction_all_or_nothing_witness:
  "\<exists>db'. run_write (plain_db (\<lambda>n. n \<noteq> 2)) Wr_clear (pw_db demo_pc) = (False, db') \<and> durable db' = demo_tables"
proof -
  let ?db = "pw_db demo_pc"
  obtain db' where e: "run_write (plain_db (\<lambda>n. n \<noteq> 2)) Wr_clear ?db = (False, db')"
    by (simp add: clearRuntimeData_def demo_pc_def PcDatabase_new_def db_begin_def plain_db_def db_stmt_def db_failed_def
        db_finish_def Let_def case_prod_beta)
  have "pd_saved ?db = None" "is_transaction Wr_clear" "pd_tables ?db = demo_tables"
    by (simp_all add: demo_pc_def PcDatabase_new_def)
  then show ?thesis using transaction_all_or_nothing [OF _ _ e] e by simp
qed

text \<open>
  The condition is needed.  When marking the first of two devices of a port fails and SQLite rolls
  the transaction back, \<open>deleteMasterData\<close> goes on: the second device is marked as deleted at
  once, its row of the status table stays, and the deletion reports failure.
\<close>

definition undoing_db :: db_engine where
  "undoing_db = (plain_db (\<lambda>n. n \<noteq> 2))\<lparr>de_undo := (\<lambda>_. True)\<rparr>"

definition two_devices :: PcDatabase where
  "two_devices = (PcDatabase_new PcTables_empty)\<lparr>pd_open := True, pd_tables := PcTables_empty
     \<lparr>tb_device := [demo_device_row, demo_device_row\<lparr>dt_deviceId := 4\<rparr>],
      tb_device_status := [\<lparr>ds_gatewayId = ''g'', ds_portId = ''p'', ds_deviceId = 4, ds_status = ''online'', ds_lastSeenMs = 1,
        ds_lastOfflineMs = 0, ds_statusReason = [], ds_updateTimeMs = 1\<rparr>]\<rparr>\<rparr>"

theorem port_deletion_broken_off:
  "let (ok, db) = run_write undoing_db (Wr_master 5 ''g'' ''p'') two_devices in \<not> ok
     \<and> map (\<lambda>r. (dt_deviceId r, dt_deleted r)) (tb_device (durable db)) = [(3, False), (4, True)]
     \<and> map ds_deviceId (tb_device_status (durable db)) = [4]"
  by code_simp



text \<open>
  C20.  A history query.  What a successful query answers is in the order of time and not longer
  than the limit (1000 without one, at most 5000); every point comes from a row of that point
  id in the range asked for; and a row in the range is missing only when the answer has
  reached the limit and nothing in it is newer than that row.
\<close>

theorem history_complete:
  assumes "db_laws E" "queryHistoryPoints E pointId startMs endMs limit db = ((ps, True, why), db')"
  shows "let most = (if limit \<le> 0 then 1000 else min limit 5000);
      asked = {r \<in> set (tb_history (pd_tables db)). in_history pointId startMs endMs r} in
    sorted (map tp_timestampMs ps) \<and> int (length ps) \<le> most
    \<and> set ps \<subseteq> history_point pointId ` asked
    \<and> asked \<subseteq> {r. history_point pointId r \<in> set ps} \<union> {r. int (length ps) = most
         \<and> Max (set (map tp_timestampMs ps)) \<le> tp_timestampMs r}"
proof -
  note h = history_answer [OF assms]
  let ?most = "if limit \<le> 0 then 1000 else min limit 5000"
  have limit: "history_limit limit = ?most" "0 < ?most" by (simp_all add: history_limit_def)
  then have reached: "length ps = nat (history_limit limit) \<longleftrightarrow> int (length ps) = ?most" by linarith
  have "Max (set (map tp_timestampMs ps)) \<le> x"
    if "int (length ps) = ?most" "\<forall>p \<in> set ps. tp_timestampMs p \<le> x" for x
  proof -
    have "ps \<noteq> []" using that(1) limit(2) by auto
    then show ?thesis using that(2) by simp
  qed
  then have full: "r \<in> {r. history_point pointId r \<in> set ps} \<union> {r. int (length ps) = ?most
      \<and> Max (set (map tp_timestampMs ps)) \<le> tp_timestampMs r}"
    if "r \<in> set (tb_history (pd_tables db))" "in_history pointId startMs endMs r" for r
    using h(4) [OF that] unfolding reached by blast
  have "set ps \<subseteq> history_point pointId ` {r \<in> set (tb_history (pd_tables db)). in_history pointId startMs endMs r}"
    using h(3) by blast
  moreover have "int (length ps) \<le> ?most" using h(2) limit by linarith
  ultimately show ?thesis using h(1) full unfolding Let_def by blast
qed

theorem history_complete_witness:
  "let p = TelemetryPoint_default\<lparr>tp_pointId := ''p'', tp_timestampMs := 7\<rparr>;
       db = (pw_db demo_pc)\<lparr>pd_tables := demo_tables\<lparr>tb_history := [p\<lparr>tp_timestampMs := 9\<rparr>, p, p\<lparr>tp_timestampMs := 3\<rparr>]\<rparr>\<rparr>;
       ((ps, ok, why), db') = queryHistoryPoints (plain_db (\<lambda>_. True)) ''p'' 5 0 0 db
   in map tp_timestampMs ps = [7, 9] \<and> sorted (map tp_timestampMs ps)"
proof -
  let ?p = "TelemetryPoint_default\<lparr>tp_pointId := ''p'', tp_timestampMs := 7\<rparr>"
  let ?db = "(pw_db demo_pc)\<lparr>pd_tables := demo_tables\<lparr>tb_history := [?p\<lparr>tp_timestampMs := 9\<rparr>, ?p, ?p\<lparr>tp_timestampMs := 3\<rparr>]\<rparr>\<rparr>"
  obtain ps db' where e: "queryHistoryPoints (plain_db (\<lambda>_. True)) ''p'' 5 0 0 ?db = ((ps, True, []), db')"
    "map tp_timestampMs ps = [7, 9]"
    by (simp add: queryHistoryPoints_def demo_pc_def PcDatabase_new_def db_query_def plain_db_def history_end_def
        history_limit_def history_point_def c_str_def Let_def)
  then show ?thesis using history_complete [OF plain_db_laws e(1)] by (simp add: Let_def)
qed

text \<open>
  C21.  A command of the user interface is answered once.  Unless it ends the process, handling a
  command tells the user interface exactly one line, a command acknowledgement with the id of
  the command; if that reports success, exactly one message was published and the command is
  among the pending commands of the service when the handling ends, and otherwise nothing was
  published and the service has not changed.
\<close>

theorem ui_command_answered:
  assumes "handle_command E now msg W = Some W'"
  shows "let cmdId = extractJsonStringValue msg ''cmd_id'' in
    \<exists>ok reason seq kind stage message boardSeq g p d.
      pw_ipc W' = snd (ipc_sendMessage E
        (buildCommandAckJson now cmdId ok reason seq kind stage message boardSeq g p d) (pw_ipc W))
    \<and> (if ok then findPendingCommand cmdId (pw_service W') \<noteq> None
           \<and> (\<exists>topic payload. mt_sent (pw_mqtt W') = mt_sent (pw_mqtt W) @ [(topic, payload)])
       else pw_service W' = pw_service W \<and> mt_sent (pw_mqtt W') = mt_sent (pw_mqtt W))"
proof -
  let ?c = "extractJsonStringValue msg ''cmd_id''"
  obtain ok where ok: "ack_told E now ?c ok W W'" "if ok then command_sent ?c W W' else command_dropped W W'"
    using command_handled [OF assms] by (auto simp: command_done_def split: if_splits)
  obtain reason seq kind stage message boardSeq g p d where told: "pw_ipc W' = snd (ipc_sendMessage E
      (buildCommandAckJson now ?c ok reason seq kind stage message boardSeq g p d) (pw_ipc W))"
    using ok(1) unfolding ack_told_def by (elim exE)
  have kept: "if ok then findPendingCommand ?c (pw_service W') \<noteq> None
           \<and> (\<exists>topic payload. mt_sent (pw_mqtt W') = mt_sent (pw_mqtt W) @ [(topic, payload)])
       else pw_service W' = pw_service W \<and> mt_sent (pw_mqtt W') = mt_sent (pw_mqtt W)"
    using ok(2) by (cases ok) (simp_all only: if_True if_False command_sent_def command_dropped_def simp_thms)
  show ?thesis unfolding Let_def by (intro exI) (rule conjI [OF told kept])
qed

text \<open>Reading the documents of the examples.\<close>

lemmas demo_read = demo_pc_env_def jv_dom_def parse_object_def getJsonString_def obj_member_def getJsonStringAny_def
  getJsonInt64Any_def getJsonInt64_def member_object_def c_str_def jv_int_in_def jv_int_def

definition demo_ui_text :: string where
  "demo_ui_text = CHR 0x22 # ''cmd_id'' @ CHR 0x22 # CHR '':'' # CHR 0x22 # ''k1'' @ [CHR 0x22]"

definition demo_ui_command :: jv where
  "demo_ui_command = JObj [(''cmd'', JStr ''get_config''), (''gatewayId'', JStr ''g''), (''seq'', JInt 4)]"

definition demo_online :: PcData where
  "demo_online = demo_pc\<lparr>pw_mqtt := PcMqtt_new\<lparr>mt_client := True\<rparr>, pw_ipc := ipc_clientConnected PcIpc_new\<rparr>"

theorem ui_command_answered_witness:
  "\<exists>W' ok reason seq kind stage message boardSeq g p d.
     handle_command (demo_pc_env demo_ui_command) 5 demo_ui_text demo_online = Some W'
   \<and> ip_out (pw_ipc W') = [take 100000 (buildCommandAckJson 5 ''k1'' ok reason seq kind stage message boardSeq g p d @ [CHR 0x0A])]"
proof -
  let ?E = "demo_pc_env demo_ui_command"
  have id: "extractJsonStringValue demo_ui_text ''cmd_id'' = ''k1''"
    using extractJsonStringValue_first [of "[]" "''cmd_id''" "''k1'' @ [CHR 0x22]"] by (simp add: demo_ui_text_def)
  have p: "parse_object (pe_json ?E) demo_ui_text = Some demo_ui_command"
    by (simp add: demo_read demo_ui_command_def)
  have c: "read_command (pe_json ?E) demo_ui_text demo_ui_command
      = \<lparr>uc_id = ''k1'', uc_kind = ''get_config'', uc_gateway = ''g'', uc_port = [], uc_seq = 4\<rparr>"
    by (simp add: read_command_def id commandNameFrom_def sequenceFrom_def demo_read demo_ui_command_def nonempty_or_def)
  obtain W' where W': "handle_command ?E 5 demo_ui_text demo_online = Some W'"
    by (simp add: handle_command_def p c isRemoteCommandAllowed_def remote_commands_def bad_target_def isGatewayCommand_def)
  obtain ok reason seq kind stage message boardSeq g p d where "pw_ipc W' = snd (ipc_sendMessage ?E
      (buildCommandAckJson 5 ''k1'' ok reason seq kind stage message boardSeq g p d) (pw_ipc demo_online))"
    using ui_command_answered [OF W'] by (auto simp: Let_def id)
  then have "ip_out (pw_ipc W') = [take 100000 (buildCommandAckJson 5 ''k1'' ok reason seq kind stage message boardSeq g p d @ [CHR 0x0A])]"
    by (simp add: ipc_sendMessage_def demo_online_def ipc_clientConnected_def PcIpc_new_def demo_pc_env_def Let_def)
  then show ?thesis using W' by blast
qed

text \<open>
  C22.  A final acknowledgement counts once.  When an acknowledgement whose stage is done arrives
  on the topic of a port, either nothing changes, or its command is no longer pending afterwards;
  and in every state in which its command is not pending it changes nothing.  So a repetition has
  no effect unless a command with the same id has become pending again in between.
\<close>

theorem final_ack_once:
  assumes "parsePortUpTopic topic = Some (tg, tp)" "parse_object (pe_json E) payload = Some doc"
    "getJsonString (pe_json E) doc ''stage'' = ''done''"
  shows "let cmdId = getJsonStringAny (pe_json E) doc [''cmd_id'', ''cmdId'', ''commandId''];
      W' = handle_ack E now topic payload W
    in (W' = W \<or> findPendingCommand cmdId (pw_service W') = None)
     \<and> (\<forall>later V. findPendingCommand cmdId (pw_service V) = None \<longrightarrow> handle_ack E later topic payload V = V)
     \<and> (\<forall>later. handle_ack E later topic payload W' = W')"
  using final_ack_cases [OF assms, of W now] not_pending_ack [OF assms] final_ack_twice [OF assms]
  by (auto simp: Let_def forgot_def findPendingCommand_def)

definition demo_ack :: jv where
  "demo_ack = JObj [(''cmd_id'', JStr ''k1''), (''stage'', JStr ''done''), (''ok'', JBool True)]"

theorem final_ack_once_witness:
  "let W = do_service (rememberCommand 5 \<lparr>uc_id = ''k1'', uc_kind = ''discover'', uc_gateway = ''g'', uc_port = [],
         uc_seq = 4\<rparr> 0) demo_online;
       W' = handle_ack (demo_pc_env demo_ack) 6 ''gateway/g/port_1/up'' ''ack'' W
   in findPendingCommand ''k1'' (pw_service W) \<noteq> None
    \<and> handle_ack (demo_pc_env demo_ack) 99 ''gateway/g/port_1/up'' ''ack'' W' = W'"
proof -
  have t: "parsePortUpTopic ''gateway/g/port_1/up'' = Some (''g'', ''port_1'')" by code_simp
  have d: "parse_object (pe_json (demo_pc_env demo_ack)) ''ack'' = Some demo_ack" by (simp add: demo_read demo_ack_def)
  have s: "getJsonString (pe_json (demo_pc_env demo_ack)) demo_ack ''stage'' = ''done''" by (simp add: demo_read demo_ack_def)
  have "findPendingCommand ''k1'' (pw_service (do_service (rememberCommand 5 \<lparr>uc_id = ''k1'', uc_kind = ''discover'',
      uc_gateway = ''g'', uc_port = [], uc_seq = 4\<rparr> 0) demo_online)) \<noteq> None"
    by (simp add: do_service_def rememberCommand_def rememberPendingCommand_def findPendingCommand_def lookup_simps)
  then show ?thesis using final_ack_once [OF t d s] unfolding Let_def by blast
qed

text \<open>
  C23.  Telemetry is stored only for devices that are registered and not removed.  Whatever pack
  arrives on whatever topic, each point it puts into the queue of the database names the
  gateway and the port of the topic, both registered, and a device that was registered and
  not marked as removed when the pack was handled.
\<close>

theorem telemetry_of_known_devices:
  "set (um_entries (pw_pendingDb (handleTelemetryMessage E now topic payload W)))
   \<subseteq> set (um_entries (pw_pendingDb W)) \<union> {(k, q). tp_pointId q = k
      \<and> parsePortUpTopic topic = Some (tp_gatewayId q, tp_portId q)
      \<and> gatewayRegistered (tp_gatewayId q) (pw_service W) \<and> portRegistered (tp_gatewayId q) (tp_portId q) (pw_service W)
      \<and> deviceRegistered (tp_gatewayId q) (tp_portId q) (tp_deviceId q) (pw_service W)
      \<and> \<not> isRemovedDeviceLocked (tp_gatewayId q) (tp_portId q) (tp_deviceId q)
            (pruneExpiredRemovedDevicesLocked now (pw_service W))}"
  using telemetry_known [of E now topic payload W] unfolding device_welcome_def um_find_entries by fast

text \<open>
  C24.  Deleting a device.  When the database deletes a device at the request of the user
  interface, no row of the status, value, configuration, history and alarm tables names it any
  more, every row of it in the device table is marked as deleted, the service answers no
  point of it and marks it as removed.  The list of devices the service answers, however, is
  the one from before: the deleted device is still in it.
\<close>

theorem device_deletion:
  assumes "deleteDeviceData (pe_db E) now g p d (pw_db W) = (True, db')" "pd_open (pw_db W)"
  shows "let W' = handle_delete_device E now g p d W; t = pd_tables (pw_db W') in
    pw_db W' = db' \<and> pd_saved db' = None
    \<and> bind_ref g p d \<notin> status_ref ` set (tb_device_status t) \<union> point_ref ` set (tb_latest t)
         \<union> config_ref ` set (tb_config t) \<union> point_ref ` set (tb_history t) \<union> alarm_ref ` set (tb_alarm t)
    \<and> filter (\<lambda>r. row_ref r = bind_ref g p d \<and> \<not> dt_deleted r) (tb_device t) = []
    \<and> filter (same_device g p d) (getLatestPoints (pw_service W')) = []
    \<and> isRemovedDeviceLocked g p d (pw_service W')
    \<and> getDeviceRegistrySnapshot (pw_service W') = getDeviceRegistrySnapshot (pw_service W)"
proof -
  note del = device_deleted [OF assms(1)] and req = delete_request [OF assms refl]
  have named: "g \<noteq> []" "p \<noteq> []" "0 < d"
    using assms(1) by (auto simp: deleteDeviceData_def no_ref_def split: if_splits)
  note svc = removed_from_service [OF named, where now = now and s = "pw_service W"]
  have gone: "bind_ref g p d \<notin> table_refs T (pd_tables db')" for T by (simp add: del(3))
  have rows: "filter (\<lambda>r. row_ref r = bind_ref g p d \<and> \<not> dt_deleted r) (tb_device (pd_tables db')) = []"
    by (auto simp: del(2) filter_empty_conv tomb_row_def row_ref_def)
  have points: "filter (same_device g p d) (getLatestPoints (snd (removeDeviceData now g p d (pw_service W)))) = []"
    using svc(1) by (simp add: filter_empty_conv)
  show ?thesis
    using gone [of T_device_status] gone [of T_latest_point] gone [of T_point_config] gone [of T_telemetry_history]
      gone [of T_alarm_event] rows points svc(2,3) del(1)
    by (simp add: Let_def req)
qed

theorem device_deletion_witness:
  "let W = do_service (rememberDeviceRegistry (DeviceRecord_default\<lparr>dr_gatewayId := ''g'', dr_portId := ''p'', dr_deviceId := 3\<rparr>)) demo_pc;
       W' = handle_delete_device (demo_pc_env JNull) 5 ''g'' ''p'' 3 W
   in isRemovedDeviceLocked ''g'' ''p'' 3 (pw_service W') \<and> map dr_deviceId (getDeviceRegistrySnapshot (pw_service W')) = [3]"
proof -
  let ?W = "do_service (rememberDeviceRegistry (DeviceRecord_default\<lparr>dr_gatewayId := ''g'', dr_portId := ''p'', dr_deviceId := 3\<rparr>)) demo_pc"
  have db: "pw_db ?W = (PcDatabase_new demo_tables)\<lparr>pd_open := True\<rparr>" by (simp add: do_service_def demo_pc_def)
  obtain db' where "deleteDeviceData (pe_db (demo_pc_env JNull)) 5 ''g'' ''p'' 3 (pw_db ?W) = (True, db')"
    by (simp add: db deleteDeviceData_def no_ref_def db_begin_def markDeviceDeleted_def db_stmt_def device_tables_def
        deleteRowsByDevice_def db_finish_def db_commit_def demo_pc_env_def plain_db_def PcDatabase_new_def Let_def)
  from device_deletion [OF this] db have "isRemovedDeviceLocked ''g'' ''p'' 3 (pw_service (handle_delete_device (demo_pc_env JNull) 5 ''g'' ''p'' 3 ?W))"
    "getDeviceRegistrySnapshot (pw_service (handle_delete_device (demo_pc_env JNull) 5 ''g'' ''p'' 3 ?W))
      = getDeviceRegistrySnapshot (pw_service ?W)" by (simp_all add: Let_def)
  moreover have "map dr_deviceId (getDeviceRegistrySnapshot (pw_service ?W)) = [3]"
    by (simp add: getDeviceRegistrySnapshot_def do_service_def demo_pc_def PcData_new_def svc_init_def
        rememberDeviceRegistry_def device_named_def put_device_def add_gateway_def um_values_def)
  ultimately show ?thesis by (simp add: Let_def)
qed

text \<open>
  C25.  A heartbeat wipes what the service knew of a gateway.  When a heartbeat or status
  message of a known gateway is accepted and stored, the database keeps the gateway's name,
  factory and area, but the record the service answers, and sends to the user interface, is a
  new one with empty name, factory and area.
\<close>

theorem heartbeat_wipes_names:
  assumes "(if heartbeat then parseGatewayHeartbeat else parseGatewayStatus) (pe_json E) now payload = Some (g, ts, st)"
    and "isValidGatewayUpTopic topic g" "g \<noteq> []" "pd_open (pw_db W)"
    and "de_ok (pe_db E) (pd_tick (pw_db W))" "de_ok (pe_db E) (Suc (pd_tick (pw_db W)))"
    and "c_str g \<in> gs_gatewayId ` set (tb_status (pd_tables (pw_db W)))"
  shows "let W' = handle_gateway_status E now heartbeat topic payload W;
      about = map (\<lambda>r. (gs_gatewayId r, gs_gatewayName r, gs_factoryId r, gs_areaId r)) in
    about (tb_status (pd_tables (pw_db W'))) = about (tb_status (pd_tables (pw_db W)))
    \<and> um_find (m_gatewayStatuses (pw_service W')) g = Some \<lparr>gs_gatewayId = g, gs_gatewayName = [], gs_factoryId = [],
        gs_areaId = [], gs_status = st, gs_lastRegisterTimeMs = 0, gs_lastHeartbeatTimeMs = ts, gs_updateTimeMs = ts\<rparr>"
  using heartbeat_handled [OF assms refl] assms(3)
  by (simp add: Let_def updateGatewayStatus_def updateGatewayStatuses_def heartbeat_status_def add_gateway_def lookup_simps)

definition demo_beat :: jv where
  "demo_beat = JObj [(''gatewayId'', JStr ''g''), (''timestampMs'', JInt 70), (''status'', JStr ''online'')]"

definition demo_known :: PcData where
  "demo_known = demo_pc\<lparr>pw_db := (pw_db demo_pc)\<lparr>pd_tables := demo_tables\<lparr>tb_status :=
     [\<lparr>gs_gatewayId = ''g'', gs_gatewayName = ''north'', gs_factoryId = [], gs_areaId = [], gs_status = ''online'',
       gs_lastRegisterTimeMs = 1, gs_lastHeartbeatTimeMs = 2, gs_updateTimeMs = 2\<rparr>]\<rparr>\<rparr>\<rparr>"

theorem heartbeat_wipes_names_witness:
  "let W' = handle_gateway_status (demo_pc_env demo_beat) 71 False ''gateway/g/up'' ''beat'' demo_known
   in map gs_gatewayName (tb_status (pd_tables (pw_db W'))) = [''north'']
    \<and> map_option gs_gatewayName (um_find (m_gatewayStatuses (pw_service W')) ''g'') = Some []"
proof -
  let ?E = "demo_pc_env demo_beat"
  have "parseGatewayStatus (pe_json ?E) 71 ''beat'' = Some (''g'', 70, ''online'')"
    by (simp add: parseGatewayStatus_def extractGatewayIdCompat_def site_text_def
        nonempty_or_def demo_read demo_beat_def Let_def)
  then have "(if False then parseGatewayHeartbeat else parseGatewayStatus) (pe_json ?E) 71 ''beat'' = Some (''g'', 70, ''online'')"
    by simp
  moreover have "isValidGatewayUpTopic ''gateway/g/up'' ''g''" by code_simp
  moreover have "pd_open (pw_db demo_known)" "de_ok (pe_db ?E) n" for n
    by (simp_all add: demo_known_def demo_pc_def demo_pc_env_def plain_db_def)
  moreover have "c_str ''g'' \<in> gs_gatewayId ` set (tb_status (pd_tables (pw_db demo_known)))"
    by (simp add: demo_known_def c_str_def)
  ultimately have "let W' = handle_gateway_status ?E 71 False ''gateway/g/up'' ''beat'' demo_known;
      about = map (\<lambda>r. (gs_gatewayId r, gs_gatewayName r, gs_factoryId r, gs_areaId r)) in
    about (tb_status (pd_tables (pw_db W'))) = about (tb_status (pd_tables (pw_db demo_known)))
    \<and> um_find (m_gatewayStatuses (pw_service W')) ''g'' = Some \<lparr>gs_gatewayId = ''g'', gs_gatewayName = [], gs_factoryId = [],
        gs_areaId = [], gs_status = ''online'', gs_lastRegisterTimeMs = 0, gs_lastHeartbeatTimeMs = 70, gs_updateTimeMs = 70\<rparr>"
    by (intro heartbeat_wipes_names) simp_all
  then show ?thesis by (auto simp: Let_def demo_known_def map_eq_Cons_conv)
qed

text \<open>
  C26.  Devices that time out are not shown.  The scan of every second marks each device whose
  telemetry is older than 30 s as offline in the database, but leaves the service as it is,
  and the list it then sends is made from the service: the user interface is told the state
  from before.  (Outside a transaction; in one that was left open, unless SQLite gives it up.)
\<close>

theorem offline_scan_not_shown:
  assumes "pd_open (pw_db W)" "0 < now" "de_ok (pe_db E) (pd_tick (pw_db W))"
    and "pd_saved (pw_db W) = None \<or> \<not> de_undo (pe_db E) (Suc (pd_tick (pw_db W)))"
    and "s \<in> set (tb_device_status (pd_tables (pw_db W)))" "device_timed_out (pd_tables (pw_db W)) now 30000 s"
  shows "let W' = offline_scan E now W in
    s\<lparr>ds_status := ''offline'', ds_lastOfflineMs := now, ds_statusReason := ''telemetry_timeout'', ds_updateTimeMs := now\<rparr>
      \<in> set (tb_device_status (pd_tables (pw_db W')))
    \<and> pw_service W' = pw_service W
    \<and> (\<exists>lines. ip_out (pw_ipc W') = ip_out (pw_ipc W) @ lines \<and> set lines \<subseteq> {take n (m @ [CHR 0x0A]) | m n.
          m \<in> {buildDevicesSnapshotJson (getDeviceRegistrySnapshot (pw_service W)),
               buildGatewayStatusSnapshotJson (getGatewayStatusSnapshot (pw_service W))}})"
  unfolding Let_def by (intro conjI scan_marks [OF assms] scan_service scan_told [unfolded told_def])

definition demo_silent :: DeviceStatusRow where
  "demo_silent = \<lparr>ds_gatewayId = ''g'', ds_portId = ''p'', ds_deviceId = 3, ds_status = ''online'', ds_lastSeenMs = 1,
     ds_lastOfflineMs = 0, ds_statusReason = [], ds_updateTimeMs = 1\<rparr>"

theorem offline_scan_not_shown_witness:
  "let W = demo_pc\<lparr>pw_db := (pw_db demo_pc)\<lparr>pd_tables := demo_tables\<lparr>tb_device_status := [demo_silent]\<rparr>\<rparr>\<rparr>;
       W' = offline_scan (demo_pc_env JNull) 40000 W
   in ''offline'' \<in> ds_status ` set (tb_device_status (pd_tables (pw_db W'))) \<and> pw_service W' = pw_service W"
proof -
  let ?W = "demo_pc\<lparr>pw_db := (pw_db demo_pc)\<lparr>pd_tables := demo_tables\<lparr>tb_device_status := [demo_silent]\<rparr>\<rparr>\<rparr>"
  have "row_ref demo_device_row = status_ref demo_silent \<and> device_active demo_device_row"
    by (simp add: demo_device_row_def device_row_def device_active_def row_ref_def status_ref_def demo_silent_def c_str_def Let_def
        DeviceRecord_default_def)
  then have "device_timed_out (pd_tables (pw_db ?W)) 40000 30000 demo_silent"
    by (simp add: device_timed_out_def demo_tables_def demo_silent_def)
  moreover have "pd_open (pw_db ?W)" "(0 :: int) < 40000" "de_ok (pe_db (demo_pc_env JNull)) (pd_tick (pw_db ?W))"
    "pd_saved (pw_db ?W) = None \<or> \<not> de_undo (pe_db (demo_pc_env JNull)) (Suc (pd_tick (pw_db ?W)))"
    "demo_silent \<in> set (tb_device_status (pd_tables (pw_db ?W)))"
    by (simp_all add: demo_pc_def demo_pc_env_def plain_db_def)
  ultimately have "let W' = offline_scan (demo_pc_env JNull) 40000 ?W in
    demo_silent\<lparr>ds_status := ''offline'', ds_lastOfflineMs := 40000, ds_statusReason := ''telemetry_timeout'', ds_updateTimeMs := 40000\<rparr>
      \<in> set (tb_device_status (pd_tables (pw_db W'))) \<and> pw_service W' = pw_service ?W"
    using offline_scan_not_shown [of ?W 40000 "demo_pc_env JNull" demo_silent] unfolding Let_def by blast
  then show ?thesis by (force simp: Let_def)
qed

text \<open>
  C27.  The messages that end the desktop service.  Handling an event fails to return only for
  bytes of the user interface that complete a command with a relay state that is neither a
  boolean nor an integer, or a threshold or device command with a port id whose digits exceed
  the range of an int; every other event of any content is handled to its end.
\<close>

theorem fatal_messages:
  assumes "pc_step E now ev W = None"
  shows "\<exists>bytes msg doc. ev = UiBytes bytes \<and> msg \<in> set (fst (ipc_processReceivedData bytes (pw_ipc W)))
    \<and> parse_object (pe_json E) msg = Some doc
    \<and> (let J = pe_json E; c = read_command J msg doc; digits = filter (\<lambda>c. CHR ''0'' \<le> c \<and> c \<le> CHR ''9'') (uc_port c) in
        uc_kind c = ''set_relay'' \<and> (\<exists>states. relay_states J (payloadObjectOrRoot J doc) = Some states
          \<and> filter (\<lambda>v. \<not> rj_is_bool J v \<and> \<not> rj_is_int J v) (rj_elements J states) \<noteq> [])
        \<or> uc_kind c \<in> set [''set_device_threshold'', ''set_threshold'', ''add_device'', ''remove_device'']
          \<and> stoi digits = None \<and> digits \<noteq> [])"
  using step_fatal [OF assms] unfolding fatal_message_def Let_def filter_empty_conv by blast

definition demo_bad_relay :: jv where
  "demo_bad_relay = JObj [(''type'', JStr ''command''), (''cmd'', JStr ''set_relay''), (''gatewayId'', JStr ''g''),
     (''portId'', JStr ''port_1''), (''seq'', JInt 4), (''slot'', JInt 0), (''slave_id'', JInt 3),
     (''states'', JArr [JStr ''on''])]"

definition demo_relay_text :: string where
  "demo_relay_text = demo_ui_text @ jtext ''type'' ''command''"

lemma demo_relay_fatal:
  assumes "\<not> pd_open (pw_db W)"
  shows "ipc_handle (demo_pc_env demo_bad_relay) 5 demo_relay_text W = None"
proof -
  let ?E = "demo_pc_env demo_bad_relay"
  have id: "extractJsonStringValue demo_relay_text ''cmd_id'' = ''k1''"
    using extractJsonStringValue_first [of "[]" "''cmd_id''" "''k1'' @ CHR 0x22 # jtext ''type'' ''command''"]
    by (simp add: demo_relay_text_def demo_ui_text_def)
  have p: "parse_object (pe_json ?E) demo_relay_text = Some demo_bad_relay"
    by (simp add: demo_read demo_bad_relay_def)
  have kind: "typed_object (pe_json ?E) kind demo_relay_text = (if ''command'' = kind then Some demo_bad_relay else None)" for kind
    by (simp add: typed_object_def p) (simp add: demo_read demo_bad_relay_def)
  have words: "\<not> mentions demo_relay_text ''get_gateway_status''" "\<not> mentions demo_relay_text ''get_port_status''"
    "\<not> mentions demo_relay_text ''get_devices''" "\<not> mentions demo_relay_text ''get_latest_points''"
    "\<not> mentions demo_relay_text ''get_snapshot''" "mentions demo_relay_text (jtext ''type'' ''command'')"
    by code_simp+
  have c: "read_command (pe_json ?E) demo_relay_text demo_bad_relay
      = \<lparr>uc_id = ''k1'', uc_kind = ''set_relay'', uc_gateway = ''g'', uc_port = ''port_1'', uc_seq = 4\<rparr>"
    by (simp add: read_command_def id commandNameFrom_def sequenceFrom_def demo_read demo_bad_relay_def nonempty_or_def)
  have r: "payloadObjectOrRoot (pe_json ?E) demo_bad_relay = demo_bad_relay"
    "getJsonInt (pe_json ?E) demo_bad_relay ''slot'' k = 0" "deviceIdFrom (pe_json ?E) demo_bad_relay = 3"
    "relay_states (pe_json ?E) demo_bad_relay = Some (JArr [JStr ''on''])"
    "those (map (relay_state_text (pe_json ?E)) (rj_elements (pe_json ?E) (JArr [JStr ''on'']))) = None" for k
    by (simp_all add: payloadObjectOrRoot_def object_or_def deviceIdFrom_def getJsonIntAny_def getJsonInt_def relay_states_def
        relay_state_text_def demo_read demo_bad_relay_def int_min_def int_max_def)
  have "makePortCommandTopic ''g'' ''port_1'' \<noteq> []" by (simp add: makePortCommandTopic_def)
  moreover have "fst (open_port_command ?E 5 u d W)" for u d
    using assms by (simp add: open_port_command_def log_command_def db_note_def db_try_def db_isOpen_def Let_def)
  ultimately have "handle_command ?E 5 demo_relay_text W = None"
    by (simp add: handle_command_def p c isRemoteCommandAllowed_def remote_commands_def bad_target_def
        handle_relay_command_def r case_prod_beta Let_def)
  then show ?thesis
    by (simp add: ipc_handle_def kind parseSyncConfigRequest_def isSyncConfigRequest_def parseHistoryQuery_def
        parseGetAlarmEventsRequest_def parseAckAlarmRequest_def parseDeleteDeviceRequest_def parseDeleteMasterRequest_def
        parseClearRecoveredAlarmsRequest_def parseClearAcknowledgedAlarmsRequest_def parseClearAllDataRequest_def
        parseGetMqttConfigRequest_def parseSaveMqttConfigRequest_def handle_plain_def words)
qed

definition demo_closed :: PcData where
  "demo_closed = demo_online\<lparr>pw_db := PcDatabase_new demo_tables\<rparr>"

theorem fatal_messages_witness:
  "pc_step (demo_pc_env demo_bad_relay) 5 (UiBytes (demo_relay_text @ [CHR 0x0A])) demo_closed = None
   \<and> (\<exists>msg doc. msg \<in> set (fst (ipc_processReceivedData (demo_relay_text @ [CHR 0x0A]) (pw_ipc demo_closed)))
       \<and> parse_object (pe_json (demo_pc_env demo_bad_relay)) msg = Some doc)"
proof -
  have "CHR 0x0A \<notin> set demo_relay_text" "demo_relay_text \<noteq> []" "length demo_relay_text < 100" "last demo_relay_text \<noteq> CHR 0x0D"
    by code_simp+
  then have "ipc_processReceivedData (demo_relay_text @ [CHR 0x0A]) (pw_ipc demo_closed) = ([demo_relay_text], pw_ipc demo_closed)"
    by (simp add: ipc_processReceivedData_def demo_closed_def demo_online_def ipc_clientConnected_def PcIpc_new_def
        maxBufferSize_def split_lines.simps trim_cr_def takeWhile_append dropWhile_append Let_def)
  then have "pc_step (demo_pc_env demo_bad_relay) 5 (UiBytes (demo_relay_text @ [CHR 0x0A])) demo_closed = None"
    by (simp add: ui_received_def demo_relay_fatal demo_closed_def PcDatabase_new_def)
  then show ?thesis using fatal_messages by blast
qed

section \<open>The user interface\<close>

definition demo_marker :: "string \<Rightarrow> char option" where
  "demo_marker t = List.find (\<lambda>c. c \<in> set (map snd (filter (\<lambda>(a, b). a = CHR ''%'') (zip t (tl t))))) ''123456789''"

fun demo_put :: "char \<Rightarrow> string \<Rightarrow> string \<Rightarrow> string" where
  "demo_put c a (x # y # t) = (if x = CHR ''%'' \<and> y = c then a @ demo_put c a t else x # demo_put c a (y # t))"
| "demo_put c a t = t"

text \<open>A Qt for the witnesses: values are \<open>jv\<close>, \<open>parse\<close> is the text of the frames of a witness, and
  \<open>QString::arg\<close> replaces the marker with the least number by each argument in turn.\<close>

definition demo_qt :: "(string \<Rightarrow> jv option) \<Rightarrow> jv qt" where
  "demo_qt parse =
    \<lparr>qv_value = (\<lambda>v k. case v of JObj ms \<Rightarrow> (case map_of ms k of None \<Rightarrow> JNull | Some x \<Rightarrow> x) | _ \<Rightarrow> JNull),
     qv_has = (\<lambda>v k. case v of JObj ms \<Rightarrow> k \<in> set (map fst ms) | _ \<Rightarrow> False),
     qv_object = (\<lambda>v. case v of JObj _ \<Rightarrow> True | _ \<Rightarrow> False),
     qv_number = (\<lambda>v. case v of JInt _ \<Rightarrow> True | JReal _ \<Rightarrow> True | _ \<Rightarrow> False), qv_absent = (\<lambda>v. v = JNull),
     qv_string = (\<lambda>v d. case v of JStr t \<Rightarrow> t | _ \<Rightarrow> d), qv_int = (\<lambda>v d. case v of JInt i \<Rightarrow> i | _ \<Rightarrow> d),
     qv_double = (\<lambda>v d. case v of JReal x \<Rightarrow> x | JInt i \<Rightarrow> Fin (of_int i) | _ \<Rightarrow> d),
     qv_bool = (\<lambda>v d. case v of JBool b \<Rightarrow> b | _ \<Rightarrow> d), qv_long = (\<lambda>v. case v of JInt i \<Rightarrow> i | _ \<Rightarrow> 0),
     qv_list = (\<lambda>v. case v of JArr vs \<Rightarrow> vs | _ \<Rightarrow> []), qt_parse = parse, qt_compact = (\<lambda>_. ''m''),
     qt_arg = foldl (\<lambda>t a. case demo_marker t of None \<Rightarrow> t | Some c \<Rightarrow> demo_put c a t),
     qt_stamp = to_string, qt_trimmed = id, qt_true = (\<lambda>v. v = JBool True),
     qt_map = (\<lambda>v. case v of JObj ms \<Rightarrow> ms | _ \<Rightarrow> []), qt_write = (\<lambda>_ _. True)\<rparr>"

definition demo_ui_row :: jv where
  "demo_ui_row = JObj [(''factoryId'', JStr ''f''), (''areaId'', JStr ''a''), (''gatewayId'', JStr ''g''), (''portId'', JStr ''p''),
     (''deviceId'', JInt 3), (''status'', JStr ''online''), (''lastSeenMs'', JInt 4)]"

definition demo_devices :: jv where
  "demo_devices = JObj [(''type'', JStr ''devices_snapshot''), (''devices'', JArr [demo_ui_row])]"

definition demo_removed :: jv where
  "demo_removed = JObj [(''type'', JStr ''command_ack''), (''cmd'', JStr ''remove_device''), (''stage'', JStr ''done''),
     (''ok'', JBool True), (''status'', JStr ''success''), (''gatewayId'', JStr ''g''), (''portId'', JStr ''p''), (''deviceId'', JInt 3)]"

text \<open>The frame \<open>s\<close> is the snapshot, \<open>r\<close> the acknowledgement of the removal.\<close>

definition demo_frames :: "string \<Rightarrow> jv option" where
  "demo_frames frame = (if frame = ''s'' then Some demo_devices else if frame = ''r'' then Some demo_removed else None)"

definition demo_es :: "(int \<times> ui_event) list" where
  "demo_es = [(5, SocketConnected), (6, SocketData ''s''), (7, SocketData [newline])]"

lemma demo_es_times: "\<forall>(t, e) \<in> set demo_es. 0 < t"
  by (simp add: demo_es_def)

lemma demo_qt_parse: "qt_parse (demo_qt parse) = parse"
  by (simp add: demo_qt_def)

text \<open>
  C28.  The pages and the managers agree.  After any run of the window from its start the mirror
  of the state store has an entry under exactly the keys of the device manager; under each key
  both name the same gateway, port and device, and so do the values that are shown; and every
  device with values is a device of the device manager.
\<close>

theorem ui_mirror_agrees:
  assumes "\<forall>(t, e) \<in> set es. 0 < t"
  shows "let s = ui_store (ui_run Q es MainWindow_new); devices = dm_devices (dt_device (st_data s)) in
      (\<forall>k. um_find (st_devices s) k = None \<longleftrightarrow> um_find devices k = None)
    \<and> (\<forall>k d n. um_find (st_devices s) k = Some d \<longrightarrow> um_find devices k = Some n \<longrightarrow>
        node_ids (ds_node d) = node_ids n \<and> node_key Q (ds_node d) = k
        \<and> (node_named (rt_node (ds_realtime d)) \<longrightarrow> node_ids (rt_node (ds_realtime d)) = node_ids n))
    \<and> (\<forall>k r. um_find (dt_realtime (st_data s)) k = Some r \<longrightarrow>
        (\<exists>n. um_find devices k = Some n \<and> node_ids n = node_ids (rt_node r)))"
proof -
  let ?s = "ui_store (ui_run Q es MainWindow_new)"
  have ok: "data_ok Q (\<lambda>_. True) (st_data ?s)" and mirror: "mirror_ok ?s"
    using store_okD(1,3) [OF ui_run_ok [OF assms]] by blast+
  have "node_ids (ds_node d) = node_ids n \<and> node_key Q (ds_node d) = k
      \<and> (node_named (rt_node (ds_realtime d)) \<longrightarrow> node_ids (rt_node (ds_realtime d)) = node_ids n)"
    if "um_find (st_devices ?s) k = Some d" "um_find (dm_devices (dt_device (st_data ?s))) k = Some n" for k d n
  proof -
    have place: "same_place (ds_node d) n" using mirror that unfolding mirror_ok_def by blast
    have "node_key Q n = k" using data_ok_device [OF ok that(2)] by (simp add: good_node_def)
    then show ?thesis
      using mirror that same_place_facts(2) [OF place] same_place_facts(3) [OF place, of Q] unfolding mirror_ok_def by simp
  qed
  moreover have "\<exists>n. um_find (dm_devices (dt_device (st_data ?s))) k = Some n \<and> node_ids n = node_ids (rt_node r)"
    if "um_find (dt_realtime (st_data ?s)) k = Some r" for k r
    by (rule data_ok_known [OF ok that]) blast
  ultimately show ?thesis using mirror unfolding mirror_ok_def Let_def by simp
qed

theorem ui_mirror_agrees_witness:
  "let s = ui_store (ui_run (demo_qt demo_frames) demo_es MainWindow_new)
   in \<forall>k. um_find (st_devices s) k = None \<longleftrightarrow> um_find (dm_devices (dt_device (st_data s))) k = None"
  using ui_mirror_agrees [OF demo_es_times, of "demo_qt demo_frames"] unfolding Let_def by blast

text \<open>
  C29.  A deleted device stays hidden.  Once the window has handled the acknowledgement that a
  device was removed, no page shows the device and no manager holds it, whatever happens next,
  until a frame acknowledges that a device with the same key was added.
\<close>

theorem deleted_device_stays_hidden:
  assumes "\<forall>(t, e) \<in> set (es @ es'). 0 < t" "0 < nowMs" "qt_parse Q frame = Some msg" "message_removes Q g p d msg"
    and w: "w = handleIpcMessage Q nowMs (ui_run Q es MainWindow_new) frame"
    and later: "\<forall>f \<in> set (run_frames Q es' w).
      frame_allowed Q (\<lambda>g' p' d'. deletedDeviceKey Q g p d \<noteq> deletedDeviceKey Q g' p' d') f"
  shows "let s = ui_store (ui_run Q es' w) in
      (\<forall>n \<in> set (st_deviceTreeSnapshot s) \<union> set (allDevices (dt_device (st_data s))). node_ids n \<noteq> (g, p, d))
    \<and> (\<forall>r \<in> set (realtimeDataSnapshot s) \<union> set (allRealtimeData (st_data s)). node_ids (rt_node r) \<noteq> (g, p, d))"
proof -
  have "store_ok Q (\<lambda>_. True) (ui_store (ui_run Q es MainWindow_new))" by (rule ui_run_ok) (use assms(1) in auto)
  then have "store_ok Q (\<lambda>x. x \<noteq> (g, p, d)) (ui_store w)" unfolding w by (rule frame_hidden [OF _ assms(2-4)])
  then have "store_ok Q (\<lambda>x. x \<noteq> (g, p, d)) (ui_store (ui_run Q es' w))"
    by (rule store_kept.ran) (use assms(1) later in \<open>auto simp: may_forget_other [abs_def]\<close>)
  from store_shows [OF this] show ?thesis unfolding Let_def by blast
qed

theorem deleted_device_stays_hidden_witness:
  "let Q = demo_qt demo_frames; w = handleIpcMessage Q 8 (ui_run Q demo_es MainWindow_new) ''r'';
       s = ui_store (ui_run Q [(9, SocketData [CHR ''s'', newline])] w)
   in \<forall>n \<in> set (st_deviceTreeSnapshot s). node_ids n \<noteq> (''g'', ''p'', 3)"
proof -
  let ?Q = "demo_qt demo_frames"
  let ?w = "handleIpcMessage ?Q 8 (ui_run ?Q demo_es MainWindow_new) ''r''"
  have qtx: "qtext ?Q (JObj ms) k = (case map_of ms k of Some (JStr t) \<Rightarrow> t | _ \<Rightarrow> [])" for ms k
    by (simp add: qtext_def demo_qt_def split: option.split jv.split)
  have removes: "message_removes ?Q ''g'' ''p'' 3 demo_removed"
    by (simp add: message_removes_def demo_removed_def qtx ackCommandName_def ackSucceeded_def ack_device_def or_text_def)
      (simp add: demo_qt_def)
  have adds: "\<not> message_adds ?Q demo_devices" "\<not> message_adds ?Q demo_removed"
    by (simp_all add: message_adds_def demo_devices_def demo_removed_def qtx ackCommandName_def or_text_def)
  have "frame_allowed ?Q F f" for F f
    using adds by (simp add: frame_allowed_def message_allowed_def demo_frames_def demo_qt_parse)
  then have later: "\<forall>f \<in> set (run_frames ?Q [(9, SocketData [CHR ''s'', newline])] ?w).
      frame_allowed ?Q (\<lambda>g' p' d'. deletedDeviceKey ?Q ''g'' ''p'' 3 \<noteq> deletedDeviceKey ?Q g' p' d') f" by blast
  show ?thesis
    using deleted_device_stays_hidden [where es = demo_es, OF _ _ _ removes refl later] demo_es_times
    by (simp add: Let_def demo_qt_parse demo_frames_def)
qed

text \<open>
  C30.  A lost connection is shown.  After any run, when the socket disconnects or fails, or the
  watchdog finds the window unconnected or without a message for 45 seconds, no device that is
  shown is online and each has the state \<open>service_offline\<close>; a device with values shows them as
  invalid values of an offline service; and when every device has values all counts are zero.
\<close>

theorem connection_loss_shown:
  assumes "\<forall>(t, e) \<in> set es. 0 < t" "finds_lost nowMs (ui_run Q es MainWindow_new) e"
  shows "let s = ui_store (ui_step Q nowMs e (ui_run Q es MainWindow_new)) in
      (\<forall>d \<in> set (deviceStates s). \<not> nd_online (ds_node d) \<and> nd_status (ds_node d) = ''service_offline'')
    \<and> (\<forall>k d r. um_find (st_devices s) k = Some d \<longrightarrow> um_find (dt_realtime (st_data s)) k = Some r \<longrightarrow>
        ds_realtime d = r \<and> rt_serviceOffline r \<and> \<not> rt_valid r \<and> ds_lifecycleState d = ''service_offline'')
    \<and> ((\<forall>k. um_find (dm_devices (dt_device (st_data s))) k \<noteq> None \<longrightarrow> um_find (dt_realtime (st_data s)) k \<noteq> None) \<longrightarrow>
        st_onlineDeviceCount s = 0 \<and> st_onlineGatewayCount s = 0 \<and> onlineMasterCount s = 0)"
proof -
  obtain s where ok: "store_ok Q (\<lambda>_. True) s"
    and s: "ui_store (ui_step Q nowMs e (ui_run Q es MainWindow_new)) = markAllDevicesOffline Q nowMs ''service_offline'' s"
    using finds_lost_store [OF assms(2) ui_run_ok [OF assms(1)]] by blast
  let ?s = "markAllDevicesOffline Q nowMs ''service_offline'' s"
  have "\<not> nd_online (ds_node d) \<and> nd_status (ds_node d) = ''service_offline''" if d: "d \<in> set (deviceStates ?s)" for d
  proof -
    obtain k where "um_find (st_devices ?s) k = Some d" using d unfolding deviceStates_def um_values_set by blast
    then show ?thesis using lost_mirror(1,2) [OF ok] by blast
  qed
  moreover have "st_onlineDeviceCount ?s = 0 \<and> st_onlineGatewayCount ?s = 0 \<and> onlineMasterCount ?s = 0"
    if "\<forall>k. um_find (dm_devices (dt_device (st_data ?s))) k \<noteq> None \<longrightarrow> um_find (dt_realtime (st_data ?s)) k \<noteq> None"
    using lost_counts [OF ok] that
    by (simp add: st_onlineDeviceCount_def st_onlineGatewayCount_def onlineMasterCount_def)
  ultimately show ?thesis using lost_mirror(3) [OF ok] unfolding s Let_def by blast
qed

theorem connection_loss_shown_witness:
  "let Q = demo_qt demo_frames; s = ui_store (ui_step Q 9 SocketDisconnected (ui_run Q demo_es MainWindow_new))
   in \<forall>d \<in> set (deviceStates s). \<not> nd_online (ds_node d) \<and> nd_status (ds_node d) = ''service_offline''"
  using connection_loss_shown [OF demo_es_times, of 9 "demo_qt demo_frames" SocketDisconnected]
  by (simp add: Let_def finds_lost_def)

text \<open>
  C31.  The pipe is a stream of frames.  While the connection lasts, however the bytes are split
  over the reads and whatever else happens in between, the window handles exactly the lines of
  the stream, in order, each without a carriage return at its end and the empty ones left out,
  and keeps the bytes after the last newline; provided that no line is so long that it and one
  more read exceed the megabyte of the buffer.
\<close>

theorem pipe_is_stream_of_frames:
  assumes "\<forall>(t, e) \<in> set es. keeps_buffer e" "newline \<notin> set (ui_buffer w)"
    and "\<forall>l \<in> set (pieces (ui_buffer w @ run_data es)). \<forall>(t, e) \<in> set es. length l + length (event_data e) \<le> 1024 * 1024"
  shows "run_frames Q es w = filter (\<lambda>f. f \<noteq> []) (map chop_cr (butlast (pieces (ui_buffer w @ run_data es))))
    \<and> ui_buffer (ui_run Q es w) = last (pieces (ui_buffer w @ run_data es))
    \<and> (\<forall>bytes v nowMs. bytes \<noteq> [] \<and> length (ui_buffer v @ bytes) \<le> 1024 * 1024 \<longrightarrow>
        ui_step Q nowMs (SocketData bytes) v = foldl (handleIpcMessage Q nowMs)
          (v\<lparr>ui_buffer := last (pieces (ui_buffer v @ bytes))\<rparr>) (event_frames (SocketData bytes) v))"
proof (intro conjI allI impI)
  show "run_frames Q es w = filter (\<lambda>f. f \<noteq> []) (map chop_cr (butlast (pieces (ui_buffer w @ run_data es))))"
    "ui_buffer (ui_run Q es w) = last (pieces (ui_buffer w @ run_data es))"
    using frames_of_run [of es w Q] assms by (simp_all add: max_recv_buffer_def frame_lines_def)
qed (rule frames_handled, simp_all add: max_recv_buffer_def)

theorem pipe_is_stream_of_frames_witness:
  "run_frames (demo_qt demo_frames) (demo_es @ [(8, WatchdogTimer), (9, SocketData [CHR ''r'', CHR 0x0D, newline, CHR ''s''])]) MainWindow_new
     = [''s'', ''r'']"
proof -
  let ?es = "demo_es @ [(8, WatchdogTimer), (9, SocketData [CHR ''r'', CHR 0x0D, newline, CHR ''s''])]"
  have data: "run_data ?es = [CHR ''s'', newline, CHR ''r'', CHR 0x0D, newline, CHR ''s'']"
    by (simp add: run_data_def demo_es_def event_data_def)
  have lines: "pieces (ui_buffer MainWindow_new @ run_data ?es) = [''s'', [CHR ''r'', CHR 0x0D], ''s'']"
    unfolding data by (simp add: MainWindow_new_def newline_def)
  have keeps: "\<forall>(t, e) \<in> set ?es. keeps_buffer e" by (simp add: demo_es_def keeps_buffer_def)
  have clean: "newline \<notin> set (ui_buffer MainWindow_new)" by (simp add: MainWindow_new_def)
  have bound: "\<forall>l \<in> set (pieces (ui_buffer MainWindow_new @ run_data ?es)). \<forall>(t, e) \<in> set ?es.
      length l + length (event_data e) \<le> 1024 * 1024"
    unfolding lines by (simp add: demo_es_def event_data_def)
  show ?thesis
    using pipe_is_stream_of_frames [OF keeps clean bound, of "demo_qt demo_frames", THEN conjunct1] unfolding lines
    by (simp add: chop_cr_def)
qed

text \<open>
  C32.  The newest values win.  A message of latest points gives a device the values it has for
  it, unless the device is marked as deleted or the values are more than a second older than
  those that are kept; then, and for every device the message does not name, the values and
  the node of the device stay what they were.
\<close>

theorem newest_values_win:
  "let s' = onLatestPointsMessage Q nowMs obj s; old = um_find (dt_realtime s) k;
       new = List.find (\<lambda>d. node_key Q (rt_node d) = k) (parseLatestPoints Q nowMs obj);
       taken = (\<lambda>d. \<not> isDeletedDevice Q nowMs (nd_gatewayId (rt_node d)) (nd_port (rt_node d)) (nd_deviceId (rt_node d)) s
         \<and> (case old of None \<Rightarrow> True
            | Some r \<Rightarrow> rt_points r = [] \<or> nd_lastUpdateTime (rt_node r) \<le> 0 \<or> nd_lastUpdateTime (rt_node d) \<le> 0
                \<or> nd_lastUpdateTime (rt_node d) + 1000 \<ge> nd_lastUpdateTime (rt_node r)))
   in um_find (dt_realtime s') k = (case new of Some d \<Rightarrow> if taken d then Some d else old | None \<Rightarrow> old)
    \<and> um_find (dm_devices (dt_device s')) k = (case new of
        Some d \<Rightarrow> if taken d then Some (rt_node d) else um_find (dm_devices (dt_device s)) k
      | None \<Rightarrow> um_find (dm_devices (dt_device s)) k)"
proof -
  have "stale_update (um_value (dt_realtime s) k RealtimeDeviceData_default) d \<longleftrightarrow>
      (\<exists>r. um_find (dt_realtime s) k = Some r \<and> stale_update r d)" for d
    by (simp add: um_value_def stale_update_def RealtimeDeviceData_default_def split: option.split)
  then show ?thesis
    unfolding Let_def latest_found
    by (auto simp: node_deleted_def stale_update_def kRealtimeStaleToleranceMs_def split: option.splits if_splits)
qed

section \<open>Parsing and converting\<close>

text \<open>
  What the telemetry parser lets through.  A pack it accepts comes from an object of
  type telemetry_pack, its devices are those of the objects in the devices array, in order;
  every device marked valid has a positive id and a known type, every relay has 1 to 64
  channels, and with a positive clock the time stamp is positive.
\<close>

theorem parsed_pack_ok:
  assumes "TelemetryPackParser_parseJson J now payload = Inr pk"
  shows "\<exists>doc devices. rj_parse J (c_str payload) = Inr doc \<and> rj_is_object J doc
       \<and> tpp_getString J doc ''type'' [] = ''telemetry_pack''
       \<and> rj_member J doc ''devices'' = Some devices \<and> rj_is_array J devices
       \<and> pk_devices pk = map (parse_device J) (filter (rj_is_object J) (rj_elements J devices))
       \<and> list_all device_ok (pk_devices pk) \<and> (now > 0 \<longrightarrow> pk_timestampMs pk > 0)"
proof -
  from TelemetryPackParser_parseJson_InrD [OF assms] obtain doc devices where pk:
    "rj_parse J (c_str payload) = Inr doc" "rj_is_object J doc"
    "tpp_getString J doc ''type'' [] = ''telemetry_pack''"
    "rj_member J doc ''devices'' = Some devices" "rj_is_array J devices"
    "pk_devices pk = map (parse_device J) (filter (rj_is_object J) (rj_elements J devices))"
    "pk_timestampMs pk = parse_timestamp J now doc" .
  have "list_all device_ok (pk_devices pk)" by (simp add: pk(6) list_all_iff parse_device_ok)
  moreover have "now > 0 \<longrightarrow> pk_timestampMs pk > 0" by (simp add: pk(7) parse_timestamp_positive)
  ultimately show ?thesis using pk(1-6) by blast
qed

definition relay_item :: jv where
  "relay_item = JObj [(''deviceId'', JInt 3), (''deviceType'', JStr ''relay''),
     (''points'', JArr [JObj [(''pointKey'', JStr ''relay_2''), (''boolValue'', JBool True)],
                        JObj [(''pointKey'', JStr ''relay_5''), (''boolValue'', JBool False)]])]"

definition relay_doc :: jv where
  "relay_doc = JObj [(''type'', JStr ''telemetry_pack''), (''devices'', JArr [relay_item, JInt 4])]"

definition relay_dom :: "jv rapidjson" where
  "relay_dom = jv_dom (\<lambda>_. Inr relay_doc) (\<lambda>_. None)"

theorem parsed_pack_ok_witness:
  "\<exists>pk. TelemetryPackParser_parseJson relay_dom 17 [] = Inr pk \<and> list_all device_ok (pk_devices pk)
      \<and> pk_timestampMs pk > 0"
proof -
  have "\<not> isl (TelemetryPackParser_parseJson relay_dom 17 [])" by code_simp
  then obtain pk where "TelemetryPackParser_parseJson relay_dom 17 [] = Inr pk"
    by (cases "TelemetryPackParser_parseJson relay_dom 17 []") auto
  then show ?thesis using parsed_pack_ok [of relay_dom 17 "[]" pk] by auto
qed

text \<open>
  Relay states survive parsing and conversion.  For a relay device whose points array
  reports at least one relay channel, the converter gives an on point for channel n (n up
  to 16) exactly when the array holds an on point of channel n.
\<close>

theorem relay_states_end_to_end:
  assumes "\<exists>p \<in> set (item_points J item). relay_point J p"
    and "dd_type (parse_device J item) = DT_Relay"
    and "1 \<le> n" "n \<le> 16"
  shows "(\<exists>q \<in> set (device_points pack (parse_device J item)).
            tp_pointKey q = ''relay_'' @ to_string n \<and> tp_textValue q = ''on'')
     \<longleftrightarrow> (\<exists>p \<in> set (item_points J item). relay_point J p \<and> relay_point_on J p
            \<and> relay_point_channel J p = n)"
  using relay_states_converted [OF assms] .

theorem relay_states_end_to_end_witness:
  "\<exists>q \<in> set (device_points th_pack (parse_device relay_dom relay_item)).
     tp_pointKey q = ''relay_'' @ to_string 2 \<and> tp_textValue q = ''on''"
proof -
  have "\<exists>p \<in> set (item_points relay_dom relay_item). relay_point relay_dom p" by code_simp
  moreover have "dd_type (parse_device relay_dom relay_item) = DT_Relay" by code_simp
  moreover have "\<exists>p \<in> set (item_points relay_dom relay_item). relay_point relay_dom p
      \<and> relay_point_on relay_dom p \<and> relay_point_channel relay_dom p = 2"
    by code_simp
  ultimately show ?thesis using relay_states_end_to_end [of relay_dom relay_item 2 th_pack] by simp
qed

text \<open>
  Point ids identify points.  In a pack whose devices have distinct ids all points
  have distinct ids, and every point carries the site, the device and the id built from
  them; the points of an unknown device are marked invalid.
\<close>

theorem converted_points_identified:
  assumes "distinct (map dd_deviceId (pk_devices pack))"
  shows "distinct (map tp_pointId (toTelemetryPoints pack))
       \<and> (\<forall>p \<in> set (toTelemetryPoints pack). \<exists>d \<in> set (pk_devices pack). point_of pack d p)"
  using points_ids_distinct_aux [OF assms] device_points_point_of
  by (metis toTelemetryPoints_def toTelemetryPoints_mem)

theorem converted_points_identified_witness:
  "distinct (map tp_pointId (toTelemetryPoints th_pack)) \<and> length (toTelemetryPoints th_pack) = 4"
proof -
  have "distinct (map dd_deviceId (pk_devices th_pack))" by (simp add: th_pack_def th_device_def)
  moreover have "length (toTelemetryPoints th_pack) = 4"
    by (simp add: toTelemetryPoints_def th_pack_def append_defs th_device_def)
  ultimately show ?thesis using converted_points_identified by blast
qed

text \<open>
  C33.  Reading back an escaped string.  \<open>extractJsonStringValue\<close> returns v from a text in
  which the first quoted text is the key and its value is \<open>jsonEscape v\<close>, for every v
  without line feed, carriage return and tabulator (whose escapes it does not decode); and
  \<open>jsonEscape\<close> never maps two strings to the same text.
\<close>

theorem escape_extract_roundtrip:
  assumes "CHR 0x22 \<notin> set pre" "\<forall>c \<in> set v. c \<noteq> CHR 0x0A \<and> c \<noteq> CHR 0x0D \<and> c \<noteq> CHR 0x09"
  shows "extractJsonStringValue
      (pre @ CHR 0x22 # key @ CHR 0x22 # CHR '':'' # CHR 0x22 # jsonEscape v @ CHR 0x22 # rest) key = v
    \<and> (jsonEscape u = jsonEscape v \<longrightarrow> u = v)"
  using extractJsonStringValue_first [OF assms(1)] scan_jsonEscape [OF assms(2)] jsonEscape_injective
  by metis

theorem escape_extract_roundtrip_witness:
  "extractJsonStringValue (''{'' @ CHR 0x22 # ''type'' @ CHR 0x22 # CHR '':'' # CHR 0x22
      # jsonEscape [CHR ''a'', CHR 0x22, CHR 0x5C] @ CHR 0x22 # ''}'') ''type'' = [CHR ''a'', CHR 0x22, CHR 0x5C]"
proof -
  have "CHR 0x22 \<notin> set ''{''" "\<forall>c \<in> set [CHR ''a'', CHR 0x22, CHR 0x5C]. c \<noteq> CHR 0x0A \<and> c \<noteq> CHR 0x0D \<and> c \<noteq> CHR 0x09"
    by simp_all
  from escape_extract_roundtrip [OF this, of "''type''" "''}''"] show ?thesis by blast
qed

text \<open>
  Point configurations that the parser accepts are complete: each has a full address,
  a positive device id, a point key, the id built from these, and a limit is zero unless it
  was given.
\<close>

theorem parsed_point_configs_ok:
  assumes "PointConfigPackParser_parseJson J now payload = Inr cs"
  shows "list_all config_ok cs"
  using parsed_configs_ok [OF assms] by (simp add: list_all_iff)

definition threshold_doc :: jv where
  "threshold_doc = JObj [(''type'', JStr ''threshold_config''),
     (''site'', JObj [(''factoryId'', JStr ''f''), (''areaId'', JStr ''a''), (''gatewayId'', JStr ''g''),
                      (''portId'', JStr ''COM1'')]),
     (''devices'', JArr [JObj [(''deviceId'', JInt 1),
        (''thresholds'', JObj [(''temp_high'', JInt 40)])]])]"

theorem parsed_point_configs_ok_witness:
  "\<exists>cs. PointConfigPackParser_parseJson (jv_dom (\<lambda>_. Inr threshold_doc) (\<lambda>_. None)) 5 [] = Inr cs
      \<and> map pc_alarmHigh cs = [Fin 40] \<and> list_all config_ok cs"
proof -
  let ?J = "jv_dom (\<lambda>_. Inr threshold_doc) (\<lambda>_. None)"
  have "case PointConfigPackParser_parseJson ?J 5 [] of Inl _ \<Rightarrow> False
      | Inr cs \<Rightarrow> map pc_alarmHigh cs = [Fin 40]"
    by code_simp
  then obtain cs where "PointConfigPackParser_parseJson ?J 5 [] = Inr cs" "map pc_alarmHigh cs = [Fin 40]"
    by (cases "PointConfigPackParser_parseJson ?J 5 []") auto
  then show ?thesis using parsed_point_configs_ok [of ?J 5 "[]" cs] by auto
qed

section \<open>The offline cache of the board\<close>

text \<open>
  C34.  No message of high priority is lost.  A row of the offline table whose priority is
  neither 0 nor 1 stays accounted for through every sequence of queue operations other than
  \<open>clearPending\<close>, whatever SQLite statements and send attempts fail: it is still in the
  table with its contents, or its message was handed to the sender successfully.
\<close>

theorem priority_message_not_lost:
  assumes "sql_engine E" "store_wf (oq_db q)" "r \<in> set (od_rows (oq_db q))"
    and "or_priority r \<noteq> 0" "or_priority r \<noteq> 1" "OqClear \<notin> snd ` set es"
  shows "(\<exists>r' \<in> set (od_rows (oq_db (oq_run E link es q))). same_message r r')
     \<or> (c_str (or_topic r), c_str (or_payload r), 0) \<in> set (oq_calls (oq_run E link es q))"
proof -
  have "accounted r q" using assms(3) by (auto simp: accounted_def stored_def intro: bexI [of _ r])
  from sql_engine.accounted_run [OF assms(1,2) this assms(4-6)]
  show ?thesis by (simp add: accounted_def stored_def)
qed

theorem priority_message_not_lost_witness:
  "let q = oq_run (stable_engine (\<lambda>n. even n) (\<lambda>_. None)) (\<lambda>n. if n = 0 then -1 else 0)
       [(6, OqFlush), (7, OqFlush), (8, OqPublish ''t'' ''p'' PublishMeta_default)]
       (ready_queue [alarm_row] 2)
   in (\<exists>r' \<in> set (od_rows (oq_db q)). same_message alarm_row r')
      \<or> (c_str (or_topic alarm_row), c_str (or_payload alarm_row), 0) \<in> set (oq_calls q)"
  unfolding Let_def
  by (rule priority_message_not_lost [OF stable_engine_law])
    (simp_all add: ready_queue_def OfflinePublishQueue_new_def store_wf_def alarm_row_def row_ok_new
      PublishMeta_default_def)

text \<open>
  What a flush sends.  With a working database a flush takes the first 50 pending rows
  in the order of falling priority and, within a priority, rising time; it hands them to
  the sender one by one until one is refused.  The delivered rows, and no others, leave the
  table; the refused row has its send count raised (and becomes failed at the fifth time);
  every other row is unchanged.
\<close>

theorem flush_sends_in_order:
  assumes "sql_engine E" "\<forall>i. sq_ok E i" "\<forall>i. sq_fetch E i = None"
    and "oq_initialized q" "oq_sender q" "oq_flushEnabled q" "od_open (oq_db q)"
  shows "let ms = batch E (oq_db q); n = delivered link (length (oq_calls q)) ms;
             q' = oq_flushToMqttOnce E link now q
         in sorted (map row_key ms) \<and> set ms \<subseteq> set (filter pending (od_rows (oq_db q)))
          \<and> od_rows (oq_db q') = after_flush now ms n (od_rows (oq_db q))
          \<and> oq_calls q' = oq_calls q @ map (call_of 0) (take n ms)
              @ (if n < length ms then [call_of (link (length (oq_calls q) + n)) (ms ! n)] else [])"
  by (rule flush_spec [OF assms])

definition old_row :: OfflineRow where
  "old_row = new_row 0 1 ''t'' ''old'' PublishMeta_default"

theorem flush_sends_in_order_witness:
  "oq_calls (oq_flushToMqttOnce (stable_engine (\<lambda>_. True) (\<lambda>_. None)) (\<lambda>n. int n) 9
      (ready_queue [old_row, alarm_row] 2)) = [(''t'', ''alarm'', 0), (''t'', ''old'', 1)]"
proof -
  let ?E = "stable_engine (\<lambda>_. True) (\<lambda>_. None)" and ?q = "ready_queue [old_row, alarm_row] 2"
  have b: "batch ?E (oq_db ?q) = [alarm_row, old_row]" by code_simp
  have "call_of 0 alarm_row = (''t'', ''alarm'', 0)" "call_of 1 old_row = (''t'', ''old'', 1)" by code_simp+
  moreover have "oq_initialized ?q" "oq_sender ?q" "oq_flushEnabled ?q" "od_open (oq_db ?q)" "oq_calls ?q = []"
    by (simp_all add: ready_queue_def OfflinePublishQueue_new_def)
  ultimately show ?thesis
    using flush_sends_in_order [OF stable_engine_law, of "\<lambda>_. True" "\<lambda>_. None" ?q "\<lambda>n. int n" 9]
    unfolding b by (simp add: Let_def stable_engine_def)
qed

text \<open>
  Trimming the table.  With a working database \<open>enforceMaxRecords\<close> changes nothing up
  to 5000 rows; above, it ends with more than 4900 rows, and either with at most 5000 or
  with no row of priority 0 or 1 left.  It removes rows of priority 0 first and rows of
  priority 1 only when no row of priority 0 remains, in each case only rows that are not
  newer than the rows of that priority that stay.
\<close>

theorem trimming_bounds:
  assumes "sql_engine E" "store_wf db" "od_open db" "\<forall>i. sq_ok E i"
  shows "let rows = od_rows db; rows' = od_rows (od_enforceMaxRecords E db)
         in (length rows \<le> 5000 \<longrightarrow> rows' = rows) \<and> (length rows > 5000 \<longrightarrow> length rows' > 4900)
          \<and> (length rows' \<le> 5000 \<or> (\<forall>r \<in> set rows'. or_priority r \<notin> {0, 1}))
          \<and> (\<exists>mid. trimmed 0 rows mid \<and> trimmed 1 mid rows'
               \<and> (mid \<noteq> rows' \<longrightarrow> (\<forall>r \<in> set mid. or_priority r \<noteq> 0)))"
  using sql_engine.enforce_spec [OF assms] by (simp add: Let_def)

theorem trimming_bounds_witness:
  "od_rows (od_enforceMaxRecords (stable_engine (\<lambda>_. True) (\<lambda>_. None)) (oq_db (ready_queue [alarm_row] 2)))
     = [alarm_row]"
proof -
  let ?db = "oq_db (ready_queue [alarm_row] 2)"
  have "store_wf ?db" "od_open ?db" "\<forall>i. sq_ok (stable_engine (\<lambda>_. True) (\<lambda>_. None)) i"
    by (simp_all add: ready_queue_def store_wf_def alarm_row_def row_ok_new stable_engine_def)
  from trimming_bounds [OF stable_engine_law this] show ?thesis by (simp add: ready_queue_def Let_def)
qed

text \<open>
  Ordinary telemetry is thinned out.  Whatever messages the cache policy is asked
  about, the telemetry packs without alarm, invalid data or status change that it keeps for
  one sample key lie at least 60 s apart, provided their time stamps are positive.
\<close>

theorem samples_spaced:
  assumes "\<forall>m \<in> set ms. sampled m \<and> sampleKey m = k \<longrightarrow> pm_timestampMs m > 0"
  shows "sorted_wrt (\<lambda>a b. a + 60000 \<le> b) (kept_samples k ms pol)"
  using kept_samples_spaced [OF assms] by blast

definition sample_at :: "int \<Rightarrow> PublishMeta" where
  "sample_at t = PublishMeta_default\<lparr>pm_messageType := ''telemetry_pack'', pm_timestampMs := t\<rparr>"

theorem samples_spaced_witness:
  "kept_samples (sampleKey (sample_at 1)) (map sample_at [1, 30000, 60001, 70000]) um_empty = [1, 60001]
   \<and> sorted_wrt (\<lambda>a b. a + 60000 \<le> b)
       (kept_samples (sampleKey (sample_at 1)) (map sample_at [1, 30000, 60001, 70000]) um_empty)"
proof
  show "kept_samples (sampleKey (sample_at 1)) (map sample_at [1, 30000, 60001, 70000]) um_empty = [1, 60001]"
    by (simp add: sample_at_def PublishMeta_default_def shouldCache_def sampled_def allowSample_def
        sampleKey_def kTelemetrySampleIntervalMs_def Let_def lookup_simps)
  show "sorted_wrt (\<lambda>a b. a + 60000 \<le> b)
      (kept_samples (sampleKey (sample_at 1)) (map sample_at [1, 30000, 60001, 70000]) um_empty)"
    by (rule samples_spaced) (simp add: sample_at_def)
qed

text \<open>
  What the return value of \<open>publishOrCache\<close> means.  While the table has room, the
  call returns 0 exactly when the sender accepted the message or a row for it was added to
  the table; otherwise the table is unchanged and the value is that of the sender, or -5
  without one.
\<close>

theorem publish_or_cache_result:
  assumes "length (od_rows (oq_db q)) < 5000"
  shows "let (ret, q') = oq_publishOrCache E link now t p m q;
             sent = (oq_sender q \<and> link (length (oq_calls q)) = 0);
             rows = od_rows (oq_db q); rows' = od_rows (oq_db q')
         in if sent then ret = 0 \<and> rows' = rows \<and> oq_calls q' = oq_calls q @ [(c_str t, c_str p, 0)]
            else (ret = 0 \<and> rows' = rows @ [new_row (od_nextId (oq_db q)) now t p m])
               \<or> (ret \<noteq> 0 \<and> rows' = rows \<and> ret = (if oq_sender q then link (length (oq_calls q)) else -5))"
proof -
  let ?q = "snd (call_sender link t p q)"
  have "length (od_rows (oq_db ?q)) < 5000" using assms by simp
  note c = cacheMessage_cases [OF this, of E now t p m] cacheMessage_cases [OF assms, of E now t p m]
  show ?thesis
    using c by (auto simp: oq_publishOrCache_def kSendFailedNotReady_def Let_def split_def)
qed

theorem publish_or_cache_result_witness:
  "let q = ready_queue [] 1;
       (ret, q') = oq_publishOrCache (stable_engine (\<lambda>_. True) (\<lambda>_. None)) (\<lambda>_. -4) 9 ''t'' ''p''
         (PublishMeta_default\<lparr>pm_messageType := ''ack''\<rparr>) q
   in ret = 0 \<and> length (od_rows (oq_db q')) = 1"
proof -
  let ?q = "ready_queue [] 1" and ?E = "stable_engine (\<lambda>_. True) (\<lambda>_. None)"
  let ?m = "PublishMeta_default\<lparr>pm_messageType := ''ack''\<rparr>"
  have "length (od_rows (oq_db ?q)) < 5000" "oq_sender ?q" by (simp_all add: ready_queue_def)
  moreover have "fst (oq_publishOrCache ?E (\<lambda>_. -4) 9 ''t'' ''p'' ?m ?q) = 0"
    by (simp add: oq_publishOrCache_def call_sender_def oq_cacheMessage_def ready_queue_def shouldCache_def
        OfflinePublishQueue_new_def od_insert_def stable_engine_def PublishMeta_default_def Let_def)
  ultimately show ?thesis
    using publish_or_cache_result [of ?q ?E "\<lambda>_. -4" 9 "''t''" "''p''" ?m]
    by (auto simp: Let_def ready_queue_def split: prod.splits)
qed

text \<open>
  The rows of the offline table stay well formed.  Through every sequence of queue
  operations the row ids are distinct and below the next id, and a row is failed exactly
  when at least five sends of it failed, otherwise pending.
\<close>

theorem offline_rows_invariant:
  assumes "store_wf (oq_db q)"
  shows "store_wf (oq_db (oq_run E link es q))"
  using assms by (induction es arbitrary: q) (auto simp: oq_exec_wf)

theorem offline_rows_invariant_witness:
  "store_wf (oq_db (oq_run (stable_engine (\<lambda>_. True) (\<lambda>_. None)) (\<lambda>_. -1) [(1, OqFlush), (2, OqFlush)]
     (ready_queue [alarm_row] 2)))"
  by (rule offline_rows_invariant) (simp add: ready_queue_def store_wf_def alarm_row_def row_ok_new)

section \<open>The serial ports of the board\<close>

text \<open>A board for the examples: all I/O succeeds, relays and sensors answer as given.\<close>

definition quiet_lib :: "(nat \<Rightarrow> int \<times> 16 word list) \<Rightarrow> (nat \<Rightarrow> int \<times> 8 word list) \<Rightarrow> modbus_lib" where
  "quiet_lib regs bits = \<lparr>ml_gpio = (\<lambda>_. True), ml_connect = (\<lambda>_. True),
     ml_read_registers = (\<lambda>n _ _ _. regs n), ml_read_bits = (\<lambda>n _ _ _. bits n),
     ml_write_register = (\<lambda>_ _ _ _. 1), ml_write_bits = (\<lambda>_ _ _ xs. int (length xs))\<rparr>"

definition demo_env :: "(nat \<Rightarrow> int \<times> 16 word list) \<Rightarrow> (nat \<Rightarrow> int \<times> 8 word list) \<Rightarrow> (nat \<Rightarrow> bool) \<Rightarrow> jcv board_env" where
  "demo_env regs bits ok = board_model (\<lambda>_. ''{}'') (quiet_lib regs bits) (\<lambda>_. True) ok"

definition demo_bus :: ModbusMaster where
  "demo_bus = (createBus 0 ''/dev/ttyS1'' 9600)\<lparr>mm_ctx := True\<rparr>"

definition demo_board :: "ManagedDevice list \<Rightarrow> jcv PortManager" where
  "demo_board ds = (PortManager_new None)\<lparr>pmg_channels :=
     (\<lambda>_. PortChannel_new)(0 := opened_channel ''/dev/ttyS1'' 9600 demo_bus ds)\<rparr>"

definition demo_relay :: ManagedDevice where
  "demo_relay = new_device 0 (SensorRelay \<lparr>rl_slave_id = 7, rl_poll_interval_ms = 500\<rparr>)"

lemma demo_board_wf: "devices_ok ds \<Longrightarrow> board_wf (demo_board ds)"
  by (auto simp: board_wf_def demo_board_def PortManager_new_def ports_exclusive_def demo_bus_def validSlot_def
      kSlotCount_def intro!: channel_wf_opened)

lemma demo_relay_ok: "devices_ok [demo_relay]"
  by (simp add: devices_ok_def demo_relay_def new_device_def managed_ok_def)

text \<open>
  C35.  The port manager keeps its invariant.  In every state the operations reach, whatever
  the bus and the file system do: slave ids are unique within a slot and positive, poll
  intervals are at least 500 ms, a device is marked offline exactly from its third failure in
  a row on; a slot is connected exactly when its poll thread runs, then it has an open bus on
  its port, otherwise it has no bus and no device; two connected slots have different ports;
  and no thread object is overwritten while a thread is attached to it.
\<close>

theorem board_invariant:
  assumes "board_reachable E file m"
  shows "board_wf m"
  by (rule board_reachable_wf [OF assms])

theorem board_invariant_witness:
  "board_wf (board_exec (demo_env (\<lambda>_. (2, [0, 0])) (\<lambda>_. (4, [])) (\<lambda>_. True)) 2 1 (BdPollSlot 0)
     (board_exec (demo_env (\<lambda>_. (2, [0, 0])) (\<lambda>_. (4, [])) (\<lambda>_. True)) 1 0
       (BdConnect 0 (Some ''/dev/ttyS1'') 9600) (PortManager_new None)))"
  by (rule board_invariant) (rule board_reachable.intros)+

text \<open>
  C36.  A device is reported offline once per outage.  In a sequence of polls of a device a
  poll reports it offline exactly when it is the third failure in a row (counting the
  failures before the sequence); an answered poll ends the outage.
\<close>

theorem offline_reported_once:
  assumes "board_wf m" "find_device i (ch_devices (pmg_channels m slot)) = Some d"
  shows "map snd (poll_trace E slot i nows m)
     = map (\<lambda>c. c = 3) (fail_runs (md_consecutive_failures d) (map fst (poll_trace E slot i nows m)))"
  by (rule poll_trace_reports [OF assms])

theorem offline_reported_once_witness:
  "map snd (poll_trace (demo_env (\<lambda>_. (2, [0, 0])) (\<lambda>n. if n = 4 then (4, []) else (-1, [])) (\<lambda>_. True)) 0 7
     [1, 2, 3, 4, 5, 6, 7, 8] (demo_board [demo_relay]))
   = [False, False, True, False, False, False, False, True]"
proof -
  let ?E = "demo_env (\<lambda>_. (2, [0, 0])) (\<lambda>n. if n = 4 then (4, []) else (-1, [])) (\<lambda>_. True)"
  let ?t = "poll_trace ?E 0 7 [1, 2, 3, 4, 5, 6, 7, 8] (demo_board [demo_relay])"
  have "map fst ?t = [False, False, False, False, True, False, False, False]" by code_simp
  moreover have "find_device 7 (ch_devices (pmg_channels (demo_board [demo_relay]) 0)) = Some demo_relay"
    "md_consecutive_failures demo_relay = 0"
    by (simp_all add: demo_board_def opened_channel_def demo_relay_def new_device_def)
  ultimately show ?thesis
    using offline_reported_once [OF demo_board_wf [OF demo_relay_ok], of 7 0 demo_relay ?E "[1, 2, 3, 4, 5, 6, 7, 8]"]
    by simp
qed


definition hot_config :: sensor_threshold_config where
  "hot_config = \<lparr>st_threshold_enabled = True,
     st_temperature = \<lparr>pt_enable_alarm = True, pt_has_low = False, pt_alarm_low = Fin 0,
       pt_has_high = True, pt_alarm_high = Fin 30\<rparr>,
     st_humidity = point_threshold_zero\<rparr>"

definition demo_sensor :: ManagedDevice where
  "demo_sensor = new_device 0 (SensorTH (TemperatureHumiditySensor_new 5 500 (Some hot_config)))"

lemma demo_sensor_ok: "devices_ok [demo_sensor]"
  by (simp add: devices_ok_def demo_sensor_def new_device_def managed_ok_def TemperatureHumiditySensor_new_def)

definition hot_reading :: device_data where
  "hot_reading = device_data_zero\<lparr>dv_device_id := 5, dv_type := DEV_SENSOR_TH, dv_valid := True,
     dv_temperature := Fin 40, dv_humidity := Fin 50\<rparr>"



text \<open>
  C38.  Threshold alarms mark the edges.  For a sensor whose thresholds are switched on and a
  sequence of readings, a temperature alarm is made for a reading exactly when it is out of
  range and the reading before it (at first: the latch) was not.  The humidity alarms are the
  edges in the same way of the readings without a temperature alarm.
\<close>

theorem alarms_mark_edges:
  assumes "th_armed s" "\<forall>dev \<in> set devs. th_reading dev"
    and "pt_enable_alarm (st_temperature (ts_config s))" "pt_enable_alarm (st_humidity (ts_config s))"
  shows "let evs = th_events s devs; T = st_temperature (ts_config s); H = st_humidity (ts_config s);
             rest = filter (\<lambda>(dev, e). \<not> alarm_on ''temperature'' e) (zip devs evs)
         in length evs = length devs
          \<and> (\<forall>i < length devs. alarm_on ''temperature'' (evs ! i) =
               (violated T (dv_temperature (devs ! i)) \<noteq> None
                \<and> \<not> out_before T (map dv_temperature devs) (ts_last_temperature_alarm s) i))
          \<and> (\<forall>i < length rest. alarm_on ''humidity'' (snd (rest ! i)) =
               (violated H (dv_humidity (fst (rest ! i))) \<noteq> None
                \<and> \<not> out_before H (map (\<lambda>(dev, e). dv_humidity dev) rest) (ts_last_humidity_alarm s) i))"
proof -
  let ?T = "st_temperature (ts_config s)" and ?H = "st_humidity (ts_config s)" and ?evs = "th_events s devs"
  let ?rest = "filter (\<lambda>(dev, e). \<not> alarm_on ''temperature'' e) (zip devs ?evs)"
  have len: "length ?evs = length devs"
    by (induction devs arbitrary: s) (auto simp: Let_def split_def)
  have rest: "map snd ?rest = filter (\<lambda>e. \<not> alarm_on ''temperature'' e) ?evs"
  proof -
    have "map snd (filter (\<lambda>(dev, e). P e) (zip xs ys)) = filter P ys" if "length xs = length ys"
      for xs :: "device_data list" and ys :: "ThresholdAlarmEvent option list" and P
      using that by (induction xs ys rule: list_induct2) auto
    then show ?thesis using len by simp
  qed
  note e = th_events_edges [OF assms(1,2)]
  note t = point_alarms_edges [OF assms(3), of "''temperature''" "map dv_temperature devs" "ts_last_temperature_alarm s"]
  note h = point_alarms_edges [OF assms(4), of "''humidity''" "map (\<lambda>(dev, e). dv_humidity dev) ?rest"
      "ts_last_humidity_alarm s"]
  have "alarm_on ''temperature'' (?evs ! i) =
      (violated ?T (dv_temperature (devs ! i)) \<noteq> None
       \<and> \<not> out_before ?T (map dv_temperature devs) (ts_last_temperature_alarm s) i)" if "i < length devs" for i
    using t that len by (simp flip: conjunct1 [OF e])
  moreover have "alarm_on ''humidity'' (snd (?rest ! i)) =
      (violated ?H (dv_humidity (fst (?rest ! i))) \<noteq> None
       \<and> \<not> out_before ?H (map (\<lambda>(dev, e). dv_humidity dev) ?rest) (ts_last_humidity_alarm s) i)"
    if i: "i < length ?rest" for i
  proof -
    have "alarm_on ''humidity'' (snd (?rest ! i)) = map (alarm_on ''humidity'') (map snd ?rest) ! i" using i by simp
    also have "\<dots> = point_alarms ''humidity'' ?H (map (\<lambda>(dev, e). dv_humidity dev) ?rest) (ts_last_humidity_alarm s) ! i"
      by (simp only: rest conjunct2 [OF e])
    finally show ?thesis using h i by (simp add: split_def)
  qed
  ultimately show ?thesis using len by (simp add: Let_def)
qed

definition th_dev :: "rat \<Rightarrow> device_data" where
  "th_dev t = hot_reading\<lparr>dv_temperature := Fin t\<rparr>"

definition hot_sensor :: TemperatureHumiditySensor where
  "hot_sensor = TemperatureHumiditySensor_new 5 500 (Some (hot_config
     \<lparr>st_humidity := \<lparr>pt_enable_alarm = True, pt_has_low = False, pt_alarm_low = Fin 0,
       pt_has_high = True, pt_alarm_high = Fin 45\<rparr>\<rparr>))"

theorem alarms_mark_edges_witness:
  "let evs = th_events hot_sensor (map th_dev [40, 41, 20, 42])
   in length evs = 4 \<and> alarm_on ''temperature'' (evs ! 0) \<and> \<not> alarm_on ''temperature'' (evs ! 1)
    \<and> \<not> alarm_on ''temperature'' (evs ! 2) \<and> alarm_on ''temperature'' (evs ! 3)"
proof -
  let ?devs = "map th_dev [40, 41, 20, 42]" and ?evs = "th_events hot_sensor (map th_dev [40, 41, 20, 42])"
  have "th_armed hot_sensor" "pt_enable_alarm (st_temperature (ts_config hot_sensor))"
    "pt_enable_alarm (st_humidity (ts_config hot_sensor))" "\<forall>dev \<in> set ?devs. th_reading dev"
    by (simp_all add: th_armed_def hot_sensor_def TemperatureHumiditySensor_new_def hot_config_def th_reading_def
        th_dev_def hot_reading_def)
  note e = alarms_mark_edges [OF this(1,4,2,3)]
  have v: "violated (st_temperature (ts_config hot_sensor)) (Fin q) = (if q > 30 then Some (Fin 30, ''_high'') else None)" for q
    by (simp add: violated_def hot_sensor_def TemperatureHumiditySensor_new_def hot_config_def)
  have len: "length ?evs = 4" and t: "\<forall>i < 4. alarm_on ''temperature'' (?evs ! i) =
      (violated (st_temperature (ts_config hot_sensor)) (dv_temperature (?devs ! i)) \<noteq> None
       \<and> \<not> out_before (st_temperature (ts_config hot_sensor)) (map dv_temperature ?devs)
             (ts_last_temperature_alarm hot_sensor) i)"
    using e unfolding Let_def by simp_all
  have l: "ts_last_temperature_alarm hot_sensor = False"
    by (simp add: hot_sensor_def TemperatureHumiditySensor_new_def)
  show ?thesis
    using len t [rule_format, of 0] t [rule_format, of 1] t [rule_format, of 2] t [rule_format, of 3]
    unfolding Let_def by (simp add: v l th_dev_def out_before_def numeral_eq_Suc)
qed

text \<open>
  Adding a device.  \<open>addDevice\<close> returns 0 only for a known type, a positive slave id
  that is free on the connected slot and a poll interval of at least 500 ms; then the device
  is the last of the slot and the configuration file lists the devices of both slots.  On every
  other return, a failed write included, no slot has changed.
\<close>

theorem add_device_result:
  assumes "board_laws E" "board_wf m" "all_storable (pmg_channels m)" "in_int slave_id" "in_int interval"
    and "case config of None \<Rightarrow> True | Some c \<Rightarrow> float_config c"
    and "addDevice E now steady slot slave_id kind interval config m = ((ret, reason), m')"
  shows "if ret = 0
    then validSlot slot \<and> slave_id > 0 \<and> interval \<ge> 500 \<and> ch_connected (pmg_channels m slot)
      \<and> slave_id \<notin> md_id ` set (ch_devices (pmg_channels m slot))
      \<and> (\<exists>s. createSensorDevice (parseType kind) slave_id interval config = Some s
          \<and> pmg_channels m' = (pmg_channels m)(slot := (pmg_channels m slot)
              \<lparr>ch_devices := ch_devices (pmg_channels m slot) @ [new_device steady s]\<rparr>))
      \<and> file_lists (be_json E) (pmg_file m') (pmg_channels m')
    else ret = -1 \<and> pmg_channels m' = pmg_channels m"
proof (cases "ret = 0")
  case True
  note res = addDevice_result [OF assms(7)]
  obtain s where a: "add_accepted slot slave_id kind interval m"
      and s: "createSensorDevice (parseType kind) slave_id interval config = Some s"
      and c: "pmg_channels m' = (pmg_channels m)(slot := (pmg_channels m slot)
        \<lparr>ch_devices := ch_devices (pmg_channels m slot) @ [new_device steady s]\<rparr>)"
    using res(2) [OF True] by blast
  have wf: "board_wf m'" using addDevice_wf [OF assms(2), of E now steady slot slave_id kind interval config] assms(7) by simp
  have "storable (new_device steady s)"
    using s assms(4-6) by (cases "parseType kind") (auto simp: storable_def new_device_def
        TemperatureHumiditySensor_new_def split: option.splits)
  then have st: "all_storable (pmg_channels m')" using assms(3) c by (auto simp: all_storable_def)
  from board_laws.addDevice_saved [OF assms(1) wf st assms(7) [unfolded True]] a s c True
  show ?thesis by (auto simp: add_accepted_def find_device_None)
qed (use addDevice_result(3) [OF assms(7)] in simp)

theorem add_device_result_witness:
  "let E = demo_env (\<lambda>_. (2, [0, 0])) (\<lambda>_. (4, [])) (\<lambda>_. True);
       ((ret, reason), m') = addDevice E 1 0 0 7 (Some ''relay'') 500 None (demo_board [])
   in ret = 0 \<and> ch_devices (pmg_channels m' 0) = [demo_relay] \<and> file_lists (be_json E) (pmg_file m') (pmg_channels m')"
proof -
  let ?E = "demo_env (\<lambda>_. (2, [0, 0])) (\<lambda>_. (4, [])) (\<lambda>_. True)"
  obtain ret reason m' where a: "addDevice ?E 1 0 0 7 (Some ''relay'') 500 None (demo_board []) = ((ret, reason), m')"
    by (metis prod.exhaust)
  have "fst (fst (addDevice ?E 1 0 0 7 (Some ''relay'') 500 None (demo_board []))) = 0" by code_simp
  then have "ret = 0" by (simp add: a)
  moreover have "board_laws ?E" unfolding demo_env_def by (rule board_model_laws)
  moreover have "all_storable (pmg_channels (demo_board []))"
    by (simp add: all_storable_def demo_board_def opened_channel_def PortChannel_new_def)
  moreover have "board_wf (demo_board [])" by (rule demo_board_wf) simp
  moreover have "ch_devices (pmg_channels (demo_board []) 0) = []" by (simp add: demo_board_def opened_channel_def)
  ultimately show ?thesis
    using add_device_result [OF _ _ _ _ _ _ a]
    by (auto simp: a in_int_def int_min_def int_max_def parseType_def demo_relay_def)
qed

text \<open>
  Removing a device.  \<open>removeDevice\<close> returns 0 only for a device of the connected slot;
  then exactly this device is gone and the configuration file lists the rest.  When the file
  cannot be written the device is kept, as the last of its slot; on every other return no
  slot has changed.
\<close>

theorem remove_device_result:
  assumes "board_laws E" "board_wf m" "all_storable (pmg_channels m)"
    and "removeDevice E now slot slave_id m = ((ret, reason), m')"
  shows "let ds = ch_devices (pmg_channels m slot); rest = filter (\<lambda>d. md_id d \<noteq> slave_id) ds;
             with = (\<lambda>ds. (pmg_channels m)(slot := (pmg_channels m slot)\<lparr>ch_devices := ds\<rparr>))
    in if ret = 0
       then slave_id \<in> md_id ` set ds \<and> pmg_channels m' = with rest
          \<and> file_lists (be_json E) (pmg_file m') (pmg_channels m')
       else ret = -1 \<and> (pmg_channels m' = pmg_channels m
          \<or> (\<exists>d \<in> set ds. md_id d = slave_id \<and> pmg_channels m' = with (rest @ [d])))"
proof (cases "ret = 0")
  case True
  note res = removeDevice_result [OF assms(2,4)]
  have wf: "board_wf m'" using removeDevice_wf [OF assms(2), of E now slot slave_id] assms(4) by simp
  have "all_storable (pmg_channels m')" using assms(3) res(2) [OF True] by (auto simp: all_storable_def)
  from board_laws.removeDevice_saved [OF assms(1) wf this assms(4) [unfolded True]] res(2) [OF True] True
  show ?thesis by (auto simp: remove_accepted_def Let_def dest!: find_device_Some)
next
  case False
  then show ?thesis
    using removeDevice_result(3) [OF assms(2,4) False] by (auto simp: Let_def dest!: find_device_Some)
qed

theorem remove_device_result_witness:
  "let E = demo_env (\<lambda>_. (2, [0, 0])) (\<lambda>_. (4, [])) (\<lambda>_. True);
       ((ret, reason), m') = removeDevice E 1 0 7 (demo_board [demo_relay])
   in ret = 0 \<and> ch_devices (pmg_channels m' 0) = [] \<and> file_lists (be_json E) (pmg_file m') (pmg_channels m')"
proof -
  let ?E = "demo_env (\<lambda>_. (2, [0, 0])) (\<lambda>_. (4, [])) (\<lambda>_. True)"
  obtain ret reason m' where a: "removeDevice ?E 1 0 7 (demo_board [demo_relay]) = ((ret, reason), m')"
    by (metis prod.exhaust)
  have "fst (fst (removeDevice ?E 1 0 7 (demo_board [demo_relay]))) = 0" by code_simp
  then have "ret = 0" by (simp add: a)
  moreover have "board_laws ?E" unfolding demo_env_def by (rule board_model_laws)
  moreover have "all_storable (pmg_channels (demo_board [demo_relay]))"
    by (simp add: all_storable_def demo_board_def opened_channel_def PortChannel_new_def storable_def
        demo_relay_def new_device_def in_int_def int_min_def int_max_def)
  moreover have "ch_devices (pmg_channels (demo_board [demo_relay]) 0) = [demo_relay]" "md_id demo_relay = 7"
    by (simp_all add: demo_board_def opened_channel_def demo_relay_def new_device_def)
  ultimately show ?thesis
    using remove_device_result [OF _ demo_board_wf [OF demo_relay_ok] _ a] by (auto simp: a Let_def)
qed

text \<open>
  Setting a threshold.  \<open>setDeviceThreshold\<close> returns 0 only for a temperature and
  humidity sensor of the slot; then this sensor has the new thresholds and no alarm latched,
  nothing else has changed, and the configuration file holds the new thresholds.  When the
  file cannot be written the sensor is given the thresholds it had, or empty ones if it had
  none; on every other return no slot has changed.
\<close>

theorem set_threshold_result:
  assumes "board_laws E" "board_wf m" "all_storable (pmg_channels m)"
    and "case config of None \<Rightarrow> True | Some c \<Rightarrow> float_config c"
    and "setDeviceThreshold E now slot slave_id config m = ((ret, reason), m')"
  shows "let ds = ch_devices (pmg_channels m slot);
             with = (\<lambda>c. pmg_channels (on_device slot slave_id (set_threshold c) m))
    in if ret = 0
       then (\<exists>c d. config = Some c \<and> find_device slave_id ds = Some d \<and> deviceType (md_sensor d) = DEV_SENSOR_TH
          \<and> pmg_channels m' = with c \<and> file_lists (be_json E) (pmg_file m') (pmg_channels m'))
       else ret = -1 \<and> (pmg_channels m' = pmg_channels m \<or>
          (\<exists>d. find_device slave_id ds = Some d \<and> pmg_channels m' = with (old_threshold d)))"
proof (cases "ret = 0")
  case True
  obtain c d where c: "config = Some c" "find_device slave_id (ch_devices (pmg_channels m slot)) = Some d"
      "deviceType (md_sensor d) = DEV_SENSOR_TH"
      "pmg_channels m' = pmg_channels (on_device slot slave_id (set_threshold c) m)"
    using setDeviceThreshold_result(1) [OF assms(5) True] by blast
  have wf: "board_wf m'" using setDeviceThreshold_wf [OF assms(2), of E now slot slave_id config] assms(5) by simp
  have "all_storable (pmg_channels m')"
    using assms(3,4) set_threshold_storable [of m c slot slave_id] c(1,4) by simp
  then show ?thesis
    using board_laws.setDeviceThreshold_saved [OF assms(1) wf _ assms(5) [unfolded True c(1)]] c True
    by (simp add: Let_def)
next
  case False
  then show ?thesis using setDeviceThreshold_result(2) [OF assms(5) False] by (auto simp: Let_def)
qed

theorem set_threshold_result_witness:
  "let E = demo_env (\<lambda>_. (2, [0, 0])) (\<lambda>_. (4, [])) (\<lambda>_. True);
       ((ret, reason), m') = setDeviceThreshold E 1 0 5 (Some sensor_threshold_zero) (demo_board [demo_sensor])
   in ret = 0 \<and> (\<exists>d. ch_devices (pmg_channels m' 0) = [d] \<and> thresholdConfig (md_sensor d) = Some sensor_threshold_zero)"
proof -
  let ?E = "demo_env (\<lambda>_. (2, [0, 0])) (\<lambda>_. (4, [])) (\<lambda>_. True)"
  obtain ret reason m' where a: "setDeviceThreshold ?E 1 0 5 (Some sensor_threshold_zero) (demo_board [demo_sensor])
      = ((ret, reason), m')"
    by (metis prod.exhaust)
  have "fst (fst (setDeviceThreshold ?E 1 0 5 (Some sensor_threshold_zero) (demo_board [demo_sensor]))) = 0"
    by code_simp
  then have "ret = 0" by (simp add: a)
  moreover have "board_laws ?E" unfolding demo_env_def by (rule board_model_laws)
  moreover have "to_float (Fin 30) = Fin 30" by code_simp
  then have "all_storable (pmg_channels (demo_board [demo_sensor]))"
    by (simp add: all_storable_def demo_board_def opened_channel_def PortChannel_new_def storable_def
        demo_sensor_def new_device_def TemperatureHumiditySensor_new_def in_int_def int_min_def int_max_def
        float_config_def float_point_def hot_config_def point_threshold_zero_def)
  moreover have "float_config sensor_threshold_zero"
    by (simp add: float_config_def float_point_def sensor_threshold_zero_def point_threshold_zero_def)
  moreover have "ch_devices (pmg_channels (demo_board [demo_sensor]) 0) = [demo_sensor]"
    by (simp add: demo_board_def opened_channel_def)
  moreover have "md_id demo_sensor = 5" "\<exists>s. md_sensor demo_sensor = SensorTH s"
    by (simp_all add: demo_sensor_def new_device_def TemperatureHumiditySensor_new_def)
  ultimately show ?thesis
    using set_threshold_result [OF _ demo_board_wf [OF demo_sensor_ok] _ _ a]
    by (auto simp: a Let_def on_device_def set_threshold_def)
qed

text \<open>
  C39.  The configuration survives a restart.  When the configuration of a board is written
  successfully and a new manager starts on that file, a slot that is connected successfully
  has the same devices in the same order, with their slave ids, types, poll intervals and
  thresholds (limits that are not set read as 0), and the cache switches are unchanged.
\<close>

theorem config_survives_restart:
  assumes "board_laws E" "board_wf m" "all_storable (pmg_channels m)"
    and "writeConfigLocked E now m = (0, m1)"
    and "connectPort E now' steady slot (Some port) baud (PortManager_new (pmg_file m1)) = ((0, reason), m2)"
  shows "ch_devices (pmg_channels m2 slot) = map (reloaded steady) (ch_devices (pmg_channels m slot))
     \<and> loadOfflineCacheConfig (be_json E) m1 = loadOfflineCacheConfig (be_json E) m"
proof -
  note r = restart_devices [OF assms(5)]
  have w: "fst (writeConfigLocked E now m) = 0" "snd (writeConfigLocked E now m) = m1" using assms(4) by simp_all
  show ?thesis
    using r board_laws.written_devices [OF assms(1-3) w(1), of slot steady "c_str port"]
      board_laws.written_switches [OF assms(1) w(1)]
    by (simp add: w(2) loadOfflineCacheConfig_def)
qed

theorem config_survives_restart_witness:
  "let E = demo_env (\<lambda>_. (2, [0, 0])) (\<lambda>_. (4, [])) (\<lambda>_. True);
       m1 = snd (writeConfigLocked E 1 (demo_board [demo_relay, demo_sensor]));
       m2 = snd (connectPort E 2 9 0 (Some ''/dev/ttyS1'') 9600 (PortManager_new (pmg_file m1)))
   in map md_id (ch_devices (pmg_channels m2 0)) = [7, 5]"
proof -
  let ?E = "demo_env (\<lambda>_. (2, [0, 0])) (\<lambda>_. (4, [])) (\<lambda>_. True)" and ?m = "demo_board [demo_relay, demo_sensor]"
  obtain m1 where w: "writeConfigLocked ?E 1 ?m = (0, m1)"
    by (simp add: writeConfigLocked_def write_file_def demo_env_def board_model_def Let_def)
  obtain ret reason m2 where c: "connectPort ?E 2 9 0 (Some ''/dev/ttyS1'') 9600 (PortManager_new (pmg_file m1))
      = ((ret, reason), m2)"
    by (metis prod.exhaust)
  have "fst (fst (connectPort ?E 2 9 0 (Some ''/dev/ttyS1'') 9600
      (PortManager_new (pmg_file (snd (writeConfigLocked ?E 1 ?m)))))) = 0" by code_simp
  then have "ret = 0" by (simp add: w c)
  moreover have "devices_ok [demo_relay, demo_sensor]"
    using demo_relay_ok demo_sensor_ok
    by (simp add: devices_ok_def demo_relay_def demo_sensor_def new_device_def TemperatureHumiditySensor_new_def)
  then have "board_wf ?m" by (rule demo_board_wf)
  moreover have "board_laws ?E" unfolding demo_env_def by (rule board_model_laws)
  moreover have "to_float (Fin 30) = Fin 30" by code_simp
  then have "all_storable (pmg_channels ?m)"
    by (simp add: all_storable_def demo_board_def opened_channel_def PortChannel_new_def storable_def demo_relay_def
        demo_sensor_def new_device_def TemperatureHumiditySensor_new_def in_int_def int_min_def int_max_def
        float_config_def float_point_def hot_config_def point_threshold_zero_def)
  moreover have "ch_devices (pmg_channels ?m 0) = [demo_relay, demo_sensor]" "md_id demo_relay = 7" "md_id demo_sensor = 5"
    by (simp_all add: demo_board_def opened_channel_def demo_relay_def demo_sensor_def new_device_def
        TemperatureHumiditySensor_new_def)
  ultimately show ?thesis
    using config_survives_restart [OF _ _ _ w, of 2 9 0 "''/dev/ttyS1''" 9600 reason m2]
    by (simp add: w c Let_def)
qed

text \<open>
  The switches of the offline cache are saved.  After a successful
  \<open>saveOfflineCacheConfig\<close> the same values are loaded, and the devices listed in the file are
  the same as before, provided the file held a JSON object or nothing readable.
\<close>

theorem cache_switches_saved:
  assumes "board_laws E" "file_object (be_json E) (pmg_file m)"
    and "saveOfflineCacheConfig E now a b m = (0, m')"
  shows "loadOfflineCacheConfig (be_json E) m' = (if a then 1 else 0, if b then 1 else 0)
     \<and> saved_devices (be_json E) steady slot port (pmg_file m')
         = saved_devices (be_json E) steady slot port (pmg_file m)"
  using board_laws.save_switches [OF assms(1,2), of now a b] assms(3)
  by (simp add: loadOfflineCacheConfig_def)

theorem cache_switches_saved_witness:
  "loadOfflineCacheConfig (be_json (demo_env (\<lambda>_. (2, [])) (\<lambda>_. (4, [])) (\<lambda>_. True)))
     (snd (saveOfflineCacheConfig (demo_env (\<lambda>_. (2, [])) (\<lambda>_. (4, [])) (\<lambda>_. True)) 5 True False
        (PortManager_new None))) = (1, 0)"
proof -
  let ?E = "demo_env (\<lambda>_. (2, [])) (\<lambda>_. (4, [])) (\<lambda>_. True)"
  have "fst (saveOfflineCacheConfig ?E 5 True False (PortManager_new None)) = 0" by code_simp
  then have s: "saveOfflineCacheConfig ?E 5 True False (PortManager_new None)
      = (0, snd (saveOfflineCacheConfig ?E 5 True False (PortManager_new None)))" by (simp add: prod_eq_iff)
  have "board_laws ?E" unfolding demo_env_def by (rule board_model_laws)
  moreover have "file_object (be_json ?E) (pmg_file (PortManager_new None))"
    by (simp add: file_object_def PortManager_new_def)
  ultimately show ?thesis using cache_switches_saved [OF _ _ s] by simp
qed

text \<open>
  Relay states travel unchanged.  What \<open>writeStates\<close> sends for a bitmap has, read back
  from the device, its low four bits; \<open>read\<close> then reports a valid relay with four channels.
\<close>

theorem relay_bitmap_roundtrip:
  assumes "mm_ctx bus" "ml_read_bits L n (rl_slave_id r) 0 4 = (4, state_coils w)"
  shows "relay_read L n bus r = (0, device_data_zero\<lparr>dv_device_id := rl_slave_id r, dv_type := DEV_RELAY,
     dv_valid := True, dv_relay_states := w AND 15, dv_channel_count := 4\<rparr>, Suc n)"
  using assms by (simp add: relay_read_def mb_readCoils_def coils_roundtrip ChannelCount_def Let_def)

theorem relay_bitmap_roundtrip_witness:
  "dv_relay_states (fst (snd (relay_read (quiet_lib (\<lambda>_. (2, [])) (\<lambda>_. (4, [0, 1, 0, 1]))) 0 demo_bus
     \<lparr>rl_slave_id = 7, rl_poll_interval_ms = 500\<rparr>))) = 10"
proof -
  let ?L = "quiet_lib (\<lambda>_. (2, [])) (\<lambda>_. (4, [0, 1, 0, 1]))" and ?r = "\<lparr>rl_slave_id = 7, rl_poll_interval_ms = 500\<rparr>"
  have "state_coils 0xFA = [0, 1, 0, 1]" by code_simp
  then have "ml_read_bits ?L 0 (rl_slave_id ?r) 0 4 = (4, state_coils 0xFA)" by (simp add: quiet_lib_def)
  from relay_bitmap_roundtrip [OF _ this, of demo_bus] show ?thesis by (simp add: demo_bus_def)
qed

text \<open>
  Connecting a slot.  \<open>connectPort\<close> touches no slot when its arguments are refused or
  the port is in use by another slot.  Otherwise the slot is emptied first; when the bus does
  not open it stays empty; when it opens, the slot is connected with the devices saved for it
  and its poll thread runs, also when writing the configuration then fails and -1 is returned.
\<close>

theorem connect_port_result:
  assumes "connectPort E now steady slot port baud m = ((ret, reason), m')"
  shows "if \<not> connect_accepted slot port baud m then ret = -1 \<and> m' = m
    else \<exists>p bus. port = Some p \<and>
      (if fst (mb_init (be_modbus E) (pmg_io m) (createBus slot (c_str p) baud))
       then pmg_channels m' = (pmg_channels m)(slot := opened_channel (c_str p) baud bus
              (saved_devices (be_json E) steady slot (c_str p) (pmg_file m)))
          \<and> mm_ctx bus \<and> ret = (if fst (writeConfigLocked E now
               (m\<lparr>pmg_io := pmg_io m', pmg_channels := pmg_channels m'\<rparr>)) = 0 then 0 else -1)
       else ret = -1 \<and> pmg_channels m' = (pmg_channels m)(slot := PortChannel_new))"
proof (cases "connect_accepted slot port baud m")
  case True
  then obtain p where p: "port = Some p" by (auto simp: connect_accepted_def)
  obtain ok bus n where i: "mb_init (be_modbus E) (pmg_io m) (createBus slot (c_str p) baud) = (ok, bus, n)"
    by (metis prod.exhaust)
  have "ok \<Longrightarrow> mm_ctx bus" using mb_init_Some i by fastforce
  then show ?thesis
    using assms True connect_cases [OF True [unfolded p] i, of now steady] i
    by (auto simp: p Let_def split_def split: if_splits intro!: exI [of _ bus])
next
  case False
  then show ?thesis
    using assms connect_refused [OF False, of E now steady] connect_refused_ret [OF False, of E now steady] by simp
qed

theorem connect_port_result_witness:
  "let E = demo_env (\<lambda>_. (2, [0, 0])) (\<lambda>_. (4, [])) (\<lambda>_. True);
       ((ret, reason), m') = connectPort E 1 0 1 (Some ''/dev/ttyS1'') 9600 (demo_board [])
   in ret = -1 \<and> m' = demo_board []"
proof -
  let ?E = "demo_env (\<lambda>_. (2, [0, 0])) (\<lambda>_. (4, [])) (\<lambda>_. True)"
  obtain ret reason m' where a: "connectPort ?E 1 0 1 (Some ''/dev/ttyS1'') 9600 (demo_board []) = ((ret, reason), m')"
    by (metis prod.exhaust)
  have "isPortUsedByOtherSlot 1 ''/dev/ttyS1'' (demo_board [])" "c_str ''/dev/ttyS1'' = ''/dev/ttyS1''" by code_simp+
  then have "\<not> connect_accepted 1 (Some ''/dev/ttyS1'') 9600 (demo_board [])" by (simp add: connect_accepted_def)
  with connect_port_result [OF a] show ?thesis by (simp add: a)
qed


text \<open>
  C40.  A successful \<open>connectPort\<close> rewrites the configuration file from what is in memory: a
  slot that is not connected at that moment has no device in the file any more.  (So when the
  program starts with both slots configured, connecting the first one drops the devices saved
  for the second one before they are loaded.)
\<close>

theorem connect_rewrites_file:
  assumes "board_laws E" "board_wf m" "all_storable (pmg_channels m')"
    and "connectPort E now steady slot (Some port) baud m = ((0, reason), m')"
    and "validSlot other" "other \<noteq> slot" "\<not> ch_connected (pmg_channels m other)"
  shows "saved_devices (be_json E) steady' other port' (pmg_file m') = []"
proof -
  have wf: "board_wf m'" using connectPort_wf [OF assms(2), of E now steady slot "Some port" baud] assms(4) by simp
  have "pmg_channels m' other = pmg_channels m other"
    using connect_other_slot [OF assms(4,6)] .
  then have "ch_devices (pmg_channels m' other) = []"
    using board_wf_channel(4) [OF assms(2), of other] assms(7) by auto
  then show ?thesis
    using board_laws.connectPort_saved [OF assms(1) wf assms(3,4)] assms(5) by (simp add: file_lists_def)
qed

theorem connect_rewrites_file_witness:
  "let E = demo_env (\<lambda>_. (2, [0, 0])) (\<lambda>_. (4, [])) (\<lambda>_. True);
       file = Some (config_doc (be_json E) 0 \<lparr>oc_cache_enabled = True, oc_flush_enabled = True\<rparr>
         ((\<lambda>_. PortChannel_new)(1 := PortChannel_new\<lparr>ch_devices := [demo_relay]\<rparr>)));
       m' = snd (connectPort E 1 0 0 (Some ''/dev/ttyS1'') 9600 (PortManager_new file))
   in map md_id (saved_devices (be_json E) 0 1 [] file) = [7] \<and> saved_devices (be_json E) 0 1 [] (pmg_file m') = []"
proof -
  let ?E = "demo_env (\<lambda>_. (2, [0, 0])) (\<lambda>_. (4, [])) (\<lambda>_. True)"
  let ?file = "Some (config_doc (be_json ?E) 0 \<lparr>oc_cache_enabled = True, oc_flush_enabled = True\<rparr>
         ((\<lambda>_. PortChannel_new)(1 := PortChannel_new\<lparr>ch_devices := [demo_relay]\<rparr>)))"
  obtain ret reason m' where c: "connectPort ?E 1 0 0 (Some ''/dev/ttyS1'') 9600 (PortManager_new ?file)
      = ((ret, reason), m')" by (metis prod.exhaust)
  have "fst (fst (connectPort ?E 1 0 0 (Some ''/dev/ttyS1'') 9600 (PortManager_new ?file))) = 0"
    and seen: "map md_id (saved_devices (be_json ?E) 0 1 [] ?file) = [7]"
    and "saved_devices (be_json ?E) 0 0 ''/dev/ttyS1'' ?file = []" by code_simp+
  then have r: "ret = 0" and none: "ch_devices (pmg_channels m' 0) = []"
    using c restart_devices [of ?E 1 0 0 "''/dev/ttyS1''" 9600 ?file reason m'] by (auto simp: c_str_def)
  have "ch_devices (pmg_channels m' s) = []" if "s \<noteq> 0" for s
    using connect_other_slot [OF c [unfolded r] that] by (simp add: PortManager_new_def PortChannel_new_def)
  then have "all_storable (pmg_channels m')" using none by (metis all_storable_def empty_iff list.set(1))
  moreover have "board_laws ?E" unfolding demo_env_def by (rule board_model_laws)
  moreover have "board_wf (PortManager_new ?file)" by (rule board_reachable_wf) (rule board_reachable.start)
  moreover have "validSlot 1" "\<not> ch_connected (pmg_channels (PortManager_new ?file) 1)"
    by (simp_all add: validSlot_def kSlotCount_def PortManager_new_def)
  ultimately show ?thesis
    using connect_rewrites_file [OF _ _ _ c [unfolded r], of 1 0 "[]"] seen by (simp add: c Let_def)
qed

end
